(* ===== verification/JsBase.thy ===== *)
theory JsBase
  imports Complex_Main "HOL-Library.AList" "HOL-Library.Multiset" "HOL-Library.Sublist"
begin

text \<open>
  Shared vocabulary of the development: the part of the JavaScript language and its standard
  library that the web client (\<^verbatim>\<open>apps/web/src\<close>) uses.

  \<^item> Text is \<^typ>\<open>string\<close>, read as a JavaScript string whose code units are all below 256
    (Latin-1); on those strings the case, trim and whitespace operations below are exactly
    JavaScript's. Where code units above 255 matter the theory \<open>Utf16\<close> models UTF-16.
  \<^item> A plain object or \<^verbatim>\<open>Map\<close> is an association list in insertion order: assigning an existing
    key keeps its place, a new key goes to the end (\<^const>\<open>AList.update\<close>), which is the order
    \<^verbatim>\<open>Object.entries\<close> and \<^verbatim>\<open>Map.keys()\<close> report for keys that are not array indices.
  \<^item> A number is a real or one of the three non-finite values; rounding of doubles is not modelled.
  \<^item> \<^verbatim>\<open>null\<close> and \<^verbatim>\<open>undefined\<close> are both \<^const>\<open>None\<close> unless a definition says otherwise.
\<close>

named_theorems obj_simps \<open>lookup and key facts of objects\<close>
named_theorems js_str \<open>unfolding of the string helpers, for evaluation\<close>

section \<open>Objects\<close>

type_synonym 'v obj = "(string \<times> 'v) list"

abbreviation obj_get :: "('k \<times> 'v) list \<Rightarrow> 'k \<Rightarrow> 'v option" where
  "obj_get o1 k \<equiv> map_of o1 k"

abbreviation obj_put :: "'k \<Rightarrow> 'v \<Rightarrow> ('k \<times> 'v) list \<Rightarrow> ('k \<times> 'v) list" where
  "obj_put k v o1 \<equiv> AList.update k v o1"

abbreviation obj_del :: "'k \<Rightarrow> ('k \<times> 'v) list \<Rightarrow> ('k \<times> 'v) list" where
  "obj_del k o1 \<equiv> AList.delete k o1"

abbreviation obj_keys :: "('k \<times> 'v) list \<Rightarrow> 'k list" where
  "obj_keys o1 \<equiv> map fst o1"

abbreviation obj_values :: "('k \<times> 'v) list \<Rightarrow> 'v list" where
  "obj_values o1 \<equiv> map snd o1"

text \<open>Keys of an object occur once.\<close>

abbreviation obj_ok :: "('k \<times> 'v) list \<Rightarrow> bool" where
  "obj_ok o1 \<equiv> distinct (map fst o1)"

lemma obj_get_put [obj_simps]: "obj_get (obj_put k v o1) k' = (if k' = k then Some v else obj_get o1 k')"
  by (simp add: update_conv')

lemma obj_get_del [obj_simps]: "obj_get (obj_del k o1) k' = (if k' = k then None else obj_get o1 k')"
  by (simp add: delete_conv')

lemma obj_ok_put [obj_simps, intro]: "obj_ok o1 \<Longrightarrow> obj_ok (obj_put k v o1)"
  by (rule distinct_update)

lemma obj_ok_del [obj_simps, intro]: "obj_ok o1 \<Longrightarrow> obj_ok (obj_del k o1)"
  by (rule distinct_delete)

lemma obj_keys_put [obj_simps]:
  "obj_keys (obj_put k v o1) = (if k \<in> set (obj_keys o1) then obj_keys o1 else obj_keys o1 @ [k])"
  by (rule update_keys)

lemma obj_keys_del [obj_simps]: "obj_keys (obj_del k o1) = filter (\<lambda>k'. k' \<noteq> k) (obj_keys o1)"
  by (induction o1) auto

abbreviation obj_dom :: "('k \<times> 'v) list \<Rightarrow> 'k set" where
  "obj_dom o1 \<equiv> fst ` set o1"

lemma obj_dom_put [obj_simps]: "obj_dom (obj_put k v o1) = insert k (obj_dom o1)"
  by (simp add: dom_update)

lemma obj_dom_del [obj_simps]: "obj_dom (obj_del k o1) = obj_dom o1 - {k}"
  by (induction o1) auto

lemma obj_get_dom: "obj_get o1 k = None \<longleftrightarrow> k \<notin> obj_dom o1"
  by (rule map_of_eq_None_iff)

lemma obj_del_notin: "k \<notin> set (obj_keys o1) \<Longrightarrow> obj_del k o1 = o1"
  by (induction o1) auto

lemma obj_put_fresh: "k \<notin> set (obj_keys o1) \<Longrightarrow> obj_put k v o1 = o1 @ [(k, v)]"
  by (induction o1) auto

lemma obj_put_after_del: "obj_put k v (obj_del k o1) = obj_del k o1 @ [(k, v)]"
  by (rule obj_put_fresh) (auto simp: obj_keys_del)

lemma in_obj_values: "obj_ok o1 \<Longrightarrow> v \<in> set (obj_values o1) \<longleftrightarrow> (\<exists>k. obj_get o1 k = Some v)"
  by (force simp: image_iff)

lemma obj_get_in_keys: "obj_get o1 k \<noteq> None \<longleftrightarrow> k \<in> set (obj_keys o1)"
  by (metis (no_types) map_of_eq_None_iff set_map)

section \<open>Options and lists\<close>

text \<open>The operator \<^verbatim>\<open>??\<close>.\<close>

abbreviation nullish :: "'a option \<Rightarrow> 'a \<Rightarrow> 'a" where
  "nullish x d \<equiv> (case x of None \<Rightarrow> d | Some v \<Rightarrow> v)"

text \<open>Truth of a nullable string: \<^verbatim>\<open>null\<close>, \<^verbatim>\<open>undefined\<close> and the empty string are false.\<close>

definition truthy_str :: "string option \<Rightarrow> bool" where
  "truthy_str x = (case x of None \<Rightarrow> False | Some s \<Rightarrow> s \<noteq> [])"

lemma truthy_str_simps [simp]:
  "truthy_str None = False" "truthy_str (Some s) \<longleftrightarrow> s \<noteq> []"
  by (simp_all add: truthy_str_def)

text \<open>\<^verbatim>\<open>a || b\<close> on nullable strings.\<close>

definition or_str :: "string option \<Rightarrow> string \<Rightarrow> string" where
  "or_str x d = (case x of None \<Rightarrow> d | Some s \<Rightarrow> if s = [] then d else s)"

text \<open>\<^verbatim>\<open>findIndex\<close>, with \<^const>\<open>None\<close> for \<^verbatim>\<open>-1\<close>.\<close>

fun find_index :: "('a \<Rightarrow> bool) \<Rightarrow> 'a list \<Rightarrow> nat option" where
  "find_index P [] = None"
| "find_index P (x # xs) = (if P x then Some 0 else map_option Suc (find_index P xs))"

lemma find_index_Some:
  "find_index P xs = Some i \<Longrightarrow> i < length xs \<and> P (xs ! i) \<and> (\<forall>j<i. \<not> P (xs ! j))"
proof (induction xs arbitrary: i)
  case (Cons x xs)
  then show ?case
    by (fastforce split: if_splits simp: less_Suc_eq_0_disj nth_Cons')
qed simp

lemma find_index_None [simp]: "find_index P xs = None \<longleftrightarrow> (\<forall>x \<in> set xs. \<not> P x)"
  by (induction xs) auto

text \<open>\<^verbatim>\<open>filter((_, index) => index !== i)\<close>.\<close>

definition remove_nth :: "nat \<Rightarrow> 'a list \<Rightarrow> 'a list" where
  "remove_nth i xs = take i xs @ drop (Suc i) xs"

lemma set_remove_nth: "set (remove_nth i xs) \<subseteq> set xs"
  by (auto simp: remove_nth_def dest: in_set_takeD in_set_dropD)

text \<open>A \<^verbatim>\<open>Set\<close> is the list of its elements in insertion order.\<close>

definition set_add :: "'a \<Rightarrow> 'a list \<Rightarrow> 'a list" where
  "set_add x xs = (if x \<in> set xs then xs else xs @ [x])"

lemma set_set_add [simp]: "set (set_add x xs) = insert x (set xs)"
  by (auto simp: set_add_def)

lemma distinct_set_add [simp]: "distinct (set_add x xs) = distinct xs"
  by (simp add: set_add_def)

section \<open>Numbers\<close>

datatype jsnum = Fin real | PosInf | NegInf | NaN

fun is_finite :: "jsnum \<Rightarrow> bool" where
  "is_finite (Fin _) = True"
| "is_finite _ = False"

text \<open>\<^verbatim>\<open>Math.trunc\<close> and \<^verbatim>\<open>Math.round\<close> (halves go up) on finite numbers.\<close>

definition js_trunc :: "real \<Rightarrow> int" where
  "js_trunc x = (if x < 0 then \<lceil>x\<rceil> else \<lfloor>x\<rfloor>)"

definition js_round :: "real \<Rightarrow> int" where
  "js_round x = \<lfloor>x + 1 / 2\<rfloor>"

definition clamp :: "'a::linorder \<Rightarrow> 'a \<Rightarrow> 'a \<Rightarrow> 'a" where
  "clamp lo hi x = min hi (max lo x)"

lemma clamp_bounds: "lo \<le> hi \<Longrightarrow> lo \<le> clamp lo hi x \<and> clamp lo hi x \<le> hi"
  by (simp add: clamp_def)

lemma clamp_id: "lo \<le> x \<Longrightarrow> x \<le> hi \<Longrightarrow> clamp lo hi x = x"
  by (simp add: clamp_def)

lemma js_round_of_int [simp]: "js_round (of_int k) = k"
  unfolding js_round_def by linarith

lemma js_round_mono: "x \<le> y \<Longrightarrow> js_round x \<le> js_round y"
  unfolding js_round_def by (intro floor_mono) simp

end
