(* ===== verification/WireTypes.thy ===== *)
theory WireTypes
  imports JsBase
begin

text \<open>
  The data the client exchanges with the server: \<^verbatim>\<open>src/types/index.ts\<close> and the parts of
  \<^verbatim>\<open>src/api/contracts.ts\<close> the modelled components use. An optional or nullable field is an
  \<^verbatim>\<open>option\<close>. ISO timestamps stay strings; the functions that parse them take \<^verbatim>\<open>Date.parse\<close>
  as a parameter. A JSON number whose finiteness the code tests is a \<^typ>\<open>jsnum\<close>.
\<close>

section \<open>Users, servers, channels\<close>

datatype user_status = Online | Dnd | Offline | Invisible

datatype dm_privacy = PrivacyEveryone | PrivacyFriends

record user =
  usr_id :: string
  usr_created_at :: "string option"
  usr_username :: string
  usr_email :: string
  usr_email_verified :: bool
  usr_avatar_url :: "string option"
  usr_about_me :: "string option"
  usr_status :: user_status
  usr_dm_privacy :: "dm_privacy option"
  usr_google_connected :: "bool option"
  usr_has_password :: "bool option"
  usr_username_changed_at :: "string option"

record server =
  srv_id :: string
  srv_name :: string
  srv_icon_url :: "string option"
  srv_description :: "string option"
  srv_owner_id :: string
  srv_invite_code :: string

datatype channel_type = TextChannel | VoiceChannel

record channel =
  ch_id :: string
  ch_server_id :: string
  ch_name :: string
  ch_description :: "string option"
  ch_type :: channel_type
  ch_category :: "string option"
  ch_position :: int
  ch_my_permissions :: "int option"

record member_info =
  mem_user_id :: string
  mem_username :: string
  mem_avatar_url :: "string option"
  mem_about_me :: "string option"
  mem_role :: string
  mem_status :: string
  mem_account_created_at :: "string option"
  mem_server_joined_at :: "string option"
  mem_role_color :: "string option"
  mem_roles :: "string list option"
  mem_highest_role_position :: "int option"
  mem_timed_out_until :: "string option"

record server_detail = server +
  det_my_permissions :: "int option"
  det_members :: "member_info list option"

record friend =
  fr_id :: string
  fr_username :: string
  fr_avatar_url :: "string option"
  fr_status :: string

record dm_member =
  dmm_id :: string
  dmm_username :: string
  dmm_avatar_url :: "string option"
  dmm_status :: string

record dm_channel =
  dm_id :: string
  dm_peer_id :: string
  dm_peer_username :: string
  dm_peer_avatar_url :: "string option"
  dm_peer_status :: string
  dm_last_message_at :: "string option"
  dm_unread_count :: jsnum
  dm_pinned_at :: "string option"
  dm_is_pinned :: bool
  dm_is_group :: "bool option"
  dm_name :: "string option"
  dm_owner_id :: "string option"
  dm_members :: "dm_member list option"
  dm_created_at :: "string option"

section \<open>Messages\<close>

record attachment =
  att_id :: "string option"
  att_url :: string
  att_type :: "string option"
  att_name :: "string option"
  att_size :: "int option"
  att_sha256 :: "string option"

record message_reaction =
  rea_emoji :: string
  rea_count :: int
  rea_reacted :: bool
  rea_users :: "string list option"

record message_author =
  aut_user_id :: string
  aut_username :: string
  aut_avatar_url :: "string option"
  aut_role_color :: "string option"

text \<open>
  \<^verbatim>\<open>Message\<close> together with the four client fields of \<^verbatim>\<open>UiMessage\<close> (a message of the server has
  none of them). The code reads \<^verbatim>\<open>message.author?.user_id\<close>, so the author may be missing.
\<close>

datatype client_status = Sending | Failed

record message =
  msg_id :: string
  msg_channel_id :: string
  msg_content :: string
  msg_attachments :: "attachment list option"
  msg_reactions :: "message_reaction list option"
  msg_edited_at :: "string option"
  msg_created_at :: string
  msg_author :: "message_author option"
  msg_client_id :: "string option"
  msg_client_status :: "client_status option"
  msg_client_error :: "string option"
  msg_client_draft :: "string option"

text \<open>\<^verbatim>\<open>message.author?.user_id\<close>.\<close>

definition author_id :: "message \<Rightarrow> string option" where
  "author_id m = map_option aut_user_id (msg_author m)"

section \<open>WebSocket events\<close>

datatype leave_reason = Left | Kicked | Banned | Deleted

record voice_state_data =
  vs_channel_id :: "string option"
  vs_user_id :: string
  vs_server_id :: "string option"
  vs_active_since :: "jsnum option"
  vs_previous_channel_id :: "string option"

record voice_control_data =
  vcd_user_id :: string
  vcd_server_id :: "string option"
  vcd_channel_id :: "string option"
  vcd_muted :: bool
  vcd_deafened :: bool
  vcd_server_muted :: bool
  vcd_server_deafened :: bool
  vcd_screen_sharing :: bool
  vcd_camera_on :: bool

record user_update =
  uup_id :: string
  uup_username :: "string option"
  uup_avatar_url :: "string option"
  uup_status :: "string option"

datatype ws_event =
  NewMessage string string message
| DmRead string string "string option"
| MessageDeleted string string
| MessageUpdated string message
| Typing string string string bool
| PresenceUpdate string string
| FriendUpdate string
| DmChannelsUpdated string
| MemberJoined string string string
| MemberLeft string string "leave_reason option"
| MemberRoleUpdated string string
| MemberTimeoutUpdated string string "string option"
| ServerRolesUpdated string
| ServerChannelsUpdated string
| VoiceStateUpdate voice_state_data
| VoiceControlUpdate voice_control_data
| VoiceSessionMoved string
| VoiceMemberMoveRequested string string string string string
| VoiceMemberMoveResult string string string bool "string option"
| ScreenShareViewerUpdate string string string "string option" bool
| UserUpdated user_update
| Pong int

end
