(* ===== verification/JsText.thy ===== *)
theory JsText
  imports JsBase
begin

text \<open>
  The string operations of JavaScript the client uses, on Latin-1 text: case mapping, white space
  and \<^verbatim>\<open>trim\<close>, \<^verbatim>\<open>startsWith\<close>, \<^verbatim>\<open>includes\<close>, \<^verbatim>\<open>indexOf\<close>, \<^verbatim>\<open>split\<close>, \<^verbatim>\<open>join\<close>, decimal numerals.
\<close>

section \<open>Characters\<close>

definition char_code :: "char \<Rightarrow> nat" where
  "char_code c = of_char c"

text \<open>\<^verbatim>\<open>\s\<close> and the characters \<^verbatim>\<open>trim\<close> removes: tab to carriage return, space, no-break space.\<close>

definition is_ws :: "char \<Rightarrow> bool" where
  "is_ws c = (let n = char_code c in (9 \<le> n \<and> n \<le> 13) \<or> n = 32 \<or> n = 160)"

definition is_digit :: "char \<Rightarrow> bool" where
  "is_digit c = (let n = char_code c in 48 \<le> n \<and> n \<le> 57)"

definition is_ascii_letter :: "char \<Rightarrow> bool" where
  "is_ascii_letter c = (let n = char_code c in (65 \<le> n \<and> n \<le> 90) \<or> (97 \<le> n \<and> n \<le> 122))"

text \<open>Latin-1 capitals have their small letter 32 places on; 215 is the multiplication sign.\<close>

definition lower_char :: "char \<Rightarrow> char" where
  "lower_char c = (let n = char_code c in
     if (65 \<le> n \<and> n \<le> 90) \<or> (192 \<le> n \<and> n \<le> 222 \<and> n \<noteq> 215) then char_of (n + 32) else c)"

text \<open>
  The first letter of an identifier in upper case; used on ASCII event names only. (The three
  Latin-1 letters whose capital is outside Latin-1 or is two letters are left alone.)
\<close>

definition upper_char :: "char \<Rightarrow> char" where
  "upper_char c = (let n = char_code c in
     if (97 \<le> n \<and> n \<le> 122) \<or> (224 \<le> n \<and> n \<le> 254 \<and> n \<noteq> 247) then char_of (n - 32) else c)"

abbreviation js_lower :: "string \<Rightarrow> string" where
  "js_lower s \<equiv> map lower_char s"

lemma lower_char_idem [simp]: "lower_char (lower_char c) = lower_char c"
  by (auto simp: lower_char_def char_code_def Let_def)

section \<open>Trimming and searching\<close>

definition trim_start :: "string \<Rightarrow> string" where
  "trim_start s = dropWhile is_ws s"

definition trim_end :: "string \<Rightarrow> string" where
  "trim_end s = rev (dropWhile is_ws (rev s))"

definition js_trim :: "string \<Rightarrow> string" where
  "js_trim s = trim_end (trim_start s)"

definition starts_with :: "string \<Rightarrow> string \<Rightarrow> bool" where
  "starts_with p s \<longleftrightarrow> take (length p) s = p"

definition ends_with :: "string \<Rightarrow> string \<Rightarrow> bool" where
  "ends_with p s \<longleftrightarrow> starts_with (rev p) (rev s)"

fun index_of :: "string \<Rightarrow> string \<Rightarrow> nat option" where
  "index_of p s = (if starts_with p s then Some 0
     else case s of [] \<Rightarrow> None | _ # s' \<Rightarrow> map_option Suc (index_of p s'))"

declare index_of.simps [simp del]

definition includes_str :: "string \<Rightarrow> string \<Rightarrow> bool" where
  "includes_str p s \<longleftrightarrow> index_of p s \<noteq> None"

lemma starts_with_iff: "starts_with p s \<longleftrightarrow> (\<exists>t. s = p @ t)"
  by (metis append_eq_conv_conj starts_with_def append_take_drop_id)

lemma starts_with_Nil [simp]: "starts_with [] s"
  by (simp add: starts_with_def)

lemma ends_with_iff: "ends_with p s \<longleftrightarrow> (\<exists>t. s = t @ p)"
  unfolding ends_with_def starts_with_iff by (metis rev_append rev_rev_ident)

lemma index_of_Some:
  "index_of p s = Some i \<Longrightarrow> \<exists>t. s = take i s @ p @ t \<and> i + length p \<le> length s"
proof (induction p s arbitrary: i rule: index_of.induct)
  case (1 p s)
  show ?case
  proof (cases "starts_with p s")
    case True
    with "1.prems" have "i = 0" by (simp add: index_of.simps)
    with True show ?thesis by (auto simp: starts_with_iff)
  next
    case False
    with "1.prems" obtain c s' j where s: "s = c # s'" and j: "index_of p s' = Some j" "i = Suc j"
      by (subst (asm) index_of.simps) (auto split: list.splits)
    from "1.IH"[OF False s j(1)] s j show ?thesis by auto
  qed
qed

lemma dropWhile_idem [simp]: "dropWhile P (dropWhile P xs) = dropWhile P xs"
  by (induction xs) auto

lemma trim_end_hd: "s \<noteq> [] \<Longrightarrow> trim_end s \<noteq> [] \<Longrightarrow> hd (trim_end s) = hd s"
proof -
  assume ne: "trim_end s \<noteq> []"
  obtain t where "s = trim_end s @ t"
    unfolding trim_end_def
    by (metis rev_append rev_rev_ident takeWhile_dropWhile_id)
  with ne show ?thesis by (metis hd_append2)
qed

text \<open>Trimming is idempotent, and a trimmed text neither starts nor ends with white space.\<close>

lemma js_trim_hd: "js_trim s \<noteq> [] \<Longrightarrow> \<not> is_ws (hd (js_trim s))"
  unfolding js_trim_def trim_start_def
  by (metis hd_dropWhile trim_end_hd trim_end_def dropWhile.simps(1) rev.simps(1))

lemma js_trim_last: "js_trim s \<noteq> [] \<Longrightarrow> \<not> is_ws (last (js_trim s))"
  unfolding js_trim_def trim_end_def
  by (metis hd_dropWhile last_rev rev_is_Nil_conv)

lemma js_trim_id: "s \<noteq> [] \<Longrightarrow> \<not> is_ws (hd s) \<Longrightarrow> \<not> is_ws (last s) \<Longrightarrow> js_trim s = s"
proof -
  assume "s \<noteq> []" "\<not> is_ws (hd s)" "\<not> is_ws (last s)"
  then have "dropWhile is_ws s = s" "dropWhile is_ws (rev s) = rev s"
    by (auto simp: dropWhile_eq_self_iff hd_rev)
  then show "js_trim s = s" by (simp add: js_trim_def trim_start_def trim_end_def)
qed

lemma js_trim_idem [simp]: "js_trim (js_trim s) = js_trim s"
proof (cases "js_trim s = []")
  case True
  then show ?thesis by (simp add: js_trim_def[of "[]"] trim_start_def trim_end_def)
next
  case False
  then show ?thesis using js_trim_hd js_trim_last js_trim_id by blast
qed

section \<open>Splitting, joining, numerals\<close>

fun split_on :: "char \<Rightarrow> string \<Rightarrow> string list" where
  "split_on c [] = [[]]"
| "split_on c (x # xs) = (if x = c then [] # split_on c xs
     else case split_on c xs of [] \<Rightarrow> [[x]] | w # ws \<Rightarrow> (x # w) # ws)"

text \<open>\<^verbatim>\<open>split(/\s+/).filter(Boolean)\<close>: the maximal runs of non-blank characters.\<close>

function words_of :: "string \<Rightarrow> string list" where
  "words_of s = (let t = dropWhile is_ws s in
     if t = [] then [] else takeWhile (\<lambda>c. \<not> is_ws c) t # words_of (dropWhile (\<lambda>c. \<not> is_ws c) t))"
  by pat_completeness auto
termination
proof (relation "measure length", goal_cases)
  case (2 s t)
  then obtain c u where t: "t = c # u" "\<not> is_ws c"
    by (metis dropWhile_eq_Cons_conv list.exhaust)
  have "length (dropWhile (\<lambda>c. \<not> is_ws c) t) < length t"
    using t by (simp add: le_imp_less_Suc length_dropWhile_le)
  with 2 show ?case
    using length_dropWhile_le[of is_ws s] by simp
qed simp

declare words_of.simps [simp del]

fun join_with :: "string \<Rightarrow> string list \<Rightarrow> string" where
  "join_with sep [] = []"
| "join_with sep [w] = w"
| "join_with sep (w # ws) = w @ sep @ join_with sep ws"

fun nat_str :: "nat \<Rightarrow> string" where
  "nat_str n = (if n < 10 then [char_of (48 + n)] else nat_str (n div 10) @ [char_of (48 + n mod 10)])"

declare nat_str.simps [simp del]

definition int_str :: "int \<Rightarrow> string" where
  "int_str k = (if k < 0 then ''-'' @ nat_str (nat (- k)) else nat_str (nat k))"

definition pad_start :: "nat \<Rightarrow> char \<Rightarrow> string \<Rightarrow> string" where
  "pad_start w c s = replicate (w - length s) c @ s"

lemma words_of_not_ws: "w \<in> set (words_of s) \<Longrightarrow> w \<noteq> [] \<and> (\<forall>c \<in> set w. \<not> is_ws c)"
proof (induction s rule: words_of.induct)
  case (1 s)
  let ?t = "dropWhile is_ws s"
  show ?case
  proof (cases "?t = []")
    case True
    with "1.prems" show ?thesis by (simp add: words_of.simps)
  next
    case False
    then obtain c u where t: "?t = c # u" "\<not> is_ws c"
      by (metis dropWhile_eq_Cons_conv list.exhaust)
    from False have "words_of s =
        takeWhile (\<lambda>c. \<not> is_ws c) ?t # words_of (dropWhile (\<lambda>c. \<not> is_ws c) ?t)"
      by (subst words_of.simps) (simp only: Let_def if_False)
    with "1.prems" consider
      "w = takeWhile (\<lambda>c. \<not> is_ws c) ?t" | "w \<in> set (words_of (dropWhile (\<lambda>c. \<not> is_ws c) ?t))"
      by auto
    then show ?thesis
    proof cases
      case 1
      with t show ?thesis by (auto dest: set_takeWhileD)
    next
      case 2
      from "1.IH"[OF refl False this] show ?thesis .
    qed
  qed
qed

lemma nat_str_nonempty [simp]: "nat_str n \<noteq> []"
  by (subst nat_str.simps) simp

text \<open>The decimal numeral of a number reads back as that number, so numerals are injective.\<close>

definition digits_value :: "string \<Rightarrow> nat" where
  "digits_value s = fold (\<lambda>c v. 10 * v + (char_code c - 48)) s 0"

lemma char_code_digit: "n < 10 \<Longrightarrow> char_code (char_of (48 + n)) = 48 + n"
  by (simp add: char_code_def)

lemma digits_value_nat_str [simp]: "digits_value (nat_str n) = n"
proof (induction n rule: nat_str.induct)
  case (1 n)
  show ?case
  proof (cases "n < 10")
    case True
    then show ?thesis
      by (subst nat_str.simps) (simp add: digits_value_def char_code_digit)
  next
    case False
    have "digits_value (nat_str n) = 10 * digits_value (nat_str (n div 10)) + n mod 10"
      using False by (subst nat_str.simps) (simp add: digits_value_def char_code_digit)
    also have "\<dots> = n" using "1"[OF False] by simp
    finally show ?thesis .
  qed
qed

lemma nat_str_inject [simp]: "nat_str m = nat_str n \<longleftrightarrow> m = n"
  by (metis digits_value_nat_str)

lemma nat_str_digits: "c \<in> set (nat_str n) \<Longrightarrow> is_digit c"
proof (induction n rule: nat_str.induct)
  case (1 n)
  show ?case
  proof (cases "n < 10")
    case True
    with "1.prems" show ?thesis
      by (subst (asm) nat_str.simps) (auto simp: is_digit_def char_code_digit Let_def)
  next
    case False
    with "1.prems" consider "c \<in> set (nat_str (n div 10))" | "c = char_of (48 + n mod 10)"
      by (subst (asm) nat_str.simps) auto
    then show ?thesis
      using "1.IH"[OF False] char_code_digit[of "n mod 10"]
      by cases (auto simp: is_digit_def Let_def)
  qed
qed

end
