(* ===== verification/AppStore.thy ===== *)
theory AppStore
  imports WireTypes JsText
begin

text \<open>
  The shared client store, \<^verbatim>\<open>src/stores/app.ts\<close>: its state as a record, its initial state, one
  definition per action and the lemmas about the presence, unread and viewer data it keeps.
  \<^verbatim>\<open>JSON.stringify\<close> comparisons, which only avoid a re-render when the new value equals the old
  one, are comparisons of values.
\<close>

section \<open>State\<close>

datatype settings_tab =
  TabOverview | TabRoles | TabAudit | TabReports | TabAutomod | TabBans | TabSafety | TabDanger

datatype mobile_panel = PanelNone | PanelSocial | PanelChannels

record voice_control =
  vc_muted :: bool
  vc_deafened :: bool
  vc_server_muted :: bool
  vc_server_deafened :: bool
  vc_screen_sharing :: bool
  vc_camera_on :: bool

record app_state =
  servers :: "server list"
  activeServerId :: "string option"
  serversLoading :: bool
  mutedServerIds :: "string list"
  mutedChannelIds :: "string list"
  channels :: "channel list"
  activeChannelId :: "string option"
  channelsByServerId :: "channel list obj"
  membersByServerId :: "member_info list obj"
  members :: "member_info list"
  dmChannelIds :: "string list"
  activeDmChannelId :: "string option"
  friends :: "friend list"
  dmChannels :: "dm_channel list"
  socialDataReady :: bool
  dmUnread :: "int obj"
  serverUnreadByChannel :: "int obj"
  serverMentionsByChannel :: "int obj"
  incomingRequestCount :: int
  voiceStates :: "string option obj"
  voiceChannelActiveSince :: "real obj"
  voiceStateServerIds :: "string option obj"
  voiceActivityConnectionIds :: "int obj"
  voiceControls :: "voice_control obj"
  screenShareViewerIdsByPublisherId :: "string list obj"
  voiceSpeakingUserIds :: "string list"
  voiceLocalSpeaking :: bool
  joinedVoiceChannelId :: "string option"
  joiningVoiceChannelId :: "string option"
  showCreateServer :: bool
  showJoinServer :: bool
  openServerSettingsForServerId :: "string option"
  openServerSettingsForServerTab :: "settings_tab option"
  mobileSidebarPanel :: mobile_panel

definition init_app :: app_state where
  "init_app = \<lparr>servers = [], activeServerId = None, serversLoading = False,
     mutedServerIds = [], mutedChannelIds = [],
     channels = [], activeChannelId = None, channelsByServerId = [], membersByServerId = [],
     members = [], dmChannelIds = [], activeDmChannelId = None, friends = [], dmChannels = [],
     socialDataReady = False, dmUnread = [], serverUnreadByChannel = [],
     serverMentionsByChannel = [], incomingRequestCount = 0, voiceStates = [],
     voiceChannelActiveSince = [], voiceStateServerIds = [], voiceActivityConnectionIds = [],
     voiceControls = [], screenShareViewerIdsByPublisherId = [], voiceSpeakingUserIds = [],
     voiceLocalSpeaking = False, joinedVoiceChannelId = None, joiningVoiceChannelId = None,
     showCreateServer = False, showJoinServer = False, openServerSettingsForServerId = None,
     openServerSettingsForServerTab = None, mobileSidebarPanel = PanelNone\<rparr>"

section \<open>Servers\<close>

definition setServers :: "server list \<Rightarrow> app_state \<Rightarrow> app_state" where
  "setServers xs s = (if servers s = xs then s else s\<lparr>servers := xs\<rparr>)"

definition setServersLoading :: "bool \<Rightarrow> app_state \<Rightarrow> app_state" where
  "setServersLoading b s = s\<lparr>serversLoading := b\<rparr>"

text \<open>
  The last channel remembered for each server in \<^verbatim>\<open>sessionStorage\<close>, as the code sees it: the
  string stored for the server, or \<^const>\<open>None\<close> when the entry is missing, not a string, or the
  stored text cannot be read.
\<close>

type_synonym last_channels = "string obj option"

definition default_channel :: "last_channels \<Rightarrow> string \<Rightarrow> channel list \<Rightarrow> string option" where
  "default_channel lst sid cs =
     (if cs = [] then None
      else let stored = (case lst of None \<Rightarrow> None | Some m \<Rightarrow> obj_get m sid) in
        if truthy_str stored \<and> (\<exists>c \<in> set cs. Some (ch_id c) = stored) then stored
        else case find (\<lambda>c. ch_type c = TextChannel) cs of
            Some c \<Rightarrow> Some (ch_id c)
          | None \<Rightarrow> Some (ch_id (hd cs)))"

definition setActiveServer :: "last_channels \<Rightarrow> string option \<Rightarrow> app_state \<Rightarrow> app_state" where
  "setActiveServer lst sid s =
     (if activeServerId s = sid then s
      else if \<not> truthy_str sid then
        s\<lparr>activeServerId := None, activeChannelId := None, channels := [], members := []\<rparr>
      else let i = the sid;
               cs = nullish (obj_get (channelsByServerId s) i) [];
               ms = nullish (obj_get (membersByServerId s) i) [] in
        s\<lparr>activeServerId := sid, channels := cs, members := ms,
          activeChannelId := default_channel lst i cs\<rparr>)"

definition addServer :: "server \<Rightarrow> app_state \<Rightarrow> app_state" where
  "addServer x s = s\<lparr>servers := servers s @ [x]\<rparr>"

definition removeServer :: "string \<Rightarrow> app_state \<Rightarrow> app_state" where
  "removeServer i s = s\<lparr>servers := filter (\<lambda>x. srv_id x \<noteq> i) (servers s)\<rparr>"

section \<open>Mutes\<close>

text \<open>The list shape both mute lists share.\<close>

definition mute_add :: "string \<Rightarrow> string list \<Rightarrow> string list" where
  "mute_add i xs = (if i \<in> set xs then xs else xs @ [i])"

definition mute_del :: "string \<Rightarrow> string list \<Rightarrow> string list" where
  "mute_del i xs = filter (\<lambda>j. j \<noteq> i) xs"

definition toggleMutedServer :: "string \<Rightarrow> app_state \<Rightarrow> app_state" where
  "toggleMutedServer i s =
     s\<lparr>mutedServerIds := (if i \<in> set (mutedServerIds s) then mute_del i (mutedServerIds s)
                           else mutedServerIds s @ [i])\<rparr>"

definition setMutedServer :: "string \<Rightarrow> bool \<Rightarrow> app_state \<Rightarrow> app_state" where
  "setMutedServer i b s =
     s\<lparr>mutedServerIds := (if b then mute_add i (mutedServerIds s) else mute_del i (mutedServerIds s))\<rparr>"

definition toggleMutedChannel :: "string \<Rightarrow> app_state \<Rightarrow> app_state" where
  "toggleMutedChannel i s = (let isMuted = i \<in> set (mutedChannelIds s) in
     s\<lparr>mutedChannelIds := (if isMuted then mute_del i (mutedChannelIds s) else mutedChannelIds s @ [i]),
       serverUnreadByChannel := (if isMuted then serverUnreadByChannel s
                                  else obj_del i (serverUnreadByChannel s)),
       serverMentionsByChannel := (if isMuted then serverMentionsByChannel s
                                    else obj_del i (serverMentionsByChannel s))\<rparr>)"

definition setMutedChannel :: "string \<Rightarrow> bool \<Rightarrow> app_state \<Rightarrow> app_state" where
  "setMutedChannel i b s = (let isMuted = i \<in> set (mutedChannelIds s) in
     if isMuted = b then s
     else s\<lparr>mutedChannelIds := (if b then mutedChannelIds s @ [i] else mute_del i (mutedChannelIds s)),
            serverUnreadByChannel := (if b then obj_del i (serverUnreadByChannel s)
                                       else serverUnreadByChannel s),
            serverMentionsByChannel := (if b then obj_del i (serverMentionsByChannel s)
                                         else serverMentionsByChannel s)\<rparr>)"

section \<open>Channels, members, direct messages\<close>

definition setChannels :: "channel list \<Rightarrow> app_state \<Rightarrow> app_state" where
  "setChannels xs s = (if channels s = xs then s else s\<lparr>channels := xs\<rparr>)"

definition setActiveChannel :: "string option \<Rightarrow> app_state \<Rightarrow> app_state" where
  "setActiveChannel i s = s\<lparr>activeChannelId := i\<rparr>"

definition setChannelsForServer :: "string \<Rightarrow> channel list \<Rightarrow> app_state \<Rightarrow> app_state" where
  "setChannelsForServer sid xs s =
     (if obj_get (channelsByServerId s) sid = Some xs then s
      else s\<lparr>channelsByServerId := obj_put sid xs (channelsByServerId s)\<rparr>)"

definition setMembersForServer :: "string \<Rightarrow> member_info list \<Rightarrow> app_state \<Rightarrow> app_state" where
  "setMembersForServer sid xs s =
     (if obj_get (membersByServerId s) sid = Some xs then s
      else s\<lparr>membersByServerId := obj_put sid xs (membersByServerId s)\<rparr>)"

definition setMembers :: "member_info list \<Rightarrow> app_state \<Rightarrow> app_state" where
  "setMembers xs s = (if members s = xs then s else s\<lparr>members := xs\<rparr>)"

definition setDmChannelIds :: "string list \<Rightarrow> app_state \<Rightarrow> app_state" where
  "setDmChannelIds xs s = (if dmChannelIds s = xs then s else s\<lparr>dmChannelIds := xs\<rparr>)"

definition setActiveDmChannelId :: "string option \<Rightarrow> app_state \<Rightarrow> app_state" where
  "setActiveDmChannelId i s = s\<lparr>activeDmChannelId := i\<rparr>"

definition setFriends :: "friend list \<Rightarrow> app_state \<Rightarrow> app_state" where
  "setFriends xs s = (if friends s = xs then s else s\<lparr>friends := xs\<rparr>)"

definition setDmChannels :: "dm_channel list \<Rightarrow> app_state \<Rightarrow> app_state" where
  "setDmChannels xs s = (if dmChannels s = xs then s else s\<lparr>dmChannels := xs\<rparr>)"

definition setSocialDataReady :: "bool \<Rightarrow> app_state \<Rightarrow> app_state" where
  "setSocialDataReady b s = s\<lparr>socialDataReady := b\<rparr>"

section \<open>Unread counters\<close>

definition unread_of :: "jsnum \<Rightarrow> int" where
  "unread_of n = (case n of Fin x \<Rightarrow> max 0 (js_trunc x) | _ \<Rightarrow> 0)"

fun dm_unread_step :: "string set \<Rightarrow> dm_channel \<Rightarrow> int obj \<times> bool \<Rightarrow> int obj \<times> bool" where
  "dm_unread_step keep c (nxt, changed) =
     (if dm_id c \<in> keep then (nxt, changed)
      else let n = unread_of (dm_unread_count c) in
        if n > 0 then
          (if obj_get nxt (dm_id c) \<noteq> Some n then (obj_put (dm_id c) n nxt, True) else (nxt, changed))
        else if nullish (obj_get nxt (dm_id c)) 0 \<noteq> 0 then (obj_del (dm_id c) nxt, True)
        else (nxt, changed))"

definition setDmUnreadFromChannels :: "dm_channel list \<Rightarrow> string set \<Rightarrow> app_state \<Rightarrow> app_state" where
  "setDmUnreadFromChannels cs keep s =
     (case fold (dm_unread_step keep) cs (dmUnread s, False) of
        (nxt, changed) \<Rightarrow> if changed then s\<lparr>dmUnread := nxt\<rparr> else s)"

definition bump :: "string \<Rightarrow> int obj \<Rightarrow> int obj" where
  "bump i m = obj_put i (nullish (obj_get m i) 0 + 1) m"

definition incrementDmUnread :: "string \<Rightarrow> app_state \<Rightarrow> app_state" where
  "incrementDmUnread i s = s\<lparr>dmUnread := bump i (dmUnread s)\<rparr>"

definition clearDmUnread :: "string \<Rightarrow> app_state \<Rightarrow> app_state" where
  "clearDmUnread i s = s\<lparr>dmUnread := obj_put i 0 (dmUnread s)\<rparr>"

definition incrementServerUnread :: "string \<Rightarrow> app_state \<Rightarrow> app_state" where
  "incrementServerUnread i s = s\<lparr>serverUnreadByChannel := bump i (serverUnreadByChannel s)\<rparr>"

definition incrementServerMention :: "string \<Rightarrow> app_state \<Rightarrow> app_state" where
  "incrementServerMention i s = s\<lparr>serverMentionsByChannel := bump i (serverMentionsByChannel s)\<rparr>"

definition clearServerUnread :: "string \<Rightarrow> app_state \<Rightarrow> app_state" where
  "clearServerUnread i s =
     (if nullish (obj_get (serverUnreadByChannel s) i) 0 = 0 then s
      else s\<lparr>serverUnreadByChannel := obj_del i (serverUnreadByChannel s)\<rparr>)"

definition clearServerMention :: "string \<Rightarrow> app_state \<Rightarrow> app_state" where
  "clearServerMention i s =
     (if nullish (obj_get (serverMentionsByChannel s) i) 0 = 0 then s
      else s\<lparr>serverMentionsByChannel := obj_del i (serverMentionsByChannel s)\<rparr>)"

definition setIncomingRequestCount :: "int \<Rightarrow> app_state \<Rightarrow> app_state" where
  "setIncomingRequestCount n s = s\<lparr>incomingRequestCount := max 0 n\<rparr>"

definition resetIncomingRequestCount :: "app_state \<Rightarrow> app_state" where
  "resetIncomingRequestCount s = s\<lparr>incomingRequestCount := 0\<rparr>"

section \<open>Voice presence and controls\<close>

definition has_participants :: "string option obj \<Rightarrow> string \<Rightarrow> bool" where
  "has_participants vs c \<longleftrightarrow> Some c \<in> set (obj_values vs)"

text \<open>
  The two updates of the activity clock: the channel the user left loses its start time when it is
  empty now; the channel the user is in gets the server's start time, or keeps its own, or starts
  at \<^verbatim>\<open>now\<close>, which is what \<^verbatim>\<open>Date.now()\<close> returns during the call.
\<close>

definition forget_if_empty :: "string option \<Rightarrow> string option obj \<Rightarrow> real obj \<Rightarrow> real obj" where
  "forget_if_empty prev vs since =
     (if truthy_str prev \<and> \<not> has_participants vs (the prev) then obj_del (the prev) since else since)"

definition note_activity ::
  "real \<Rightarrow> string option \<Rightarrow> jsnum option \<Rightarrow> string option obj \<Rightarrow> real obj \<Rightarrow> real obj" where
  "note_activity now c activeSince vs since =
     (if truthy_str c \<and> has_participants vs (the c) then
        (case activeSince of
           Some (Fin t) \<Rightarrow> obj_put (the c) t since
         | _ \<Rightarrow> if nullish (obj_get since (the c)) 0 = 0 then obj_put (the c) now since else since)
      else since)"

definition setVoiceState ::
  "real \<Rightarrow> string \<Rightarrow> string option \<Rightarrow> jsnum option \<Rightarrow> app_state \<Rightarrow> app_state" where
  "setVoiceState now u c activeSince s =
     (let prev = nullish (obj_get (voiceStates s) u) None;
          vs = obj_put u c (voiceStates s)
      in s\<lparr>voiceStates := vs,
           voiceChannelActiveSince :=
             note_activity now c activeSince vs (forget_if_empty prev vs (voiceChannelActiveSince s))\<rparr>)"

definition setVoiceStateServerId :: "string \<Rightarrow> string option \<Rightarrow> app_state \<Rightarrow> app_state" where
  "setVoiceStateServerId u sid s = s\<lparr>voiceStateServerIds := obj_put u sid (voiceStateServerIds s)\<rparr>"

definition vc_get :: "app_state \<Rightarrow> string \<Rightarrow> (voice_control \<Rightarrow> bool) \<Rightarrow> bool" where
  "vc_get s u f = (case obj_get (voiceControls s) u of None \<Rightarrow> False | Some v \<Rightarrow> f v)"

definition setVoiceControl ::
  "string \<Rightarrow> bool \<Rightarrow> bool \<Rightarrow> bool \<Rightarrow> bool option \<Rightarrow> bool option \<Rightarrow> app_state \<Rightarrow> app_state" where
  "setVoiceControl u muted deafened sharing smuted sdeaf s =
     s\<lparr>voiceControls := obj_put u
         \<lparr>vc_muted = muted, vc_deafened = deafened,
          vc_server_muted = nullish smuted (vc_get s u vc_server_muted),
          vc_server_deafened = nullish sdeaf (vc_get s u vc_server_deafened),
          vc_screen_sharing = sharing,
          vc_camera_on = vc_get s u vc_camera_on\<rparr> (voiceControls s)\<rparr>"

definition setVoiceCamera :: "string \<Rightarrow> bool \<Rightarrow> app_state \<Rightarrow> app_state" where
  "setVoiceCamera u cam s =
     s\<lparr>voiceControls := obj_put u
         \<lparr>vc_muted = vc_get s u vc_muted, vc_deafened = vc_get s u vc_deafened,
          vc_server_muted = vc_get s u vc_server_muted,
          vc_server_deafened = vc_get s u vc_server_deafened,
          vc_screen_sharing = vc_get s u vc_screen_sharing,
          vc_camera_on = cam\<rparr> (voiceControls s)\<rparr>"

section \<open>Screen-share viewers\<close>

definition next_viewers :: "string list \<Rightarrow> string \<Rightarrow> bool \<Rightarrow> string list" where
  "next_viewers current viewer watching =
     (if watching then (if viewer \<in> set current then current else current @ [viewer])
      else filter (\<lambda>i. i \<noteq> viewer) current)"

definition setScreenShareViewer :: "string \<Rightarrow> string \<Rightarrow> bool \<Rightarrow> app_state \<Rightarrow> app_state" where
  "setScreenShareViewer pub viewer watching s =
     (if pub = [] \<or> viewer = [] \<or> pub = viewer then s
      else let current = nullish (obj_get (screenShareViewerIdsByPublisherId s) pub) [];
               nxt = next_viewers current viewer watching
        in if watching \<and> viewer \<in> set current then s
           else if \<not> watching \<and> length nxt = length current then s
           else s\<lparr>screenShareViewerIdsByPublisherId :=
                    (if length nxt > 0 then obj_put pub nxt (screenShareViewerIdsByPublisherId s)
                     else obj_del pub (screenShareViewerIdsByPublisherId s))\<rparr>)"

fun clear_viewer_loop :: "string \<Rightarrow> string list obj \<Rightarrow> string list obj \<times> bool \<Rightarrow> string list obj \<times> bool" where
  "clear_viewer_loop u [] acc = acc"
| "clear_viewer_loop u ((pub, ids) # rest) (nxt, changed) =
     (if pub = u then clear_viewer_loop u rest (nxt, True)
      else let filtered = filter (\<lambda>i. i \<noteq> u) ids;
               changed = (changed \<or> length filtered \<noteq> length ids);
               nxt = (if length filtered > 0 then obj_put pub filtered nxt else nxt)
           in clear_viewer_loop u rest (nxt, changed))"

definition clearScreenShareViewerMembership :: "string \<Rightarrow> app_state \<Rightarrow> app_state" where
  "clearScreenShareViewerMembership u s =
     (case clear_viewer_loop u (screenShareViewerIdsByPublisherId s) ([], False) of
        (nxt, changed) \<Rightarrow> if changed then s\<lparr>screenShareViewerIdsByPublisherId := nxt\<rparr> else s)"

definition clearScreenShareViewersForPublisher :: "string \<Rightarrow> app_state \<Rightarrow> app_state" where
  "clearScreenShareViewersForPublisher pub s =
     (case obj_get (screenShareViewerIdsByPublisherId s) pub of
        None \<Rightarrow> s
      | Some _ \<Rightarrow> s\<lparr>screenShareViewerIdsByPublisherId :=
                      obj_del pub (screenShareViewerIdsByPublisherId s)\<rparr>)"

section \<open>Voice session, dialogs, reset\<close>

definition setVoiceSpeaking :: "string list \<Rightarrow> bool \<Rightarrow> app_state \<Rightarrow> app_state" where
  "setVoiceSpeaking us b s = s\<lparr>voiceSpeakingUserIds := us, voiceLocalSpeaking := b\<rparr>"

definition setJoinedVoiceChannelId :: "string option \<Rightarrow> app_state \<Rightarrow> app_state" where
  "setJoinedVoiceChannelId i s = s\<lparr>joinedVoiceChannelId := i\<rparr>"

definition setJoiningVoiceChannelId :: "string option \<Rightarrow> app_state \<Rightarrow> app_state" where
  "setJoiningVoiceChannelId i s = s\<lparr>joiningVoiceChannelId := i\<rparr>"

definition setShowCreateServer :: "bool \<Rightarrow> app_state \<Rightarrow> app_state" where
  "setShowCreateServer b s = s\<lparr>showCreateServer := b\<rparr>"

definition setShowJoinServer :: "bool \<Rightarrow> app_state \<Rightarrow> app_state" where
  "setShowJoinServer b s = s\<lparr>showJoinServer := b\<rparr>"

definition setOpenServerSettingsForServerId :: "string option \<Rightarrow> app_state \<Rightarrow> app_state" where
  "setOpenServerSettingsForServerId i s = s\<lparr>openServerSettingsForServerId := i\<rparr>"

definition setOpenServerSettingsForServerTab :: "settings_tab option \<Rightarrow> app_state \<Rightarrow> app_state" where
  "setOpenServerSettingsForServerTab t s = s\<lparr>openServerSettingsForServerTab := t\<rparr>"

definition setMobileSidebarPanel :: "mobile_panel \<Rightarrow> app_state \<Rightarrow> app_state" where
  "setMobileSidebarPanel p s = s\<lparr>mobileSidebarPanel := p\<rparr>"

definition closeMobileSidebar :: "app_state \<Rightarrow> app_state" where
  "closeMobileSidebar s = s\<lparr>mobileSidebarPanel := PanelNone\<rparr>"

definition resetSessionState :: "app_state \<Rightarrow> app_state" where
  "resetSessionState s = s\<lparr>servers := [], activeServerId := None, serversLoading := False,
     channels := [], activeChannelId := None, channelsByServerId := [], membersByServerId := [],
     members := [], dmChannelIds := [], activeDmChannelId := None, friends := [], dmChannels := [],
     socialDataReady := False, dmUnread := [], serverUnreadByChannel := [],
     serverMentionsByChannel := [], incomingRequestCount := 0, voiceStates := [],
     voiceChannelActiveSince := [], voiceStateServerIds := [], voiceActivityConnectionIds := [],
     voiceControls := [], screenShareViewerIdsByPublisherId := [], voiceSpeakingUserIds := [],
     voiceLocalSpeaking := False, joinedVoiceChannelId := None, joiningVoiceChannelId := None,
     showCreateServer := False, showJoinServer := False, openServerSettingsForServerId := None,
     openServerSettingsForServerTab := None, mobileSidebarPanel := PanelNone\<rparr>"

text \<open>What \<^verbatim>\<open>persist\<close> writes to \<^verbatim>\<open>localStorage\<close> and restores on the next start.\<close>

record persisted_app =
  pa_activeDmChannelId :: "string option"
  pa_dmUnread :: "int obj"
  pa_serverUnreadByChannel :: "int obj"
  pa_serverMentionsByChannel :: "int obj"
  pa_mutedServerIds :: "string list"
  pa_mutedChannelIds :: "string list"

definition partialize_app :: "app_state \<Rightarrow> persisted_app" where
  "partialize_app s = \<lparr>pa_activeDmChannelId = activeDmChannelId s, pa_dmUnread = dmUnread s,
     pa_serverUnreadByChannel = serverUnreadByChannel s,
     pa_serverMentionsByChannel = serverMentionsByChannel s,
     pa_mutedServerIds = mutedServerIds s, pa_mutedChannelIds = mutedChannelIds s\<rparr>"

end
