(* ===== verification/AppPresence.thy ===== *)
theory AppPresence
  imports AppStore
begin

text \<open>
  Voice presence in the client store: a channel has an activity clock exactly while somebody is
  in it, whatever sequence of presence updates arrives.
\<close>

definition presence_ok :: "string option obj \<Rightarrow> real obj \<Rightarrow> bool" where
  "presence_ok vs since \<longleftrightarrow> obj_ok vs \<and> obj_ok since \<and>
     (\<forall>c. c \<in> obj_dom since \<longleftrightarrow> c \<noteq> [] \<and> has_participants vs c)"

lemma has_participants_iff:
  "obj_ok vs \<Longrightarrow> has_participants vs c \<longleftrightarrow> (\<exists>u. obj_get vs u = Some (Some c))"
  unfolding has_participants_def by (rule in_obj_values)

lemma has_participants_put:
  assumes "obj_ok vs"
  shows "has_participants (obj_put u c vs) d \<longleftrightarrow>
     c = Some d \<or> (\<exists>w. w \<noteq> u \<and> obj_get vs w = Some (Some d))"
  unfolding has_participants_iff[OF assms] has_participants_iff[OF obj_ok_put[OF assms]]
  by (auto simp: obj_get_put)

lemma has_participants_before:
  assumes "obj_ok vs"
  shows "has_participants vs d \<longleftrightarrow>
     nullish (obj_get vs u) None = Some d \<or> (\<exists>w. w \<noteq> u \<and> obj_get vs w = Some (Some d))"
  unfolding has_participants_iff[OF assms]
  by (metis option.case_eq_if option.collapse option.distinct(1) option.inject)

lemma obj_dom_note_activity:
  "obj_dom (note_activity now c act vs since) =
     obj_dom since \<union> (if truthy_str c \<and> has_participants vs (the c) then {the c} else {})"
proof (cases "the c \<in> obj_dom since")
  case True
  then show ?thesis
    by (auto simp: note_activity_def obj_dom_put split: option.splits jsnum.splits)
next
  case False
  then have "obj_get since (the c) = None" by (simp add: obj_get_dom)
  then show ?thesis
    by (auto simp: note_activity_def obj_dom_put split: option.splits jsnum.splits)
qed

lemma obj_ok_note_activity: "obj_ok since \<Longrightarrow> obj_ok (note_activity now c act vs since)"
  by (simp add: note_activity_def obj_ok_put split: option.split jsnum.split)

lemma obj_dom_forget:
  "obj_dom (forget_if_empty prev vs since) =
     obj_dom since - (if truthy_str prev \<and> \<not> has_participants vs (the prev) then {the prev} else {})"
  by (simp add: forget_if_empty_def obj_dom_del)

lemma obj_ok_forget: "obj_ok since \<Longrightarrow> obj_ok (forget_if_empty prev vs since)"
  by (simp add: forget_if_empty_def obj_ok_del)

lemma setVoiceState_fields:
  "voiceStates (setVoiceState now u c act s) = obj_put u c (voiceStates s)"
  "voiceChannelActiveSince (setVoiceState now u c act s) =
     note_activity now c act (obj_put u c (voiceStates s))
       (forget_if_empty (nullish (obj_get (voiceStates s) u) None) (obj_put u c (voiceStates s))
          (voiceChannelActiveSince s))"
  by (simp_all add: setVoiceState_def Let_def)

lemma presence_ok_setVoiceState:
  assumes "presence_ok (voiceStates s) (voiceChannelActiveSince s)"
  shows "presence_ok (voiceStates (setVoiceState now u c act s))
           (voiceChannelActiveSince (setVoiceState now u c act s))"
proof -
  define prev where "prev = nullish (obj_get (voiceStates s) u) None"
  define vs where "vs = obj_put u c (voiceStates s)"
  have ok: "obj_ok (voiceStates s)" "obj_ok (voiceChannelActiveSince s)"
    and dom: "\<And>d. d \<in> obj_dom (voiceChannelActiveSince s) \<longleftrightarrow> d \<noteq> [] \<and> has_participants (voiceStates s) d"
    using assms by (auto simp: presence_ok_def)
  have after: "has_participants vs d \<longleftrightarrow>
      c = Some d \<or> (\<exists>w. w \<noteq> u \<and> obj_get (voiceStates s) w = Some (Some d))" for d
    unfolding vs_def by (rule has_participants_put[OF ok(1)])
  have before: "has_participants (voiceStates s) d \<longleftrightarrow>
      prev = Some d \<or> (\<exists>w. w \<noteq> u \<and> obj_get (voiceStates s) w = Some (Some d))" for d
    unfolding prev_def by (rule has_participants_before[OF ok(1)])
  have "d \<in> obj_dom (note_activity now c act vs (forget_if_empty prev vs (voiceChannelActiveSince s)))
      \<longleftrightarrow> d \<noteq> [] \<and> has_participants vs d" for d
    unfolding obj_dom_note_activity obj_dom_forget Un_iff Diff_iff dom
    using before[of d] after[of d] by (cases c; cases prev) auto
  then show ?thesis
    using ok obj_ok_note_activity obj_ok_forget
    by (auto simp: presence_ok_def setVoiceState_fields prev_def[symmetric] vs_def[symmetric])
       (simp add: vs_def obj_ok_put)
qed

end
