(* ===== verification/AppInvariant.thy ===== *)
theory AppInvariant
  imports AppPresence
begin

text \<open>
  The store as a state machine: every action of \<^verbatim>\<open>src/stores/app.ts\<close> as a constructor, one step
  per call, and the invariant that every reachable store satisfies.
\<close>

datatype app_action =
  ASetServers "server list" | ASetServersLoading bool | ASetActiveServer last_channels "string option"
| AAddServer server | ARemoveServer string
| AToggleMutedServer string | ASetMutedServer string bool
| AToggleMutedChannel string | ASetMutedChannel string bool
| ASetChannels "channel list" | ASetActiveChannel "string option"
| ASetChannelsForServer string "channel list" | ASetMembersForServer string "member_info list"
| ASetMembers "member_info list" | ASetDmChannelIds "string list" | ASetActiveDmChannelId "string option"
| ASetFriends "friend list" | ASetDmChannels "dm_channel list" | ASetSocialDataReady bool
| ASetDmUnreadFromChannels "dm_channel list" "string set"
| AIncrementDmUnread string | AClearDmUnread string
| AIncrementServerUnread string | AIncrementServerMention string
| AClearServerUnread string | AClearServerMention string
| ASetIncomingRequestCount int | AResetIncomingRequestCount
| ASetVoiceState real string "string option" "jsnum option"
| ASetVoiceStateServerId string "string option"
| ASetVoiceControl string bool bool bool "bool option" "bool option" | ASetVoiceCamera string bool
| ASetScreenShareViewer string string bool | AClearViewerMembership string | AClearViewersFor string
| ASetVoiceSpeaking "string list" bool
| ASetJoinedVoice "string option" | ASetJoiningVoice "string option"
| ASetShowCreateServer bool | ASetShowJoinServer bool
| AOpenSettingsFor "string option" | AOpenSettingsTab "settings_tab option"
| ASetMobilePanel mobile_panel | ACloseMobileSidebar | AResetSession

fun app_step :: "app_action \<Rightarrow> app_state \<Rightarrow> app_state" where
  "app_step (ASetServers xs) s = setServers xs s"
| "app_step (ASetServersLoading b) s = setServersLoading b s"
| "app_step (ASetActiveServer m i) s = setActiveServer m i s"
| "app_step (AAddServer x) s = addServer x s"
| "app_step (ARemoveServer i) s = removeServer i s"
| "app_step (AToggleMutedServer i) s = toggleMutedServer i s"
| "app_step (ASetMutedServer i b) s = setMutedServer i b s"
| "app_step (AToggleMutedChannel i) s = toggleMutedChannel i s"
| "app_step (ASetMutedChannel i b) s = setMutedChannel i b s"
| "app_step (ASetChannels xs) s = setChannels xs s"
| "app_step (ASetActiveChannel i) s = setActiveChannel i s"
| "app_step (ASetChannelsForServer i xs) s = setChannelsForServer i xs s"
| "app_step (ASetMembersForServer i xs) s = setMembersForServer i xs s"
| "app_step (ASetMembers xs) s = setMembers xs s"
| "app_step (ASetDmChannelIds xs) s = setDmChannelIds xs s"
| "app_step (ASetActiveDmChannelId i) s = setActiveDmChannelId i s"
| "app_step (ASetFriends xs) s = setFriends xs s"
| "app_step (ASetDmChannels xs) s = setDmChannels xs s"
| "app_step (ASetSocialDataReady b) s = setSocialDataReady b s"
| "app_step (ASetDmUnreadFromChannels cs keep) s = setDmUnreadFromChannels cs keep s"
| "app_step (AIncrementDmUnread i) s = incrementDmUnread i s"
| "app_step (AClearDmUnread i) s = clearDmUnread i s"
| "app_step (AIncrementServerUnread i) s = incrementServerUnread i s"
| "app_step (AIncrementServerMention i) s = incrementServerMention i s"
| "app_step (AClearServerUnread i) s = clearServerUnread i s"
| "app_step (AClearServerMention i) s = clearServerMention i s"
| "app_step (ASetIncomingRequestCount n) s = setIncomingRequestCount n s"
| "app_step AResetIncomingRequestCount s = resetIncomingRequestCount s"
| "app_step (ASetVoiceState now u c t) s = setVoiceState now u c t s"
| "app_step (ASetVoiceStateServerId u i) s = setVoiceStateServerId u i s"
| "app_step (ASetVoiceControl u m d sh sm sd) s = setVoiceControl u m d sh sm sd s"
| "app_step (ASetVoiceCamera u b) s = setVoiceCamera u b s"
| "app_step (ASetScreenShareViewer p v b) s = setScreenShareViewer p v b s"
| "app_step (AClearViewerMembership u) s = clearScreenShareViewerMembership u s"
| "app_step (AClearViewersFor p) s = clearScreenShareViewersForPublisher p s"
| "app_step (ASetVoiceSpeaking us b) s = setVoiceSpeaking us b s"
| "app_step (ASetJoinedVoice i) s = setJoinedVoiceChannelId i s"
| "app_step (ASetJoiningVoice i) s = setJoiningVoiceChannelId i s"
| "app_step (ASetShowCreateServer b) s = setShowCreateServer b s"
| "app_step (ASetShowJoinServer b) s = setShowJoinServer b s"
| "app_step (AOpenSettingsFor i) s = setOpenServerSettingsForServerId i s"
| "app_step (AOpenSettingsTab t) s = setOpenServerSettingsForServerTab t s"
| "app_step (ASetMobilePanel p) s = setMobileSidebarPanel p s"
| "app_step ACloseMobileSidebar s = closeMobileSidebar s"
| "app_step AResetSession s = resetSessionState s"

inductive app_reachable :: "app_state \<Rightarrow> bool" where
  app_start: "app_reachable init_app"
| app_next: "app_reachable s \<Longrightarrow> app_reachable (app_step a s)"

section \<open>The invariant\<close>

text \<open>Nobody watches their own share, watchers are listed once, and a share nobody watches has no entry.\<close>

definition viewers_ok :: "string list obj \<Rightarrow> bool" where
  "viewers_ok vw \<longleftrightarrow> obj_ok vw \<and>
     (\<forall>(pub, ids) \<in> set vw. ids \<noteq> [] \<and> distinct ids \<and> pub \<notin> set ids)"

definition counts_ok :: "int obj \<Rightarrow> bool" where
  "counts_ok m \<longleftrightarrow> obj_ok m \<and> (\<forall>n \<in> snd ` set m. 0 \<le> n)"

definition app_inv :: "app_state \<Rightarrow> bool" where
  "app_inv s \<longleftrightarrow>
     presence_ok (voiceStates s) (voiceChannelActiveSince s) \<and>
     viewers_ok (screenShareViewerIdsByPublisherId s) \<and>
     counts_ok (dmUnread s) \<and> counts_ok (serverUnreadByChannel s) \<and>
     counts_ok (serverMentionsByChannel s) \<and> 0 \<le> incomingRequestCount s \<and>
     distinct (mutedServerIds s) \<and> distinct (mutedChannelIds s) \<and>
     obj_ok (membersByServerId s) \<and> obj_ok (channelsByServerId s)"

lemma app_inv_init: "app_inv init_app"
  by (simp add: app_inv_def init_app_def presence_ok_def viewers_ok_def counts_ok_def has_participants_def)

lemma empty_ok [simp]: "presence_ok [] []" "viewers_ok []" "counts_ok []"
  by (simp_all add: presence_ok_def viewers_ok_def counts_ok_def has_participants_def)

subsection \<open>Counters\<close>

lemma set_obj_put: "obj_ok m \<Longrightarrow> set (obj_put k v m) = insert (k, v) {p \<in> set m. fst p \<noteq> k}"
  by (induction m) (auto simp: image_iff)

lemma set_obj_del: "set (obj_del k m) = {p \<in> set m. fst p \<noteq> k}"
  by (induction m) auto

lemma counts_ok_put: "counts_ok m \<Longrightarrow> 0 \<le> n \<Longrightarrow> counts_ok (obj_put k n m)"
  by (auto simp: counts_ok_def set_obj_put obj_ok_put)

lemma counts_ok_del: "counts_ok m \<Longrightarrow> counts_ok (obj_del k m)"
  by (auto simp: counts_ok_def set_obj_del obj_ok_del)

lemma counts_ok_get: "counts_ok m \<Longrightarrow> 0 \<le> nullish (obj_get m k) 0"
  by (force simp: counts_ok_def split: option.split)

lemma counts_ok_bump: "counts_ok m \<Longrightarrow> counts_ok (bump k m)"
  unfolding bump_def by (intro counts_ok_put) (use counts_ok_get[of m k] in simp_all)

lemma counts_ok_dm_step: "counts_ok m \<Longrightarrow> counts_ok (fst (dm_unread_step keep c (m, b)))"
  by (auto simp: Let_def intro: counts_ok_put counts_ok_del)

lemma counts_ok_dm_fold: "counts_ok (fst p) \<Longrightarrow> counts_ok (fst (fold (dm_unread_step keep) cs p))"
proof (induction cs arbitrary: p)
  case (Cons c cs)
  obtain m b where "p = (m, b)" by (cases p)
  with Cons show ?case using counts_ok_dm_step[of m keep c b] by simp
qed simp

lemma counts_ok_setDmUnread: "counts_ok (dmUnread s) \<Longrightarrow> counts_ok (dmUnread (setDmUnreadFromChannels cs keep s))"
  using counts_ok_dm_fold[of "(dmUnread s, False)" keep cs]
  by (auto simp: setDmUnreadFromChannels_def split: prod.split)

subsection \<open>Viewers\<close>

lemma viewers_ok_put:
  "viewers_ok vw \<Longrightarrow> ids \<noteq> [] \<Longrightarrow> distinct ids \<Longrightarrow> pub \<notin> set ids \<Longrightarrow> viewers_ok (obj_put pub ids vw)"
  by (auto simp: viewers_ok_def set_obj_put obj_ok_put)

lemma viewers_ok_del: "viewers_ok vw \<Longrightarrow> viewers_ok (obj_del pub vw)"
  by (auto simp: viewers_ok_def set_obj_del obj_ok_del)

lemma viewers_ok_get:
  "viewers_ok vw \<Longrightarrow> obj_get vw pub = Some ids \<Longrightarrow> ids \<noteq> [] \<and> distinct ids \<and> pub \<notin> set ids"
  by (auto simp: viewers_ok_def dest!: map_of_SomeD)

lemma viewers_ok_Cons: "viewers_ok ((pub, ids) # vw) \<longleftrightarrow>
    viewers_ok vw \<and> pub \<notin> obj_dom vw \<and> ids \<noteq> [] \<and> distinct ids \<and> pub \<notin> set ids"
  by (auto simp: viewers_ok_def)

lemma viewers_ok_setViewer:
  assumes "viewers_ok (screenShareViewerIdsByPublisherId s)"
  shows "viewers_ok (screenShareViewerIdsByPublisherId (setScreenShareViewer pub v w s))"
proof -
  define vw where "vw = screenShareViewerIdsByPublisherId s"
  define cur where "cur = nullish (obj_get vw pub) []"
  define nxt where "nxt = next_viewers cur v w"
  have ok: "viewers_ok vw" using assms by (simp add: vw_def)
  have cur: "distinct cur \<and> pub \<notin> set cur"
  proof (cases "obj_get vw pub")
    case (Some ids)
    then show ?thesis using viewers_ok_get[OF ok Some] by (simp add: cur_def)
  qed (simp add: cur_def)
  then have nxt: "distinct nxt" "pub \<noteq> v \<Longrightarrow> pub \<notin> set nxt" by (auto simp: nxt_def next_viewers_def)
  have "screenShareViewerIdsByPublisherId (setScreenShareViewer pub v w s) \<in> {vw, obj_del pub vw} \<or>
      (pub \<noteq> v \<and> nxt \<noteq> [] \<and>
       screenShareViewerIdsByPublisherId (setScreenShareViewer pub v w s) = obj_put pub nxt vw)"
    unfolding setScreenShareViewer_def Let_def vw_def[symmetric] cur_def[symmetric] nxt_def[symmetric]
    by (simp add: vw_def)
  then show ?thesis
    using ok nxt by (auto intro: viewers_ok_put viewers_ok_del)
qed

lemma viewers_ok_clear_loop:
  "viewers_ok vw \<Longrightarrow> viewers_ok (fst acc) \<Longrightarrow> viewers_ok (fst (clear_viewer_loop u vw acc))"
proof (induction u vw acc rule: clear_viewer_loop.induct)
  case (2 u pub ids rest nxt changed)
  then show ?case
    by (simp add: Let_def viewers_ok_Cons viewers_ok_put)
qed simp

lemma viewers_ok_clearMembership:
  assumes "viewers_ok (screenShareViewerIdsByPublisherId s)"
  shows "viewers_ok (screenShareViewerIdsByPublisherId (clearScreenShareViewerMembership u s))"
proof -
  have "viewers_ok []" by (simp add: viewers_ok_def)
  then show ?thesis
    using assms viewers_ok_clear_loop[OF assms, of "([], False)" u]
    by (auto simp: clearScreenShareViewerMembership_def split: prod.split)
qed

subsection \<open>Every action keeps the invariant\<close>

lemma app_inv_step: "app_inv s \<Longrightarrow> app_inv (app_step a s)"
proof (cases a)
  case (ASetVoiceState now u c t)
  assume "app_inv s"
  then show ?thesis
    using presence_ok_setVoiceState[of s now u c t]
    by (simp add: ASetVoiceState app_inv_def) (simp add: setVoiceState_def Let_def)
next
  case (ASetDmUnreadFromChannels cs keep)
  assume "app_inv s"
  then show ?thesis
    using counts_ok_setDmUnread[of s cs keep]
    by (simp add: ASetDmUnreadFromChannels app_inv_def) (simp add: setDmUnreadFromChannels_def split: prod.split)
next
  case (ASetScreenShareViewer p v w)
  assume "app_inv s"
  then show ?thesis
    using viewers_ok_setViewer[of s p v w]
    by (simp add: ASetScreenShareViewer app_inv_def) (simp add: setScreenShareViewer_def Let_def)
next
  case (AClearViewerMembership u)
  assume "app_inv s"
  then show ?thesis
    using viewers_ok_clearMembership[of s u]
    by (simp add: AClearViewerMembership app_inv_def) (simp add: clearScreenShareViewerMembership_def split: prod.split)
qed (auto simp: app_inv_def setServers_def setServersLoading_def setActiveServer_def Let_def addServer_def
  removeServer_def toggleMutedServer_def setMutedServer_def toggleMutedChannel_def setMutedChannel_def
  mute_add_def mute_del_def setChannels_def setActiveChannel_def setChannelsForServer_def
  setMembersForServer_def setMembers_def setDmChannelIds_def setActiveDmChannelId_def setFriends_def
  setDmChannels_def setSocialDataReady_def incrementDmUnread_def clearDmUnread_def
  incrementServerUnread_def incrementServerMention_def clearServerUnread_def clearServerMention_def
  setIncomingRequestCount_def resetIncomingRequestCount_def setVoiceStateServerId_def
  setVoiceControl_def setVoiceCamera_def clearScreenShareViewersForPublisher_def setVoiceSpeaking_def
  setJoinedVoiceChannelId_def setJoiningVoiceChannelId_def setShowCreateServer_def setShowJoinServer_def
  setOpenServerSettingsForServerId_def setOpenServerSettingsForServerTab_def setMobileSidebarPanel_def
  closeMobileSidebar_def resetSessionState_def counts_ok_bump
  intro: counts_ok_put counts_ok_del viewers_ok_del distinct_update split: option.split)

text \<open>The invariant for the actions the event handler calls.\<close>

lemmas app_inv_ops [intro] =
  app_inv_step [of _ "ASetServers _", simplified] app_inv_step [of _ "ASetActiveServer _ _", simplified]
  app_inv_step [of _ "ASetChannels _", simplified] app_inv_step [of _ "ASetActiveChannel _", simplified]
  app_inv_step [of _ "ASetChannelsForServer _ _", simplified]
  app_inv_step [of _ "ASetMembersForServer _ _", simplified]
  app_inv_step [of _ "ASetMembers _", simplified] app_inv_step [of _ "AIncrementServerUnread _", simplified]
  app_inv_step [of _ "AIncrementServerMention _", simplified]
  app_inv_step [of _ "ASetVoiceState _ _ _ _", simplified]
  app_inv_step [of _ "ASetVoiceStateServerId _ _", simplified]
  app_inv_step [of _ "ASetVoiceControl _ _ _ _ _ _", simplified]
  app_inv_step [of _ "ASetVoiceCamera _ _", simplified]

lemma app_inv_reachable: "app_reachable s \<Longrightarrow> app_inv s"
  by (induction rule: app_reachable.induct) (auto intro: app_inv_init app_inv_step)

end
