(* ===== verification/WebStorage.thy ===== *)
theory WebStorage
  imports JsText
begin

text \<open>
  The browser's \<^verbatim>\<open>localStorage\<close> and \<^verbatim>\<open>sessionStorage\<close> as the client uses them. Reading and writing
  can each throw (storage disabled, quota exceeded); a call that throws is \<^const>\<open>Inl\<close>. A key whose
  text is produced by \<^verbatim>\<open>JSON.stringify\<close> is modelled by the value that \<^verbatim>\<open>JSON.parse\<close> of its text
  gives, so the content type is a parameter.

  The locale \<open>kv_store\<close> is the interface the settings modules rely on, and \<open>stored_setting\<close> is the
  shape they share: an enumeration written as a text, read back with a default.
\<close>

record 'v web_storage =
  items :: "'v obj"
  readable :: bool
  writable :: bool

definition get_item :: "string \<Rightarrow> 'v web_storage \<Rightarrow> unit + 'v option" where
  "get_item k st = (if readable st then Inr (obj_get (items st) k) else Inl ())"

definition set_item :: "string \<Rightarrow> 'v \<Rightarrow> 'v web_storage \<Rightarrow> unit + 'v web_storage" where
  "set_item k v st = (if writable st then Inr (st\<lparr>items := obj_put k v (items st)\<rparr>) else Inl ())"

definition remove_item :: "string \<Rightarrow> 'v web_storage \<Rightarrow> unit + 'v web_storage" where
  "remove_item k st = (if writable st then Inr (st\<lparr>items := obj_del k (items st)\<rparr>) else Inl ())"

text \<open>\<^verbatim>\<open>try { read } catch { default }\<close> and \<^verbatim>\<open>try { write } catch { ignore }\<close>.\<close>

definition get_or_none :: "string \<Rightarrow> 'v web_storage \<Rightarrow> 'v option" where
  "get_or_none k st = (case get_item k st of Inl _ \<Rightarrow> None | Inr v \<Rightarrow> v)"

definition try_set :: "string \<Rightarrow> 'v \<Rightarrow> 'v web_storage \<Rightarrow> 'v web_storage" where
  "try_set k v st = (case set_item k v st of Inl _ \<Rightarrow> st | Inr st' \<Rightarrow> st')"

definition try_remove :: "string \<Rightarrow> 'v web_storage \<Rightarrow> 'v web_storage" where
  "try_remove k st = (case remove_item k st of Inl _ \<Rightarrow> st | Inr st' \<Rightarrow> st')"

definition storage_works :: "'v web_storage \<Rightarrow> bool" where
  "storage_works st \<longleftrightarrow> readable st \<and> writable st"

text \<open>
  A text the client reads with \<^verbatim>\<open>JSON.parse\<close>: the empty text (false in a test), a text that does not
  parse to the kind of value the reader expects and makes it throw, or the parsed value.
\<close>

datatype 'a cell = EmptyText | BadText | Parsed 'a

section \<open>The interface of a store\<close>

locale kv_store =
  fixes lookup :: "'k \<Rightarrow> 's \<Rightarrow> 'v option"
    and put :: "'k \<Rightarrow> 'v \<Rightarrow> 's \<Rightarrow> 's"
    and works :: "'s \<Rightarrow> bool"
  assumes lookup_put_same: "works s \<Longrightarrow> lookup k (put k v s) = Some v"
    and lookup_put_other: "k' \<noteq> k \<Longrightarrow> lookup k' (put k v s) = lookup k' s"
    and works_put: "works (put k v s) = works s"
begin

lemma lookup_put_put: "works s \<Longrightarrow> lookup k (put k w (put k v s)) = Some w"
  by (simp add: lookup_put_same works_put)

end

locale stored_setting = kv_store lookup put works
  for lookup :: "'k \<Rightarrow> 's \<Rightarrow> string option"
    and put :: "'k \<Rightarrow> string \<Rightarrow> 's \<Rightarrow> 's"
    and works :: "'s \<Rightarrow> bool" +
  fixes key :: 'k
    and write_text :: "'a \<Rightarrow> string"
    and read_text :: "string \<Rightarrow> 'a option"
    and dflt :: 'a
  assumes read_write: "read_text (write_text x) = Some x"
begin

definition load :: "'s \<Rightarrow> 'a" where
  "load s = (case lookup key s of None \<Rightarrow> dflt | Some t \<Rightarrow> nullish (read_text t) dflt)"

definition save :: "'a \<Rightarrow> 's \<Rightarrow> 's" where
  "save x s = put key (write_text x) s"

lemma load_save: "works s \<Longrightarrow> load (save x s) = x"
  by (simp add: load_def save_def lookup_put_same read_write)

lemma load_missing: "lookup key s = None \<Longrightarrow> load s = dflt"
  by (simp add: load_def)

lemma load_garbage: "lookup key s = Some t \<Longrightarrow> read_text t = None \<Longrightarrow> load s = dflt"
  by (simp add: load_def)

lemma save_other: "k \<noteq> key \<Longrightarrow> lookup k (save x s) = lookup k s"
  by (simp add: save_def lookup_put_other)

end

lemma get_or_none_try_set:
  "get_or_none k' (try_set k v st) =
     (if k' = k \<and> storage_works st then Some v else get_or_none k' st)"
  by (simp add: get_or_none_def try_set_def get_item_def set_item_def storage_works_def obj_get_put)

lemma storage_works_try_set [simp]: "storage_works (try_set k v st) = storage_works st"
  by (simp add: try_set_def set_item_def storage_works_def)

lemma get_or_none_try_remove:
  "get_or_none k' (try_remove k st) =
     (if k' = k \<and> storage_works st then None else get_or_none k' st)"
  by (simp add: get_or_none_def try_remove_def get_item_def remove_item_def storage_works_def obj_get_del)

interpretation web: kv_store get_or_none try_set storage_works
  by unfold_locales (simp_all add: get_or_none_try_set)

end
