(* ===== verification/ServerModel.thy ===== *)
theory ServerModel
  imports WireTypes WebStorage "HOL-Library.Word"
begin

text \<open>
  \<^verbatim>\<open>src/pages/appLayoutModel.ts\<close>: limits, permission bits, input validation, invite parsing,
  channel order, per-tab memory of the last channel, dismissed welcome guides, mention detection
  and removal notices of the server view.
\<close>

unbundle bit_operations_syntax

section \<open>Settings tabs and permission bits\<close>

datatype settings_open_tab =
  OpenOverview | OpenRoles | OpenRules | OpenSafety | OpenAudit | OpenDanger
| OpenReports | OpenAutomod | OpenBans

fun isSafetySettingsTab :: "settings_open_tab \<Rightarrow> bool" where
  "isSafetySettingsTab OpenReports = True"
| "isSafetySettingsTab OpenAutomod = True"
| "isSafetySettingsTab OpenBans = True"
| "isSafetySettingsTab _ = False"

definition normalizeServerSettingsTab :: "settings_open_tab \<Rightarrow> settings_open_tab" where
  "normalizeServerSettingsTab t = (if isSafetySettingsTab t then OpenSafety else t)"

definition CHANNEL_NAME_MAX :: nat where "CHANNEL_NAME_MAX = 32"
definition CATEGORY_NAME_MAX :: nat where "CATEGORY_NAME_MAX = 32"
definition CHANNEL_DESCRIPTION_MAX :: nat where "CHANNEL_DESCRIPTION_MAX = 120"

datatype permission =
  ViewServer | ManageServer | ManageRoles | ManageChannels | KickMembers | BanMembers
| ViewAuditLog | SendMessages | ManageMessages | ManagePins | ConnectVoice | MuteMembers
| DeafenMembers | MoveMembers

text \<open>JavaScript's \<^verbatim>\<open><<\<close> works on 32-bit integers.\<close>

fun perm_mask :: "permission \<Rightarrow> 32 word" where
  "perm_mask ViewServer = push_bit 0 1"
| "perm_mask ManageServer = push_bit 1 1"
| "perm_mask ManageRoles = push_bit 2 1"
| "perm_mask ManageChannels = push_bit 3 1"
| "perm_mask KickMembers = push_bit 4 1"
| "perm_mask BanMembers = push_bit 5 1"
| "perm_mask ViewAuditLog = push_bit 6 1"
| "perm_mask SendMessages = push_bit 7 1"
| "perm_mask ManageMessages = push_bit 8 1"
| "perm_mask ManagePins = push_bit 9 1"
| "perm_mask ConnectVoice = push_bit 10 1"
| "perm_mask MuteMembers = push_bit 11 1"
| "perm_mask DeafenMembers = push_bit 12 1"
| "perm_mask MoveMembers = push_bit 13 1"

section \<open>Input validation\<close>

text \<open>\<^verbatim>\<open>\p{L}\<close> and \<^verbatim>\<open>\p{N}\<close> on Latin-1.\<close>

definition is_letter :: "char \<Rightarrow> bool" where
  "is_letter c = (let n = char_code c in is_ascii_letter c \<or> n = 170 \<or> n = 181 \<or> n = 186
     \<or> (192 \<le> n \<and> n \<noteq> 215 \<and> n \<noteq> 247))"

definition is_number :: "char \<Rightarrow> bool" where
  "is_number c = (let n = char_code c in is_digit c \<or> n = 178 \<or> n = 179 \<or> n = 185
     \<or> (188 \<le> n \<and> n \<le> 190))"

definition name_char :: "char \<Rightarrow> bool" where
  "name_char c \<longleftrightarrow> is_letter c \<or> is_number c \<or> c \<in> set ''_ #-''"

datatype name_error = NameRequired | NameTooLong nat | NameBadChars | NameDoubleSpace

definition validate_name :: "nat \<Rightarrow> string \<Rightarrow> name_error option" where
  "validate_name limit raw = (let value = js_trim raw in
     if value = [] then Some NameRequired
     else if length value > limit then Some (NameTooLong limit)
     else if \<not> list_all name_char value then Some NameBadChars
     else if includes_str ''  '' value then Some NameDoubleSpace
     else None)"

definition validateChannelNameInput :: "string \<Rightarrow> name_error option" where
  "validateChannelNameInput raw = validate_name CHANNEL_NAME_MAX raw"

definition validateCategoryNameInput :: "string \<Rightarrow> name_error option" where
  "validateCategoryNameInput raw = validate_name CATEGORY_NAME_MAX raw"

definition validateChannelDescriptionInput :: "string \<Rightarrow> name_error option" where
  "validateChannelDescriptionInput raw = (let value = js_trim raw in
     if value = [] then None
     else if length value > CHANNEL_DESCRIPTION_MAX then Some (NameTooLong CHANNEL_DESCRIPTION_MAX)
     else None)"

section \<open>Invites\<close>

definition code_char :: "char \<Rightarrow> bool" where
  "code_char c \<longleftrightarrow> is_ascii_letter c \<or> is_digit c \<or> c \<in> set ''_-''"

text \<open>
  The last path segment of a text (an ending slash left out) and what is before it. A code contains
  no slash, so it can only be that segment.
\<close>

definition drop_slash :: "string \<Rightarrow> string" where
  "drop_slash s = (if s \<noteq> [] \<and> last s = CHR ''/'' then butlast s else s)"

definition last_segment :: "string \<Rightarrow> string" where
  "last_segment s = rev (takeWhile (\<lambda>c. c \<noteq> CHR ''/'') (rev s))"

definition before_segment :: "string \<Rightarrow> string" where
  "before_segment s = rev (dropWhile (\<lambda>c. c \<noteq> CHR ''/'') (rev s))"

definition valid_code :: "string \<Rightarrow> bool" where
  "valid_code c \<longleftrightarrow> 1 \<le> length c \<and> length c \<le> 32 \<and> list_all code_char c"

text \<open>
  \<^verbatim>\<open>/(?:^|\/)invite\/([A-Za-z0-9_-]{1,32})\/?$/i\<close>; \<^verbatim>\<open>anywhere\<close> allows the match to start at the
  beginning of the text, which the pattern for a URL path does not.
\<close>

definition match_invite :: "bool \<Rightarrow> string \<Rightarrow> string option" where
  "match_invite anywhere s = (let t = drop_slash s; code = last_segment t; pre = js_lower (before_segment t) in
     if valid_code code \<and> (ends_with ''/invite/'' pre \<or> anywhere \<and> pre = ''invite/'') then Some code else None)"

text \<open>\<^verbatim>\<open>url_pathname\<close> is \<^verbatim>\<open>new URL(value).pathname\<close>, \<^const>\<open>None\<close> when the constructor throws.\<close>

definition parseInviteInput :: "(string \<Rightarrow> string option) \<Rightarrow> string \<Rightarrow> string" where
  "parseInviteInput url_pathname raw = (let value = js_trim raw in
     if value = [] then []
     else case match_invite True value of
         Some code \<Rightarrow> code
       | None \<Rightarrow> (case url_pathname value of
             None \<Rightarrow> value
           | Some path \<Rightarrow> nullish (match_invite False path) value))"

section \<open>Channel order\<close>

definition channelTypeOrder :: "channel_type \<Rightarrow> int" where
  "channelTypeOrder t = (if t = TextChannel then 0 else 1)"

text \<open>\<^verbatim>\<open>lc\<close> is \<^verbatim>\<open>localeCompare\<close>.\<close>

definition compareChannelsForSidebar ::
  "(string \<Rightarrow> string \<Rightarrow> int) \<Rightarrow> channel \<Rightarrow> channel \<Rightarrow> int" where
  "compareChannelsForSidebar lc a b =
     (let aCat = nullish (ch_category a) ''Channels''; bCat = nullish (ch_category b) ''Channels'' in
      if aCat \<noteq> bCat then lc aCat bCat
      else let typeDiff = channelTypeOrder (ch_type a) - channelTypeOrder (ch_type b) in
        if typeDiff \<noteq> 0 then typeDiff
        else ch_position a - ch_position b)"

section \<open>Per-tab and per-device memory\<close>

definition LAST_CHANNELS_STORAGE_KEY :: string where
  "LAST_CHANNELS_STORAGE_KEY = ''voxpery-last-channel-ids''"

definition getStoredChannelId :: "string obj cell web_storage \<Rightarrow> string \<Rightarrow> string option" where
  "getStoredChannelId st sid =
     (case get_or_none LAST_CHANNELS_STORAGE_KEY st of
        Some (Parsed m) \<Rightarrow> (case obj_get m sid of Some c \<Rightarrow> if c = [] then None else Some c | None \<Rightarrow> None)
      | _ \<Rightarrow> None)"

definition setStoredChannelId ::
  "string \<Rightarrow> string option \<Rightarrow> string obj cell web_storage \<Rightarrow> string obj cell web_storage" where
  "setStoredChannelId sid c st =
     (case get_item LAST_CHANNELS_STORAGE_KEY st of
        Inl _ \<Rightarrow> st
      | Inr (Some BadText) \<Rightarrow> st
      | Inr v \<Rightarrow> (let m = (case v of Some (Parsed m) \<Rightarrow> m | _ \<Rightarrow> []);
                      m' = (if truthy_str c then obj_put sid (the c) m else obj_del sid m)
                  in try_set LAST_CHANNELS_STORAGE_KEY (Parsed m') st))"

definition WELCOME_GUIDE_DISMISSED_STORAGE_KEY :: string where
  "WELCOME_GUIDE_DISMISSED_STORAGE_KEY = ''voxpery-dismissed-welcome-guides''"

text \<open>
  The stored array; an entry that is not a string is \<^const>\<open>None\<close>. A parsed value that is not an
  array counts as the empty array, as the code treats it.
\<close>

definition getDismissedWelcomeGuideIds :: "string option list cell web_storage \<Rightarrow> string list" where
  "getDismissedWelcomeGuideIds st =
     (case get_or_none WELCOME_GUIDE_DISMISSED_STORAGE_KEY st of
        Some (Parsed xs) \<Rightarrow> rev (remdups (rev (map the (filter (\<lambda>x. x \<noteq> None) xs))))
      | _ \<Rightarrow> [])"

definition isWelcomeGuideDismissed :: "string option list cell web_storage \<Rightarrow> string \<Rightarrow> bool" where
  "isWelcomeGuideDismissed st sid \<longleftrightarrow> sid \<in> set (getDismissedWelcomeGuideIds st)"

definition dismissWelcomeGuide ::
  "string \<Rightarrow> string option list cell web_storage \<Rightarrow> string option list cell web_storage" where
  "dismissWelcomeGuide sid st =
     (let ids = getDismissedWelcomeGuideIds st;
          ids' = (if sid \<in> set ids then ids else ids @ [sid])
      in try_set WELCOME_GUIDE_DISMISSED_STORAGE_KEY (Parsed (map Some ids')) st)"

section \<open>Mentions\<close>

definition regex_special :: "char \<Rightarrow> bool" where
  "regex_special c \<longleftrightarrow> c \<in> set ''.*+?^${}()|[]'' \<or> c = CHR 0x5C"

fun escapeMentionPattern :: "string \<Rightarrow> string" where
  "escapeMentionPattern [] = []"
| "escapeMentionPattern (c # s) =
     (if regex_special c then CHR 0x5C # c # escapeMentionPattern s else c # escapeMentionPattern s)"

text \<open>
  Matching a pattern of plain and backslash-escaped characters at the start of a text, ignoring
  case, as the \<^verbatim>\<open>i\<close> flag does: the rest of the text, or \<^const>\<open>None\<close>. A bare metacharacter has no
  meaning here and fails.
\<close>

fun match_escaped :: "string \<Rightarrow> string \<Rightarrow> string option" where
  "match_escaped [] s = Some s"
| "match_escaped (c # p) s =
     (if c = CHR 0x5C then
        (case (p, s) of (d # p', x # s') \<Rightarrow> if lower_char d = lower_char x then match_escaped p' s' else None
                      | _ \<Rightarrow> None)
      else if regex_special c then None
      else (case s of x # s' \<Rightarrow> if lower_char c = lower_char x then match_escaped p s' else None
                    | [] \<Rightarrow> None))"

text \<open>\<^verbatim>\<open>(^|\s)@NAME(?=\s|$)\<close>; \<^verbatim>\<open>boundary\<close> says that the text before is empty or ends with white space.\<close>

fun mention_scan :: "bool \<Rightarrow> string \<Rightarrow> string \<Rightarrow> bool" where
  "mention_scan boundary p [] = False"
| "mention_scan boundary p (c # s) =
     ((boundary \<and> c = CHR ''@'' \<and>
       (case match_escaped p s of None \<Rightarrow> False | Some rest \<Rightarrow> rest = [] \<or> is_ws (hd rest)))
      \<or> mention_scan (is_ws c) p s)"

definition messageMentionsUser :: "string option \<Rightarrow> string option \<Rightarrow> bool" where
  "messageMentionsUser content username =
     (case content of None \<Rightarrow> False
      | Some t \<Rightarrow>
        if t = [] then False
        else if includes_str ''@all'' (js_lower t) \<or> includes_str ''@everyone'' (js_lower t) then True
        else if \<not> truthy_str username then False
        else mention_scan True (escapeMentionPattern (the username)) t)"

section \<open>Removal notices\<close>

definition removalNoticeFor :: "leave_reason option \<Rightarrow> string \<Rightarrow> (string \<times> string) option" where
  "removalNoticeFor reason serverName =
     (case reason of
        Some Kicked \<Rightarrow> Some (''Removed from server'', ''You were removed from '' @ serverName @ ''.'')
      | Some Banned \<Rightarrow> Some (''Banned from server'', ''You were banned from '' @ serverName @ ''.'')
      | Some Deleted \<Rightarrow> Some (''Server deleted'', serverName @ '' was deleted.'')
      | _ \<Rightarrow> None)"

section \<open>Lemmas\<close>

lemma perm_mask_disjoint: "p \<noteq> q \<Longrightarrow> perm_mask p AND perm_mask q = 0"
  by (cases p; cases q) simp_all

lemma match_escaped_escape:
  "match_escaped (escapeMentionPattern p) s =
     (if starts_with (js_lower p) (js_lower s) then Some (drop (length p) s) else None)"
proof (induction p arbitrary: s)
  case (Cons c p)
  then show ?case
    by (cases s) (auto simp: starts_with_def regex_special_def)
qed simp

lemma mention_scan_iff:
  "mention_scan b (escapeMentionPattern p) s \<longleftrightarrow>
     (\<exists>pre nm post. s = pre @ CHR ''@'' # nm @ post \<and> js_lower nm = js_lower p \<and>
        (if pre = [] then b else is_ws (last pre)) \<and> (post = [] \<or> is_ws (hd post)))"
proof (induction s arbitrary: b)
  case Nil
  show ?case by simp
next
  case (Cons c s)
  let ?here = "b \<and> c = CHR ''@'' \<and> starts_with (js_lower p) (js_lower s) \<and>
       (drop (length p) s = [] \<or> is_ws (hd (drop (length p) s)))"
  have here: "?here \<longleftrightarrow> (\<exists>nm post. c # s = CHR ''@'' # nm @ post \<and> js_lower nm = js_lower p \<and> b \<and>
      (post = [] \<or> is_ws (hd post)))" (is "_ \<longleftrightarrow> ?R")
  proof
    assume h: ?here
    then have "js_lower (take (length p) s) = js_lower p"
      by (simp add: starts_with_def take_map)
    with h show ?R
      by (metis append_take_drop_id)
  next
    assume ?R
    then obtain nm post where "c = CHR ''@''" "s = nm @ post" "js_lower nm = js_lower p" b "post = [] \<or> is_ws (hd post)"
      by auto
    moreover from this have "length nm = length p" by (metis length_map)
    ultimately show ?here by (auto simp: starts_with_def)
  qed
  have "mention_scan b (escapeMentionPattern p) (c # s) \<longleftrightarrow> ?here \<or> mention_scan (is_ws c) (escapeMentionPattern p) s"
    by (auto simp: match_escaped_escape)
  also have "\<dots> \<longleftrightarrow> ?R \<or> (\<exists>pre nm post. s = pre @ CHR ''@'' # nm @ post \<and> js_lower nm = js_lower p \<and>
        (if pre = [] then is_ws c else is_ws (last pre)) \<and> (post = [] \<or> is_ws (hd post)))"
    by (simp only: here Cons.IH)
  also have "\<dots> \<longleftrightarrow> (\<exists>pre nm post. c # s = pre @ CHR ''@'' # nm @ post \<and> js_lower nm = js_lower p \<and>
        (if pre = [] then b else is_ws (last pre)) \<and> (post = [] \<or> is_ws (hd post)))" (is "?A \<or> ?B \<longleftrightarrow> ?C")
  proof
    assume "?A \<or> ?B"
    then show ?C
    proof
      assume ?A
      then show ?C by (metis append_Nil)
    next
      assume ?B
      then obtain pre nm post where "s = pre @ CHR ''@'' # nm @ post" "js_lower nm = js_lower p"
        "if pre = [] then is_ws c else is_ws (last pre)" "post = [] \<or> is_ws (hd post)" by blast
      then show ?C by (intro exI[of _ "c # pre"] exI[of _ nm] exI[of _ post]) auto
    qed
  next
    assume ?C
    then obtain pre nm post where h: "c # s = pre @ CHR ''@'' # nm @ post" "js_lower nm = js_lower p"
        "if pre = [] then b else is_ws (last pre)" "post = [] \<or> is_ws (hd post)" by blast
    show "?A \<or> ?B"
    proof (cases pre)
      case Nil
      with h show ?thesis by auto
    next
      case (Cons d pre')
      with h have "s = pre' @ CHR ''@'' # nm @ post" "if pre' = [] then is_ws c else is_ws (last pre')"
        by (auto split: if_splits)
      with h show ?thesis by blast
    qed
  qed
  finally show ?case .
qed

lemma validate_name_None_iff:
  "validate_name limit raw = None \<longleftrightarrow>
     js_trim raw \<noteq> [] \<and> length (js_trim raw) \<le> limit \<and> list_all name_char (js_trim raw) \<and>
     \<not> includes_str ''  '' (js_trim raw)"
  by (auto simp: validate_name_def Let_def)

subsection \<open>Invites\<close>

lemma code_char_not_slash: "code_char c \<Longrightarrow> c \<noteq> CHR ''/'' \<and> \<not> is_ws c"
  by (auto simp: code_char_def is_ascii_letter_def is_digit_def is_ws_def char_code_def Let_def)

lemma segment_append:
  assumes "\<forall>c \<in> set code. c \<noteq> CHR ''/''"
  shows "last_segment (pre @ CHR ''/'' # code) = code"
    and "before_segment (pre @ CHR ''/'' # code) = pre @ [CHR ''/'']"
proof -
  have "\<forall>c \<in> set (rev code). c \<noteq> CHR ''/''" using assms by simp
  then show "last_segment (pre @ CHR ''/'' # code) = code"
    and "before_segment (pre @ CHR ''/'' # code) = pre @ [CHR ''/'']"
    by (auto simp: last_segment_def before_segment_def takeWhile_append dropWhile_append)
qed

lemma match_invite_link:
  assumes "valid_code code"
  shows "match_invite a (base @ ''/invite/'' @ code) = Some code"
proof -
  from assms have ne: "code \<noteq> []" and chars: "\<forall>c \<in> set code. c \<noteq> CHR ''/''"
    using code_char_not_slash by (force simp: valid_code_def list_all_iff)+
  then have lst: "last code \<noteq> CHR ''/''" by auto
  define pre where "pre = base @ ''/invite/''"
  define t where "t = pre @ code"
  have eq: "t = (base @ ''/invite'') @ CHR ''/'' # code" by (simp add: t_def pre_def)
  have seg: "last_segment t = code" "before_segment t = pre"
    unfolding eq segment_append[OF chars] by (simp_all add: pre_def)
  have low: "js_lower ''/invite/'' = ''/invite/''" by code_simp
  have "ends_with ''/invite/'' (js_lower pre)"
    unfolding pre_def map_append low ends_with_iff by blast
  moreover have "drop_slash t = t" using lst ne by (simp add: drop_slash_def t_def)
  ultimately have "match_invite a t = Some code"
    using assms by (simp add: match_invite_def Let_def seg)
  then show ?thesis by (simp add: t_def pre_def)
qed

lemma match_invite_valid: "match_invite a s = Some c \<Longrightarrow> valid_code c"
  by (auto simp: match_invite_def Let_def split: if_splits)

subsection \<open>Stored channels and guides\<close>

lemma getStoredChannelId_set:
  assumes "storage_works st" "get_or_none LAST_CHANNELS_STORAGE_KEY st \<noteq> Some BadText"
  shows "getStoredChannelId (setStoredChannelId sid c st) sid' =
    (if sid' = sid then (if truthy_str c then c else None) else getStoredChannelId st sid')"
proof -
  from assms have r: "get_item LAST_CHANNELS_STORAGE_KEY st = Inr (get_or_none LAST_CHANNELS_STORAGE_KEY st)"
    by (simp add: get_item_def get_or_none_def storage_works_def)
  show ?thesis
    using assms
    by (cases "get_or_none LAST_CHANNELS_STORAGE_KEY st"; cases c)
       (auto simp: setStoredChannelId_def r getStoredChannelId_def get_or_none_try_set obj_simps Let_def
          split: cell.splits option.splits)
qed

lemma dismissed_after_dismiss:
  "storage_works st \<Longrightarrow>
     set (getDismissedWelcomeGuideIds (dismissWelcomeGuide sid st)) =
       insert sid (set (getDismissedWelcomeGuideIds st))"
proof -
  have [simp]: "map the (filter (\<lambda>x. x \<noteq> None) (map Some xs)) = (xs :: string list)" for xs
    by (induction xs) auto
  assume "storage_works st"
  then show ?thesis
    by (simp add: dismissWelcomeGuide_def Let_def getDismissedWelcomeGuideIds_def[of "try_set _ _ _"]
        get_or_none_try_set insert_absorb)
qed

end
