(* ===== verification/Notifications.thy ===== *)
theory Notifications
  imports WebStorage
begin

text \<open>
  Which server messages count as unread and which raise a notification:
  \<^verbatim>\<open>src/notificationPreferences.ts\<close>, and the sound and push conditions of
  \<^verbatim>\<open>src/notificationSound.ts\<close> and \<^verbatim>\<open>src/pushNotifications.ts\<close>.
\<close>

datatype notification_preference = NotifyAll | NotifyMentions | NotifyNone

definition SERVER_NOTIFICATION_PREFERENCE_KEY :: string where
  "SERVER_NOTIFICATION_PREFERENCE_KEY = ''voxpery-settings-server-notification-mode''"

definition DEFAULT_SERVER_NOTIFICATION_PREFERENCE :: notification_preference where
  "DEFAULT_SERVER_NOTIFICATION_PREFERENCE = NotifyMentions"

fun preference_text :: "notification_preference \<Rightarrow> string" where
  "preference_text NotifyAll = ''all''"
| "preference_text NotifyMentions = ''mentions''"
| "preference_text NotifyNone = ''none''"

text \<open>\<^verbatim>\<open>isServerNotificationPreference\<close>, returning the value the text names.\<close>

definition parse_preference :: "string \<Rightarrow> notification_preference option" where
  "parse_preference t = (if t = ''all'' then Some NotifyAll
     else if t = ''mentions'' then Some NotifyMentions
     else if t = ''none'' then Some NotifyNone else None)"

definition getServerNotificationPreference :: "string web_storage \<Rightarrow> notification_preference" where
  "getServerNotificationPreference st =
     (case get_item SERVER_NOTIFICATION_PREFERENCE_KEY st of
        Inl _ \<Rightarrow> DEFAULT_SERVER_NOTIFICATION_PREFERENCE
      | Inr None \<Rightarrow> DEFAULT_SERVER_NOTIFICATION_PREFERENCE
      | Inr (Some t) \<Rightarrow> nullish (parse_preference t) DEFAULT_SERVER_NOTIFICATION_PREFERENCE)"

definition setServerNotificationPreference ::
  "notification_preference \<Rightarrow> string web_storage \<Rightarrow> string web_storage" where
  "setServerNotificationPreference p st =
     try_set SERVER_NOTIFICATION_PREFERENCE_KEY (preference_text p) st"

definition shouldTrackServerUnread :: "bool \<Rightarrow> bool \<Rightarrow> bool \<Rightarrow> bool" where
  "shouldTrackServerUnread isMention isMutedServer isMutedChannel =
     (if isMutedServer then False else if isMutedChannel then isMention else True)"

definition shouldNotifyForServerMessage ::
  "notification_preference \<Rightarrow> bool \<Rightarrow> bool \<Rightarrow> bool \<Rightarrow> bool" where
  "shouldNotifyForServerMessage preference isMention isMutedServer isMutedChannel =
     (if isMutedServer \<or> preference = NotifyNone then False
      else if isMutedChannel \<and> \<not> isMention then False
      else if preference = NotifyMentions \<and> \<not> isMention then False
      else True)"

section \<open>Sound and push\<close>

definition SOUND_KEY :: string where "SOUND_KEY = ''voxpery-settings-sound-enabled''"
definition PUSH_KEY :: string where "PUSH_KEY = ''voxpery-settings-push-enabled''"
definition PUSH_EXPLICIT_KEY :: string where "PUSH_EXPLICIT_KEY = ''voxpery-settings-push-explicit''"

text \<open>\<^verbatim>\<open>localStorage.getItem\<close> is not guarded here: \<^const>\<open>Inl\<close> is the exception it lets through.\<close>

definition shouldPlayNotificationSound :: "string web_storage \<Rightarrow> string option \<Rightarrow> unit + bool" where
  "shouldPlayNotificationSound st status =
     (case get_item SOUND_KEY st of Inl e \<Rightarrow> Inl e
      | Inr v \<Rightarrow> Inr (if v = Some ''0'' then False else status \<noteq> Some ''dnd''))"

definition getPushNotificationsEnabled :: "string web_storage \<Rightarrow> bool" where
  "getPushNotificationsEnabled st =
     (case get_item PUSH_KEY st of Inl _ \<Rightarrow> False | Inr v \<Rightarrow> v = Some ''1'')"

text \<open>The second write is only reached when the first did not throw.\<close>

definition setPushNotificationsEnabled :: "bool \<Rightarrow> bool \<Rightarrow> string web_storage \<Rightarrow> string web_storage" where
  "setPushNotificationsEnabled enabled explicit st =
     (case set_item PUSH_KEY (if enabled then ''1'' else ''0'') st of
        Inl _ \<Rightarrow> st
      | Inr st1 \<Rightarrow> if explicit then try_set PUSH_EXPLICIT_KEY ''1'' st1 else st1)"

datatype push_permission = PermGranted | PermDenied | PermDefault | PermUnsupported

text \<open>The page's visibility: \<^verbatim>\<open>document.hidden\<close> and \<^verbatim>\<open>document.hasFocus()\<close>.\<close>

definition isAppBackgrounded :: "bool \<Rightarrow> bool \<Rightarrow> bool" where
  "isAppBackgrounded hidden hasFocus \<longleftrightarrow> hidden \<or> \<not> hasFocus"

definition shouldShowPushNotification ::
  "string web_storage \<Rightarrow> push_permission \<Rightarrow> bool \<Rightarrow> string option \<Rightarrow> bool" where
  "shouldShowPushNotification st permission backgrounded status =
     (if \<not> getPushNotificationsEnabled st then False
      else if permission \<noteq> PermGranted then False
      else if \<not> backgrounded then False
      else status \<noteq> Some ''dnd'')"

section \<open>Lemmas\<close>

lemma parse_preference_text: "parse_preference (preference_text p) = Some p"
  by (cases p) (simp_all add: parse_preference_def)

interpretation pref_setting: stored_setting get_or_none try_set storage_works
  SERVER_NOTIFICATION_PREFERENCE_KEY preference_text parse_preference DEFAULT_SERVER_NOTIFICATION_PREFERENCE
  by unfold_locales (rule parse_preference_text)

lemma getServerNotificationPreference_load:
  "getServerNotificationPreference st = pref_setting.load st"
  by (simp add: getServerNotificationPreference_def pref_setting.load_def get_or_none_def
      split: sum.split option.split)

lemma setServerNotificationPreference_save:
  "setServerNotificationPreference p st = pref_setting.save p st"
  by (simp add: setServerNotificationPreference_def pref_setting.save_def)

lemma preference_read_back:
  "storage_works st \<Longrightarrow>
     getServerNotificationPreference (setServerNotificationPreference p st) = p"
  by (simp add: getServerNotificationPreference_load setServerNotificationPreference_save
      pref_setting.load_save)

text \<open>A notified message is always one that was counted as unread.\<close>

lemma notify_implies_unread:
  "shouldNotifyForServerMessage p m ms mc \<Longrightarrow> shouldTrackServerUnread m ms mc"
  by (auto simp: shouldNotifyForServerMessage_def shouldTrackServerUnread_def split: if_splits)

end
