(* ===== verification/ToastStore.thy ===== *)
theory ToastStore
  imports JsBase
begin

text \<open>
  \<^verbatim>\<open>src/stores/toast.ts\<close>: the list of toasts on screen and the table of their dismissal timers.
  A timer is the time at which it fires; \<^verbatim>\<open>clearTimeout\<close> drops it. \<^verbatim>\<open>fresh\<close> is the id that
  \<^verbatim>\<open>createSecureId()\<close> returns and \<^verbatim>\<open>now\<close> the time of the call.
\<close>

datatype toast_level = LevelInfo | LevelError

record toast_body =
  t_title :: string
  t_message :: string
  t_level :: toast_level

type_synonym toast_item = "string \<times> toast_body"

record toast_state =
  toasts :: "toast_item list"
  toast_timers :: "int obj"

definition init_toasts :: toast_state where
  "init_toasts = \<lparr>toasts = [], toast_timers = []\<rparr>"

definition toastMatches :: "toast_body \<Rightarrow> toast_item \<Rightarrow> bool" where
  "toastMatches a b \<longleftrightarrow> t_level a = t_level (snd b) \<and> t_title a = t_title (snd b)
     \<and> t_message a = t_message (snd b)"

text \<open>The pending timer of the toast, if any, is replaced.\<close>

definition scheduleDismiss :: "string \<Rightarrow> int \<Rightarrow> int \<Rightarrow> int obj \<Rightarrow> int obj" where
  "scheduleDismiss i ttl now timers = obj_put i (now + ttl) timers"

definition pushToast :: "string \<Rightarrow> int \<Rightarrow> toast_body \<Rightarrow> int \<Rightarrow> toast_state \<Rightarrow> toast_state" where
  "pushToast fresh now b ttl s =
     (case find (toastMatches b) (toasts s) of
        Some d \<Rightarrow> s\<lparr>toast_timers := scheduleDismiss (fst d) ttl now (toast_timers s)\<rparr>
      | None \<Rightarrow> s\<lparr>toasts := toasts s @ [(fresh, b)],
                  toast_timers := scheduleDismiss fresh ttl now (toast_timers s)\<rparr>)"

definition dismissToast :: "string \<Rightarrow> toast_state \<Rightarrow> toast_state" where
  "dismissToast i s = s\<lparr>toast_timers := obj_del i (toast_timers s),
     toasts := filter (\<lambda>t. fst t \<noteq> i) (toasts s)\<rparr>"

text \<open>The event loop runs a timer that is due: it dismisses its toast.\<close>

inductive toast_step :: "toast_state \<Rightarrow> toast_state \<Rightarrow> bool" where
  push: "fresh \<notin> fst ` set (toasts s) \<Longrightarrow> fresh \<notin> obj_dom (toast_timers s) \<Longrightarrow>
     toast_step s (pushToast fresh now b ttl s)"
| dismiss: "toast_step s (dismissToast i s)"
| fire: "obj_get (toast_timers s) i = Some due \<Longrightarrow> due \<le> now \<Longrightarrow> toast_step s (dismissToast i s)"

inductive toast_reachable :: "toast_state \<Rightarrow> bool" where
  toast_start: "toast_reachable init_toasts"
| toast_next: "toast_reachable s \<Longrightarrow> toast_step s t \<Longrightarrow> toast_reachable t"

text \<open>
  Ids are distinct, no two toasts say the same, and exactly the toasts on screen have a timer:
  none stays for ever and no timer is left behind.
\<close>

definition toast_inv :: "toast_state \<Rightarrow> bool" where
  "toast_inv s \<longleftrightarrow> distinct (map fst (toasts s)) \<and> distinct (map snd (toasts s)) \<and>
     obj_ok (toast_timers s) \<and> obj_dom (toast_timers s) = fst ` set (toasts s)"

lemma toastMatches_eq: "toastMatches a b \<longleftrightarrow> snd b = a"
  by (cases b) (auto simp: toastMatches_def)

lemma toast_inv_push:
  assumes "toast_inv s" and "fresh \<notin> fst ` set (toasts s)"
  shows "toast_inv (pushToast fresh now b ttl s)"
proof (cases "find (toastMatches b) (toasts s)")
  case None
  then have "b \<notin> snd ` set (toasts s)"
    by (auto simp: find_None_iff toastMatches_eq)
  with None assms show ?thesis
    by (auto simp: toast_inv_def pushToast_def scheduleDismiss_def obj_dom_put obj_ok_put)
next
  case (Some d)
  then have "d \<in> set (toasts s)" by (auto simp: find_Some_iff)
  with Some assms show ?thesis
    by (auto simp: toast_inv_def pushToast_def scheduleDismiss_def obj_dom_put obj_ok_put)
qed

lemma toast_inv_dismiss: "toast_inv s \<Longrightarrow> toast_inv (dismissToast i s)"
  by (auto simp: toast_inv_def dismissToast_def obj_dom_del obj_ok_del distinct_map_filter)

lemma toast_inv_step: "toast_step s t \<Longrightarrow> toast_inv s \<Longrightarrow> toast_inv t"
  by (induction rule: toast_step.induct) (auto intro: toast_inv_push toast_inv_dismiss)

lemma toast_inv_init: "toast_inv init_toasts"
  by (simp add: toast_inv_def init_toasts_def)

lemma toast_inv_reachable: "toast_reachable s \<Longrightarrow> toast_inv s"
  by (induction rule: toast_reachable.induct) (auto intro: toast_inv_step toast_inv_init)

end
