(* ===== verification/MessageAuthors.thy ===== *)
theory MessageAuthors
  imports WireTypes
begin

text \<open>
  \<^verbatim>\<open>src/messageAuthors.ts\<close>: messages carry a copy of their author's name and avatar; these two
  functions refresh the copies after a profile change and from a freshly loaded page. The server
  always sends all four fields of an author (\<^verbatim>\<open>null\<close> where there is none), so spreading a fresh author
  over the old one replaces all of it.
\<close>

record author_profile =
  prof_id :: string
  prof_username :: "string option"
  prof_avatar_url :: "string option"

definition is_author :: "string \<Rightarrow> message \<Rightarrow> bool" where
  "is_author i m \<longleftrightarrow> author_id m = Some i"

text \<open>The callback of \<^verbatim>\<open>messages.map\<close>: the message and whether it set \<^verbatim>\<open>changed\<close>.\<close>

definition update_author :: "author_profile \<Rightarrow> message \<Rightarrow> message \<times> bool" where
  "update_author p m =
     (case msg_author m of
        None \<Rightarrow> (m, False)
      | Some a \<Rightarrow>
          if aut_user_id a \<noteq> prof_id p then (m, False)
          else let username = nullish (prof_username p) (aut_username a);
                   avatarUrl = prof_avatar_url p
            in if aut_username a = username \<and> aut_avatar_url a = avatarUrl then (m, False)
               else (m\<lparr>msg_author := Some (a\<lparr>aut_username := username, aut_avatar_url := avatarUrl\<rparr>)\<rparr>, True))"

definition withUpdatedAuthor :: "message list \<Rightarrow> author_profile \<Rightarrow> message list" where
  "withUpdatedAuthor messages p =
     (let nxt = map (update_author p) messages in
      if list_ex snd nxt then map fst nxt else messages)"

text \<open>The authors of a page by id; a later message of the same author wins, as with \<^verbatim>\<open>Map.set\<close>.\<close>

fun collect_authors :: "message list \<Rightarrow> message_author obj \<Rightarrow> message_author obj" where
  "collect_authors [] acc = acc"
| "collect_authors (m # ms) acc =
     collect_authors ms (case msg_author m of
        None \<Rightarrow> acc
      | Some a \<Rightarrow> if aut_user_id a = [] then acc else obj_put (aut_user_id a) a acc)"

definition copy_author :: "message_author obj \<Rightarrow> message \<Rightarrow> message \<times> bool" where
  "copy_author authors m =
     (case msg_author m of
        None \<Rightarrow> (m, False)
      | Some old \<Rightarrow>
          (case (if aut_user_id old = [] then None else obj_get authors (aut_user_id old)) of
             None \<Rightarrow> (m, False)
           | Some a \<Rightarrow>
               if aut_username a = aut_username old \<and> aut_avatar_url a = aut_avatar_url old
                 \<and> aut_role_color a = aut_role_color old then (m, False)
               else (m\<lparr>msg_author := Some a\<rparr>, True)))"

definition withAuthorsFrom :: "message list \<Rightarrow> message list \<Rightarrow> message list" where
  "withAuthorsFrom messages fresh =
     (let authors = collect_authors fresh [] in
      if authors = [] then messages
      else let nxt = map (copy_author authors) messages in
        if list_ex snd nxt then map fst nxt else messages)"

section \<open>Lemmas\<close>

text \<open>Without the identity test that spares a re-render, both functions are plain maps.\<close>

lemma update_author_unchanged: "\<not> snd (update_author p m) \<Longrightarrow> fst (update_author p m) = m"
  by (auto simp: update_author_def Let_def split: option.splits if_splits)

lemma copy_author_unchanged: "\<not> snd (copy_author as m) \<Longrightarrow> fst (copy_author as m) = m"
  by (auto simp: copy_author_def split: option.splits if_splits)

lemma map_unless_changed:
  assumes "\<And>m. \<not> snd (f m) \<Longrightarrow> fst (f m) = m"
  shows "(if list_ex snd (map f ms) then map fst (map f ms) else ms) = map (fst \<circ> f) ms"
proof (cases "list_ex snd (map f ms)")
  case False
  then have "map (fst \<circ> f) ms = map id ms"
    using assms by (intro map_cong) (auto simp: list_ex_iff)
  with False show ?thesis by simp
qed simp

lemma withUpdatedAuthor_map: "withUpdatedAuthor ms p = map (fst \<circ> update_author p) ms"
  unfolding withUpdatedAuthor_def Let_def by (rule map_unless_changed) (rule update_author_unchanged)

lemma copy_author_empty: "fst (copy_author [] m) = m"
  by (simp add: copy_author_def split: option.split)

lemma withAuthorsFrom_map:
  "withAuthorsFrom ms fresh = map (fst \<circ> copy_author (collect_authors fresh [])) ms"
proof (cases "collect_authors fresh [] = []")
  case True
  then show ?thesis by (simp add: withAuthorsFrom_def comp_def copy_author_empty)
next
  case False
  then show ?thesis
    unfolding withAuthorsFrom_def Let_def
    by (simp only: if_False) (rule map_unless_changed, rule copy_author_unchanged)
qed

lemma update_author_id [simp]: "msg_id (fst (update_author p m)) = msg_id m"
  by (simp add: update_author_def Let_def split: option.split)

lemma update_author_author:
  assumes "is_author (prof_id p) m"
  shows "\<exists>a. msg_author (fst (update_author p m)) = Some a \<and> aut_avatar_url a = prof_avatar_url p \<and>
    (\<forall>n. prof_username p = Some n \<longrightarrow> aut_username a = n)"
  using assms by (auto simp: is_author_def author_id_def update_author_def Let_def split: option.split)

lemma update_author_other: "\<not> is_author (prof_id p) m \<Longrightarrow> fst (update_author p m) = m"
  by (auto simp: is_author_def author_id_def update_author_def split: option.split)

lemma update_author_is_author [simp]: "is_author i (fst (update_author p m)) = is_author i m"
  by (auto simp: is_author_def author_id_def update_author_def Let_def split: option.split)

lemma withUpdatedAuthor_others:
  "filter (\<lambda>m. \<not> is_author (prof_id p) m) (withUpdatedAuthor ms p) = filter (\<lambda>m. \<not> is_author (prof_id p) m) ms"
proof -
  have "filter (\<lambda>m. \<not> is_author (prof_id p) m) (map (fst \<circ> update_author p) ms) =
      map (fst \<circ> update_author p) (filter (\<lambda>m. \<not> is_author (prof_id p) m) ms)"
    by (simp add: filter_map comp_def)
  also have "\<dots> = filter (\<lambda>m. \<not> is_author (prof_id p) m) ms"
    by (rule map_idI) (simp add: update_author_other)
  finally show ?thesis by (simp add: withUpdatedAuthor_map)
qed

lemma withUpdatedAuthor_own:
  "m \<in> set (withUpdatedAuthor ms p) \<Longrightarrow> is_author (prof_id p) m \<Longrightarrow>
     \<exists>a. msg_author m = Some a \<and> aut_avatar_url a = prof_avatar_url p \<and>
       (\<forall>n. prof_username p = Some n \<longrightarrow> aut_username a = n)"
  using update_author_author by (auto simp: withUpdatedAuthor_map)

lemma update_author_idem: "fst (update_author p (fst (update_author p m))) = fst (update_author p m)"
  by (auto simp: update_author_def Let_def split: option.split)

lemma withUpdatedAuthor_idem: "withUpdatedAuthor (withUpdatedAuthor ms p) p = withUpdatedAuthor ms p"
  by (simp add: withUpdatedAuthor_map update_author_idem)

lemma collect_authors_ids:
  "(\<forall>(i, a) \<in> set acc. aut_user_id a = i) \<Longrightarrow> (i, a) \<in> set (collect_authors ms acc) \<Longrightarrow> aut_user_id a = i"
proof (induction ms arbitrary: acc)
  case (Cons m ms)
  have put: "\<forall>(i, a) \<in> set (obj_put (aut_user_id b) b acc). aut_user_id a = i" for b
    using Cons.prems(1) by (induction acc) auto
  show ?case
  proof (cases "msg_author m")
    case None
    with Cons show ?thesis by simp
  next
    case (Some b)
    with Cons.prems(2) Cons.IH[OF put] Cons.IH[OF Cons.prems(1)] show ?thesis
      by (simp split: if_splits)
  qed
qed auto

text \<open>Refreshing copies never changes who wrote a message, nor anything but the author copy.\<close>

lemma copy_author_same:
  "author_id (fst (copy_author (collect_authors fresh []) m)) = author_id m"
  "(fst (copy_author as m))\<lparr>msg_author := None\<rparr> = m\<lparr>msg_author := None\<rparr>"
proof -
  show "author_id (fst (copy_author (collect_authors fresh []) m)) = author_id m"
    by (auto simp: copy_author_def author_id_def split: option.splits
        dest!: map_of_SomeD dest: collect_authors_ids[of "[]", simplified])
  show "(fst (copy_author as m))\<lparr>msg_author := None\<rparr> = m\<lparr>msg_author := None\<rparr>"
    by (simp add: copy_author_def split: option.split)
qed

end
