(* ===== verification/VoiceMove.thy ===== *)
theory VoiceMove
  imports WireTypes
begin

text \<open>
  \<^verbatim>\<open>src/webrtc/voiceMemberMove.ts\<close>: a moderator asks this client to change its voice channel. The
  environment is what the client observes: the channel it is joined to when the request arrives,
  and the join operation, which when awaited ends with an error or not and leaves the client joined
  to some channel. The result lists the acknowledgements sent and the errors shown.
\<close>

record move_request =
  mv_request_id :: string
  mv_source :: string
  mv_destination :: string

datatype join_outcome = JoinOk | JoinThrows "string option"

text \<open>\<^verbatim>\<open>joinVoice(channel)\<close>: its outcome and the channel joined afterwards.\<close>

type_synonym join_voice = "string \<Rightarrow> join_outcome \<times> string option"

record move_ack =
  ack_request_id :: string
  ack_success :: bool
  ack_error :: "string option"

record move_result =
  mr_acks :: "move_ack list"
  mr_errors :: "string list"

definition acknowledge :: "string \<Rightarrow> bool \<Rightarrow> string option \<Rightarrow> move_ack" where
  "acknowledge rid success err =
     \<lparr>ack_request_id = rid, ack_success = success, ack_error = (if truthy_str err then err else None)\<rparr>"

definition fail_move :: "string \<Rightarrow> string \<Rightarrow> move_result" where
  "fail_move rid message =
     \<lparr>mr_acks = [acknowledge rid False (Some message)], mr_errors = [message]\<rparr>"

definition handleVoiceMemberMoveRequested ::
  "move_request \<Rightarrow> string option \<Rightarrow> join_voice option \<Rightarrow> move_result" where
  "handleVoiceMemberMoveRequested req current joinVoice =
     (if current = Some (mv_destination req) then
        \<lparr>mr_acks = [acknowledge (mv_request_id req) True None], mr_errors = []\<rparr>
      else if current \<noteq> Some (mv_source req) then
        fail_move (mv_request_id req) ''Your active voice channel changed before the move could complete.''
      else case joinVoice of
        None \<Rightarrow> fail_move (mv_request_id req) ''The voice client is not ready to change channels.''
      | Some join \<Rightarrow>
          (case join (mv_destination req) of
             (JoinThrows err, _) \<Rightarrow>
               fail_move (mv_request_id req) (or_str err ''The voice channel move failed.'')
           | (JoinOk, after) \<Rightarrow>
               if after \<noteq> Some (mv_destination req) then
                 fail_move (mv_request_id req) ''The destination voice connection was not established.''
               else \<lparr>mr_acks = [acknowledge (mv_request_id req) True None], mr_errors = []\<rparr>))"

text \<open>The channel the client is in once the request has been handled.\<close>

definition channel_after_move :: "move_request \<Rightarrow> string option \<Rightarrow> join_voice option \<Rightarrow> string option" where
  "channel_after_move req current joinVoice =
     (if current \<noteq> Some (mv_destination req) \<and> current = Some (mv_source req) then
        (case joinVoice of None \<Rightarrow> current | Some join \<Rightarrow> snd (join (mv_destination req)))
      else current)"

lemma move_one_ack:
  "\<exists>a. mr_acks (handleVoiceMemberMoveRequested req cur join) = [a] \<and> ack_request_id a = mv_request_id req"
  by (auto simp: handleVoiceMemberMoveRequested_def fail_move_def acknowledge_def
      split: option.split join_outcome.split prod.split)

lemma move_success_joined:
  assumes "mr_acks (handleVoiceMemberMoveRequested req cur join) = [a]" and "ack_success a"
  shows "channel_after_move req cur join = Some (mv_destination req)"
  using assms
  by (auto simp: handleVoiceMemberMoveRequested_def fail_move_def acknowledge_def channel_after_move_def
      split: option.splits join_outcome.splits prod.splits if_splits)

lemma move_failure_reported:
  assumes "mr_acks (handleVoiceMemberMoveRequested req cur join) = [a]"
  shows "mr_errors (handleVoiceMemberMoveRequested req cur join) =
    (case ack_error a of None \<Rightarrow> [] | Some e \<Rightarrow> [e]) \<and> (ack_success a \<longleftrightarrow> ack_error a = None)"
  using assms
  by (auto simp: handleVoiceMemberMoveRequested_def fail_move_def acknowledge_def or_str_def truthy_str_def
      split: option.splits join_outcome.splits prod.splits if_splits)

end
