(* ===== verification/ServerEvents.thy ===== *)
theory ServerEvents
  imports AppStore ServerModel Notifications ToastStore MessageAuthors VoiceMove
begin

text \<open>
  \<^verbatim>\<open>src/pages/appLayoutEvents.ts\<close>: how the server view applies a WebSocket event. The state is the
  shared store together with what the view keeps itself: the messages of the open channel, the
  cached messages of the others, the pinned messages, the permissions and the channel-to-server map.
  Requests to the outside (a snapshot reload, a sound, a push notification, a voice move) are
  recorded as effects; the answer of a snapshot reload is applied by \<open>apply_snapshot\<close>.
\<close>

section \<open>State and context\<close>

datatype view_effect =
  RefreshSnapshot string bool
| PlaySound
| ShowPush string string string "string \<times> string"
| StartVoiceMove move_request

record view_state =
  vw_app :: app_state
  vw_messages :: "message list"
  vw_cache :: "message list obj"
  vw_pins :: "message list"
  vw_permissions :: "int obj"
  vw_channel_server :: "string obj"
  vw_categories :: "string list obj"
  vw_toasts :: toast_state
  vw_effects :: "view_effect list"

text \<open>
  What the handler reads and does not write: the refs, the signed-in user as the view and as the
  auth store know it, the visibility of the page, the notification settings, the clock, and the id
  the next toast would get.
\<close>

record view_ctx =
  cx_view_active :: bool
  cx_active_channel :: "string option"
  cx_active_server :: "string option"
  cx_user :: "user option"
  cx_auth_user_id :: "string option"
  cx_backgrounded :: bool
  cx_storage :: "string web_storage"
  cx_push_permission :: push_permission
  cx_last_channels :: last_channels
  cx_now :: int
  cx_fresh_id :: string

definition map_app :: "(app_state \<Rightarrow> app_state) \<Rightarrow> view_state \<Rightarrow> view_state" where
  "map_app f v = v\<lparr>vw_app := f (vw_app v)\<rparr>"

definition emit :: "view_effect \<Rightarrow> view_state \<Rightarrow> view_state" where
  "emit e v = v\<lparr>vw_effects := vw_effects v @ [e]\<rparr>"

definition toast :: "view_ctx \<Rightarrow> toast_level \<Rightarrow> string \<Rightarrow> string \<Rightarrow> view_state \<Rightarrow> view_state" where
  "toast cx lvl title message v =
     v\<lparr>vw_toasts := pushToast (cx_fresh_id cx) (cx_now cx)
         \<lparr>t_title = title, t_message = message, t_level = lvl\<rparr> 5000 (vw_toasts v)\<rparr>"

definition status_text :: "user_status \<Rightarrow> string" where
  "status_text s = (case s of Online \<Rightarrow> ''online'' | Dnd \<Rightarrow> ''dnd'' | Offline \<Rightarrow> ''offline''
     | Invisible \<Rightarrow> ''invisible'')"

section \<open>Messages\<close>

definition has_message :: "string \<Rightarrow> message list \<Rightarrow> bool" where
  "has_message i ms \<longleftrightarrow> (\<exists>m \<in> set ms. msg_id m = i)"

text \<open>The state update of an open channel: a repeated message is dropped, the optimistic copy replaced.\<close>

definition is_optimistic_copy :: "message \<Rightarrow> message \<Rightarrow> bool" where
  "is_optimistic_copy incoming m \<longleftrightarrow> msg_client_status m = Some Sending \<and>
     author_id m = author_id incoming \<and> msg_content m = msg_content incoming"

definition append_incoming :: "message \<Rightarrow> message list \<Rightarrow> message list" where
  "append_incoming incoming prev =
     (if has_message (msg_id incoming) prev then prev
      else filter (\<lambda>m. \<not> is_optimistic_copy incoming m) prev @ [incoming])"

definition receive_message :: "view_ctx \<Rightarrow> string \<Rightarrow> message \<Rightarrow> view_state \<Rightarrow> view_state" where
  "receive_message cx c incoming v =
     (if Some c = cx_active_channel cx \<and> cx_view_active cx then
        (if has_message (msg_id incoming) (vw_messages v) then v
         else v\<lparr>vw_messages := append_incoming incoming (vw_messages v),
                vw_cache := obj_put c (append_incoming incoming (vw_messages v)) (vw_cache v)\<rparr>)
      else case obj_get (vw_cache v) c of
          None \<Rightarrow> v
        | Some cached \<Rightarrow>
            if cached \<noteq> [] \<and> \<not> has_message (msg_id incoming) cached
            then v\<lparr>vw_cache := obj_put c (cached @ [incoming]) (vw_cache v)\<rparr> else v)"

definition channel_name_of :: "string \<Rightarrow> string \<Rightarrow> app_state \<Rightarrow> string" where
  "channel_name_of sid c s =
     (case (case obj_get (channelsByServerId s) sid of None \<Rightarrow> None
            | Some cs \<Rightarrow> map_option ch_name (find (\<lambda>x. ch_id x = c) cs)) of
        Some n \<Rightarrow> n
      | None \<Rightarrow> nullish (map_option ch_name (find (\<lambda>x. ch_id x = c) (channels s))) ''channel'')"

text \<open>
  Unread and notification part of a new message; \<^const>\<open>Inl\<close> when reading the sound setting throws,
  which leaves the handler with what was done so far.
\<close>

definition count_unread :: "string \<Rightarrow> bool \<Rightarrow> bool \<Rightarrow> bool \<Rightarrow> view_state \<Rightarrow> view_state" where
  "count_unread c isMention isMutedServer isMutedChannel v =
     (if shouldTrackServerUnread isMention isMutedServer isMutedChannel then
        map_app (\<lambda>s. (if isMention then incrementServerMention c else id) (incrementServerUnread c s)) v
      else v)"

definition raise_notification ::
  "view_ctx \<Rightarrow> string \<Rightarrow> string \<Rightarrow> message \<Rightarrow> bool \<Rightarrow> view_state \<Rightarrow> view_state" where
  "raise_notification cx sid c incoming isMention v =
     (let status = map_option (status_text \<circ> usr_status) (cx_user cx) in
      case shouldPlayNotificationSound (cx_storage cx) status of
        Inl _ \<Rightarrow> v
      | Inr sound \<Rightarrow>
        let v1 = (if sound then emit PlaySound v else v) in
        if shouldShowPushNotification (cx_storage cx) (cx_push_permission cx) (cx_backgrounded cx) status
        then let n = channel_name_of sid c (vw_app v1) in
          emit (ShowPush
             ((if isMention then ''Mention in #'' else ''New message in #'') @ n)
             (nullish (map_option aut_username (msg_author incoming)) ''Someone'' @ '': '' @ take 120 (msg_content incoming))
             (''server:'' @ sid @ '':channel:'' @ c)
             (sid, c)) v1
        else v1)"

definition notify_message :: "view_ctx \<Rightarrow> string \<Rightarrow> message \<Rightarrow> view_state \<Rightarrow> view_state" where
  "notify_message cx c incoming v =
     (let sid = obj_get (vw_channel_server v) c;
          isMention = messageMentionsUser (Some (msg_content incoming)) (map_option usr_username (cx_user cx));
          isMutedServer = (truthy_str sid \<and> the sid \<in> set (mutedServerIds (vw_app v)));
          isMutedChannel = (c \<in> set (mutedChannelIds (vw_app v)));
          v1 = count_unread c isMention isMutedServer isMutedChannel v
      in if truthy_str sid \<and> shouldNotifyForServerMessage
              (getServerNotificationPreference (cx_storage cx)) isMention isMutedServer isMutedChannel
         then raise_notification cx (the sid) c incoming isMention v1
         else v1)"

definition on_new_message :: "view_ctx \<Rightarrow> string \<Rightarrow> message \<Rightarrow> view_state \<Rightarrow> view_state" where
  "on_new_message cx c incoming v =
     (if c = [] then v
      else let visible = (Some c = cx_active_channel cx \<and> cx_view_active cx);
               v1 = receive_message cx c incoming v
        in if (\<not> visible \<or> cx_backgrounded cx) \<and> author_id incoming \<noteq> map_option usr_id (cx_user cx)
           then notify_message cx c incoming v1 else v1)"

definition on_message_deleted :: "view_ctx \<Rightarrow> string \<Rightarrow> string \<Rightarrow> view_state \<Rightarrow> view_state" where
  "on_message_deleted cx c i v =
     (if c = [] \<or> i = [] then v
      else let keep = filter (\<lambda>m. msg_id m \<noteq> i);
               v1 = (if Some c = cx_active_channel cx then v\<lparr>vw_messages := keep (vw_messages v)\<rparr> else v)
        in case obj_get (vw_cache v1) c of
             None \<Rightarrow> v1
           | Some cached \<Rightarrow> v1\<lparr>vw_cache := obj_put c (keep cached) (vw_cache v1)\<rparr>)"

definition on_message_updated :: "view_ctx \<Rightarrow> string \<Rightarrow> message \<Rightarrow> view_state \<Rightarrow> view_state" where
  "on_message_updated cx c msg v =
     (if c = [] \<or> msg_id msg = [] then v
      else let upd = map (\<lambda>m. if msg_id m = msg_id msg then msg else m);
               v1 = (if Some c = cx_active_channel cx then v\<lparr>vw_messages := upd (vw_messages v)\<rparr> else v)
        in case obj_get (vw_cache v1) c of
             None \<Rightarrow> v1
           | Some cached \<Rightarrow> v1\<lparr>vw_cache := obj_put c (upd cached) (vw_cache v1)\<rparr>)"

section \<open>Members\<close>

definition knows :: "string \<Rightarrow> member_info list \<Rightarrow> bool" where
  "knows u ms \<longleftrightarrow> (\<exists>m \<in> set ms. mem_user_id m = u)"

text \<open>Apply a change to one member in the open list and in every cached list that has the member.\<close>

definition map_member :: "string \<Rightarrow> (member_info \<Rightarrow> member_info) \<Rightarrow> member_info list \<Rightarrow> member_info list" where
  "map_member u f ms = map (\<lambda>m. if mem_user_id m = u then f m else m) ms"

definition update_cached_members ::
  "string \<Rightarrow> (member_info \<Rightarrow> member_info) \<Rightarrow> member_info list obj \<Rightarrow> app_state \<Rightarrow> app_state" where
  "update_cached_members u f entries s =
     fold (\<lambda>(sid, cache) s. if knows u cache then setMembersForServer sid (map_member u f cache) s else s)
       entries s"

definition update_member_everywhere ::
  "string \<Rightarrow> (member_info \<Rightarrow> member_info) \<Rightarrow> app_state \<Rightarrow> app_state" where
  "update_member_everywhere u f s =
     (let s1 = (if knows u (members s) then setMembers (map_member u f (members s)) s else s)
      in update_cached_members u f (membersByServerId s) s1)"

definition on_presence_update :: "string \<Rightarrow> string \<Rightarrow> view_state \<Rightarrow> view_state" where
  "on_presence_update u status v =
     (if u = [] \<or> status = [] then v
      else map_app (update_member_everywhere u (\<lambda>m. m\<lparr>mem_status := status\<rparr>)) v)"

definition on_user_updated :: "user_update \<Rightarrow> view_state \<Rightarrow> view_state" where
  "on_user_updated d v =
     (if uup_id d = [] then v
      else let p = \<lparr>prof_id = uup_id d, prof_username = uup_username d, prof_avatar_url = uup_avatar_url d\<rparr>;
               f = (\<lambda>m. m\<lparr>mem_username := nullish (uup_username d) (mem_username m),
                          mem_avatar_url := uup_avatar_url d,
                          mem_status := nullish (uup_status d) (mem_status m)\<rparr>)
        in map_app (update_member_everywhere (uup_id d) f)
             (v\<lparr>vw_messages := withUpdatedAuthor (vw_messages v) p,
                vw_cache := map (\<lambda>(c, ms). (c, withUpdatedAuthor ms p)) (vw_cache v),
                vw_pins := withUpdatedAuthor (vw_pins v) p\<rparr>))"

definition refreshServerSnapshot :: "string \<Rightarrow> bool \<Rightarrow> view_state \<Rightarrow> view_state" where
  "refreshServerSnapshot sid refreshChannels v = emit (RefreshSnapshot sid refreshChannels) v"

definition on_refresh_event :: "string \<Rightarrow> bool \<Rightarrow> view_state \<Rightarrow> view_state" where
  "on_refresh_event sid refreshChannels v =
     (if sid = [] then v else refreshServerSnapshot sid refreshChannels v)"

definition on_member_timeout ::
  "view_ctx \<Rightarrow> string \<Rightarrow> string \<Rightarrow> string option \<Rightarrow> view_state \<Rightarrow> view_state" where
  "on_member_timeout cx sid u until v =
     (if sid = [] \<or> u = [] then v
      else map_app (\<lambda>s.
        let withTimeout = map_member u (\<lambda>m. m\<lparr>mem_timed_out_until := until\<rparr>);
            s1 = (if cx_active_server cx = Some sid then setMembers (withTimeout (members s)) s else s);
            cached = nullish (obj_get (membersByServerId s) sid) []
        in if length cached > 0 then setMembersForServer sid (withTimeout cached) s1 else s1) v)"

text \<open>The signed-in account was removed from the server, or somebody else left it.\<close>

definition on_member_left ::
  "view_ctx \<Rightarrow> string \<Rightarrow> string \<Rightarrow> leave_reason option \<Rightarrow> view_state \<Rightarrow> view_state" where
  "on_member_left cx sid u reason v =
     (if u = [] \<or> sid = [] then v
      else if Some u = cx_auth_user_id cx then
        (let s = vw_app v;
             serverName = map_option srv_name (find (\<lambda>x. srv_id x = sid) (servers s));
             v1 = (if truthy_str serverName then
                     (case removalNoticeFor reason (the serverName) of
                        None \<Rightarrow> v
                      | Some (title, message) \<Rightarrow> toast cx LevelInfo title message v)
                   else v);
             remaining = filter (\<lambda>x. srv_id x \<noteq> sid) (servers s)
         in map_app (\<lambda>s. let s1 = setServers remaining s in
              if cx_active_server cx = Some sid then
                setActiveServer (cx_last_channels cx)
                  (case remaining of [] \<Rightarrow> None | x # _ \<Rightarrow> Some (srv_id x)) s1
              else s1) v1)
      else map_app (\<lambda>s.
        let filterList = filter (\<lambda>m. mem_user_id m \<noteq> u);
            s1 = (if cx_active_server cx = Some sid then setMembers (filterList (members s)) s else s);
            cached = nullish (obj_get (membersByServerId s) sid) []
        in if length cached > 0 then setMembersForServer sid (filterList cached) s1 else s1) v)"

section \<open>Voice\<close>

definition on_voice_state :: "view_ctx \<Rightarrow> voice_state_data \<Rightarrow> view_state \<Rightarrow> view_state" where
  "on_voice_state cx d v =
     (let u = vs_user_id d in
      if u = [] then v
      else let s = vw_app v;
               v1 = map_app (\<lambda>s. setVoiceStateServerId u (vs_server_id d)
                      (setVoiceState (of_int (cx_now cx)) u (vs_channel_id d) (vs_active_since d) s)) v
        in if truthy_str (vs_server_id d) \<and> truthy_str (vs_channel_id d) then
             (let sid = the (vs_server_id d);
                  activeMembers = (if cx_active_server cx = Some sid then members s else []);
                  cachedMembers = nullish (obj_get (membersByServerId s) sid) []
              in if knows u activeMembers \<or> knows u cachedMembers then v1
                 else refreshServerSnapshot sid False v1)
           else v1)"

definition on_voice_control :: "voice_control_data \<Rightarrow> view_state \<Rightarrow> view_state" where
  "on_voice_control d v =
     (let u = vcd_user_id d in
      if u = [] then v
      else map_app (\<lambda>s. setVoiceCamera u (vcd_camera_on d)
             (setVoiceControl u (vcd_muted d) (vcd_deafened d) (vcd_screen_sharing d)
                (Some (vcd_server_muted d)) (Some (vcd_server_deafened d)) s)) v)"

definition on_voice_move_requested :: "string \<Rightarrow> string \<Rightarrow> string \<Rightarrow> view_state \<Rightarrow> view_state" where
  "on_voice_move_requested rid src dst v =
     (if rid = [] \<or> src = [] \<or> dst = [] then v
      else emit (StartVoiceMove \<lparr>mv_request_id = rid, mv_source = src, mv_destination = dst\<rparr>) v)"

definition on_voice_move_result :: "view_ctx \<Rightarrow> bool \<Rightarrow> string option \<Rightarrow> view_state \<Rightarrow> view_state" where
  "on_voice_move_result cx success message v =
     (if success then v
      else toast cx LevelError ''Voice move failed''
             (nullish message ''The member could not be moved.'') v)"

section \<open>The handler\<close>

definition handleAppLayoutEvent :: "view_ctx \<Rightarrow> ws_event \<Rightarrow> view_state \<Rightarrow> view_state" where
  "handleAppLayoutEvent cx e v =
     (case e of
        NewMessage c _ m \<Rightarrow> on_new_message cx c m v
      | MessageDeleted c i \<Rightarrow> on_message_deleted cx c i v
      | MessageUpdated c m \<Rightarrow> on_message_updated cx c m v
      | PresenceUpdate u status \<Rightarrow> on_presence_update u status v
      | UserUpdated d \<Rightarrow> on_user_updated d v
      | MemberJoined sid _ _ \<Rightarrow> on_refresh_event sid False v
      | MemberRoleUpdated sid _ \<Rightarrow> on_refresh_event sid True v
      | MemberTimeoutUpdated sid u until \<Rightarrow> on_member_timeout cx sid u until v
      | ServerRolesUpdated sid \<Rightarrow> on_refresh_event sid True v
      | ServerChannelsUpdated sid \<Rightarrow> on_refresh_event sid True v
      | MemberLeft sid u reason \<Rightarrow> on_member_left cx sid u reason v
      | VoiceStateUpdate d \<Rightarrow> on_voice_state cx d v
      | VoiceControlUpdate d \<Rightarrow> on_voice_control d v
      | VoiceMemberMoveRequested rid src dst _ _ \<Rightarrow> on_voice_move_requested rid src dst v
      | VoiceMemberMoveResult _ _ _ success message \<Rightarrow> on_voice_move_result cx success message v
      | _ \<Rightarrow> v)"

section \<open>Answer of a snapshot reload\<close>

record snapshot =
  sn_detail :: server_detail
  sn_channels :: "channel list"
  sn_categories :: "string list"

definition add_channel_servers :: "channel list \<Rightarrow> string obj \<Rightarrow> string obj" where
  "add_channel_servers chs m = fold (\<lambda>ch. obj_put (ch_id ch) (ch_server_id ch)) chs m"

definition apply_snapshot :: "view_ctx \<Rightarrow> string \<Rightarrow> bool \<Rightarrow> snapshot \<Rightarrow> view_state \<Rightarrow> view_state" where
  "apply_snapshot cx sid refreshChannels sn v =
     (let det = sn_detail sn; ms = nullish (det_members det) []; chs = sn_channels sn;
          v1 = map_app (\<lambda>s. (if cx_active_server cx = Some sid then setMembers ms else id)
                              (setMembersForServer sid ms s)) v;
          v2 = v1\<lparr>vw_permissions := obj_put (srv_id det) (nullish (det_my_permissions det) 0) (vw_permissions v1)\<rparr>
      in if \<not> refreshChannels then v2
         else let v3 = (map_app (setChannelsForServer sid chs) v2)
                    \<lparr>vw_channel_server := add_channel_servers chs (vw_channel_server v2)\<rparr>
           in if cx_active_server cx \<noteq> Some sid then v3
              else let cur = cx_active_channel cx;
                       lost = (if truthy_str cur then
                                 find (\<lambda>c. Some (ch_id c) = cur \<and> ch_server_id c = sid) (channels (vw_app v3))
                               else None);
                       v4 = (map_app (setChannels chs) v3)
                              \<lparr>vw_categories := obj_put sid (sn_categories sn) (vw_categories v3)\<rparr>;
                       stillValid = (truthy_str cur \<and> (\<exists>c \<in> set chs. Some (ch_id c) = cur));
                       v5 = (case lost of
                               Some l \<Rightarrow> if stillValid then v4
                                 else toast cx LevelInfo ''Channel unavailable''
                                        (''#'' @ ch_name l @ '' is no longer available to you.'') v4
                             | None \<Rightarrow> v4)
                in if stillValid then v5
                   else map_app (setActiveChannel
                          (case find (\<lambda>c. ch_type c = TextChannel) chs of
                             Some c \<Rightarrow> Some (ch_id c)
                           | None \<Rightarrow> (case chs of [] \<Rightarrow> None | c # _ \<Rightarrow> Some (ch_id c)))) v5)"

end
