(* ===== verification/ServerEventLaws.thy ===== *)
theory ServerEventLaws
  imports ServerEvents AppInvariant
begin

text \<open>
  What the event handler of the server view keeps and does: the invariant of the view over every
  event, the exact movement of the unread counters, and the effect of member, deletion, leave and
  snapshot events.
\<close>

section \<open>Invariant of the view\<close>

text \<open>Message ids are unique in the open channel and in every cached one.\<close>

definition ids_ok :: "message list \<Rightarrow> bool" where
  "ids_ok ms \<longleftrightarrow> distinct (map msg_id ms)"

definition view_ok :: "view_state \<Rightarrow> bool" where
  "view_ok v \<longleftrightarrow> app_inv (vw_app v) \<and> ids_ok (vw_messages v) \<and> obj_ok (vw_cache v) \<and>
     (\<forall>ms \<in> snd ` set (vw_cache v). ids_ok ms)"

lemma ids_ok_filter [intro]: "ids_ok ms \<Longrightarrow> ids_ok (filter P ms)"
  by (simp add: ids_ok_def distinct_map_filter)

lemma ids_ok_map [intro]: "ids_ok ms \<Longrightarrow> (\<And>m. msg_id (f m) = msg_id m) \<Longrightarrow> ids_ok (map f ms)"
  by (simp add: ids_ok_def comp_def)

lemma ids_ok_append [intro]: "ids_ok ms \<Longrightarrow> \<not> has_message (msg_id m) ms \<Longrightarrow> ids_ok (ms @ [m])"
  by (auto simp: ids_ok_def has_message_def)

lemma ids_ok_append_incoming [intro]: "ids_ok ms \<Longrightarrow> ids_ok (append_incoming m ms)"
  unfolding append_incoming_def
  by (auto intro!: ids_ok_append ids_ok_filter) (auto simp: has_message_def)

lemma cache_ok_get: "view_ok v \<Longrightarrow> obj_get (vw_cache v) c = Some ms \<Longrightarrow> ids_ok ms"
  by (force simp: view_ok_def dest: map_of_SomeD)

lemma view_ok_cache:
  "view_ok v \<Longrightarrow> ids_ok ms \<Longrightarrow> view_ok (v\<lparr>vw_cache := obj_put c ms (vw_cache v)\<rparr>)"
  by (auto simp: view_ok_def set_obj_put obj_ok_put)

lemma view_ok_messages: "view_ok v \<Longrightarrow> ids_ok ms \<Longrightarrow> view_ok (v\<lparr>vw_messages := ms\<rparr>)"
  by (simp add: view_ok_def)

lemma view_ok_app: "view_ok v \<Longrightarrow> (\<And>s. app_inv s \<Longrightarrow> app_inv (f s)) \<Longrightarrow> view_ok (map_app f v)"
  by (simp add: view_ok_def map_app_def)

lemma view_ok_quiet [simp]:
  "view_ok (emit e v) = view_ok v" "view_ok (toast cx l t m v) = view_ok v"
  "view_ok (refreshServerSnapshot sid b v) = view_ok v"
  "view_ok (v\<lparr>vw_pins := p\<rparr>) = view_ok v"
  by (simp_all add: view_ok_def emit_def toast_def refreshServerSnapshot_def)

lemma view_ok_receive: "view_ok v \<Longrightarrow> view_ok (receive_message cx c m v)"
proof -
  assume v: "view_ok v"
  show ?thesis
  proof (cases "Some c = cx_active_channel cx \<and> cx_view_active cx")
    case True
    have m: "ids_ok (append_incoming m (vw_messages v))" using v by (auto simp: view_ok_def)
    from True v view_ok_cache[OF view_ok_messages[OF v m] m, of c]
    show ?thesis unfolding receive_message_def by simp
  next
    case False
    show ?thesis
    proof (cases "obj_get (vw_cache v) c")
      case None
      with False v show ?thesis unfolding receive_message_def by auto
    next
      case (Some ms)
      with False v view_ok_cache[OF v ids_ok_append[OF cache_ok_get[OF v Some]]]
      show ?thesis unfolding receive_message_def by auto
    qed
  qed
qed

lemma view_ok_count: "view_ok v \<Longrightarrow> view_ok (count_unread c a b d v)"
  unfolding count_unread_def by (auto intro!: view_ok_app)

lemma view_ok_raise: "view_ok (raise_notification cx sid c m b v) = view_ok v"
  unfolding raise_notification_def Let_def by (auto split: sum.split)

lemma view_ok_notify: "view_ok v \<Longrightarrow> view_ok (notify_message cx c m v)"
  unfolding notify_message_def Let_def by (simp add: view_ok_raise view_ok_count)

lemma view_ok_new_message: "view_ok v \<Longrightarrow> view_ok (on_new_message cx c m v)"
  unfolding on_new_message_def Let_def by (simp add: view_ok_notify view_ok_receive)

text \<open>Deleting or updating applies one id-preserving function to the open list and the cached list.\<close>

lemma view_ok_edit:
  assumes v: "view_ok v" and f: "\<And>ms. ids_ok ms \<Longrightarrow> ids_ok (f ms)"
  shows "view_ok (let v1 = (if b then v\<lparr>vw_messages := f (vw_messages v)\<rparr> else v)
     in case obj_get (vw_cache v1) c of None \<Rightarrow> v1
        | Some cached \<Rightarrow> v1\<lparr>vw_cache := obj_put c (f cached) (vw_cache v1)\<rparr>)"
proof -
  define v1 where "v1 = (if b then v\<lparr>vw_messages := f (vw_messages v)\<rparr> else v)"
  have v1: "view_ok v1" using v f by (simp add: v1_def view_ok_def)
  show ?thesis
    unfolding v1_def[symmetric] Let_def
    using v1 f cache_ok_get[OF v1, of c] by (auto split: option.split intro!: view_ok_cache)
qed

lemma view_ok_deleted: "view_ok v \<Longrightarrow> view_ok (on_message_deleted cx c i v)"
  using view_ok_edit[of v "filter (\<lambda>m. msg_id m \<noteq> i)" "Some c = cx_active_channel cx" c]
  unfolding on_message_deleted_def Let_def by (cases "c = [] \<or> i = []") (simp_all only: if_True if_False ids_ok_filter)

lemma view_ok_updated: "view_ok v \<Longrightarrow> view_ok (on_message_updated cx c m v)"
  using view_ok_edit[of v "map (\<lambda>x. if msg_id x = msg_id m then m else x)" "Some c = cx_active_channel cx" c,
    OF _ ids_ok_map]
  unfolding on_message_updated_def Let_def
  by (cases "c = [] \<or> msg_id m = []") (simp_all only: if_True if_False, simp)

lemma app_inv_cached_members: "app_inv s \<Longrightarrow> app_inv (update_cached_members u f es s)"
proof (induction es arbitrary: s)
  case (Cons e es)
  then show ?case
    by (cases e) (auto simp: update_cached_members_def)
qed (simp add: update_cached_members_def)

lemma app_inv_member_everywhere: "app_inv s \<Longrightarrow> app_inv (update_member_everywhere u f s)"
  unfolding update_member_everywhere_def Let_def by (auto intro!: app_inv_cached_members)

lemma ids_ok_withUpdatedAuthor [simp]: "ids_ok (withUpdatedAuthor ms p) = ids_ok ms"
  by (simp add: ids_ok_def withUpdatedAuthor_map comp_def)

lemma view_ok_authors:
  "view_ok v \<Longrightarrow> view_ok (v\<lparr>vw_messages := withUpdatedAuthor (vw_messages v) p,
     vw_cache := map (\<lambda>(c, ms). (c, withUpdatedAuthor ms p)) (vw_cache v),
     vw_pins := withUpdatedAuthor (vw_pins v) p\<rparr>)"
  by (auto simp: view_ok_def comp_def case_prod_unfold)

lemma view_ok_user_updated: "view_ok v \<Longrightarrow> view_ok (on_user_updated d v)"
  unfolding on_user_updated_def Let_def
  by (cases "uup_id d = []")
     (simp_all only: if_True if_False simp_thms view_ok_app[OF view_ok_authors app_inv_member_everywhere])

lemma view_ok_event: "view_ok v \<Longrightarrow> view_ok (handleAppLayoutEvent cx e v)"
proof (cases e)
  case (VoiceStateUpdate d)
  assume v: "view_ok v"
  then have "view_ok (map_app (\<lambda>s. setVoiceStateServerId (vs_user_id d) (vs_server_id d)
     (setVoiceState (of_int (cx_now cx)) (vs_user_id d) (vs_channel_id d) (vs_active_since d) s)) v)"
    by (auto intro!: view_ok_app)
  with v show ?thesis
    by (simp add: VoiceStateUpdate handleAppLayoutEvent_def on_voice_state_def Let_def)
next
  case (MemberLeft sid u reason)
  assume v: "view_ok v"
  have w: "view_ok (map_app f (case x of None \<Rightarrow> v | Some (a, b) \<Rightarrow> toast cx LevelInfo a b v))"
    if "\<And>s. app_inv s \<Longrightarrow> app_inv (f s)" for f x
    using v that by (auto intro!: view_ok_app split: option.split)
  show ?thesis
    unfolding MemberLeft handleAppLayoutEvent_def on_member_left_def ws_event.case Let_def
    using v by (auto intro!: view_ok_app app_inv_ops w)
qed (auto simp: handleAppLayoutEvent_def view_ok_new_message view_ok_deleted view_ok_updated
  on_presence_update_def view_ok_user_updated on_refresh_event_def on_member_timeout_def Let_def
  on_voice_control_def on_voice_move_requested_def on_voice_move_result_def
  intro!: view_ok_app app_inv_ops app_inv_member_everywhere)

section \<open>Messages\<close>

text \<open>What a new message may touch: counters and effects change only in the notification part.\<close>

lemma receive_fields [simp]:
  "vw_app (receive_message cx c m v) = vw_app v" "vw_effects (receive_message cx c m v) = vw_effects v"
  "vw_toasts (receive_message cx c m v) = vw_toasts v"
  "vw_channel_server (receive_message cx c m v) = vw_channel_server v"
  by (auto simp: receive_message_def split: option.split)

lemma own_message_silent:
  assumes "author_id m = map_option usr_id (cx_user cx)"
  shows "vw_app (on_new_message cx c m v) = vw_app v \<and> vw_effects (on_new_message cx c m v) = vw_effects v"
  using assms by (simp add: on_new_message_def Let_def)

lemma raise_app [simp]: "vw_app (raise_notification cx sid c m b v) = vw_app v"
  by (auto simp: raise_notification_def Let_def emit_def split: sum.split)

lemma count_fields [simp]:
  "vw_effects (count_unread c a b d v) = vw_effects v"
  by (simp add: count_unread_def map_app_def)

text \<open>How the unread counter of a channel moves: by one exactly for a counted message.\<close>

definition counted :: "view_ctx \<Rightarrow> string \<Rightarrow> message \<Rightarrow> view_state \<Rightarrow> bool" where
  "counted cx c m v \<longleftrightarrow> c \<noteq> [] \<and> \<not> (Some c = cx_active_channel cx \<and> cx_view_active cx \<and> \<not> cx_backgrounded cx) \<and>
     author_id m \<noteq> map_option usr_id (cx_user cx) \<and>
     (let sid = obj_get (vw_channel_server v) c in \<not> (truthy_str sid \<and> the sid \<in> set (mutedServerIds (vw_app v)))) \<and>
     (c \<in> set (mutedChannelIds (vw_app v)) \<longrightarrow>
        messageMentionsUser (Some (msg_content m)) (map_option usr_username (cx_user cx)))"

lemma unread_after_message:
  "serverUnreadByChannel (vw_app (on_new_message cx c m v)) =
     (if counted cx c m v then bump c (serverUnreadByChannel (vw_app v)) else serverUnreadByChannel (vw_app v))"
  by (auto simp: on_new_message_def notify_message_def count_unread_def shouldTrackServerUnread_def
      counted_def Let_def map_app_def incrementServerUnread_def incrementServerMention_def)

lemma mentions_after_message:
  "serverMentionsByChannel (vw_app (on_new_message cx c m v)) =
     (if counted cx c m v \<and> messageMentionsUser (Some (msg_content m)) (map_option usr_username (cx_user cx))
      then bump c (serverMentionsByChannel (vw_app v)) else serverMentionsByChannel (vw_app v))"
  by (auto simp: on_new_message_def notify_message_def count_unread_def shouldTrackServerUnread_def
      counted_def Let_def map_app_def incrementServerUnread_def incrementServerMention_def)

text \<open>A notification is only raised for a counted message.\<close>

lemma effects_imply_counted:
  "vw_effects (on_new_message cx c m v) \<noteq> vw_effects v \<Longrightarrow> counted cx c m v"
  by (auto simp: on_new_message_def notify_message_def counted_def Let_def shouldNotifyForServerMessage_def
      split: if_splits)

text \<open>A deleted message is gone from the open channel and from the cached copy of its channel.\<close>

lemma deleted_is_gone:
  assumes "c \<noteq> []" "i \<noteq> []"
  shows "Some c = cx_active_channel cx \<Longrightarrow> \<not> has_message i (vw_messages (on_message_deleted cx c i v))"
    and "obj_get (vw_cache (on_message_deleted cx c i v)) c = Some ms \<Longrightarrow> \<not> has_message i ms"
  using assms by (auto simp: on_message_deleted_def Let_def has_message_def obj_get_put split: option.splits)

section \<open>Members\<close>

lemma map_member_id: "\<not> knows u ms \<Longrightarrow> map_member u f ms = ms"
  unfolding map_member_def by (rule map_idI) (auto simp: knows_def)

lemma obj_get_setMembersForServer:
  "obj_get (membersByServerId (setMembersForServer sid xs s)) k =
     (if k = sid then Some xs else obj_get (membersByServerId s) k)"
  by (simp add: setMembersForServer_def obj_get_put)

lemma members_setMembersForServer [simp]: "members (setMembersForServer sid xs s) = members s"
  by (simp add: setMembersForServer_def)

lemma cached_members_get:
  assumes "obj_ok es" and "\<And>k ms. obj_get es k = Some ms \<Longrightarrow> obj_get (membersByServerId s) k = Some ms"
  shows "obj_get (membersByServerId (update_cached_members u f es s)) k =
     (case obj_get es k of Some ms \<Rightarrow> Some (map_member u f ms) | None \<Rightarrow> obj_get (membersByServerId s) k)"
  using assms
proof (induction es arbitrary: s)
  case (Cons e es)
  obtain sid cache where e: "e = (sid, cache)" by (cases e)
  define s1 where "s1 = (if knows u cache then setMembersForServer sid (map_member u f cache) s else s)"
  have s1: "obj_get (membersByServerId s1) k =
      (if k = sid then Some (map_member u f cache) else obj_get (membersByServerId s) k)" for k
    using Cons.prems(2)[of sid cache]
    by (simp add: s1_def e obj_get_setMembersForServer map_member_id)
  have "update_cached_members u f (e # es) s = update_cached_members u f es s1"
    by (simp add: update_cached_members_def e s1_def)
  moreover have "obj_get (membersByServerId s1) k = Some ms" if "obj_get es k = Some ms" for k ms
    using that Cons.prems by (auto simp: s1 e dest: map_of_SomeD)
      (metis fst_conv image_eqI map_of_SomeD)
  ultimately show ?case
    using Cons.IH[of s1] Cons.prems(1)
    by (auto simp: e s1 split: option.split) (metis fst_conv image_eqI map_of_SomeD)
qed (simp add: update_cached_members_def)

lemma cached_members_members [simp]: "members (update_cached_members u f es s) = members s"
  by (induction es arbitrary: s) (auto simp: update_cached_members_def)

text \<open>The change reaches the member in the open list and in the list of every server.\<close>

lemma member_everywhere:
  assumes "obj_ok (membersByServerId s)"
  shows "members (update_member_everywhere u f s) = map_member u f (members s)"
    and "obj_get (membersByServerId (update_member_everywhere u f s)) sid =
      map_option (map_member u f) (obj_get (membersByServerId s) sid)"
proof -
  define s1 where "s1 = (if knows u (members s) then setMembers (map_member u f (members s)) s else s)"
  have s1: "membersByServerId s1 = membersByServerId s" "members s1 = map_member u f (members s)"
    by (auto simp: s1_def setMembers_def map_member_id)
  show "members (update_member_everywhere u f s) = map_member u f (members s)"
    by (simp add: update_member_everywhere_def Let_def s1_def[symmetric] s1)
  show "obj_get (membersByServerId (update_member_everywhere u f s)) sid =
      map_option (map_member u f) (obj_get (membersByServerId s) sid)"
    using cached_members_get[OF assms, of s1 u f sid]
    by (simp add: update_member_everywhere_def Let_def s1_def[symmetric] s1 split: option.split)
qed

text \<open>Leaving a server: it is no longer listed nor open, whatever was open before.\<close>

lemma self_left:
  assumes "u \<noteq> []" "sid \<noteq> []" "Some u = cx_auth_user_id cx"
    and "cx_active_server cx = activeServerId (vw_app v)"
  shows "sid \<notin> srv_id ` set (servers (vw_app (on_member_left cx sid u reason v)))"
    and "activeServerId (vw_app (on_member_left cx sid u reason v)) \<noteq> Some sid"
proof -
  define v1 where "v1 = (let serverName = map_option srv_name (find (\<lambda>x. srv_id x = sid) (servers (vw_app v)))
      in if truthy_str serverName then
           (case removalNoticeFor reason (the serverName) of None \<Rightarrow> v
            | Some (title, message) \<Rightarrow> toast cx LevelInfo title message v) else v)"
  define rest where "rest = filter (\<lambda>x. srv_id x \<noteq> sid) (servers (vw_app v))"
  have app: "vw_app v1 = vw_app v" by (auto simp: v1_def Let_def toast_def split: option.split)
  have ne: "\<forall>x \<in> set rest. srv_id x \<noteq> sid" by (simp add: rest_def)
  have eq: "vw_app (on_member_left cx sid u reason v) = (let s1 = setServers rest (vw_app v) in
      if cx_active_server cx = Some sid then setActiveServer (cx_last_channels cx)
        (case rest of [] \<Rightarrow> None | x # _ \<Rightarrow> Some (srv_id x)) s1 else s1)"
    using assms(1-3) app
    by (simp add: on_member_left_def Let_def v1_def rest_def map_app_def)
  have sv: "servers (setActiveServer l i s) = servers s" for l i s
    by (simp add: setActiveServer_def Let_def)
  have ss: "servers (setServers rest s) = rest" "activeServerId (setServers rest s) = activeServerId s" for s
    by (auto simp: setServers_def)
  have act: "activeServerId (setActiveServer l i s) \<noteq> Some sid" if "i \<noteq> Some sid" for l i s
    using that by (auto simp: setActiveServer_def Let_def truthy_str_def split: option.splits)
  have hd_ne: "(case rest of [] \<Rightarrow> None | x # _ \<Rightarrow> Some (srv_id x)) \<noteq> Some sid"
    using ne by (cases rest) auto
  show "sid \<notin> srv_id ` set (servers (vw_app (on_member_left cx sid u reason v)))"
    unfolding eq Let_def using ne by (auto simp: sv ss)
  show "activeServerId (vw_app (on_member_left cx sid u reason v)) \<noteq> Some sid"
    unfolding eq Let_def using assms(4) act[OF hd_ne] ss by auto
qed

section \<open>Snapshots\<close>

lemma setChannels_ch [simp]: "channels (setChannels xs s) = xs" "activeChannelId (setChannels xs s) = activeChannelId s"
  by (auto simp: setChannels_def)

lemma find_text_channel: "find P xs = Some x \<Longrightarrow> x \<in> set xs"
  by (auto simp: find_Some_iff)

lemma snapshot_fields:
  "activeChannelId (setChannelsForServer i xs s) = activeChannelId s"
  "activeChannelId (setMembersForServer i ms s) = activeChannelId s"
  "activeChannelId (setMembers ms s) = activeChannelId s"
  "activeChannelId (setActiveChannel a s) = a" "channels (setActiveChannel a s) = channels s"
  "vw_app (map_app f v) = f (vw_app v)" "vw_app (toast cx l t m v) = vw_app v"
  by (auto simp: setChannelsForServer_def setMembersForServer_def setMembers_def setActiveChannel_def
      map_app_def toast_def)

text \<open>
  After a reload of the open server's channels the open channel is one of them, or none when there
  are none.
\<close>

lemma snapshot_channel_valid:
  assumes "cx_active_server cx = Some sid" and "cx_active_channel cx = activeChannelId (vw_app v)"
  shows "case activeChannelId (vw_app (apply_snapshot cx sid True sn v)) of
      None \<Rightarrow> sn_channels sn = []
    | Some c \<Rightarrow> c \<in> ch_id ` set (channels (vw_app (apply_snapshot cx sid True sn v)))"
proof -
  define cur where "cur = activeChannelId (vw_app v)"
  define chs where "chs = sn_channels sn"
  define valid where "valid = (truthy_str cur \<and> (\<exists>c \<in> set chs. Some (ch_id c) = cur))"
  define pick where "pick = (case find (\<lambda>c. ch_type c = TextChannel) chs of Some c \<Rightarrow> Some (ch_id c)
     | None \<Rightarrow> (case chs of [] \<Rightarrow> None | c # _ \<Rightarrow> Some (ch_id c)))"
  have "channels (vw_app (apply_snapshot cx sid True sn v)) = chs \<and>
      activeChannelId (vw_app (apply_snapshot cx sid True sn v)) = (if valid then cur else pick)"
    using assms
    by (cases valid; cases "truthy_str cur")
      (auto simp: apply_snapshot_def Let_def snapshot_fields valid_def pick_def cur_def[symmetric] chs_def[symmetric]
        split: option.splits)
  moreover have "case pick of None \<Rightarrow> chs = [] | Some c \<Rightarrow> c \<in> ch_id ` set chs"
    by (auto simp: pick_def dest: find_text_channel split: option.split list.split)
  ultimately show ?thesis
    by (auto simp: valid_def chs_def[symmetric] split: option.split)
qed

end
