(* ===== verification/SocketStore.thy ===== *)
theory SocketStore
  imports JsText
begin

text \<open>
  \<^verbatim>\<open>src/stores/socket.ts\<close>: the WebSocket connection of the client as a state machine. The world is
  the store together with what the browser keeps for it: every socket created so far with its ready
  state and the connection id its handlers captured, the pending timers, and a log of what the
  store did (events handed to listeners, reconnect callbacks, reports, frames sent). A step is a
  call of the client or an event of the browser. Listeners run to completion within the step; a
  call they make is a later step.
\<close>

section \<open>Reconnect delay\<close>

definition RECONNECT_BASE_DELAY_MS :: real where "RECONNECT_BASE_DELAY_MS = 1000"
definition RECONNECT_MAX_DELAY_MS :: real where "RECONNECT_MAX_DELAY_MS = 30000"
definition RECONNECT_MAX_ATTEMPTS :: nat where "RECONNECT_MAX_ATTEMPTS = 8"
definition RECONNECT_JITTER_RATIO :: real where "RECONNECT_JITTER_RATIO = 1 / 4"
definition AUTH_EXPIRED_CLOSE_CODE :: int where "AUTH_EXPIRED_CLOSE_CODE = 4001"

text \<open>\<^verbatim>\<open>r\<close> is what \<^verbatim>\<open>random()\<close> returns.\<close>

definition websocketReconnectDelayMs :: "int \<Rightarrow> real \<Rightarrow> int" where
  "websocketReconnectDelayMs attempt r =
     (let exponent = max 0 (attempt - 1);
          rawDelay = min RECONNECT_MAX_DELAY_MS (RECONNECT_BASE_DELAY_MS * 2 ^ nat exponent);
          jitter = 1 + (r * 2 - 1) * RECONNECT_JITTER_RATIO
      in js_round (rawDelay * jitter))"

section \<open>State\<close>

datatype ready_state = Connecting | Opened | Closing | Closed

record web_socket =
  ws_ready :: ready_state
  ws_owner :: nat
  ws_token :: "string option"

record pending_timer =
  tm_id :: nat
  tm_owner :: nat
  tm_delay :: int

datatype socket_log =
  Delivered nat string | ReconnectCallback nat | Reported string | FrameSent nat string | WarnNotOpen string

record socket_state =
  sk_socket :: "nat option"
  sk_isConnected :: bool
  sk_token :: "string option"
  sk_shouldReconnect :: bool
  sk_foregroundReconnectAllowed :: bool
  sk_listeners :: "nat list"
  sk_reconnectListeners :: "nat list"
  sk_reconnectAttempt :: nat
  sk_reconnectTimer :: "nat option"
  sk_connectionId :: nat
  sk_wasConnectedBefore :: bool

record socket_world =
  sw_store :: socket_state
  sw_sockets :: "web_socket list"
  sw_timers :: "pending_timer list"
  sw_next_timer :: nat
  sw_log :: "socket_log list"

definition init_socket :: socket_world where
  "init_socket = \<lparr>sw_store = \<lparr>sk_socket = None, sk_isConnected = False, sk_token = None,
     sk_shouldReconnect = False, sk_foregroundReconnectAllowed = False, sk_listeners = [],
     sk_reconnectListeners = [], sk_reconnectAttempt = 0, sk_reconnectTimer = None,
     sk_connectionId = 0, sk_wasConnectedBefore = False\<rparr>,
     sw_sockets = [], sw_timers = [], sw_next_timer = 0, sw_log = []\<rparr>"

definition ready_of :: "socket_world \<Rightarrow> nat \<Rightarrow> ready_state" where
  "ready_of w i = ws_ready (sw_sockets w ! i)"

text \<open>\<^verbatim>\<open>socket && (OPEN || CONNECTING)\<close>.\<close>

definition live_state :: "ready_state \<Rightarrow> bool" where
  "live_state r \<longleftrightarrow> r = Opened \<or> r = Connecting"

definition has_live_socket :: "socket_world \<Rightarrow> bool" where
  "has_live_socket w = (case sk_socket (sw_store w) of None \<Rightarrow> False | Some i \<Rightarrow> live_state (ready_of w i))"

definition set_ready :: "nat \<Rightarrow> ready_state \<Rightarrow> socket_world \<Rightarrow> socket_world" where
  "set_ready i r w = w\<lparr>sw_sockets := (sw_sockets w)[i := (sw_sockets w ! i)\<lparr>ws_ready := r\<rparr>]\<rparr>"

definition set_store :: "(socket_state \<Rightarrow> socket_state) \<Rightarrow> socket_world \<Rightarrow> socket_world" where
  "set_store f w = w\<lparr>sw_store := f (sw_store w)\<rparr>"

definition log_add :: "socket_log list \<Rightarrow> socket_world \<Rightarrow> socket_world" where
  "log_add es w = w\<lparr>sw_log := sw_log w @ es\<rparr>"

definition clearTimer :: "nat option \<Rightarrow> socket_world \<Rightarrow> socket_world" where
  "clearTimer t w = w\<lparr>sw_timers := filter (\<lambda>p. Some (tm_id p) \<noteq> t) (sw_timers w)\<rparr>"

section \<open>Operations\<close>

text \<open>\<^verbatim>\<open>createWebSocket(token)\<close> and the handlers, which capture the connection id.\<close>

definition open_socket :: "string option \<Rightarrow> nat \<Rightarrow> socket_world \<Rightarrow> socket_world" where
  "open_socket tok cid w =
     w\<lparr>sw_sockets := sw_sockets w @ [\<lparr>ws_ready = Connecting, ws_owner = cid, ws_token = tok\<rparr>]\<rparr>"

definition connect :: "string option \<Rightarrow> socket_world \<Rightarrow> socket_world" where
  "connect tok w0 =
     (let w = (if sk_reconnectTimer (sw_store w0) \<noteq> None
               then set_store (\<lambda>s. s\<lparr>sk_reconnectTimer := None\<rparr>)
                      (clearTimer (sk_reconnectTimer (sw_store w0)) w0)
               else w0)
      in if has_live_socket w0 then
           (if sk_token (sw_store w0) \<noteq> tok \<or> \<not> sk_shouldReconnect (sw_store w0)
            then set_store (\<lambda>s. s\<lparr>sk_token := tok, sk_shouldReconnect := True\<rparr>) w else w)
         else let cid = sk_connectionId (sw_store w0) + 1;
                  w1 = set_store (\<lambda>s. s\<lparr>sk_token := tok, sk_shouldReconnect := True,
                         sk_foregroundReconnectAllowed := True, sk_connectionId := cid\<rparr>) w;
                  w2 = open_socket tok cid w1
              in set_store (\<lambda>s. s\<lparr>sk_socket := Some (length (sw_sockets w1))\<rparr>) w2)"

definition onopen :: "nat \<Rightarrow> socket_world \<Rightarrow> socket_world" where
  "onopen i w =
     (if sk_connectionId (sw_store w) \<noteq> ws_owner (sw_sockets w ! i) then w
      else let wasConnected = sk_wasConnectedBefore (sw_store w);
               attempt = sk_reconnectAttempt (sw_store w);
               w1 = set_store (\<lambda>s. s\<lparr>sk_isConnected := True, sk_socket := Some i,
                      sk_reconnectAttempt := 0, sk_reconnectTimer := None,
                      sk_wasConnectedBefore := True\<rparr>) w
        in if wasConnected then
             log_add ((if attempt > 0 then [Reported ''websocket_reconnect_succeeded''] else [])
               @ map ReconnectCallback (sk_reconnectListeners (sw_store w1))) w1
           else w1)"

text \<open>\<^verbatim>\<open>r\<close> is the random fraction drawn for the delay.\<close>

definition schedule_reconnect :: "nat \<Rightarrow> real \<Rightarrow> socket_world \<Rightarrow> socket_world" where
  "schedule_reconnect cid r w =
     (let nextAttempt = sk_reconnectAttempt (sw_store w) + 1;
          w1 = (if nextAttempt = 1 then log_add [Reported ''websocket_reconnect_started''] w else w);
          t = sw_next_timer w1;
          w2 = w1\<lparr>sw_timers := sw_timers w1 @ [\<lparr>tm_id = t, tm_owner = cid,
                     tm_delay = websocketReconnectDelayMs (int nextAttempt) r\<rparr>],
                   sw_next_timer := t + 1\<rparr>
      in set_store (\<lambda>s. s\<lparr>sk_reconnectAttempt := nextAttempt, sk_reconnectTimer := Some t\<rparr>) w2)"

definition onclose :: "nat \<Rightarrow> int \<Rightarrow> real \<Rightarrow> socket_world \<Rightarrow> socket_world" where
  "onclose i code r w =
     (let cid = ws_owner (sw_sockets w ! i) in
      if sk_connectionId (sw_store w) \<noteq> cid then w
      else if code = AUTH_EXPIRED_CLOSE_CODE then
        set_store (\<lambda>s. s\<lparr>sk_isConnected := False, sk_socket := None, sk_shouldReconnect := False,
             sk_foregroundReconnectAllowed := False, sk_reconnectAttempt := 0, sk_reconnectTimer := None\<rparr>)
          (case sk_reconnectTimer (sw_store w) of None \<Rightarrow> w | Some t \<Rightarrow> clearTimer (Some t) w)
      else let w1 = set_store (\<lambda>s. s\<lparr>sk_isConnected := False, sk_socket := None\<rparr>) w in
        if sk_shouldReconnect (sw_store w1) \<and> sk_reconnectAttempt (sw_store w1) < RECONNECT_MAX_ATTEMPTS
        then schedule_reconnect cid r w1
        else if sk_shouldReconnect (sw_store w1) then
          set_store (\<lambda>s. s\<lparr>sk_shouldReconnect := False, sk_reconnectAttempt := 0, sk_reconnectTimer := None\<rparr>)
            (log_add [Reported ''websocket_reconnect_exhausted''] w1)
        else w1)"

text \<open>The callback of the reconnect timer of connection \<^verbatim>\<open>cid\<close>.\<close>

definition on_timer :: "nat \<Rightarrow> socket_world \<Rightarrow> socket_world" where
  "on_timer cid w =
     (if sk_shouldReconnect (sw_store w) \<and> sk_connectionId (sw_store w) = cid \<and> \<not> has_live_socket w
      then connect (sk_token (sw_store w)) w else w)"

text \<open>
  \<^verbatim>\<open>onmessage\<close>: \<^verbatim>\<open>data\<close> is the parsed frame, \<^const>\<open>None\<close> when it does not parse. A listener
  that throws ends the delivery, because the loop is inside the \<^verbatim>\<open>try\<close>.
\<close>

fun deliver :: "(nat \<Rightarrow> string \<Rightarrow> bool) \<Rightarrow> string \<Rightarrow> nat list \<Rightarrow> socket_log list" where
  "deliver throws d [] = []"
| "deliver throws d (l # ls) = Delivered l d # (if throws l d then [] else deliver throws d ls)"

definition onmessage :: "(nat \<Rightarrow> string \<Rightarrow> bool) \<Rightarrow> nat \<Rightarrow> string option \<Rightarrow> socket_world \<Rightarrow> socket_world" where
  "onmessage throws i data w =
     (if sk_connectionId (sw_store w) \<noteq> ws_owner (sw_sockets w ! i) then w
      else case data of
        None \<Rightarrow> w
      | Some d \<Rightarrow> log_add (deliver throws d (sk_listeners (sw_store w))) w)"

definition resumeConnection :: "socket_world \<Rightarrow> socket_world" where
  "resumeConnection w =
     (if \<not> sk_foregroundReconnectAllowed (sw_store w) then w
      else if has_live_socket w then w
      else connect (sk_token (sw_store w)) w)"

text \<open>\<^verbatim>\<open>socket.close()\<close> starts the closing handshake of a socket that is not closed yet.\<close>

definition close_socket :: "nat \<Rightarrow> socket_world \<Rightarrow> socket_world" where
  "close_socket i w = (if live_state (ready_of w i) then set_ready i Closing w else w)"

definition disconnect :: "socket_world \<Rightarrow> socket_world" where
  "disconnect w0 =
     (let w = (case sk_reconnectTimer (sw_store w0) of None \<Rightarrow> w0 | Some t \<Rightarrow> clearTimer (Some t) w0);
          w1 = set_store (\<lambda>s. s\<lparr>sk_token := None, sk_shouldReconnect := False,
                 sk_foregroundReconnectAllowed := False, sk_reconnectAttempt := 0,
                 sk_reconnectTimer := None, sk_connectionId := sk_connectionId s + 1\<rparr>) w;
          w2 = (case sk_socket (sw_store w1) of None \<Rightarrow> w1 | Some i \<Rightarrow> close_socket i w1)
      in set_store (\<lambda>s. s\<lparr>sk_socket := None, sk_isConnected := False\<rparr>) w2)"

definition send :: "string \<Rightarrow> socket_world \<Rightarrow> socket_world" where
  "send ty w =
     (case sk_socket (sw_store w) of
        Some i \<Rightarrow> if ready_of w i = Opened then log_add [FrameSent i ty] w
                  else if ty \<noteq> ''Unsubscribe'' then log_add [WarnNotOpen ty] w else w
      | None \<Rightarrow> if ty \<noteq> ''Unsubscribe'' then log_add [WarnNotOpen ty] w else w)"

definition subscribe :: "nat \<Rightarrow> socket_world \<Rightarrow> socket_world" where
  "subscribe l w = set_store (\<lambda>s. s\<lparr>sk_listeners := set_add l (sk_listeners s)\<rparr>) w"

definition unsubscribe :: "nat \<Rightarrow> socket_world \<Rightarrow> socket_world" where
  "unsubscribe l w = set_store (\<lambda>s. s\<lparr>sk_listeners := filter (\<lambda>x. x \<noteq> l) (sk_listeners s)\<rparr>) w"

definition onReconnect :: "nat \<Rightarrow> socket_world \<Rightarrow> socket_world" where
  "onReconnect l w = set_store (\<lambda>s. s\<lparr>sk_reconnectListeners := set_add l (sk_reconnectListeners s)\<rparr>) w"

definition offReconnect :: "nat \<Rightarrow> socket_world \<Rightarrow> socket_world" where
  "offReconnect l w =
     set_store (\<lambda>s. s\<lparr>sk_reconnectListeners := filter (\<lambda>x. x \<noteq> l) (sk_reconnectListeners s)\<rparr>) w"

section \<open>Steps\<close>

datatype socket_event =
  CallConnect "string option" | CallResume | CallDisconnect | CallSend string
| CallSubscribe nat | CallUnsubscribe nat | CallOnReconnect nat | CallOffReconnect nat
| WsOpen nat | WsClosing nat | WsClose nat int real | WsMessage "nat \<Rightarrow> string \<Rightarrow> bool" nat "string option"
| TimerFires pending_timer

fun socket_apply :: "socket_event \<Rightarrow> socket_world \<Rightarrow> socket_world" where
  "socket_apply (CallConnect tok) w = connect tok w"
| "socket_apply CallResume w = resumeConnection w"
| "socket_apply CallDisconnect w = disconnect w"
| "socket_apply (CallSend ty) w = send ty w"
| "socket_apply (CallSubscribe l) w = subscribe l w"
| "socket_apply (CallUnsubscribe l) w = unsubscribe l w"
| "socket_apply (CallOnReconnect l) w = onReconnect l w"
| "socket_apply (CallOffReconnect l) w = offReconnect l w"
| "socket_apply (WsOpen i) w = onopen i (set_ready i Opened w)"
| "socket_apply (WsClosing i) w = set_ready i Closing w"
| "socket_apply (WsClose i code r) w = onclose i code r (set_ready i Closed w)"
| "socket_apply (WsMessage throws i data) w = onmessage throws i data w"
| "socket_apply (TimerFires p) w =
     on_timer (tm_owner p) (w\<lparr>sw_timers := filter (\<lambda>q. tm_id q \<noteq> tm_id p) (sw_timers w)\<rparr>)"

text \<open>
  What the browser may do when: a socket opens once, a socket that is not closed yet may start
  closing or close, messages arrive on an open or closing one, and only a pending timer fires.
\<close>

fun socket_enabled :: "socket_event \<Rightarrow> socket_world \<Rightarrow> bool" where
  "socket_enabled (WsOpen i) w = (i < length (sw_sockets w) \<and> ready_of w i = Connecting)"
| "socket_enabled (WsClosing i) w = (i < length (sw_sockets w) \<and> live_state (ready_of w i))"
| "socket_enabled (WsClose i code r) w =
     (i < length (sw_sockets w) \<and> ready_of w i \<noteq> Closed \<and> 0 \<le> r \<and> r < 1)"
| "socket_enabled (WsMessage throws i data) w =
     (i < length (sw_sockets w) \<and> (ready_of w i = Opened \<or> ready_of w i = Closing))"
| "socket_enabled (TimerFires p) w = (p \<in> set (sw_timers w))"
| "socket_enabled _ w = True"

inductive socket_step :: "socket_world \<Rightarrow> socket_event \<Rightarrow> socket_world \<Rightarrow> bool" where
  sock_step: "socket_enabled e w \<Longrightarrow> socket_step w e (socket_apply e w)"

inductive_cases socket_stepE [elim!]: "socket_step w e w'"

inductive socket_reachable :: "socket_world \<Rightarrow> bool" where
  socket_start: "socket_reachable init_socket"
| socket_next: "socket_reachable w \<Longrightarrow> socket_step w e w' \<Longrightarrow> socket_reachable w'"

end
