(* ===== verification/SocketLaws.thy ===== *)
theory SocketLaws
  imports SocketStore
begin

text \<open>
  What holds of every reachable connection state: the bounds of the reconnect delay, the invariant of
  sockets, timers and reconnect intent, and that a disconnected store stays silent.
\<close>

section \<open>Delay\<close>

lemma raw_delay_bounds:
  "RECONNECT_BASE_DELAY_MS \<le> min RECONNECT_MAX_DELAY_MS (RECONNECT_BASE_DELAY_MS * 2 ^ n)"
  "min RECONNECT_MAX_DELAY_MS (RECONNECT_BASE_DELAY_MS * 2 ^ n) \<le> RECONNECT_MAX_DELAY_MS"
  by (simp_all add: RECONNECT_BASE_DELAY_MS_def RECONNECT_MAX_DELAY_MS_def)

lemma delay_bounds:
  assumes "0 \<le> r" "r < 1"
  shows "750 \<le> websocketReconnectDelayMs attempt r \<and> websocketReconnectDelayMs attempt r \<le> 37500"
proof -
  define raw where "raw = min RECONNECT_MAX_DELAY_MS (RECONNECT_BASE_DELAY_MS * 2 ^ nat (max 0 (attempt - 1)))"
  define j where "j = 1 + (r * 2 - 1) * RECONNECT_JITTER_RATIO"
  have raw: "1000 \<le> raw" "raw \<le> 30000"
    using raw_delay_bounds[of "nat (max 0 (attempt - 1))"]
    by (simp_all add: raw_def RECONNECT_BASE_DELAY_MS_def RECONNECT_MAX_DELAY_MS_def)
  have j: "3 / 4 \<le> j" "j \<le> 5 / 4" using assms by (simp_all add: j_def RECONNECT_JITTER_RATIO_def field_simps)
  have "1000 * (3 / 4) \<le> raw * j" "raw * j \<le> 30000 * (5 / 4)"
    using raw j by (intro mult_mono; simp)+
  then have "js_round (of_int 750) \<le> js_round (raw * j)" "js_round (raw * j) \<le> js_round (of_int 37500)"
    by (intro js_round_mono; simp)+
  then show ?thesis
    using js_round_of_int[of 750] js_round_of_int[of 37500]
    by (simp add: websocketReconnectDelayMs_def Let_def raw_def[symmetric] j_def[symmetric])
qed

section \<open>Invariant\<close>

text \<open>
  One socket of the table, given the current connection id and whether it is the store's socket:
  the store's socket belongs to the current connection and is not closed; every other socket is no
  longer live, and one that belongs to the current connection is closed.
\<close>

definition slot_ok :: "nat \<Rightarrow> bool \<Rightarrow> web_socket \<Rightarrow> bool" where
  "slot_ok cid cur s \<longleftrightarrow> ws_owner s \<le> cid \<and>
     (if cur then ws_owner s = cid \<and> ws_ready s \<noteq> Closed
      else \<not> live_state (ws_ready s) \<and> (ws_owner s = cid \<longrightarrow> ws_ready s = Closed))"

definition sockets_ok :: "nat option \<Rightarrow> nat \<Rightarrow> web_socket list \<Rightarrow> bool" where
  "sockets_ok cur cid ss \<longleftrightarrow> (case cur of None \<Rightarrow> True | Some i \<Rightarrow> i < length ss) \<and>
     (\<forall>i < length ss. slot_ok cid (cur = Some i) (ss ! i))"

text \<open>
  The timer part: at most one timer is pending; it is the one the store knows, of the current
  connection, with a delay in range; and none is pending while the store has a socket.
\<close>

definition timer_ok :: "nat option \<Rightarrow> nat \<Rightarrow> pending_timer \<Rightarrow> bool" where
  "timer_ok t cid p \<longleftrightarrow> t = Some (tm_id p) \<and> tm_owner p = cid \<and> 750 \<le> tm_delay p \<and> tm_delay p \<le> 37500"

definition timers_ok :: "nat option \<Rightarrow> nat option \<Rightarrow> nat \<Rightarrow> pending_timer list \<Rightarrow> bool" where
  "timers_ok cur t cid ts \<longleftrightarrow> ts = [] \<or> cur = None \<and> (\<exists>p. ts = [p] \<and> timer_ok t cid p)"

definition intent_ok :: "socket_state \<Rightarrow> bool" where
  "intent_ok s \<longleftrightarrow> sk_reconnectAttempt s \<le> RECONNECT_MAX_ATTEMPTS \<and>
     (sk_isConnected s \<longrightarrow> sk_socket s \<noteq> None) \<and>
     (sk_socket s \<noteq> None \<or> sk_shouldReconnect s \<longrightarrow> sk_foregroundReconnectAllowed s)"

definition socket_inv :: "socket_world \<Rightarrow> bool" where
  "socket_inv w \<longleftrightarrow> (let s = sw_store w in
     sockets_ok (sk_socket s) (sk_connectionId s) (sw_sockets w) \<and>
     timers_ok (sk_socket s) (sk_reconnectTimer s) (sk_connectionId s) (sw_timers w) \<and>
     intent_ok s)"

lemma socket_inv_init: "socket_inv init_socket"
  by (simp add: socket_inv_def init_socket_def sockets_ok_def timers_ok_def intent_ok_def)

subsection \<open>The table of sockets\<close>

lemma sockets_ok_new:
  assumes "sockets_ok cur cid ss" and "case cur of None \<Rightarrow> True | Some i \<Rightarrow> \<not> live_state (ws_ready (ss ! i))"
  shows "sockets_ok (Some (length ss)) (cid + 1)
    (ss @ [\<lparr>ws_ready = Connecting, ws_owner = cid + 1, ws_token = tok\<rparr>])"
  using assms
  by (auto simp: sockets_ok_def slot_ok_def nth_append less_Suc_eq split: option.splits if_splits)

lemma sockets_ok_ready:
  assumes "sockets_ok cur cid ss" and "i < length ss" and "live_state (ws_ready (ss ! i))"
    and "r = Opened \<or> r = Closing"
  shows "sockets_ok cur cid (ss[i := (ss ! i)\<lparr>ws_ready := r\<rparr>])"
  using assms
  by (auto simp: sockets_ok_def slot_ok_def nth_list_update split: option.splits if_splits)

lemma sockets_ok_closed_cur:
  assumes "sockets_ok cur cid ss" and "i < length ss" and "ws_ready (ss ! i) \<noteq> Closed" and "ws_owner (ss ! i) = cid"
  shows "cur = Some i" and "sockets_ok None cid (ss[i := (ss ! i)\<lparr>ws_ready := Closed\<rparr>])"
  using assms
  by (auto simp: sockets_ok_def slot_ok_def nth_list_update live_state_def split: option.splits if_splits)

lemma sockets_ok_closed_old:
  assumes "sockets_ok cur cid ss" and "i < length ss" and "ws_owner (ss ! i) \<noteq> cid"
  shows "sockets_ok cur cid (ss[i := (ss ! i)\<lparr>ws_ready := Closed\<rparr>])"
  using assms
  by (auto simp: sockets_ok_def slot_ok_def nth_list_update live_state_def split: option.splits if_splits)

lemma sockets_ok_bump:
  assumes "sockets_ok cur cid ss" and "case cur of None \<Rightarrow> True | Some i \<Rightarrow> \<not> live_state (ws_ready (ss ! i))"
  shows "sockets_ok None (cid + 1) ss"
  using assms by (auto simp: sockets_ok_def slot_ok_def split: option.splits if_splits)

lemma sockets_ok_one_live:
  assumes "sockets_ok cur cid ss" "i < length ss" "live_state (ws_ready (ss ! i))"
  shows "cur = Some i"
  using assms by (auto simp: sockets_ok_def slot_ok_def split: if_splits)

subsection \<open>Parts of the world an operation leaves alone\<close>

lemma log_fields [simp]: "sw_store (log_add es w) = sw_store w" "sw_sockets (log_add es w) = sw_sockets w"
  "sw_timers (log_add es w) = sw_timers w" "sw_log (log_add es w) = sw_log w @ es"
  "sw_next_timer (log_add es w) = sw_next_timer w"
  by (simp_all add: log_add_def)

lemma set_store_fields [simp]: "sw_store (set_store f w) = f (sw_store w)" "sw_sockets (set_store f w) = sw_sockets w"
  "sw_timers (set_store f w) = sw_timers w" "sw_log (set_store f w) = sw_log w"
  by (simp_all add: set_store_def)

lemma clear_fields [simp]: "sw_store (clearTimer t w) = sw_store w" "sw_sockets (clearTimer t w) = sw_sockets w"
  "sw_log (clearTimer t w) = sw_log w"
  by (simp_all add: clearTimer_def)

lemma set_ready_fields [simp]: "sw_store (set_ready i r w) = sw_store w" "sw_timers (set_ready i r w) = sw_timers w"
  "sw_log (set_ready i r w) = sw_log w"
  "sw_sockets (set_ready i r w) = (sw_sockets w)[i := (sw_sockets w ! i)\<lparr>ws_ready := r\<rparr>]"
  by (simp_all add: set_ready_def)

lemma open_fields [simp]: "sw_store (open_socket tok cid w) = sw_store w" "sw_timers (open_socket tok cid w) = sw_timers w"
  "sw_log (open_socket tok cid w) = sw_log w"
  "sw_sockets (open_socket tok cid w) = sw_sockets w @ [\<lparr>ws_ready = Connecting, ws_owner = cid, ws_token = tok\<rparr>]"
  by (simp_all add: open_socket_def)

lemma timers_cleared:
  "timers_ok cur t cid (sw_timers w) \<Longrightarrow> sw_timers (clearTimer t w) = []"
  by (auto simp: timers_ok_def timer_ok_def clearTimer_def)

lemma timers_none: "timers_ok cur None cid ts \<Longrightarrow> ts = []"
  by (auto simp: timers_ok_def timer_ok_def)

lemma timers_ok_Nil [simp]: "timers_ok cur t cid []"
  by (simp add: timers_ok_def)

lemma timers_ok_Some: "timers_ok (Some i) t cid ts \<Longrightarrow> ts = []"
  by (simp add: timers_ok_def)

subsection \<open>Operations\<close>

definition without_timer :: "socket_world \<Rightarrow> socket_world" where
  "without_timer w = (if sk_reconnectTimer (sw_store w) \<noteq> None
     then set_store (\<lambda>s. s\<lparr>sk_reconnectTimer := None\<rparr>) (clearTimer (sk_reconnectTimer (sw_store w)) w) else w)"

lemma without_timer_fields:
  "sw_sockets (without_timer w) = sw_sockets w"
  "sw_store (without_timer w) = (sw_store w)\<lparr>sk_reconnectTimer := None\<rparr>"
  "sw_log (without_timer w) = sw_log w"
  by (simp_all add: without_timer_def)

lemma without_timer_timers: "socket_inv w \<Longrightarrow> sw_timers (without_timer w) = []"
  by (auto simp: without_timer_def socket_inv_def Let_def dest: timers_none timers_cleared)

lemma connect_alt:
  "connect tok w =
     (if has_live_socket w then
        (if sk_token (sw_store w) \<noteq> tok \<or> \<not> sk_shouldReconnect (sw_store w)
         then set_store (\<lambda>s. s\<lparr>sk_token := tok, sk_shouldReconnect := True\<rparr>) (without_timer w)
         else without_timer w)
      else set_store (\<lambda>s. s\<lparr>sk_token := tok, sk_shouldReconnect := True, sk_foregroundReconnectAllowed := True,
             sk_connectionId := sk_connectionId s + 1, sk_socket := Some (length (sw_sockets w))\<rparr>)
           (open_socket tok (sk_connectionId (sw_store w) + 1) (without_timer w)))"
  by (simp add: connect_def Let_def without_timer_def set_store_def open_socket_def clearTimer_def)

lemma socket_inv_connect:
  assumes "socket_inv w"
  shows "socket_inv (connect tok w)"
proof (cases "has_live_socket w")
  case True
  with assms without_timer_timers[OF assms] show ?thesis
    by (auto simp: connect_alt socket_inv_def Let_def without_timer_fields intent_ok_def has_live_socket_def
        split: option.splits)
next
  case False
  have ok: "sockets_ok (sk_socket (sw_store w)) (sk_connectionId (sw_store w)) (sw_sockets w)"
    using assms by (simp add: socket_inv_def Let_def)
  have "case sk_socket (sw_store w) of None \<Rightarrow> True | Some i \<Rightarrow> \<not> live_state (ws_ready (sw_sockets w ! i))"
    using False by (simp add: has_live_socket_def ready_of_def split: option.splits)
  from sockets_ok_new[OF ok this, of tok] assms False without_timer_timers[OF assms] show ?thesis
    by (simp add: connect_alt socket_inv_def Let_def without_timer_fields intent_ok_def)
qed

lemma socket_inv_resume: "socket_inv w \<Longrightarrow> socket_inv (resumeConnection w)"
  by (simp add: resumeConnection_def socket_inv_connect)

lemma socket_inv_timer: "socket_inv w \<Longrightarrow> socket_inv (on_timer cid w)"
  by (simp add: on_timer_def socket_inv_connect)

lemma socket_inv_log [simp]: "socket_inv (log_add es w) = socket_inv w"
  by (simp add: socket_inv_def)

lemma socket_inv_onopen:
  assumes "socket_inv w" "i < length (sw_sockets w)" "ready_of w i = Connecting"
  shows "socket_inv (onopen i (set_ready i Opened w))"
proof (cases "ws_owner (sw_sockets w ! i) = sk_connectionId (sw_store w)")
  case False
  with assms show ?thesis
    by (auto simp: onopen_def socket_inv_def Let_def ready_of_def live_state_def intro: sockets_ok_ready)
next
  case True
  have ok: "sockets_ok (sk_socket (sw_store w)) (sk_connectionId (sw_store w)) (sw_sockets w)"
    using assms by (simp add: socket_inv_def Let_def)
  from sockets_ok_closed_cur(1)[OF ok assms(2) _ True] assms(3)
  have cur: "sk_socket (sw_store w) = Some i" by (simp add: ready_of_def)
  have "sw_timers w = []" using assms(1) cur by (auto simp: socket_inv_def Let_def dest: timers_ok_Some)
  with assms True cur sockets_ok_ready[OF ok assms(2), of Opened] show ?thesis
    by (auto simp: onopen_def socket_inv_def Let_def ready_of_def live_state_def intent_ok_def)
qed

lemma socket_inv_onclose:
  assumes "socket_inv w" "i < length (sw_sockets w)" "ready_of w i \<noteq> Closed" "0 \<le> r" "r < 1"
  shows "socket_inv (onclose i code r (set_ready i Closed w))"
proof (cases "ws_owner (sw_sockets w ! i) = sk_connectionId (sw_store w)")
  case False
  with assms show ?thesis
    by (auto simp: onclose_def socket_inv_def Let_def intro: sockets_ok_closed_old)
next
  case True
  have ok: "sockets_ok (sk_socket (sw_store w)) (sk_connectionId (sw_store w)) (sw_sockets w)"
    using assms by (simp add: socket_inv_def Let_def)
  have ne: "ws_ready (sw_sockets w ! i) \<noteq> Closed" using assms(3) by (simp add: ready_of_def)
  note cur = sockets_ok_closed_cur[OF ok assms(2) ne True]
  have ts: "sw_timers w = []" using assms(1) cur(1) by (auto simp: socket_inv_def Let_def dest: timers_ok_Some)
  from assms(1) have fg: "sk_foregroundReconnectAllowed (sw_store w)" "sk_reconnectAttempt (sw_store w) \<le> RECONNECT_MAX_ATTEMPTS"
    using cur(1) by (simp_all add: socket_inv_def Let_def intent_ok_def)
  show ?thesis
    using assms True cur ts fg delay_bounds[OF assms(4,5), of "int (sk_reconnectAttempt (sw_store w) + 1)"]
    by (auto simp: onclose_def socket_inv_def Let_def intent_ok_def clearTimer_def schedule_reconnect_def
        timers_ok_def timer_ok_def split: option.split)
qed

lemma socket_inv_disconnect:
  assumes "socket_inv w"
  shows "socket_inv (disconnect w)"
proof -
  have ok: "sockets_ok (sk_socket (sw_store w)) (sk_connectionId (sw_store w)) (sw_sockets w)"
    using assms by (simp add: socket_inv_def Let_def)
  have ts: "sw_timers (case sk_reconnectTimer (sw_store w) of None \<Rightarrow> w | Some t \<Rightarrow> clearTimer (Some t) w) = []"
    using assms by (auto simp: socket_inv_def Let_def dest: timers_none timers_cleared split: option.split)
  show ?thesis
  proof (cases "sk_socket (sw_store w)")
    case None
    with ok ts sockets_ok_bump[OF ok] show ?thesis
      by (auto simp: disconnect_def socket_inv_def Let_def intent_ok_def split: option.splits)
  next
    case (Some i)
    have i: "i < length (sw_sockets w)" using ok Some by (simp add: sockets_ok_def)
    define ss where "ss = (if live_state (ws_ready (sw_sockets w ! i))
       then (sw_sockets w)[i := (sw_sockets w ! i)\<lparr>ws_ready := Closing\<rparr>] else sw_sockets w)"
    have "sockets_ok (Some i) (sk_connectionId (sw_store w)) ss"
      using ok i sockets_ok_ready[OF ok i, of Closing] by (simp add: ss_def Some)
    moreover have "\<not> live_state (ws_ready (ss ! i))" using i by (simp add: ss_def live_state_def)
    ultimately have "sockets_ok None (sk_connectionId (sw_store w) + 1) ss"
      using sockets_ok_bump by fastforce
    with ts Some show ?thesis
      by (auto simp: disconnect_def socket_inv_def Let_def intent_ok_def close_socket_def ready_of_def ss_def
          split: option.splits if_splits)
  qed
qed

lemma timers_ok_filter: "timers_ok cur t cid ts \<Longrightarrow> timers_ok cur t cid (filter P ts)"
  by (auto simp: timers_ok_def split: if_splits)

theorem socket_inv_step: "socket_step w e w' \<Longrightarrow> socket_inv w \<Longrightarrow> socket_inv w'"
proof (erule socket_stepE)
  assume w: "socket_inv w" and e: "socket_enabled e w" and w': "w' = socket_apply e w"
  show "socket_inv w'"
  proof (cases e)
    case (TimerFires p)
    have "socket_inv (w\<lparr>sw_timers := filter (\<lambda>q. tm_id q \<noteq> tm_id p) (sw_timers w)\<rparr>)"
      using w by (simp add: socket_inv_def Let_def timers_ok_filter)
    then show ?thesis by (simp add: TimerFires w' socket_inv_timer)
  next
    case (WsClosing i)
    with w e w' show ?thesis by (simp add: socket_inv_def Let_def ready_of_def sockets_ok_ready)
  qed (use w e w' in \<open>auto simp: socket_inv_connect socket_inv_resume socket_inv_disconnect socket_inv_onopen
        socket_inv_onclose onmessage_def send_def subscribe_def unsubscribe_def onReconnect_def offReconnect_def
        simp: socket_inv_def[of "set_store _ _"] intent_ok_def split: option.split,
      (auto simp: socket_inv_def Let_def intent_ok_def)?\<close>)
qed

theorem socket_inv_reachable: "socket_reachable w \<Longrightarrow> socket_inv w"
  by (induction rule: socket_reachable.induct) (rule socket_inv_init, rule socket_inv_step)

section \<open>Consequences\<close>

text \<open>
  Signed out of the socket: no wish to reconnect, no socket, nothing pending, and every socket ever
  created belongs to an earlier connection.
\<close>

definition silent :: "socket_world \<Rightarrow> bool" where
  "silent w \<longleftrightarrow> \<not> sk_shouldReconnect (sw_store w) \<and> \<not> sk_foregroundReconnectAllowed (sw_store w) \<and>
     sk_socket (sw_store w) = None \<and> \<not> sk_isConnected (sw_store w) \<and> sw_timers w = [] \<and>
     (\<forall>s \<in> set (sw_sockets w). ws_owner s < sk_connectionId (sw_store w))"

fun is_connect :: "socket_event \<Rightarrow> bool" where
  "is_connect (CallConnect _) = True"
| "is_connect _ = False"

lemma sockets_ok_owner: "sockets_ok cur cid ss \<Longrightarrow> s \<in> set ss \<Longrightarrow> ws_owner s \<le> cid"
  by (auto simp: sockets_ok_def slot_ok_def in_set_conv_nth)

lemma silent_disconnect:
  assumes "socket_inv w"
  shows "silent (disconnect w)"
proof -
  have owner: "\<forall>s \<in> set (sw_sockets w). ws_owner s \<le> sk_connectionId (sw_store w)"
    using assms sockets_ok_owner by (fastforce simp: socket_inv_def Let_def)
  have upd: "\<forall>s \<in> set ((sw_sockets w)[i := (sw_sockets w ! i)\<lparr>ws_ready := Closing\<rparr>]). ws_owner s \<le> sk_connectionId (sw_store w)" for i
    using owner by (cases "i < length (sw_sockets w)")
      (auto dest!: subsetD[OF set_update_subset_insert] simp del: nth_mem intro: nth_mem simp: list_update_beyond)
  have ts: "sw_timers (case sk_reconnectTimer (sw_store w) of None \<Rightarrow> w | Some t \<Rightarrow> clearTimer (Some t) w) = []"
    using assms by (auto simp: socket_inv_def Let_def dest: timers_none timers_cleared split: option.split)
  show ?thesis
    using owner upd ts
    by (auto simp: silent_def disconnect_def Let_def close_socket_def less_Suc_eq_le split: option.splits)
qed

lemma silent_step:
  assumes "silent w" "socket_step w e w'" "\<not> is_connect e"
  shows "silent w' \<and> length (sw_sockets w') = length (sw_sockets w) \<and>
    (\<exists>es. sw_log w' = sw_log w @ es \<and> (\<forall>l d. Delivered l d \<notin> set es))"
proof -
  from assms(2) have w': "w' = socket_apply e w" and en: "socket_enabled e w" by auto
  have quiet: "\<not> sk_shouldReconnect (sw_store w)" "\<not> sk_foregroundReconnectAllowed (sw_store w)"
    "sk_socket (sw_store w) = None" "sw_timers w = []"
    using assms(1) by (simp_all add: silent_def)
  have old: "i < length (sw_sockets w) \<Longrightarrow> sk_connectionId (sw_store w) \<noteq> ws_owner (sw_sockets w ! i)" for i
    using assms(1) nth_mem[of i "sw_sockets w"] by (fastforce simp: silent_def simp del: nth_mem)
  have upd: "i < length (sw_sockets w) \<Longrightarrow> silent (set_ready i r w)" for i r
    using assms(1) by (auto simp: silent_def dest!: subsetD[OF set_update_subset_insert])
  have store: "silent (set_store f w)" if "sk_shouldReconnect (f (sw_store w)) = False"
    "sk_foregroundReconnectAllowed (f (sw_store w)) = False" "sk_socket (f (sw_store w)) = None"
    "sk_isConnected (f (sw_store w)) = False" "sk_connectionId (f (sw_store w)) = sk_connectionId (sw_store w)" for f
    using that assms(1) by (simp add: silent_def)
  have log: "silent (log_add es w)" for es using assms(1) by (simp add: silent_def)
  have conn: "\<not> sk_isConnected (sw_store w)" using assms(1) by (simp add: silent_def)
  have again: "silent (disconnect w)" "sw_log (disconnect w) = sw_log w" "length (sw_sockets (disconnect w)) = length (sw_sockets w)"
    using assms(1) by (auto simp: silent_def disconnect_def Let_def clearTimer_def less_Suc_eq split: option.split)
  show ?thesis
    unfolding w' using assms(1,3) en quiet conn
    by (cases e) (auto simp: again old upd store log onopen_def onclose_def resumeConnection_def onmessage_def
        send_def subscribe_def unsubscribe_def onReconnect_def offReconnect_def)
qed

lemma disconnect_fields [simp]:
  "sw_log (disconnect w) = sw_log w" "length (sw_sockets (disconnect w)) = length (sw_sockets w)"
  by (auto simp: disconnect_def Let_def clearTimer_def close_socket_def split: option.split)

text \<open>The steps between two calls of \<^const>\<open>connect\<close>.\<close>

abbreviation quiet_step :: "socket_world \<Rightarrow> socket_world \<Rightarrow> bool" where
  "quiet_step a b \<equiv> \<exists>e. socket_step a e b \<and> \<not> is_connect e"

lemma silent_steps:
  assumes "quiet_step\<^sup>*\<^sup>* w w'" and "silent w"
  shows "silent w' \<and> length (sw_sockets w') = length (sw_sockets w) \<and>
    (\<exists>es. sw_log w' = sw_log w @ es \<and> (\<forall>l d. Delivered l d \<notin> set es))"
  using assms
proof induction
  case (step a b)
  from step.hyps(2) obtain e where e: "socket_step a e b" "\<not> is_connect e" by (elim exE conjE)
  from step.IH[OF step.prems] obtain es where
    IH: "silent a" "length (sw_sockets a) = length (sw_sockets w)" "sw_log a = sw_log w @ es" "\<forall>l d. Delivered l d \<notin> set es"
    by blast
  from silent_step[OF IH(1) e] IH(2-4) show ?case by fastforce
qed auto

end
