(* ===== verification/ApiClient.thy ===== *)
theory ApiClient
  imports JsText
begin

text \<open>
  \<^verbatim>\<open>src/api/client.ts\<close>: the request built for a call, what an answer or a failed transport turns
  into, and the error texts. The transport (browser \<^verbatim>\<open>fetch\<close> or the desktop HTTP plugin) and the
  server are the environment: their outcome is a value of \<open>transport\<close>. An error body is the text
  together with what \<^verbatim>\<open>JSON.parse\<close> makes of it. \<open>dash\<close> stands for the text of the one character
  beyond Latin-1 in a message (U+2014 between spaces).
\<close>

section \<open>Errors\<close>

text \<open>A thrown value: an \<^verbatim>\<open>Error\<close> with name and message, or anything else, by its \<^verbatim>\<open>String\<close> text.\<close>

datatype thrown = ThrownError string string | ThrownOther string

fun thrown_message :: "thrown \<Rightarrow> string" where
  "thrown_message (ThrownError _ m) = m"
| "thrown_message (ThrownOther m) = m"

definition isNetworkError :: "thrown \<Rightarrow> bool" where
  "isNetworkError err =
     (case err of
        ThrownOther _ \<Rightarrow> False
      | ThrownError name m \<Rightarrow>
          name = ''TypeError'' \<and> m = ''Failed to fetch'' \<or>
          includes_str ''networkerror'' (js_lower m) \<or> includes_str ''failed to fetch'' (js_lower m) \<or>
          name = ''TypeError'')"

definition isAuthError :: "string \<Rightarrow> bool" where
  "isAuthError msg \<longleftrightarrow> includes_str ''Authentication required'' msg \<or>
     includes_str ''Invalid credentials'' msg \<or> includes_str ''Unauthorized'' msg"

text \<open>\<^verbatim>\<open>/^([A-Z_]+):(.+)$/s\<close>: the code before the first colon and a non-empty rest.\<close>

definition code_letter :: "char \<Rightarrow> bool" where
  "code_letter c = (let n = char_code c in (65 \<le> n \<and> n \<le> 90) \<or> n = 95)"

definition match_code :: "string \<Rightarrow> (string \<times> string) option" where
  "match_code msg = (let code = takeWhile code_letter msg; rest = dropWhile code_letter msg in
     if code \<noteq> [] \<and> rest \<noteq> [] \<and> hd rest = CHR '':'' \<and> tl rest \<noteq> [] then Some (code, tl rest) else None)"

definition CONNECTION_ERROR :: string where "CONNECTION_ERROR = ''CONNECTION_ERROR''"

record auth_error =
  ae_code :: "string option"
  ae_message :: string

definition api_suffix :: "string \<Rightarrow> string \<Rightarrow> string" where
  "api_suffix dash base = dash @ ''API: '' @ base"

definition connection_fallback :: string where
  "connection_fallback = ''Cannot connect to the server. Check your connection.''"

definition getAuthErrorMessage :: "bool \<Rightarrow> string \<Rightarrow> string \<Rightarrow> string \<Rightarrow> auth_error" where
  "getAuthErrorMessage desktop base dash msg =
     (case match_code msg of
        Some (code, rest) \<Rightarrow>
          (let message = js_trim rest in
           if code = CONNECTION_ERROR then
             let message = (if message = [] then connection_fallback else message);
                 message = (if desktop \<and> \<not> includes_str ''API:'' message \<and> \<not> includes_str base message
                            then message @ api_suffix dash base else message)
             in \<lparr>ae_code = Some code, ae_message = message\<rparr>
           else \<lparr>ae_code = Some code, ae_message = message\<rparr>)
      | None \<Rightarrow>
          if desktop \<and> (includes_str ''fetch'' (js_lower msg) \<or> includes_str ''network'' (js_lower msg)
                        \<or> includes_str ''connection'' (js_lower msg))
          then \<lparr>ae_code = Some CONNECTION_ERROR, ae_message = msg @ api_suffix dash base\<rparr>
          else \<lparr>ae_code = None, ae_message = msg\<rparr>)"

text \<open>The parsed error payload, \<^const>\<open>None\<close> when the text is not JSON.\<close>

record api_error_body =
  eb_text :: string
  eb_json :: "(string option \<times> string option) option"

definition apiErrorMessageFromText :: "api_error_body \<Rightarrow> nat \<Rightarrow> string" where
  "apiErrorMessageFromText b status =
     (let http = ''HTTP '' @ nat_str status; fallback = or_str (Some (eb_text b)) http in
      case eb_json b of
        Some (err, code) \<Rightarrow>
          (let message = or_str err fallback in
           if truthy_str code then the code @ '':'' @ message else message)
      | None \<Rightarrow> fallback)"

section \<open>Requests\<close>

definition isLoopbackHostname :: "string \<Rightarrow> bool" where
  "isLoopbackHostname h \<longleftrightarrow> h = ''localhost'' \<or> h = ''127.0.0.1'' \<or> h = ''::1''"

text \<open>\<^verbatim>\<open>url_hostname\<close> is \<^verbatim>\<open>new URL(base).hostname\<close>, \<^const>\<open>None\<close> when the constructor throws.\<close>

definition shouldUseTauriHttpPluginForApiBase :: "(string \<Rightarrow> string option) \<Rightarrow> bool \<Rightarrow> string \<Rightarrow> bool" where
  "shouldUseTauriHttpPluginForApiBase url_hostname isDesktop apiBase \<longleftrightarrow>
     isDesktop \<and> \<not> (case url_hostname apiBase of None \<Rightarrow> False | Some h \<Rightarrow> isLoopbackHostname h)"

definition shouldBroadcastAuthFailure :: "string \<Rightarrow> bool" where
  "shouldBroadcastAuthFailure path \<longleftrightarrow>
     \<not> (path = ''/api/auth/session'' \<or> path = ''/api/auth/logout'' \<or> path = ''/api/auth/login'' \<or>
        path = ''/api/auth/register'' \<or> path = ''/api/auth/forgot-password'' \<or>
        path = ''/api/auth/reset-password'')"

record http_request =
  rq_url :: string
  rq_method :: string
  rq_headers :: "string obj"
  rq_body :: "string option"
  rq_include_cookies :: bool

definition auth_headers :: "string option \<Rightarrow> string obj \<Rightarrow> string obj" where
  "auth_headers tok hs = (if truthy_str tok then obj_put ''Authorization'' (''Bearer '' @ the tok) hs else hs)"

text \<open>\<^verbatim>\<open>body\<close> is the text \<^verbatim>\<open>JSON.stringify\<close> gives, when there is a body.\<close>

definition api_request ::
  "bool \<Rightarrow> string \<Rightarrow> string \<Rightarrow> string \<Rightarrow> string option \<Rightarrow> string option \<Rightarrow> http_request" where
  "api_request desktop base path method body tok =
     \<lparr>rq_url = base @ path, rq_method = method,
      rq_headers = auth_headers tok [(''Content-Type'', ''application/json'')],
      rq_body = body, rq_include_cookies = \<not> desktop\<rparr>"

section \<open>Answers\<close>

text \<open>
  How a request ended: no answer (with the thrown value, the text of its cause when it has one, and
  whether the deadline aborted it), the plugin could not be loaded, or an answer.
\<close>

datatype transport =
  TransportFailed thrown "string option" bool
| PluginMissing string
| Answered nat api_error_body

datatype client_effect = AuthFailure | LegalConsentRequired

definition http_ok :: "nat \<Rightarrow> bool" where
  "http_ok status \<longleftrightarrow> 200 \<le> status \<and> status \<le> 299"

definition REQUEST_TIMEOUT_MESSAGE :: string where
  "REQUEST_TIMEOUT_MESSAGE =
     ''CONNECTION_ERROR:The server did not respond in time. Check the connection and try again.''"

definition connect_failed :: string where
  "connect_failed = ''CONNECTION_ERROR:Cannot connect to the server.''"

text \<open>
  The failure text; \<^verbatim>\<open>with_cause\<close> says whether the cause is appended (\<^verbatim>\<open>apiFetch\<close>) or not
  (\<^verbatim>\<open>apiMultipartFetch\<close>).
\<close>

definition transport_error :: "bool \<Rightarrow> string \<Rightarrow> bool \<Rightarrow> thrown \<Rightarrow> string option \<Rightarrow> string" where
  "transport_error desktop base with_cause err cause =
     (let detail = thrown_message err;
          fullDetail = (if with_cause \<and> truthy_str cause then detail @ ''. '' @ the cause else detail)
      in if desktop then connect_failed @ '' (API: '' @ base @ '') '' @ fullDetail
         else if isNetworkError err then connect_failed @ '' '' @ fullDetail
         else detail)"

text \<open>
  The part after the answer, shared by \<^verbatim>\<open>apiFetch\<close> and \<^verbatim>\<open>apiMultipartFetch\<close>: on failure the
  effects and the error text. \<^verbatim>\<open>started\<close> and \<^verbatim>\<open>current\<close> are the session epochs at the start of
  the request and now.
\<close>

definition answer_effects :: "string \<Rightarrow> nat \<Rightarrow> nat \<Rightarrow> nat \<Rightarrow> client_effect list" where
  "answer_effects path started current status =
     (if status = 401 \<and> shouldBroadcastAuthFailure path \<and> started = current then [AuthFailure] else [])
     @ (if status = 428 then [LegalConsentRequired] else [])"

definition apiFetchWithin ::
  "bool \<Rightarrow> string \<Rightarrow> string \<Rightarrow> nat \<Rightarrow> nat \<Rightarrow> transport \<Rightarrow> client_effect list \<times> (string + string)" where
  "apiFetchWithin desktop base path started current t =
     (case t of
        TransportFailed err cause aborted \<Rightarrow>
          ([], Inl (if aborted then REQUEST_TIMEOUT_MESSAGE else transport_error desktop base True err cause))
      | PluginMissing m \<Rightarrow>
          ([], Inl (transport_error desktop base True
                 (ThrownError ''Error'' (''CONNECTION_ERROR:Desktop plugin could not load. '' @ m)) (Some m)))
      | Answered status b \<Rightarrow>
          if http_ok status then ([], Inr (eb_text b))
          else (answer_effects path started current status, Inl (apiErrorMessageFromText b status)))"

definition apiMultipartFetch ::
  "bool \<Rightarrow> string \<Rightarrow> string \<Rightarrow> nat \<Rightarrow> nat \<Rightarrow> transport \<Rightarrow> client_effect list \<times> (string + string)" where
  "apiMultipartFetch desktop base path started current t =
     (case t of
        TransportFailed err cause aborted \<Rightarrow>
          ([], Inl (if aborted then REQUEST_TIMEOUT_MESSAGE else transport_error desktop base False err cause))
      | PluginMissing m \<Rightarrow> ([], Inl (transport_error desktop base False (ThrownError ''Error'' m) None))
      | Answered status b \<Rightarrow>
          if http_ok status then ([], Inr (eb_text b))
          else (answer_effects path started current status, Inl (apiErrorMessageFromText b status)))"

text \<open>A download reports neither a stale session nor a transport hint of its own.\<close>

definition apiDownload :: "transport \<Rightarrow> client_effect list \<times> (string + string)" where
  "apiDownload t =
     (case t of
        TransportFailed err cause aborted \<Rightarrow>
          ([], Inl (if aborted then REQUEST_TIMEOUT_MESSAGE else thrown_message err))
      | PluginMissing m \<Rightarrow> ([], Inl m)
      | Answered status b \<Rightarrow>
          if http_ok status then ([], Inr (eb_text b))
          else (if status = 428 then [LegalConsentRequired] else [], Inl (apiErrorMessageFromText b status)))"

section \<open>Lemmas\<close>

lemma match_code_split:
  assumes "code \<noteq> []" "list_all code_letter code" "rest \<noteq> []"
  shows "match_code (code @ CHR '':'' # rest) = Some (code, rest)"
proof -
  have "\<not> code_letter (CHR '':'')" by (simp add: code_letter_def char_code_def)
  with assms have "takeWhile code_letter (code @ CHR '':'' # rest) = code"
    "dropWhile code_letter (code @ CHR '':'' # rest) = CHR '':'' # rest"
    by (simp_all add: takeWhile_append2 list_all_iff dropWhile_append2)
  with assms show ?thesis by (simp add: match_code_def Let_def)
qed

text \<open>A structured error of the server reaches the reader as its code and its message.\<close>

lemma server_error_read_back:
  assumes "eb_json b = Some (Some m, Some code)" "code \<noteq> []" "list_all code_letter code"
    and "js_trim m = m" "m \<noteq> []" "code \<noteq> CONNECTION_ERROR"
  shows "getAuthErrorMessage desktop base dash (apiErrorMessageFromText b status) =
     \<lparr>ae_code = Some code, ae_message = m\<rparr>"
  using assms match_code_split[of code m]
  by (simp add: apiErrorMessageFromText_def or_str_def getAuthErrorMessage_def Let_def)

lemma auth_failure_iff:
  "AuthFailure \<in> set (fst (apiFetchWithin desktop base path started current t)) \<longleftrightarrow>
     (\<exists>b. t = Answered 401 b) \<and> shouldBroadcastAuthFailure path \<and> started = current"
  by (auto simp: apiFetchWithin_def answer_effects_def http_ok_def split: transport.split)

end
