(* ===== verification/AuthStore.thy ===== *)
theory AuthStore
  imports WireTypes ApiClient
begin

text \<open>
  \<^verbatim>\<open>src/stores/auth.ts\<close>: the signed-in account and its session, in the browser and in the desktop
  app, with the keyring operations of \<^verbatim>\<open>src/secureStorage.ts\<close> the desktop app uses.

  An asynchronous function is cut at its \<^verbatim>\<open>await\<close>s: what runs between two of them is one step, and
  what is left to do is a task (\<open>auth_task\<close>) or, on the desktop, a job of the serial queue
  (\<open>auth_job\<close>). The outcome of an awaited call is part of the step's label. A job that only works on
  the keyring and the server is one step, since no other code looks at the keyring while the queue is
  busy but the read of a restore, which then sees the state before or after the job. Storing a new
  token is cut finer, because a sign-out or a crash can come between. \<open>aw_signed_out\<close> is a ghost: the
  last of the calls to sign in or out was one to sign out.
\<close>

section \<open>State\<close>

record legal_consent =
  lc_required :: bool
  lc_terms_version :: string
  lc_privacy_version :: string
  lc_kvkk_version :: string

datatype session_state = Idle | Loading | Ready | SessionError

record auth_state =
  au_token :: "string option"
  au_user :: "user option"
  au_loggingOut :: bool
  au_sessionState :: session_state
  au_sessionError :: "string option"
  au_legalConsent :: "legal_consent option"

definition init_auth :: auth_state where
  "init_auth = \<lparr>au_token = None, au_user = None, au_loggingOut = False, au_sessionState = Idle,
     au_sessionError = None, au_legalConsent = None\<rparr>"

datatype auth_task =
  RestoreRead nat
| RestoreFetch nat "string option"
| LogoutWeb nat

datatype store_phase = NotStarted | LegacyCleanup | Writing | Written

datatype auth_job =
  JobRetry
| JobRestoreCleanup nat
| JobSetAuth nat string user store_phase
| JobClear nat
| JobLogout nat "string option"

record auth_world =
  aw_auth :: auth_state
  aw_desktop :: bool
  aw_base :: string
  aw_dash :: string
  aw_generation :: nat
  aw_pending :: "nat option"
  aw_queue :: "auth_job list"
  aw_tasks :: "auth_task list"
  aw_keyring :: "string option"
  aw_revocations :: "string list"
  aw_tomb_server :: bool
  aw_tomb_legacy :: bool
  aw_grant :: "string option"
  aw_epoch :: nat
  aw_signed_out :: bool

definition set_auth :: "(auth_state \<Rightarrow> auth_state) \<Rightarrow> auth_world \<Rightarrow> auth_world" where
  "set_auth f w = w\<lparr>aw_auth := f (aw_auth w)\<rparr>"

definition auth_message :: "auth_world \<Rightarrow> string \<Rightarrow> string" where
  "auth_message w err = ae_message (getAuthErrorMessage (aw_desktop w) (aw_base w) (aw_dash w) err)"

definition fail_session :: "string \<Rightarrow> auth_world \<Rightarrow> auth_world" where
  "fail_session err w = set_auth (\<lambda>a. a\<lparr>au_sessionState := SessionError,
     au_sessionError := Some (auth_message w err)\<rparr>) w"

definition hasDesktopLogoutPending :: "auth_world \<Rightarrow> bool" where
  "hasDesktopLogoutPending w \<longleftrightarrow> aw_tomb_server w \<or> aw_tomb_legacy w"

definition clearDesktopLogoutPending :: "auth_world \<Rightarrow> auth_world" where
  "clearDesktopLogoutPending w = w\<lparr>aw_tomb_server := False, aw_tomb_legacy := False\<rparr>"

definition setDesktopLogoutPending :: "auth_world \<Rightarrow> auth_world" where
  "setDesktopLogoutPending w = w\<lparr>aw_tomb_server := True\<rparr>"

definition invalidate :: "auth_world \<Rightarrow> auth_world" where
  "invalidate w = w\<lparr>aw_generation := aw_generation w + 1, aw_pending := None, aw_epoch := aw_epoch w + 1\<rparr>"

definition onDesktopQueue :: "auth_job \<Rightarrow> auth_world \<Rightarrow> auth_world" where
  "onDesktopQueue j w = w\<lparr>aw_queue := aw_queue w @ [j]\<rparr>"

section \<open>Revoking tokens\<close>

definition MAX_PENDING_REVOCATIONS :: nat where "MAX_PENDING_REVOCATIONS = 5"

definition take_last :: "nat \<Rightarrow> 'a list \<Rightarrow> 'a list" where
  "take_last n xs = drop (length xs - n) xs"

text \<open>\<^verbatim>\<open>[...new Set(tokens)].slice(-MAX)\<close>.\<close>

definition setPendingRevocations :: "string list \<Rightarrow> string list" where
  "setPendingRevocations tokens = take_last MAX_PENDING_REVOCATIONS (rev (remdups (rev tokens)))"

text \<open>\<^verbatim>\<open>revoked t\<close> says whether the server accepts the revocation of \<^verbatim>\<open>t\<close> now.\<close>

definition revokeOrPark :: "(string \<Rightarrow> bool) \<Rightarrow> string \<Rightarrow> string list \<Rightarrow> string list" where
  "revokeOrPark revoked tok rs = (if revoked tok then rs else setPendingRevocations (rs @ [tok]))"

definition retryPendingRevocations :: "(string \<Rightarrow> bool) \<Rightarrow> string list \<Rightarrow> string list" where
  "retryPendingRevocations revoked rs =
     (if rs = [] then rs else setPendingRevocations (filter (\<lambda>t. \<not> revoked t) rs))"

definition cleanupDesktopSession :: "(string \<Rightarrow> bool) \<Rightarrow> bool \<Rightarrow> auth_world \<Rightarrow> auth_world" where
  "cleanupDesktopSession revoked revoke w =
     w\<lparr>aw_revocations := (if revoke \<and> truthy_str (aw_keyring w)
                           then revokeOrPark revoked (the (aw_keyring w)) (aw_revocations w)
                           else aw_revocations w),
       aw_keyring := None\<rparr>"

section \<open>Calls\<close>

definition setLegalConsent :: "legal_consent option \<Rightarrow> string \<Rightarrow> string option \<Rightarrow> auth_world \<Rightarrow> auth_world" where
  "setLegalConsent status uid tok w =
     (if map_option usr_id (au_user (aw_auth w)) = Some uid \<and> au_token (aw_auth w) = tok
      then set_auth (\<lambda>a. a\<lparr>au_legalConsent := status\<rparr>) w else w)"

definition setUser :: "user \<Rightarrow> auth_world \<Rightarrow> auth_world" where
  "setUser u w =
     (let w1 = (if map_option usr_id (au_user (aw_auth w)) \<noteq> Some (usr_id u)
                then set_auth (\<lambda>a. a\<lparr>au_legalConsent := None, au_sessionState := Idle, au_sessionError := None\<rparr>)
                       (invalidate w)
                else w)
      in set_auth (\<lambda>a. a\<lparr>au_user := Some u\<rparr>) w1)"

definition setUserStatus :: "user_status \<Rightarrow> auth_world \<Rightarrow> auth_world" where
  "setUserStatus st w = set_auth (\<lambda>a. a\<lparr>au_user := map_option (usr_status_update (\<lambda>_. st)) (au_user a)\<rparr>) w"

definition clearSession :: "auth_world \<Rightarrow> auth_world" where
  "clearSession w =
     (let w1 = (invalidate w)\<lparr>aw_grant := None, aw_signed_out := True\<rparr>;
          w2 = (if aw_desktop w1
                then onDesktopQueue (JobClear (aw_generation w1)) (setDesktopLogoutPending w1) else w1)
      in set_auth (\<lambda>a. a\<lparr>au_loggingOut := False, au_token := None, au_user := None,
           au_legalConsent := None, au_sessionState := Ready, au_sessionError := None\<rparr>) w2)"

definition logout :: "auth_world \<Rightarrow> auth_world" where
  "logout w =
     (let currentToken = au_token (aw_auth w);
          w1 = set_auth (\<lambda>a. a\<lparr>au_legalConsent := None, au_sessionState := Ready, au_sessionError := None\<rparr>)
                 ((invalidate w)\<lparr>aw_signed_out := True\<rparr>);
          request = aw_generation w1
      in if aw_desktop w1 then
           onDesktopQueue (JobLogout request currentToken)
             (set_auth (\<lambda>a. a\<lparr>au_token := None, au_user := None, au_loggingOut := True\<rparr>)
               (setDesktopLogoutPending w1))
         else (set_auth (\<lambda>a. a\<lparr>au_loggingOut := True, au_token := None, au_user := None\<rparr>) w1)
                \<lparr>aw_tasks := aw_tasks w1 @ [LogoutWeb request]\<rparr>)"

definition commit_sign_in :: "string \<Rightarrow> user \<Rightarrow> auth_world \<Rightarrow> auth_world" where
  "commit_sign_in tok u w = set_auth (\<lambda>a. a\<lparr>au_token := Some tok, au_user := Some u, au_legalConsent := None,
     au_sessionState := Idle, au_sessionError := None, au_loggingOut := False\<rparr>) w"

definition setAuth :: "string \<Rightarrow> user \<Rightarrow> auth_world \<Rightarrow> auth_world" where
  "setAuth tok u w =
     (let w1 = (invalidate w)\<lparr>aw_signed_out := False\<rparr> in
      if aw_desktop w1 then
        onDesktopQueue (JobSetAuth (aw_generation w1) tok u NotStarted)
          (set_auth (\<lambda>a. a\<lparr>au_sessionState := Loading, au_sessionError := None, au_legalConsent := None\<rparr>) w1)
      else commit_sign_in tok u w1)"

definition restoreSession :: "auth_world \<Rightarrow> auth_world" where
  "restoreSession w =
     (if aw_pending w = Some (aw_generation w) \<or> au_loggingOut (aw_auth w) then w
      else let request = aw_generation w;
               w1 = (set_auth (\<lambda>a. a\<lparr>au_sessionState := Loading, au_sessionError := None,
                       au_legalConsent := None\<rparr>) w)\<lparr>aw_pending := Some request\<rparr>;
               w2 = (if aw_desktop w1 then onDesktopQueue JobRetry w1 else w1)
        in if aw_desktop w2 \<and> hasDesktopLogoutPending w2 then onDesktopQueue (JobRestoreCleanup request) w2
           else if aw_desktop w2 \<and> au_token (aw_auth w2) = Some []
             then set_auth (\<lambda>a. a\<lparr>au_token := None, au_user := None, au_sessionState := Ready\<rparr>) w2
           else if aw_desktop w2 \<and> au_token (aw_auth w2) = None
             then w2\<lparr>aw_tasks := aw_tasks w2 @ [RestoreRead request]\<rparr>
           else w2\<lparr>aw_tasks := aw_tasks w2 @
                    [RestoreFetch request (if aw_desktop w2 then au_token (aw_auth w2) else None)]\<rparr>)"

section \<open>Continuations of a restore\<close>

text \<open>The \<^verbatim>\<open>finally\<close> and the \<^verbatim>\<open>catch\<close> of a restore.\<close>

definition end_restore :: "nat \<Rightarrow> auth_world \<Rightarrow> auth_world" where
  "end_restore request w = (if aw_pending w = Some request then w\<lparr>aw_pending := None\<rparr> else w)"

definition restore_failed :: "nat \<Rightarrow> string \<Rightarrow> auth_world \<Rightarrow> auth_world" where
  "restore_failed request err w =
     end_restore request
       (if request \<noteq> aw_generation w then w
        else if isAuthError err then clearSession w
        else fail_session err w)"

text \<open>The keyring read finished: a token, no token, or an error.\<close>

definition restore_read :: "nat \<Rightarrow> string + string option \<Rightarrow> auth_world \<Rightarrow> auth_world" where
  "restore_read request r w =
     (case r of
        Inl err \<Rightarrow> restore_failed request err w
      | Inr tok \<Rightarrow>
          if request \<noteq> aw_generation w then end_restore request w
          else if \<not> truthy_str tok then
            end_restore request (set_auth (\<lambda>a. a\<lparr>au_token := None, au_user := None, au_sessionState := Ready\<rparr>) w)
          else w\<lparr>aw_tasks := aw_tasks w @ [RestoreFetch request tok]\<rparr>)"

record session_response =
  sr_user :: user
  sr_consent :: "legal_consent option"
  sr_grant :: "string option"

definition no_consent_error :: string where
  "no_consent_error = ''The server did not return session document status.''"

definition restore_fetched :: "nat \<Rightarrow> string option \<Rightarrow> string + session_response \<Rightarrow> auth_world \<Rightarrow> auth_world" where
  "restore_fetched request tok r w =
     (case r of
        Inl err \<Rightarrow> restore_failed request err w
      | Inr sr \<Rightarrow>
          if request \<noteq> aw_generation w then end_restore request w
          else if sr_consent sr = None then restore_failed request no_consent_error w
          else end_restore request
            (set_auth (\<lambda>a. a\<lparr>au_token := tok, au_user := Some (sr_user sr), au_legalConsent := sr_consent sr,
                au_sessionState := Ready, au_sessionError := None\<rparr>)
              (w\<lparr>aw_grant := (if truthy_str (sr_grant sr) then sr_grant sr else None)\<rparr>)))"

definition logout_web_done :: "nat \<Rightarrow> auth_world \<Rightarrow> auth_world" where
  "logout_web_done request w =
     (if request = aw_generation w then set_auth (\<lambda>a. a\<lparr>au_loggingOut := False\<rparr>) w else w)"

section \<open>The desktop queue\<close>

text \<open>
  The first job finishes, or fails with the error of the keyring. A failing job may have parked or
  revoked the token before the keyring refused to delete it; the keyring keeps its content.
\<close>

definition cancelled :: string where "cancelled = ''Sign-in was cancelled. Please try again.''"

definition set_auth_failed :: "nat \<Rightarrow> string \<Rightarrow> auth_world \<Rightarrow> auth_world" where
  "set_auth_failed request err w =
     (if request = aw_generation w
      then fail_session err (set_auth (\<lambda>a. a\<lparr>au_token := None, au_user := None\<rparr>) w) else w)"

definition write_token :: "auth_job list \<Rightarrow> nat \<Rightarrow> string \<Rightarrow> user \<Rightarrow> auth_world \<Rightarrow> auth_world" where
  "write_token rest request tok u w =
     (setDesktopLogoutPending w)\<lparr>aw_queue := JobSetAuth request tok u Writing # rest\<rparr>"

fun run_job :: "(string \<Rightarrow> bool) \<Rightarrow> auth_job \<Rightarrow> auth_job list \<Rightarrow> auth_world \<Rightarrow> auth_world" where
  "run_job revoked JobRetry rest w =
     w\<lparr>aw_queue := rest, aw_revocations := retryPendingRevocations revoked (aw_revocations w)\<rparr>"
| "run_job revoked (JobRestoreCleanup request) rest w =
     (let w1 = (cleanupDesktopSession revoked True w)\<lparr>aw_queue := rest\<rparr> in
      end_restore request
        (if request = aw_generation w1 then
           set_auth (\<lambda>a. a\<lparr>au_token := None, au_user := None, au_sessionState := Ready, au_sessionError := None\<rparr>)
             (clearDesktopLogoutPending w1)
         else w1))"
| "run_job revoked (JobSetAuth request tok u NotStarted) rest w =
     (if request \<noteq> aw_generation w then set_auth_failed request cancelled (w\<lparr>aw_queue := rest\<rparr>)
      else if aw_tomb_legacy w then w\<lparr>aw_queue := JobSetAuth request tok u LegacyCleanup # rest\<rparr>
      else write_token rest request tok u w)"
| "run_job revoked (JobSetAuth request tok u LegacyCleanup) rest w =
     write_token rest request tok u (cleanupDesktopSession revoked True w)"
| "run_job revoked (JobSetAuth request tok u Writing) rest w =
     w\<lparr>aw_keyring := Some tok, aw_queue := JobSetAuth request tok u Written # rest\<rparr>"
| "run_job revoked (JobSetAuth request tok u Written) rest w =
     (if request \<noteq> aw_generation w then set_auth_failed request cancelled (w\<lparr>aw_queue := rest\<rparr>)
      else commit_sign_in tok u (clearDesktopLogoutPending (w\<lparr>aw_queue := rest\<rparr>)))"
| "run_job revoked (JobClear request) rest w =
     (let w1 = w\<lparr>aw_keyring := None, aw_queue := rest\<rparr> in
      if request = aw_generation w1 then clearDesktopLogoutPending w1 else w1)"
| "run_job revoked (JobLogout request cur) rest w =
     (let w1 = (if truthy_str cur then w\<lparr>aw_revocations := revokeOrPark revoked (the cur) (aw_revocations w)\<rparr> else w);
          w2 = (cleanupDesktopSession revoked False w1)\<lparr>aw_queue := rest\<rparr>
      in if request = aw_generation w2
         then set_auth (\<lambda>a. a\<lparr>au_loggingOut := False\<rparr>) (clearDesktopLogoutPending w2) else w2)"

text \<open>\<^verbatim>\<open>rs\<close> is what the failing job left of the parked tokens.\<close>

fun fail_job :: "string \<Rightarrow> string list \<Rightarrow> auth_job \<Rightarrow> auth_job list \<Rightarrow> auth_world \<Rightarrow> auth_world" where
  "fail_job err rs JobRetry rest w = w\<lparr>aw_queue := rest, aw_revocations := rs\<rparr>"
| "fail_job err rs (JobRestoreCleanup request) rest w =
     restore_failed request err (w\<lparr>aw_queue := rest, aw_revocations := rs\<rparr>)"
| "fail_job err rs (JobSetAuth request tok u ph) rest w =
     set_auth_failed request err (w\<lparr>aw_queue := rest, aw_revocations := rs\<rparr>)"
| "fail_job err rs (JobClear request) rest w =
     (let w1 = w\<lparr>aw_queue := rest\<rparr> in
      if request = aw_generation w1 then fail_session err w1 else w1)"
| "fail_job err rs (JobLogout request cur) rest w =
     (let w1 = w\<lparr>aw_queue := rest, aw_revocations := rs\<rparr> in
      if request = aw_generation w1
      then fail_session err (set_auth (\<lambda>a. a\<lparr>au_loggingOut := False\<rparr>) w1) else w1)"

text \<open>
  A job that can fail where it stands: before the keyring write of a new token has landed, or at any
  other keyring access. \<^const>\<open>Written\<close> and \<^const>\<open>NotStarted\<close> are plain code between awaits.
\<close>

fun can_fail :: "auth_job \<Rightarrow> bool" where
  "can_fail (JobSetAuth _ _ _ ph) = (ph = LegacyCleanup \<or> ph = Writing)"
| "can_fail _ = True"

section \<open>Restart and persistence\<close>

record profile_hint =
  ph_id :: string
  ph_username :: string
  ph_avatar_url :: "string option"

definition toProfileHint :: "(string option \<times> string option \<times> string option) option \<Rightarrow> profile_hint option" where
  "toProfileHint u =
     (case u of
        None \<Rightarrow> None
      | Some (i, n, av) \<Rightarrow>
          if truthy_str i \<and> truthy_str n then
            Some \<lparr>ph_id = the i, ph_username = the n, ph_avatar_url = (if truthy_str av then av else None)\<rparr>
          else None)"

definition userFromProfileHint :: "(string option \<times> string option \<times> string option) option \<Rightarrow> user option" where
  "userFromProfileHint u = map_option (\<lambda>h. \<lparr>usr_id = ph_id h, usr_created_at = None,
     usr_username = ph_username h, usr_email = [], usr_email_verified = False,
     usr_avatar_url = ph_avatar_url h, usr_about_me = None, usr_status = Offline, usr_dm_privacy = None,
     usr_google_connected = None, usr_has_password = None, usr_username_changed_at = None\<rparr>) (toProfileHint u)"

definition hint_of_user :: "user option \<Rightarrow> profile_hint option" where
  "hint_of_user u = toProfileHint (map_option (\<lambda>x. (Some (usr_id x), Some (usr_username x), usr_avatar_url x)) u)"

text \<open>
  The app is closed or crashes and starts again: memory is lost, the keyring and the tombstones stay,
  and the stored profile hint becomes the placeholder account.
\<close>

definition restart :: "(string option \<times> string option \<times> string option) option \<Rightarrow> auth_world \<Rightarrow> auth_world" where
  "restart stored w = w\<lparr>aw_auth := init_auth\<lparr>au_user := userFromProfileHint stored\<rparr>, aw_generation := 0,
     aw_pending := None, aw_queue := [], aw_tasks := [], aw_grant := None, aw_epoch := 0\<rparr>"

text \<open>
  The first start: the keyring and the tombstone without a server may be left by an earlier version.
\<close>

definition init_auth_world :: "bool \<Rightarrow> string \<Rightarrow> string \<Rightarrow> string option \<Rightarrow> bool \<Rightarrow> auth_world" where
  "init_auth_world desktop base dash keyring legacy = \<lparr>aw_auth = init_auth, aw_desktop = desktop,
     aw_base = base, aw_dash = dash, aw_generation = 0, aw_pending = None, aw_queue = [], aw_tasks = [],
     aw_keyring = (if desktop then keyring else None), aw_revocations = [], aw_tomb_server = False, aw_tomb_legacy = legacy,
     aw_grant = None, aw_epoch = 0, aw_signed_out = legacy\<rparr>"

section \<open>Steps\<close>

inductive auth_step :: "auth_world \<Rightarrow> auth_world \<Rightarrow> bool" where
  call_restore: "auth_step w (restoreSession w)"
| call_consent: "auth_step w (setLegalConsent c i t w)"
| call_set_auth: "auth_step w (setAuth t u w)"
| call_set_user: "auth_step w (setUser u w)"
| call_set_status: "auth_step w (setUserStatus st w)"
| call_clear: "auth_step w (clearSession w)"
| call_logout: "auth_step w (logout w)"
| read_done: "aw_tasks w = xs @ RestoreRead g # ys \<Longrightarrow> r = Inr (aw_keyring w) \<or> (\<exists>e. r = Inl e) \<Longrightarrow>
     auth_step w (restore_read g r (w\<lparr>aw_tasks := xs @ ys\<rparr>))"
| fetch_done: "aw_tasks w = xs @ RestoreFetch g t # ys \<Longrightarrow>
     auth_step w (restore_fetched g t r (w\<lparr>aw_tasks := xs @ ys\<rparr>))"
| logout_done: "aw_tasks w = xs @ LogoutWeb g # ys \<Longrightarrow>
     auth_step w (logout_web_done g (w\<lparr>aw_tasks := xs @ ys\<rparr>))"
| job_done: "aw_queue w = j # rest \<Longrightarrow> auth_step w (run_job revoked j rest w)"
| job_failed: "aw_queue w = j # rest \<Longrightarrow> can_fail j \<Longrightarrow> auth_step w (fail_job e rs j rest w)"
| app_restarts: "auth_step w (restart stored w)"

inductive auth_reachable :: "auth_world \<Rightarrow> bool" where
  auth_start: "auth_reachable (init_auth_world d b dash kr legacy)"
| auth_next: "auth_reachable w \<Longrightarrow> auth_step w w' \<Longrightarrow> auth_reachable w'"

end
