(* ===== verification/AuthLaws.thy ===== *)
theory AuthLaws
  imports AuthStore
begin

text \<open>
  The sign-out guarantee of the session store: the invariant that ties generations, the desktop queue,
  the keyring and the logout tombstones, kept by every step including a crash and restart.
\<close>

section \<open>Invariant\<close>

text \<open>Jobs and tasks of a generation up to, or other than, the given one.\<close>

fun job_upto :: "nat \<Rightarrow> auth_job \<Rightarrow> bool" where
  "job_upto n (JobSetAuth g _ _ _) = (g \<le> n)"
| "job_upto n _ = True"

fun job_stale :: "nat \<Rightarrow> auth_job \<Rightarrow> bool" where
  "job_stale n (JobSetAuth g _ _ _) = (g \<noteq> n)"
| "job_stale n _ = True"

fun task_upto :: "nat \<Rightarrow> auth_task \<Rightarrow> bool" where
  "task_upto n (RestoreRead g) = (g \<le> n)"
| "task_upto n (RestoreFetch g _) = (g \<le> n)"
| "task_upto n (LogoutWeb _) = True"

text \<open>A restore that could still bring a stored token back, unless the keyring is empty.\<close>

fun task_stale :: "bool \<Rightarrow> nat \<Rightarrow> auth_task \<Rightarrow> bool" where
  "task_stale tomb n (RestoreRead g) = (g = n \<longrightarrow> \<not> tomb)"
| "task_stale tomb n (RestoreFetch g t) = (g = n \<longrightarrow> t = None)"
| "task_stale tomb n (LogoutWeb _) = True"

fun started :: "auth_job \<Rightarrow> bool" where
  "started (JobSetAuth _ _ _ ph) = (ph \<noteq> NotStarted)"
| "started _ = False"

definition queue_ok :: "auth_world \<Rightarrow> bool" where
  "queue_ok w \<longleftrightarrow> list_all (job_upto (aw_generation w)) (aw_queue w) \<and>
     list_all (\<lambda>k. \<not> started k) (tl (aw_queue w)) \<and>
     (aw_queue w \<noteq> [] \<and> started (hd (aw_queue w)) \<longrightarrow> hasDesktopLogoutPending w)"

definition out_ok :: "auth_world \<Rightarrow> bool" where
  "out_ok w \<longleftrightarrow> au_token (aw_auth w) = None \<and>
     list_all (task_stale (hasDesktopLogoutPending w) (aw_generation w)) (aw_tasks w) \<and>
     list_all (job_stale (aw_generation w)) (aw_queue w) \<and>
     (\<not> hasDesktopLogoutPending w \<longrightarrow> aw_keyring w = None)"

definition auth_inv :: "auth_world \<Rightarrow> bool" where
  "auth_inv w \<longleftrightarrow> queue_ok w \<and> list_all (task_upto (aw_generation w)) (aw_tasks w) \<and>
     (\<not> aw_desktop w \<longrightarrow> aw_queue w = [] \<and> aw_keyring w = None) \<and>
     (aw_signed_out w \<longrightarrow> out_ok w)"

lemmas auth_inv_defs = auth_inv_def queue_ok_def out_ok_def

lemma tombs_upd [simp]:
  "hasDesktopLogoutPending (w\<lparr>aw_tasks := ts\<rparr>) = hasDesktopLogoutPending w"
  "hasDesktopLogoutPending (w\<lparr>aw_queue := q\<rparr>) = hasDesktopLogoutPending w"
  "hasDesktopLogoutPending (w\<lparr>aw_grant := g\<rparr>) = hasDesktopLogoutPending w"
  "hasDesktopLogoutPending (w\<lparr>aw_pending := p\<rparr>) = hasDesktopLogoutPending w"
  "hasDesktopLogoutPending (w\<lparr>aw_keyring := k\<rparr>) = hasDesktopLogoutPending w"
  "hasDesktopLogoutPending (w\<lparr>aw_revocations := r\<rparr>) = hasDesktopLogoutPending w"
  "hasDesktopLogoutPending (w\<lparr>aw_generation := n\<rparr>) = hasDesktopLogoutPending w"
  by (simp_all add: hasDesktopLogoutPending_def)

lemma auth_inv_init: "auth_inv (init_auth_world d b dash kr legacy)"
  by (simp add: auth_inv_defs init_auth_world_def init_auth_def hasDesktopLogoutPending_def)

lemma job_upto_Suc: "job_upto n j \<Longrightarrow> job_upto (Suc n) j \<and> job_stale (Suc n) j"
  by (cases j) auto

lemma task_upto_Suc: "task_upto n t \<Longrightarrow> task_upto (Suc n) t \<and> task_stale b (Suc n) t"
  by (cases t) auto

lemma all_upto_Suc:
  "list_all (job_upto n) js \<Longrightarrow> list_all (job_upto (Suc n)) js"
  "list_all (job_upto n) js \<Longrightarrow> list_all (job_stale (Suc n)) js"
  "list_all (task_upto n) ts \<Longrightarrow> list_all (task_upto (Suc n)) ts"
  "list_all (task_upto n) ts \<Longrightarrow> list_all (task_stale b (Suc n)) ts"
  using job_upto_Suc task_upto_Suc by (auto simp: list_all_iff)

lemma auth_inv_eq_fields:
  assumes "aw_queue w' = aw_queue w" "aw_tasks w' = aw_tasks w" "aw_generation w' = aw_generation w"
    "aw_keyring w' = aw_keyring w" "aw_tomb_server w' = aw_tomb_server w" "aw_tomb_legacy w' = aw_tomb_legacy w"
    "aw_signed_out w' = aw_signed_out w" "aw_desktop w' = aw_desktop w"
    "au_token (aw_auth w') = au_token (aw_auth w) \<or> au_token (aw_auth w') = None"
  shows "auth_inv w \<Longrightarrow> auth_inv w'"
proof -
  have tomb: "hasDesktopLogoutPending w' = hasDesktopLogoutPending w"
    by (simp add: hasDesktopLogoutPending_def assms(5,6))
  have tok: "au_token (aw_auth w) = None \<Longrightarrow> au_token (aw_auth w') = None" using assms(9) by auto
  show "auth_inv w \<Longrightarrow> auth_inv w'"
    unfolding auth_inv_def queue_ok_def out_ok_def assms(1-8) tomb using tok by simp
qed

lemma end_restore_fields [simp]:
  "aw_queue (end_restore g w) = aw_queue w" "aw_tasks (end_restore g w) = aw_tasks w"
  "aw_generation (end_restore g w) = aw_generation w" "aw_keyring (end_restore g w) = aw_keyring w"
  "aw_tomb_server (end_restore g w) = aw_tomb_server w" "aw_tomb_legacy (end_restore g w) = aw_tomb_legacy w"
  "aw_signed_out (end_restore g w) = aw_signed_out w" "aw_auth (end_restore g w) = aw_auth w"
  "aw_desktop (end_restore g w) = aw_desktop w"
  by (simp_all add: end_restore_def)

lemma tombs_kept [simp]:
  "hasDesktopLogoutPending (end_restore g w) = hasDesktopLogoutPending w"
  "hasDesktopLogoutPending (set_auth f w) = hasDesktopLogoutPending w"
  by (simp_all add: hasDesktopLogoutPending_def end_restore_def set_auth_def)

lemma auth_inv_end [simp]: "auth_inv (end_restore g w) = auth_inv w"
  by (simp add: auth_inv_def queue_ok_def out_ok_def)

lemma set_auth_fields [simp]:
  "aw_queue (set_auth f w) = aw_queue w" "aw_tasks (set_auth f w) = aw_tasks w"
  "aw_generation (set_auth f w) = aw_generation w" "aw_keyring (set_auth f w) = aw_keyring w"
  "aw_tomb_server (set_auth f w) = aw_tomb_server w" "aw_tomb_legacy (set_auth f w) = aw_tomb_legacy w"
  "aw_signed_out (set_auth f w) = aw_signed_out w" "aw_auth (set_auth f w) = f (aw_auth w)"
  "aw_desktop (set_auth f w) = aw_desktop w" "aw_pending (set_auth f w) = aw_pending w"
  by (simp_all add: set_auth_def)

lemma auth_inv_set_auth:
  "auth_inv w \<Longrightarrow> (au_token (f (aw_auth w)) = au_token (aw_auth w) \<or> au_token (f (aw_auth w)) = None) \<Longrightarrow>
   auth_inv (set_auth f w)"
  by (rule auth_inv_eq_fields[of _ w]) simp_all

lemma auth_inv_fail [simp]: "auth_inv w \<Longrightarrow> auth_inv (fail_session e w)"
  unfolding fail_session_def by (rule auth_inv_set_auth) simp_all

lemma auth_inv_fail_set_auth: "auth_inv w \<Longrightarrow> auth_inv (set_auth_failed g e w)"
  unfolding set_auth_failed_def by (auto intro!: auth_inv_fail auth_inv_set_auth)

text \<open>A new generation makes everything under way stale.\<close>

lemma auth_inv_bump:
  assumes "auth_inv w" and "aw_generation w' = Suc (aw_generation w)" and "aw_tasks w' = aw_tasks w @ ts"
    and "aw_queue w' = aw_queue w @ js" and "aw_keyring w' = aw_keyring w" and "aw_desktop w' = aw_desktop w"
    and "list_all (\<lambda>t. task_upto (Suc (aw_generation w)) t \<and> (aw_signed_out w' \<longrightarrow> task_stale (hasDesktopLogoutPending w') (Suc (aw_generation w)) t)) ts"
    and "list_all (\<lambda>j. \<not> started j \<and> job_upto (Suc (aw_generation w)) j \<and>
       (aw_signed_out w' \<longrightarrow> job_stale (Suc (aw_generation w)) j)) js"
    and "hasDesktopLogoutPending w \<longrightarrow> hasDesktopLogoutPending w'"
    and "\<not> aw_desktop w \<longrightarrow> js = []"
    and "aw_signed_out w' \<longrightarrow> au_token (aw_auth w') = None \<and>
      (hasDesktopLogoutPending w' \<or> \<not> aw_desktop w \<or> aw_signed_out w)"
  shows "auth_inv w'"
proof -
  note up = all_upto_Suc[of "aw_generation w"]
  have q: "list_all (job_upto (aw_generation w)) (aw_queue w)" "list_all (task_upto (aw_generation w)) (aw_tasks w)"
    using assms(1) by (simp_all add: auth_inv_def queue_ok_def)
  have split: "list_all (\<lambda>t. P t \<and> (b \<longrightarrow> Q t)) xs \<longleftrightarrow> list_all P xs \<and> (b \<longrightarrow> list_all Q xs)" for P Q b and xs :: "'z list"
    by (auto simp: list_all_iff)
  have "queue_ok w'"
    using assms(1,4,8,9) up(1)[OF q(1)]
    by (cases "aw_queue w"; cases js) (auto simp: queue_ok_def auth_inv_def assms(2) list_all_iff)
  moreover have "out_ok w'" if "aw_signed_out w'"
    using that assms(1,5,7-11) up(2)[OF q(1)] up(4)[OF q(2)]
    by (auto simp: out_ok_def assms(2-4) auth_inv_def list_all_iff)
  ultimately show ?thesis
    using assms(1,5,6,7,10) up(3)[OF q(2)]
    by (auto simp: auth_inv_def assms(2-4) list_all_iff)
qed

lemma auth_inv_clear: "auth_inv w \<Longrightarrow> auth_inv (clearSession w)"
  by (rule auth_inv_bump[of w _ "[]" "if aw_desktop w then [JobClear (Suc (aw_generation w))] else []"])
    (simp_all add: clearSession_def Let_def invalidate_def onDesktopQueue_def
      setDesktopLogoutPending_def hasDesktopLogoutPending_def)

lemma auth_inv_logout: "auth_inv w \<Longrightarrow> auth_inv (logout w)"
  by (rule auth_inv_bump[of w _ "if aw_desktop w then [] else [LogoutWeb (Suc (aw_generation w))]"
        "if aw_desktop w then [JobLogout (Suc (aw_generation w)) (au_token (aw_auth w))] else []"])
    (simp_all add: logout_def Let_def invalidate_def onDesktopQueue_def set_auth_def
      setDesktopLogoutPending_def hasDesktopLogoutPending_def)

lemma auth_inv_setAuth: "auth_inv w \<Longrightarrow> auth_inv (setAuth t u w)"
  by (rule auth_inv_bump[of w _ "[]" "if aw_desktop w then [JobSetAuth (Suc (aw_generation w)) t u NotStarted] else []"])
    (simp_all add: setAuth_def Let_def invalidate_def onDesktopQueue_def set_auth_def commit_sign_in_def
      setDesktopLogoutPending_def hasDesktopLogoutPending_def)

lemma auth_inv_invalidate: "auth_inv w \<Longrightarrow> auth_inv (invalidate w)"
  by (rule auth_inv_bump[of w _ "[]" "[]"])
    (auto simp: invalidate_def hasDesktopLogoutPending_def auth_inv_def out_ok_def)

lemma auth_inv_setUser: "auth_inv w \<Longrightarrow> auth_inv (setUser u w)"
  unfolding setUser_def Let_def by (auto intro!: auth_inv_set_auth auth_inv_invalidate)

text \<open>Adding harmless jobs or one task.\<close>

fun harmless :: "auth_job \<Rightarrow> bool" where
  "harmless (JobSetAuth _ _ _ _) = False"
| "harmless _ = True"

lemma auth_inv_enqueue:
  assumes "auth_inv w" "aw_desktop w" "harmless j"
  shows "auth_inv (onDesktopQueue j w)"
  using assms by (cases "aw_queue w"; cases j) (auto simp: auth_inv_defs onDesktopQueue_def)

lemma auth_inv_task:
  assumes "auth_inv w" "task_upto (aw_generation w) t"
    and "aw_signed_out w \<Longrightarrow> task_stale (hasDesktopLogoutPending w) (aw_generation w) t"
  shows "auth_inv (w\<lparr>aw_tasks := aw_tasks w @ [t]\<rparr>)"
  using assms by (simp add: auth_inv_defs)

lemma auth_inv_pending [simp]: "auth_inv (w\<lparr>aw_pending := p\<rparr>) = auth_inv w"
  by (simp add: auth_inv_defs)

lemma auth_inv_restore:
  assumes "auth_inv w"
  shows "auth_inv (restoreSession w)"
proof (cases "aw_pending w = Some (aw_generation w) \<or> au_loggingOut (aw_auth w)")
  case True
  with assms show ?thesis by (auto simp: restoreSession_def)
next
  case False
  define w1 where "w1 = (set_auth (\<lambda>a. a\<lparr>au_sessionState := Loading, au_sessionError := None,
      au_legalConsent := None\<rparr>) w)\<lparr>aw_pending := Some (aw_generation w)\<rparr>"
  define w2 where "w2 = (if aw_desktop w1 then onDesktopQueue JobRetry w1 else w1)"
  have w1: "auth_inv w1" using assms by (simp add: w1_def auth_inv_set_auth)
  then have w2: "auth_inv w2" by (simp add: w2_def auth_inv_enqueue)
  have tok: "aw_signed_out w2 \<Longrightarrow> au_token (aw_auth w2) = None"
    using w2 by (simp add: auth_inv_def out_ok_def)
  have gen: "aw_generation w2 = aw_generation w"
    by (simp add: w2_def w1_def onDesktopQueue_def)
  have eq: "restoreSession w =
    (if aw_desktop w2 \<and> hasDesktopLogoutPending w2 then onDesktopQueue (JobRestoreCleanup (aw_generation w)) w2
     else if aw_desktop w2 \<and> au_token (aw_auth w2) = Some []
       then set_auth (\<lambda>a. a\<lparr>au_token := None, au_user := None, au_sessionState := Ready\<rparr>) w2
     else if aw_desktop w2 \<and> au_token (aw_auth w2) = None
       then w2\<lparr>aw_tasks := aw_tasks w2 @ [RestoreRead (aw_generation w)]\<rparr>
     else w2\<lparr>aw_tasks := aw_tasks w2 @
       [RestoreFetch (aw_generation w) (if aw_desktop w2 then au_token (aw_auth w2) else None)]\<rparr>)"
    unfolding restoreSession_def if_not_P[OF False] Let_def w1_def[symmetric] w2_def[symmetric] ..
  have fetch: "auth_inv (w2\<lparr>aw_tasks := aw_tasks w2 @ [RestoreFetch (aw_generation w2) t]\<rparr>)"
    if "aw_signed_out w2 \<Longrightarrow> t = None" for t
    using that by (intro auth_inv_task w2) auto
  have read: "auth_inv (w2\<lparr>aw_tasks := aw_tasks w2 @ [RestoreRead (aw_generation w2)]\<rparr>)"
    if "\<not> hasDesktopLogoutPending w2"
    using that by (intro auth_inv_task w2) auto
  consider "aw_desktop w2 \<and> hasDesktopLogoutPending w2"
    | "\<not> (aw_desktop w2 \<and> hasDesktopLogoutPending w2)" "aw_desktop w2 \<and> au_token (aw_auth w2) = Some []"
    | "\<not> (aw_desktop w2 \<and> hasDesktopLogoutPending w2)" "\<not> (aw_desktop w2 \<and> au_token (aw_auth w2) = Some [])"
      "aw_desktop w2 \<and> au_token (aw_auth w2) = None"
    | "\<not> (aw_desktop w2 \<and> hasDesktopLogoutPending w2)" "\<not> (aw_desktop w2 \<and> au_token (aw_auth w2) = Some [])"
      "\<not> (aw_desktop w2 \<and> au_token (aw_auth w2) = None)"
    by argo
  then show ?thesis
  proof cases
    case 1
    show ?thesis unfolding eq if_P[OF 1] using 1 w2 by (simp add: auth_inv_enqueue)
  next
    case 2
    show ?thesis unfolding eq if_not_P[OF 2(1)] if_P[OF 2(2)] using w2 by (simp add: auth_inv_set_auth)
  next
    case 3
    show ?thesis unfolding eq if_not_P[OF 3(1)] if_not_P[OF 3(2)] if_P[OF 3(3)] gen[symmetric]
      using 3 by (intro read) simp
  next
    case 4
    show ?thesis unfolding eq if_not_P[OF 4(1)] if_not_P[OF 4(2)] if_not_P[OF 4(3)] gen[symmetric]
      by (intro fetch) (simp add: tok)
  qed
qed

lemma restore_failed_inv: "auth_inv w \<Longrightarrow> auth_inv (restore_failed g e w)"
  by (simp add: restore_failed_def auth_inv_clear)

text \<open>Taking a task away.\<close>

lemma auth_inv_untask: "auth_inv w \<Longrightarrow> aw_tasks w = xs @ t # ys \<Longrightarrow> auth_inv (w\<lparr>aw_tasks := xs @ ys\<rparr>)"
  by (simp add: auth_inv_defs)

lemma auth_inv_read:
  assumes w: "auth_inv w" and t: "aw_tasks w = xs @ RestoreRead g # ys"
    and r: "r = Inr (aw_keyring w) \<or> (\<exists>e. r = Inl e)"
  shows "auth_inv (restore_read g r (w\<lparr>aw_tasks := xs @ ys\<rparr>))"
proof -
  define w1 where "w1 = w\<lparr>aw_tasks := xs @ ys\<rparr>"
  have w1: "auth_inv w1" using auth_inv_untask[OF w t] by (simp add: w1_def)
  show ?thesis
  proof (cases r)
    case (Inl e)
    with w1 show ?thesis by (simp add: restore_read_def w1_def[symmetric] restore_failed_inv)
  next
    case (Inr tok)
    with r have tok: "tok = aw_keyring w1" by (simp add: w1_def)
    have "aw_keyring w1 = None" if "aw_signed_out w1" "g = aw_generation w1"
      using w t that by (auto simp: auth_inv_def out_ok_def w1_def)
    moreover have "g \<le> aw_generation w1" using w t by (simp add: auth_inv_def w1_def)
    ultimately have "auth_inv (w1\<lparr>aw_tasks := aw_tasks w1 @ [RestoreFetch g tok]\<rparr>)" if "g = aw_generation w1"
      using w1 that by (auto simp: tok auth_inv_defs)
    with w1 show ?thesis
      by (auto simp: Inr restore_read_def w1_def[symmetric] intro!: auth_inv_set_auth)
  qed
qed

lemma auth_inv_fetched:
  assumes w: "auth_inv w" and t: "aw_tasks w = xs @ RestoreFetch g tok # ys"
  shows "auth_inv (restore_fetched g tok r (w\<lparr>aw_tasks := xs @ ys\<rparr>))"
proof -
  define w1 where "w1 = w\<lparr>aw_tasks := xs @ ys\<rparr>"
  have w1: "auth_inv w1" using auth_inv_untask[OF w t] by (simp add: w1_def)
  have "tok = None" if "aw_signed_out w1" "g = aw_generation w1"
    using w t that by (auto simp: auth_inv_def out_ok_def w1_def)
  then have "auth_inv (set_auth f (w1\<lparr>aw_grant := gr\<rparr>))"
    if "g = aw_generation w1" "au_token (f (aw_auth w1)) = tok" for f gr
    using w1 that by (auto simp: auth_inv_defs)
  with w1 show ?thesis
    by (auto simp: restore_fetched_def w1_def[symmetric] restore_failed_inv split: sum.split)
qed

text \<open>The head of the queue is done: what is left of the queue has nothing started.\<close>

lemma queue_tail:
  assumes "auth_inv w" "aw_queue w = j # rest"
  shows "list_all (job_upto (aw_generation w)) rest" "list_all (\<lambda>k. \<not> started k) rest"
    "aw_desktop w" "aw_signed_out w \<Longrightarrow> list_all (job_stale (aw_generation w)) rest"
    "started j \<Longrightarrow> hasDesktopLogoutPending w" "job_upto (aw_generation w) j"
    "aw_signed_out w \<Longrightarrow> job_stale (aw_generation w) j"
  using assms by (auto simp: auth_inv_defs)

lemma not_started_tl: "list_all (\<lambda>k. \<not> started k) q \<Longrightarrow> list_all (\<lambda>k. \<not> started k) (tl q) \<and>
    (q \<noteq> [] \<longrightarrow> \<not> started (hd q))"
  by (cases q) auto

lemma auth_inv_pop:
  assumes "auth_inv w" "aw_queue w = j # rest"
  shows "auth_inv (w\<lparr>aw_queue := rest\<rparr>)"
  using assms not_started_tl[OF queue_tail(2)[OF assms]] by (auto simp: auth_inv_defs)

lemma auth_inv_revocations [simp]: "auth_inv (w\<lparr>aw_revocations := rs\<rparr>) = auth_inv w"
  by (simp add: auth_inv_defs)

lemma auth_inv_no_key: "auth_inv w \<Longrightarrow> auth_inv (w\<lparr>aw_keyring := None\<rparr>)"
  by (simp add: auth_inv_defs)

lemma task_stale_False: "task_stale b n t \<Longrightarrow> task_stale False n t"
  by (cases t) auto

lemma hasPending_clear [simp]: "\<not> hasDesktopLogoutPending (clearDesktopLogoutPending w)"
  by (simp add: hasDesktopLogoutPending_def clearDesktopLogoutPending_def)

lemma clear_tombs_fields [simp]:
  "aw_queue (clearDesktopLogoutPending w) = aw_queue w" "aw_tasks (clearDesktopLogoutPending w) = aw_tasks w"
  "aw_generation (clearDesktopLogoutPending w) = aw_generation w" "aw_keyring (clearDesktopLogoutPending w) = aw_keyring w"
  "aw_signed_out (clearDesktopLogoutPending w) = aw_signed_out w" "aw_auth (clearDesktopLogoutPending w) = aw_auth w"
  "aw_desktop (clearDesktopLogoutPending w) = aw_desktop w"
  by (simp_all add: clearDesktopLogoutPending_def)

text \<open>The tombstones may go once the keyring is empty or the account is signed in, and nothing is half stored.\<close>

lemma auth_inv_clear_tombs:
  assumes "auth_inv w" and "list_all (\<lambda>k. \<not> started k) (aw_queue w)"
    and "aw_signed_out w \<longrightarrow> aw_keyring w = None"
  shows "auth_inv (clearDesktopLogoutPending w)"
proof -
  have "list_all (task_stale False (aw_generation w)) (aw_tasks w)" if "aw_signed_out w"
    using assms(1) that task_stale_False by (auto simp: auth_inv_defs list_all_iff)
  then show ?thesis
    using assms not_started_tl[OF assms(2)] by (auto simp: auth_inv_defs)
qed

lemma auth_inv_write:
  assumes w: "auth_inv w" and q: "aw_queue w = JobSetAuth g t u ph # rest"
    and "aw_signed_out w \<Longrightarrow> hasDesktopLogoutPending w"
  shows "auth_inv (write_token rest g t u w)"
  using w q assms(3) queue_tail(2)[OF w q]
  by (auto simp: auth_inv_defs write_token_def setDesktopLogoutPending_def hasDesktopLogoutPending_def)

lemma auth_inv_job:
  assumes w: "auth_inv w" and q: "aw_queue w = j # rest"
  shows "auth_inv (run_job revoked j rest w)"
proof -
  note tail = queue_tail[OF w q] and pop = auth_inv_pop[OF w q]
  show ?thesis
  proof (cases j)
    case JobRetry
    with pop show ?thesis by (simp add: auth_inv_defs)
  next
    case (JobRestoreCleanup g)
    define w1 where "w1 = (cleanupDesktopSession revoked True w)\<lparr>aw_queue := rest\<rparr>"
    have w1: "auth_inv w1" "aw_keyring w1 = None" "aw_queue w1 = rest"
      using pop unfolding w1_def by (auto simp: auth_inv_defs cleanupDesktopSession_def)
    then have "auth_inv (clearDesktopLogoutPending w1)"
      using tail(2) by (intro auth_inv_clear_tombs) auto
    with w1 show ?thesis
      by (simp add: JobRestoreCleanup w1_def[symmetric] auth_inv_set_auth)
  next
    case (JobSetAuth g t u ph)
    note q' = q[unfolded JobSetAuth]
    show ?thesis
    proof (cases ph)
      case NotStarted
      have out: "g = aw_generation w \<Longrightarrow> \<not> aw_signed_out w"
        using tail(7) by (auto simp: JobSetAuth)
      have legacy: "auth_inv (w\<lparr>aw_queue := JobSetAuth g t u LegacyCleanup # rest\<rparr>)"
        if "aw_tomb_legacy w" "g = aw_generation w"
        using w q' that tail out by (auto simp: auth_inv_defs hasDesktopLogoutPending_def)
      show ?thesis
        using pop legacy out auth_inv_write[OF w q'] by (auto simp: JobSetAuth NotStarted auth_inv_fail_set_auth)
    next
      case LegacyCleanup
      have "hasDesktopLogoutPending w" using tail(5) by (simp add: JobSetAuth LegacyCleanup)
      moreover have "auth_inv (cleanupDesktopSession revoked True w)"
        using w by (auto simp: auth_inv_defs cleanupDesktopSession_def)
      ultimately show ?thesis
        using q' by (auto simp: JobSetAuth LegacyCleanup cleanupDesktopSession_def intro!: auth_inv_write)
    next
      case Writing
      have "hasDesktopLogoutPending w" using tail(5) by (simp add: JobSetAuth Writing)
      with w q' show ?thesis by (auto simp: JobSetAuth Writing auth_inv_defs)
    next
      case Written
      have out: "g = aw_generation w \<Longrightarrow> \<not> aw_signed_out w"
        using tail(7) by (auto simp: JobSetAuth)
      have "auth_inv (commit_sign_in t u (clearDesktopLogoutPending (w\<lparr>aw_queue := rest\<rparr>)))"
        if "g = aw_generation w"
      proof -
        have "auth_inv (clearDesktopLogoutPending (w\<lparr>aw_queue := rest\<rparr>))"
          using pop tail(2) out[OF that] by (intro auth_inv_clear_tombs) auto
        with out[OF that] show ?thesis by (simp add: auth_inv_defs commit_sign_in_def)
      qed
      with pop show ?thesis by (auto simp: JobSetAuth Written auth_inv_fail_set_auth)
    qed
  next
    case (JobClear g)
    define w1 where "w1 = w\<lparr>aw_keyring := None, aw_queue := rest\<rparr>"
    have w1: "auth_inv w1" "aw_keyring w1 = None" "aw_queue w1 = rest"
      using pop unfolding w1_def by (auto simp: auth_inv_defs)
    then have "auth_inv (clearDesktopLogoutPending w1)"
      using tail(2) by (intro auth_inv_clear_tombs) auto
    with w1 show ?thesis by (simp add: JobClear w1_def[symmetric] Let_def)
  next
    case (JobLogout g cur)
    define w1 where "w1 = (cleanupDesktopSession revoked False
      (if truthy_str cur then w\<lparr>aw_revocations := revokeOrPark revoked (the cur) (aw_revocations w)\<rparr> else w))
      \<lparr>aw_queue := rest\<rparr>"
    have w1: "auth_inv w1" "aw_keyring w1 = None" "aw_queue w1 = rest"
      using pop unfolding w1_def by (auto simp: auth_inv_defs cleanupDesktopSession_def)
    then have "auth_inv (clearDesktopLogoutPending w1)"
      using tail(2) by (intro auth_inv_clear_tombs) auto
    with w1 show ?thesis
      unfolding JobLogout run_job.simps Let_def w1_def[symmetric] by (simp add: auth_inv_set_auth)
  qed
qed

lemma auth_inv_job_failed:
  assumes w: "auth_inv w" and q: "aw_queue w = j # rest"
  shows "auth_inv (fail_job e rs j rest w)"
proof -
  have pop: "auth_inv (w\<lparr>aw_queue := rest\<rparr>)" "auth_inv (w\<lparr>aw_queue := rest, aw_revocations := rs\<rparr>)"
    using auth_inv_pop[OF w q] by (simp_all add: auth_inv_defs)
  then show ?thesis
    by (cases j) (auto simp: Let_def restore_failed_inv auth_inv_fail_set_auth intro!: auth_inv_fail auth_inv_set_auth)
qed

lemma auth_inv_restart: "auth_inv w \<Longrightarrow> auth_inv (restart stored w)"
  by (auto simp: auth_inv_defs restart_def hasDesktopLogoutPending_def init_auth_def)

lemma auth_inv_step: "auth_step w w' \<Longrightarrow> auth_inv w \<Longrightarrow> auth_inv w'"
proof (induction rule: auth_step.induct)
  case (logout_done w xs g ys)
  then show ?case using auth_inv_untask[OF logout_done.prems logout_done.hyps]
    by (auto simp: logout_web_done_def intro!: auth_inv_set_auth)
qed (auto simp: auth_inv_restore auth_inv_setAuth auth_inv_setUser auth_inv_clear auth_inv_logout
    auth_inv_read auth_inv_fetched auth_inv_job auth_inv_job_failed auth_inv_restart
    setLegalConsent_def setUserStatus_def intro!: auth_inv_set_auth)

lemma auth_inv_reachable: "auth_reachable w \<Longrightarrow> auth_inv w"
  by (induction rule: auth_reachable.induct) (rule auth_inv_init, rule auth_inv_step)

text \<open>
  After a sign-out no token is in memory and the keyring holds none that the next start could
  restore: it is empty or a tombstone stands beside it.
\<close>

lemma signed_out_safe:
  "auth_reachable w \<Longrightarrow> aw_signed_out w \<Longrightarrow> au_token (aw_auth w) = None \<and>
     (aw_keyring w \<noteq> None \<longrightarrow> hasDesktopLogoutPending w)"
  using auth_inv_reachable[of w] by (auto simp: auth_inv_def out_ok_def)

section \<open>Stale answers and parked tokens\<close>

lemma stale_answer_ignored:
  assumes "g \<noteq> aw_generation w"
  shows "aw_auth (restore_fetched g tok r w) = aw_auth w" "aw_auth (restore_read g r' w) = aw_auth w"
    "aw_grant (restore_fetched g tok r w) = aw_grant w" "aw_grant (restore_read g r' w) = aw_grant w"
  using assms by (simp_all add: restore_fetched_def restore_read_def restore_failed_def end_restore_def split: sum.split)

lemma take_last_length: "length (take_last n xs) \<le> n"
  by (simp add: take_last_def)

lemma set_setPendingRevocations: "set (setPendingRevocations ts) \<subseteq> set ts"
  by (auto simp: setPendingRevocations_def take_last_def dest: in_set_dropD)

lemma setPendingRevocations_all:
  "card (set ts) \<le> MAX_PENDING_REVOCATIONS \<Longrightarrow> set (setPendingRevocations ts) = set ts"
  using length_remdups_card_conv[of "rev ts"] by (simp add: setPendingRevocations_def take_last_def)

lemma setPendingRevocations_bounds:
  "distinct (setPendingRevocations ts)" "length (setPendingRevocations ts) \<le> MAX_PENDING_REVOCATIONS"
  unfolding setPendingRevocations_def by (simp add: take_last_def) (rule take_last_length)

end
