(* ===== verification/Utf16.thy ===== *)
theory Utf16
  imports JsText "HOL-Library.Word"
begin

text \<open>
  JavaScript text as UTF-16 code units, for the code that depends on code units above 255:
  \<^verbatim>\<open>Array.from(text)\<close>, white space and \<^verbatim>\<open>trim\<close>, and \<^verbatim>\<open>src/messageLength.ts\<close>.
\<close>

type_synonym utf16 = "16 word list"

definition unit_of :: "char \<Rightarrow> 16 word" where
  "unit_of c = word_of_nat (char_code c)"

definition u16 :: "string \<Rightarrow> utf16" where
  "u16 s = map unit_of s"

definition is_high_surrogate :: "16 word \<Rightarrow> bool" where
  "is_high_surrogate u \<longleftrightarrow> 0xD800 \<le> u \<and> u \<le> 0xDBFF"

definition is_low_surrogate :: "16 word \<Rightarrow> bool" where
  "is_low_surrogate u \<longleftrightarrow> 0xDC00 \<le> u \<and> u \<le> 0xDFFF"

text \<open>\<^verbatim>\<open>Array.from(text)\<close>: one string per code point; a lone surrogate stands for itself.\<close>

fun code_points :: "utf16 \<Rightarrow> utf16 list" where
  "code_points [] = []"
| "code_points [u] = [[u]]"
| "code_points (u # v # s) =
     (if is_high_surrogate u \<and> is_low_surrogate v then [u, v] # code_points s
      else [u] # code_points (v # s))"

text \<open>White space of \<^verbatim>\<open>\s\<close> and \<^verbatim>\<open>trim\<close>.\<close>

definition ws16 :: "16 word \<Rightarrow> bool" where
  "ws16 u \<longleftrightarrow> (9 \<le> u \<and> u \<le> 13) \<or> u = 32 \<or> u = 0xA0 \<or> u = 0x1680 \<or> (0x2000 \<le> u \<and> u \<le> 0x200A)
     \<or> u = 0x2028 \<or> u = 0x2029 \<or> u = 0x202F \<or> u = 0x205F \<or> u = 0x3000 \<or> u = 0xFEFF"

definition trim16 :: "utf16 \<Rightarrow> utf16" where
  "trim16 s = rev (dropWhile ws16 (rev (dropWhile ws16 s)))"

section \<open>Message length\<close>

definition MESSAGE_MAX_CHARACTERS :: int where "MESSAGE_MAX_CHARACTERS = 4000"

definition countMessageCharacters :: "utf16 \<Rightarrow> nat" where
  "countMessageCharacters s = length (code_points s)"

definition truncateMessage :: "utf16 \<Rightarrow> int \<Rightarrow> utf16" where
  "truncateMessage s limit = concat (take (nat (max 0 limit)) (code_points s))"

record reply_info =
  rp_username :: utf16
  rp_snippet :: utf16

definition NL :: "16 word" where "NL = 10"

definition replyPrefix :: "reply_info option \<Rightarrow> utf16" where
  "replyPrefix r = (case r of None \<Rightarrow> []
     | Some i \<Rightarrow> u16 ''> @'' @ rp_username i @ u16 '': '' @ rp_snippet i @ [NL, NL])"

definition messageBodyLimit :: "reply_info option \<Rightarrow> int" where
  "messageBodyLimit r = max 0 (MESSAGE_MAX_CHARACTERS - int (countMessageCharacters (replyPrefix r)))"

section \<open>Lemmas\<close>

lemma concat_code_points [simp]: "concat (code_points s) = s"
  by (induction s rule: code_points.induct) auto

lemma code_points_eq_Nil [simp]: "code_points s = [] \<longleftrightarrow> s = []"
  by (metis code_points.simps(1) concat.simps(1) concat_code_points)

text \<open>Cutting between code points never cuts a surrogate pair.\<close>

lemma code_points_take: "code_points (concat (take n (code_points s))) = take n (code_points s)"
proof (induction s arbitrary: n rule: code_points.induct)
  case (2 u)
  then show ?case by (cases n) simp_all
next
  case (3 u v s)
  show ?case
  proof (cases n)
    case (Suc m)
    show ?thesis
    proof (cases "is_high_surrogate u \<and> is_low_surrogate v")
      case True
      with 3(1)[OF True, of m] Suc show ?thesis by simp
    next
      case False
      show ?thesis
      proof (cases "take m (code_points (v # s))")
        case Nil
        with Suc False show ?thesis by simp
      next
        case (Cons w ws)
        have "prefix (concat (take m (code_points (v # s)))) (v # s)"
          by (metis append_take_drop_id concat_append concat_code_points prefixI)
        moreover have "concat (take m (code_points (v # s))) \<noteq> []"
          using 3(2)[OF False, of m] Cons by (metis code_points.simps(1) list.distinct(1))
        ultimately obtain t where t: "concat (take m (code_points (v # s))) = v # t"
          by (cases "concat (take m (code_points (v # s)))") auto
        with 3(2)[OF False, of m] Suc False show ?thesis by auto
      qed
    qed
  qed simp
qed simp

lemma code_points_truncate: "code_points (truncateMessage s n) = take (nat (max 0 n)) (code_points s)"
  unfolding truncateMessage_def by (rule code_points_take)

lemma truncate_count: "countMessageCharacters (truncateMessage s n) = min (countMessageCharacters s) (nat n)"
  by (simp add: countMessageCharacters_def code_points_truncate max_def)

lemma truncate_prefix: "prefix (truncateMessage s n) s"
  unfolding truncateMessage_def
  by (metis append_take_drop_id concat_append concat_code_points prefixI)

lemma truncate_id: "int (countMessageCharacters s) \<le> n \<Longrightarrow> truncateMessage s n = s"
  by (simp add: truncateMessage_def countMessageCharacters_def)

lemma truncate_idem: "truncateMessage (truncateMessage s n) n = truncateMessage s n"
  unfolding truncateMessage_def[of "truncateMessage s n"] code_points_truncate
  by (simp add: truncateMessage_def)

lemma count_Cons:
  "countMessageCharacters s \<le> countMessageCharacters (u # s) \<and>
   countMessageCharacters (u # s) \<le> Suc (countMessageCharacters s)"
proof (induction "length s" arbitrary: s u rule: less_induct)
  case less
  show ?case
  proof (cases s)
    case (Cons v t)
    then have "countMessageCharacters t \<le> countMessageCharacters (v # t)"
      "countMessageCharacters (v # t) \<le> Suc (countMessageCharacters t)"
      using less[of t v] by auto
    with Cons show ?thesis by (auto simp: countMessageCharacters_def)
  qed (simp add: countMessageCharacters_def)
qed

text \<open>Joining two texts may only merge characters.\<close>

lemma count_append_le: "countMessageCharacters (a @ b) \<le> countMessageCharacters a + countMessageCharacters b"
proof (induction a rule: code_points.induct)
  case (2 u)
  show ?case using count_Cons[of b u] by (simp add: countMessageCharacters_def)
next
  case (3 u v s)
  then show ?case
    by (cases "is_high_surrogate u \<and> is_low_surrogate v") (auto simp: countMessageCharacters_def)
qed (simp add: countMessageCharacters_def)

text \<open>A reply whose body is cut to the body limit fits into one message.\<close>

lemma reply_fits:
  assumes "int (countMessageCharacters (replyPrefix r)) \<le> MESSAGE_MAX_CHARACTERS"
  shows "int (countMessageCharacters (replyPrefix r @ truncateMessage body (messageBodyLimit r)))
    \<le> MESSAGE_MAX_CHARACTERS"
proof -
  have "countMessageCharacters (truncateMessage body (messageBodyLimit r)) \<le> nat (messageBodyLimit r)"
    by (simp add: truncate_count)
  then show ?thesis
    using assms count_append_le[of "replyPrefix r" "truncateMessage body (messageBodyLimit r)"]
    by (simp add: messageBodyLimit_def)
qed

text \<open>Trimming.\<close>

lemma trim16_Nil [simp]: "trim16 [] = []"
  by (simp add: trim16_def)

lemma trim16_blank: "trim16 s = [] \<longleftrightarrow> list_all ws16 s"
proof
  assume "trim16 s = []"
  then have "\<forall>x \<in> set (dropWhile ws16 s). ws16 x" by (simp add: trim16_def)
  then have "dropWhile ws16 s = []"
    by (metis hd_dropWhile hd_in_set)
  then show "list_all ws16 s" by (simp add: list_all_iff)
qed (simp add: trim16_def list_all_iff dropWhile_eq_Nil_conv[THEN iffD2])

lemma trim16_id: "s \<noteq> [] \<Longrightarrow> \<not> ws16 (hd s) \<Longrightarrow> \<not> ws16 (last s) \<Longrightarrow> trim16 s = s"
proof -
  assume a: "s \<noteq> []" "\<not> ws16 (hd s)" "\<not> ws16 (last s)"
  then have "dropWhile ws16 s = s" "dropWhile ws16 (rev s) = rev s"
    by (auto simp: dropWhile_eq_self_iff hd_rev)
  then show "trim16 s = s" by (simp add: trim16_def)
qed

lemma trim16_ends: "trim16 s \<noteq> [] \<Longrightarrow> \<not> ws16 (hd (trim16 s)) \<and> \<not> ws16 (last (trim16 s))"
proof -
  assume ne: "trim16 s \<noteq> []"
  define t where "t = dropWhile ws16 s"
  have r: "trim16 s = rev (dropWhile ws16 (rev t))" by (simp add: trim16_def t_def)
  have l: "\<not> ws16 (last (trim16 s))"
    using ne unfolding r by (metis hd_dropWhile last_rev rev_is_Nil_conv)
  obtain w where w: "t = trim16 s @ w"
    unfolding r by (metis rev_append rev_rev_ident takeWhile_dropWhile_id)
  then have "hd t = hd (trim16 s)" using ne by simp
  moreover have "t \<noteq> []" using ne w by auto
  then have "\<not> ws16 (hd t)" unfolding t_def by (rule hd_dropWhile)
  ultimately show ?thesis using l by simp
qed

lemma trim16_idem [simp]: "trim16 (trim16 s) = trim16 s"
  using trim16_id[of "trim16 s"] trim16_ends[of s] by (cases "trim16 s = []") auto

end
