(* ===== verification/MessageDrafts.thy ===== *)
theory MessageDrafts
  imports Utf16 WebStorage
begin

text \<open>
  \<^verbatim>\<open>src/messageDrafts.ts\<close>: unsent message texts, kept per account and conversation in memory and
  written to \<^verbatim>\<open>localStorage\<close> after a pause. The key of a draft is the triple whose
  \<^verbatim>\<open>JSON.stringify\<close> the code uses. A stored entry is any JSON value: one that does not have the
  shape of an entry is \<^const>\<open>None\<close>.
\<close>

datatype draft_scope = ScopeChannel | ScopeDm

type_synonym draft_key = "string \<times> draft_scope \<times> string"

record draft_entry =
  de_userId :: string
  de_scope :: draft_scope
  de_conversationId :: string
  de_text :: utf16
  de_updatedAt :: jsnum

type_synonym draft_entries = "(draft_key \<times> draft_entry option) list"

record draft_state =
  dr_cached :: "draft_entries option"
  dr_flush_pending :: bool
  dr_storage :: "draft_entries cell web_storage"

definition MESSAGE_DRAFT_STORAGE_KEY :: string where
  "MESSAGE_DRAFT_STORAGE_KEY = ''voxpery-message-drafts-v1''"

definition MESSAGE_DRAFT_TTL_MS :: real where
  "MESSAGE_DRAFT_TTL_MS = 30 * 24 * 60 * 60 * 1000"

definition MESSAGE_DRAFT_MAX_ENTRIES :: nat where "MESSAGE_DRAFT_MAX_ENTRIES = 80"

definition MESSAGE_DRAFT_MAX_LENGTH :: int where "MESSAGE_DRAFT_MAX_LENGTH = MESSAGE_MAX_CHARACTERS"

definition draftKey :: "string \<Rightarrow> draft_scope \<Rightarrow> string \<Rightarrow> draft_key" where
  "draftKey u sc c = (u, sc, c)"

definition validEntry :: "draft_entry option \<Rightarrow> bool" where
  "validEntry v = (case v of None \<Rightarrow> False | Some e \<Rightarrow> is_finite (de_updatedAt e))"

definition fin_value :: "jsnum \<Rightarrow> real" where
  "fin_value n = (case n of Fin x \<Rightarrow> x | _ \<Rightarrow> 0)"

definition entry_time :: "draft_entry option \<Rightarrow> real" where
  "entry_time v = (case v of None \<Rightarrow> 0 | Some e \<Rightarrow> fin_value (de_updatedAt e))"

definition fresh_entry :: "real \<Rightarrow> draft_entry option \<Rightarrow> bool" where
  "fresh_entry now v \<longleftrightarrow> validEntry v \<and> trim16 (de_text (the v)) \<noteq> [] \<and>
     entry_time v > now - MESSAGE_DRAFT_TTL_MS"

text \<open>\<^verbatim>\<open>sort\<close> is stable: newest first, entries of one time in their old order.\<close>

definition pruneStore :: "real \<Rightarrow> draft_entries \<Rightarrow> draft_entries" where
  "pruneStore now es =
     take MESSAGE_DRAFT_MAX_ENTRIES (sort_key (\<lambda>(k, v). - entry_time v) (filter (\<lambda>(k, v). fresh_entry now v) es))"

definition read_stored :: "real \<Rightarrow> draft_entries cell web_storage \<Rightarrow> draft_entries" where
  "read_stored now st = (case get_or_none MESSAGE_DRAFT_STORAGE_KEY st of
     Some (Parsed es) \<Rightarrow> pruneStore now es
   | _ \<Rightarrow> [])"

definition loadStore :: "real \<Rightarrow> draft_state \<Rightarrow> draft_entries \<times> draft_state" where
  "loadStore now s =
     (let es = (case dr_cached s of
          Some es \<Rightarrow> pruneStore now es
        | None \<Rightarrow> read_stored now (dr_storage s))
      in (es, s\<lparr>dr_cached := Some es\<rparr>))"

definition flushMessageDrafts :: "real \<Rightarrow> draft_state \<Rightarrow> draft_state" where
  "flushMessageDrafts now s =
     (let s1 = s\<lparr>dr_flush_pending := False\<rparr> in
      case dr_cached s1 of
        None \<Rightarrow> s1
      | Some es \<Rightarrow>
          s1\<lparr>dr_storage := try_set MESSAGE_DRAFT_STORAGE_KEY (Parsed (pruneStore now es)) (dr_storage s1)\<rparr>)"

definition scheduleFlush :: "draft_state \<Rightarrow> draft_state" where
  "scheduleFlush s = s\<lparr>dr_flush_pending := True\<rparr>"

text \<open>Another tab wrote the drafts: forget the copy in memory unless something waits to be written.\<close>

definition on_storage_event :: "draft_state \<Rightarrow> draft_state" where
  "on_storage_event s = (if dr_flush_pending s then s else s\<lparr>dr_cached := None\<rparr>)"

definition readMessageDraft ::
  "string option \<Rightarrow> draft_scope \<Rightarrow> string option \<Rightarrow> real \<Rightarrow> draft_state \<Rightarrow> utf16 \<times> draft_state" where
  "readMessageDraft u sc c now s =
     (if \<not> truthy_str u \<or> \<not> truthy_str c then ([], s)
      else case loadStore now s of (es, s1) \<Rightarrow>
        ((case obj_get es (draftKey (the u) sc (the c)) of Some (Some e) \<Rightarrow> de_text e | _ \<Rightarrow> []), s1))"

definition saveMessageDraft ::
  "string option \<Rightarrow> draft_scope \<Rightarrow> string option \<Rightarrow> utf16 \<Rightarrow> real \<Rightarrow> draft_state \<Rightarrow> draft_state" where
  "saveMessageDraft u sc c text now s =
     (if \<not> truthy_str u \<or> \<not> truthy_str c then s
      else case loadStore now s of (es, s1) \<Rightarrow>
        let key = draftKey (the u) sc (the c);
            bounded = truncateMessage text MESSAGE_DRAFT_MAX_LENGTH;
            es' = (if trim16 bounded = [] then obj_del key es
                   else obj_put key (Some \<lparr>de_userId = the u, de_scope = sc, de_conversationId = the c,
                                       de_text = bounded, de_updatedAt = Fin now\<rparr>) es)
        in scheduleFlush (s1\<lparr>dr_cached := Some (pruneStore now es')\<rparr>))"

definition clearMessageDraftIfUnchanged ::
  "string option \<Rightarrow> draft_scope \<Rightarrow> string option \<Rightarrow> utf16 \<Rightarrow> real \<Rightarrow> draft_state \<Rightarrow> draft_state" where
  "clearMessageDraftIfUnchanged u sc c expected now s =
     (if \<not> truthy_str u \<or> \<not> truthy_str c then s
      else case loadStore now s of (es, s1) \<Rightarrow>
        let key = draftKey (the u) sc (the c);
            current = (case obj_get es key of Some (Some e) \<Rightarrow> Some (de_text e) | _ \<Rightarrow> None)
        in if current \<noteq> Some (truncateMessage expected MESSAGE_DRAFT_MAX_LENGTH) then s1
           else flushMessageDrafts now (s1\<lparr>dr_cached := Some (obj_del key es)\<rparr>))"

section \<open>Pruning\<close>

definition drafts_ok :: "real \<Rightarrow> draft_entries \<Rightarrow> bool" where
  "drafts_ok now es \<longleftrightarrow> length es \<le> MESSAGE_DRAFT_MAX_ENTRIES \<and> (\<forall>(k, v) \<in> set es. fresh_entry now v) \<and>
     sorted (map (\<lambda>(k, v). - entry_time v) es)"

lemma prune_ok: "drafts_ok now (pruneStore now es)"
proof -
  define xs where "xs = sort_key (\<lambda>(k, v). - entry_time v) (filter (\<lambda>(k, v). fresh_entry now v) es)"
  have "sorted (map (\<lambda>(k, v). - entry_time v) xs)" by (simp add: xs_def)
  then have "sorted (map (\<lambda>(k, v). - entry_time v) (take MESSAGE_DRAFT_MAX_ENTRIES xs))"
    by (simp add: take_map[symmetric] sorted_wrt_take)
  moreover have "\<forall>(k, v) \<in> set (take MESSAGE_DRAFT_MAX_ENTRIES xs). fresh_entry now v"
    by (auto simp: xs_def dest!: in_set_takeD)
  ultimately show ?thesis
    by (simp add: drafts_ok_def pruneStore_def xs_def[symmetric])
qed

lemma prune_id: "drafts_ok now es \<Longrightarrow> pruneStore now es = es"
  unfolding drafts_ok_def pruneStore_def
  by (simp add: filter_True case_prod_unfold sort_key_id_if_sorted)

lemma prune_idem: "pruneStore now (pruneStore now es) = pruneStore now es"
  by (rule prune_id) (rule prune_ok)

lemma prune_subset: "set (pruneStore now es) \<subseteq> set es"
  by (auto simp: pruneStore_def dest!: in_set_takeD)

lemma obj_ok_sorted: "obj_ok es \<Longrightarrow> obj_ok (sort_key f (filter P es))"
  by (metis distinct_map_filter distinct_map mset_map mset_sort set_sort distinct_sort)

lemma obj_ok_prune: "obj_ok es \<Longrightarrow> obj_ok (pruneStore now es)"
  unfolding pruneStore_def by (metis distinct_take take_map obj_ok_sorted)

lemma get_filtered:
  "obj_ok es \<Longrightarrow> obj_get (filter (\<lambda>(k, v). P v) es) k =
     (case obj_get es k of Some v \<Rightarrow> if P v then Some v else None | None \<Rightarrow> None)"
proof (induction es)
  case (Cons e es)
  obtain k0 v0 where e: "e = (k0, v0)" by (cases e)
  with Cons.prems have "obj_get es k0 = None" by (simp add: obj_get_dom)
  with Cons show ?case by (auto simp: e)
qed simp

lemma prune_Nil [simp]: "pruneStore now [] = []"
  by (simp add: pruneStore_def)

text \<open>Below the limit pruning only drops stale entries.\<close>

lemma get_prune:
  assumes "obj_ok es" and "length es \<le> MESSAGE_DRAFT_MAX_ENTRIES"
  shows "obj_get (pruneStore now es) k =
    (case obj_get es k of Some v \<Rightarrow> if fresh_entry now v then Some v else None | None \<Rightarrow> None)"
proof -
  define ys where "ys = filter (\<lambda>(k, v). fresh_entry now v) es"
  have len: "length ys \<le> MESSAGE_DRAFT_MAX_ENTRIES"
    using assms(2) length_filter_le[of _ es] unfolding ys_def by (rule order_trans[rotated])
  have "obj_ok ys" unfolding ys_def using assms(1) by (rule distinct_map_filter)
  moreover have "obj_ok (sort_key (\<lambda>(k, v). - entry_time v) ys)"
    unfolding ys_def using assms(1) by (rule obj_ok_sorted)
  ultimately have "obj_get (pruneStore now es) = obj_get ys"
    using len unfolding pruneStore_def ys_def[symmetric] by (intro map_of_inject_set[THEN iffD2]) auto
  moreover have "obj_get ys k =
      (case obj_get es k of Some v \<Rightarrow> if fresh_entry now v then Some v else None | None \<Rightarrow> None)"
    using assms(1) get_filtered[of es "fresh_entry now" k] unfolding ys_def by simp
  ultimately show ?thesis by simp
qed

text \<open>The newest entry survives pruning.\<close>

lemma get_prune_newest:
  assumes "obj_ok es" and "obj_get es k = Some v" and "fresh_entry now v"
    and newer: "\<And>k' v'. k' \<noteq> k \<Longrightarrow> obj_get es k' = Some v' \<Longrightarrow> fresh_entry now v' \<Longrightarrow> entry_time v' < entry_time v"
  shows "obj_get (pruneStore now es) k = Some v"
proof -
  define f where "f = (\<lambda>(k :: draft_key, v). - entry_time v)"
  define ys where "ys = sort_key f (filter (\<lambda>(k, v). fresh_entry now v) es)"
  have mem: "(k, v) \<in> set ys" using assms(2,3) by (auto simp: ys_def dest: map_of_SomeD)
  have srt: "sorted (map f ys)" by (simp add: ys_def)
  obtain k0 v0 zs where ys: "ys = (k0, v0) # zs" using mem by (cases ys) auto
  have "f (k0, v0) \<le> f (k, v)" using srt mem ys by (auto simp: sorted_simps)
  then have "entry_time v \<le> entry_time v0" by (simp add: f_def)
  moreover have "(k0, v0) \<in> set ys" by (simp add: ys)
  then have "(k0, v0) \<in> set es" "fresh_entry now v0" by (auto simp: ys_def)
  then have "obj_get es k0 = Some v0" using assms(1) by simp
  ultimately have "k0 = k" using newer[of k0 v0] \<open>fresh_entry now v0\<close> by force
  with \<open>obj_get es k0 = Some v0\<close> assms(2) have "hd ys = (k, v)" by (simp add: ys)
  then show ?thesis
    unfolding pruneStore_def f_def[symmetric] ys_def[symmetric]
    by (simp add: ys MESSAGE_DRAFT_MAX_ENTRIES_def)
qed

section \<open>Reading back\<close>

definition state_ok :: "draft_state \<Rightarrow> bool" where
  "state_ok s \<longleftrightarrow> (case dr_cached s of None \<Rightarrow> True | Some es \<Rightarrow> obj_ok es) \<and>
     (case get_or_none MESSAGE_DRAFT_STORAGE_KEY (dr_storage s) of Some (Parsed es) \<Rightarrow> obj_ok es | _ \<Rightarrow> True)"

lemma load_fields: "dr_storage (snd (loadStore now s)) = dr_storage s"
  "dr_cached (snd (loadStore now s)) = Some (fst (loadStore now s))"
  by (simp_all add: loadStore_def Let_def)

lemma load_ok:
  assumes "state_ok s"
  shows "obj_ok (fst (loadStore now s))" "drafts_ok now (fst (loadStore now s))"
proof -
  have nil: "drafts_ok now []" by (simp add: drafts_ok_def)
  show "obj_ok (fst (loadStore now s))" "drafts_ok now (fst (loadStore now s))"
    using assms nil prune_ok obj_ok_prune
    by (auto simp: loadStore_def Let_def state_ok_def read_stored_def split: option.splits cell.splits)
qed

lemma load_again: "fst (loadStore now (snd (loadStore now s))) = fst (loadStore now s)"
proof -
  have "pruneStore now (read_stored now st) = read_stored now st" for st
    unfolding read_stored_def by (auto simp: prune_idem split: option.split cell.split)
  then show ?thesis
    by (simp add: loadStore_def Let_def prune_idem split: option.split)
qed

text \<open>Saving and reading a draft, when no other draft claims to be as new.\<close>

lemma save_read:
  assumes ok: "state_ok s" and "u \<noteq> []" "c \<noteq> []"
    and nonblank: "trim16 (truncateMessage text MESSAGE_DRAFT_MAX_LENGTH) \<noteq> []"
    and newer: "\<And>k v. obj_get (fst (loadStore now s)) k = Some v \<Longrightarrow> entry_time v < now"
  shows "fst (readMessageDraft (Some u) sc (Some c) now (saveMessageDraft (Some u) sc (Some c) text now s)) =
     truncateMessage text MESSAGE_DRAFT_MAX_LENGTH"
proof -
  define es where "es = fst (loadStore now s)"
  define key where "key = draftKey u sc c"
  define e where "e = Some \<lparr>de_userId = u, de_scope = sc, de_conversationId = c,
     de_text = truncateMessage text MESSAGE_DRAFT_MAX_LENGTH, de_updatedAt = Fin now\<rparr>"
  have es: "obj_ok es" using load_ok(1)[OF ok] by (simp add: es_def)
  have fresh: "fresh_entry now e"
    using nonblank by (simp add: fresh_entry_def validEntry_def entry_time_def fin_value_def e_def MESSAGE_DRAFT_TTL_MS_def)
  have time: "entry_time e = now" by (simp add: e_def entry_time_def fin_value_def)
  have got: "obj_get (pruneStore now (obj_put key e es)) key = Some e"
    using newer fresh time unfolding es_def[symmetric]
    by (intro get_prune_newest obj_ok_put es) (auto simp: obj_get_put)
  have "dr_cached (saveMessageDraft (Some u) sc (Some c) text now s) = Some (pruneStore now (obj_put key e es))"
    using assms by (simp add: saveMessageDraft_def es_def key_def e_def Let_def scheduleFlush_def split: prod.split)
  then have "fst (loadStore now (saveMessageDraft (Some u) sc (Some c) text now s)) = pruneStore now (obj_put key e es)"
    by (simp add: loadStore_def Let_def prune_idem)
  with got assms(2,3) show ?thesis
    by (simp add: readMessageDraft_def key_def[symmetric] case_prod_unfold) (simp add: e_def)
qed

text \<open>After a flush that could write, a fresh start reads the same drafts.\<close>

lemma flush_reload:
  assumes "storage_works (dr_storage s)" and "dr_cached s \<noteq> None"
  shows "fst (loadStore now ((flushMessageDrafts now s)\<lparr>dr_cached := None\<rparr>)) = fst (loadStore now s)"
proof -
  obtain es where es: "dr_cached s = Some es" using assms(2) by auto
  have "get_or_none MESSAGE_DRAFT_STORAGE_KEY (dr_storage (flushMessageDrafts now s)) = Some (Parsed (pruneStore now es))"
    using assms(1) es by (simp add: flushMessageDrafts_def Let_def get_or_none_try_set)
  then show ?thesis
    by (simp add: loadStore_def Let_def read_stored_def es prune_idem)
qed

end
