(* ===== verification/MessageResilience.thy ===== *)
theory MessageResilience
  imports WireTypes
begin

text \<open>
  \<^verbatim>\<open>src/messageResilience.ts\<close>: how a page from the server and the messages the client has not got
  confirmed are brought together. \<^verbatim>\<open>parse\<close> is \<^verbatim>\<open>Date.parse\<close>. Attachments are compared by value,
  which is what comparing their \<^verbatim>\<open>JSON.stringify\<close> does.
\<close>

definition RECONNECT_RETRY_HINT :: string where
  "RECONNECT_RETRY_HINT = ''Connection changed while sending. Retry this message.''"

definition withoutFailedDuplicates ::
  "message list \<Rightarrow> string \<Rightarrow> attachment list option \<Rightarrow> message list" where
  "withoutFailedDuplicates messages content attachments =
     filter (\<lambda>m. \<not> (msg_client_status m = Some Failed \<and> msg_content m = content \<and>
        nullish (msg_attachments m) [] = nullish attachments [])) messages"

definition toTimestamp :: "(string \<Rightarrow> jsnum) \<Rightarrow> string \<Rightarrow> real" where
  "toTimestamp parse v = (case parse v of Fin t \<Rightarrow> t | _ \<Rightarrow> 0)"

definition msg_time :: "(string \<Rightarrow> jsnum) \<Rightarrow> message \<Rightarrow> real" where
  "msg_time parse m = toTimestamp parse (msg_created_at m)"

definition is_retryable :: "message \<Rightarrow> bool" where
  "is_retryable m \<longleftrightarrow> truthy_str (msg_client_id m) \<and> msg_client_status m \<noteq> None"

definition mark_interrupted :: "message \<Rightarrow> message" where
  "mark_interrupted m =
     (if msg_client_status m = Some Sending
      then m\<lparr>msg_client_status := Some Failed,
             msg_client_error := Some (or_str (msg_client_error m) RECONNECT_RETRY_HINT)\<rparr>
      else m)"

text \<open>\<^verbatim>\<open>sort\<close> is stable, as \<^const>\<open>sort_key\<close> is.\<close>

definition mergeRemoteWithRetryableLocals ::
  "(string \<Rightarrow> jsnum) \<Rightarrow> message list \<Rightarrow> message list \<Rightarrow> message list" where
  "mergeRemoteWithRetryableLocals parse remote local =
     sort_key (msg_time parse) (remote @ map mark_interrupted (filter is_retryable local))"

definition mergeLatestPageWithHistory ::
  "(string \<Rightarrow> jsnum) \<Rightarrow> message list \<Rightarrow> message list \<Rightarrow> message list" where
  "mergeLatestPageWithHistory parse latest cached =
     (let merged = mergeRemoteWithRetryableLocals parse latest cached in
      case latest of
        [] \<Rightarrow> merged
      | m # _ \<Rightarrow>
          if msg_id m = [] then merged
          else case find_index (\<lambda>x. msg_id x = msg_id m) cached of
            None \<Rightarrow> merged
          | Some overlap \<Rightarrow>
              if overlap = 0 then merged
              else filter (\<lambda>x. \<not> truthy_str (msg_client_id x)) (take overlap cached) @ merged)"

definition replace_id :: "message \<Rightarrow> message list \<Rightarrow> message list" where
  "replace_id confirmed ms = map (\<lambda>m. if msg_id m = msg_id confirmed then confirmed else m) ms"

definition reconcileConfirmedMessage :: "message list \<Rightarrow> string \<Rightarrow> message \<Rightarrow> message list" where
  "reconcileConfirmedMessage current clientId confirmed =
     (case (find_index (\<lambda>m. msg_id m = msg_id confirmed) current,
            find_index (\<lambda>m. msg_client_id m = Some clientId) current) of
        (Some i, Some j) \<Rightarrow>
          if i \<noteq> j then replace_id confirmed (remove_nth j current) else replace_id confirmed current
      | (Some i, None) \<Rightarrow> replace_id confirmed current
      | (None, Some j) \<Rightarrow> current[j := confirmed]
      | (None, None) \<Rightarrow> current @ [confirmed])"

section \<open>Lemmas\<close>

lemma mark_interrupted_id [simp]: "msg_id (mark_interrupted m) = msg_id m"
  "msg_content (mark_interrupted m) = msg_content m" "msg_created_at (mark_interrupted m) = msg_created_at m"
  by (simp_all add: mark_interrupted_def)

lemma mset_merge:
  "mset (mergeRemoteWithRetryableLocals parse remote local) =
     mset remote + mset (map mark_interrupted (filter is_retryable local))"
  by (simp add: mergeRemoteWithRetryableLocals_def)

lemma merge_sorted: "sorted (map (msg_time parse) (mergeRemoteWithRetryableLocals parse remote local))"
  by (simp add: mergeRemoteWithRetryableLocals_def)

text \<open>Nothing is left in the sending state unless the server itself said so, and a lost message has a hint.\<close>

lemma merge_no_sending:
  assumes "\<forall>m \<in> set remote. msg_client_status m = None"
    and "m \<in> set (mergeRemoteWithRetryableLocals parse remote local)"
  shows "msg_client_status m \<noteq> Some Sending"
  using assms by (auto simp: mergeRemoteWithRetryableLocals_def mark_interrupted_def split: if_splits)

text \<open>Messages of equal time keep their order, server messages first.\<close>

lemma merge_stable:
  "filter (\<lambda>m. msg_time parse m = t) (mergeRemoteWithRetryableLocals parse remote local) =
   filter (\<lambda>m. msg_time parse m = t) remote @
   filter (\<lambda>m. msg_time parse m = t) (map mark_interrupted (filter is_retryable local))"
  unfolding mergeRemoteWithRetryableLocals_def by (simp add: sort_key_stable)

text \<open>The history before the page is kept: every confirmed message of the cache before the overlap.\<close>

lemma history_kept:
  assumes "latest = m # ms" and "msg_id m \<noteq> []" and "cached = older @ x # rest" and "msg_id x = msg_id m"
    and "\<forall>y \<in> set older. msg_id y \<noteq> msg_id m"
  shows "mergeLatestPageWithHistory parse latest cached =
    filter (\<lambda>x. \<not> truthy_str (msg_client_id x)) older @ mergeRemoteWithRetryableLocals parse latest cached"
proof -
  have "find_index (\<lambda>x. msg_id x = msg_id m) (older @ x # rest) = Some (length older)"
    using assms(4,5) by (induction older) auto
  then show ?thesis
    using assms by (simp add: mergeLatestPageWithHistory_def Let_def)
qed

lemma replace_id_ids: "map msg_id (replace_id c ms) = map msg_id ms"
  by (auto simp: replace_id_def)

lemma in_replace_id: "m \<in> set (replace_id c ms) \<longleftrightarrow>
    (m = c \<and> msg_id c \<in> msg_id ` set ms) \<or> (m \<in> set ms \<and> msg_id m \<noteq> msg_id c)"
  unfolding replace_id_def image_iff set_map by (auto split: if_splits) metis+

lemma remove_nth_map: "map f (remove_nth i xs) = remove_nth i (map f xs)"
  by (simp add: remove_nth_def take_map drop_map)

lemma distinct_remove_nth: "distinct xs \<Longrightarrow> distinct (remove_nth i xs)"
  unfolding remove_nth_def using set_take_disj_set_drop_if_distinct[of xs i "Suc i"]
  by (simp add: Int_commute)

lemma in_remove_nth: "i < length xs \<Longrightarrow> j \<noteq> i \<Longrightarrow> j < length xs \<Longrightarrow> xs ! j \<in> set (remove_nth i xs)"
proof -
  assume i: "i < length xs" and ji: "j \<noteq> i" and j: "j < length xs"
  show ?thesis
  proof (cases "j < i")
    case True
    with j have "xs ! j \<in> set (take i xs)" by (metis in_set_conv_nth length_take min_less_iff_conj nth_take)
    then show ?thesis by (simp add: remove_nth_def)
  next
    case False
    with ji j have "xs ! j = drop (Suc i) xs ! (j - Suc i)" "j - Suc i < length (drop (Suc i) xs)" by auto
    then have "xs ! j \<in> set (drop (Suc i) xs)" by (metis nth_mem)
    then show ?thesis by (simp add: remove_nth_def)
  qed
qed

text \<open>After a confirmation the message is there exactly once, and no other id is repeated.\<close>

lemma reconcile_confirmed:
  assumes "distinct (map msg_id ms)"
  shows "distinct (map msg_id (reconcileConfirmedMessage ms cid c)) \<and>
    filter (\<lambda>m. msg_id m = msg_id c) (reconcileConfirmedMessage ms cid c) = [c]"
proof -
  let ?r = "reconcileConfirmedMessage ms cid c"
  have once: "filter (\<lambda>m. msg_id m = msg_id c) xs = [c]"
    if "distinct (map msg_id xs)" "c \<in> set xs" for xs
    using that by (induction xs) (auto simp: filter_empty_conv image_iff)
  have conf: "distinct (map msg_id (replace_id c xs)) \<and> c \<in> set (replace_id c xs)"
    if "distinct (map msg_id xs)" "msg_id c \<in> msg_id ` set xs" for xs
    using that by (simp add: replace_id_ids in_replace_id)
  have "distinct (map msg_id ?r) \<and> c \<in> set ?r"
  proof (cases "find_index (\<lambda>m. msg_id m = msg_id c) ms")
    case None
    then have new: "msg_id c \<notin> set (map msg_id ms)" by auto
    show ?thesis
    proof (cases "find_index (\<lambda>m. msg_client_id m = Some cid) ms")
      case None
      with \<open>find_index (\<lambda>m. msg_id m = msg_id c) ms = None\<close> new assms show ?thesis
        by (auto simp: reconcileConfirmedMessage_def simp del: find_index_None)
    next
      case (Some j)
      have j: "j < length ms" using find_index_Some[OF Some] by simp
      have "distinct ((map msg_id ms)[j := msg_id c])"
        using assms new j by (simp add: distinct_list_update)
      with Some \<open>find_index (\<lambda>m. msg_id m = msg_id c) ms = None\<close> j show ?thesis
        by (simp add: reconcileConfirmedMessage_def map_update set_update_memI del: find_index_None)
    qed
  next
    case (Some i)
    have i: "i < length ms" "msg_id (ms ! i) = msg_id c" using find_index_Some[OF Some] by auto
    have all: "msg_id c \<in> msg_id ` set ms" using i by (metis imageI nth_mem)
    show ?thesis
    proof (cases "find_index (\<lambda>m. msg_client_id m = Some cid) ms")
      case None
      with Some conf[OF assms all] show ?thesis by (simp add: reconcileConfirmedMessage_def del: find_index_None)
    next
      case (Some j)
      have j: "j < length ms" using find_index_Some[OF Some] by simp
      have "distinct (map msg_id (remove_nth j ms))"
        using assms by (simp add: remove_nth_map distinct_remove_nth)
      moreover have "msg_id c \<in> msg_id ` set (remove_nth j ms)" if "i \<noteq> j"
        using in_remove_nth[OF j that i(1)] i(2) by (metis imageI)
      ultimately show ?thesis
        using Some \<open>find_index (\<lambda>m. msg_id m = msg_id c) ms = Some i\<close> conf[OF assms all] conf
        by (simp add: reconcileConfirmedMessage_def)
    qed
  qed
  then show ?thesis using once by blast
qed

end
