(* ===== verification/RecencyCache.thy ===== *)
theory RecencyCache
  imports JsBase
begin

text \<open>
  The bounded caches of the client are JavaScript \<^verbatim>\<open>Map\<close>s used as recency lists: an entry that is
  written is deleted first and set again, so it moves to the end, and entries are dropped from the
  front while the map is too big. This theory has the list operations they share and the interface
  \<open>recency_cache\<close>, whose lemmas say that a cache never grows beyond its limit and that it keeps what
  was written recently enough.
\<close>

section \<open>Lists\<close>

definition last_n :: "nat \<Rightarrow> 'a list \<Rightarrow> 'a list" where
  "last_n n xs = drop (length xs - n) xs"

definition touch :: "'k \<Rightarrow> 'k list \<Rightarrow> 'k list" where
  "touch k ks = filter (\<lambda>x. x \<noteq> k) ks @ [k]"

lemma last_n_length [simp]: "length (last_n n xs) = min n (length xs)"
  by (auto simp: last_n_def)

lemma last_n_all [simp]: "length xs \<le> n \<Longrightarrow> last_n n xs = xs"
  by (simp add: last_n_def)

lemma last_n_append: "length ys \<le> n \<Longrightarrow> last_n n (xs @ ys) = last_n (n - length ys) xs @ ys"
  by (simp add: last_n_def)

lemma set_last_n: "set (last_n n xs) \<subseteq> set xs"
  by (auto simp: last_n_def dest: in_set_dropD)

lemma distinct_touch [simp]: "distinct ks \<Longrightarrow> distinct (touch k ks)"
  by (simp add: touch_def)

lemma last_n_Cons: "length xs = n \<Longrightarrow> last_n n (x # xs) = xs"
  by (simp add: last_n_def)

section \<open>Eviction from the front of a map\<close>

text \<open>\<^verbatim>\<open>while (m.size > limit) { const k = m.keys().next().value; if (!k) break; m.delete(k) }\<close>.\<close>

fun evict :: "nat \<Rightarrow> (string \<times> 'v) list \<Rightarrow> (string \<times> 'v) list" where
  "evict limit [] = []"
| "evict limit ((k, v) # m) =
     (if length ((k, v) # m) > limit then if k = [] then (k, v) # m else evict limit m else (k, v) # m)"

text \<open>\<^verbatim>\<open>m.delete(k); m.set(k, v)\<close>.\<close>

definition reinsert :: "'k \<Rightarrow> 'v \<Rightarrow> ('k \<times> 'v) list \<Rightarrow> ('k \<times> 'v) list" where
  "reinsert k v m = obj_put k v (obj_del k m)"

lemma reinsert_eq: "reinsert k v m = obj_del k m @ [(k, v)]"
  unfolding reinsert_def by (rule obj_put_after_del)

lemma keys_reinsert: "obj_keys (reinsert k v m) = touch k (obj_keys m)"
  by (simp add: reinsert_eq touch_def obj_keys_del)

lemma evict_last_n: "[] \<notin> set (obj_keys m) \<Longrightarrow> evict limit m = last_n limit m"
proof (induction m)
  case (Cons p m)
  obtain k v where p: "p = (k, v)" by (cases p)
  have "last_n limit ((k, v) # m) = last_n limit m" if "limit < length ((k, v) # m)"
    using that by (simp add: last_n_def Suc_diff_le)
  with Cons show ?case by (auto simp: p)
qed (simp add: last_n_def)

lemma get_last_n:
  assumes "obj_ok m" and "k \<in> set (obj_keys (last_n n m))"
  shows "obj_get (last_n n m) k = obj_get m k"
proof -
  define xs ys where "xs = take (length m - n) m" and "ys = drop (length m - n) m"
  have m: "m = xs @ ys" and l: "last_n n m = ys" by (simp_all add: xs_def ys_def last_n_def)
  have "k \<notin> set (obj_keys xs)"
    using assms unfolding l by (auto simp: m)
  then have "obj_get xs k = None" by (simp add: obj_get_dom)
  then show ?thesis unfolding l by (simp add: m map_add_def split: option.split)
qed

lemma obj_ok_last_n: "obj_ok m \<Longrightarrow> obj_ok (last_n n m)"
  unfolding last_n_def drop_map[symmetric] by (rule distinct_drop)

lemma keys_last_n: "obj_keys (last_n n m) = last_n n (obj_keys m)"
  by (simp add: last_n_def drop_map)

section \<open>The interface\<close>

locale recency_cache =
  fixes lookup_in :: "'k \<Rightarrow> 's \<Rightarrow> 'v option"
    and write_to :: "'k \<Rightarrow> 'v \<Rightarrow> 's \<Rightarrow> 's"
    and order_of :: "'s \<Rightarrow> 'k list"
    and wf :: "'s \<Rightarrow> bool"
    and key_ok :: "'k \<Rightarrow> bool"
    and limit :: nat
  assumes limit_pos: "0 < limit"
    and wf_write: "wf s \<Longrightarrow> key_ok k \<Longrightarrow> wf (write_to k v s)"
    and order_write: "wf s \<Longrightarrow> key_ok k \<Longrightarrow> order_of (write_to k v s) = last_n limit (touch k (order_of s))"
    and order_wf: "wf s \<Longrightarrow> distinct (order_of s) \<and> length (order_of s) \<le> limit"
    and lookup_write: "wf s \<Longrightarrow> key_ok k \<Longrightarrow> k' \<in> set (order_of (write_to k v s)) \<Longrightarrow>
      lookup_in k' (write_to k v s) = (if k' = k then Some v else lookup_in k' s)"
    and lookup_order: "wf s \<Longrightarrow> lookup_in k s = None \<longleftrightarrow> k \<notin> set (order_of s)"
begin

definition write_all :: "('k \<times> 'v) list \<Rightarrow> 's \<Rightarrow> 's" where
  "write_all kvs s = fold (\<lambda>(k, v). write_to k v) kvs s"

lemma write_all_simps [simp]: "write_all [] s = s"
  "write_all ((k, v) # kvs) s = write_all kvs (write_to k v s)"
  by (simp_all add: write_all_def)

lemma in_order_write: "wf s \<Longrightarrow> key_ok k \<Longrightarrow> k \<in> set (order_of (write_to k v s))"
  using limit_pos by (simp add: order_write touch_def last_n_append)

lemma wf_write_all: "wf s \<Longrightarrow> list_all (key_ok \<circ> fst) kvs \<Longrightarrow> wf (write_all kvs s)"
  by (induction kvs arbitrary: s) (auto simp: wf_write)

text \<open>A written entry is found at once, and the size stays within the limit.\<close>

lemma lookup_written: "wf s \<Longrightarrow> key_ok k \<Longrightarrow> lookup_in k (write_to k v s) = Some v"
  by (simp add: lookup_write in_order_write)

lemma size_bound: "wf s \<Longrightarrow> list_all (key_ok \<circ> fst) kvs \<Longrightarrow> length (order_of (write_all kvs s)) \<le> limit"
  using order_wf wf_write_all by blast

text \<open>
  An entry survives the writing of fewer than \<open>limit\<close> other keys: what stands behind it in the order
  are only keys written since.
\<close>

lemma behind_kept:
  assumes "wf s" "key_ok k'" "k' \<noteq> k" "order_of s = xs @ k # ys" "set ys \<subseteq> K" "finite K"
    "card (insert k' K) < limit" "k \<notin> K"
  shows "\<exists>xs' ys'. order_of (write_to k' v' s) = xs' @ k # ys' \<and> set ys' \<subseteq> insert k' K \<and>
    lookup_in k (write_to k' v' s) = lookup_in k s"
proof -
  define ys' where "ys' = filter (\<lambda>x. x \<noteq> k') ys @ [k']"
  have d: "distinct ys'" using order_wf[OF assms(1)] assms(4) by (auto simp: ys'_def)
  have sub: "set ys' \<subseteq> insert k' K" using assms(5) by (auto simp: ys'_def)
  then have "card (set ys') \<le> card (insert k' K)" using assms(6) by (simp add: card_mono)
  then have len: "length (k # ys') \<le> limit" using d assms(7) by (simp add: distinct_card)
  have "touch k' (order_of s) = filter (\<lambda>x. x \<noteq> k') xs @ k # ys'"
    using assms(3,4) by (simp add: touch_def ys'_def)
  then have ord: "order_of (write_to k' v' s) = last_n (limit - length (k # ys')) (filter (\<lambda>x. x \<noteq> k') xs) @ k # ys'"
    using assms(1,2) len last_n_append[of "k # ys'" limit] by (simp add: order_write)
  then have "lookup_in k (write_to k' v' s) = lookup_in k s"
    using assms(1-3) by (simp add: lookup_write)
  with ord sub show ?thesis by blast
qed

lemma kept_behind:
  assumes "wf s" "list_all (key_ok \<circ> fst) kvs" "k \<notin> fst ` set kvs" "order_of s = xs @ k # ys" "set ys \<subseteq> K"
    "finite K" "card (K \<union> fst ` set kvs) < limit" "k \<notin> K"
  shows "lookup_in k (write_all kvs s) = lookup_in k s"
  using assms
proof (induction kvs arbitrary: s K xs ys)
  case (Cons p kvs)
  obtain k' v' where p: "p = (k', v')" by (cases p)
  have sub: "insert k' K \<union> fst ` set kvs = K \<union> fst ` set (p # kvs)" by (auto simp: p)
  have "card (insert k' K) \<le> card (K \<union> fst ` set (p # kvs))"
    using Cons.prems(6) by (intro card_mono) (auto simp: p)
  with Cons.prems obtain xs' ys' where w: "order_of (write_to k' v' s) = xs' @ k # ys'"
    "set ys' \<subseteq> insert k' K" "lookup_in k (write_to k' v' s) = lookup_in k s"
    using behind_kept[of s k' k xs ys K v'] by (auto simp: p)
  have "lookup_in k (write_all kvs (write_to k' v' s)) = lookup_in k (write_to k' v' s)"
    using Cons.prems w(1,2) sub
    by (intro Cons.IH[of _ xs' ys' "insert k' K"]) (auto simp: p intro: wf_write)
  with w(3) show ?case by (simp add: p)
qed simp

lemma recently_written:
  assumes "wf s" "key_ok k" "list_all (key_ok \<circ> fst) kvs" "k \<notin> fst ` set kvs" "card (fst ` set kvs) < limit"
  shows "lookup_in k (write_all kvs (write_to k v s)) = Some v"
proof -
  have "order_of (write_to k v s) = last_n (limit - 1) (filter (\<lambda>x. x \<noteq> k) (order_of s)) @ k # []"
    using assms(1,2) limit_pos last_n_append[of "[k]" limit] by (simp add: order_write touch_def)
  then have "lookup_in k (write_all kvs (write_to k v s)) = lookup_in k (write_to k v s)"
    using assms by (intro kept_behind[where K = "{}" and ys = "[]"]) (auto intro: wf_write)
  then show ?thesis using lookup_written[OF assms(1,2)] by simp
qed

end

text \<open>The laws for a map that is written by \<^const>\<open>reinsert\<close> and cut to its last \<open>n\<close> entries.\<close>

lemma reinsert_laws:
  assumes "obj_ok m" and "0 < n"
  shows "obj_keys (last_n n (reinsert k v m)) = last_n n (touch k (obj_keys m))"
    and "obj_ok (last_n n (reinsert k v m))"
    and "length (last_n n (reinsert k v m)) \<le> n"
    and "k' \<in> set (obj_keys (last_n n (reinsert k v m))) \<Longrightarrow>
      obj_get (last_n n (reinsert k v m)) k' = (if k' = k then Some v else obj_get m k')"
proof -
  have ok: "obj_ok (reinsert k v m)" by (simp add: reinsert_def assms(1) obj_ok_put obj_ok_del)
  show "obj_keys (last_n n (reinsert k v m)) = last_n n (touch k (obj_keys m))"
    by (simp add: keys_last_n keys_reinsert)
  show "obj_ok (last_n n (reinsert k v m))" using ok by (rule obj_ok_last_n)
  show "length (last_n n (reinsert k v m)) \<le> n" by simp
  assume "k' \<in> set (obj_keys (last_n n (reinsert k v m)))"
  then show "obj_get (last_n n (reinsert k v m)) k' = (if k' = k then Some v else obj_get m k')"
    using get_last_n[OF ok] by (simp add: reinsert_def obj_get_put obj_get_del)
qed

end
