(* ===== verification/MessageCaches.thy ===== *)
theory MessageCaches
  imports RecencyCache WireTypes JsText
begin

text \<open>
  The two bounded caches of message data: the conversations of \<^verbatim>\<open>src/dmMessageCache.ts\<close> with its
  shared loads, and the resolved and decoded attachments of \<^verbatim>\<open>src/components/chatAttachmentCache.ts\<close>.
  Both provide the interface \<open>recency_cache\<close>.
\<close>

section \<open>Conversations\<close>

record dm_cache =
  dc_messages :: "message list obj"
  dc_in_flight :: "string list"

definition MAX_CACHED_CONVERSATIONS :: nat where "MAX_CACHED_CONVERSATIONS = 16"

definition cacheKey :: "string \<Rightarrow> string \<Rightarrow> string" where
  "cacheKey userId channelId = userId @ '':'' @ channelId"

definition put_conversation :: "string \<Rightarrow> message list \<Rightarrow> dm_cache \<Rightarrow> dm_cache" where
  "put_conversation key ms s = s\<lparr>dc_messages := evict MAX_CACHED_CONVERSATIONS (reinsert key ms (dc_messages s))\<rparr>"

definition getCachedDmMessages :: "string \<Rightarrow> string \<Rightarrow> dm_cache \<Rightarrow> message list option \<times> dm_cache" where
  "getCachedDmMessages u c s =
     (case obj_get (dc_messages s) (cacheKey u c) of
        None \<Rightarrow> (None, s)
      | Some cached \<Rightarrow> (Some cached, s\<lparr>dc_messages := reinsert (cacheKey u c) cached (dc_messages s)\<rparr>))"

definition setCachedDmMessages :: "string \<Rightarrow> string \<Rightarrow> message list \<Rightarrow> dm_cache \<Rightarrow> dm_cache" where
  "setCachedDmMessages u c ms s = put_conversation (cacheKey u c) ms s"

text \<open>
  A load: the call either joins the request under way or starts the loader (\<^const>\<open>True\<close>); when the
  loader ends, its rows, stripped of client fields, are stored, and the request is forgotten.
\<close>

definition strip_client :: "message \<Rightarrow> message" where
  "strip_client m = m\<lparr>msg_client_id := None, msg_client_status := None, msg_client_error := None\<rparr>"

definition loadDmMessagesOnce :: "string \<Rightarrow> string \<Rightarrow> dm_cache \<Rightarrow> bool \<times> dm_cache" where
  "loadDmMessagesOnce u c s =
     (if cacheKey u c \<in> set (dc_in_flight s) then (False, s)
      else (True, s\<lparr>dc_in_flight := dc_in_flight s @ [cacheKey u c]\<rparr>))"

definition load_finished :: "string \<Rightarrow> string \<Rightarrow> message list option \<Rightarrow> dm_cache \<Rightarrow> dm_cache" where
  "load_finished u c rows s =
     (let s1 = (case rows of None \<Rightarrow> s | Some ms \<Rightarrow> setCachedDmMessages u c (map strip_client ms) s)
      in s1\<lparr>dc_in_flight := filter (\<lambda>k. k \<noteq> cacheKey u c) (dc_in_flight s1)\<rparr>)"

text \<open>\<^verbatim>\<open>updateCachedDmMessages\<close>: writing an existing key of a \<^verbatim>\<open>Map\<close> keeps its place.\<close>

definition updateCachedDmMessages :: "string \<Rightarrow> (message list \<Rightarrow> message list) \<Rightarrow> dm_cache \<Rightarrow> dm_cache" where
  "updateCachedDmMessages u f s =
     s\<lparr>dc_messages := map (\<lambda>(k, ms). (k, if starts_with (cacheKey u []) k then f ms else ms)) (dc_messages s)\<rparr>"

definition dm_cache_ok :: "dm_cache \<Rightarrow> bool" where
  "dm_cache_ok s \<longleftrightarrow> obj_ok (dc_messages s) \<and> length (dc_messages s) \<le> MAX_CACHED_CONVERSATIONS \<and>
     [] \<notin> set (obj_keys (dc_messages s)) \<and> distinct (dc_in_flight s)"

lemma put_conversation_messages:
  assumes "dm_cache_ok s" "key \<noteq> []"
  shows "dc_messages (put_conversation key ms s) = last_n MAX_CACHED_CONVERSATIONS (reinsert key ms (dc_messages s))"
  using assms evict_last_n[of "reinsert key ms (dc_messages s)"]
  by (simp add: put_conversation_def dm_cache_ok_def keys_reinsert touch_def)

lemma dm_cache_ok_put:
  assumes "dm_cache_ok s" "key \<noteq> []"
  shows "dm_cache_ok (put_conversation key ms s)"
proof -
  have m: "obj_ok (dc_messages s)" using assms(1) by (simp add: dm_cache_ok_def)
  note laws = reinsert_laws[OF m, where n = MAX_CACHED_CONVERSATIONS and k = key and v = ms]
  have "[] \<notin> set (touch key (obj_keys (dc_messages s)))"
    using assms by (auto simp: touch_def dm_cache_ok_def)
  then have "[] \<notin> set (obj_keys (dc_messages (put_conversation key ms s)))"
    unfolding put_conversation_messages[OF assms] keys_last_n keys_reinsert using set_last_n by fastforce
  moreover have "dc_in_flight (put_conversation key ms s) = dc_in_flight s" by (simp add: put_conversation_def)
  ultimately show ?thesis
    using assms laws(2,3) unfolding dm_cache_ok_def
    by (simp add: put_conversation_messages[OF assms] MAX_CACHED_CONVERSATIONS_def)
qed

interpretation dm: recency_cache "\<lambda>k s. obj_get (dc_messages s) k" put_conversation
  "\<lambda>s. obj_keys (dc_messages s)" dm_cache_ok "\<lambda>k. k \<noteq> []" MAX_CACHED_CONVERSATIONS
proof
  show "0 < MAX_CACHED_CONVERSATIONS" by (simp add: MAX_CACHED_CONVERSATIONS_def)
  fix s :: dm_cache and k k' :: string and v :: "message list"
  assume s: "dm_cache_ok s"
  then have m: "obj_ok (dc_messages s)" by (simp add: dm_cache_ok_def)
  show "distinct (obj_keys (dc_messages s)) \<and> length (obj_keys (dc_messages s)) \<le> MAX_CACHED_CONVERSATIONS"
    using s by (simp add: dm_cache_ok_def)
  show "obj_get (dc_messages s) k = None \<longleftrightarrow> k \<notin> set (obj_keys (dc_messages s))"
    by (simp add: obj_get_dom)
  assume k: "k \<noteq> []"
  note laws = reinsert_laws[OF m, where n = MAX_CACHED_CONVERSATIONS and k = k and v = v]
  show "dm_cache_ok (put_conversation k v s)" using s k by (rule dm_cache_ok_put)
  show "obj_keys (dc_messages (put_conversation k v s)) =
      last_n MAX_CACHED_CONVERSATIONS (touch k (obj_keys (dc_messages s)))"
    unfolding put_conversation_messages[OF s k] by (rule laws(1)) (simp add: MAX_CACHED_CONVERSATIONS_def)
  assume "k' \<in> set (obj_keys (dc_messages (put_conversation k v s)))"
  then show "obj_get (dc_messages (put_conversation k v s)) k' = (if k' = k then Some v else obj_get (dc_messages s) k')"
    unfolding put_conversation_messages[OF s k]
    by (intro laws(4)) (simp_all add: MAX_CACHED_CONVERSATIONS_def)
qed

lemma cacheKey_nonempty [simp]: "cacheKey u c \<noteq> []"
  by (simp add: cacheKey_def)

lemma cacheKey_inject:
  assumes "CHR '':'' \<notin> set u" "CHR '':'' \<notin> set u'" "cacheKey u c = cacheKey u' c'"
  shows "u = u' \<and> c = c'"
proof -
  have "takeWhile (\<lambda>x. x \<noteq> CHR '':'') (cacheKey u c) = u" "takeWhile (\<lambda>x. x \<noteq> CHR '':'') (cacheKey u' c') = u'"
    using assms(1,2) unfolding cacheKey_def by (auto intro!: takeWhile_eq_all_conv[THEN iffD2] simp: takeWhile_tail)
  with assms(3) show ?thesis by (simp add: cacheKey_def)
qed

lemma in_flight_once:
  "dm_cache_ok s \<Longrightarrow> distinct (dc_in_flight (snd (loadDmMessagesOnce u c s)))"
  by (simp add: loadDmMessagesOnce_def dm_cache_ok_def)

section \<open>Attachments\<close>

record attachment_resolution =
  ar_cacheKey :: string
  ar_sourceUrl :: string
  ar_resolvedUrl :: string
  ar_loadFailed :: bool
  ar_triedDirectFallback :: bool
  ar_resolved :: bool

text \<open>\<^verbatim>\<open>ac_revoked\<close> lists the blob URLs released with \<^verbatim>\<open>URL.revokeObjectURL\<close>.\<close>

record attachment_caches =
  ac_resolutions :: "attachment_resolution obj"
  ac_decoded :: "string list"
  ac_revoked :: "string list"

definition MAX_ATTACHMENT_RESOLUTION_CACHE_ENTRIES :: nat where
  "MAX_ATTACHMENT_RESOLUTION_CACHE_ENTRIES = 160"

definition MAX_DECODED_ATTACHMENT_IMAGE_ENTRIES :: nat where
  "MAX_DECODED_ATTACHMENT_IMAGE_ENTRIES = MAX_ATTACHMENT_RESOLUTION_CACHE_ENTRIES * 2"

definition BLOB :: string where "BLOB = ''blob:''"

text \<open>The pattern \<^verbatim>\<open>/\.(apng|avif|gif|jpe?g|png|webp)$/i\<close> on the name and the path.\<close>

definition image_suffixes :: "string list" where
  "image_suffixes = [''.apng'', ''.avif'', ''.gif'', ''.jpg'', ''.jpeg'', ''.png'', ''.webp'']"

definition isImageAttachment :: "(string \<Rightarrow> string option) \<Rightarrow> attachment \<Rightarrow> bool" where
  "isImageAttachment url_pathname a =
     (if (case att_type a of None \<Rightarrow> False | Some t \<Rightarrow> starts_with ''image/'' t) then True
      else let name = nullish (att_name a) []; path = nullish (url_pathname (att_url a)) (att_url a) in
        list_ex (\<lambda>x. ends_with x (js_lower (name @ '' '' @ path))) image_suffixes)"

definition rememberDecodedAttachmentImage :: "string \<Rightarrow> attachment_caches \<Rightarrow> attachment_caches" where
  "rememberDecodedAttachmentImage url s =
     s\<lparr>ac_decoded := last_n MAX_DECODED_ATTACHMENT_IMAGE_ENTRIES (touch url (ac_decoded s))\<rparr>"

definition revokeAttachmentUrl :: "string \<Rightarrow> attachment_caches \<Rightarrow> attachment_caches" where
  "revokeAttachmentUrl url s =
     s\<lparr>ac_revoked := ac_revoked s @ [url], ac_decoded := filter (\<lambda>x. x \<noteq> url) (ac_decoded s)\<rparr>"

definition revoke_if_blob :: "string \<Rightarrow> attachment_caches \<Rightarrow> attachment_caches" where
  "revoke_if_blob url s = (if starts_with BLOB url then revokeAttachmentUrl url s else s)"

definition clearAttachmentCaches :: "attachment_caches \<Rightarrow> attachment_caches" where
  "clearAttachmentCaches s =
     (fold (\<lambda>(k, r). revoke_if_blob (ar_resolvedUrl r)) (ac_resolutions s) s)
       \<lparr>ac_resolutions := [], ac_decoded := []\<rparr>"

definition defaultAttachmentResolution :: "string \<Rightarrow> string \<Rightarrow> attachment_resolution" where
  "defaultAttachmentResolution sourceUrl key =
     \<lparr>ar_cacheKey = key, ar_sourceUrl = sourceUrl, ar_resolvedUrl = sourceUrl, ar_loadFailed = False,
      ar_triedDirectFallback = False, ar_resolved = False\<rparr>"

text \<open>The loop that drops the oldest resolutions, releasing their blob URLs.\<close>

fun evict_resolutions :: "nat \<Rightarrow> attachment_resolution obj \<Rightarrow> attachment_caches \<Rightarrow> attachment_caches" where
  "evict_resolutions limit [] s = s\<lparr>ac_resolutions := []\<rparr>"
| "evict_resolutions limit ((k, r) # m) s =
     (if length ((k, r) # m) > limit \<and> k \<noteq> []
      then evict_resolutions limit m (revoke_if_blob (ar_resolvedUrl r) s)
      else s\<lparr>ac_resolutions := (k, r) # m\<rparr>)"

definition rememberAttachmentResolution ::
  "string \<Rightarrow> attachment_resolution \<Rightarrow> attachment_caches \<Rightarrow> attachment_caches" where
  "rememberAttachmentResolution key r s =
     (let s1 = (case obj_get (ac_resolutions s) key of
          None \<Rightarrow> s
        | Some old \<Rightarrow> if starts_with BLOB (ar_resolvedUrl old) \<and> ar_resolvedUrl old \<noteq> ar_resolvedUrl r
                      then revokeAttachmentUrl (ar_resolvedUrl old) s else s)
      in evict_resolutions MAX_ATTACHMENT_RESOLUTION_CACHE_ENTRIES (reinsert key r (ac_resolutions s1)) s1)"

definition attachments_ok :: "attachment_caches \<Rightarrow> bool" where
  "attachments_ok s \<longleftrightarrow> obj_ok (ac_resolutions s) \<and> [] \<notin> set (obj_keys (ac_resolutions s)) \<and>
     length (ac_resolutions s) \<le> MAX_ATTACHMENT_RESOLUTION_CACHE_ENTRIES \<and>
     distinct (ac_decoded s) \<and> length (ac_decoded s) \<le> MAX_DECODED_ATTACHMENT_IMAGE_ENTRIES"

lemma revoke_fields [simp]: "ac_resolutions (revokeAttachmentUrl u s) = ac_resolutions s"
  "ac_resolutions (revoke_if_blob u s) = ac_resolutions s"
  by (simp_all add: revoke_if_blob_def revokeAttachmentUrl_def)

lemma evict_resolutions_map: "ac_resolutions (evict_resolutions limit m s) = evict limit m"
  by (induction limit m s rule: evict_resolutions.induct) auto

definition decoded_ok :: "attachment_caches \<Rightarrow> bool" where
  "decoded_ok s \<longleftrightarrow> distinct (ac_decoded s) \<and> length (ac_decoded s) \<le> MAX_DECODED_ATTACHMENT_IMAGE_ENTRIES"

lemma decoded_ok_revoke: "decoded_ok s \<Longrightarrow> decoded_ok (revoke_if_blob u s)" "decoded_ok s \<Longrightarrow> decoded_ok (revokeAttachmentUrl u s)"
  by (auto simp: decoded_ok_def revoke_if_blob_def revokeAttachmentUrl_def intro: order_trans[OF length_filter_le])

lemma decoded_ok_evict: "decoded_ok s \<Longrightarrow> decoded_ok (evict_resolutions limit m s)"
proof (induction limit m s rule: evict_resolutions.induct)
  case (2 limit k r m s)
  then show ?case using decoded_ok_revoke(1)[of s] by (auto simp: decoded_ok_def)
qed (simp add: decoded_ok_def)

lemma attachments_ok_decoded: "attachments_ok s \<Longrightarrow> decoded_ok s"
  by (simp add: attachments_ok_def decoded_ok_def)

lemma remember_resolutions:
  assumes "attachments_ok s" "key \<noteq> []"
  shows "ac_resolutions (rememberAttachmentResolution key r s) =
    last_n MAX_ATTACHMENT_RESOLUTION_CACHE_ENTRIES (reinsert key r (ac_resolutions s))"
  using assms evict_last_n[of "reinsert key r (ac_resolutions s)"]
  by (auto simp: rememberAttachmentResolution_def Let_def evict_resolutions_map attachments_ok_def
      keys_reinsert touch_def split: option.split)

lemma remember_decoded_ok:
  "decoded_ok s \<Longrightarrow> decoded_ok (rememberAttachmentResolution key r s)"
  unfolding rememberAttachmentResolution_def Let_def
  by (intro decoded_ok_evict) (auto split: option.split intro: decoded_ok_revoke)

lemma attachments_ok_remember:
  assumes "attachments_ok s" "key \<noteq> []"
  shows "attachments_ok (rememberAttachmentResolution key r s)"
proof -
  have m: "obj_ok (ac_resolutions s)" using assms(1) by (simp add: attachments_ok_def)
  note laws = reinsert_laws[OF m, where n = MAX_ATTACHMENT_RESOLUTION_CACHE_ENTRIES and k = key and v = r]
  have "[] \<notin> set (touch key (obj_keys (ac_resolutions s)))"
    using assms by (auto simp: touch_def attachments_ok_def)
  then have "[] \<notin> set (obj_keys (ac_resolutions (rememberAttachmentResolution key r s)))"
    unfolding remember_resolutions[OF assms] keys_last_n keys_reinsert using set_last_n by fastforce
  moreover have "decoded_ok (rememberAttachmentResolution key r s)"
    using assms(1) by (intro remember_decoded_ok attachments_ok_decoded)
  ultimately show ?thesis
    using laws(2,3) unfolding attachments_ok_def decoded_ok_def
    by (simp add: remember_resolutions[OF assms] MAX_ATTACHMENT_RESOLUTION_CACHE_ENTRIES_def)
qed

interpretation resolutions: recency_cache "\<lambda>k s. obj_get (ac_resolutions s) k" rememberAttachmentResolution
  "\<lambda>s. obj_keys (ac_resolutions s)" attachments_ok "\<lambda>k. k \<noteq> []" MAX_ATTACHMENT_RESOLUTION_CACHE_ENTRIES
proof
  show "0 < MAX_ATTACHMENT_RESOLUTION_CACHE_ENTRIES" by (simp add: MAX_ATTACHMENT_RESOLUTION_CACHE_ENTRIES_def)
  fix s :: attachment_caches and k k' :: string and v :: attachment_resolution
  assume s: "attachments_ok s"
  then have m: "obj_ok (ac_resolutions s)" by (simp add: attachments_ok_def)
  show "distinct (obj_keys (ac_resolutions s)) \<and> length (obj_keys (ac_resolutions s)) \<le> MAX_ATTACHMENT_RESOLUTION_CACHE_ENTRIES"
    using s by (simp add: attachments_ok_def)
  show "obj_get (ac_resolutions s) k = None \<longleftrightarrow> k \<notin> set (obj_keys (ac_resolutions s))"
    by (simp add: obj_get_dom)
  assume k: "k \<noteq> []"
  note laws = reinsert_laws[OF m, where n = MAX_ATTACHMENT_RESOLUTION_CACHE_ENTRIES and k = k and v = v]
  show "attachments_ok (rememberAttachmentResolution k v s)" using s k by (rule attachments_ok_remember)
  show "obj_keys (ac_resolutions (rememberAttachmentResolution k v s)) =
      last_n MAX_ATTACHMENT_RESOLUTION_CACHE_ENTRIES (touch k (obj_keys (ac_resolutions s)))"
    unfolding remember_resolutions[OF s k] by (rule laws(1)) (simp add: MAX_ATTACHMENT_RESOLUTION_CACHE_ENTRIES_def)
  assume "k' \<in> set (obj_keys (ac_resolutions (rememberAttachmentResolution k v s)))"
  then show "obj_get (ac_resolutions (rememberAttachmentResolution k v s)) k' =
      (if k' = k then Some v else obj_get (ac_resolutions s) k')"
    unfolding remember_resolutions[OF s k]
    by (intro laws(4)) (simp_all add: MAX_ATTACHMENT_RESOLUTION_CACHE_ENTRIES_def)
qed

text \<open>The set of decoded images has the same interface, with nothing stored beside the key.\<close>

interpretation decoded: recency_cache "\<lambda>k s. if k \<in> set (ac_decoded s) then Some () else None"
  "\<lambda>k _. rememberDecodedAttachmentImage k" ac_decoded decoded_ok "\<lambda>_. True" MAX_DECODED_ATTACHMENT_IMAGE_ENTRIES
  by unfold_locales
    (auto simp: rememberDecodedAttachmentImage_def decoded_ok_def last_n_def touch_def
      MAX_DECODED_ATTACHMENT_IMAGE_ENTRIES_def MAX_ATTACHMENT_RESOLUTION_CACHE_ENTRIES_def
      intro!: distinct_drop dest: in_set_dropD)

text \<open>A released blob URL is never left among the decoded images.\<close>

lemma revoked_not_decoded: "u \<notin> set (ac_decoded (revokeAttachmentUrl u s))"
  by (simp add: revokeAttachmentUrl_def)

end
