(* ===== verification/ReplyPreview.thy ===== *)
theory ReplyPreview
  imports JsText
begin

text \<open>
  \<^verbatim>\<open>src/replyPreview.ts\<close>: a reply is a message that starts with a quote line; this is how a quote is
  recognised and shortened when the reply itself is quoted, so that quotes do not pile up.
\<close>

text \<open>\<^verbatim>\<open>text.replace(/\s+/g, ' ')\<close>.\<close>

function collapse_ws :: "string \<Rightarrow> string" where
  "collapse_ws [] = []"
| "collapse_ws (c # s) = (if is_ws c then CHR '' '' # collapse_ws (dropWhile is_ws s) else c # collapse_ws s)"
  by pat_completeness auto
termination
  by (relation "measure length") (auto simp: le_imp_less_Suc length_dropWhile_le)

text \<open>\<^verbatim>\<open>/^>\s*@([^:]+):\s*(.*)$/s\<close>: the quoted name and the rest.\<close>

definition match_quote :: "string \<Rightarrow> (string \<times> string) option" where
  "match_quote s =
     (case s of
        [] \<Rightarrow> None
      | c # s1 \<Rightarrow>
          if c \<noteq> CHR ''>'' then None
          else case dropWhile is_ws s1 of
            [] \<Rightarrow> None
          | d # s2 \<Rightarrow>
              if d \<noteq> CHR ''@'' then None
              else let name = takeWhile (\<lambda>x. x \<noteq> CHR '':'') s2; rest = dropWhile (\<lambda>x. x \<noteq> CHR '':'') s2 in
                if name = [] \<or> rest = [] then None else Some (name, dropWhile is_ws (tl rest)))"

definition LF2 :: string where "LF2 = [CHR 10, CHR 10]"

record reply_envelope =
  re_name :: string
  re_quote :: string
  re_body :: string

definition parseReplyEnvelope :: "string \<Rightarrow> reply_envelope option" where
  "parseReplyEnvelope content =
     (if \<not> starts_with ''> @'' content then None
      else case index_of LF2 content of
        None \<Rightarrow> None
      | Some i \<Rightarrow>
          (case match_quote (js_trim (take i content)) of
             None \<Rightarrow> None
           | Some (name, rest) \<Rightarrow>
               Some \<lparr>re_name = name, re_quote = js_trim rest, re_body = js_trim (drop (i + 2) content)\<rparr>))"

text \<open>\<^verbatim>\<open>text.replace(REPLY_PREFIX_RE, '')\<close>.\<close>

definition drop_quote_prefix :: "string \<Rightarrow> string" where
  "drop_quote_prefix s = (case match_quote s of None \<Rightarrow> s | Some (_, rest) \<Rightarrow> rest)"

fun clean_loop :: "nat \<Rightarrow> string \<Rightarrow> string" where
  "clean_loop 0 t = t"
| "clean_loop (Suc n) t = (let nxt = js_trim (drop_quote_prefix t) in if nxt = t then t else clean_loop n nxt)"

definition cleanReplyQuotePreview :: "string \<Rightarrow> string" where
  "cleanReplyQuotePreview content = clean_loop 8 (js_trim (collapse_ws content))"

fun unwrap_loop :: "nat \<Rightarrow> string \<Rightarrow> string" where
  "unwrap_loop 0 t = t"
| "unwrap_loop (Suc n) t =
     (case parseReplyEnvelope t of
        None \<Rightarrow> t
      | Some p \<Rightarrow> unwrap_loop n (if re_body p = [] then re_quote p else re_body p))"

definition createReplyContentSnippet :: "string \<Rightarrow> nat \<Rightarrow> string" where
  "createReplyContentSnippet content maxLength =
     (let normalized = cleanReplyQuotePreview (unwrap_loop 8 (js_trim content)) in
      if length normalized > maxLength then take maxLength normalized @ ''...'' else normalized)"

section \<open>Lemmas\<close>

lemma js_trim_Nil [simp]: "js_trim [] = []"
  by (simp add: js_trim_def trim_start_def trim_end_def)

lemma clean_loop_trimmed: "js_trim t = t \<Longrightarrow> js_trim (clean_loop n t) = clean_loop n t"
  by (induction n arbitrary: t) (auto simp: Let_def)

lemma clean_trimmed: "js_trim (cleanReplyQuotePreview s) = cleanReplyQuotePreview s"
  unfolding cleanReplyQuotePreview_def by (rule clean_loop_trimmed) simp

lemma snippet_length: "length (createReplyContentSnippet s n) \<le> n + 3"
  by (simp add: createReplyContentSnippet_def Let_def)

text \<open>The message a reply is sent as.\<close>

definition reply_message :: "string \<Rightarrow> string \<Rightarrow> string \<Rightarrow> string" where
  "reply_message name snippet body = ''> @'' @ name @ '': '' @ snippet @ LF2 @ body"

lemma index_of_first:
  assumes "CHR 10 \<notin> set a"
  shows "index_of LF2 (a @ LF2 @ b) = Some (length a)"
  using assms
proof (induction a)
  case Nil
  show ?case by (subst index_of.simps) (simp add: starts_with_def LF2_def)
next
  case (Cons c a)
  have "\<not> starts_with LF2 (c # a @ LF2 @ b)"
    using Cons.prems by (auto simp: starts_with_def LF2_def)
  with Cons show ?case by (subst index_of.simps) simp
qed

lemma trim_end_snoc: "\<not> is_ws c \<Longrightarrow> trim_end (s @ [c]) = s @ [c]"
  by (simp add: trim_end_def)

lemma trim_end_append: "trim_end (a @ c # b) = a @ c # trim_end b" if "\<not> is_ws c" for a b c
proof -
  have "dropWhile is_ws (rev b @ c # rev a) = dropWhile is_ws (rev b) @ c # rev a"
    using that by (simp add: dropWhile_append3 dropWhile_append)
  then show ?thesis by (simp add: trim_end_def)
qed

lemma not_ws_chars [simp]: "\<not> is_ws (CHR ''>'')" "\<not> is_ws (CHR '':'')" "\<not> is_ws (CHR ''@'')" "is_ws (CHR '' '')"
  by (simp_all add: is_ws_def char_code_def)

lemma js_trim_quote:
  "js_trim (''> @'' @ name @ '': '' @ snip) = ''> @'' @ name @ CHR '':'' # trim_end (CHR '' '' # snip)"
proof -
  have "trim_end ((''> @'' @ name) @ CHR '':'' # (CHR '' '' # snip)) =
      (''> @'' @ name) @ CHR '':'' # trim_end (CHR '' '' # snip)"
    by (rule trim_end_append) simp
  then show ?thesis by (simp add: js_trim_def trim_start_def)
qed

lemma dropWhile_trim_end: "dropWhile is_ws (trim_end s) = trim_end (dropWhile is_ws s)"
proof (induction s)
  case (Cons c s)
  show ?case
  proof (cases "is_ws c")
    case True
    have "trim_end (c # s) = (if trim_end s = [] then [] else c # trim_end s)"
      using True by (simp add: trim_end_def dropWhile_append)
    with Cons True show ?thesis by auto
  next
    case False
    with trim_end_append[of c "[]" s] show ?thesis by simp
  qed
qed (simp add: trim_end_def)

lemma parse_reply_message:
  assumes "name \<noteq> []" "CHR '':'' \<notin> set name" "CHR 10 \<notin> set name" "CHR 10 \<notin> set snip"
  shows "parseReplyEnvelope (reply_message name snip body) =
    Some \<lparr>re_name = name, re_quote = js_trim snip, re_body = js_trim body\<rparr>"
proof -
  define a where "a = ''> @'' @ name @ '': '' @ snip"
  have a: "CHR 10 \<notin> set a" using assms(3,4) by (simp add: a_def)
  have msg: "reply_message name snip body = a @ LF2 @ body" by (simp add: reply_message_def a_def)
  have name: "takeWhile (\<lambda>x. x \<noteq> CHR '':'') (name @ CHR '':'' # t) = name"
    "dropWhile (\<lambda>x. x \<noteq> CHR '':'') (name @ CHR '':'' # t) = CHR '':'' # t" for t
    using assms(2) by (induction name) auto
  have "match_quote (js_trim a) = Some (name, dropWhile is_ws (trim_end (CHR '' '' # snip)))"
    unfolding a_def js_trim_quote using assms(1) name by (simp add: match_quote_def)
  moreover have "dropWhile is_ws (trim_end (CHR '' '' # snip)) = js_trim snip"
    by (simp add: dropWhile_trim_end js_trim_def trim_start_def)
  moreover have "starts_with ''> @'' (a @ LF2 @ body)" by (simp add: starts_with_def a_def)
  moreover have "drop (length a + 2) (a @ LF2 @ body) = body" by (simp add: LF2_def)
  ultimately show ?thesis
    unfolding parseReplyEnvelope_def msg index_of_first[OF a] by simp
qed

end
