(* ===== verification/MessageLayout.thy ===== *)
theory MessageLayout
  imports ReplyPreview WireTypes MessageCaches
begin

text \<open>
  \<^verbatim>\<open>src/components/chatMessageLayout.ts\<close>: which messages are drawn as one group, embedded media,
  and the estimated height of a row. \<^verbatim>\<open>day\<close> is \<^verbatim>\<open>new Date(t).toDateString()\<close> and \<^verbatim>\<open>parse\<close> is
  \<^verbatim>\<open>new Date(t).getTime()\<close>. On Latin-1 text the pictographic characters are the copyright and the
  registered sign.
\<close>

section \<open>Constants\<close>

definition MESSAGE_GROUP_WINDOW_MS :: real where "MESSAGE_GROUP_WINDOW_MS = 5 * 60 * 1000"

record row_metrics =
  rm_grouped :: int
  rm_group :: int
  rm_firstDayDivider :: int
  rm_dayDivider :: int
  rm_unreadDivider :: int
  rm_typing :: int

definition MESSAGE_ROW_METRICS :: "bool \<Rightarrow> row_metrics" where
  "MESSAGE_ROW_METRICS mobile =
     (if mobile then \<lparr>rm_grouped = 23, rm_group = 44, rm_firstDayDivider = 28, rm_dayDivider = 24,
                      rm_unreadDivider = 28, rm_typing = 27\<rparr>
      else \<lparr>rm_grouped = 23, rm_group = 53, rm_firstDayDivider = 34, rm_dayDivider = 46,
            rm_unreadDivider = 38, rm_typing = 27\<rparr>)"

definition ESTIMATED_ATTACHMENT_ROW_PX :: int where "ESTIMATED_ATTACHMENT_ROW_PX = 36"
definition ESTIMATED_MEDIA_ROW_PX :: int where "ESTIMATED_MEDIA_ROW_PX = 228"
definition ESTIMATED_STICKER_ROW_PX :: int where "ESTIMATED_STICKER_ROW_PX = 128"
definition ESTIMATED_TEXT_CHARS_PER_LINE :: nat where "ESTIMATED_TEXT_CHARS_PER_LINE = 92"
definition ESTIMATED_REACTION_LINE_PX :: int where "ESTIMATED_REACTION_LINE_PX = 30"

text \<open>\<^verbatim>\<open>Math.ceil(n / d)\<close>.\<close>

definition ceil_div :: "nat \<Rightarrow> nat \<Rightarrow> nat" where
  "ceil_div n d = (n + d - 1) div d"

section \<open>Embedded media\<close>

text \<open>
  \<^verbatim>\<open>/!\[TAG\]\((https?:\/\/[^\s)]+)\)/gi\<close> at the start of a text: the address and what follows.
\<close>

definition strip_prefix_ci :: "string \<Rightarrow> string \<Rightarrow> string option" where
  "strip_prefix_ci p s = (if starts_with p (js_lower s) then Some (drop (length p) s) else None)"

definition url_char :: "char \<Rightarrow> bool" where
  "url_char c \<longleftrightarrow> \<not> is_ws c \<and> c \<noteq> CHR '')''"

definition match_media :: "string \<Rightarrow> string \<Rightarrow> (string \<times> string) option" where
  "match_media tag s =
     (case strip_prefix_ci (''!['' @ tag @ ''](http'') s of
        None \<Rightarrow> None
      | Some s1 \<Rightarrow>
          let s2 = (case strip_prefix_ci ''s'' s1 of Some t \<Rightarrow> if starts_with ''://'' t then t else s1 | None \<Rightarrow> s1) in
          if \<not> starts_with ''://'' s2 then None
          else let s3 = drop 3 s2; body = takeWhile url_char s3; rest = dropWhile url_char s3;
                   start = drop (length tag + 4) s
            in if body = [] \<or> rest = [] \<or> hd rest \<noteq> CHR '')'' then None
               else Some (take (length start - length rest) start, tl rest))"

lemma strip_prefix_length: "strip_prefix_ci p s = Some t \<Longrightarrow> length t \<le> length s"
  by (auto simp: strip_prefix_ci_def split: if_splits)

lemma match_media_shorter: "match_media tag s = Some (url, rest) \<Longrightarrow> length rest < length s"
proof -
  assume m: "match_media tag s = Some (url, rest)"
  then obtain s1 s2 where s1: "strip_prefix_ci (''!['' @ tag @ ''](http'') s = Some s1"
    and s2: "s2 = (case strip_prefix_ci ''s'' s1 of Some t \<Rightarrow> if starts_with ''://'' t then t else s1 | None \<Rightarrow> s1)"
    and rest: "rest = tl (dropWhile url_char (drop 3 s2))" "dropWhile url_char (drop 3 s2) \<noteq> []"
    by (auto simp: match_media_def Let_def split: option.splits if_splits)
  have "length s2 \<le> length s1" using strip_prefix_length[of "''s''" s1] by (auto simp: s2 split: option.split)
  moreover have "length s1 \<le> length s" using strip_prefix_length[OF s1] .
  moreover have "length (dropWhile url_char (drop 3 s2)) \<le> length s2"
    by (metis length_dropWhile_le length_drop diff_le_self order_trans)
  ultimately show ?thesis using rest by (cases "dropWhile url_char (drop 3 s2)") auto
qed

text \<open>\<^verbatim>\<open>replace\<close> with that pattern: the text without the matches, and the addresses.\<close>

function strip_media :: "string \<Rightarrow> string \<Rightarrow> string \<times> string list" where
  "strip_media tag s =
     (case s of
        [] \<Rightarrow> ([], [])
      | c # s' \<Rightarrow>
          (case match_media tag s of
             Some (url, rest) \<Rightarrow> (case strip_media tag rest of (t, us) \<Rightarrow> (t, url # us))
           | None \<Rightarrow> (case strip_media tag s' of (t, us) \<Rightarrow> (c # t, us))))"
  by pat_completeness auto
termination by (relation "measure (length \<circ> snd)") (auto dest: match_media_shorter)

declare strip_media.simps [simp del]

record embedded_media =
  em_text :: string
  em_gifs :: "string list"
  em_stickers :: "string list"

definition extractEmbeddedMediaMarkdown :: "string \<Rightarrow> embedded_media" where
  "extractEmbeddedMediaMarkdown content =
     (case strip_media ''gif'' content of (t, gifs) \<Rightarrow>
      case strip_media ''sticker'' t of (t', stickers) \<Rightarrow>
        \<lparr>em_text = js_trim t', em_gifs = gifs, em_stickers = stickers\<rparr>)"

section \<open>Replies and emoji\<close>

record reply_content =
  rc_username :: string
  rc_quote :: string
  rc_body :: string

definition parseReplyContent :: "string \<Rightarrow> reply_content option" where
  "parseReplyContent content =
     (if \<not> starts_with ''> @'' content then None
      else case index_of LF2 content of
        None \<Rightarrow> None
      | Some i \<Rightarrow>
          (case match_quote (js_trim (take i content)) of
             None \<Rightarrow> None
           | Some (name, rest) \<Rightarrow>
               Some \<lparr>rc_username = js_trim name, rc_quote = cleanReplyQuotePreview rest,
                     rc_body = js_trim (drop (i + 2) content)\<rparr>))"

definition emoji_code_point :: "char \<Rightarrow> bool" where
  "emoji_code_point c \<longleftrightarrow> char_code c = 169 \<or> char_code c = 174"

definition getEmojiOnlyCount :: "string \<Rightarrow> nat" where
  "getEmojiOnlyCount content =
     (if parseReplyContent content \<noteq> None then 0
      else let em = extractEmbeddedMediaMarkdown content; visibleText = js_trim (em_text em) in
        if visibleText = [] \<or> em_gifs em \<noteq> [] \<or> em_stickers em \<noteq> []
           \<or> \<not> list_all (\<lambda>c. emoji_code_point c \<or> is_ws c) visibleText then 0
        else let count = length (filter emoji_code_point visibleText) in
          if 0 < count \<and> count \<le> 4 then count else 0)"

section \<open>Grouping\<close>

definition getMessageAuthorKey :: "message option \<Rightarrow> string" where
  "getMessageAuthorKey m =
     (case Option.bind m msg_author of
        None \<Rightarrow> []
      | Some a \<Rightarrow> if aut_user_id a \<noteq> [] then aut_user_id a else aut_username a)"

definition item_at :: "'a list \<Rightarrow> int \<Rightarrow> 'a option" where
  "item_at xs i = (if 0 \<le> i \<and> nat i < length xs then Some (xs ! nat i) else None)"

definition isNewMessageDayAt :: "(string \<Rightarrow> string) \<Rightarrow> message list \<Rightarrow> int \<Rightarrow> bool" where
  "isNewMessageDayAt day ms i =
     (if i \<le> 0 then True
      else case (item_at ms i, item_at ms (i - 1)) of
        (Some cur, Some prev) \<Rightarrow>
          if msg_created_at cur = [] \<or> msg_created_at prev = [] then False
          else day (msg_created_at cur) \<noteq> day (msg_created_at prev)
      | _ \<Rightarrow> False)"

definition within_window :: "jsnum \<Rightarrow> jsnum \<Rightarrow> bool" where
  "within_window cur prev =
     (case (cur, prev) of
        (Fin a, Fin b) \<Rightarrow> 0 \<le> a - b \<and> a - b \<le> MESSAGE_GROUP_WINDOW_MS
      | _ \<Rightarrow> False)"

definition isMessageGroupedAt ::
  "(string \<Rightarrow> string) \<Rightarrow> (string \<Rightarrow> jsnum) \<Rightarrow> message list \<Rightarrow> int \<Rightarrow> int \<Rightarrow> bool" where
  "isMessageGroupedAt day parse ms i firstUnread =
     (if i \<le> 0 then False
      else if isNewMessageDayAt day ms i then False
      else if 0 \<le> firstUnread \<and> i = firstUnread then False
      else case (item_at ms i, item_at ms (i - 1)) of
        (Some cur, Some prev) \<Rightarrow>
          if truthy_str (msg_edited_at cur) \<or> msg_client_status cur = Some Failed then False
          else let author = getMessageAuthorKey (Some cur) in
            if author = [] \<or> author \<noteq> getMessageAuthorKey (Some prev) then False
            else within_window (parse (msg_created_at cur)) (parse (msg_created_at prev))
      | _ \<Rightarrow> False)"

section \<open>Row height\<close>

definition estimateTextExtraHeight :: "string \<Rightarrow> int" where
  "estimateTextExtraHeight content =
     (let txt = (case parseReplyContent content of Some p \<Rightarrow> rc_body p | None \<Rightarrow> content);
          normalized = js_trim (em_text (extractEmbeddedMediaMarkdown txt))
      in if normalized = [] then 0
         else let explicitLines = length (split_on (CHR 10) normalized);
                  wrappedLines = ceil_div (length normalized) ESTIMATED_TEXT_CHARS_PER_LINE;
                  estimatedLines = max explicitLines (max wrappedLines 1)
           in max 0 (int estimatedLines - 1) * 20)"

definition estimateEmbeddedMediaHeight :: "string \<Rightarrow> int" where
  "estimateEmbeddedMediaHeight content =
     (let em = extractEmbeddedMediaMarkdown content in
      (if em_gifs em \<noteq> [] then ESTIMATED_MEDIA_ROW_PX * int (ceil_div (length (em_gifs em)) 2) else 0)
      + (if em_stickers em \<noteq> [] then ESTIMATED_STICKER_ROW_PX * int (ceil_div (length (em_stickers em)) 2) else 0))"

definition estimateAttachmentHeight :: "(string \<Rightarrow> string option) \<Rightarrow> attachment list option \<Rightarrow> int" where
  "estimateAttachmentHeight url_pathname atts =
     (case atts of
        None \<Rightarrow> 0
      | Some xs \<Rightarrow>
          if xs = [] then 0
          else if list_ex (isImageAttachment url_pathname) xs then ESTIMATED_MEDIA_ROW_PX
          else ESTIMATED_ATTACHMENT_ROW_PX * int (ceil_div (length xs) 2))"

definition estimateMessageRowHeight ::
  "(string \<Rightarrow> string) \<Rightarrow> (string \<Rightarrow> jsnum) \<Rightarrow> (string \<Rightarrow> string option) \<Rightarrow> message list \<Rightarrow> int \<Rightarrow> int \<Rightarrow> bool \<Rightarrow> bool \<Rightarrow> int"
where
  "estimateMessageRowHeight day parse url_pathname ms i firstUnread hasTypingRow mobile =
     (let m = MESSAGE_ROW_METRICS mobile in
      if hasTypingRow \<and> i = int (length ms) then rm_typing m
      else case item_at ms i of
        None \<Rightarrow> rm_group m
      | Some msg \<Rightarrow>
          let base = (if isMessageGroupedAt day parse ms i firstUnread then rm_grouped m else rm_group m);
              dayPx = (if isNewMessageDayAt day ms i
                       then (if i = 0 then rm_firstDayDivider m else rm_dayDivider m) else 0);
              unreadPx = (if 0 \<le> firstUnread \<and> i = firstUnread then rm_unreadDivider m else 0);
              notePx = (if truthy_str (msg_edited_at msg) \<or> msg_client_status msg = Some Failed then 8 else 0);
              reactionCount = length (nullish (msg_reactions msg) []);
              reactionPx = (if 0 < reactionCount
                then int (ceil_div reactionCount (if mobile then 4 else 8)) * ESTIMATED_REACTION_LINE_PX else 0)
          in max (rm_grouped m)
               (base + dayPx + unreadPx + notePx + estimateTextExtraHeight (msg_content msg)
                + estimateEmbeddedMediaHeight (msg_content msg)
                + estimateAttachmentHeight url_pathname (msg_attachments msg) + reactionPx))"

section \<open>Scroll anchor\<close>

text \<open>
  The rows of the list as they are on screen: message id, top and bottom edge. The row nearest to the
  top of the scroller is the anchor; \<^verbatim>\<open>sort\<close> is stable.
\<close>

definition captureVisibleMessageAnchor ::
  "real \<Rightarrow> real \<Rightarrow> (string option \<times> real \<times> real) list \<Rightarrow> (string \<times> real) option" where
  "captureVisibleMessageAnchor upper lower rows =
     (case sort_key (\<lambda>(i, t, b). \<bar>t - upper\<bar>) (filter (\<lambda>(i, t, b). b > upper \<and> t < lower) rows) of
        [] \<Rightarrow> None
      | (i, t, b) # _ \<Rightarrow> if truthy_str i then Some (the i, t - upper) else None)"

section \<open>Lemmas\<close>

lemma ceil_div_bounds: "0 < d \<Longrightarrow> n \<le> ceil_div n d * d \<and> ceil_div n d * d < n + d"
proof -
  assume d: "0 < d"
  have "(n + d - 1) div d * d + (n + d - 1) mod d = n + d - 1" by simp
  moreover have "(n + d - 1) mod d < d" using d by simp
  ultimately show ?thesis using d unfolding ceil_div_def by linarith
qed

text \<open>A grouped message follows one of the same author on the same day within five minutes.\<close>

lemma grouped_imp:
  assumes "isMessageGroupedAt day parse ms i u"
  shows "\<exists>cur prev a b. 0 < i \<and> item_at ms i = Some cur \<and> item_at ms (i - 1) = Some prev \<and> i \<noteq> u \<and>
    getMessageAuthorKey (Some cur) = getMessageAuthorKey (Some prev) \<and> getMessageAuthorKey (Some cur) \<noteq> [] \<and>
    msg_client_status cur \<noteq> Some Failed \<and>
    parse (msg_created_at cur) = Fin a \<and> parse (msg_created_at prev) = Fin b \<and> b \<le> a \<and> a - b \<le> 300000"
  using assms
  by (auto simp: isMessageGroupedAt_def within_window_def MESSAGE_GROUP_WINDOW_MS_def Let_def
      split: if_splits option.splits jsnum.splits)

lemma heights_nonneg: "0 \<le> estimateTextExtraHeight c" "0 \<le> estimateEmbeddedMediaHeight c"
  "0 \<le> estimateAttachmentHeight up as"
  by (auto simp: estimateTextExtraHeight_def estimateEmbeddedMediaHeight_def estimateAttachmentHeight_def Let_def
      ESTIMATED_MEDIA_ROW_PX_def ESTIMATED_STICKER_ROW_PX_def ESTIMATED_ATTACHMENT_ROW_PX_def split: option.split)

lemma metrics_min: "rm_grouped (MESSAGE_ROW_METRICS mobile) = 23" "23 \<le> rm_group (MESSAGE_ROW_METRICS mobile)"
  "23 \<le> rm_typing (MESSAGE_ROW_METRICS mobile)"
  by (simp_all add: MESSAGE_ROW_METRICS_def)

lemma row_height_min: "23 \<le> estimateMessageRowHeight day parse up ms i u ty mobile"
proof -
  have m: "23 \<le> max (rm_grouped (MESSAGE_ROW_METRICS mobile)) x" for x
    unfolding metrics_min by (rule max.cobounded1)
  show ?thesis
    unfolding estimateMessageRowHeight_def Let_def
    by (cases "ty \<and> i = int (length ms)"; cases "item_at ms i")
      (simp_all only: if_True if_False option.case metrics_min(2,3) m simp_thms refl)
qed

text \<open>The anchor is a visible row, and no visible row is nearer to the top edge.\<close>

lemma anchor_nearest:
  assumes "captureVisibleMessageAnchor upper lower rows = Some (i, off)"
  shows "\<exists>t b. (Some i, t, b) \<in> set rows \<and> upper < b \<and> t < lower \<and> off = t - upper \<and>
    (\<forall>(j, t', b') \<in> set rows. upper < b' \<longrightarrow> t' < lower \<longrightarrow> \<bar>t - upper\<bar> \<le> \<bar>t' - upper\<bar>)"
proof -
  define f where "f = (\<lambda>(i :: string option, t, b :: real). \<bar>t - upper\<bar>)"
  define vis where "vis = filter (\<lambda>(i, t, b). b > upper \<and> t < lower) rows"
  obtain j t b rest where s: "sort_key f vis = (j, t, b) # rest" and j: "j = Some i" "off = t - upper"
    using assms unfolding captureVisibleMessageAnchor_def f_def[symmetric] vis_def[symmetric]
    by (auto split: list.splits if_splits simp: truthy_str_def split: option.splits)
  have mem: "(j, t, b) \<in> set vis" using s by (metis list.set_intros(1) set_sort)
  have "sorted (map f ((j, t, b) # rest))" using s by (metis sorted_sort_key)
  then have "\<forall>x \<in> set vis. f (j, t, b) \<le> f x"
    using s by (metis (no_types, lifting) list.simps(9) set_ConsD set_sort sorted_simps(2) image_eqI set_map order_refl)
  then have "\<forall>(j', t', b') \<in> set rows. upper < b' \<longrightarrow> t' < lower \<longrightarrow> \<bar>t - upper\<bar> \<le> \<bar>t' - upper\<bar>"
    by (auto simp: vis_def f_def)
  with mem j show ?thesis by (auto simp: vis_def)
qed

text \<open>The quote line of a reply is taken apart into what it was made of.\<close>

lemma parse_reply_content:
  assumes "name \<noteq> []" "CHR '':'' \<notin> set name" "CHR 10 \<notin> set name" "CHR 10 \<notin> set snip"
  shows "\<exists>q. parseReplyContent (reply_message name snip body) =
    Some \<lparr>rc_username = js_trim name, rc_quote = q, rc_body = js_trim body\<rparr>"
  using parse_reply_message[OF assms, of body]
  by (auto simp: parseReplyContent_def parseReplyEnvelope_def split: if_splits option.splits prod.splits)

end
