(* ===== verification/VoiceGate.thy ===== *)
theory VoiceGate
  imports JsBase
begin

text \<open>
  \<^verbatim>\<open>src/webrtc/voiceGate.ts\<close>: the gate that decides per audio frame whether the microphone is open.
  The spectrum is a list of decibel values, some of which may not be finite. Sound levels are real
  numbers; the rounding of floating-point arithmetic is not modelled.
\<close>

record speech_frame =
  sf_score :: real
  sf_clicky :: bool
  sf_noiseDominant :: bool

text \<open>What stays the same from frame to frame, and what a frame carries.\<close>

record gate_settings =
  gs_onThr :: real
  gs_offThr :: real
  gs_noiseSuppression :: bool
  gs_aggressive :: bool

record gate_frame =
  gf_rms :: real
  gf_frequencyData :: "jsnum list"
  gf_sampleRate :: jsnum
  gf_fftSize :: int

record gate_state =
  gt_speaking :: bool
  gt_openFrames :: nat
  gt_belowFrames :: nat
  gt_smoothedRms :: real

section \<open>Bands\<close>

fun finite_values :: "jsnum list \<Rightarrow> real list" where
  "finite_values [] = []"
| "finite_values (Fin x # xs) = x # finite_values xs"
| "finite_values (_ # xs) = finite_values xs"

definition band_slice :: "jsnum list \<Rightarrow> int \<Rightarrow> int \<Rightarrow> jsnum list" where
  "band_slice xs start stop = drop (nat start) (take (nat (stop + 1)) xs)"

definition getBandAverageDb :: "jsnum list \<Rightarrow> jsnum \<Rightarrow> int \<Rightarrow> real \<Rightarrow> real \<Rightarrow> real" where
  "getBandAverageDb xs sampleRate fftSize minHz maxHz =
     (case sampleRate of
        Fin sr \<Rightarrow>
          if sr \<le> 0 \<or> fftSize \<le> 0 \<or> maxHz \<le> minHz then - 100
          else let nyquist = sr / 2;
                   clampedMin = max 0 (min minHz nyquist);
                   clampedMax = max clampedMin (min maxHz nyquist);
                   binWidth = sr / of_int fftSize;
                   start = max 0 \<lfloor>clampedMin / binWidth\<rfloor>;
                   stop = min (int (length xs) - 1) \<lceil>clampedMax / binWidth\<rceil>;
                   values = finite_values (band_slice xs start stop)
               in if values \<noteq> [] then sum_list values / real (length values) else - 100
      | _ \<Rightarrow> - 100)"

definition getSpeechFrameScore :: "jsnum list \<Rightarrow> jsnum \<Rightarrow> int \<Rightarrow> speech_frame" where
  "getSpeechFrameScore xs sampleRate fftSize =
     (let band = getBandAverageDb xs sampleRate fftSize;
          presenceDb = band 220 1400;
          speechBodyDb = band 180 2200;
          upperSpeechDb = band 1600 3200;
          highNoiseDb = band 2800 7200;
          lowNoiseDb = band 0 140
      in \<lparr>sf_score = max (presenceDb - highNoiseDb)
                        (max (speechBodyDb - highNoiseDb + 8 / 10) (upperSpeechDb - highNoiseDb - 6 / 10)),
          sf_clicky = (highNoiseDb > presenceDb + 32 / 10 \<and> highNoiseDb > speechBodyDb + 42 / 10 \<and>
                       lowNoiseDb < speechBodyDb - 6),
          sf_noiseDominant = (highNoiseDb > presenceDb + 22 / 10 \<and> highNoiseDb > speechBodyDb + 28 / 10 \<and>
                              upperSpeechDb < highNoiseDb + 12 / 10)\<rparr>)"

section \<open>The gate\<close>

definition speech_like :: "bool \<Rightarrow> speech_frame \<Rightarrow> bool" where
  "speech_like aggressive sf \<longleftrightarrow>
     (if aggressive then - 8 / 10 \<le> sf_score sf \<and> \<not> sf_clicky sf \<and> \<not> sf_noiseDominant sf
      else - 24 / 10 \<le> sf_score sf \<and> \<not> sf_noiseDominant sf)"

definition openFramesRequired :: "gate_settings \<Rightarrow> nat" where
  "openFramesRequired g = (if gs_aggressive g then 3 else if gs_noiseSuppression g then 2 else 1)"

definition holdFrames :: "gate_settings \<Rightarrow> nat" where
  "holdFrames g = (if gs_aggressive g then 6 else if gs_noiseSuppression g then 7 else 7)"

definition smoothAlpha :: "gate_settings \<Rightarrow> real" where
  "smoothAlpha g = (if gs_aggressive g then 94 / 100 else 955 / 1000)"

definition effectiveOffThr :: "gate_settings \<Rightarrow> real" where
  "effectiveOffThr g = max (gs_offThr g)
     (gs_onThr g * (if gs_aggressive g then 36 / 100 else if gs_noiseSuppression g then 3 / 10 else 24 / 100))"

definition should_open :: "gate_settings \<Rightarrow> gate_frame \<Rightarrow> bool" where
  "should_open g f =
     (let sf = getSpeechFrameScore (gf_frequencyData f) (gf_sampleRate f) (gf_fftSize f);
          strongOnset = (gf_rms f \<ge> gs_onThr g * (if gs_aggressive g then 165 / 100 else 116 / 100))
      in (gf_rms f \<ge> gs_onThr g \<and> speech_like (gs_aggressive g) sf) \<or>
         (strongOnset \<and> \<not> sf_clicky sf \<and> \<not> sf_noiseDominant sf \<and>
          (\<not> gs_aggressive g \<or> - 4 / 10 \<le> sf_score sf)))"

definition next_smoothed :: "gate_settings \<Rightarrow> gate_frame \<Rightarrow> gate_state \<Rightarrow> real" where
  "next_smoothed g f s = smoothAlpha g * gt_smoothedRms s + (1 - smoothAlpha g) * gf_rms f"

definition evaluateVoiceGateFrame :: "gate_settings \<Rightarrow> gate_frame \<Rightarrow> gate_state \<Rightarrow> gate_state" where
  "evaluateVoiceGateFrame g f s =
     (let nextSmoothedRms = next_smoothed g f s in
      if should_open g f then
        (let nextOpenFrames = gt_openFrames s + 1 in
         if gt_speaking s \<or> nextOpenFrames < openFramesRequired g
         then \<lparr>gt_speaking = gt_speaking s, gt_openFrames = nextOpenFrames, gt_belowFrames = 0,
               gt_smoothedRms = nextSmoothedRms\<rparr>
         else \<lparr>gt_speaking = True, gt_openFrames = nextOpenFrames, gt_belowFrames = 0,
               gt_smoothedRms = nextSmoothedRms\<rparr>)
      else if \<not> gt_speaking s then
        \<lparr>gt_speaking = False, gt_openFrames = 0, gt_belowFrames = 0, gt_smoothedRms = nextSmoothedRms\<rparr>
      else if nextSmoothedRms \<ge> effectiveOffThr g then
        \<lparr>gt_speaking = True, gt_openFrames = 0, gt_belowFrames = 0, gt_smoothedRms = nextSmoothedRms\<rparr>
      else let nextBelowFrames = gt_belowFrames s + 1 in
        if nextBelowFrames \<ge> holdFrames g then
          \<lparr>gt_speaking = False, gt_openFrames = 0, gt_belowFrames = 0, gt_smoothedRms = nextSmoothedRms\<rparr>
        else \<lparr>gt_speaking = True, gt_openFrames = 0, gt_belowFrames = nextBelowFrames,
              gt_smoothedRms = nextSmoothedRms\<rparr>)"

definition init_gate :: gate_state where
  "init_gate = \<lparr>gt_speaking = False, gt_openFrames = 0, gt_belowFrames = 0, gt_smoothedRms = 0\<rparr>"

text \<open>The gate over a sequence of frames with fixed settings.\<close>

definition run_gate :: "gate_settings \<Rightarrow> gate_frame list \<Rightarrow> gate_state \<Rightarrow> gate_state" where
  "run_gate g fs s = fold (evaluateVoiceGateFrame g) fs s"

section \<open>Invariant\<close>

definition gate_ok :: "gate_settings \<Rightarrow> gate_state \<Rightarrow> bool" where
  "gate_ok g s \<longleftrightarrow> gt_belowFrames s < holdFrames g \<and>
     (\<not> gt_speaking s \<longrightarrow> gt_belowFrames s = 0 \<and> gt_openFrames s < openFramesRequired g)"

lemma required_pos: "0 < openFramesRequired g" "0 < holdFrames g"
  by (simp_all add: openFramesRequired_def holdFrames_def)

lemma gate_ok_init: "gate_ok g init_gate"
  using required_pos by (simp add: gate_ok_def init_gate_def)

lemma gate_ok_step: "gate_ok g s \<Longrightarrow> gate_ok g (evaluateVoiceGateFrame g f s)"
  using required_pos by (auto simp: gate_ok_def evaluateVoiceGateFrame_def Let_def)

lemma gate_ok_run: "gate_ok g s \<Longrightarrow> gate_ok g (run_gate g fs s)"
  unfolding run_gate_def by (induction fs arbitrary: s) (auto simp: gate_ok_step)

text \<open>The smoothed level is an average: it stays in any interval that holds the levels.\<close>

lemma smoothed_range:
  assumes "lo \<le> gt_smoothedRms s" "gt_smoothedRms s \<le> hi" "lo \<le> gf_rms f" "gf_rms f \<le> hi"
  shows "lo \<le> gt_smoothedRms (evaluateVoiceGateFrame g f s) \<and> gt_smoothedRms (evaluateVoiceGateFrame g f s) \<le> hi"
proof -
  define a where "a = smoothAlpha g"
  have a: "0 \<le> a" "a \<le> 1" by (simp_all add: a_def smoothAlpha_def)
  have eq: "gt_smoothedRms (evaluateVoiceGateFrame g f s) = a * gt_smoothedRms s + (1 - a) * gf_rms f"
    by (simp add: evaluateVoiceGateFrame_def next_smoothed_def Let_def a_def)
  have "a * lo + (1 - a) * lo \<le> a * gt_smoothedRms s + (1 - a) * gf_rms f"
    using assms a by (intro add_mono mult_left_mono) auto
  moreover have "a * gt_smoothedRms s + (1 - a) * gf_rms f \<le> a * hi + (1 - a) * hi"
    using assms a by (intro add_mono mult_left_mono) auto
  moreover have "a * c + (1 - a) * c = c" for c :: real by (simp add: algebra_simps)
  ultimately show ?thesis unfolding eq by simp
qed

section \<open>Opening and closing\<close>

text \<open>
  A closed gate counts the frames in a row that want to open it: after such frames it is open exactly
  when there were enough of them.
\<close>

lemma open_run:
  assumes "\<not> gt_speaking s" "gt_openFrames s = 0" "list_all (should_open g) fs"
  shows "gt_speaking (run_gate g fs s) \<longleftrightarrow> openFramesRequired g \<le> length fs"
proof -
  have "gt_speaking (run_gate g fs s) = (openFramesRequired g \<le> n + length fs) \<or> (gt_speaking s \<and> gt_speaking (run_gate g fs s))"
    if "gt_openFrames s = n" "gt_speaking s \<or> n < openFramesRequired g" "list_all (should_open g) fs" for s n
    using that
  proof (induction fs arbitrary: s n)
    case Nil
    then show ?case by (auto simp: run_gate_def)
  next
    case (Cons f fs)
    define t where "t = evaluateVoiceGateFrame g f s"
    have t: "gt_openFrames t = Suc n" "gt_speaking t = (gt_speaking s \<or> openFramesRequired g \<le> Suc n)"
      using Cons.prems by (auto simp: t_def evaluateVoiceGateFrame_def Let_def)
    have open_stays: "gt_speaking u \<Longrightarrow> list_all (should_open g) hs \<Longrightarrow> gt_speaking (run_gate g hs u)" for u hs
      unfolding run_gate_def
      by (induction hs arbitrary: u) (auto simp: evaluateVoiceGateFrame_def Let_def)
    have run: "run_gate g (f # fs) s = run_gate g fs t" by (simp add: run_gate_def t_def)
    show ?case
      using Cons.IH[of t "Suc n"] t Cons.prems open_stays[of t fs] unfolding run by auto
  qed
  from this[of s 0] assms required_pos show ?thesis by auto
qed

text \<open>A gate that is open stays open for fewer than \<^const>\<open>holdFrames\<close> frames whatever they are.\<close>

lemma hold_open:
  assumes "gt_speaking s" "gt_belowFrames s + length fs < holdFrames g"
  shows "gt_speaking (run_gate g fs s)"
  using assms unfolding run_gate_def
proof (induction fs arbitrary: s)
  case (Cons f fs)
  have "gt_speaking (evaluateVoiceGateFrame g f s)"
    "gt_belowFrames (evaluateVoiceGateFrame g f s) \<le> Suc (gt_belowFrames s)"
    using Cons.prems by (auto simp: evaluateVoiceGateFrame_def Let_def)
  with Cons.prems show ?case by (simp add: Cons.IH)
qed simp

text \<open>Hysteresis: the level that closes the gate is below the level that opens it.\<close>

lemma hysteresis:
  "0 < gs_onThr g \<Longrightarrow> gs_offThr g < gs_onThr g \<Longrightarrow>
     gs_offThr g \<le> effectiveOffThr g \<and> effectiveOffThr g < gs_onThr g"
  by (simp add: effectiveOffThr_def)

text \<open>The average of a band lies between the least and the greatest of its values.\<close>

lemma average_bounds:
  fixes xs :: "real list"
  assumes "xs \<noteq> []" "\<forall>x \<in> set xs. lo \<le> x \<and> x \<le> hi"
  shows "lo \<le> sum_list xs / real (length xs) \<and> sum_list xs / real (length xs) \<le> hi"
proof -
  have "real (length xs) * lo \<le> sum_list xs \<and> sum_list xs \<le> real (length xs) * hi"
    using assms(2) by (induction xs) (auto simp: algebra_simps)
  with assms(1) show ?thesis by (simp add: field_simps)
qed

lemma finite_values_in: "x \<in> set (finite_values xs) \<Longrightarrow> Fin x \<in> set xs"
  by (induction xs rule: finite_values.induct) auto

lemma band_average_range:
  assumes "\<forall>x. Fin x \<in> set xs \<longrightarrow> lo \<le> x \<and> x \<le> hi" "lo \<le> - 100" "- 100 \<le> hi"
  shows "lo \<le> getBandAverageDb xs sr n a b \<and> getBandAverageDb xs sr n a b \<le> hi"
proof -
  have "lo \<le> sum_list (finite_values (band_slice xs i j)) / real (length (finite_values (band_slice xs i j))) \<and>
      sum_list (finite_values (band_slice xs i j)) / real (length (finite_values (band_slice xs i j))) \<le> hi"
    if "finite_values (band_slice xs i j) \<noteq> []" for i j
    using that assms(1)
    by (intro average_bounds) (auto dest!: finite_values_in simp: band_slice_def dest: in_set_dropD in_set_takeD)
  with assms(2,3) show ?thesis
    by (auto simp: getBandAverageDb_def Let_def split: jsnum.split)
qed

end
