(* ===== verification/JsNumber.thy ===== *)
theory JsNumber
  imports JsText
begin

text \<open>
  \<^verbatim>\<open>Number(text)\<close> of JavaScript: white space is trimmed, the empty text is 0, \<^verbatim>\<open>Infinity\<close> with an
  optional sign, a decimal with optional fraction and exponent, and the binary, octal and hexadecimal
  integers; everything else is not a number. Rounding to double is not modelled.
\<close>

definition digit_val :: "char \<Rightarrow> nat" where
  "digit_val c = (let n = char_code c in
     if 48 \<le> n \<and> n \<le> 57 then n - 48 else if 97 \<le> n \<and> n \<le> 122 then n - 87
     else if 65 \<le> n \<and> n \<le> 90 then n - 55 else 99)"

definition all_digits :: "nat \<Rightarrow> string \<Rightarrow> bool" where
  "all_digits b s \<longleftrightarrow> s \<noteq> [] \<and> list_all (\<lambda>c. digit_val c < b) s"

definition radix_value :: "nat \<Rightarrow> string \<Rightarrow> nat" where
  "radix_value b s = fold (\<lambda>c v. b * v + digit_val c) s 0"

definition split_sign :: "string \<Rightarrow> bool \<times> string" where
  "split_sign s = (case s of
     c # t \<Rightarrow> if c = CHR ''-'' then (True, t) else if c = CHR ''+'' then (False, t) else (False, s)
   | [] \<Rightarrow> (False, []))"

text \<open>The exponent after \<^verbatim>\<open>e\<close> or \<^verbatim>\<open>E\<close>.\<close>

definition exponent_of :: "string \<Rightarrow> int option" where
  "exponent_of s = (case s of
     [] \<Rightarrow> Some 0
   | c # t \<Rightarrow> if c \<noteq> CHR ''e'' \<and> c \<noteq> CHR ''E'' then None
       else case split_sign t of (neg, d) \<Rightarrow>
         if list_all is_digit d \<and> d \<noteq> [] then Some (if neg then - int (digits_value d) else int (digits_value d)) else None)"

definition pow10 :: "int \<Rightarrow> real" where
  "pow10 e = (if 0 \<le> e then 10 ^ nat e else 1 / 10 ^ nat (- e))"

definition unsigned_decimal :: "string \<Rightarrow> real option" where
  "unsigned_decimal s =
     (let ip = takeWhile is_digit s; r = dropWhile is_digit s;
          dot = (r \<noteq> [] \<and> hd r = CHR ''.'');
          fp = (if dot then takeWhile is_digit (tl r) else []);
          r2 = (if dot then dropWhile is_digit (tl r) else r)
      in if ip = [] \<and> fp = [] then None
         else case exponent_of r2 of
           None \<Rightarrow> None
         | Some e \<Rightarrow> Some ((real (digits_value ip) + real (digits_value fp) / 10 ^ length fp) * pow10 e))"

definition js_number :: "string \<Rightarrow> jsnum" where
  "js_number raw =
     (let s = js_trim raw; p = js_lower (take 2 s); d = drop 2 s in
      if s = [] then Fin 0
      else if p = ''0x'' then (if all_digits 16 d then Fin (real (radix_value 16 d)) else NaN)
      else if p = ''0o'' then (if all_digits 8 d then Fin (real (radix_value 8 d)) else NaN)
      else if p = ''0b'' then (if all_digits 2 d then Fin (real (radix_value 2 d)) else NaN)
      else case split_sign s of (neg, u) \<Rightarrow>
        if u = ''Infinity'' then (if neg then NegInf else PosInf)
        else case unsigned_decimal u of
          None \<Rightarrow> NaN
        | Some v \<Rightarrow> Fin (if neg then - v else v))"

lemma is_digit_not_ws: "is_digit c \<Longrightarrow> \<not> is_ws c"
  by (auto simp: is_digit_def is_ws_def Let_def)

lemma lower_digit: "is_digit c \<Longrightarrow> lower_char c = c"
  by (auto simp: is_digit_def lower_char_def Let_def)

lemma digits_no_prefix:
  assumes "list_all is_digit s"
  shows "js_lower (take 2 s) \<noteq> ''0x''" "js_lower (take 2 s) \<noteq> ''0o''" "js_lower (take 2 s) \<noteq> ''0b''"
proof -
  have "js_lower (take 2 s) = take 2 s"
    using assms by (intro map_idI) (auto simp: list_all_iff lower_digit dest!: in_set_takeD)
  moreover have "list_all is_digit (take 2 s)" using assms by (auto simp: list_all_iff dest!: in_set_takeD)
  moreover have "\<not> is_digit (CHR ''x'')" "\<not> is_digit (CHR ''o'')" "\<not> is_digit (CHR ''b'')"
    by (simp_all add: is_digit_def char_code_def)
  ultimately show "js_lower (take 2 s) \<noteq> ''0x''" "js_lower (take 2 s) \<noteq> ''0o''" "js_lower (take 2 s) \<noteq> ''0b''"
    by auto
qed

text \<open>The number of a decimal numeral.\<close>

lemma js_number_nat_str: "js_number (nat_str n) = Fin (real n)"
proof -
  define s where "s = nat_str n"
  have digits: "list_all is_digit s" by (auto simp: s_def list_all_iff nat_str_digits)
  have ne: "s \<noteq> []" by (simp add: s_def)
  then have hd: "is_digit (hd s)" "is_digit (last s)" using digits by (auto simp: list_all_iff)
  have trim: "js_trim s = s"
    using ne hd is_digit_not_ws by (intro js_trim_id) auto
  have sign: "split_sign s = (False, s)"
    using hd ne by (cases s) (auto simp: split_sign_def is_digit_def char_code_def Let_def)
  have inf: "s \<noteq> ''Infinity''"
    using hd by (auto simp: is_digit_def char_code_def)
  have tw: "takeWhile is_digit s = s" "dropWhile is_digit s = []"
    using digits by (simp_all add: list_all_iff)
  have "unsigned_decimal s = Some (real n)"
    using ne by (simp add: unsigned_decimal_def tw exponent_of_def pow10_def digits_value_def[of "[]"])
      (simp add: s_def)
  then show ?thesis
    unfolding s_def[symmetric] using ne digits_no_prefix[OF digits]
    by (simp add: js_number_def Let_def trim sign inf)
qed

end
