(* ===== verification/VoiceProfile.thy ===== *)
theory VoiceProfile
  imports WebStorage JsNumber
begin

text \<open>
  The microphone settings of the client: \<^verbatim>\<open>src/webrtc/sensitivityThreshold.ts\<close> and
  \<^verbatim>\<open>src/webrtc/voiceInputProfile.ts\<close>. Reads of \<^verbatim>\<open>localStorage\<close> are not guarded there, so a read
  that throws is \<^const>\<open>Inl\<close>.
\<close>

section \<open>Sensitivity\<close>

datatype speaking_preset = PresetNormal | PresetNoisy | PresetCustom

definition SENSITIVITY_THRESHOLD_KEY :: string where
  "SENSITIVITY_THRESHOLD_KEY = ''voxpery-settings-speaking-threshold''"

definition SPEAKING_PRESET_KEY :: string where
  "SPEAKING_PRESET_KEY = ''voxpery-settings-speaking-preset''"

definition DEFAULT_SPEAKING_PRESET :: speaking_preset where "DEFAULT_SPEAKING_PRESET = PresetNormal"

definition DEFAULT_SENSITIVITY_SLIDER :: real where "DEFAULT_SENSITIVITY_SLIDER = 42"

definition thresholdByPreset :: "speaking_preset \<Rightarrow> real" where
  "thresholdByPreset p = (if p = PresetNoisy then 60 else 42)"

definition parse_speaking_preset :: "string option \<Rightarrow> speaking_preset" where
  "parse_speaking_preset raw =
     (if raw = Some ''quiet'' then PresetNormal
      else if raw = Some ''normal'' then PresetNormal
      else if raw = Some ''noisy'' then PresetNoisy
      else if raw = Some ''custom'' then PresetCustom
      else DEFAULT_SPEAKING_PRESET)"

definition getStoredSpeakingPreset :: "string web_storage \<Rightarrow> unit + speaking_preset" where
  "getStoredSpeakingPreset st = map_sum id parse_speaking_preset (get_item SPEAKING_PRESET_KEY st)"

text \<open>\<^verbatim>\<open>Math.min\<close> and \<^verbatim>\<open>Math.max\<close> with a number that may be infinite; \<^verbatim>\<open>NaN || d\<close> and \<^verbatim>\<open>0 || d\<close> are \<^verbatim>\<open>d\<close>.\<close>

fun clamp_num :: "real \<Rightarrow> real \<Rightarrow> jsnum \<Rightarrow> jsnum" where
  "clamp_num lo hi (Fin x) = Fin (clamp lo hi x)"
| "clamp_num lo hi PosInf = Fin hi"
| "clamp_num lo hi NegInf = Fin lo"
| "clamp_num lo hi NaN = NaN"

definition or_num :: "jsnum \<Rightarrow> real \<Rightarrow> jsnum" where
  "or_num n d = (if n = NaN \<or> n = Fin 0 then Fin d else n)"

definition fin_or :: "real \<Rightarrow> jsnum \<Rightarrow> real" where
  "fin_or d n = (case n of Fin x \<Rightarrow> x | _ \<Rightarrow> d)"

definition onThresholdFromSlider :: "real \<Rightarrow> real" where
  "onThresholdFromSlider slider = (let s = clamp 0 100 slider; db = - 100 + s in 10 powr (db / 20))"

definition offThresholdFromOn :: "real \<Rightarrow> real" where
  "offThresholdFromOn onThr = max (1 / 1000000) (onThr * 14 / 100)"

text \<open>The slider of a stored text: \<^verbatim>\<open>Math.min(100, Math.max(0, Number(raw) || DEFAULT))\<close>.\<close>

definition slider_of_text :: "string \<Rightarrow> real" where
  "slider_of_text raw =
     fin_or DEFAULT_SENSITIVITY_SLIDER (clamp_num 0 100 (or_num (js_number raw) DEFAULT_SENSITIVITY_SLIDER))"

definition getSliderFromStorage :: "string web_storage \<Rightarrow> unit + real" where
  "getSliderFromStorage st =
     (case get_item SENSITIVITY_THRESHOLD_KEY st of
        Inl e \<Rightarrow> Inl e
      | Inr raw \<Rightarrow>
          if raw \<noteq> None \<and> js_trim (the raw) \<noteq> [] then Inr (slider_of_text (the raw))
          else case getStoredSpeakingPreset st of
            Inl e \<Rightarrow> Inl e
          | Inr preset \<Rightarrow> Inr (if preset = PresetCustom then DEFAULT_SENSITIVITY_SLIDER else thresholdByPreset preset))"

definition getThresholdsFromStorage :: "string web_storage \<Rightarrow> unit + (real \<times> real)" where
  "getThresholdsFromStorage st =
     map_sum id (\<lambda>slider. (onThresholdFromSlider slider, offThresholdFromOn (onThresholdFromSlider slider)))
       (getSliderFromStorage st)"

section \<open>Profiles\<close>

definition VOICE_INPUT_PROFILE_KEY :: string where
  "VOICE_INPUT_PROFILE_KEY = ''voxpery-settings-voice-input-profile''"

definition VOICE_MODE_KEY :: string where "VOICE_MODE_KEY = ''voxpery-settings-voice-mode''"

datatype voice_input_profile = ProfileIsolation | ProfileStudio | ProfileCustom
datatype voice_suppression_tuning = TuningOff | TuningBalanced | TuningHigh
datatype voice_mode = VoiceActivity | PushToTalk

record voice_profile_config =
  vp_profile :: voice_input_profile
  vp_voiceMode :: voice_mode
  vp_noiseSuppressionEnabled :: bool
  vp_speakingPreset :: speaking_preset
  vp_speakingThreshold :: real

definition DEFAULT_VOICE_INPUT_PROFILE :: voice_input_profile where
  "DEFAULT_VOICE_INPUT_PROFILE = ProfileIsolation"

fun profile_text :: "voice_input_profile \<Rightarrow> string" where
  "profile_text ProfileIsolation = ''isolation''"
| "profile_text ProfileStudio = ''studio''"
| "profile_text ProfileCustom = ''custom''"

definition parse_profile :: "string \<Rightarrow> voice_input_profile option" where
  "parse_profile t = (if t = ''isolation'' then Some ProfileIsolation
     else if t = ''studio'' then Some ProfileStudio
     else if t = ''custom'' then Some ProfileCustom else None)"

definition isVoiceInputProfile :: "string option \<Rightarrow> bool" where
  "isVoiceInputProfile v \<longleftrightarrow> (case v of None \<Rightarrow> False | Some t \<Rightarrow> parse_profile t \<noteq> None)"

definition getStoredVoiceInputProfile :: "string web_storage \<Rightarrow> unit + voice_input_profile" where
  "getStoredVoiceInputProfile st =
     map_sum id (\<lambda>raw. if isVoiceInputProfile raw then the (parse_profile (the raw)) else DEFAULT_VOICE_INPUT_PROFILE)
       (get_item VOICE_INPUT_PROFILE_KEY st)"

definition getVoiceInputProfileConfig :: "voice_input_profile \<Rightarrow> voice_profile_config" where
  "getVoiceInputProfileConfig p =
     (if p = ProfileStudio then
        \<lparr>vp_profile = p, vp_voiceMode = VoiceActivity, vp_noiseSuppressionEnabled = False,
         vp_speakingPreset = PresetNormal, vp_speakingThreshold = thresholdByPreset PresetNormal\<rparr>
      else if p = ProfileCustom then
        \<lparr>vp_profile = p, vp_voiceMode = VoiceActivity, vp_noiseSuppressionEnabled = True,
         vp_speakingPreset = DEFAULT_SPEAKING_PRESET,
         vp_speakingThreshold = thresholdByPreset DEFAULT_SPEAKING_PRESET\<rparr>
      else
        \<lparr>vp_profile = ProfileIsolation, vp_voiceMode = VoiceActivity, vp_noiseSuppressionEnabled = True,
         vp_speakingPreset = PresetNormal, vp_speakingThreshold = thresholdByPreset PresetNormal\<rparr>)"

definition getStoredVoiceMode :: "string web_storage \<Rightarrow> unit + voice_mode" where
  "getStoredVoiceMode st =
     (case get_item VOICE_INPUT_PROFILE_KEY st of
        Inl e \<Rightarrow> Inl e
      | Inr raw \<Rightarrow>
          if raw = Some ''isolation'' \<or> raw = Some ''studio''
          then Inr (vp_voiceMode (getVoiceInputProfileConfig (the (parse_profile (the raw)))))
          else map_sum id (\<lambda>m. if m = Some ''push_to_talk'' then PushToTalk else VoiceActivity)
                 (get_item VOICE_MODE_KEY st))"

definition shouldUseAggressiveVoiceIsolation :: "voice_input_profile \<Rightarrow> bool \<Rightarrow> bool" where
  "shouldUseAggressiveVoiceIsolation p noiseSuppression = (if \<not> noiseSuppression then False else p \<noteq> ProfileStudio)"

definition getVoiceSuppressionTuning :: "voice_input_profile \<Rightarrow> real \<Rightarrow> bool \<Rightarrow> voice_suppression_tuning" where
  "getVoiceSuppressionTuning p speakingThreshold noiseSuppression =
     (if \<not> noiseSuppression \<or> p = ProfileStudio then TuningOff
      else let thresholdDb = max (- 100) (min 0 (js_round (speakingThreshold - 100))) in
        if thresholdDb \<le> - 53 then TuningBalanced else TuningHigh)"

definition getVoiceSuppressionTuningForStoredThreshold ::
  "voice_input_profile \<Rightarrow> bool \<Rightarrow> string web_storage \<Rightarrow> unit + voice_suppression_tuning" where
  "getVoiceSuppressionTuningForStoredThreshold p noiseSuppression st =
     map_sum id (\<lambda>t. getVoiceSuppressionTuning p t noiseSuppression) (getSliderFromStorage st)"

definition getVoiceSuppressionTuningForThreshold ::
  "real \<Rightarrow> bool \<Rightarrow> string web_storage \<Rightarrow> unit + voice_suppression_tuning" where
  "getVoiceSuppressionTuningForThreshold t noiseSuppression st =
     map_sum id (\<lambda>p. getVoiceSuppressionTuning p t noiseSuppression) (getStoredVoiceInputProfile st)"

definition getStoredVoiceSuppressionTuning :: "bool \<Rightarrow> string web_storage \<Rightarrow> unit + voice_suppression_tuning" where
  "getStoredVoiceSuppressionTuning noiseSuppression st =
     (case getStoredVoiceInputProfile st of
        Inl e \<Rightarrow> Inl e
      | Inr p \<Rightarrow> getVoiceSuppressionTuningForStoredThreshold p noiseSuppression st)"

definition shouldRebuildSuppressionPipeline :: "voice_suppression_tuning \<Rightarrow> voice_suppression_tuning \<Rightarrow> bool" where
  "shouldRebuildSuppressionPipeline a b \<longleftrightarrow> a \<noteq> b"

section \<open>Lemmas\<close>

lemma parse_profile_text: "parse_profile (profile_text p) = Some p"
  by (cases p) (simp_all add: parse_profile_def)

interpretation profile_setting: stored_setting get_or_none try_set storage_works
  VOICE_INPUT_PROFILE_KEY profile_text parse_profile DEFAULT_VOICE_INPUT_PROFILE
  by unfold_locales (rule parse_profile_text)

lemma stored_profile_load:
  "readable st \<Longrightarrow> getStoredVoiceInputProfile st = Inr (profile_setting.load st)"
  by (auto simp: getStoredVoiceInputProfile_def profile_setting.load_def get_or_none_def get_item_def
      isVoiceInputProfile_def split: option.split)

lemma slider_range: "0 \<le> slider_of_text raw \<and> slider_of_text raw \<le> 100"
proof (cases "or_num (js_number raw) DEFAULT_SENSITIVITY_SLIDER")
  case (Fin x)
  then show ?thesis by (simp add: slider_of_text_def fin_or_def clamp_bounds)
qed (simp_all add: slider_of_text_def fin_or_def DEFAULT_SENSITIVITY_SLIDER_def)

lemma stored_slider_range:
  "getSliderFromStorage st = Inr x \<Longrightarrow> 0 \<le> x \<and> x \<le> 100"
  using slider_range
  by (auto simp: getSliderFromStorage_def DEFAULT_SENSITIVITY_SLIDER_def thresholdByPreset_def
      split: sum.splits if_splits)

text \<open>Every slider position but the lowest is read back as it was stored.\<close>

lemma slider_read_back: "1 \<le> n \<Longrightarrow> n \<le> 100 \<Longrightarrow> slider_of_text (nat_str n) = real n"
  by (simp add: slider_of_text_def js_number_nat_str or_num_def fin_or_def clamp_def)

lemma slider_zero_lost: "slider_of_text (nat_str 0) = 42"
  by (simp add: slider_of_text_def js_number_nat_str or_num_def fin_or_def clamp_def DEFAULT_SENSITIVITY_SLIDER_def)

lemma on_threshold_range: "0 < onThresholdFromSlider x \<and> onThresholdFromSlider x \<le> 1"
proof -
  define e where "e = (- 100 + clamp 0 100 x) / 20"
  have "e \<le> 0" using clamp_bounds[of 0 100 x] by (simp add: e_def)
  then have "10 powr e \<le> 10 powr (0 :: real)" by (intro powr_mono) auto
  then show ?thesis by (simp add: onThresholdFromSlider_def Let_def e_def)
qed

lemma on_threshold_mono: "x \<le> y \<Longrightarrow> onThresholdFromSlider x \<le> onThresholdFromSlider y"
  by (auto simp: onThresholdFromSlider_def Let_def clamp_def intro!: powr_mono)

lemma on_threshold_min: "1 / 100000 \<le> onThresholdFromSlider x"
proof -
  have "onThresholdFromSlider (min x 0) = 10 powr (- 5)"
    by (simp add: onThresholdFromSlider_def Let_def clamp_def)
  also have "10 powr (- 5) = (1 :: real) / 10 powr 5" by (rule powr_minus_divide)
  also have "(10 :: real) powr 5 = 100000" by simp
  finally show ?thesis using on_threshold_mono[of "min x 0" x] by simp
qed

text \<open>The off-threshold of the stored settings always lies below the on-threshold.\<close>

lemma thresholds_ordered:
  "getThresholdsFromStorage st = Inr (onThr, offThr) \<Longrightarrow> 0 < offThr \<and> offThr < onThr \<and> onThr \<le> 1"
proof -
  assume "getThresholdsFromStorage st = Inr (onThr, offThr)"
  then obtain x where x: "onThr = onThresholdFromSlider x" "offThr = offThresholdFromOn onThr"
    by (cases "getSliderFromStorage st") (auto simp: getThresholdsFromStorage_def)
  have "1 / 1000000 < onThr" using on_threshold_min[of x] by (simp add: x)
  then show ?thesis using on_threshold_range[of x] by (simp add: x offThresholdFromOn_def)
qed

end
