(* ===== verification/PlaybackVolume.thy ===== *)
theory PlaybackVolume
  imports WebStorage JsNumber
begin

text \<open>
  \<^verbatim>\<open>src/webrtc/remotePlaybackVolume.ts\<close>: the volume at which each participant's voice and screen is
  played. A stored text is what \<^verbatim>\<open>JSON.parse\<close> makes of it (an object whose values need not be numbers,
  \<^const>\<open>None\<close>), or the plain text of a key written by an earlier version. Storage calls that throw let
  the exception through: \<^const>\<open>Inl\<close>.
\<close>

datatype playback_kind = KindVoice | KindScreen

datatype volume_item = VolumeObject "jsnum option obj" | VolumeBroken | VolumeText string

definition REMOTE_PLAYBACK_VOLUME_STORAGE_KEY :: string where
  "REMOTE_PLAYBACK_VOLUME_STORAGE_KEY = ''voxpery-voice-peer-volume''"

definition REMOTE_SCREEN_PREVIOUS_VOLUME_STORAGE_KEY :: string where
  "REMOTE_SCREEN_PREVIOUS_VOLUME_STORAGE_KEY = ''voxpery-screen-peer-previous-volume''"

definition DEFAULT_REMOTE_PLAYBACK_VOLUME :: int where "DEFAULT_REMOTE_PLAYBACK_VOLUME = 100"
definition MAX_REMOTE_VOICE_PLAYBACK_VOLUME :: int where "MAX_REMOTE_VOICE_PLAYBACK_VOLUME = 200"
definition MAX_REMOTE_SCREEN_PLAYBACK_VOLUME :: int where "MAX_REMOTE_SCREEN_PLAYBACK_VOLUME = 100"

definition VOICE_PREFIX :: string where "VOICE_PREFIX = ''voice:''"
definition SCREEN_PREFIX :: string where "SCREEN_PREFIX = ''screen:''"

definition remotePlaybackVolumeKey :: "playback_kind \<Rightarrow> string \<Rightarrow> string" where
  "remotePlaybackVolumeKey kind userId = (case kind of KindVoice \<Rightarrow> VOICE_PREFIX | KindScreen \<Rightarrow> SCREEN_PREFIX) @ userId"

text \<open>\<^const>\<open>None\<close> is a value that is not a number.\<close>

definition normalizeRemotePlaybackVolume :: "jsnum option \<Rightarrow> int \<Rightarrow> int \<Rightarrow> int" where
  "normalizeRemotePlaybackVolume v fallback maximum =
     (case v of Some (Fin x) \<Rightarrow> min maximum (max 0 (js_round x)) | _ \<Rightarrow> fallback)"

definition normalizeRemoteVoicePlaybackVolume :: "jsnum option \<Rightarrow> int" where
  "normalizeRemoteVoicePlaybackVolume v =
     normalizeRemotePlaybackVolume v DEFAULT_REMOTE_PLAYBACK_VOLUME MAX_REMOTE_VOICE_PLAYBACK_VOLUME"

definition normalizeRemoteScreenPlaybackVolume :: "jsnum option \<Rightarrow> int" where
  "normalizeRemoteScreenPlaybackVolume v =
     normalizeRemotePlaybackVolume v DEFAULT_REMOTE_PLAYBACK_VOLUME MAX_REMOTE_SCREEN_PLAYBACK_VOLUME"

definition normalizeStoredVolume :: "string \<Rightarrow> jsnum \<Rightarrow> string \<times> int" where
  "normalizeStoredVolume key v =
     (if starts_with SCREEN_PREFIX key then (key, normalizeRemoteScreenPlaybackVolume (Some v))
      else if starts_with VOICE_PREFIX key then (key, normalizeRemoteVoicePlaybackVolume (Some v))
      else (remotePlaybackVolumeKey KindVoice key, normalizeRemoteVoicePlaybackVolume (Some v)))"

definition add_volume :: "string \<times> jsnum option \<Rightarrow> int obj \<Rightarrow> int obj" where
  "add_volume e acc = (case e of
     (key, Some (Fin x)) \<Rightarrow> (case normalizeStoredVolume key (Fin x) of (k, v) \<Rightarrow> obj_put k v acc)
   | _ \<Rightarrow> acc)"

definition parseRemotePlaybackVolumes :: "volume_item option \<Rightarrow> int obj" where
  "parseRemotePlaybackVolumes raw =
     (case raw of Some (VolumeObject es) \<Rightarrow> fold add_volume es [] | _ \<Rightarrow> [])"

definition volume_json :: "int obj \<Rightarrow> volume_item" where
  "volume_json m = VolumeObject (map (\<lambda>(k, v). (k, Some (Fin (of_int v)))) m)"

text \<open>The stored text is rewritten when it is not the text of the normalised volumes.\<close>

definition readRemotePlaybackVolumes ::
  "volume_item web_storage \<Rightarrow> unit + (int obj \<times> volume_item web_storage)" where
  "readRemotePlaybackVolumes st =
     (case get_item REMOTE_PLAYBACK_VOLUME_STORAGE_KEY st of
        Inl e \<Rightarrow> Inl e
      | Inr raw \<Rightarrow>
          (let volumes = parseRemotePlaybackVolumes raw in
           if raw \<noteq> None \<and> raw \<noteq> Some (volume_json volumes) then
             map_sum id (\<lambda>st'. (volumes, st')) (set_item REMOTE_PLAYBACK_VOLUME_STORAGE_KEY (volume_json volumes) st)
           else Inr (volumes, st)))"

definition writeRemotePlaybackVolumes ::
  "jsnum obj \<Rightarrow> volume_item web_storage \<Rightarrow> unit + (int obj \<times> volume_item web_storage)" where
  "writeRemotePlaybackVolumes volumes st =
     (let normalized = fold (\<lambda>(key, v) acc. case normalizeStoredVolume key v of (k, n) \<Rightarrow> obj_put k n acc) volumes []
      in map_sum id (\<lambda>st'. (normalized, st')) (set_item REMOTE_PLAYBACK_VOLUME_STORAGE_KEY (volume_json normalized) st))"

definition getRemotePlaybackVolume :: "jsnum obj \<Rightarrow> playback_kind \<Rightarrow> string \<Rightarrow> int" where
  "getRemotePlaybackVolume volumes kind userId =
     (let v = obj_get volumes (remotePlaybackVolumeKey kind userId) in
      case kind of KindVoice \<Rightarrow> normalizeRemoteVoicePlaybackVolume v
                 | KindScreen \<Rightarrow> normalizeRemoteScreenPlaybackVolume v)"

section \<open>Previous screen volume\<close>

definition keep_previous :: "string \<times> jsnum option \<Rightarrow> int obj \<Rightarrow> int obj" where
  "keep_previous e acc = (case e of
     (u, Some (Fin x)) \<Rightarrow>
       (let n = normalizeRemoteScreenPlaybackVolume (Some (Fin x)) in if n > 0 then obj_put u n acc else acc)
   | _ \<Rightarrow> acc)"

definition parsePreviousScreenVolumes :: "volume_item option \<Rightarrow> int obj" where
  "parsePreviousScreenVolumes raw =
     (case raw of Some (VolumeObject es) \<Rightarrow> fold keep_previous es [] | _ \<Rightarrow> [])"

definition writePreviousScreenPlaybackVolume ::
  "string \<Rightarrow> jsnum \<Rightarrow> volume_item web_storage \<Rightarrow> unit + (int \<times> volume_item web_storage)" where
  "writePreviousScreenPlaybackVolume userId volume st =
     (let normalized = normalizeRemoteScreenPlaybackVolume (Some volume) in
      if normalized \<le> 0 then Inr (DEFAULT_REMOTE_PLAYBACK_VOLUME, st)
      else case get_item REMOTE_SCREEN_PREVIOUS_VOLUME_STORAGE_KEY st of
        Inl e \<Rightarrow> Inl e
      | Inr raw \<Rightarrow>
          map_sum id (\<lambda>st'. (normalized, st'))
            (set_item REMOTE_SCREEN_PREVIOUS_VOLUME_STORAGE_KEY
               (volume_json (obj_put userId normalized (parsePreviousScreenVolumes raw))) st))"

text \<open>\<^verbatim>\<open>Number(storage.getItem(key))\<close> of a key an earlier version wrote; a missing one is \<^verbatim>\<open>null\<close>, 0.\<close>

definition legacy_number :: "volume_item option \<Rightarrow> jsnum" where
  "legacy_number raw = (case raw of None \<Rightarrow> Fin 0 | Some (VolumeText t) \<Rightarrow> js_number t | Some _ \<Rightarrow> NaN)"

definition legacy_key :: "string \<Rightarrow> string" where
  "legacy_key userId = remotePlaybackVolumeKey KindScreen userId @ ''_prev''"

definition readPreviousScreenPlaybackVolume ::
  "string \<Rightarrow> volume_item web_storage \<Rightarrow> unit + (int \<times> volume_item web_storage)" where
  "readPreviousScreenPlaybackVolume userId st =
     (case get_item REMOTE_SCREEN_PREVIOUS_VOLUME_STORAGE_KEY st of
        Inl e \<Rightarrow> Inl e
      | Inr raw \<Rightarrow>
          (case obj_get (parsePreviousScreenVolumes raw) userId of
             Some saved \<Rightarrow> Inr (saved, st)
           | None \<Rightarrow>
               (case get_item (legacy_key userId) st of
                  Inl e \<Rightarrow> Inl e
                | Inr legacy \<Rightarrow>
                    (case remove_item (legacy_key userId) st of
                       Inl e \<Rightarrow> Inl e
                     | Inr st1 \<Rightarrow>
                         (case legacy_number legacy of
                            Fin x \<Rightarrow>
                              if x \<le> 0 then Inr (DEFAULT_REMOTE_PLAYBACK_VOLUME, st1)
                              else let normalized = normalizeRemoteScreenPlaybackVolume (Some (Fin x)) in
                                map_sum id (\<lambda>(_, st2). (normalized, st2))
                                  (writePreviousScreenPlaybackVolume userId (Fin (of_int normalized)) st1)
                          | _ \<Rightarrow> Inr (DEFAULT_REMOTE_PLAYBACK_VOLUME, st1))))))"

section \<open>Lemmas\<close>

lemma normalize_bounds:
  "0 \<le> normalizeRemoteVoicePlaybackVolume v \<and> normalizeRemoteVoicePlaybackVolume v \<le> 200"
  "0 \<le> normalizeRemoteScreenPlaybackVolume v \<and> normalizeRemoteScreenPlaybackVolume v \<le> 100"
  by (auto simp: normalizeRemoteVoicePlaybackVolume_def normalizeRemoteScreenPlaybackVolume_def
      normalizeRemotePlaybackVolume_def DEFAULT_REMOTE_PLAYBACK_VOLUME_def MAX_REMOTE_VOICE_PLAYBACK_VOLUME_def
      MAX_REMOTE_SCREEN_PLAYBACK_VOLUME_def split: option.split jsnum.split)

text \<open>A stored entry in normal form: a prefixed key and a whole volume in the range of its kind.\<close>

definition normal_volume :: "string \<times> int \<Rightarrow> bool" where
  "normal_volume e \<longleftrightarrow> (case e of (k, v) \<Rightarrow> 0 \<le> v \<and>
     (if starts_with SCREEN_PREFIX k then v \<le> 100 else starts_with VOICE_PREFIX k \<and> v \<le> 200))"

lemma prefixes: "\<not> starts_with SCREEN_PREFIX (VOICE_PREFIX @ s)" "starts_with VOICE_PREFIX (VOICE_PREFIX @ s)"
  "starts_with SCREEN_PREFIX (SCREEN_PREFIX @ s)"
  by (simp_all add: starts_with_def SCREEN_PREFIX_def VOICE_PREFIX_def)

lemma normalized_normal: "normal_volume (normalizeStoredVolume k v)"
  using normalize_bounds[of "Some v"]
  by (simp add: normal_volume_def normalizeStoredVolume_def remotePlaybackVolumeKey_def prefixes)

lemma normal_fixed: "normal_volume (k, v) \<Longrightarrow> normalizeStoredVolume k (Fin (of_int v)) = (k, v)"
  by (auto simp: normal_volume_def normalizeStoredVolume_def normalizeRemoteVoicePlaybackVolume_def
      normalizeRemoteScreenPlaybackVolume_def normalizeRemotePlaybackVolume_def
      MAX_REMOTE_VOICE_PLAYBACK_VOLUME_def MAX_REMOTE_SCREEN_PLAYBACK_VOLUME_def split: if_splits)

definition volumes_ok :: "int obj \<Rightarrow> bool" where
  "volumes_ok m \<longleftrightarrow> obj_ok m \<and> (\<forall>e \<in> set m. normal_volume e)"

lemma volumes_ok_put: "volumes_ok m \<Longrightarrow> normal_volume (k, v) \<Longrightarrow> volumes_ok (obj_put k v m)"
proof -
  assume m: "volumes_ok m" and n: "normal_volume (k, v)"
  have "set (obj_put k v m) \<subseteq> insert (k, v) (set m)" by (induction m) auto
  with m n show ?thesis by (auto simp: volumes_ok_def obj_ok_put)
qed

lemma volumes_ok_add: "volumes_ok m \<Longrightarrow> volumes_ok (add_volume e m)"
  using normalized_normal[of "fst e"]
  by (auto simp: add_volume_def split: prod.split option.split jsnum.split intro!: volumes_ok_put)
    (metis fst_conv)

lemma volumes_ok_fold: "volumes_ok m \<Longrightarrow> volumes_ok (fold add_volume es m)"
  by (induction es arbitrary: m) (auto simp: volumes_ok_add)

lemma parsed_ok: "volumes_ok (parseRemotePlaybackVolumes raw)"
proof -
  have "volumes_ok []" by (simp add: volumes_ok_def)
  then show ?thesis
    by (simp add: parseRemotePlaybackVolumes_def volumes_ok_fold split: option.split volume_item.split)
qed

lemma fold_add_normal:
  "volumes_ok (acc @ m) \<Longrightarrow> fold add_volume (map (\<lambda>(k, v). (k, Some (Fin (of_int v)))) m) acc = acc @ m"
proof (induction m arbitrary: acc)
  case (Cons e m)
  obtain k v where e: "e = (k, v)" by (cases e)
  have "normal_volume (k, v)" "k \<notin> set (obj_keys acc)" using Cons.prems by (auto simp: volumes_ok_def e)
  then have "add_volume (k, Some (Fin (of_int v))) acc = acc @ [(k, v)]"
    by (simp add: add_volume_def normal_fixed obj_put_fresh)
  with Cons show ?case by (simp add: e)
qed simp

text \<open>Normalised volumes read back unchanged, so a second read does not write.\<close>

lemma parse_json: "volumes_ok m \<Longrightarrow> parseRemotePlaybackVolumes (Some (volume_json m)) = m"
  using fold_add_normal[of "[]" m] by (simp add: parseRemotePlaybackVolumes_def volume_json_def)

lemma written_ok:
  "volumes_ok acc \<Longrightarrow>
     volumes_ok (fold (\<lambda>(key, v) acc. case normalizeStoredVolume key v of (k, n) \<Rightarrow> obj_put k n acc) vs acc)"
proof (induction vs arbitrary: acc)
  case (Cons e vs)
  obtain key v where e: "e = (key, v)" by (cases e)
  obtain k n where kn: "normalizeStoredVolume key v = (k, n)" by (cases "normalizeStoredVolume key v")
  then have "volumes_ok (obj_put k n acc)" using Cons.prems normalized_normal[of key v] by (simp add: volumes_ok_put)
  then show ?case using Cons.IH by (simp add: e kn)
qed simp

lemma write_then_read:
  assumes "writeRemotePlaybackVolumes vs st = Inr (m, st')" and "readable st"
  shows "readRemotePlaybackVolumes st' = Inr (m, st') \<and> volumes_ok m"
proof -
  have st': "items st' = obj_put REMOTE_PLAYBACK_VOLUME_STORAGE_KEY (volume_json m) (items st)" "readable st'"
    using assms by (auto simp: writeRemotePlaybackVolumes_def Let_def set_item_def split: if_splits)
  have "volumes_ok m"
    using assms(1) written_ok[of "[]" vs]
    by (auto simp: writeRemotePlaybackVolumes_def Let_def volumes_ok_def set_item_def split: if_splits)
  with st' show ?thesis
    by (simp add: readRemotePlaybackVolumes_def get_item_def obj_get_put parse_json)
qed

text \<open>A previous screen volume is never silence and never above the maximum.\<close>

lemma keep_previous_range:
  "(\<forall>(k, v) \<in> set acc. 0 < v \<and> v \<le> 100) \<Longrightarrow> \<forall>(k, v) \<in> set (fold keep_previous es acc). 0 < v \<and> v \<le> 100"
proof (induction es arbitrary: acc)
  case (Cons e es)
  have put: "(\<forall>(k, v) \<in> set (obj_put u n acc). 0 < v \<and> v \<le> 100)" if "0 < n" "n \<le> 100" for u and n :: int
    using Cons.prems that by (induction acc) auto
  have "\<forall>(k, v) \<in> set (keep_previous e acc). 0 < v \<and> v \<le> 100"
    using Cons.prems put normalize_bounds(2)
    by (cases e) (auto simp: keep_previous_def Let_def split: option.split jsnum.split)
  with Cons.IH show ?case by simp
qed simp

lemma previous_volume_range:
  assumes "readPreviousScreenPlaybackVolume u st = Inr (v, st')"
  shows "0 \<le> v \<and> v \<le> 100"
proof -
  have saved: "0 < x \<and> x \<le> 100" if "obj_get (parsePreviousScreenVolumes raw) u = Some x" for raw x
    using that keep_previous_range[of "[]"]
    by (fastforce simp: parsePreviousScreenVolumes_def split: option.splits volume_item.splits dest: map_of_SomeD)
  have written: "0 \<le> y \<and> y \<le> 100" if "map_sum id (\<lambda>(_, st2). (normalizeRemoteScreenPlaybackVolume z, st2)) w = Inr (y, t)"
    for y z t and w :: "unit + (int \<times> volume_item web_storage)"
    using that normalize_bounds(2)[of z] by (cases w) auto
  show ?thesis
    using assms saved written
    by (auto simp: readPreviousScreenPlaybackVolume_def DEFAULT_REMOTE_PLAYBACK_VOLUME_def Let_def
        split: sum.splits option.splits jsnum.splits if_splits dest: less_imp_le)
qed

end
