(* ===== verification/StageLayout.thy ===== *)
theory StageLayout
  imports JsBase
begin

text \<open>
  Geometry: the tiles of the voice stage (\<^verbatim>\<open>src/components/voiceStageLayout.ts\<close>), the floating stream
  preview (\<^verbatim>\<open>src/streamPreviewLayout.ts\<close>) and the crop of a profile photo
  (\<^verbatim>\<open>src/components/avatarCrop.ts\<close>). Lengths are real numbers.
\<close>

section \<open>Stage\<close>

definition STAGE_TILE_ASPECT :: real where "STAGE_TILE_ASPECT = 16 / 9"

definition stripVisibleCount :: "int \<Rightarrow> real \<Rightarrow> real \<Rightarrow> real \<Rightarrow> int" where
  "stripVisibleCount cnt lineWidth tileWidth gap =
     (if cnt \<le> 0 \<or> lineWidth \<le> 0 then max 0 cnt
      else let capacity = max 1 \<lfloor>(lineWidth + gap) / (tileWidth + gap)\<rfloor> in
        if cnt \<le> capacity then cnt else capacity - 1)"

record stage_box =
  sb_width :: real
  sb_height :: real
  sb_gap :: real

record grid_fit =
  gr_columns :: nat
  gr_tileWidth :: real
  gr_tileHeight :: real

text \<open>\<^verbatim>\<open>Math.ceil(count / columns)\<close>.\<close>

definition grid_rows :: "nat \<Rightarrow> nat \<Rightarrow> nat" where
  "grid_rows cnt columns = (cnt + columns - 1) div columns"

definition tile_width :: "nat \<Rightarrow> stage_box \<Rightarrow> real \<Rightarrow> nat \<Rightarrow> real" where
  "tile_width cnt box aspect columns =
     (let rows = grid_rows cnt columns in
      min ((sb_width box - sb_gap box * real (columns - 1)) / real columns)
          ((sb_height box - sb_gap box * real (rows - 1)) / real rows * aspect))"

definition consider_columns ::
  "nat \<Rightarrow> stage_box \<Rightarrow> real \<Rightarrow> nat \<Rightarrow> (nat \<times> real) option \<Rightarrow> (nat \<times> real) option" where
  "consider_columns cnt box aspect columns best =
     (let w = tile_width cnt box aspect columns in
      if w > 0 \<and> (case best of None \<Rightarrow> True | Some (_, b) \<Rightarrow> w > b) then Some (columns, w) else best)"

definition best_columns :: "nat \<Rightarrow> stage_box \<Rightarrow> real \<Rightarrow> (nat \<times> real) option" where
  "best_columns cnt box aspect = fold (consider_columns cnt box aspect) [1..<cnt + 1] None"

text \<open>The result before and after \<^verbatim>\<open>Math.floor\<close> of the sizes.\<close>

definition fit_exact :: "nat \<Rightarrow> stage_box \<Rightarrow> real \<Rightarrow> real \<Rightarrow> grid_fit option" where
  "fit_exact cnt box minTileWidth aspect =
     (if cnt = 0 \<or> sb_width box \<le> 0 \<or> sb_height box \<le> 0 then None
      else case best_columns cnt box aspect of
        None \<Rightarrow> None
      | Some (c, w) \<Rightarrow>
          if w < minTileWidth then
            let columns = max 1 (min cnt (nat \<lfloor>(sb_width box + sb_gap box) / (minTileWidth + sb_gap box)\<rfloor>));
                tw = (sb_width box - sb_gap box * real (columns - 1)) / real columns
            in Some \<lparr>gr_columns = columns, gr_tileWidth = tw, gr_tileHeight = tw / aspect\<rparr>
          else Some \<lparr>gr_columns = c, gr_tileWidth = w, gr_tileHeight = w / aspect\<rparr>)"

definition fitStageGrid :: "nat \<Rightarrow> stage_box \<Rightarrow> real \<Rightarrow> real \<Rightarrow> (nat \<times> int \<times> int) option" where
  "fitStageGrid cnt box minTileWidth aspect =
     map_option (\<lambda>g. (gr_columns g, \<lfloor>gr_tileWidth g\<rfloor>, \<lfloor>gr_tileHeight g\<rfloor>)) (fit_exact cnt box minTileWidth aspect)"

definition fitMediaFrame :: "real \<Rightarrow> real \<Rightarrow> real \<Rightarrow> int \<times> int" where
  "fitMediaFrame aspect width height =
     (if \<not> aspect > 0 \<or> width \<le> 0 \<or> height \<le> 0 then (\<lfloor>width\<rfloor>, \<lfloor>height\<rfloor>)
      else if width / height > aspect then (\<lfloor>height * aspect\<rfloor>, \<lfloor>height\<rfloor>)
      else (\<lfloor>width\<rfloor>, \<lfloor>width / aspect\<rfloor>))"

lemma strip_fits:
  assumes "0 < tileWidth + gap" "0 < lineWidth" "0 < cnt"
  shows "0 \<le> stripVisibleCount cnt lineWidth tileWidth gap \<and>
    stripVisibleCount cnt lineWidth tileWidth gap \<le> cnt \<and>
    (let shown = stripVisibleCount cnt lineWidth tileWidth gap; slots = (if shown < cnt then shown + 1 else shown)
     in slots = 1 \<or> of_int slots * (tileWidth + gap) \<le> lineWidth + gap)"
proof -
  define q where "q = (lineWidth + gap) / (tileWidth + gap)"
  define cap where "cap = max 1 \<lfloor>q\<rfloor>"
  have fits: "of_int k * (tileWidth + gap) \<le> lineWidth + gap" if "k \<le> \<lfloor>q\<rfloor>" for k
  proof -
    have "of_int k \<le> q" using that by linarith
    then have "of_int k * (tileWidth + gap) \<le> q * (tileWidth + gap)" using assms(1) by (intro mult_right_mono) auto
    then show ?thesis using assms(1) by (simp add: q_def)
  qed
  have eq: "stripVisibleCount cnt lineWidth tileWidth gap = (if cnt \<le> cap then cnt else cap - 1)"
    using assms(2,3) by (simp add: stripVisibleCount_def q_def cap_def)
  have small: "k = 1 \<or> of_int k * (tileWidth + gap) \<le> lineWidth + gap" if "1 \<le> k" "k \<le> cap" for k
    using fits[of k] that by (cases "k \<le> \<lfloor>q\<rfloor>") (auto simp: cap_def max_def split: if_splits)
  have cap: "1 \<le> cap" by (simp add: cap_def)
  show ?thesis
    using small[of cnt] small[of cap] cap assms(3) unfolding eq Let_def by (auto split: if_splits)
qed

lemma consider_max:
  assumes "case best of None \<Rightarrow> True | Some (c, b) \<Rightarrow> 0 < b \<and> b = tile_width cnt box aspect c \<and> 1 \<le> c \<and> c \<le> cnt"
    and "\<forall>c \<in> set cs. 1 \<le> c \<and> c \<le> cnt"
  shows "case fold (consider_columns cnt box aspect) cs best of
      None \<Rightarrow> best = None \<and> (\<forall>c \<in> set cs. tile_width cnt box aspect c \<le> 0)
    | Some (c, b) \<Rightarrow> 0 < b \<and> b = tile_width cnt box aspect c \<and> 1 \<le> c \<and> c \<le> cnt \<and>
        (\<forall>d \<in> set cs. tile_width cnt box aspect d \<le> b) \<and> (\<forall>c' b'. best = Some (c', b') \<longrightarrow> b' \<le> b)"
  using assms
proof (induction cs arbitrary: best)
  case Nil
  then show ?case by (auto split: option.splits)
next
  case (Cons c cs)
  define best1 where "best1 = consider_columns cnt box aspect c best"
  have b1: "best1 = (if tile_width cnt box aspect c > 0 \<and> (case best of None \<Rightarrow> True | Some (_, b) \<Rightarrow> tile_width cnt box aspect c > b)
      then Some (c, tile_width cnt box aspect c) else best)"
    by (simp add: best1_def consider_columns_def Let_def)
  have pre: "case best1 of None \<Rightarrow> True | Some (c, b) \<Rightarrow> 0 < b \<and> b = tile_width cnt box aspect c \<and> 1 \<le> c \<and> c \<le> cnt"
    using Cons.prems by (auto simp: b1 split: option.splits)
  have up: "(case best1 of None \<Rightarrow> best = None \<and> tile_width cnt box aspect c \<le> 0
      | Some (_, b) \<Rightarrow> tile_width cnt box aspect c \<le> b \<and> (\<forall>c' b'. best = Some (c', b') \<longrightarrow> b' \<le> b))"
    using Cons.prems(1) by (auto simp: b1 split: option.splits)
  have step: "fold (consider_columns cnt box aspect) (c # cs) best = fold (consider_columns cnt box aspect) cs best1"
    by (simp add: best1_def)
  have "\<forall>c \<in> set cs. 1 \<le> c \<and> c \<le> cnt" using Cons.prems by auto
  from Cons.IH[OF pre this] show ?case
    unfolding step using up
    by (cases "fold (consider_columns cnt box aspect) cs best1"; cases best1) (force split: option.splits)+
qed

text \<open>The chosen column count gives the widest tiles of all counts.\<close>

lemma best_columns_max:
  assumes "best_columns cnt box aspect = Some (c, w)"
  shows "0 < w \<and> w = tile_width cnt box aspect c \<and> 1 \<le> c \<and> c \<le> cnt \<and>
    (\<forall>d. 1 \<le> d \<and> d \<le> cnt \<longrightarrow> tile_width cnt box aspect d \<le> w)"
proof -
  define cs where "cs = [1..<cnt + 1]"
  have cs: "\<forall>c \<in> set cs. 1 \<le> c \<and> c \<le> cnt" "\<And>d. 1 \<le> d \<Longrightarrow> d \<le> cnt \<Longrightarrow> d \<in> set cs" by (auto simp: cs_def)
  from consider_max[where best = None and cnt = cnt and box = box and aspect = aspect and cs = cs] assms cs show ?thesis
    unfolding best_columns_def cs_def[symmetric] by auto
qed

text \<open>Tiles of the best fit lie inside the stage, gaps included.\<close>

lemma grid_fits:
  assumes "best_columns cnt box aspect = Some (c, w)" "0 < aspect"
  shows "real c * w + sb_gap box * real (c - 1) \<le> sb_width box \<and>
    real (grid_rows cnt c) * (w / aspect) + sb_gap box * real (grid_rows cnt c - 1) \<le> sb_height box \<and>
    cnt \<le> c * grid_rows cnt c"
proof -
  note best = best_columns_max[OF assms(1)]
  define r where "r = grid_rows cnt c"
  have c: "0 < real c" using best by simp
  have "cnt \<le> c * r" "0 < r"
  proof -
    have "(cnt + c - 1) mod c < c" using best by simp
    moreover have "c * r + (cnt + c - 1) mod c = cnt + c - 1" by (simp add: r_def grid_rows_def)
    ultimately show "cnt \<le> c * r" using best by linarith
    then show "0 < r" using best by (cases r) auto
  qed
  then have r: "0 < real r" by simp
  have w1: "w \<le> (sb_width box - sb_gap box * real (c - 1)) / real c"
    and w2: "w \<le> (sb_height box - sb_gap box * real (r - 1)) / real r * aspect"
    using best by (simp_all add: tile_width_def Let_def r_def)
  have "real c * w \<le> sb_width box - sb_gap box * real (c - 1)"
    using w1 c by (simp add: pos_le_divide_eq mult.commute)
  moreover have "w / aspect \<le> (sb_height box - sb_gap box * real (r - 1)) / real r"
    using w2 assms(2) by (simp add: pos_divide_le_eq)
  then have "real r * (w / aspect) \<le> sb_height box - sb_gap box * real (r - 1)"
    using r by (simp add: pos_le_divide_eq mult.commute)
  ultimately show ?thesis using \<open>cnt \<le> c * r\<close> by (simp add: r_def)
qed

text \<open>A media frame never leaves its tile, and one side is as long as the tile's.\<close>

lemma media_frame_fits:
  assumes "0 < aspect" "0 < width" "0 < height"
  shows "case fitMediaFrame aspect width height of (w, h) \<Rightarrow>
    of_int w \<le> width \<and> of_int h \<le> height \<and> (w = \<lfloor>width\<rfloor> \<or> h = \<lfloor>height\<rfloor>)"
proof (cases "width / height > aspect")
  case True
  then have "height * aspect \<le> width" using assms(3) by (simp add: pos_less_divide_eq mult.commute)
  with True assms show ?thesis by (auto simp: fitMediaFrame_def) linarith+
next
  case False
  then have "width \<le> height * aspect" using assms(3) by (simp add: not_less pos_divide_le_eq mult.commute)
  then have "width / aspect \<le> height" using assms(1) by (simp add: pos_divide_le_eq)
  with False assms show ?thesis by (auto simp: fitMediaFrame_def) linarith+
qed

section \<open>Stream preview\<close>

definition STREAM_PREVIEW_MAX_WIDTH :: real where "STREAM_PREVIEW_MAX_WIDTH = 960"

record preview_rect =
  pr_left :: real
  pr_top :: real
  pr_width :: real
  pr_height :: real

record preview_position =
  pp_x :: real
  pp_y :: real

datatype preview_corner = TopLeft | TopRight | BottomLeft | BottomRight

definition preview_clamp :: "real \<Rightarrow> real \<Rightarrow> real" where
  "preview_clamp v m = max 0 (min m v)"

definition streamPreviewFrame :: "preview_rect \<Rightarrow> real \<Rightarrow> preview_position \<Rightarrow> real \<Rightarrow> preview_rect" where
  "streamPreviewFrame bounds requestedWidth pos aspect =
     (let width = max 0 (min requestedWidth (min STREAM_PREVIEW_MAX_WIDTH (min (pr_width bounds) (pr_height bounds * aspect))));
          height = width / aspect
      in \<lparr>pr_left = pr_left bounds + preview_clamp (pp_x pos) 1 * max 0 (pr_width bounds - width),
          pr_top = pr_top bounds + preview_clamp (pp_y pos) 1 * max 0 (pr_height bounds - height),
          pr_width = width, pr_height = height\<rparr>)"

definition streamPreviewPosition :: "preview_rect \<Rightarrow> real \<Rightarrow> real \<Rightarrow> real \<Rightarrow> real \<Rightarrow> preview_position" where
  "streamPreviewPosition bounds width left upper aspect =
     (let travelX = max 0 (pr_width bounds - width); travelY = max 0 (pr_height bounds - width / aspect)
      in \<lparr>pp_x = (if travelX \<noteq> 0 then preview_clamp (left - pr_left bounds) travelX / travelX else 1),
          pp_y = (if travelY \<noteq> 0 then preview_clamp (upper - pr_top bounds) travelY / travelY else 0)\<rparr>)"

definition west_of :: "preview_corner \<Rightarrow> bool" where
  "west_of c \<longleftrightarrow> c = TopLeft \<or> c = BottomLeft"

definition north_of :: "preview_corner \<Rightarrow> bool" where
  "north_of c \<longleftrightarrow> c = TopLeft \<or> c = TopRight"

definition resizeStreamPreview ::
  "preview_rect \<Rightarrow> preview_rect \<Rightarrow> preview_corner \<Rightarrow> real \<Rightarrow> real \<Rightarrow> real \<Rightarrow> real \<times> preview_position" where
  "resizeStreamPreview bounds frame corner dx dy aspect =
     (let west = west_of corner; north = north_of corner;
          anchorX = pr_left frame + (if west then pr_width frame else 0);
          anchorY = pr_top frame + (if north then pr_height frame else 0);
          horizontal = dx * (if west then - 1 else 1);
          vertical = dy * (if north then - 1 else 1) * aspect;
          delta = (if \<bar>horizontal\<bar> \<ge> \<bar>vertical\<bar> then horizontal else vertical);
          available = max 0 (min STREAM_PREVIEW_MAX_WIDTH
            (min (if west then anchorX - pr_left bounds else pr_left bounds + pr_width bounds - anchorX)
                 ((if north then anchorY - pr_top bounds else pr_top bounds + pr_height bounds - anchorY) * aspect)));
          width = max (min 240 available) (min available (pr_width frame + delta));
          left = anchorX - (if west then width else 0);
          upper = anchorY - (if north then width / aspect else 0)
      in (width, streamPreviewPosition bounds width left upper aspect))"

lemma preview_clamp_range: "0 \<le> m \<Longrightarrow> 0 \<le> preview_clamp v m \<and> preview_clamp v m \<le> m"
  by (simp add: preview_clamp_def)

text \<open>Whatever was requested, the preview lies inside its bounds and keeps its aspect.\<close>

lemma preview_inside:
  assumes "0 < aspect" "0 \<le> pr_width b" "0 \<le> pr_height b"
  shows "let f = streamPreviewFrame b req pos aspect in
    pr_left b \<le> pr_left f \<and> pr_left f + pr_width f \<le> pr_left b + pr_width b \<and>
    pr_top b \<le> pr_top f \<and> pr_top f + pr_height f \<le> pr_top b + pr_height b \<and>
    pr_width f = pr_height f * aspect \<and> 0 \<le> pr_width f \<and> pr_width f \<le> STREAM_PREVIEW_MAX_WIDTH"
proof -
  define w where "w = max 0 (min req (min STREAM_PREVIEW_MAX_WIDTH (min (pr_width b) (pr_height b * aspect))))"
  have w: "0 \<le> w" "w \<le> pr_width b" "w \<le> pr_height b * aspect" "w \<le> STREAM_PREVIEW_MAX_WIDTH"
    using assms by (auto simp: w_def STREAM_PREVIEW_MAX_WIDTH_def)
  have h: "w / aspect \<le> pr_height b" using w(3) assms(1) by (simp add: pos_divide_le_eq)
  have travel: "0 \<le> preview_clamp t 1 * max 0 d \<and> preview_clamp t 1 * max 0 d \<le> d" if "0 \<le> d" for t d :: real
    using preview_clamp_range[of 1 t] that mult_right_mono[of "preview_clamp t 1" 1 d] by simp
  have "0 \<le> pr_width b - w" "0 \<le> pr_height b - w / aspect" using w h by simp_all
  from travel[OF this(1), of "pp_x pos"] travel[OF this(2), of "pp_y pos"] w h assms(1)
  show ?thesis unfolding streamPreviewFrame_def w_def[symmetric] Let_def by simp
qed

lemma preview_position_range:
  "let p = streamPreviewPosition b w l u aspect in 0 \<le> pp_x p \<and> pp_x p \<le> 1 \<and> 0 \<le> pp_y p \<and> pp_y p \<le> 1"
proof -
  have "0 \<le> preview_clamp v m / m \<and> preview_clamp v m / m \<le> 1" if "0 \<le> m" "m \<noteq> 0" for v m :: real
    using preview_clamp_range[OF that(1), of v] that by (simp add: divide_le_eq_1)
  then show ?thesis by (simp add: streamPreviewPosition_def Let_def)
qed

text \<open>A resized preview is placed again where it was dragged to: position and frame agree.\<close>

lemma position_frame:
  assumes "0 < aspect" "0 \<le> w" "w \<le> STREAM_PREVIEW_MAX_WIDTH" "w \<le> pr_width b" "w / aspect \<le> pr_height b"
    and "pr_left b \<le> l" "l + w \<le> pr_left b + pr_width b" "pr_top b \<le> u" "u + w / aspect \<le> pr_top b + pr_height b"
  shows "streamPreviewFrame b w (streamPreviewPosition b w l u aspect) aspect =
    \<lparr>pr_left = l, pr_top = u, pr_width = w, pr_height = w / aspect\<rparr>"
proof -
  have "w \<le> pr_height b * aspect" using assms(1,5) by (simp add: pos_divide_le_eq)
  then have width: "max 0 (min w (min STREAM_PREVIEW_MAX_WIDTH (min (pr_width b) (pr_height b * aspect)))) = w"
    using assms by simp
  have again: "preview_clamp (if t \<noteq> 0 then preview_clamp d t / t else z) 1 * t = d" if "0 \<le> d" "d \<le> t" "0 \<le> z" for d t z :: real
    using that by (auto simp: preview_clamp_def)
  have t: "max 0 (pr_width b - w) = pr_width b - w" "max 0 (pr_height b - w / aspect) = pr_height b - w / aspect"
    using assms(4,5) by simp_all
  note x = again[of "l - pr_left b" "pr_width b - w" 1] and y = again[of "u - pr_top b" "pr_height b - w / aspect" 0]
  have "0 \<le> l - pr_left b" "l - pr_left b \<le> pr_width b - w" "0 \<le> u - pr_top b" "u - pr_top b \<le> pr_height b - w / aspect"
    using assms(6-9) by simp_all
  note xy = x[OF this(1,2) zero_le_one] y[OF this(3,4) order_refl]
  show ?thesis
    unfolding streamPreviewFrame_def streamPreviewPosition_def Let_def width t
    by (simp only: preview_position.select_convs xy) simp
qed

section \<open>Crop of a profile photo\<close>

record crop_offset =
  co_x :: real
  co_y :: real

record crop_geometry =
  cg_displayWidth :: real
  cg_displayHeight :: real
  cg_left :: real
  cg_top :: real
  cg_offset :: crop_offset
  cg_sourceX :: real
  cg_sourceY :: real
  cg_sourceSize :: real

definition crop_scale :: "real \<Rightarrow> real \<Rightarrow> real \<Rightarrow> real \<Rightarrow> real" where
  "crop_scale width height zoom previewSize = max (previewSize / width) (previewSize / height) * clamp 1 3 zoom"

text \<open>\<^const>\<open>None\<close> is the thrown error about invalid dimensions.\<close>

definition getAvatarCropGeometry :: "real \<Rightarrow> real \<Rightarrow> real \<Rightarrow> crop_offset \<Rightarrow> real \<Rightarrow> crop_geometry option" where
  "getAvatarCropGeometry width height zoom offset previewSize =
     (if width \<le> 0 \<or> height \<le> 0 \<or> previewSize \<le> 0 then None
      else let scale = crop_scale width height zoom previewSize;
               displayWidth = width * scale; displayHeight = height * scale;
               limitX = (displayWidth - previewSize) / 2; limitY = (displayHeight - previewSize) / 2;
               x = clamp (- limitX) limitX (co_x offset); y = clamp (- limitY) limitY (co_y offset);
               left = (previewSize - displayWidth) / 2 + x; upper = (previewSize - displayHeight) / 2 + y
           in Some \<lparr>cg_displayWidth = displayWidth, cg_displayHeight = displayHeight, cg_left = left, cg_top = upper,
                    cg_offset = \<lparr>co_x = x, co_y = y\<rparr>,
                    cg_sourceX = max 0 (- left / scale), cg_sourceY = max 0 (- upper / scale),
                    cg_sourceSize = previewSize / scale\<rparr>)"

lemma scale_covers:
  assumes "0 < width" "0 < height" "0 < p"
  shows "0 < crop_scale width height zoom p" "p \<le> width * crop_scale width height zoom p"
    "p \<le> height * crop_scale width height zoom p"
proof -
  define m where "m = max (p / width) (p / height)"
  define z where "z = clamp 1 3 zoom"
  have z: "1 \<le> z" using clamp_bounds[of 1 3 zoom] by (simp add: z_def)
  have m: "p / width \<le> m" "p / height \<le> m" by (simp_all add: m_def)
  have pos: "0 < m" using assms m(1) by (meson divide_pos_pos less_le_trans)
  have s: "crop_scale width height zoom p = m * z" by (simp add: crop_scale_def m_def z_def)
  have "m * 1 \<le> m * z" using pos z by (intro mult_left_mono) auto
  then have ge: "p / width \<le> m * z" "p / height \<le> m * z" using m by auto
  show "0 < crop_scale width height zoom p" unfolding s using pos z by simp
  show "p \<le> width * crop_scale width height zoom p"
    using ge(1) assms unfolding s by (simp add: pos_divide_le_eq mult.commute)
  show "p \<le> height * crop_scale width height zoom p"
    using ge(2) assms unfolding s by (simp add: pos_divide_le_eq mult.commute)
qed

text \<open>One axis: after clamping, the preview square lies inside the scaled photo.\<close>

lemma crop_axis:
  fixes s p n o1 :: real
  assumes "0 < s" "0 < p" "p \<le> n * s"
  shows "let lim = (n * s - p) / 2; x = clamp (- lim) lim o1; left = (p - n * s) / 2 + x in
    left \<le> 0 \<and> p \<le> left + n * s \<and> 0 \<le> max 0 (- left / s) \<and> max 0 (- left / s) + p / s \<le> n"
proof -
  define lim where "lim = (n * s - p) / 2"
  define x where "x = clamp (- lim) lim o1"
  define left where "left = (p - n * s) / 2 + x"
  have "0 \<le> lim" using assms(3) by (simp add: lim_def)
  then have "- lim \<le> x \<and> x \<le> lim" unfolding x_def by (intro clamp_bounds) simp
  then have l: "left \<le> 0" "p \<le> left + n * s" by (auto simp: left_def lim_def field_simps)
  then have "0 \<le> - left / s" using assms(1) by (intro divide_nonneg_pos) simp_all
  moreover have "(p - left) / s \<le> n" using l(2) assms(1) by (simp add: pos_divide_le_eq)
  then have "- left / s + p / s \<le> n" by (simp add: diff_divide_distrib)
  ultimately show ?thesis
    using l unfolding lim_def[symmetric] Let_def x_def[symmetric] left_def[symmetric] by simp
qed

text \<open>The cropped square lies inside the photo, whatever zoom and offset were asked for.\<close>

lemma crop_inside:
  assumes "getAvatarCropGeometry width height zoom off p = Some g"
  shows "0 \<le> cg_sourceX g \<and> cg_sourceX g + cg_sourceSize g \<le> width \<and>
    0 \<le> cg_sourceY g \<and> cg_sourceY g + cg_sourceSize g \<le> height \<and>
    cg_left g \<le> 0 \<and> p \<le> cg_left g + cg_displayWidth g \<and> cg_top g \<le> 0 \<and> p \<le> cg_top g + cg_displayHeight g"
proof -
  have pos: "0 < width" "0 < height" "0 < p"
    using assms by (auto simp: getAvatarCropGeometry_def split: if_splits)
  define s where "s = crop_scale width height zoom p"
  note cover = scale_covers[OF pos, of zoom, folded s_def]
  have "\<not> (width \<le> 0 \<or> height \<le> 0 \<or> p \<le> 0)" using pos by simp
  with assms crop_axis[OF cover(1) pos(3) cover(2), of "co_x off"] crop_axis[OF cover(1) pos(3) cover(3), of "co_y off"]
  show ?thesis
    unfolding getAvatarCropGeometry_def s_def[symmetric] Let_def by auto
qed

section \<open>Encoding of the crop\<close>

definition AVATAR_CROP_MAX_DATA_URL_LENGTH :: nat where "AVATAR_CROP_MAX_DATA_URL_LENGTH = 1000000"

text \<open>
  What \<^verbatim>\<open>canvas.toDataURL(type)\<close> gives: whether the address names that type, and its length. The
  canvas may look different after flattening, so the JPEG is asked for with and without it.
\<close>

record data_url =
  du_type :: string
  du_length :: nat

definition ALPHA_CAPABLE_TYPES :: "string list" where
  "ALPHA_CAPABLE_TYPES = [''image/png'', ''image/webp'', ''image/gif'', ''image/avif'']"

definition url_fits :: "data_url \<Rightarrow> string \<Rightarrow> bool" where
  "url_fits u ty \<longleftrightarrow> du_type u = ty \<and> du_length u \<le> AVATAR_CROP_MAX_DATA_URL_LENGTH"

text \<open>The result (\<^const>\<open>None\<close> is the thrown error) and whether the canvas was flattened onto white.\<close>

definition encodeAvatarCanvas :: "(bool \<Rightarrow> string \<Rightarrow> data_url) \<Rightarrow> string \<Rightarrow> data_url option \<times> bool" where
  "encodeAvatarCanvas toDataURL sourceType =
     (let alpha = sourceType \<in> set ALPHA_CAPABLE_TYPES;
          webp = toDataURL False ''image/webp''; png = toDataURL False ''image/png'' in
      if alpha \<and> url_fits webp ''image/webp'' then (Some webp, False)
      else if alpha \<and> url_fits png ''image/png'' then (Some png, False)
      else let jpeg = toDataURL alpha ''image/jpeg'' in
        (if url_fits jpeg ''image/jpeg'' then Some jpeg else None, alpha))"

lemma encoded_fits:
  "fst (encodeAvatarCanvas f src) = Some u \<Longrightarrow> du_length u \<le> 1000000 \<and>
     (du_type u = ''image/jpeg'' \<or> src \<in> set ALPHA_CAPABLE_TYPES \<and> \<not> snd (encodeAvatarCanvas f src))"
  by (auto simp: encodeAvatarCanvas_def Let_def url_fits_def AVATAR_CROP_MAX_DATA_URL_LENGTH_def split: if_splits)

end
