(* ===== verification/Comparators.thy ===== *)
theory Comparators
  imports MessageResilience
begin

text \<open>
  \<^verbatim>\<open>Array.prototype.sort(compare)\<close>: a stable sort. For a comparison function that is consistent (the
  interface \<open>comparator\<close>: a total preorder given by signs) the result is determined, and it is what
  \<open>sort_by\<close> computes; for an inconsistent one the language leaves the order open, and \<open>sort_by\<close> is
  one of the possible results.
\<close>

fun insert_by :: "('a \<Rightarrow> 'a \<Rightarrow> 'n::{zero,linorder}) \<Rightarrow> 'a \<Rightarrow> 'a list \<Rightarrow> 'a list" where
  "insert_by cmp x [] = [x]"
| "insert_by cmp x (y # ys) = (if cmp x y \<le> 0 then x # y # ys else y # insert_by cmp x ys)"

definition sort_by :: "('a \<Rightarrow> 'a \<Rightarrow> 'n::{zero,linorder}) \<Rightarrow> 'a list \<Rightarrow> 'a list" where
  "sort_by cmp xs = foldr (insert_by cmp) xs []"

lemma sort_by_simps [simp]: "sort_by cmp [] = []" "sort_by cmp (x # xs) = insert_by cmp x (sort_by cmp xs)"
  by (simp_all add: sort_by_def)

lemma mset_insert_by [simp]: "mset (insert_by cmp x xs) = add_mset x (mset xs)"
  by (induction xs) auto

lemma mset_sort_by [simp]: "mset (sort_by cmp xs) = mset xs"
  by (induction xs) auto

lemma set_sort_by [simp]: "set (sort_by cmp xs) = set xs"
  by (metis mset_sort_by set_mset_mset)

lemma length_sort_by [simp]: "length (sort_by cmp xs) = length xs"
  by (metis mset_sort_by size_mset)

lemma distinct_sort_by [simp]: "distinct (map f (sort_by cmp xs)) = distinct (map f xs)"
  by (metis mset_eq_imp_distinct_iff mset_map mset_sort_by)

section \<open>Consistent comparison functions\<close>

locale comparator =
  fixes cmp :: "'a \<Rightarrow> 'a \<Rightarrow> 'n::{zero,linorder}"
  assumes flip: "cmp x y < 0 \<longleftrightarrow> 0 < cmp y x"
    and trans_le: "cmp x y \<le> 0 \<Longrightarrow> cmp y z \<le> 0 \<Longrightarrow> cmp x z \<le> 0"
begin

lemma total_le: "cmp x y \<le> 0 \<or> cmp y x \<le> 0"
  using flip[of y x] by (cases "cmp x y \<le> 0") (simp_all add: not_le order_less_imp_le)

lemma zero_sym: "cmp x y = 0 \<longleftrightarrow> cmp y x = 0"
  using flip[of x y] flip[of y x] by (cases "cmp x y" "0 :: 'n" rule: linorder_cases; cases "cmp y x" "0 :: 'n" rule: linorder_cases) auto

lemma not_le_flip: "\<not> cmp x y \<le> 0 \<Longrightarrow> cmp y x \<le> 0"
  using total_le by blast

lemma zero_trans: "cmp x y = 0 \<Longrightarrow> cmp y z = 0 \<Longrightarrow> cmp x z = 0"
  using trans_le[of x y z] trans_le[of z y x] zero_sym[of x y] zero_sym[of y z] flip[of x z] flip[of z x]
  by (metis linorder_neq_iff linorder_not_le order_refl)

abbreviation ordered :: "'a list \<Rightarrow> bool" where
  "ordered xs \<equiv> sorted_wrt (\<lambda>x y. cmp x y \<le> 0) xs"

lemma ordered_insert: "ordered xs \<Longrightarrow> ordered (insert_by cmp x xs)"
proof (induction xs)
  case (Cons y ys)
  show ?case
  proof (cases "cmp x y \<le> 0")
    case True
    with Cons.prems trans_le show ?thesis by auto
  next
    case False
    have "set (insert_by cmp x ys) = insert x (set ys)"
      by (metis mset_insert_by set_mset_add_mset_insert set_mset_mset)
    with Cons False not_le_flip show ?thesis by auto
  qed
qed simp

lemma ordered_sort: "ordered (sort_by cmp xs)"
  by (induction xs) (auto intro: ordered_insert)

text \<open>Elements that compare equal keep their order.\<close>

lemma insert_stable:
  "filter (\<lambda>y. cmp z y = 0) (insert_by cmp x xs) = filter (\<lambda>y. cmp z y = 0) (x # xs)"
proof (induction xs)
  case (Cons y ys)
  show ?case
  proof (cases "cmp x y \<le> 0 \<or> cmp z x \<noteq> 0")
    case False
    then have "cmp z y \<noteq> 0" using zero_trans[of x z y] zero_sym[of z x] by auto
    with False Cons show ?thesis by auto
  qed (use Cons in auto)
qed simp

lemma sort_stable: "filter (\<lambda>y. cmp z y = 0) (sort_by cmp xs) = filter (\<lambda>y. cmp z y = 0) xs"
  by (induction xs) (simp_all add: insert_stable)

text \<open>Sorting a sorted list changes nothing.\<close>

lemma sort_ordered: "ordered xs \<Longrightarrow> sort_by cmp xs = xs"
proof (induction xs)
  case (Cons x xs)
  then show ?case by (cases xs) auto
qed simp

end

section \<open>Building comparators\<close>

lemma comparator_key: "comparator cmp \<Longrightarrow> comparator (\<lambda>a b. cmp (k a) (k b))"
  unfolding comparator_def by blast

lemma comparator_flip: "comparator cmp \<Longrightarrow> comparator (\<lambda>a b. cmp b a)"
  unfolding comparator_def by blast

lemma comparator_diff: "comparator (\<lambda>a b. k a - (k b :: 'n::linordered_ab_group_add))"
proof
  fix x y z
  assume "k x - k y \<le> 0" "k y - k z \<le> 0"
  then show "k x - k z \<le> 0" by simp
qed simp

text \<open>First one comparison, then, on a tie, another.\<close>

definition then_by :: "('a \<Rightarrow> 'a \<Rightarrow> 'n::{zero,linorder}) \<Rightarrow> ('a \<Rightarrow> 'a \<Rightarrow> 'n) \<Rightarrow> 'a \<Rightarrow> 'a \<Rightarrow> 'n" where
  "then_by f g a b = (if f a b \<noteq> 0 then f a b else g a b)"

lemma comparator_then:
  assumes "comparator f" "comparator g"
  shows "comparator (then_by f g)"
proof
  note ff = comparator.flip[OF assms(1)] and ft = comparator.trans_le[OF assms(1)] and fz = comparator.zero_sym[OF assms(1)]
  note gf = comparator.flip[OF assms(2)] and gt = comparator.trans_le[OF assms(2)]
  fix x y z
  show "then_by f g x y < 0 \<longleftrightarrow> 0 < then_by f g y x"
    using ff[of x y] fz[of x y] gf[of x y] by (auto simp: then_by_def)
  assume a: "then_by f g x y \<le> 0" "then_by f g y z \<le> 0"
  have le: "f x y \<le> 0" "f y z \<le> 0" using a by (auto simp: then_by_def split: if_splits)
  have xz: "f x z \<le> 0" using ft[OF le] .
  show "then_by f g x z \<le> 0"
  proof (cases "f x z = 0")
    case True
    then have "f z x \<le> 0" using fz[of x z] by simp
    then have "f y x \<le> 0" "f z y \<le> 0" using ft[of y z x] ft[of z x y] le by auto
    then have "f x y = 0" "f y z = 0" using le ff[of x y] ff[of y z] by force+
    with a True gt[of x y z] show ?thesis by (simp add: then_by_def)
  qed (use xz in \<open>simp add: then_by_def\<close>)
qed

section \<open>The merge of messages\<close>

text \<open>
  The comparison of timestamps that \<^const>\<open>mergeRemoteWithRetryableLocals\<close> sorts by; sorting with it is
  sorting by the timestamp.
\<close>

definition compare_times :: "(string \<Rightarrow> jsnum) \<Rightarrow> message \<Rightarrow> message \<Rightarrow> real" where
  "compare_times parse a b = msg_time parse a - msg_time parse b"

interpretation by_time: comparator "compare_times parse" for parse
  unfolding compare_times_def[abs_def] by (rule comparator_diff)

lemma insert_by_time: "insert_by (compare_times parse) x xs = insort_key (msg_time parse) x xs"
  by (induction xs) (auto simp: compare_times_def)

lemma sort_by_time: "sort_by (compare_times parse) xs = sort_key (msg_time parse) xs"
  by (simp add: sort_by_def sort_key_def) (metis insert_by_time[abs_def])

end
