(* ===== verification/SocialLists.thy ===== *)
theory SocialLists
  imports Comparators ServerModel AppStore
begin

text \<open>
  The lists of the social page: friends and direct-message conversations in the order of
  \<^verbatim>\<open>src/friendsList.ts\<close>, the friends in voice of \<^verbatim>\<open>src/socialActivity.ts\<close>, and the remembered view of
  \<^verbatim>\<open>src/socialView.ts\<close>. The collator, \<^verbatim>\<open>localeCompare\<close> and \<^verbatim>\<open>Date.parse\<close> are parameters; where the
  order matters their consistency is the interface \<open>comparator\<close>.
\<close>

section \<open>Friends\<close>

datatype presence = PresenceOnline | PresenceDnd | PresenceOffline

definition normalizePresence :: "string option \<Rightarrow> presence" where
  "normalizePresence status =
     (let normalized = js_lower (nullish status ''offline'') in
      if normalized = ''online'' then PresenceOnline
      else if normalized = ''dnd'' then PresenceDnd else PresenceOffline)"

definition isActiveFriend :: "friend \<Rightarrow> bool" where
  "isActiveFriend f \<longleftrightarrow> normalizePresence (Some (fr_status f)) \<noteq> PresenceOffline"

definition compareFriendNames ::
  "(string \<Rightarrow> string \<Rightarrow> int) \<Rightarrow> (string \<Rightarrow> string \<Rightarrow> int) \<Rightarrow> friend \<Rightarrow> friend \<Rightarrow> int" where
  "compareFriendNames collate lc a b =
     (let byName = collate (fr_username a) (fr_username b) in
      if byName \<noteq> 0 then byName else lc (fr_id a) (fr_id b))"

definition compareFriendsForList ::
  "(string \<Rightarrow> string \<Rightarrow> int) \<Rightarrow> (string \<Rightarrow> string \<Rightarrow> int) \<Rightarrow> friend \<Rightarrow> friend \<Rightarrow> int" where
  "compareFriendsForList collate lc a b =
     (if isActiveFriend a \<noteq> isActiveFriend b then (if isActiveFriend a then -1 else 1)
      else compareFriendNames collate lc a b)"

definition getVisibleFriendsForFilter ::
  "(string \<Rightarrow> string \<Rightarrow> int) \<Rightarrow> (string \<Rightarrow> string \<Rightarrow> int) \<Rightarrow> friend list \<Rightarrow> bool \<Rightarrow> string \<Rightarrow> friend list" where
  "getVisibleFriendsForFilter collate lc fs onlineOnly search =
     (let source = (if onlineOnly then filter isActiveFriend fs else fs);
          query = js_lower (js_trim search)
      in sort_by (compareFriendsForList collate lc)
           (filter (\<lambda>f. query = [] \<or> includes_str query (js_lower (fr_username f))) source))"

lemma compareFriends_then:
  "compareFriendsForList collate lc =
     then_by (\<lambda>a b. (if isActiveFriend a then 0 else 1) - (if isActiveFriend b then 0 else 1 :: int))
       (then_by (\<lambda>a b. collate (fr_username a) (fr_username b)) (\<lambda>a b. lc (fr_id a) (fr_id b)))"
  by (intro ext) (auto simp: compareFriendsForList_def compareFriendNames_def then_by_def Let_def)

lemma comparator_friends:
  assumes "comparator collate" "comparator lc"
  shows "comparator (compareFriendsForList collate lc)"
  unfolding compareFriends_then
  by (intro comparator_then comparator_diff comparator_key[OF assms(1)] comparator_key[OF assms(2)])

section \<open>Conversations\<close>

definition finite_or_zero :: "jsnum \<Rightarrow> real" where
  "finite_or_zero n = (case n of Fin x \<Rightarrow> x | _ \<Rightarrow> 0)"

definition dmActivityTimestamp :: "(string \<Rightarrow> jsnum) \<Rightarrow> dm_channel \<Rightarrow> real" where
  "dmActivityTimestamp parse c =
     (let activityAt = (case dm_last_message_at c of None \<Rightarrow> dm_created_at c | x \<Rightarrow> x)
      in finite_or_zero (if truthy_str activityAt then parse (the activityAt) else Fin 0))"

definition pinned_time :: "(string \<Rightarrow> jsnum) \<Rightarrow> dm_channel \<Rightarrow> jsnum" where
  "pinned_time parse c = (if truthy_str (dm_pinned_at c) then parse (the (dm_pinned_at c)) else Fin 0)"

text \<open>The difference of two times is finite exactly when both are.\<close>

definition compareDmChannelsForList ::
  "(string \<Rightarrow> jsnum) \<Rightarrow> (string \<Rightarrow> string \<Rightarrow> int) \<Rightarrow> dm_channel \<Rightarrow> dm_channel \<Rightarrow> real" where
  "compareDmChannelsForList parse lc a b =
     (if dm_is_pinned a \<noteq> dm_is_pinned b then (if dm_is_pinned a then -1 else 1)
      else if dm_is_pinned a \<and> dm_is_pinned b then
        (case (pinned_time parse a, pinned_time parse b) of
           (Fin x, Fin y) \<Rightarrow> if y - x \<noteq> 0 then y - x else of_int (lc (dm_id a) (dm_id b))
         | _ \<Rightarrow> of_int (lc (dm_id a) (dm_id b)))
      else let activityDiff = dmActivityTimestamp parse b - dmActivityTimestamp parse a in
        if activityDiff \<noteq> 0 then activityDiff else of_int (lc (dm_id a) (dm_id b)))"

definition sortDmChannels ::
  "(string \<Rightarrow> jsnum) \<Rightarrow> (string \<Rightarrow> string \<Rightarrow> int) \<Rightarrow> dm_channel list \<Rightarrow> dm_channel list" where
  "sortDmChannels parse lc chs = sort_by (compareDmChannelsForList parse lc) chs"

definition upsertDmChannel ::
  "(string \<Rightarrow> jsnum) \<Rightarrow> (string \<Rightarrow> string \<Rightarrow> int) \<Rightarrow> dm_channel list \<Rightarrow> dm_channel \<Rightarrow> dm_channel list" where
  "upsertDmChannel parse lc chs c =
     sortDmChannels parse lc (c # filter (\<lambda>e. dm_id e \<noteq> dm_id c) chs)"

definition touchDmChannelActivity ::
  "(string \<Rightarrow> jsnum) \<Rightarrow> (string \<Rightarrow> string \<Rightarrow> int) \<Rightarrow> dm_channel list \<Rightarrow> string \<Rightarrow> string \<Rightarrow> dm_channel list" where
  "touchDmChannelActivity parse lc chs channelId timestamp =
     sortDmChannels parse lc
       (map (\<lambda>c. if dm_id c = channelId then c\<lparr>dm_last_message_at := Some timestamp\<rparr> else c) chs)"

text \<open>
  With timestamps that parse, the comparison is: pinned before others; the pinned by the time of
  pinning, the others by their last activity, newest first; then by id.
\<close>

definition dm_time :: "(string \<Rightarrow> jsnum) \<Rightarrow> dm_channel \<Rightarrow> real" where
  "dm_time parse c = (if dm_is_pinned c then finite_or_zero (pinned_time parse c) else dmActivityTimestamp parse c)"

lemma compareDm_then:
  assumes "\<And>s. is_finite (parse s)"
  shows "compareDmChannelsForList parse lc =
     then_by (\<lambda>a b. (if dm_is_pinned a then 0 else 1) - (if dm_is_pinned b then 0 else 1 :: real))
       (then_by (\<lambda>a b. dm_time parse b - dm_time parse a) (\<lambda>a b. of_int (lc (dm_id a) (dm_id b))))"
proof (intro ext)
  fix a b
  have fin: "\<exists>x. pinned_time parse c = Fin x" for c
    using assms[of "the (dm_pinned_at c)"] by (cases "parse (the (dm_pinned_at c))") (auto simp: pinned_time_def)
  obtain x y where "pinned_time parse a = Fin x" "pinned_time parse b = Fin y" using fin by blast
  then show "compareDmChannelsForList parse lc a b =
     then_by (\<lambda>a b. (if dm_is_pinned a then 0 else 1) - (if dm_is_pinned b then 0 else 1 :: real))
       (then_by (\<lambda>a b. dm_time parse b - dm_time parse a) (\<lambda>a b. of_int (lc (dm_id a) (dm_id b)))) a b"
    by (simp add: compareDmChannelsForList_def then_by_def dm_time_def finite_or_zero_def Let_def)
qed

lemma comparator_of_int: "comparator f \<Longrightarrow> comparator (\<lambda>a b. of_int (f a b) :: real)"
  unfolding comparator_def by simp

lemma comparator_dm:
  assumes "comparator lc" "\<And>s. is_finite (parse s)"
  shows "comparator (compareDmChannelsForList parse lc)"
proof -
  have "comparator (\<lambda>a b. dm_time parse b - dm_time parse a)"
    using comparator_flip[OF comparator_diff[of "dm_time parse"]] .
  then show ?thesis
    unfolding compareDm_then[OF assms(2)]
    by (intro comparator_then comparator_diff comparator_of_int comparator_key[OF assms(1)])
qed

lemma upsert_ids: "distinct (map dm_id cs) \<Longrightarrow> distinct (map dm_id (upsertDmChannel parse lc cs c))"
  by (auto simp: upsertDmChannel_def sortDmChannels_def distinct_map_filter simp del: sort_by_simps)

lemma upsert_find:
  "x \<in> set (upsertDmChannel parse lc cs c) \<longleftrightarrow> x = c \<or> x \<in> set cs \<and> dm_id x \<noteq> dm_id c"
  by (auto simp: upsertDmChannel_def sortDmChannels_def simp del: sort_by_simps)

section \<open>Friends in voice\<close>

record social_source =
  so_servers :: "server list"
  so_channels :: "channel list obj"
  so_friends :: "friend list"
  so_voice_states :: "string option obj"
  so_voice_server_ids :: "string option obj"
  so_screen_sharing :: "bool obj"
  so_connection_ids :: "int obj option"

record activity_entry =
  ae_user_id :: string
  ae_username :: string
  ae_avatar_url :: "string option"
  ae_server :: server
  ae_channel :: channel
  ae_screen_sharing :: bool

text \<open>\<^verbatim>\<open>new Map(list.map(x => [key(x), x]))\<close>: of several entries with a key the last one stays.\<close>

definition index_by :: "('a \<Rightarrow> 'k) \<Rightarrow> 'a list \<Rightarrow> ('k \<times> 'a) list" where
  "index_by key xs = foldl (\<lambda>m x. obj_put (key x) x m) [] xs"

lemma index_by_snoc: "index_by key (xs @ [x]) = obj_put (key x) x (index_by key xs)"
  by (simp add: index_by_def)

lemma index_by_get: "obj_get (index_by key xs) k = Some x \<Longrightarrow> x \<in> set xs \<and> key x = k"
  by (induction xs rule: rev_induct) (auto simp: index_by_snoc obj_get_put split: if_splits, simp add: index_by_def)

lemma index_by_hit: "x \<in> set xs \<Longrightarrow> distinct (map key xs) \<Longrightarrow> obj_get (index_by key xs) (key x) = Some x"
proof (induction xs rule: rev_induct)
  case (snoc y ys)
  show ?case
  proof (cases "x = y")
    case False
    with snoc.prems have x: "x \<in> set ys" by simp
    from snoc.prems have d: "distinct (map key ys)" "key y \<notin> key ` set ys" by simp_all
    with x have "key y \<noteq> key x" by (metis imageI)
    with snoc.IH[OF x d(1)] show ?thesis by (simp add: index_by_snoc obj_get_put)
  qed (simp add: index_by_snoc obj_get_put)
qed simp

definition may_view :: "channel \<Rightarrow> bool" where
  "may_view c \<longleftrightarrow> (word_of_int (nullish (ch_my_permissions c) 0) :: 32 word) AND perm_mask ViewServer \<noteq> 0"

definition shown_channel :: "string \<Rightarrow> channel \<Rightarrow> bool" where
  "shown_channel serverId c \<longleftrightarrow> ch_server_id c = serverId \<and> ch_type c = VoiceChannel \<and> may_view c"

definition voice_channels_of :: "server obj \<Rightarrow> channel list obj \<Rightarrow> (string \<times> (server \<times> channel)) list" where
  "voice_channels_of servers0 entries =
     foldl (\<lambda>m (serverId, list).
       case obj_get servers0 serverId of None \<Rightarrow> m
       | Some srv \<Rightarrow>
           foldl (\<lambda>m c. if shown_channel serverId c then obj_put (ch_id c) (srv, c) m else m) m list)
       [] entries"

definition connection_of :: "social_source \<Rightarrow> string \<Rightarrow> int option" where
  "connection_of src userId = Option.bind (so_connection_ids src) (\<lambda>ids. obj_get ids userId)"

definition activity_of ::
  "social_source \<Rightarrow> string \<Rightarrow> int option \<Rightarrow> (string \<times> (server \<times> channel)) list \<Rightarrow> friend obj
     \<Rightarrow> string \<times> string option \<Rightarrow> activity_entry option" where
  "activity_of src selfId connectionId chs fs = (\<lambda>(userId, channelId).
     if userId = selfId \<or> \<not> truthy_str channelId then None
     else case obj_get fs userId of None \<Rightarrow> None
     | Some f \<Rightarrow>
        if \<not> isActiveFriend f then None
        else if connectionId \<noteq> None \<and> connection_of src userId \<noteq> connectionId then None
        else case obj_get chs (the channelId) of None \<Rightarrow> None
        | Some (srv, c) \<Rightarrow>
           let voiceServerId = nullish (obj_get (so_voice_server_ids src) userId) None in
           if truthy_str voiceServerId \<and> voiceServerId \<noteq> Some (srv_id srv) then None
           else Some \<lparr>ae_user_id = userId, ae_username = fr_username f, ae_avatar_url = fr_avatar_url f,
             ae_server = srv, ae_channel = c,
             ae_screen_sharing = nullish (obj_get (so_screen_sharing src) userId) False\<rparr>)"

definition compareActivity :: "(string \<Rightarrow> string \<Rightarrow> int) \<Rightarrow> activity_entry \<Rightarrow> activity_entry \<Rightarrow> int" where
  "compareActivity lc a b =
     (let byName = lc (ae_username a) (ae_username b) in
      if byName \<noteq> 0 then byName else lc (ae_user_id a) (ae_user_id b))"

definition getSocialActivity ::
  "(string \<Rightarrow> string \<Rightarrow> int) \<Rightarrow> social_source \<Rightarrow> string option \<Rightarrow> int option \<Rightarrow> activity_entry list" where
  "getSocialActivity lc src selfId connectionId =
     (if \<not> truthy_str selfId then []
      else let servers0 = index_by srv_id (so_servers src);
               chs = voice_channels_of servers0 (so_channels src);
               fs = index_by fr_id (so_friends src)
        in sort_by (compareActivity lc)
             (List.map_filter (activity_of src (the selfId) connectionId chs fs) (so_voice_states src)))"

text \<open>Only voice channels the viewer may see, of a server the viewer is in, get into the table.\<close>

lemma voice_channels_sound:
  assumes "obj_get (voice_channels_of servers0 entries) cid = Some (srv, c)"
  shows "\<exists>serverId list. (serverId, list) \<in> set entries \<and> c \<in> set list \<and> ch_id c = cid
    \<and> obj_get servers0 serverId = Some srv \<and> shown_channel serverId c"
proof -
  define inner where
    "inner = (\<lambda>(serverId :: string) (srv :: server) (m :: (string \<times> (server \<times> channel)) list) list. foldl (\<lambda>m c. if shown_channel serverId c then obj_put (ch_id c) (srv, c) m else m) m list)"
  have inner: "obj_get (inner serverId sv m list) cid = Some (srv, c) \<Longrightarrow>
      obj_get m cid = Some (srv, c) \<or> (c \<in> set list \<and> ch_id c = cid \<and> srv = sv \<and> shown_channel serverId c)"
    for serverId sv m list
  proof (induction list rule: rev_induct)
    case (snoc x xs)
    then show ?case by (cases "shown_channel serverId x") (auto simp: inner_def obj_get_put split: if_split_asm)
  qed (simp add: inner_def)
  have def: "voice_channels_of servers0 entries =
     foldl (\<lambda>m (serverId, list). case obj_get servers0 serverId of None \<Rightarrow> m | Some srv \<Rightarrow> inner serverId srv m list) [] entries"
    unfolding voice_channels_of_def inner_def ..
  show ?thesis using assms unfolding def
  proof (induction entries rule: rev_induct)
    case (snoc e entries)
    obtain serverId list where e: "e = (serverId, list)" by (cases e)
    show ?case
    proof (cases "obj_get servers0 serverId")
      case None
      with snoc show ?thesis by (auto simp: e)
    next
      case (Some sv)
      with snoc.prems have "obj_get (inner serverId sv
          (foldl (\<lambda>m (serverId, list). case obj_get servers0 serverId of None \<Rightarrow> m | Some srv \<Rightarrow> inner serverId srv m list)
            [] entries) list) cid = Some (srv, c)"
        by (simp add: e)
      from inner[OF this] snoc.IH Some show ?thesis by (auto simp: e)
    qed
  qed simp
qed

lemma set_map_filter': "y \<in> set (List.map_filter f xs) \<longleftrightarrow> (\<exists>x \<in> set xs. f x = Some y)"
  by (induction xs) (auto simp: List.map_filter_def split: option.splits)

lemma activity_of_Some:
  assumes "activity_of src selfId connectionId chs fs (userId, channelId) = Some e"
  shows "userId \<noteq> selfId" "ae_user_id e = userId"
    "\<exists>cid. channelId = Some cid \<and> cid \<noteq> [] \<and> obj_get chs cid = Some (ae_server e, ae_channel e)"
    "\<exists>f. obj_get fs userId = Some f \<and> isActiveFriend f \<and> ae_username e = fr_username f"
    "connectionId \<noteq> None \<Longrightarrow> connection_of src userId = connectionId"
    "\<And>sid. obj_get (so_voice_server_ids src) userId = Some (Some sid) \<Longrightarrow> sid \<noteq> [] \<Longrightarrow> sid = srv_id (ae_server e)"
proof -
  note a = assms[unfolded activity_of_def Let_def prod.case]
  from a show "userId \<noteq> selfId" by (simp split: if_splits)
  from a have t: "truthy_str channelId" by (simp split: if_splits)
  from a obtain f where f: "obj_get fs userId = Some f" "isActiveFriend f"
    by (auto split: if_splits option.splits)
  note a = a[unfolded f(1) option.case]
  from a f have "connectionId \<noteq> None \<Longrightarrow> connection_of src userId = connectionId"
    by (auto split: if_split_asm)
  then show "connectionId \<noteq> None \<Longrightarrow> connection_of src userId = connectionId" .
  from a f t obtain sv c where sc: "obj_get chs (the channelId) = Some (sv, c)"
    by (cases "obj_get chs (the channelId)") (auto split: if_splits)
  note a = a[unfolded sc option.case prod.case]
  from a f(2) have e: "e = \<lparr>ae_user_id = userId, ae_username = fr_username f, ae_avatar_url = fr_avatar_url f,
      ae_server = sv, ae_channel = c, ae_screen_sharing = nullish (obj_get (so_screen_sharing src) userId) False\<rparr>"
    and v: "truthy_str (nullish (obj_get (so_voice_server_ids src) userId) None) \<Longrightarrow>
        nullish (obj_get (so_voice_server_ids src) userId) None = Some (srv_id sv)"
    by (auto split: if_split_asm)
  from e show "ae_user_id e = userId" by simp
  from e t sc show "\<exists>cid. channelId = Some cid \<and> cid \<noteq> [] \<and> obj_get chs cid = Some (ae_server e, ae_channel e)"
    by (cases channelId) auto
  from e f show "\<exists>f. obj_get fs userId = Some f \<and> isActiveFriend f \<and> ae_username e = fr_username f" by auto
  from e v show "sid = srv_id (ae_server e)"
    if "obj_get (so_voice_server_ids src) userId = Some (Some sid)" "sid \<noteq> []" for sid
    using that by simp
qed

lemma social_activity_members:
  assumes "e \<in> set (getSocialActivity lc src (Some selfId) connectionId)"
  obtains channelId where "(ae_user_id e, channelId) \<in> set (so_voice_states src)"
    "activity_of src selfId connectionId
       (voice_channels_of (index_by srv_id (so_servers src)) (so_channels src)) (index_by fr_id (so_friends src))
       (ae_user_id e, channelId) = Some e"
proof -
  let ?f = "activity_of src selfId connectionId
       (voice_channels_of (index_by srv_id (so_servers src)) (so_channels src)) (index_by fr_id (so_friends src))"
  from assms have "e \<in> set (List.map_filter ?f (so_voice_states src))"
    by (auto simp: getSocialActivity_def Let_def split: if_splits simp del: sort_by_simps)
  then obtain p where p: "p \<in> set (so_voice_states src)" "?f p = Some e"
    by (auto simp: set_map_filter')
  obtain u ch where "p = (u, ch)" by (cases p)
  with p activity_of_Some(2) show thesis using that by metis
qed

lemma compareActivity_then:
  "compareActivity lc =
     then_by (\<lambda>a b. lc (ae_username a) (ae_username b)) (\<lambda>a b. lc (ae_user_id a) (ae_user_id b))"
  by (intro ext) (simp add: compareActivity_def then_by_def Let_def)

lemma comparator_activity:
  assumes "comparator lc"
  shows "comparator (compareActivity lc)"
  unfolding compareActivity_then by (rule comparator_then) (rule comparator_key[OF assms])+

section \<open>The remembered view\<close>

datatype social_view = FriendsView | DmView

definition SOCIAL_VIEW_KEY :: string where "SOCIAL_VIEW_KEY = ''voxpery-social-view''"

definition ROUTES_dm :: string where "ROUTES_dm = ''/social/dm''"

fun view_text :: "social_view \<Rightarrow> string" where
  "view_text FriendsView = ''friends''"
| "view_text DmView = ''dm''"

definition parse_view :: "string \<Rightarrow> social_view option" where
  "parse_view v = (if v = ''friends'' then Some FriendsView else if v = ''dm'' then Some DmView else None)"

definition getPersistedSocialView :: "string web_storage \<Rightarrow> social_view option" where
  "getPersistedSocialView st =
     (case get_item SOCIAL_VIEW_KEY st of
        Inl _ \<Rightarrow> None
      | Inr None \<Rightarrow> None
      | Inr (Some v) \<Rightarrow> parse_view v)"

definition setPersistedSocialView :: "social_view \<Rightarrow> string web_storage \<Rightarrow> string web_storage" where
  "setPersistedSocialView v st = try_set SOCIAL_VIEW_KEY (view_text v) st"

definition isSocialDmViewVisible :: "string \<Rightarrow> string web_storage \<Rightarrow> bool" where
  "isSocialDmViewVisible pathname st \<longleftrightarrow> pathname = ROUTES_dm \<and> getPersistedSocialView st = Some DmView"

lemma getPersistedSocialView_eq:
  "getPersistedSocialView st = (case get_or_none SOCIAL_VIEW_KEY st of None \<Rightarrow> None | Some v \<Rightarrow> parse_view v)"
  by (auto simp: getPersistedSocialView_def get_or_none_def split: sum.split option.split)

lemma view_read_back:
  "storage_works st \<Longrightarrow> getPersistedSocialView (setPersistedSocialView v st) = Some v"
  by (cases v) (simp_all add: getPersistedSocialView_eq setPersistedSocialView_def get_or_none_try_set parse_view_def)

end
