(* ===== verification/Composer.thy ===== *)
theory Composer
  imports WireTypes JsText
begin

text \<open>
  Helpers of the message composer and the search box: attachments of a draft
  (\<^verbatim>\<open>src/draftAttachments.ts\<close>), filters of a message search (\<^verbatim>\<open>src/searchFilters.ts\<close>), the explanation of a
  failed send (\<^verbatim>\<open>src/messageSendError.ts\<close>) and timeouts of members (\<^verbatim>\<open>src/timeouts.ts\<close>). Secure ids,
  \<^verbatim>\<open>Date.parse\<close>, the formatting of dates and \<^verbatim>\<open>URLSearchParams.toString\<close> are parameters.
\<close>

section \<open>Attachments of a draft\<close>

datatype upload_status = Uploading | Uploaded | UploadFailed

text \<open>A file is identified by a number; its content does not matter here.\<close>

record local_file =
  lf_id :: nat
  lf_name :: string
  lf_size :: int
  lf_type :: string

record draft_item =
  da_local_id :: string
  da_id :: "string option"
  da_name :: string
  da_url :: string
  da_size :: int
  da_type :: string
  da_file :: "local_file option"
  da_status :: upload_status
  da_error :: "string option"

record uploaded_attachment =
  ua_id :: string
  ua_name :: "string option"
  ua_url :: string
  ua_size :: "int option"
  ua_type :: "string option"

definition createUploadingDraftAttachments :: "(nat \<Rightarrow> string) \<Rightarrow> local_file list \<Rightarrow> draft_item list" where
  "createUploadingDraftAttachments secureId files =
     map (\<lambda>(i, file). \<lparr>da_local_id = secureId i, da_id = None, da_name = lf_name file, da_url = [],
        da_size = lf_size file, da_type = or_str (Some (lf_type file)) ''application/octet-stream'',
        da_file = Some file, da_status = Uploading, da_error = None\<rparr>) (enumerate 0 files)"

text \<open>\<^verbatim>\<open>new Map(localIds.map((id, index) => [id, uploaded[index]]))\<close>; there may be fewer uploads than ids.\<close>

definition uploads_by_id :: "string list \<Rightarrow> uploaded_attachment list \<Rightarrow> (string \<times> uploaded_attachment option) list" where
  "uploads_by_id localIds uploaded =
     fold (\<lambda>(i, localId) m. obj_put localId (if i < length uploaded then Some (uploaded ! i) else None) m)
       (enumerate 0 localIds) []"

definition apply_upload :: "uploaded_attachment \<Rightarrow> draft_item \<Rightarrow> draft_item" where
  "apply_upload u item =
     item\<lparr>da_id := Some (ua_id u),
          da_name := or_str (ua_name u) (or_str (Some (da_name item)) ''attachment''),
          da_url := ua_url u,
          da_size := nullish (ua_size u) (da_size item),
          da_type := or_str (ua_type u) (or_str (Some (da_type item)) ''application/octet-stream''),
          da_status := Uploaded, da_error := None\<rparr>"

definition applyUploadedDraftAttachments ::
  "draft_item list \<Rightarrow> string list \<Rightarrow> uploaded_attachment list \<Rightarrow> draft_item list" where
  "applyUploadedDraftAttachments current localIds uploaded =
     (let uploadsById = uploads_by_id localIds uploaded in
      map (\<lambda>item. case obj_get uploadsById (da_local_id item) of
          Some (Some u) \<Rightarrow> apply_upload u item | _ \<Rightarrow> item) current)"

definition markDraftAttachmentsFailed :: "draft_item list \<Rightarrow> string list \<Rightarrow> string \<Rightarrow> draft_item list" where
  "markDraftAttachmentsFailed current localIds error =
     map (\<lambda>item. if da_local_id item \<in> set localIds then item\<lparr>da_status := UploadFailed, da_error := Some error\<rparr>
                 else item) current"

definition setDraftAttachmentUploading :: "draft_item list \<Rightarrow> string \<Rightarrow> draft_item list" where
  "setDraftAttachmentUploading current localId =
     map (\<lambda>item. if da_local_id item = localId then item\<lparr>da_status := Uploading, da_error := None\<rparr> else item) current"

definition hasPendingDraftAttachments :: "draft_item list \<Rightarrow> bool" where
  "hasPendingDraftAttachments attached = list_ex (\<lambda>item. da_status item \<noteq> Uploaded) attached"

definition getUploadedDraftAttachments ::
  "draft_item list \<Rightarrow> (string option \<times> string \<times> string \<times> int \<times> string) list" where
  "getUploadedDraftAttachments attached =
     map (\<lambda>item. (da_id item, da_name item, da_url item, da_size item, da_type item))
       (filter (\<lambda>item. da_status item = Uploaded) attached)"

text \<open>An uploaded attachment has the server's id.\<close>

definition attachments_ok :: "draft_item list \<Rightarrow> bool" where
  "attachments_ok attached \<longleftrightarrow>
     (\<forall>item \<in> set attached. (da_status item = Uploaded \<longrightarrow> da_id item \<noteq> None)
       \<and> (da_error item \<noteq> None \<longleftrightarrow> da_status item = UploadFailed))"

lemma attachments_steps_ok:
  assumes "attachments_ok attached"
  shows "attachments_ok (applyUploadedDraftAttachments attached ids uploads)"
    "attachments_ok (markDraftAttachmentsFailed attached ids e)"
    "attachments_ok (setDraftAttachmentUploading attached i)"
    "attachments_ok (attached @ createUploadingDraftAttachments secureId files)"
  using assms
  by (auto simp: attachments_ok_def applyUploadedDraftAttachments_def apply_upload_def markDraftAttachmentsFailed_def
      setDraftAttachmentUploading_def createUploadingDraftAttachments_def Let_def split: option.split)

text \<open>No operation drops, adds or reorders an attachment, or loses its local file.\<close>

lemma attachments_keep_items:
  "map (\<lambda>d. (da_local_id d, da_file d)) (applyUploadedDraftAttachments attached ids uploads) = map (\<lambda>d. (da_local_id d, da_file d)) attached"
  "map (\<lambda>d. (da_local_id d, da_file d)) (markDraftAttachmentsFailed attached ids e) = map (\<lambda>d. (da_local_id d, da_file d)) attached"
  "map (\<lambda>d. (da_local_id d, da_file d)) (setDraftAttachmentUploading attached i) = map (\<lambda>d. (da_local_id d, da_file d)) attached"
  by (auto simp: applyUploadedDraftAttachments_def apply_upload_def markDraftAttachmentsFailed_def
      setDraftAttachmentUploading_def Let_def split: option.split)

lemma uploads_by_id_get:
  assumes "distinct ids"
  shows "obj_get (uploads_by_id ids uploads) k =
    (if k \<in> set ids then Some (let i = the (find_index (\<lambda>x. x = k) ids) in if i < length uploads then Some (uploads ! i) else None)
     else None)"
proof -
  have "obj_get (fold (\<lambda>(i, localId) m. obj_put localId (g i) m) (enumerate n ids) m0) k =
      (if k \<in> set ids then Some (g (n + the (find_index (\<lambda>x. x = k) ids))) else obj_get m0 k)"
    if "distinct ids" for g :: "nat \<Rightarrow> uploaded_attachment option" and n m0 and ids :: "string list"
    using that
  proof (induction ids arbitrary: n m0)
    case (Cons i ids)
    show ?case
    proof (cases "k = i")
      case True
      with Cons show ?thesis by (simp add: obj_get_put)
    next
      case False
      have "\<exists>j. find_index (\<lambda>x. x = k) ids = Some j" if "k \<in> set ids"
        using that by (cases "find_index (\<lambda>x. x = k) ids") auto
      with False Cons show ?thesis by (auto simp: obj_get_put)
    qed
  qed simp
  from this[OF assms, of "\<lambda>i. if i < length uploads then Some (uploads ! i) else None" 0 "[]"] show ?thesis
    by (simp add: uploads_by_id_def Let_def)
qed

text \<open>A complete answer of the server finishes exactly the attachments it was asked for.\<close>

lemma upload_finishes:
  assumes "distinct ids" "length uploads = length ids" "item \<in> set (applyUploadedDraftAttachments attached ids uploads)"
    "da_local_id item \<in> set ids"
  shows "da_status item = Uploaded \<and> (\<exists>u \<in> set uploads. da_id item = Some (ua_id u) \<and> da_url item = ua_url u)"
proof -
  let ?k = "da_local_id item"
  obtain i where i: "find_index (\<lambda>x. x = ?k) ids = Some i" using assms(4) by (cases "find_index (\<lambda>x. x = ?k) ids") auto
  then have "i < length uploads" using find_index_Some assms(2) by fastforce
  then have get: "obj_get (uploads_by_id ids uploads) ?k = Some (Some (uploads ! i))"
    using uploads_by_id_get[OF assms(1), of uploads ?k] assms(4) i by (simp add: Let_def)
  from assms(3) obtain d where d: "d \<in> set attached"
    "item = (case obj_get (uploads_by_id ids uploads) (da_local_id d) of Some (Some u) \<Rightarrow> apply_upload u d | _ \<Rightarrow> d)"
    by (auto simp: applyUploadedDraftAttachments_def Let_def)
  moreover have "da_local_id d = ?k" using d(2) by (auto simp: apply_upload_def split: option.splits)
  ultimately have "item = apply_upload (uploads ! i) d" using get by simp
  then show ?thesis using \<open>i < length uploads\<close> by (auto simp: apply_upload_def)
qed

section \<open>Filters of a search\<close>

record search_filters =
  sf_text :: string
  sf_from :: "string option"
  sf_attachment :: bool

datatype search_token = AttachmentToken | EmptyFrom | FromToken string | TextToken string

definition strip_at :: "string \<Rightarrow> string" where
  "strip_at s = (case s of c # cs \<Rightarrow> if c = CHR ''@'' then cs else s | [] \<Rightarrow> [])"

definition search_token_of :: "string \<Rightarrow> search_token" where
  "search_token_of token =
     (let lower = js_lower token in
      if lower = ''has:attachment'' \<or> lower = ''has:attachments'' then AttachmentToken
      else if lower = ''from:'' then EmptyFrom
      else if starts_with ''from:'' lower \<and> 5 < length token then FromToken (js_trim (strip_at (drop 5 token)))
      else TextToken token)"

fun search_loop :: "string list \<Rightarrow> string list \<Rightarrow> string option \<Rightarrow> bool \<Rightarrow> string list \<times> string option \<times> bool" where
  "search_loop [] textParts from0 hasAttachment = (textParts, from0, hasAttachment)"
| "search_loop (token # tokens) textParts from0 hasAttachment =
     (case search_token_of token of
        AttachmentToken \<Rightarrow> search_loop tokens textParts from0 True
      | EmptyFrom \<Rightarrow> search_loop tokens textParts from0 hasAttachment
      | FromToken name \<Rightarrow> search_loop tokens textParts (Some name) hasAttachment
      | TextToken t \<Rightarrow> search_loop tokens (textParts @ [t]) from0 hasAttachment)"

definition parseMessageSearchInput :: "string \<Rightarrow> search_filters" where
  "parseMessageSearchInput input =
     (let (textParts, from0, hasAttachment) = search_loop (words_of (js_trim input)) [] None False
      in \<lparr>sf_text = join_with '' '' textParts,
          sf_from = (if truthy_str from0 then from0 else None),
          sf_attachment = hasAttachment\<rparr>)"

definition buildMessageSearchQuery :: "((string \<times> string) list \<Rightarrow> string) \<Rightarrow> string \<Rightarrow> int \<Rightarrow> string" where
  "buildMessageSearchQuery encode input limit =
     (let filters = parseMessageSearchInput input
      in encode ([(''q'', sf_text filters), (''limit'', int_str limit)]
           @ (case sf_from filters of Some n \<Rightarrow> [(''from'', n)] | None \<Rightarrow> [])
           @ (if sf_attachment filters then [(''has_attachment'', ''true'')] else [])))"

text \<open>The words of a text are what is left when blanks are taken as separators.\<close>

definition is_word :: "string \<Rightarrow> bool" where
  "is_word w \<longleftrightarrow> w \<noteq> [] \<and> list_all (\<lambda>c. \<not> is_ws c) w"

lemma words_of_blank: "list_all is_ws s \<Longrightarrow> words_of s = []"
  by (subst words_of.simps) (simp add: list_all_iff dropWhile_eq_Nil_conv Let_def)

lemma words_of_word:
  assumes "is_word w" "t = [] \<or> is_ws (hd t)"
  shows "words_of (w @ t) = w # words_of t"
proof -
  have w: "w \<noteq> []" "\<forall>c \<in> set w. \<not> is_ws c" using assms(1) by (auto simp: is_word_def list_all_iff)
  then have d: "dropWhile is_ws (w @ t) = w @ t" by (cases w) auto
  have "takeWhile (\<lambda>c. \<not> is_ws c) (w @ t) = w" "dropWhile (\<lambda>c. \<not> is_ws c) (w @ t) = t"
    using w assms(2) by (cases t; simp add: takeWhile_append2 dropWhile_append2)+
  then show ?thesis using w(1) by (subst words_of.simps) (simp add: Let_def d)
qed

lemma words_of_space: "is_ws c \<Longrightarrow> words_of (c # s) = words_of s"
  by (subst (1 2) words_of.simps) simp

lemma words_of_join:
  assumes "list_all is_word ws"
  shows "words_of (join_with '' '' ws) = ws"
  using assms
proof (induction ws rule: induct_list012)
  case (2 w)
  then show ?case using words_of_word[of w "[]"] by (simp add: words_of_blank)
next
  case (3 w v ws)
  have "is_ws (CHR '' '')" by (simp add: is_ws_def char_code_def)
  with 3 show ?case using words_of_word[of w "'' '' @ join_with '' '' (v # ws)"] by (simp add: words_of_space)
qed (simp add: words_of_blank)

lemma js_trim_join:
  assumes "list_all is_word ws"
  shows "js_trim (join_with '' '' ws) = join_with '' '' ws"
proof (cases "ws = []")
  case False
  let ?s = "join_with '' '' ws"
  have "?s \<noteq> [] \<and> \<not> is_ws (hd ?s) \<and> \<not> is_ws (last ?s)"
    using assms False
  proof (induction ws rule: induct_list012)
    case (2 w)
    then show ?case by (auto simp: is_word_def list_all_iff)
  next
    case (3 w v ws)
    then show ?case by (auto simp: is_word_def list_all_iff)
  qed simp
  then show ?thesis using js_trim_id by blast
qed (simp add: js_trim_def trim_start_def trim_end_def)

text \<open>What the loop computes, as functions of the tokens.\<close>

lemma search_loop_spec:
  "search_loop tokens textParts from0 hasAttachment =
     (textParts @ filter (\<lambda>t. search_token_of t = TextToken t) tokens,
      fold (\<lambda>t f. case search_token_of t of FromToken n \<Rightarrow> Some n | _ \<Rightarrow> f) tokens from0,
      hasAttachment \<or> list_ex (\<lambda>t. search_token_of t = AttachmentToken) tokens)"
proof -
  have same: "search_token_of t = TextToken u \<Longrightarrow> u = t" for t u
    by (auto simp: search_token_of_def Let_def split: if_splits)
  show ?thesis
    by (induction tokens textParts from0 hasAttachment rule: search_loop.induct)
      (auto split: search_token.split dest: same)
qed

text \<open>Words, a sender and the attachment filter are read back from the text that states them.\<close>

lemma search_read_back:
  assumes "list_all is_word ws" "list_all (\<lambda>w. search_token_of w = TextToken w) ws" "is_word name" "hd name \<noteq> CHR ''@''"
  shows "parseMessageSearchInput (join_with '' '' (ws @ [''from:'' @ name, ''has:attachment''])) =
     \<lparr>sf_text = join_with '' '' ws, sf_from = Some name, sf_attachment = True\<rparr>"
proof -
  let ?ws = "ws @ [''from:'' @ name, ''has:attachment'']"
  have n: "name \<noteq> []" "\<not> is_ws (hd name)" "\<not> is_ws (last name)" using assms(3) by (auto simp: is_word_def list_all_iff)
  have from_tok: "search_token_of (''from:'' @ name) = FromToken name"
    using n js_trim_id[OF n] assms(4)
    by (auto simp: search_token_of_def Let_def starts_with_def strip_at_def lower_char_def char_code_def
        split: list.split)
  have att: "search_token_of ''has:attachment'' = AttachmentToken" by code_simp
  have "list_all (\<lambda>c. \<not> is_ws c) ''from:''" "is_word ''has:attachment''" by code_simp+
  then have words: "list_all is_word ?ws" using assms(1,3) by (auto simp: is_word_def)
  have fil: "filter (\<lambda>t. search_token_of t = TextToken t) ?ws = ws"
    using assms(2) from_tok att by (auto simp: list_all_iff filter_id_conv)
  have "fold (\<lambda>t f. case search_token_of t of FromToken n \<Rightarrow> Some n | _ \<Rightarrow> f) ws None = None"
    using assms(2) by (induction ws) auto
  then have fr: "fold (\<lambda>t f. case search_token_of t of FromToken n \<Rightarrow> Some n | _ \<Rightarrow> f) ?ws None = Some name"
    using from_tok att by simp
  have ex: "list_ex (\<lambda>t. search_token_of t = AttachmentToken) ?ws" using att by simp
  show ?thesis
    unfolding parseMessageSearchInput_def js_trim_join[OF words] words_of_join[OF words] search_loop_spec fil fr
    using ex n(1) by simp
qed

section \<open>Failed sends\<close>

record send_error =
  se_message :: string
  se_retryable :: bool

definition CONNECTION_MESSAGE :: string where
  "CONNECTION_MESSAGE = ''Message not sent. Check your connection and try again.''"

text \<open>\<^verbatim>\<open>/timed out until (\S+)/i\<close>, the group of its first match.\<close>

fun match_timed_out :: "string \<Rightarrow> string option" where
  "match_timed_out [] = None"
| "match_timed_out (c # cs) =
     (let until = takeWhile (\<lambda>c. \<not> is_ws c) (drop 16 (c # cs)) in
      if starts_with ''timed out until '' (js_lower (c # cs)) \<and> until \<noteq> [] then Some until
      else match_timed_out cs)"

text \<open>\<^verbatim>\<open>/^[A-Z_]+:(.+)$/s\<close>.\<close>

definition is_code_char :: "char \<Rightarrow> bool" where
  "is_code_char c \<longleftrightarrow> (65 \<le> char_code c \<and> char_code c \<le> 90) \<or> c = CHR ''_''"

definition match_coded :: "string \<Rightarrow> string option" where
  "match_coded s =
     (let code = takeWhile is_code_char s; rest = dropWhile is_code_char s in
      if code \<noteq> [] \<and> rest \<noteq> [] \<and> hd rest = CHR '':'' \<and> tl rest \<noteq> [] then Some (tl rest) else None)"

definition describeSendError :: "(string \<Rightarrow> jsnum) \<Rightarrow> (real \<Rightarrow> string) \<Rightarrow> string option \<Rightarrow> send_error" where
  "describeSendError parse format_time raw =
     (let text = js_trim (nullish raw []) in
      case match_timed_out text of
        Some until \<Rightarrow>
          \<lparr>se_message = (case parse until of
              Fin end_time \<Rightarrow> ''You are timed out until '' @ format_time end_time @ ''.''
            | _ \<Rightarrow> ''You are timed out in this server.''),
           se_retryable = False\<rparr>
      | None \<Rightarrow>
          if text = [] \<or> starts_with ''CONNECTION_ERROR:'' text
            \<or> list_ex (\<lambda>p. includes_str p (js_lower text)) [''failed to fetch'', ''network'', ''did not respond'']
          then \<lparr>se_message = CONNECTION_MESSAGE, se_retryable = True\<rparr>
          else let m = js_trim (nullish (match_coded text) text)
            in \<lparr>se_message = (if m = [] then CONNECTION_MESSAGE else m), se_retryable = True\<rparr>)"

lemma send_error_timed_out:
  "match_timed_out (js_trim (nullish raw [])) = Some until \<Longrightarrow>
    describeSendError parse format_time raw =
      \<lparr>se_message = (case parse until of
          Fin end_time \<Rightarrow> ''You are timed out until '' @ format_time end_time @ ''.''
        | _ \<Rightarrow> ''You are timed out in this server.''),
       se_retryable = False\<rparr>"
  unfolding describeSendError_def Let_def by (simp only: option.case)

lemma send_error_other:
  assumes "match_timed_out (js_trim (nullish raw [])) = None"
  shows "\<exists>m. m \<noteq> [] \<and> describeSendError parse format_time raw = \<lparr>se_message = m, se_retryable = True\<rparr>"
proof -
  have c: "CONNECTION_MESSAGE \<noteq> []" by (simp add: CONNECTION_MESSAGE_def)
  have "\<exists>m. m \<noteq> [] \<and>
      (if b then \<lparr>se_message = CONNECTION_MESSAGE, se_retryable = True\<rparr>
       else \<lparr>se_message = if t = [] then CONNECTION_MESSAGE else t, se_retryable = True\<rparr>) =
      \<lparr>se_message = m, se_retryable = True\<rparr>" for b :: bool and t
    using c by (cases b; cases "t = []") auto
  then show ?thesis unfolding describeSendError_def Let_def assms option.case .
qed

text \<open>Only a timeout is not worth a retry.\<close>

lemma send_error_retryable:
  "se_retryable (describeSendError parse format_time raw) \<longleftrightarrow> match_timed_out (js_trim (nullish raw [])) = None"
proof (cases "match_timed_out (js_trim (nullish raw []))")
  case None
  then show ?thesis using send_error_other [OF None, of parse format_time] by auto
next
  case (Some until)
  then show ?thesis by (simp add: send_error_timed_out [OF Some])
qed

lemma send_error_has_message: "se_message (describeSendError parse format_time raw) \<noteq> []"
proof (cases "match_timed_out (js_trim (nullish raw []))")
  case None
  then show ?thesis using send_error_other [OF None, of parse format_time] by auto
next
  case (Some until)
  then show ?thesis by (simp add: send_error_timed_out [OF Some] split: jsnum.split)
qed

section \<open>Timeouts\<close>

definition activeTimeoutUntil :: "(string \<Rightarrow> jsnum) \<Rightarrow> string option \<Rightarrow> real \<Rightarrow> real option" where
  "activeTimeoutUntil parse until now =
     (if \<not> truthy_str until then None
      else case parse (the until) of Fin end_time \<Rightarrow> if now < end_time then Some end_time else None | _ \<Rightarrow> None)"

definition timeoutLabel :: "(string \<Rightarrow> jsnum) \<Rightarrow> (real \<Rightarrow> string) \<Rightarrow> string option \<Rightarrow> real \<Rightarrow> string option" where
  "timeoutLabel parse format_time until now =
     map_option (\<lambda>end_time. ''Timed out until '' @ format_time end_time) (activeTimeoutUntil parse until now)"

lemma timeout_expires:
  "activeTimeoutUntil parse until now = Some end_time \<Longrightarrow> end_time \<le> later \<Longrightarrow> activeTimeoutUntil parse until later = None"
  by (auto simp: activeTimeoutUntil_def split: jsnum.splits if_splits)

end
