(* ===== verification/RnnoiseRing.thy ===== *)
theory RnnoiseRing
  imports JsBase "HOL-Library.Word"
begin

unbundle bit_operations_syntax

text \<open>
  The audio worklet of the noise suppressor, \<^verbatim>\<open>src/webrtc/rnnoise-worklet-processor.ts\<close>: two ring
  buffers between the render quanta of the browser and the frames of 480 samples RNNoise works on.
  The denoiser is a parameter: a function of its state and a frame, \<^const>\<open>None\<close> when it throws.
  Samples are reals (the rounding of \<^verbatim>\<open>Float32Array\<close> is not modelled); positions are masked as in
  the code. The interface \<open>sample_fifo\<close> states what the rings promise, and the rings are shown to
  keep it.
\<close>

definition FRAME_SIZE :: nat where "FRAME_SIZE = 480"
definition PCM_SCALE :: real where "PCM_SCALE = 32767"
definition RING_BITS :: nat where "RING_BITS = 14"
definition RING_SIZE :: nat where "RING_SIZE = push_bit RING_BITS 1"
definition RING_MASK :: nat where "RING_MASK = RING_SIZE - 1"

section \<open>Rings\<close>

record sample_ring =
  cells :: "nat \<Rightarrow> real"
  wpos :: nat
  rpos :: nat

definition new_ring :: sample_ring where
  "new_ring = \<lparr>cells = \<lambda>_. 0, wpos = 0, rpos = 0\<rparr>"

definition avail :: "nat \<Rightarrow> nat \<Rightarrow> nat" where
  "avail w r = nat ((int w - int r + int RING_SIZE) AND int RING_MASK)"

text \<open>One sample at the write position; a block at the write position; a block from the read position.\<close>

fun push_samples :: "real list \<Rightarrow> sample_ring \<Rightarrow> sample_ring" where
  "push_samples [] q = q"
| "push_samples (x # xs) q =
     push_samples xs (q\<lparr>cells := (cells q)(wpos q := x), wpos := (wpos q + 1) AND RING_MASK\<rparr>)"

definition write_block :: "real list \<Rightarrow> sample_ring \<Rightarrow> sample_ring" where
  "write_block xs q = q\<lparr>
     cells := fold (\<lambda>j c. c((wpos q + j) AND RING_MASK := xs ! j)) [0..<length xs] (cells q),
     wpos := (wpos q + length xs) AND RING_MASK\<rparr>"

definition read_block :: "nat \<Rightarrow> sample_ring \<Rightarrow> real list" where
  "read_block n q = map (\<lambda>j. cells q ((rpos q + j) AND RING_MASK)) [0..<n]"

definition skip_block :: "nat \<Rightarrow> sample_ring \<Rightarrow> sample_ring" where
  "skip_block n q = q\<lparr>rpos := (rpos q + n) AND RING_MASK\<rparr>"

definition ring_avail :: "sample_ring \<Rightarrow> nat" where
  "ring_avail q = avail (wpos q) (rpos q)"

section \<open>What a queue of samples promises\<close>

locale sample_fifo =
  fixes contents :: "'q \<Rightarrow> 'a list"
    and put :: "'a list \<Rightarrow> 'q \<Rightarrow> 'q"
    and peek :: "nat \<Rightarrow> 'q \<Rightarrow> 'a list"
    and drop_front :: "nat \<Rightarrow> 'q \<Rightarrow> 'q"
    and ok :: "'q \<Rightarrow> bool"
    and room :: nat
  assumes ok_put: "ok q \<Longrightarrow> ok (put xs q)"
    and ok_drop: "ok q \<Longrightarrow> ok (drop_front n q)"
    and put_contents: "ok q \<Longrightarrow> length (contents q) + length xs < room \<Longrightarrow> contents (put xs q) = contents q @ xs"
    and peek_contents: "ok q \<Longrightarrow> n \<le> length (contents q) \<Longrightarrow> peek n q = take n (contents q)"
    and drop_contents: "ok q \<Longrightarrow> n \<le> length (contents q) \<Longrightarrow> contents (drop_front n q) = drop n (contents q)"
begin

lemma through:
  assumes "ok q" "length (contents q) + length xs < room" "n \<le> length (contents q) + length xs"
  shows "peek n (put xs q) @ contents (drop_front n (put xs q)) = contents q @ xs"
proof -
  have c: "contents (put xs q) = contents q @ xs" "ok (put xs q)"
    using assms put_contents ok_put by auto
  then have n: "n \<le> length (contents (put xs q))" using assms(3) by simp
  show ?thesis
    unfolding peek_contents[OF c(2) n] drop_contents[OF c(2) n] by (simp only: append_take_drop_id c(1))
qed

end

section \<open>The rings keep the promise\<close>

lemma RING_SIZE_val: "RING_SIZE = 16384"
  by (simp add: RING_SIZE_def RING_BITS_def push_bit_eq_mult)

lemma and_mask_mod: "n AND RING_MASK = n mod RING_SIZE"
proof -
  have m: "RING_MASK = mask RING_BITS" "RING_SIZE = 2 ^ RING_BITS"
    by (simp_all add: RING_MASK_def RING_SIZE_val mask_eq_exp_minus_1 RING_BITS_def)
  show ?thesis unfolding m take_bit_eq_mask[symmetric] by (simp add: take_bit_eq_mod)
qed

lemma and_mask_mod_int: "i AND int RING_MASK = i mod int RING_SIZE"
proof -
  have m: "int RING_MASK = mask RING_BITS" "int RING_SIZE = 2 ^ RING_BITS"
    by (simp_all add: RING_MASK_def RING_SIZE_val mask_eq_exp_minus_1 RING_BITS_def)
  show ?thesis unfolding m take_bit_eq_mask[symmetric] by (simp add: take_bit_eq_mod)
qed

definition ring_ok :: "sample_ring \<Rightarrow> bool" where
  "ring_ok q \<longleftrightarrow> wpos q < RING_SIZE \<and> rpos q < RING_SIZE"

definition ring_contents :: "sample_ring \<Rightarrow> real list" where
  "ring_contents q = read_block (ring_avail q) q"

lemma avail_mod: "avail w r = nat ((int w - int r) mod int RING_SIZE)"
  by (simp add: avail_def and_mask_mod_int)

lemma avail_less: "avail w r < RING_SIZE"
  by (simp add: avail_mod RING_SIZE_val nat_less_iff)

lemma avail_add_write:
  assumes "avail w r + n < RING_SIZE"
  shows "avail ((w + n) mod RING_SIZE) r = avail w r + n"
proof -
  have "(int ((w + n) mod RING_SIZE) - int r) mod int RING_SIZE = ((int w - int r) mod int RING_SIZE + int n) mod int RING_SIZE"
    by (simp add: zmod_int mod_simps algebra_simps)
  also have "\<dots> = (int w - int r) mod int RING_SIZE + int n"
    using assms by (intro mod_pos_pos_trivial) (auto simp: avail_mod RING_SIZE_val)
  finally show ?thesis by (simp add: avail_mod nat_add_distrib RING_SIZE_val)
qed

lemma avail_add_read:
  assumes "n \<le> avail w r"
  shows "avail w ((r + n) mod RING_SIZE) = avail w r - n"
proof -
  have "(int w - int ((r + n) mod RING_SIZE)) mod int RING_SIZE = ((int w - int r) mod int RING_SIZE - int n) mod int RING_SIZE"
    by (simp add: zmod_int mod_simps algebra_simps)
  also have "\<dots> = (int w - int r) mod int RING_SIZE - int n"
  proof (rule mod_pos_pos_trivial)
    have "0 \<le> (int w - int r) mod int RING_SIZE" by (simp add: RING_SIZE_val)
    then show "0 \<le> (int w - int r) mod int RING_SIZE - int n" using assms by (simp add: avail_mod le_nat_iff)
    have "(int w - int r) mod int RING_SIZE < int RING_SIZE" by (simp add: RING_SIZE_val)
    then show "(int w - int r) mod int RING_SIZE - int n < int RING_SIZE" by simp
  qed
  finally show ?thesis using assms by (simp add: avail_mod nat_diff_distrib)
qed

lemma avail_write_pos:
  assumes "w < RING_SIZE"
  shows "(r + avail w r) mod RING_SIZE = w"
proof -
  have "int ((r + avail w r) mod RING_SIZE) = (int r + (int w - int r) mod int RING_SIZE) mod int RING_SIZE"
    by (simp add: avail_mod zmod_int RING_SIZE_val)
  also have "\<dots> = int w" using assms by (simp add: mod_simps zmod_trivial_iff)
  finally show ?thesis by simp
qed

lemma length_ring_contents [simp]: "length (ring_contents q) = ring_avail q"
  by (simp add: ring_contents_def read_block_def)

lemma ring_ok_skip: "ring_ok q \<Longrightarrow> ring_ok (skip_block n q)"
  by (simp add: ring_ok_def skip_block_def and_mask_mod RING_SIZE_val)

lemma ring_skip_contents:
  assumes "n \<le> ring_avail q"
  shows "ring_contents (skip_block n q) = drop n (ring_contents q)"
proof (rule nth_equalityI)
  show len: "length (ring_contents (skip_block n q)) = length (drop n (ring_contents q))"
    using avail_add_read assms by (simp add: ring_avail_def skip_block_def and_mask_mod)
  fix i assume "i < length (ring_contents (skip_block n q))"
  with len have "n + i < ring_avail q" "i < ring_avail q - n" by simp_all
  with len show "ring_contents (skip_block n q) ! i = drop n (ring_contents q) ! i"
    by (simp add: ring_contents_def read_block_def skip_block_def and_mask_mod mod_simps add.assoc)
qed

lemma ring_peek_contents: "n \<le> ring_avail q \<Longrightarrow> read_block n q = take n (ring_contents q)"
  by (simp add: ring_contents_def read_block_def take_map take_upt)

text \<open>Writing one sample appends it.\<close>

lemma push_one_contents:
  assumes "ring_ok q" "ring_avail q + 1 < RING_SIZE"
  shows "ring_contents (q\<lparr>cells := (cells q)(wpos q := x), wpos := (wpos q + 1) AND RING_MASK\<rparr>) = ring_contents q @ [x]"
    (is "ring_contents ?q' = _")
proof -
  have av: "ring_avail ?q' = ring_avail q + 1"
    using avail_add_write[of "wpos q" "rpos q" 1] assms(2) by (simp add: ring_avail_def and_mask_mod)
  have wp: "(rpos q + ring_avail q) mod RING_SIZE = wpos q"
    using avail_write_pos assms(1) by (simp add: ring_ok_def ring_avail_def)
  have old: "(rpos q + j) mod RING_SIZE \<noteq> wpos q" if "j < ring_avail q" for j
  proof
    assume "(rpos q + j) mod RING_SIZE = wpos q"
    then have "(rpos q + j) mod RING_SIZE = (rpos q + ring_avail q) mod RING_SIZE" using wp by simp
    then have "RING_SIZE dvd (rpos q + ring_avail q) - (rpos q + j)" using that by (metis mod_eq_dvd_iff_nat add_le_cancel_left less_imp_le)
    then have "RING_SIZE dvd ring_avail q - j" by simp
    then show False using that assms(2) by (auto dest!: dvd_imp_le)
  qed
  show ?thesis
    unfolding ring_contents_def av
    using old wp by (auto simp: read_block_def and_mask_mod)
qed

lemma push_one_ok:
  "ring_ok q \<Longrightarrow> ring_ok (q\<lparr>cells := c, wpos := (wpos q + 1) AND RING_MASK\<rparr>)"
  "ring_ok q \<Longrightarrow> ring_ok (q\<lparr>cells := c, wpos := Suc (wpos q) AND RING_MASK\<rparr>)"
  by (simp_all add: ring_ok_def and_mask_mod RING_SIZE_val)

lemma push_samples_ok: "ring_ok q \<Longrightarrow> ring_ok (push_samples xs q)"
  by (induction xs q rule: push_samples.induct) (auto intro: push_one_ok)

lemma push_samples_contents:
  "ring_ok q \<Longrightarrow> ring_avail q + length xs < RING_SIZE \<Longrightarrow> ring_contents (push_samples xs q) = ring_contents q @ xs"
proof (induction xs q rule: push_samples.induct)
  case (2 x xs q)
  let ?q' = "q\<lparr>cells := (cells q)(wpos q := x), wpos := (wpos q + 1) AND RING_MASK\<rparr>"
  have c: "ring_contents ?q' = ring_contents q @ [x]" using push_one_contents 2 by simp
  then have "ring_avail ?q' = ring_avail q + 1" by (metis length_ring_contents length_append_singleton Suc_eq_plus1)
  with 2 c push_one_ok show ?case by simp
qed simp

text \<open>A block written with computed positions is the same as its samples pushed one by one.\<close>

lemma write_block_push:
  assumes "ring_ok q"
  shows "write_block xs q = push_samples xs q"
proof -
  have "push_samples xs q = q\<lparr>
      cells := fold (\<lambda>j c. c((wpos q + j) AND RING_MASK := xs ! j)) [0..<length xs] (cells q),
      wpos := (wpos q + length xs) AND RING_MASK\<rparr>"
    using assms
  proof (induction xs q rule: push_samples.induct)
    case (1 q)
    then show ?case by (simp add: ring_ok_def and_mask_mod)
  next
    case (2 x xs q)
    have w: "wpos q AND RING_MASK = wpos q" using 2 by (simp add: ring_ok_def and_mask_mod)
    have shift: "[0..<length (x # xs)] = 0 # map Suc [0..<length xs]"
      by (simp add: map_Suc_upt upt_conv_Cons del: upt_Suc)
    have step: "(((wpos q + 1) AND RING_MASK) + j) AND RING_MASK = (wpos q + Suc j) AND RING_MASK" for j
      by (simp add: and_mask_mod mod_simps)
    show ?case
      using 2 push_one_ok
      by (simp only: push_samples.simps shift) (simp add: fold_map o_def w step[simplified] cong: if_cong)
  qed
  then show ?thesis by (simp add: write_block_def)
qed

interpretation ring: sample_fifo ring_contents push_samples read_block skip_block ring_ok RING_SIZE
  by unfold_locales
    (auto simp: push_samples_ok ring_ok_skip push_samples_contents ring_peek_contents ring_skip_contents)

interpretation block: sample_fifo ring_contents write_block read_block skip_block ring_ok RING_SIZE
  by unfold_locales
    (auto simp: write_block_push push_samples_ok ring_ok_skip push_samples_contents ring_peek_contents ring_skip_contents)

end
