(* ===== verification/RnnoiseProcessor.thy ===== *)
theory RnnoiseProcessor
  imports RnnoiseRing
begin

text \<open>
  The processor of \<^verbatim>\<open>src/webrtc/rnnoise-worklet-processor.ts\<close> over the rings of \<open>RnnoiseRing\<close>:
  construction, messages, loading of the module and one render quantum. A quantum's input and output
  have the same length (Web Audio), so \<^verbatim>\<open>output.set(input)\<close> does not throw. The main result is that a
  run over any sequence of quanta computes the abstract stream: one frame of silence, then the
  denoised input.
\<close>

section \<open>State and messages\<close>

datatype port_message = Ready | LoadFailedMsg string | ProcessFailedMsg string

datatype port_request = SetEnabled "bool option" | Destroy

record 'd rnnoise =
  rp_denoise :: "'d option"
  rp_enabled :: bool
  rp_destroyed :: bool
  rp_load_failed :: bool
  rp_failure_reported :: bool
  rp_in :: sample_ring
  rp_out :: sample_ring
  rp_preloaded :: bool
  rp_loading :: nat
  rp_posted :: "port_message list"

text \<open>\<open>rp_loading\<close> counts the loads of the module that have not been answered.\<close>

definition loadWasm :: "'d rnnoise \<Rightarrow> 'd rnnoise" where
  "loadWasm s = s\<lparr>rp_load_failed := False, rp_loading := rp_loading s + 1\<rparr>"

definition wasm_loaded :: "'d \<Rightarrow> 'd rnnoise \<Rightarrow> 'd rnnoise" where
  "wasm_loaded d s =
     (if rp_destroyed s then s\<lparr>rp_loading := rp_loading s - 1\<rparr>
      else s\<lparr>rp_loading := rp_loading s - 1, rp_denoise := Some d, rp_posted := rp_posted s @ [Ready]\<rparr>)"

definition wasm_failed :: "string \<Rightarrow> 'd rnnoise \<Rightarrow> 'd rnnoise" where
  "wasm_failed msg s = s\<lparr>rp_loading := rp_loading s - 1, rp_load_failed := True,
     rp_posted := rp_posted s @ [LoadFailedMsg msg]\<rparr>"

definition construct :: "bool option \<Rightarrow> 'd rnnoise" where
  "construct enabled =
     (let s = \<lparr>rp_denoise = None, rp_enabled = nullish enabled True, rp_destroyed = False, rp_load_failed = False,
        rp_failure_reported = False, rp_in = new_ring, rp_out = new_ring, rp_preloaded = False,
        rp_loading = 0, rp_posted = []\<rparr>
      in if rp_enabled s then loadWasm s else s)"

fun on_port_message :: "port_request \<Rightarrow> 'd rnnoise \<Rightarrow> 'd rnnoise" where
  "on_port_message (SetEnabled enabled) s =
     (let s1 = s\<lparr>rp_enabled := nullish enabled True\<rparr> in
      if rp_enabled s1 \<and> rp_denoise s1 = None \<and> \<not> rp_destroyed s1 then loadWasm (s1\<lparr>rp_load_failed := False\<rparr>)
      else s1)"
| "on_port_message Destroy s = s\<lparr>rp_destroyed := True, rp_denoise := None\<rparr>"

section \<open>One quantum\<close>

text \<open>The denoiser: its next state, and the frame it wrote or the message of what it threw.\<close>

type_synonym 'd denoiser = "'d \<Rightarrow> real list \<Rightarrow> 'd \<times> (string + real list)"

lemma ring_avail_skip: "n \<le> ring_avail q \<Longrightarrow> ring_avail (skip_block n q) = ring_avail q - n"
  by (metis length_drop length_ring_contents ring_skip_contents)

function run_frames ::
  "'d denoiser \<Rightarrow> 'd \<Rightarrow> sample_ring \<Rightarrow> sample_ring \<Rightarrow> string option \<times> 'd \<times> sample_ring \<times> sample_ring" where
  "run_frames dn d inq outq =
     (if FRAME_SIZE \<le> ring_avail inq then
        let frame = map (\<lambda>x. x * PCM_SCALE) (read_block FRAME_SIZE inq);
            inq' = skip_block FRAME_SIZE inq
        in (case dn d frame of
              (d', Inl msg) \<Rightarrow> (Some msg, d', inq', outq)
            | (d', Inr frame') \<Rightarrow> run_frames dn d' inq' (write_block (map (\<lambda>x. x / PCM_SCALE) frame') outq))
      else (None, d, inq, outq))"
  by pat_completeness auto

termination
  by (relation "measure (\<lambda>(dn, d, inq, outq). ring_avail inq)") (auto simp: ring_avail_skip FRAME_SIZE_def)

declare run_frames.simps [simp del]

definition set_channel :: "real list \<Rightarrow> real list \<Rightarrow> real list" where
  "set_channel inp outp = inp @ drop (length inp) outp"

definition report_failure :: "string \<Rightarrow> 'd rnnoise \<Rightarrow> 'd rnnoise" where
  "report_failure msg s =
     (if rp_failure_reported s then s
      else s\<lparr>rp_failure_reported := True, rp_posted := rp_posted s @ [ProcessFailedMsg msg]\<rparr>)"

definition preload :: "'d rnnoise \<Rightarrow> 'd rnnoise" where
  "preload s =
     (if rp_preloaded s then s
      else s\<lparr>rp_out := (rp_out s)\<lparr>wpos := FRAME_SIZE\<rparr>, rp_preloaded := True\<rparr>)"

text \<open>The result: whether the processor goes on, and the output channel.\<close>

definition process ::
  "'d denoiser \<Rightarrow> real list option \<Rightarrow> real list option \<Rightarrow> 'd rnnoise \<Rightarrow> 'd rnnoise \<times> bool \<times> real list option" where
  "process dn inp outp s =
     (if rp_destroyed s then (s, False, outp)
      else case (inp, outp) of
        (Some xs, Some ys) \<Rightarrow>
          if \<not> rp_enabled s \<or> rp_load_failed s then (s, True, Some (set_channel xs ys))
          else (case rp_denoise s of
            None \<Rightarrow> (s, True, Some (replicate (length ys) 0))
          | Some d \<Rightarrow>
              let s1 = preload s in
              (case run_frames dn d (push_samples xs (rp_in s1)) (rp_out s1) of
                 (Some msg, d', inq, outq) \<Rightarrow>
                   (report_failure msg (s1\<lparr>rp_denoise := Some d', rp_in := inq, rp_out := outq\<rparr>), True,
                    Some (set_channel xs ys))
               | (None, d', inq, outq) \<Rightarrow>
                   let ready = ring_avail outq; toRead = min (length ys) ready in
                   (s1\<lparr>rp_denoise := Some d', rp_in := inq, rp_out := skip_block toRead outq\<rparr>, True,
                    Some (read_block toRead outq @ replicate (length ys - toRead) 0))))
      | _ \<Rightarrow> (s, True, outp))"

text \<open>A run: the outputs of a sequence of quanta, each written into a channel of the same length.\<close>

fun run_quanta :: "'d denoiser \<Rightarrow> real list list \<Rightarrow> 'd rnnoise \<Rightarrow> 'd rnnoise \<times> real list" where
  "run_quanta dn [] s = (s, [])"
| "run_quanta dn (xs # xss) s =
     (let (s1, _, out) = process dn (Some xs) (Some (replicate (length xs) 0)) s;
          (s2, rest) = run_quanta dn xss s1
      in (s2, nullish out [] @ rest))"

section \<open>The abstract stream\<close>

text \<open>The input cut into frames of 480 and each frame denoised; what is left waits.\<close>

function denoise_frames :: "('d \<Rightarrow> real list \<Rightarrow> 'd \<times> real list) \<Rightarrow> 'd \<Rightarrow> real list \<Rightarrow> 'd \<times> real list" where
  "denoise_frames f d xs =
     (if length xs < FRAME_SIZE then (d, [])
      else let (d', ys) = f d (map (\<lambda>x. x * PCM_SCALE) (take FRAME_SIZE xs));
               (d'', zs) = denoise_frames f d' (drop FRAME_SIZE xs)
           in (d'', map (\<lambda>x. x / PCM_SCALE) ys @ zs))"
  by pat_completeness auto

termination
  by (relation "measure (\<lambda>(f, d, xs). length xs)") (auto simp: FRAME_SIZE_def)

declare denoise_frames.simps [simp del]

definition keeps_length :: "('d \<Rightarrow> real list \<Rightarrow> 'd \<times> real list) \<Rightarrow> bool" where
  "keeps_length f \<longleftrightarrow> (\<forall>d xs. length (snd (f d xs)) = length xs)"

text \<open>A denoiser that never throws.\<close>

definition working :: "('d \<Rightarrow> real list \<Rightarrow> 'd \<times> real list) \<Rightarrow> 'd denoiser" where
  "working f = (\<lambda>d xs. (fst (f d xs), Inr (snd (f d xs))))"

definition frames_part :: "real list \<Rightarrow> nat" where
  "frames_part xs = FRAME_SIZE * (length xs div FRAME_SIZE)"

lemma FRAME_pos: "0 < FRAME_SIZE" "FRAME_SIZE < RING_SIZE"
  by (simp_all add: FRAME_SIZE_def RING_SIZE_val)

lemma frames_part_le: "frames_part xs \<le> length xs"
  by (simp add: frames_part_def)

lemma frames_part_short: "length xs < FRAME_SIZE \<Longrightarrow> frames_part xs = 0"
  by (simp add: frames_part_def)

lemma frames_part_long: "FRAME_SIZE \<le> length xs \<Longrightarrow> frames_part xs = FRAME_SIZE + frames_part (drop FRAME_SIZE xs)"
  using FRAME_pos(1) by (simp add: frames_part_def le_div_geq)

lemma frames_part_append: "frames_part (xs @ ys) = frames_part xs + frames_part (drop (frames_part xs) xs @ ys)"
proof -
  have "length (drop (frames_part xs) xs @ ys) + FRAME_SIZE * (length xs div FRAME_SIZE) = length (xs @ ys)"
    using times_div_less_eq_dividend[of FRAME_SIZE "length xs"] unfolding frames_part_def
    by (simp del: times_div_less_eq_dividend)
  then have "length (xs @ ys) div FRAME_SIZE = length xs div FRAME_SIZE + length (drop (frames_part xs) xs @ ys) div FRAME_SIZE"
    using FRAME_pos(1) by (metis add.commute div_mult_self2 mult.commute not_gr_zero)
  then show ?thesis by (simp add: frames_part_def algebra_simps)
qed

text \<open>The loop over the frames leaves less than one frame, unless the denoiser throws; then it has at least
  consumed a frame.\<close>

lemma run_frames_drains:
  "case run_frames dn d inq outq of (e, d', inq', outq') \<Rightarrow>
     if e = None then ring_avail inq' = ring_avail inq mod FRAME_SIZE
     else ring_avail inq' + FRAME_SIZE \<le> ring_avail inq"
proof (induction dn d inq outq rule: run_frames.induct)
  case (1 dn d inq outq)
  show ?case
  proof (cases "FRAME_SIZE \<le> ring_avail inq")
    case False
    then show ?thesis by (simp add: run_frames.simps)
  next
    case True
    let ?frame = "map (\<lambda>x. x * PCM_SCALE) (read_block FRAME_SIZE inq)" and ?inq = "skip_block FRAME_SIZE inq"
    have av: "ring_avail ?inq = ring_avail inq - FRAME_SIZE" by (rule ring_avail_skip[OF True])
    obtain d1 r where dn: "dn d ?frame = (d1, r)" by (cases "dn d ?frame")
    show ?thesis
    proof (cases r)
      case (Inl msg)
      then show ?thesis using True dn av by (simp add: run_frames.simps[of dn d])
    next
      case (Inr frame')
      from 1[OF True refl refl dn[symmetric] Inr] show ?thesis
        using True dn Inr av by (auto simp: run_frames.simps[of dn d] le_mod_geq split: if_splits)
    qed
  qed
qed

lemma denoise_frames_length:
  assumes "keeps_length f"
  shows "length (snd (denoise_frames f d xs)) = frames_part xs"
  using assms
proof (induction f d xs rule: denoise_frames.induct)
  case (1 f d xs)
  show ?case
  proof (cases "length xs < FRAME_SIZE")
    case False
    with 1 show ?thesis
      by (subst denoise_frames.simps)
        (auto simp: frames_part_long keeps_length_def split: prod.splits dest!: spec[of _ d], metis length_map length_take min_absorb2 not_less snd_conv)
  qed (simp add: denoise_frames.simps frames_part_short)
qed

text \<open>Denoising in two steps.\<close>

lemma denoise_frames_append:
  "denoise_frames f d (xs @ ys) =
     (let (d1, a) = denoise_frames f d xs;
          (d2, b) = denoise_frames f d1 (drop (frames_part xs) xs @ ys)
      in (d2, a @ b))"
proof (induction f d xs rule: denoise_frames.induct)
  case (1 f d xs)
  show ?case
  proof (cases "length xs < FRAME_SIZE")
    case True
    then show ?thesis by (simp add: denoise_frames.simps[of f d xs] frames_part_short split: prod.split)
  next
    case False
    obtain d' ys' where f: "f d (map (\<lambda>x. x * PCM_SCALE) (take FRAME_SIZE xs)) = (d', ys')" by fastforce
    have ih: "denoise_frames f d' (drop FRAME_SIZE xs @ ys) =
     (let (d1, a) = denoise_frames f d' (drop FRAME_SIZE xs);
          (d2, b) = denoise_frames f d1 (drop (frames_part (drop FRAME_SIZE xs)) (drop FRAME_SIZE xs) @ ys)
      in (d2, a @ b))" using 1 False f by metis
    from False f ih show ?thesis
      by (simp add: denoise_frames.simps[of f d xs] denoise_frames.simps[of f d "xs @ ys"] frames_part_long
          add.commute split: prod.splits)
  qed
qed

section \<open>The loop over frames refines the stream\<close>

lemma run_frames_refines:
  assumes "keeps_length f" "ring_ok inq" "ring_ok outq" "ring_avail inq + ring_avail outq < RING_SIZE"
  shows "\<exists>inq' outq'. run_frames (working f) d inq outq = (None, fst (denoise_frames f d (ring_contents inq)), inq', outq')
     \<and> ring_ok inq' \<and> ring_ok outq'
     \<and> ring_contents inq' = drop (frames_part (ring_contents inq)) (ring_contents inq)
     \<and> ring_contents outq' = ring_contents outq @ snd (denoise_frames f d (ring_contents inq))"
  using assms
proof (induction "ring_avail inq" arbitrary: d inq outq rule: less_induct)
  case less
  show ?case
  proof (cases "FRAME_SIZE \<le> ring_avail inq")
    case False
    with less.prems show ?thesis
      by (simp add: run_frames.simps[of "working f"] denoise_frames.simps frames_part_short)
  next
    case True
    let ?frame = "map (\<lambda>x. x * PCM_SCALE) (read_block FRAME_SIZE inq)"
    let ?i = "skip_block FRAME_SIZE inq"
    let ?d = "fst (f d ?frame)"
    let ?o = "write_block (map (\<lambda>x. x / PCM_SCALE) (snd (f d ?frame))) outq"
    have read: "read_block FRAME_SIZE inq = take FRAME_SIZE (ring_contents inq)"
      using ring.peek_contents less.prems True by simp
    have len: "length (snd (f d ?frame)) = FRAME_SIZE"
      using less.prems(1) True unfolding keeps_length_def read by simp
    have i: "ring_contents ?i = drop FRAME_SIZE (ring_contents inq)" "ring_ok ?i" "ring_avail ?i = ring_avail inq - FRAME_SIZE"
      using ring.drop_contents ring.ok_drop less.prems True ring_avail_skip by auto
    have o: "ring_contents ?o = ring_contents outq @ map (\<lambda>x. x / PCM_SCALE) (snd (f d ?frame))" "ring_ok ?o"
      using block.put_contents[of outq "map (\<lambda>x. x / PCM_SCALE) (snd (f d ?frame))"] block.ok_put less.prems True len by auto
    then have "ring_avail ?o = ring_avail outq + FRAME_SIZE"
      using len by (metis length_append length_map length_ring_contents)
    with i True less.prems(4) FRAME_pos
    have "ring_avail ?i < ring_avail inq" "ring_avail ?i + ring_avail ?o < RING_SIZE" by auto
    from less.hyps[OF this(1) less.prems(1) i(2) o(2) this(2), of ?d] obtain inq' outq' where
      r: "run_frames (working f) ?d ?i ?o = (None, fst (denoise_frames f ?d (ring_contents ?i)), inq', outq')"
        "ring_ok inq'" "ring_ok outq'" "ring_contents inq' = drop (frames_part (ring_contents ?i)) (ring_contents ?i)"
        "ring_contents outq' = ring_contents ?o @ snd (denoise_frames f ?d (ring_contents ?i))" by blast
    have "run_frames (working f) d inq outq = run_frames (working f) ?d ?i ?o"
      using True by (subst run_frames.simps) (simp add: working_def Let_def)
    moreover have "denoise_frames f d (ring_contents inq) =
        (fst (denoise_frames f ?d (ring_contents ?i)),
         map (\<lambda>x. x / PCM_SCALE) (snd (f d ?frame)) @ snd (denoise_frames f ?d (ring_contents ?i)))"
      using True by (subst denoise_frames.simps) (simp add: read i split: prod.split)
    moreover have "frames_part (ring_contents inq) = FRAME_SIZE + frames_part (ring_contents ?i)"
      using True by (simp add: frames_part_long i)
    ultimately show ?thesis using r o i by (simp add: add.commute)
  qed
qed

section \<open>A run of quanta\<close>

text \<open>After the inputs \<open>X\<close> with outputs \<open>Y\<close>.\<close>

definition stream_inv ::
  "('d \<Rightarrow> real list \<Rightarrow> 'd \<times> real list) \<Rightarrow> 'd \<Rightarrow> real list \<Rightarrow> real list \<Rightarrow> 'd rnnoise \<Rightarrow> bool" where
  "stream_inv f d X Y s \<longleftrightarrow>
     rp_enabled s \<and> \<not> rp_destroyed s \<and> \<not> rp_load_failed s
     \<and> rp_denoise s = Some (fst (denoise_frames f d X))
     \<and> ring_ok (rp_in s) \<and> ring_ok (rp_out (preload s))
     \<and> ring_contents (rp_in s) = drop (frames_part X) X
     \<and> Y @ ring_contents (rp_out (preload s)) = replicate FRAME_SIZE 0 @ snd (denoise_frames f d X)
     \<and> length Y = length X"

lemma waiting_short: "length (drop (frames_part X) X) < FRAME_SIZE"
  using FRAME_pos(1) by (simp add: frames_part_def minus_mult_div_eq_mod)

lemma preload_simps [simp]:
  "rp_denoise (preload s) = rp_denoise s" "rp_in (preload s) = rp_in s" "rp_preloaded (preload s)"
  "rp_enabled (preload s) = rp_enabled s" "rp_destroyed (preload s) = rp_destroyed s"
  "rp_load_failed (preload s) = rp_load_failed s"
  by (simp_all add: preload_def)

lemma preload_id: "rp_preloaded s \<Longrightarrow> preload s = s"
  by (simp add: preload_def)

lemma process_step:
  assumes f: "keeps_length f" and inv: "stream_inv f d X Y s" and fits: "length xs + 2 * FRAME_SIZE \<le> RING_SIZE"
  shows "\<exists>s' out. process (working f) (Some xs) (Some (replicate (length xs) 0)) s = (s', True, Some out)
           \<and> stream_inv f d (X @ xs) (Y @ out) s'"
proof -
  note i = inv[unfolded stream_inv_def]
  let ?d = "fst (denoise_frames f d X)" and ?q = "push_samples xs (rp_in s)" and ?o = "rp_out (preload s)"
  have lenY: "length Y = length X" and wait: "ring_avail (rp_in s) < FRAME_SIZE"
    using i waiting_short[of X] by (auto simp flip: length_ring_contents)
  have q: "ring_contents ?q = drop (frames_part X) X @ xs" "ring_ok ?q"
    using ring.put_contents[of "rp_in s" xs] ring.ok_put i wait fits FRAME_pos by (auto simp flip: length_ring_contents)
  have lens: "ring_avail ?q = length X - frames_part X + length xs"
    using arg_cong[OF q(1), of length] by simp
  have "length Y + ring_avail ?o = FRAME_SIZE + frames_part X"
    using i denoise_frames_length[OF f, of d X] by (metis length_append length_replicate length_ring_contents)
  then have both: "ring_avail ?q + ring_avail ?o = FRAME_SIZE + length xs"
    using lens lenY frames_part_le[of X] by simp
  then have room: "ring_avail ?q + ring_avail ?o < RING_SIZE" using fits FRAME_pos by simp
  have oko: "ring_ok ?o" using i by simp
  obtain inq outq where r: "run_frames (working f) ?d ?q ?o = (None, fst (denoise_frames f ?d (ring_contents ?q)), inq, outq)"
    "ring_ok inq" "ring_ok outq" "ring_contents inq = drop (frames_part (ring_contents ?q)) (ring_contents ?q)"
    "ring_contents outq = ring_contents ?o @ snd (denoise_frames f ?d (ring_contents ?q))"
    using run_frames_refines[OF f q(2) oko room, of ?d] by blast
  let ?X = "X @ xs"
  have stream: "denoise_frames f d ?X =
      (fst (denoise_frames f ?d (ring_contents ?q)), snd (denoise_frames f d X) @ snd (denoise_frames f ?d (ring_contents ?q)))"
    unfolding q(1) denoise_frames_append[of f d X xs] by (simp split: prod.split)
  have part: "frames_part ?X = frames_part X + frames_part (ring_contents ?q)"
    unfolding q(1) by (rule frames_part_append)
  have rest: "ring_contents inq = drop (frames_part ?X) ?X"
    unfolding r(4) part unfolding q(1) using frames_part_le[of X] by (simp add: add.commute)
  have "ring_avail inq < FRAME_SIZE" using rest waiting_short[of ?X] by (metis length_ring_contents)
  moreover have "ring_avail outq + ring_avail inq = FRAME_SIZE + length xs"
  proof -
    have "ring_avail outq = ring_avail ?o + frames_part (ring_contents ?q)"
      using r(5) denoise_frames_length[OF f, of ?d "ring_contents ?q"] by (metis length_append length_ring_contents)
    moreover have "ring_avail inq = ring_avail ?q - frames_part (ring_contents ?q)"
      using r(4) by (metis length_drop length_ring_contents)
    ultimately show ?thesis using both frames_part_le[of "ring_contents ?q"] by simp
  qed
  ultimately have enough: "length xs \<le> ring_avail outq" by simp
  let ?s = "(preload s)\<lparr>rp_denoise := Some (fst (denoise_frames f ?d (ring_contents ?q))), rp_in := inq,
      rp_out := skip_block (length xs) outq\<rparr>"
  have "process (working f) (Some xs) (Some (replicate (length xs) 0)) s = (?s, True, Some (read_block (length xs) outq))"
    using i r(1) enough by (simp add: process_def Let_def min_absorb1)
  moreover have "stream_inv f d ?X (Y @ read_block (length xs) outq) ?s"
  proof -
    have "read_block (length xs) outq @ ring_contents (skip_block (length xs) outq) = ring_contents outq"
      using enough by (simp add: ring.peek_contents[OF r(3)] ring.drop_contents[OF r(3)])
    then have out: "(Y @ read_block (length xs) outq) @ ring_contents (skip_block (length xs) outq)
        = replicate FRAME_SIZE 0 @ snd (denoise_frames f d ?X)"
      using i r(5) stream by (metis append.assoc snd_conv)
    have len: "length (read_block (length xs) outq) = length xs" by (simp add: read_block_def)
    have pre: "preload ?s = ?s" by (rule preload_id) simp
    show ?thesis
      unfolding stream_inv_def pre
      using i r(2,3) rest out len stream lenY ring.ok_drop by simp
  qed
  ultimately show ?thesis by blast
qed

lemma run_quanta_inv:
  assumes "keeps_length f" "stream_inv f d X Y s" "\<forall>xs \<in> set quanta. length xs + 2 * FRAME_SIZE \<le> RING_SIZE"
  shows "stream_inv f d (X @ concat quanta) (Y @ snd (run_quanta (working f) quanta s)) (fst (run_quanta (working f) quanta s))"
  using assms(2,3)
proof (induction quanta arbitrary: X Y s)
  case (Cons xs quanta)
  then obtain s' out where p: "process (working f) (Some xs) (Some (replicate (length xs) 0)) s = (s', True, Some out)"
    "stream_inv f d (X @ xs) (Y @ out) s'"
    using process_step[OF assms(1)] by (metis list.set_intros(1))
  from Cons.IH[OF p(2)] Cons.prems(2) p(1) show ?case by (cases "run_quanta (working f) quanta s'") simp
qed simp

text \<open>A processor whose module has just loaded.\<close>

definition started_processor :: "'d \<Rightarrow> 'd rnnoise" where
  "started_processor d = wasm_loaded d (construct None)"

lemma new_ring_contents: "ring_contents new_ring = []" "ring_ok new_ring"
  by (simp_all add: ring_contents_def read_block_def new_ring_def ring_avail_def avail_mod ring_ok_def RING_SIZE_val)

lemma preloaded_contents:
  "ring_contents (new_ring\<lparr>wpos := FRAME_SIZE\<rparr>) = replicate FRAME_SIZE 0" "ring_ok (new_ring\<lparr>wpos := FRAME_SIZE\<rparr>)"
  by (simp_all add: ring_contents_def read_block_def new_ring_def ring_avail_def avail_mod ring_ok_def RING_SIZE_val
      FRAME_SIZE_def map_replicate_const)

lemma started_inv: "stream_inv f d [] [] (started_processor d)"
  using new_ring_contents preloaded_contents FRAME_pos
  by (simp add: stream_inv_def started_processor_def wasm_loaded_def construct_def loadWasm_def preload_def
      denoise_frames.simps)

lemma run_quanta_stream:
  assumes "keeps_length f" "\<forall>xs \<in> set quanta. length xs + 2 * FRAME_SIZE \<le> RING_SIZE"
  shows "snd (run_quanta (working f) quanta (started_processor d)) =
     take (length (concat quanta)) (replicate FRAME_SIZE 0 @ snd (denoise_frames f d (concat quanta)))"
proof -
  let ?r = "run_quanta (working f) quanta (started_processor d)"
  note inv = run_quanta_inv[OF assms(1) started_inv assms(2), of d, unfolded stream_inv_def append_Nil]
  then have "snd ?r @ ring_contents (rp_out (preload (fst ?r))) = replicate FRAME_SIZE 0 @ snd (denoise_frames f d (concat quanta))"
    and "length (snd ?r) = length (concat quanta)" by auto
  then show ?thesis by (metis append_eq_conv_conj)
qed

text \<open>A denoiser that changes nothing delays the sound by one frame and loses no sample.\<close>

lemma identity_stream: "denoise_frames (\<lambda>d xs. (d, xs)) d xs = (d, take (frames_part xs) xs)"
proof (induction "length xs" arbitrary: xs rule: less_induct)
  case less
  show ?case
  proof (cases "length xs < FRAME_SIZE")
    case False
    have "map (\<lambda>x. x / PCM_SCALE) (map (\<lambda>x. x * PCM_SCALE) ys) = ys" for ys
      by (simp add: PCM_SCALE_def map_idI)
    with False less[of "drop FRAME_SIZE xs"] FRAME_pos(1) show ?thesis
      by (subst denoise_frames.simps) (simp add: frames_part_long take_add)
  qed (simp add: denoise_frames.simps frames_part_short)
qed

lemma identity_delay:
  assumes "\<forall>xs \<in> set quanta. length xs + 2 * FRAME_SIZE \<le> RING_SIZE"
  shows "snd (run_quanta (working (\<lambda>d xs. (d, xs))) quanta (started_processor d)) =
     take (length (concat quanta)) (replicate FRAME_SIZE 0 @ concat quanta)"
proof -
  have k: "keeps_length (\<lambda>d xs. (d, xs))" by (simp add: keeps_length_def)
  let ?X = "concat quanta"
  have "length ?X - FRAME_SIZE \<le> frames_part ?X"
    using waiting_short[of ?X] by simp
  then show ?thesis
    unfolding run_quanta_stream[OF k assms] identity_stream
    by (simp add: min_def)
qed

section \<open>Failures\<close>

lemma process_report_once:
  assumes "rp_failure_reported s \<longleftrightarrow> (\<exists>m. ProcessFailedMsg m \<in> set (rp_posted s))"
    "length (filter (\<lambda>p. \<exists>m. p = ProcessFailedMsg m) (rp_posted s)) \<le> 1"
    "process dn inp outp s = (s', go, out)"
  shows "(rp_failure_reported s' \<longleftrightarrow> (\<exists>m. ProcessFailedMsg m \<in> set (rp_posted s')))
     \<and> length (filter (\<lambda>p. \<exists>m. p = ProcessFailedMsg m) (rp_posted s')) \<le> 1"
proof -
  have none: "filter (\<lambda>p. \<exists>m. p = ProcessFailedMsg m) (rp_posted s) = []" if "\<not> rp_failure_reported s"
    using that assms(1) by (auto simp: filter_empty_conv)
  have post: "rp_posted (preload s) = rp_posted s" "rp_failure_reported (preload s) = rp_failure_reported s"
    by (simp_all add: preload_def)
  show ?thesis
    using assms none post
    by (auto simp: process_def report_failure_def Let_def split: if_splits option.splits prod.splits)
qed

lemma process_while_loading:
  "\<not> rp_destroyed s \<Longrightarrow> rp_enabled s \<Longrightarrow> \<not> rp_load_failed s \<Longrightarrow> rp_denoise s = None \<Longrightarrow>
     process dn (Some xs) (Some ys) s = (s, True, Some (replicate (length ys) 0))"
  by (simp add: process_def)

lemma process_passthrough:
  "\<not> rp_destroyed s \<Longrightarrow> \<not> rp_enabled s \<or> rp_load_failed s \<Longrightarrow> length ys = length xs \<Longrightarrow>
     process dn (Some xs) (Some ys) s = (s, True, Some xs)"
  by (auto simp: process_def set_channel_def)

end
