(* ===== verification/VoiceDevices.thy ===== *)
theory VoiceDevices
  imports WebStorage
begin

text \<open>
  Microphones and speakers, \<^verbatim>\<open>src/voiceDevices.ts\<close>: the stored device ids, the requests for a microphone
  with their fallbacks, the lists of devices and the assignment of an output device. What the browser
  answers (\<^verbatim>\<open>getUserMedia\<close>, \<^verbatim>\<open>enumerateDevices\<close>, \<^verbatim>\<open>setSinkId\<close>) is a parameter.
\<close>

definition VOICE_INPUT_DEVICE_KEY :: string where "VOICE_INPUT_DEVICE_KEY = ''voxpery-settings-input-device-id''"
definition VOICE_OUTPUT_DEVICE_KEY :: string where "VOICE_OUTPUT_DEVICE_KEY = ''voxpery-settings-output-device-id''"
definition NOISE_SUPPRESSION_KEY :: string where "NOISE_SUPPRESSION_KEY = ''voxpery-settings-noise-suppression''"

lemmas device_keys = VOICE_INPUT_DEVICE_KEY_def VOICE_OUTPUT_DEVICE_KEY_def NOISE_SUPPRESSION_KEY_def

section \<open>Stored settings\<close>

definition readStoredDeviceId :: "string \<Rightarrow> string web_storage \<Rightarrow> string" where
  "readStoredDeviceId key st =
     (case get_item key st of Inl _ \<Rightarrow> [] | Inr None \<Rightarrow> [] | Inr (Some v) \<Rightarrow> js_trim v)"

text \<open>The storage and the number of change events sent.\<close>

definition clearStoredDeviceId :: "string \<Rightarrow> string web_storage \<times> nat \<Rightarrow> string web_storage \<times> nat" where
  "clearStoredDeviceId key = (\<lambda>(st, events). (try_remove key st, events + 1))"

definition isStoredNoiseSuppressionEnabled :: "string web_storage \<Rightarrow> bool" where
  "isStoredNoiseSuppressionEnabled st =
     (case get_item NOISE_SUPPRESSION_KEY st of Inl _ \<Rightarrow> True | Inr v \<Rightarrow> v \<noteq> Some ''0'')"

definition getStoredVoiceInputDeviceId :: "string web_storage \<Rightarrow> string" where
  "getStoredVoiceInputDeviceId = readStoredDeviceId VOICE_INPUT_DEVICE_KEY"

definition getStoredVoiceOutputDeviceId :: "string web_storage \<Rightarrow> string" where
  "getStoredVoiceOutputDeviceId = readStoredDeviceId VOICE_OUTPUT_DEVICE_KEY"

section \<open>Errors of the media interface\<close>

record media_error =
  me_name :: "string option"
  me_constraint :: "string option"
  me_constraint_name :: "string option"

text \<open>What is thrown: \<^const>\<open>None\<close> for something that is not an object.\<close>

definition isUnavailableDeviceError :: "media_error option \<Rightarrow> bool" where
  "isUnavailableDeviceError error =
     (case error of None \<Rightarrow> False
      | Some e \<Rightarrow>
          let name = nullish (me_name e) [] in
          if name = ''NotFoundError'' \<or> name = ''DevicesNotFoundError'' then True
          else if name \<noteq> ''OverconstrainedError'' \<and> name \<noteq> ''ConstraintNotSatisfiedError'' then False
          else let c = (case me_constraint e of Some x \<Rightarrow> x | None \<Rightarrow> nullish (me_constraint_name e) [])
               in c = [] \<or> c = ''deviceId'')"

section \<open>Asking for a microphone\<close>

record mic_constraints =
  mc_device_id :: "string option"
  mc_noise_suppression :: bool
  mc_echo_cancellation :: bool
  mc_auto_gain_control :: bool

definition buildMicProcessingConstraints :: "bool \<Rightarrow> mic_constraints" where
  "buildMicProcessingConstraints noiseSuppressionEnabled =
     \<lparr>mc_device_id = None, mc_noise_suppression = noiseSuppressionEnabled, mc_echo_cancellation = True,
      mc_auto_gain_control = \<not> noiseSuppressionEnabled\<rparr>"

definition buildPreferredMicrophoneConstraints :: "string web_storage \<Rightarrow> mic_constraints" where
  "buildPreferredMicrophoneConstraints st =
     (let deviceId = getStoredVoiceInputDeviceId st in
      (buildMicProcessingConstraints (isStoredNoiseSuppressionEnabled st))
        \<lparr>mc_device_id := if deviceId \<noteq> [] then Some deviceId else None\<rparr>)"

datatype mic_request = Constrained mic_constraints | AnyAudio

text \<open>
  A capture: its answers come one per request, in order. \<open>overrides\<close> is the spread of the caller's
  constraints over the preferred ones. The result is what is thrown or the stream, with the requests
  made, the storage and the change events.
\<close>

record 's capture =
  cap_result :: "media_error option + 's"
  cap_requests :: "mic_request list"
  cap_storage :: "string web_storage"
  cap_events :: nat

definition capturePreferredMicrophoneStream ::
  "(nat \<Rightarrow> mic_request \<Rightarrow> media_error option + 's) \<Rightarrow> (mic_constraints \<Rightarrow> mic_constraints)
     \<Rightarrow> string web_storage \<Rightarrow> 's capture" where
  "capturePreferredMicrophoneStream answer overrides st =
     (let preferredDeviceId = getStoredVoiceInputDeviceId st;
          q1 = Constrained (overrides (buildPreferredMicrophoneConstraints st))
      in case answer 0 q1 of
        Inr s \<Rightarrow> \<lparr>cap_result = Inr s, cap_requests = [q1], cap_storage = st, cap_events = 0\<rparr>
      | Inl e \<Rightarrow>
          if \<not> isUnavailableDeviceError e then
            \<lparr>cap_result = Inl e, cap_requests = [q1], cap_storage = st, cap_events = 0\<rparr>
          else if preferredDeviceId \<noteq> [] then
            (case clearStoredDeviceId VOICE_INPUT_DEVICE_KEY (st, 0) of (st', events) \<Rightarrow>
               let q2 = Constrained (overrides (buildPreferredMicrophoneConstraints st')) in
               case answer 1 q2 of
                 Inr s \<Rightarrow> \<lparr>cap_result = Inr s, cap_requests = [q1, q2], cap_storage = st', cap_events = events\<rparr>
               | Inl e2 \<Rightarrow>
                   if \<not> isUnavailableDeviceError e2 then
                     \<lparr>cap_result = Inl e2, cap_requests = [q1, q2], cap_storage = st', cap_events = events\<rparr>
                   else \<lparr>cap_result = answer 2 AnyAudio, cap_requests = [q1, q2, AnyAudio], cap_storage = st',
                          cap_events = events\<rparr>)
          else \<lparr>cap_result = answer 1 AnyAudio, cap_requests = [q1, AnyAudio], cap_storage = st, cap_events = 0\<rparr>)"

section \<open>Lists of devices\<close>

datatype device_kind = AudioInput | AudioOutput | OtherDevice

record media_device =
  dev_kind :: device_kind
  dev_id :: string
  dev_label :: string

record device_option =
  do_id :: string
  do_label :: string
  do_full_label :: string

definition DEFAULT_DEVICE_LABEL :: string where "DEFAULT_DEVICE_LABEL = ''Windows Default''"

definition fallbackDeviceLabel :: "device_kind \<Rightarrow> nat \<Rightarrow> string" where
  "fallbackDeviceLabel kind index =
     (if kind = AudioInput then ''Microphone '' @ nat_str index else ''Speaker '' @ nat_str index)"

definition device_option_of :: "device_kind \<Rightarrow> nat \<Rightarrow> media_device \<Rightarrow> device_option" where
  "device_option_of kind index d =
     (let fullLabel = (let l = js_trim (dev_label d) in if l \<noteq> [] then l else fallbackDeviceLabel kind (index + 1))
      in \<lparr>do_id = dev_id d, do_label = fullLabel, do_full_label = fullLabel\<rparr>)"

definition default_device :: "device_kind \<Rightarrow> device_option" where
  "default_device kind =
     \<lparr>do_id = [], do_label = DEFAULT_DEVICE_LABEL,
      do_full_label = (if kind = AudioInput then ''Windows default microphone'' else ''Windows default speaker'')\<rparr>"

definition createVoiceDeviceOptions :: "media_device list \<Rightarrow> device_kind \<Rightarrow> device_option list" where
  "createVoiceDeviceOptions devices kind =
     (let filtered = filter (\<lambda>d. dev_kind d = kind \<and> dev_id d \<noteq> ''default'') devices
      in default_device kind # map (\<lambda>(index, d). device_option_of kind index d) (enumerate 0 filtered))"

record voice_devices =
  vd_inputs :: "device_option list"
  vd_outputs :: "device_option list"
  vd_can_select_output :: bool
  vd_labels_unlocked :: bool

text \<open>\<^const>\<open>None\<close>: the browser cannot list devices.\<close>

definition enumerateVoiceDevices :: "media_device list option \<Rightarrow> bool \<Rightarrow> voice_devices" where
  "enumerateVoiceDevices found supportsOutput =
     (case found of
        None \<Rightarrow> \<lparr>vd_inputs = [default_device AudioInput], vd_outputs = [default_device AudioOutput],
          vd_can_select_output = False, vd_labels_unlocked = False\<rparr>
      | Some devices \<Rightarrow>
          let outputs = createVoiceDeviceOptions devices AudioOutput in
          \<lparr>vd_inputs = createVoiceDeviceOptions devices AudioInput, vd_outputs = outputs,
           vd_can_select_output = supportsOutput \<and> list_ex (\<lambda>d. do_id d \<noteq> []) outputs,
           vd_labels_unlocked = list_ex (\<lambda>d. (dev_kind d = AudioInput \<or> dev_kind d = AudioOutput)
             \<and> dev_id d \<noteq> ''default'' \<and> js_trim (dev_label d) \<noteq> []) devices\<rparr>)"

datatype mic_permission = Granted | Prompt | Denied | Unsupported

text \<open>The answer of \<^verbatim>\<open>permissions.query\<close>: \<^const>\<open>None\<close> when it throws.\<close>

definition getMicrophonePermissionState :: "bool \<Rightarrow> bool \<Rightarrow> string option \<Rightarrow> mic_permission" where
  "getMicrophonePermissionState hasGetUserMedia hasQuery state =
     (if \<not> hasGetUserMedia then Unsupported
      else if \<not> hasQuery then Unsupported
      else case state of
        None \<Rightarrow> Unsupported
      | Some s \<Rightarrow> if s = ''granted'' then Granted else if s = ''denied'' then Denied
                  else if s = ''prompt'' then Prompt else Unsupported)"

section \<open>The output device of an element\<close>

text \<open>One assignment: the sink of the element, whether it succeeded, the storage and the events.\<close>

definition assign_output ::
  "(string \<Rightarrow> media_error option option) \<Rightarrow> string \<Rightarrow> string \<Rightarrow> string web_storage
     \<Rightarrow> string \<times> bool \<times> string web_storage \<times> nat" where
  "assign_output setSinkId preferredSinkId sink st =
     (if sink = preferredSinkId then (sink, True, st, 0)
      else case setSinkId preferredSinkId of
        None \<Rightarrow> (preferredSinkId, True, st, 0)
      | Some e \<Rightarrow>
          if preferredSinkId \<noteq> ''default'' \<and> isUnavailableDeviceError e then
            (case clearStoredDeviceId VOICE_OUTPUT_DEVICE_KEY (st, 0) of (st', events) \<Rightarrow>
               (case setSinkId ''default'' of
                  None \<Rightarrow> (''default'', True, st', events)
                | Some _ \<Rightarrow> (sink, False, st', events)))
          else (sink, False, st, 0))"

text \<open>
  The queue of assignments of one element: at most one is recorded, with its target; asking for the
  same target joins it, another target waits for it. \<open>qa_id\<close> identifies the promise.
\<close>

record queued_assignment =
  qa_target :: string
  qa_id :: nat

datatype assign_reply = NotSupported | Joined nat | Queued nat "nat option"

definition applyPreferredAudioOutputDevice ::
  "bool \<Rightarrow> string web_storage \<Rightarrow> nat \<Rightarrow> queued_assignment option \<Rightarrow> queued_assignment option \<times> assign_reply" where
  "applyPreferredAudioOutputDevice supported st fresh current =
     (if \<not> supported then (current, NotSupported)
      else
        let preferredSinkId = or_str (Some (getStoredVoiceOutputDeviceId st)) ''default'' in
        case current of
          Some a \<Rightarrow>
            if qa_target a = preferredSinkId then (current, Joined (qa_id a))
            else (Some \<lparr>qa_target = preferredSinkId, qa_id = fresh\<rparr>, Queued fresh (Some (qa_id a)))
        | None \<Rightarrow> (Some \<lparr>qa_target = preferredSinkId, qa_id = fresh\<rparr>, Queued fresh None))"

definition clearAssignment :: "nat \<Rightarrow> queued_assignment option \<Rightarrow> queued_assignment option" where
  "clearAssignment promise current =
     (case current of Some a \<Rightarrow> if qa_id a = promise then None else current | None \<Rightarrow> None)"

section \<open>Lemmas\<close>

lemma capture_at_most_three: "length (cap_requests (capturePreferredMicrophoneStream answer ov st)) \<le> 3"
  by (simp add: capturePreferredMicrophoneStream_def Let_def split: sum.split prod.split)

text \<open>An error other than a missing device is passed on at the request that met it.\<close>

lemma capture_not_masked:
  assumes "cap_result (capturePreferredMicrophoneStream answer ov st) = r"
    "cap_requests (capturePreferredMicrophoneStream answer ov st) = qs"
  shows "r = answer (length qs - 1) (last qs)"
    "i < length qs - 1 \<Longrightarrow> \<exists>e. answer i (qs ! i) = Inl e \<and> isUnavailableDeviceError e"
proof -
  show "r = answer (length qs - 1) (last qs)"
    using assms
    by (auto simp: capturePreferredMicrophoneStream_def Let_def clearStoredDeviceId_def numeral_2_eq_2
        split: sum.splits if_splits)
  show "i < length qs - 1 \<Longrightarrow> \<exists>e. answer i (qs ! i) = Inl e \<and> isUnavailableDeviceError e"
    using assms
    by (auto simp: capturePreferredMicrophoneStream_def Let_def clearStoredDeviceId_def less_Suc_eq
        split: sum.splits if_splits)
qed

text \<open>The stored device is forgotten only when it was asked for and is not there.\<close>

lemma capture_forgets:
  assumes "cap_storage (capturePreferredMicrophoneStream answer ov st) \<noteq> st"
  shows "getStoredVoiceInputDeviceId st \<noteq> []
    \<and> (\<exists>e. answer 0 (Constrained (ov (buildPreferredMicrophoneConstraints st))) = Inl e \<and> isUnavailableDeviceError e)"
  using assms
  by (auto simp: capturePreferredMicrophoneStream_def Let_def split: sum.splits if_splits prod.splits)

lemma capture_second_without_device:
  assumes "storage_works st" "1 < length (cap_requests (capturePreferredMicrophoneStream answer id st))"
    "cap_requests (capturePreferredMicrophoneStream answer id st) ! 1 = Constrained c"
  shows "mc_device_id c = None"
  using assms
  by (auto simp: capturePreferredMicrophoneStream_def Let_def clearStoredDeviceId_def get_or_none_try_remove
      buildPreferredMicrophoneConstraints_def getStoredVoiceInputDeviceId_def readStoredDeviceId_def
      get_item_def try_remove_def remove_item_def storage_works_def obj_get_del
      split: sum.splits if_splits)

lemma options_default_first:
  "createVoiceDeviceOptions devices kind = default_device kind # tl (createVoiceDeviceOptions devices kind)"
  by (simp add: createVoiceDeviceOptions_def Let_def)

lemma options_ids:
  "map do_id (tl (createVoiceDeviceOptions devices kind))
     = map dev_id (filter (\<lambda>d. dev_kind d = kind \<and> dev_id d \<noteq> ''default'') devices)" (is "_ = map dev_id ?f")
proof -
  have "map (\<lambda>x. dev_id (snd x)) (enumerate 0 ?f) = map dev_id (map snd (enumerate 0 ?f))"
    by (simp only: map_map comp_def)
  then show ?thesis
    by (simp add: createVoiceDeviceOptions_def Let_def device_option_of_def split_beta comp_def)
qed

lemma assignment_after_all_cleared: "clearAssignment (qa_id a) (Some a) = None"
  by (simp add: clearAssignment_def)

end
