(* ===== verification/LocalMedia.thy ===== *)
theory LocalMedia
  imports VoiceDevices JsNumber
begin

text \<open>
  The captures of a voice session, \<^verbatim>\<open>src/webrtc/hooks/useLocalMedia.ts\<close>: the cached microphone and
  screen streams, the camera attempts, the profiles of screen sharing and the input volume. Streams are
  numbered by the browser and a stream is live while one of its tracks is. Every \<^verbatim>\<open>await\<close> is a step of
  its own, so a capture may be answered after the session was cleaned up or another capture was begun.
\<close>

section \<open>Profiles of screen sharing\<close>

datatype share_quality = Auto | Presentation | VideoQuality | Gaming

record share_profile =
  sp_height :: nat
  sp_framerate :: nat
  sp_bitrate :: nat
  sp_detail :: bool

definition preset_profile :: "share_quality \<Rightarrow> share_profile" where
  "preset_profile q =
     (case q of
        Gaming \<Rightarrow> \<lparr>sp_height = 1080, sp_framerate = 60, sp_bitrate = 12000000, sp_detail = False\<rparr>
      | VideoQuality \<Rightarrow> \<lparr>sp_height = 1080, sp_framerate = 60, sp_bitrate = 8000000, sp_detail = False\<rparr>
      | _ \<Rightarrow> \<lparr>sp_height = 1080, sp_framerate = 30, sp_bitrate = 4000000, sp_detail = True\<rparr>)"

definition normalizeScreenShareQuality :: "string option \<Rightarrow> share_quality" where
  "normalizeScreenShareQuality v =
     (if v = Some ''presentation'' then Presentation
      else if v = Some ''video'' then VideoQuality
      else if v = Some ''gaming'' then Gaming else Auto)"

definition resolveScreenShareProfileForMode :: "share_quality \<Rightarrow> string option \<Rightarrow> share_profile" where
  "resolveScreenShareProfileForMode mode displaySurface =
     (if mode \<noteq> Auto then preset_profile mode
      else if displaySurface = Some ''monitor'' then preset_profile VideoQuality
      else if displaySurface = Some ''browser'' then preset_profile VideoQuality
      else preset_profile Presentation)"

text \<open>Width, height and frame rate; each is both the ideal and the maximum.\<close>

definition toScreenShareConstraintsForProfile :: "share_profile \<Rightarrow> nat \<times> nat \<times> nat" where
  "toScreenShareConstraintsForProfile p =
     (if sp_height p = 1080 then (1920, 1080, sp_framerate p) else (1280, 720, sp_framerate p))"

definition SCREEN_SHARE_QUALITY_KEY :: string where
  "SCREEN_SHARE_QUALITY_KEY = ''voxpery-settings-screen-share-quality''"

definition resolveQualityMode :: "string web_storage \<Rightarrow> share_quality \<times> string web_storage" where
  "resolveQualityMode st =
     (let raw = get_or_none SCREEN_SHARE_QUALITY_KEY st in
      if raw = Some ''manual'' then (Auto, try_set SCREEN_SHARE_QUALITY_KEY ''auto'' st)
      else (normalizeScreenShareQuality raw, st))"

definition getScreenShareConstraints :: "string web_storage \<Rightarrow> nat \<times> nat \<times> nat" where
  "getScreenShareConstraints st =
     (let mode = fst (resolveQualityMode st)
      in toScreenShareConstraintsForProfile
           (if mode = Auto then preset_profile VideoQuality else resolveScreenShareProfileForMode mode None))"

definition INPUT_VOL_KEY :: string where "INPUT_VOL_KEY = ''voxpery-settings-input-volume''"

text \<open>\<^verbatim>\<open>Number(null)\<close> is 0, and 0 and NaN are replaced by the default of 80.\<close>

definition getInputVolumeFactor :: "string web_storage \<Rightarrow> real" where
  "getInputVolumeFactor st =
     (let n = (case get_or_none INPUT_VOL_KEY st of None \<Rightarrow> Fin 0 | Some t \<Rightarrow> js_number t);
          v = (case n of Fin x \<Rightarrow> if x = 0 then 80 else min 100 (max 1 x)
               | NaN \<Rightarrow> 80 | PosInf \<Rightarrow> 100 | NegInf \<Rightarrow> 1)
      in v / 100)"

lemma input_volume_bounds: "1 / 100 \<le> getInputVolumeFactor st \<and> getInputVolumeFactor st \<le> 1"
  by (auto simp: getInputVolumeFactor_def Let_def min_def max_def split: option.split jsnum.split)

section \<open>Errors told to the user\<close>

definition microphone_error :: "string \<Rightarrow> string" where
  "microphone_error name =
     (if name = ''NotAllowedError'' then ''Microphone permission denied''
      else if name = ''NotFoundError'' then ''No microphone device detected''
      else if name = ''NotReadableError'' then ''Microphone is in use by another app''
      else ''Unable to access microphone'')"

definition camera_error :: "string \<Rightarrow> string \<Rightarrow> string" where
  "camera_error name message0 =
     (let message = js_lower message0 in
      if name = ''NotAllowedError'' \<or> name = ''SecurityError'' then ''Camera permission denied''
      else if name = ''NotFoundError'' \<or> name = ''DevicesNotFoundError'' then ''No camera device detected''
      else if name = ''NotReadableError'' \<or> includes_str ''in use'' message \<or> includes_str ''busy'' message
        then ''Camera is in use by another app''
      else if includes_str ''failed to allocate videosource'' message then ''Failed to allocate camera video source''
      else ''Unable to access camera'')"

section \<open>The camera\<close>

text \<open>
  The three attempts with ever looser constraints. An answer is an error (name and message) or a stream
  and whether it has a video track. The result comes with the streams that were stopped.
\<close>

fun camera_attempts ::
  "((string \<times> string) + (nat \<times> bool)) list \<Rightarrow> string \<times> string \<Rightarrow> (string + nat) \<times> nat list" where
  "camera_attempts [] lastErr = (Inl (camera_error (fst lastErr) (snd lastErr)), [])"
| "camera_attempts (Inr (s, hasVideo) # rest) lastErr =
     (if hasVideo then (Inr s, [])
      else let (r, stopped) = camera_attempts rest (''Error'', ''No camera video track available'') in (r, s # stopped))"
| "camera_attempts (Inl (name, message) # rest) lastErr =
     (if name = ''NotAllowedError'' \<or> name = ''SecurityError'' then (Inl (camera_error name message), [])
      else camera_attempts rest (name, message))"

definition getCameraStream :: "bool \<Rightarrow> (nat \<Rightarrow> (string \<times> string) + (nat \<times> bool)) \<Rightarrow> (string + nat) \<times> nat list" where
  "getCameraStream supported answer =
     (if \<not> supported then (Inl ''Camera access is not supported in this browser'', [])
      else camera_attempts (map answer [0..<3]) ([], []))"

section \<open>The microphone and the screen\<close>

record local_media =
  lm_mic :: "nat option"
  lm_mic_device :: string
  lm_generation :: nat
  lm_screen :: "nat option"
  lm_mic_live :: "nat list"
  lm_screen_live :: "nat list"
  lm_mic_pending :: "nat list"
  lm_screen_pending :: nat
  lm_fresh :: nat
  lm_returned :: "(string + nat) list"

text \<open>
  \<open>lm_mic_live\<close> and \<open>lm_screen_live\<close> are the streams with a live track; \<open>lm_mic_pending\<close> holds the
  generation each unanswered microphone request was begun with; \<open>lm_returned\<close> what the calls
  returned, an error or a stream, newest first.
\<close>

definition init_media :: local_media where
  "init_media = \<lparr>lm_mic = None, lm_mic_device = [], lm_generation = 0, lm_screen = None, lm_mic_live = [],
     lm_screen_live = [], lm_mic_pending = [], lm_screen_pending = 0, lm_fresh = 0, lm_returned = []\<rparr>"

definition stop_mic :: "nat option \<Rightarrow> local_media \<Rightarrow> local_media" where
  "stop_mic s m = (case s of None \<Rightarrow> m | Some i \<Rightarrow> m\<lparr>lm_mic_live := removeAll i (lm_mic_live m)\<rparr>)"

definition stop_screen :: "nat option \<Rightarrow> local_media \<Rightarrow> local_media" where
  "stop_screen s m = (case s of None \<Rightarrow> m | Some i \<Rightarrow> m\<lparr>lm_screen_live := removeAll i (lm_screen_live m)\<rparr>)"

definition return_value :: "string + nat \<Rightarrow> local_media \<Rightarrow> local_media" where
  "return_value r m = m\<lparr>lm_returned := r # lm_returned m\<rparr>"

definition cached_mic_usable :: "string \<Rightarrow> local_media \<Rightarrow> bool" where
  "cached_mic_usable preferredDeviceId m \<longleftrightarrow>
     (case lm_mic m of None \<Rightarrow> False
      | Some s \<Rightarrow> lm_mic_device m = preferredDeviceId \<and> s \<in> set (lm_mic_live m))"

definition getMicrophoneStream :: "bool \<Rightarrow> string \<Rightarrow> local_media \<Rightarrow> local_media" where
  "getMicrophoneStream forceRefresh preferredDeviceId m =
     (if \<not> forceRefresh \<and> cached_mic_usable preferredDeviceId m then return_value (Inr (the (lm_mic m))) m
      else let m1 = (stop_mic (lm_mic m) m)\<lparr>lm_mic := None\<rparr>; generation = lm_generation m1 + 1
           in m1\<lparr>lm_generation := generation, lm_mic_pending := lm_mic_pending m1 @ [generation]\<rparr>)"

text \<open>A microphone request of some generation is answered with a new live stream, or fails.\<close>

definition mic_captured :: "nat \<Rightarrow> string \<Rightarrow> local_media \<Rightarrow> local_media" where
  "mic_captured generation storedDeviceId m =
     (let s = lm_fresh m;
          m1 = m\<lparr>lm_fresh := s + 1, lm_mic_live := s # lm_mic_live m,
                 lm_mic_pending := remove1 generation (lm_mic_pending m)\<rparr>
      in if generation \<noteq> lm_generation m1
         then return_value (Inl ''Microphone request is no longer active'') (stop_mic (Some s) m1)
         else return_value (Inr s) (m1\<lparr>lm_mic := Some s, lm_mic_device := storedDeviceId\<rparr>))"

definition mic_failed :: "nat \<Rightarrow> string \<Rightarrow> string \<Rightarrow> local_media \<Rightarrow> local_media" where
  "mic_failed generation name message m =
     (let m1 = m\<lparr>lm_mic_pending := remove1 generation (lm_mic_pending m)\<rparr> in
      return_value (Inl (if generation \<noteq> lm_generation m1 then message else microphone_error name)) m1)"

definition getScreenStream :: "local_media \<Rightarrow> local_media" where
  "getScreenStream m =
     (case lm_screen m of
        Some s \<Rightarrow>
          if s \<in> set (lm_screen_live m) then return_value (Inr s) m
          else (stop_screen (Some s) m)\<lparr>lm_screen := None, lm_screen_pending := lm_screen_pending m + 1\<rparr>
      | None \<Rightarrow> m\<lparr>lm_screen_pending := lm_screen_pending m + 1\<rparr>)"

definition screen_captured :: "bool \<Rightarrow> local_media \<Rightarrow> local_media" where
  "screen_captured hasVideo m =
     (let s = lm_fresh m;
          m1 = m\<lparr>lm_fresh := s + 1, lm_screen_live := s # lm_screen_live m, lm_screen_pending := lm_screen_pending m - 1\<rparr>
      in if \<not> hasVideo then return_value (Inl ''No screen video track was captured'') (stop_screen (Some s) m1)
         else return_value (Inr s) (m1\<lparr>lm_screen := Some s\<rparr>))"

definition screen_failed :: "string \<Rightarrow> local_media \<Rightarrow> local_media" where
  "screen_failed message m = return_value (Inl message) (m\<lparr>lm_screen_pending := lm_screen_pending m - 1\<rparr>)"

definition cleanupLocalMedia :: "local_media \<Rightarrow> local_media" where
  "cleanupLocalMedia m =
     (let m1 = (stop_mic (lm_mic m) (m\<lparr>lm_generation := lm_generation m + 1\<rparr>))\<lparr>lm_mic := None, lm_mic_device := []\<rparr>
      in (stop_screen (lm_screen m1) m1)\<lparr>lm_screen := None\<rparr>)"

text \<open>
  The steps: the two getters and the cleanup, which the session calls, and what the browser does on its
  own: answering a request, or ending a stream (a device is unplugged, sharing is stopped).
\<close>

inductive browser_step :: "local_media \<Rightarrow> local_media \<Rightarrow> bool" where
  captured: "g \<in> set (lm_mic_pending m) \<Longrightarrow> browser_step m (mic_captured g d m)"
| failed: "g \<in> set (lm_mic_pending m) \<Longrightarrow> browser_step m (mic_failed g n msg m)"
| mic_ended: "browser_step m (stop_mic (Some s) m)"
| shared: "0 < lm_screen_pending m \<Longrightarrow> browser_step m (screen_captured v m)"
| not_shared: "0 < lm_screen_pending m \<Longrightarrow> browser_step m (screen_failed msg m)"
| screen_ended: "browser_step m (stop_screen (Some s) m)"

inductive media_step :: "local_media \<Rightarrow> local_media \<Rightarrow> bool" where
  get_mic: "media_step m (getMicrophoneStream f d m)"
| get_screen: "media_step m (getScreenStream m)"
| cleanup: "media_step m (cleanupLocalMedia m)"
| browser: "browser_step m m' \<Longrightarrow> media_step m m'"

inductive_cases browser_stepE: "browser_step m m'"
inductive_cases media_stepE: "media_step m m'"

section \<open>No microphone is left open\<close>

text \<open>
  Every live microphone is the cached one. For the induction: pending generations are not newer than
  the current one and do not repeat, and while the current one is pending nothing is cached.
\<close>

definition media_inv :: "local_media \<Rightarrow> bool" where
  "media_inv m \<longleftrightarrow>
     set (lm_mic_live m) \<subseteq> set_option (lm_mic m)
     \<and> (\<forall>g \<in> set (lm_mic_pending m). g \<le> lm_generation m)
     \<and> distinct (lm_mic_pending m)
     \<and> (lm_generation m \<in> set (lm_mic_pending m) \<longrightarrow> lm_mic m = None)"

text \<open>The part of the state the invariant is about.\<close>

definition mic_part :: "local_media \<Rightarrow> nat option \<times> nat list \<times> nat list \<times> nat" where
  "mic_part m = (lm_mic m, lm_mic_live m, lm_mic_pending m, lm_generation m)"

lemma media_inv_part: "mic_part m = mic_part m' \<Longrightarrow> media_inv m \<Longrightarrow> media_inv m'"
  by (simp add: media_inv_def mic_part_def)

lemma media_simps [simp]:
  "lm_mic_live (return_value r m) = lm_mic_live m" "lm_mic (return_value r m) = lm_mic m"
  "lm_mic_pending (return_value r m) = lm_mic_pending m" "lm_generation (return_value r m) = lm_generation m"
  "lm_mic_live (stop_mic s m) = (case s of None \<Rightarrow> lm_mic_live m | Some i \<Rightarrow> removeAll i (lm_mic_live m))"
  "lm_mic (stop_mic s m) = lm_mic m" "lm_mic_pending (stop_mic s m) = lm_mic_pending m"
  "lm_generation (stop_mic s m) = lm_generation m" "lm_screen (stop_mic s m) = lm_screen m"
  "lm_mic_live (stop_screen s m) = lm_mic_live m" "lm_mic (stop_screen s m) = lm_mic m"
  "lm_mic_pending (stop_screen s m) = lm_mic_pending m" "lm_generation (stop_screen s m) = lm_generation m"
  by (simp_all add: return_value_def stop_mic_def stop_screen_def split: option.split)

lemma screen_keeps_mic:
  "mic_part (getScreenStream m) = mic_part m" "mic_part (screen_captured v m) = mic_part m"
  "mic_part (screen_failed msg m) = mic_part m" "mic_part (stop_screen s m) = mic_part m"
  by (simp_all add: mic_part_def getScreenStream_def screen_captured_def screen_failed_def Let_def split: option.split)

lemma init_inv: "media_inv init_media"
  by (simp add: media_inv_def init_media_def)

lemma removed_live: "set (lm_mic_live m) \<subseteq> set_option (lm_mic m) \<Longrightarrow> lm_mic_live (stop_mic (lm_mic m) m) = []"
  by (cases "lm_mic m") (auto simp: filter_empty_conv removeAll_filter_not_eq)

lemma get_inv: "media_inv m \<Longrightarrow> media_inv (getMicrophoneStream f d m)"
  using removed_live[of m] by (auto simp: media_inv_def getMicrophoneStream_def Let_def)

lemma captured_inv:
  assumes "media_inv m" "g \<in> set (lm_mic_pending m)"
  shows "media_inv (mic_captured g d m)"
proof (cases "g = lm_generation m")
  case True
  with assms have none: "lm_mic m = None" by (simp add: media_inv_def)
  then have "lm_mic_live m = []" using assms(1) by (simp add: media_inv_def)
  with assms True none show ?thesis by (auto simp: media_inv_def mic_captured_def Let_def)
next
  case False
  with assms show ?thesis by (auto simp: media_inv_def mic_captured_def Let_def)
qed

lemma failed_inv: "media_inv m \<Longrightarrow> media_inv (mic_failed g n msg m)"
  by (auto simp: media_inv_def mic_failed_def Let_def)

lemma ended_inv: "media_inv m \<Longrightarrow> media_inv (stop_mic (Some s) m)"
  by (auto simp: media_inv_def)

lemma cleanup_mic_part:
  "mic_part (cleanupLocalMedia m) =
     (None, lm_mic_live (stop_mic (lm_mic m) m), lm_mic_pending m, Suc (lm_generation m))"
  by (cases "lm_mic m") (simp_all add: mic_part_def cleanupLocalMedia_def Let_def stop_mic_def)

lemma cleanup_inv: "media_inv m \<Longrightarrow> media_inv (cleanupLocalMedia m)"
  using cleanup_mic_part[of m] removed_live[of m] by (auto simp: media_inv_def mic_part_def)

lemma browser_step_inv: "browser_step m m' \<Longrightarrow> media_inv m \<Longrightarrow> media_inv m'"
  by (erule browser_stepE)
    (auto intro: captured_inv failed_inv ended_inv media_inv_part[OF screen_keeps_mic(2)[symmetric]]
      media_inv_part[OF screen_keeps_mic(3)[symmetric]] media_inv_part[OF screen_keeps_mic(4)[symmetric]])

lemma media_step_inv: "media_step m m' \<Longrightarrow> media_inv m \<Longrightarrow> media_inv m'"
  by (erule media_stepE)
    (auto intro: get_inv cleanup_inv browser_step_inv media_inv_part[OF screen_keeps_mic(1)[symmetric]])

lemma reachable_media_inv: "media_step\<^sup>*\<^sup>* init_media m \<Longrightarrow> media_inv m"
  by (induction rule: rtranclp_induct) (auto intro: init_inv media_step_inv)

text \<open>After a cleanup every late answer is stopped at once.\<close>

definition mic_released :: "local_media \<Rightarrow> bool" where
  "mic_released m \<longleftrightarrow>
     lm_mic_live m = [] \<and> lm_mic m = None \<and> (\<forall>g \<in> set (lm_mic_pending m). g < lm_generation m)"

lemma released_part: "mic_part m = mic_part m' \<Longrightarrow> mic_released m \<Longrightarrow> mic_released m'"
  by (simp add: mic_released_def mic_part_def)

lemma cleanup_releases: "media_inv m \<Longrightarrow> mic_released (cleanupLocalMedia m)"
  using cleanup_mic_part[of m] removed_live[of m] by (auto simp: media_inv_def mic_part_def mic_released_def)

lemma late_mic_released:
  assumes "mic_released m"
  shows "g \<in> set (lm_mic_pending m) \<Longrightarrow> mic_released (mic_captured g d m)"
    "mic_released (mic_failed g n msg m)" "mic_released (stop_mic (Some s) m)"
  using assms set_remove1_subset[of g "lm_mic_pending m"]
  by (auto simp: mic_released_def mic_captured_def mic_failed_def Let_def)

lemma browser_step_released: "browser_step m m' \<Longrightarrow> mic_released m \<Longrightarrow> mic_released m'"
  by (erule browser_stepE)
    (auto intro: late_mic_released released_part[OF screen_keeps_mic(2)[symmetric]]
      released_part[OF screen_keeps_mic(3)[symmetric]] released_part[OF screen_keeps_mic(4)[symmetric]])

lemma browser_steps_released: "browser_step\<^sup>*\<^sup>* m m' \<Longrightarrow> mic_released m \<Longrightarrow> mic_released m'"
  by (induction rule: rtranclp_induct) (auto intro: browser_step_released)

text \<open>
  The screen has no generation: a capture the user grants after the cleanup is kept and stays live, and
  stopping it is left to the caller.
\<close>

lemma late_screen_stays:
  "lm_screen_live (screen_captured True (cleanupLocalMedia (getScreenStream init_media))) = [0]"
  by (simp add: screen_captured_def cleanupLocalMedia_def getScreenStream_def init_media_def stop_mic_def stop_screen_def
      return_value_def)

section \<open>The camera\<close>

lemma camera_denied_stops:
  "camera_attempts (Inl (''NotAllowedError'', msg) # rest) e = (Inl ''Camera permission denied'', [])"
  by (simp add: camera_error_def)

text \<open>A stream without video is stopped, the one returned is not.\<close>

lemma camera_streams:
  "camera_attempts answers e = (r, stopped) \<Longrightarrow>
     (\<forall>s \<in> set stopped. Inr (s, False) \<in> set answers) \<and> (\<forall>s. r = Inr s \<longrightarrow> Inr (s, True) \<in> set answers)"
  by (induction answers e arbitrary: r stopped rule: camera_attempts.induct) (auto split: if_splits prod.splits)

end
