(* ===== verification/Shortcuts.thy ===== *)
theory Shortcuts
  imports WebStorage
begin

text \<open>
  The shortcuts of \<^verbatim>\<open>src/globalPushToTalk.ts\<close> and \<^verbatim>\<open>src/globalMuteShortcut.ts\<close>: their names, and their
  registration with the desktop's plugin. The plugin's state and its three calls, each of which may
  throw, are parameters; \<open>plugin_ok\<close> states what its documentation promises.
\<close>

section \<open>Names of keys\<close>

text \<open>The entries of \<^verbatim>\<open>KEY_ALIASES\<close>; a name a JavaScript object inherits is not the name of a key.\<close>

definition PTT_KEY_ALIASES :: "string obj" where
  "PTT_KEY_ALIASES =
     [('' '', ''Space''), (''Space'', ''Space''), (''Spacebar'', ''Space''),
      (''ArrowDown'', ''ArrowDown''), (''ArrowLeft'', ''ArrowLeft''), (''ArrowRight'', ''ArrowRight''),
      (''ArrowUp'', ''ArrowUp''), (''Backspace'', ''Backspace''), (''Delete'', ''Delete''), (''End'', ''End''),
      (''Enter'', ''Enter''), (''Home'', ''Home''), (''Insert'', ''Insert''), (''PageDown'', ''PageDown''),
      (''PageUp'', ''PageUp''), (''Tab'', ''Tab''), ([CHR 0x60], ''Backquote''), ([CHR 0x5C], ''Backslash''),
      (''['', ''BracketLeft''), ('']'', ''BracketRight''), ('','', ''Comma''), (''='', ''Equal''), (''-'', ''Minus''),
      (''.'', ''Period''), ([CHR 0x27], ''Quote''), ('';'', ''Semicolon''), (''/'', ''Slash'')]"

definition is_alnum :: "char \<Rightarrow> bool" where
  "is_alnum c \<longleftrightarrow> is_digit c \<or> is_ascii_letter c"

text \<open>\<^verbatim>\<open>/^F([1-9]|1[0-9]|2[0-4])$/\<close>.\<close>

definition is_function_key :: "string \<Rightarrow> bool" where
  "is_function_key s \<longleftrightarrow> s \<in> (\<lambda>n. CHR ''F'' # nat_str n) ` set [1..<25]"

definition js_upper :: "string \<Rightarrow> string" where
  "js_upper s = map upper_char s"

definition pushToTalkShortcutFromKey :: "string option \<Rightarrow> string option" where
  "pushToTalkShortcutFromKey key =
     (case key of
        None \<Rightarrow> None
      | Some k \<Rightarrow>
          if k = [] then None
          else let trimmed = js_trim k in
            if trimmed = [] \<and> k \<noteq> '' '' then None
            else if length trimmed = 1 \<and> is_alnum (hd trimmed) then Some (js_upper trimmed)
            else if is_function_key (js_upper trimmed) then Some (js_upper trimmed)
            else if trimmed \<in> {''Alt'', ''Control'', ''Meta'', ''Shift'', ''Escape''} then None
            else (case obj_get PTT_KEY_ALIASES k of
                    Some a \<Rightarrow> Some a
                  | None \<Rightarrow> obj_get PTT_KEY_ALIASES trimmed))"

record key_event =
  ke_code :: string
  ke_ctrl :: bool
  ke_meta :: bool
  ke_alt :: bool
  ke_shift :: bool
  ke_repeat :: bool

definition CODE_ALIASES :: "string list" where
  "CODE_ALIASES = [''ArrowDown'', ''ArrowLeft'', ''ArrowRight'', ''ArrowUp'', ''Backquote'', ''Backslash'',
     ''BracketLeft'', ''BracketRight'', ''Comma'', ''Equal'', ''Minus'', ''Period'', ''Quote'', ''Semicolon'',
     ''Slash'', ''Space'']"

definition is_upper_letter :: "char \<Rightarrow> bool" where
  "is_upper_letter c \<longleftrightarrow> 65 \<le> char_code c \<and> char_code c \<le> 90"

definition shortcutKeyFromEvent :: "key_event \<Rightarrow> string option" where
  "shortcutKeyFromEvent e =
     (let code = ke_code e in
      if starts_with ''Key'' code \<and> length code = 4 \<and> is_upper_letter (code ! 3) then Some (drop 3 code)
      else if starts_with ''Digit'' code \<and> length code = 6 \<and> is_digit (code ! 5) then Some (drop 5 code)
      else if is_function_key code then Some code
      else if code \<in> set CODE_ALIASES then Some code else None)"

text \<open>A key that may be a shortcut without a modifier.\<close>

definition plain_key :: "string \<Rightarrow> bool" where
  "plain_key key \<longleftrightarrow> (length key = 1 \<and> (is_upper_letter (hd key) \<or> is_digit (hd key))) \<or> is_function_key key"

definition shortcut_modifiers :: "key_event \<Rightarrow> string list" where
  "shortcut_modifiers e =
     (if ke_ctrl e \<or> ke_meta e then [''CommandOrControl''] else [])
     @ (if ke_alt e then [''Alt''] else []) @ (if ke_shift e then [''Shift''] else [])"

definition shortcutFromKeyboardEvent :: "key_event \<Rightarrow> string option" where
  "shortcutFromKeyboardEvent e =
     (case shortcutKeyFromEvent e of
        None \<Rightarrow> None
      | Some key \<Rightarrow>
          if shortcut_modifiers e = [] \<and> \<not> plain_key key then None
          else Some (join_with ''+'' (shortcut_modifiers e @ [key])))"

definition keyboardEventMatchesShortcut :: "key_event \<Rightarrow> string option \<Rightarrow> bool" where
  "keyboardEventMatchesShortcut e shortcut \<longleftrightarrow>
     truthy_str shortcut \<and> \<not> ke_repeat e \<and> shortcutFromKeyboardEvent e = shortcut"

definition PTT_KEY_KEY :: string where "PTT_KEY_KEY = ''voxpery-settings-ptt-key''"

definition GLOBAL_MUTE_SHORTCUT_STORAGE_KEY :: string where
  "GLOBAL_MUTE_SHORTCUT_STORAGE_KEY = ''voxpery-settings-global-mute-shortcut''"

text \<open>Push to talk on, and the same key. A storage that throws gives no conflict.\<close>

definition muteShortcutConflictsWithPushToTalk :: "bool \<Rightarrow> string option \<Rightarrow> string web_storage \<Rightarrow> bool" where
  "muteShortcutConflictsWithPushToTalk pushToTalk shortcut st =
     (if \<not> truthy_str shortcut \<or> CHR ''+'' \<in> set (the shortcut) then False
      else pushToTalk \<and>
        (case get_item PTT_KEY_KEY st of
           Inl _ \<Rightarrow> False
         | Inr k \<Rightarrow> shortcut = pushToTalkShortcutFromKey (Some (nullish k ''V''))))"

definition getStoredGlobalMuteShortcut :: "string web_storage \<Rightarrow> string option" where
  "getStoredGlobalMuteShortcut st = get_or_none GLOBAL_MUTE_SHORTCUT_STORAGE_KEY st"

definition storeGlobalMuteShortcut :: "string option \<Rightarrow> string web_storage \<Rightarrow> string web_storage" where
  "storeGlobalMuteShortcut shortcut st =
     (if truthy_str shortcut then try_set GLOBAL_MUTE_SHORTCUT_STORAGE_KEY (the shortcut) st
      else try_remove GLOBAL_MUTE_SHORTCUT_STORAGE_KEY st)"

section \<open>The plugin\<close>

record 'p plugin_calls =
  pl_is_registered :: "string \<Rightarrow> 'p \<Rightarrow> 'p \<times> (string + bool)"
  pl_register :: "string \<Rightarrow> 'p \<Rightarrow> 'p \<times> (string + unit)"
  pl_unregister :: "string \<Rightarrow> 'p \<Rightarrow> 'p \<times> (string + unit)"

text \<open>
  The module's state is the shortcut it believes is registered, next to the plugin's. A run ends
  normally or with what was thrown.
\<close>

record 'p shortcut_state =
  ss_registered :: "string option"
  ss_plugin :: 'p

text \<open>\<^verbatim>\<open>if (await isRegistered(shortcut)) await unregister(shortcut); await register(shortcut, handler)\<close>.\<close>

definition replace_registration :: "'p plugin_calls \<Rightarrow> string \<Rightarrow> 'p \<Rightarrow> 'p \<times> (string + unit)" where
  "replace_registration pl shortcut p =
     (case pl_is_registered pl shortcut p of
        (p1, Inl e) \<Rightarrow> (p1, Inl e)
      | (p1, Inr False) \<Rightarrow> pl_register pl shortcut p1
      | (p1, Inr True) \<Rightarrow>
          (case pl_unregister pl shortcut p1 of
             (p2, Inl e) \<Rightarrow> (p2, Inl e)
           | (p2, Inr _) \<Rightarrow> pl_register pl shortcut p2))"

text \<open>The \<^verbatim>\<open>catch\<close>: the previous shortcut is put back if it can be.\<close>

definition restore_registration :: "'p plugin_calls \<Rightarrow> string option \<Rightarrow> 'p shortcut_state \<Rightarrow> 'p shortcut_state" where
  "restore_registration pl previous s =
     (case previous of
        None \<Rightarrow> s
      | Some q \<Rightarrow>
          (case pl_register pl q (ss_plugin s) of
             (p, Inr _) \<Rightarrow> s\<lparr>ss_plugin := p, ss_registered := Some q\<rparr>
           | (p, Inl _) \<Rightarrow> s\<lparr>ss_plugin := p, ss_registered := None\<rparr>))"

text \<open>After the first checks: the previous shortcut is given up, then the new one taken.\<close>

definition switch_shortcut ::
  "'p plugin_calls \<Rightarrow> string option \<Rightarrow> 'p shortcut_state \<Rightarrow> 'p shortcut_state \<times> (string + unit)" where
  "switch_shortcut pl shortcut s =
     (let previous = ss_registered s;
          given_up = (case previous of
              None \<Rightarrow> (s, Inr ())
            | Some q \<Rightarrow>
                (case pl_unregister pl q (ss_plugin s) of
                   (p, Inl e) \<Rightarrow> (s\<lparr>ss_plugin := p\<rparr>, Inl e)
                 | (p, Inr _) \<Rightarrow> (s\<lparr>ss_plugin := p, ss_registered := None\<rparr>, Inr ())))
      in case given_up of
           (s1, Inl e) \<Rightarrow> (s1, Inl e)
         | (s1, Inr _) \<Rightarrow>
             (case shortcut of
                None \<Rightarrow> (s1, Inr ())
              | Some k \<Rightarrow>
                  (case replace_registration pl k (ss_plugin s1) of
                     (p, Inr _) \<Rightarrow> (s1\<lparr>ss_plugin := p, ss_registered := Some k\<rparr>, Inr ())
                   | (p, Inl e) \<Rightarrow> (restore_registration pl previous (s1\<lparr>ss_plugin := p\<rparr>), Inl e))))"

definition register_shortcut ::
  "'p plugin_calls \<Rightarrow> string option \<Rightarrow> 'p shortcut_state \<Rightarrow> 'p shortcut_state \<times> (string + unit)" where
  "register_shortcut pl shortcut0 s =
     (let shortcut = (if truthy_str shortcut0 then shortcut0 else None) in
      if ss_registered s = shortcut0 then
        (case shortcut of
           Some k \<Rightarrow>
             (case pl_is_registered pl k (ss_plugin s) of
                (p, Inl e) \<Rightarrow> (s\<lparr>ss_plugin := p\<rparr>, Inl e)
              | (p, Inr True) \<Rightarrow> (s\<lparr>ss_plugin := p\<rparr>, Inr ())
              | (p, Inr False) \<Rightarrow> switch_shortcut pl shortcut (s\<lparr>ss_plugin := p, ss_registered := None\<rparr>))
         | None \<Rightarrow> switch_shortcut pl shortcut (s\<lparr>ss_registered := None\<rparr>))
      else switch_shortcut pl shortcut s)"

definition registerDesktopGlobalPushToTalk ::
  "'p plugin_calls \<Rightarrow> bool \<Rightarrow> string option \<Rightarrow> 'p shortcut_state \<Rightarrow> 'p shortcut_state \<times> (string + unit)" where
  "registerDesktopGlobalPushToTalk pl isTauri key s =
     (if \<not> isTauri then (s, Inr ()) else register_shortcut pl (pushToTalkShortcutFromKey key) s)"

definition registerDesktopGlobalMuteShortcut ::
  "'p plugin_calls \<Rightarrow> bool \<Rightarrow> string option \<Rightarrow> 'p shortcut_state \<Rightarrow> 'p shortcut_state \<times> (string + unit)" where
  "registerDesktopGlobalMuteShortcut pl isTauri shortcut s =
     (if \<not> isTauri then (s, Inr ()) else register_shortcut pl shortcut s)"

text \<open>The shortcut is stored only once it is registered.\<close>

definition applyGlobalMuteShortcut ::
  "'p plugin_calls \<Rightarrow> bool \<Rightarrow> string option \<Rightarrow> 'p shortcut_state \<times> string web_storage
     \<Rightarrow> ('p shortcut_state \<times> string web_storage) \<times> (string + unit)" where
  "applyGlobalMuteShortcut pl isTauri shortcut = (\<lambda>(s, st).
     case registerDesktopGlobalMuteShortcut pl isTauri shortcut s of
       (s', Inl e) \<Rightarrow> ((s', st), Inl e)
     | (s', Inr _) \<Rightarrow> ((s', storeGlobalMuteShortcut shortcut st), Inr ()))"

text \<open>While the settings page records a shortcut, events are held back.\<close>

definition dispatch_shortcut :: "bool \<Rightarrow> 'e \<Rightarrow> 'e list" where
  "dispatch_shortcut captureActive e = (if captureActive then [] else [e])"

section \<open>What is registered\<close>

text \<open>The plugin's documented behaviour; \<open>held\<close> is the set of shortcuts it has registered.\<close>

definition plugin_ok :: "'p plugin_calls \<Rightarrow> ('p \<Rightarrow> string set) \<Rightarrow> bool" where
  "plugin_ok pl held \<longleftrightarrow>
     (\<forall>k p p' r. pl_is_registered pl k p = (p', r) \<longrightarrow> held p' = held p \<and> (\<forall>b. r = Inr b \<longrightarrow> b = (k \<in> held p)))
     \<and> (\<forall>k p p' r. pl_register pl k p = (p', r) \<longrightarrow> held p' = (if isl r then held p else insert k (held p)))
     \<and> (\<forall>k p p' r. pl_unregister pl k p = (p', r) \<longrightarrow> held p' = (if isl r then held p else held p - {k}))"

text \<open>The plugin holds the module's shortcut and, beside it, exactly those of others.\<close>

definition owns_exactly :: "('p \<Rightarrow> string set) \<Rightarrow> string set \<Rightarrow> 'p shortcut_state \<Rightarrow> bool" where
  "owns_exactly held others s \<longleftrightarrow>
     held (ss_plugin s) = others \<union> set_option (ss_registered s) \<and> set_option (ss_registered s) \<inter> others = {}
     \<and> ss_registered s \<noteq> Some []"

lemma plugin_okD:
  assumes "plugin_ok pl held"
  shows "pl_is_registered pl k p = (p', r) \<Longrightarrow> held p' = held p"
    "pl_is_registered pl k p = (p', Inr b) \<Longrightarrow> b = (k \<in> held p)"
    "pl_register pl k p = (p', Inr u) \<Longrightarrow> held p' = insert k (held p)"
    "pl_register pl k p = (p', Inl e) \<Longrightarrow> held p' = held p"
    "pl_unregister pl k p = (p', Inr u) \<Longrightarrow> held p' = held p - {k}"
    "pl_unregister pl k p = (p', Inl e) \<Longrightarrow> held p' = held p"
  using assms unfolding plugin_ok_def by (blast | force)+

lemma replace_held:
  assumes "plugin_ok pl held" "replace_registration pl k p = (p', r)" "held p = others" "k \<notin> others"
  shows "held p' = (if isl r then others else insert k others)"
proof (cases "pl_is_registered pl k p")
  case (Pair p1 r1)
  note d = plugin_okD[OF assms(1)]
  have h1: "held p1 = others" using d(1) Pair assms(3) by simp
  show ?thesis
  proof (cases r1)
    case (Inl e)
    with assms(2) Pair h1 show ?thesis by (auto simp: replace_registration_def)
  next
    case (Inr b)
    then have "b = (k \<in> held p)" using d(2) Pair by blast
    then have "b = False" using assms(3,4) by simp
    with assms(2) Pair Inr have "pl_register pl k p1 = (p', r)" by (simp add: replace_registration_def)
    with h1 d(3,4) show ?thesis by (cases r) auto
  qed
qed

lemma restore_owns:
  assumes "plugin_ok pl held" "held (ss_plugin s) = others" "ss_registered s = None" "set_option previous \<inter> others = {}" "previous \<noteq> Some []"
  shows "owns_exactly held others (restore_registration pl previous s)"
proof (cases previous)
  case None
  with assms show ?thesis by (simp add: restore_registration_def owns_exactly_def)
next
  case (Some q)
  obtain p r where "pl_register pl q (ss_plugin s) = (p, r)" by (cases "pl_register pl q (ss_plugin s)")
  with Some assms plugin_okD(3,4)[OF assms(1)] show ?thesis
    by (cases r) (auto simp: restore_registration_def owns_exactly_def)
qed

lemma switch_owns:
  assumes ok: "plugin_ok pl held" and own: "owns_exactly held others s" and new: "set_option shortcut \<inter> others = {}" "shortcut \<noteq> Some []"
    and run: "switch_shortcut pl shortcut s = (s', r)"
  shows "owns_exactly held others s' \<and> (\<not> isl r \<longrightarrow> ss_registered s' = shortcut)"
proof -
  define s1r where "s1r = (case ss_registered s of
              None \<Rightarrow> (s, Inr ())
            | Some q \<Rightarrow>
                (case pl_unregister pl q (ss_plugin s) of
                   (p, Inl e) \<Rightarrow> (s\<lparr>ss_plugin := p\<rparr>, Inl e)
                 | (p, Inr _) \<Rightarrow> (s\<lparr>ss_plugin := p, ss_registered := None\<rparr>, Inr ())))"
  obtain s1 r1 where s1: "s1r = (s1, r1)" by (cases s1r)
  have given: "owns_exactly held others s1 \<and> (\<not> isl r1 \<longrightarrow> ss_registered s1 = None)"
  proof (cases "ss_registered s")
    case None
    with own s1 show ?thesis by (auto simp: s1r_def)
  next
    case (Some q)
    obtain p u where u: "pl_unregister pl q (ss_plugin s) = (p, u)" by (cases "pl_unregister pl q (ss_plugin s)")
    show ?thesis
      using s1 Some u own plugin_okD(5,6)[OF ok, of q "ss_plugin s"]
      by (cases u) (auto simp: s1r_def owns_exactly_def)
  qed
  show ?thesis
  proof (cases r1)
    case (Inl e)
    with run s1 given show ?thesis by (auto simp: switch_shortcut_def s1r_def Let_def)
  next
    case (Inr u)
    with given have none: "ss_registered s1 = None" and h: "held (ss_plugin s1) = others"
      by (auto simp: owns_exactly_def)
    show ?thesis
    proof (cases shortcut)
      case None
      with run s1 Inr given none show ?thesis by (auto simp: switch_shortcut_def s1r_def Let_def)
    next
      case (Some k)
      obtain p t where t: "replace_registration pl k (ss_plugin s1) = (p, t)"
        by (cases "replace_registration pl k (ss_plugin s1)")
      have hp: "held p = (if isl t then others else insert k others)"
        using replace_held[OF ok t h] new Some by simp
      have prev: "set_option (ss_registered s) \<inter> others = {}" "ss_registered s \<noteq> Some []" using own by (simp_all add: owns_exactly_def)
      show ?thesis
      proof (cases t)
        case (Inl e)
        with run s1 Inr Some t have "s' = restore_registration pl (ss_registered s) (s1\<lparr>ss_plugin := p\<rparr>)" "r = Inl e"
          by (auto simp: switch_shortcut_def s1r_def Let_def)
        with restore_owns[OF ok _ _ prev] hp Inl none show ?thesis by auto
      next
        case (Inr u')
        with run s1 \<open>r1 = Inr u\<close> Some t hp new show ?thesis
          by (auto simp: switch_shortcut_def s1r_def Let_def owns_exactly_def)
      qed
    qed
  qed
qed

lemma register_owns:
  assumes ok: "plugin_ok pl held" and own: "owns_exactly held others s" and new: "set_option shortcut \<inter> others = {}"
    and run: "register_shortcut pl shortcut s = (s', r)"
  shows "owns_exactly held others s'
    \<and> (\<not> isl r \<longrightarrow> ss_registered s' = (if truthy_str shortcut then shortcut else None))"
proof -
  define k0 where "k0 = (if truthy_str shortcut then shortcut else None)"
  have new0: "set_option k0 \<inter> others = {}" "k0 \<noteq> Some []" using new by (simp_all add: k0_def truthy_str_def split: option.split)
  note switch = switch_owns[OF ok _ new0]
  show ?thesis
  proof (cases "ss_registered s = shortcut")
    case False
    with run switch[OF own] show ?thesis by (simp add: register_shortcut_def k0_def Let_def)
  next
    case True
    show ?thesis
    proof (cases k0)
      case None
      with True own have reg: "ss_registered s = None" by (auto simp: k0_def owns_exactly_def split: if_splits)
      then have same: "s\<lparr>ss_registered := None\<rparr> = s" by (cases s) simp
      have "switch_shortcut pl k0 (s\<lparr>ss_registered := None\<rparr>) = (s', r)"
        using True None run by (simp add: register_shortcut_def k0_def Let_def)
      then have "switch_shortcut pl k0 s = (s', r)" unfolding same .
      with switch[OF own] show ?thesis by (simp add: k0_def)
    next
      case (Some k)
      then have k: "shortcut = Some k" "ss_registered s = Some k" using True by (auto simp: k0_def split: if_splits)
      obtain p t where t: "pl_is_registered pl k (ss_plugin s) = (p, t)" by (cases "pl_is_registered pl k (ss_plugin s)")
      have held: "held p = held (ss_plugin s)" using plugin_okD(1)[OF ok t] .
      have "t \<noteq> Inr False"
        using plugin_okD(2)[OF ok, of k "ss_plugin s" p False] t own k by (auto simp: owns_exactly_def)
      with run True k t Some have "s' = s\<lparr>ss_plugin := p\<rparr>"
        by (auto simp: register_shortcut_def k0_def Let_def split: sum.splits bool.splits)
      with held own k Some show ?thesis by (simp add: owns_exactly_def k0_def)
    qed
  qed
qed

text \<open>A setting that cannot be registered is not stored.\<close>

lemma mute_shortcut_stored_if_registered:
  "applyGlobalMuteShortcut pl isTauri shortcut (s, st) = ((s', st'), Inl e) \<Longrightarrow> st' = st"
  by (auto simp: applyGlobalMuteShortcut_def split: prod.splits sum.splits)

end
