(* ===== verification/VoiceActivity.thy ===== *)
theory VoiceActivity
  imports VoiceGate VoiceProfile Shortcuts VoiceDevices
begin

text \<open>
  \<^verbatim>\<open>src/webrtc/hooks/useVoiceActivity.ts\<close>, the push-to-talk key and the monitor of the own voice, and
  \<^verbatim>\<open>src/webrtc/audioLevelMonitor.ts\<close>, the monitor of other streams. The microphone is what
  \<^verbatim>\<open>setLocalMicMuted\<close> was last told.
\<close>

section \<open>Push to talk\<close>

text \<open>What a handler finds: the stored settings, which may throw, and the user's voice control.\<close>

record voice_context =
  vc_user :: "string option"
  vc_settings :: "unit + (voice_mode \<times> string)"
  vc_muted :: bool
  vc_deafened :: bool

record voice_activity =
  va_pressed :: bool
  va_speaking :: bool
  va_gate_open :: bool
  va_voice_mode :: voice_mode
  va_mic_muted :: "bool option"

definition getVoiceModeSettings :: "string web_storage \<Rightarrow> unit + (voice_mode \<times> string)" where
  "getVoiceModeSettings st =
     (case getStoredVoiceMode st of
        Inl e \<Rightarrow> Inl e
      | Inr mode \<Rightarrow>
          (case get_item PTT_KEY_KEY st of
             Inl e \<Rightarrow> Inl e
           | Inr keyRaw \<Rightarrow> Inr (mode, nullish (pushToTalkShortcutFromKey keyRaw) ''V'')))"

definition should_enable :: "voice_mode \<Rightarrow> voice_context \<Rightarrow> bool \<Rightarrow> bool" where
  "should_enable mode c pressed =
     (if mode = PushToTalk then pressed \<and> \<not> vc_muted c \<and> \<not> vc_deafened c
      else \<not> vc_muted c \<and> \<not> vc_deafened c)"

definition applyPushToTalkGate :: "voice_context \<Rightarrow> voice_activity \<Rightarrow> voice_activity" where
  "applyPushToTalkGate c s =
     (if \<not> truthy_str (vc_user c) then s
      else case vc_settings c of
        Inl _ \<Rightarrow> s
      | Inr (mode, _) \<Rightarrow> s\<lparr>va_mic_muted := Some (\<not> should_enable mode c (va_pressed s))\<rparr>)"

definition resetVoiceActivityGate :: "voice_activity \<Rightarrow> voice_activity" where
  "resetVoiceActivityGate s = s\<lparr>va_gate_open := True, va_speaking := False\<rparr>"

definition applyVoiceActivityGate :: "bool \<Rightarrow> bool \<Rightarrow> voice_activity \<Rightarrow> voice_activity" where
  "applyVoiceActivityGate updateSpeakingRef speaking s =
     (if updateSpeakingRef then s\<lparr>va_speaking := speaking, va_gate_open := True\<rparr> else s\<lparr>va_gate_open := True\<rparr>)"

datatype key_state = Pressed | Released | OtherState

datatype voice_event =
  KeyDown string
| KeyUp string
| GlobalKey key_state
| Blur
| SettingsChanged
| Visibility bool
| Unmounted

definition ptt_mode :: "voice_context \<Rightarrow> bool" where
  "ptt_mode c \<longleftrightarrow> (case vc_settings c of Inl _ \<Rightarrow> False | Inr (mode, _) \<Rightarrow> mode = PushToTalk)"

definition ptt_key_matches :: "voice_context \<Rightarrow> string \<Rightarrow> bool" where
  "ptt_key_matches c key \<longleftrightarrow>
     (case vc_settings c of Inl _ \<Rightarrow> False
      | Inr (_, target) \<Rightarrow> pushToTalkShortcutFromKey (Some key) = pushToTalkShortcutFromKey (Some target))"

definition set_pressed :: "bool \<Rightarrow> voice_context \<Rightarrow> voice_activity \<Rightarrow> voice_activity" where
  "set_pressed b c s = applyPushToTalkGate c (s\<lparr>va_pressed := b\<rparr>)"

text \<open>The handlers. A settings read that throws ends the handler.\<close>

fun on_voice_event :: "voice_context \<Rightarrow> voice_event \<Rightarrow> voice_activity \<Rightarrow> voice_activity" where
  "on_voice_event c (KeyDown key) s = (if ptt_mode c \<and> ptt_key_matches c key then set_pressed True c s else s)"
| "on_voice_event c (KeyUp key) s = (if ptt_mode c \<and> ptt_key_matches c key then set_pressed False c s else s)"
| "on_voice_event c (GlobalKey state) s =
     (if ptt_mode c \<and> state \<noteq> OtherState then set_pressed (state = Pressed) c s else s)"
| "on_voice_event c Blur s = (if ptt_mode c \<and> va_pressed s then set_pressed False c s else s)"
| "on_voice_event c SettingsChanged s =
     (case vc_settings c of
        Inl _ \<Rightarrow> s
      | Inr (nextMode, _) \<Rightarrow>
          let s1 = s\<lparr>va_voice_mode := nextMode, va_pressed := False\<rparr>;
              s2 = applyVoiceActivityGate True (if nextMode = PushToTalk then True else va_speaking s1) s1
          in applyPushToTalkGate c s2)"
| "on_voice_event c (Visibility isHidden) s =
     (case vc_settings c of
        Inl _ \<Rightarrow> s
      | Inr (mode, _) \<Rightarrow>
          if mode \<noteq> VoiceActivity then s
          else if isHidden then applyVoiceActivityGate False True s
          else applyVoiceActivityGate True (va_speaking s) s)"
| "on_voice_event c Unmounted s = (if va_pressed s then set_pressed False c s else s)"

definition run_voice :: "(voice_context \<times> voice_event) list \<Rightarrow> voice_activity \<Rightarrow> voice_activity" where
  "run_voice es s = fold (\<lambda>(c, e). on_voice_event c e) es s"

section \<open>The monitor of the own voice\<close>

text \<open>One animation frame: the gate's decision, the speaking flag of the store, and when a
  diagnostic was last written. \<^const>\<open>None\<close> as time of a frame the audio context was not running in.\<close>

record own_monitor =
  om_gate :: gate_state
  om_store_speaking :: bool
  om_diagnostics_at :: real
  om_diagnostics :: nat

definition start_monitor :: "voice_activity \<Rightarrow> voice_activity \<times> own_monitor" where
  "start_monitor s =
     (applyVoiceActivityGate True True (resetVoiceActivityGate s),
      \<lparr>om_gate = init_gate, om_store_speaking = False, om_diagnostics_at = 0, om_diagnostics = 0\<rparr>)"

definition monitor_tick ::
  "gate_settings \<Rightarrow> gate_frame \<Rightarrow> real \<Rightarrow> voice_activity \<times> own_monitor \<Rightarrow> voice_activity \<times> own_monitor" where
  "monitor_tick g f nowMs = (\<lambda>(s, m).
     let decision = evaluateVoiceGateFrame g f (om_gate m);
         changed = (gt_speaking decision \<noteq> gt_speaking (om_gate m));
         m1 = m\<lparr>om_gate := decision\<rparr>;
         (s1, m2) = (if changed then (applyVoiceActivityGate True (gt_speaking decision) s,
                                      m1\<lparr>om_store_speaking := gt_speaking decision\<rparr>)
                     else (s, m1))
     in (s1, if 750 \<le> nowMs - om_diagnostics_at m \<or> changed
             then m2\<lparr>om_diagnostics_at := nowMs, om_diagnostics := om_diagnostics m + 1\<rparr> else m2))"

definition stop_monitor :: "voice_activity \<times> own_monitor \<Rightarrow> voice_activity \<times> own_monitor" where
  "stop_monitor = (\<lambda>(s, m). (resetVoiceActivityGate s, m\<lparr>om_store_speaking := False\<rparr>))"

section \<open>The monitor of another stream\<close>

definition SAMPLE_INTERVAL_MS :: nat where "SAMPLE_INTERVAL_MS = 50"
definition SPEAKING_HOLD_MS :: nat where "SPEAKING_HOLD_MS = 220"

definition holdTicks :: nat where
  "holdTicks = max 1 (nat \<lceil>real SPEAKING_HOLD_MS / real SAMPLE_INTERVAL_MS\<rceil>)"

definition getRmsThresholdsFromSettings :: "bool \<Rightarrow> string web_storage \<Rightarrow> unit + (real \<times> real)" where
  "getRmsThresholdsFromSettings forRemote st =
     (if forRemote then (let on = 0.005 in Inr (on, max 0.001 (on * 0.35))) else getThresholdsFromStorage st)"

record level_monitor =
  lv_speaking :: bool
  lv_below :: nat
  lv_changes :: "bool list"

text \<open>One sample; \<open>lv_changes\<close> are the calls of \<^verbatim>\<open>onSpeakingChange\<close>, newest first.\<close>

definition level_check :: "real \<times> real \<Rightarrow> real \<Rightarrow> level_monitor \<Rightarrow> level_monitor" where
  "level_check thr rms m =
     (let aboveOn = (fst thr \<le> rms); aboveOff = (snd thr \<le> rms) in
      if aboveOn then
        (let m1 = m\<lparr>lv_below := 0\<rparr> in
         if \<not> lv_speaking m then m1\<lparr>lv_speaking := True, lv_changes := True # lv_changes m\<rparr> else m1)
      else if lv_speaking m then
        (if aboveOff then m\<lparr>lv_below := 0\<rparr>
         else let below = lv_below m + 1 in
           if holdTicks \<le> below then m\<lparr>lv_speaking := False, lv_below := 0, lv_changes := False # lv_changes m\<rparr>
           else m\<lparr>lv_below := below\<rparr>)
      else m)"

definition init_level :: level_monitor where
  "init_level = \<lparr>lv_speaking = False, lv_below = 0, lv_changes = []\<rparr>"

definition run_levels :: "real \<times> real \<Rightarrow> real list \<Rightarrow> level_monitor \<Rightarrow> level_monitor" where
  "run_levels thr rs m = fold (level_check thr) rs m"

text \<open>
  The shared audio context of the remote monitors: its identity and whether it is closed, with the
  count of its users. A new context is built when there is none or it was closed; \<open>made\<close> is the
  next identity, \<^const>\<open>None\<close> when building one fails.
\<close>

record audio_pool =
  ap_context :: "(nat \<times> bool) option"
  ap_count :: nat

definition acquireRemoteAudioContext :: "nat option \<Rightarrow> audio_pool \<Rightarrow> audio_pool \<times> nat option" where
  "acquireRemoteAudioContext made p =
     (case ap_context p of
        Some (i, False) \<Rightarrow> (p\<lparr>ap_count := ap_count p + 1\<rparr>, Some i)
      | _ \<Rightarrow>
          (case made of
             None \<Rightarrow> (p, None)
           | Some i \<Rightarrow> (p\<lparr>ap_context := Some (i, False), ap_count := 1\<rparr>, Some i)))"

definition releaseRemoteAudioContext :: "audio_pool \<Rightarrow> audio_pool" where
  "releaseRemoteAudioContext p =
     (let n = ap_count p - 1 in
      if n = 0 \<and> ap_context p \<noteq> None then \<lparr>ap_context = None, ap_count = 0\<rparr> else p\<lparr>ap_count := n\<rparr>)"

section \<open>Lemmas: push to talk\<close>

text \<open>
  The abstract key: held from the last press of its key to the next release, loss of focus or change
  of settings.
\<close>

fun key_held :: "voice_context \<Rightarrow> voice_event \<Rightarrow> bool \<Rightarrow> bool" where
  "key_held c (KeyDown key) h = (ptt_key_matches c key \<or> h)"
| "key_held c (KeyUp key) h = (\<not> ptt_key_matches c key \<and> h)"
| "key_held c (GlobalKey Pressed) h = True"
| "key_held c (GlobalKey Released) h = False"
| "key_held c (GlobalKey OtherState) h = h"
| "key_held c (Visibility b) h = h"
| "key_held c _ h = False"

definition mic_open :: "voice_activity \<Rightarrow> bool" where
  "mic_open s \<longleftrightarrow> va_mic_muted s = Some False"

lemma gate_pressed [simp]:
  "va_pressed (applyPushToTalkGate c s) = va_pressed s" "va_pressed (applyVoiceActivityGate u b s) = va_pressed s"
  "va_pressed (set_pressed b c s) = b"
  by (auto simp: applyPushToTalkGate_def applyVoiceActivityGate_def set_pressed_def split: sum.split)

lemma pressed_is_held: "ptt_mode c \<Longrightarrow> va_pressed (on_voice_event c e s) = key_held c e (va_pressed s)"
  by (cases "(c, e, va_pressed s)" rule: key_held.cases)
    (auto simp: ptt_mode_def Let_def split: sum.splits prod.splits)

text \<open>In push-to-talk mode the microphone is open only while the key is held.\<close>

definition ptt_safe :: "voice_activity \<Rightarrow> bool" where
  "ptt_safe s \<longleftrightarrow> (mic_open s \<longrightarrow> va_pressed s)"

lemma gate_safe: "ptt_mode c \<Longrightarrow> vc_user c = Some u \<Longrightarrow> u \<noteq> [] \<Longrightarrow>
    va_mic_muted (applyPushToTalkGate c s) = Some (\<not> (va_pressed s \<and> \<not> vc_muted c \<and> \<not> vc_deafened c))"
  by (auto simp: applyPushToTalkGate_def ptt_mode_def should_enable_def split: sum.splits)

lemma gate_mic [simp]: "va_mic_muted (applyVoiceActivityGate u b s) = va_mic_muted s"
  by (simp add: applyVoiceActivityGate_def)

lemma event_mic:
  assumes "ptt_mode c" "vc_user c = Some u" "u \<noteq> []"
  shows "va_mic_muted (on_voice_event c e s) = va_mic_muted s \<and> va_pressed (on_voice_event c e s) = va_pressed s
     \<or> va_mic_muted (on_voice_event c e s)
         = Some (\<not> (va_pressed (on_voice_event c e s) \<and> \<not> vc_muted c \<and> \<not> vc_deafened c))"
proof -
  have sp: "va_mic_muted (set_pressed b c s) = Some (\<not> (b \<and> \<not> vc_muted c \<and> \<not> vc_deafened c))" for b s
    using gate_safe[OF assms] by (simp add: set_pressed_def)
  show ?thesis
  proof (cases e)
    case SettingsChanged
    then show ?thesis
      using assms gate_safe[OF assms] by (auto simp: ptt_mode_def Let_def split: sum.splits)
  next
    case (Visibility b)
    then show ?thesis using assms by (auto simp: ptt_mode_def split: sum.splits)
  qed (use sp in \<open>auto\<close>)
qed

lemma ptt_event_safe:
  assumes "ptt_mode c" "vc_user c = Some u" "u \<noteq> []" "ptt_safe s"
  shows "ptt_safe (on_voice_event c e s)"
  using event_mic[OF assms(1-3), of e s] assms(4) by (auto simp: ptt_safe_def mic_open_def)

lemma run_voice_snoc: "run_voice (es @ [(c, e)]) s = on_voice_event c e (run_voice es s)"
  by (simp add: run_voice_def)

lemma ptt_run:
  assumes "\<forall>(c, e) \<in> set es. ptt_mode c \<and> truthy_str (vc_user c)" "ptt_safe s"
  shows "ptt_safe (run_voice es s)
     \<and> va_pressed (run_voice es s) = fold (\<lambda>(c, e). key_held c e) es (va_pressed s)"
  using assms
proof (induction es rule: rev_induct)
  case (snoc ce es)
  obtain c e where ce: "ce = (c, e)" by (cases ce)
  with snoc.prems have p: "ptt_mode c" and "truthy_str (vc_user c)" by auto
  then obtain u where "vc_user c = Some u" "u \<noteq> []" by (cases "vc_user c") auto
  with p snoc ce show ?case
    by (simp add: run_voice_snoc ptt_event_safe pressed_is_held)
qed (simp add: run_voice_def)

section \<open>Lemmas: level monitor\<close>

lemma holdTicks_val: "holdTicks = 5"
  by (simp add: holdTicks_def SPEAKING_HOLD_MS_def SAMPLE_INTERVAL_MS_def eval_nat_numeral ceiling_unique)

text \<open>Calls alternate, the newest tells the present state.\<close>

fun alternates :: "bool \<Rightarrow> bool list \<Rightarrow> bool" where
  "alternates now [] = (\<not> now)"
| "alternates now (b # bs) = (b = now \<and> alternates (\<not> now) bs)"

definition level_ok :: "level_monitor \<Rightarrow> bool" where
  "level_ok m \<longleftrightarrow> alternates (lv_speaking m) (lv_changes m) \<and> lv_below m < holdTicks
     \<and> (\<not> lv_speaking m \<longrightarrow> lv_below m = 0)"

lemma level_check_ok: "level_ok m \<Longrightarrow> level_ok (level_check thr rms m)"
  by (auto simp: level_ok_def level_check_def Let_def holdTicks_val)

lemma run_levels_ok: "level_ok m \<Longrightarrow> level_ok (run_levels thr rs m)"
  unfolding run_levels_def by (induction rs arbitrary: m) (auto intro: level_check_ok)

lemma init_level_ok: "level_ok init_level"
  by (simp add: level_ok_def init_level_def holdTicks_val)

text \<open>Fewer than five quiet samples in a row do not end speaking; five do.\<close>

lemma quiet_run:
  "lv_speaking m \<Longrightarrow> snd thr \<le> fst thr \<Longrightarrow> \<forall>r \<in> set rs. r < snd thr \<Longrightarrow> lv_below m + length rs < holdTicks \<Longrightarrow>
     lv_speaking (run_levels thr rs m) \<and> lv_below (run_levels thr rs m) = lv_below m + length rs"
  unfolding run_levels_def
  by (induction rs arbitrary: m) (auto simp: level_check_def Let_def)

section \<open>Lemmas: the shared context\<close>

text \<open>Each monitor that got a context releases it once: the context lives exactly while one is in use.\<close>

definition pool_ok :: "audio_pool \<Rightarrow> bool" where
  "pool_ok p \<longleftrightarrow> (ap_context p = None \<longleftrightarrow> ap_count p = 0)"

lemma pool_steps:
  assumes "pool_ok p"
  shows "pool_ok (fst (acquireRemoteAudioContext made p))" "pool_ok (releaseRemoteAudioContext p)"
  using assms
  by (auto simp: pool_ok_def acquireRemoteAudioContext_def releaseRemoteAudioContext_def Let_def
      split: option.splits prod.splits bool.splits)

end
