(* ===== verification/VoiceDiagnostics.thy ===== *)
theory VoiceDiagnostics
  imports WebStorage
begin

text \<open>
  \<^verbatim>\<open>src/webrtc/voiceDiagnostics.ts\<close> and \<^verbatim>\<open>screenAudioDiagnostics.ts\<close>: rating the quality of a voice
  connection, explaining a failed join, and the measurements kept for a report. Measurements are reals
  or \<^const>\<open>None\<close> when missing. The records that only collect browser values are not modelled.
\<close>

section \<open>Quality\<close>

datatype quality_level = QUnknown | QGood | QFair | QPoor

record voice_metrics =
  vm_active :: bool
  vm_ping :: "real option"
  vm_loss :: "real option"
  vm_jitter :: "real option"
  vm_ping_jitter :: "real option"

definition getVoiceNetworkQuality :: "voice_metrics \<Rightarrow> quality_level \<times> string" where
  "getVoiceNetworkQuality m =
     (case vm_ping m of
        None \<Rightarrow> (QUnknown, ''Voice quality is being measured.'')
      | Some pingMs \<Rightarrow>
          if \<not> vm_active m then (QUnknown, ''Voice quality is being measured.'')
          else if 220 \<le> pingMs \<or> 5 \<le> nullish (vm_loss m) 0 \<or> 45 \<le> nullish (vm_jitter m) 0
            then (QPoor, ''High latency, packet loss, or jitter may affect voice.'')
          else if 120 \<le> pingMs \<or> 2 \<le> nullish (vm_loss m) 0 \<or> 25 \<le> nullish (vm_jitter m) 0
              \<or> 35 \<le> nullish (vm_ping_jitter m) 0
            then (QFair, ''Voice is usable, but the connection is not ideal.'')
          else (QGood, ''Voice connection looks healthy.''))"

definition getVoicePingLevel :: "bool \<Rightarrow> real option \<Rightarrow> quality_level" where
  "getVoicePingLevel active pingMs =
     (case pingMs of
        None \<Rightarrow> QUnknown
      | Some p \<Rightarrow> if \<not> active then QUnknown else if 220 \<le> p then QPoor else if 120 \<le> p then QFair else QGood)"

fun voiceQualityLabel :: "quality_level \<Rightarrow> string" where
  "voiceQualityLabel QGood = ''Good voice quality''"
| "voiceQualityLabel QFair = ''Fair voice quality''"
| "voiceQualityLabel QPoor = ''Poor voice quality''"
| "voiceQualityLabel QUnknown = ''Measuring voice quality''"

definition getVoiceQualityAdvice :: "quality_level \<Rightarrow> string \<Rightarrow> string" where
  "getVoiceQualityAdvice level roomState =
     (if roomState = ''reconnecting''
        then ''Voice is reconnecting. Stay in the channel; Voxpery will resync when the network returns.''
      else if level = QPoor then ''Try a steadier connection, close heavy downloads, or move closer to your router.''
      else if level = QFair then ''If audio breaks up, reduce network load or switch to a more stable connection.''
      else if level = QGood then ''No action needed.''
      else ''Stats appear after the media room connects and the first samples arrive.'')"

text \<open>How bad a level is.\<close>

fun level_rank :: "quality_level \<Rightarrow> nat" where
  "level_rank QUnknown = 0"
| "level_rank QGood = 1"
| "level_rank QFair = 2"
| "level_rank QPoor = 3"

instantiation quality_level :: linorder
begin
definition less_eq_quality_level :: "quality_level \<Rightarrow> quality_level \<Rightarrow> bool" where
  "less_eq_quality_level a b \<longleftrightarrow> level_rank a \<le> level_rank b"
definition less_quality_level :: "quality_level \<Rightarrow> quality_level \<Rightarrow> bool" where
  "less_quality_level a b \<longleftrightarrow> level_rank a < level_rank b"
instance
proof
  fix a b c :: quality_level
  show "a < b \<longleftrightarrow> a \<le> b \<and> \<not> b \<le> a" by (auto simp: less_eq_quality_level_def less_quality_level_def)
  show "a \<le> a" by (simp add: less_eq_quality_level_def)
  show "a \<le> b \<Longrightarrow> b \<le> c \<Longrightarrow> a \<le> c" by (simp add: less_eq_quality_level_def)
  show "a \<le> b \<Longrightarrow> b \<le> a \<Longrightarrow> a = b" by (cases a; cases b) (auto simp: less_eq_quality_level_def)
  show "a \<le> b \<or> b \<le> a" by (auto simp: less_eq_quality_level_def)
qed
end

text \<open>A missing measurement counts as none; a session with every measurement at least as bad.\<close>

definition no_better :: "real option \<Rightarrow> real option \<Rightarrow> bool" where
  "no_better a b \<longleftrightarrow> nullish a 0 \<le> nullish b 0"

definition metrics_no_better :: "voice_metrics \<Rightarrow> voice_metrics \<Rightarrow> bool" where
  "metrics_no_better m m' \<longleftrightarrow>
     vm_active m = vm_active m' \<and> (vm_ping m = None \<longleftrightarrow> vm_ping m' = None)
     \<and> no_better (vm_ping m) (vm_ping m') \<and> no_better (vm_loss m) (vm_loss m')
     \<and> no_better (vm_jitter m) (vm_jitter m') \<and> no_better (vm_ping_jitter m) (vm_ping_jitter m')"

lemma quality_monotone:
  assumes "metrics_no_better m m'"
  shows "fst (getVoiceNetworkQuality m) \<le> fst (getVoiceNetworkQuality m')"
proof (cases "vm_ping m")
  case None
  with assms show ?thesis by (simp add: getVoiceNetworkQuality_def less_eq_quality_level_def)
next
  case (Some p)
  with assms obtain p' where p': "vm_ping m' = Some p'" by (cases "vm_ping m'") (auto simp: metrics_no_better_def)
  have le: "p \<le> p'" "nullish (vm_loss m) 0 \<le> nullish (vm_loss m') 0" "nullish (vm_jitter m) 0 \<le> nullish (vm_jitter m') 0"
    "nullish (vm_ping_jitter m) 0 \<le> nullish (vm_ping_jitter m') 0" "vm_active m = vm_active m'"
    using assms Some p' by (simp_all add: metrics_no_better_def no_better_def)
  define l l' j j' pj pj' where d: "l = nullish (vm_loss m) 0" "l' = nullish (vm_loss m') 0" "j = nullish (vm_jitter m) 0"
    "j' = nullish (vm_jitter m') 0" "pj = nullish (vm_ping_jitter m) 0" "pj' = nullish (vm_ping_jitter m') 0"
  show ?thesis
    using le unfolding getVoiceNetworkQuality_def Some p' option.case d[symmetric] less_eq_quality_level_def by auto
qed

text \<open>The ping alone never rates the connection worse than all measurements together.\<close>

lemma ping_level_le: "getVoicePingLevel (vm_active m) (vm_ping m) \<le> fst (getVoiceNetworkQuality m)"
  by (auto simp: getVoicePingLevel_def getVoiceNetworkQuality_def less_eq_quality_level_def split: option.split)

section \<open>Errors\<close>

record voice_error =
  ver_info :: bool
  ver_title :: string
  ver_message :: string

definition contains_any :: "string \<Rightarrow> string list \<Rightarrow> bool" where
  "contains_any text parts \<longleftrightarrow> list_ex (\<lambda>p. includes_str p text) parts"

text \<open>\<^verbatim>\<open>/\bice/\<close>: \<^verbatim>\<open>ice\<close> with no letter, digit or underscore before it.\<close>

definition is_word_char :: "char \<Rightarrow> bool" where
  "is_word_char c \<longleftrightarrow> is_ascii_letter c \<or> is_digit c \<or> c = CHR ''_''"

fun ice_at_word_start :: "bool \<Rightarrow> string \<Rightarrow> bool" where
  "ice_at_word_start afterWord [] = False"
| "ice_at_word_start afterWord (c # cs) =
     ((\<not> afterWord \<and> starts_with ''ice'' (c # cs)) \<or> ice_at_word_start (is_word_char c) cs)"

text \<open>The kinds of failure in the order they are looked for.\<close>

datatype voice_failure =
  AccessDenied | ServiceUnavailable | Reconnecting | ServerUnreachable | TimedOut | MicrophoneDenied
| NoMicrophone | MicrophoneBusy | NotSupportedHere | ConnectionFailed | OtherFailure

definition voice_failure_of :: "string \<Rightarrow> voice_failure" where
  "voice_failure_of lower =
     (if contains_any lower [''voice access denied'', ''missing required permission'', ''forbidden''] then AccessDenied
      else if contains_any lower [''feature_disabled'', ''voice service is not configured'']
          \<or> (includes_str ''livekit'' lower \<and> includes_str ''not configured'' lower)
          \<or> includes_str ''internal server error'' lower then ServiceUnavailable
      else if includes_str ''websocket is not connected'' lower then Reconnecting
      else if includes_str ''connection_error'' lower then ServerUnreachable
      else if includes_str ''timeout'' lower then TimedOut
      else if contains_any lower [''permission denied'', ''notallowederror'', ''microphone permission''] then MicrophoneDenied
      else if contains_any lower [''notfounderror'', ''device not found'', ''no microphone''] then NoMicrophone
      else if contains_any lower [''notreadableerror'', ''in use by another app'', ''microphone is in use''] then MicrophoneBusy
      else if includes_str ''not supported by this app runtime'' lower then NotSupportedHere
      else if ice_at_word_start False lower \<or> contains_any lower [''failed to connect'', ''network'', ''disconnected'']
        then ConnectionFailed
      else OtherFailure)"

fun voice_failure_text :: "string \<Rightarrow> voice_failure \<Rightarrow> voice_error" where
  "voice_failure_text raw AccessDenied = \<lparr>ver_info = True, ver_title = ''Voice access denied'',
     ver_message = ''You don'' @ [CHR 0x27] @ ''t have permission to connect to this voice channel.''\<rparr>"
| "voice_failure_text raw ServiceUnavailable = \<lparr>ver_info = False, ver_title = ''Voice service unavailable'',
     ver_message = ''Voice media service is unavailable right now. Try again after the server voice configuration is fixed.''\<rparr>"
| "voice_failure_text raw Reconnecting = \<lparr>ver_info = False, ver_title = ''Voice service reconnecting'',
     ver_message = ''The app is reconnecting to the server. Wait a few seconds and try joining voice again.''\<rparr>"
| "voice_failure_text raw ServerUnreachable = \<lparr>ver_info = False, ver_title = ''Voice server unreachable'',
     ver_message = ''Voxpery could not reach the server while preparing voice. Check the connection and retry.''\<rparr>"
| "voice_failure_text raw TimedOut = \<lparr>ver_info = False, ver_title = ''Voice connection timed out'',
     ver_message = ''Voxpery could not reach the voice media service in time. Check your network and retry.''\<rparr>"
| "voice_failure_text raw MicrophoneDenied = \<lparr>ver_info = False, ver_title = ''Microphone access required'',
     ver_message = ''Allow microphone access in your browser or system settings, then retry voice.''\<rparr>"
| "voice_failure_text raw NoMicrophone = \<lparr>ver_info = False, ver_title = ''No microphone detected'',
     ver_message = ''Connect a microphone or choose another input device, then retry voice.''\<rparr>"
| "voice_failure_text raw MicrophoneBusy = \<lparr>ver_info = False, ver_title = ''Microphone is busy'',
     ver_message = ''Close other apps using the microphone, then retry voice.''\<rparr>"
| "voice_failure_text raw NotSupportedHere = \<lparr>ver_info = False, ver_title = ''Voice not supported here'',
     ver_message = ''This app cannot make voice calls on this system. Open Voxpery in a browser such as Chrome or Firefox to join voice.''\<rparr>"
| "voice_failure_text raw ConnectionFailed = \<lparr>ver_info = False, ver_title = ''Voice connection failed'',
     ver_message = ''The voice media connection failed. Check your network, VPN, firewall, or LiveKit reachability and retry.''\<rparr>"
| "voice_failure_text raw OtherFailure = \<lparr>ver_info = False, ver_title = ''Voice action failed'',
     ver_message = (if raw = [] then ''Voice action failed. Try again in a few seconds.'' else raw)\<rparr>"

definition classifyVoiceError :: "string \<Rightarrow> voice_error" where
  "classifyVoiceError raw = voice_failure_text raw (voice_failure_of (js_lower raw))"

lemma voice_error_has_message: "ver_message (classifyVoiceError raw) \<noteq> []"
  by (cases "voice_failure_of (js_lower raw)") (simp_all add: classifyVoiceError_def)

text \<open>A word that only contains \<^verbatim>\<open>ice\<close> is not taken for a network failure.\<close>

lemma voice_word: "voice_failure_of ''voice device'' = OtherFailure"
  by code_simp

lemma ice_word: "voice_failure_of ''ice connection lost'' = ConnectionFailed"
  by code_simp

section \<open>Measurements\<close>

definition roundVoiceDiagnosticNumber :: "jsnum \<Rightarrow> nat \<Rightarrow> real" where
  "roundVoiceDiagnosticNumber value decimals =
     (case value of Fin x \<Rightarrow> of_int (js_round (x * 10 ^ decimals)) / 10 ^ decimals | _ \<Rightarrow> 0)"

definition linearToDbDiagnostic :: "jsnum \<Rightarrow> real" where
  "linearToDbDiagnostic value =
     (case value of
        Fin x \<Rightarrow> if x \<le> 0 then - 100 else max (- 100) (roundVoiceDiagnosticNumber (Fin (20 * log 10 x)) 1)
      | _ \<Rightarrow> - 100)"

definition formatMetric :: "int option \<Rightarrow> string \<Rightarrow> string \<Rightarrow> string" where
  "formatMetric value unit_text fallback = (case value of None \<Rightarrow> fallback | Some v \<Rightarrow> int_str v @ unit_text)"

definition VOICE_DIAGNOSTICS_STORAGE_KEY :: string where
  "VOICE_DIAGNOSTICS_STORAGE_KEY = ''voxperyVoiceDiagnostics''"

definition isVoiceDiagnosticsEnabled :: "string web_storage \<Rightarrow> bool" where
  "isVoiceDiagnosticsEnabled st \<longleftrightarrow> get_or_none VOICE_DIAGNOSTICS_STORAGE_KEY st = Some ''1''"

text \<open>
  The snapshot on the window, here its history of screen audio: samples with their times. Other
  fields are overwritten by the patch and are left abstract as \<open>'r\<close>.
\<close>

record 'r diagnostics =
  dg_history :: "(real \<times> string) list"
  dg_rest :: 'r
  dg_updated_at :: real

definition recordScreenAudioDiagnostics ::
  "string web_storage \<Rightarrow> real \<Rightarrow> (real \<times> string) list \<Rightarrow> 'r \<Rightarrow> 'r diagnostics option \<Rightarrow> 'r diagnostics option" where
  "recordScreenAudioDiagnostics st now samples patch snapshot =
     (if \<not> isVoiceDiagnosticsEnabled st then snapshot
      else let previous = (case snapshot of None \<Rightarrow> [] | Some d \<Rightarrow> dg_history d);
               cutoff = now - 60000;
               kept = filter (\<lambda>s. cutoff \<le> fst s) (previous @ samples);
               history = drop (length kept - 240) kept
           in Some \<lparr>dg_history = history, dg_rest = patch, dg_updated_at = now\<rparr>)"

lemma history_bounded:
  assumes "isVoiceDiagnosticsEnabled st" "recordScreenAudioDiagnostics st now samples patch snapshot = Some d"
  shows "length (dg_history d) \<le> 240 \<and> (\<forall>s \<in> set (dg_history d). now - 60000 \<le> fst s)"
proof -
  define kept where
    "kept = filter (\<lambda>s. now - 60000 \<le> fst s) ((case snapshot of None \<Rightarrow> [] | Some d \<Rightarrow> dg_history d) @ samples)"
  have h: "dg_history d = drop (length kept - 240) kept"
    using assms unfolding recordScreenAudioDiagnostics_def Let_def kept_def[symmetric] by (auto split: if_splits)
  have "\<forall>s \<in> set kept. now - 60000 \<le> fst s" unfolding kept_def set_filter by blast
  then have "\<forall>s \<in> set (dg_history d). now - 60000 \<le> fst s"
    unfolding h using set_drop_subset[of "length kept - 240" kept] by blast
  then show ?thesis by (simp add: h)
qed

text \<open>Decibels never fall below -100 and rise with the level.\<close>

lemma linearToDb_floor: "- 100 \<le> linearToDbDiagnostic v"
  by (cases v) (simp_all add: linearToDbDiagnostic_def)

lemma linearToDb_mono:
  assumes "x \<le> y"
  shows "linearToDbDiagnostic (Fin x) \<le> linearToDbDiagnostic (Fin y)"
proof (cases "x \<le> 0")
  case True
  then show ?thesis using linearToDb_floor[of "Fin y"] by (simp add: linearToDbDiagnostic_def)
next
  case False
  then have "log 10 x \<le> log 10 y" using assms by simp
  then have "js_round (20 * log 10 x * 10) \<le> js_round (20 * log 10 y * 10)" by (intro js_round_mono) simp
  with False assms show ?thesis
    by (simp add: linearToDbDiagnostic_def roundVoiceDiagnosticNumber_def max.coboundedI2)
qed

section \<open>Screen audio\<close>

record rtp_sample =
  rs_energy :: "real option"
  rs_duration :: "real option"

definition finiteStat :: "jsnum option \<Rightarrow> real option" where
  "finiteStat value = (case value of Some (Fin x) \<Rightarrow> Some x | _ \<Rightarrow> None)"

text \<open>The level over an interval from two cumulative samples, or nothing when they do not fit.\<close>

definition screenAudioIntervalRmsDb :: "rtp_sample option \<Rightarrow> rtp_sample \<Rightarrow> real option" where
  "screenAudioIntervalRmsDb previous current =
     (case previous of
        None \<Rightarrow> None
      | Some p \<Rightarrow>
          (case (rs_energy p, rs_duration p, rs_energy current, rs_duration current) of
             (Some e0, Some d0, Some e1, Some d1) \<Rightarrow>
               let energy = e1 - e0; duration = d1 - d0 in
               if energy < 0 \<or> duration \<le> 0 then None
               else if energy = 0 then Some (- 100)
               else Some (max (- 100) (of_int (js_round (10 * log 10 (energy / duration) * 10)) / 10))
           | _ \<Rightarrow> None))"

lemma interval_level_floor: "screenAudioIntervalRmsDb p c = Some v \<Longrightarrow> - 100 \<le> v"
  by (auto simp: screenAudioIntervalRmsDb_def Let_def split: option.splits if_splits)

end
