(* ===== verification/ThemeColors.thy ===== *)
theory ThemeColors
  imports JsNumber
begin

text \<open>
  The colour arithmetic of \<^verbatim>\<open>src/theme.ts\<close>: normalising the text of a colour, mixing, relative
  luminance and the contrast ratio of WCAG, and the search for a readable colour. Channels are
  integers, weights and ratios reals; the rounding of floating-point arithmetic is not modelled.
\<close>

section \<open>Texts of colours\<close>

definition is_hex_char :: "char \<Rightarrow> bool" where
  "is_hex_char c \<longleftrightarrow> digit_val c < 16"

text \<open>\<^verbatim>\<open>/^#[0-9a-f]{n}$/i\<close>.\<close>

definition hex_pattern :: "nat \<Rightarrow> string \<Rightarrow> bool" where
  "hex_pattern n s \<longleftrightarrow> length s = n + 1 \<and> hd s = CHR ''#'' \<and> list_all is_hex_char (tl s)"

definition formatHexColorDraft :: "string \<Rightarrow> string" where
  "formatHexColorDraft value =
     (let compact = filter (\<lambda>c. \<not> is_ws c) (js_trim value) in
      if list_all (\<lambda>c. c = CHR ''#'') compact then ''#''
      else CHR ''#'' # js_lower (dropWhile (\<lambda>c. c = CHR ''#'') compact))"

text \<open>\<^const>\<open>None\<close> stands for a value that is not a text.\<close>

definition normalizeHexColor :: "string option \<Rightarrow> string option" where
  "normalizeHexColor value =
     (case value of None \<Rightarrow> None
      | Some v \<Rightarrow>
          let formatted = formatHexColorDraft v in
          if hex_pattern 6 formatted then Some formatted
          else if hex_pattern 3 formatted then
            (let r = formatted ! 1; g = formatted ! 2; b = formatted ! 3
             in Some (js_lower (CHR ''#'' # [r, r, g, g, b, b])))
          else None)"

text \<open>A normalised colour: \<^verbatim>\<open>#\<close> and six digits, letters small.\<close>

definition hex_color :: "string \<Rightarrow> bool" where
  "hex_color s \<longleftrightarrow> hex_pattern 6 s \<and> js_lower s = s"

section \<open>Channels\<close>

type_synonym rgb = "int \<times> int \<times> int"

definition hexToRgb :: "string \<Rightarrow> rgb" where
  "hexToRgb hex =
     (let normalized = nullish (normalizeHexColor (Some hex)) ''#000000'' in
      (int (radix_value 16 (take 2 (drop 1 normalized))),
       int (radix_value 16 (take 2 (drop 3 normalized))),
       int (radix_value 16 (take 2 (drop 5 normalized)))))"

text \<open>\<^verbatim>\<open>toString(16)\<close>.\<close>

definition hex_digit :: "nat \<Rightarrow> char" where
  "hex_digit n = char_of (if n < 10 then 48 + n else 87 + n)"

fun hex_str :: "nat \<Rightarrow> string" where
  "hex_str n = (if n < 16 then [hex_digit n] else hex_str (n div 16) @ [hex_digit (n mod 16)])"

declare hex_str.simps [simp del]

definition channel_value :: "real \<Rightarrow> int" where
  "channel_value value = js_round (min 255 (max 0 value))"

definition toHex :: "real \<Rightarrow> string" where
  "toHex value = pad_start 2 (CHR ''0'') (hex_str (nat (channel_value value)))"

definition rgbToHex :: "real \<times> real \<times> real \<Rightarrow> string" where
  "rgbToHex = (\<lambda>(red, green, blue). CHR ''#'' # toHex red @ toHex green @ toHex blue)"

definition mix_channel :: "real \<Rightarrow> int \<Rightarrow> int \<Rightarrow> real" where
  "mix_channel weight a b = of_int a * weight + of_int b * (1 - weight)"

definition mixHexColors :: "string \<Rightarrow> string \<Rightarrow> real \<Rightarrow> string" where
  "mixHexColors first second firstWeight =
     (case (hexToRgb first, hexToRgb second) of
        ((r1, g1, b1), (r2, g2, b2)) \<Rightarrow>
          let weight = min 1 (max 0 firstWeight)
          in rgbToHex (mix_channel weight r1 r2, mix_channel weight g1 g2, mix_channel weight b1 b2))"

section \<open>Contrast\<close>

definition channel_luminance :: "int \<Rightarrow> real" where
  "channel_luminance channel =
     (let value = of_int channel / 255
      in if value \<le> 0.04045 then value / 12.92 else ((value + 0.055) / 1.055) powr 2.4)"

definition rgb_luminance :: "rgb \<Rightarrow> real" where
  "rgb_luminance = (\<lambda>(r, g, b).
     0.2126 * channel_luminance r + 0.7152 * channel_luminance g + 0.0722 * channel_luminance b)"

definition relativeLuminance :: "string \<Rightarrow> real" where
  "relativeLuminance hex = rgb_luminance (hexToRgb hex)"

definition getContrastRatio :: "string \<Rightarrow> string \<Rightarrow> real" where
  "getContrastRatio first second =
     (let firstLuminance = relativeLuminance first; secondLuminance = relativeLuminance second;
          lighter = max firstLuminance secondLuminance; darker = min firstLuminance secondLuminance
      in (lighter + 0.05) / (darker + 0.05))"

definition getAccessibleAccentText :: "string \<Rightarrow> string" where
  "getAccessibleAccentText accent =
     (if getContrastRatio accent ''#ffffff'' \<le> getContrastRatio accent ''#101217'' then ''#101217'' else ''#ffffff'')"

text \<open>The candidate of a step, and the first of the 21 candidates readable on every surface.\<close>

definition contrast_candidate :: "string \<Rightarrow> string \<Rightarrow> nat \<Rightarrow> string" where
  "contrast_candidate color contrastTarget step = mixHexColors color contrastTarget (1 - real step / 20)"

definition readable_on :: "real \<Rightarrow> string list \<Rightarrow> string \<Rightarrow> bool" where
  "readable_on minimumRatio surfaces candidate \<longleftrightarrow>
     list_all (\<lambda>surface. minimumRatio \<le> getContrastRatio candidate surface) surfaces"

definition ensureContrastColor :: "string \<Rightarrow> string list \<Rightarrow> string \<Rightarrow> real \<Rightarrow> string" where
  "ensureContrastColor color surfaces contrastTarget minimumRatio =
     (case find (\<lambda>step. readable_on minimumRatio surfaces (contrast_candidate color contrastTarget step)) [0..<21] of
        Some step \<Rightarrow> contrast_candidate color contrastTarget step
      | None \<Rightarrow> contrastTarget)"

section \<open>Lemmas: texts\<close>

lemma hash_facts: "\<not> is_ws (CHR ''#'')" "lower_char (CHR ''#'') = CHR ''#''" "\<not> is_hex_char (CHR ''#'')"
  by (simp_all add: is_ws_def lower_char_def is_hex_char_def digit_val_def char_code_def)

lemma hex_char_not_hash: "is_hex_char c \<Longrightarrow> c \<noteq> CHR ''#''"
  using hash_facts by auto

lemma hex_char_not_ws: "is_hex_char c \<Longrightarrow> \<not> is_ws c"
  by (auto simp: is_hex_char_def digit_val_def is_ws_def Let_def split: if_splits)

lemma hex_char_lower: "is_hex_char (lower_char c) = is_hex_char c"
  by (auto simp: is_hex_char_def digit_val_def lower_char_def char_code_def Let_def split: if_splits)

lemma formatHexColorDraft_color:
  assumes "hex_color s"
  shows "formatHexColorDraft s = s"
proof -
  obtain t where s: "s = CHR ''#'' # t" "length t = 6" "list_all is_hex_char t"
    using assms by (cases s) (auto simp: hex_color_def hex_pattern_def)
  have "t \<noteq> []" using s(2) by auto
  have nw: "\<forall>c \<in> set s. \<not> is_ws c"
    using s hash_facts by (auto simp: list_all_iff hex_char_not_ws)
  then have trim: "js_trim s = s" using s(1) by (intro js_trim_id) auto
  have filt: "filter (\<lambda>c. \<not> is_ws c) s = s" using nw by (simp add: filter_id_conv)
  have "dropWhile (\<lambda>c. c = CHR ''#'') t = t"
    using s \<open>t \<noteq> []\<close> by (cases t) (auto simp: hex_char_not_hash)
  moreover have "\<not> list_all (\<lambda>c. c = CHR ''#'') s"
    using s \<open>t \<noteq> []\<close> hex_char_not_hash by (cases t) auto
  ultimately show ?thesis
    using assms s(1) unfolding formatHexColorDraft_def trim filt Let_def by (simp add: hex_color_def)
qed

lemma formatHexColorDraft_lower: "js_lower (formatHexColorDraft v) = formatHexColorDraft v"
  by (simp add: formatHexColorDraft_def Let_def hash_facts)

lemma normalizeHexColor_color: "normalizeHexColor v = Some s \<Longrightarrow> hex_color s"
proof -
  assume a: "normalizeHexColor v = Some s"
  then obtain t where v: "v = Some t" by (cases v) (auto simp: normalizeHexColor_def)
  let ?f = "formatHexColorDraft t"
  consider "hex_pattern 6 ?f" "s = ?f"
    | "hex_pattern 3 ?f" "s = js_lower (CHR ''#'' # [?f ! 1, ?f ! 1, ?f ! 2, ?f ! 2, ?f ! 3, ?f ! 3])"
    using a unfolding v normalizeHexColor_def option.case Let_def by (metis option.inject option.discI)
  then show ?thesis
  proof cases
    case 1
    then show ?thesis by (simp add: hex_color_def formatHexColorDraft_lower)
  next
    case 2
    then obtain a b c where "?f = [CHR ''#'', a, b, c]" "is_hex_char a" "is_hex_char b" "is_hex_char c"
      by (auto simp: hex_pattern_def length_Suc_conv eval_nat_numeral)
    with 2(2) show ?thesis by (simp add: hex_color_def hex_pattern_def hex_char_lower hash_facts)
  qed
qed

lemma normalizeHexColor_id: "hex_color s \<Longrightarrow> normalizeHexColor (Some s) = Some s"
  unfolding normalizeHexColor_def by (simp add: formatHexColorDraft_color Let_def hex_color_def)

section \<open>Lemmas: channels\<close>

definition in_range :: "rgb \<Rightarrow> bool" where
  "in_range = (\<lambda>(r, g, b). 0 \<le> r \<and> r \<le> 255 \<and> 0 \<le> g \<and> g \<le> 255 \<and> 0 \<le> b \<and> b \<le> 255)"

lemma radix_two: "radix_value 16 [a, b] = 16 * digit_val a + digit_val b"
  by (simp add: radix_value_def)

lemma hex_two_range: "is_hex_char a \<Longrightarrow> is_hex_char b \<Longrightarrow> radix_value 16 [a, b] \<le> 255"
  by (simp add: radix_two is_hex_char_def)

lemma hex_color_cases:
  assumes "hex_color s"
  obtains a b c d e f where "s = [CHR ''#'', a, b, c, d, e, f]" "list_all is_hex_char [a, b, c, d, e, f]"
  using assms by (auto simp: hex_color_def hex_pattern_def length_Suc_conv eval_nat_numeral)

lemma hexToRgb_color:
  assumes "hex_color s"
  shows "hexToRgb s = (int (radix_value 16 [s ! 1, s ! 2]), int (radix_value 16 [s ! 3, s ! 4]), int (radix_value 16 [s ! 5, s ! 6]))"
proof -
  obtain a b c d e f where s: "s = [CHR ''#'', a, b, c, d, e, f]" using assms by (rule hex_color_cases)
  show ?thesis
    unfolding hexToRgb_def normalizeHexColor_id[OF assms] option.case Let_def
    by (simp add: s numeral_2_eq_2 numeral_3_eq_3 numeral_eq_Suc)
qed

lemma hexToRgb_range: "in_range (hexToRgb s)"
proof -
  define n where "n = nullish (normalizeHexColor (Some s)) ''#000000''"
  have "hex_color ''#000000''" by (simp add: hex_color_def hex_pattern_def is_hex_char_def digit_val_def char_code_def hash_facts lower_char_def)
  then have n: "hex_color n"
    using normalizeHexColor_color by (auto simp: n_def split: option.split)
  have "hexToRgb s = hexToRgb n"
    unfolding hexToRgb_def normalizeHexColor_id[OF n] by (simp add: n_def)
  moreover have "in_range (hexToRgb n)"
  proof -
    obtain a b c d e f where s: "n = [CHR ''#'', a, b, c, d, e, f]" "list_all is_hex_char [a, b, c, d, e, f]"
      using n by (rule hex_color_cases)
    then show ?thesis
      unfolding hexToRgb_color[OF n] using hex_two_range by (simp add: in_range_def numeral_eq_Suc)
  qed
  ultimately show ?thesis by simp
qed

lemma hex_digit_facts:
  assumes "n < 16"
  shows "digit_val (hex_digit n) = n" "is_hex_char (hex_digit n)" "lower_char (hex_digit n) = hex_digit n"
  using assms by (auto simp: hex_digit_def digit_val_def is_hex_char_def lower_char_def char_code_def Let_def)

lemma channel_value_range: "0 \<le> channel_value v" "channel_value v \<le> 255"
proof -
  have "js_round (of_int 0) \<le> channel_value v" "channel_value v \<le> js_round (of_int 255)"
    unfolding channel_value_def by (auto intro!: js_round_mono)
  then show "0 \<le> channel_value v" "channel_value v \<le> 255" by (simp_all only: js_round_of_int)
qed

lemma toHex_two:
  "toHex v = [hex_digit (nat (channel_value v) div 16), hex_digit (nat (channel_value v) mod 16)]"
proof -
  define n where "n = nat (channel_value v)"
  have n: "n < 256" using channel_value_range[of v] by (simp add: n_def)
  show ?thesis
  proof (cases "n < 16")
    case True
    then show ?thesis
      by (simp add: toHex_def pad_start_def n_def[symmetric] hex_str.simps[of n] hex_digit_def char_of_def bit_iff_odd)
  next
    case False
    with n have "n div 16 < 16" by simp
    with False show ?thesis
      by (simp add: toHex_def pad_start_def n_def[symmetric] hex_str.simps[of n] hex_str.simps[of "n div 16"])
  qed
qed

lemma toHex_value: "int (radix_value 16 (toHex v)) = channel_value v"
  using channel_value_range[of v] by (simp add: toHex_two radix_two hex_digit_facts)

lemma toHex_hex:
  "length (toHex v) = 2" "list_all is_hex_char (toHex v)" "js_lower (toHex v) = toHex v"
  using channel_value_range[of v] by (simp_all add: toHex_two hex_digit_facts)

lemma rgbToHex_color: "hex_color (rgbToHex (r, g, b))"
  by (simp add: rgbToHex_def hex_color_def hex_pattern_def toHex_hex hash_facts)

lemma hexToRgb_rgbToHex: "hexToRgb (rgbToHex (r, g, b)) = (channel_value r, channel_value g, channel_value b)"
proof -
  have n: "normalizeHexColor (Some (rgbToHex (r, g, b))) = Some (rgbToHex (r, g, b))"
    using normalizeHexColor_id rgbToHex_color by blast
  show ?thesis
    unfolding hexToRgb_def n option.case Let_def by (simp add: rgbToHex_def toHex_value toHex_hex(1))
qed

text \<open>Every mixed colour is a normalised colour, and its channels lie between those mixed.\<close>

lemma mix_color: "hex_color (mixHexColors a b w)"
  by (auto simp: mixHexColors_def Let_def rgbToHex_color split: prod.split)

definition channels_between :: "int \<Rightarrow> int \<Rightarrow> string \<Rightarrow> bool" where
  "channels_between lo hi s \<longleftrightarrow>
     (case hexToRgb s of (r, g, b) \<Rightarrow> lo \<le> r \<and> r \<le> hi \<and> lo \<le> g \<and> g \<le> hi \<and> lo \<le> b \<and> b \<le> hi)"

lemma channels_0_255: "channels_between 0 255 s"
  using hexToRgb_range[of s] by (auto simp: channels_between_def in_range_def)

lemma channel_value_between:
  assumes "of_int lo - 1 / 2 \<le> v" "v < of_int hi + 1 / 2" "0 \<le> lo" "hi \<le> 255"
  shows "lo \<le> channel_value v \<and> channel_value v \<le> hi"
proof -
  have le: "lo \<le> hi" using assms(1,2) by linarith
  then have r: "0 \<le> real_of_int lo" "real_of_int hi \<le> 255" "real_of_int lo \<le> real_of_int hi"
    using assms(3,4) by simp_all
  define m where "m = min 255 (max 0 v)"
  have "of_int lo \<le> m + 1 / 2" "m + 1 / 2 < of_int hi + 1"
    using r assms(1,2) unfolding m_def by linarith+
  then have "lo \<le> js_round m" "js_round m < hi + 1"
    unfolding js_round_def by (simp_all only: le_floor_iff floor_less_iff of_int_add of_int_1)
  then show ?thesis by (simp add: channel_value_def m_def)
qed

lemma mix_channel_bounds:
  assumes "0 \<le> w" "w \<le> 1" "0 \<le> a" "a \<le> 255" "lo \<le> b" "b \<le> hi"
  shows "of_int lo * (1 - w) \<le> mix_channel w a b" "mix_channel w a b \<le> 255 * w + of_int hi * (1 - w)"
proof -
  have a: "0 \<le> real_of_int a" "real_of_int a \<le> 255" and b: "real_of_int lo \<le> of_int b" "real_of_int b \<le> of_int hi"
    using assms by simp_all
  have "real_of_int lo * (1 - w) \<le> of_int b * (1 - w)" "of_int b * (1 - w) \<le> real_of_int hi * (1 - w)"
    using b assms(2) by (simp_all add: mult_right_mono)
  moreover have "0 \<le> of_int a * w" "of_int a * w \<le> 255 * w"
    using a assms(1) by (simp_all add: mult_right_mono)
  ultimately show "of_int lo * (1 - w) \<le> mix_channel w a b" "mix_channel w a b \<le> 255 * w + of_int hi * (1 - w)"
    by (simp_all add: mix_channel_def)
qed

lemma mix_between:
  assumes "0 \<le> w" "w \<le> 1" "channels_between lo hi b" "0 \<le> l" "u \<le> 255"
    "of_int l - 1 / 2 \<le> of_int lo * (1 - w)" "255 * w + of_int hi * (1 - w) < of_int u + 1 / 2"
  shows "channels_between l u (mixHexColors a b w)"
proof -
  obtain r1 g1 b1 r2 g2 b2 where e: "hexToRgb a = (r1, g1, b1)" "hexToRgb b = (r2, g2, b2)"
    by (cases "hexToRgb a", cases "hexToRgb b") auto
  have w: "min 1 (max 0 w) = w" using assms(1,2) by simp
  have c: "l \<le> channel_value (mix_channel w x y) \<and> channel_value (mix_channel w x y) \<le> u"
    if "0 \<le> x" "x \<le> 255" "lo \<le> y" "y \<le> hi" for x y
    using mix_channel_bounds[OF assms(1,2) that] assms(6,7)
    by (intro channel_value_between[OF _ _ assms(4,5)]) linarith+
  have "in_range (r1, g1, b1)" using hexToRgb_range[of a] e by simp
  with assms(3) show ?thesis
    by (simp add: mixHexColors_def e w hexToRgb_rgbToHex channels_between_def in_range_def c)
qed

section \<open>Lemmas: luminance\<close>

lemma powr_le_root:
  assumes "0 < x" "0 \<le> y" "x ^ 12 \<le> y ^ 5"
  shows "x powr 2.4 \<le> (y :: real)"
proof -
  have "(x powr 2.4) ^ 5 = x ^ 12"
    using assms(1) by (simp add: powr_power)
  then show ?thesis using assms by (metis power_mono_iff powr_ge_zero zero_less_numeral)
qed

lemma root_le_powr:
  assumes "0 < x" "0 \<le> y" "y ^ 5 \<le> x ^ 12"
  shows "(y :: real) \<le> x powr 2.4"
proof -
  have "(x powr 2.4) ^ 5 = x ^ 12"
    using assms(1) by (simp add: powr_power)
  then show ?thesis using assms by (metis power_mono_iff powr_ge_zero zero_less_numeral)
qed

lemma channel_luminance_low: "c \<le> 10 \<Longrightarrow> channel_luminance c = of_int c / 255 / 12.92"
  by (simp add: channel_luminance_def)

lemma channel_luminance_high: "11 \<le> c \<Longrightarrow> channel_luminance c = ((of_int c / 255 + 0.055) / 1.055) powr 2.4"
  by (simp add: channel_luminance_def)

lemma channel_luminance_mono:
  assumes "0 \<le> a" "a \<le> b"
  shows "channel_luminance a \<le> channel_luminance b"
proof (cases "11 \<le> b")
  case False
  then show ?thesis using assms by (simp add: channel_luminance_low)
next
  case high: True
  have mono: "channel_luminance c \<le> channel_luminance b" if "11 \<le> c" "c \<le> b" for c
    using that by (auto simp: channel_luminance_high intro!: powr_mono2 divide_right_mono add_right_mono)
  show ?thesis
  proof (cases "11 \<le> a")
    case True
    then show ?thesis using mono assms by simp
  next
    case False
    then have "channel_luminance a \<le> 10 / 255 / 12.92" by (simp add: channel_luminance_low)
    also have "\<dots> \<le> channel_luminance 11"
      unfolding channel_luminance_high[OF order.refl]
      by (rule root_le_powr) (simp_all add: field_simps power_divide)
    finally show ?thesis using mono[of 11] high by simp
  qed
qed

lemma channel_luminance_nonneg: "0 \<le> c \<Longrightarrow> 0 \<le> channel_luminance c"
  using channel_luminance_mono[of 0 c] by (simp add: channel_luminance_def)

lemma luminance_between:
  assumes "channels_between lo hi s" "0 \<le> lo"
  shows "channel_luminance lo \<le> relativeLuminance s" "relativeLuminance s \<le> channel_luminance hi"
proof -
  obtain r g b where e: "hexToRgb s = (r, g, b)" by (cases "hexToRgb s") auto
  have "channel_luminance lo \<le> channel_luminance c \<and> channel_luminance c \<le> channel_luminance hi"
    if "lo \<le> c" "c \<le> hi" for c
    using channel_luminance_mono that assms(2) by simp
  then have "channel_luminance lo \<le> channel_luminance r" "channel_luminance lo \<le> channel_luminance g"
    "channel_luminance lo \<le> channel_luminance b" "channel_luminance r \<le> channel_luminance hi"
    "channel_luminance g \<le> channel_luminance hi" "channel_luminance b \<le> channel_luminance hi"
    using assms(1) by (auto simp: channels_between_def e)
  then show "channel_luminance lo \<le> relativeLuminance s" "relativeLuminance s \<le> channel_luminance hi"
    by (simp_all add: relativeLuminance_def rgb_luminance_def e)
qed

lemma luminance_nonneg: "0 \<le> relativeLuminance s"
  using luminance_between(1)[OF channels_0_255] channel_luminance_nonneg[of 0] by (simp add: order_trans)

lemma contrast_sym: "getContrastRatio a b = getContrastRatio b a"
  by (simp add: getContrastRatio_def Let_def max.commute min.commute)

lemma contrast_at_least_one: "1 \<le> getContrastRatio a b"
  using luminance_nonneg[of a] luminance_nonneg[of b] by (simp add: getContrastRatio_def Let_def)

text \<open>A light colour on a dark one.\<close>

lemma contrast_bound:
  assumes "hi \<le> relativeLuminance a" "relativeLuminance b \<le> lo" "lo \<le> hi" "ratio * (lo + 0.05) \<le> hi + 0.05" "0 \<le> ratio"
  shows "ratio \<le> getContrastRatio a b"
proof -
  have "ratio * (relativeLuminance b + 0.05) \<le> ratio * (lo + 0.05)"
    using assms(2,5) by (simp add: mult_left_mono)
  with assms luminance_nonneg[of b] show ?thesis
    by (simp add: getContrastRatio_def pos_le_divide_eq)
qed

section \<open>Lemmas: readable colours\<close>

lemma ensure_readable:
  "readable_on ratio surfaces target \<Longrightarrow> readable_on ratio surfaces (ensureContrastColor color surfaces target ratio)"
  by (auto simp: ensureContrastColor_def find_Some_iff split: option.split)

lemma ensure_color: "hex_color target \<Longrightarrow> hex_color (ensureContrastColor color surfaces target ratio)"
  by (auto simp: ensureContrastColor_def contrast_candidate_def mix_color split: option.split)

text \<open>A colour that is readable already is kept.\<close>

lemma mix_all_first: "hex_color a \<Longrightarrow> mixHexColors a b 1 = a"
proof -
  assume a: "hex_color a"
  then obtain x1 x2 y1 y2 z1 z2 where s: "a = [CHR ''#'', x1, x2, y1, y2, z1, z2]" "list_all is_hex_char [x1, x2, y1, y2, z1, z2]"
    by (rule hex_color_cases)
  have two: "toHex (of_int (int (radix_value 16 [x, y]))) = [x, y]"
    if "is_hex_char x" "is_hex_char y" "lower_char x = x" "lower_char y = y" for x y
  proof -
    have d: "hex_digit (digit_val c) = c" if "is_hex_char c" "lower_char c = c" for c
    proof -
      have "c = char_of (char_code c)" by (simp add: char_code_def)
      with that show ?thesis
        by (cases "97 \<le> char_code c") (auto simp: is_hex_char_def digit_val_def hex_digit_def lower_char_def Let_def add.commute split: if_splits)
    qed
    have "channel_value (of_int (int (radix_value 16 [x, y]))) = int (radix_value 16 [x, y])"
      using hex_two_range[OF that(1,2)] js_round_of_int[of "int (radix_value 16 [x, y])"]
      unfolding channel_value_def by (simp add: min_absorb2 max_absorb2)
    then have "nat (channel_value (of_int (int (radix_value 16 [x, y])))) = 16 * digit_val x + digit_val y"
      by (simp only: nat_int radix_two)
    then show ?thesis
      using that unfolding toHex_two by (simp only: list.inject) (simp add: is_hex_char_def d)
  qed
  have low: "lower_char x1 = x1" "lower_char x2 = x2" "lower_char y1 = y1" "lower_char y2 = y2" "lower_char z1 = z1" "lower_char z2 = z2"
    using a s(1) by (simp_all add: hex_color_def)
  have h: "hexToRgb a = (int (radix_value 16 [x1, x2]), int (radix_value 16 [y1, y2]), int (radix_value 16 [z1, z2]))"
    unfolding hexToRgb_color[OF a] by (simp add: s numeral_eq_Suc)
  obtain r g b' where e: "hexToRgb b = (r, g, b')" by (cases "hexToRgb b") auto
  show ?thesis
    using s(2) low two by (simp add: mixHexColors_def h e mix_channel_def rgbToHex_def) (simp add: s)
qed

lemma ensure_keeps:
  assumes "hex_color color" "readable_on ratio surfaces color"
  shows "ensureContrastColor color surfaces target ratio = color"
proof -
  have "contrast_candidate color target 0 = color"
    using mix_all_first[OF assms(1)] by (simp add: contrast_candidate_def)
  moreover have "[0..<21] = (0 :: nat) # [1..<21]" by (simp add: upt_conv_Cons)
  ultimately show ?thesis using assms(2) by (simp add: ensureContrastColor_def)
qed

end
