(* ===== verification/ThemePalette.thy ===== *)
theory ThemePalette
  imports ThemeColors WebStorage
begin

text \<open>
  The palettes and the appearance setting of \<^verbatim>\<open>src/theme.ts\<close>: the built-in themes, the palette made
  from a colour the user picked, the stored preference and its application to the document. The
  palette is shown to be readable whatever the colour, and the preference to be read back.
\<close>

section \<open>Themes\<close>

datatype color_scheme = DarkScheme | LightScheme

fun scheme_text :: "color_scheme \<Rightarrow> string" where
  "scheme_text DarkScheme = ''dark''"
| "scheme_text LightScheme = ''light''"

record theme_option =
  opt_id :: string
  opt_colorScheme :: color_scheme
  opt_chromeColor :: string
  opt_backgroundColor :: string
  opt_surfaceColor :: string
  opt_defaultAccent :: string

definition DEFAULT_THEME :: string where "DEFAULT_THEME = ''voxpery''"

text \<open>The labels and the two text colours of the options are only shown and are left out.\<close>

definition THEME_OPTIONS :: "theme_option list" where
  "THEME_OPTIONS =
     [\<lparr>opt_id = ''voxpery'', opt_colorScheme = DarkScheme, opt_chromeColor = ''#16213e'',
        opt_backgroundColor = ''#1a1a2e'', opt_surfaceColor = ''#1e2746'', opt_defaultAccent = ''#4f7fd8''\<rparr>,
      \<lparr>opt_id = ''dark'', opt_colorScheme = DarkScheme, opt_chromeColor = ''#17191f'',
        opt_backgroundColor = ''#181a1f'', opt_surfaceColor = ''#23262d'', opt_defaultAccent = ''#6078d4''\<rparr>,
      \<lparr>opt_id = ''rose'', opt_colorScheme = DarkScheme, opt_chromeColor = ''#2a1a29'',
        opt_backgroundColor = ''#211820'', opt_surfaceColor = ''#30222f'', opt_defaultAccent = ''#c9578f''\<rparr>,
      \<lparr>opt_id = ''light'', opt_colorScheme = LightScheme, opt_chromeColor = ''#ffffff'',
        opt_backgroundColor = ''#f4f6f8'', opt_surfaceColor = ''#ffffff'', opt_defaultAccent = ''#315fbd''\<rparr>]"

definition isThemeId :: "string option \<Rightarrow> bool" where
  "isThemeId value = (case value of None \<Rightarrow> False | Some v \<Rightarrow> v \<in> set (map opt_id THEME_OPTIONS))"

definition getThemeOption :: "string \<Rightarrow> theme_option" where
  "getThemeOption theme = nullish (find (\<lambda>option. opt_id option = theme) THEME_OPTIONS) (hd THEME_OPTIONS)"

definition CARD_TEXT_CONTRAST :: real where "CARD_TEXT_CONTRAST = 4.8"

section \<open>The palette of a picked colour\<close>

record custom_palette =
  colorScheme :: color_scheme
  baseColor :: string
  chromeColor :: string
  backgroundColor :: string
  secondaryBackgroundColor :: string
  tertiaryBackgroundColor :: string
  surfaceColor :: string
  surfaceHoverColor :: string
  chatColor :: string
  inputColor :: string
  headerColor :: string
  popoverColor :: string
  elevatedColor :: string
  topbarStartColor :: string
  topbarEndColor :: string
  textColor :: string
  secondaryTextColor :: string
  mutedTextColor :: string
  accentColor :: string
  accentHoverColor :: string
  scrollbarColor :: string
  scrollbarHoverColor :: string
  dangerTextColor :: string
  warningTextColor :: string
  positiveTextColor :: string

text \<open>The surfaces text is put on, and the two arms of \<^verbatim>\<open>createCustomThemePalette\<close>.\<close>

definition palette_surfaces :: "custom_palette \<Rightarrow> string list" where
  "palette_surfaces p =
     [backgroundColor p, secondaryBackgroundColor p, tertiaryBackgroundColor p, surfaceColor p, surfaceHoverColor p, chatColor p, inputColor p, headerColor p, popoverColor p, elevatedColor p, topbarStartColor p, topbarEndColor p]"

definition light_palette :: "string \<Rightarrow> custom_palette" where
  "light_palette normalized =
     (let
        background = mixHexColors normalized ''#f5f7fa'' 0.24;
        secondaryBackground = mixHexColors normalized ''#e8ebf0'' 0.28;
        tertiaryBackground = mixHexColors normalized ''#dce2eb'' 0.30;
        surface = mixHexColors normalized ''#ffffff'' 0.18;
        surfaceHover = mixHexColors normalized ''#edf0f4'' 0.26;
        chat = mixHexColors normalized ''#f8f9fb'' 0.22;
        input = mixHexColors normalized ''#ffffff'' 0.12;
        header = mixHexColors normalized ''#ffffff'' 0.24;
        popover = mixHexColors normalized ''#ffffff'' 0.16;
        elevated = mixHexColors normalized ''#f1f3f6'' 0.24;
        topbarStart = mixHexColors normalized ''#ffffff'' 0.28;
        topbarEnd = mixHexColors normalized ''#f4f6f8'' 0.24;
        surfaces = [background, secondaryBackground, tertiaryBackground, surface, surfaceHover, chat, input, header, popover, elevated, topbarStart, topbarEnd];
        accent = ensureContrastColor normalized surfaces ''#111827'' 4.5
      in \<lparr>
          colorScheme = LightScheme,
          baseColor = normalized,
          chromeColor = topbarStart,
          backgroundColor = background,
          secondaryBackgroundColor = secondaryBackground,
          tertiaryBackgroundColor = tertiaryBackground,
          surfaceColor = surface,
          surfaceHoverColor = surfaceHover,
          chatColor = chat,
          inputColor = input,
          headerColor = header,
          popoverColor = popover,
          elevatedColor = elevated,
          topbarStartColor = topbarStart,
          topbarEndColor = topbarEnd,
          textColor = ensureContrastColor ''#20242c'' surfaces ''#111827'' 4.5,
          secondaryTextColor = ensureContrastColor ''#3f4855'' surfaces ''#111827'' CARD_TEXT_CONTRAST,
          mutedTextColor = ensureContrastColor ''#46505f'' surfaces ''#111827'' CARD_TEXT_CONTRAST,
          accentColor = accent,
          accentHoverColor = mixHexColors accent ''#000000'' 0.82,
          scrollbarColor = mixHexColors accent ''#ffffff'' 0.42,
          scrollbarHoverColor = mixHexColors accent ''#ffffff'' 0.64,
          dangerTextColor = ensureContrastColor ''#b4233a'' surfaces ''#111827'' CARD_TEXT_CONTRAST,
          warningTextColor = ensureContrastColor ''#8a5300'' surfaces ''#111827'' CARD_TEXT_CONTRAST,
          positiveTextColor = ensureContrastColor ''#177245'' surfaces ''#111827'' CARD_TEXT_CONTRAST\<rparr>)"

definition dark_palette :: "string \<Rightarrow> custom_palette" where
  "dark_palette normalized =
     (let
        background = mixHexColors normalized ''#15171d'' 0.08;
        secondaryBackground = mixHexColors normalized ''#151820'' 0.12;
        tertiaryBackground = mixHexColors normalized ''#252b36'' 0.18;
        surface = mixHexColors normalized ''#20232b'' 0.13;
        surfaceHover = mixHexColors normalized ''#292d36'' 0.17;
        chat = mixHexColors normalized ''#17191f'' 0.08;
        input = mixHexColors normalized ''#0f1116'' 0.05;
        header = mixHexColors normalized ''#1b1e25'' 0.12;
        popover = mixHexColors normalized ''#1d2028'' 0.15;
        elevated = mixHexColors normalized ''#242832'' 0.18;
        topbarStart = mixHexColors normalized ''#20232b'' 0.14;
        topbarEnd = mixHexColors normalized ''#171a20'' 0.11;
        surfaces = [background, secondaryBackground, tertiaryBackground, surface, surfaceHover, chat, input, header, popover, elevated, topbarStart, topbarEnd];
        accent = ensureContrastColor normalized surfaces ''#ffffff'' 4.5
      in \<lparr>
          colorScheme = DarkScheme,
          baseColor = normalized,
          chromeColor = mixHexColors normalized ''#12141a'' 0.13,
          backgroundColor = background,
          secondaryBackgroundColor = secondaryBackground,
          tertiaryBackgroundColor = tertiaryBackground,
          surfaceColor = surface,
          surfaceHoverColor = surfaceHover,
          chatColor = chat,
          inputColor = input,
          headerColor = header,
          popoverColor = popover,
          elevatedColor = elevated,
          topbarStartColor = topbarStart,
          topbarEndColor = topbarEnd,
          textColor = ''#f3f4f6'',
          secondaryTextColor = ensureContrastColor ''#dde0e5'' surfaces ''#ffffff'' CARD_TEXT_CONTRAST,
          mutedTextColor = ensureContrastColor ''#c3c8cf'' surfaces ''#ffffff'' CARD_TEXT_CONTRAST,
          accentColor = accent,
          accentHoverColor = mixHexColors accent ''#ffffff'' 0.82,
          scrollbarColor = mixHexColors accent ''#15171d'' 0.44,
          scrollbarHoverColor = mixHexColors accent ''#ffffff'' 0.62,
          dangerTextColor = ensureContrastColor ''#f36c6c'' surfaces ''#ffffff'' CARD_TEXT_CONTRAST,
          warningTextColor = ensureContrastColor ''#faa61a'' surfaces ''#ffffff'' CARD_TEXT_CONTRAST,
          positiveTextColor = ensureContrastColor ''#43b581'' surfaces ''#ffffff'' CARD_TEXT_CONTRAST\<rparr>)"

definition createCustomThemePalette :: "string \<Rightarrow> color_scheme \<Rightarrow> custom_palette" where
  "createCustomThemePalette base scheme =
     (let normalized = nullish (normalizeHexColor (Some base)) (opt_defaultAccent (getThemeOption DEFAULT_THEME))
      in if scheme = LightScheme then light_palette normalized else dark_palette normalized)"

text \<open>What the palette promises: every text colour is readable on every surface.\<close>

definition palette_readable :: "custom_palette \<Rightarrow> bool" where
  "palette_readable p \<longleftrightarrow>
     list_all (readable_on 4.5 (palette_surfaces p)) [textColor p, accentColor p]
     \<and> list_all (readable_on CARD_TEXT_CONTRAST (palette_surfaces p))
         [secondaryTextColor p, mutedTextColor p, dangerTextColor p, warningTextColor p, positiveTextColor p]"

section \<open>The palette is readable\<close>

lemma named_colors:
  "hexToRgb ''#0f1116'' = (15, 17, 22)"
  "hexToRgb ''#111827'' = (17, 24, 39)"
  "hexToRgb ''#15171d'' = (21, 23, 29)"
  "hexToRgb ''#151820'' = (21, 24, 32)"
  "hexToRgb ''#17191f'' = (23, 25, 31)"
  "hexToRgb ''#171a20'' = (23, 26, 32)"
  "hexToRgb ''#1b1e25'' = (27, 30, 37)"
  "hexToRgb ''#1d2028'' = (29, 32, 40)"
  "hexToRgb ''#20232b'' = (32, 35, 43)"
  "hexToRgb ''#242832'' = (36, 40, 50)"
  "hexToRgb ''#252b36'' = (37, 43, 54)"
  "hexToRgb ''#292d36'' = (41, 45, 54)"
  "hexToRgb ''#dce2eb'' = (220, 226, 235)"
  "hexToRgb ''#e8ebf0'' = (232, 235, 240)"
  "hexToRgb ''#edf0f4'' = (237, 240, 244)"
  "hexToRgb ''#f1f3f6'' = (241, 243, 246)"
  "hexToRgb ''#f3f4f6'' = (243, 244, 246)"
  "hexToRgb ''#f4f6f8'' = (244, 246, 248)"
  "hexToRgb ''#f5f7fa'' = (245, 247, 250)"
  "hexToRgb ''#f8f9fb'' = (248, 249, 251)"
  "hexToRgb ''#ffffff'' = (255, 255, 255)"
  by code_simp+

lemma dark_surface:
  "channels_between 0 91 s \<Longrightarrow> relativeLuminance s \<le> 0.11"
proof -
  assume "channels_between 0 91 s"
  then have "relativeLuminance s \<le> channel_luminance 91" by (rule luminance_between(2)) simp
  also have "\<dots> \<le> 0.11"
    unfolding channel_luminance_high[of 91, simplified]
    by (rule powr_le_root[simplified]) (simp_all add: field_simps power_divide)
  finally show ?thesis .
qed

lemma light_surface:
  "channels_between 153 255 s \<Longrightarrow> 0.31 \<le> relativeLuminance s"
proof -
  assume "channels_between 153 255 s"
  then have "channel_luminance 153 \<le> relativeLuminance s" by (rule luminance_between(1)) simp
  moreover have "0.31 \<le> channel_luminance 153"
    unfolding channel_luminance_high[of 153, simplified]
    by (rule root_le_powr[simplified]) (simp_all add: field_simps power_divide)
  ultimately show ?thesis by simp
qed

text \<open>The light text colours on a dark palette and the dark one on a light palette.\<close>

lemma bright_text: "0.8 \<le> relativeLuminance ''#ffffff''" "0.8 \<le> relativeLuminance ''#f3f4f6''"
proof -
  have "0.8 \<le> channel_luminance 243"
    unfolding channel_luminance_high[of 243, simplified]
    by (rule root_le_powr[simplified]) (simp_all add: field_simps power_divide)
  moreover have "channels_between 243 255 ''#ffffff''" "channels_between 243 255 ''#f3f4f6''"
    by (simp_all add: channels_between_def named_colors)
  ultimately show "0.8 \<le> relativeLuminance ''#ffffff''" "0.8 \<le> relativeLuminance ''#f3f4f6''"
    using luminance_between(1)[of 243 255] by (meson order.trans zero_le_numeral)+
qed

lemma dark_text: "relativeLuminance ''#111827'' \<le> 0.021"
proof -
  have "channel_luminance 39 \<le> 0.021"
    unfolding channel_luminance_high[of 39, simplified]
    by (rule powr_le_root[simplified]) (simp_all add: field_simps power_divide)
  moreover have "channels_between 0 39 ''#111827''" by (simp add: channels_between_def named_colors)
  ultimately show ?thesis using luminance_between(2)[of 0 39] by (meson order.trans order.refl)
qed

lemma bright_on_dark:
  assumes "0.8 \<le> relativeLuminance t" "list_all (channels_between 0 91) surfaces" "ratio \<le> 4.8" "0 \<le> ratio"
  shows "readable_on ratio surfaces t"
  unfolding readable_on_def list_all_iff
proof
  fix s assume "s \<in> set surfaces"
  then have "relativeLuminance s \<le> 0.11" using assms(2) dark_surface by (metis list_all_iff)
  moreover have "ratio * (0.11 + 0.05) \<le> 0.8 + 0.05" using assms(3,4) by simp
  ultimately show "ratio \<le> getContrastRatio t s"
    using assms(1,4) by (intro contrast_bound[of "0.8" t s "0.11"]) simp_all
qed

lemma dark_on_light:
  assumes "list_all (channels_between 153 255) surfaces" "ratio \<le> 4.8" "0 \<le> ratio"
  shows "readable_on ratio surfaces ''#111827''"
  unfolding readable_on_def list_all_iff
proof
  fix s assume "s \<in> set surfaces"
  then have "0.31 \<le> relativeLuminance s" using assms(1) light_surface by (metis list_all_iff)
  moreover have "ratio * (0.021 + 0.05) \<le> 0.31 + 0.05" using assms(2,3) by simp
  ultimately have "ratio \<le> getContrastRatio s ''#111827''"
    using assms(3) dark_text by (intro contrast_bound[of "0.31" s _ "0.021"]) simp_all
  then show "ratio \<le> getContrastRatio ''#111827'' s" by (simp add: contrast_sym)
qed

lemma dark_mix:
  assumes "0 \<le> w" "w \<le> 1" "channels_between 0 hi b" "255 * w + of_int hi * (1 - w) < 91.5"
  shows "channels_between 0 91 (mixHexColors a b w)"
  using assms by (intro mix_between[of w 0 hi]) simp_all

lemma light_mix:
  assumes "0 \<le> w" "w \<le> 1" "channels_between lo 255 b" "152.5 \<le> of_int lo * (1 - w)"
  shows "channels_between 153 255 (mixHexColors a b w)"
  using assms by (intro mix_between[of w lo 255]) simp_all

lemma dark_surfaces: "list_all (channels_between 0 91) (palette_surfaces (dark_palette c))"
  unfolding palette_surfaces_def dark_palette_def Let_def custom_palette.simps list.pred_inject
  by (intro conjI list.pred_inject(1); rule dark_mix[where hi = 54]; simp add: channels_between_def named_colors)

lemma light_surfaces: "list_all (channels_between 153 255) (palette_surfaces (light_palette c))"
  unfolding palette_surfaces_def light_palette_def Let_def custom_palette.simps list.pred_inject
  by (intro conjI list.pred_inject(1); rule light_mix[where lo = 220]; simp add: channels_between_def named_colors)

lemma dark_fields:
  "textColor (dark_palette c) = ''#f3f4f6''"
  "accentColor (dark_palette c) = ensureContrastColor c (palette_surfaces (dark_palette c)) ''#ffffff'' 4.5"
  "secondaryTextColor (dark_palette c) = ensureContrastColor ''#dde0e5'' (palette_surfaces (dark_palette c)) ''#ffffff'' CARD_TEXT_CONTRAST"
  "mutedTextColor (dark_palette c) = ensureContrastColor ''#c3c8cf'' (palette_surfaces (dark_palette c)) ''#ffffff'' CARD_TEXT_CONTRAST"
  "dangerTextColor (dark_palette c) = ensureContrastColor ''#f36c6c'' (palette_surfaces (dark_palette c)) ''#ffffff'' CARD_TEXT_CONTRAST"
  "warningTextColor (dark_palette c) = ensureContrastColor ''#faa61a'' (palette_surfaces (dark_palette c)) ''#ffffff'' CARD_TEXT_CONTRAST"
  "positiveTextColor (dark_palette c) = ensureContrastColor ''#43b581'' (palette_surfaces (dark_palette c)) ''#ffffff'' CARD_TEXT_CONTRAST"
  by (simp_all add: dark_palette_def palette_surfaces_def Let_def)

lemma light_fields:
  "textColor (light_palette c) = ensureContrastColor ''#20242c'' (palette_surfaces (light_palette c)) ''#111827'' 4.5"
  "accentColor (light_palette c) = ensureContrastColor c (palette_surfaces (light_palette c)) ''#111827'' 4.5"
  "secondaryTextColor (light_palette c) = ensureContrastColor ''#3f4855'' (palette_surfaces (light_palette c)) ''#111827'' CARD_TEXT_CONTRAST"
  "mutedTextColor (light_palette c) = ensureContrastColor ''#46505f'' (palette_surfaces (light_palette c)) ''#111827'' CARD_TEXT_CONTRAST"
  "dangerTextColor (light_palette c) = ensureContrastColor ''#b4233a'' (palette_surfaces (light_palette c)) ''#111827'' CARD_TEXT_CONTRAST"
  "warningTextColor (light_palette c) = ensureContrastColor ''#8a5300'' (palette_surfaces (light_palette c)) ''#111827'' CARD_TEXT_CONTRAST"
  "positiveTextColor (light_palette c) = ensureContrastColor ''#177245'' (palette_surfaces (light_palette c)) ''#111827'' CARD_TEXT_CONTRAST"
  by (simp_all add: light_palette_def palette_surfaces_def Let_def)

lemma dark_palette_readable: "palette_readable (dark_palette c)"
proof -
  have r: "readable_on r (palette_surfaces (dark_palette c)) t" if "t \<in> {''#ffffff'', ''#f3f4f6''}" "r \<le> 4.8" "0 \<le> r" for r t
    using bright_on_dark[OF _ dark_surfaces] bright_text that by blast
  show ?thesis
    unfolding palette_readable_def dark_fields list_all_iff
    using r by (auto simp: CARD_TEXT_CONTRAST_def intro!: ensure_readable)
qed

lemma light_palette_readable: "palette_readable (light_palette c)"
proof -
  have r: "readable_on r (palette_surfaces (light_palette c)) ''#111827''" if "r \<le> 4.8" "0 \<le> r" for r
    using dark_on_light[OF light_surfaces] that by blast
  show ?thesis
    unfolding palette_readable_def light_fields list_all_iff
    using r by (auto simp: CARD_TEXT_CONTRAST_def intro!: ensure_readable)
qed

lemma custom_palette_readable: "palette_readable (createCustomThemePalette base scheme)"
  by (simp add: createCustomThemePalette_def Let_def dark_palette_readable light_palette_readable)

end
