(* ===== verification/ThemeSetting.thy ===== *)
theory ThemeSetting
  imports ThemePalette
begin

text \<open>
  The appearance setting of \<^verbatim>\<open>src/theme.ts\<close>: reading it from local storage, applying it to the
  document and storing it. The document is the part of it the code writes: the data attributes, the
  colour scheme and the custom properties of the root element, and the theme colour of the page.
\<close>

definition THEME_STORAGE_KEY :: string where "THEME_STORAGE_KEY = ''voxpery-settings-theme''"
definition THEME_ACCENT_STORAGE_KEY :: string where "THEME_ACCENT_STORAGE_KEY = ''voxpery-settings-theme-accent''"
definition THEME_CUSTOM_COLOR_STORAGE_KEY :: string where
  "THEME_CUSTOM_COLOR_STORAGE_KEY = ''voxpery-settings-theme-custom-color''"
definition THEME_CUSTOM_MODE_STORAGE_KEY :: string where
  "THEME_CUSTOM_MODE_STORAGE_KEY = ''voxpery-settings-theme-custom-mode''"

lemmas theme_keys = THEME_STORAGE_KEY_def THEME_ACCENT_STORAGE_KEY_def THEME_CUSTOM_COLOR_STORAGE_KEY_def
  THEME_CUSTOM_MODE_STORAGE_KEY_def

record theme_preference =
  pref_theme :: string
  pref_customAccent :: "string option"
  pref_customThemeColor :: "string option"
  pref_customThemeMode :: color_scheme

definition getDefaultThemePreference :: theme_preference where
  "getDefaultThemePreference =
     \<lparr>pref_theme = DEFAULT_THEME, pref_customAccent = None, pref_customThemeColor = None,
      pref_customThemeMode = opt_colorScheme (getThemeOption DEFAULT_THEME)\<rparr>"

text \<open>Any read that throws gives the default preference; the reads throw together.\<close>

definition getStoredThemePreference :: "string web_storage \<Rightarrow> theme_preference" where
  "getStoredThemePreference st =
     (case (get_item THEME_STORAGE_KEY st, get_item THEME_ACCENT_STORAGE_KEY st,
            get_item THEME_CUSTOM_COLOR_STORAGE_KEY st, get_item THEME_CUSTOM_MODE_STORAGE_KEY st) of
        (Inr storedTheme, Inr accent, Inr color, Inr mode) \<Rightarrow>
          let storedAccent = normalizeHexColor accent;
              storedCustomThemeColor = normalizeHexColor color;
              isLegacyRoseTheme = storedTheme = Some ''rose'';
              theme = (if isLegacyRoseTheme then DEFAULT_THEME
                       else if isThemeId storedTheme then the storedTheme else DEFAULT_THEME);
              customThemeColor = (case storedCustomThemeColor of
                  Some c \<Rightarrow> Some c
                | None \<Rightarrow> if isLegacyRoseTheme then Some (opt_defaultAccent (getThemeOption ''rose'')) else None)
          in \<lparr>pref_theme = theme, pref_customAccent = storedAccent, pref_customThemeColor = customThemeColor,
              pref_customThemeMode =
                (if customThemeColor \<noteq> None then (if mode = Some ''light'' then LightScheme else DarkScheme)
                 else opt_colorScheme (getThemeOption theme))\<rparr>
      | _ \<Rightarrow> getDefaultThemePreference)"

record theme_document =
  root_theme :: "string option"
  root_color_scheme :: "color_scheme option"
  root_custom_theme :: bool
  root_custom_mode :: "color_scheme option"
  root_custom_accent :: bool
  root_style :: "string obj"
  meta_theme_color :: "string option"

text \<open>\<open>meta_theme_color\<close> is \<^const>\<open>None\<close> when the page has no such element.\<close>

definition CUSTOM_THEME_STYLE_PROPERTIES :: "string list" where
  "CUSTOM_THEME_STYLE_PROPERTIES =
     [''--user-theme-bg-primary'',
      ''--user-theme-bg-secondary'',
      ''--user-theme-bg-tertiary'',
      ''--user-theme-bg-surface'',
      ''--user-theme-bg-surface-hover'',
      ''--user-theme-bg-chat'',
      ''--user-theme-bg-input'',
      ''--user-theme-bg-header'',
      ''--user-theme-bg-popover'',
      ''--user-theme-bg-elevated'',
      ''--user-theme-topbar-start'',
      ''--user-theme-topbar-end'',
      ''--user-theme-text-primary'',
      ''--user-theme-text-secondary'',
      ''--user-theme-text-muted'',
      ''--user-theme-accent'',
      ''--user-theme-accent-hover'',
      ''--user-theme-accent-contrast'',
      ''--user-theme-scrollbar'',
      ''--user-theme-scrollbar-hover'',
      ''--user-theme-text-danger'',
      ''--user-theme-text-warning'',
      ''--user-theme-text-positive'']"

definition palette_style :: "custom_palette \<Rightarrow> (string \<times> string) list" where
  "palette_style p =
     [(''--user-theme-bg-primary'', backgroundColor p),
      (''--user-theme-bg-secondary'', secondaryBackgroundColor p),
      (''--user-theme-bg-tertiary'', tertiaryBackgroundColor p),
      (''--user-theme-bg-surface'', surfaceColor p),
      (''--user-theme-bg-surface-hover'', surfaceHoverColor p),
      (''--user-theme-bg-chat'', chatColor p),
      (''--user-theme-bg-input'', inputColor p),
      (''--user-theme-bg-header'', headerColor p),
      (''--user-theme-bg-popover'', popoverColor p),
      (''--user-theme-bg-elevated'', elevatedColor p),
      (''--user-theme-topbar-start'', topbarStartColor p),
      (''--user-theme-topbar-end'', topbarEndColor p),
      (''--user-theme-text-primary'', textColor p),
      (''--user-theme-text-secondary'', secondaryTextColor p),
      (''--user-theme-text-muted'', mutedTextColor p),
      (''--user-theme-accent'', accentColor p),
      (''--user-theme-accent-hover'', accentHoverColor p),
      (''--user-theme-accent-contrast'', getAccessibleAccentText (accentColor p)),
      (''--user-theme-scrollbar'', scrollbarColor p),
      (''--user-theme-scrollbar-hover'', scrollbarHoverColor p),
      (''--user-theme-text-danger'', dangerTextColor p),
      (''--user-theme-text-warning'', warningTextColor p),
      (''--user-theme-text-positive'', positiveTextColor p)]"

definition set_properties :: "(string \<times> string) list \<Rightarrow> string obj \<Rightarrow> string obj" where
  "set_properties kvs style = fold (\<lambda>(k, v) s. obj_put k v s) kvs style"

definition remove_properties :: "string list \<Rightarrow> string obj \<Rightarrow> string obj" where
  "remove_properties ks style = fold obj_del ks style"

definition ACCENT_PROPERTIES :: "string list" where
  "ACCENT_PROPERTIES = [''--user-accent'', ''--user-accent-text'', ''--user-accent-contrast'']"

definition accent_surfaces :: "custom_palette option \<Rightarrow> theme_option \<Rightarrow> string list" where
  "accent_surfaces pal option =
     (case pal of
        Some p \<Rightarrow> [backgroundColor p, secondaryBackgroundColor p, tertiaryBackgroundColor p, surfaceColor p,
                   chatColor p, popoverColor p]
      | None \<Rightarrow> if opt_colorScheme option = LightScheme
                then [''#f4f6f8'', ''#e8ebf0'', ''#dbe3f1'', ''#ffffff'', ''#f8f9fb'']
                else [opt_backgroundColor option, opt_surfaceColor option, opt_chromeColor option])"

text \<open>The values an application computes before it writes.\<close>

definition normalized_preference :: "theme_preference \<Rightarrow> theme_preference" where
  "normalized_preference preference =
     (let theme = (if isThemeId (Some (pref_theme preference)) then pref_theme preference else DEFAULT_THEME);
          customThemeColor = normalizeHexColor (pref_customThemeColor preference)
      in \<lparr>pref_theme = theme, pref_customAccent = normalizeHexColor (pref_customAccent preference),
          pref_customThemeColor = customThemeColor,
          pref_customThemeMode =
            (if customThemeColor \<noteq> None then pref_customThemeMode preference
             else opt_colorScheme (getThemeOption theme))\<rparr>)"

definition applyThemePreference ::
  "theme_preference \<Rightarrow> theme_document \<Rightarrow> theme_preference \<times> theme_document" where
  "applyThemePreference preference doc =
     (let n = normalized_preference preference;
          option = getThemeOption (pref_theme n);
          pal = map_option (\<lambda>c. createCustomThemePalette c (pref_customThemeMode n)) (pref_customThemeColor n);
          doc1 = doc\<lparr>root_theme := Some (pref_theme n), root_color_scheme := Some (pref_customThemeMode n)\<rparr>;
          doc2 = (case pal of
              Some p \<Rightarrow> doc1\<lparr>root_custom_theme := True, root_custom_mode := Some (pref_customThemeMode n),
                root_style := set_properties (palette_style p) (root_style doc1)\<rparr>
            | None \<Rightarrow> doc1\<lparr>root_custom_theme := False, root_custom_mode := None,
                root_style := remove_properties CUSTOM_THEME_STYLE_PROPERTIES (root_style doc1)\<rparr>);
          doc3 = (case pref_customAccent n of
              Some accent \<Rightarrow>
                let readableAccent = ensureContrastColor accent (accent_surfaces pal option)
                      (if pref_customThemeMode n = LightScheme then ''#111827'' else ''#ffffff'') 4.5
                in doc2\<lparr>root_custom_accent := True,
                     root_style := set_properties [(''--user-accent'', accent), (''--user-accent-text'', readableAccent),
                       (''--user-accent-contrast'', getAccessibleAccentText accent)] (root_style doc2)\<rparr>
            | None \<Rightarrow> doc2\<lparr>root_custom_accent := False,
                root_style := remove_properties ACCENT_PROPERTIES (root_style doc2)\<rparr>);
          activeChromeColor = (case pal of Some p \<Rightarrow> chromeColor p | None \<Rightarrow> opt_chromeColor option)
      in (n, doc3\<lparr>meta_theme_color := map_option (\<lambda>_. activeChromeColor) (meta_theme_color doc3)\<rparr>))"

text \<open>A colour that is absent is removed; the writes stop at the first that throws.\<close>

definition set_or_remove :: "string \<Rightarrow> string option \<Rightarrow> string web_storage \<Rightarrow> unit + string web_storage" where
  "set_or_remove key value st = (case value of Some v \<Rightarrow> set_item key v st | None \<Rightarrow> remove_item key st)"

fun and_then :: "('s \<Rightarrow> unit + 's) list \<Rightarrow> 's \<Rightarrow> 's" where
  "and_then [] st = st"
| "and_then (f # fs) st = (case f st of Inl _ \<Rightarrow> st | Inr st' \<Rightarrow> and_then fs st')"

definition store_preference :: "theme_preference \<Rightarrow> string web_storage \<Rightarrow> string web_storage" where
  "store_preference n = and_then
     [set_item THEME_STORAGE_KEY (pref_theme n),
      set_or_remove THEME_ACCENT_STORAGE_KEY (pref_customAccent n),
      set_or_remove THEME_CUSTOM_COLOR_STORAGE_KEY (pref_customThemeColor n),
      set_item THEME_CUSTOM_MODE_STORAGE_KEY (scheme_text (pref_customThemeMode n))]"

text \<open>The result, the document, the storage and the event sent to the other parts of the page.\<close>

definition setThemePreference ::
  "theme_preference \<Rightarrow> theme_document \<Rightarrow> string web_storage
     \<Rightarrow> theme_preference \<times> theme_document \<times> string web_storage \<times> theme_preference list" where
  "setThemePreference preference doc st =
     (let (normalized, doc') = applyThemePreference preference doc
      in (normalized, doc', store_preference normalized st, [normalized]))"

text \<open>\<^verbatim>\<open>/^\/(social|servers)(\/|$)/\<close>.\<close>

definition usesAppTheme :: "string \<Rightarrow> bool" where
  "usesAppTheme pathname \<longleftrightarrow>
     list_ex (\<lambda>p. starts_with p pathname \<and> (length pathname = length p \<or> pathname ! length p = CHR ''/''))
       [''/social'', ''/servers'']"

definition applyThemeForPath ::
  "string \<Rightarrow> string web_storage \<Rightarrow> theme_document \<Rightarrow> theme_preference \<times> theme_document" where
  "applyThemeForPath pathname st doc =
     applyThemePreference (if usesAppTheme pathname then getStoredThemePreference st else getDefaultThemePreference) doc"

section \<open>Lemmas\<close>

text \<open>A preference as it is after normalising.\<close>

definition pref_ok :: "theme_preference \<Rightarrow> bool" where
  "pref_ok p \<longleftrightarrow> isThemeId (Some (pref_theme p))
     \<and> (\<forall>c. pref_customAccent p = Some c \<longrightarrow> hex_color c)
     \<and> (\<forall>c. pref_customThemeColor p = Some c \<longrightarrow> hex_color c)
     \<and> (pref_customThemeColor p = None \<longrightarrow> pref_customThemeMode p = opt_colorScheme (getThemeOption (pref_theme p)))"

lemma default_theme_ok: "isThemeId (Some DEFAULT_THEME)"
  by (simp add: isThemeId_def DEFAULT_THEME_def THEME_OPTIONS_def)

lemma normalized_ok: "pref_ok (normalized_preference p)"
  by (auto simp: pref_ok_def normalized_preference_def Let_def default_theme_ok normalizeHexColor_color)

lemma normalizeHexColor_again:
  assumes "pref_ok p"
  shows "normalizeHexColor (pref_customAccent p) = pref_customAccent p
    \<and> normalizeHexColor (pref_customThemeColor p) = pref_customThemeColor p"
proof -
  have "normalizeHexColor None = None" by (simp add: normalizeHexColor_def)
  then show ?thesis
    using assms by (cases "pref_customAccent p"; cases "pref_customThemeColor p") (auto simp: pref_ok_def normalizeHexColor_id)
qed

lemma normalized_id: "pref_ok p \<Longrightarrow> normalized_preference p = p"
  using normalizeHexColor_again[of p] by (simp add: normalized_preference_def Let_def pref_ok_def)

lemma default_preference_ok: "pref_ok getDefaultThemePreference"
  by (simp add: pref_ok_def getDefaultThemePreference_def default_theme_ok)

text \<open>Whatever the storage holds, what is read is a preference that needs no normalising.\<close>

lemma rose_color: "hex_color (opt_defaultAccent (getThemeOption ''rose''))"
  by (simp add: getThemeOption_def THEME_OPTIONS_def hex_color_def hex_pattern_def is_hex_char_def digit_val_def
      lower_char_def char_code_def Let_def)

lemma default_theme_listed: "DEFAULT_THEME \<in> opt_id ` set THEME_OPTIONS"
  using default_theme_ok by (simp add: isThemeId_def)

lemma stored_ok: "pref_ok (getStoredThemePreference st)"
proof (cases "readable st")
  case False
  then show ?thesis by (simp add: getStoredThemePreference_def get_item_def default_preference_ok)
next
  case True
  then show ?thesis
    by (auto simp: getStoredThemePreference_def get_item_def Let_def pref_ok_def default_theme_listed rose_color
        normalizeHexColor_color isThemeId_def split: option.splits if_splits)
qed

text \<open>What was stored is read back. (The built-in rose theme became a picked colour, so a stored
  \<^verbatim>\<open>rose\<close> is read as that colour.)\<close>

lemma store_preference_items:
  assumes "storage_works st"
  shows "readable (store_preference n st)"
    "obj_get (items (store_preference n st)) THEME_STORAGE_KEY = Some (pref_theme n)"
    "obj_get (items (store_preference n st)) THEME_ACCENT_STORAGE_KEY = pref_customAccent n"
    "obj_get (items (store_preference n st)) THEME_CUSTOM_COLOR_STORAGE_KEY = pref_customThemeColor n"
    "obj_get (items (store_preference n st)) THEME_CUSTOM_MODE_STORAGE_KEY = Some (scheme_text (pref_customThemeMode n))"
  using assms
  by (cases "pref_customAccent n"; cases "pref_customThemeColor n";
      simp add: store_preference_def set_or_remove_def set_item_def remove_item_def storage_works_def
        obj_get_put obj_get_del theme_keys)+

lemma theme_read_back:
  assumes "storage_works st" "pref_ok n" "pref_theme n \<noteq> ''rose''"
  shows "getStoredThemePreference (store_preference n st) = n"
proof -
  have mode: "(if Some (scheme_text m) = Some ''light'' then LightScheme else DarkScheme) = m" for m
    by (cases m) simp_all
  have theme: "isThemeId (Some (pref_theme n))" using assms(2) by (simp add: pref_ok_def)
  have none: "pref_customThemeColor n = None \<Longrightarrow> opt_colorScheme (getThemeOption (pref_theme n)) = pref_customThemeMode n"
    using assms(2) by (simp add: pref_ok_def)
  note again = normalizeHexColor_again[OF assms(2)]
  have "getStoredThemePreference (store_preference n st) =
      \<lparr>pref_theme = pref_theme n, pref_customAccent = pref_customAccent n,
       pref_customThemeColor = pref_customThemeColor n,
       pref_customThemeMode =
         (if pref_customThemeColor n \<noteq> None
          then (if Some (scheme_text (pref_customThemeMode n)) = Some ''light'' then LightScheme else DarkScheme)
          else opt_colorScheme (getThemeOption (pref_theme n)))\<rparr>"
    using assms(3) theme again
    by (cases "pref_customThemeColor n")
      (simp_all add: getStoredThemePreference_def get_item_def store_preference_items[OF assms(1)] Let_def)
  also have "\<dots> = n" unfolding mode using none by simp
  finally show ?thesis .
qed

text \<open>Every property a custom palette sets is one a built-in theme removes.\<close>

lemma palette_style_keys: "map fst (palette_style p) = CUSTOM_THEME_STYLE_PROPERTIES"
  by (simp add: palette_style_def CUSTOM_THEME_STYLE_PROPERTIES_def)

lemma remove_properties_get:
  "obj_get (remove_properties ks style) k = (if k \<in> set ks then None else obj_get style k)"
  by (induction ks arbitrary: style) (auto simp: remove_properties_def obj_get_del)

lemma set_properties_get:
  "obj_get (set_properties kvs style) k = (case map_of (rev kvs) k of Some v \<Rightarrow> Some v | None \<Rightarrow> obj_get style k)"
  by (induction kvs arbitrary: style) (auto simp: set_properties_def obj_get_put map_add_def split: option.split)

lemma apply_removes:
  assumes "normalizeHexColor (pref_customThemeColor p) = None" "normalizeHexColor (pref_customAccent p) = None"
  shows "obj_get (root_style (snd (applyThemePreference p doc))) k =
    (if k \<in> set CUSTOM_THEME_STYLE_PROPERTIES \<union> set ACCENT_PROPERTIES then None else obj_get (root_style doc) k)"
  using assms by (simp add: applyThemePreference_def normalized_preference_def Let_def remove_properties_get)

lemma apply_result: "fst (applyThemePreference p doc) = normalized_preference p"
  by (simp add: applyThemePreference_def Let_def)

lemma public_pages_default:
  "\<not> usesAppTheme path \<Longrightarrow> fst (applyThemeForPath path st doc) = getDefaultThemePreference"
  by (simp add: applyThemeForPath_def apply_result normalized_id default_preference_ok)

end
