(* ===== verification/Links.thy ===== *)
theory Links
  imports WebStorage
begin

text \<open>
  Links into the app: invite links (\<^verbatim>\<open>src/inviteLinks.ts\<close>), the page to return to after signing in
  (\<^verbatim>\<open>src/authRedirect.ts\<close>) and the return from the browser's sign-in to the desktop app
  (\<^verbatim>\<open>src/desktopOAuth.ts\<close>). \<^verbatim>\<open>new URL\<close> and \<^verbatim>\<open>URLSearchParams.toString\<close> are parameters: a parser that
  gives the parts of a URL or \<^const>\<open>None\<close> when it throws, and the encoding of a query.
\<close>

record js_url =
  u_protocol :: string
  u_hostname :: string
  u_host :: string
  u_username :: string
  u_password :: string
  u_port :: string
  u_pathname :: string
  u_params :: "(string \<times> string) list"
  u_hash :: string

definition ROUTES_servers :: string where "ROUTES_servers = ''/servers''"
definition ROUTES_login :: string where "ROUTES_login = ''/login''"

section \<open>Invite links\<close>

definition invite_code_char :: "char \<Rightarrow> bool" where
  "invite_code_char c \<longleftrightarrow> is_ascii_letter c \<or> is_digit c \<or> c = CHR ''_'' \<or> c = CHR ''-''"

text \<open>\<^verbatim>\<open>/^\/invite\/([A-Za-z0-9_-]{1,32})\/?$/\<close>.\<close>

definition match_invite_path :: "string \<Rightarrow> string option" where
  "match_invite_path path =
     (if \<not> starts_with ''/invite/'' path then None
      else let rest = drop 8 path; code = takeWhile invite_code_char rest; tail = dropWhile invite_code_char rest
        in if code \<noteq> [] \<and> length code \<le> 32 \<and> (tail = [] \<or> tail = ''/'') then Some code else None)"

text \<open>From the configured address of the server, \<^const>\<open>None\<close> where the code has \<^verbatim>\<open>null\<close>.\<close>

definition deriveInviteBaseFromApiEnv :: "(string \<Rightarrow> js_url option) \<Rightarrow> string option \<Rightarrow> string option" where
  "deriveInviteBaseFromApiEnv parse apiUrl =
     (let apiRaw = js_trim (nullish apiUrl []) in
      if apiRaw = [] then None
      else case parse apiRaw of
        None \<Rightarrow> None
      | Some api \<Rightarrow>
          let host = js_lower (u_hostname api) in
          if host = ''localhost'' \<or> host = ''127.0.0.1'' then Some ''http://localhost:5173''
          else if starts_with ''api.'' host then Some (u_protocol api @ ''//'' @ drop 4 host)
          else Some (u_protocol api @ ''//'' @ u_host api))"

text \<open>The page's origin and host in a browser build, \<^const>\<open>None\<close> in the desktop app.\<close>

definition resolveInviteBaseUrl ::
  "(string \<Rightarrow> js_url option) \<Rightarrow> string option \<Rightarrow> (string \<times> string) option \<Rightarrow> string" where
  "resolveInviteBaseUrl parse apiUrl page =
     (case page of
        Some (origin, _) \<Rightarrow> origin
      | None \<Rightarrow> nullish (deriveInviteBaseFromApiEnv parse apiUrl) ''https://voxpery.com'')"

definition allowed_hosts :: "js_url \<Rightarrow> (string \<times> string) option \<Rightarrow> string list" where
  "allowed_hosts base page =
     [u_host base, ''www.'' @ u_host base] @ (case page of Some (_, host) \<Rightarrow> [host] | None \<Rightarrow> [])"

text \<open>\<^const>\<open>Inl\<close>: the base address does not parse and the constructor's error is passed on.\<close>

definition parseInviteLinkCode ::
  "(string \<Rightarrow> js_url option) \<Rightarrow> string option \<Rightarrow> (string \<times> string) option \<Rightarrow> string \<Rightarrow> unit + string option" where
  "parseInviteLinkCode parse apiUrl page url =
     (case parse url of
        None \<Rightarrow> Inr None
      | Some parsed \<Rightarrow>
          if u_protocol parsed \<noteq> ''https:'' \<and> u_protocol parsed \<noteq> ''http:'' then Inr None
          else if u_username parsed \<noteq> [] \<or> u_password parsed \<noteq> [] then Inr None
          else case parse (resolveInviteBaseUrl parse apiUrl page) of
            None \<Rightarrow> Inl ()
          | Some base \<Rightarrow>
              if u_host parsed \<notin> set (allowed_hosts base page) \<or> u_protocol parsed \<noteq> u_protocol base then Inr None
              else Inr (match_invite_path (u_pathname parsed)))"

lemma match_invite_path_sound:
  "match_invite_path path = Some code \<Longrightarrow>
     code \<noteq> [] \<and> length code \<le> 32 \<and> list_all invite_code_char code
     \<and> (path = ''/invite/'' @ code \<or> path = ''/invite/'' @ code @ ''/'')"
proof -
  assume a: "match_invite_path path = Some code"
  then have s: "starts_with ''/invite/'' path" by (simp add: match_invite_path_def split: if_splits)
  then obtain rest where p: "path = ''/invite/'' @ rest" by (auto simp: starts_with_iff)
  with a s have "code = takeWhile invite_code_char rest" "code \<noteq> []" "length code \<le> 32"
    "dropWhile invite_code_char rest = [] \<or> dropWhile invite_code_char rest = ''/''"
    by (auto simp: match_invite_path_def Let_def split: if_splits)
  moreover from this have "rest = code \<or> rest = code @ ''/''"
    by (metis append.right_neutral takeWhile_dropWhile_id)
  ultimately show ?thesis using p by (auto simp: list_all_iff dest: set_takeWhileD)
qed

lemma match_invite_path_complete:
  assumes "code \<noteq> []" "length code \<le> 32" "list_all invite_code_char code"
  shows "match_invite_path (''/invite/'' @ code) = Some code" "match_invite_path (''/invite/'' @ code @ ''/'') = Some code"
proof -
  have "\<not> invite_code_char (CHR ''/'')" by (simp add: invite_code_char_def is_ascii_letter_def is_digit_def char_code_def)
  moreover have tw: "takeWhile invite_code_char code = code" "dropWhile invite_code_char code = []"
    using assms(3) by (simp_all add: list_all_iff)
  ultimately show "match_invite_path (''/invite/'' @ code) = Some code" "match_invite_path (''/invite/'' @ code @ ''/'') = Some code"
    using assms by (auto simp: match_invite_path_def starts_with_def list_all_iff takeWhile_append2 dropWhile_append2 Let_def tw)
qed

lemma invite_link_own_host:
  assumes "parseInviteLinkCode parse apiUrl page url = Inr (Some code)"
  shows "\<exists>parsed base. parse url = Some parsed \<and> parse (resolveInviteBaseUrl parse apiUrl page) = Some base
     \<and> u_host parsed \<in> set (allowed_hosts base page) \<and> u_protocol parsed = u_protocol base
     \<and> u_username parsed = [] \<and> u_password parsed = [] \<and> match_invite_path (u_pathname parsed) = Some code"
  using assms by (auto simp: parseInviteLinkCode_def split: option.splits if_splits)

section \<open>The page to return to\<close>

definition resolvePostAuthRoute :: "string option \<Rightarrow> string" where
  "resolvePostAuthRoute redirectTo = or_str redirectTo ROUTES_servers"

definition googleOAuthErrorMessage :: "string option \<Rightarrow> string" where
  "googleOAuthErrorMessage error =
     (if error = Some ''oauth_cancelled'' then ''Google sign-in was cancelled. Try again when you are ready.''
      else if error = Some ''oauth_failed_csrf'' then
        ''Your Google sign-in session expired or could not be verified. Please try again.''
      else if error = Some ''oauth_unverified_email'' then
        ''Google did not verify your email address. Use a verified Google account or email/password.''
      else if error = Some ''oauth_failed'' then ''Sign in with Google failed. Try again or use email/password.''
      else [])"

definition EXPIRED_SESSION_KEY :: string where "EXPIRED_SESSION_KEY = ''voxpery-expired-session-return''"

definition AUTH_PAGE_PATHS :: "string list" where
  "AUTH_PAGE_PATHS = [''/login'', ''/register'', ''/forgot-password'', ''/reset-password'']"

definition isReturnablePath :: "string \<Rightarrow> bool" where
  "isReturnablePath path \<longleftrightarrow>
     starts_with ''/'' path \<and> \<not> starts_with ''//'' path \<and> path \<noteq> ''/''
     \<and> \<not> list_ex (\<lambda>a. path = a \<or> starts_with (a @ ''?'') path \<or> starts_with (a @ ''/'') path) AUTH_PAGE_PATHS"

definition rememberExpiredSession :: "string \<Rightarrow> string web_storage \<Rightarrow> string web_storage" where
  "rememberExpiredSession path st = try_set EXPIRED_SESSION_KEY (if isReturnablePath path then path else []) st"

text \<open>\<^const>\<open>None\<close>: no notice; otherwise the page to reopen, if there is one.\<close>

definition takeExpiredSession :: "string web_storage \<Rightarrow> string option option \<times> string web_storage" where
  "takeExpiredSession st =
     (case get_item EXPIRED_SESSION_KEY st of
        Inl _ \<Rightarrow> (None, st)
      | Inr None \<Rightarrow> (None, st)
      | Inr (Some v) \<Rightarrow>
          (case remove_item EXPIRED_SESSION_KEY st of
             Inl _ \<Rightarrow> (None, st)
           | Inr st' \<Rightarrow> (Some (if isReturnablePath v then Some v else None), st')))"

lemma return_page_safe: "fst (takeExpiredSession st) = Some (Some path) \<Longrightarrow> isReturnablePath path"
  by (auto simp: takeExpiredSession_def split: sum.splits option.splits if_splits)

lemma return_page_once:
  assumes "storage_works st"
  shows "fst (takeExpiredSession (rememberExpiredSession path st)) = Some (if isReturnablePath path then Some path else None)"
    "fst (takeExpiredSession (snd (takeExpiredSession (rememberExpiredSession path st)))) = None"
proof -
  have "\<not> isReturnablePath []" by (simp add: isReturnablePath_def starts_with_def)
  then show "fst (takeExpiredSession (rememberExpiredSession path st)) = Some (if isReturnablePath path then Some path else None)"
    "fst (takeExpiredSession (snd (takeExpiredSession (rememberExpiredSession path st)))) = None"
    using assms
    by (auto simp: takeExpiredSession_def rememberExpiredSession_def try_set_def set_item_def get_item_def remove_item_def
        storage_works_def obj_get_put obj_get_del)
qed

section \<open>Desktop sign-in\<close>

definition is_oauth_code :: "string \<Rightarrow> bool" where
  "is_oauth_code s \<longleftrightarrow> length s = 32 \<and> list_all (\<lambda>c. is_digit c \<or> lower_char c \<in> {CHR ''a'', CHR ''b'', CHR ''c'', CHR ''d'', CHR ''e'', CHR ''f''}) s"

record oauth_link =
  ol_code :: "string option"
  ol_error :: "string option"
  ol_redirect :: string

definition param :: "string \<Rightarrow> js_url \<Rightarrow> string option" where
  "param k u = map_of (u_params u) k"

definition resolveDesktopRedirect :: "((string \<times> string) list \<Rightarrow> string) \<Rightarrow> js_url \<Rightarrow> string" where
  "resolveDesktopRedirect encode u =
     (let search = filter (\<lambda>(k, _). k \<noteq> ''code'' \<and> k \<noteq> ''error'') (u_params u);
          suffix0 = (if search \<noteq> [] then CHR ''?'' # encode search else []);
          candidate = or_str (Some (u_pathname u)) ''/'' @ suffix0 @ u_hash u
      in if \<not> starts_with ''/'' candidate \<or> starts_with ''//'' candidate then resolvePostAuthRoute None
         else if candidate = ''/'' then resolvePostAuthRoute None else resolvePostAuthRoute (Some candidate))"

text \<open>\<^verbatim>\<open>?.trim() || null\<close>.\<close>

definition trimmed_param :: "string \<Rightarrow> js_url \<Rightarrow> string option" where
  "trimmed_param k u =
     (case param k u of None \<Rightarrow> None | Some v \<Rightarrow> let t = js_trim v in if t = [] then None else Some t)"

definition parseDesktopOAuthDeepLink ::
  "(string \<Rightarrow> js_url option) \<Rightarrow> ((string \<times> string) list \<Rightarrow> string) \<Rightarrow> string \<Rightarrow> oauth_link option" where
  "parseDesktopOAuthDeepLink parse encode url =
     (case parse url of
        None \<Rightarrow> None
      | Some u \<Rightarrow>
          if u_protocol u \<noteq> ''voxpery:'' \<or> u_hostname u \<noteq> ''auth'' \<or> u_username u \<noteq> [] \<or> u_password u \<noteq> []
            \<or> u_port u \<noteq> [] then None
          else let code = trimmed_param ''code'' u; error = trimmed_param ''error'' u in
            if code \<noteq> None \<and> \<not> is_oauth_code (the code) then None
            else if code = None \<and> error = None then None
            else Some \<lparr>ol_code = code, ol_error = error, ol_redirect = resolveDesktopRedirect encode u\<rparr>)"

definition oauthFailureRoute :: "((string \<times> string) list \<Rightarrow> string) \<Rightarrow> string \<Rightarrow> string option \<Rightarrow> string" where
  "oauthFailureRoute encode redirectTo error =
     ROUTES_login @ ''?'' @ encode
       [(''error'', if googleOAuthErrorMessage error \<noteq> [] then the error else ''oauth_failed''),
        (''redirect'', redirectTo)]"

text \<open>
  The handler's state: the codes it has seen, the exchanges it has asked for and those not answered
  (with the page to open), the pages opened, and the stored verifier.
\<close>

datatype oauth_event = ReturnReceived | ReturnSucceeded | ReturnFailed

record oauth_state =
  oa_handled :: "string list"
  oa_exchanged :: "string list"
  oa_pending :: "(string \<times> string) list"
  oa_navigated :: "string list"
  oa_verifier :: "string option"
  oa_events :: "oauth_event list"

definition init_oauth :: "string option \<Rightarrow> oauth_state" where
  "init_oauth verifier = \<lparr>oa_handled = [], oa_exchanged = [], oa_pending = [], oa_navigated = [],
     oa_verifier = verifier, oa_events = []\<rparr>"

definition fail_sign_in :: "((string \<times> string) list \<Rightarrow> string) \<Rightarrow> string \<Rightarrow> string option \<Rightarrow> oauth_state \<Rightarrow> oauth_state" where
  "fail_sign_in encode redirectTo error s =
     s\<lparr>oa_events := oa_events s @ [ReturnFailed],
       oa_navigated := oa_navigated s @ [oauthFailureRoute encode redirectTo error]\<rparr>"

definition handle_link ::
  "(string \<Rightarrow> js_url option) \<Rightarrow> ((string \<times> string) list \<Rightarrow> string) \<Rightarrow> string \<Rightarrow> oauth_state \<Rightarrow> oauth_state \<times> bool" where
  "handle_link parse encode url s =
     (case parseDesktopOAuthDeepLink parse encode url of
        None \<Rightarrow> (s, False)
      | Some l \<Rightarrow>
          (case (ol_error l, ol_code l) of
             (None, Some code) \<Rightarrow>
               if code \<in> set (oa_handled s) then (s, True)
               else let s1 = s\<lparr>oa_handled := code # oa_handled s, oa_events := oa_events s @ [ReturnReceived]\<rparr> in
                 if \<not> truthy_str (oa_verifier s) then (fail_sign_in encode (ol_redirect l) None s1, True)
                 else (s1\<lparr>oa_exchanged := oa_exchanged s @ [code], oa_pending := oa_pending s @ [(code, ol_redirect l)]\<rparr>, True)
           | _ \<Rightarrow> (fail_sign_in encode (ol_redirect l) (ol_error l)
                   (s\<lparr>oa_events := oa_events s @ [ReturnReceived]\<rparr>), True)))"

text \<open>The exchange and the storing of the session are answered: both done, or one of them failed.\<close>

definition exchange_answered ::
  "((string \<times> string) list \<Rightarrow> string) \<Rightarrow> string \<times> string \<Rightarrow> bool \<Rightarrow> oauth_state \<Rightarrow> oauth_state" where
  "exchange_answered encode p success s =
     (let s1 = s\<lparr>oa_pending := remove1 p (oa_pending s), oa_verifier := None\<rparr> in
      if success then s1\<lparr>oa_events := oa_events s1 @ [ReturnSucceeded], oa_navigated := oa_navigated s1 @ [snd p]\<rparr>
      else fail_sign_in encode (snd p) None s1)"

inductive oauth_step ::
  "(string \<Rightarrow> js_url option) \<Rightarrow> ((string \<times> string) list \<Rightarrow> string) \<Rightarrow> oauth_state \<Rightarrow> oauth_state \<Rightarrow> bool"
  for parse encode where
  link: "oauth_step parse encode s (fst (handle_link parse encode url s))"
| answer: "p \<in> set (oa_pending s) \<Longrightarrow> oauth_step parse encode s (exchange_answered encode p b s)"
| new_verifier: "oauth_step parse encode s (s\<lparr>oa_verifier := v\<rparr>)"

inductive_cases oauth_stepE: "oauth_step parse encode s s'"

definition desktopSignInCodeUrl ::
  "(string \<Rightarrow> js_url option) \<Rightarrow> ((string \<times> string) list \<Rightarrow> string) \<Rightarrow> string \<Rightarrow> string option" where
  "desktopSignInCodeUrl parse encode input =
     (let value = js_trim input in
      if starts_with ''voxpery://'' (js_lower value) then
        (case parseDesktopOAuthDeepLink parse encode value of
           None \<Rightarrow> None | Some l \<Rightarrow> if ol_code l \<noteq> None then Some value else None)
      else if is_oauth_code value then Some (''voxpery://auth/?code='' @ js_lower value) else None)"

datatype code_submission = InvalidCode | HandlerUnavailable | Submitted

definition submitDesktopSignInCode ::
  "(string \<Rightarrow> js_url option) \<Rightarrow> ((string \<times> string) list \<Rightarrow> string) \<Rightarrow> bool \<Rightarrow> string \<Rightarrow> code_submission \<times> string list" where
  "submitDesktopSignInCode parse encode hasHandler input =
     (case desktopSignInCodeUrl parse encode input of
        None \<Rightarrow> (InvalidCode, [])
      | Some url \<Rightarrow> if \<not> hasHandler then (HandlerUnavailable, []) else (Submitted, [url]))"

text \<open>
  Registration: two listeners, then the links that arrived before. Each source may fail, which is
  reported and does not keep the others from being asked; a handler that throws ends its own list.
  The result: the listeners to remove later, the links handled, and the number of errors reported.
\<close>

fun handle_all :: "(string \<Rightarrow> bool) \<Rightarrow> string list \<Rightarrow> string list \<times> nat" where
  "handle_all throws [] = ([], 0)"
| "handle_all throws (u # us) =
     (if throws u then ([u], 1) else let (handled, errors) = handle_all throws us in (u # handled, errors))"

definition registerDesktopOAuthDeepLinks ::
  "bool \<Rightarrow> bool \<Rightarrow> string list option \<Rightarrow> string list option option \<Rightarrow> (string \<Rightarrow> bool) \<Rightarrow> nat \<times> string list \<times> nat" where
  "registerDesktopOAuthDeepLinks onOpenUrl listenCustom pendingUrls current throws =
     (let listeners = (if onOpenUrl then 1 else 0) + (if listenCustom then 1 else 0);
          (h1, e1) = (case pendingUrls of None \<Rightarrow> ([], 1) | Some us \<Rightarrow> handle_all throws us);
          (h2, e2) = (case current of None \<Rightarrow> ([], 1) | Some us \<Rightarrow> handle_all throws (nullish us []))
      in (listeners, h1 @ h2, (2 - listeners) + e1 + e2))"

section \<open>Lemmas: desktop sign-in\<close>

text \<open>A page of this app: its path starts with one slash.\<close>

definition in_app :: "string \<Rightarrow> bool" where
  "in_app path \<longleftrightarrow> starts_with ''/'' path \<and> \<not> starts_with ''//'' path"

lemma in_app_route: "in_app ROUTES_servers" "in_app (ROUTES_login @ ''?'' @ q)"
  "in_app (ROUTES_login @ CHR ''?'' # q)"
  by (simp_all add: in_app_def starts_with_def ROUTES_servers_def ROUTES_login_def)

lemma redirect_in_app: "in_app (resolveDesktopRedirect encode u)"
proof -
  have n: "candidate \<noteq> []" if "starts_with ''/'' candidate" for candidate using that by (auto simp: starts_with_def)
  show ?thesis
    using in_app_route(1) n
    by (auto simp: resolveDesktopRedirect_def Let_def resolvePostAuthRoute_def or_str_def in_app_def)
qed

lemma link_redirect_in_app: "parseDesktopOAuthDeepLink parse encode url = Some l \<Longrightarrow> in_app (ol_redirect l)"
  by (auto simp: parseDesktopOAuthDeepLink_def Let_def redirect_in_app split: option.splits if_splits)

definition oauth_inv :: "oauth_state \<Rightarrow> bool" where
  "oauth_inv s \<longleftrightarrow> distinct (oa_exchanged s) \<and> set (oa_exchanged s) \<subseteq> set (oa_handled s)
     \<and> list_all in_app (oa_navigated s) \<and> (\<forall>(c, r) \<in> set (oa_pending s). in_app r)"

lemma fail_inv: "oauth_inv s \<Longrightarrow> oauth_inv (fail_sign_in encode r e s)"
  by (simp add: oauth_inv_def fail_sign_in_def oauthFailureRoute_def in_app_route)

lemma handle_inv: "oauth_inv s \<Longrightarrow> oauth_inv (fst (handle_link parse encode url s))"
proof -
  assume a: "oauth_inv s"
  have ev: "oauth_inv (s\<lparr>oa_events := es\<rparr>)" "oauth_inv (s\<lparr>oa_handled := c # oa_handled s, oa_events := es\<rparr>)" for es c
    using a by (auto simp: oauth_inv_def)
  show ?thesis
  proof (cases "parseDesktopOAuthDeepLink parse encode url")
    case None
    with a show ?thesis by (simp add: handle_link_def)
  next
    case (Some l)
    have r: "in_app (ol_redirect l)" using link_redirect_in_app[OF Some] .
    show ?thesis
    proof (cases "ol_error l = None \<and> ol_code l \<noteq> None")
      case True
      then obtain code where "ol_error l = None" "ol_code l = Some code" by auto
      with a r Some fail_inv[OF ev(2)] show ?thesis
        by (auto simp: handle_link_def Let_def oauth_inv_def)
    next
      case False
      with Some fail_inv[OF ev(1)] show ?thesis
        by (cases "ol_error l"; cases "ol_code l") (simp_all add: handle_link_def)
    qed
  qed
qed

lemma answer_inv: "oauth_inv s \<Longrightarrow> p \<in> set (oa_pending s) \<Longrightarrow> oauth_inv (exchange_answered encode p b s)"
proof -
  assume a: "oauth_inv s" "p \<in> set (oa_pending s)"
  let ?s = "s\<lparr>oa_pending := remove1 p (oa_pending s), oa_verifier := None\<rparr>"
  have "oauth_inv ?s" using a(1) set_remove1_subset[of p "oa_pending s"] by (auto simp: oauth_inv_def)
  moreover have "in_app (snd p)" using a by (auto simp: oauth_inv_def split_beta)
  ultimately show ?thesis
    using fail_inv[of ?s] by (auto simp: exchange_answered_def Let_def) (simp add: oauth_inv_def)
qed

lemma oauth_step_inv: "oauth_step parse encode s s' \<Longrightarrow> oauth_inv s \<Longrightarrow> oauth_inv s'"
  by (erule oauth_stepE) (auto intro: handle_inv answer_inv, simp add: oauth_inv_def)

lemma oauth_reachable_inv: "(oauth_step parse encode)\<^sup>*\<^sup>* (init_oauth v) s \<Longrightarrow> oauth_inv s"
proof (induction rule: rtranclp_induct)
  case base
  show ?case by (simp add: oauth_inv_def init_oauth_def)
qed (auto intro: oauth_step_inv)

end
