(* ===== verification/DesktopUpdates.thy ===== *)
theory DesktopUpdates
  imports WebStorage
begin

text \<open>
  The desktop app's own settings and updates: \<^verbatim>\<open>src/desktopSettings.ts\<close> and \<^verbatim>\<open>src/updater.ts\<close>. The native
  store, the autostart plugin and the updater plugin are parameters: what they answer, and whether they
  throw. The keyring-like native store is a \<^typ>\<open>string web_storage\<close>, whose reads and writes may throw.
\<close>

section \<open>Boolean settings\<close>

definition MINIMIZE_TO_TRAY_ON_CLOSE_KEY :: string where
  "MINIMIZE_TO_TRAY_ON_CLOSE_KEY = ''voxpery-settings-minimize-to-tray-on-close''"
definition AUTOSTART_PREFERENCE_KEY :: string where
  "AUTOSTART_PREFERENCE_KEY = ''voxpery-settings-autostart-preference''"

definition bool_text :: "bool \<Rightarrow> string" where
  "bool_text b = (if b then ''1'' else ''0'')"

definition normalizeBoolValue :: "string option \<Rightarrow> bool option" where
  "normalizeBoolValue value =
     (if value = Some ''1'' then Some True else if value = Some ''0'' then Some False else None)"

definition readOptionalBoolSetting :: "string \<Rightarrow> string web_storage \<Rightarrow> bool option" where
  "readOptionalBoolSetting key st =
     (case get_item key st of Inl _ \<Rightarrow> None | Inr v \<Rightarrow> normalizeBoolValue v)"

definition readBoolSetting :: "string \<Rightarrow> bool \<Rightarrow> string web_storage \<Rightarrow> bool" where
  "readBoolSetting key fallback st = nullish (readOptionalBoolSetting key st) fallback"

definition writeLocalBoolSetting :: "string \<Rightarrow> bool \<Rightarrow> string web_storage \<Rightarrow> string web_storage" where
  "writeLocalBoolSetting key enabled st = try_set key (bool_text enabled) st"

definition getStoredMinimizeToTrayOnCloseEnabled :: "string web_storage \<Rightarrow> bool" where
  "getStoredMinimizeToTrayOnCloseEnabled = readBoolSetting MINIMIZE_TO_TRAY_ON_CLOSE_KEY True"

text \<open>The desktop side: whether this is the desktop app, its stores, the install channel (\<^const>\<open>None\<close>
  when asking for it throws) and the system's autostart entry.\<close>

record desktop =
  dt_tauri :: bool
  dt_local :: "string web_storage"
  dt_native :: "string web_storage"
  dt_channel :: "string option"
  dt_autostart :: bool

definition readNativeBoolSetting :: "string \<Rightarrow> desktop \<Rightarrow> bool option" where
  "readNativeBoolSetting key d = (if \<not> dt_tauri d then None else readOptionalBoolSetting key (dt_native d))"

definition writeNativeBoolSetting :: "string \<Rightarrow> bool \<Rightarrow> desktop \<Rightarrow> desktop" where
  "writeNativeBoolSetting key enabled d =
     (if \<not> dt_tauri d then d else d\<lparr>dt_native := writeLocalBoolSetting key enabled (dt_native d)\<rparr>)"

definition getDesktopAutostartEnabled :: "desktop \<Rightarrow> bool" where
  "getDesktopAutostartEnabled d \<longleftrightarrow> dt_tauri d \<and> dt_autostart d"

definition setDesktopAutostartEnabled :: "bool \<Rightarrow> desktop \<Rightarrow> desktop" where
  "setDesktopAutostartEnabled enabled d = (if \<not> dt_tauri d then d else d\<lparr>dt_autostart := enabled\<rparr>)"

text \<open>A preference that only local storage has is copied to the native store.\<close>

definition getStoredDesktopAutostartPreference :: "desktop \<Rightarrow> desktop \<times> bool option" where
  "getStoredDesktopAutostartPreference d =
     (case readNativeBoolSetting AUTOSTART_PREFERENCE_KEY d of
        Some v \<Rightarrow> (d, Some v)
      | None \<Rightarrow>
          (case readOptionalBoolSetting AUTOSTART_PREFERENCE_KEY (dt_local d) of
             Some v \<Rightarrow> (writeNativeBoolSetting AUTOSTART_PREFERENCE_KEY v d, Some v)
           | None \<Rightarrow> (d, None)))"

definition isDesktopAutostartSupported :: "desktop \<Rightarrow> bool" where
  "isDesktopAutostartSupported d \<longleftrightarrow> dt_tauri d \<and> nullish (dt_channel d) ''app'' \<noteq> ''flatpak''"

definition shouldEnableDesktopAutostartByDefault :: "desktop \<Rightarrow> desktop \<times> bool" where
  "shouldEnableDesktopAutostartByDefault d =
     (if \<not> dt_tauri d \<or> \<not> isDesktopAutostartSupported d then (d, False)
      else let (d', pref) = getStoredDesktopAutostartPreference d in (d', pref = None))"

definition setStoredDesktopAutostartPreference :: "bool \<Rightarrow> desktop \<Rightarrow> desktop" where
  "setStoredDesktopAutostartPreference enabled d =
     writeNativeBoolSetting AUTOSTART_PREFERENCE_KEY enabled
       (d\<lparr>dt_local := writeLocalBoolSetting AUTOSTART_PREFERENCE_KEY enabled (dt_local d)\<rparr>)"

definition bootstrapDesktopAutostartDefault :: "desktop \<Rightarrow> desktop \<times> bool option" where
  "bootstrapDesktopAutostartDefault d =
     (let (d1, should) = shouldEnableDesktopAutostartByDefault d in
      if \<not> should then (d1, None)
      else let d2 = (if \<not> getDesktopAutostartEnabled d1 then setDesktopAutostartEnabled True d1 else d1)
        in (setStoredDesktopAutostartPreference True d2, Some True))"

definition getDesktopStartupTargetLabel :: "string option \<Rightarrow> string" where
  "getDesktopStartupTargetLabel userAgent0 =
     (case userAgent0 of None \<Rightarrow> ''your computer starts''
      | Some ua \<Rightarrow>
          let userAgent = js_lower ua in
          if includes_str ''mac'' userAgent then ''macOS starts''
          else if includes_str ''linux'' userAgent then ''Linux starts''
          else if includes_str ''windows'' userAgent then ''Windows starts'' else ''your computer starts'')"

lemma bool_read_write: "normalizeBoolValue (Some (bool_text b)) = Some b"
  by (simp add: normalizeBoolValue_def bool_text_def)

definition parse_bool_text :: "string \<Rightarrow> bool option" where
  "parse_bool_text t = normalizeBoolValue (Some t)"

interpretation tray_setting: stored_setting get_or_none try_set storage_works MINIMIZE_TO_TRAY_ON_CLOSE_KEY
    bool_text parse_bool_text True
  by unfold_locales (simp add: parse_bool_text_def bool_read_write)

lemma tray_load: "getStoredMinimizeToTrayOnCloseEnabled st = tray_setting.load st"
  by (simp add: getStoredMinimizeToTrayOnCloseEnabled_def readBoolSetting_def readOptionalBoolSetting_def
      tray_setting.load_def get_or_none_def parse_bool_text_def split: sum.split option.split)
    (simp add: normalizeBoolValue_def)

lemma readOptional_write:
  "storage_works st \<Longrightarrow> readOptionalBoolSetting key (writeLocalBoolSetting key b st) = Some b"
  by (simp add: readOptionalBoolSetting_def writeLocalBoolSetting_def try_set_def set_item_def get_item_def
      storage_works_def obj_get_put bool_read_write)

text \<open>A choice that was recorded, on or off, is what a later start finds: the default is applied at most once.\<close>

lemma stored_choice_found:
  assumes "storage_works (dt_native d) \<or> storage_works (dt_local d) \<and> \<not> readable (dt_native d)" "dt_tauri d"
  shows "snd (getStoredDesktopAutostartPreference (setStoredDesktopAutostartPreference b d)) = Some b"
proof (cases "storage_works (dt_native d)")
  case True
  then show ?thesis
    using assms(2) by (simp add: getStoredDesktopAutostartPreference_def setStoredDesktopAutostartPreference_def
        readNativeBoolSetting_def writeNativeBoolSetting_def readOptional_write)
next
  case False
  with assms(1) have l: "storage_works (dt_local d)" and n: "\<not> readable (dt_native d)" by auto
  have "\<not> readable (writeLocalBoolSetting key b (dt_native d))" for key
    using n by (simp add: writeLocalBoolSetting_def try_set_def set_item_def)
  then have "readOptionalBoolSetting k (writeLocalBoolSetting key b (dt_native d)) = None" for k key
    by (simp add: readOptionalBoolSetting_def get_item_def)
  with l assms(2) show ?thesis
    by (simp add: getStoredDesktopAutostartPreference_def setStoredDesktopAutostartPreference_def
        readNativeBoolSetting_def writeNativeBoolSetting_def readOptional_write)
qed

lemma bootstrap_respects_choice:
  assumes "storage_works (dt_native d) \<or> storage_works (dt_local d) \<and> \<not> readable (dt_native d)" "dt_tauri d"
  shows "snd (bootstrapDesktopAutostartDefault (setStoredDesktopAutostartPreference b d)) = None"
    "dt_autostart (fst (bootstrapDesktopAutostartDefault (setStoredDesktopAutostartPreference b d))) = dt_autostart d"
proof -
  let ?d = "setStoredDesktopAutostartPreference b d"
  have keep: "dt_autostart ?d = dt_autostart d"
    by (simp add: setStoredDesktopAutostartPreference_def writeNativeBoolSetting_def)
  have same: "dt_autostart (fst (getStoredDesktopAutostartPreference x)) = dt_autostart x" for x
    by (simp add: getStoredDesktopAutostartPreference_def writeNativeBoolSetting_def split: option.split)
  note found = stored_choice_found[OF assms, of b]
  show "snd (bootstrapDesktopAutostartDefault ?d) = None" "dt_autostart (fst (bootstrapDesktopAutostartDefault ?d)) = dt_autostart d"
    using found keep same[of ?d]
    by (auto simp: bootstrapDesktopAutostartDefault_def shouldEnableDesktopAutostartByDefault_def split: prod.split)
qed

section \<open>Looking for an update\<close>

datatype update_channel = Flatpak | Pacman

record desktop_update =
  up_version :: string
  up_body :: "string option"
  up_date :: "string option"

datatype update_result =
  NotAvailable
| CheckFailed
| ManagedExternally update_channel
| Available desktop_update

definition externalUpdateChannel :: "string option \<Rightarrow> update_channel option" where
  "externalUpdateChannel answer =
     (let channel = nullish answer ''app'' in
      if channel = ''flatpak'' then Some Flatpak else if channel = ''pacman'' then Some Pacman else None)"

text \<open>The result and the status events sent to the page.\<close>

definition checkForUpdatesWithRuntime ::
  "bool \<Rightarrow> update_channel option \<Rightarrow> unit + desktop_update option \<Rightarrow> update_result \<times> update_result list" where
  "checkForUpdatesWithRuntime isDesktop managedBy answer =
     (if \<not> isDesktop then (NotAvailable, [])
      else case managedBy of
        Some c \<Rightarrow> (ManagedExternally c, [])
      | None \<Rightarrow>
          (case answer of
             Inl _ \<Rightarrow> (CheckFailed, [CheckFailed])
           | Inr None \<Rightarrow> (NotAvailable, [NotAvailable])
           | Inr (Some u) \<Rightarrow> (Available u, [Available u])))"

section \<open>Progress of the download\<close>

datatype update_progress = Downloading "nat option" | Installing

datatype download_event = DownloadStarted "nat option" | DownloadChunk nat | DownloadFinished

record reporter =
  rep_total :: nat
  rep_received :: nat
  rep_last :: "nat option"
  rep_reported :: "nat option list"

text \<open>\<open>rep_reported\<close>: the percentages told so far, newest first; \<^const>\<open>None\<close> when the size is unknown.\<close>

definition init_reporter :: reporter where
  "init_reporter = \<lparr>rep_total = 0, rep_received = 0, rep_last = None, rep_reported = []\<rparr>"

fun report_progress :: "download_event \<Rightarrow> reporter \<Rightarrow> reporter" where
  "report_progress (DownloadStarted contentLength) r =
     (let total = nullish contentLength 0 in
      r\<lparr>rep_total := total, rep_reported := (if total \<noteq> 0 then Some 0 else None) # rep_reported r\<rparr>)"
| "report_progress (DownloadChunk chunkLength) r =
     (if rep_total r = 0 then r
      else let received = rep_received r + chunkLength; percent = min 100 (received * 100 div rep_total r) in
        if Some percent \<noteq> rep_last r
        then r\<lparr>rep_received := received, rep_last := Some percent, rep_reported := Some percent # rep_reported r\<rparr>
        else r\<lparr>rep_received := received\<rparr>)"
| "report_progress DownloadFinished r = r"

definition run_download :: "nat option \<Rightarrow> nat list \<Rightarrow> reporter" where
  "run_download contentLength chunks =
     fold (\<lambda>c r. report_progress (DownloadChunk c) r) chunks (report_progress (DownloadStarted contentLength) init_reporter)"

text \<open>The labels end in three dots here; the code has the single character, which is outside Latin-1.\<close>

fun updateProgressLabel :: "update_progress option \<Rightarrow> string" where
  "updateProgressLabel (Some Installing) = ''Installing...''"
| "updateProgressLabel (Some (Downloading (Some p))) = ''Downloading '' @ nat_str p @ ''%''"
| "updateProgressLabel (Some (Downloading None)) = ''Downloading...''"
| "updateProgressLabel None = ''Downloading...''"

text \<open>The percentages never fall and stay within 100; after the first two every report is new.\<close>

definition percents :: "reporter \<Rightarrow> nat list" where
  "percents r = map the (rep_reported r)"

definition reporter_ok :: "reporter \<Rightarrow> bool" where
  "reporter_ok r \<longleftrightarrow>
     rep_total r \<noteq> 0 \<and> None \<notin> set (rep_reported r) \<and> rep_reported r \<noteq> []
     \<and> sorted_wrt (\<ge>) (percents r) \<and> hd (percents r) \<le> min 100 (rep_received r * 100 div rep_total r)
     \<and> (case rep_last r of None \<Rightarrow> percents r = [0] | Some l \<Rightarrow> hd (percents r) = l)"

lemma report_chunk_ok: "reporter_ok r \<Longrightarrow> reporter_ok (report_progress (DownloadChunk c) r)"
proof -
  assume a: "reporter_ok r"
  have grow: "min 100 (rep_received r * 100 div rep_total r) \<le> min 100 ((rep_received r + c) * 100 div rep_total r)"
    by (intro min.mono order_refl div_le_mono) simp
  have ge: "\<forall>x \<in> set (percents r). x \<le> min 100 ((rep_received r + c) * 100 div rep_total r)"
  proof (cases "percents r")
    case (Cons p ps)
    with a grow show ?thesis by (force simp: reporter_ok_def)
  qed simp
  define percent where "percent = min 100 ((rep_received r + c) * 100 div rep_total r)"
  let ?r = "report_progress (DownloadChunk c) r"
  have total: "rep_total r \<noteq> 0" using a by (simp add: reporter_ok_def)
  show ?thesis
  proof (cases "Some percent = rep_last r")
    case True
    then have "?r = r\<lparr>rep_received := rep_received r + c\<rparr>"
      using total by (simp add: Let_def percent_def)
    moreover have "percents (r\<lparr>rep_received := x\<rparr>) = percents r" for x by (simp add: percents_def)
    moreover have "hd (percents r) \<le> percent" using a grow unfolding reporter_ok_def percent_def by linarith
    ultimately show ?thesis using a
      by (simp add: reporter_ok_def percent_def del: report_progress.simps split: option.splits)
  next
    case False
    then have r: "?r = r\<lparr>rep_received := rep_received r + c, rep_last := Some percent,
        rep_reported := Some percent # rep_reported r\<rparr>"
      using total by (simp add: Let_def percent_def)
    have "percents (r\<lparr>rep_received := x, rep_last := Some percent, rep_reported := Some percent # rep_reported r\<rparr>)
        = percent # percents r" for x
      by (simp add: percents_def)
    with a ge[folded percent_def] show ?thesis
      unfolding r by (simp add: reporter_ok_def) (simp add: percent_def)
  qed
qed

lemma run_download_ok: "n \<noteq> 0 \<Longrightarrow> reporter_ok (run_download (Some n) chunks)"
proof -
  assume n: "n \<noteq> 0"
  have "reporter_ok (report_progress (DownloadStarted (Some n)) init_reporter)"
    using n by (simp add: reporter_ok_def percents_def init_reporter_def)
  then have "reporter_ok (fold (\<lambda>c r. report_progress (DownloadChunk c) r) chunks r)" if "reporter_ok r" for r
    using that by (induction chunks arbitrary: r) (simp_all del: report_progress.simps add: report_chunk_ok)
  with \<open>reporter_ok (report_progress (DownloadStarted (Some n)) init_reporter)\<close> show ?thesis
    unfolding run_download_def by blast
qed

lemma received_sum:
  "n \<noteq> 0 \<Longrightarrow> rep_received (run_download (Some n) chunks) = sum_list chunks"
proof -
  assume n: "n \<noteq> 0"
  have "rep_total r = n \<Longrightarrow> rep_received (fold (\<lambda>c r. report_progress (DownloadChunk c) r) chunks r) = rep_received r + sum_list chunks" for r
    by (induction chunks arbitrary: r) (use n in \<open>auto simp: Let_def\<close>)
  then show ?thesis using n by (simp add: run_download_def init_reporter_def)
qed

section \<open>Installing\<close>

datatype install_action = Download | TellInstalling | PrepareForInstall | Install | Relaunch

text \<open>The actions in order; the first that throws ends the run. The result: done or not, and what was done.\<close>

fun run_actions :: "(install_action \<Rightarrow> bool) \<Rightarrow> install_action list \<Rightarrow> bool \<times> install_action list" where
  "run_actions throws [] = (True, [])"
| "run_actions throws (a # as) =
     (if throws a then (False, [a]) else let (finished, done_so_far) = run_actions throws as in (finished, a # done_so_far))"

definition INSTALL_SEQUENCE :: "install_action list" where
  "INSTALL_SEQUENCE = [Download, TellInstalling, PrepareForInstall, Install, Relaunch]"

definition downloadAndInstallUpdateWithRuntime ::
  "bool \<Rightarrow> update_channel option \<Rightarrow> unit + desktop_update option \<Rightarrow> (install_action \<Rightarrow> bool) \<Rightarrow> bool \<times> install_action list" where
  "downloadAndInstallUpdateWithRuntime isDesktop managedBy answer throws =
     (if \<not> isDesktop \<or> managedBy \<noteq> None then (False, [])
      else case answer of
        Inr (Some _) \<Rightarrow> run_actions throws INSTALL_SEQUENCE
      | _ \<Rightarrow> (False, []))"

lemma run_actions_prefix:
  "prefix (snd (run_actions throws as)) as \<and> (\<forall>a \<in> set (butlast (snd (run_actions throws as))). \<not> throws a)"
  by (induction as) (auto split: prod.split)

text \<open>The window is made closable only after a finished download.\<close>

lemma prepare_after_download:
  assumes "downloadAndInstallUpdateWithRuntime isDesktop managedBy answer throws = (finished, done_so_far)"
    "PrepareForInstall \<in> set done_so_far"
  shows "\<not> throws Download \<and> hd done_so_far = Download \<and> managedBy = None \<and> isDesktop"
  using assms
  by (auto simp: downloadAndInstallUpdateWithRuntime_def INSTALL_SEQUENCE_def split: if_splits sum.splits option.splits)

end
