(* ===== verification/Telemetry.thy ===== *)
theory Telemetry
  imports JsText
begin

text \<open>
  Two small pieces of shared state around the session: the queue of anonymous events of
  \<^verbatim>\<open>src/observability.ts\<close> and the server's features of \<^verbatim>\<open>src/stores/features.ts\<close>.
\<close>

section \<open>Events\<close>

definition OBSERVABILITY_EVENT_CODES :: "string list" where
  "OBSERVABILITY_EVENT_CODES =
     [''frontend_session_started'', ''frontend_crash'', ''desktop_oauth_return_received'',
      ''desktop_oauth_return_succeeded'', ''desktop_oauth_return_failed'', ''desktop_oauth_setup_failed'',
      ''websocket_reconnect_started'', ''websocket_reconnect_succeeded'', ''websocket_reconnect_exhausted'',
      ''voice_join_started'', ''voice_join_succeeded'', ''voice_join_failed'', ''livekit_reconnect_started'',
      ''livekit_reconnect_succeeded'', ''livekit_disconnected'', ''media_microphone_started'',
      ''media_microphone_failed'', ''media_camera_started'', ''media_camera_failed'',
      ''media_screen_share_started'', ''media_screen_share_failed'']"

definition MAX_PENDING_EVENTS :: nat where "MAX_PENDING_EVENTS = 24"

definition isObservabilityEventCode :: "string \<Rightarrow> bool" where
  "isObservabilityEventCode value \<longleftrightarrow> value \<in> set OBSERVABILITY_EVENT_CODES"

datatype delivery_mode = DeliveryPending | DeliveryEnabled | DeliveryDisabled

record telemetry =
  tm_mode :: delivery_mode
  tm_pending :: "string list"
  tm_session_started :: bool
  tm_crash_reported :: bool
  tm_handlers :: bool
  tm_sent :: "string list"

text \<open>\<open>tm_sent\<close>: what was handed to the network, oldest first; failures there are ignored.\<close>

definition init_telemetry :: telemetry where
  "init_telemetry = \<lparr>tm_mode = DeliveryPending, tm_pending = [], tm_session_started = False,
     tm_crash_reported = False, tm_handlers = False, tm_sent = []\<rparr>"

definition reportObservabilityEvent :: "string \<Rightarrow> telemetry \<Rightarrow> telemetry" where
  "reportObservabilityEvent event t =
     (if \<not> isObservabilityEventCode event \<or> tm_mode t = DeliveryDisabled then t
      else if tm_mode t = DeliveryEnabled then t\<lparr>tm_sent := tm_sent t @ [event]\<rparr>
      else if length (tm_pending t) < MAX_PENDING_EVENTS then t\<lparr>tm_pending := tm_pending t @ [event]\<rparr>
      else t)"

definition configureObservability :: "bool \<Rightarrow> telemetry \<Rightarrow> telemetry" where
  "configureObservability enabled t =
     (let t1 = t\<lparr>tm_mode := if enabled then DeliveryEnabled else DeliveryDisabled\<rparr> in
      if \<not> enabled then t1\<lparr>tm_pending := []\<rparr>
      else let t2 = (if \<not> tm_session_started t1
                     then t1\<lparr>tm_session_started := True, tm_pending := ''frontend_session_started'' # tm_pending t1\<rparr>
                     else t1)
        in t2\<lparr>tm_pending := [], tm_sent := tm_sent t2 @ tm_pending t2\<rparr>)"

definition reportFrontendCrash :: "telemetry \<Rightarrow> telemetry" where
  "reportFrontendCrash t =
     (if tm_crash_reported t then t else reportObservabilityEvent ''frontend_crash'' (t\<lparr>tm_crash_reported := True\<rparr>))"

definition installGlobalObservabilityHandlers :: "telemetry \<Rightarrow> telemetry" where
  "installGlobalObservabilityHandlers t = t\<lparr>tm_handlers := True\<rparr>"

datatype telemetry_call = Report string | Configure bool | Crash | InstallHandlers

fun telemetry_step :: "telemetry_call \<Rightarrow> telemetry \<Rightarrow> telemetry" where
  "telemetry_step (Report e) t = reportObservabilityEvent e t"
| "telemetry_step (Configure b) t = configureObservability b t"
| "telemetry_step Crash t = reportFrontendCrash t"
| "telemetry_step InstallHandlers t = installGlobalObservabilityHandlers t"

definition run_telemetry :: "telemetry_call list \<Rightarrow> telemetry" where
  "run_telemetry calls = fold telemetry_step calls init_telemetry"

fun_cases telemetry_stepE: "telemetry_step c t = t'"

text \<open>Only known codes, a bounded queue, nothing waiting once the server has decided, nothing sent
  before it has allowed it.\<close>

definition telemetry_ok :: "telemetry \<Rightarrow> bool" where
  "telemetry_ok t \<longleftrightarrow>
     length (tm_pending t) \<le> MAX_PENDING_EVENTS
     \<and> (tm_mode t \<noteq> DeliveryPending \<longrightarrow> tm_pending t = [])
     \<and> (tm_mode t = DeliveryPending \<longrightarrow> tm_sent t = [] \<and> \<not> tm_session_started t)
     \<and> list_all isObservabilityEventCode (tm_pending t @ tm_sent t)"

lemma known_codes [simp]:
  "isObservabilityEventCode ''frontend_session_started''" "isObservabilityEventCode ''frontend_crash''"
  by (simp_all add: isObservabilityEventCode_def OBSERVABILITY_EVENT_CODES_def)

lemma report_ok: "telemetry_ok t \<Longrightarrow> telemetry_ok (reportObservabilityEvent e t)"
  by (cases "tm_mode t") (simp_all add: telemetry_ok_def reportObservabilityEvent_def)

lemma telemetry_step_ok: "telemetry_ok t \<Longrightarrow> telemetry_ok (telemetry_step c t)"
proof (cases c)
  case (Configure b)
  assume "telemetry_ok t"
  with Configure show ?thesis
    by (cases "tm_session_started t") (auto simp: telemetry_ok_def configureObservability_def Let_def)
next
  case Crash
  assume "telemetry_ok t"
  then have "telemetry_ok (t\<lparr>tm_crash_reported := True\<rparr>)" by (simp add: telemetry_ok_def)
  with Crash \<open>telemetry_ok t\<close> show ?thesis by (simp add: reportFrontendCrash_def report_ok)
next
  case InstallHandlers
  assume "telemetry_ok t"
  with InstallHandlers show ?thesis by (simp add: installGlobalObservabilityHandlers_def telemetry_ok_def)
qed (simp add: report_ok)

lemma run_telemetry_ok: "telemetry_ok (run_telemetry calls)"
proof -
  have "telemetry_ok (fold telemetry_step calls t)" if "telemetry_ok t" for t
    using that by (induction calls arbitrary: t) (simp_all add: telemetry_step_ok)
  moreover have "telemetry_ok init_telemetry" by (simp add: telemetry_ok_def init_telemetry_def)
  ultimately show ?thesis by (simp add: run_telemetry_def)
qed

text \<open>After the server said no, nothing more is sent until it says yes.\<close>

lemma disabled_sends_nothing:
  "tm_mode t = DeliveryDisabled \<Longrightarrow> c \<noteq> Configure True \<Longrightarrow>
     tm_sent (telemetry_step c t) = tm_sent t \<and> tm_mode (telemetry_step c t) = DeliveryDisabled"
  by (cases c) (auto simp: reportObservabilityEvent_def configureObservability_def reportFrontendCrash_def
      installGlobalObservabilityHandlers_def Let_def)

lemma run_disabled:
  assumes "tm_mode t = DeliveryDisabled" "Configure True \<notin> set calls"
  shows "tm_sent (fold telemetry_step calls t) = tm_sent t"
  using assms
proof (induction calls arbitrary: t)
  case (Cons c calls)
  have "c \<noteq> Configure True" using Cons.prems(2) by auto
  with Cons disabled_sends_nothing[of t c] show ?case by simp
qed simp

text \<open>What waited is sent once, in order, after the start of the session.\<close>

lemma enable_flushes:
  "telemetry_ok t \<Longrightarrow> tm_mode t = DeliveryPending \<Longrightarrow>
     tm_sent (configureObservability True t) = ''frontend_session_started'' # tm_pending t
     \<and> tm_pending (configureObservability True t) = []"
  by (simp add: telemetry_ok_def configureObservability_def Let_def)

section \<open>Features of the server\<close>

text \<open>
  \<open>fe_attempt\<close> is the number of the request in flight and \<open>fe_waiting\<close> the delay before the next.
\<close>

record 'f feature_store =
  fe_features :: "'f option"
  fe_loading :: bool
  fe_error :: "string option"
  fe_attempt :: "nat option"
  fe_waiting :: "nat option"

definition FEATURE_RETRY_DELAYS_MS :: "nat list" where "FEATURE_RETRY_DELAYS_MS = [300, 1000]"

definition init_features :: "'f feature_store" where
  "init_features = \<lparr>fe_features = None, fe_loading = False, fe_error = None, fe_attempt = None, fe_waiting = None\<rparr>"

definition loadFeatures :: "'f feature_store \<Rightarrow> 'f feature_store" where
  "loadFeatures s =
     (if fe_loading s \<or> fe_features s \<noteq> None then s
      else s\<lparr>fe_loading := True, fe_error := None, fe_attempt := Some 0\<rparr>)"

text \<open>The request in flight is answered; \<^const>\<open>Inl\<close> carries the error's message.\<close>

definition features_answered :: "string + 'f \<Rightarrow> 'f feature_store \<Rightarrow> 'f feature_store" where
  "features_answered r s =
     (case fe_attempt s of
        None \<Rightarrow> s
      | Some attempt \<Rightarrow>
          if fe_waiting s \<noteq> None then s
          else case r of
            Inr f \<Rightarrow> s\<lparr>fe_features := Some f, fe_loading := False, fe_error := None, fe_attempt := None\<rparr>
          | Inl message \<Rightarrow>
              if attempt < length FEATURE_RETRY_DELAYS_MS
              then s\<lparr>fe_waiting := Some (FEATURE_RETRY_DELAYS_MS ! attempt)\<rparr>
              else s\<lparr>fe_loading := False, fe_attempt := None,
                     fe_error := Some (if message = [] then ''Could not load server features'' else message)\<rparr>)"

definition features_timer :: "'f feature_store \<Rightarrow> 'f feature_store" where
  "features_timer s =
     (case (fe_waiting s, fe_attempt s) of
        (Some _, Some attempt) \<Rightarrow> s\<lparr>fe_waiting := None, fe_attempt := Some (attempt + 1)\<rparr>
      | _ \<Rightarrow> s)"

text \<open>A load with the answers it gets: each failed one is followed by its delay.\<close>

fun run_load :: "(string + 'f) list \<Rightarrow> 'f feature_store \<Rightarrow> 'f feature_store" where
  "run_load [] s = s"
| "run_load (r # rs) s = run_load rs (features_timer (features_answered r s))"

text \<open>While loading exactly one request is in flight or one delay runs, and no more than three were made.\<close>

definition features_ok :: "'f feature_store \<Rightarrow> bool" where
  "features_ok s \<longleftrightarrow>
     (fe_loading s \<longleftrightarrow> fe_attempt s \<noteq> None) \<and> (\<forall>n. fe_attempt s = Some n \<longrightarrow> n \<le> length FEATURE_RETRY_DELAYS_MS)
     \<and> (fe_waiting s \<noteq> None \<longrightarrow> (\<exists>n. fe_attempt s = Some n \<and> n < length FEATURE_RETRY_DELAYS_MS))
     \<and> (fe_loading s \<longrightarrow> fe_features s = None)"

lemma features_steps_ok:
  assumes "features_ok s"
  shows "features_ok (loadFeatures s)" "features_ok (features_answered r s)" "features_ok (features_timer s)"
  using assms
  by (auto simp: features_ok_def loadFeatures_def features_answered_def features_timer_def
      split: option.splits sum.splits)

text \<open>What is left of a load: twice the attempts to come, plus the request in flight.\<close>

definition load_measure :: "'f feature_store \<Rightarrow> nat" where
  "load_measure s =
     (case fe_attempt s of
        None \<Rightarrow> 0
      | Some n \<Rightarrow> 2 * (length FEATURE_RETRY_DELAYS_MS - n) + (if fe_waiting s = None then 2 else 1))"

lemma answer_progress:
  "features_ok s \<Longrightarrow> fe_loading s \<Longrightarrow> fe_waiting s = None \<Longrightarrow> load_measure (features_answered r s) < load_measure s"
  by (auto simp: features_ok_def load_measure_def features_answered_def split: option.splits sum.splits)

lemma timer_progress:
  "features_ok s \<Longrightarrow> fe_waiting s \<noteq> None \<Longrightarrow> load_measure (features_timer s) < load_measure s"
  by (auto simp: features_ok_def load_measure_def features_timer_def split: option.splits)

lemma load_ends:
  "fe_loading (run_load [r0, r1, r2] (loadFeatures init_features)) = False"
  by (cases r0; cases r1; cases r2)
    (simp_all add: loadFeatures_def init_features_def features_answered_def features_timer_def
      FEATURE_RETRY_DELAYS_MS_def)

text \<open>Three answers end a load: with the first features answered, or with the last error.\<close>

lemma load_outcome:
  "run_load [r0, r1, r2] (loadFeatures init_features) =
     \<lparr>fe_features = (case (r0, r1, r2) of (Inr f, _, _) \<Rightarrow> Some f | (Inl _, Inr f, _) \<Rightarrow> Some f
        | (Inl _, Inl _, Inr f) \<Rightarrow> Some f | _ \<Rightarrow> None),
      fe_loading = False,
      fe_error = (case (r0, r1, r2) of
        (Inl _, Inl _, Inl m) \<Rightarrow> Some (if m = [] then ''Could not load server features'' else m) | _ \<Rightarrow> None),
      fe_attempt = None, fe_waiting = None\<rparr>"
  by (cases r0; cases r1; cases r2)
    (simp_all add: loadFeatures_def init_features_def features_answered_def features_timer_def
      FEATURE_RETRY_DELAYS_MS_def)

end
