(* ===== verification/VoiceSession.thy ===== *)
theory VoiceSession
  imports JsBase
begin

text \<open>
  Joining, leaving and moving between voice channels, \<^verbatim>\<open>src/webrtc/useLiveKitVoice.ts\<close>, and the caller that
  starts every join, \<^verbatim>\<open>joinWithPreflight\<close> of \<^verbatim>\<open>src/components/ActiveCallBar.tsx\<close>. The refs of the hook are the
  fields of the state; a join that waits for an \<^verbatim>\<open>await\<close> is a \<open>join_attempt\<close> with its local variables and the
  place it waits at, so that a leave, a closing room or another join may come between any two of its parts.

  Outside the hook are numbered captures (microphone streams), gates (running processing loops) and rooms;
  the state lists those still open. \<^verbatim>\<open>useLocalMedia\<close>'s cached stream is \<open>vs_cached\<close> (theory \<open>LocalMedia\<close> has the
  cache itself). Remote streams, cues, diagnostics and React's copies of the refs are not part of this state.
\<close>

section \<open>State\<close>

text \<open>What is published: the raw microphone, or the output of a gate.\<close>

datatype mic_track = RawMic nat | ProcessedMic nat

datatype join_wait =
  AtCapture
| AtResume
| AtSettings
| AtBuild
| AtToken
| AtHold
| AtTurn
| AtConnect
| AtPublish
| AtMute
| AtPushToTalk
| AtClosing
| AtFailed bool

text \<open>
  The variables of one call of \<^verbatim>\<open>joinVoice\<close>; \<open>at_owned\<close> are the streams its caller stops when it throws and
  \<open>at_guarded\<close> tells that the caller is \<^verbatim>\<open>joinWithPreflight\<close>.
\<close>

record join_attempt =
  at_number :: nat
  at_channel :: string
  at_wait :: join_wait
  at_capture :: nat
  at_stream :: "nat option"
  at_gate :: "nat option"
  at_send :: "mic_track option"
  at_room :: "nat option"
  at_allowed :: bool
  at_published :: bool
  at_owned :: "nat list"
  at_guarded :: bool

datatype voice_message = SentJoin string | SentLeave | SentControl bool bool

record voice_session =
  vs_joined :: "string option"
  vs_joining :: bool
  vs_attempt :: nat
  vs_room :: "nat option"
  vs_track :: "mic_track option"
  vs_unpublished :: "mic_track option"
  vs_raw :: "nat option"
  vs_gate :: "nat option"
  vs_self_muted :: bool
  vs_self_deafened :: bool
  vs_server_held :: bool
  vs_desired_muted :: bool
  vs_error :: "string option"
  vs_reconciled :: bool
  vs_store_joined :: "string option"
  vs_sent :: "voice_message list"
  vs_waiting :: "join_attempt list"
  vs_pending :: bool
  vs_prompt :: "(string \<times> nat) option"
  vs_generation :: nat
  vs_captures :: nat
  vs_cached :: "nat option"
  vs_live :: "nat list"
  vs_gates :: "nat list"
  vs_rooms :: "nat list"
  vs_fresh :: nat

text \<open>What the code reads from outside when it goes on: the awaited answer, settings and the other stores.\<close>

record join_input =
  ji_error :: "string option"
  ji_connected :: bool
  ji_signed_in :: bool
  ji_supported :: bool
  ji_media_devices :: bool
  ji_has_track :: bool
  ji_native :: bool
  ji_server_muted :: bool
  ji_server_deafened :: bool
  ji_turn :: bool
  ji_reconnecting :: bool
  ji_push_to_talk :: bool
  ji_same_view :: bool

definition init_voice :: voice_session where
  "init_voice =
     \<lparr>vs_joined = None, vs_joining = False, vs_attempt = 0, vs_room = None, vs_track = None, vs_unpublished = None,
      vs_raw = None, vs_gate = None, vs_self_muted = False, vs_self_deafened = False, vs_server_held = False,
      vs_desired_muted = False, vs_error = None, vs_reconciled = False, vs_store_joined = None, vs_sent = [],
      vs_waiting = [], vs_pending = False, vs_prompt = None, vs_generation = 0, vs_captures = 0, vs_cached = None, vs_live = [],
      vs_gates = [], vs_rooms = [], vs_fresh = 0\<rparr>"

section \<open>Releasing what is open\<close>

definition without :: "nat option \<Rightarrow> nat list \<Rightarrow> nat list" where
  "without c xs = (case c of None \<Rightarrow> xs | Some n \<Rightarrow> removeAll n xs)"

fun raw_of :: "mic_track option \<Rightarrow> nat option" where
  "raw_of (Some (RawMic n)) = Some n"
| "raw_of _ = None"

definition stop_capture :: "nat option \<Rightarrow> voice_session \<Rightarrow> voice_session" where
  "stop_capture c s = s\<lparr>vs_live := without c (vs_live s)\<rparr>"

definition stop_track :: "mic_track option \<Rightarrow> voice_session \<Rightarrow> voice_session" where
  "stop_track t s = stop_capture (raw_of t) s"

definition cancel_gate :: "nat option \<Rightarrow> voice_session \<Rightarrow> voice_session" where
  "cancel_gate g s = s\<lparr>vs_gates := without g (vs_gates s)\<rparr>"

definition close_room :: "nat option \<Rightarrow> voice_session \<Rightarrow> voice_session" where
  "close_room r s = s\<lparr>vs_rooms := without r (vs_rooms s)\<rparr>"

text \<open>
  The own media: what both a leave and a failed join stop and forget, the cached capture last. From then
  on a capture that was asked for before is stopped when it comes.
\<close>

definition release_media :: "voice_session \<Rightarrow> voice_session" where
  "release_media s0 =
     (let s1 = (cancel_gate (vs_gate s0) s0)\<lparr>vs_gate := None\<rparr>;
          s2 = (stop_track (vs_track s1) s1)\<lparr>vs_track := None\<rparr>;
          s3 = (stop_track (vs_unpublished s2) s2)\<lparr>vs_unpublished := None\<rparr>;
          s4 = (stop_capture (vs_raw s3) s3)\<lparr>vs_raw := None\<rparr>
      in (stop_capture (vs_cached s4) s4)\<lparr>vs_cached := None, vs_captures := vs_captures s4 + 1\<rparr>)"

section \<open>Leaving\<close>

definition leaveVoice :: "bool \<Rightarrow> bool \<Rightarrow> voice_session \<Rightarrow> voice_session" where
  "leaveVoice skipRoomDisconnect skipServerLeave s0 =
     (let s = s0\<lparr>vs_attempt := vs_attempt s0 + 1, vs_joining := False, vs_error := None,
                 vs_sent := (if skipServerLeave then vs_sent s0 else vs_sent s0 @ [SentLeave]),
                 vs_joined := None, vs_store_joined := None, vs_room := None\<rparr>;
          s1 = release_media s
      in if skipRoomDisconnect then s1 else close_room (vs_room s0) s1)"

section \<open>Joining\<close>

text \<open>The caller's part after \<^verbatim>\<open>joinVoice\<close> returned or threw.\<close>

definition settle :: "bool \<Rightarrow> nat list \<Rightarrow> bool \<Rightarrow> voice_session \<Rightarrow> voice_session" where
  "settle guarded owned threw s =
     (let s1 = (if threw then s\<lparr>vs_live := filter (\<lambda>n. n \<notin> set owned) (vs_live s)\<rparr> else s)
      in if guarded then s1\<lparr>vs_pending := False\<rparr> else s1)"

definition suspend :: "join_wait \<Rightarrow> join_attempt \<Rightarrow> voice_session \<Rightarrow> voice_session" where
  "suspend w a s = s\<lparr>vs_waiting := a\<lparr>at_wait := w\<rparr> # vs_waiting s\<rparr>"

text \<open>The \<^verbatim>\<open>finally\<close> block.\<close>

definition finish :: "bool \<Rightarrow> join_attempt \<Rightarrow> voice_session \<Rightarrow> voice_session" where
  "finish threw a s =
     settle (at_guarded a) (at_owned a) threw
       (if vs_attempt s = at_number a then s\<lparr>vs_joining := False\<rparr> else s)"

text \<open>The \<^verbatim>\<open>catch\<close> block up to the disconnect it awaits, and after it.\<close>

definition tear_down :: "bool \<Rightarrow> join_attempt \<Rightarrow> voice_session \<Rightarrow> voice_session" where
  "tear_down cancelled a s = suspend (AtFailed cancelled) a (close_room (vs_room s) (s\<lparr>vs_room := None\<rparr>))"

definition torn_down :: "bool \<Rightarrow> join_attempt \<Rightarrow> voice_session \<Rightarrow> voice_session" where
  "torn_down cancelled a s = finish (\<not> cancelled) a (stop_capture (at_stream a) (release_media s))"

definition catch_failed :: "string \<Rightarrow> join_attempt \<Rightarrow> voice_session \<Rightarrow> voice_session" where
  "catch_failed msg a s = tear_down False a (s\<lparr>vs_error := Some msg\<rparr>)"

definition after_closing :: "join_attempt \<Rightarrow> voice_session \<Rightarrow> voice_session" where
  "after_closing a s = (if vs_joining s then finish False a s else tear_down True a s)"

definition catch_cancelled :: "join_attempt \<Rightarrow> voice_session \<Rightarrow> voice_session" where
  "catch_cancelled a s =
     (let s1 = stop_capture (at_stream a) (cancel_gate (at_gate a) s) in
      if at_room a \<noteq> None \<and> vs_room s1 \<noteq> at_room a then suspend AtClosing a (close_room (at_room a) s1)
      else after_closing a s1)"

definition ensureCurrentJoin :: "join_attempt \<Rightarrow> voice_session \<Rightarrow> voice_session \<Rightarrow> voice_session" where
  "ensureCurrentJoin a s continue = (if vs_attempt s \<noteq> at_number a then catch_cancelled a s else continue)"

definition no_track :: string where "no_track = ''No microphone track available''"
definition capture_outdated :: string where "capture_outdated = ''Microphone request is no longer active''"
definition room_gone :: string where "room_gone = ''LiveKit disconnected before voice presence was registered''"

definition captured :: "join_input \<Rightarrow> join_attempt \<Rightarrow> voice_session \<Rightarrow> voice_session" where
  "captured i a s = (if \<not> ji_has_track i then catch_failed no_track a s else suspend AtResume a s)"

definition open_room :: "join_input \<Rightarrow> join_attempt \<Rightarrow> voice_session \<Rightarrow> voice_session" where
  "open_room i a s =
     (let r = vs_fresh s;
          s1 = s\<lparr>vs_fresh := r + 1, vs_server_held := \<not> at_allowed a, vs_rooms := r # vs_rooms s, vs_room := Some r\<rparr>
      in suspend (if ji_turn i then AtTurn else AtConnect) (a\<lparr>at_room := Some r\<rparr>) s1)"

definition registered :: "join_attempt \<Rightarrow> voice_session \<Rightarrow> voice_session" where
  "registered a s =
     finish False a
       (s\<lparr>vs_joined := Some (at_channel a), vs_store_joined := Some (at_channel a),
          vs_sent := vs_sent s @ [SentJoin (at_channel a), SentControl (vs_self_muted s) (vs_self_deafened s)]\<rparr>)"

definition present :: "join_input \<Rightarrow> join_attempt \<Rightarrow> voice_session \<Rightarrow> voice_session" where
  "present i a s =
     (if ji_reconnecting i \<or> \<not> set_option (at_room a) \<subseteq> set (vs_rooms s) then catch_failed room_gone a s
      else if at_published a \<and> ji_push_to_talk i then suspend AtPushToTalk a (s\<lparr>vs_desired_muted := True\<rparr>)
      else registered a s)"

text \<open>The awaited call was answered: the code up to the next \<^verbatim>\<open>await\<close>.\<close>

definition capture_answered :: "join_input \<Rightarrow> join_attempt \<Rightarrow> voice_session \<Rightarrow> voice_session" where
  "capture_answered i a s =
     (let n = vs_fresh s; a1 = a\<lparr>at_stream := Some n\<rparr>;
          s1 = s\<lparr>vs_fresh := n + 1, vs_live := n # vs_live s, vs_cached := Some n\<rparr>
      in if at_capture a \<noteq> vs_captures s then catch_failed capture_outdated a (s\<lparr>vs_fresh := n + 1\<rparr>)
         else ensureCurrentJoin a1 s1 (captured i a1 s1))"

definition settings_applied :: "join_attempt \<Rightarrow> voice_session \<Rightarrow> voice_session" where
  "settings_applied a s =
     ensureCurrentJoin a s
       (suspend AtBuild a ((cancel_gate (vs_gate s) s)\<lparr>vs_gate := None, vs_raw := at_stream a\<rparr>))"

definition track_built :: "join_input \<Rightarrow> join_attempt \<Rightarrow> voice_session \<Rightarrow> voice_session" where
  "track_built i a s =
     (let g = vs_fresh s;
          (a1, s1) = (if ji_native i then (a\<lparr>at_send := map_option RawMic (at_stream a)\<rparr>, s)
                      else (a\<lparr>at_send := Some (ProcessedMic g), at_gate := Some g\<rparr>,
                            s\<lparr>vs_fresh := g + 1, vs_gates := g # vs_gates s\<rparr>))
      in ensureCurrentJoin a1 s1 (suspend AtToken a1 (s1\<lparr>vs_gate := at_gate a1\<rparr>)))"

definition token_received :: "join_input \<Rightarrow> join_attempt \<Rightarrow> voice_session \<Rightarrow> voice_session" where
  "token_received i a s =
     (let a1 = a\<lparr>at_allowed := \<not> ji_server_muted i \<and> \<not> ji_server_deafened i\<rparr>
      in ensureCurrentJoin a s
           (if at_allowed a1 then open_room i a1 s else suspend AtHold a1 (s\<lparr>vs_desired_muted := True\<rparr>)))"

definition room_connected :: "join_input \<Rightarrow> join_attempt \<Rightarrow> voice_session \<Rightarrow> voice_session" where
  "room_connected i a s =
     ensureCurrentJoin a s
       (let s1 = s\<lparr>vs_unpublished := at_send a\<rparr>
        in if at_allowed a then suspend AtPublish a s1 else present i a s1)"

definition track_published :: "join_attempt \<Rightarrow> voice_session \<Rightarrow> voice_session" where
  "track_published a s =
     ensureCurrentJoin a s
       (suspend AtMute (a\<lparr>at_published := True\<rparr>)
          (s\<lparr>vs_track := at_send a, vs_desired_muted := vs_desired_muted s \<or> vs_server_held s\<rparr>))"

fun resume_join :: "join_input \<Rightarrow> join_attempt \<Rightarrow> voice_session \<Rightarrow> voice_session" where
  "resume_join i a s =
     (case (at_wait a, ji_error i) of
        (AtHold, _) \<Rightarrow> ensureCurrentJoin a s (open_room i a s)
      | (AtTurn, _) \<Rightarrow> ensureCurrentJoin a s (suspend AtConnect a s)
      | (AtMute, _) \<Rightarrow> ensureCurrentJoin a s (present i a s)
      | (AtPushToTalk, _) \<Rightarrow> ensureCurrentJoin a s (registered a s)
      | (AtClosing, _) \<Rightarrow> after_closing a s
      | (AtFailed cancelled, _) \<Rightarrow> torn_down cancelled a s
      | (_, Some msg) \<Rightarrow> catch_failed msg a s
      | (AtCapture, None) \<Rightarrow> capture_answered i a s
      | (AtResume, None) \<Rightarrow> ensureCurrentJoin a s (suspend AtSettings a s)
      | (AtSettings, None) \<Rightarrow> settings_applied a s
      | (AtBuild, None) \<Rightarrow> track_built i a s
      | (AtToken, None) \<Rightarrow> token_received i a s
      | (AtConnect, None) \<Rightarrow> room_connected i a s
      | (AtPublish, None) \<Rightarrow> track_published a s)"

definition joinVoice ::
  "join_input \<Rightarrow> string \<Rightarrow> nat option \<Rightarrow> nat list \<Rightarrow> bool \<Rightarrow> voice_session \<Rightarrow> voice_session" where
  "joinVoice i channel preflight owned guarded s =
     (if \<not> ji_connected i \<or> \<not> ji_signed_in i then settle guarded owned True s
      else if vs_joined s = Some channel \<or> vs_joining s then settle guarded owned False s
      else
        let n = vs_attempt s + 1;
            s1 = s\<lparr>vs_error := None, vs_desired_muted := vs_self_muted s \<or> vs_self_deafened s,
                   vs_reconciled := False, vs_joining := True, vs_attempt := n\<rparr>;
            a = \<lparr>at_number = n, at_channel = channel, at_wait = AtCapture, at_capture = vs_captures s + 1, at_stream = preflight,
                 at_gate = None, at_send = None, at_room = None, at_allowed = False, at_published = False, at_owned = owned,
                 at_guarded = guarded\<rparr>
        in if \<not> ji_supported i then catch_failed ''WebRTC voice is not supported by this app runtime.'' a s1
           else if preflight = None
             then suspend AtCapture a ((stop_capture (vs_cached s1) s1)\<lparr>vs_cached := None, vs_captures := vs_captures s + 1\<rparr>)
           else captured i a s1)"

text \<open>A move keeps the microphone by cloning its track before it leaves.\<close>

definition moveVoice :: "join_input \<Rightarrow> string \<Rightarrow> bool \<Rightarrow> voice_session \<Rightarrow> voice_session" where
  "moveVoice i channel guarded s =
     (if vs_joined s = None \<or> vs_joined s = Some channel then joinVoice i channel None [] guarded s
      else case vs_raw s of
        Some n \<Rightarrow>
          if n \<in> set (vs_live s)
          then let c = vs_fresh s;
                   s1 = leaveVoice False False (s\<lparr>vs_fresh := c + 1, vs_live := c # vs_live s\<rparr>)
               in joinVoice i channel (Some c) [c] guarded s1
          else joinVoice i channel None [] guarded (leaveVoice False False s)
      | None \<Rightarrow> joinVoice i channel None [] guarded (leaveVoice False False s))"

section \<open>The caller\<close>

text \<open>
  \<^verbatim>\<open>joinWithPreflight\<close>: it refuses while an earlier call has not settled, moves when a channel is joined
  and otherwise asks for the microphone first. The channel that counts is the one of the last render, which
  is the one joined when the next user or server event is handled.
\<close>

definition joinWithPreflight :: "join_input \<Rightarrow> string \<Rightarrow> voice_session \<Rightarrow> voice_session" where
  "joinWithPreflight i channel s =
     (if channel = [] \<or> vs_joining s \<or> vs_pending s \<or> vs_joined s = Some channel then s
      else
        let g = vs_generation s + 1; s1 = s\<lparr>vs_pending := True, vs_generation := g\<rparr>
        in if \<not> ji_supported i then s1\<lparr>vs_pending := False\<rparr>
           else if vs_joined s \<noteq> None then moveVoice i channel True s1
           else if \<not> ji_media_devices i then s1\<lparr>vs_pending := False\<rparr>
           else s1\<lparr>vs_prompt := Some (channel, g)\<rparr>)"

definition microphone_answered :: "join_input \<Rightarrow> voice_session \<Rightarrow> voice_session" where
  "microphone_answered i s =
     (case vs_prompt s of
        None \<Rightarrow> s
      | Some (channel, g) \<Rightarrow>
          let s0 = s\<lparr>vs_prompt := None\<rparr> in
          if ji_error i \<noteq> None then s0\<lparr>vs_pending := False\<rparr>
          else let n = vs_fresh s; s1 = s0\<lparr>vs_fresh := n + 1, vs_live := n # vs_live s\<rparr>
               in if g \<noteq> vs_generation s \<or> \<not> ji_same_view i
                  then (stop_capture (Some n) s1)\<lparr>vs_pending := False\<rparr>
                  else joinVoice i channel (Some n) [n] True s1)"

definition leave_pressed :: "voice_session \<Rightarrow> voice_session" where
  "leave_pressed s =
     leaveVoice False False (if vs_joining s then s\<lparr>vs_generation := vs_generation s + 1\<rparr> else s)"

section \<open>What else ends a session\<close>

definition session_moved :: "voice_session \<Rightarrow> voice_session" where
  "session_moved s =
     (if vs_joined s = None \<and> \<not> vs_joining s \<and> vs_room s = None then s else leaveVoice False True s)"

definition reconcileFinalMediaDisconnect :: "bool \<Rightarrow> voice_session \<Rightarrow> voice_session" where
  "reconcileFinalMediaDisconnect isCurrentRoom s =
     (if vs_joined s = None \<or> vs_reconciled s \<or> \<not> isCurrentRoom then s
      else (leaveVoice True False s)\<lparr>vs_reconciled := True\<rparr>)"

text \<open>A room ends on its own; \<open>duplicate\<close> when another device joined with the same account.\<close>

definition room_closed :: "nat \<Rightarrow> bool \<Rightarrow> voice_session \<Rightarrow> voice_session" where
  "room_closed r duplicate s =
     (let s1 = close_room (Some r) s;
          s2 = (if vs_room s1 = Some r \<and> duplicate then session_moved s1 else s1)
      in reconcileFinalMediaDisconnect (vs_room s2 = Some r) s2)"

definition unmounted :: "voice_session \<Rightarrow> voice_session" where
  "unmounted s = (if vs_joined s \<noteq> None \<or> vs_joining s \<or> vs_room s \<noteq> None then leaveVoice False False s else s)"

definition store_cleared :: "voice_session \<Rightarrow> voice_session" where
  "store_cleared s = (if vs_joined s = None then s else leaveVoice False False s)"

definition setVoiceControls :: "bool \<Rightarrow> bool \<Rightarrow> voice_session \<Rightarrow> voice_session" where
  "setVoiceControls muted deafened s0 =
     (let s = s0\<lparr>vs_self_muted := muted, vs_self_deafened := deafened\<rparr>
      in if vs_joined s = None then s
         else s\<lparr>vs_sent := vs_sent s @ [SentControl muted deafened],
                vs_desired_muted := muted \<or> deafened \<or> vs_server_held s\<rparr>)"

section \<open>Steps\<close>

text \<open>One suspended join is answered; it takes itself off the list and may suspend again.\<close>

definition resume :: "join_input \<Rightarrow> join_attempt \<Rightarrow> voice_session \<Rightarrow> voice_session" where
  "resume i a s = resume_join i a (s\<lparr>vs_waiting := remove1 a (vs_waiting s)\<rparr>)"

text \<open>The client: every join is started by \<^verbatim>\<open>joinWithPreflight\<close>.\<close>

inductive voice_step :: "voice_session \<Rightarrow> voice_session \<Rightarrow> bool" where
  asked: "voice_step s (joinWithPreflight i c s)"
| prompted: "voice_step s (microphone_answered i s)"
| prompt_cancelled: "voice_step s (s\<lparr>vs_generation := vs_generation s + 1\<rparr>)"
| resumed: "a \<in> set (vs_waiting s) \<Longrightarrow> voice_step s (resume i a s)"
| left: "voice_step s (leave_pressed s)"
| signed_out: "voice_step s (leaveVoice False False s)"
| moved_away: "voice_step s (session_moved s)"
| closed: "voice_step s (room_closed r d s)"
| gone: "voice_step s (unmounted s)"
| cleared: "voice_step s (store_cleared s)"
| controls: "voice_step s (setVoiceControls m d s)"

text \<open>The hook on its own, with callers that do not wait for an earlier join to settle.\<close>

inductive hook_step :: "voice_session \<Rightarrow> voice_session \<Rightarrow> bool" where
  client: "voice_step s s' \<Longrightarrow> hook_step s s'"
| joined: "hook_step s (joinVoice i c preflight [] False s)"
| moved: "hook_step s (moveVoice i c False s)"

inductive_cases voice_stepE: "voice_step s s'"
inductive_cases hook_stepE: "hook_step s s'"

abbreviation voice_reachable :: "voice_session \<Rightarrow> bool" where
  "voice_reachable \<equiv> voice_step\<^sup>*\<^sup>* init_voice"

abbreviation hook_reachable :: "voice_session \<Rightarrow> bool" where
  "hook_reachable \<equiv> hook_step\<^sup>*\<^sup>* init_voice"

lemma voice_next: "voice_reachable s \<Longrightarrow> voice_step s s' \<Longrightarrow> voice_reachable s'"
  by (rule rtranclp.rtrancl_into_rtrancl)

lemma hook_next: "hook_reachable s \<Longrightarrow> hook_step s s' \<Longrightarrow> hook_reachable s'"
  by (rule rtranclp.rtrancl_into_rtrancl)

end
