(* ===== verification/VoiceSessionInvariant.thy ===== *)
theory VoiceSessionInvariant
  imports VoiceSessionLaws
begin

text \<open>
  What the voice session keeps open. Between joins nothing but the joined session's own capture, gate and
  room is open; a running join adds the stream it was given or captured.
\<close>

section \<open>The invariant\<close>

definition covered :: "nat set \<Rightarrow> voice_session \<Rightarrow> bool" where
  "covered extra s \<longleftrightarrow>
     set (vs_live s) \<subseteq> set_option (vs_raw s) \<union> set_option (vs_cached s) \<union> extra
     \<and> set (vs_gates s) \<subseteq> set_option (vs_gate s) \<and> set (vs_rooms s) \<subseteq> set_option (vs_room s)"

text \<open>Nothing is open but the captures of \<open>extra\<close>.\<close>

definition released :: "nat set \<Rightarrow> voice_session \<Rightarrow> bool" where
  "released extra s \<longleftrightarrow>
     set (vs_live s) \<subseteq> extra \<and> vs_gates s = [] \<and> vs_rooms s = [] \<and> vs_room s = None \<and> vs_gate s = None
     \<and> vs_raw s = None \<and> vs_cached s = None \<and> vs_track s = None \<and> vs_unpublished s = None"

fun built :: "join_wait \<Rightarrow> bool" where
  "built AtBuild = True" | "built AtToken = True" | "built AtHold = True" | "built AtTurn = True"
| "built AtConnect = True" | "built AtPublish = True" | "built AtMute = True" | "built AtPushToTalk = True"
| "built _ = False"

fun unbuilt :: "join_wait \<Rightarrow> bool" where
  "unbuilt AtCapture = True" | "unbuilt AtResume = True" | "unbuilt AtSettings = True" | "unbuilt _ = False"

fun has_room :: "join_wait \<Rightarrow> bool" where
  "has_room AtTurn = True" | "has_room AtConnect = True" | "has_room AtPublish = True"
| "has_room AtMute = True" | "has_room AtPushToTalk = True" | "has_room _ = False"

definition attempt_ok :: "join_wait \<Rightarrow> join_attempt \<Rightarrow> voice_session \<Rightarrow> bool" where
  "attempt_ok w a s \<longleftrightarrow>
     vs_joined s = None \<and> vs_pending s \<and> vs_prompt s = None \<and> at_guarded a
     \<and> set (at_owned a) \<subseteq> set_option (at_stream a) \<and> at_number a \<le> vs_attempt s
     \<and> (vs_joining s \<longleftrightarrow> vs_attempt s = at_number a)
     \<and> covered (set_option (at_stream a)) s
     \<and> (vs_attempt s \<noteq> at_number a \<longrightarrow> released (set_option (at_stream a)) s)
     \<and> (w = AtCapture \<longrightarrow> at_stream a = None \<and> vs_cached s = None \<and> at_capture a \<le> vs_captures s
           \<and> (vs_attempt s \<noteq> at_number a \<longrightarrow> at_capture a < vs_captures s))
     \<and> (vs_attempt s = at_number a \<and> unbuilt w \<longrightarrow> vs_raw s = None \<and> vs_gate s = None)
     \<and> (w = AtBuild \<longrightarrow> vs_gate s = None \<and> at_gate a = None)
     \<and> (unbuilt w \<longrightarrow> at_gate a = None) \<and> (w = AtClosing \<longrightarrow> vs_attempt s \<noteq> at_number a)
     \<and> (vs_attempt s = at_number a \<and> built w \<longrightarrow> vs_raw s = at_stream a)
     \<and> (vs_attempt s = at_number a \<and> has_room w \<longrightarrow> vs_room s = at_room a \<and> at_room a \<noteq> None)
     \<and> (vs_attempt s = at_number a \<and> \<not> has_room w \<longrightarrow> vs_room s = None)"

definition idle_ok :: "voice_session \<Rightarrow> bool" where
  "idle_ok s \<longleftrightarrow>
     \<not> vs_joining s \<and> (vs_pending s \<longleftrightarrow> vs_prompt s \<noteq> None)
     \<and> (vs_joined s = None \<longrightarrow> released {} s)
     \<and> (vs_joined s \<noteq> None \<longrightarrow> covered {} s \<and> vs_room s \<noteq> None \<and> vs_prompt s = None)"

definition voice_inv :: "voice_session \<Rightarrow> bool" where
  "voice_inv s \<longleftrightarrow> (case vs_waiting s of [] \<Rightarrow> idle_ok s | [a] \<Rightarrow> attempt_ok (at_wait a) a s | _ \<Rightarrow> False)"

lemmas voice_inv_defs = voice_inv_def attempt_ok_def idle_ok_def covered_def released_def

section \<open>Every step keeps it\<close>

lemma set_nil: "set xs = {} \<Longrightarrow> xs = []" by simp

lemma without_empty [simp]: "without c [] = []"
  by (simp add: without_def split: option.split)

lemma without_nil: "without c xs = [] \<longleftrightarrow> set xs \<subseteq> set_option c"
  by (metis Diff_eq_empty_iff set_empty set_without)

lemma release_media_eq:
  "release_media s =
     s\<lparr>vs_gate := None, vs_track := None, vs_unpublished := None, vs_raw := None, vs_cached := None,
       vs_captures := vs_captures s + 1, vs_gates := without (vs_gate s) (vs_gates s),
       vs_live := without (vs_cached s) (without (vs_raw s)
         (without (raw_of (vs_unpublished s)) (without (raw_of (vs_track s)) (vs_live s))))\<rparr>"
  by (simp add: voice_release_defs)

lemma release_media_released:
  assumes "covered extra s" and "vs_room s = None"
  shows "released extra (release_media s)"
  using assms by (auto simp: covered_def released_def release_media_eq without_nil)

lemma released_covered: "released extra s \<Longrightarrow> covered extra s"
  by (simp add: released_def covered_def)

text \<open>The parts of a running join; \<open>a\<close> is taken off the list.\<close>

definition running_ok :: "join_attempt \<Rightarrow> voice_session \<Rightarrow> bool" where
  "running_ok a s \<longleftrightarrow>
     vs_waiting s = [] \<and> vs_joined s = None \<and> vs_pending s \<and> vs_prompt s = None \<and> at_guarded a
     \<and> set (at_owned a) \<subseteq> set_option (at_stream a) \<and> at_number a \<le> vs_attempt s
     \<and> (vs_joining s \<longleftrightarrow> vs_attempt s = at_number a)"

lemma suspend_inv:
  assumes "running_ok a s" and "attempt_ok w a s"
  shows "voice_inv (suspend w a s)"
  using assms by (simp add: voice_inv_def suspend_def running_ok_def attempt_ok_def covered_def released_def)

lemma tear_down_inv:
  assumes "running_ok a s" and "covered (set_option (at_stream a)) s"
    and "vs_attempt s \<noteq> at_number a \<longrightarrow> released (set_option (at_stream a)) s"
  shows "voice_inv (tear_down c a s)"
  unfolding tear_down_def
proof (rule suspend_inv)
  show "running_ok a (close_room (vs_room s) (s\<lparr>vs_room := None\<rparr>))"
    using assms(1) by (simp add: running_ok_def close_room_def)
  show "attempt_ok (AtFailed c) a (close_room (vs_room s) (s\<lparr>vs_room := None\<rparr>))"
    using assms by (auto simp: running_ok_def attempt_ok_def covered_def released_def close_room_def)
qed

lemma catch_failed_inv:
  assumes "running_ok a s" and "covered (set_option (at_stream a)) s"
    and "vs_attempt s \<noteq> at_number a \<longrightarrow> released (set_option (at_stream a)) s"
  shows "voice_inv (catch_failed msg a s)"
  unfolding catch_failed_def using assms
  by (intro tear_down_inv) (simp_all add: running_ok_def covered_def released_def)

lemma finish_idle_inv:
  assumes "running_ok a s" and "released {} s"
  shows "voice_inv (finish threw a s)"
  using assms by (auto simp: running_ok_def voice_inv_def idle_ok_def finish_def settle_def released_def)

lemma torn_down_inv:
  assumes "running_ok a s" and "covered (set_option (at_stream a)) s" and "vs_room s = None"
  shows "voice_inv (torn_down c a s)"
  unfolding torn_down_def
proof (rule finish_idle_inv)
  show "running_ok a (stop_capture (at_stream a) (release_media s))"
    using assms(1) by (simp add: running_ok_def stop_capture_def release_media_eq)
  show "released {} (stop_capture (at_stream a) (release_media s))"
    using release_media_released[OF assms(2,3)] by (auto simp: released_def stop_capture_def without_nil)
qed

text \<open>A superseded join may still own the gate it just built.\<close>

lemma catch_cancelled_inv:
  assumes "running_ok a s" and "vs_attempt s \<noteq> at_number a"
    and "released (set_option (at_stream a)) (s\<lparr>vs_gates := without (at_gate a) (vs_gates s)\<rparr>)"
  shows "voice_inv (catch_cancelled a s)"
proof -
  let ?s = "stop_capture (at_stream a) (cancel_gate (at_gate a) s)"
  have r: "running_ok a ?s" and q: "released {} ?s" and n: "vs_attempt ?s \<noteq> at_number a" "\<not> vs_joining ?s"
    using assms by (auto simp: running_ok_def released_def stop_capture_def cancel_gate_def without_nil)
  show ?thesis
  proof (cases "at_room a \<noteq> None \<and> vs_room ?s \<noteq> at_room a")
    case True
    have "attempt_ok AtClosing a (close_room (at_room a) ?s)"
      using r q n by (auto simp: running_ok_def attempt_ok_def released_def covered_def close_room_def)
    moreover have "running_ok a (close_room (at_room a) ?s)"
      using r by (simp add: running_ok_def close_room_def)
    ultimately show ?thesis using True by (simp add: catch_cancelled_def Let_def suspend_inv)
  next
    case False
    have "voice_inv (tear_down True a ?s)"
      using r q n by (intro tear_down_inv) (auto simp: released_def covered_def)
    then show ?thesis using False n by (auto simp: catch_cancelled_def Let_def after_closing_def)
  qed
qed

lemma ensure_inv:
  assumes "attempt_ok w a s" and "vs_waiting s = []"
    and "vs_attempt s = at_number a \<Longrightarrow> voice_inv k"
  shows "voice_inv (ensureCurrentJoin a s k)"
proof (cases "vs_attempt s = at_number a")
  case False
  have "running_ok a s" using assms(1,2) by (simp add: running_ok_def attempt_ok_def)
  moreover have "released (set_option (at_stream a)) (s\<lparr>vs_gates := without (at_gate a) (vs_gates s)\<rparr>)"
    using assms(1) False by (simp add: attempt_ok_def released_def)
  ultimately show ?thesis using False by (simp add: ensureCurrentJoin_def catch_cancelled_inv)
qed (simp add: ensureCurrentJoin_def assms(3))

lemma attempt_running: "attempt_ok w a s \<Longrightarrow> vs_waiting s = [] \<Longrightarrow> running_ok a s"
  by (simp add: attempt_ok_def running_ok_def)

lemma failed_answer_inv: "attempt_ok w a s \<Longrightarrow> vs_waiting s = [] \<Longrightarrow> voice_inv (catch_failed msg a s)"
  by (rule catch_failed_inv) (auto simp: attempt_ok_def running_ok_def)

text \<open>The parts the current join goes on with.\<close>

lemma registered_inv:
  assumes "attempt_ok w a s" "vs_waiting s = []" "vs_attempt s = at_number a" "built w" "has_room w"
  shows "voice_inv (registered a s)"
  using assms
  by (auto simp: attempt_ok_def voice_inv_def idle_ok_def registered_def finish_def settle_def covered_def)

lemma present_inv:
  assumes "attempt_ok w a s" "vs_waiting s = []" "vs_attempt s = at_number a" "built w" "has_room w"
  shows "voice_inv (present i a s)"
proof -
  have "voice_inv (suspend AtPushToTalk a (s\<lparr>vs_desired_muted := True\<rparr>))"
    using assms by (intro suspend_inv) (auto simp: attempt_ok_def running_ok_def covered_def)
  then show ?thesis using assms by (auto simp: present_def intro: registered_inv failed_answer_inv)
qed

lemma open_room_inv:
  assumes "attempt_ok w a s" "vs_waiting s = []" "vs_attempt s = at_number a" "built w" "\<not> has_room w"
  shows "voice_inv (open_room i a s)"
  unfolding open_room_def Let_def using assms
  by (intro suspend_inv) (auto simp: attempt_ok_def running_ok_def covered_def)

lemma stream_ready_inv:
  assumes "attempt_ok AtResume a s" "vs_waiting s = []"
  shows "voice_inv (captured i a s)"
  using assms by (simp add: captured_def failed_answer_inv suspend_inv attempt_running)

lemma capture_answered_inv:
  assumes "attempt_ok AtCapture a s" "vs_waiting s = []"
  shows "voice_inv (capture_answered i a s)"
proof -
  let ?n = "vs_fresh s"
  let ?a = "a\<lparr>at_stream := Some ?n\<rparr>"
  let ?s = "s\<lparr>vs_fresh := ?n + 1, vs_live := ?n # vs_live s, vs_cached := Some ?n\<rparr>"
  have "voice_inv (catch_failed capture_outdated a (s\<lparr>vs_fresh := ?n + 1\<rparr>))"
    using assms by (intro catch_failed_inv) (auto simp: attempt_ok_def running_ok_def covered_def released_def)
  moreover have "voice_inv (ensureCurrentJoin ?a ?s (captured i ?a ?s))" if c: "at_capture a = vs_captures s"
  proof -
    have cur: "vs_attempt s = at_number a" using assms(1) c by (auto simp: attempt_ok_def)
    have r: "running_ok ?a ?s" and v: "covered (set_option (at_stream ?a)) ?s"
      using assms cur by (auto simp: attempt_ok_def running_ok_def covered_def)
    moreover have "voice_inv (suspend AtResume ?a ?s)"
      using assms cur r v by (intro suspend_inv) (auto simp: attempt_ok_def running_ok_def)
    ultimately show ?thesis
      using cur by (auto simp: ensureCurrentJoin_def captured_def intro!: catch_failed_inv)
  qed
  ultimately show ?thesis by (simp add: capture_answered_def Let_def)
qed

lemma settings_applied_inv:
  assumes "attempt_ok AtSettings a s" "vs_waiting s = []"
  shows "voice_inv (settings_applied a s)"
  unfolding settings_applied_def
proof (rule ensure_inv[OF assms])
  assume "vs_attempt s = at_number a"
  then show "voice_inv (suspend AtBuild a ((cancel_gate (vs_gate s) s)\<lparr>vs_gate := None, vs_raw := at_stream a\<rparr>))"
    using assms by (intro suspend_inv) (auto simp: attempt_ok_def running_ok_def covered_def cancel_gate_def)
qed

lemma built_inv:
  assumes "attempt_ok AtBuild a s" "vs_waiting s = []" and "set gs \<subseteq> set_option g"
  shows "voice_inv (ensureCurrentJoin (a\<lparr>at_send := t, at_gate := g\<rparr>) (s\<lparr>vs_fresh := f, vs_gates := gs @ vs_gates s\<rparr>)
           (suspend AtToken (a\<lparr>at_send := t, at_gate := g\<rparr>) (s\<lparr>vs_fresh := f, vs_gates := gs @ vs_gates s, vs_gate := g\<rparr>)))"
    (is "voice_inv (ensureCurrentJoin ?a ?s (suspend AtToken ?a ?t))")
proof (cases "vs_attempt s = at_number a")
  case True
  have "vs_gates s = []" using assms(1) True by (auto simp: attempt_ok_def covered_def)
  then have "voice_inv (suspend AtToken ?a ?t)"
    using assms True by (intro suspend_inv) (auto simp: attempt_ok_def running_ok_def covered_def)
  with True show ?thesis by (simp add: ensureCurrentJoin_def)
next
  case False
  have "running_ok ?a ?s" using assms by (simp add: attempt_ok_def running_ok_def)
  moreover have "released (set_option (at_stream ?a)) (?s\<lparr>vs_gates := without (at_gate ?a) (vs_gates ?s)\<rparr>)"
    using assms False by (auto simp: attempt_ok_def released_def without_nil)
  ultimately show ?thesis using False by (simp add: ensureCurrentJoin_def catch_cancelled_inv)
qed

lemma track_built_inv:
  assumes "attempt_ok AtBuild a s" "vs_waiting s = []"
  shows "voice_inv (track_built i a s)"
proof (cases "ji_native i")
  case True
  have "a\<lparr>at_send := t, at_gate := None\<rparr> = a\<lparr>at_send := t\<rparr>" for t
    using assms(1) by (cases a) (simp add: attempt_ok_def)
  then show ?thesis
    using built_inv[OF assms, of "[]" None "map_option RawMic (at_stream a)" "vs_fresh s"] True assms(1)
    by (simp add: track_built_def Let_def attempt_ok_def)
next
  case False
  then show ?thesis
    using built_inv[OF assms, of "[vs_fresh s]" "Some (vs_fresh s)" "Some (ProcessedMic (vs_fresh s))" "vs_fresh s + 1"]
    by (simp add: track_built_def Let_def)
qed

lemma token_received_inv:
  assumes "attempt_ok AtToken a s" "vs_waiting s = []"
  shows "voice_inv (token_received i a s)"
  unfolding token_received_def Let_def
proof (rule ensure_inv[OF assms])
  let ?a = "a\<lparr>at_allowed := \<not> ji_server_muted i \<and> \<not> ji_server_deafened i\<rparr>"
  assume cur: "vs_attempt s = at_number a"
  have "voice_inv (open_room i ?a s)"
    using assms cur by (intro open_room_inv[where w = AtToken]) (auto simp: attempt_ok_def)
  moreover have "voice_inv (suspend AtHold ?a (s\<lparr>vs_desired_muted := True\<rparr>))"
    using assms cur by (intro suspend_inv) (auto simp: attempt_ok_def running_ok_def covered_def)
  ultimately show "voice_inv (if at_allowed ?a then open_room i ?a s
      else suspend AtHold ?a (s\<lparr>vs_desired_muted := True\<rparr>))"
    by (cases "at_allowed ?a") (simp_all only: if_True if_False)
qed

lemma room_connected_inv:
  assumes "attempt_ok AtConnect a s" "vs_waiting s = []"
  shows "voice_inv (room_connected i a s)"
  unfolding room_connected_def Let_def
proof (rule ensure_inv[OF assms])
  let ?s = "s\<lparr>vs_unpublished := at_send a\<rparr>"
  assume cur: "vs_attempt s = at_number a"
  have "voice_inv (present i a ?s)"
    using assms cur by (intro present_inv[where w = AtConnect]) (auto simp: attempt_ok_def covered_def)
  moreover have "voice_inv (suspend AtPublish a ?s)"
    using assms cur by (intro suspend_inv) (auto simp: attempt_ok_def running_ok_def covered_def)
  ultimately show "voice_inv (if at_allowed a then suspend AtPublish a ?s else present i a ?s)" by simp
qed

lemma track_published_inv:
  assumes "attempt_ok AtPublish a s" "vs_waiting s = []"
  shows "voice_inv (track_published a s)"
  unfolding track_published_def
proof (rule ensure_inv[OF assms])
  assume cur: "vs_attempt s = at_number a"
  show "voice_inv (suspend AtMute (a\<lparr>at_published := True\<rparr>)
      (s\<lparr>vs_track := at_send a, vs_desired_muted := vs_desired_muted s \<or> vs_server_held s\<rparr>))"
    using assms cur by (intro suspend_inv) (auto simp: attempt_ok_def running_ok_def covered_def)
qed

lemma waits_inv:
  assumes "attempt_ok w a s" "vs_waiting s = []" and "(w, w') \<in> {(AtResume, AtSettings), (AtTurn, AtConnect)}"
  shows "voice_inv (ensureCurrentJoin a s (suspend w' a s))"
proof (rule ensure_inv[OF assms(1,2)])
  assume cur: "vs_attempt s = at_number a"
  from assms(3) consider "w = AtResume" "w' = AtSettings" | "w = AtTurn" "w' = AtConnect" by auto
  then have "attempt_ok w' a s" using assms(1) cur by cases (simp_all add: attempt_ok_def)
  then show "voice_inv (suspend w' a s)" using suspend_inv attempt_running[OF assms(1,2)] by blast
qed

lemma after_closing_inv:
  assumes "attempt_ok AtClosing a s" "vs_waiting s = []"
  shows "voice_inv (after_closing a s)"
proof -
  have "voice_inv (tear_down True a s)"
    using assms attempt_running[OF assms] by (intro tear_down_inv) (simp_all add: attempt_ok_def)
  then show ?thesis using assms(1) by (simp add: after_closing_def attempt_ok_def)
qed

lemma disconnected_inv:
  assumes "attempt_ok (AtFailed c) a s" "vs_waiting s = []"
  shows "voice_inv (torn_down c a s)"
proof (rule torn_down_inv)
  show "vs_room s = None" using assms(1)
    by (cases "vs_attempt s = at_number a") (simp_all add: attempt_ok_def released_def)
qed (use assms in \<open>simp_all add: attempt_ok_def running_ok_def\<close>)

lemma held_inv:
  assumes "attempt_ok AtHold a s" "vs_waiting s = []"
  shows "voice_inv (ensureCurrentJoin a s (open_room i a s))"
  using assms by (intro ensure_inv[OF assms] open_room_inv[OF assms]) simp_all

lemma muted_inv:
  assumes "attempt_ok AtMute a s" "vs_waiting s = []"
  shows "voice_inv (ensureCurrentJoin a s (present i a s))"
  using assms by (intro ensure_inv[OF assms] present_inv[OF assms]) simp_all

lemma gated_inv:
  assumes "attempt_ok AtPushToTalk a s" "vs_waiting s = []"
  shows "voice_inv (ensureCurrentJoin a s (registered a s))"
  using assms by (intro ensure_inv[OF assms] registered_inv[OF assms]) simp_all

lemma resume_join_inv:
  assumes "attempt_ok (at_wait a) a s" and "vs_waiting s = []"
  shows "voice_inv (resume_join i a s)"
  using assms
  by (cases "at_wait a"; cases "ji_error i")
    (simp_all add: failed_answer_inv capture_answered_inv waits_inv settings_applied_inv track_built_inv
      token_received_inv held_inv room_connected_inv track_published_inv muted_inv gated_inv after_closing_inv disconnected_inv)

lemma resume_inv:
  assumes "voice_inv s" and "a \<in> set (vs_waiting s)"
  shows "voice_inv (resume i a s)"
proof -
  have "vs_waiting s = [a]" and "attempt_ok (at_wait a) a s"
    using assms by (auto simp: voice_inv_def split: list.splits)
  then have "attempt_ok (at_wait a) a (s\<lparr>vs_waiting := []\<rparr>)"
    by (simp add: attempt_ok_def covered_def released_def)
  then show ?thesis using \<open>vs_waiting s = [a]\<close> by (simp add: resume_def resume_join_inv del: resume_join.simps)
qed

lemma leaveVoice_fields [simp]:
  "vs_waiting (leaveVoice d k s) = vs_waiting s" "vs_attempt (leaveVoice d k s) = Suc (vs_attempt s)"
  "vs_joining (leaveVoice d k s) = False" "vs_joined (leaveVoice d k s) = None"
  "vs_pending (leaveVoice d k s) = vs_pending s" "vs_prompt (leaveVoice d k s) = vs_prompt s"
  "vs_captures (leaveVoice d k s) = Suc (vs_captures s)"
  by (simp_all add: leaveVoice_def Let_def release_media_eq close_room_def)

lemma leave_released:
  assumes "covered extra s" and "d \<Longrightarrow> vs_rooms s = []"
  shows "released extra (leaveVoice d k s)"
  using assms
  by (cases d) (auto simp: leaveVoice_def Let_def release_media_eq close_room_def released_def covered_def without_nil)

lemma leaveVoice_inv:
  assumes "voice_inv s" and "d \<Longrightarrow> vs_rooms s = []"
  shows "voice_inv (leaveVoice d k s)"
proof (cases "vs_waiting s")
  case Nil
  then have "covered {} s" and "vs_pending s \<longleftrightarrow> vs_prompt s \<noteq> None"
    using assms(1) released_covered by (auto simp: voice_inv_def idle_ok_def)
  then show ?thesis using Nil leave_released[OF _ assms(2), of "{}"] by (simp add: voice_inv_def idle_ok_def)
next
  case (Cons a ws)
  then have "ws = []" and ok: "attempt_ok (at_wait a) a s"
    using assms(1) by (auto simp: voice_inv_def split: list.splits)
  have "released (set_option (at_stream a)) (leaveVoice d k s)"
    using ok leave_released[OF _ assms(2)] by (simp add: attempt_ok_def)
  moreover from this have "vs_cached (leaveVoice d k s) = None" "vs_gate (leaveVoice d k s) = None"
    by (simp_all add: released_def)
  ultimately show ?thesis
    using ok Cons \<open>ws = []\<close> released_covered by (simp add: voice_inv_def attempt_ok_def less_Suc_eq_le le_SucI)
qed

text \<open>A join begins with nothing open but the stream it is given.\<close>

lemma joinVoice_inv:
  assumes "vs_waiting s = []" "\<not> vs_joining s" "vs_joined s = None" "vs_pending s" "vs_prompt s = None"
    and "released (set_option p) s" "set os = set_option p"
  shows "voice_inv (joinVoice i c p os True s)"
proof -
  let ?n = "vs_attempt s + 1"
  let ?s = "s\<lparr>vs_error := None, vs_desired_muted := vs_self_muted s \<or> vs_self_deafened s,
              vs_reconciled := False, vs_joining := True, vs_attempt := ?n\<rparr>"
  let ?a = "\<lparr>at_number = ?n, at_channel = c, at_wait = AtCapture, at_capture = vs_captures s + 1, at_stream = p,
              at_gate = None, at_send = None, at_room = None, at_allowed = False, at_published = False,
              at_owned = os, at_guarded = True\<rparr>"
  let ?t = "(stop_capture (vs_cached ?s) ?s)\<lparr>vs_cached := None, vs_captures := vs_captures s + 1\<rparr>"
  have run: "running_ok ?a ?s" "attempt_ok AtResume ?a ?s"
    using assms by (simp_all add: running_ok_def attempt_ok_def released_def covered_def)
  have "voice_inv (settle True os True s)"
    using assms by (auto simp: voice_inv_def idle_ok_def settle_def released_def filter_empty_conv)
  moreover have "voice_inv (catch_failed msg ?a ?s)" for msg
    using failed_answer_inv[OF run(2)] assms(1) by simp
  moreover have "voice_inv (captured i ?a ?s)"
    using stream_ready_inv[OF run(2)] assms(1) by simp
  moreover have "voice_inv (suspend AtCapture ?a ?t)" if "p = None"
    using assms that
    by (intro suspend_inv) (auto simp: running_ok_def attempt_ok_def released_def covered_def stop_capture_def)
  ultimately show ?thesis using assms(2,3) by (simp add: joinVoice_def Let_def)
qed

lemma moveVoice_inv:
  assumes "vs_waiting s = []" "\<not> vs_joining s" "vs_joined s \<noteq> None" "vs_joined s \<noteq> Some c"
    and "vs_pending s" "vs_prompt s = None" "covered {} s"
  shows "voice_inv (moveVoice i c True s)"
proof -
  let ?s = "s\<lparr>vs_fresh := vs_fresh s + 1, vs_live := vs_fresh s # vs_live s\<rparr>"
  have "covered {vs_fresh s} ?s" using assms(7) by (auto simp: covered_def)
  then have "voice_inv (joinVoice i c (Some (vs_fresh s)) [vs_fresh s] True (leaveVoice False False ?s))"
    using assms leave_released[of "{vs_fresh s}" ?s False] by (intro joinVoice_inv) simp_all
  moreover have "voice_inv (joinVoice i c None [] True (leaveVoice False False s))"
    using assms leave_released[of "{}" s False] by (intro joinVoice_inv) simp_all
  ultimately show ?thesis using assms(3,4) by (auto simp: moveVoice_def Let_def split: option.split)
qed

lemma pending_idle: "voice_inv s \<Longrightarrow> \<not> vs_pending s \<Longrightarrow> vs_waiting s = []"
  by (auto simp: voice_inv_def attempt_ok_def split: list.splits)

lemma joinWithPreflight_inv:
  assumes "voice_inv s"
  shows "voice_inv (joinWithPreflight i c s)"
proof (cases "c = [] \<or> vs_joining s \<or> vs_pending s \<or> vs_joined s = Some c")
  case False
  then have w: "vs_waiting s = []" using pending_idle[OF assms] by blast
  then have ok: "idle_ok s" using assms by (simp add: voice_inv_def)
  let ?s = "s\<lparr>vs_pending := True, vs_generation := vs_generation s + 1\<rparr>"
  have "voice_inv (?s\<lparr>vs_pending := False\<rparr>)" using ok w False
    by (simp add: voice_inv_def idle_ok_def released_def covered_def)
  moreover have "voice_inv (moveVoice i c True ?s)" if "vs_joined s \<noteq> None"
    using ok w False that by (intro moveVoice_inv) (simp_all add: idle_ok_def covered_def)
  moreover have "voice_inv (?s\<lparr>vs_prompt := Some (c, vs_generation s + 1)\<rparr>)" if "vs_joined s = None"
    using ok w False that by (simp add: voice_inv_def idle_ok_def released_def)
  ultimately show ?thesis using False by (simp add: joinWithPreflight_def Let_def)
qed (use assms in \<open>simp add: joinWithPreflight_def\<close>)

lemma microphone_answered_inv:
  assumes "voice_inv s"
  shows "voice_inv (microphone_answered i s)"
proof (cases "vs_prompt s")
  case (Some p)
  obtain c g where p: "p = (c, g)" by (cases p)
  have w: "vs_waiting s = []"
    using assms Some by (auto simp: voice_inv_def attempt_ok_def split: list.splits)
  then have ok: "\<not> vs_joining s" "vs_joined s = None" "vs_pending s" "released {} s"
    using assms Some by (auto simp: voice_inv_def idle_ok_def)
  let ?n = "vs_fresh s"
  let ?s = "s\<lparr>vs_prompt := None, vs_fresh := ?n + 1, vs_live := ?n # vs_live s\<rparr>"
  have "voice_inv (joinVoice i c (Some ?n) [?n] True ?s)"
    using ok w by (intro joinVoice_inv) (auto simp: released_def)
  moreover have "voice_inv (s\<lparr>vs_prompt := None, vs_pending := False\<rparr>)"
    and "voice_inv ((stop_capture (Some ?n) ?s)\<lparr>vs_pending := False\<rparr>)"
    using ok w by (auto simp: voice_inv_def idle_ok_def released_def stop_capture_def without_nil)
  ultimately show ?thesis using Some p by (simp add: microphone_answered_def Let_def)
qed (use assms in \<open>simp add: microphone_answered_def\<close>)

text \<open>What the invariant reads of a state.\<close>

lemma voice_inv_frame:
  "voice_inv (s\<lparr>vs_generation := n\<rparr>) = voice_inv s" "voice_inv (s\<lparr>vs_reconciled := b\<rparr>) = voice_inv s"
  "voice_inv (s\<lparr>vs_self_muted := b\<rparr>) = voice_inv s" "voice_inv (s\<lparr>vs_self_deafened := b\<rparr>) = voice_inv s"
  "voice_inv (s\<lparr>vs_sent := ms\<rparr>) = voice_inv s" "voice_inv (s\<lparr>vs_desired_muted := b\<rparr>) = voice_inv s"
  by (simp_all add: voice_inv_def idle_ok_def attempt_ok_def covered_def released_def cong: list.case_cong)

lemma close_room_inv:
  assumes "voice_inv s"
  shows "voice_inv (close_room r s)"
proof -
  have "covered X s \<Longrightarrow> covered X (close_room r s)" "released X s \<Longrightarrow> released X (close_room r s)" for X
    by (auto simp: covered_def released_def close_room_def)
  then have "idle_ok s \<Longrightarrow> idle_ok (close_room r s)" "attempt_ok w a s \<Longrightarrow> attempt_ok w a (close_room r s)" for w a
    by (simp_all add: idle_ok_def attempt_ok_def close_room_def)
  moreover have "vs_waiting (close_room r s) = vs_waiting s" by (simp add: close_room_def)
  ultimately show ?thesis using assms by (simp add: voice_inv_def split: list.splits)
qed

lemma inv_rooms: "voice_inv s \<Longrightarrow> set (vs_rooms s) \<subseteq> set_option (vs_room s)"
  by (auto simp: voice_inv_def idle_ok_def attempt_ok_def covered_def released_def split: list.splits)

lemma session_moved_inv: "voice_inv s \<Longrightarrow> voice_inv (session_moved s)"
  by (simp add: session_moved_def leaveVoice_inv)

lemma room_closed_inv:
  assumes "voice_inv s"
  shows "voice_inv (room_closed r d s)"
proof -
  let ?s1 = "close_room (Some r) s"
  let ?s2 = "if vs_room ?s1 = Some r \<and> d then session_moved ?s1 else ?s1"
  have "voice_inv ?s2" using assms by (simp add: close_room_inv session_moved_inv)
  moreover have "vs_rooms ?s2 = []" if "vs_room ?s2 = Some r"
  proof (rule ccontr)
    assume "vs_rooms ?s2 \<noteq> []"
    moreover have "r \<notin> set (vs_rooms ?s2)"
      by (auto simp: session_moved_def leaveVoice_def Let_def release_media_eq close_room_def)
    ultimately show False using inv_rooms[OF \<open>voice_inv ?s2\<close>] that by (cases "vs_rooms ?s2") auto
  qed
  ultimately show ?thesis
    by (simp add: room_closed_def Let_def reconcileFinalMediaDisconnect_def leaveVoice_inv voice_inv_frame)
qed

lemma setVoiceControls_inv: "voice_inv s \<Longrightarrow> voice_inv (setVoiceControls m d s)"
  by (simp add: setVoiceControls_def Let_def voice_inv_frame)

lemma voice_step_inv: "voice_step s s' \<Longrightarrow> voice_inv s \<Longrightarrow> voice_inv s'"
  by (erule voice_stepE)
    (simp_all add: joinWithPreflight_inv microphone_answered_inv voice_inv_frame resume_inv leave_pressed_def
      leaveVoice_inv session_moved_inv room_closed_inv unmounted_def store_cleared_def setVoiceControls_inv)

lemma voice_reachable_inv: "voice_reachable s \<Longrightarrow> voice_inv s"
  by (induction rule: rtranclp_induct)
    (simp_all add: voice_step_inv, simp add: voice_inv_def idle_ok_def released_def init_voice_def)

lemma idle_releases:
  assumes "voice_reachable s" and "\<not> vs_pending s" and "vs_joined s = None"
  shows "vs_live s = [] \<and> vs_gates s = [] \<and> vs_rooms s = [] \<and> vs_waiting s = [] \<and> \<not> vs_joining s"
proof -
  note inv = voice_reachable_inv[OF assms(1)]
  show ?thesis using pending_idle[OF inv assms(2)] inv assms(3)
    by (simp add: voice_inv_def idle_ok_def released_def)
qed

lemma joined_has_room:
  assumes "voice_reachable s" and "vs_joined s \<noteq> None"
  shows "vs_room s \<noteq> None \<and> vs_waiting s = [] \<and> \<not> vs_joining s
    \<and> set (vs_rooms s) \<subseteq> set_option (vs_room s)"
  using voice_reachable_inv[OF assms(1)] assms(2)
  by (auto simp: voice_inv_def idle_ok_def attempt_ok_def covered_def split: list.splits)

section \<open>Joins that overlap\<close>

text \<open>
  An input with everything available. The run: a join waits for its token when the user leaves; a second join
  gets as far as being joined; then the first one's token request fails.
\<close>

definition fine :: join_input where
  "fine = \<lparr>ji_error = None, ji_connected = True, ji_signed_in = True, ji_supported = True, ji_media_devices = True,
     ji_has_track = True, ji_native = False, ji_server_muted = False, ji_server_deafened = False, ji_turn = False,
     ji_reconnecting = False, ji_push_to_talk = False, ji_same_view = True\<rparr>"

definition answer_first :: "voice_session \<Rightarrow> voice_session" where
  "answer_first s = (case vs_waiting s of [] \<Rightarrow> s | a # _ \<Rightarrow> resume fine a s)"

definition overlap :: voice_session where
  "overlap =
     (let s1 = (answer_first ^^ 3) (joinVoice fine ''red'' (Some 100) [] False init_voice);
          s2 = (answer_first ^^ 7) (joinVoice fine ''blue'' (Some 200) [] False (leaveVoice False False s1))
      in resume (fine\<lparr>ji_error := Some ''Request failed''\<rparr>) (last (vs_waiting s2)) s2)"

lemma overlap_closes_newer_session:
  "vs_joined overlap = Some ''blue'' \<and> vs_room overlap = None \<and> vs_rooms overlap = []
   \<and> vs_error overlap = Some ''Request failed''"
  by code_simp

text \<open>
  The client's joins do not overlap, but a join that was left while its room connects still fails with the
  room's own error, and reports it.
\<close>

definition late_failure :: voice_session where
  "late_failure =
     (let s = (answer_first ^^ 4) (microphone_answered fine (joinWithPreflight fine ''red'' init_voice));
          s1 = leave_pressed s
      in resume (fine\<lparr>ji_error := Some ''Client initiated disconnect''\<rparr>) (hd (vs_waiting s1)) s1)"

lemma late_failure_reported: "vs_error late_failure = Some ''Client initiated disconnect'' \<and> vs_joined late_failure = None"
  by code_simp

text \<open>A push-to-talk user's room may end while the last step of the join mutes the microphone.\<close>

definition dead_room :: voice_session where
  "dead_room =
     (let ptt = fine\<lparr>ji_push_to_talk := True\<rparr>;
          s = (answer_first ^^ 6) (microphone_answered fine (joinWithPreflight fine ''red'' init_voice));
          s1 = resume ptt (hd (vs_waiting s)) s;
          s2 = room_closed (the (vs_room s1)) False s1
      in resume ptt (hd (vs_waiting s2)) s2)"

lemma dead_room_joined: "vs_joined dead_room = Some ''red'' \<and> vs_rooms dead_room = []"
  by code_simp

end
