(* ===== verification/VoiceCues.thy ===== *)
theory VoiceCues
  imports JsBase
begin

text \<open>
  The join and leave sounds of a voice channel, the part of \<^verbatim>\<open>joinVoice\<close> in
  \<^verbatim>\<open>src/webrtc/useLiveKitVoice.ts\<close> between opening the room and connecting it. The room's events put a
  microtask into a queue; what it decides may start a timer of three seconds. The server's voice state and
  the room's own events both announce, so the set of counted participants decides whether a sound is due.
\<close>

section \<open>State\<close>

datatype cue_kind = JoinCue | LeaveCue

datatype departure_reason = ClientInitiated | ParticipantRemoved | OtherReason

text \<open>
  A queued microtask: the participant, whether present, the reason of a departure and the generation it
  was queued in. \<open>pc_played\<close> are the sounds since the counted set was last read from the room, newest first.
\<close>

record cue_state =
  pc_ids :: "string list"
  pc_timers :: "(string \<times> nat) list"
  pc_ready :: bool
  pc_generation :: nat
  pc_queue :: "(string \<times> bool \<times> departure_reason \<times> nat) list"
  pc_current :: bool
  pc_connected :: bool
  pc_remote :: "string list"
  pc_start :: "string list"
  pc_played :: "(string \<times> cue_kind) list"

definition init_cues :: cue_state where
  "init_cues = \<lparr>pc_ids = [], pc_timers = [], pc_ready = False, pc_generation = 0, pc_queue = [], pc_current = True,
     pc_connected = False, pc_remote = [], pc_start = [], pc_played = []\<rparr>"

section \<open>Operations\<close>

definition clearPendingLeaveCue :: "string \<Rightarrow> cue_state \<Rightarrow> cue_state" where
  "clearPendingLeaveCue identity s = s\<lparr>pc_timers := obj_del identity (pc_timers s)\<rparr>"

definition suspendParticipantCues :: "cue_state \<Rightarrow> cue_state" where
  "suspendParticipantCues s = s\<lparr>pc_ready := False, pc_generation := pc_generation s + 1, pc_timers := []\<rparr>"

definition hydrateParticipantCues :: "cue_state \<Rightarrow> cue_state" where
  "hydrateParticipantCues s =
     s\<lparr>pc_generation := pc_generation s + 1, pc_timers := [], pc_ids := remdups (pc_remote s), pc_ready := True,
       pc_start := remdups (pc_remote s), pc_played := []\<rparr>"

text \<open>What \<^verbatim>\<open>participantCueCleanupRef\<close> runs; the leave or the newer room has taken the room's place.\<close>

definition cleanupParticipantCues :: "cue_state \<Rightarrow> cue_state" where
  "cleanupParticipantCues s =
     (suspendParticipantCues s)\<lparr>pc_ids := [], pc_current := False, pc_start := [], pc_played := []\<rparr>"

definition play_join :: "string \<Rightarrow> cue_state \<Rightarrow> cue_state" where
  "play_join identity s =
     (if identity \<in> set (pc_ids s) then s
      else s\<lparr>pc_ids := pc_ids s @ [identity], pc_played := (identity, JoinCue) # pc_played s\<rparr>)"

definition play_leave :: "string \<Rightarrow> cue_state \<Rightarrow> cue_state" where
  "play_leave identity s =
     (if identity \<in> set (pc_ids s)
      then s\<lparr>pc_ids := removeAll identity (pc_ids s), pc_played := (identity, LeaveCue) # pc_played s\<rparr>
      else s)"

text \<open>One participant of the loop over the old and the new voice states.\<close>

definition server_change :: "string \<Rightarrow> string option obj \<Rightarrow> string option obj \<Rightarrow> string \<Rightarrow> cue_state \<Rightarrow> cue_state" where
  "server_change channelId old new identity s =
     (let wasHere = (obj_get old identity = Some (Some channelId));
          isHere = (obj_get new identity = Some (Some channelId))
      in if wasHere \<and> \<not> isHere then play_leave identity (clearPendingLeaveCue identity s)
         else if \<not> wasHere \<and> isHere \<and> identity \<in> set (pc_remote s) then play_join identity s
         else s)"

definition on_voice_states ::
  "bool \<Rightarrow> string \<Rightarrow> string \<Rightarrow> string option obj \<Rightarrow> string option obj \<Rightarrow> cue_state \<Rightarrow> cue_state" where
  "on_voice_states applyingLiveKitPresence localIdentity channelId old new s =
     (if old = new \<or> applyingLiveKitPresence \<or> \<not> pc_current s \<or> \<not> pc_ready s \<or> \<not> pc_connected s then s
      else fold (server_change channelId old new)
             (filter (\<lambda>i. i \<noteq> localIdentity) (remdups (obj_keys old @ obj_keys new))) s)"

definition queueParticipantCue :: "string \<Rightarrow> bool \<Rightarrow> departure_reason \<Rightarrow> cue_state \<Rightarrow> cue_state" where
  "queueParticipantCue identity present reason s =
     s\<lparr>pc_queue := pc_queue s @ [(identity, present, reason, pc_generation s)]\<rparr>"

definition run_cue :: "string \<times> bool \<times> departure_reason \<times> nat \<Rightarrow> cue_state \<Rightarrow> cue_state" where
  "run_cue task s =
     (case task of (identity, present, reason, generation) \<Rightarrow>
        if \<not> pc_current s \<or> \<not> pc_ready s \<or> generation \<noteq> pc_generation s \<or> \<not> pc_connected s then s
        else if present then play_join identity (clearPendingLeaveCue identity s)
        else if identity \<notin> set (pc_ids s) \<or> obj_get (pc_timers s) identity \<noteq> None then s
        else if reason = ClientInitiated \<or> reason = ParticipantRemoved then play_leave identity s
        else s\<lparr>pc_timers := obj_put identity generation (pc_timers s)\<rparr>)"

definition run_microtask :: "cue_state \<Rightarrow> cue_state" where
  "run_microtask s =
     (case pc_queue s of [] \<Rightarrow> s | task # rest \<Rightarrow> run_cue task (s\<lparr>pc_queue := rest\<rparr>))"

definition leave_timer_fired :: "string \<Rightarrow> cue_state \<Rightarrow> cue_state" where
  "leave_timer_fired identity s =
     (case obj_get (pc_timers s) identity of
        None \<Rightarrow> s
      | Some generation \<Rightarrow>
          let s1 = s\<lparr>pc_timers := obj_del identity (pc_timers s)\<rparr>
          in if \<not> pc_current s1 \<or> \<not> pc_ready s1 \<or> generation \<noteq> pc_generation s1 \<or> \<not> pc_connected s1
                \<or> identity \<in> set (pc_remote s1) then s1
             else play_leave identity s1)"

section \<open>Events\<close>

definition participant_connected :: "string \<Rightarrow> cue_state \<Rightarrow> cue_state" where
  "participant_connected identity s =
     queueParticipantCue identity True OtherReason (s\<lparr>pc_remote := identity # removeAll identity (pc_remote s)\<rparr>)"

definition participant_disconnected :: "string \<Rightarrow> departure_reason \<Rightarrow> cue_state \<Rightarrow> cue_state" where
  "participant_disconnected identity reason s =
     queueParticipantCue identity False reason (s\<lparr>pc_remote := removeAll identity (pc_remote s)\<rparr>)"

text \<open>
  The room loses its connection, with the event in the same run of code, and gets it back with whatever
  participants it then has. \<open>room_joined\<close> is the first connect of the join.
\<close>

definition room_reconnecting :: "cue_state \<Rightarrow> cue_state" where
  "room_reconnecting s = suspendParticipantCues (s\<lparr>pc_connected := False\<rparr>)"

definition room_reconnected :: "string list \<Rightarrow> cue_state \<Rightarrow> cue_state" where
  "room_reconnected remote s =
     (let s1 = s\<lparr>pc_connected := True, pc_remote := remote\<rparr>
      in if pc_current s1 then hydrateParticipantCues s1 else s1)"

definition room_joined :: "string list \<Rightarrow> cue_state \<Rightarrow> cue_state" where
  "room_joined remote s = hydrateParticipantCues (s\<lparr>pc_connected := True, pc_remote := remote\<rparr>)"

inductive cue_step :: "cue_state \<Rightarrow> cue_state \<Rightarrow> bool" where
  arrives: "cue_step s (participant_connected i s)"
| departs: "cue_step s (participant_disconnected i r s)"
| microtask: "cue_step s (run_microtask s)"
| timer: "cue_step s (leave_timer_fired i s)"
| server: "cue_step s (on_voice_states ap li c old new s)"
| lost: "cue_step s (room_reconnecting s)"
| restored: "cue_step s (room_reconnected rs s)"
| opened: "pc_current s \<Longrightarrow> cue_step s (room_joined rs s)"
| replaced: "cue_step s (cleanupParticipantCues s)"

inductive_cases cue_stepE: "cue_step s s'"

abbreviation cue_reachable :: "cue_state \<Rightarrow> bool" where
  "cue_reachable \<equiv> cue_step\<^sup>*\<^sup>* init_cues"

lemma cue_next: "cue_reachable s \<Longrightarrow> cue_step s s' \<Longrightarrow> cue_reachable s'"
  by (rule rtranclp.rtrancl_into_rtrancl)

section \<open>The sounds of a participant alternate\<close>

text \<open>
  Read from the oldest: with \<open>present\<close> telling whether the participant was counted at the start, joins and
  leaves take turns, and the result tells whether they are counted at the end.
\<close>

fun take_turns :: "bool \<Rightarrow> cue_kind list \<Rightarrow> bool option" where
  "take_turns present [] = Some present"
| "take_turns present (JoinCue # ks) = (if present then None else take_turns True ks)"
| "take_turns present (LeaveCue # ks) = (if present then take_turns False ks else None)"

definition sounds_of :: "string \<Rightarrow> cue_state \<Rightarrow> cue_kind list" where
  "sounds_of identity s = rev (map snd (filter (\<lambda>p. fst p = identity) (pc_played s)))"

definition turns_ok :: "cue_state \<Rightarrow> bool" where
  "turns_ok s \<longleftrightarrow> (\<forall>i. take_turns (i \<in> set (pc_start s)) (sounds_of i s) = Some (i \<in> set (pc_ids s)))"

lemma take_turns_append:
  "take_turns b (ks @ [k]) =
     (case take_turns b ks of None \<Rightarrow> None
      | Some c \<Rightarrow> if c = (k = JoinCue) then None else Some (k = JoinCue))"
  by (induction b ks rule: take_turns.induct) (cases k; simp)+

lemma play_join_turns: "turns_ok s \<Longrightarrow> turns_ok (play_join i s)"
  by (auto simp: turns_ok_def play_join_def sounds_of_def take_turns_append)

lemma play_leave_turns: "turns_ok s \<Longrightarrow> turns_ok (play_leave i s)"
  by (auto simp: turns_ok_def play_leave_def sounds_of_def take_turns_append)

lemma turns_frame [simp]:
  "turns_ok (s\<lparr>pc_timers := ts\<rparr>) = turns_ok s" "turns_ok (s\<lparr>pc_queue := q\<rparr>) = turns_ok s"
  "turns_ok (s\<lparr>pc_remote := rs\<rparr>) = turns_ok s" "turns_ok (s\<lparr>pc_ready := b\<rparr>) = turns_ok s"
  "turns_ok (s\<lparr>pc_generation := n\<rparr>) = turns_ok s" "turns_ok (s\<lparr>pc_connected := b\<rparr>) = turns_ok s"
  by (simp_all add: turns_ok_def sounds_of_def)

lemma server_change_turns: "turns_ok s \<Longrightarrow> turns_ok (server_change c old new i s)"
  by (simp add: server_change_def Let_def clearPendingLeaveCue_def play_leave_turns play_join_turns)

lemma server_changes_turns: "turns_ok s \<Longrightarrow> turns_ok (fold (server_change c old new) is s)"
  by (induction "is" arbitrary: s) (simp_all add: server_change_turns)

lemma cue_step_turns: "cue_step s s' \<Longrightarrow> turns_ok s \<Longrightarrow> turns_ok s'"
  by (erule cue_stepE)
    (auto simp: participant_connected_def participant_disconnected_def queueParticipantCue_def run_microtask_def
      run_cue_def leave_timer_fired_def on_voice_states_def room_reconnecting_def suspendParticipantCues_def
      clearPendingLeaveCue_def Let_def play_leave_turns play_join_turns server_changes_turns split: list.split option.split,
     auto simp: turns_ok_def sounds_of_def room_reconnected_def room_joined_def hydrateParticipantCues_def
      cleanupParticipantCues_def suspendParticipantCues_def Let_def)

lemma cues_take_turns: "cue_reachable s \<Longrightarrow> turns_ok s"
  by (induction rule: rtranclp_induct) (auto simp: cue_step_turns, simp add: turns_ok_def sounds_of_def init_cues_def)

section \<open>Departures are announced\<close>

definition tasks_of :: "string \<Rightarrow> cue_state \<Rightarrow> (string \<times> bool \<times> departure_reason \<times> nat) list" where
  "tasks_of i s = filter (\<lambda>t. fst t = i \<and> snd (snd (snd t)) = pc_generation s) (pc_queue s)"

definition announced_as_absent :: "(string \<times> bool \<times> departure_reason \<times> nat) list \<Rightarrow> bool" where
  "announced_as_absent ts \<longleftrightarrow> ts \<noteq> [] \<and> \<not> fst (snd (last ts))"

text \<open>
  Whoever is counted but not in the room has a timer or a departure in the queue, and the last word of the
  queue on anyone outside the room is that they are absent.
\<close>

definition departure_due :: "string \<Rightarrow> cue_state \<Rightarrow> bool" where
  "departure_due i s \<longleftrightarrow>
     (if tasks_of i s = [] then i \<notin> set (pc_ids s) \<or> obj_get (pc_timers s) i \<noteq> None
      else announced_as_absent (tasks_of i s))"

definition cues_active :: "cue_state \<Rightarrow> bool" where
  "cues_active s \<longleftrightarrow> pc_current s \<and> pc_ready s \<and> pc_connected s"

definition departures_ok :: "cue_state \<Rightarrow> bool" where
  "departures_ok s \<longleftrightarrow>
     (\<forall>t \<in> set (pc_queue s). snd (snd (snd t)) \<le> pc_generation s)
     \<and> (\<forall>i g. obj_get (pc_timers s) i = Some g \<longrightarrow> g = pc_generation s)
     \<and> (cues_active s \<longrightarrow> (\<forall>i. i \<notin> set (pc_remote s) \<longrightarrow> departure_due i s))"

lemma play_leave_simps [simp]:
  "pc_queue (play_leave i s) = pc_queue s" "pc_timers (play_leave i s) = pc_timers s"
  "pc_generation (play_leave i s) = pc_generation s" "pc_remote (play_leave i s) = pc_remote s"
  "cues_active (play_leave i s) = cues_active s" "set (pc_ids (play_leave i s)) = set (pc_ids s) - {i}"
  by (auto simp: play_leave_def cues_active_def)

lemma play_join_simps [simp]:
  "pc_queue (play_join i s) = pc_queue s" "pc_timers (play_join i s) = pc_timers s"
  "pc_generation (play_join i s) = pc_generation s" "pc_remote (play_join i s) = pc_remote s"
  "cues_active (play_join i s) = cues_active s" "set (pc_ids (play_join i s)) = insert i (set (pc_ids s))"
  by (auto simp: play_join_def cues_active_def)

lemma clear_pending_simps [simp]:
  "pc_queue (clearPendingLeaveCue i s) = pc_queue s" "pc_timers (clearPendingLeaveCue i s) = obj_del i (pc_timers s)"
  "pc_generation (clearPendingLeaveCue i s) = pc_generation s" "pc_remote (clearPendingLeaveCue i s) = pc_remote s"
  "cues_active (clearPendingLeaveCue i s) = cues_active s" "pc_ids (clearPendingLeaveCue i s) = pc_ids s"
  by (auto simp: clearPendingLeaveCue_def cues_active_def)

lemma server_change_departures: "departures_ok s \<Longrightarrow> departures_ok (server_change c old new i s)"
  by (auto simp: departures_ok_def server_change_def Let_def departure_due_def tasks_of_def obj_simps split: if_splits)

lemma server_changes_departures: "departures_ok s \<Longrightarrow> departures_ok (fold (server_change c old new) is s)"
  by (induction "is" arbitrary: s) (simp_all add: server_change_departures)

lemma timer_fired_departures: "departures_ok s \<Longrightarrow> departures_ok (leave_timer_fired i s)"
  by (auto simp: departures_ok_def leave_timer_fired_def Let_def departure_due_def tasks_of_def obj_simps cues_active_def
      split: option.split if_splits)

lemma run_microtask_departures:
  assumes "departures_ok s"
  shows "departures_ok (run_microtask s)"
proof (cases "pc_queue s")
  case (Cons t rest)
  obtain j present reason g where t: "t = (j, present, reason, g)" by (cases t)
  let ?s = "s\<lparr>pc_queue := rest\<rparr>"
  have tasks: "tasks_of i s = (if j = i \<and> g = pc_generation s then [t] else []) @ tasks_of i ?s" for i
    by (simp add: tasks_of_def Cons t)
  show ?thesis
  proof (cases "cues_active s \<and> g = pc_generation s")
    case False
    then have "run_cue t ?s = ?s" by (auto simp: run_cue_def t cues_active_def)
    moreover have "departures_ok ?s"
      using assms False tasks Cons by (auto simp: departures_ok_def departure_due_def cues_active_def)
    ultimately show ?thesis using Cons by (simp add: run_microtask_def)
  next
    case True
    then have act: "pc_current s" "pc_ready s" "pc_connected s" "cues_active s" and g: "g = pc_generation s"
      by (auto simp: cues_active_def)
    have old: "departures_ok s" by (fact assms)
    let ?r = "run_cue t ?s"
    have frame: "pc_queue ?r = rest" "pc_remote ?r = pc_remote s" "pc_generation ?r = pc_generation s"
      by (auto simp: run_cue_def t)
    have "departure_due i ?r" if i: "i \<notin> set (pc_remote s)" for i
    proof -
      have before: "departure_due i s" using old act i by (simp add: departures_ok_def)
      have same: "tasks_of i ?r = tasks_of i ?s" by (simp add: tasks_of_def frame)
      show ?thesis
      proof (cases "j = i \<and> tasks_of i ?s = []")
        case True
        then have "\<not> present" using before tasks[of i] g t by (simp add: departure_due_def announced_as_absent_def)
        then show ?thesis using True g act same
          by (auto simp: run_cue_def t departure_due_def obj_simps)
      next
        case False
        then show ?thesis using before tasks[of i] same g act
          by (auto simp: departure_due_def announced_as_absent_def run_cue_def t obj_simps)
      qed
    qed
    moreover have "\<forall>i h. obj_get (pc_timers ?r) i = Some h \<longrightarrow> h = pc_generation s"
      using old g by (auto simp: run_cue_def t departures_ok_def obj_simps)
    moreover have "\<forall>t \<in> set rest. snd (snd (snd t)) \<le> pc_generation s"
      using old Cons by (simp add: departures_ok_def)
    ultimately have "departures_ok ?r" using frame by (simp add: departures_ok_def)
    then show ?thesis using Cons by (simp add: run_microtask_def)
  qed
qed (use assms in \<open>simp add: run_microtask_def\<close>)

lemma queued_departures:
  assumes "departures_ok s" and "present \<longrightarrow> i \<in> set rs" and "set (pc_remote s) - {i} = set rs - {i}"
  shows "departures_ok (queueParticipantCue i present r (s\<lparr>pc_remote := rs\<rparr>))"
  using assms
  by (auto simp: departures_ok_def queueParticipantCue_def departure_due_def tasks_of_def cues_active_def
      announced_as_absent_def)

lemma hydrate_departures:
  "departures_ok s \<Longrightarrow> departures_ok (hydrateParticipantCues (s\<lparr>pc_connected := b, pc_remote := rs\<rparr>))"
  by (force simp: departures_ok_def hydrateParticipantCues_def departure_due_def tasks_of_def filter_empty_conv)

lemma suspend_departures: "departures_ok s \<Longrightarrow> departures_ok (suspendParticipantCues s)"
  by (force simp: departures_ok_def suspendParticipantCues_def cues_active_def)

lemma cue_step_departures:
  assumes "cue_step s s'" and "departures_ok s"
  shows "departures_ok s'"
  using assms
proof cases
  case (arrives i)
  then show ?thesis using assms(2) by (auto simp: participant_connected_def intro!: queued_departures)
next
  case (departs i r)
  then show ?thesis using assms(2) by (auto simp: participant_disconnected_def intro!: queued_departures)
next
  case (server ap li c old new)
  then show ?thesis using assms(2) by (simp add: on_voice_states_def server_changes_departures)
next
  case lost
  have "departures_ok (s\<lparr>pc_connected := False\<rparr>)"
    using assms(2) by (simp add: departures_ok_def cues_active_def)
  then show ?thesis using lost by (simp add: room_reconnecting_def suspend_departures)
next
  case (restored rs)
  have "departures_ok (s\<lparr>pc_connected := True, pc_remote := rs\<rparr>)" if "\<not> pc_current s"
    using assms(2) that by (simp add: departures_ok_def cues_active_def)
  then show ?thesis using restored assms(2) by (simp add: room_reconnected_def Let_def hydrate_departures)
next
  case (opened rs)
  then show ?thesis using assms(2) by (simp add: room_joined_def hydrate_departures)
next
  case replaced
  then show ?thesis using suspend_departures[OF assms(2)]
    by (simp add: cleanupParticipantCues_def departures_ok_def cues_active_def)
qed (simp_all add: run_microtask_departures timer_fired_departures assms(2))

lemma cue_reachable_departures: "cue_reachable s \<Longrightarrow> departures_ok s"
  by (induction rule: rtranclp_induct)
    (auto simp: cue_step_departures, simp add: departures_ok_def init_cues_def cues_active_def)

text \<open>Once nothing is queued and no timer runs, everyone who is counted is in the room.\<close>

lemma settled_counts_room:
  assumes "cue_reachable s" and "cues_active s" and "pc_queue s = []" and "pc_timers s = []"
  shows "set (pc_ids s) \<subseteq> set (pc_remote s)"
  using cue_reachable_departures[OF assms(1)] assms(2-)
  by (auto simp: departures_ok_def departure_due_def tasks_of_def)

end
