(* ===== verification/MessageSending.thy ===== *)
theory MessageSending
  imports Composer Utf16 MessageResilience MessageCaches
begin

text \<open>
  Writing a message, as the server view (\<^verbatim>\<open>src/pages/AppLayout.tsx\<close>) and the direct messages
  (\<^verbatim>\<open>src/pages/HomePage.tsx\<close>) both do it: what is sent and when nothing is, the optimistic copy, what a failure
  and a retry make of it, and which picked files become attachments.
\<close>

section \<open>What is sent\<close>

record reply_target =
  rt_id :: string
  rt_username :: string
  rt_snippet :: string

definition NEWLINES :: string where "NEWLINES = [CHR 10, CHR 10]"

definition compose_content :: "reply_target option \<Rightarrow> string \<Rightarrow> string" where
  "compose_content reply bodyText =
     (case reply of None \<Rightarrow> bodyText
      | Some r \<Rightarrow> ''> @'' @ rt_username r @ '': '' @ rt_snippet r @ NEWLINES @ bodyText)"

definition to_attachment :: "string option \<times> string \<times> string \<times> int \<times> string \<Rightarrow> attachment" where
  "to_attachment u =
     (case u of (i, name, url, bytes, type) \<Rightarrow>
        \<lparr>att_id = i, att_url = url, att_type = Some type, att_name = Some name, att_size = Some bytes, att_sha256 = None\<rparr>)"

definition draft_attachments :: "draft_item list \<Rightarrow> attachment list" where
  "draft_attachments items = map to_attachment (getUploadedDraftAttachments items)"

definition too_long :: "string \<Rightarrow> bool" where
  "too_long content \<longleftrightarrow> int (countMessageCharacters (u16 content)) > MESSAGE_MAX_CHARACTERS"

text \<open>
  A send is told apart by channel, content and attachments; the code joins the three with line feeds, and
  neither a channel id nor the JSON of the attachments contains one.
\<close>

type_synonym send_key = "string \<times> string \<times> attachment list"

datatype send_decision =
  SendIgnored
| SendRefused string string
| SendNow string "attachment list"

definition decide_send ::
  "draft_item list \<Rightarrow> string \<Rightarrow> reply_target option \<Rightarrow> string \<Rightarrow> send_key list \<Rightarrow> send_decision" where
  "decide_send items inputValue reply channelId pending =
     (if hasPendingDraftAttachments items
        then SendRefused ''Attachment still pending''
               ''Finish uploading attachments or retry failed ones before sending.''
      else
        let atts = draft_attachments items; bodyText = js_trim inputValue;
            content = compose_content reply bodyText
        in if bodyText = [] \<and> atts = [] then SendIgnored
           else if too_long content
             then SendRefused ''Message too long''
                    ''Messages can contain up to 4000 characters, including the reply quote.''
           else if (channelId, content, atts) \<in> set pending then SendIgnored
           else SendNow content atts)"

definition optimistic_message ::
  "user option \<Rightarrow> string option \<Rightarrow> string \<Rightarrow> string \<Rightarrow> string \<Rightarrow> string \<Rightarrow> attachment list \<Rightarrow> message" where
  "optimistic_message me roleColor now clientId channelId content atts =
     \<lparr>msg_id = ''local-'' @ clientId, msg_channel_id = channelId, msg_content = content, msg_attachments = Some atts,
      msg_reactions = None, msg_edited_at = None, msg_created_at = now,
      msg_author = Some \<lparr>aut_user_id = nullish (map_option usr_id me) ''local'',
        aut_username = nullish (map_option usr_username me) ''You'',
        aut_avatar_url = Option.bind me usr_avatar_url, aut_role_color = roleColor\<rparr>,
      msg_client_id = Some clientId, msg_client_status = Some Sending, msg_client_error = None,
      msg_client_draft = None\<rparr>"

section \<open>What becomes of the optimistic copy\<close>

definition map_client :: "string \<Rightarrow> (message \<Rightarrow> message) \<Rightarrow> message list \<Rightarrow> message list" where
  "map_client clientId f ms = map (\<lambda>m. if msg_client_id m = Some clientId then f m else m) ms"

definition apply_failed :: "string \<Rightarrow> string \<Rightarrow> string option \<Rightarrow> message list \<Rightarrow> message list" where
  "apply_failed clientId error draft =
     map_client clientId
       (\<lambda>m. m\<lparr>msg_client_status := Some Failed, msg_client_error := Some error, msg_client_draft := draft\<rparr>)"

definition mark_retrying :: "string \<Rightarrow> message list \<Rightarrow> message list" where
  "mark_retrying clientId =
     map_client clientId (\<lambda>m. m\<lparr>msg_client_status := Some Sending, msg_client_error := None\<rparr>)"

definition apply_retried :: "string \<Rightarrow> message \<Rightarrow> message list \<Rightarrow> message list" where
  "apply_retried clientId msg current =
     (if list_ex (\<lambda>m. msg_id m = msg_id msg) current
      then filter (\<lambda>m. msg_client_id m \<noteq> Some clientId) current
      else map_client clientId (\<lambda>_. msg) current)"

definition apply_failed_retry :: "string \<Rightarrow> string \<Rightarrow> message list \<Rightarrow> message list" where
  "apply_failed_retry clientId error =
     map_client clientId (\<lambda>m. m\<lparr>msg_client_status := Some Failed, msg_client_error := Some error\<rparr>)"

text \<open>\<^verbatim>\<open>{ ...m, clientStatus: undefined, clientId: undefined, ... }\<close>: a row of the server.\<close>

definition server_row :: "message \<Rightarrow> message" where
  "server_row m = (strip_client m)\<lparr>msg_client_draft := None\<rparr>"

section \<open>Picking files\<close>

definition MAX_CHAT_ATTACHMENT_BYTES :: int where "MAX_CHAT_ATTACHMENT_BYTES = 10 * 1024 * 1024"

definition MAX_ATTACHMENTS :: nat where "MAX_ATTACHMENTS = 4"

text \<open>The files that are uploaded, and whether too many or too large ones were left out.\<close>

definition pick_files :: "draft_item list \<Rightarrow> local_file list \<Rightarrow> local_file list \<times> bool \<times> string list" where
  "pick_files current incoming =
     (let remainingSlots = MAX_ATTACHMENTS - length current in
      if remainingSlots = 0 then ([], True, [])
      else let picked = take remainingSlots incoming
           in (filter (\<lambda>f. lf_size f \<le> MAX_CHAT_ATTACHMENT_BYTES) picked,
               length incoming > remainingSlots,
               map lf_name (filter (\<lambda>f. lf_size f > MAX_CHAT_ATTACHMENT_BYTES) picked)))"

text \<open>The draft while the files upload; the pick is no change when nothing is left of it.\<close>

definition begin_upload :: "(nat \<Rightarrow> string) \<Rightarrow> local_file list \<Rightarrow> draft_item list \<Rightarrow> draft_item list" where
  "begin_upload secureId allowed current =
     (if allowed = [] then current
      else take MAX_ATTACHMENTS (current @ createUploadingDraftAttachments secureId allowed))"

section \<open>Sends under way\<close>

text \<open>
  The keys of the requests that wait, \<open>key\<close> telling the sends among them, against the set of pending keys the code
  keeps.
\<close>

definition sends_of :: "('k \<Rightarrow> send_key option) \<Rightarrow> 'k list \<Rightarrow> send_key list" where
  "sends_of key ks = List.map_filter key ks"

definition sends_consistent :: "send_key list \<Rightarrow> send_key list \<Rightarrow> bool" where
  "sends_consistent waiting pending \<longleftrightarrow> distinct waiting \<and> set waiting = set pending"

lemma sends_of_simps [simp]:
  "sends_of key [] = []"
  "sends_of key (k # ks) = (case key k of None \<Rightarrow> sends_of key ks | Some f \<Rightarrow> f # sends_of key ks)"
  "sends_of key (ks @ ks') = sends_of key ks @ sends_of key ks'"
  by (simp_all add: sends_of_def List.map_filter_def split: option.split)

lemma sends_of_remove1_quiet: "key k = None \<Longrightarrow> sends_of key (remove1 k ks) = sends_of key ks"
  by (induction ks) (auto split: option.split)

lemma in_sends_of: "k \<in> set ks \<Longrightarrow> key k = Some f \<Longrightarrow> f \<in> set (sends_of key ks)"
  by (induction ks) (auto split: option.split)

lemma sends_of_remove1:
  "key k = Some f \<Longrightarrow> k \<in> set ks \<Longrightarrow> distinct (sends_of key ks) \<Longrightarrow>
   distinct (sends_of key (remove1 k ks)) \<and> set (sends_of key (remove1 k ks)) = set (sends_of key ks) - {f}"
proof (induction ks)
  case (Cons x ks)
  show ?case
  proof (cases "x = k")
    case False
    with Cons.prems have k: "k \<in> set ks" by simp
    show ?thesis
    proof (cases "key x")
      case (Some g)
      with Cons.prems(3) have "g \<notin> set (sends_of key ks)" "distinct (sends_of key ks)" by simp_all
      with Cons.IH[OF Cons.prems(1) k] in_sends_of[of k ks key f, OF k Cons.prems(1)] False Some show ?thesis by auto
    qed (use Cons.IH[OF Cons.prems(1) k] Cons.prems(3) False in simp)
  qed (use Cons.prems in simp)
qed simp

lemma sends_start: "sends_consistent ws pending \<Longrightarrow> f \<notin> set pending \<Longrightarrow> sends_consistent (ws @ [f]) (f # pending)"
  by (auto simp: sends_consistent_def)

lemma sends_finish:
  "sends_consistent (sends_of key ks) pending \<Longrightarrow> key k = Some f \<Longrightarrow> k \<in> set ks \<Longrightarrow>
   sends_consistent (sends_of key (remove1 k ks)) (removeAll f pending)"
  using sends_of_remove1[of key k f ks] by (simp add: sends_consistent_def)

section \<open>Lemmas\<close>

lemma begin_upload_bound: "length current \<le> MAX_ATTACHMENTS \<Longrightarrow> length (begin_upload i allowed current) \<le> MAX_ATTACHMENTS"
  by (auto simp: begin_upload_def min_def le_diff_conv2)

lemma picked_fit:
  "length current \<le> MAX_ATTACHMENTS \<Longrightarrow>
   length current + length (fst (pick_files current incoming)) \<le> MAX_ATTACHMENTS
   \<and> (\<forall>f \<in> set (fst (pick_files current incoming)). lf_size f \<le> MAX_CHAT_ATTACHMENT_BYTES)"
  using length_filter_le[of "\<lambda>f. lf_size f \<le> MAX_CHAT_ATTACHMENT_BYTES" "take (MAX_ATTACHMENTS - length current) incoming"]
  by (auto simp: pick_files_def Let_def)

lemma send_decision_sound:
  assumes "decide_send items inputValue reply channelId pending = SendNow content atts"
  shows "content = compose_content reply (js_trim inputValue) \<and> atts = draft_attachments items
    \<and> \<not> too_long content \<and> (content \<noteq> [] \<or> atts \<noteq> []) \<and> (channelId, content, atts) \<notin> set pending
    \<and> \<not> hasPendingDraftAttachments items"
  using assms by (auto simp: decide_send_def Let_def compose_content_def split: if_splits option.splits)

lemma map_client_ids: "(\<And>m. msg_id (f m) = msg_id m) \<Longrightarrow> map msg_id (map_client c f ms) = map msg_id ms"
  by (simp add: map_client_def)

lemma map_client_channel:
  "(\<And>m. msg_client_id m = Some c \<Longrightarrow> P m \<Longrightarrow> P (f m)) \<Longrightarrow> list_all P ms \<Longrightarrow> list_all P (map_client c f ms)"
  by (auto simp: map_client_def list_all_iff)

end
