(* ===== verification/ChannelMessages.thy ===== *)
theory ChannelMessages
  imports MessageSending ServerEventLaws MessageAuthors
begin

text \<open>
  The messages of the open channel, \<^verbatim>\<open>src/pages/AppLayout.tsx\<close>: loading and reloading pages, older pages,
  jumping to a message, sending, retrying, reactions, deleting and editing. The shown list and the lists kept per
  channel are those of the server view (theory \<open>ServerEvents\<close>), so the events of the socket act on the same
  state. A request is an entry of \<open>cs_calls\<close> with the variables its code holds over the \<^verbatim>\<open>await\<close>; its answer is a
  step of its own. The refs of the active channel and React's state of it change in one step, the loading
  effect included. Stored drafts are in \<open>MessageDrafts\<close>.
\<close>

section \<open>State\<close>

datatype chan_call =
  LoadCall string nat nat "message list"
| RefreshCall string nat "message list"
| OlderCall string nat "message list"
| JumpCall string nat string bool
| LatestCall string nat
| SendCall string string string "attachment list" "string option"
| RetryCall string string string "attachment list" "string option"
| ReactCall string
| DeleteCall string string
| EditCall "string option"
| SearchCall string nat
| PinsCall string "nat option"
| PinCall string bool

datatype call_answer = Rows "message list" | GotMessage message | Done | CallFailed string

record chan_state =
  cs_view :: view_state
  cs_active :: "string option"
  cs_historical :: "string option"
  cs_historical_ref :: "string option"
  cs_request :: nat
  cs_effect :: nat
  cs_more :: bool
  cs_ready :: bool
  cs_loading_older :: bool
  cs_returning :: bool
  cs_jump_loading :: "string option"
  cs_jump_target :: "string option"
  cs_pending :: "send_key list"
  cs_input :: string
  cs_reply :: "reply_target option"
  cs_items :: "draft_item list"
  cs_search :: string
  cs_search_run :: nat
  cs_results :: "message list option"
  cs_pins_run :: nat
  cs_notices :: "(string \<times> string) list"
  cs_calls :: "chan_call list"

abbreviation cs_messages :: "chan_state \<Rightarrow> message list" where
  "cs_messages s \<equiv> vw_messages (cs_view s)"

definition init_chan :: "view_state \<Rightarrow> chan_state" where
  "init_chan v =
     \<lparr>cs_view = v\<lparr>vw_messages := [], vw_cache := []\<rparr>, cs_active = None, cs_historical = None, cs_historical_ref = None,
      cs_request = 0, cs_effect = 0, cs_more = True, cs_ready = False, cs_loading_older = False, cs_returning = False,
      cs_jump_loading = None, cs_jump_target = None, cs_pending = [], cs_input = [], cs_reply = None, cs_items = [],
      cs_search = [], cs_search_run = 0, cs_results = None, cs_pins_run = 0, cs_notices = [], cs_calls = []\<rparr>"

definition cached_of :: "string \<Rightarrow> chan_state \<Rightarrow> message list" where
  "cached_of c s = nullish (obj_get (vw_cache (cs_view s)) c) []"

definition set_shown :: "message list \<Rightarrow> chan_state \<Rightarrow> chan_state" where
  "set_shown ms s = s\<lparr>cs_view := (cs_view s)\<lparr>vw_messages := ms\<rparr>\<rparr>"

definition set_cached :: "string \<Rightarrow> message list \<Rightarrow> chan_state \<Rightarrow> chan_state" where
  "set_cached c ms s = s\<lparr>cs_view := (cs_view s)\<lparr>vw_cache := obj_put c ms (vw_cache (cs_view s))\<rparr>\<rparr>"

definition show_and_cache :: "string \<Rightarrow> message list \<Rightarrow> chan_state \<Rightarrow> chan_state" where
  "show_and_cache c ms s = set_cached c ms (set_shown ms s)"

definition notify :: "string \<Rightarrow> string \<Rightarrow> chan_state \<Rightarrow> chan_state" where
  "notify title message s = s\<lparr>cs_notices := (title, message) # cs_notices s\<rparr>"

definition call :: "chan_call \<Rightarrow> chan_state \<Rightarrow> chan_state" where
  "call k s = s\<lparr>cs_calls := cs_calls s @ [k]\<rparr>"

section \<open>Search and pins\<close>

definition set_pins :: "message list \<Rightarrow> chan_state \<Rightarrow> chan_state" where
  "set_pins ms s = s\<lparr>cs_view := (cs_view s)\<lparr>vw_pins := ms\<rparr>\<rparr>"

text \<open>A new query drops the request of the one before it; the delay before it is sent is part of its wait.\<close>

definition type_query :: "string \<Rightarrow> chan_state \<Rightarrow> chan_state" where
  "type_query q s =
     (if cs_search s = q then s
      else
        let n = cs_search_run s + 1; s1 = s\<lparr>cs_search := q, cs_search_run := n\<rparr>
        in if \<not> truthy_str (cs_active s) then s1
           else let s2 = s1\<lparr>cs_results := None\<rparr>
                in if js_trim q = [] then s2 else call (SearchCall (the (cs_active s)) n) s2)"

definition search_answered :: "string \<Rightarrow> nat \<Rightarrow> call_answer \<Rightarrow> chan_state \<Rightarrow> chan_state" where
  "search_answered c n ans s =
     (if n \<noteq> cs_search_run s \<or> cs_active s \<noteq> Some c then s
      else s\<lparr>cs_results := Some (case ans of Rows rows \<Rightarrow> rows | _ \<Rightarrow> [])\<rparr>)"

definition load_pins :: "string \<Rightarrow> nat option \<Rightarrow> chan_state \<Rightarrow> chan_state" where
  "load_pins c run s = (if c = [] then s else call (PinsCall c run) s)"

definition channel_pins_answered :: "string \<Rightarrow> nat option \<Rightarrow> call_answer \<Rightarrow> chan_state \<Rightarrow> chan_state" where
  "channel_pins_answered c run ans s =
     (if cs_active s \<noteq> Some c \<or> (case run of Some n \<Rightarrow> n \<noteq> cs_pins_run s | None \<Rightarrow> False) then s
      else set_pins (case ans of Rows rows \<Rightarrow> rows | _ \<Rightarrow> []) s)"

definition handlePinChannelMessage :: "bool \<Rightarrow> chan_state \<Rightarrow> chan_state" where
  "handlePinChannelMessage pin s =
     (if truthy_str (cs_active s) then call (PinCall (the (cs_active s)) pin) s else s)"

definition channel_pin_answered :: "string \<Rightarrow> bool \<Rightarrow> call_answer \<Rightarrow> chan_state \<Rightarrow> chan_state" where
  "channel_pin_answered c pin ans s =
     (case ans of
        CallFailed err \<Rightarrow> notify (if pin then ''Pin failed'' else ''Unpin failed'') err s
      | _ \<Rightarrow> load_pins c None s)"

section \<open>Opening a channel\<close>

text \<open>The effects of a changed active channel; without a channel the shown list stays as it is.\<close>

definition open_channel :: "string option \<Rightarrow> string \<Rightarrow> chan_state \<Rightarrow> chan_state" where
  "open_channel active draft s0 =
     (let s = s0\<lparr>cs_active := active, cs_effect := cs_effect s0 + 1, cs_reply := None, cs_input := draft, cs_items := [],
                 cs_search_run := cs_search_run s0 + 1, cs_pins_run := cs_pins_run s0 + 1\<rparr>
      in case active of
           None \<Rightarrow> s
         | Some c \<Rightarrow>
             if c = [] then s
             else
               let kept = (if cs_historical_ref s = Some c then None else obj_get (vw_cache (cs_view s)) c);
                   n = cs_request s + 1;
                   s1 = s\<lparr>cs_request := n, cs_search := [], cs_results := None, cs_jump_target := None,
                          cs_jump_loading := None, cs_historical := None, cs_more := True, cs_ready := False\<rparr>
               in load_pins c (Some (cs_pins_run s))
                    (call (LoadCall c n (cs_effect s) (nullish kept [])) (set_shown (nullish kept []) s1)))"

definition MESSAGE_PAGE_SIZE :: nat where "MESSAGE_PAGE_SIZE = 50"

definition page_full :: "message list \<Rightarrow> bool" where
  "page_full rows \<longleftrightarrow> length rows \<ge> MESSAGE_PAGE_SIZE"

definition merged_page :: "(string \<Rightarrow> jsnum) \<Rightarrow> message list \<Rightarrow> message list \<Rightarrow> message list" where
  "merged_page parse rows cached =
     (let ui = map server_row rows in mergeLatestPageWithHistory parse ui (withAuthorsFrom cached ui))"

definition forget_historical :: "string \<Rightarrow> chan_state \<Rightarrow> chan_state" where
  "forget_historical c s = (if cs_historical_ref s = Some c then s\<lparr>cs_historical_ref := None\<rparr> else s)"

definition load_answered ::
  "(string \<Rightarrow> jsnum) \<Rightarrow> string \<Rightarrow> nat \<Rightarrow> nat \<Rightarrow> message list \<Rightarrow> call_answer \<Rightarrow> chan_state \<Rightarrow> chan_state" where
  "load_answered parse c n eff cached ans s =
     (if eff \<noteq> cs_effect s \<or> n \<noteq> cs_request s \<or> cs_active s \<noteq> Some c then s
      else case ans of
        Rows rows \<Rightarrow>
          forget_historical c
            ((show_and_cache c (merged_page parse rows cached) s)\<lparr>cs_more := page_full rows, cs_ready := True\<rparr>)
      | _ \<Rightarrow> s\<lparr>cs_more := False, cs_ready := True\<rparr>)"

section \<open>Reloading and paging\<close>

definition refreshActiveChannelMessages :: "string \<Rightarrow> chan_state \<Rightarrow> chan_state" where
  "refreshActiveChannelMessages c s =
     (let n = cs_request s + 1 in call (RefreshCall c n (cached_of c s)) (s\<lparr>cs_request := n\<rparr>))"

definition refresh_answered ::
  "(string \<Rightarrow> jsnum) \<Rightarrow> string \<Rightarrow> nat \<Rightarrow> message list \<Rightarrow> call_answer \<Rightarrow> chan_state \<Rightarrow> chan_state" where
  "refresh_answered parse c n cached ans s =
     (case ans of
        Rows rows \<Rightarrow>
          if n \<noteq> cs_request s then s
          else
            let merged = merged_page parse rows cached; s1 = set_cached c merged s
            in if cs_active s = Some c
               then (forget_historical c (set_shown merged s1))
                      \<lparr>cs_historical := None, cs_more := page_full rows, cs_ready := True\<rparr>
               else s1
      | _ \<Rightarrow> if cs_active s = Some c then s\<lparr>cs_more := False, cs_ready := True\<rparr> else s)"

definition loadOlderMessages :: "chan_state \<Rightarrow> chan_state" where
  "loadOlderMessages s =
     (case cs_active s of
        None \<Rightarrow> s
      | Some c \<Rightarrow>
          if c = [] \<or> cs_loading_older s \<or> \<not> cs_more s then s
          else let current = cached_of c s
               in if current = [] \<or> msg_id (hd current) = [] then s
                  else call (OlderCall c (cs_request s) current) (s\<lparr>cs_loading_older := True\<rparr>))"

definition older_answered :: "string \<Rightarrow> nat \<Rightarrow> message list \<Rightarrow> call_answer \<Rightarrow> chan_state \<Rightarrow> chan_state" where
  "older_answered c n current ans s =
     (let s1 = (case ans of
                  Rows rows \<Rightarrow>
                    if n \<noteq> cs_request s \<or> cs_active s \<noteq> Some c then s
                    else let s2 = show_and_cache c (map server_row rows @ current) s
                         in if page_full rows then s2 else s2\<lparr>cs_more := False\<rparr>
                | _ \<Rightarrow> s)
      in s1\<lparr>cs_loading_older := False\<rparr>)"

definition handleJumpToPinnedMessage :: "string \<Rightarrow> bool \<Rightarrow> chan_state \<Rightarrow> chan_state" where
  "handleJumpToPinnedMessage i fromPin s =
     (case cs_active s of
        None \<Rightarrow> s
      | Some c \<Rightarrow>
          if c = [] \<or> truthy_str (cs_jump_loading s) then s
          else if has_message i (cs_messages s) then s\<lparr>cs_jump_target := Some i\<rparr>
          else let n = cs_request s + 1
               in call (JumpCall c n i fromPin) (s\<lparr>cs_request := n, cs_jump_loading := Some i\<rparr>))"

definition jump_missing :: string where "jump_missing = ''Message not found in this channel''"

definition jump_text :: "bool \<Rightarrow> string \<Rightarrow> string" where
  "jump_text fromPin err =
     (let pin = (if fromPin then ''pinned '' else []) in
      if includes_str ''Message not found'' err then ''This '' @ pin @ ''message is no longer available.''
      else ''Could not load this '' @ pin @ ''message. Try again.'')"

definition jump_answered :: "string \<Rightarrow> nat \<Rightarrow> string \<Rightarrow> bool \<Rightarrow> call_answer \<Rightarrow> chan_state \<Rightarrow> chan_state" where
  "jump_answered c n i fromPin ans s =
     (let failed = (\<lambda>err. (if fromPin then load_pins c None else id)
                              (notify ''Message unavailable'' (jump_text fromPin err) s));
          s1 = (if n \<noteq> cs_request s \<or> cs_active s \<noteq> Some c then s
                else case ans of
                  Rows rows \<Rightarrow>
                    if \<not> has_message i rows then failed jump_missing
                    else (show_and_cache c (map server_row rows) s)
                           \<lparr>cs_more := True, cs_ready := True, cs_historical := Some c, cs_historical_ref := Some c,
                            cs_jump_target := Some i\<rparr>
                | CallFailed err \<Rightarrow> failed err
                | _ \<Rightarrow> s)
      in if n = cs_request s1 then s1\<lparr>cs_jump_loading := None\<rparr> else s1)"

definition handleReturnToLatest :: "chan_state \<Rightarrow> chan_state" where
  "handleReturnToLatest s =
     (case cs_active s of
        None \<Rightarrow> s
      | Some c \<Rightarrow>
          if c = [] \<or> cs_returning s then s
          else let n = cs_request s + 1 in call (LatestCall c n) (s\<lparr>cs_request := n, cs_returning := True\<rparr>))"

definition latest_answered :: "(string \<Rightarrow> jsnum) \<Rightarrow> string \<Rightarrow> nat \<Rightarrow> call_answer \<Rightarrow> chan_state \<Rightarrow> chan_state" where
  "latest_answered parse c n ans s =
     (let current = (n = cs_request s \<and> cs_active s = Some c);
          s1 = (case ans of
                  Rows rows \<Rightarrow>
                    if \<not> current then s
                    else let merged = mergeRemoteWithRetryableLocals parse (map server_row rows) (cached_of c s)
                         in (show_and_cache c merged s)
                              \<lparr>cs_more := page_full rows, cs_historical := None, cs_historical_ref := None,
                               cs_jump_target := (if merged = [] then None else Some (msg_id (last merged)))\<rparr>
                | _ \<Rightarrow> if current then notify ''Could not load latest messages'' ''Try again.'' s else s)
      in s1\<lparr>cs_returning := False\<rparr>)"

section \<open>Sending\<close>

text \<open>The list of the conversation a sent message belongs to: the shown one while it is open, else the kept one.\<close>

definition update_conversation :: "string \<Rightarrow> (message list \<Rightarrow> message list) \<Rightarrow> chan_state \<Rightarrow> chan_state" where
  "update_conversation c f s =
     (if cs_active s = Some c then show_and_cache c (f (cs_messages s)) s else set_cached c (f (cached_of c s)) s)"

definition send_key_of :: "chan_call \<Rightarrow> send_key option" where
  "send_key_of k = (case k of SendCall c _ content atts _ \<Rightarrow> Some (c, content, atts) | _ \<Rightarrow> None)"

definition handleSendMessage ::
  "bool \<Rightarrow> user option \<Rightarrow> string option \<Rightarrow> string \<Rightarrow> string \<Rightarrow> string option \<Rightarrow> chan_state \<Rightarrow> chan_state" where
  "handleSendMessage canSend me roleColor now clientId forceContent s =
     (case cs_active s of
        None \<Rightarrow> s
      | Some c \<Rightarrow>
          if \<not> canSend \<or> c = [] then s
          else
            let inputValue = nullish forceContent (cs_input s) in
            case decide_send (cs_items s) inputValue (cs_reply s) c (cs_pending s) of
              SendIgnored \<Rightarrow> s
            | SendRefused title message \<Rightarrow> notify title message s
            | SendNow content atts \<Rightarrow>
                let s1 = s\<lparr>cs_pending := (c, content, atts) # cs_pending s, cs_reply := None,
                           cs_input := (if forceContent = None then [] else cs_input s), cs_items := []\<rparr>;
                    next = withoutFailedDuplicates (cs_messages s1) content (Some atts)
                             @ [optimistic_message me roleColor now clientId c content atts]
                in call (SendCall c clientId content atts (if forceContent = None then Some inputValue else None))
                     (show_and_cache c next s1))"

definition send_answered ::
  "string \<Rightarrow> string \<Rightarrow> string \<Rightarrow> attachment list \<Rightarrow> string option \<Rightarrow> call_answer \<Rightarrow> chan_state \<Rightarrow> chan_state" where
  "send_answered c clientId content atts inputValue ans s =
     (let s1 = (case ans of
                  GotMessage msg \<Rightarrow> update_conversation c (\<lambda>ms. reconcileConfirmedMessage ms clientId msg) s
                | CallFailed err \<Rightarrow>
                    let s2 = update_conversation c (apply_failed clientId err inputValue) s
                    in (case inputValue of
                          Some v \<Rightarrow> if cs_active s = Some c \<and> cs_input s2 = [] then s2\<lparr>cs_input := v\<rparr> else s2
                        | None \<Rightarrow> s2)
                | _ \<Rightarrow> s)
      in s1\<lparr>cs_pending := removeAll (c, content, atts) (cs_pending s1)\<rparr>)"

definition handleRetryMessage :: "bool \<Rightarrow> string \<Rightarrow> chan_state \<Rightarrow> chan_state" where
  "handleRetryMessage canSend clientId s =
     (case (cs_active s, find (\<lambda>m. msg_client_id m = Some clientId) (cs_messages s)) of
        (Some c, Some target) \<Rightarrow>
          if \<not> canSend \<or> c = [] \<or> msg_client_status target \<noteq> Some Failed then s
          else call (RetryCall c clientId (msg_content target) (nullish (msg_attachments target) []) (msg_client_draft target))
                 (show_and_cache c (mark_retrying clientId (cs_messages s)) s)
      | _ \<Rightarrow> s)"

definition retry_answered :: "string \<Rightarrow> string \<Rightarrow> string option \<Rightarrow> call_answer \<Rightarrow> chan_state \<Rightarrow> chan_state" where
  "retry_answered c clientId draft ans s =
     (case ans of
        GotMessage msg \<Rightarrow>
          let s1 = update_conversation c (apply_retried clientId msg) s
          in if truthy_str draft \<and> cs_active s = Some c \<and> Some (cs_input s1) = draft
             then s1\<lparr>cs_input := []\<rparr> else s1
      | CallFailed err \<Rightarrow> update_conversation c (apply_failed_retry clientId err) s
      | _ \<Rightarrow> s)"

section \<open>Reactions, deleting, editing\<close>

text \<open>
  \<^verbatim>\<open>activeChannelId\<close> in these handlers is that of the render they were created in, \<open>c\<close> in the call, while the
  shown list is the one at the time of the answer.
\<close>

definition handleToggleChannelReaction :: "bool \<Rightarrow> chan_state \<Rightarrow> chan_state" where
  "handleToggleChannelReaction canSend s =
     (case cs_active s of None \<Rightarrow> s | Some c \<Rightarrow> if c = [] \<or> \<not> canSend then s else call (ReactCall c) s)"

definition reaction_answered :: "string \<Rightarrow> call_answer \<Rightarrow> chan_state \<Rightarrow> chan_state" where
  "reaction_answered c ans s =
     (case ans of
        GotMessage updated \<Rightarrow>
          show_and_cache c (map (\<lambda>m. if msg_id m = msg_id updated then updated else m) (cs_messages s)) s
      | CallFailed err \<Rightarrow> notify ''Reaction failed'' err s
      | _ \<Rightarrow> s)"

definition without_message :: "string \<Rightarrow> message list \<Rightarrow> message list" where
  "without_message i ms = filter (\<lambda>m. msg_id m \<noteq> i) ms"

definition handleDeleteMessage :: "string \<Rightarrow> chan_state \<Rightarrow> chan_state" where
  "handleDeleteMessage i s =
     (case cs_active s of
        None \<Rightarrow> s
      | Some c \<Rightarrow>
          if c = [] then s
          else if starts_with ''local-'' i then show_and_cache c (without_message i (cs_messages s)) s
          else call (DeleteCall c i) s)"

definition delete_answered :: "string \<Rightarrow> string \<Rightarrow> call_answer \<Rightarrow> chan_state \<Rightarrow> chan_state" where
  "delete_answered c i ans s =
     (case ans of
        Done \<Rightarrow> show_and_cache c (without_message i (cs_messages s)) s
      | CallFailed err \<Rightarrow> notify ''Delete failed'' err s
      | _ \<Rightarrow> s)"

definition handleSaveEdit :: "string option \<Rightarrow> string \<Rightarrow> string option \<Rightarrow> chan_state \<Rightarrow> chan_state" where
  "handleSaveEdit editingId text quotePart s =
     (let body = js_trim text;
          content = (case quotePart of None \<Rightarrow> body | Some q \<Rightarrow> if q = [] then body else q @ NEWLINES @ body)
      in if \<not> truthy_str editingId \<or> (body = [] \<and> \<not> truthy_str quotePart) then s
         else if too_long content
           then notify ''Edit too long'' ''Messages can contain up to 4000 characters, including the reply quote.'' s
         else call (EditCall (cs_active s)) s)"

definition edit_answered :: "string option \<Rightarrow> call_answer \<Rightarrow> chan_state \<Rightarrow> chan_state" where
  "edit_answered active ans s =
     (case ans of
        GotMessage updated \<Rightarrow>
          let upd = map (\<lambda>m. if msg_id m = msg_id updated then updated else m);
              s1 = set_shown (upd (cs_messages s)) s
          in if truthy_str active then set_cached (the active) (upd (cached_of (the active) s1)) s1 else s1
      | CallFailed err \<Rightarrow> notify ''Edit failed'' err s
      | _ \<Rightarrow> s)"

section \<open>Steps\<close>

definition answer_call :: "(string \<Rightarrow> jsnum) \<Rightarrow> chan_call \<Rightarrow> call_answer \<Rightarrow> chan_state \<Rightarrow> chan_state" where
  "answer_call parse k ans s0 =
     (let s = s0\<lparr>cs_calls := remove1 k (cs_calls s0)\<rparr> in
      case k of
        LoadCall c n eff cached \<Rightarrow> load_answered parse c n eff cached ans s
      | RefreshCall c n cached \<Rightarrow> refresh_answered parse c n cached ans s
      | OlderCall c n current \<Rightarrow> older_answered c n current ans s
      | JumpCall c n i fromPin \<Rightarrow> jump_answered c n i fromPin ans s
      | LatestCall c n \<Rightarrow> latest_answered parse c n ans s
      | SendCall c clientId content atts inputValue \<Rightarrow> send_answered c clientId content atts inputValue ans s
      | RetryCall c clientId content atts draft \<Rightarrow> retry_answered c clientId draft ans s
      | ReactCall c \<Rightarrow> reaction_answered c ans s
      | DeleteCall c i \<Rightarrow> delete_answered c i ans s
      | EditCall active \<Rightarrow> edit_answered active ans s
      | SearchCall c n \<Rightarrow> search_answered c n ans s
      | PinsCall c run \<Rightarrow> channel_pins_answered c run ans s
      | PinCall c pin \<Rightarrow> channel_pin_answered c pin ans s)"

definition chan_event :: "view_ctx \<Rightarrow> ws_event \<Rightarrow> chan_state \<Rightarrow> chan_state" where
  "chan_event cx e s = s\<lparr>cs_view := handleAppLayoutEvent (cx\<lparr>cx_active_channel := cs_active s\<rparr>) e (cs_view s)\<rparr>"

text \<open>What can happen: an action of the user, the answer of a waiting request, an event of the socket.\<close>

datatype chan_op =
  OpenChannel "string option" string
| Refresh string
| LoadOlder
| JumpTo string bool
| ReturnToLatest
| TypeText string
| ReplyTo "reply_target option"
| AttachFiles "draft_item list"
| SendMessage bool "user option" "string option" string string "string option"
| RetryMessage bool string
| ToggleReaction bool
| DeleteMessage string
| SaveEdit "string option" string "string option"
| SearchFor string
| ReloadPins
| PinMessage bool
| AnswerTo chan_call call_answer
| SocketEvent view_ctx ws_event

fun chan_apply :: "(string \<Rightarrow> jsnum) \<Rightarrow> chan_op \<Rightarrow> chan_state \<Rightarrow> chan_state" where
  "chan_apply parse (OpenChannel active draft) s = open_channel active draft s"
| "chan_apply parse (Refresh c) s = refreshActiveChannelMessages c s"
| "chan_apply parse LoadOlder s = loadOlderMessages s"
| "chan_apply parse (JumpTo i fromPin) s = handleJumpToPinnedMessage i fromPin s"
| "chan_apply parse ReturnToLatest s = handleReturnToLatest s"
| "chan_apply parse (TypeText t) s = s\<lparr>cs_input := t\<rparr>"
| "chan_apply parse (ReplyTo r) s = s\<lparr>cs_reply := r\<rparr>"
| "chan_apply parse (AttachFiles atts) s = s\<lparr>cs_items := atts\<rparr>"
| "chan_apply parse (SendMessage canSend me col now cid forced) s = handleSendMessage canSend me col now cid forced s"
| "chan_apply parse (RetryMessage canSend cid) s = handleRetryMessage canSend cid s"
| "chan_apply parse (ToggleReaction canSend) s = handleToggleChannelReaction canSend s"
| "chan_apply parse (DeleteMessage i) s = handleDeleteMessage i s"
| "chan_apply parse (SaveEdit e t q) s = handleSaveEdit e t q s"
| "chan_apply parse (SearchFor q) s = type_query q s"
| "chan_apply parse ReloadPins s = load_pins (nullish (cs_active s) []) None s"
| "chan_apply parse (PinMessage pin) s = handlePinChannelMessage pin s"
| "chan_apply parse (AnswerTo k ans) s = (if k \<in> set (cs_calls s) then answer_call parse k ans s else s)"
| "chan_apply parse (SocketEvent cx e) s = chan_event cx e s"

definition chan_run :: "(string \<Rightarrow> jsnum) \<Rightarrow> chan_op list \<Rightarrow> chan_state \<Rightarrow> chan_state" where
  "chan_run parse ops s = fold (chan_apply parse) ops s"

end
