(* ===== verification/ChannelApart.thy ===== *)
theory ChannelApart
  imports ChannelMessageLaws
begin

text \<open>
  The channels' message lists are kept apart: the list kept for a channel, and the shown one while the channel is
  open, hold messages of that channel only. It holds whatever the order of answers and events, except that the
  answer to a reaction or a deletion has to come while its channel is still open.
\<close>

section \<open>Lists of one channel\<close>

definition of_channel :: "string \<Rightarrow> message list \<Rightarrow> bool" where
  "of_channel c ms \<longleftrightarrow> (\<forall>m \<in> set ms. msg_channel_id m = c)"

definition lists_apart :: "string option \<Rightarrow> view_state \<Rightarrow> bool" where
  "lists_apart a v \<longleftrightarrow> (\<forall>e \<in> set (vw_cache v). of_channel (fst e) (snd e)) \<and>
     (truthy_str a \<longrightarrow> of_channel (the a) (vw_messages v))"

fun call_apart :: "chan_call \<Rightarrow> bool" where
  "call_apart (LoadCall c n eff ms) = of_channel c ms"
| "call_apart (RefreshCall c n ms) = of_channel c ms"
| "call_apart (OlderCall c n ms) = of_channel c ms"
| "call_apart (SendCall c cid content atts v) = (c \<noteq> [])"
| "call_apart (RetryCall c cid content atts d) = (c \<noteq> [])"
| "call_apart (ReactCall c) = (c \<noteq> [])"
| "call_apart (DeleteCall c i) = (c \<noteq> [])"
| "call_apart _ = True"

definition chan_apart :: "chan_state \<Rightarrow> bool" where
  "chan_apart s \<longleftrightarrow> lists_apart (cs_active s) (cs_view s) \<and> (\<forall>k \<in> set (cs_calls s). call_apart k)"

lemma of_channel_simps [simp]:
  "of_channel c []" "of_channel c (m # ms) \<longleftrightarrow> msg_channel_id m = c \<and> of_channel c ms"
  "of_channel c (ms @ ms') \<longleftrightarrow> of_channel c ms \<and> of_channel c ms'"
  by (auto simp: of_channel_def)

lemma of_channel_filter [intro]: "of_channel c ms \<Longrightarrow> of_channel c (filter P ms)"
  by (simp add: of_channel_def)

lemma of_channel_map:
  "of_channel c ms \<Longrightarrow> (\<And>m. m \<in> set ms \<Longrightarrow> msg_channel_id m = c \<Longrightarrow> msg_channel_id (f m) = c) \<Longrightarrow> of_channel c (map f ms)"
  by (auto simp: of_channel_def)

lemma of_channel_mset: "mset ms = mset ms' \<Longrightarrow> of_channel c ms = of_channel c ms'"
  unfolding of_channel_def by (metis mset_eq_setD)

lemma of_channel_take: "of_channel c ms \<Longrightarrow> of_channel c (take n ms)"
  by (auto simp: of_channel_def dest: in_set_takeD)

lemma of_channel_drop: "of_channel c ms \<Longrightarrow> of_channel c (drop n ms)"
  by (auto simp: of_channel_def dest: in_set_dropD)

lemma of_channel_server_row: "of_channel c ms \<Longrightarrow> of_channel c (map server_row ms)"
  by (auto simp: of_channel_def server_row_def strip_client_def)

lemma channel_of_interrupted [simp]: "msg_channel_id (mark_interrupted m) = msg_channel_id m"
  by (simp add: mark_interrupted_def)

lemma channel_of_author [simp]:
  "msg_channel_id (fst (update_author p m)) = msg_channel_id m"
  "msg_channel_id (fst (copy_author as m)) = msg_channel_id m"
  by (simp_all add: update_author_def copy_author_def Let_def split: option.split)

lemma of_channel_authors:
  "of_channel c ms \<Longrightarrow> of_channel c (withUpdatedAuthor ms p)" "of_channel c ms \<Longrightarrow> of_channel c (withAuthorsFrom ms fresh)"
  by (simp_all add: withUpdatedAuthor_map withAuthorsFrom_map of_channel_def)

lemma of_channel_remote:
  "of_channel c rows \<Longrightarrow> of_channel c cached \<Longrightarrow> of_channel c (mergeRemoteWithRetryableLocals parse rows cached)"
  using of_channel_mset[OF trans[OF mset_merge mset_append[symmetric]]]
  by (auto simp: of_channel_def)

lemma of_channel_history:
  "of_channel c rows \<Longrightarrow> of_channel c cached \<Longrightarrow> of_channel c (mergeLatestPageWithHistory parse rows cached)"
  by (auto simp: mergeLatestPageWithHistory_def Let_def of_channel_remote intro: of_channel_take
      split: list.split option.split)

lemma of_channel_page:
  "of_channel c rows \<Longrightarrow> of_channel c cached \<Longrightarrow> of_channel c (merged_page parse rows cached)"
  by (simp add: merged_page_def Let_def of_channel_history of_channel_server_row of_channel_authors)

lemma of_channel_replace: "of_channel c ms \<Longrightarrow> msg_channel_id m = c \<Longrightarrow> of_channel c (replace_id m ms)"
  by (auto simp: of_channel_def replace_id_def)

lemma of_channel_update: "of_channel c ms \<Longrightarrow> msg_channel_id m = c \<Longrightarrow> of_channel c (ms[j := m])"
  by (auto simp: of_channel_def dest!: set_update_subset_insert[THEN subsetD])

lemma of_channel_reconcile:
  "of_channel c ms \<Longrightarrow> msg_channel_id m = c \<Longrightarrow> of_channel c (reconcileConfirmedMessage ms cid m)"
  unfolding reconcileConfirmedMessage_def
  by (auto split: option.split intro!: of_channel_replace of_channel_update
      simp: remove_nth_def of_channel_take of_channel_drop)

lemma of_channel_client:
  "of_channel c ms \<Longrightarrow> of_channel c (apply_failed cid e d ms)" "of_channel c ms \<Longrightarrow> of_channel c (mark_retrying cid ms)"
  "of_channel c ms \<Longrightarrow> of_channel c (apply_failed_retry cid e ms)"
  by (auto simp: of_channel_def apply_failed_def mark_retrying_def apply_failed_retry_def map_client_def)

lemma of_channel_retried: "of_channel c ms \<Longrightarrow> msg_channel_id m = c \<Longrightarrow> of_channel c (apply_retried cid m ms)"
  by (auto simp: of_channel_def apply_retried_def map_client_def)

section \<open>Events\<close>

definition view_lists :: "view_state \<Rightarrow> message list \<times> message list obj" where
  "view_lists v = (vw_messages v, vw_cache v)"

lemma lists_apart_frame: "view_lists v = view_lists v' \<Longrightarrow> lists_apart a v = lists_apart a v'"
  by (simp add: view_lists_def lists_apart_def)

lemma view_lists_quiet [simp]:
  "view_lists (map_app f v) = view_lists v" "view_lists (emit e v) = view_lists v" "view_lists (toast cx l ti tx v) = view_lists v"
  "view_lists (refreshServerSnapshot sid b v) = view_lists v" "view_lists (count_unread c x y z v) = view_lists v"
  "view_lists (raise_notification cx sid c m b v) = view_lists v"
  by (auto simp: view_lists_def map_app_def emit_def toast_def refreshServerSnapshot_def count_unread_def
      raise_notification_def Let_def split: sum.split)

lemma view_lists_notify [simp]: "view_lists (notify_message cx c m v) = view_lists v"
  by (simp add: notify_message_def Let_def)

lemma cached_of_channel:
  "lists_apart a v \<Longrightarrow> obj_get (vw_cache v) c = Some ms \<Longrightarrow> of_channel c ms"
  by (force simp: lists_apart_def dest: map_of_SomeD)

lemma in_obj_put: "e \<in> set (obj_put k v m) \<Longrightarrow> e = (k, v) \<or> e \<in> set m"
  by (induction m) (auto split: if_splits)

lemma apart_cache: "lists_apart a v \<Longrightarrow> of_channel c ms \<Longrightarrow> lists_apart a (v\<lparr>vw_cache := obj_put c ms (vw_cache v)\<rparr>)"
  by (auto simp: lists_apart_def dest!: in_obj_put)

lemma apart_shown:
  "lists_apart a v \<Longrightarrow> (truthy_str a \<Longrightarrow> of_channel (the a) ms) \<Longrightarrow> lists_apart a (v\<lparr>vw_messages := ms\<rparr>)"
  by (auto simp: lists_apart_def)

lemma apart_append: "of_channel c ms \<Longrightarrow> msg_channel_id m = c \<Longrightarrow> of_channel c (append_incoming m ms)"
  by (auto simp: append_incoming_def)

lemma apart_receive:
  assumes v: "lists_apart (cx_active_channel cx) v" and m: "msg_channel_id m = c" and c: "c \<noteq> []"
  shows "lists_apart (cx_active_channel cx) (receive_message cx c m v)"
proof (cases "cx_active_channel cx = Some c \<and> cx_view_active cx")
  case True
  have "of_channel c (append_incoming m (vw_messages v))"
    using v m c True by (intro apart_append) (simp_all add: lists_apart_def)
  with True v apart_cache[OF apart_shown[OF v], of "append_incoming m (vw_messages v)" c]
  show ?thesis by (simp add: receive_message_def)
next
  case False
  then have "\<not> (Some c = cx_active_channel cx \<and> cx_view_active cx)" by metis
  then have "receive_message cx c m v = (case obj_get (vw_cache v) c of None \<Rightarrow> v
     | Some cached \<Rightarrow> if cached \<noteq> [] \<and> \<not> has_message (msg_id m) cached
         then v\<lparr>vw_cache := obj_put c (cached @ [m]) (vw_cache v)\<rparr> else v)"
    unfolding receive_message_def by (rule if_not_P)
  then show ?thesis using v m cached_of_channel[OF v, of c] by (auto simp: apart_cache split: option.split)
qed

lemma apart_new_message:
  "lists_apart (cx_active_channel cx) v \<Longrightarrow> msg_channel_id m = c \<Longrightarrow> lists_apart (cx_active_channel cx) (on_new_message cx c m v)"
  using lists_apart_frame[OF view_lists_notify] by (auto simp: on_new_message_def Let_def apart_receive)

lemma apart_change:
  assumes v: "lists_apart (cx_active_channel cx) v" and f: "\<And>ms. of_channel c ms \<Longrightarrow> of_channel c (f ms)" and c: "c \<noteq> []"
  shows "lists_apart (cx_active_channel cx)
    (let v1 = (if Some c = cx_active_channel cx then v\<lparr>vw_messages := f (vw_messages v)\<rparr> else v)
     in case obj_get (vw_cache v1) c of None \<Rightarrow> v1 | Some cached \<Rightarrow> v1\<lparr>vw_cache := obj_put c (f cached) (vw_cache v1)\<rparr>)"
proof -
  define v1 where "v1 = (if Some c = cx_active_channel cx then v\<lparr>vw_messages := f (vw_messages v)\<rparr> else v)"
  have v1: "lists_apart (cx_active_channel cx) v1"
    using v f[of "vw_messages v"] c unfolding v1_def
    by (cases "cx_active_channel cx") (auto simp: lists_apart_def)
  show ?thesis
    unfolding v1_def[symmetric] Let_def using v1 f cached_of_channel[OF v1, of c]
    by (auto split: option.split intro!: apart_cache)
qed

lemma apart_deleted:
  "lists_apart (cx_active_channel cx) v \<Longrightarrow> lists_apart (cx_active_channel cx) (on_message_deleted cx c i v)"
  using apart_change[of cx v c "filter (\<lambda>m. msg_id m \<noteq> i)"] of_channel_filter
  unfolding on_message_deleted_def Let_def by auto

lemma apart_updated:
  "lists_apart (cx_active_channel cx) v \<Longrightarrow> msg_channel_id m = c \<Longrightarrow>
   lists_apart (cx_active_channel cx) (on_message_updated cx c m v)"
  using apart_change[of cx v c "map (\<lambda>x. if msg_id x = msg_id m then m else x)"]
  unfolding on_message_updated_def Let_def by (auto simp: of_channel_map)

lemma apart_user_updated: "lists_apart a v \<Longrightarrow> lists_apart a (on_user_updated d v)"
proof (cases "uup_id d = []")
  case False
  assume "lists_apart a v"
  with False show ?thesis
    unfolding on_user_updated_def Let_def
    by (subst lists_apart_frame[OF refl]) (auto simp: map_app_def lists_apart_def of_channel_authors)
qed (simp add: on_user_updated_def)

text \<open>The server sends a message to the subscribers of its channel.\<close>

fun event_apart :: "ws_event \<Rightarrow> bool" where
  "event_apart (NewMessage c u m) = (msg_channel_id m = c)"
| "event_apart (MessageUpdated c m) = (msg_channel_id m = c)"
| "event_apart _ = True"

lemma view_lists_other [simp]:
  "view_lists (on_presence_update u st v) = view_lists v" "view_lists (on_refresh_event sid b v) = view_lists v"
  "view_lists (on_member_timeout cx sid u t v) = view_lists v" "view_lists (on_voice_state cx d v) = view_lists v"
  "view_lists (on_voice_control vc v) = view_lists v" "view_lists (on_voice_move_requested r src dst v) = view_lists v"
  "view_lists (on_voice_move_result cx ok msg v) = view_lists v"
  by (simp_all add: on_presence_update_def on_refresh_event_def on_member_timeout_def on_voice_state_def
      on_voice_control_def on_voice_move_requested_def on_voice_move_result_def Let_def)

lemma view_lists_left [simp]: "view_lists (on_member_left cx sid u reason v) = view_lists v"
  by (auto simp: on_member_left_def Let_def split: option.split)

lemma apart_event:
  "lists_apart (cx_active_channel cx) v \<Longrightarrow> event_apart e \<Longrightarrow> lists_apart (cx_active_channel cx) (handleAppLayoutEvent cx e v)"
  using lists_apart_frame[OF view_lists_other(1)] lists_apart_frame[OF view_lists_other(2)]
    lists_apart_frame[OF view_lists_other(3)] lists_apart_frame[OF view_lists_other(4)]
    lists_apart_frame[OF view_lists_other(5)] lists_apart_frame[OF view_lists_other(6)]
    lists_apart_frame[OF view_lists_other(7)] lists_apart_frame[OF view_lists_left]
  by (cases e) (simp_all add: handleAppLayoutEvent_def apart_new_message apart_deleted apart_updated apart_user_updated)

section \<open>Operations\<close>

lemma chan_apart_frame:
  "lists_apart (cs_active s') (cs_view s') \<Longrightarrow> set (cs_calls s') \<subseteq> set (cs_calls s) \<Longrightarrow> chan_apart s \<Longrightarrow> chan_apart s'"
  by (auto simp: chan_apart_def)

lemma field_apart [simp]:
  "chan_apart (s\<lparr>cs_request := n\<rparr>) = chan_apart s" "chan_apart (s\<lparr>cs_more := b\<rparr>) = chan_apart s"
  "chan_apart (s\<lparr>cs_ready := b\<rparr>) = chan_apart s" "chan_apart (s\<lparr>cs_loading_older := b\<rparr>) = chan_apart s"
  "chan_apart (s\<lparr>cs_returning := b\<rparr>) = chan_apart s" "chan_apart (s\<lparr>cs_jump_loading := j\<rparr>) = chan_apart s"
  "chan_apart (s\<lparr>cs_jump_target := j\<rparr>) = chan_apart s" "chan_apart (s\<lparr>cs_historical := h\<rparr>) = chan_apart s"
  "chan_apart (s\<lparr>cs_historical_ref := h\<rparr>) = chan_apart s" "chan_apart (s\<lparr>cs_input := t\<rparr>) = chan_apart s"
  "chan_apart (s\<lparr>cs_reply := r\<rparr>) = chan_apart s" "chan_apart (s\<lparr>cs_items := atts\<rparr>) = chan_apart s"
  "chan_apart (s\<lparr>cs_pending := ks\<rparr>) = chan_apart s" "chan_apart (notify ti tx s) = chan_apart s"
  "chan_apart (forget_historical c s) = chan_apart s" "chan_apart (s\<lparr>cs_search := t\<rparr>) = chan_apart s"
  "chan_apart (s\<lparr>cs_search_run := n\<rparr>) = chan_apart s" "chan_apart (s\<lparr>cs_results := rs\<rparr>) = chan_apart s"
  "chan_apart (s\<lparr>cs_pins_run := n\<rparr>) = chan_apart s" "chan_apart (set_pins ms s) = chan_apart s"
  by (simp_all add: chan_apart_def notify_def forget_historical_def set_pins_def lists_apart_def)

lemma call_is_apart [simp]: "chan_apart (call k s) \<longleftrightarrow> chan_apart s \<and> call_apart k"
  by (auto simp: chan_apart_def call_def)

lemma load_pins_apart [simp]: "chan_apart (load_pins c rn s) = chan_apart s"
  by (simp add: load_pins_def)

lemma cached_apart [intro]: "chan_apart s \<Longrightarrow> of_channel c (cached_of c s)"
  using cached_of_channel[of "cs_active s" "cs_view s" c]
  by (cases "obj_get (vw_cache (cs_view s)) c") (auto simp: chan_apart_def cached_of_def)

lemma shown_apart: "chan_apart s \<Longrightarrow> cs_active s = Some c \<Longrightarrow> c \<noteq> [] \<Longrightarrow> of_channel c (cs_messages s)"
  by (simp add: chan_apart_def lists_apart_def)

lemma set_cached_apart [intro]: "chan_apart s \<Longrightarrow> of_channel c ms \<Longrightarrow> chan_apart (set_cached c ms s)"
  by (simp add: chan_apart_def set_cached_def apart_cache)

lemma set_shown_apart: "chan_apart s \<Longrightarrow> (truthy_str (cs_active s) \<Longrightarrow> of_channel (the (cs_active s)) ms) \<Longrightarrow>
   chan_apart (set_shown ms s)"
  by (simp add: chan_apart_def set_shown_def apart_shown)

lemma active_updates [simp]:
  "cs_active (set_cached c ms s) = cs_active s" "cs_active (set_shown ms s) = cs_active s"
  by (simp_all add: set_cached_def set_shown_def)

lemma show_and_cache_apart:
  "chan_apart s \<Longrightarrow> cs_active s = Some c \<Longrightarrow> of_channel c ms \<Longrightarrow> chan_apart (show_and_cache c ms s)"
  by (auto simp: show_and_cache_def intro!: set_shown_apart)

lemma update_conversation_apart:
  "chan_apart s \<Longrightarrow> c \<noteq> [] \<Longrightarrow> (\<And>ms. of_channel c ms \<Longrightarrow> of_channel c (f ms)) \<Longrightarrow> chan_apart (update_conversation c f s)"
  by (auto simp: update_conversation_def shown_apart intro: show_and_cache_apart)

lemma open_apart: "chan_apart s \<Longrightarrow> chan_apart (open_channel a d s)"
proof -
  assume s: "chan_apart s"
  define s1 where "s1 = s\<lparr>cs_active := a, cs_effect := cs_effect s + 1, cs_reply := None, cs_input := d, cs_items := [],
     cs_search_run := cs_search_run s + 1, cs_pins_run := cs_pins_run s + 1\<rparr>"
  show ?thesis
  proof (cases "truthy_str a")
    case True
    then obtain c where a: "a = Some c" "c \<noteq> []" by (cases a) auto
    have "of_channel c (nullish (if cs_historical_ref s1 = Some c then None else obj_get (vw_cache (cs_view s1)) c) [])"
      using s cached_of_channel[of "cs_active s" "cs_view s" c]
      by (cases "obj_get (vw_cache (cs_view s)) c") (auto simp: s1_def chan_apart_def)
    with s a show ?thesis
      by (auto simp: open_channel_def Let_def chan_apart_def lists_apart_def call_def set_shown_def s1_def load_pins_def)
  next
    case False
    with s show ?thesis
      by (cases a) (simp_all add: open_channel_def Let_def chan_apart_def lists_apart_def)
  qed
qed

lemma quiet_apart:
  "chan_apart s \<Longrightarrow> chan_apart (refreshActiveChannelMessages c s)" "chan_apart s \<Longrightarrow> chan_apart (loadOlderMessages s)"
  "chan_apart s \<Longrightarrow> chan_apart (handleJumpToPinnedMessage i p s)" "chan_apart s \<Longrightarrow> chan_apart (handleReturnToLatest s)"
  "chan_apart s \<Longrightarrow> chan_apart (handleToggleChannelReaction b s)" "chan_apart s \<Longrightarrow> chan_apart (handleSaveEdit e t q s)"
  "chan_apart s \<Longrightarrow> chan_apart (type_query qt s)" "chan_apart s \<Longrightarrow> chan_apart (handlePinChannelMessage b s)"
  by (auto simp: refreshActiveChannelMessages_def loadOlderMessages_def handleJumpToPinnedMessage_def
      handleReturnToLatest_def handleToggleChannelReaction_def handleSaveEdit_def type_query_def
      handlePinChannelMessage_def Let_def split: option.split)

lemma delete_apart: "chan_apart s \<Longrightarrow> chan_apart (handleDeleteMessage i s)"
  by (auto simp: handleDeleteMessage_def without_message_def shown_apart split: option.split
      intro!: show_and_cache_apart)

lemma retry_apart: "chan_apart s \<Longrightarrow> chan_apart (handleRetryMessage b cid s)"
  by (auto simp: handleRetryMessage_def shown_apart of_channel_client split: option.split
      intro!: show_and_cache_apart)

lemma pending_active [simp]: "cs_active (s\<lparr>cs_pending := ks\<rparr>) = cs_active s" by simp

lemma send_apart: "chan_apart s \<Longrightarrow> chan_apart (handleSendMessage b me col now cid forced s)"
  by (auto simp: handleSendMessage_def Let_def withoutFailedDuplicates_def optimistic_message_def shown_apart
      split: option.split send_decision.split intro!: show_and_cache_apart of_channel_filter)

lemma event_keeps_apart: "chan_apart s \<Longrightarrow> event_apart e \<Longrightarrow> chan_apart (chan_event cx e s)"
  using apart_event[of "cx\<lparr>cx_active_channel := cs_active s\<rparr>" "cs_view s" e]
  by (simp add: chan_event_def chan_apart_def)

text \<open>
  What the server answers with is of the channel asked about; a changed message keeps its channel; and the
  answer to a reaction or a deletion comes while its channel is open.
\<close>

definition same_channel :: "chan_state \<Rightarrow> message \<Rightarrow> bool" where
  "same_channel s m \<longleftrightarrow> (\<forall>x \<in> set (cs_messages s @ concat (map snd (vw_cache (cs_view s)))).
     msg_id x = msg_id m \<longrightarrow> msg_channel_id x = msg_channel_id m)"

fun answer_apart :: "chan_state \<Rightarrow> chan_call \<Rightarrow> call_answer \<Rightarrow> bool" where
  "answer_apart s (LoadCall c n eff ms) (Rows rows) = of_channel c rows"
| "answer_apart s (RefreshCall c n ms) (Rows rows) = of_channel c rows"
| "answer_apart s (OlderCall c n ms) (Rows rows) = of_channel c rows"
| "answer_apart s (JumpCall c n i p) (Rows rows) = of_channel c rows"
| "answer_apart s (LatestCall c n) (Rows rows) = of_channel c rows"
| "answer_apart s (SendCall c cid content atts v) (GotMessage m) = (msg_channel_id m = c)"
| "answer_apart s (RetryCall c cid content atts d) (GotMessage m) = (msg_channel_id m = c)"
| "answer_apart s (ReactCall c) (GotMessage m) = (cs_active s = Some c \<and> same_channel s m)"
| "answer_apart s (DeleteCall c i) Done = (cs_active s = Some c)"
| "answer_apart s (EditCall a) (GotMessage m) = same_channel s m"
| "answer_apart s k ans = True"

lemma load_apart:
  "chan_apart s \<Longrightarrow> of_channel c cached \<Longrightarrow> answer_apart s (LoadCall c n eff cached) ans \<Longrightarrow>
   chan_apart (load_answered parse c n eff cached ans s)"
  by (cases ans) (auto simp: load_answered_def intro!: show_and_cache_apart of_channel_page )

lemma refresh_apart:
  "chan_apart s \<Longrightarrow> of_channel c cached \<Longrightarrow> answer_apart s (RefreshCall c n cached) ans \<Longrightarrow>
   chan_apart (refresh_answered parse c n cached ans s)"
  by (cases ans) (auto simp: refresh_answered_def Let_def intro!: set_cached_apart of_channel_page set_shown_apart
      )

lemma older_apart:
  "chan_apart s \<Longrightarrow> of_channel c current \<Longrightarrow> answer_apart s (OlderCall c n current) ans \<Longrightarrow>
   chan_apart (older_answered c n current ans s)"
  by (cases ans) (auto simp: older_answered_def Let_def intro!: show_and_cache_apart of_channel_server_row )

lemma jump_apart:
  "chan_apart s \<Longrightarrow> answer_apart s (JumpCall c n i p) ans \<Longrightarrow> chan_apart (jump_answered c n i p ans s)"
  by (cases ans) (auto simp: jump_answered_def Let_def intro!: show_and_cache_apart of_channel_server_row )

lemma latest_apart:
  "chan_apart s \<Longrightarrow> answer_apart s (LatestCall c n) ans \<Longrightarrow> chan_apart (latest_answered parse c n ans s)"
  by (cases ans) (auto simp: latest_answered_def Let_def intro!: show_and_cache_apart of_channel_remote of_channel_server_row
      )

lemma sent_apart:
  "chan_apart s \<Longrightarrow> c \<noteq> [] \<Longrightarrow> answer_apart s (SendCall c cid content atts v) ans \<Longrightarrow>
   chan_apart (send_answered c cid content atts v ans s)"
  by (cases ans) (auto simp: send_answered_def Let_def update_conversation_apart of_channel_reconcile of_channel_client
      split: call_answer.split option.split)

lemma retried_apart:
  "chan_apart s \<Longrightarrow> c \<noteq> [] \<Longrightarrow> answer_apart s (RetryCall c cid content atts d) ans \<Longrightarrow>
   chan_apart (retry_answered c cid d ans s)"
  by (cases ans) (auto simp: retry_answered_def Let_def update_conversation_apart of_channel_retried of_channel_client
      split: call_answer.split)

lemma of_channel_same:
  "of_channel c ms \<Longrightarrow> (\<forall>x \<in> set ms. msg_id x = msg_id m \<longrightarrow> msg_channel_id x = msg_channel_id m) \<Longrightarrow>
   of_channel c (map (\<lambda>x. if msg_id x = msg_id m then m else x) ms)"
  by (auto simp: of_channel_def)

lemma same_channel_shown: "same_channel s m \<Longrightarrow> \<forall>x \<in> set (cs_messages s). msg_id x = msg_id m \<longrightarrow> msg_channel_id x = msg_channel_id m"
  by (simp add: same_channel_def)

lemma same_channel_cached:
  "same_channel s m \<Longrightarrow> \<forall>x \<in> set (cached_of c s). msg_id x = msg_id m \<longrightarrow> msg_channel_id x = msg_channel_id m"
  by (cases "obj_get (vw_cache (cs_view s)) c") (force simp: same_channel_def cached_of_def dest: map_of_SomeD)+

lemma react_apart:
  "chan_apart s \<Longrightarrow> c \<noteq> [] \<Longrightarrow> answer_apart s (ReactCall c) ans \<Longrightarrow> chan_apart (reaction_answered c ans s)"
  by (cases ans) (auto simp: reaction_answered_def shown_apart
      intro!: show_and_cache_apart of_channel_same same_channel_shown[rule_format])

lemma deleted_apart:
  "chan_apart s \<Longrightarrow> c \<noteq> [] \<Longrightarrow> answer_apart s (DeleteCall c i) ans \<Longrightarrow> chan_apart (delete_answered c i ans s)"
  by (cases ans) (auto simp: delete_answered_def without_message_def shown_apart intro!: show_and_cache_apart)

lemma edit_apart: "chan_apart s \<Longrightarrow> answer_apart s (EditCall a) ans \<Longrightarrow> chan_apart (edit_answered a ans s)"
proof (cases ans)
  case (GotMessage m)
  assume s: "chan_apart s" and ok: "answer_apart s (EditCall a) ans"
  define upd where "upd = map (\<lambda>x. if msg_id x = msg_id m then m else x)"
  have shown: "chan_apart (set_shown (upd (cs_messages s)) s)"
    using s ok GotMessage unfolding upd_def
    by (intro set_shown_apart of_channel_same same_channel_shown) (auto simp: chan_apart_def lists_apart_def)
  have "of_channel (the a) (upd (cached_of (the a) (set_shown (upd (cs_messages s)) s)))"
    using of_channel_same[OF cached_apart[OF s] same_channel_cached, of m "the a"] ok GotMessage
    by (simp add: upd_def cached_of_def set_shown_def)
  with shown show ?thesis by (auto simp: edit_answered_def GotMessage Let_def upd_def[symmetric])
qed (simp_all add: edit_answered_def)

lemma side_answers_apart:
  "chan_apart s \<Longrightarrow> chan_apart (search_answered c n ans s)" "chan_apart s \<Longrightarrow> chan_apart (channel_pins_answered c rn ans s)"
  "chan_apart s \<Longrightarrow> chan_apart (channel_pin_answered c b ans s)"
  by (simp_all add: search_answered_def channel_pins_answered_def channel_pin_answered_def split: call_answer.split)

lemma calls_removed_apart: "chan_apart s \<Longrightarrow> chan_apart (s\<lparr>cs_calls := remove1 k (cs_calls s)\<rparr>)"
  by (rule chan_apart_frame[of _ s]) (auto simp: chan_apart_def set_remove1_subset)

lemma answer_keeps_apart:
  assumes "chan_apart s" "k \<in> set (cs_calls s)" "answer_apart s k ans"
  shows "chan_apart (answer_call parse k ans s)"
proof -
  let ?s = "s\<lparr>cs_calls := remove1 k (cs_calls s)\<rparr>"
  have s: "chan_apart ?s" by (rule calls_removed_apart) (rule assms(1))
  have k: "call_apart k" using assms by (simp add: chan_apart_def)
  have ans: "answer_apart ?s k ans" using assms(3) by (cases k; cases ans) (simp_all add: same_channel_def)
  show ?thesis
    unfolding answer_call_def Let_def
    using s k ans
    by (cases k) (simp_all add: load_apart refresh_apart older_apart jump_apart latest_apart sent_apart retried_apart
        react_apart deleted_apart edit_apart side_answers_apart)
qed

section \<open>Runs\<close>

fun op_apart :: "chan_state \<Rightarrow> chan_op \<Rightarrow> bool" where
  "op_apart s (AnswerTo k ans) = answer_apart s k ans"
| "op_apart s (SocketEvent cx e) = event_apart e"
| "op_apart s _ = True"

fun run_apart :: "(string \<Rightarrow> jsnum) \<Rightarrow> chan_state \<Rightarrow> chan_op list \<Rightarrow> bool" where
  "run_apart parse s [] = True"
| "run_apart parse s (op # ops) = (op_apart s op \<and> run_apart parse (chan_apply parse op s) ops)"

lemma apply_keeps_apart: "chan_apart s \<Longrightarrow> op_apart s op \<Longrightarrow> chan_apart (chan_apply parse op s)"
  by (cases op) (simp_all add: open_apart quiet_apart delete_apart retry_apart send_apart event_keeps_apart answer_keeps_apart)

lemma run_keeps_apart: "chan_apart s \<Longrightarrow> run_apart parse s ops \<Longrightarrow> chan_apart (chan_run parse ops s)"
  by (induction ops arbitrary: s) (simp_all add: chan_run_def apply_keeps_apart)

lemma init_apart: "chan_apart (init_chan v)"
  by (simp add: chan_apart_def init_chan_def lists_apart_def)

section \<open>What the order of answers can do\<close>

definition chat_row :: "string \<Rightarrow> string \<Rightarrow> message" where
  "chat_row i c = \<lparr>msg_id = i, msg_channel_id = c, msg_content = ''text'', msg_attachments = None, msg_reactions = None,
     msg_edited_at = None, msg_created_at = ''2024'', msg_author = None, msg_client_id = None, msg_client_status = None,
     msg_client_error = None, msg_client_draft = None\<rparr>"

definition watching :: view_ctx where
  "watching = \<lparr>cx_view_active = True, cx_active_channel = None, cx_active_server = None, cx_user = None,
     cx_auth_user_id = None, cx_backgrounded = False, cx_storage = \<lparr>items = [], readable = True, writable = True\<rparr>,
     cx_push_permission = PermDefault, cx_last_channels = None, cx_now = 0, cx_fresh_id = []\<rparr>"

definition no_view :: view_state where
  "no_view = \<lparr>vw_app = init_app, vw_messages = [], vw_cache = [], vw_pins = [], vw_permissions = [],
     vw_channel_server = [], vw_categories = [], vw_toasts = init_toasts, vw_effects = []\<rparr>"

definition no_time :: "string \<Rightarrow> jsnum" where "no_time t = Fin 0"

text \<open>
  The channel is shown around message \<open>m2\<close>; the page before it is asked for; \<open>m3\<close> arrives and is shown; the page
  is answered and \<open>m3\<close> is gone again.
\<close>

definition older_race :: "chan_op list" where
  "older_race =
     [OpenChannel (Some ''c'') [], JumpTo ''m2'' True, AnswerTo (JumpCall ''c'' 2 ''m2'' True) (Rows [chat_row ''m2'' ''c'']),
      LoadOlder, SocketEvent watching (NewMessage ''c'' ''text'' (chat_row ''m3'' ''c'')),
      AnswerTo (OlderCall ''c'' 2 [chat_row ''m2'' ''c'']) (Rows [chat_row ''m1'' ''c''])]"

lemma older_page_drops_arrival:
  "map msg_id (cs_messages (chan_run no_time (take 5 older_race) (init_chan no_view))) = [''m2'', ''m3'']
   \<and> map msg_id (cs_messages (chan_run no_time older_race (init_chan no_view))) = [''m1'', ''m2'']"
  by code_simp

text \<open>A reaction is answered after another channel was opened: its list becomes the kept list of the first.\<close>

definition reaction_race :: "chan_op list" where
  "reaction_race =
     [OpenChannel (Some ''c'') [], AnswerTo (LoadCall ''c'' 1 1 []) (Rows [chat_row ''m1'' ''c'']), ToggleReaction True,
      OpenChannel (Some ''d'') [], AnswerTo (LoadCall ''d'' 2 2 []) (Rows [chat_row ''m2'' ''d'']),
      AnswerTo (ReactCall ''c'') (GotMessage (chat_row ''m1'' ''c''))]"

lemma late_reaction_replaces_list:
  "map msg_id (cached_of ''c'' (chan_run no_time (take 5 reaction_race) (init_chan no_view))) = [''m1'']
   \<and> map msg_id (cached_of ''c'' (chan_run no_time reaction_race (init_chan no_view))) = [''m2'']"
  by code_simp

end
