(* ===== verification/DmMessages.thy ===== *)
theory DmMessages
  imports MessageSending MessageAuthors SocialLists AppStore
begin

text \<open>
  The messages of the open conversation, \<^verbatim>\<open>src/pages/HomePage.tsx\<close>: the two caches it reads and writes, opening
  and reloading a conversation, older pages, jumping to a search result, sending and retrying, reactions, edits
  and deletions, and the events of the socket. A request is an entry of \<open>ds_calls\<close> with the variables its code holds
  over the \<^verbatim>\<open>await\<close>, and its answer a step of its own; loads of a conversation are shared (\<open>MessageCaches\<close>), so one
  answer resumes all that wait for it. React's state and the refs that follow it change in one step, with the effects
  of the change. Stored drafts are in \<open>MessageDrafts\<close>.
\<close>

section \<open>State\<close>

record dm_anchor =
  dan_channel :: string
  dan_message :: "string option"

datatype dm_call =
  DmRefresh string nat "message list"
| DmPrefetch string
| DmOlder string nat nat
| DmJump string nat string "message list" nat
| DmSend string string string "attachment list" "string option"
| DmRetry string string string "attachment list" "string option"
| DmReact "string option"
| DmEdit "string option"
| DmDelete "string option" string
| DmFind string nat
| DmPins string "nat option"

datatype dm_answer = DmRows "message list" | DmAnswered message | DmDone | DmFailed string

record dm_state =
  ds_app :: app_state
  ds_shared :: dm_cache
  ds_local :: "message list obj"
  ds_user :: "user option"
  ds_visible :: bool
  ds_view :: social_view
  ds_messages :: "message list"
  ds_more :: bool
  ds_loading_older :: bool
  ds_older :: "nat option"
  ds_request :: nat
  ds_fresh :: nat
  ds_ready :: bool
  ds_refreshed :: "string option"
  ds_anchor :: "dm_anchor option"
  ds_divider :: int
  ds_search :: string
  ds_search_run :: nat
  ds_results :: "message list option"
  ds_pins :: "message list"
  ds_pins_run :: nat
  ds_jump :: "(string \<times> string) option"
  ds_jump_loading :: "string option"
  ds_input :: string
  ds_reply :: "reply_target option"
  ds_items :: "draft_item list"
  ds_pending :: "send_key list"
  ds_notices :: "(string \<times> string) list"
  ds_marked_read :: "string list"
  ds_calls :: "dm_call list"

abbreviation ds_active :: "dm_state \<Rightarrow> string option" where
  "ds_active s \<equiv> activeDmChannelId (ds_app s)"

abbreviation ds_user_id :: "dm_state \<Rightarrow> string option" where
  "ds_user_id s \<equiv> map_option usr_id (ds_user s)"

definition dm_call_of :: "dm_call \<Rightarrow> dm_state \<Rightarrow> dm_state" where
  "dm_call_of k s = s\<lparr>ds_calls := ds_calls s @ [k]\<rparr>"

definition dm_notify :: "string \<Rightarrow> string \<Rightarrow> dm_state \<Rightarrow> dm_state" where
  "dm_notify title message s = s\<lparr>ds_notices := (title, message) # ds_notices s\<rparr>"

definition on_app :: "(app_state \<Rightarrow> app_state) \<Rightarrow> dm_state \<Rightarrow> dm_state" where
  "on_app f s = s\<lparr>ds_app := f (ds_app s)\<rparr>"

definition isDmAccessForbidden :: "string \<Rightarrow> bool" where
  "isDmAccessForbidden msg \<longleftrightarrow> includes_str ''No access'' msg \<or> includes_str ''403'' msg \<or> includes_str ''Forbidden'' msg"

section \<open>The two caches\<close>

definition rememberDmMessages :: "string \<Rightarrow> message list \<Rightarrow> dm_state \<Rightarrow> dm_state" where
  "rememberDmMessages c ms s =
     (let s1 = s\<lparr>ds_local := obj_put c ms (ds_local s)\<rparr>
      in if truthy_str (ds_user_id s)
         then s1\<lparr>ds_shared := setCachedDmMessages (the (ds_user_id s)) c ms (ds_shared s1)\<rparr> else s1)"

definition cachedDmMessages :: "string \<Rightarrow> dm_state \<Rightarrow> message list option \<times> dm_state" where
  "cachedDmMessages c s =
     (case obj_get (ds_local s) c of
        Some ms \<Rightarrow> (Some ms, s)
      | None \<Rightarrow>
          if \<not> truthy_str (ds_user_id s) then (None, s)
          else (case getCachedDmMessages (the (ds_user_id s)) c (ds_shared s) of
              (shared, cache) \<Rightarrow>
                (shared, s\<lparr>ds_shared := cache,
                   ds_local := (case shared of None \<Rightarrow> ds_local s | Some ms \<Rightarrow> obj_put c ms (ds_local s))\<rparr>)))"

text \<open>Show a list and remember it for conversation \<open>c\<close>.\<close>

definition dm_show :: "string \<Rightarrow> message list \<Rightarrow> dm_state \<Rightarrow> dm_state" where
  "dm_show c ms s = rememberDmMessages c ms (s\<lparr>ds_messages := ms\<rparr>)"

definition start_load :: "dm_call \<Rightarrow> string \<Rightarrow> dm_state \<Rightarrow> dm_state" where
  "start_load k c s =
     dm_call_of k (s\<lparr>ds_shared := snd (loadDmMessagesOnce (nullish (ds_user_id s) []) c (ds_shared s))\<rparr>)"

definition prefetchDmConversation :: "string \<Rightarrow> dm_state \<Rightarrow> dm_state" where
  "prefetchDmConversation c s =
     (if \<not> truthy_str (ds_user_id s) then s
      else (case cachedDmMessages c s of
          (Some _, s1) \<Rightarrow> s1
        | (None, s1) \<Rightarrow> start_load (DmPrefetch c) c s1))"

section \<open>Opening and reloading\<close>

definition refreshActiveDmConversation :: "string \<Rightarrow> dm_state \<Rightarrow> dm_state" where
  "refreshActiveDmConversation c s0 =
     (if \<not> truthy_str (ds_user_id s0) then s0
      else
        let n = ds_request s0 + 1;
            s1 = s0\<lparr>ds_request := n, ds_older := None, ds_loading_older := False, ds_more := False\<rparr>
        in case cachedDmMessages c s1 of (cached, s2) \<Rightarrow>
             let waits = (map_option dan_channel (ds_anchor s2) = Some c);
                 s3 = s2\<lparr>ds_refreshed := (if ds_refreshed s2 = Some c then None else ds_refreshed s2),
                         ds_ready := (cached \<noteq> None \<and> \<not> waits), ds_messages := nullish cached []\<rparr>
             in start_load (DmRefresh c n (nullish cached [])) c s3)"

text \<open>The effects of a changed conversation or visibility; \<open>draft\<close> is the stored draft of the new one.\<close>

definition note_unread :: "string \<Rightarrow> dm_state \<Rightarrow> dm_state" where
  "note_unread c s =
     (let unread = nullish (obj_get (dmUnread (ds_app s)) c) 0; s1 = s\<lparr>ds_divider := (if unread > 0 then unread else 0)\<rparr>
      in if map_option dan_channel (ds_anchor s1) \<noteq> Some c then on_app (clearDmUnread c) s1 else s1)"

definition open_effect :: "dm_state \<Rightarrow> dm_state" where
  "open_effect s =
     (if ds_user s = None \<or> \<not> truthy_str (ds_active s) \<or> \<not> ds_visible s then s\<lparr>ds_divider := 0\<rparr>
      else refreshActiveDmConversation (the (ds_active s)) (note_unread (the (ds_active s)) s))"

definition search_effect :: "dm_state \<Rightarrow> dm_state" where
  "search_effect s =
     (let n = ds_search_run s + 1; s1 = s\<lparr>ds_search_run := n\<rparr> in
      if ds_user s = None \<or> \<not> truthy_str (ds_active s) then s1
      else let s2 = s1\<lparr>ds_results := None\<rparr>
           in if js_trim (ds_search s) = [] then s2 else dm_call_of (DmFind (the (ds_active s)) n) s2)"

definition pins_effect :: "dm_state \<Rightarrow> dm_state" where
  "pins_effect s =
     (let n = ds_pins_run s + 1; s1 = s\<lparr>ds_pins_run := n\<rparr> in
      if ds_user s = None \<or> \<not> truthy_str (ds_active s) then s1
      else dm_call_of (DmPins (the (ds_active s)) (Some n)) s1)"

definition drop_anchor :: "dm_state \<Rightarrow> dm_state" where
  "drop_anchor s =
     (case ds_anchor s of
        None \<Rightarrow> s
      | Some a \<Rightarrow> if \<not> truthy_str (ds_active s) \<or> ds_active s = Some (dan_channel a) then s else s\<lparr>ds_anchor := None\<rparr>)"

definition change_conversation :: "string option \<Rightarrow> string \<Rightarrow> dm_state \<Rightarrow> dm_state" where
  "change_conversation active draft s =
     (if ds_active s = active then s
      else pins_effect (search_effect (open_effect
             (drop_anchor (on_app (setActiveDmChannelId active) (s\<lparr>ds_input := draft, ds_items := []\<rparr>))))))"

definition change_visibility :: "bool \<Rightarrow> dm_state \<Rightarrow> dm_state" where
  "change_visibility visible s = (if ds_visible s = visible then s else open_effect (s\<lparr>ds_visible := visible\<rparr>))"

text \<open>Access was taken away: back to the friends.\<close>

definition leave_conversation :: "dm_state \<Rightarrow> dm_state" where
  "leave_conversation s = change_visibility False (change_conversation None [] (s\<lparr>ds_view := FriendsView\<rparr>))"

definition dm_refresh_answered ::
  "(string \<Rightarrow> jsnum) \<Rightarrow> string \<Rightarrow> nat \<Rightarrow> message list \<Rightarrow> dm_answer \<Rightarrow> dm_state \<Rightarrow> dm_state" where
  "dm_refresh_answered parse c n cached ans s =
     (let current = (\<lambda>s. n = ds_request s \<and> ds_active s = Some c) in
      case ans of
        DmRows ui \<Rightarrow>
          let merged = mergeLatestPageWithHistory parse ui (withAuthorsFrom cached ui); s1 = rememberDmMessages c merged s
          in if current s1
             then s1\<lparr>ds_messages := merged, ds_more := (length ui = 50), ds_ready := True, ds_refreshed := Some c\<rparr>
             else s1
      | DmFailed err \<Rightarrow>
          let s1 = (if current s then s\<lparr>ds_ready := True, ds_refreshed := Some c\<rparr> else s)
          in if isDmAccessForbidden err \<and> ds_active s1 = Some c then leave_conversation s1 else s1
      | _ \<Rightarrow> s)"

text \<open>The shared load of a conversation ends: it is stored, and everyone who waited goes on, in order.\<close>

definition waits_for_load :: "string \<Rightarrow> dm_call \<Rightarrow> bool" where
  "waits_for_load c k = (case k of DmRefresh c' _ _ \<Rightarrow> c' = c | DmPrefetch c' \<Rightarrow> c' = c | _ \<Rightarrow> False)"

definition resume_load :: "(string \<Rightarrow> jsnum) \<Rightarrow> dm_answer \<Rightarrow> dm_call \<Rightarrow> dm_state \<Rightarrow> dm_state" where
  "resume_load parse ans k s =
     (case k of
        DmRefresh c n cached \<Rightarrow> dm_refresh_answered parse c n cached ans s
      | DmPrefetch c \<Rightarrow> (case ans of DmRows ui \<Rightarrow> rememberDmMessages c ui s | _ \<Rightarrow> s)
      | _ \<Rightarrow> s)"

definition load_ended :: "(string \<Rightarrow> jsnum) \<Rightarrow> string \<Rightarrow> message list option \<Rightarrow> string \<Rightarrow> dm_state \<Rightarrow> dm_state" where
  "load_ended parse c rows err s =
     (let u = nullish (ds_user_id s) [] in
      if cacheKey u c \<notin> set (dc_in_flight (ds_shared s)) then s
      else
        let ans = (case rows of None \<Rightarrow> DmFailed err | Some ms \<Rightarrow> DmRows (map strip_client ms));
            s1 = s\<lparr>ds_shared := load_finished u c rows (ds_shared s),
                   ds_calls := filter (\<lambda>k. \<not> waits_for_load c k) (ds_calls s)\<rparr>
        in fold (resume_load parse ans) (filter (waits_for_load c) (ds_calls s)) s1)"

text \<open>Reading an open conversation clears its counter, here and on the server.\<close>

definition syncRead :: "bool \<Rightarrow> dm_state \<Rightarrow> dm_state" where
  "syncRead backgrounded s =
     (if ds_user s = None \<or> \<not> truthy_str (ds_active s) \<or> \<not> ds_visible s \<or> \<not> ds_ready s \<or> ds_refreshed s \<noteq> ds_active s
         \<or> backgrounded \<or> map_option dan_channel (ds_anchor s) = ds_active s then s
      else
        let c = the (ds_active s); unread = nullish (obj_get (dmUnread (ds_app s)) c) 0;
            s1 = (if unread > 0 then s\<lparr>ds_divider := unread\<rparr> else s)
        in (on_app (clearDmUnread c) s1)\<lparr>ds_marked_read := c # ds_marked_read s1\<rparr>)"

definition handleDmNotificationAnchorVisible :: "dm_state \<Rightarrow> dm_state" where
  "handleDmNotificationAnchorVisible s =
     (case ds_anchor s of
        None \<Rightarrow> s
      | Some a \<Rightarrow>
          if Some (dan_channel a) \<noteq> ds_active s then s
          else (on_app (clearDmUnread (dan_channel a)) (s\<lparr>ds_anchor := None\<rparr>))
                 \<lparr>ds_marked_read := dan_channel a # ds_marked_read s\<rparr>)"

section \<open>Older pages and search results\<close>

definition oldest_confirmed :: "message list \<Rightarrow> string option" where
  "oldest_confirmed ms = map_option msg_id (find (\<lambda>m. msg_client_status m = None) ms)"

definition add_older :: "message list \<Rightarrow> message list \<Rightarrow> message list" where
  "add_older rows current = filter (\<lambda>m. msg_id m \<notin> msg_id ` set current) rows @ current"

definition loadOlderDmMessages :: "dm_state \<Rightarrow> dm_state" where
  "loadOlderDmMessages s =
     (if \<not> truthy_str (ds_active s) \<or> \<not> truthy_str (oldest_confirmed (ds_messages s)) \<or> \<not> ds_more s \<or> ds_older s \<noteq> None
      then s
      else let r = ds_fresh s + 1
           in dm_call_of (DmOlder (the (ds_active s)) (ds_request s) r)
                (s\<lparr>ds_fresh := r, ds_older := Some r, ds_loading_older := True\<rparr>))"

definition dm_older_answered :: "string \<Rightarrow> nat \<Rightarrow> nat \<Rightarrow> dm_answer \<Rightarrow> dm_state \<Rightarrow> dm_state" where
  "dm_older_answered c gen r ans s =
     (let current = (gen = ds_request s \<and> ds_active s = Some c);
          s1 = (case ans of
                  DmRows rows \<Rightarrow>
                    if current then (dm_show c (add_older rows (ds_messages s)) s)\<lparr>ds_more := (length rows = 50)\<rparr> else s
                | DmFailed err \<Rightarrow> if current then dm_notify ''History could not load'' err s else s
                | _ \<Rightarrow> s)
      in if ds_older s1 = Some r then s1\<lparr>ds_older := None, ds_loading_older := False\<rparr> else s1)"

definition DM_SEARCH_JUMP_MAX_PAGES :: nat where "DM_SEARCH_JUMP_MAX_PAGES = 20"

definition jump_found :: "string \<Rightarrow> string \<Rightarrow> message list \<Rightarrow> bool \<Rightarrow> dm_state \<Rightarrow> dm_state" where
  "jump_found c target loaded hasMore s =
     (let s1 = (dm_show c (add_older loaded (ds_messages s)) s)\<lparr>ds_more := hasMore\<rparr>;
          s2 = (if target \<in> msg_id ` set loaded then s1\<lparr>ds_jump := Some (c, target)\<rparr>
                else dm_notify ''Message is further back'' ''Scroll up to load older messages and find it.'' s1)
      in s2\<lparr>ds_jump_loading := None\<rparr>)"

text \<open>The head of the loop: ask for the next page, or end it.\<close>

definition jump_loop :: "string \<Rightarrow> nat \<Rightarrow> string \<Rightarrow> message list \<Rightarrow> bool \<Rightarrow> nat \<Rightarrow> dm_state \<Rightarrow> dm_state" where
  "jump_loop c gen target loaded hasMore page s =
     (if page < DM_SEARCH_JUMP_MAX_PAGES \<and> hasMore \<and> truthy_str (oldest_confirmed loaded)
      then dm_call_of (DmJump c gen target loaded page) s
      else jump_found c target loaded hasMore s)"

definition goToDmSearchResult :: "string \<Rightarrow> dm_state \<Rightarrow> dm_state" where
  "goToDmSearchResult target s =
     (if \<not> truthy_str (ds_active s) \<or> truthy_str (ds_jump_loading s) then s
      else
        let c = the (ds_active s) in
        if target \<in> msg_id ` set (ds_messages s) then s\<lparr>ds_jump := Some (c, target)\<rparr>
        else jump_loop c (ds_request s) target (filter (\<lambda>m. msg_channel_id m = c) (ds_messages s)) (ds_more s) 0
               (s\<lparr>ds_jump_loading := Some target\<rparr>))"

definition dm_jump_answered :: "string \<Rightarrow> nat \<Rightarrow> string \<Rightarrow> message list \<Rightarrow> nat \<Rightarrow> dm_answer \<Rightarrow> dm_state \<Rightarrow> dm_state" where
  "dm_jump_answered c gen target loaded page ans s =
     (let current = (gen = ds_request s \<and> ds_active s = Some c) in
      case ans of
        DmRows rows \<Rightarrow>
          if \<not> current then s\<lparr>ds_jump_loading := None\<rparr>
          else
            let loaded' = add_older rows loaded; hasMore = (length rows = 50)
            in if target \<in> msg_id ` set rows then jump_found c target loaded' hasMore s
               else jump_loop c gen target loaded' hasMore (page + 1) s
      | _ \<Rightarrow>
          (if current then dm_notify ''Message unavailable'' ''Could not load this message. Try again.'' s else s)
            \<lparr>ds_jump_loading := None\<rparr>)"

section \<open>Sending\<close>

definition update_dm :: "string \<Rightarrow> (message list \<Rightarrow> message list) \<Rightarrow> dm_state \<Rightarrow> dm_state" where
  "update_dm c f s =
     (if ds_active s = Some c then dm_show c (f (ds_messages s)) s
      else rememberDmMessages c (f (nullish (obj_get (ds_local s) c) [])) s)"

definition handleSendDm :: "string \<Rightarrow> string \<Rightarrow> string option \<Rightarrow> dm_state \<Rightarrow> dm_state" where
  "handleSendDm now clientId forceContent s =
     (if ds_user s = None \<or> \<not> truthy_str (ds_active s) then s
      else
        let c = the (ds_active s); inputValue = nullish forceContent (ds_input s) in
        case decide_send (ds_items s) inputValue (ds_reply s) c (ds_pending s) of
          SendIgnored \<Rightarrow> s
        | SendRefused title message \<Rightarrow> dm_notify title message s
        | SendNow content atts \<Rightarrow>
            let s1 = s\<lparr>ds_pending := (c, content, atts) # ds_pending s, ds_reply := None,
                       ds_input := (if forceContent = None then [] else ds_input s), ds_items := []\<rparr>;
                next = withoutFailedDuplicates (ds_messages s1) content (Some atts)
                         @ [optimistic_message (ds_user s) None now clientId c content atts]
            in dm_call_of (DmSend c clientId content atts (if forceContent = None then Some inputValue else None))
                 (dm_show c next s1))"

definition dm_sent_effects ::
  "(string \<Rightarrow> jsnum) \<Rightarrow> (string \<Rightarrow> string \<Rightarrow> int) \<Rightarrow> string \<Rightarrow> message \<Rightarrow> dm_state \<Rightarrow> dm_state" where
  "dm_sent_effects parse lc c msg s =
     on_app (\<lambda>a. let a1 = clearDmUnread c a
                 in setDmChannels (touchDmChannelActivity parse lc (dmChannels a1) c (msg_created_at msg)) a1) s"

definition dm_send_answered ::
  "(string \<Rightarrow> jsnum) \<Rightarrow> (string \<Rightarrow> string \<Rightarrow> int) \<Rightarrow> string \<Rightarrow> string \<Rightarrow> string \<Rightarrow> attachment list \<Rightarrow> string option
     \<Rightarrow> dm_answer \<Rightarrow> dm_state \<Rightarrow> dm_state" where
  "dm_send_answered parse lc c clientId content atts inputValue ans s =
     (let s1 = (case ans of
                  DmAnswered msg \<Rightarrow>
                    update_dm c (\<lambda>ms. reconcileConfirmedMessage ms clientId msg) (dm_sent_effects parse lc c msg s)
                | DmFailed err \<Rightarrow>
                    let s2 = update_dm c (apply_failed clientId err inputValue) s
                    in (case inputValue of
                          Some v \<Rightarrow> if ds_active s = Some c \<and> ds_input s2 = [] then s2\<lparr>ds_input := v\<rparr> else s2
                        | None \<Rightarrow> s2)
                | _ \<Rightarrow> s)
      in s1\<lparr>ds_pending := removeAll (c, content, atts) (ds_pending s1)\<rparr>)"

definition handleRetryDmMessage :: "string \<Rightarrow> dm_state \<Rightarrow> dm_state" where
  "handleRetryDmMessage clientId s =
     (if ds_user s = None \<or> \<not> truthy_str (ds_active s) then s
      else (case find (\<lambda>m. msg_client_id m = Some clientId) (ds_messages s) of
          None \<Rightarrow> s
        | Some target \<Rightarrow>
            if msg_client_status target \<noteq> Some Failed then s
            else let c = the (ds_active s)
                 in dm_call_of (DmRetry c clientId (msg_content target) (nullish (msg_attachments target) [])
                                  (msg_client_draft target))
                      (dm_show c (mark_retrying clientId (ds_messages s)) s)))"

definition dm_retry_answered :: "string \<Rightarrow> string \<Rightarrow> string option \<Rightarrow> dm_answer \<Rightarrow> dm_state \<Rightarrow> dm_state" where
  "dm_retry_answered c clientId draft ans s =
     (case ans of
        DmAnswered msg \<Rightarrow>
          let s1 = update_dm c (apply_retried clientId msg) (on_app (clearDmUnread c) s)
          in if truthy_str draft \<and> ds_active s = Some c \<and> Some (ds_input s1) = draft
             then s1\<lparr>ds_input := []\<rparr> else s1
      | DmFailed err \<Rightarrow> update_dm c (apply_failed_retry clientId err) s
      | _ \<Rightarrow> s)"

section \<open>Reactions, edits, deletions\<close>

text \<open>
  As in the server view, the conversation of the render the handler was created in is remembered with the list shown
  at the answer.
\<close>

definition change_shown :: "string option \<Rightarrow> (message list \<Rightarrow> message list) \<Rightarrow> dm_state \<Rightarrow> dm_state" where
  "change_shown active f s =
     (let ms = f (ds_messages s); s1 = s\<lparr>ds_messages := ms\<rparr>
      in if truthy_str active then rememberDmMessages (the active) ms s1 else s1)"

definition put_updated :: "message \<Rightarrow> message list \<Rightarrow> message list" where
  "put_updated updated = map (\<lambda>m. if msg_id m = msg_id updated then updated else m)"

definition drop_message :: "string \<Rightarrow> message list \<Rightarrow> message list" where
  "drop_message i = filter (\<lambda>m. msg_id m \<noteq> i)"

definition handleToggleDmReaction :: "dm_state \<Rightarrow> dm_state" where
  "handleToggleDmReaction s = (if ds_user s = None then s else dm_call_of (DmReact (ds_active s)) s)"

definition dm_reaction_answered :: "string option \<Rightarrow> dm_answer \<Rightarrow> dm_state \<Rightarrow> dm_state" where
  "dm_reaction_answered active ans s =
     (case ans of
        DmAnswered updated \<Rightarrow> change_shown active (put_updated updated) s
      | DmFailed err \<Rightarrow> dm_notify ''Reaction failed'' err s
      | _ \<Rightarrow> s)"

definition saveDmEdit :: "string option \<Rightarrow> string \<Rightarrow> dm_state \<Rightarrow> dm_state" where
  "saveDmEdit editing content s =
     (if ds_user s = None \<or> \<not> truthy_str editing \<or> js_trim content = [] then s
      else if too_long (js_trim content)
        then dm_notify ''Edit too long'' ''Messages can contain up to 4000 characters.'' s
      else dm_call_of (DmEdit (ds_active s)) s)"

definition change_results :: "(message list \<Rightarrow> message list) \<Rightarrow> dm_state \<Rightarrow> dm_state" where
  "change_results f s = (if js_trim (ds_search s) = [] then s else s\<lparr>ds_results := map_option f (ds_results s)\<rparr>)"

definition dm_edit_answered :: "string option \<Rightarrow> dm_answer \<Rightarrow> dm_state \<Rightarrow> dm_state" where
  "dm_edit_answered active ans s =
     (case ans of
        DmAnswered updated \<Rightarrow> change_results (put_updated updated) (change_shown active (put_updated updated) s)
      | DmFailed err \<Rightarrow> dm_notify ''Edit failed'' err s
      | _ \<Rightarrow> s)"

definition removeDmMessage :: "string \<Rightarrow> dm_state \<Rightarrow> dm_state" where
  "removeDmMessage i s =
     (if ds_user s = None then s
      else if starts_with ''local-'' i then change_shown (ds_active s) (drop_message i) s
      else dm_call_of (DmDelete (ds_active s) i) s)"

definition dm_delete_answered :: "string option \<Rightarrow> string \<Rightarrow> dm_answer \<Rightarrow> dm_state \<Rightarrow> dm_state" where
  "dm_delete_answered active i ans s =
     (case ans of
        DmDone \<Rightarrow> change_results (drop_message i) (change_shown active (drop_message i) s)
      | _ \<Rightarrow> s)"

section \<open>Search and pins\<close>

definition type_search :: "string \<Rightarrow> dm_state \<Rightarrow> dm_state" where
  "type_search q s = (if ds_search s = q then s else search_effect (s\<lparr>ds_search := q\<rparr>))"

definition find_answered :: "string \<Rightarrow> nat \<Rightarrow> dm_answer \<Rightarrow> dm_state \<Rightarrow> dm_state" where
  "find_answered c n ans s =
     (if n \<noteq> ds_search_run s \<or> ds_active s \<noteq> Some c then s
      else s\<lparr>ds_results := Some (case ans of DmRows rows \<Rightarrow> rows | _ \<Rightarrow> [])\<rparr>)"

definition refreshDmPins :: "dm_state \<Rightarrow> dm_state" where
  "refreshDmPins s = (if truthy_str (ds_active s) then dm_call_of (DmPins (the (ds_active s)) None) s else s)"

definition pins_answered :: "string \<Rightarrow> nat option \<Rightarrow> dm_answer \<Rightarrow> dm_state \<Rightarrow> dm_state" where
  "pins_answered c run ans s =
     (let wanted = ((case run of Some n \<Rightarrow> n = ds_pins_run s | None \<Rightarrow> True) \<and> ds_active s = Some c) in
      if \<not> wanted then s
      else case ans of
        DmRows rows \<Rightarrow> s\<lparr>ds_pins := rows\<rparr>
      | DmFailed err \<Rightarrow>
          (if run \<noteq> None \<and> isDmAccessForbidden err then leave_conversation s else s)\<lparr>ds_pins := []\<rparr>
      | _ \<Rightarrow> s)"

section \<open>Events\<close>

definition place_incoming :: "string option \<Rightarrow> message \<Rightarrow> message list \<Rightarrow> message list" where
  "place_incoming me incoming prev =
     (case find_index (\<lambda>m. msg_id m = msg_id incoming) prev of
        Some i \<Rightarrow> prev[i := incoming]
      | None \<Rightarrow>
          (case find_index (\<lambda>m. msg_client_status m = Some Sending \<and> author_id m = me) prev of
             Some j \<Rightarrow> if author_id incoming = me then prev[j := incoming] else prev @ [incoming]
           | None \<Rightarrow> prev @ [incoming]))"

definition on_dm_message :: "string \<Rightarrow> message \<Rightarrow> dm_state \<Rightarrow> dm_state" where
  "on_dm_message c incoming s =
     (if ds_active s \<noteq> Some c then s
      else dm_show c (place_incoming (ds_user_id s) incoming (ds_messages s)) s)"

text \<open>\<^verbatim>\<open>{ ...m, ...updated }\<close>: the server's message has none of the fields of the client.\<close>

definition overlay :: "message \<Rightarrow> message \<Rightarrow> message" where
  "overlay updated m =
     updated\<lparr>msg_client_id := msg_client_id m, msg_client_status := msg_client_status m,
            msg_client_error := msg_client_error m, msg_client_draft := msg_client_draft m\<rparr>"

definition on_dm_changed :: "string \<Rightarrow> (message list \<Rightarrow> message list) \<Rightarrow> dm_state \<Rightarrow> dm_state" where
  "on_dm_changed c change s =
     (if ds_active s \<noteq> Some c
      then (case cachedDmMessages c s of
              (Some cached, s1) \<Rightarrow> rememberDmMessages c (change cached) s1
            | (None, s1) \<Rightarrow> s1)
      else (dm_show c (change (ds_messages s)) s)
             \<lparr>ds_pins := change (ds_pins s), ds_results := map_option change (ds_results s)\<rparr>)"

definition on_dm_profile :: "user_update \<Rightarrow> dm_state \<Rightarrow> dm_state" where
  "on_dm_profile d s =
     (if uup_id d = [] then s
      else
        let p = \<lparr>prof_id = uup_id d, prof_username = uup_username d, prof_avatar_url = uup_avatar_url d\<rparr>;
            f = (\<lambda>ms. withUpdatedAuthor ms p)
        in s\<lparr>ds_messages := f (ds_messages s), ds_local := map (\<lambda>(c, ms). (c, f ms)) (ds_local s),
             ds_shared := (if truthy_str (ds_user_id s) then updateCachedDmMessages (the (ds_user_id s)) f (ds_shared s)
                           else ds_shared s),
             ds_pins := f (ds_pins s)\<rparr>)"

definition in_dm :: "string \<Rightarrow> dm_channel \<Rightarrow> bool" where
  "in_dm u c \<longleftrightarrow> dm_peer_id c = u \<or> list_ex (\<lambda>m. dmm_id m = u) (nullish (dm_members c) [])"

definition with_status :: "string \<Rightarrow> string \<Rightarrow> dm_channel \<Rightarrow> dm_channel" where
  "with_status u status c =
     (if in_dm u c
      then c\<lparr>dm_peer_status := (if dm_peer_id c = u then status else dm_peer_status c),
             dm_members := map_option (map (\<lambda>m. if dmm_id m = u then m\<lparr>dmm_status := status\<rparr> else m)) (dm_members c)\<rparr>
      else c)"

definition on_dm_presence :: "string \<Rightarrow> string \<Rightarrow> dm_state \<Rightarrow> dm_state" where
  "on_dm_presence u status s =
     (if u = [] then s
      else on_app (\<lambda>a.
        let a1 = (if list_ex (\<lambda>f. fr_id f = u) (friends a)
                  then setFriends (map (\<lambda>f. if fr_id f = u then f\<lparr>fr_status := status\<rparr> else f) (friends a)) a else a)
        in if list_ex (in_dm u) (dmChannels a1)
           then setDmChannels (map (with_status u status) (dmChannels a1)) a1 else a1) s)"

definition on_dm_event :: "ws_event \<Rightarrow> dm_state \<Rightarrow> dm_state" where
  "on_dm_event e s =
     (case e of
        NewMessage c _ m \<Rightarrow> on_dm_message c m s
      | MessageUpdated c m \<Rightarrow>
          if c = [] \<or> msg_id m = [] then s
          else on_dm_changed c (map (\<lambda>x. if msg_id x = msg_id m then overlay m x else x)) s
      | MessageDeleted c i \<Rightarrow> if c = [] \<or> i = [] then s else on_dm_changed c (drop_message i) s
      | UserUpdated d \<Rightarrow> on_dm_profile d s
      | PresenceUpdate u status \<Rightarrow> on_dm_presence u status s
      | _ \<Rightarrow> s)"

section \<open>Runs\<close>

datatype dm_op =
  OpenDm "string option" string
| ShowDms bool
| PrefetchDm string
| ReloadDm
| DmSyncRead bool
| AnchorSet dm_anchor
| AnchorSeen
| DmLoadOlder
| DmGoTo string
| DmType string
| DmReplyTo "reply_target option"
| DmAttach "draft_item list"
| SendDm string string "string option"
| RetryDm string
| ReactDm
| SaveDmEdit "string option" string
| RemoveDm string
| DmSearch string
| DmPinsAgain
| DmLoadEnds string "message list option" string
| DmAnswer dm_call dm_answer
| DmEvent ws_event

definition dm_answer_call ::
  "(string \<Rightarrow> jsnum) \<Rightarrow> (string \<Rightarrow> string \<Rightarrow> int) \<Rightarrow> dm_call \<Rightarrow> dm_answer \<Rightarrow> dm_state \<Rightarrow> dm_state" where
  "dm_answer_call parse lc k ans s0 =
     (let s = s0\<lparr>ds_calls := remove1 k (ds_calls s0)\<rparr> in
      case k of
        DmRefresh c n cached \<Rightarrow> s0
      | DmPrefetch c \<Rightarrow> s0
      | DmOlder c gen r \<Rightarrow> dm_older_answered c gen r ans s
      | DmJump c gen target loaded page \<Rightarrow> dm_jump_answered c gen target loaded page ans s
      | DmSend c clientId content atts v \<Rightarrow> dm_send_answered parse lc c clientId content atts v ans s
      | DmRetry c clientId content atts draft \<Rightarrow> dm_retry_answered c clientId draft ans s
      | DmReact active \<Rightarrow> dm_reaction_answered active ans s
      | DmEdit active \<Rightarrow> dm_edit_answered active ans s
      | DmDelete active i \<Rightarrow> dm_delete_answered active i ans s
      | DmFind c n \<Rightarrow> find_answered c n ans s
      | DmPins c run \<Rightarrow> pins_answered c run ans s)"

fun dm_apply :: "(string \<Rightarrow> jsnum) \<Rightarrow> (string \<Rightarrow> string \<Rightarrow> int) \<Rightarrow> dm_op \<Rightarrow> dm_state \<Rightarrow> dm_state" where
  "dm_apply parse lc (OpenDm active draft) s = change_conversation active draft s"
| "dm_apply parse lc (ShowDms visible) s = change_visibility visible s"
| "dm_apply parse lc (PrefetchDm c) s = prefetchDmConversation c s"
| "dm_apply parse lc ReloadDm s = (if truthy_str (ds_active s) then refreshActiveDmConversation (the (ds_active s)) s else s)"
| "dm_apply parse lc (DmSyncRead b) s = syncRead b s"
| "dm_apply parse lc (AnchorSet a) s = s\<lparr>ds_anchor := Some a\<rparr>"
| "dm_apply parse lc AnchorSeen s = handleDmNotificationAnchorVisible s"
| "dm_apply parse lc DmLoadOlder s = loadOlderDmMessages s"
| "dm_apply parse lc (DmGoTo i) s = goToDmSearchResult i s"
| "dm_apply parse lc (DmType t) s = s\<lparr>ds_input := t\<rparr>"
| "dm_apply parse lc (DmReplyTo r) s = s\<lparr>ds_reply := r\<rparr>"
| "dm_apply parse lc (DmAttach atts) s = s\<lparr>ds_items := atts\<rparr>"
| "dm_apply parse lc (SendDm now cid forced) s = handleSendDm now cid forced s"
| "dm_apply parse lc (RetryDm cid) s = handleRetryDmMessage cid s"
| "dm_apply parse lc ReactDm s = handleToggleDmReaction s"
| "dm_apply parse lc (SaveDmEdit e t) s = saveDmEdit e t s"
| "dm_apply parse lc (RemoveDm i) s = removeDmMessage i s"
| "dm_apply parse lc (DmSearch q) s = type_search q s"
| "dm_apply parse lc DmPinsAgain s = refreshDmPins s"
| "dm_apply parse lc (DmLoadEnds c rows err) s = load_ended parse c rows err s"
| "dm_apply parse lc (DmAnswer k ans) s = (if k \<in> set (ds_calls s) then dm_answer_call parse lc k ans s else s)"
| "dm_apply parse lc (DmEvent e) s = on_dm_event e s"

definition dm_run ::
  "(string \<Rightarrow> jsnum) \<Rightarrow> (string \<Rightarrow> string \<Rightarrow> int) \<Rightarrow> dm_op list \<Rightarrow> dm_state \<Rightarrow> dm_state" where
  "dm_run parse lc ops s = fold (dm_apply parse lc) ops s"

definition init_dms :: "user option \<Rightarrow> app_state \<Rightarrow> dm_cache \<Rightarrow> dm_state" where
  "init_dms me app cache =
     \<lparr>ds_app = app, ds_shared = cache, ds_local = [], ds_user = me, ds_visible = False, ds_view = FriendsView,
      ds_messages = [], ds_more = False, ds_loading_older = False, ds_older = None, ds_request = 0, ds_fresh = 0,
      ds_ready = False, ds_refreshed = None, ds_anchor = None, ds_divider = 0, ds_search = [], ds_search_run = 0,
      ds_results = None, ds_pins = [], ds_pins_run = 0, ds_jump = None, ds_jump_loading = None, ds_input = [],
      ds_reply = None, ds_items = [], ds_pending = [], ds_notices = [], ds_marked_read = [], ds_calls = []\<rparr>"

end
