(* ===== verification/DmMessageLaws.thy ===== *)
theory DmMessageLaws
  imports DmMessages
begin

text \<open>
  Laws of the conversations' messages: no message is sent twice at a time, every call that waits for a shared load
  has that load under way, paging back keeps all that is shown, and a jump to a search result ends.
\<close>

section \<open>What operations leave alone\<close>

text \<open>
  The part of the state the laws are about: the waiting calls, the pending sends, the loads under way and the user.
\<close>

definition dm_part :: "dm_state \<Rightarrow> dm_call list \<times> send_key list \<times> string list \<times> user option" where
  "dm_part s = (ds_calls s, ds_pending s, dc_in_flight (ds_shared s), ds_user s)"

lemma cache_in_flight [simp]:
  "dc_in_flight (setCachedDmMessages u c ms d) = dc_in_flight d"
  "dc_in_flight (updateCachedDmMessages u f d) = dc_in_flight d"
  "dc_in_flight (snd (getCachedDmMessages u c d)) = dc_in_flight d"
  by (simp_all add: setCachedDmMessages_def put_conversation_def updateCachedDmMessages_def getCachedDmMessages_def
      split: option.split)

lemma field_part [simp]:
  "dm_part (s\<lparr>ds_app := a\<rparr>) = dm_part s" "dm_part (s\<lparr>ds_visible := b\<rparr>) = dm_part s" "dm_part (s\<lparr>ds_view := v\<rparr>) = dm_part s"
  "dm_part (s\<lparr>ds_messages := ms\<rparr>) = dm_part s" "dm_part (s\<lparr>ds_more := b\<rparr>) = dm_part s"
  "dm_part (s\<lparr>ds_loading_older := b\<rparr>) = dm_part s" "dm_part (s\<lparr>ds_older := r\<rparr>) = dm_part s"
  "dm_part (s\<lparr>ds_request := n\<rparr>) = dm_part s" "dm_part (s\<lparr>ds_fresh := n\<rparr>) = dm_part s" "dm_part (s\<lparr>ds_ready := b\<rparr>) = dm_part s"
  "dm_part (s\<lparr>ds_refreshed := c\<rparr>) = dm_part s" "dm_part (s\<lparr>ds_anchor := d\<rparr>) = dm_part s"
  "dm_part (s\<lparr>ds_divider := i\<rparr>) = dm_part s" "dm_part (s\<lparr>ds_search := t\<rparr>) = dm_part s"
  "dm_part (s\<lparr>ds_search_run := n\<rparr>) = dm_part s" "dm_part (s\<lparr>ds_results := rs\<rparr>) = dm_part s"
  "dm_part (s\<lparr>ds_pins := ms\<rparr>) = dm_part s" "dm_part (s\<lparr>ds_pins_run := n\<rparr>) = dm_part s" "dm_part (s\<lparr>ds_jump := j\<rparr>) = dm_part s"
  "dm_part (s\<lparr>ds_jump_loading := l\<rparr>) = dm_part s" "dm_part (s\<lparr>ds_input := t\<rparr>) = dm_part s" "dm_part (s\<lparr>ds_reply := rt\<rparr>) = dm_part s"
  "dm_part (s\<lparr>ds_items := its\<rparr>) = dm_part s" "dm_part (s\<lparr>ds_notices := ns\<rparr>) = dm_part s"
  "dm_part (s\<lparr>ds_marked_read := cs\<rparr>) = dm_part s" "dm_part (s\<lparr>ds_local := l'\<rparr>) = dm_part s"
  "dm_part (on_app f s) = dm_part s" "dm_part (dm_notify ti tx s) = dm_part s"
  by (simp_all add: dm_part_def on_app_def dm_notify_def)

lemma remember_part [simp]:
  "dm_part (rememberDmMessages c ms s) = dm_part s" "dm_part (dm_show c ms s) = dm_part s"
  "dm_part (update_dm c f s) = dm_part s" "dm_part (change_shown a f s) = dm_part s" "dm_part (change_results f s) = dm_part s"
  "dm_part (drop_anchor s) = dm_part s"
  by (auto simp: dm_part_def rememberDmMessages_def dm_show_def update_dm_def change_shown_def change_results_def
      drop_anchor_def Let_def split: option.split)

lemma cached_part [simp]: "dm_part (snd (cachedDmMessages c s)) = dm_part s"
  by (auto simp: dm_part_def cachedDmMessages_def getCachedDmMessages_def split: option.split)

lemma cached_part_pair: "cachedDmMessages c s = (ms, s1) \<Longrightarrow> dm_part s1 = dm_part s"
  by (metis cached_part snd_conv)

section \<open>The invariant\<close>

fun dm_send_key :: "dm_call \<Rightarrow> send_key option" where
  "dm_send_key (DmSend c cid content atts v) = Some (c, content, atts)"
| "dm_send_key k = None"

fun call_bounded :: "dm_call \<Rightarrow> bool" where
  "call_bounded (DmJump c gen target loaded page) = (page < DM_SEARCH_JUMP_MAX_PAGES)"
| "call_bounded k = True"

definition load_waits :: "string \<Rightarrow> string list \<Rightarrow> dm_call \<Rightarrow> bool" where
  "load_waits u flights k \<longleftrightarrow> (\<forall>c. waits_for_load c k \<longrightarrow> cacheKey u c \<in> set flights)"

fun part_ok :: "dm_call list \<times> send_key list \<times> string list \<times> user option \<Rightarrow> bool" where
  "part_ok (calls, pending, flights, me) \<longleftrightarrow>
     sends_consistent (sends_of dm_send_key calls) pending \<and> list_all call_bounded calls \<and>
     list_all (load_waits (nullish (map_option usr_id me) []) flights) calls"

definition dm_ok :: "dm_state \<Rightarrow> bool" where "dm_ok s \<longleftrightarrow> part_ok (dm_part s)"

lemma dm_ok_part: "dm_part s' = dm_part s \<Longrightarrow> dm_ok s' = dm_ok s"
  by (simp add: dm_ok_def)

lemma dm_ok_same: "dm_ok s \<Longrightarrow> dm_part s' = dm_part s \<Longrightarrow> dm_ok s'"
  by (simp add: dm_ok_def)

lemma dm_ok_part_fields:
  "dm_ok s \<longleftrightarrow> sends_consistent (sends_of dm_send_key (ds_calls s)) (ds_pending s) \<and> list_all call_bounded (ds_calls s) \<and>
     list_all (load_waits (nullish (ds_user_id s) []) (dc_in_flight (ds_shared s))) (ds_calls s)"
  by (simp add: dm_ok_def dm_part_def)

text \<open>A call that is neither a send nor a load.\<close>

definition plain_call :: "dm_call \<Rightarrow> bool" where
  "plain_call k \<longleftrightarrow> dm_send_key k = None \<and> call_bounded k \<and> (\<forall>c. \<not> waits_for_load c k)"

lemma plain_calls [simp]:
  "plain_call (DmOlder c n r)" "plain_call (DmRetry c cid content atts d)" "plain_call (DmReact a)" "plain_call (DmEdit a)"
  "plain_call (DmDelete a i)" "plain_call (DmFind c n)" "plain_call (DmPins c rn)"
  "plain_call (DmJump c n i ms page) \<longleftrightarrow> page < DM_SEARCH_JUMP_MAX_PAGES"
  by (simp_all add: plain_call_def waits_for_load_def)

lemma dm_ok_plain: "plain_call k \<Longrightarrow> dm_ok (dm_call_of k s) = dm_ok s"
  by (auto simp: dm_ok_part_fields dm_call_of_def plain_call_def load_waits_def)

lemma in_flight_grows: "set (dc_in_flight d) \<subseteq> set (dc_in_flight (snd (loadDmMessagesOnce u c d)))"
  "cacheKey u c \<in> set (dc_in_flight (snd (loadDmMessagesOnce u c d)))"
  by (auto simp: loadDmMessagesOnce_def)

lemma load_waits_mono: "set f \<subseteq> set f' \<Longrightarrow> load_waits u f k \<Longrightarrow> load_waits u f' k"
  by (auto simp: load_waits_def)

lemma start_load_ok:
  assumes "dm_ok s" "dm_send_key k = None" "call_bounded k" "\<And>c'. waits_for_load c' k \<Longrightarrow> c' = c"
  shows "dm_ok (start_load k c s)"
proof -
  let ?f = "dc_in_flight (snd (loadDmMessagesOnce (nullish (ds_user_id s) []) c (ds_shared s)))"
  have "list_all (load_waits (nullish (ds_user_id s) []) ?f) (ds_calls s @ [k])"
    using assms(1,4) in_flight_grows load_waits_mono[OF in_flight_grows(1)]
    by (auto simp: dm_ok_part_fields list_all_iff load_waits_def)
  then show ?thesis using assms(1-3) by (simp add: dm_ok_part_fields start_load_def dm_call_of_def)
qed

lemma prefetch_ok: "dm_ok s \<Longrightarrow> dm_ok (prefetchDmConversation c s)"
  using dm_ok_part[OF cached_part, of c s] start_load_ok[of "snd (cachedDmMessages c s)" "DmPrefetch c" c]
  by (auto simp: prefetchDmConversation_def waits_for_load_def split: prod.split option.split)

lemma refresh_ok: "dm_ok s \<Longrightarrow> dm_ok (refreshActiveDmConversation c s)"
proof -
  assume s: "dm_ok s"
  let ?s1 = "s\<lparr>ds_request := ds_request s + 1, ds_older := None, ds_loading_older := False, ds_more := False\<rparr>"
  have c: "dm_part (snd (cachedDmMessages c ?s1)) = dm_part s" unfolding cached_part by simp
  show ?thesis
  proof (cases "cachedDmMessages c ?s1")
    case (Pair cached s2)
    then have p: "dm_part s2 = dm_part s" using c by simp
    let ?s3 = "s2\<lparr>ds_refreshed := (if ds_refreshed s2 = Some c then None else ds_refreshed s2),
                  ds_ready := (cached \<noteq> None \<and> \<not> map_option dan_channel (ds_anchor s2) = Some c), ds_messages := nullish cached []\<rparr>"
    have "dm_ok ?s3" using dm_ok_part[of ?s3 s] p s by simp
    then have "dm_ok (start_load (DmRefresh c (ds_request s + 1) (nullish cached [])) c ?s3)"
      by (rule start_load_ok) (auto simp: waits_for_load_def)
    with s Pair show ?thesis unfolding refreshActiveDmConversation_def Let_def by (simp del: not_None_eq)
  qed
qed

lemma note_unread_part [simp]: "dm_part (note_unread c s) = dm_part s"
  by (simp add: note_unread_def Let_def)

lemma open_effect_ok: "dm_ok s \<Longrightarrow> dm_ok (open_effect s)"
  unfolding open_effect_def using refresh_ok[OF dm_ok_same[OF _ note_unread_part]]
  by (cases "ds_user s = None \<or> \<not> truthy_str (ds_active s) \<or> \<not> ds_visible s") (simp_all only: if_True if_False, rule dm_ok_same, simp_all)

lemma plain_after: "dm_ok s \<Longrightarrow> plain_call k \<Longrightarrow> dm_part s' = dm_part s \<Longrightarrow> dm_ok (dm_call_of k s')"
  by (rule dm_ok_plain[THEN iffD2], assumption, rule dm_ok_same)

lemma search_effect_ok: "dm_ok s \<Longrightarrow> dm_ok (search_effect s)"
  by (auto simp: search_effect_def Let_def intro: dm_ok_same plain_after)

lemma pins_effect_ok: "dm_ok s \<Longrightarrow> dm_ok (pins_effect s)"
  by (auto simp: pins_effect_def Let_def intro: dm_ok_same plain_after)

lemma change_conversation_ok: "dm_ok s \<Longrightarrow> dm_ok (change_conversation a d s)"
  unfolding change_conversation_def
  by (auto intro!: pins_effect_ok search_effect_ok open_effect_ok intro: dm_ok_same)

lemma change_visibility_ok: "dm_ok s \<Longrightarrow> dm_ok (change_visibility b s)"
  unfolding change_visibility_def by (auto intro!: open_effect_ok intro: dm_ok_same)

lemma leave_ok: "dm_ok s \<Longrightarrow> dm_ok (leave_conversation s)"
  unfolding leave_conversation_def by (auto intro!: change_visibility_ok change_conversation_ok intro: dm_ok_same)

lemma dm_refresh_answered_ok: "dm_ok s \<Longrightarrow> dm_ok (dm_refresh_answered p c n ms ans s)"
  by (cases ans) (auto simp: dm_refresh_answered_def Let_def intro!: leave_ok intro: dm_ok_same)

lemma resume_load_ok: "dm_ok s \<Longrightarrow> dm_ok (resume_load p ans k s)"
  by (auto simp: resume_load_def dm_refresh_answered_ok split: dm_call.split dm_answer.split intro: dm_ok_same)

lemma fold_resume_ok: "dm_ok s \<Longrightarrow> dm_ok (fold (resume_load p ans) ks s)"
  by (induction ks arbitrary: s) (simp_all add: resume_load_ok)

text \<open>The end of a load takes its waiting calls out before it forgets the load.\<close>

lemma sends_of_filter_loads:
  "sends_of dm_send_key (filter (\<lambda>k. \<not> waits_for_load c k) ks) = sends_of dm_send_key ks"
proof (induction ks)
  case (Cons k ks)
  have "dm_send_key k \<noteq> None \<Longrightarrow> \<not> waits_for_load c k" by (cases k) (auto simp: waits_for_load_def)
  with Cons show ?case by (auto split: option.split)
qed simp

lemma cacheKey_same_user [simp]: "cacheKey u c = cacheKey u c' \<longleftrightarrow> c = c'"
  by (simp add: cacheKey_def)

lemma load_finished_in_flight:
  "dc_in_flight (load_finished u c rows d) = filter (\<lambda>k. k \<noteq> cacheKey u c) (dc_in_flight d)"
  by (simp add: load_finished_def Let_def split: option.split)

lemma load_ended_ok: "dm_ok s \<Longrightarrow> dm_ok (load_ended p c rows err s)"
proof -
  assume s: "dm_ok s"
  let ?u = "nullish (ds_user_id s) []"
  let ?s1 = "s\<lparr>ds_shared := load_finished ?u c rows (ds_shared s),
               ds_calls := filter (\<lambda>k. \<not> waits_for_load c k) (ds_calls s)\<rparr>"
  have "dm_ok ?s1"
    using s unfolding dm_ok_part_fields
    by (auto simp: sends_of_filter_loads load_finished_in_flight list_all_iff load_waits_def)
  then show ?thesis using s unfolding load_ended_def Let_def by (simp add: fold_resume_ok)
qed

section \<open>Every operation keeps it\<close>

lemma jump_found_part [simp]: "dm_part (jump_found c t ms b s) = dm_part s"
  by (simp add: jump_found_def Let_def)

lemma jump_loop_ok: "dm_ok s \<Longrightarrow> dm_ok (jump_loop c gen t ms b page s)"
  by (auto simp: jump_loop_def intro: dm_ok_same plain_after)

lemma quiet_ok:
  "dm_ok s \<Longrightarrow> dm_ok (syncRead b s)" "dm_ok s \<Longrightarrow> dm_ok (handleDmNotificationAnchorVisible s)"
  "dm_ok s \<Longrightarrow> dm_ok (loadOlderDmMessages s)" "dm_ok s \<Longrightarrow> dm_ok (goToDmSearchResult t s)"
  "dm_ok s \<Longrightarrow> dm_ok (handleRetryDmMessage cid s)" "dm_ok s \<Longrightarrow> dm_ok (handleToggleDmReaction s)"
  "dm_ok s \<Longrightarrow> dm_ok (saveDmEdit e tx s)" "dm_ok s \<Longrightarrow> dm_ok (removeDmMessage i s)" "dm_ok s \<Longrightarrow> dm_ok (refreshDmPins s)"
  by (auto simp: syncRead_def handleDmNotificationAnchorVisible_def loadOlderDmMessages_def goToDmSearchResult_def
      handleRetryDmMessage_def handleToggleDmReaction_def saveDmEdit_def removeDmMessage_def refreshDmPins_def Let_def
      split: option.split intro: dm_ok_same plain_after intro!: jump_loop_ok)

lemma type_search_ok: "dm_ok s \<Longrightarrow> dm_ok (type_search q s)"
  by (auto simp: type_search_def intro!: search_effect_ok intro: dm_ok_same)

lemma event_part: "dm_part (on_dm_event e s) = dm_part s"
proof -
  have changed: "dm_part (on_dm_changed c f s) = dm_part s" for c f
    by (auto simp: on_dm_changed_def cached_part_pair split: prod.split option.split)
  show ?thesis
    by (cases e) (simp_all add: on_dm_event_def on_dm_message_def on_dm_profile_def on_dm_presence_def changed,
        simp add: Let_def dm_part_def)
qed

lemma dm_ok_send: "dm_ok s \<Longrightarrow> dm_ok (handleSendDm now cid forced s)"
proof (cases "ds_user s = None \<or> \<not> truthy_str (ds_active s)")
  case False
  assume s: "dm_ok s"
  define c where "c = the (ds_active s)"
  define d where "d = decide_send (ds_items s) (nullish forced (ds_input s)) (ds_reply s) c (ds_pending s)"
  have eq: "handleSendDm now cid forced s = (case d of SendIgnored \<Rightarrow> s
     | SendRefused title message \<Rightarrow> dm_notify title message s
     | SendNow content atts \<Rightarrow>
         let s1 = s\<lparr>ds_pending := (c, content, atts) # ds_pending s, ds_reply := None,
                    ds_input := (if forced = None then [] else ds_input s), ds_items := []\<rparr>;
             next = withoutFailedDuplicates (ds_messages s1) content (Some atts)
                      @ [optimistic_message (ds_user s) None now cid c content atts]
         in dm_call_of (DmSend c cid content atts (if forced = None then Some (nullish forced (ds_input s)) else None)) (dm_show c next s1))"
    unfolding handleSendDm_def Let_def c_def d_def by (rule if_not_P) (rule False)
  show ?thesis
  proof (cases d)
    case (SendNow content atts)
    then have new: "(c, content, atts) \<notin> set (ds_pending s)"
      using send_decision_sound unfolding d_def by blast
    let ?s1 = "s\<lparr>ds_pending := (c, content, atts) # ds_pending s, ds_reply := None,
                 ds_input := (if forced = None then [] else ds_input s), ds_items := []\<rparr>"
    have p: "dm_part (dm_show c ms ?s1) = dm_part ?s1" for ms by simp
    have "dm_ok (dm_call_of (DmSend c cid content atts v) s')" if "dm_part s' = dm_part ?s1" for s' v
      using that s new
      by (simp add: dm_ok_part_fields dm_part_def dm_call_of_def sends_start load_waits_def waits_for_load_def)
    from this[OF p] show ?thesis unfolding eq SendNow by (simp add: Let_def)
  qed (use s in \<open>auto simp: eq intro: dm_ok_same\<close>)
qed (use dm_ok_same in \<open>auto simp: handleSendDm_def\<close>)

lemma send_answered_part:
  "dm_part (dm_send_answered p lc c cid content atts v ans s) =
     (ds_calls s, removeAll (c, content, atts) (ds_pending s), dc_in_flight (ds_shared s), ds_user s)"
proof -
  have "dm_part s1 = dm_part s \<Longrightarrow> dm_part (s1\<lparr>ds_pending := removeAll f (ds_pending s1)\<rparr>)
      = (ds_calls s, removeAll f (ds_pending s), dc_in_flight (ds_shared s), ds_user s)" for s1 f
    by (simp add: dm_part_def)
  from this[of "case ans of
      DmAnswered msg \<Rightarrow> update_dm c (\<lambda>ms. reconcileConfirmedMessage ms cid msg) (dm_sent_effects p lc c msg s)
    | DmFailed err \<Rightarrow>
        let s2 = update_dm c (apply_failed cid err v) s
        in (case v of Some w \<Rightarrow> if ds_active s = Some c \<and> ds_input s2 = [] then s2\<lparr>ds_input := w\<rparr> else s2 | None \<Rightarrow> s2)
    | _ \<Rightarrow> s" "(c, content, atts)"]
  show ?thesis
    unfolding dm_send_answered_def Let_def
    by (cases ans; cases v) (simp_all add: dm_sent_effects_def Let_def)
qed

lemma quiet_answer_part:
  "dm_part (dm_older_answered c n r ans s) = dm_part s" "dm_part (dm_retry_answered c cid d ans s) = dm_part s"
  "dm_part (dm_reaction_answered a ans s) = dm_part s" "dm_part (dm_edit_answered a ans s) = dm_part s"
  "dm_part (dm_delete_answered a i ans s) = dm_part s" "dm_part (find_answered c m ans s) = dm_part s"
  by (auto simp: dm_older_answered_def dm_retry_answered_def dm_reaction_answered_def dm_edit_answered_def
      dm_delete_answered_def find_answered_def Let_def split: dm_answer.split)

lemma pins_answered_ok: "dm_ok s \<Longrightarrow> dm_ok (pins_answered c rn ans s)"
  by (cases ans) (auto simp: pins_answered_def Let_def intro: dm_ok_same[OF leave_ok] dm_ok_same)

lemma jump_answered_ok: "dm_ok s \<Longrightarrow> dm_ok (dm_jump_answered c gen t ms page ans s)"
  by (auto simp: dm_jump_answered_def Let_def split: dm_answer.split intro: dm_ok_same intro!: jump_loop_ok)

lemma removed_ok: "dm_ok s \<Longrightarrow> dm_send_key k = None \<Longrightarrow> dm_ok (s\<lparr>ds_calls := remove1 k (ds_calls s)\<rparr>)"
  by (auto simp: dm_ok_part_fields sends_of_remove1_quiet list_all_iff dest: set_remove1_subset[THEN subsetD])

lemma answer_ok: "dm_ok s \<Longrightarrow> k \<in> set (ds_calls s) \<Longrightarrow> dm_ok (dm_answer_call p lc k ans s)"
proof (cases "dm_send_key k")
  case None
  assume s: "dm_ok s"
  define s1 where "s1 = s\<lparr>ds_calls := remove1 k (ds_calls s)\<rparr>"
  have "dm_ok s1" using removed_ok[OF s None] by (simp add: s1_def)
  with None s show ?thesis
    unfolding dm_answer_call_def Let_def s1_def[symmetric]
    by (cases k) (auto intro: dm_ok_same[OF _ quiet_answer_part(1)] dm_ok_same[OF _ quiet_answer_part(2)]
        dm_ok_same[OF _ quiet_answer_part(3)] dm_ok_same[OF _ quiet_answer_part(4)] dm_ok_same[OF _ quiet_answer_part(5)]
        dm_ok_same[OF _ quiet_answer_part(6)] pins_answered_ok jump_answered_ok)
next
  case (Some f)
  assume s: "dm_ok s" and k: "k \<in> set (ds_calls s)"
  then obtain c cid content atts v where kk: "k = DmSend c cid content atts v" and f: "f = (c, content, atts)"
    using Some by (cases k) auto
  have "list_all P (ds_calls s) \<Longrightarrow> list_all P (remove1 k (ds_calls s))" for P
    by (auto simp: list_all_iff dest: set_remove1_subset[THEN subsetD])
  with s sends_finish[of dm_send_key "ds_calls s" "ds_pending s" k f] Some k
    send_answered_part[of p lc c cid content atts v ans "s\<lparr>ds_calls := remove1 k (ds_calls s)\<rparr>"]
  show ?thesis by (simp add: dm_answer_call_def kk f dm_ok_def dm_part_def)
qed

lemma dm_apply_ok: "dm_ok s \<Longrightarrow> dm_ok (dm_apply p lc op s)"
  by (cases op) (auto simp: change_conversation_ok change_visibility_ok prefetch_ok refresh_ok quiet_ok dm_ok_send
      type_search_ok load_ended_ok answer_ok intro: dm_ok_same[OF _ event_part] dm_ok_same)

lemma dm_run_ok: "dm_ok s \<Longrightarrow> dm_ok (dm_run p lc ops s)"
  by (induction ops arbitrary: s) (simp_all add: dm_run_def dm_apply_ok)

lemma init_dms_ok: "dm_ok (init_dms me app cache)"
  by (simp add: dm_ok_def dm_part_def init_dms_def sends_consistent_def)

section \<open>Paging back\<close>

lemma shown_simps [simp]:
  "ds_messages (rememberDmMessages c ms s) = ds_messages s" "ds_messages (dm_show c ms s) = ms"
  "ds_messages (dm_notify ti tx s) = ds_messages s" "ds_messages (dm_call_of k s) = ds_messages s"
  by (simp_all add: rememberDmMessages_def dm_show_def dm_notify_def dm_call_of_def Let_def)

definition only_older :: "message list \<Rightarrow> message list \<Rightarrow> bool" where
  "only_older ms ms' \<longleftrightarrow> (\<exists>older. ms' = older @ ms \<and> msg_id ` set older \<inter> msg_id ` set ms = {})"

lemma only_older_same [simp]: "only_older ms ms"
  by (simp add: only_older_def)

lemma only_older_add [simp]: "only_older ms (add_older rows ms)"
  by (auto simp: only_older_def add_older_def)

lemma older_answer_shown: "only_older (ds_messages s) (ds_messages (dm_older_answered c gen r ans s))"
  by (auto simp: dm_older_answered_def Let_def split: dm_answer.split)

lemma jump_found_shown: "only_older (ds_messages s) (ds_messages (jump_found c t loaded b s))"
  by (simp add: jump_found_def Let_def)

lemma jump_answer_shown: "only_older (ds_messages s) (ds_messages (dm_jump_answered c gen t loaded page ans s))"
  by (auto simp: dm_jump_answered_def jump_loop_def Let_def jump_found_shown split: dm_answer.split)

fun pages_back :: "dm_call \<Rightarrow> bool" where
  "pages_back (DmOlder c gen r) = True"
| "pages_back (DmJump c gen t loaded page) = True"
| "pages_back k = False"

lemma page_answer_shown:
  assumes "pages_back k" "k \<in> set (ds_calls s)"
  shows "only_older (ds_messages s) (ds_messages (dm_apply p lc (DmAnswer k ans) s))"
  using assms older_answer_shown[of "s\<lparr>ds_calls := remove1 k (ds_calls s)\<rparr>"]
    jump_answer_shown[of "s\<lparr>ds_calls := remove1 k (ds_calls s)\<rparr>"]
  by (cases k) (simp_all add: dm_answer_call_def)

section \<open>A jump ends\<close>

fun jump_left :: "dm_call \<Rightarrow> nat" where
  "jump_left (DmJump c gen t loaded page) = DM_SEARCH_JUMP_MAX_PAGES - page"
| "jump_left k = 0"

definition jump_work :: "dm_state \<Rightarrow> nat" where
  "jump_work s = sum_list (map jump_left (ds_calls s))"

lemma calls_simps [simp]:
  "ds_calls (rememberDmMessages c ms s) = ds_calls s" "ds_calls (dm_show c ms s) = ds_calls s"
  "ds_calls (dm_notify ti tx s) = ds_calls s" "ds_calls (dm_call_of k s) = ds_calls s @ [k]"
  by (simp_all add: rememberDmMessages_def dm_show_def dm_notify_def dm_call_of_def Let_def)

lemma jump_found_calls [simp]: "ds_calls (jump_found c t loaded b s) = ds_calls s"
  by (simp add: jump_found_def Let_def)

lemma jump_answer_work:
  "jump_work (dm_jump_answered c gen t loaded page ans s) \<le> jump_work s + (DM_SEARCH_JUMP_MAX_PAGES - (page + 1))"
  by (auto simp: dm_jump_answered_def jump_loop_def jump_work_def Let_def split: dm_answer.split)

lemma work_removed: "k \<in> set ks \<Longrightarrow> sum_list (map jump_left ks) = sum_list (map jump_left (remove1 k ks)) + jump_left k"
  by (induction ks) auto

lemma jump_answer_progress:
  assumes "dm_ok s" "DmJump c gen t loaded page \<in> set (ds_calls s)"
  shows "jump_work (dm_apply p lc (DmAnswer (DmJump c gen t loaded page) ans) s) < jump_work s"
proof -
  let ?k = "DmJump c gen t loaded page"
  have "call_bounded ?k" using assms unfolding dm_ok_part_fields list_all_iff by blast
  then have "page < DM_SEARCH_JUMP_MAX_PAGES" by simp
  moreover have "jump_work s = jump_work (s\<lparr>ds_calls := remove1 ?k (ds_calls s)\<rparr>) + (DM_SEARCH_JUMP_MAX_PAGES - page)"
    using work_removed[OF assms(2)] by (simp add: jump_work_def)
  ultimately show ?thesis
    using jump_answer_work[of c gen t loaded page ans "s\<lparr>ds_calls := remove1 ?k (ds_calls s)\<rparr>"] assms(2)
    by (simp add: dm_answer_call_def)
qed

end
