(* ===== verification/SocialActions.thy ===== *)
theory SocialActions
  imports SocialLists AppStore
begin

text \<open>
  What the social page does to friends, requests and the list of conversations, \<^verbatim>\<open>src/pages/HomePage.tsx\<close>:
  loading them, friend requests, removing a friend, opening direct messages and groups, pinning and hiding. A
  request is an entry of \<open>so_calls\<close> with the variables its code holds over the \<^verbatim>\<open>await\<close>, its answer a step of
  its own. \<open>parse\<close> is \<^verbatim>\<open>Date.parse\<close>, \<open>lc\<close> is \<^verbatim>\<open>localeCompare\<close>.
\<close>

section \<open>State\<close>

record friend_request =
  frq_id :: string
  frq_requester_id :: string
  frq_requester_username :: string
  frq_receiver_id :: string
  frq_receiver_username :: string

type_synonym request_lists = "friend_request list \<times> friend_request list"

datatype social_call =
  LoadSocial
| LoadRequests
| SendRequest string
| SentReload
| AcceptRequest string
| AcceptReload
| RejectRequest string
| RejectReload
| RemoveFriend string
| OpenDmWith string
| CreateGroup
| LeaveGroup string
| PinDm string bool "dm_channel list"
| HideDm string "dm_channel list"

datatype social_answer =
  SoDone
| SoLists "friend list" request_lists "dm_channel list"
| SoRequests request_lists
| SoFriends "friend list" request_lists
| SoChannel dm_channel
| SoFailed string

record social_state =
  so_app :: app_state
  so_me :: "user option"
  so_view :: social_view
  so_loading :: bool
  so_incoming :: "friend_request list"
  so_outgoing :: "friend_request list"
  so_add_name :: string
  so_add_message :: "(string \<times> bool) option"
  so_sending :: bool
  so_remove_target :: "friend option"
  so_removing :: bool
  so_opening :: "string option"
  so_group_busy :: bool
  so_picker :: bool
  so_updating :: "string option"
  so_notices :: "(string \<times> string) list"
  so_calls :: "social_call list"

definition so_call :: "social_call \<Rightarrow> social_state \<Rightarrow> social_state" where
  "so_call k s = s\<lparr>so_calls := so_calls s @ [k]\<rparr>"

definition so_notify :: "string \<Rightarrow> string \<Rightarrow> social_state \<Rightarrow> social_state" where
  "so_notify title message s = s\<lparr>so_notices := (title, message) # so_notices s\<rparr>"

definition so_store :: "(app_state \<Rightarrow> app_state) \<Rightarrow> social_state \<Rightarrow> social_state" where
  "so_store f s = s\<lparr>so_app := f (so_app s)\<rparr>"

definition put_dm_channels :: "dm_channel list \<Rightarrow> social_state \<Rightarrow> social_state" where
  "put_dm_channels chs s = so_store (\<lambda>a. setDmChannelIds (map dm_id chs) (setDmChannels chs a)) s"

section \<open>Loading\<close>

definition put_requests :: "request_lists \<Rightarrow> social_state \<Rightarrow> social_state" where
  "put_requests r s =
     so_store (setIncomingRequestCount (int (length (fst r)))) (s\<lparr>so_incoming := fst r, so_outgoing := snd r\<rparr>)"

definition refreshServersAndFriends :: "social_state \<Rightarrow> social_state" where
  "refreshServersAndFriends s =
     (if so_me s = None then s
      else so_call LoadSocial (if socialDataReady (so_app s) then s else s\<lparr>so_loading := True\<rparr>))"

text \<open>\<open>anchored\<close> is the conversation a notification asked for, whose counter is kept.\<close>

definition social_loaded :: "string option \<Rightarrow> social_answer \<Rightarrow> social_state \<Rightarrow> social_state" where
  "social_loaded anchored ans s =
     (let s1 = (case ans of
          SoLists fs reqs dms \<Rightarrow>
            so_store (\<lambda>a. setSocialDataReady True (setDmChannelIds (map dm_id dms)
                (setDmUnreadFromChannels dms (if truthy_str anchored then {the anchored} else {}) a)))
              (so_store (setDmChannels dms) (put_requests reqs (so_store (setFriends fs) s)))
        | _ \<Rightarrow> s)
      in s1\<lparr>so_loading := False\<rparr>)"

definition refreshFriendRequests :: "social_state \<Rightarrow> social_state" where
  "refreshFriendRequests s = (if so_me s = None then s else so_call LoadRequests s)"

definition on_friend_update :: "string \<Rightarrow> social_state \<Rightarrow> social_state" where
  "on_friend_update u s = (if map_option usr_id (so_me s) \<noteq> Some u then s else refreshFriendRequests s)"

definition requests_loaded :: "social_answer \<Rightarrow> social_state \<Rightarrow> social_state" where
  "requests_loaded ans s = (case ans of SoRequests r \<Rightarrow> put_requests r s | _ \<Rightarrow> s)"

section \<open>Friend requests\<close>

definition sendFriendRequest :: "social_state \<Rightarrow> social_state" where
  "sendFriendRequest s =
     (if so_me s = None \<or> js_trim (so_add_name s) = [] \<or> so_sending s then s
      else so_call (SendRequest (js_trim (so_add_name s))) (s\<lparr>so_sending := True, so_add_message := None\<rparr>))"

definition request_failed :: "string \<Rightarrow> social_state \<Rightarrow> social_state" where
  "request_failed err s = s\<lparr>so_add_message := Some (err, False), so_sending := False\<rparr>"

definition request_sent :: "social_answer \<Rightarrow> social_state \<Rightarrow> social_state" where
  "request_sent ans s =
     (case ans of
        SoFailed err \<Rightarrow> request_failed err s
      | _ \<Rightarrow> so_call SentReload (s\<lparr>so_add_message := Some (''Friend request sent.'', True), so_add_name := []\<rparr>))"

definition sent_reloaded :: "social_answer \<Rightarrow> social_state \<Rightarrow> social_state" where
  "sent_reloaded ans s =
     (case ans of
        SoRequests r \<Rightarrow> (put_requests r s)\<lparr>so_sending := False\<rparr>
      | SoFailed err \<Rightarrow> request_failed err s
      | _ \<Rightarrow> s\<lparr>so_sending := False\<rparr>)"

definition acceptRequest :: "string \<Rightarrow> social_state \<Rightarrow> social_state" where
  "acceptRequest i s = (if so_me s = None then s else so_call (AcceptRequest i) s)"

definition rejectRequest :: "string \<Rightarrow> social_state \<Rightarrow> social_state" where
  "rejectRequest i s = (if so_me s = None then s else so_call (RejectRequest i) s)"

definition cancelOutgoingRequest :: "string \<Rightarrow> social_state \<Rightarrow> social_state" where
  "cancelOutgoingRequest i s = (if so_me s = None then s else so_call (RejectRequest i) s)"

definition accept_reloaded :: "social_answer \<Rightarrow> social_state \<Rightarrow> social_state" where
  "accept_reloaded ans s =
     (case ans of SoFriends fs r \<Rightarrow> so_store (setFriends fs) (put_requests r s) | _ \<Rightarrow> s)"

definition confirmRemoveFriend :: "social_state \<Rightarrow> social_state" where
  "confirmRemoveFriend s =
     (case (so_me s, so_remove_target s) of
        (Some _, Some target) \<Rightarrow>
          if so_removing s then s else so_call (RemoveFriend (fr_id target)) (s\<lparr>so_removing := True\<rparr>)
      | _ \<Rightarrow> s)"

definition friend_removed :: "string \<Rightarrow> social_answer \<Rightarrow> social_state \<Rightarrow> social_state" where
  "friend_removed i ans s =
     (let s1 = (case ans of
          SoFailed err \<Rightarrow> so_notify ''Remove failed'' err s
        | _ \<Rightarrow> (so_store (\<lambda>a. setFriends (filter (\<lambda>f. fr_id f \<noteq> i) (friends a)) a) s)\<lparr>so_remove_target := None\<rparr>)
      in s1\<lparr>so_removing := False\<rparr>)"

section \<open>Conversations\<close>

definition show_dm :: "string \<Rightarrow> social_state \<Rightarrow> social_state" where
  "show_dm c s = so_store (setActiveDmChannelId (Some c)) (s\<lparr>so_view := DmView\<rparr>)"

definition show_friends :: "social_state \<Rightarrow> social_state" where
  "show_friends s = so_store (setActiveDmChannelId None) (s\<lparr>so_view := FriendsView\<rparr>)"

definition openDirectMessage :: "string \<Rightarrow> social_state \<Rightarrow> social_state" where
  "openDirectMessage peer s =
     (case so_me s of
        None \<Rightarrow> s
      | Some me \<Rightarrow>
          if peer = usr_id me \<or> truthy_str (so_opening s) then s
          else so_call (OpenDmWith peer) (s\<lparr>so_opening := Some peer\<rparr>))"

definition applyDmChannel ::
  "(string \<Rightarrow> jsnum) \<Rightarrow> (string \<Rightarrow> string \<Rightarrow> int) \<Rightarrow> dm_channel \<Rightarrow> social_state \<Rightarrow> social_state" where
  "applyDmChannel parse lc ch s = put_dm_channels (upsertDmChannel parse lc (dmChannels (so_app s)) ch) s"

definition dm_opened ::
  "(string \<Rightarrow> jsnum) \<Rightarrow> (string \<Rightarrow> string \<Rightarrow> int) \<Rightarrow> social_answer \<Rightarrow> social_state \<Rightarrow> social_state" where
  "dm_opened parse lc ans s =
     (let s1 = (case ans of
          SoChannel ch \<Rightarrow> so_store (clearDmUnread (dm_id ch)) (show_dm (dm_id ch) (applyDmChannel parse lc ch s))
        | SoFailed err \<Rightarrow> so_notify ''DM failed'' err s
        | _ \<Rightarrow> s)
      in s1\<lparr>so_opening := None\<rparr>)"

definition handleNewDmSubmit :: "string list \<Rightarrow> social_state \<Rightarrow> social_state" where
  "handleNewDmSubmit selected s =
     (case selected of
        [peer] \<Rightarrow> openDirectMessage peer (s\<lparr>so_picker := False\<rparr>)
      | _ \<Rightarrow> if so_group_busy s then s else so_call CreateGroup (s\<lparr>so_group_busy := True\<rparr>))"

definition group_created ::
  "(string \<Rightarrow> jsnum) \<Rightarrow> (string \<Rightarrow> string \<Rightarrow> int) \<Rightarrow> social_answer \<Rightarrow> social_state \<Rightarrow> social_state" where
  "group_created parse lc ans s =
     (let s1 = (case ans of
          SoChannel ch \<Rightarrow> show_dm (dm_id ch) ((applyDmChannel parse lc ch s)\<lparr>so_picker := False\<rparr>)
        | SoFailed err \<Rightarrow> so_notify ''Group failed'' err s
        | _ \<Rightarrow> s)
      in s1\<lparr>so_group_busy := False\<rparr>)"

definition handleLeaveGroupDm :: "string \<Rightarrow> social_state \<Rightarrow> social_state" where
  "handleLeaveGroupDm c s =
     (if so_me s = None \<or> so_group_busy s then s else so_call (LeaveGroup c) (s\<lparr>so_group_busy := True\<rparr>))"

definition group_left :: "string \<Rightarrow> social_answer \<Rightarrow> social_state \<Rightarrow> social_state" where
  "group_left c ans s =
     (let s1 = (case ans of
          SoFailed err \<Rightarrow> so_notify ''Leave failed'' err s
        | _ \<Rightarrow>
            let s2 = put_dm_channels (filter (\<lambda>ch. dm_id ch \<noteq> c) (dmChannels (so_app s))) s
            in if activeDmChannelId (so_app s2) = Some c then show_friends s2 else s2)
      in s1\<lparr>so_group_busy := False\<rparr>)"

text \<open>Pinning and hiding act at once and are undone when the server refuses.\<close>

definition handleToggleDmPinned ::
  "(string \<Rightarrow> jsnum) \<Rightarrow> (string \<Rightarrow> string \<Rightarrow> int) \<Rightarrow> string \<Rightarrow> string \<Rightarrow> bool \<Rightarrow> social_state \<Rightarrow> social_state" where
  "handleToggleDmPinned parse lc now c pinned s =
     (if so_me s = None \<or> truthy_str (so_updating s) then s
      else
        let previous = dmChannels (so_app s);
            nxt = sortDmChannels parse lc
              (map (\<lambda>ch. if dm_id ch = c
                         then ch\<lparr>dm_is_pinned := pinned, dm_pinned_at := (if pinned then Some now else None)\<rparr> else ch) previous)
        in so_call (PinDm c pinned previous) (so_store (setDmChannels nxt) (s\<lparr>so_updating := Some c\<rparr>)))"

definition pin_answered :: "bool \<Rightarrow> dm_channel list \<Rightarrow> social_answer \<Rightarrow> social_state \<Rightarrow> social_state" where
  "pin_answered pinned previous ans s =
     (let s1 = (case ans of
          SoFailed err \<Rightarrow>
            so_notify (if pinned then ''Pin failed'' else ''Unpin failed'') err (so_store (setDmChannels previous) s)
        | _ \<Rightarrow> s)
      in s1\<lparr>so_updating := None\<rparr>)"

definition handleHideDmChannel :: "string \<Rightarrow> social_state \<Rightarrow> social_state" where
  "handleHideDmChannel c s =
     (let previous = dmChannels (so_app s);
          s1 = put_dm_channels (filter (\<lambda>ch. dm_id ch \<noteq> c) previous) s;
          s2 = (if activeDmChannelId (so_app s) = Some c then show_friends s1 else s1)
      in so_call (HideDm c previous) s2)"

definition hide_answered :: "dm_channel list \<Rightarrow> social_answer \<Rightarrow> social_state \<Rightarrow> social_state" where
  "hide_answered previous ans s =
     (case ans of SoFailed err \<Rightarrow> so_notify ''DM hide failed'' err (put_dm_channels previous s) | _ \<Rightarrow> s)"

section \<open>Steps\<close>

definition so_answer ::
  "(string \<Rightarrow> jsnum) \<Rightarrow> (string \<Rightarrow> string \<Rightarrow> int) \<Rightarrow> string option \<Rightarrow> social_call \<Rightarrow> social_answer
     \<Rightarrow> social_state \<Rightarrow> social_state" where
  "so_answer parse lc anchored k ans s0 =
     (let s = s0\<lparr>so_calls := remove1 k (so_calls s0)\<rparr> in
      case k of
        LoadSocial \<Rightarrow> social_loaded anchored ans s
      | LoadRequests \<Rightarrow> requests_loaded ans s
      | SendRequest name \<Rightarrow> request_sent ans s
      | SentReload \<Rightarrow> sent_reloaded ans s
      | AcceptRequest i \<Rightarrow> (case ans of SoFailed err \<Rightarrow> s | _ \<Rightarrow> so_call AcceptReload s)
      | AcceptReload \<Rightarrow> accept_reloaded ans s
      | RejectRequest i \<Rightarrow> (case ans of SoFailed err \<Rightarrow> s | _ \<Rightarrow> so_call RejectReload s)
      | RejectReload \<Rightarrow> requests_loaded ans s
      | RemoveFriend i \<Rightarrow> friend_removed i ans s
      | OpenDmWith peer \<Rightarrow> dm_opened parse lc ans s
      | CreateGroup \<Rightarrow> group_created parse lc ans s
      | LeaveGroup c \<Rightarrow> group_left c ans s
      | PinDm c pinned previous \<Rightarrow> pin_answered pinned previous ans s
      | HideDm c previous \<Rightarrow> hide_answered previous ans s)"

inductive social_step :: "social_state \<Rightarrow> social_state \<Rightarrow> bool" where
  loads: "social_step s (refreshServersAndFriends s)"
| friend_updates: "social_step s (on_friend_update u s)"
| names: "social_step s (s\<lparr>so_add_name := t\<rparr>)"
| sends_request: "social_step s (sendFriendRequest s)"
| accepts: "social_step s (acceptRequest i s)"
| rejects: "social_step s (rejectRequest i s)"
| cancels: "social_step s (cancelOutgoingRequest i s)"
| asks_removal: "social_step s (s\<lparr>so_remove_target := target\<rparr>)"
| removes: "social_step s (confirmRemoveFriend s)"
| opens_dm: "peer \<noteq> [] \<Longrightarrow> social_step s (openDirectMessage peer s)"
| submits: "[] \<notin> set sel \<Longrightarrow> social_step s (handleNewDmSubmit sel s)"
| leaves_group: "social_step s (handleLeaveGroupDm c s)"
| pins: "c \<noteq> [] \<Longrightarrow> social_step s (handleToggleDmPinned parse lc now c b s)"
| hides: "social_step s (handleHideDmChannel c s)"
| socially_answered: "k \<in> set (so_calls s) \<Longrightarrow> social_step s (so_answer parse lc anchored k ans s)"

inductive_cases social_stepE: "social_step s s'"

definition init_social :: "user option \<Rightarrow> app_state \<Rightarrow> social_state" where
  "init_social me app =
     \<lparr>so_app = app, so_me = me, so_view = FriendsView, so_loading = \<not> socialDataReady app, so_incoming = [], so_outgoing = [],
      so_add_name = [], so_add_message = None, so_sending = False, so_remove_target = None, so_removing = False,
      so_opening = None, so_group_busy = False, so_picker = False, so_updating = None, so_notices = [], so_calls = []\<rparr>"

inductive social_reachable :: "social_state \<Rightarrow> bool" where
  social_starts: "social_reachable (init_social me app)"
| social_goes: "social_reachable s \<Longrightarrow> social_step s s' \<Longrightarrow> social_reachable s'"

section \<open>One request at a time\<close>

text \<open>
  Each of the flags is up exactly while the request it guards waits, and then only one of its kind does.
\<close>

definition count_calls :: "(social_call \<Rightarrow> bool) \<Rightarrow> social_call list \<Rightarrow> nat" where
  "count_calls P ks = length (filter P ks)"

fun is_sending :: "social_call \<Rightarrow> bool" where
  "is_sending (SendRequest n) = True" | "is_sending SentReload = True" | "is_sending k = False"

fun is_removing :: "social_call \<Rightarrow> bool" where
  "is_removing (RemoveFriend i) = True" | "is_removing k = False"

fun is_opening :: "social_call \<Rightarrow> bool" where
  "is_opening (OpenDmWith p) = True" | "is_opening k = False"

fun is_group :: "social_call \<Rightarrow> bool" where
  "is_group CreateGroup = True" | "is_group (LeaveGroup c) = True" | "is_group k = False"

fun is_pin :: "social_call \<Rightarrow> bool" where
  "is_pin (PinDm c b p) = True" | "is_pin k = False"

definition flag_counts :: "bool \<Rightarrow> nat \<Rightarrow> bool" where
  "flag_counts b n \<longleftrightarrow> n = (if b then 1 else 0)"

definition social_ok :: "social_state \<Rightarrow> bool" where
  "social_ok s \<longleftrightarrow> flag_counts (so_sending s) (count_calls is_sending (so_calls s)) \<and> flag_counts (so_removing s) (count_calls is_removing (so_calls s))
     \<and> flag_counts (truthy_str (so_opening s)) (count_calls is_opening (so_calls s))
     \<and> flag_counts (so_group_busy s) (count_calls is_group (so_calls s)) \<and> flag_counts (truthy_str (so_updating s)) (count_calls is_pin (so_calls s))"

lemma social_ok_init: "social_ok (init_social me app)"
  by (simp add: social_ok_def flag_counts_def count_calls_def init_social_def)

lemma count_added [simp]: "count_calls P (ks @ [k]) = (if P k then Suc (count_calls P ks) else count_calls P ks)"
  by (simp add: count_calls_def)

lemma count_removed: "k \<in> set ks \<Longrightarrow> count_calls P ks = (if P k then Suc (count_calls P (remove1 k ks)) else count_calls P (remove1 k ks))"
  unfolding count_calls_def by (induction ks) auto

lemmas social_ops = refreshServersAndFriends_def on_friend_update_def refreshFriendRequests_def sendFriendRequest_def
  acceptRequest_def rejectRequest_def cancelOutgoingRequest_def confirmRemoveFriend_def openDirectMessage_def
  handleNewDmSubmit_def handleLeaveGroupDm_def handleToggleDmPinned_def handleHideDmChannel_def

lemmas social_answers = social_loaded_def requests_loaded_def request_sent_def request_failed_def sent_reloaded_def
  accept_reloaded_def friend_removed_def dm_opened_def applyDmChannel_def group_created_def group_left_def
  pin_answered_def hide_answered_def

lemmas social_updates = so_call_def so_notify_def so_store_def put_dm_channels_def put_requests_def show_dm_def show_friends_def

text \<open>The part of the state it is about.\<close>

definition flags_of :: "social_state \<Rightarrow> bool \<times> bool \<times> bool \<times> bool \<times> bool \<times> social_call list" where
  "flags_of s = (so_sending s, so_removing s, truthy_str (so_opening s), so_group_busy s, truthy_str (so_updating s), so_calls s)"

fun flags_ok :: "bool \<times> bool \<times> bool \<times> bool \<times> bool \<times> social_call list \<Rightarrow> bool" where
  "flags_ok (b1, b2, b3, b4, b5, ks) \<longleftrightarrow>
     flag_counts b1 (count_calls is_sending ks) \<and> flag_counts b2 (count_calls is_removing ks)
     \<and> flag_counts b3 (count_calls is_opening ks) \<and> flag_counts b4 (count_calls is_group ks)
     \<and> flag_counts b5 (count_calls is_pin ks)"

lemma social_ok_flags: "social_ok s \<longleftrightarrow> flags_ok (flags_of s)"
  by (simp add: social_ok_def flags_of_def)

lemma flags_updates [simp]:
  "flags_of (so_store f s) = flags_of s" "flags_of (so_notify ti tx s) = flags_of s" "flags_of (put_dm_channels chs s) = flags_of s"
  "flags_of (put_requests r s) = flags_of s" "flags_of (show_dm c s) = flags_of s" "flags_of (show_friends s) = flags_of s"
  "flags_of (applyDmChannel parse lc ch s) = flags_of s"
  by (simp_all add: flags_of_def social_updates applyDmChannel_def)

lemma flags_call [simp]:
  "flags_of (so_call k s) = (case flags_of s of (b1, b2, b3, b4, b5, ks) \<Rightarrow> (b1, b2, b3, b4, b5, ks @ [k]))"
  by (simp add: flags_of_def so_call_def)

lemma flags_fields [simp]:
  "flags_of (s\<lparr>so_loading := b\<rparr>) = flags_of s" "flags_of (s\<lparr>so_picker := b\<rparr>) = flags_of s"
  "flags_of (s\<lparr>so_add_message := m\<rparr>) = flags_of s" "flags_of (s\<lparr>so_add_name := t\<rparr>) = flags_of s"
  "flags_of (s\<lparr>so_remove_target := r\<rparr>) = flags_of s"
  by (simp_all add: flags_of_def)

lemma asks_load: "social_ok s \<Longrightarrow> social_ok (refreshServersAndFriends s)"
  by (cases "flags_of s") (simp add: refreshServersAndFriends_def social_ok_flags)

lemma asks_update: "social_ok s \<Longrightarrow> social_ok (on_friend_update u s)"
  by (cases "flags_of s") (simp add: on_friend_update_def refreshFriendRequests_def social_ok_flags)

lemma asks_request: "social_ok s \<Longrightarrow> social_ok (sendFriendRequest s)"
  by (simp add: sendFriendRequest_def social_ok_flags flags_of_def so_call_def flag_counts_def)

lemma asks_answers:
  "social_ok s \<Longrightarrow> social_ok (acceptRequest i s)" "social_ok s \<Longrightarrow> social_ok (rejectRequest i s)"
  "social_ok s \<Longrightarrow> social_ok (cancelOutgoingRequest i s)"
  by (cases "flags_of s", simp add: acceptRequest_def rejectRequest_def cancelOutgoingRequest_def social_ok_flags)+

lemma asks_remove: "social_ok s \<Longrightarrow> social_ok (confirmRemoveFriend s)"
  by (simp add: confirmRemoveFriend_def social_ok_flags flags_of_def so_call_def flag_counts_def split: option.split)

lemma asks_open: "social_ok s \<Longrightarrow> peer \<noteq> [] \<Longrightarrow> social_ok (openDirectMessage peer s)"
  by (simp add: openDirectMessage_def social_ok_flags flags_of_def so_call_def flag_counts_def split: option.split)

lemma asks_leave: "social_ok s \<Longrightarrow> social_ok (handleLeaveGroupDm c s)"
  by (simp add: handleLeaveGroupDm_def social_ok_flags flags_of_def so_call_def flag_counts_def)

lemma asks_pin: "social_ok s \<Longrightarrow> c \<noteq> [] \<Longrightarrow> social_ok (handleToggleDmPinned parse lc now c b s)"
  by (simp add: handleToggleDmPinned_def Let_def social_ok_flags flags_of_def so_call_def so_store_def flag_counts_def)

lemma asks_hide: "social_ok s \<Longrightarrow> social_ok (handleHideDmChannel c s)"
  by (cases "flags_of s") (simp add: handleHideDmChannel_def Let_def social_ok_flags)

lemmas social_asks = asks_load asks_update asks_request asks_answers asks_remove asks_open asks_leave asks_pin asks_hide

lemma social_submits: "social_ok s \<Longrightarrow> [] \<notin> set sel \<Longrightarrow> social_ok (handleNewDmSubmit sel s)"
proof -
  assume s: "social_ok s" and sel: "[] \<notin> set sel"
  have group: "social_ok (so_call CreateGroup (s\<lparr>so_group_busy := True\<rparr>))" if "\<not> so_group_busy s"
    using that s by (simp add: social_ok_flags flags_of_def so_call_def flag_counts_def)
  have picked: "social_ok (s\<lparr>so_picker := False\<rparr>)" using s by (simp add: social_ok_flags)
  show ?thesis
  proof (cases "\<exists>peer. sel = [peer]")
    case True
    then show ?thesis using asks_open[OF picked] sel by (auto simp: handleNewDmSubmit_def)
  next
    case False
    then have "handleNewDmSubmit sel s = (if so_group_busy s then s else so_call CreateGroup (s\<lparr>so_group_busy := True\<rparr>))"
      by (auto simp: handleNewDmSubmit_def split: list.split)
    then show ?thesis using s group by simp
  qed
qed

text \<open>The flags after an answer, from those before it and the calls that still wait.\<close>

lemma answer_flags:
  "flags_of (social_loaded anchored ans s) = flags_of s" "flags_of (requests_loaded ans s) = flags_of s"
  "flags_of (accept_reloaded ans s) = flags_of s" "flags_of (hide_answered previous ans s) = flags_of s"
  by (simp_all add: social_loaded_def requests_loaded_def accept_reloaded_def hide_answered_def Let_def split: social_answer.split)

lemma flags_split: "flags_of s' = flags_of s \<longleftrightarrow> so_sending s' = so_sending s \<and> so_removing s' = so_removing s \<and>
   truthy_str (so_opening s') = truthy_str (so_opening s) \<and> so_group_busy s' = so_group_busy s \<and>
   truthy_str (so_updating s') = truthy_str (so_updating s) \<and> so_calls s' = so_calls s"
  by (simp add: flags_of_def)

lemma updates_keep [simp]:
  "so_sending (so_store f s) = so_sending s" "so_removing (so_store f s) = so_removing s" "so_opening (so_store f s) = so_opening s"
  "so_group_busy (so_store f s) = so_group_busy s" "so_updating (so_store f s) = so_updating s" "so_calls (so_store f s) = so_calls s"
  "so_sending (so_notify ti tx s) = so_sending s" "so_removing (so_notify ti tx s) = so_removing s"
  "so_opening (so_notify ti tx s) = so_opening s" "so_group_busy (so_notify ti tx s) = so_group_busy s"
  "so_updating (so_notify ti tx s) = so_updating s" "so_calls (so_notify ti tx s) = so_calls s"
  by (simp_all add: so_store_def so_notify_def)

lemma sent_reloaded_flags: "flags_of (sent_reloaded ans s) = flags_of (s\<lparr>so_sending := False\<rparr>)"
  by (cases ans) (simp_all add: sent_reloaded_def request_failed_def flags_split put_requests_def)

lemma friend_removed_flags: "flags_of (friend_removed i ans s) = flags_of (s\<lparr>so_removing := False\<rparr>)"
  by (cases ans) (simp_all add: friend_removed_def Let_def flags_split)

lemma dm_opened_flags: "flags_of (dm_opened parse lc ans s) = flags_of (s\<lparr>so_opening := None\<rparr>)"
  by (cases ans) (simp_all add: dm_opened_def Let_def flags_split show_dm_def applyDmChannel_def put_dm_channels_def)

lemma group_created_flags: "flags_of (group_created parse lc ans s) = flags_of (s\<lparr>so_group_busy := False\<rparr>)"
  by (cases ans) (simp_all add: group_created_def Let_def flags_split show_dm_def applyDmChannel_def put_dm_channels_def)

lemma group_left_flags: "flags_of (group_left c ans s) = flags_of (s\<lparr>so_group_busy := False\<rparr>)"
  by (cases ans) (simp_all add: group_left_def Let_def flags_split show_friends_def put_dm_channels_def)

lemma pin_answered_flags: "flags_of (pin_answered b previous ans s) = flags_of (s\<lparr>so_updating := None\<rparr>)"
  by (cases ans) (simp_all add: pin_answered_def Let_def flags_split)

lemmas answer_drops_flag = sent_reloaded_flags friend_removed_flags dm_opened_flags group_created_flags group_left_flags
  pin_answered_flags

lemma request_sent_flags:
  "flags_of (request_sent ans s) = flags_of (s\<lparr>so_sending := False\<rparr>) \<or>
   flags_of (request_sent ans s) = flags_of (s\<lparr>so_calls := so_calls s @ [SentReload]\<rparr>)"
  by (simp add: request_sent_def request_failed_def so_call_def flags_of_def split: social_answer.split)

text \<open>Taking out an answered call lowers the count of its kind; what its answer does to the flags restores the balance.\<close>

lemma flags_removed:
  assumes "social_ok s" "k \<in> set (so_calls s)"
  shows "is_sending k \<Longrightarrow> flags_ok (flags_of (s\<lparr>so_calls := remove1 k (so_calls s), so_sending := False\<rparr>))"
    and "is_removing k \<Longrightarrow> flags_ok (flags_of (s\<lparr>so_calls := remove1 k (so_calls s), so_removing := False\<rparr>))"
    and "is_opening k \<Longrightarrow> flags_ok (flags_of (s\<lparr>so_calls := remove1 k (so_calls s), so_opening := None\<rparr>))"
    and "is_group k \<Longrightarrow> flags_ok (flags_of (s\<lparr>so_calls := remove1 k (so_calls s), so_group_busy := False\<rparr>))"
    and "is_pin k \<Longrightarrow> flags_ok (flags_of (s\<lparr>so_calls := remove1 k (so_calls s), so_updating := None\<rparr>))"
    and "\<not> is_sending k \<and> \<not> is_removing k \<and> \<not> is_opening k \<and> \<not> is_group k \<and> \<not> is_pin k \<Longrightarrow>
      flags_ok (flags_of (s\<lparr>so_calls := remove1 k (so_calls s)\<rparr>))"
    and "is_sending k \<Longrightarrow> flags_ok (flags_of (s\<lparr>so_calls := remove1 k (so_calls s) @ [SentReload]\<rparr>))"
  using assms(1) count_removed[OF assms(2), of is_sending] count_removed[OF assms(2), of is_removing]
    count_removed[OF assms(2), of is_opening] count_removed[OF assms(2), of is_group] count_removed[OF assms(2), of is_pin]
  by (cases k; simp add: social_ok_def flags_of_def flag_counts_def split: if_splits)+

lemma social_answered: "social_ok s \<Longrightarrow> k \<in> set (so_calls s) \<Longrightarrow> social_ok (so_answer parse lc anchored k ans s)"
proof -
  assume s: "social_ok s" and k: "k \<in> set (so_calls s)"
  let ?s = "s\<lparr>so_calls := remove1 k (so_calls s)\<rparr>"
  note removed = flags_removed[OF s k]
  show ?thesis
  proof (cases k)
    case (SendRequest n)
    then have "flags_of (so_answer parse lc anchored k ans s) = flags_of (request_sent ans ?s)" by (simp add: so_answer_def)
    then show ?thesis
      using removed(1,7) request_sent_flags[of ans ?s] unfolding social_ok_flags by (auto simp: SendRequest)
  next
    case (AcceptRequest i)
    with removed(6) show ?thesis
      by (cases ans; cases "flags_of ?s") (auto simp: so_answer_def social_ok_flags)
  next
    case (RejectRequest i)
    with removed(6) show ?thesis
      by (cases ans; cases "flags_of ?s") (auto simp: so_answer_def social_ok_flags)
  qed (use removed in \<open>simp_all add: so_answer_def social_ok_flags answer_flags answer_drops_flag\<close>)
qed

lemma social_fields_ok:
  "social_ok s \<Longrightarrow> social_ok (s\<lparr>so_add_name := t\<rparr>)" "social_ok s \<Longrightarrow> social_ok (s\<lparr>so_remove_target := r\<rparr>)"
  by (simp_all add: social_ok_flags)

lemma social_step_ok: "social_step s s' \<Longrightarrow> social_ok s \<Longrightarrow> social_ok s'"
  by (erule social_stepE) (simp_all add: social_asks social_submits social_answered social_fields_ok)

lemma social_reachable_ok: "social_reachable s \<Longrightarrow> social_ok s"
  by (induction rule: social_reachable.induct) (simp_all add: social_ok_init social_step_ok)

section \<open>A refused change is undone\<close>

lemma refused_pin_undone:
  assumes "so_me s \<noteq> None" "\<not> truthy_str (so_updating s)"
  shows "dmChannels (so_app (pin_answered b (dmChannels (so_app s)) (SoFailed err) (handleToggleDmPinned parse lc now c b s)))
    = dmChannels (so_app s)"
  using assms by (simp add: pin_answered_def handleToggleDmPinned_def Let_def social_updates setDmChannels_def)

lemma refused_hide_undone:
  "dmChannels (so_app (hide_answered (dmChannels (so_app s)) (SoFailed err) (handleHideDmChannel c s))) = dmChannels (so_app s)"
  by (simp add: hide_answered_def handleHideDmChannel_def Let_def social_updates setDmChannels_def setDmChannelIds_def
      setActiveDmChannelId_def)

text \<open>What was opened while the refused request was under way is undone with it.\<close>

lemma undo_drops_opened:
  assumes "\<forall>ch \<in> set (dmChannels (so_app s)). dm_id ch \<noteq> dm_id new"
  shows "new \<notin> set (dmChannels (so_app (hide_answered (dmChannels (so_app s)) (SoFailed err)
     (dm_opened parse lc (SoChannel new) (handleHideDmChannel c s)))))"
  using assms by (auto simp: hide_answered_def social_updates setDmChannels_def setDmChannelIds_def)

end
