(* ===== verification/ChannelOrder.thy ===== *)
theory ChannelOrder
  imports ServerModel Comparators
begin

text \<open>
  The order of a server's channels in the sidebar, \<^verbatim>\<open>src/pages/AppLayout.tsx\<close>: dragging a channel next to another,
  moving it to a category, reordering categories, and the category that takes the channels of a deleted one. \<open>lc\<close> is
  \<^verbatim>\<open>localeCompare\<close>; \<open>collates\<close> says that it orders texts and tells different category names apart.
\<close>

section \<open>Operations\<close>

definition cat_of :: "channel \<Rightarrow> string" where
  "cat_of c = nullish (ch_category c) ''Channels''"

text \<open>The positions counted up in every category, with the map of the next position.\<close>

fun renumber :: "int obj \<Rightarrow> channel list \<Rightarrow> channel list" where
  "renumber counts [] = []"
| "renumber counts (c # cs) =
     (let p = nullish (obj_get counts (cat_of c)) 0
      in c\<lparr>ch_position := p\<rparr> # renumber (obj_put (cat_of c) (p + 1) counts) cs)"

datatype drop_side = Before | After

definition insert_at :: "nat \<Rightarrow> 'a \<Rightarrow> 'a list \<Rightarrow> 'a list" where
  "insert_at i x xs = take i xs @ x # drop i xs"

definition drop_index :: "drop_side \<Rightarrow> nat \<Rightarrow> nat" where
  "drop_index side i = (case side of Before \<Rightarrow> i | After \<Rightarrow> i + 1)"

definition channel_named :: "string \<Rightarrow> channel list \<Rightarrow> channel option" where
  "channel_named i cs = find (\<lambda>c. ch_id c = i) cs"

definition without_channel :: "string \<Rightarrow> channel list \<Rightarrow> channel list" where
  "without_channel i cs = filter (\<lambda>c. ch_id c \<noteq> i) cs"

text \<open>The channels after a drop and whether the category changes; \<^const>\<open>None\<close> when the drop is ignored.\<close>

definition reorder_channels ::
  "(string \<Rightarrow> string \<Rightarrow> int) \<Rightarrow> string \<Rightarrow> string \<Rightarrow> drop_side \<Rightarrow> channel list \<Rightarrow> (channel list \<times> bool) option" where
  "reorder_channels lc draggedId targetId side cs =
     (case (channel_named draggedId cs, channel_named targetId cs) of
        (Some dragged, Some target) \<Rightarrow>
          if ch_type dragged \<noteq> ch_type target then None
          else
            let targetCategory = cat_of target; shouldMove = (cat_of dragged \<noteq> targetCategory);
                ordered = sort_by (compareChannelsForSidebar lc) cs; rest = without_channel draggedId ordered
            in case (find_index (\<lambda>c. ch_id c = targetId) rest, channel_named draggedId ordered) of
                 (Some i, Some moved) \<Rightarrow>
                   Some (renumber [] (insert_at (drop_index side i)
                           (moved\<lparr>ch_category := (if shouldMove then Some targetCategory else ch_category moved)\<rparr>) rest),
                         shouldMove)
               | _ \<Rightarrow> None
      | _ \<Rightarrow> None)"

definition MAX_SAFE_INTEGER :: int where "MAX_SAFE_INTEGER = 9007199254740991"

datatype placement = AtStart | AtEnd

definition move_channel ::
  "(string \<Rightarrow> string \<Rightarrow> int) \<Rightarrow> string \<Rightarrow> string \<Rightarrow> placement \<Rightarrow> channel list \<Rightarrow> channel list option" where
  "move_channel lc draggedId targetCategory place cs =
     (case channel_named draggedId cs of
        None \<Rightarrow> None
      | Some dragged \<Rightarrow>
          if cat_of dragged = targetCategory then None
          else
            let movedBase = map (\<lambda>c. if ch_id c = draggedId
                  then c\<lparr>ch_category := Some targetCategory,
                         ch_position := (case place of AtStart \<Rightarrow> -1 | AtEnd \<Rightarrow> MAX_SAFE_INTEGER)\<rparr> else c) cs
            in Some (renumber [] (sort_by (compareChannelsForSidebar lc) movedBase)))"

definition orderedChannelIds :: "(string \<Rightarrow> string \<Rightarrow> int) \<Rightarrow> channel list \<Rightarrow> string list" where
  "orderedChannelIds lc cs = map ch_id (sort_by (compareChannelsForSidebar lc) cs)"

text \<open>\<^verbatim>\<open>Array.from(new Set(xs))\<close>\<close>

definition unique_texts :: "string list \<Rightarrow> string list" where
  "unique_texts xs = rev (remdups (rev xs))"

definition derived_categories :: "channel list \<Rightarrow> string list" where
  "derived_categories cs = unique_texts (filter (\<lambda>n. n \<noteq> []) (map js_trim (List.map_filter ch_category cs)))"

definition reorder_categories ::
  "string \<Rightarrow> string \<Rightarrow> drop_side \<Rightarrow> string list \<Rightarrow> channel list \<Rightarrow> string list option" where
  "reorder_categories dragged target side categories cs =
     (if dragged = target then None
      else
        let rest = filter (\<lambda>c. c \<noteq> dragged) (unique_texts (categories @ derived_categories cs))
        in map_option (\<lambda>i. insert_at (drop_index side i) dragged rest) (find_index (\<lambda>c. c = target) rest))"

definition normalized_name :: "string \<Rightarrow> string" where
  "normalized_name n = js_lower (js_trim n)"

definition resolveDeleteCategoryMoveTarget :: "string list \<Rightarrow> string \<Rightarrow> string option" where
  "resolveDeleteCategoryMoveTarget categories name =
     (case find (\<lambda>n. normalized_name n = ''general'') categories of
        Some g \<Rightarrow> if normalized_name g \<noteq> normalized_name name then Some g
                  else find (\<lambda>n. normalized_name n \<noteq> normalized_name name) categories
      | None \<Rightarrow> find (\<lambda>n. normalized_name n \<noteq> normalized_name name) categories)"

section \<open>Renumbering\<close>

lemma renumber_ids [simp]: "map ch_id (renumber counts cs) = map ch_id cs"
  by (induction cs arbitrary: counts) (simp_all add: Let_def)

lemma renumber_cats [simp]: "map cat_of (renumber counts cs) = map cat_of cs"
  by (induction cs arbitrary: counts) (simp_all add: Let_def cat_of_def)

lemma renumber_types [simp]: "map ch_type (renumber counts cs) = map ch_type cs"
  by (induction cs arbitrary: counts) (simp_all add: Let_def)

lemma renumber_length [simp]: "length (renumber counts cs) = length cs"
  by (induction cs arbitrary: counts) (simp_all add: Let_def)

lemma renumber_lower_bound:
  "c \<in> set (renumber counts cs) \<Longrightarrow> nullish (obj_get counts (cat_of c)) 0 \<le> ch_position c"
proof (induction cs arbitrary: counts)
  case (Cons x xs)
  let ?p = "nullish (obj_get counts (cat_of x)) 0"
  from Cons.prems consider "c = x\<lparr>ch_position := ?p\<rparr>" | "c \<in> set (renumber (obj_put (cat_of x) (?p + 1) counts) xs)"
    by (auto simp: Let_def)
  then show ?case
  proof cases
    case 1
    then show ?thesis by (simp add: cat_of_def)
  next
    case 2
    from Cons.IH[OF 2] show ?thesis by (cases "cat_of c = cat_of x") (auto simp: obj_get_put)
  qed
qed simp

text \<open>In a category the positions go up.\<close>

lemma renumber_rises: "sorted_wrt (\<lambda>a b. cat_of a = cat_of b \<longrightarrow> ch_position a < ch_position b) (renumber counts cs)"
proof (induction cs arbitrary: counts)
  case (Cons x xs)
  let ?p = "nullish (obj_get counts (cat_of x)) 0"
  let ?counts = "obj_put (cat_of x) (?p + 1) counts"
  have "?p < ch_position b" if "b \<in> set (renumber ?counts xs)" "cat_of x = cat_of b" for b
    using renumber_lower_bound[OF that(1)] that(2) by (simp add: obj_get_put)
  moreover have "cat_of (x\<lparr>ch_position := ?p\<rparr>) = cat_of x" by (simp add: cat_of_def)
  ultimately show ?case using Cons.IH by (auto simp: Let_def)
qed simp

text \<open>They count from zero without gaps.\<close>

lemma renumber_positions:
  "map ch_position (filter (\<lambda>c. cat_of c = k) (renumber counts cs)) =
   map (\<lambda>i. nullish (obj_get counts k) 0 + int i) [0..<length (filter (\<lambda>c. cat_of c = k) cs)]"
proof (induction cs arbitrary: counts)
  case (Cons x xs)
  let ?p = "nullish (obj_get counts (cat_of x)) 0"
  have c: "cat_of (x\<lparr>ch_position := ?p\<rparr>) = cat_of x" by (simp add: cat_of_def)
  show ?case
  proof (cases "cat_of x = k")
    case True
    have "[0..<Suc n] = 0 # map Suc [0..<n]" for n by (metis map_Suc_upt upt_conv_Cons zero_less_Suc)
    with True c Cons.IH[of "obj_put (cat_of x) (?p + 1) counts"] show ?thesis by (simp add: Let_def comp_def algebra_simps obj_get_put del: upt_Suc)
  qed (use c Cons.IH[of "obj_put (cat_of x) (?p + 1) counts"] in \<open>simp add: Let_def obj_get_put\<close>)
qed simp

section \<open>The order of the sidebar\<close>

definition collates :: "(string \<Rightarrow> string \<Rightarrow> int) \<Rightarrow> bool" where
  "collates lc \<longleftrightarrow> comparator lc \<and> (\<forall>a b. lc a b = 0 \<longleftrightarrow> a = b)"

lemma sidebar_then:
  assumes "collates lc"
  shows "compareChannelsForSidebar lc = then_by (\<lambda>a b. lc (cat_of a) (cat_of b))
    (then_by (\<lambda>a b. channelTypeOrder (ch_type a) - channelTypeOrder (ch_type b)) (\<lambda>a b. ch_position a - ch_position b))"
  using assms by (intro ext) (simp add: compareChannelsForSidebar_def then_by_def cat_of_def[symmetric] collates_def Let_def)

lemma comparator_sidebar: "collates lc \<Longrightarrow> comparator (compareChannelsForSidebar lc)"
proof -
  assume lc: "collates lc"
  then have "comparator lc" by (simp add: collates_def)
  then show ?thesis
    unfolding sidebar_then[OF lc]
    by (intro comparator_then comparator_diff) (rule comparator_key)
qed

text \<open>The order of categories and, in them, of types.\<close>

definition group_key :: "channel \<Rightarrow> string \<times> channel_type" where
  "group_key c = (cat_of c, ch_type c)"

definition group_le :: "(string \<Rightarrow> string \<Rightarrow> int) \<Rightarrow> string \<times> channel_type \<Rightarrow> string \<times> channel_type \<Rightarrow> bool" where
  "group_le lc p q \<longleftrightarrow>
     (if fst p = fst q then channelTypeOrder (snd p) \<le> channelTypeOrder (snd q) else lc (fst p) (fst q) \<le> 0)"

lemma group_le_refl [simp]: "group_le lc p p"
  by (simp add: group_le_def)

lemma group_le_trans: "collates lc \<Longrightarrow> group_le lc p q \<Longrightarrow> group_le lc q r \<Longrightarrow> group_le lc p r"
proof -
  assume lc: "collates lc" and pq: "group_le lc p q" and qr: "group_le lc q r"
  have c: "comparator lc" and z: "\<And>a b. lc a b = 0 \<longleftrightarrow> a = b" using lc by (auto simp: collates_def)
  show ?thesis
  proof (cases "fst p = fst q \<or> fst q = fst r")
    case True
    with pq qr show ?thesis by (auto simp: group_le_def)
  next
    case False
    with pq qr have le: "lc (fst p) (fst q) \<le> 0" "lc (fst q) (fst r) \<le> 0" by (simp_all add: group_le_def)
    have "fst p \<noteq> fst r"
    proof
      assume "fst p = fst r"
      with le comparator.flip[OF c, of "fst p" "fst q"] have "lc (fst p) (fst q) = 0" by simp
      with z False show False by blast
    qed
    with comparator.trans_le[OF c le] show ?thesis by (simp add: group_le_def)
  qed
qed

lemma sidebar_le_group: "compareChannelsForSidebar lc a b \<le> 0 \<Longrightarrow> group_le lc (group_key a) (group_key b)"
  by (auto simp: compareChannelsForSidebar_def group_le_def group_key_def cat_of_def Let_def split: if_splits)

lemma group_le_sidebar:
  "group_le lc (group_key a) (group_key b) \<Longrightarrow> (cat_of a = cat_of b \<longrightarrow> ch_position a < ch_position b) \<Longrightarrow>
   compareChannelsForSidebar lc a b \<le> 0"
  by (auto simp: compareChannelsForSidebar_def group_le_def group_key_def cat_of_def Let_def split: if_splits)

lemma renumber_groups [simp]: "map group_key (renumber counts cs) = map group_key cs"
  by (induction cs arbitrary: counts) (simp_all add: Let_def group_key_def cat_of_def)

lemma groups_of_sorted:
  "collates lc \<Longrightarrow> sorted_wrt (group_le lc) (map group_key (sort_by (compareChannelsForSidebar lc) cs))"
  using comparator.ordered_sort[OF comparator_sidebar, of lc cs] unfolding sorted_wrt_map
  by (rule sorted_wrt_mono_rel[rotated]) (auto intro: sidebar_le_group)

text \<open>What was renumbered in the order of its groups is in the order of the sidebar.\<close>

lemma renumbered_in_order:
  assumes "collates lc" "sorted_wrt (group_le lc) (map group_key cs)"
  shows "sort_by (compareChannelsForSidebar lc) (renumber [] cs) = renumber [] cs"
proof (rule comparator.sort_ordered[OF comparator_sidebar[OF assms(1)]])
  let ?n = "renumber [] cs"
  have group: "group_key (?n ! k) = group_key (cs ! k)" if "k < length cs" for k
    using that by (metis nth_map renumber_groups renumber_length)
  show "sorted_wrt (\<lambda>x y. compareChannelsForSidebar lc x y \<le> 0) ?n"
    unfolding sorted_wrt_iff_nth_less
  proof (intro allI impI)
    fix i j assume ij: "i < j" "j < length ?n"
    have "group_le lc (group_key (?n ! i)) (group_key (?n ! j))"
      using sorted_wrt_nth_less[OF assms(2), of i j] ij group[of i] group[of j] by simp
    moreover have "cat_of (?n ! i) = cat_of (?n ! j) \<longrightarrow> ch_position (?n ! i) < ch_position (?n ! j)"
      using sorted_wrt_nth_less[OF renumber_rises, of i j "[]" cs] ij by simp
    ultimately show "compareChannelsForSidebar lc (?n ! i) (?n ! j) \<le> 0" by (rule group_le_sidebar)
  qed
qed

section \<open>Dropping a channel beside another\<close>

lemma sorted_beside:
  assumes "\<And>p q r. R p q \<Longrightarrow> R q r \<Longrightarrow> R p r" "R x t" "R t x" "sorted_wrt R (ys @ t # zs)"
  shows "sorted_wrt R (ys @ x # t # zs)" "sorted_wrt R (ys @ t # x # zs)"
proof -
  have ys: "\<forall>y \<in> set ys. R y x" and zs: "\<forall>z \<in> set zs. R x z"
    using assms(4) assms(1)[OF _ assms(3)] assms(1)[OF assms(2)] by (auto simp: sorted_wrt_append)
  with assms(2-4) show "sorted_wrt R (ys @ x # t # zs)" "sorted_wrt R (ys @ t # x # zs)"
    by (simp_all add: sorted_wrt_append)
qed

lemma find_index_split:
  "find_index P xs = Some i \<Longrightarrow> \<exists>ys x zs. xs = ys @ x # zs \<and> length ys = i \<and> P x"
proof (induction xs arbitrary: i)
  case (Cons y xs)
  show ?case
  proof (cases "P y")
    case True
    with Cons.prems show ?thesis by (intro exI[of _ "[]"]) auto
  next
    case False
    with Cons.prems obtain k where "find_index P xs = Some k" "i = Suc k" by auto
    with Cons.IH[of k] obtain ys x zs where "xs = ys @ x # zs" "length ys = k" "P x" by auto
    with \<open>i = Suc k\<close> show ?thesis by (intro exI[of _ "y # ys"]) auto
  qed
qed simp

lemma insert_beside:
  "insert_at (drop_index side (length ys)) x (ys @ t # zs) = ys @ (case side of Before \<Rightarrow> [x, t] | After \<Rightarrow> [t, x]) @ zs"
  by (cases side) (simp_all add: insert_at_def drop_index_def)

lemma channel_named_Some: "channel_named i cs = Some c \<Longrightarrow> c \<in> set cs \<and> ch_id c = i"
  by (auto simp: channel_named_def find_Some_iff)

lemma sorted_without: "sorted_wrt R (map f xs) \<Longrightarrow> sorted_wrt R (map f (filter P xs))"
  unfolding sorted_wrt_map by (rule sorted_wrt_filter)

lemma named_unique:
  "distinct (map ch_id cs) \<Longrightarrow> a \<in> set cs \<Longrightarrow> b \<in> set cs \<Longrightarrow> ch_id a = ch_id b \<Longrightarrow> a = b"
  by (metis distinct_map inj_onD)

text \<open>The parts of an accepted drop.\<close>

lemma reorder_parts:
  assumes "distinct (map ch_id cs)" and "reorder_channels lc d t side cs = Some (nxt, moves)"
  obtains ys x zs placed where
    "without_channel d (sort_by (compareChannelsForSidebar lc) cs) = ys @ x # zs" and "ch_id x = t"
    and "ch_id placed = d" and "group_key placed = group_key x"
    and "nxt = renumber [] (ys @ (case side of Before \<Rightarrow> [placed, x] | After \<Rightarrow> [x, placed]) @ zs)"
proof -
  define rest where "rest = without_channel d (sort_by (compareChannelsForSidebar lc) cs)"
  obtain dragged target moved i where
    dragged: "channel_named d cs = Some dragged" and target: "channel_named t cs = Some target"
    and ty: "ch_type dragged = ch_type target" and i: "find_index (\<lambda>c. ch_id c = t) rest = Some i"
    and moved: "channel_named d (sort_by (compareChannelsForSidebar lc) cs) = Some moved"
    and nxt: "nxt = renumber [] (insert_at (drop_index side i)
       (moved\<lparr>ch_category := (if cat_of dragged \<noteq> cat_of target then Some (cat_of target) else ch_category moved)\<rparr>) rest)"
    using assms(2) unfolding rest_def reorder_channels_def Let_def by (auto split: option.splits if_splits)
  obtain ys x zs where rest: "rest = ys @ x # zs" "length ys = i" "ch_id x = t" using find_index_split[OF i] by blast
  have "x \<in> set rest" using rest by simp
  then have "x \<in> set cs" by (simp add: rest_def without_channel_def)
  then have x: "x = target" using named_unique[OF assms(1)] channel_named_Some[OF target] rest(3) by blast
  have "moved \<in> set cs \<and> ch_id moved = d" using channel_named_Some[OF moved] by simp
  then have m: "moved = dragged" and id: "ch_id moved = d"
    using named_unique[OF assms(1)] channel_named_Some[OF dragged] by blast+
  let ?placed = "moved\<lparr>ch_category := (if cat_of dragged \<noteq> cat_of target then Some (cat_of target) else ch_category moved)\<rparr>"
  have "group_key ?placed = group_key x" using m x ty by (auto simp: group_key_def cat_of_def)
  moreover have "nxt = renumber [] (ys @ (case side of Before \<Rightarrow> [?placed, x] | After \<Rightarrow> [x, ?placed]) @ zs)"
    using nxt rest(1) insert_beside[of side ys ?placed x zs] rest(2) by simp
  ultimately show ?thesis using that[of ys x zs ?placed] rest(1,3) id unfolding rest_def by simp
qed

text \<open>The sidebar shows the dragged channel directly before or after the target, the others as they were.\<close>

lemma drop_in_order:
  assumes lc: "collates lc" and d: "distinct (map ch_id cs)" and r: "reorder_channels lc d t side cs = Some (nxt, moves)"
  shows "\<exists>ys zs. filter (\<lambda>i. i \<noteq> d) (orderedChannelIds lc cs) = ys @ t # zs \<and>
    orderedChannelIds lc nxt = ys @ (case side of Before \<Rightarrow> [d, t] | After \<Rightarrow> [t, d]) @ zs"
proof -
  obtain ys x zs placed where rest: "without_channel d (sort_by (compareChannelsForSidebar lc) cs) = ys @ x # zs"
    and x: "ch_id x = t" and p: "ch_id placed = d" "group_key placed = group_key x"
    and nxt: "nxt = renumber [] (ys @ (case side of Before \<Rightarrow> [placed, x] | After \<Rightarrow> [x, placed]) @ zs)"
    using reorder_parts[OF d r] by blast
  let ?l = "ys @ (case side of Before \<Rightarrow> [placed, x] | After \<Rightarrow> [x, placed]) @ zs"
  have "sorted_wrt (group_le lc) (map group_key (ys @ x # zs))"
    unfolding rest[symmetric] without_channel_def by (rule sorted_without) (rule groups_of_sorted[OF lc])
  then have "sorted_wrt (group_le lc) (map group_key ys @ group_key x # map group_key zs)" by simp
  note s = sorted_beside[OF group_le_trans[OF lc] _ _ this, where x = "group_key placed"]
  have "sorted_wrt (group_le lc) (map group_key ?l)" using s p(2) by (cases side) simp_all
  then have "orderedChannelIds lc nxt = map ch_id nxt"
    unfolding orderedChannelIds_def nxt by (simp only: renumbered_in_order[OF lc])
  moreover have "map ch_id nxt = map ch_id ys @ (case side of Before \<Rightarrow> [d, t] | After \<Rightarrow> [t, d]) @ map ch_id zs"
    using x p by (cases side) (simp_all add: nxt)
  moreover have "filter (\<lambda>i. i \<noteq> d) (orderedChannelIds lc cs) = map ch_id ys @ t # map ch_id zs"
    using arg_cong[OF rest, of "map ch_id"] x
    by (simp add: orderedChannelIds_def without_channel_def filter_map comp_def)
  ultimately show ?thesis by (intro exI[of _ "map ch_id ys"] exI[of _ "map ch_id zs"]) simp
qed

section \<open>Moving to a category\<close>

lemma filter_insert_by:
  assumes "comparator cmp" "sorted_wrt (\<lambda>a b. cmp a b \<le> 0) xs"
  shows "filter P (insert_by cmp x xs) = (if P x then insert_by cmp x (filter P xs) else filter P xs)"
  using assms(2)
proof (induction xs)
  case (Cons y ys)
  note le = comparator.trans_le[OF assms(1)]
  show ?case
  proof (cases "cmp x y \<le> 0")
    case True
    have "insert_by cmp x (filter P ys) = x # filter P ys"
    proof (cases "filter P ys")
      case (Cons z zs)
      then have "z \<in> set ys" by (metis filter_is_subset list.set_intros(1) subsetD)
      with Cons.prems True le[of x y z] have "cmp x z \<le> 0" by simp
      with Cons show ?thesis by simp
    qed simp
    with True show ?thesis by simp
  qed (use Cons in auto)
qed simp

lemma filter_sort_by: "comparator cmp \<Longrightarrow> filter P (sort_by cmp xs) = sort_by cmp (filter P xs)"
  by (induction xs) (simp_all add: filter_insert_by comparator.ordered_sort)

lemma move_in_order:
  assumes lc: "collates lc" and r: "move_channel lc d cat place cs = Some nxt"
  shows "orderedChannelIds lc nxt = map ch_id nxt
    \<and> filter (\<lambda>i. i \<noteq> d) (orderedChannelIds lc nxt) = filter (\<lambda>i. i \<noteq> d) (orderedChannelIds lc cs)
    \<and> (\<forall>c \<in> set nxt. ch_id c = d \<longrightarrow> cat_of c = cat)"
proof -
  define base where "base = map (\<lambda>c. if ch_id c = d then c\<lparr>ch_category := Some cat,
     ch_position := (case place of AtStart \<Rightarrow> -1 | AtEnd \<Rightarrow> MAX_SAFE_INTEGER)\<rparr> else c) cs"
  have nxt: "nxt = renumber [] (sort_by (compareChannelsForSidebar lc) base)"
    using r unfolding move_channel_def base_def Let_def by (auto split: option.splits if_splits)
  have order: "orderedChannelIds lc nxt = map ch_id nxt"
    unfolding orderedChannelIds_def nxt by (simp only: renumbered_in_order[OF lc groups_of_sorted[OF lc]])
  have others: "filter (\<lambda>c. ch_id c \<noteq> d) base = filter (\<lambda>c. ch_id c \<noteq> d) cs"
    unfolding base_def by (induction cs) auto
  have "filter (\<lambda>i. i \<noteq> d) (map ch_id nxt) = map ch_id (filter (\<lambda>c. ch_id c \<noteq> d) (sort_by (compareChannelsForSidebar lc) base))"
    by (simp add: nxt filter_map comp_def)
  also have "\<dots> = map ch_id (filter (\<lambda>c. ch_id c \<noteq> d) (sort_by (compareChannelsForSidebar lc) cs))"
    by (simp only: filter_sort_by[OF comparator_sidebar[OF lc]] others)
  also have "\<dots> = filter (\<lambda>i. i \<noteq> d) (orderedChannelIds lc cs)"
    by (simp add: orderedChannelIds_def filter_map comp_def)
  finally have kept: "filter (\<lambda>i. i \<noteq> d) (map ch_id nxt) = filter (\<lambda>i. i \<noteq> d) (orderedChannelIds lc cs)" .
  have "cat_of c = cat" if c: "c \<in> set base" "ch_id c = d" for c
  proof -
    obtain x :: channel where "c = (if ch_id x = d then x\<lparr>ch_category := Some cat,
       ch_position := (case place of AtStart \<Rightarrow> -1 | AtEnd \<Rightarrow> MAX_SAFE_INTEGER)\<rparr> else x)"
      using c(1) unfolding base_def set_map by blast
    with c(2) show ?thesis by (cases "ch_id x = d") (simp_all add: cat_of_def)
  qed
  then have "list_all (\<lambda>p. fst p = d \<longrightarrow> snd p = cat) (map (\<lambda>c. (ch_id c, cat_of c)) (sort_by (compareChannelsForSidebar lc) base))"
    by (simp add: list_all_iff)
  moreover have "map (\<lambda>c. (ch_id c, cat_of c)) (renumber counts l) = map (\<lambda>c. (ch_id c, cat_of c)) l" for counts l
    by (induction l arbitrary: counts) (simp_all add: Let_def cat_of_def)
  ultimately have "list_all (\<lambda>p. fst p = d \<longrightarrow> snd p = cat) (map (\<lambda>c. (ch_id c, cat_of c)) nxt)"
    unfolding nxt by simp
  then have "\<forall>c \<in> set nxt. ch_id c = d \<longrightarrow> cat_of c = cat" by (simp add: list_all_iff)
  with order kept show ?thesis by simp
qed

section \<open>Categories\<close>

lemma unique_texts_props: "distinct (unique_texts xs)" "set (unique_texts xs) = set xs"
  by (simp_all add: unique_texts_def)

lemma reorder_categories_sound:
  assumes "reorder_categories d t side cats cs = Some nxt"
  shows "distinct nxt \<and> set nxt = insert d (set (cats @ derived_categories cs))
    \<and> (\<exists>ys zs. nxt = ys @ (case side of Before \<Rightarrow> [d, t] | After \<Rightarrow> [t, d]) @ zs)"
proof -
  let ?rest = "filter (\<lambda>c. c \<noteq> d) (unique_texts (cats @ derived_categories cs))"
  obtain i where i: "find_index (\<lambda>c. c = t) ?rest = Some i" and n: "nxt = insert_at (drop_index side i) d ?rest"
    using assms by (auto simp: reorder_categories_def Let_def split: if_splits)
  obtain ys zs where s: "?rest = ys @ t # zs" "length ys = i" using find_index_split[OF i] by auto
  have nxt: "nxt = ys @ (case side of Before \<Rightarrow> [d, t] | After \<Rightarrow> [t, d]) @ zs"
    unfolding n s(1) s(2)[symmetric] by (rule insert_beside)
  have rest: "distinct ?rest" "set ?rest = set (cats @ derived_categories cs) - {d}"
    using unique_texts_props[of "cats @ derived_categories cs"] by auto
  have "distinct (ys @ t # zs)" "set (ys @ t # zs) = set (cats @ derived_categories cs) - {d}"
    using rest unfolding s(1) by simp_all
  then have "distinct nxt" "set nxt = insert d (set (cats @ derived_categories cs))"
    unfolding nxt by (cases side; auto)+
  with nxt show ?thesis by blast
qed

lemma delete_target_differs:
  "resolveDeleteCategoryMoveTarget cats name = Some t \<Longrightarrow> t \<in> set cats \<and> normalized_name t \<noteq> normalized_name name"
  by (auto simp: resolveDeleteCategoryMoveTarget_def find_Some_iff split: option.splits if_splits)

lemma delete_target_missing:
  "resolveDeleteCategoryMoveTarget cats name = None \<longleftrightarrow> (\<forall>c \<in> set cats. normalized_name c = normalized_name name)"
  by (auto simp: resolveDeleteCategoryMoveTarget_def find_None_iff find_Some_iff split: option.splits)

section \<open>An order of texts\<close>

text \<open>By character codes: what \<open>collates\<close> asks can be had.\<close>

fun code_order :: "string \<Rightarrow> string \<Rightarrow> int" where
  "code_order [] [] = 0"
| "code_order [] (y # ys) = -1"
| "code_order (x # xs) [] = 1"
| "code_order (x # xs) (y # ys) = (if x = y then code_order xs ys else of_char x - of_char y)"

lemma code_order_zero: "code_order a b = 0 \<longleftrightarrow> a = b"
  by (induction a b rule: code_order.induct) auto

lemma code_order_flip: "code_order b a = - code_order a b"
  by (induction a b rule: code_order.induct) auto

lemma code_order_trans: "code_order a b \<le> 0 \<Longrightarrow> code_order b c \<le> 0 \<Longrightarrow> code_order a c \<le> 0"
proof (induction a b arbitrary: c rule: code_order.induct)
  case (2 y ys)
  then show ?case by (cases c) auto
next
  case (4 x xs y ys)
  then show ?case by (cases c) (auto split: if_splits)
qed (auto elim: code_order.elims)

lemma code_order_collates: "collates code_order"
  unfolding collates_def comparator_def using code_order_zero code_order_flip code_order_trans
  by (metis neg_0_less_iff_less neg_less_0_iff_less)

end
