(* ===== verification/ServerWorkspace.thy ===== *)
theory ServerWorkspace
  imports ChannelOrder ServerEvents
begin

text \<open>
  The open server and its channels, \<^verbatim>\<open>src/pages/AppLayout.tsx\<close>: loading a server when it is opened, reloading it after
  a reconnect, creating and joining servers, and managing channels and categories. The lists are those of the server
  view (\<open>ServerEvents\<close>). A request is an entry of \<open>wk_calls\<close> with the variables its code holds over the \<^verbatim>\<open>await\<close>;
  its answer is a step of its own. \<open>lc\<close> is \<^verbatim>\<open>localeCompare\<close>.
\<close>

section \<open>State\<close>

datatype ws_form = ServerForm | JoinForm | ChannelForm | CategoryForm | RenameChannelForm | RenameCategoryForm

datatype form_error = BadName name_error | RequestError string

datatype reload_purpose =
  AfterCreate
| AfterRename
| AfterDelete channel "channel list" bool
| AfterOrder "channel list"

datatype wk_call =
  BootChannels string nat nat
| BootDetail string nat nat
| ViewReload string
| ServerCreate string
| ServerJoin
| ServersReload string ws_form
| ChannelCreate string
| CategoryCreate string
| CategoryCreated string
| CategoryRename string
| CategoryRenamed string
| ChannelRename "string option"
| ChannelDelete string channel "channel list" bool
| OrderRename string "string list" "channel list"
| OrderSend string "channel list"
| ChannelsReload string reload_purpose
| CategoriesReload string reload_purpose "channel list"
| CategoriesOrder string
| CategoriesAgain string

datatype wk_answer =
  WkDone
| WkServer server
| WkServers "server list"
| WkChannels "channel list"
| WkCategories "string list"
| WkBoth "channel list" "string list"
| WkDetail server_detail
| WkAll "channel list" "string list" server_detail
| WkFailed string

record workspace =
  wk_view :: view_state
  wk_boot :: nat
  wk_run :: nat
  wk_boot_loading :: "string option"
  wk_creating :: bool
  wk_request_id :: "string option"
  wk_open :: "ws_form list"
  wk_error :: "ws_form \<Rightarrow> form_error option"
  wk_notices :: "(string \<times> string) list"
  wk_calls :: "wk_call list"

abbreviation wk_app :: "workspace \<Rightarrow> app_state" where
  "wk_app s \<equiv> vw_app (wk_view s)"

abbreviation wk_active :: "workspace \<Rightarrow> string option" where
  "wk_active s \<equiv> activeServerId (wk_app s)"

definition wk_call_of :: "wk_call \<Rightarrow> workspace \<Rightarrow> workspace" where
  "wk_call_of k s = s\<lparr>wk_calls := wk_calls s @ [k]\<rparr>"

definition wk_store :: "(app_state \<Rightarrow> app_state) \<Rightarrow> workspace \<Rightarrow> workspace" where
  "wk_store f s = s\<lparr>wk_view := map_app f (wk_view s)\<rparr>"

definition wk_fail :: "ws_form \<Rightarrow> form_error option \<Rightarrow> workspace \<Rightarrow> workspace" where
  "wk_fail f e s = s\<lparr>wk_error := (wk_error s)(f := e)\<rparr>"

definition wk_close :: "ws_form \<Rightarrow> workspace \<Rightarrow> workspace" where
  "wk_close f s = s\<lparr>wk_open := removeAll f (wk_open s)\<rparr>"

definition wk_show :: "ws_form \<Rightarrow> workspace \<Rightarrow> workspace" where
  "wk_show f s = (wk_fail f None s)\<lparr>wk_open := f # removeAll f (wk_open s)\<rparr>"

definition put_channel_servers :: "channel list \<Rightarrow> workspace \<Rightarrow> workspace" where
  "put_channel_servers chs s =
     s\<lparr>wk_view := (wk_view s)\<lparr>vw_channel_server := add_channel_servers chs (vw_channel_server (wk_view s))\<rparr>\<rparr>"

definition put_categories :: "string \<Rightarrow> string list \<Rightarrow> workspace \<Rightarrow> workspace" where
  "put_categories sid cats s =
     s\<lparr>wk_view := (wk_view s)\<lparr>vw_categories := obj_put sid cats (vw_categories (wk_view s))\<rparr>\<rparr>"

definition put_permissions :: "server_detail \<Rightarrow> workspace \<Rightarrow> workspace" where
  "put_permissions det s =
     s\<lparr>wk_view := (wk_view s)\<lparr>vw_permissions := obj_put (srv_id det) (nullish (det_my_permissions det) 0)
                                (vw_permissions (wk_view s))\<rparr>\<rparr>"

text \<open>\<^verbatim>\<open>setChannels(chs)\<close> and \<^verbatim>\<open>setChannelsForServer(serverId, chs)\<close>\<close>

definition put_channels :: "string \<Rightarrow> channel list \<Rightarrow> workspace \<Rightarrow> workspace" where
  "put_channels sid chs s = wk_store (\<lambda>a. setChannelsForServer sid chs (setChannels chs a)) s"

section \<open>Opening a server\<close>

definition bootstrap_server :: "workspace \<Rightarrow> workspace" where
  "bootstrap_server s0 =
     (let s = s0\<lparr>wk_run := wk_run s0 + 1\<rparr> in
      if \<not> truthy_str (wk_active s) then s
      else
        let sid = the (wk_active s); n = wk_boot s + 1;
            hasCachedChannels = (nullish (obj_get (channelsByServerId (wk_app s)) sid) [] \<noteq> [])
        in wk_call_of (BootDetail sid n (wk_run s)) (wk_call_of (BootChannels sid n (wk_run s))
             (s\<lparr>wk_boot := n, wk_boot_loading := (if hasCachedChannels then None else Some sid)\<rparr>)))"

definition open_server :: "last_channels \<Rightarrow> string option \<Rightarrow> workspace \<Rightarrow> workspace" where
  "open_server lst sid s =
     (if wk_active s = sid then s else bootstrap_server (wk_store (setActiveServer lst sid) s))"

definition boot_current :: "string \<Rightarrow> nat \<Rightarrow> nat \<Rightarrow> workspace \<Rightarrow> bool" where
  "boot_current sid n run s \<longleftrightarrow> run = wk_run s \<and> n = wk_boot s \<and> wk_active s = Some sid"

text \<open>The channel to open: the stored one when it is a text channel of the list, else the first text channel, else the first.\<close>

definition boot_target :: "string option \<Rightarrow> channel list \<Rightarrow> string option" where
  "boot_target stored chs =
     (if truthy_str stored \<and> list_ex (\<lambda>c. Some (ch_id c) = stored \<and> ch_type c = TextChannel) chs then stored
      else case find (\<lambda>c. ch_type c = TextChannel) chs of
        Some c \<Rightarrow> Some (ch_id c)
      | None \<Rightarrow> (case chs of [] \<Rightarrow> None | c # _ \<Rightarrow> Some (ch_id c)))"

definition boot_channels_answered :: "string option \<Rightarrow> string \<Rightarrow> nat \<Rightarrow> nat \<Rightarrow> wk_answer \<Rightarrow> workspace \<Rightarrow> workspace" where
  "boot_channels_answered stored sid n run ans s =
     (let s1 = (case ans of
          WkBoth chs cats \<Rightarrow>
            let s2 = put_channel_servers chs (wk_store (setChannelsForServer sid chs) s)
            in if \<not> boot_current sid n run s2 then s2
               else
                 let s3 = put_categories sid cats (wk_store (setChannels chs) s2);
                     cur = activeChannelId (wk_app s3)
                 in if truthy_str cur \<and> list_ex (\<lambda>c. Some (ch_id c) = cur) chs then s3
                    else wk_store (setActiveChannel (boot_target stored chs)) s3
        | _ \<Rightarrow> s)
      in if boot_current sid n run s1 then s1\<lparr>wk_boot_loading := None\<rparr> else s1)"

definition boot_detail_answered :: "string \<Rightarrow> nat \<Rightarrow> nat \<Rightarrow> wk_answer \<Rightarrow> workspace \<Rightarrow> workspace" where
  "boot_detail_answered sid n run ans s =
     (case ans of
        WkDetail det \<Rightarrow>
          let ms = nullish (det_members det) []; s1 = put_permissions det (wk_store (setMembersForServer sid ms) s)
          in if boot_current sid n run s1 then wk_store (setMembers ms) s1 else s1
      | _ \<Rightarrow> s)"

definition refreshActiveServerView :: "string \<Rightarrow> workspace \<Rightarrow> workspace" where
  "refreshActiveServerView sid s = wk_call_of (ViewReload sid) s"

definition view_reloaded :: "string \<Rightarrow> wk_answer \<Rightarrow> workspace \<Rightarrow> workspace" where
  "view_reloaded sid ans s =
     (case ans of
        WkAll chs cats det \<Rightarrow>
          let ms = nullish (det_members det) [];
              s1 = put_permissions det (wk_store (setMembersForServer sid ms)
                     (put_channel_servers chs (wk_store (setChannelsForServer sid chs) s)))
          in if wk_active s1 = Some sid
             then wk_store (setMembers ms) (put_categories sid cats (wk_store (setChannels chs) s1)) else s1
      | _ \<Rightarrow> s)"

section \<open>Creating and joining a server\<close>

definition openCreateModal :: "workspace \<Rightarrow> workspace" where
  "openCreateModal s = wk_show ServerForm (s\<lparr>wk_creating := False, wk_request_id := None\<rparr>)"

text \<open>Escape closes the dialog unless a creation is under way.\<close>

definition escape_create :: "workspace \<Rightarrow> workspace" where
  "escape_create s =
     (if ServerForm \<notin> set (wk_open s) \<or> wk_creating s then s
      else (wk_close ServerForm (wk_fail ServerForm None s))\<lparr>wk_request_id := None\<rparr>)"

definition handleCreateServer :: "string \<Rightarrow> string \<Rightarrow> workspace \<Rightarrow> workspace" where
  "handleCreateServer fresh name s =
     (if wk_creating s then s
      else
        let s1 = wk_fail ServerForm None s in
        if js_trim name = [] then s1
        else let rid = nullish (wk_request_id s1) fresh
             in wk_call_of (ServerCreate rid) (s1\<lparr>wk_creating := True, wk_request_id := Some rid\<rparr>))"

definition create_failed :: "string \<Rightarrow> workspace \<Rightarrow> workspace" where
  "create_failed err s = (wk_fail ServerForm (Some (RequestError err)) s)\<lparr>wk_creating := False\<rparr>"

definition server_created :: "wk_answer \<Rightarrow> workspace \<Rightarrow> workspace" where
  "server_created ans s =
     (case ans of
        WkServer srv \<Rightarrow> wk_call_of (ServersReload (srv_id srv) ServerForm) s
      | WkFailed err \<Rightarrow> create_failed err s
      | _ \<Rightarrow> s\<lparr>wk_creating := False\<rparr>)"

definition handleJoinServer :: "string option \<Rightarrow> workspace \<Rightarrow> workspace" where
  "handleJoinServer parsedInvite s =
     (let s1 = wk_fail JoinForm None s in if truthy_str parsedInvite then wk_call_of ServerJoin s1 else s1)"

definition server_joined :: "wk_answer \<Rightarrow> workspace \<Rightarrow> workspace" where
  "server_joined ans s =
     (case ans of
        WkServer srv \<Rightarrow> wk_call_of (ServersReload (srv_id srv) JoinForm) s
      | WkFailed err \<Rightarrow> wk_fail JoinForm (Some (RequestError err)) s
      | _ \<Rightarrow> s)"

definition servers_reloaded :: "last_channels \<Rightarrow> string \<Rightarrow> ws_form \<Rightarrow> wk_answer \<Rightarrow> workspace \<Rightarrow> workspace" where
  "servers_reloaded lst sid form ans s =
     (let s1 = (case ans of
          WkServers all \<Rightarrow>
            let s2 = wk_close form (open_server lst (Some sid) (wk_store (setServers all) s))
            in if form = ServerForm then s2\<lparr>wk_request_id := None\<rparr> else s2
        | WkFailed err \<Rightarrow> wk_fail form (Some (RequestError err)) s
        | _ \<Rightarrow> s)
      in if form = ServerForm then s1\<lparr>wk_creating := False\<rparr> else s1)"

section \<open>Managing channels and categories\<close>

definition handleCreateChannel :: "string \<Rightarrow> string \<Rightarrow> string \<Rightarrow> workspace \<Rightarrow> workspace" where
  "handleCreateChannel name category description s =
     (if \<not> truthy_str (wk_active s) \<or> js_trim name = [] then s
      else case validateChannelNameInput name of
        Some e \<Rightarrow> wk_fail ChannelForm (Some (BadName e)) s
      | None \<Rightarrow>
          (case validateCategoryNameInput (or_str (Some (js_trim category)) ''GENERAL'') of
             Some e \<Rightarrow> wk_fail ChannelForm (Some (BadName e)) s
           | None \<Rightarrow>
               (case validateChannelDescriptionInput description of
                  Some e \<Rightarrow> wk_fail ChannelForm (Some (BadName e)) s
                | None \<Rightarrow> wk_call_of (ChannelCreate (the (wk_active s))) (wk_fail ChannelForm None s))))"

definition handleCreateCategory :: "string \<Rightarrow> workspace \<Rightarrow> workspace" where
  "handleCreateCategory name s =
     (if \<not> truthy_str (wk_active s) \<or> js_trim name = [] then s
      else case validateCategoryNameInput name of
        Some e \<Rightarrow> wk_fail CategoryForm (Some (BadName e)) s
      | None \<Rightarrow> wk_call_of (CategoryCreate (the (wk_active s))) (wk_fail CategoryForm None s))"

definition category_listed :: "string \<Rightarrow> wk_answer \<Rightarrow> workspace \<Rightarrow> workspace" where
  "category_listed sid ans s =
     (case ans of
        WkCategories cats \<Rightarrow> wk_close CategoryForm (put_categories sid cats s)
      | WkFailed err \<Rightarrow> wk_fail CategoryForm (Some (RequestError err)) s
      | _ \<Rightarrow> s)"

definition handleRenameCategory :: "string option \<Rightarrow> string \<Rightarrow> workspace \<Rightarrow> workspace" where
  "handleRenameCategory source name s =
     (if \<not> truthy_str (wk_active s) \<or> \<not> truthy_str source \<or> js_trim name = [] then s
      else case validateCategoryNameInput (js_trim name) of
        Some e \<Rightarrow> wk_fail RenameCategoryForm (Some (BadName e)) s
      | None \<Rightarrow> wk_call_of (CategoryRename (the (wk_active s))) (wk_fail RenameCategoryForm None s))"

definition category_renamed :: "string \<Rightarrow> wk_answer \<Rightarrow> workspace \<Rightarrow> workspace" where
  "category_renamed sid ans s =
     (case ans of
        WkBoth chs cats \<Rightarrow>
          wk_close RenameCategoryForm (put_channel_servers chs (put_categories sid cats (put_channels sid chs s)))
      | WkFailed err \<Rightarrow> wk_fail RenameCategoryForm (Some (RequestError err)) s
      | _ \<Rightarrow> s)"

definition handleRenameChannel :: "string option \<Rightarrow> string \<Rightarrow> string \<Rightarrow> workspace \<Rightarrow> workspace" where
  "handleRenameChannel channelId name description s =
     (if \<not> truthy_str channelId \<or> js_trim name = [] then s
      else case validateChannelNameInput name of
        Some e \<Rightarrow> wk_fail RenameChannelForm (Some (BadName e)) s
      | None \<Rightarrow>
          (case validateChannelDescriptionInput description of
             Some e \<Rightarrow> wk_fail RenameChannelForm (Some (BadName e)) s
           | None \<Rightarrow> wk_call_of (ChannelRename (wk_active s)) (wk_fail RenameChannelForm None s)))"

text \<open>A channel is taken out at once and put back when the server refuses.\<close>

definition handleDeleteChannel :: "channel \<Rightarrow> workspace \<Rightarrow> workspace" where
  "handleDeleteChannel ch s =
     (if \<not> truthy_str (wk_active s) then s
      else
        let sid = the (wk_active s); previous = channels (wk_app s); newChs = without_channel (ch_id ch) previous;
            wasActive = (activeChannelId (wk_app s) = Some (ch_id ch));
            s1 = put_channels sid newChs s;
            s2 = s1\<lparr>wk_view := (wk_view s1)\<lparr>vw_channel_server := obj_del (ch_id ch) (vw_channel_server (wk_view s1))\<rparr>\<rparr>;
            s3 = (if wasActive then wk_store (setActiveChannel (boot_target None newChs)) s2 else s2)
        in wk_call_of (ChannelDelete sid ch previous wasActive) s3)"

definition delete_undone :: "string \<Rightarrow> channel \<Rightarrow> channel list \<Rightarrow> bool \<Rightarrow> string \<Rightarrow> workspace \<Rightarrow> workspace" where
  "delete_undone sid ch previous wasActive err s =
     (let s1 = put_channel_servers previous (put_channels sid previous s);
          s2 = (if wasActive then wk_store (setActiveChannel (Some (ch_id ch))) s1 else s1)
      in s2\<lparr>wk_notices := (''Failed to delete channel'', err) # wk_notices s2\<rparr>)"

definition handleReorderChannels ::
  "(string \<Rightarrow> string \<Rightarrow> int) \<Rightarrow> string \<Rightarrow> string \<Rightarrow> drop_side \<Rightarrow> workspace \<Rightarrow> workspace" where
  "handleReorderChannels lc dragged target side s =
     (if \<not> truthy_str (wk_active s) then s
      else
        let sid = the (wk_active s); previous = channels (wk_app s) in
        case reorder_channels lc dragged target side previous of
          None \<Rightarrow> s
        | Some (nxt, moves) \<Rightarrow>
            wk_call_of (if moves then OrderRename sid (orderedChannelIds lc nxt) previous else OrderSend sid previous)
              (put_channels sid nxt s))"

definition handleMoveChannelToCategory ::
  "(string \<Rightarrow> string \<Rightarrow> int) \<Rightarrow> string \<Rightarrow> string \<Rightarrow> placement \<Rightarrow> workspace \<Rightarrow> workspace" where
  "handleMoveChannelToCategory lc dragged category place s =
     (if \<not> truthy_str (wk_active s) then s
      else
        let sid = the (wk_active s); previous = channels (wk_app s) in
        case move_channel lc dragged category place previous of
          None \<Rightarrow> s
        | Some nxt \<Rightarrow> wk_call_of (OrderRename sid (orderedChannelIds lc nxt) previous) (put_channels sid nxt s))"

definition handleReorderCategories :: "string \<Rightarrow> string \<Rightarrow> drop_side \<Rightarrow> workspace \<Rightarrow> workspace" where
  "handleReorderCategories dragged target side s =
     (if \<not> truthy_str (wk_active s) then s
      else
        let sid = the (wk_active s) in
        case reorder_categories dragged target side (nullish (obj_get (vw_categories (wk_view s)) sid) []) (channels (wk_app s)) of
          None \<Rightarrow> s
        | Some nxt \<Rightarrow> wk_call_of (CategoriesOrder sid) (put_categories sid nxt s))"

text \<open>What a failed step of an operation does, by what it was part of.\<close>

definition operation_failed :: "string \<Rightarrow> reload_purpose \<Rightarrow> string \<Rightarrow> workspace \<Rightarrow> workspace" where
  "operation_failed sid purpose err s =
     (case purpose of
        AfterCreate \<Rightarrow> wk_fail ChannelForm (Some (RequestError err)) s
      | AfterRename \<Rightarrow> wk_fail RenameChannelForm (Some (RequestError err)) s
      | AfterDelete ch previous wasActive \<Rightarrow> delete_undone sid ch previous wasActive err s
      | AfterOrder previous \<Rightarrow> put_channels sid previous s)"

definition channels_reloaded :: "string \<Rightarrow> reload_purpose \<Rightarrow> wk_answer \<Rightarrow> workspace \<Rightarrow> workspace" where
  "channels_reloaded sid purpose ans s =
     (case ans of
        WkChannels chs \<Rightarrow>
          let s1 = put_channels sid chs s in
          (case purpose of
             AfterOrder previous \<Rightarrow> s1
           | AfterRename \<Rightarrow> wk_close RenameChannelForm (put_channel_servers chs s1)
           | _ \<Rightarrow> wk_call_of (CategoriesReload sid purpose chs) s1)
      | WkFailed err \<Rightarrow> operation_failed sid purpose err s
      | _ \<Rightarrow> s)"

definition categories_reloaded :: "string \<Rightarrow> reload_purpose \<Rightarrow> channel list \<Rightarrow> wk_answer \<Rightarrow> workspace \<Rightarrow> workspace" where
  "categories_reloaded sid purpose chs ans s =
     (case ans of
        WkCategories cats \<Rightarrow>
          let s1 = put_channel_servers chs (put_categories sid cats s)
          in if purpose = AfterCreate then wk_close ChannelForm s1 else s1
      | WkFailed err \<Rightarrow> operation_failed sid purpose err s
      | _ \<Rightarrow> s)"

section \<open>Steps\<close>

definition after_done :: "wk_answer \<Rightarrow> (string \<Rightarrow> workspace \<Rightarrow> workspace) \<Rightarrow> wk_call \<Rightarrow> workspace \<Rightarrow> workspace" where
  "after_done ans fails nxt s =
     (case ans of WkFailed err \<Rightarrow> fails err s | WkDone \<Rightarrow> wk_call_of nxt s | _ \<Rightarrow> s)"

definition wk_answer_call ::
  "last_channels \<Rightarrow> string option \<Rightarrow> wk_call \<Rightarrow> wk_answer \<Rightarrow> workspace \<Rightarrow> workspace" where
  "wk_answer_call lst stored k ans s0 =
     (let s = s0\<lparr>wk_calls := remove1 k (wk_calls s0)\<rparr> in
      case k of
        BootChannels sid n run \<Rightarrow> boot_channels_answered stored sid n run ans s
      | BootDetail sid n run \<Rightarrow> boot_detail_answered sid n run ans s
      | ViewReload sid \<Rightarrow> view_reloaded sid ans s
      | ServerCreate rid \<Rightarrow> server_created ans s
      | ServerJoin \<Rightarrow> server_joined ans s
      | ServersReload sid form \<Rightarrow> servers_reloaded lst sid form ans s
      | ChannelCreate sid \<Rightarrow> after_done ans (operation_failed sid AfterCreate) (ChannelsReload sid AfterCreate) s
      | CategoryCreate sid \<Rightarrow>
          after_done ans (\<lambda>err. wk_fail CategoryForm (Some (RequestError err))) (CategoryCreated sid) s
      | CategoryCreated sid \<Rightarrow> category_listed sid ans s
      | CategoryRename sid \<Rightarrow>
          after_done ans (\<lambda>err. wk_fail RenameCategoryForm (Some (RequestError err))) (CategoryRenamed sid) s
      | CategoryRenamed sid \<Rightarrow> category_renamed sid ans s
      | ChannelRename active \<Rightarrow>
          (case ans of
             WkDone \<Rightarrow> if truthy_str active then wk_call_of (ChannelsReload (the active) AfterRename) s else s
           | WkFailed err \<Rightarrow> wk_fail RenameChannelForm (Some (RequestError err)) s
           | _ \<Rightarrow> s)
      | ChannelDelete sid ch previous wasActive \<Rightarrow>
          after_done ans (operation_failed sid (AfterDelete ch previous wasActive))
            (ChannelsReload sid (AfterDelete ch previous wasActive)) s
      | OrderRename sid ids previous \<Rightarrow>
          after_done ans (operation_failed sid (AfterOrder previous)) (OrderSend sid previous) s
      | OrderSend sid previous \<Rightarrow>
          after_done ans (operation_failed sid (AfterOrder previous)) (ChannelsReload sid (AfterOrder previous)) s
      | ChannelsReload sid purpose \<Rightarrow> channels_reloaded sid purpose ans s
      | CategoriesReload sid purpose chs \<Rightarrow> categories_reloaded sid purpose chs ans s
      | CategoriesOrder sid \<Rightarrow> (case ans of WkFailed err \<Rightarrow> wk_call_of (CategoriesAgain sid) s | _ \<Rightarrow> s)
      | CategoriesAgain sid \<Rightarrow> put_categories sid (case ans of WkCategories cats \<Rightarrow> cats | _ \<Rightarrow> []) s)"

section \<open>Lemmas\<close>

lemma wk_store_app [simp]: "wk_app (wk_store f s) = f (wk_app s)" "wk_boot (wk_store f s) = wk_boot s" "wk_run (wk_store f s) = wk_run s"
  by (simp_all add: wk_store_def map_app_def)

lemma wk_keeps_app [simp]:
  "wk_app (put_channel_servers chs s) = wk_app s" "wk_app (put_categories sid cats s) = wk_app s" "wk_app (put_permissions det s) = wk_app s"
  "wk_app (wk_call_of k s) = wk_app s" "wk_app (wk_fail f e s) = wk_app s" "wk_app (wk_close f s) = wk_app s" "wk_app (wk_show f s) = wk_app s"
  by (simp_all add: put_channel_servers_def put_categories_def put_permissions_def wk_call_of_def wk_fail_def wk_close_def wk_show_def)

lemma wk_keeps_boot [simp]:
  "wk_boot (put_channel_servers chs s) = wk_boot s" "wk_run (put_channel_servers chs s) = wk_run s"
  "wk_boot (put_permissions det s) = wk_boot s" "wk_run (put_permissions det s) = wk_run s"
  "wk_boot (put_categories sid cats s) = wk_boot s" "wk_run (put_categories sid cats s) = wk_run s"
  by (simp_all add: put_channel_servers_def put_permissions_def put_categories_def)

lemma for_server_fields [simp]:
  "activeServerId (setChannelsForServer sid chs a) = activeServerId a" "channels (setChannelsForServer sid chs a) = channels a"
  "activeChannelId (setChannelsForServer sid chs a) = activeChannelId a"
  "activeServerId (setMembersForServer sid ms a) = activeServerId a" "channels (setMembersForServer sid ms a) = channels a"
  by (simp_all add: setChannelsForServer_def setMembersForServer_def)

lemma shown_fields [simp]:
  "activeServerId (setChannels chs a) = activeServerId a" "channels (setChannels chs a) = chs"
  "activeChannelId (setChannels chs a) = activeChannelId a"
  "activeServerId (setActiveChannel c a) = activeServerId a" "channels (setActiveChannel c a) = channels a"
  "activeChannelId (setActiveChannel c a) = c"
  "activeServerId (setMembers ms a) = activeServerId a" "channels (setMembers ms a) = channels a"
  by (simp_all add: setChannels_def setActiveChannel_def setMembers_def)

text \<open>The answers that compare the open server leave the list of another one as it is.\<close>

lemma boot_current_keeps [simp]:
  "boot_current sid n run (put_channel_servers chs s) = boot_current sid n run s"
  "boot_current sid n run (put_categories sid' cats s) = boot_current sid n run s"
  "boot_current sid n run (wk_store (setChannelsForServer sid' chs) s) = boot_current sid n run s"
  "boot_current sid n run (wk_store (setChannels chs) s) = boot_current sid n run s"
  "boot_current sid n run (wk_store (setActiveChannel c) s) = boot_current sid n run s"
  by (simp_all add: boot_current_def)

lemma boot_channels_shown:
  "channels (wk_app (boot_channels_answered stored sid n run ans s)) =
     (case ans of WkBoth chs cats \<Rightarrow> if boot_current sid n run s then chs else channels (wk_app s) | _ \<Rightarrow> channels (wk_app s))"
  by (cases "boot_current sid n run s"; cases ans) (simp_all add: boot_channels_answered_def Let_def)

lemma view_reloaded_shown:
  "channels (wk_app (view_reloaded sid ans s)) =
     (case ans of WkAll chs cats det \<Rightarrow> if wk_active s = Some sid then chs else channels (wk_app s) | _ \<Rightarrow> channels (wk_app s))"
  by (simp add: view_reloaded_def Let_def split: wk_answer.split)

text \<open>The open channel after a server was loaded.\<close>

lemma find_member: "find P xs = Some x \<Longrightarrow> x \<in> set xs"
  by (auto simp: find_Some_iff)

lemma boot_target_None: "boot_target stored chs = None \<longleftrightarrow> chs = []"
  by (cases stored) (auto simp: boot_target_def split: option.split list.split)

lemma boot_target_member: "boot_target stored chs = Some c \<Longrightarrow> c \<in> ch_id ` set chs"
  by (auto simp: boot_target_def list_ex_iff image_iff dest: find_member split: if_splits option.splits list.splits)

lemma boot_opens_channel:
  assumes "boot_current sid n run s"
  shows "let s' = boot_channels_answered stored sid n run (WkBoth chs cats) s; c = activeChannelId (wk_app s')
    in channels (wk_app s') = chs \<and>
       (if truthy_str (activeChannelId (wk_app s)) \<and> list_ex (\<lambda>ch. Some (ch_id ch) = activeChannelId (wk_app s)) chs
        then c = activeChannelId (wk_app s) else c = boot_target stored chs)"
  using assms by (simp add: boot_channels_answered_def Let_def)

text \<open>A failed creation is tried again under the same id.\<close>

lemma create_retry_id:
  assumes "wk_request_id s = Some rid" "js_trim name \<noteq> []"
  shows "ServerCreate rid \<in> set (wk_calls (handleCreateServer fresh name (server_created (WkFailed err) s)))
    \<and> wk_request_id (handleCreateServer fresh name (server_created (WkFailed err) s)) = Some rid"
  using assms by (simp add: handleCreateServer_def server_created_def create_failed_def wk_fail_def wk_call_of_def Let_def)

text \<open>A refused deletion leaves the list as it was.\<close>

lemma refused_delete_undone:
  assumes "truthy_str (wk_active s)"
  shows "channels (wk_app (delete_undone (the (wk_active s)) ch (channels (wk_app s)) b err (handleDeleteChannel ch s))) = channels (wk_app s)"
  by (simp add: delete_undone_def put_channels_def Let_def)

section \<open>What the order of answers can do\<close>

definition chan_row :: "string \<Rightarrow> string \<Rightarrow> channel" where
  "chan_row i sid = \<lparr>ch_id = i, ch_server_id = sid, ch_name = i, ch_description = None, ch_type = TextChannel, ch_category = None,
     ch_position = 0, ch_my_permissions = None\<rparr>"

text \<open>
  A channel is created on server \<open>s1\<close>; before the list of its channels comes back, \<open>s2\<close> is opened and loaded. The
  answer replaces the shown channels of \<open>s2\<close> by those of \<open>s1\<close>.
\<close>

definition fresh_workspace :: workspace where
  "fresh_workspace = \<lparr>wk_view = \<lparr>vw_app = init_app, vw_messages = [], vw_cache = [], vw_pins = [], vw_permissions = [],
     vw_channel_server = [], vw_categories = [], vw_toasts = init_toasts, vw_effects = []\<rparr>, wk_boot = 0, wk_run = 0,
     wk_boot_loading = None, wk_creating = False, wk_request_id = None, wk_open = [], wk_error = (\<lambda>_. None),
     wk_notices = [], wk_calls = []\<rparr>"

definition switched_while_creating :: workspace where
  "switched_while_creating =
     (let s1 = handleCreateChannel ''news'' [] [] (open_server None (Some ''s1'') fresh_workspace);
          s2 = wk_answer_call None None (ChannelCreate ''s1'') WkDone s1;
          s3 = open_server None (Some ''s2'') s2
      in wk_answer_call None None (BootChannels ''s2'' 2 2) (WkBoth [chan_row ''b'' ''s2''] []) s3)"

lemma late_reload_replaces_channels:
  "let s = wk_answer_call None None (ChannelsReload ''s1'' AfterCreate) (WkChannels [chan_row ''a'' ''s1'']) switched_while_creating
   in wk_active s = Some ''s2'' \<and> map ch_server_id (channels (wk_app switched_while_creating)) = [''s2'']
     \<and> map ch_server_id (channels (wk_app s)) = [''s1'']"
  by code_simp

text \<open>The server deleted the channel, but the list could not be loaded again: the channel is shown again.\<close>

lemma deleted_channel_reappears:
  "let s1 = put_channels ''s1'' [chan_row ''a'' ''s1'', chan_row ''b'' ''s1''] (open_server None (Some ''s1'') fresh_workspace);
       s2 = handleDeleteChannel (chan_row ''a'' ''s1'') s1; p = AfterDelete (chan_row ''a'' ''s1'') (channels (wk_app s1)) False;
       s3 = wk_answer_call None None (ChannelDelete ''s1'' (chan_row ''a'' ''s1'') (channels (wk_app s1)) False) WkDone s2;
       s4 = wk_answer_call None None (ChannelsReload ''s1'' p) (WkFailed ''offline'') s3
   in map ch_id (channels (wk_app s2)) = [''b''] \<and> map ch_id (channels (wk_app s4)) = [''a'', ''b'']"
  by code_simp

end
