(* ===== verification/RoleEditor.thy ===== *)
theory RoleEditor
  imports WireTypes "HOL-Library.Word"
begin

unbundle bit_operations_syntax

text \<open>
  The roles of a server and its audit log, \<^verbatim>\<open>src/pages/AppLayout.tsx\<close>: the editor of a role with the full-admin
  switch, the order of roles, saving, and the pages of the audit log. Permissions are 32-bit words, as the bit
  operators of the code make them.
\<close>

section \<open>Permission bits\<close>

type_synonym permissions = "32 word"

definition perm_bit :: "nat \<Rightarrow> permissions" where "perm_bit n = push_bit n 1"

definition PERM_MANAGE_SERVER :: permissions where "PERM_MANAGE_SERVER = perm_bit 1"

text \<open>The fourteen bits from \<^verbatim>\<open>PERM_VIEW_SERVER\<close> to \<^verbatim>\<open>PERM_MOVE_MEMBERS\<close>.\<close>

definition ADMIN_MASK :: permissions where
  "ADMIN_MASK = fold (\<lambda>n m. m OR perm_bit n) [0..<14] 0"

section \<open>The editor\<close>

record role =
  ro_id :: string
  ro_name :: string
  ro_permissions :: permissions
  ro_color :: "string option"

datatype role_call =
  LoadRoles
| SaveRole "string option" string permissions "string option"
| ReloadRoles
| OrderRoles "string list" "role list"

datatype role_answer = RolesAre "role list" | RoleSaved | RoleFailed string

record role_editor =
  rle_roles :: "role list"
  rle_selected :: "string option"
  rle_name :: string
  rle_permissions :: permissions
  rle_before :: "permissions option"
  rle_color :: "string option"
  rle_error :: "string option"
  rle_loading :: bool
  rle_dragging :: "string option"
  rle_notices :: "string list"
  rle_calls :: "role_call list"

definition role_call_of :: "role_call \<Rightarrow> role_editor \<Rightarrow> role_editor" where
  "role_call_of k s = s\<lparr>rle_calls := rle_calls s @ [k]\<rparr>"

definition handleCreateRoleDraft :: "role_editor \<Rightarrow> role_editor" where
  "handleCreateRoleDraft s =
     s\<lparr>rle_error := None, rle_selected := Some ''new'', rle_name := [], rle_permissions := 0, rle_before := None, rle_color := None\<rparr>"

definition handleSelectRole :: "role \<Rightarrow> role_editor \<Rightarrow> role_editor" where
  "handleSelectRole r s =
     (if rle_selected s = Some (ro_id r)
      then s\<lparr>rle_selected := None, rle_name := [], rle_permissions := 0, rle_before := None\<rparr>
      else s\<lparr>rle_selected := Some (ro_id r), rle_name := ro_name r, rle_permissions := ro_permissions r, rle_before := None,
             rle_color := ro_color r\<rparr>)"

definition handleToggleRolePermission :: "permissions \<Rightarrow> bool \<Rightarrow> bool \<Rightarrow> role_editor \<Rightarrow> role_editor" where
  "handleToggleRolePermission bits isFullAdmin checked s =
     (let p = rle_permissions s in
      if isFullAdmin then
        if checked
        then s\<lparr>rle_before := (if p AND PERM_MANAGE_SERVER \<noteq> PERM_MANAGE_SERVER then Some p else rle_before s),
               rle_permissions := p OR ADMIN_MASK\<rparr>
        else s\<lparr>rle_permissions := (case rle_before s of Some q \<Rightarrow> q | None \<Rightarrow> p AND NOT ADMIN_MASK), rle_before := None\<rparr>
      else s\<lparr>rle_permissions := (if checked then p OR bits else p AND NOT bits)\<rparr>)"

definition handleCancelRoleEdit :: "role_editor \<Rightarrow> role_editor" where
  "handleCancelRoleEdit s =
     s\<lparr>rle_selected := None, rle_name := [], rle_permissions := 0, rle_before := None, rle_color := None\<rparr>"

definition role_of :: "string option \<Rightarrow> role list \<Rightarrow> role option" where
  "role_of i rs = (if truthy_str i then find (\<lambda>r. Some (ro_id r) = i) rs else None)"

text \<open>\<open>trimmed\<close> is the trimmed name.\<close>

definition handleSaveRole :: "(string \<Rightarrow> string) \<Rightarrow> role_editor \<Rightarrow> role_editor" where
  "handleSaveRole trim s =
     role_call_of (SaveRole (map_option ro_id (role_of (rle_selected s) (rle_roles s))) (trim (rle_name s))
                     (rle_permissions s) (rle_color s)) s"

definition role_saved :: "role_answer \<Rightarrow> role_editor \<Rightarrow> role_editor" where
  "role_saved ans s =
     (case ans of
        RoleFailed err \<Rightarrow> s\<lparr>rle_error := Some err\<rparr>
      | _ \<Rightarrow> role_call_of ReloadRoles (handleCancelRoleEdit s))"

definition roles_reloaded :: "role_answer \<Rightarrow> role_editor \<Rightarrow> role_editor" where
  "roles_reloaded ans s =
     (case ans of
        RolesAre rs \<Rightarrow> s\<lparr>rle_roles := rs\<rparr>
      | RoleFailed err \<Rightarrow> s\<lparr>rle_error := Some err, rle_notices := ''Role refresh failed'' # rle_notices s\<rparr>
      | _ \<Rightarrow> s)"

definition open_roles :: "role_editor \<Rightarrow> role_editor" where
  "open_roles s = role_call_of LoadRoles (s\<lparr>rle_loading := True, rle_error := None\<rparr>)"

definition roles_loaded :: "role_answer \<Rightarrow> role_editor \<Rightarrow> role_editor" where
  "roles_loaded ans s =
     (let s1 = (case ans of
          RolesAre rs \<Rightarrow>
            let s2 = s\<lparr>rle_roles := rs\<rparr> in
            if rs = [] then s2\<lparr>rle_selected := None, rle_name := [], rle_permissions := 0\<rparr>
            else if truthy_str (rle_selected s2) then
              (case find (\<lambda>r. Some (ro_id r) = rle_selected s2) rs of
                 Some r \<Rightarrow> s2\<lparr>rle_selected := Some (ro_id r), rle_name := ro_name r, rle_permissions := ro_permissions r\<rparr>
               | None \<Rightarrow> s2)
            else s2\<lparr>rle_name := [], rle_permissions := 0\<rparr>
        | RoleFailed err \<Rightarrow> s\<lparr>rle_error := Some err\<rparr>
        | _ \<Rightarrow> s)
      in s1\<lparr>rle_loading := False\<rparr>)"

text \<open>\<^verbatim>\<open>splice\<close>: take the element at \<open>from\<close> out, put it back so that it is at \<open>to\<close>.\<close>

definition move_to :: "nat \<Rightarrow> nat \<Rightarrow> 'a list \<Rightarrow> 'a list" where
  "move_to source target xs =
     (let rest = take source xs @ drop (source + 1) xs in take target rest @ [xs ! source] @ drop target rest)"

definition handleDropRole :: "string \<Rightarrow> role_editor \<Rightarrow> role_editor" where
  "handleDropRole targetId s =
     (case rle_dragging s of
        None \<Rightarrow> s
      | Some d \<Rightarrow>
          if d = [] \<or> d = targetId then s
          else (case (find_index (\<lambda>r. ro_id r = d) (rle_roles s), find_index (\<lambda>r. ro_id r = targetId) (rle_roles s)) of
              (Some i, Some j) \<Rightarrow>
                let nxt = move_to i j (rle_roles s)
                in role_call_of (OrderRoles (map ro_id nxt) (rle_roles s)) (s\<lparr>rle_roles := nxt, rle_dragging := None\<rparr>)
            | _ \<Rightarrow> s))"

definition roles_ordered :: "role list \<Rightarrow> role_answer \<Rightarrow> role_editor \<Rightarrow> role_editor" where
  "roles_ordered previous ans s =
     (case ans of RoleFailed err \<Rightarrow> s\<lparr>rle_roles := previous, rle_error := Some err\<rparr> | _ \<Rightarrow> s)"

section \<open>The audit log\<close>

record 'e audit_log =
  al_entries :: "'e list option"
  al_next :: "string option"
  al_sequence :: nat
  al_loading :: bool
  al_loading_more :: bool
  al_error :: "string option"

datatype 'e audit_answer = AuditPage "'e list" "string option" | AuditFailed string

text \<open>The effect that loads the first page when the tab, the server or the filter changes; its cleanup.\<close>

definition open_audit :: "'e audit_log \<Rightarrow> 'e audit_log" where
  "open_audit s = s\<lparr>al_sequence := al_sequence s + 1, al_loading := True, al_loading_more := False, al_error := None,
                    al_entries := None, al_next := None\<rparr>"

definition leave_audit :: "nat \<Rightarrow> 'e audit_log \<Rightarrow> 'e audit_log" where
  "leave_audit n s = (if al_sequence s = n then s\<lparr>al_sequence := al_sequence s + 1\<rparr> else s)"

definition first_page :: "nat \<Rightarrow> 'e audit_answer \<Rightarrow> 'e audit_log \<Rightarrow> 'e audit_log" where
  "first_page n ans s =
     (if al_sequence s \<noteq> n then s
      else (case ans of
              AuditPage es b \<Rightarrow> s\<lparr>al_entries := Some es, al_next := b\<rparr>
            | AuditFailed err \<Rightarrow> s\<lparr>al_error := Some err\<rparr>)\<lparr>al_loading := False\<rparr>)"

text \<open>The sequence number the request for an older page goes out with, if it does.\<close>

definition loadOlderAuditLog :: "'e audit_log \<Rightarrow> nat option \<times> 'e audit_log" where
  "loadOlderAuditLog s =
     (if \<not> truthy_str (al_next s) \<or> al_loading_more s then (None, s)
      else (Some (al_sequence s), s\<lparr>al_loading_more := True, al_error := None\<rparr>))"

definition older_page :: "nat \<Rightarrow> 'e audit_answer \<Rightarrow> 'e audit_log \<Rightarrow> 'e audit_log" where
  "older_page n ans s =
     (if al_sequence s \<noteq> n then s
      else (case ans of
              AuditPage es b \<Rightarrow> s\<lparr>al_entries := Some (nullish (al_entries s) [] @ es), al_next := b\<rparr>
            | AuditFailed err \<Rightarrow> s\<lparr>al_error := Some err\<rparr>)\<lparr>al_loading_more := False\<rparr>)"

section \<open>Lemmas\<close>

lemma admin_has_manage: "PERM_MANAGE_SERVER AND ADMIN_MASK = PERM_MANAGE_SERVER"
  by (simp add: ADMIN_MASK_def PERM_MANAGE_SERVER_def perm_bit_def upt_rec)

text \<open>Switching full admin on gives every bit; off again gives back what there was.\<close>

lemma admin_on_off:
  assumes "rle_permissions s AND PERM_MANAGE_SERVER \<noteq> PERM_MANAGE_SERVER"
  shows "rle_permissions (handleToggleRolePermission b True True s) AND ADMIN_MASK = ADMIN_MASK"
    and "rle_permissions (handleToggleRolePermission b' True False (handleToggleRolePermission b True True s)) = rle_permissions s"
proof -
  show "rle_permissions (handleToggleRolePermission b True True s) AND ADMIN_MASK = ADMIN_MASK"
    by (rule bit_eqI) (auto simp: handleToggleRolePermission_def Let_def bit_and_iff bit_or_iff)
  show "rle_permissions (handleToggleRolePermission b' True False (handleToggleRolePermission b True True s)) = rle_permissions s"
    using assms by (simp add: handleToggleRolePermission_def Let_def)
qed

text \<open>Another switch sets or clears its bits and no others.\<close>

lemma toggle_bits:
  "bit (rle_permissions (handleToggleRolePermission b False checked s)) n =
     (if bit b n then checked \<and> n < 32 else bit (rle_permissions s) n)"
  by (auto simp: handleToggleRolePermission_def Let_def bit_and_iff bit_or_iff bit_not_iff dest: bit_imp_le_length)

lemma move_to_parts:
  assumes "i < length xs"
  obtains ys where "mset xs = add_mset (xs ! i) (mset ys)" and "length xs = Suc (length ys)"
    and "move_to i j xs = take j ys @ [xs ! i] @ drop j ys"
proof -
  define ys where "ys = take i xs @ drop (i + 1) xs"
  have "mset xs = mset (take i xs @ xs ! i # drop (Suc i) xs)" using id_take_nth_drop[OF assms] by simp
  then have "mset xs = add_mset (xs ! i) (mset ys)" by (simp add: ys_def)
  moreover have "length xs = Suc (length ys)" using assms by (simp add: ys_def)
  moreover have "move_to i j xs = take j ys @ [xs ! i] @ drop j ys" by (simp only: move_to_def ys_def Let_def)
  ultimately show ?thesis by (rule that)
qed

lemma move_to_mset: "i < length xs \<Longrightarrow> mset (move_to i j xs) = mset xs"
proof -
  assume "i < length xs"
  then obtain ys where x: "mset xs = add_mset (xs ! i) (mset ys)" and m: "move_to i j xs = take j ys @ [xs ! i] @ drop j ys"
    by (rule move_to_parts[of i xs j])
  have "mset (take j ys) + mset (drop j ys) = mset ys" by (metis append_take_drop_id mset_append)
  then show ?thesis unfolding m x by simp
qed

lemma move_to_at: "i < length xs \<Longrightarrow> j < length xs \<Longrightarrow> move_to i j xs ! j = xs ! i"
  by (erule move_to_parts[of i xs j]) (simp add: nth_append)

text \<open>A saved role closes the editor before the list is loaded again, so it cannot be saved twice from it.\<close>

lemma saved_closes: "ans = RoleSaved \<Longrightarrow> rle_selected (roles_reloaded ans' (role_saved ans s)) = None"
  by (simp add: role_saved_def roles_reloaded_def role_call_of_def handleCancelRoleEdit_def split: role_answer.split)

lemma stale_audit_page: "al_sequence s \<noteq> n \<Longrightarrow> older_page n ans s = s \<and> first_page n ans s = s"
  by (simp add: older_page_def first_page_def)

end
