(* ===== verification/RemoteMedia.thy ===== *)
theory RemoteMedia
  imports AppStore
begin

text \<open>
  What the other participants of a voice room send: \<^verbatim>\<open>src/webrtc/remoteMediaControls.ts\<close> and the part of
  \<^verbatim>\<open>src/webrtc/useLiveKitVoice.ts\<close> that decides which of their publications to subscribe to, collects their
  tracks into one stream per participant, mutes them while the user is deafened, and plays the sounds of screen
  shares. Publications and tracks are objects that several maps refer to, so the state holds them in a store
  by their ids. The LiveKit room is the environment: it delivers its events with what it now has, and is told
  what to subscribe to.
\<close>

section \<open>Publications and tracks\<close>

datatype track_source = SourceMicrophone | SourceCamera | SourceScreen | SourceScreenAudio | SourceUnknown

datatype track_kind = AudioKind | VideoKind

datatype remote_media_kind = CameraMedia | ScreenMedia

datatype audio_source = VoiceAudio | ScreenAudio

datatype remote_audio_kind = MicAudio | SharedAudio

record remote_track =
  mt_kind :: track_kind
  mt_enabled :: bool
  mt_ended :: bool
  mt_audio_source :: "audio_source option"
  mt_is_screen_audio :: bool
  mt_is_camera :: bool
  mt_is_screen :: bool

record publication =
  pb_source :: track_source
  pb_kind :: track_kind
  pb_muted :: bool
  pb_subscribed :: bool
  pb_track :: "string option"

definition remoteMediaVisibilityKey :: "string \<Rightarrow> string \<Rightarrow> remote_media_kind \<Rightarrow> string" where
  "remoteMediaVisibilityKey channelId peerId kind =
     channelId @ '':'' @ peerId @ '':'' @ (case kind of CameraMedia \<Rightarrow> ''camera'' | ScreenMedia \<Rightarrow> ''screen'')"

definition isScreenShareAudioTrack :: "remote_track \<Rightarrow> bool" where
  "isScreenShareAudioTrack t \<longleftrightarrow> mt_audio_source t = Some ScreenAudio \<or> mt_is_screen_audio t"

definition markRemoteAudioTrackSource :: "audio_source \<Rightarrow> remote_track \<Rightarrow> remote_track" where
  "markRemoteAudioTrackSource src t = t\<lparr>mt_audio_source := Some src, mt_is_screen_audio := (src = ScreenAudio)\<rparr>"

definition markRemoteVideoTrackSource :: "remote_media_kind \<Rightarrow> remote_track \<Rightarrow> remote_track" where
  "markRemoteVideoTrackSource src t = t\<lparr>mt_is_camera := (src = CameraMedia), mt_is_screen := (src = ScreenMedia)\<rparr>"

definition setRemoteMicrophoneTrackPlaybackMuted :: "bool \<Rightarrow> remote_track \<Rightarrow> remote_track" where
  "setRemoteMicrophoneTrackPlaybackMuted muted t =
     (if mt_kind t \<noteq> AudioKind \<or> isScreenShareAudioTrack t then t else t\<lparr>mt_enabled := \<not> muted\<rparr>)"

definition is_microphone :: "remote_track \<Rightarrow> bool" where
  "is_microphone t \<longleftrightarrow> mt_kind t = AudioKind \<and> \<not> isScreenShareAudioTrack t"

definition shouldMuteRemoteAudioPlayback :: "remote_audio_kind \<Rightarrow> bool \<Rightarrow> bool" where
  "shouldMuteRemoteAudioPlayback kind voiceDeafened \<longleftrightarrow> kind = MicAudio \<and> voiceDeafened"

definition shouldUseDirectRemoteAudioPlayback :: "remote_audio_kind \<Rightarrow> bool \<Rightarrow> bool \<Rightarrow> nat \<Rightarrow> real \<Rightarrow> bool" where
  "shouldUseDirectRemoteAudioPlayback kind lightweightMobileVoice desktopRuntime audioTrackCount factor \<longleftrightarrow>
     kind = SharedAudio \<or> desktopRuntime \<or> lightweightMobileVoice \<or> audioTrackCount = 0 \<or> factor \<le> 1"

section \<open>Which publications to subscribe to\<close>

definition shouldSubscribeRemoteTrack :: "track_kind \<Rightarrow> bool \<Rightarrow> bool \<Rightarrow> bool" where
  "shouldSubscribeRemoteTrack kind appVisible userHidden \<longleftrightarrow>
     (if userHidden then False else kind = AudioKind \<or> appVisible)"

definition shouldSubscribeRemotePublication :: "track_source \<Rightarrow> track_kind \<Rightarrow> bool \<Rightarrow> bool \<Rightarrow> bool \<Rightarrow> bool" where
  "shouldSubscribeRemotePublication src kind appVisible userHidden screenShareWatched \<longleftrightarrow>
     (if src = SourceScreenAudio then \<not> userHidden \<and> screenShareWatched
      else if src = SourceScreen then \<not> userHidden \<and> appVisible \<and> screenShareWatched
      else shouldSubscribeRemoteTrack kind appVisible userHidden)"

definition remoteMediaKindForSource :: "track_source \<Rightarrow> remote_media_kind option" where
  "remoteMediaKindForSource src =
     (if src = SourceCamera then Some CameraMedia
      else if src = SourceScreen \<or> src = SourceScreenAudio then Some ScreenMedia else None)"

definition remoteMediaSubscriptionKey :: "string \<Rightarrow> remote_media_kind \<Rightarrow> string" where
  "remoteMediaSubscriptionKey peerId kind =
     peerId @ '':'' @ (case kind of CameraMedia \<Rightarrow> ''camera'' | ScreenMedia \<Rightarrow> ''screen'')"

section \<open>State\<close>

text \<open>
  What the client tells its environment, newest first: a subscription request with the source of the
  publication, the message \<^verbatim>\<open>SetScreenShareWatching\<close>, the sound of a share that starts or stops.
\<close>

datatype remote_effect =
  Subscribe string string track_source bool
| Watching string bool
| ShareSound string bool

record remote_state =
  rm_room :: bool
  rm_channel :: string
  rm_participants :: "string list obj"
  rm_publications :: "publication obj"
  rm_tracks :: "remote_track obj"
  rm_streams :: "string list obj"
  rm_screen_ids :: "string list"
  rm_monitors :: "string list obj"
  rm_cue_keys :: "string list"
  rm_cue_ready :: bool
  rm_stop_timers :: "string list"
  rm_retries :: "(string \<times> string \<times> string) list"
  rm_hidden :: "string list"
  rm_watched :: "string list"
  rm_playback_muted :: bool
  rm_visible :: bool
  rm_app :: app_state
  rm_log :: "remote_effect list"

definition tell :: "remote_effect \<Rightarrow> remote_state \<Rightarrow> remote_state" where
  "tell e s = s\<lparr>rm_log := e # rm_log s\<rparr>"

definition in_store :: "(app_state \<Rightarrow> app_state) \<Rightarrow> remote_state \<Rightarrow> remote_state" where
  "in_store f s = s\<lparr>rm_app := f (rm_app s)\<rparr>"

definition on_track :: "string \<Rightarrow> (remote_track \<Rightarrow> remote_track) \<Rightarrow> remote_state \<Rightarrow> remote_state" where
  "on_track i f s = s\<lparr>rm_tracks := map (\<lambda>(k, t). (k, if k = i then f t else t)) (rm_tracks s)\<rparr>"

abbreviation stream_of :: "string \<Rightarrow> remote_state \<Rightarrow> string list" where
  "stream_of peer s \<equiv> nullish (obj_get (rm_streams s) peer) []"

abbreviation publications_of :: "string \<Rightarrow> remote_state \<Rightarrow> string list" where
  "publications_of peer s \<equiv> nullish (obj_get (rm_participants s) peer) []"

definition track_is :: "(remote_track \<Rightarrow> bool) \<Rightarrow> remote_state \<Rightarrow> string \<Rightarrow> bool" where
  "track_is P s i \<longleftrightarrow> (case obj_get (rm_tracks s) i of None \<Rightarrow> False | Some t \<Rightarrow> P t)"

section \<open>Subscriptions\<close>

definition wants :: "remote_state \<Rightarrow> string \<Rightarrow> publication \<Rightarrow> bool" where
  "wants s peer p =
     shouldSubscribeRemotePublication (pb_source p) (pb_kind p) (rm_visible s)
       (case remoteMediaKindForSource (pb_source p) of
          None \<Rightarrow> False | Some k \<Rightarrow> remoteMediaSubscriptionKey peer k \<in> set (rm_hidden s))
       (peer \<in> set (rm_watched s))"

definition syncRemotePublicationSubscription :: "string \<Rightarrow> string \<Rightarrow> remote_state \<Rightarrow> remote_state" where
  "syncRemotePublicationSubscription peer sid s =
     (case obj_get (rm_publications s) sid of
        None \<Rightarrow> s
      | Some p \<Rightarrow> if pb_subscribed p \<noteq> wants s peer p
                  then tell (Subscribe peer sid (pb_source p) (wants s peer p)) s else s)"

definition sync_participant :: "string \<Rightarrow> remote_state \<Rightarrow> remote_state" where
  "sync_participant peer s = fold (syncRemotePublicationSubscription peer) (publications_of peer s) s"

definition syncRemoteSubscriptions :: "remote_state \<Rightarrow> remote_state" where
  "syncRemoteSubscriptions s = fold sync_participant (obj_keys (rm_participants s)) s"

definition retryRemotePublicationSubscription :: "string \<Rightarrow> string \<Rightarrow> remote_state \<Rightarrow> remote_state" where
  "retryRemotePublicationSubscription peer sid s =
     (let retryKey = peer @ '':'' @ sid in
      if obj_get (rm_retries s) retryKey \<noteq> None then s
      else case obj_get (rm_publications s) sid of
        None \<Rightarrow> s
      | Some p \<Rightarrow>
          let s1 = (if pb_subscribed p then tell (Subscribe peer sid (pb_source p) False) s else s)
          in s1\<lparr>rm_retries := obj_put retryKey (peer, sid) (rm_retries s1)\<rparr>)"

definition retry_fired :: "string \<Rightarrow> remote_state \<Rightarrow> remote_state" where
  "retry_fired key s =
     (case obj_get (rm_retries s) key of
        None \<Rightarrow> s
      | Some (peer, sid) \<Rightarrow>
          syncRemotePublicationSubscription peer sid (s\<lparr>rm_retries := obj_del key (rm_retries s)\<rparr>))"

text \<open>One publication of the participant whose camera or screen the user shows or hides.\<close>

definition apply_choice :: "string \<Rightarrow> remote_media_kind \<Rightarrow> bool \<Rightarrow> string \<Rightarrow> remote_state \<Rightarrow> remote_state" where
  "apply_choice peer kind subscribed sid s =
     (case obj_get (rm_publications s) sid of
        None \<Rightarrow> s
      | Some p \<Rightarrow>
          if remoteMediaKindForSource (pb_source p) \<noteq> Some kind then s
          else if \<not> subscribed then
            if pb_subscribed p then tell (Subscribe peer sid (pb_source p) False) s else s
          else if shouldSubscribeRemotePublication (pb_source p) (pb_kind p) (rm_visible s) False
                    (kind \<noteq> ScreenMedia \<or> peer \<in> set (rm_watched s)) \<and> \<not> pb_subscribed p
          then tell (Subscribe peer sid (pb_source p) True) s else s)"

definition setRemoteMediaSubscribed :: "string \<Rightarrow> remote_media_kind \<Rightarrow> bool \<Rightarrow> remote_state \<Rightarrow> remote_state" where
  "setRemoteMediaSubscribed peer kind subscribed s =
     (let key = remoteMediaSubscriptionKey peer kind;
          s1 = (if kind = ScreenMedia then
                  tell (Watching peer subscribed)
                    (s\<lparr>rm_watched := (if subscribed then set_add peer (rm_watched s) else removeAll peer (rm_watched s)),
                       rm_hidden := removeAll key (rm_hidden s)\<rparr>)
                else if subscribed then s\<lparr>rm_hidden := removeAll key (rm_hidden s)\<rparr>
                else s\<lparr>rm_hidden := set_add key (rm_hidden s)\<rparr>)
      in if rm_room s1 then fold (apply_choice peer kind subscribed) (publications_of peer s1) s1 else s1)"

definition visibility_changed :: "bool \<Rightarrow> remote_state \<Rightarrow> remote_state" where
  "visibility_changed visible s =
     (let s1 = s\<lparr>rm_visible := visible\<rparr> in if rm_room s1 then syncRemoteSubscriptions s1 else s1)"

section \<open>Presence and the state of a participant's media\<close>

definition getVoiceChannelServerId :: "string \<Rightarrow> app_state \<Rightarrow> string option" where
  "getVoiceChannelServerId channelId a =
     (case find (\<lambda>c. ch_id c = channelId) (channels a) of
        Some c \<Rightarrow> Some (ch_server_id c)
      | None \<Rightarrow> map_option fst (find (\<lambda>(sid, cs). \<exists>c \<in> set cs. ch_id c = channelId) (channelsByServerId a)))"

definition reconcileLiveKitVoicePresence :: "real \<Rightarrow> string \<Rightarrow> string \<Rightarrow> bool \<Rightarrow> app_state \<Rightarrow> app_state" where
  "reconcileLiveKitVoicePresence now participantId channelId isConnected a =
     (if participantId = [] \<or> channelId = [] then a
      else if isConnected then
        setVoiceStateServerId participantId (getVoiceChannelServerId channelId a)
          (setVoiceState now participantId (Some channelId) None a)
      else if nullish (obj_get (voiceStates a) participantId) None \<noteq> Some channelId then a
      else setVoiceStateServerId participantId None (setVoiceState now participantId None None a))"

definition has_live :: "track_source \<Rightarrow> string \<Rightarrow> remote_state \<Rightarrow> bool" where
  "has_live src peer s \<longleftrightarrow>
     list_ex (\<lambda>sid. case obj_get (rm_publications s) sid of None \<Rightarrow> False | Some p \<Rightarrow> \<not> pb_muted p \<and> pb_source p = src)
       (publications_of peer s)"

definition syncParticipantMediaState :: "string \<Rightarrow> remote_state \<Rightarrow> remote_state" where
  "syncParticipantMediaState peer s =
     in_store (\<lambda>a. setVoiceControl peer (vc_get a peer vc_muted) (vc_get a peer vc_deafened) (has_live SourceScreen peer s) None None
                     (setVoiceCamera peer (has_live SourceCamera peer s) a)) s"

section \<open>Sounds of screen shares\<close>

definition remoteMediaStartCueKey :: "string \<Rightarrow> remote_media_kind \<Rightarrow> string" where
  "remoteMediaStartCueKey peerId kind =
     peerId @ '':'' @ (case kind of CameraMedia \<Rightarrow> ''camera'' | ScreenMedia \<Rightarrow> ''screen'')"

definition cancelRemoteScreenStopCue :: "string \<Rightarrow> remote_state \<Rightarrow> remote_state" where
  "cancelRemoteScreenStopCue peer s = s\<lparr>rm_stop_timers := removeAll peer (rm_stop_timers s)\<rparr>"

definition rememberExistingRemoteMedia :: "string \<Rightarrow> remote_state \<Rightarrow> remote_state" where
  "rememberExistingRemoteMedia peer s =
     (if list_ex (\<lambda>sid. case obj_get (rm_publications s) sid of None \<Rightarrow> False | Some p \<Rightarrow> pb_source p = SourceScreen)
           (publications_of peer s)
      then s\<lparr>rm_cue_keys := set_add (remoteMediaStartCueKey peer ScreenMedia) (rm_cue_keys s)\<rparr> else s)"

definition playRemoteMediaStartCue :: "string \<Rightarrow> remote_state \<Rightarrow> remote_state" where
  "playRemoteMediaStartCue peer s =
     (let s1 = cancelRemoteScreenStopCue peer s; key = remoteMediaStartCueKey peer ScreenMedia in
      if key \<in> set (rm_cue_keys s1) then s1
      else let s2 = s1\<lparr>rm_cue_keys := set_add key (rm_cue_keys s1)\<rparr>
           in if rm_cue_ready s2 then tell (ShareSound peer True) s2 else s2)"

definition scheduleRemoteMediaStopCue :: "string \<Rightarrow> remote_state \<Rightarrow> remote_state" where
  "scheduleRemoteMediaStopCue peer s =
     (let key = remoteMediaStartCueKey peer ScreenMedia; wasActive = (key \<in> set (rm_cue_keys s));
          s1 = s\<lparr>rm_cue_keys := removeAll key (rm_cue_keys s)\<rparr>
      in if wasActive \<and> rm_cue_ready s1
         then s1\<lparr>rm_stop_timers := removeAll peer (rm_stop_timers s1) @ [peer]\<rparr> else s1)"

definition stop_cue_fired :: "string \<Rightarrow> remote_state \<Rightarrow> remote_state" where
  "stop_cue_fired peer s =
     (if peer \<in> set (rm_stop_timers s)
      then tell (ShareSound peer False) (s\<lparr>rm_stop_timers := removeAll peer (rm_stop_timers s)\<rparr>) else s)"

definition clearRemoteMediaStartCue :: "string \<Rightarrow> remote_state \<Rightarrow> remote_state" where
  "clearRemoteMediaStartCue peer s =
     s\<lparr>rm_cue_keys := removeAll (remoteMediaStartCueKey peer ScreenMedia)
        (removeAll (remoteMediaStartCueKey peer CameraMedia) (rm_cue_keys s))\<rparr>"

section \<open>Streams\<close>

definition closePeer :: "bool \<Rightarrow> string \<Rightarrow> remote_state \<Rightarrow> remote_state" where
  "closePeer preserveMediaCue peer s =
     (let s1 = (if preserveMediaCue then s else clearRemoteMediaStartCue peer (cancelRemoteScreenStopCue peer s));
          s2 = s1\<lparr>rm_monitors := obj_del peer (rm_monitors s1), rm_streams := obj_del peer (rm_streams s1)\<rparr>
      in in_store (\<lambda>a.
           let existing = obj_get (voiceControls a) peer;
               a1 = setVoiceCamera peer False
                      (setVoiceSpeaking (filter (\<lambda>i. i \<noteq> peer) (voiceSpeakingUserIds a)) (voiceLocalSpeaking a) a)
           in case existing of
                None \<Rightarrow> a1
              | Some c \<Rightarrow> setVoiceControl peer (vc_muted c) (vc_deafened c) False None None a1) s2)"

definition restartRemoteSpeakingMonitor :: "string \<Rightarrow> remote_state \<Rightarrow> remote_state" where
  "restartRemoteSpeakingMonitor peer s =
     (let voiceTracks = filter (track_is (\<lambda>t. is_microphone t \<and> \<not> mt_ended t) s) (stream_of peer s)
      in s\<lparr>rm_monitors := (if voiceTracks = [] then obj_del peer (rm_monitors s)
                           else obj_put peer voiceTracks (obj_del peer (rm_monitors s)))\<rparr>)"

definition speaking_heard :: "string \<Rightarrow> bool \<Rightarrow> remote_state \<Rightarrow> remote_state" where
  "speaking_heard peer speaking s =
     (if obj_get (rm_monitors s) peer = None then s
      else in_store (\<lambda>a. setVoiceSpeaking
             (if speaking then set_add peer (voiceSpeakingUserIds a) else removeAll peer (voiceSpeakingUserIds a))
             (voiceLocalSpeaking a) a) s)"

definition removeRemoteTrack :: "string \<Rightarrow> string \<Rightarrow> remote_state \<Rightarrow> remote_state" where
  "removeRemoteTrack peer trackId s =
     (if trackId \<notin> set (stream_of peer s) then s
      else
        let rest = removeAll trackId (stream_of peer s);
            s1 = s\<lparr>rm_streams := obj_put peer rest (rm_streams s), rm_screen_ids := removeAll trackId (rm_screen_ids s)\<rparr>
        in if rest = [] then closePeer True peer s1
           else if track_is (\<lambda>t. mt_kind t = AudioKind) s1 trackId then restartRemoteSpeakingMonitor peer s1 else s1)"

section \<open>Events of the room\<close>

text \<open>
  Each begins with what the room has changed before it calls its listener. A track handed over for the first time
  brings its properties \<open>t\<close>; later events find it in the store.
\<close>

definition put_publication :: "string \<Rightarrow> publication \<Rightarrow> remote_state \<Rightarrow> remote_state" where
  "put_publication sid p s = s\<lparr>rm_publications := obj_put sid p (rm_publications s)\<rparr>"

definition change_publication :: "string \<Rightarrow> (publication \<Rightarrow> publication) \<Rightarrow> remote_state \<Rightarrow> remote_state" where
  "change_publication sid f s =
     (case obj_get (rm_publications s) sid of None \<Rightarrow> s | Some p \<Rightarrow> put_publication sid (f p) s)"

definition remote_published :: "string \<Rightarrow> string \<Rightarrow> publication \<Rightarrow> remote_state \<Rightarrow> remote_state" where
  "remote_published peer sid p s =
     (let s1 = (put_publication sid p s)\<lparr>rm_participants := obj_put peer (set_add sid (publications_of peer s)) (rm_participants s)\<rparr>;
          s2 = (if pb_source p = SourceScreen then playRemoteMediaStartCue peer s1 else s1)
      in syncParticipantMediaState peer (syncRemotePublicationSubscription peer sid s2))"

text \<open>A track of the stream gives way to the new one when it has ended or comes from the same source.\<close>

definition displaced :: "string \<Rightarrow> track_source \<Rightarrow> remote_state \<Rightarrow> string \<Rightarrow> bool" where
  "displaced i src s j \<longleftrightarrow>
     (case (obj_get (rm_tracks s) i, obj_get (rm_tracks s) j) of
        (Some t, Some u) \<Rightarrow>
          \<not> (j = i \<or> mt_kind u \<noteq> mt_kind t) \<and>
          (mt_ended u \<or>
           (if mt_kind t = AudioKind then isScreenShareAudioTrack u = (src = SourceScreenAudio)
            else if src = SourceScreen then j \<in> set (rm_screen_ids s) else j \<notin> set (rm_screen_ids s)))
      | _ \<Rightarrow> False)"

definition mark_source :: "string \<Rightarrow> track_source \<Rightarrow> remote_state \<Rightarrow> remote_state" where
  "mark_source i src s =
     (let s1 = (case src of
          SourceScreen \<Rightarrow> (on_track i (markRemoteVideoTrackSource ScreenMedia) s)\<lparr>rm_screen_ids := set_add i (rm_screen_ids s)\<rparr>
        | SourceScreenAudio \<Rightarrow> on_track i (markRemoteAudioTrackSource ScreenAudio) s
        | SourceCamera \<Rightarrow> (on_track i (markRemoteVideoTrackSource CameraMedia) s)\<lparr>rm_screen_ids := removeAll i (rm_screen_ids s)\<rparr>
        | _ \<Rightarrow> s)
      in if track_is (\<lambda>t. mt_kind t = AudioKind) s1 i \<and> src \<noteq> SourceScreenAudio
         then on_track i (markRemoteAudioTrackSource VoiceAudio) s1 else s1)"

definition add_to_stream :: "string \<Rightarrow> string \<Rightarrow> track_source \<Rightarrow> remote_state \<Rightarrow> remote_state" where
  "add_to_stream peer i src s =
     s\<lparr>rm_streams := obj_put peer (set_add i (filter (\<lambda>j. \<not> displaced i src s j) (stream_of peer s))) (rm_streams s),
       rm_screen_ids := filter (\<lambda>j. j \<notin> set (stream_of peer s) \<or> \<not> displaced i src s j) (rm_screen_ids s)\<rparr>"

definition receive_track :: "string \<Rightarrow> string \<Rightarrow> string \<Rightarrow> remote_track \<Rightarrow> publication \<Rightarrow> remote_state \<Rightarrow> remote_state" where
  "receive_track peer sid i t p s =
     (let s1 = put_publication sid (p\<lparr>pb_subscribed := True, pb_track := Some i\<rparr>)
                 (s\<lparr>rm_tracks := (if obj_get (rm_tracks s) i = None then obj_put i t (rm_tracks s) else rm_tracks s)\<rparr>)
      in add_to_stream peer i (pb_source p)
           (on_track i (setRemoteMicrophoneTrackPlaybackMuted (rm_playback_muted s)) (mark_source i (pb_source p) s1)))"

definition track_subscribed :: "string \<Rightarrow> string \<Rightarrow> string \<Rightarrow> remote_track \<Rightarrow> remote_state \<Rightarrow> remote_state" where
  "track_subscribed peer sid i t s =
     (case obj_get (rm_publications s) sid of
        None \<Rightarrow> s
      | Some p \<Rightarrow>
          let s1 = receive_track peer sid i t p s
          in syncParticipantMediaState peer
               (if track_is (\<lambda>u. mt_kind u = AudioKind) s1 i then restartRemoteSpeakingMonitor peer s1 else s1))"

text \<open>The handler that \<^verbatim>\<open>createRemoteTrackMuteChangeHandler\<close> makes, for a remote participant.\<close>

definition mute_changed :: "string \<Rightarrow> string \<Rightarrow> bool \<Rightarrow> remote_state \<Rightarrow> remote_state" where
  "mute_changed peer sid muted s =
     (case obj_get (rm_publications s) sid of
        None \<Rightarrow> s
      | Some p \<Rightarrow>
          let s1 = put_publication sid (p\<lparr>pb_muted := muted\<rparr>) s;
              s2 = (case pb_track p of
                      None \<Rightarrow> s1
                    | Some i \<Rightarrow>
                        if \<not> track_is (\<lambda>t. mt_kind t = AudioKind) s1 i then s1
                        else
                          let src = (if pb_source p = SourceScreenAudio then ScreenAudio else VoiceAudio);
                              s3 = on_track i (markRemoteAudioTrackSource src) s1
                          in if src = VoiceAudio \<and> rm_playback_muted s3
                             then on_track i (setRemoteMicrophoneTrackPlaybackMuted True) s3 else s3)
          in syncParticipantMediaState peer s2)"

text \<open>\<^verbatim>\<open>onmute\<close>, \<^verbatim>\<open>onunmute\<close> and \<^verbatim>\<open>onended\<close> of a track in a stream\<close>

definition track_unmuted :: "string \<Rightarrow> string \<Rightarrow> remote_state \<Rightarrow> remote_state" where
  "track_unmuted peer i s =
     syncParticipantMediaState peer (on_track i (setRemoteMicrophoneTrackPlaybackMuted (rm_playback_muted s)) s)"

definition track_ended :: "string \<Rightarrow> string \<Rightarrow> remote_state \<Rightarrow> remote_state" where
  "track_ended peer i s =
     removeRemoteTrack peer i (syncParticipantMediaState peer (on_track i (\<lambda>t. t\<lparr>mt_ended := True\<rparr>) s))"

definition track_unpublished :: "string \<Rightarrow> string \<Rightarrow> remote_state \<Rightarrow> remote_state" where
  "track_unpublished peer sid s =
     (case obj_get (rm_publications s) sid of
        None \<Rightarrow> s
      | Some p \<Rightarrow>
          let s1 = s\<lparr>rm_participants := obj_put peer (removeAll sid (publications_of peer s)) (rm_participants s)\<rparr>;
              s2 = (if pb_source p = SourceScreen
                    then (scheduleRemoteMediaStopCue peer s1)\<lparr>rm_watched := removeAll peer (rm_watched s1)\<rparr> else s1)
          in syncParticipantMediaState peer s2)"

definition track_unsubscribed :: "string \<Rightarrow> string \<Rightarrow> string \<Rightarrow> remote_state \<Rightarrow> remote_state" where
  "track_unsubscribed peer sid i s =
     syncParticipantMediaState peer
       (removeRemoteTrack peer i (change_publication sid (\<lambda>p. p\<lparr>pb_subscribed := False, pb_track := None\<rparr>) s))"

definition subscription_failed :: "string \<Rightarrow> string \<Rightarrow> remote_state \<Rightarrow> remote_state" where
  "subscription_failed peer sid s =
     (if sid \<in> set (publications_of peer s) then retryRemotePublicationSubscription peer sid s else s)"

definition peer_disconnected :: "real \<Rightarrow> string \<Rightarrow> remote_state \<Rightarrow> remote_state" where
  "peer_disconnected now peer s =
     (let s1 = in_store (reconcileLiveKitVoicePresence now peer (rm_channel s) False)
                 (s\<lparr>rm_participants := obj_del peer (rm_participants s)\<rparr>);
          s2 = s1\<lparr>rm_hidden := removeAll (remoteMediaSubscriptionKey peer ScreenMedia)
                    (removeAll (remoteMediaSubscriptionKey peer CameraMedia) (rm_hidden s1)),
                  rm_watched := removeAll peer (rm_watched s1)\<rparr>
      in closePeer False peer s2)"

definition put_peer :: "string \<Rightarrow> (string \<times> publication) list \<Rightarrow> remote_state \<Rightarrow> remote_state" where
  "put_peer peer pubs s =
     (fold (\<lambda>(sid, p). put_publication sid p) pubs s)\<lparr>rm_participants := obj_put peer (map fst pubs) (rm_participants s)\<rparr>"

definition peer_connected :: "real \<Rightarrow> string \<Rightarrow> (string \<times> publication) list \<Rightarrow> remote_state \<Rightarrow> remote_state" where
  "peer_connected now peer pubs s =
     (let s1 = in_store (reconcileLiveKitVoicePresence now peer (rm_channel s) True) (put_peer peer pubs s)
      in syncParticipantMediaState peer (sync_participant peer s1))"

text \<open>The participants found when the room is connected.\<close>

definition hydrate_peer :: "real \<Rightarrow> string \<Rightarrow> remote_state \<Rightarrow> remote_state" where
  "hydrate_peer now peer s =
     syncParticipantMediaState peer (sync_participant peer (rememberExistingRemoteMedia peer
       (in_store (reconcileLiveKitVoicePresence now peer (rm_channel s) True) s)))"

definition room_opened :: "string \<Rightarrow> remote_state \<Rightarrow> remote_state" where
  "room_opened channelId s =
     s\<lparr>rm_room := True, rm_channel := channelId, rm_participants := [], rm_cue_keys := [], rm_cue_ready := False, rm_stop_timers := []\<rparr>"

definition room_hydrated :: "real \<Rightarrow> (string \<times> (string \<times> publication) list) list \<Rightarrow> remote_state \<Rightarrow> remote_state" where
  "room_hydrated now peers s =
     (let s1 = fold (\<lambda>(peer, pubs). put_peer peer pubs) peers (s\<lparr>rm_participants := []\<rparr>)
      in (fold (hydrate_peer now) (obj_keys (rm_participants s1)) s1)\<lparr>rm_cue_ready := True\<rparr>)"

text \<open>After a reconnection: tracks that are subscribed to but in no stream are asked for again.\<close>

definition recover_publication :: "string \<Rightarrow> string \<Rightarrow> remote_state \<Rightarrow> remote_state" where
  "recover_publication peer sid s =
     (case obj_get (rm_publications s) sid of
        None \<Rightarrow> s
      | Some p \<Rightarrow>
          (case pb_track p of
             None \<Rightarrow> s
           | Some i \<Rightarrow>
               let s1 = on_track i (setRemoteMicrophoneTrackPlaybackMuted (rm_playback_muted s)) s
               in if pb_subscribed p \<and> i \<notin> set (stream_of peer s1)
                  then retryRemotePublicationSubscription peer sid s1 else s1))"

definition recover_peer :: "real \<Rightarrow> string \<Rightarrow> remote_state \<Rightarrow> remote_state" where
  "recover_peer now peer s =
     (let s1 = in_store (reconcileLiveKitVoicePresence now peer (rm_channel s) True) s
      in syncParticipantMediaState peer (fold (recover_publication peer) (publications_of peer s1) s1))"

definition media_reconnected :: "real \<Rightarrow> remote_state \<Rightarrow> remote_state" where
  "media_reconnected now s =
     (if rm_room s then fold (recover_peer now) (obj_keys (rm_participants s)) (syncRemoteSubscriptions s) else s)"

section \<open>Deafening, leaving\<close>

definition setRemoteMicrophonePlaybackMuted :: "bool \<Rightarrow> remote_state \<Rightarrow> remote_state" where
  "setRemoteMicrophonePlaybackMuted muted s =
     fold (\<lambda>i. on_track i (setRemoteMicrophoneTrackPlaybackMuted muted)) (concat (obj_values (rm_streams s)))
       (s\<lparr>rm_playback_muted := muted\<rparr>)"

definition leave_remote :: "remote_state \<Rightarrow> remote_state" where
  "leave_remote s =
     s\<lparr>rm_room := False, rm_cue_ready := False, rm_cue_keys := [], rm_stop_timers := [], rm_retries := [], rm_hidden := [],
       rm_watched := [], rm_monitors := [], rm_streams := []\<rparr>"

definition drop_remote :: "remote_state \<Rightarrow> remote_state" where
  "drop_remote s =
     s\<lparr>rm_room := False, rm_cue_ready := False, rm_cue_keys := [], rm_stop_timers := [], rm_retries := [], rm_monitors := [],
       rm_streams := []\<rparr>"

section \<open>Runs\<close>

datatype remote_op =
  RoomOpened string
| RoomHydrated real "(string \<times> (string \<times> publication) list) list"
| PeerConnected real string "(string \<times> publication) list"
| PeerDisconnected real string
| TrackPublished string string publication
| TrackUnpublished string string
| TrackSubscribed string string string remote_track
| TrackUnsubscribed string string string
| SubscriptionFailed string string
| MuteChanged string string bool
| TrackUnmuted string string
| TrackEnded string string
| MediaReconnected real
| VisibilityChanged bool
| RetryFired string
| StopCueFired string
| SpeakingHeard string bool
| MediaChosen string remote_media_kind bool
| PlaybackMuted bool
| LeftVoice
| JoinFailed

fun remote_step :: "remote_op \<Rightarrow> remote_state \<Rightarrow> remote_state" where
  "remote_step (RoomOpened c) = room_opened c"
| "remote_step (RoomHydrated now peers) = room_hydrated now peers"
| "remote_step (PeerConnected now peer pubs) = peer_connected now peer pubs"
| "remote_step (PeerDisconnected now peer) = peer_disconnected now peer"
| "remote_step (TrackPublished peer sid p) = remote_published peer sid p"
| "remote_step (TrackUnpublished peer sid) = track_unpublished peer sid"
| "remote_step (TrackSubscribed peer sid i t) = track_subscribed peer sid i t"
| "remote_step (TrackUnsubscribed peer sid i) = track_unsubscribed peer sid i"
| "remote_step (SubscriptionFailed peer sid) = subscription_failed peer sid"
| "remote_step (MuteChanged peer sid b) = mute_changed peer sid b"
| "remote_step (TrackUnmuted peer i) = track_unmuted peer i"
| "remote_step (TrackEnded peer i) = track_ended peer i"
| "remote_step (MediaReconnected now) = media_reconnected now"
| "remote_step (VisibilityChanged b) = visibility_changed b"
| "remote_step (RetryFired k) = retry_fired k"
| "remote_step (StopCueFired peer) = stop_cue_fired peer"
| "remote_step (SpeakingHeard peer b) = speaking_heard peer b"
| "remote_step (MediaChosen peer kind b) = setRemoteMediaSubscribed peer kind b"
| "remote_step (PlaybackMuted b) = setRemoteMicrophonePlaybackMuted b"
| "remote_step LeftVoice = leave_remote"
| "remote_step JoinFailed = drop_remote"

definition init_remote :: "app_state \<Rightarrow> remote_state" where
  "init_remote a =
     \<lparr>rm_room = False, rm_channel = [], rm_participants = [], rm_publications = [], rm_tracks = [], rm_streams = [],
      rm_screen_ids = [], rm_monitors = [], rm_cue_keys = [], rm_cue_ready = False, rm_stop_timers = [], rm_retries = [],
      rm_hidden = [], rm_watched = [], rm_playback_muted = False, rm_visible = True, rm_app = a, rm_log = []\<rparr>"

definition remote_run :: "remote_op list \<Rightarrow> app_state \<Rightarrow> remote_state" where
  "remote_run ops a = fold remote_step ops (init_remote a)"

end
