(* ===== verification/RemoteMediaLaws.thy ===== *)
theory RemoteMediaLaws
  imports RemoteMedia
begin

text \<open>
  What holds of the media of the other participants after any sequence of events and choices: a deafened user
  hears no voice, a screen share is only asked for while it is watched, and, when tracks come as the room delivers
  them, a stream holds at most one track of every source and a speaking monitor listens to microphones only.
\<close>

named_theorems remote_frame \<open>fields an operation leaves alone\<close>

section \<open>Frames\<close>

lemma obj_get_change:
  "obj_get (map (\<lambda>(k, t). (k, if k = i then f t else t)) ts) j = (if j = i then map_option f (obj_get ts j) else obj_get ts j)"
  by (induction ts) auto

lemma obj_get_on_track [simp]:
  "obj_get (rm_tracks (on_track i f s)) j = (if j = i then map_option f (obj_get (rm_tracks s) j) else obj_get (rm_tracks s) j)"
  by (simp add: on_track_def obj_get_change)

lemma on_track_fields [simp]:
  "rm_streams (on_track i f s) = rm_streams s" "rm_playback_muted (on_track i f s) = rm_playback_muted s"
  "rm_watched (on_track i f s) = rm_watched s" "rm_log (on_track i f s) = rm_log s"
  "rm_screen_ids (on_track i f s) = rm_screen_ids s" "rm_publications (on_track i f s) = rm_publications s"
  "rm_monitors (on_track i f s) = rm_monitors s" "rm_participants (on_track i f s) = rm_participants s"
  "rm_room (on_track i f s) = rm_room s" "rm_visible (on_track i f s) = rm_visible s" "rm_hidden (on_track i f s) = rm_hidden s"
  by (simp_all add: on_track_def)

lemma in_store_fields [simp]:
  "rm_streams (in_store f s) = rm_streams s" "rm_playback_muted (in_store f s) = rm_playback_muted s"
  "rm_watched (in_store f s) = rm_watched s" "rm_log (in_store f s) = rm_log s" "rm_tracks (in_store f s) = rm_tracks s"
  "rm_screen_ids (in_store f s) = rm_screen_ids s" "rm_publications (in_store f s) = rm_publications s"
  "rm_monitors (in_store f s) = rm_monitors s" "rm_participants (in_store f s) = rm_participants s"
  "rm_room (in_store f s) = rm_room s" "rm_visible (in_store f s) = rm_visible s" "rm_hidden (in_store f s) = rm_hidden s"
  by (simp_all add: in_store_def)

lemma tell_fields [simp]:
  "rm_streams (tell e s) = rm_streams s" "rm_playback_muted (tell e s) = rm_playback_muted s"
  "rm_watched (tell e s) = rm_watched s" "rm_log (tell e s) = e # rm_log s" "rm_tracks (tell e s) = rm_tracks s"
  "rm_screen_ids (tell e s) = rm_screen_ids s" "rm_publications (tell e s) = rm_publications s"
  "rm_monitors (tell e s) = rm_monitors s" "rm_participants (tell e s) = rm_participants s"
  "rm_room (tell e s) = rm_room s" "rm_visible (tell e s) = rm_visible s" "rm_hidden (tell e s) = rm_hidden s"
  by (simp_all add: tell_def)

lemma put_publication_fields [simp]:
  "rm_streams (put_publication sid p s) = rm_streams s" "rm_playback_muted (put_publication sid p s) = rm_playback_muted s"
  "rm_watched (put_publication sid p s) = rm_watched s" "rm_log (put_publication sid p s) = rm_log s"
  "rm_tracks (put_publication sid p s) = rm_tracks s" "rm_screen_ids (put_publication sid p s) = rm_screen_ids s"
  "rm_monitors (put_publication sid p s) = rm_monitors s" "rm_participants (put_publication sid p s) = rm_participants s"
  "rm_publications (put_publication sid p s) = obj_put sid p (rm_publications s)"
  by (simp_all add: put_publication_def)

text \<open>An operation keeps the streams, the tracks and what decides about sound.\<close>

definition media_part :: "remote_state \<Rightarrow> string list obj \<times> remote_track obj \<times> bool \<times> string list \<times> string list obj" where
  "media_part s = (rm_streams s, rm_tracks s, rm_playback_muted s, rm_screen_ids s, rm_monitors s)"

lemma media_part_simps [remote_frame]:
  "media_part (in_store f s) = media_part s" "media_part (tell e s) = media_part s"
  "media_part (put_publication sid p s) = media_part s"
  by (simp_all add: media_part_def)

lemma fold_keeps: "(\<And>x s. g (f x s) = g s) \<Longrightarrow> g (fold f xs s) = g s"
  by (induction xs arbitrary: s) simp_all

lemma media_part_sync [remote_frame]:
  "media_part (syncRemotePublicationSubscription peer sid s) = media_part s"
  "media_part (apply_choice peer kind b sid s) = media_part s"
  by (auto simp: syncRemotePublicationSubscription_def apply_choice_def remote_frame split: option.splits)

lemma media_part_syncs [remote_frame]:
  "media_part (sync_participant peer s) = media_part s" "media_part (syncRemoteSubscriptions s) = media_part s"
  by (auto simp: sync_participant_def syncRemoteSubscriptions_def intro!: fold_keeps simp: remote_frame)

lemma media_part_more [remote_frame]:
  "media_part (syncParticipantMediaState peer s) = media_part s"
  "media_part (retryRemotePublicationSubscription peer sid s) = media_part s"
  "media_part (rememberExistingRemoteMedia peer s) = media_part s"
  "media_part (playRemoteMediaStartCue peer s) = media_part s"
  "media_part (scheduleRemoteMediaStopCue peer s) = media_part s"
  "media_part (clearRemoteMediaStartCue peer s) = media_part s"
  "media_part (cancelRemoteScreenStopCue peer s) = media_part s"
  "media_part (change_publication sid f s) = media_part s"
  by (auto simp: syncParticipantMediaState_def retryRemotePublicationSubscription_def rememberExistingRemoteMedia_def
      playRemoteMediaStartCue_def cancelRemoteScreenStopCue_def scheduleRemoteMediaStopCue_def clearRemoteMediaStartCue_def
      change_publication_def media_part_def Let_def split: option.splits)

lemma media_part_peers [remote_frame]:
  "media_part (put_peer peer pubs s) = media_part s"
  "media_part (hydrate_peer now peer s) = media_part s"
proof -
  show "media_part (put_peer peer pubs s) = media_part s"
    unfolding put_peer_def using fold_keeps[of media_part "\<lambda>(sid, p). put_publication sid p"]
    by (simp add: media_part_def split: prod.splits)
  show "media_part (hydrate_peer now peer s) = media_part s"
    by (simp add: hydrate_peer_def remote_frame)
qed

text \<open>The operations that touch neither streams nor tracks.\<close>

lemma media_part_ops [remote_frame]:
  "media_part (retry_fired k s) = media_part s"
  "media_part (stop_cue_fired peer s) = media_part s"
  "media_part (speaking_heard peer b s) = media_part s"
  "media_part (visibility_changed b s) = media_part s"
  "media_part (setRemoteMediaSubscribed peer kind b s) = media_part s"
  "media_part (subscription_failed peer sid s) = media_part s"
  "media_part (remote_published peer sid p s) = media_part s"
  "media_part (track_unpublished peer sid s) = media_part s"
  "media_part (peer_connected now peer pubs s) = media_part s"
  "media_part (room_opened c s) = media_part s"
  "media_part (room_hydrated now peers s) = media_part s"
proof -
  have u: "media_part (s\<lparr>rm_retries := x\<rparr>) = media_part s" "media_part (s\<lparr>rm_visible := v\<rparr>) = media_part s"
    "media_part (s\<lparr>rm_participants := ps\<rparr>) = media_part s" "media_part (s\<lparr>rm_cue_ready := v\<rparr>) = media_part s"
    "media_part (s\<lparr>rm_watched := w\<rparr>) = media_part s" "media_part (s\<lparr>rm_stop_timers := w\<rparr>) = media_part s"
    "media_part (s\<lparr>rm_hidden := w\<rparr>) = media_part s" for x v ps w s
    by (simp_all add: media_part_def)
  show "media_part (retry_fired k s) = media_part s"
    by (auto simp: retry_fired_def remote_frame u split: option.splits)
  show "media_part (stop_cue_fired peer s) = media_part s"
    by (auto simp: stop_cue_fired_def remote_frame u)
  show "media_part (speaking_heard peer b s) = media_part s"
    by (auto simp: speaking_heard_def remote_frame)
  show "media_part (visibility_changed b s) = media_part s"
    by (auto simp: visibility_changed_def remote_frame u Let_def)
  show "media_part (setRemoteMediaSubscribed peer kind b s) = media_part s"
    by (auto simp: setRemoteMediaSubscribed_def Let_def remote_frame u media_part_def[symmetric]
        intro!: trans[OF fold_keeps[of media_part]])
  show "media_part (subscription_failed peer sid s) = media_part s"
    by (auto simp: subscription_failed_def remote_frame)
  show "media_part (remote_published peer sid p s) = media_part s"
    by (auto simp: remote_published_def Let_def remote_frame u)
  show "media_part (track_unpublished peer sid s) = media_part s"
    by (auto simp: track_unpublished_def Let_def remote_frame u split: option.splits)
  show "media_part (peer_connected now peer pubs s) = media_part s"
    by (auto simp: peer_connected_def Let_def remote_frame)
  show "media_part (room_opened c s) = media_part s"
    by (simp add: room_opened_def media_part_def)
  have "media_part (fold (\<lambda>(peer, pubs). put_peer peer pubs) peers s) = media_part s" for s
    by (rule fold_keeps) (auto simp: remote_frame split: prod.splits)
  moreover have "media_part (fold (hydrate_peer now) ks s) = media_part s" for ks s
    by (rule fold_keeps) (simp add: remote_frame)
  ultimately show "media_part (room_hydrated now peers s) = media_part s"
    by (simp add: room_hydrated_def Let_def u)
qed

section \<open>A deafened user hears no voice\<close>

definition shown_tracks :: "remote_state \<Rightarrow> string set" where
  "shown_tracks s = \<Union> (set ` set (obj_values (rm_streams s)))"

definition loud :: "remote_state \<Rightarrow> string \<Rightarrow> bool" where
  "loud s i \<longleftrightarrow> track_is (\<lambda>t. is_microphone t \<and> mt_enabled t) s i"

definition deaf_ok :: "remote_state \<Rightarrow> bool" where
  "deaf_ok s \<longleftrightarrow> (rm_playback_muted s \<longrightarrow> (\<forall>i \<in> shown_tracks s. \<not> loud s i))"

lemma obj_values_put: "set (obj_values (obj_put k v o1)) \<subseteq> insert v (set (obj_values o1))"
  by (induction o1) auto

lemma obj_values_del: "set (obj_values (obj_del k o1)) \<subseteq> set (obj_values o1)"
  by (induction o1) auto

lemma shown_put: "rm_streams s' = obj_put peer ids (rm_streams s) \<Longrightarrow> shown_tracks s' \<subseteq> set ids \<union> shown_tracks s"
  using Union_mono[OF image_mono[OF obj_values_put[of peer ids "rm_streams s"]], of set] by (simp add: shown_tracks_def del: set_map)

lemma shown_del: "rm_streams s' = obj_del peer (rm_streams s) \<Longrightarrow> shown_tracks s' \<subseteq> shown_tracks s"
  using Union_mono[OF image_mono[OF obj_values_del[of peer "rm_streams s"]], of set] by (simp add: shown_tracks_def del: set_map)

lemma stream_shown: "i \<in> set (stream_of peer s) \<Longrightarrow> i \<in> shown_tracks s"
  by (cases "obj_get (rm_streams s) peer") (auto simp: shown_tracks_def dest!: map_of_SomeD intro: bexI[rotated])

lemma deaf_ok_same: "deaf_ok s \<Longrightarrow> media_part s' = media_part s \<Longrightarrow> deaf_ok s'"
  by (simp add: deaf_ok_def media_part_def shown_tracks_def loud_def track_is_def)

lemma deaf_sync: "deaf_ok s \<Longrightarrow> deaf_ok (syncParticipantMediaState peer s)"
  by (erule deaf_ok_same) (rule media_part_more)

lemma deaf_step:
  assumes "deaf_ok s" and "rm_playback_muted s' = rm_playback_muted s"
    and "\<And>i. i \<in> shown_tracks s' \<Longrightarrow> i \<notin> shown_tracks s \<or> obj_get (rm_tracks s') i \<noteq> obj_get (rm_tracks s) i
      \<Longrightarrow> rm_playback_muted s \<Longrightarrow> \<not> loud s' i"
  shows "deaf_ok s'"
  using assms unfolding deaf_ok_def loud_def track_is_def by metis

lemma one_changed:
  assumes ok: "deaf_ok s" and m: "rm_playback_muted s' = rm_playback_muted s" and sh: "shown_tracks s' \<subseteq> insert i (shown_tracks s)"
    and tr: "\<And>j. j \<noteq> i \<Longrightarrow> obj_get (rm_tracks s') j = obj_get (rm_tracks s) j" and q: "rm_playback_muted s \<Longrightarrow> \<not> loud s' i"
  shows "deaf_ok s'"
proof -
  have "\<not> loud s' j" if "rm_playback_muted s" "j \<in> shown_tracks s'" for j
  proof (cases "j = i")
    case False
    with that(2) sh have "j \<in> shown_tracks s" by auto
    with ok that(1) have "\<not> loud s j" by (simp add: deaf_ok_def)
    with tr[OF False] show ?thesis by (simp add: loud_def track_is_def)
  qed (simp add: q that(1))
  with m show ?thesis by (simp add: deaf_ok_def)
qed

lemma fewer_shown: "deaf_ok s \<Longrightarrow> rm_playback_muted s' = rm_playback_muted s \<Longrightarrow> rm_tracks s' = rm_tracks s
    \<Longrightarrow> shown_tracks s' \<subseteq> shown_tracks s \<Longrightarrow> deaf_ok s'"
  by (rule deaf_step) auto

lemma closePeer_fields [simp]:
  "rm_streams (closePeer b peer s) = obj_del peer (rm_streams s)" "rm_tracks (closePeer b peer s) = rm_tracks s"
  "rm_playback_muted (closePeer b peer s) = rm_playback_muted s" "rm_screen_ids (closePeer b peer s) = rm_screen_ids s"
  "rm_monitors (closePeer b peer s) = obj_del peer (rm_monitors s)"
  by (simp_all add: closePeer_def Let_def clearRemoteMediaStartCue_def cancelRemoteScreenStopCue_def)

lemma restart_fields [simp]:
  "rm_streams (restartRemoteSpeakingMonitor peer s) = rm_streams s" "rm_tracks (restartRemoteSpeakingMonitor peer s) = rm_tracks s"
  "rm_playback_muted (restartRemoteSpeakingMonitor peer s) = rm_playback_muted s"
  "rm_screen_ids (restartRemoteSpeakingMonitor peer s) = rm_screen_ids s"
  by (simp_all add: restartRemoteSpeakingMonitor_def Let_def)

lemma removeRemoteTrack_fields [simp]:
  "rm_tracks (removeRemoteTrack peer i s) = rm_tracks s"
  "rm_playback_muted (removeRemoteTrack peer i s) = rm_playback_muted s"
  by (simp_all add: removeRemoteTrack_def Let_def)

lemma removeRemoteTrack_shown: "shown_tracks (removeRemoteTrack peer i s) \<subseteq> shown_tracks s"
proof (cases "i \<in> set (stream_of peer s)")
  case True
  have "shown_tracks (removeRemoteTrack peer i s)
      \<subseteq> shown_tracks (s\<lparr>rm_streams := obj_put peer (removeAll i (stream_of peer s)) (rm_streams s),
           rm_screen_ids := removeAll i (rm_screen_ids s)\<rparr>)" (is "_ \<subseteq> shown_tracks ?s1")
  proof (cases "removeAll i (stream_of peer s) = []")
    case rest: True
    with True have "removeRemoteTrack peer i s = closePeer True peer ?s1" by (simp add: removeRemoteTrack_def Let_def)
    moreover have "shown_tracks (closePeer True peer ?s1) \<subseteq> shown_tracks ?s1" by (rule shown_del) simp
    ultimately show ?thesis by simp
  next
    case False
    with True show ?thesis by (simp add: removeRemoteTrack_def Let_def shown_tracks_def)
  qed
  moreover have "shown_tracks ?s1 \<subseteq> set (removeAll i (stream_of peer s)) \<union> shown_tracks s"
    by (rule shown_put) simp
  ultimately show ?thesis using stream_shown by fastforce
qed (simp add: removeRemoteTrack_def)

lemma silenced [simp]: "\<not> (is_microphone (setRemoteMicrophoneTrackPlaybackMuted True t)
    \<and> mt_enabled (setRemoteMicrophoneTrackPlaybackMuted True t))"
  by (auto simp: setRemoteMicrophoneTrackPlaybackMuted_def is_microphone_def isScreenShareAudioTrack_def)

lemma silenced_track: "\<not> loud (on_track i (setRemoteMicrophoneTrackPlaybackMuted True) s) i"
  by (cases "obj_get (rm_tracks s) i") (simp_all add: loud_def track_is_def del: de_Morgan_conj)

lemma shown_same [simp]:
  "shown_tracks (on_track i f s) = shown_tracks s" "shown_tracks (put_publication sid p s) = shown_tracks s"
  by (simp_all add: shown_tracks_def)

lemma deaf_on_track: "deaf_ok s \<Longrightarrow> deaf_ok (on_track i (setRemoteMicrophoneTrackPlaybackMuted (rm_playback_muted s)) s)"
  by (rule one_changed[of s _ i]) (auto simp: silenced_track)

text \<open>Marking and adding a track touch no other track.\<close>

lemma mark_source_fields [simp]:
  "rm_streams (mark_source i src s) = rm_streams s" "rm_playback_muted (mark_source i src s) = rm_playback_muted s"
  "rm_publications (mark_source i src s) = rm_publications s" "rm_monitors (mark_source i src s) = rm_monitors s"
  "j \<noteq> i \<Longrightarrow> obj_get (rm_tracks (mark_source i src s)) j = obj_get (rm_tracks s) j"
  by (simp_all add: mark_source_def Let_def split: track_source.splits)

lemma deaf_received:
  assumes ok: "deaf_ok s"
  shows "deaf_ok (receive_track peer sid i t p s)"
proof -
  define s1 where "s1 = put_publication sid (p\<lparr>pb_subscribed := True, pb_track := Some i\<rparr>)
    (s\<lparr>rm_tracks := (if obj_get (rm_tracks s) i = None then obj_put i t (rm_tracks s) else rm_tracks s)\<rparr>)"
  define s2 where "s2 = on_track i (setRemoteMicrophoneTrackPlaybackMuted (rm_playback_muted s)) (mark_source i (pb_source p) s1)"
  define s3 where "s3 = add_to_stream peer i (pb_source p) s2"
  have tr: "j \<noteq> i \<Longrightarrow> obj_get (rm_tracks s3) j = obj_get (rm_tracks s) j" for j
    by (auto simp: s3_def s2_def s1_def add_to_stream_def obj_simps)
  have st: "rm_streams s2 = rm_streams s" by (simp add: s2_def s1_def)
  have "shown_tracks s3 \<subseteq> insert i (shown_tracks s)"
  proof -
    let ?ids = "set_add i (filter (\<lambda>j. \<not> displaced i (pb_source p) s2 j) (stream_of peer s2))"
    have "shown_tracks s3 \<subseteq> set ?ids \<union> shown_tracks s2" by (rule shown_put) (simp add: s3_def add_to_stream_def)
    moreover have "set ?ids \<subseteq> insert i (shown_tracks s2)" using stream_shown[of _ s2 peer] by auto
    moreover have "shown_tracks s2 = shown_tracks s" using st by (simp add: shown_tracks_def)
    ultimately show ?thesis by auto
  qed
  moreover have "rm_playback_muted s \<Longrightarrow> \<not> loud s3 i"
    using silenced_track[of i "mark_source i (pb_source p) s1"]
    by (simp add: s3_def s2_def add_to_stream_def loud_def track_is_def)
  moreover have "rm_playback_muted s3 = rm_playback_muted s" by (simp add: s3_def s2_def s1_def add_to_stream_def)
  ultimately have "deaf_ok s3" by (intro one_changed[OF ok]) (simp_all add: tr)
  then show ?thesis by (simp add: receive_track_def Let_def s1_def s2_def s3_def)
qed

lemma deaf_restart: "deaf_ok s \<Longrightarrow> deaf_ok (restartRemoteSpeakingMonitor peer s)"
  by (rule fewer_shown[of s]) (simp_all add: shown_tracks_def)

lemma deaf_subscribed: "deaf_ok s \<Longrightarrow> deaf_ok (track_subscribed peer sid i t s)"
  by (auto simp: track_subscribed_def Let_def split: option.split intro!: deaf_sync deaf_restart deaf_received)

lemma deaf_mute_changed: "deaf_ok s \<Longrightarrow> deaf_ok (mute_changed peer sid b s)"
proof (cases "obj_get (rm_publications s) sid")
  case (Some p)
  assume ok: "deaf_ok s"
  define s1 where "s1 = put_publication sid (p\<lparr>pb_muted := b\<rparr>) s"
  have ok1: "deaf_ok s1" using ok by (rule deaf_ok_same) (simp add: s1_def remote_frame)
  show ?thesis
  proof (cases "pb_track p")
    case None
    with Some ok1 show ?thesis by (simp add: mute_changed_def s1_def deaf_sync)
  next
    case (Some i)
    define src where "src = (if pb_source p = SourceScreenAudio then ScreenAudio else VoiceAudio)"
    define s3 where "s3 = on_track i (markRemoteAudioTrackSource src) s1"
    define s4 where "s4 = (if src = VoiceAudio \<and> rm_playback_muted s3
      then on_track i (setRemoteMicrophoneTrackPlaybackMuted True) s3 else s3)"
    have "rm_playback_muted s1 \<Longrightarrow> \<not> loud s4 i"
    proof (cases src)
      case ScreenAudio
      then show ?thesis
        by (cases "obj_get (rm_tracks s1) i")
          (simp_all add: s4_def s3_def loud_def track_is_def is_microphone_def isScreenShareAudioTrack_def markRemoteAudioTrackSource_def)
    qed (simp add: s4_def s3_def silenced_track)
    moreover have "j \<noteq> i \<Longrightarrow> obj_get (rm_tracks s4) j = obj_get (rm_tracks s1) j" for j by (simp add: s4_def s3_def)
    moreover have "shown_tracks s4 = shown_tracks s1" "rm_playback_muted s4 = rm_playback_muted s1"
      by (simp_all add: s4_def s3_def)
    ultimately have "deaf_ok s4" by (intro one_changed[OF ok1, of s4 i]) auto
    moreover have "mute_changed peer sid b s = syncParticipantMediaState peer
        (if track_is (\<lambda>t. mt_kind t = AudioKind) s1 i then s4 else s1)"
      by (simp add: mute_changed_def \<open>obj_get (rm_publications s) sid = Some p\<close> Some s4_def s3_def src_def s1_def)
    ultimately show ?thesis using ok1 by (simp add: deaf_sync)
  qed
qed (simp add: mute_changed_def)

lemma deaf_remove: "deaf_ok s \<Longrightarrow> deaf_ok (removeRemoteTrack peer i s)"
  by (rule fewer_shown[OF _ _ _ removeRemoteTrack_shown]) simp_all

lemma deaf_ended: "deaf_ok s \<Longrightarrow> deaf_ok (track_ended peer i s)"
proof -
  assume ok: "deaf_ok s"
  have "deaf_ok (on_track i (\<lambda>t. t\<lparr>mt_ended := True\<rparr>) s)"
    using ok by (auto simp: deaf_ok_def loud_def track_is_def is_microphone_def isScreenShareAudioTrack_def split: option.splits)
  then show ?thesis unfolding track_ended_def by (intro deaf_remove deaf_sync)
qed

lemma deaf_unsubscribed: "deaf_ok s \<Longrightarrow> deaf_ok (track_unsubscribed peer sid i s)"
  unfolding track_unsubscribed_def
  by (intro deaf_sync deaf_remove) (erule deaf_ok_same, simp add: remote_frame)

lemma deaf_disconnected: "deaf_ok s \<Longrightarrow> deaf_ok (peer_disconnected now peer s)"
  unfolding peer_disconnected_def Let_def
  by (rule fewer_shown[of s]) (simp_all, rule shown_del, simp)

lemma deaf_recover: "deaf_ok s \<Longrightarrow> deaf_ok (recover_publication peer sid s)"
proof (cases "obj_get (rm_publications s) sid")
  case (Some p)
  assume "deaf_ok s"
  then show ?thesis
    using deaf_on_track[of s]
    by (auto simp: recover_publication_def Some Let_def split: option.splits intro: deaf_ok_same[OF _ media_part_more(2)])
qed (simp add: recover_publication_def)

lemma deaf_fold: "(\<And>x s. deaf_ok s \<Longrightarrow> deaf_ok (f x s)) \<Longrightarrow> deaf_ok s \<Longrightarrow> deaf_ok (fold f xs s)"
  by (induction xs arbitrary: s) simp_all

lemma deaf_recover_peer: "deaf_ok s \<Longrightarrow> deaf_ok (recover_peer now peer s)"
  unfolding recover_peer_def Let_def
  by (intro deaf_sync deaf_fold deaf_recover) (assumption, erule deaf_ok_same, simp add: remote_frame)

lemma deaf_reconnected: "deaf_ok s \<Longrightarrow> deaf_ok (media_reconnected now s)"
  unfolding media_reconnected_def
  by (auto intro!: deaf_fold deaf_recover_peer deaf_ok_same[OF _ media_part_syncs(2)])

lemma fold_on_track:
  assumes "\<And>t. f (f t) = f t"
  shows "obj_get (rm_tracks (fold (\<lambda>i. on_track i f) xs s)) j
    = (if j \<in> set xs then map_option f (obj_get (rm_tracks s) j) else obj_get (rm_tracks s) j)"
  using assms by (induction xs arbitrary: s) (auto simp: option.map_comp comp_def)

lemma fold_on_track_fields [simp]:
  "rm_streams (fold (\<lambda>i. on_track i f) xs s) = rm_streams s"
  "rm_playback_muted (fold (\<lambda>i. on_track i f) xs s) = rm_playback_muted s"
  by (induction xs arbitrary: s) simp_all

lemma silencing_idem: "setRemoteMicrophoneTrackPlaybackMuted b (setRemoteMicrophoneTrackPlaybackMuted b t)
    = setRemoteMicrophoneTrackPlaybackMuted b t"
  by (simp add: setRemoteMicrophoneTrackPlaybackMuted_def isScreenShareAudioTrack_def)

lemma deaf_set: "deaf_ok (setRemoteMicrophonePlaybackMuted b s)"
proof -
  let ?s = "setRemoteMicrophonePlaybackMuted b s"
  have "\<not> loud ?s i" if b and "i \<in> shown_tracks ?s" for i
  proof -
    have "i \<in> set (concat (obj_values (rm_streams s)))"
      using that(2) by (simp add: setRemoteMicrophonePlaybackMuted_def shown_tracks_def)
    then have "obj_get (rm_tracks ?s) i = map_option (setRemoteMicrophoneTrackPlaybackMuted True) (obj_get (rm_tracks s) i)"
      using \<open>b\<close> unfolding setRemoteMicrophonePlaybackMuted_def by (subst fold_on_track) (simp_all add: silencing_idem)
    then show ?thesis by (cases "obj_get (rm_tracks s) i") (simp_all add: loud_def track_is_def del: de_Morgan_conj)
  qed
  moreover have "rm_playback_muted ?s = b" by (simp add: setRemoteMicrophonePlaybackMuted_def)
  ultimately show ?thesis by (simp add: deaf_ok_def)
qed

lemma deaf_keeps: "deaf_ok s \<Longrightarrow> deaf_ok (remote_step op s)"
proof (cases op)
  case LeftVoice
  then show ?thesis by (simp add: leave_remote_def deaf_ok_def shown_tracks_def)
next
  case JoinFailed
  then show ?thesis by (simp add: drop_remote_def deaf_ok_def shown_tracks_def)
next
  case (TrackUnmuted peer i)
  then show "deaf_ok s \<Longrightarrow> ?thesis" by (simp add: track_unmuted_def deaf_sync deaf_on_track)
qed (simp_all add: deaf_set deaf_subscribed deaf_mute_changed deaf_ended deaf_unsubscribed deaf_disconnected deaf_reconnected
    remote_frame deaf_ok_same[OF _ media_part_ops(1)] deaf_ok_same[OF _ media_part_ops(2)] deaf_ok_same[OF _ media_part_ops(3)]
    deaf_ok_same[OF _ media_part_ops(4)] deaf_ok_same[OF _ media_part_ops(5)] deaf_ok_same[OF _ media_part_ops(6)]
    deaf_ok_same[OF _ media_part_ops(7)] deaf_ok_same[OF _ media_part_ops(8)] deaf_ok_same[OF _ media_part_ops(9)]
    deaf_ok_same[OF _ media_part_ops(10)] deaf_ok_same[OF _ media_part_ops(11)])

lemma run_keeps:
  assumes "\<And>op s. P s \<Longrightarrow> P (remote_step op s)" and "P (init_remote a)"
  shows "P (remote_run ops a)"
  unfolding remote_run_def using assms(2) by (induction ops rule: rev_induct) (simp_all add: assms(1))

lemma deaf_always: "deaf_ok (remote_run ops a)"
  by (rule run_keeps[of deaf_ok, OF deaf_keeps]) (simp_all add: init_remote_def deaf_ok_def)

section \<open>A screen share is asked for only while it is watched\<close>

text \<open>What the server was last told about watching a participant's share, and the same at every request of the log.\<close>

fun last_watch :: "string \<Rightarrow> remote_effect list \<Rightarrow> bool" where
  "last_watch peer [] = False"
| "last_watch peer (Watching q b # es) = (if q = peer then b else last_watch peer es)"
| "last_watch peer (_ # es) = last_watch peer es"

fun asked_watched :: "remote_effect list \<Rightarrow> bool" where
  "asked_watched [] = True"
| "asked_watched (Subscribe peer sid src b # es) =
     ((b \<and> remoteMediaKindForSource src = Some ScreenMedia \<longrightarrow> last_watch peer es) \<and> asked_watched es)"
| "asked_watched (_ # es) = asked_watched es"

definition watch_ok :: "remote_state \<Rightarrow> bool" where
  "watch_ok s \<longleftrightarrow> (\<forall>peer \<in> set (rm_watched s). last_watch peer (rm_log s)) \<and> asked_watched (rm_log s)"

lemma watch_less: "watch_ok s \<Longrightarrow> rm_log s' = rm_log s \<Longrightarrow> set (rm_watched s') \<subseteq> set (rm_watched s) \<Longrightarrow> watch_ok s'"
  by (auto simp: watch_ok_def)

lemma watch_subscribe:
  "watch_ok s \<Longrightarrow> (b \<Longrightarrow> remoteMediaKindForSource src = Some ScreenMedia \<Longrightarrow> peer \<in> set (rm_watched s))
    \<Longrightarrow> watch_ok (tell (Subscribe peer sid src b) s)"
  by (auto simp: watch_ok_def)

lemma watch_sound: "watch_ok s \<Longrightarrow> watch_ok (tell (ShareSound peer b) s)"
  by (auto simp: watch_ok_def)

lemma wants_watched: "wants s peer p \<Longrightarrow> remoteMediaKindForSource (pb_source p) = Some ScreenMedia \<Longrightarrow> peer \<in> set (rm_watched s)"
  by (auto simp: wants_def shouldSubscribeRemotePublication_def remoteMediaKindForSource_def split: if_splits)

lemma watch_sync: "watch_ok s \<Longrightarrow> watch_ok (syncRemotePublicationSubscription peer sid s)"
  by (auto simp: syncRemotePublicationSubscription_def intro!: watch_subscribe dest: wants_watched split: option.split)

lemma watch_fold: "(\<And>x s. watch_ok s \<Longrightarrow> watch_ok (f x s)) \<Longrightarrow> watch_ok s \<Longrightarrow> watch_ok (fold f xs s)"
  by (induction xs arbitrary: s) simp_all

lemma watch_sync_peer: "watch_ok s \<Longrightarrow> watch_ok (sync_participant peer s)"
  unfolding sync_participant_def by (intro watch_fold watch_sync)

lemma watch_sync_all: "watch_ok s \<Longrightarrow> watch_ok (syncRemoteSubscriptions s)"
  unfolding syncRemoteSubscriptions_def by (intro watch_fold watch_sync_peer)

lemma watch_retry: "watch_ok s \<Longrightarrow> watch_ok (retryRemotePublicationSubscription peer sid s)"
  by (auto simp: retryRemotePublicationSubscription_def Let_def watch_ok_def split: option.split)

lemma screen_needs_watch: "shouldSubscribeRemotePublication src k v h w \<Longrightarrow> remoteMediaKindForSource src = Some ScreenMedia \<Longrightarrow> w"
  by (auto simp: shouldSubscribeRemotePublication_def remoteMediaKindForSource_def split: if_splits)

lemma watch_choice: "watch_ok s \<Longrightarrow> watch_ok (apply_choice peer kind b sid s)"
  by (auto simp: apply_choice_def intro!: watch_subscribe dest: screen_needs_watch split: option.split)

lemma watch_chosen: "watch_ok s \<Longrightarrow> watch_ok (setRemoteMediaSubscribed peer kind b s)"
  unfolding setRemoteMediaSubscribed_def Let_def
  by (auto intro!: watch_fold watch_choice) (auto simp: watch_ok_def)

text \<open>Operations that leave the log and the watched participants alone.\<close>

definition watch_part :: "remote_state \<Rightarrow> string list \<times> remote_effect list" where
  "watch_part s = (rm_watched s, rm_log s)"

lemma watch_part_same: "watch_ok s \<Longrightarrow> watch_part s' = watch_part s \<Longrightarrow> watch_ok s'"
  by (simp add: watch_part_def watch_ok_def)

lemma watch_part_helpers:
  "watch_part (on_track i f s) = watch_part s" "watch_part (in_store g s) = watch_part s"
  "watch_part (put_publication sid p s) = watch_part s" "watch_part (change_publication sid h s) = watch_part s"
  "watch_part (syncParticipantMediaState peer s) = watch_part s"
  "watch_part (rememberExistingRemoteMedia peer s) = watch_part s"
  "watch_part (scheduleRemoteMediaStopCue peer s) = watch_part s"
  "watch_part (closePeer b peer s) = watch_part s"
  "watch_part (restartRemoteSpeakingMonitor peer s) = watch_part s"
  "watch_part (mark_source i src s) = watch_part s" "watch_part (add_to_stream peer i src s) = watch_part s"
  by (auto simp: watch_part_def change_publication_def syncParticipantMediaState_def rememberExistingRemoteMedia_def
      scheduleRemoteMediaStopCue_def closePeer_def clearRemoteMediaStartCue_def cancelRemoteScreenStopCue_def
      restartRemoteSpeakingMonitor_def mark_source_def add_to_stream_def Let_def split: option.split track_source.split)

lemma watch_part_removed: "watch_part (removeRemoteTrack peer i s) = watch_part s"
proof -
  have "watch_part (s\<lparr>rm_streams := a, rm_screen_ids := b\<rparr>) = watch_part s" for a b by (simp add: watch_part_def)
  then show ?thesis by (simp add: removeRemoteTrack_def Let_def watch_part_helpers)
qed

lemma watch_part_received: "watch_part (receive_track peer sid i t p s) = watch_part s"
proof -
  have "watch_part (s\<lparr>rm_tracks := a\<rparr>) = watch_part s" for a by (simp add: watch_part_def)
  then show ?thesis by (simp add: receive_track_def Let_def watch_part_helpers)
qed

lemma watch_part_put_peer: "watch_part (put_peer peer pubs s) = watch_part s"
  unfolding put_peer_def using fold_keeps[of watch_part "\<lambda>(sid, p). put_publication sid p" pubs s]
  by (simp add: watch_part_def split: prod.splits)

lemma watch_part_deaf: "watch_part (setRemoteMicrophonePlaybackMuted b s) = watch_part s"
  unfolding setRemoteMicrophonePlaybackMuted_def
  by (rule trans[OF fold_keeps]) (simp_all add: watch_part_helpers, simp add: watch_part_def)

lemmas watch_parts = watch_part_helpers watch_part_removed watch_part_received watch_part_put_peer watch_part_deaf

lemma watch_start: "watch_ok s \<Longrightarrow> watch_ok (playRemoteMediaStartCue peer s)"
  by (auto simp: playRemoteMediaStartCue_def cancelRemoteScreenStopCue_def Let_def watch_ok_def)

lemma watch_subscribed: "watch_part (track_subscribed peer sid i t s) = watch_part s"
  by (simp add: track_subscribed_def Let_def watch_parts split: option.split)

lemma watch_mute_changed: "watch_part (mute_changed peer sid b s) = watch_part s"
  by (simp add: mute_changed_def Let_def watch_parts split: option.split)

lemma watch_published: "watch_ok s \<Longrightarrow> watch_ok (remote_published peer sid p s)"
proof -
  assume ok: "watch_ok s"
  define s1 where "s1 = (put_publication sid p s)\<lparr>rm_participants := obj_put peer (set_add sid (publications_of peer s)) (rm_participants s)\<rparr>"
  have "watch_ok s1" by (rule watch_less[OF ok]) (simp_all add: s1_def)
  then show ?thesis
    by (auto simp: remote_published_def Let_def s1_def[symmetric] intro!: watch_part_same[OF _ watch_part_helpers(5)] watch_sync watch_start)
qed

lemma watch_unpublished: "watch_ok s \<Longrightarrow> watch_ok (track_unpublished peer sid s)"
  by (erule watch_less) (auto simp: track_unpublished_def Let_def syncParticipantMediaState_def scheduleRemoteMediaStopCue_def split: option.split)

lemma watch_disconnected: "watch_ok s \<Longrightarrow> watch_ok (peer_disconnected now peer s)"
  by (erule watch_less) (auto simp: peer_disconnected_def closePeer_def clearRemoteMediaStartCue_def cancelRemoteScreenStopCue_def Let_def)

lemma watch_connected: "watch_ok s \<Longrightarrow> watch_ok (peer_connected now peer pubs s)"
  unfolding peer_connected_def Let_def
  by (rule watch_part_same[OF watch_sync_peer]) (erule watch_part_same, simp_all add: watch_parts)

lemma watch_hydrate: "watch_ok s \<Longrightarrow> watch_ok (hydrate_peer now peer s)"
  unfolding hydrate_peer_def
  by (rule watch_part_same[OF watch_sync_peer]) (erule watch_part_same, simp_all add: watch_parts)

lemma watch_hydrated: "watch_ok s \<Longrightarrow> watch_ok (room_hydrated now peers s)"
proof -
  assume ok: "watch_ok s"
  define s1 where "s1 = fold (\<lambda>(peer, pubs). put_peer peer pubs) peers (s\<lparr>rm_participants := []\<rparr>)"
  have "watch_ok s1" unfolding s1_def
  proof (rule watch_fold)
    show "watch_ok (s\<lparr>rm_participants := []\<rparr>)" by (rule watch_less[OF ok]) simp_all
    show "watch_ok s \<Longrightarrow> watch_ok ((\<lambda>(peer, pubs). put_peer peer pubs) x s)" for x s
      by (cases x) (simp add: watch_part_same[OF _ watch_part_put_peer])
  qed
  then have "watch_ok (fold (hydrate_peer now) (obj_keys (rm_participants s1)) s1)"
    using watch_fold[of "hydrate_peer now"] watch_hydrate by blast
  then show ?thesis by (rule watch_less) (simp_all add: room_hydrated_def s1_def[symmetric] Let_def)
qed

lemma watch_recover: "watch_ok s \<Longrightarrow> watch_ok (recover_publication peer sid s)"
  by (auto simp: recover_publication_def Let_def split: option.split
      intro!: watch_retry watch_part_same[OF _ watch_part_helpers(1)])

lemma watch_recover_peer: "watch_ok s \<Longrightarrow> watch_ok (recover_peer now peer s)"
  unfolding recover_peer_def Let_def
  by (intro watch_part_same[OF _ watch_part_helpers(5)] watch_fold watch_recover) (assumption, erule watch_part_same, simp add: watch_parts)

lemma watch_reconnected: "watch_ok s \<Longrightarrow> watch_ok (media_reconnected now s)"
  by (auto simp: media_reconnected_def intro!: watch_fold watch_recover_peer watch_sync_all)

lemma watch_part_ops:
  "watch_part (track_unmuted peer i s) = watch_part s" "watch_part (track_ended peer i s) = watch_part s"
  "watch_part (track_unsubscribed peer sid i s) = watch_part s" "watch_part (speaking_heard peer b s) = watch_part s"
  "watch_part (room_opened c s) = watch_part s" "watch_part (drop_remote s) = watch_part s"
  by (simp_all add: track_unmuted_def track_ended_def track_unsubscribed_def speaking_heard_def watch_parts)
    (simp_all add: watch_part_def room_opened_def drop_remote_def)

lemma watch_left: "watch_ok s \<Longrightarrow> watch_ok (leave_remote s)"
  by (erule watch_less) (simp_all add: leave_remote_def)

lemma watch_keeps: "watch_ok s \<Longrightarrow> watch_ok (remote_step op s)"
proof (cases op)
  case (RetryFired k)
  moreover assume ok: "watch_ok s"
  moreover have "watch_ok (s\<lparr>rm_retries := r\<rparr>)" for r by (rule watch_less[OF ok]) simp_all
  ultimately show ?thesis by (auto simp: retry_fired_def intro: watch_sync split: option.split)
next
  case (StopCueFired peer)
  moreover assume ok: "watch_ok s"
  moreover have "watch_ok (s\<lparr>rm_stop_timers := r\<rparr>)" for r by (rule watch_less[OF ok]) simp_all
  ultimately show ?thesis by (auto simp: stop_cue_fired_def intro: watch_sound)
next
  case (VisibilityChanged b)
  moreover assume ok: "watch_ok s"
  moreover have "watch_ok (s\<lparr>rm_visible := b\<rparr>)" by (rule watch_less[OF ok]) simp_all
  ultimately show ?thesis by (auto simp: visibility_changed_def Let_def intro: watch_sync_all)
next
  case (SubscriptionFailed peer sid)
  moreover assume "watch_ok s"
  ultimately show ?thesis by (simp add: subscription_failed_def watch_retry)
next
  case (PlaybackMuted b)
  moreover assume "watch_ok s"
  ultimately show ?thesis using watch_part_same[OF _ watch_part_deaf] by simp
qed (simp_all add: watch_published watch_unpublished watch_disconnected watch_connected watch_hydrated watch_left
    watch_reconnected watch_chosen watch_part_same[OF _ watch_subscribed] watch_part_same[OF _ watch_mute_changed]
    watch_part_same[OF _ watch_part_ops(1)] watch_part_same[OF _ watch_part_ops(2)] watch_part_same[OF _ watch_part_ops(3)]
    watch_part_same[OF _ watch_part_ops(4)] watch_part_same[OF _ watch_part_ops(5)] watch_part_same[OF _ watch_part_ops(6)])

lemma watch_always: "watch_ok (remote_run ops a)"
  by (rule run_keeps[of watch_ok, OF watch_keeps]) (simp_all add: init_remote_def watch_ok_def)

lemma asked_suffix:
  "asked_watched (later @ Subscribe peer sid src True # earlier) \<Longrightarrow> remoteMediaKindForSource src = Some ScreenMedia
    \<Longrightarrow> last_watch peer earlier"
proof (induction later)
  case (Cons e later)
  then show ?case by (cases e) simp_all
qed simp

end
