(* ===== verification/RemoteStreams.thy ===== *)
theory RemoteStreams
  imports RemoteMediaLaws
begin

text \<open>
  The streams of \<open>RemoteMedia\<close> when tracks come as the room delivers them: one participant's stream holds at most one
  microphone, one shared audio, one camera and one screen, no track is in two streams, and the speaking monitor of a
  participant listens to microphones of that participant's stream only.
\<close>

section \<open>What the room delivers\<close>

text \<open>
  A track belongs to one publication of one participant, its kind is that of the source, and a publication has no track
  before it is subscribed to.
\<close>

definition source_kind :: "track_source \<Rightarrow> track_kind option" where
  "source_kind src =
     (case src of SourceMicrophone \<Rightarrow> Some AudioKind | SourceScreenAudio \<Rightarrow> Some AudioKind
      | SourceCamera \<Rightarrow> Some VideoKind | SourceScreen \<Rightarrow> Some VideoKind | SourceUnknown \<Rightarrow> None)"

definition subscription_fits :: "string \<Rightarrow> string \<Rightarrow> string \<Rightarrow> remote_track \<Rightarrow> remote_state \<Rightarrow> bool" where
  "subscription_fits peer sid i t s \<longleftrightarrow>
     list_all (\<lambda>(q, ids). q = peer \<or> i \<notin> set ids) (rm_streams s) \<and>
     list_all (\<lambda>(sid', p). sid' = sid \<or> pb_track p \<noteq> Some i) (rm_publications s) \<and>
     (case obj_get (rm_publications s) sid of
        None \<Rightarrow> True
      | Some p \<Rightarrow> source_kind (pb_source p) = Some (mt_kind (nullish (obj_get (rm_tracks s) i) t)))"

fun delivered :: "remote_op \<Rightarrow> remote_state \<Rightarrow> bool" where
  "delivered (TrackSubscribed peer sid i t) s = subscription_fits peer sid i t s"
| "delivered (TrackPublished peer sid p) s = (pb_track p = None)"
| "delivered (PeerConnected now peer pubs) s = list_all (\<lambda>(sid, p). pb_track p = None) pubs"
| "delivered (RoomHydrated now peers) s = list_all (\<lambda>(peer, pubs). list_all (\<lambda>(sid, p). pb_track p = None) pubs) peers"
| "delivered _ s = True"

fun delivered_run :: "remote_op list \<Rightarrow> remote_state \<Rightarrow> bool" where
  "delivered_run [] s = True"
| "delivered_run (op # ops) s = (delivered op s \<and> delivered_run ops (remote_step op s))"

section \<open>Invariant\<close>

definition track_class :: "remote_state \<Rightarrow> string \<Rightarrow> (track_kind \<times> bool) option" where
  "track_class s i = map_option (\<lambda>t. (mt_kind t,
     if mt_kind t = AudioKind then isScreenShareAudioTrack t else i \<in> set (rm_screen_ids s))) (obj_get (rm_tracks s) i)"

definition stream_ok :: "remote_state \<Rightarrow> string list \<Rightarrow> bool" where
  "stream_ok s ids \<longleftrightarrow> ids \<noteq> [] \<and> distinct ids \<and> inj_on (track_class s) (set ids) \<and> (\<forall>i \<in> set ids. obj_get (rm_tracks s) i \<noteq> None)"

definition monitor_ok :: "remote_state \<Rightarrow> string \<Rightarrow> string list \<Rightarrow> bool" where
  "monitor_ok s peer ids \<longleftrightarrow> set ids \<subseteq> set (stream_of peer s) \<and> (\<forall>i \<in> set ids. track_is is_microphone s i)"

definition source_ok :: "remote_state \<Rightarrow> publication \<Rightarrow> bool" where
  "source_ok s p \<longleftrightarrow> (\<forall>i. pb_track p = Some i \<longrightarrow> (\<exists>t. obj_get (rm_tracks s) i = Some t \<and>
     (mt_kind t = AudioKind \<longrightarrow> isScreenShareAudioTrack t = (pb_source p = SourceScreenAudio))))"

definition streams_apart :: "string list obj \<Rightarrow> bool" where
  "streams_apart o1 \<longleftrightarrow> (\<forall>p q ids jds. obj_get o1 p = Some ids \<longrightarrow> obj_get o1 q = Some jds \<longrightarrow> p \<noteq> q \<longrightarrow> set ids \<inter> set jds = {})"

definition streams_inv :: "remote_state \<Rightarrow> bool" where
  "streams_inv s \<longleftrightarrow>
     obj_ok (rm_streams s) \<and>
     (\<forall>peer ids. obj_get (rm_streams s) peer = Some ids \<longrightarrow> stream_ok s ids) \<and>
     streams_apart (rm_streams s) \<and>
     (\<forall>peer ids. obj_get (rm_monitors s) peer = Some ids \<longrightarrow> monitor_ok s peer ids) \<and>
     (\<forall>sid p. obj_get (rm_publications s) sid = Some p \<longrightarrow> source_ok s p)"

text \<open>A track that keeps its kind and its source keeps its class.\<close>

definition same_class :: "remote_track \<Rightarrow> remote_track \<Rightarrow> bool" where
  "same_class t u \<longleftrightarrow> mt_kind t = mt_kind u \<and> (mt_kind t = AudioKind \<longrightarrow> isScreenShareAudioTrack t = isScreenShareAudioTrack u)"

lemma same_class_refl [simp]: "same_class t t"
  by (simp add: same_class_def)

text \<open>An operation that keeps streams, screens and monitors and the class of every track, and gives publications no track.\<close>

lemma streams_inv_kept:
  assumes inv: "streams_inv s" and st: "rm_streams s' = rm_streams s" "rm_screen_ids s' = rm_screen_ids s" "rm_monitors s' = rm_monitors s"
    and tr: "\<And>i. rel_option same_class (obj_get (rm_tracks s') i) (obj_get (rm_tracks s) i)"
    and pb: "\<And>sid p. obj_get (rm_publications s') sid = Some p
      \<Longrightarrow> pb_track p = None \<or> (\<exists>sid' p'. obj_get (rm_publications s) sid' = Some p' \<and> pb_track p' = pb_track p \<and> pb_source p' = pb_source p)"
  shows "streams_inv s'"
proof -
  have same: "track_class s' i = track_class s i" "track_is is_microphone s' i = track_is is_microphone s i"
    "obj_get (rm_tracks s') i = None \<longleftrightarrow> obj_get (rm_tracks s) i = None" for i
    using tr[of i] st
    by (auto simp: track_class_def track_is_def is_microphone_def same_class_def elim!: option.rel_cases split: option.splits)
  then have "stream_ok s' ids = stream_ok s ids" "monitor_ok s' peer ids = monitor_ok s peer ids" for ids peer
    using st by (simp_all add: stream_ok_def monitor_ok_def inj_on_def)
  moreover have "source_ok s' p" if "obj_get (rm_publications s') sid = Some p" for sid p
    using pb[OF that]
  proof
    assume "\<exists>sid' p'. obj_get (rm_publications s) sid' = Some p' \<and> pb_track p' = pb_track p \<and> pb_source p' = pb_source p"
    then obtain p' where "source_ok s p'" and e: "pb_track p' = pb_track p" "pb_source p' = pb_source p"
      using inv unfolding streams_inv_def by blast
    show ?thesis unfolding source_ok_def
    proof (intro allI impI)
      fix i assume "pb_track p = Some i"
      with \<open>source_ok s p'\<close> e obtain t where "obj_get (rm_tracks s) i = Some t"
        "mt_kind t = AudioKind \<longrightarrow> isScreenShareAudioTrack t = (pb_source p = SourceScreenAudio)"
        unfolding source_ok_def by metis
      moreover with tr[of i] obtain t' where "obj_get (rm_tracks s') i = Some t'" "same_class t' t"
        by (auto elim: option.rel_cases)
      ultimately show "\<exists>t. obj_get (rm_tracks s') i = Some t \<and>
          (mt_kind t = AudioKind \<longrightarrow> isScreenShareAudioTrack t = (pb_source p = SourceScreenAudio))"
        by (auto simp: same_class_def)
    qed
  qed (simp add: source_ok_def)
  ultimately show ?thesis using inv st unfolding streams_inv_def by simp
qed

lemma silencing_class [simp]: "same_class (setRemoteMicrophoneTrackPlaybackMuted b t) t"
  by (simp add: same_class_def setRemoteMicrophoneTrackPlaybackMuted_def isScreenShareAudioTrack_def)

lemma rel_option_refl_class [simp]: "rel_option same_class x x"
  by (cases x) simp_all

section \<open>Operations that keep the streams\<close>

text \<open>A publication that comes in brings no track; what is written again keeps its track and its source.\<close>

lemma inv_media_part:
  assumes inv: "streams_inv s" and mp: "media_part s' = media_part s"
    and pb: "\<And>sid p. obj_get (rm_publications s') sid = Some p
      \<Longrightarrow> pb_track p = None \<or> (\<exists>sid' p'. obj_get (rm_publications s) sid' = Some p' \<and> pb_track p' = pb_track p \<and> pb_source p' = pb_source p)"
  shows "streams_inv s'"
  by (rule streams_inv_kept[OF inv _ _ _ _ pb]) (use mp in \<open>simp_all add: media_part_def\<close>)

lemma inv_same: "streams_inv s \<Longrightarrow> media_part s' = media_part s \<Longrightarrow> rm_publications s' = rm_publications s \<Longrightarrow> streams_inv s'"
  by (erule inv_media_part) auto

lemma inv_put: "streams_inv s \<Longrightarrow> pb_track p = None \<or> (\<exists>p'. obj_get (rm_publications s) sid = Some p' \<and> pb_track p' = pb_track p \<and> pb_source p' = pb_source p)
    \<Longrightarrow> streams_inv (put_publication sid p s)"
  by (erule inv_media_part) (auto simp: remote_frame obj_simps split: if_splits)

lemma publications_same [remote_frame]:
  "rm_publications (syncParticipantMediaState peer s) = rm_publications s"
  "rm_publications (rememberExistingRemoteMedia peer s) = rm_publications s"
  "rm_publications (playRemoteMediaStartCue peer s) = rm_publications s"
  "rm_publications (scheduleRemoteMediaStopCue peer s) = rm_publications s"
  "rm_publications (restartRemoteSpeakingMonitor peer s) = rm_publications s"
  "rm_publications (closePeer b peer s) = rm_publications s"
  by (simp_all add: syncParticipantMediaState_def rememberExistingRemoteMedia_def playRemoteMediaStartCue_def
      cancelRemoteScreenStopCue_def scheduleRemoteMediaStopCue_def restartRemoteSpeakingMonitor_def closePeer_def
      clearRemoteMediaStartCue_def Let_def)

lemma publications_sync [remote_frame]:
  "rm_publications (syncRemotePublicationSubscription peer sid s) = rm_publications s"
  "rm_publications (apply_choice peer kind b sid s) = rm_publications s"
  "rm_publications (retryRemotePublicationSubscription peer sid s) = rm_publications s"
  by (auto simp: syncRemotePublicationSubscription_def apply_choice_def retryRemotePublicationSubscription_def Let_def split: option.split)

lemma publications_syncs [remote_frame]:
  "rm_publications (sync_participant peer s) = rm_publications s" "rm_publications (syncRemoteSubscriptions s) = rm_publications s"
proof -
  have *: "rm_publications (sync_participant peer s) = rm_publications s" for peer s
    unfolding sync_participant_def by (rule fold_keeps) (simp add: remote_frame)
  then show "rm_publications (sync_participant peer s) = rm_publications s" .
  show "rm_publications (syncRemoteSubscriptions s) = rm_publications s"
    unfolding syncRemoteSubscriptions_def by (rule fold_keeps) (rule *)
qed

lemma publications_removed [remote_frame]: "rm_publications (removeRemoteTrack peer i s) = rm_publications s"
  by (simp add: removeRemoteTrack_def Let_def remote_frame)

lemma publications_ops [remote_frame]:
  "rm_publications (retry_fired k s) = rm_publications s"
  "rm_publications (stop_cue_fired peer s) = rm_publications s"
  "rm_publications (speaking_heard peer b s) = rm_publications s"
  "rm_publications (visibility_changed b s) = rm_publications s"
  "rm_publications (subscription_failed peer sid s) = rm_publications s"
  "rm_publications (room_opened c s) = rm_publications s"
  "rm_publications (track_unpublished peer sid s) = rm_publications s"
  by (auto simp: retry_fired_def stop_cue_fired_def speaking_heard_def visibility_changed_def subscription_failed_def room_opened_def
      track_unpublished_def remote_frame Let_def split: option.split)

lemma publications_chosen [remote_frame]: "rm_publications (setRemoteMediaSubscribed peer kind b s) = rm_publications s"
proof -
  have "rm_publications (fold (apply_choice peer kind b) xs s) = rm_publications s" for xs s
    by (rule fold_keeps) (simp add: remote_frame)
  then show ?thesis by (simp add: setRemoteMediaSubscribed_def Let_def)
qed

lemma publications_hydrate [remote_frame]: "rm_publications (hydrate_peer now peer s) = rm_publications s"
  by (simp add: hydrate_peer_def remote_frame)

lemma media_part_participants [remote_frame]: "media_part (s\<lparr>rm_participants := ps\<rparr>) = media_part s"
  by (simp add: media_part_def)

lemma inv_published: "streams_inv s \<Longrightarrow> pb_track p = None \<Longrightarrow> streams_inv (remote_published peer sid p s)"
  by (erule inv_media_part)
    (auto simp: remote_frame remote_published_def Let_def obj_simps split: if_splits)

lemma inv_put_peer: "streams_inv s \<Longrightarrow> list_all (\<lambda>(sid, p). pb_track p = None) pubs \<Longrightarrow> streams_inv (put_peer peer pubs s)"
proof -
  assume "streams_inv s" and "list_all (\<lambda>(sid, p). pb_track p = None) pubs"
  then have "streams_inv (fold (\<lambda>(sid, p). put_publication sid p) pubs s)"
    by (induction pubs arbitrary: s) (auto intro: inv_put)
  then show ?thesis unfolding put_peer_def by (rule inv_same) (simp_all add: media_part_def)
qed

lemma inv_connected: "streams_inv s \<Longrightarrow> list_all (\<lambda>(sid, p). pb_track p = None) pubs \<Longrightarrow> streams_inv (peer_connected now peer pubs s)"
  unfolding peer_connected_def Let_def by (rule inv_same[OF inv_put_peer]) (simp_all add: remote_frame)

lemma inv_fold: "(\<And>x s. Q x \<Longrightarrow> streams_inv s \<Longrightarrow> streams_inv (f x s)) \<Longrightarrow> list_all Q xs \<Longrightarrow> streams_inv s \<Longrightarrow> streams_inv (fold f xs s)"
  by (induction xs arbitrary: s) simp_all

lemma inv_hydrated:
  assumes inv: "streams_inv s" and ps: "list_all (\<lambda>(peer, pubs). list_all (\<lambda>(sid, p). pb_track p = None) pubs) peers"
  shows "streams_inv (room_hydrated now peers s)"
proof -
  define s1 where "s1 = fold (\<lambda>(peer, pubs). put_peer peer pubs) peers (s\<lparr>rm_participants := []\<rparr>)"
  have "streams_inv s1" unfolding s1_def
  proof (rule inv_fold[OF _ ps])
    show "streams_inv (s\<lparr>rm_participants := []\<rparr>)" using inv by (rule inv_same) (simp_all add: media_part_def)
  qed (auto intro: inv_put_peer)
  define s2 where "s2 = fold (hydrate_peer now) (obj_keys (rm_participants s1)) s1"
  have "media_part s2 = media_part s1" "rm_publications s2 = rm_publications s1"
    unfolding s2_def by (rule fold_keeps, simp add: remote_frame)+
  with \<open>streams_inv s1\<close> have "streams_inv s2" by (rule inv_same)
  moreover have "room_hydrated now peers s = s2\<lparr>rm_cue_ready := True\<rparr>"
    unfolding room_hydrated_def Let_def s2_def s1_def by (rule refl)
  moreover have "streams_inv (s2\<lparr>rm_cue_ready := True\<rparr>)"
    using \<open>streams_inv s2\<close> by (rule inv_same) (simp_all add: media_part_def)
  ultimately show ?thesis by (simp only:)
qed

lemma inv_on_track:
  assumes inv: "streams_inv s" and f: "\<And>t. obj_get (rm_tracks s) i = Some t \<Longrightarrow> same_class (f t) t"
  shows "streams_inv (on_track i f s)"
proof (rule streams_inv_kept[OF inv])
  show "rel_option same_class (obj_get (rm_tracks (on_track i f s)) j) (obj_get (rm_tracks s) j)" for j
  proof (cases "j = i")
    case True
    then show ?thesis using f by (cases "obj_get (rm_tracks s) i") simp_all
  qed simp
qed (simp_all, blast)

lemma inv_silence: "streams_inv s \<Longrightarrow> streams_inv (on_track i (setRemoteMicrophoneTrackPlaybackMuted b) s)"
  by (rule inv_on_track) simp_all

lemma inv_deaf: "streams_inv s \<Longrightarrow> streams_inv (setRemoteMicrophonePlaybackMuted b s)"
proof -
  assume "streams_inv s"
  then have "streams_inv (s\<lparr>rm_playback_muted := b\<rparr>)" by (rule streams_inv_kept) (simp_all, blast)
  then show ?thesis
    unfolding setRemoteMicrophonePlaybackMuted_def
    by (rule inv_fold[where Q = "\<lambda>_. True", rotated -1]) (simp_all add: inv_silence list_all_iff)
qed

lemma inv_mute_changed: "streams_inv s \<Longrightarrow> streams_inv (mute_changed peer sid b s)"
proof (cases "obj_get (rm_publications s) sid")
  case (Some p)
  assume inv: "streams_inv s"
  define s1 where "s1 = put_publication sid (p\<lparr>pb_muted := b\<rparr>) s"
  have inv1: "streams_inv s1" unfolding s1_def using inv Some by (intro inv_put) auto
  have src: "source_ok s1 (p\<lparr>pb_muted := b\<rparr>)"
  proof -
    have "\<forall>sid q. obj_get (rm_publications s1) sid = Some q \<longrightarrow> source_ok s1 q" using inv1 by (simp add: streams_inv_def)
    then have "obj_get (rm_publications s1) sid = Some (p\<lparr>pb_muted := b\<rparr>) \<longrightarrow> source_ok s1 (p\<lparr>pb_muted := b\<rparr>)" by blast
    then show ?thesis by (simp add: s1_def obj_simps)
  qed
  show ?thesis
  proof (cases "pb_track p")
    case None
    with Some inv1 show ?thesis
      by (auto simp: mute_changed_def s1_def Let_def remote_frame intro: inv_same[of s1])
  next
    case (Some i)
    define src where "src = (if pb_source p = SourceScreenAudio then ScreenAudio else VoiceAudio)"
    define s3 where "s3 = on_track i (markRemoteAudioTrackSource src) s1"
    define s4 where "s4 = (if src = VoiceAudio \<and> rm_playback_muted s3
      then on_track i (setRemoteMicrophoneTrackPlaybackMuted True) s3 else s3)"
    have "streams_inv s3" unfolding s3_def
    proof (rule inv_on_track[OF inv1])
      fix t assume "obj_get (rm_tracks s1) i = Some t"
      with \<open>source_ok s1 _\<close> Some show "same_class (markRemoteAudioTrackSource src t) t"
        by (auto simp: source_ok_def same_class_def markRemoteAudioTrackSource_def isScreenShareAudioTrack_def src_def)
    qed
    then have "streams_inv s4" by (simp add: s4_def inv_silence)
    moreover have "mute_changed peer sid b s = syncParticipantMediaState peer
        (if track_is (\<lambda>t. mt_kind t = AudioKind) s1 i then s4 else s1)"
      by (simp add: mute_changed_def \<open>obj_get (rm_publications s) sid = Some p\<close> Some s4_def s3_def src_def s1_def)
    ultimately show ?thesis using inv1 by (auto simp: remote_frame intro: inv_same)
  qed
qed (simp add: mute_changed_def)

section \<open>Streams that change\<close>

text \<open>The invariant but for the monitor of one participant, which starting it again makes good.\<close>

definition inv_but :: "string \<Rightarrow> remote_state \<Rightarrow> bool" where
  "inv_but peer s \<longleftrightarrow>
     obj_ok (rm_streams s) \<and>
     (\<forall>q ids. obj_get (rm_streams s) q = Some ids \<longrightarrow> stream_ok s ids) \<and>
     streams_apart (rm_streams s) \<and>
     (\<forall>q ids. q \<noteq> peer \<longrightarrow> obj_get (rm_monitors s) q = Some ids \<longrightarrow> monitor_ok s q ids) \<and>
     (\<forall>sid p. obj_get (rm_publications s) sid = Some p \<longrightarrow> source_ok s p)"

lemma inv_but_inv: "inv_but peer s \<Longrightarrow> (\<And>ids. obj_get (rm_monitors s) peer = Some ids \<Longrightarrow> monitor_ok s peer ids) \<Longrightarrow> streams_inv s"
  unfolding inv_but_def streams_inv_def by metis

lemma track_class_cong: "obj_get (rm_tracks s') i = obj_get (rm_tracks s) i \<Longrightarrow> (i \<in> set (rm_screen_ids s') \<longleftrightarrow> i \<in> set (rm_screen_ids s))
    \<Longrightarrow> track_class s' i = track_class s i"
  by (cases "obj_get (rm_tracks s) i") (simp_all add: track_class_def)

lemma inv_inv_but: "streams_inv s \<Longrightarrow> inv_but peer s"
  unfolding inv_but_def streams_inv_def by metis

text \<open>The stream of one participant is replaced; the tracks of the other streams stay what they are.\<close>

lemma stream_replaced:
  assumes inv: "streams_inv s" and ok: "obj_ok (rm_streams s')"
    and st: "\<And>q. q \<noteq> peer \<Longrightarrow> obj_get (rm_streams s') q = obj_get (rm_streams s) q"
    and new: "\<And>ids. obj_get (rm_streams s') peer = Some ids \<Longrightarrow> stream_ok s' ids"
    and fresh: "\<And>ids q jds. obj_get (rm_streams s') peer = Some ids \<Longrightarrow> q \<noteq> peer \<Longrightarrow> obj_get (rm_streams s) q = Some jds
      \<Longrightarrow> set ids \<inter> set jds = {}"
    and same: "\<And>q jds j. q \<noteq> peer \<Longrightarrow> obj_get (rm_streams s) q = Some jds \<Longrightarrow> j \<in> set jds
      \<Longrightarrow> obj_get (rm_tracks s') j = obj_get (rm_tracks s) j \<and> (j \<in> set (rm_screen_ids s') \<longleftrightarrow> j \<in> set (rm_screen_ids s))"
    and mon: "\<And>q. q \<noteq> peer \<Longrightarrow> obj_get (rm_monitors s') q = obj_get (rm_monitors s) q"
    and pubs: "\<And>sid p. obj_get (rm_publications s') sid = Some p \<Longrightarrow> source_ok s' p"
  shows "inv_but peer s'"
proof -
  have so: "stream_ok s' jds" if "q \<noteq> peer" "obj_get (rm_streams s) q = Some jds" for q jds
  proof -
    have ok: "stream_ok s jds" using inv that unfolding streams_inv_def by blast
    have tr: "obj_get (rm_tracks s') j = obj_get (rm_tracks s) j" if "j \<in> set jds" for j
      using same[OF \<open>q \<noteq> peer\<close> \<open>obj_get (rm_streams s) q = Some jds\<close> that] ..
    have "track_class s' j = track_class s j" if "j \<in> set jds" for j
      using same[OF \<open>q \<noteq> peer\<close> \<open>obj_get (rm_streams s) q = Some jds\<close> that] by (intro track_class_cong) auto
    then have "inj_on (track_class s') (set jds) \<longleftrightarrow> inj_on (track_class s) (set jds)" by (rule inj_on_cong)
    then show ?thesis using ok unfolding stream_ok_def by (simp add: tr)
  qed
  have mo: "monitor_ok s' q ids" if "q \<noteq> peer" "obj_get (rm_monitors s) q = Some ids" for q ids
  proof -
    have m: "monitor_ok s q ids" using inv that unfolding streams_inv_def by blast
    show ?thesis
    proof (cases "obj_get (rm_streams s) q")
      case None
      with m have "ids = []" by (simp add: monitor_ok_def)
      then show ?thesis by (simp add: monitor_ok_def)
    next
      case (Some jds)
      with m same[OF that(1) Some] st[OF that(1)] show ?thesis by (auto simp: monitor_ok_def track_is_def)
    qed
  qed
  have old: "set ids \<inter> set jds = {}" if "p \<noteq> q" "obj_get (rm_streams s) p = Some ids" "obj_get (rm_streams s) q = Some jds" for p q ids jds
    using inv that unfolding streams_inv_def streams_apart_def by blast
  have "streams_apart (rm_streams s')"
    unfolding streams_apart_def
  proof (intro allI impI)
    fix p q ids jds
    assume g: "obj_get (rm_streams s') p = Some ids" "obj_get (rm_streams s') q = Some jds" "p \<noteq> q"
    consider "p = peer" | "q = peer" | "p \<noteq> peer" "q \<noteq> peer" by blast
    then show "set ids \<inter> set jds = {}"
    proof cases
      case 1 with g st[of q] fresh[of ids q jds] show ?thesis by auto
    next
      case 2 with g st[of p] fresh[of jds p ids] show ?thesis by auto
    next
      case 3 with g st[of p] st[of q] old[of p q ids jds] show ?thesis by auto
    qed
  qed
  moreover have "\<forall>q ids. obj_get (rm_streams s') q = Some ids \<longrightarrow> stream_ok s' ids" using so st new by metis
  moreover have "\<forall>q ids. q \<noteq> peer \<longrightarrow> obj_get (rm_monitors s') q = Some ids \<longrightarrow> monitor_ok s' q ids" using mo mon by metis
  ultimately show ?thesis using ok pubs unfolding inv_but_def by blast
qed

lemma inv_restart: "inv_but peer s \<Longrightarrow> streams_inv (restartRemoteSpeakingMonitor peer s)"
proof (rule inv_but_inv)
  let ?s = "restartRemoteSpeakingMonitor peer s"
  have same: "stream_ok ?s ids = stream_ok s ids" "monitor_ok ?s q ids = monitor_ok s q ids" "source_ok ?s p = source_ok s p" for ids q p
  proof -
    have "track_class ?s = track_class s" by (intro ext track_class_cong) simp_all
    then show "stream_ok ?s ids = stream_ok s ids" by (simp add: stream_ok_def)
    show "monitor_ok ?s q ids = monitor_ok s q ids" "source_ok ?s p = source_ok s p"
      by (simp_all add: monitor_ok_def source_ok_def track_is_def)
  qed
  have mon: "q \<noteq> peer \<Longrightarrow> obj_get (rm_monitors ?s) q = obj_get (rm_monitors s) q" for q
    by (simp add: restartRemoteSpeakingMonitor_def Let_def obj_simps)
  assume "inv_but peer s"
  then show "inv_but peer ?s"
    unfolding inv_but_def same publications_same restart_fields using mon by metis
  show "monitor_ok ?s peer ids" if "obj_get (rm_monitors ?s) peer = Some ids" for ids
    using that unfolding same
    by (auto simp: restartRemoteSpeakingMonitor_def Let_def obj_simps monitor_ok_def track_is_def split: if_splits option.splits)
qed

text \<open>A participant's stream and monitor go together.\<close>

lemma inv_close:
  assumes inv: "streams_inv s" and tr: "rm_tracks s1 = rm_tracks s" and mn: "rm_monitors s1 = rm_monitors s" and pb: "rm_publications s1 = rm_publications s"
    and ok: "obj_ok (rm_streams s1)" and st: "\<And>q. q \<noteq> peer \<Longrightarrow> obj_get (rm_streams s1) q = obj_get (rm_streams s) q"
    and sc: "\<And>q jds j. q \<noteq> peer \<Longrightarrow> obj_get (rm_streams s) q = Some jds \<Longrightarrow> j \<in> set jds
      \<Longrightarrow> (j \<in> set (rm_screen_ids s1) \<longleftrightarrow> j \<in> set (rm_screen_ids s))"
  shows "streams_inv (closePeer b peer s1)"
proof (rule inv_but_inv)
  have "source_ok s p" if "obj_get (rm_publications s) sid = Some p" for sid p
    using inv that unfolding streams_inv_def by blast
  then have pubs: "source_ok (closePeer b peer s1) p" if "obj_get (rm_publications (closePeer b peer s1)) sid = Some p" for sid p
    using that by (simp add: source_ok_def tr pb remote_frame)
  show "inv_but peer (closePeer b peer s1)"
    by (rule stream_replaced[OF inv]) (simp_all add: obj_simps ok st tr mn sc pubs)
qed (simp add: obj_simps)

lemma inv_disconnected: "streams_inv s \<Longrightarrow> streams_inv (peer_disconnected now peer s)"
  unfolding peer_disconnected_def Let_def
  by (rule inv_close[of s]) (simp_all add: streams_inv_def)

lemma inv_remove: "streams_inv s \<Longrightarrow> streams_inv (removeRemoteTrack peer i s)"
proof (cases "i \<in> set (stream_of peer s)")
  case True
  assume inv: "streams_inv s"
  from True obtain ids where ids: "obj_get (rm_streams s) peer = Some ids" and i: "i \<in> set ids"
    by (cases "obj_get (rm_streams s) peer") auto
  define rest where "rest = removeAll i ids"
  define s1 where "s1 = s\<lparr>rm_streams := obj_put peer rest (rm_streams s), rm_screen_ids := removeAll i (rm_screen_ids s)\<rparr>"
  have eq: "removeRemoteTrack peer i s =
      (if rest = [] then closePeer True peer s1
       else if track_is (\<lambda>t. mt_kind t = AudioKind) s1 i then restartRemoteSpeakingMonitor peer s1 else s1)"
    using True by (simp add: removeRemoteTrack_def ids rest_def s1_def)
  have old: "stream_ok s ids" using inv ids unfolding streams_inv_def by blast
  have others: "set ids \<inter> set jds = {}" if "obj_get (rm_streams s) q = Some jds" "q \<noteq> peer" for q jds
    using inv ids that unfolding streams_inv_def streams_apart_def by blast
  have screens: "j \<in> set (rm_screen_ids s1) \<longleftrightarrow> j \<in> set (rm_screen_ids s)"
    if "q \<noteq> peer" "obj_get (rm_streams s) q = Some jds" "j \<in> set jds" for q jds j
    using others[OF that(2,1)] that(3) i by (auto simp: s1_def)
  have fields: "rm_tracks s1 = rm_tracks s" "rm_monitors s1 = rm_monitors s" "rm_publications s1 = rm_publications s"
    "obj_ok (rm_streams s1)" "q \<noteq> peer \<Longrightarrow> obj_get (rm_streams s1) q = obj_get (rm_streams s) q" "obj_get (rm_streams s1) peer = Some rest" for q
    using inv by (simp_all add: s1_def obj_simps streams_inv_def)
  show ?thesis
  proof (cases "rest = []")
    case True
    then show ?thesis by (simp add: eq) (rule inv_close[OF inv fields(1-4)], auto simp: fields screens)
  next
    case False
    have but: "inv_but peer s1"
    proof (rule stream_replaced[OF inv fields(4)])
      have "j \<noteq> i \<Longrightarrow> track_class s1 j = track_class s j" for j by (rule track_class_cong) (simp_all add: s1_def)
      with old False have "stream_ok s1 rest" by (auto simp: stream_ok_def rest_def inj_on_def fields distinct_removeAll)
      then show "stream_ok s1 jds" if "obj_get (rm_streams s1) peer = Some jds" for jds using that fields(6) by simp
      show "set jds \<inter> set kds = {}" if "obj_get (rm_streams s1) peer = Some jds" "q \<noteq> peer" "obj_get (rm_streams s) q = Some kds" for jds q kds
        using others[OF that(3,2)] that(1) fields(6) by (auto simp: rest_def)
      show "source_ok s1 p" if "obj_get (rm_publications s1) sid = Some p" for sid p
        using inv that unfolding streams_inv_def fields by (auto simp: source_ok_def fields)
    qed (simp_all add: fields screens)
    have "streams_inv s1" if "\<not> track_is (\<lambda>t. mt_kind t = AudioKind) s1 i"
    proof (rule inv_but_inv[OF but])
      fix jds assume "obj_get (rm_monitors s1) peer = Some jds"
      then have "monitor_ok s peer jds" using inv unfolding streams_inv_def fields by blast
      then have m: "set jds \<subseteq> set ids" "\<forall>j \<in> set jds. track_is is_microphone s j" by (simp_all add: monitor_ok_def ids)
      moreover have "i \<notin> set jds" using m(2) that by (auto simp: track_is_def is_microphone_def fields split: option.splits)
      ultimately show "monitor_ok s1 peer jds" using fields by (auto simp: monitor_ok_def track_is_def rest_def)
    qed
    with False but show ?thesis by (simp add: eq inv_restart)
  qed
qed (simp add: removeRemoteTrack_def)

section \<open>A track comes in\<close>

lemma mark_result:
  assumes "obj_get (rm_tracks s) i = Some u" and "source_kind src = Some (mt_kind u)"
  shows "\<exists>v. obj_get (rm_tracks (mark_source i src s)) i = Some v \<and> mt_kind v = mt_kind u \<and>
    (mt_kind u = AudioKind \<longrightarrow> isScreenShareAudioTrack v = (src = SourceScreenAudio))"
  using assms
  by (cases src) (auto simp: mark_source_def source_kind_def track_is_def markRemoteAudioTrackSource_def markRemoteVideoTrackSource_def
      isScreenShareAudioTrack_def)

lemma mark_source_screens: "rm_screen_ids (mark_source i src s) =
    (case src of SourceScreen \<Rightarrow> set_add i (rm_screen_ids s) | SourceCamera \<Rightarrow> removeAll i (rm_screen_ids s) | _ \<Rightarrow> rm_screen_ids s)"
  by (simp add: mark_source_def Let_def split: track_source.split)

lemma mark_screens:
  "j \<noteq> i \<Longrightarrow> j \<in> set (rm_screen_ids (mark_source i src s)) \<longleftrightarrow> j \<in> set (rm_screen_ids s)"
  "source_kind src = Some VideoKind \<Longrightarrow> i \<in> set (rm_screen_ids (mark_source i src s)) \<longleftrightarrow> src = SourceScreen"
  by (simp_all add: mark_source_screens source_kind_def split: track_source.splits)

lemma inv_received:
  assumes inv: "streams_inv s" and fits: "subscription_fits peer sid i t s" and p: "obj_get (rm_publications s) sid = Some p"
  defines "s3 \<equiv> receive_track peer sid i t p s"
  shows "inv_but peer s3" and "\<not> track_is (\<lambda>u. mt_kind u = AudioKind) s3 i \<Longrightarrow> streams_inv s3"
proof -
  define src where "src = pb_source p"
  define u where "u = nullish (obj_get (rm_tracks s) i) t"
  define s1 where "s1 = put_publication sid (p\<lparr>pb_subscribed := True, pb_track := Some i\<rparr>)
    (s\<lparr>rm_tracks := (if obj_get (rm_tracks s) i = None then obj_put i t (rm_tracks s) else rm_tracks s)\<rparr>)"
  define s2 where "s2 = on_track i (setRemoteMicrophoneTrackPlaybackMuted (rm_playback_muted s)) (mark_source i src s1)"
  define old where "old = stream_of peer s"
  have s3: "s3 = add_to_stream peer i src s2" by (simp add: s3_def receive_track_def Let_def s2_def s1_def src_def)
  have kind: "source_kind src = Some (mt_kind u)" using fits p by (simp add: subscription_fits_def src_def u_def)
  have "obj_get (rm_tracks s1) i = Some u" by (auto simp: s1_def u_def obj_simps)
  from mark_result[OF this kind] obtain v0 where v0: "obj_get (rm_tracks (mark_source i src s1)) i = Some v0" "mt_kind v0 = mt_kind u"
    "mt_kind u = AudioKind \<longrightarrow> isScreenShareAudioTrack v0 = (src = SourceScreenAudio)" by blast
  define v where "v = setRemoteMicrophoneTrackPlaybackMuted (rm_playback_muted s) v0"
  have v: "obj_get (rm_tracks s2) i = Some v" "mt_kind v = mt_kind u" "mt_kind u = AudioKind \<longrightarrow> isScreenShareAudioTrack v = (src = SourceScreenAudio)"
    using v0 silencing_class[of "rm_playback_muted s" v0] by (auto simp: s2_def v_def same_class_def)
  have tr: "obj_get (rm_tracks s2) j = obj_get (rm_tracks s) j" if "j \<noteq> i" for j using that by (auto simp: s2_def s1_def obj_simps)
  have tr3: "rm_tracks s3 = rm_tracks s2" by (simp add: s3 add_to_stream_def)
  have sc2: "j \<in> set (rm_screen_ids s2) \<longleftrightarrow> j \<in> set (rm_screen_ids s)" if "j \<noteq> i" for j
    using mark_screens(1)[OF that, of src s1] by (simp add: s2_def s1_def)
  have sci: "i \<in> set (rm_screen_ids s2) \<longleftrightarrow> src = SourceScreen" if "mt_kind u = VideoKind"
    using mark_screens(2)[of src i s1] kind that by (simp add: s2_def)
  have old2: "stream_of peer s2 = old" by (simp add: s2_def s1_def old_def)
  have not_self: "\<not> displaced i src s2 i" by (simp add: displaced_def split: option.split)
  define new where "new = set_add i (filter (\<lambda>j. \<not> displaced i src s2 j) old)"
  have st3: "rm_streams s3 = obj_put peer new (rm_streams s)"
    by (simp add: s3 add_to_stream_def new_def old2) (simp add: s2_def s1_def)
  have sc3: "j \<in> set (rm_screen_ids s3) \<longleftrightarrow> j \<in> set (rm_screen_ids s2) \<and> (j \<notin> set old \<or> \<not> displaced i src s2 j)" for j
    by (simp add: s3 add_to_stream_def old2)
  have mon3: "rm_monitors s3 = rm_monitors s" by (simp add: s3 add_to_stream_def s2_def s1_def)
  have pubs3: "rm_publications s3 = obj_put sid (p\<lparr>pb_subscribed := True, pb_track := Some i\<rparr>) (rm_publications s)"
    by (simp add: s3 add_to_stream_def s2_def s1_def)
  have others: "i \<notin> set jds" if "obj_get (rm_streams s) q = Some jds" "q \<noteq> peer" for q jds
    using fits map_of_SomeD[OF that(1)] that(2) by (auto simp: subscription_fits_def list_all_iff)
  have apart: "set old \<inter> set jds = {}" if "obj_get (rm_streams s) q = Some jds" "q \<noteq> peer" for q jds
    using inv that unfolding streams_inv_def streams_apart_def old_def by (cases "obj_get (rm_streams s) peer") auto
  have old_ok: "distinct old \<and> inj_on (track_class s) (set old) \<and> (\<forall>j \<in> set old. obj_get (rm_tracks s) j \<noteq> None)"
  proof (cases "obj_get (rm_streams s) peer")
    case (Some ids)
    then have "stream_ok s ids" using inv unfolding streams_inv_def by blast
    then show ?thesis by (simp add: old_def Some stream_ok_def)
  qed (simp add: old_def)
  have cls: "track_class s3 j = track_class s j" if "j \<noteq> i" "j \<in> set new" for j
    using that tr[OF that(1)] sc2[OF that(1)] by (intro track_class_cong) (auto simp: tr3 sc3 new_def)
  have clsi: "track_class s3 j \<noteq> track_class s3 i" if j: "j \<noteq> i" "j \<in> set new" for j
  proof -
    have "j \<in> set old" "\<not> displaced i src s2 j" using j by (auto simp: new_def)
    then obtain w where w: "obj_get (rm_tracks s2) j = Some w" using old_ok tr[OF j(1)] by auto
    have nd: "mt_kind w \<noteq> mt_kind v \<or> (if mt_kind v = AudioKind then isScreenShareAudioTrack w \<noteq> (src = SourceScreenAudio)
        else if src = SourceScreen then j \<notin> set (rm_screen_ids s2) else j \<in> set (rm_screen_ids s2))"
      using \<open>\<not> displaced i src s2 j\<close> j(1) v(1) w by (simp add: displaced_def split: if_splits)
    have "j \<in> set (rm_screen_ids s3) \<longleftrightarrow> j \<in> set (rm_screen_ids s2)" "i \<in> set (rm_screen_ids s3) \<longleftrightarrow> i \<in> set (rm_screen_ids s2)"
      using \<open>\<not> displaced i src s2 j\<close> not_self by (auto simp: sc3)
    with nd v w show ?thesis using sci by (cases "mt_kind u") (auto simp: track_class_def tr3 split: if_splits)
  qed
  have "inj_on (track_class s3) (set new)"
  proof (rule inj_onI)
    fix j k assume jk: "j \<in> set new" "k \<in> set new" "track_class s3 j = track_class s3 k"
    show "j = k"
    proof (cases "j = i \<or> k = i")
      case True
      with jk clsi show ?thesis by metis
    next
      case False
      with jk cls have "track_class s j = track_class s k" by metis
      moreover have "j \<in> set old" "k \<in> set old" using jk False by (auto simp: new_def)
      ultimately show ?thesis using old_ok by (meson inj_onD)
    qed
  qed
  moreover have "distinct new" using old_ok by (simp add: new_def)
  moreover have "new \<noteq> []"
  proof -
    have "i \<in> set new" by (simp add: new_def)
    then show ?thesis by auto
  qed
  moreover have "obj_get (rm_tracks s3) j \<noteq> None" if "j \<in> set new" for j
    using that old_ok v(1) tr[of j] by (cases "j = i") (auto simp: new_def tr3)
  ultimately have new_ok: "stream_ok s3 new" by (simp add: stream_ok_def)
  have pubs_ok: "source_ok s3 q" if "obj_get (rm_publications s3) sid' = Some q" for sid' q
  proof (cases "sid' = sid")
    case True
    with that v show ?thesis by (auto simp: pubs3 obj_simps source_ok_def tr3 src_def)
  next
    case False
    with that have q: "obj_get (rm_publications s) sid' = Some q" by (simp add: pubs3 obj_simps)
    then have "source_ok s q" using inv unfolding streams_inv_def by blast
    moreover have "pb_track q \<noteq> Some i" using fits False map_of_SomeD[OF q] by (auto simp: subscription_fits_def list_all_iff)
    ultimately show ?thesis using tr by (auto simp: source_ok_def tr3)
  qed
  show but: "inv_but peer s3"
  proof (rule stream_replaced[OF inv])
    show "obj_ok (rm_streams s3)" using inv unfolding st3 streams_inv_def by (auto intro: obj_ok_put)
    show "set jds \<inter> set kds = {}" if "obj_get (rm_streams s3) peer = Some jds" "q \<noteq> peer" "obj_get (rm_streams s) q = Some kds" for jds q kds
      using that others[OF that(3,2)] apart[OF that(3,2)] by (auto simp: st3 obj_simps new_def)
    show "obj_get (rm_tracks s3) j = obj_get (rm_tracks s) j \<and> (j \<in> set (rm_screen_ids s3) \<longleftrightarrow> j \<in> set (rm_screen_ids s))"
      if "q \<noteq> peer" "obj_get (rm_streams s) q = Some jds" "j \<in> set jds" for q jds j
    proof -
      have "j \<noteq> i" "j \<notin> set old" using others[OF that(2,1)] apart[OF that(2,1)] that(3) by auto
      then show ?thesis using tr[of j] sc2[of j] by (simp add: tr3 sc3)
    qed
  qed (auto simp: st3 mon3 obj_simps new_ok pubs_ok)
  assume video: "\<not> track_is (\<lambda>u. mt_kind u = AudioKind) s3 i"
  then have vk: "mt_kind u = VideoKind" using v by (cases "mt_kind u") (auto simp: track_is_def tr3)
  show "streams_inv s3"
  proof (rule inv_but_inv[OF but])
    fix ids assume "obj_get (rm_monitors s3) peer = Some ids"
    then have m: "monitor_ok s peer ids" using inv unfolding streams_inv_def mon3 by blast
    have "j \<in> set new \<and> track_is is_microphone s3 j" if "j \<in> set ids" for j
    proof -
      have mic: "track_is is_microphone s j" and "j \<in> set old" using m that unfolding monitor_ok_def old_def by blast+
      then obtain w where w: "obj_get (rm_tracks s) j = Some w" "mt_kind w = AudioKind"
        by (auto simp: track_is_def is_microphone_def split: option.splits)
      have "j \<noteq> i"
      proof
        assume "j = i"
        with w have "u = w" by (simp add: u_def)
        with w vk show False by simp
      qed
      moreover from this have "\<not> displaced i src s2 j" using w v vk tr[of j] by (simp add: displaced_def)
      ultimately show ?thesis using \<open>j \<in> set old\<close> mic tr[of j] by (simp add: new_def track_is_def tr3)
    qed
    then show "monitor_ok s3 peer ids" unfolding monitor_ok_def st3 by (auto simp: obj_simps)
  qed
qed

lemma inv_subscribed:
  assumes "streams_inv s" and "subscription_fits peer sid i t s"
  shows "streams_inv (track_subscribed peer sid i t s)"
proof (cases "obj_get (rm_publications s) sid")
  case (Some p)
  let ?s = "receive_track peer sid i t p s"
  have "streams_inv (if track_is (\<lambda>u. mt_kind u = AudioKind) ?s i then restartRemoteSpeakingMonitor peer ?s else ?s)"
    using inv_received[OF assms Some] inv_restart by auto
  then show ?thesis unfolding track_subscribed_def Some option.case Let_def
    by (rule inv_same) (simp_all add: remote_frame)
qed (simp add: track_subscribed_def assms)

section \<open>Every operation\<close>

lemma inv_ended: "streams_inv s \<Longrightarrow> streams_inv (track_ended peer i s)"
proof -
  assume "streams_inv s"
  then have "streams_inv (on_track i (\<lambda>t. t\<lparr>mt_ended := True\<rparr>) s)"
    by (rule inv_on_track) (simp add: same_class_def isScreenShareAudioTrack_def)
  then have "streams_inv (syncParticipantMediaState peer (on_track i (\<lambda>t. t\<lparr>mt_ended := True\<rparr>) s))"
    by (rule inv_same) (simp_all add: remote_frame)
  then show ?thesis unfolding track_ended_def by (rule inv_remove)
qed

lemma inv_unsubscribed: "streams_inv s \<Longrightarrow> streams_inv (track_unsubscribed peer sid i s)"
proof -
  assume inv: "streams_inv s"
  have "streams_inv (change_publication sid (\<lambda>p. p\<lparr>pb_subscribed := False, pb_track := None\<rparr>) s)"
    using inv by (auto simp: change_publication_def intro: inv_put split: option.split)
  then have "streams_inv (removeRemoteTrack peer i (change_publication sid (\<lambda>p. p\<lparr>pb_subscribed := False, pb_track := None\<rparr>) s))"
    by (rule inv_remove)
  then show ?thesis unfolding track_unsubscribed_def by (rule inv_same) (simp_all add: remote_frame)
qed

lemma inv_recover: "streams_inv s \<Longrightarrow> streams_inv (recover_publication peer sid s)"
proof -
  assume inv: "streams_inv s"
  have "streams_inv (retryRemotePublicationSubscription peer sid (on_track i (setRemoteMicrophoneTrackPlaybackMuted b) s))" for i b
    using inv_silence[OF inv] by (rule inv_same) (simp_all add: remote_frame)
  with inv show ?thesis by (auto simp: recover_publication_def Let_def inv_silence split: option.split)
qed

lemma inv_recover_peer: "streams_inv s \<Longrightarrow> streams_inv (recover_peer now peer s)"
proof -
  assume inv: "streams_inv s"
  define s1 where "s1 = in_store (reconcileLiveKitVoicePresence now peer (rm_channel s) True) s"
  have "streams_inv s1" using inv by (rule inv_same) (simp_all add: s1_def remote_frame)
  then have "streams_inv (fold (recover_publication peer) (publications_of peer s1) s1)"
    by (rule inv_fold[where Q = "\<lambda>_. True", rotated -1]) (simp_all add: inv_recover list_all_iff)
  then show ?thesis unfolding recover_peer_def Let_def s1_def[symmetric] by (rule inv_same) (simp_all add: remote_frame)
qed

lemma inv_reconnected: "streams_inv s \<Longrightarrow> streams_inv (media_reconnected now s)"
proof -
  assume inv: "streams_inv s"
  then have "streams_inv (syncRemoteSubscriptions s)" by (rule inv_same) (simp_all add: remote_frame)
  then have "streams_inv (fold (recover_peer now) ks (syncRemoteSubscriptions s))" for ks
    by (rule inv_fold[where Q = "\<lambda>_. True", rotated -1]) (simp_all add: inv_recover_peer list_all_iff)
  with inv show ?thesis by (simp add: media_reconnected_def)
qed

lemma inv_left: "streams_inv s \<Longrightarrow> streams_inv (leave_remote s)" "streams_inv s \<Longrightarrow> streams_inv (drop_remote s)"
  by (auto simp: streams_inv_def leave_remote_def drop_remote_def streams_apart_def source_ok_def)

lemma inv_unmuted: "streams_inv s \<Longrightarrow> streams_inv (track_unmuted peer i s)"
proof -
  assume "streams_inv s"
  then have "streams_inv (on_track i (setRemoteMicrophoneTrackPlaybackMuted (rm_playback_muted s)) s)" by (rule inv_silence)
  then show ?thesis unfolding track_unmuted_def by (rule inv_same) (simp_all add: remote_frame)
qed

lemma inv_keeps: "streams_inv s \<Longrightarrow> delivered op s \<Longrightarrow> streams_inv (remote_step op s)"
proof (cases op)
qed (simp_all add: inv_unmuted inv_subscribed inv_published inv_connected inv_hydrated inv_disconnected inv_deaf inv_mute_changed inv_ended
    inv_unsubscribed inv_reconnected inv_left inv_same[OF _ media_part_ops(1) publications_ops(1)]
    inv_same[OF _ media_part_ops(2) publications_ops(2)] inv_same[OF _ media_part_ops(3) publications_ops(3)]
    inv_same[OF _ media_part_ops(4) publications_ops(4)] inv_same[OF _ media_part_ops(5) publications_chosen]
    inv_same[OF _ media_part_ops(6) publications_ops(5)] inv_same[OF _ media_part_ops(8) publications_ops(7)]
    inv_same[OF _ media_part_ops(10) publications_ops(6)])

lemma inv_always: "delivered_run ops s \<Longrightarrow> streams_inv s \<Longrightarrow> streams_inv (fold remote_step ops s)"
  by (induction ops arbitrary: s) (simp_all add: inv_keeps)

lemma inv_init: "streams_inv (init_remote a)"
  by (simp add: streams_inv_def init_remote_def streams_apart_def)

text \<open>Four sources, so a stream has at most four tracks.\<close>

lemma stream_short: "stream_ok s ids \<Longrightarrow> length ids \<le> 4"
proof -
  assume ok: "stream_ok s ids"
  let ?C = "{Some (AudioKind, False), Some (AudioKind, True), Some (VideoKind, False), Some (VideoKind, True)}"
  have "track_class s ` set ids \<subseteq> ?C"
  proof
    fix c assume "c \<in> track_class s ` set ids"
    with ok obtain i t where "c = track_class s i" "obj_get (rm_tracks s) i = Some t" by (auto simp: stream_ok_def)
    then show "c \<in> ?C" by (cases "mt_kind t") (auto simp: track_class_def)
  qed
  then have "card (track_class s ` set ids) \<le> card ?C" by (intro card_mono) auto
  also have "card ?C \<le> 4" by (simp add: card_insert_if)
  finally have "card (set ids) \<le> 4" using ok by (simp add: stream_ok_def card_image)
  then show ?thesis using ok by (simp add: stream_ok_def distinct_card)
qed

end
