(* ===== verification/NoiseRefinement.thy ===== *)
theory NoiseRefinement
  imports VoiceProfile
begin

text \<open>
  The gains that follow the noise suppressor in \<^verbatim>\<open>src/webrtc/hooks/useAudioEngine.ts\<close>: the parameters of a
  suppression profile, the decision about one frame of the spectrum, and the smoothing from frame to frame. The
  spectrum is a list of levels in dB, in which a silent bin is minus infinity. Writing the diagnostics is left out.
\<close>

section \<open>Parameters of a profile\<close>

fun pickSuppressionValue :: "voice_suppression_tuning \<Rightarrow> 'a \<Rightarrow> 'a \<Rightarrow> 'a \<Rightarrow> 'a" where
  "pickSuppressionValue TuningOff off balanced high = off"
| "pickSuppressionValue TuningBalanced off balanced high = balanced"
| "pickSuppressionValue TuningHigh off balanced high = high"

definition dbToLinear :: "real \<Rightarrow> real" where
  "dbToLinear db = 10 powr (db / 20)"

definition thresholdDbFromSlider :: "real \<Rightarrow> int" where
  "thresholdDbFromSlider slider = max (- 100) (min 0 (js_round (slider - 100)))"

record suppression_filters =
  highPassHz :: real
  lowPassHz :: real
  deClickGainDb :: real
  speechPresenceGainDb :: real
  compressorThresholdDb :: real
  compressorKneeDb :: real
  compressorRatio :: real
  compressorAttackSec :: real
  compressorReleaseSec :: real

definition buildSuppressionFilterConfig :: "bool \<Rightarrow> voice_suppression_tuning \<Rightarrow> suppression_filters" where
  "buildSuppressionFilterConfig aggressive tuning =
     \<lparr>highPassHz = (if aggressive then pickSuppressionValue tuning 120 110 145 else pickSuppressionValue tuning 120 125 145),
      lowPassHz = (if aggressive then pickSuppressionValue tuning 7200 7600 5600 else pickSuppressionValue tuning 7200 6200 4400),
      deClickGainDb = (if aggressive then pickSuppressionValue tuning 0 (- 12 / 10) (- 5) else pickSuppressionValue tuning 0 (- 18 / 10) (- 42 / 10)),
      speechPresenceGainDb = (if aggressive then pickSuppressionValue tuning 0 (5 / 10) 1 else pickSuppressionValue tuning 0 (11 / 10) (175 / 100)),
      compressorThresholdDb = (if aggressive then pickSuppressionValue tuning (- 30) (- 28) (- 37) else pickSuppressionValue tuning (- 30) (- 31) (- 36)),
      compressorKneeDb = (if aggressive then pickSuppressionValue tuning 10 12 8 else pickSuppressionValue tuning 10 10 8),
      compressorRatio = (if aggressive then pickSuppressionValue tuning (35 / 10) (26 / 10) (48 / 10) else pickSuppressionValue tuning (35 / 10) (38 / 10) (54 / 10)),
      compressorAttackSec = (if aggressive then pickSuppressionValue tuning (3 / 1000) (4 / 1000) (2 / 1000) else pickSuppressionValue tuning (3 / 1000) (24 / 10000) (15 / 10000)),
      compressorReleaseSec = (if aggressive then pickSuppressionValue tuning (85 / 1000) (12 / 100) (75 / 1000) else pickSuppressionValue tuning (85 / 1000) (82 / 1000) (65 / 1000))\<rparr>"

record suppression_config =
  aggressiveIsolation :: bool
  suppressionTuning :: voice_suppression_tuning
  lowFloorThr :: real
  openFloorThr :: real
  minFloorGain :: real
  floorReleaseAlpha :: real
  floorReleaseTime :: real
  speechSafeFloorGain :: real
  isolationAttenuationAlpha :: real
  isolationRecoveryAlpha :: real
  isolationAttenuationTime :: real
  isolationRecoveryTime :: real

definition suppression_of :: "bool \<Rightarrow> voice_suppression_tuning \<Rightarrow> suppression_config" where
  "suppression_of aggressive tuning =
     \<lparr>aggressiveIsolation = aggressive, suppressionTuning = tuning,
      lowFloorThr = dbToLinear (if aggressive then pickSuppressionValue tuning (- 51) (- 54) (- 43) else pickSuppressionValue tuning (- 51) (- 50) (- 46)),
      openFloorThr = dbToLinear (if aggressive then pickSuppressionValue tuning (- 40) (- 42) (- 31) else pickSuppressionValue tuning (- 40) (- 38) (- 34)),
      minFloorGain = (if aggressive then pickSuppressionValue tuning (12 / 100) (22 / 100) (35 / 1000) else pickSuppressionValue tuning (12 / 100) (10 / 100) (6 / 100)),
      floorReleaseAlpha = (if aggressive then pickSuppressionValue tuning (8 / 100) (45 / 1000) (8 / 100) else pickSuppressionValue tuning (8 / 100) (75 / 1000) (9 / 100)),
      floorReleaseTime = (if aggressive then pickSuppressionValue tuning (6 / 100) (11 / 100) (7 / 100) else pickSuppressionValue tuning (6 / 100) (66 / 1000) (55 / 1000)),
      speechSafeFloorGain = (if aggressive then pickSuppressionValue tuning 1 (90 / 100) (82 / 100) else pickSuppressionValue tuning 1 (90 / 100) (84 / 100)),
      isolationAttenuationAlpha = (if aggressive then pickSuppressionValue tuning (14 / 100) (10 / 100) (15 / 100) else 14 / 100),
      isolationRecoveryAlpha = (if aggressive then pickSuppressionValue tuning (22 / 100) (30 / 100) (28 / 100) else 22 / 100),
      isolationAttenuationTime = (if aggressive then pickSuppressionValue tuning (6 / 100) (9 / 100) (75 / 1000) else 6 / 100),
      isolationRecoveryTime = (if aggressive then pickSuppressionValue tuning (3 / 100) (22 / 1000) (25 / 1000) else 3 / 100)\<rparr>"

text \<open>The stored settings that it reads; the three that only go to the diagnostics may fail as well.\<close>

definition buildSuppressionConfig :: "bool \<Rightarrow> string web_storage \<Rightarrow> unit + suppression_config" where
  "buildSuppressionConfig enabled st =
     (case getStoredVoiceInputProfile st of
        Inl e \<Rightarrow> Inl e
      | Inr profile \<Rightarrow>
          (case getStoredSpeakingPreset st of
             Inl e \<Rightarrow> Inl e
           | Inr preset \<Rightarrow>
               (case getSliderFromStorage st of
                  Inl e \<Rightarrow> Inl e
                | Inr slider \<Rightarrow>
                    (case getStoredVoiceSuppressionTuning enabled st of
                       Inl e \<Rightarrow> Inl e
                     | Inr tuning \<Rightarrow> Inr (suppression_of (shouldUseAggressiveVoiceIsolation profile enabled) tuning)))))"

section \<open>One frame\<close>

definition engineBandAverageDb :: "jsnum list \<Rightarrow> jsnum \<Rightarrow> real \<Rightarrow> real \<Rightarrow> real \<Rightarrow> real" where
  "engineBandAverageDb frequencyData sampleRate fftSize minHz maxHz =
     (case sampleRate of
        Fin rate \<Rightarrow>
          if rate \<le> 0 \<or> fftSize \<le> 0 \<or> maxHz \<le> minHz then - 100
          else
            let nyquist = rate / 2;
                clampedMin = max 0 (min minHz nyquist);
                clampedMax = max clampedMin (min maxHz nyquist);
                binWidth = rate / fftSize;
                start = max 0 \<lfloor>clampedMin / binWidth\<rfloor>;
                stop = min (int (length frequencyData) - 1) \<lceil>clampedMax / binWidth\<rceil>;
                values = [x. Fin x \<leftarrow> map (\<lambda>i. frequencyData ! nat i) [start..stop]]
            in if values \<noteq> [] then sum_list values / real (length values) else - 100
      | _ \<Rightarrow> - 100)"

definition ease :: "real \<Rightarrow> real" where
  "ease t = t * t * (3 - 2 * t)"

definition threshold_ratio :: "real \<Rightarrow> real \<Rightarrow> real \<Rightarrow> real" where
  "threshold_ratio rms low open_thr = (rms - low) / max (1 / 1000000) (open_thr - low)"

definition getSpeechIsolationTarget ::
  "jsnum list \<Rightarrow> jsnum \<Rightarrow> real \<Rightarrow> real \<Rightarrow> real \<Rightarrow> real \<Rightarrow> bool \<Rightarrow> voice_suppression_tuning \<Rightarrow> real" where
  "getSpeechIsolationTarget frequencyData sampleRate fftSize rms low open_thr aggressive tuning =
     (let band = engineBandAverageDb frequencyData sampleRate fftSize;
          presenceDb = band 220 1500; bodyDb = band 180 2400; upperSpeechDb = band 1600 3400;
          highNoiseDb = band 3400 7200; lowNoiseDb = band 0 140;
          speechLike = (presenceDb \<ge> highNoiseDb - 3 \<and> bodyDb \<ge> highNoiseDb - 5 \<or> upperSpeechDb \<ge> highNoiseDb - 35 / 10);
          quietish = (rms < open_thr * 135 / 100);
          boomyNoise = (lowNoiseDb > bodyDb + 25 / 10);
          clickyNoise = (highNoiseDb > presenceDb + 25 / 10)
      in if aggressive \<and> clickyNoise \<and> \<not> speechLike then
           (if quietish then pickSuppressionValue tuning (86 / 100) (5 / 10) (3 / 10)
            else pickSuppressionValue tuning (92 / 100) (68 / 100) (42 / 100))
         else if aggressive \<and> boomyNoise \<and> quietish then pickSuppressionValue tuning (86 / 100) (52 / 100) (34 / 100)
         else if \<not> speechLike then
           (if rms \<le> low \<or> quietish then
              (if aggressive then pickSuppressionValue tuning (16 / 100) (16 / 100) (7 / 100) else 16 / 100)
            else if clickyNoise \<or> boomyNoise then
              (if aggressive then pickSuppressionValue tuning (24 / 100) (24 / 100) (12 / 100) else 24 / 100)
            else (if aggressive then pickSuppressionValue tuning (3 / 10) (34 / 100) (22 / 100) else 3 / 10))
         else if rms \<le> low then
           (if aggressive then pickSuppressionValue tuning (28 / 100) (48 / 100) (3 / 10) else 28 / 100)
         else if rms < open_thr then
           (let eased = ease (threshold_ratio rms low open_thr) in
            if \<not> aggressive then 42 / 100 + eased * (5 / 10)
            else
              let closedGain = pickSuppressionValue tuning (42 / 100) (64 / 100) (46 / 100);
                  openGain = pickSuppressionValue tuning (92 / 100) (98 / 100) (96 / 100)
              in closedGain + eased * (openGain - closedGain))
         else if clickyNoise \<and> quietish then
           (if aggressive then pickSuppressionValue tuning (86 / 100) (88 / 100) (8 / 10) else 86 / 100)
         else 1)"

definition isLikelySpeechFrame :: "jsnum list \<Rightarrow> jsnum \<Rightarrow> real \<Rightarrow> bool \<Rightarrow> voice_suppression_tuning \<Rightarrow> bool" where
  "isLikelySpeechFrame frequencyData sampleRate fftSize aggressive tuning =
     (let band = engineBandAverageDb frequencyData sampleRate fftSize;
          presenceDb = band 220 1400; speechBodyDb = band 180 2200; upperSpeechDb = band 1600 3200;
          highNoiseDb = band 2800 7200; lowNoiseDb = band 0 140;
          score = max (max (presenceDb - highNoiseDb) (speechBodyDb - highNoiseDb + 8 / 10)) (upperSpeechDb - highNoiseDb - 6 / 10);
          clicky = (highNoiseDb > presenceDb + 32 / 10 \<and> highNoiseDb > speechBodyDb + 42 / 10 \<and> lowNoiseDb < speechBodyDb - 6);
          noiseDominant = (highNoiseDb > presenceDb + 22 / 10 \<and> highNoiseDb > speechBodyDb + 28 / 10 \<and> upperSpeechDb < highNoiseDb + 12 / 10);
          boomy = (lowNoiseDb > speechBodyDb + 25 / 10 \<and> lowNoiseDb > upperSpeechDb + 3);
          scoreThreshold = (if aggressive then pickSuppressionValue tuning (- 28 / 10) (- 2) (- 18 / 10) else - 28 / 10)
      in score \<ge> scoreThreshold \<and> \<not> clicky \<and> \<not> boomy \<and> (\<not> aggressive \<or> tuning \<noteq> TuningHigh \<or> \<not> noiseDominant))"

record frame_evaluation =
  targetFloorGain :: real
  targetIsolationGain :: real
  likelySpeech :: bool

definition floor_target :: "real \<Rightarrow> suppression_config \<Rightarrow> real" where
  "floor_target rms c =
     (if rms \<le> lowFloorThr c then minFloorGain c
      else if rms < openFloorThr c then
        minFloorGain c + ease (threshold_ratio rms (lowFloorThr c) (openFloorThr c)) * (1 - minFloorGain c)
      else 1)"

definition evaluateSuppressionFrame :: "jsnum list \<Rightarrow> jsnum \<Rightarrow> real \<Rightarrow> real \<Rightarrow> suppression_config \<Rightarrow> frame_evaluation" where
  "evaluateSuppressionFrame frequencyData sampleRate fftSize rms c =
     (let speech = isLikelySpeechFrame frequencyData sampleRate fftSize (aggressiveIsolation c) (suppressionTuning c)
      in \<lparr>targetFloorGain = (if speech then max (floor_target rms c) (speechSafeFloorGain c) else floor_target rms c),
          targetIsolationGain = getSpeechIsolationTarget frequencyData sampleRate fftSize rms (lowFloorThr c) (openFloorThr c)
            (aggressiveIsolation c) (suppressionTuning c),
          likelySpeech = speech\<rparr>)"

section \<open>From frame to frame\<close>

record gain_state =
  floorGain :: real
  isolationGain :: real

record sound_frame =
  fr_spectrum :: "jsnum list"
  fr_rate :: jsnum
  fr_fft :: real
  fr_rms :: real
  fr_refined :: bool
  fr_config :: suppression_config

definition frame_targets :: "sound_frame \<Rightarrow> real \<times> real" where
  "frame_targets f =
     (if fr_refined f then
        let e = evaluateSuppressionFrame (fr_spectrum f) (fr_rate f) (fr_fft f) (fr_rms f) (fr_config f)
        in (targetFloorGain e, targetIsolationGain e)
      else (1, 1))"

definition approach :: "real \<Rightarrow> real \<Rightarrow> real \<Rightarrow> real" where
  "approach alpha target current = alpha * target + (1 - alpha) * current"

definition tickNoiseFloor :: "sound_frame \<Rightarrow> gain_state \<Rightarrow> gain_state" where
  "tickNoiseFloor f g =
     (let (targetGain, targetIsolation) = frame_targets f; c = fr_config f;
          alpha = (if targetGain > floorGain g then 38 / 100 else floorReleaseAlpha c);
          isolationAlpha = (if targetIsolation > isolationGain g then isolationRecoveryAlpha c else isolationAttenuationAlpha c)
      in \<lparr>floorGain = approach alpha targetGain (floorGain g), isolationGain = approach isolationAlpha targetIsolation (isolationGain g)\<rparr>)"

text \<open>\<^verbatim>\<open>cancelGate\<close> and the start of a pipeline open both gains.\<close>

definition open_gains :: gain_state where
  "open_gains = \<lparr>floorGain = 1, isolationGain = 1\<rparr>"

section \<open>Bounds\<close>

lemma picked: "P a \<Longrightarrow> P b \<Longrightarrow> P c \<Longrightarrow> P (pickSuppressionValue t a b c)"
  by (cases t) simp_all

lemma ease_bounds:
  assumes "0 \<le> t" "t \<le> 1"
  shows "0 \<le> ease t" "ease t \<le> 1"
proof -
  show "0 \<le> ease t" using assms by (simp add: ease_def)
  have "1 - ease t = (1 - t) * (1 - t) * (1 + 2 * t)" by (simp add: ease_def algebra_simps)
  also have "\<dots> \<ge> 0" using assms by simp
  finally show "ease t \<le> 1" by simp
qed

lemma ratio_bounds:
  assumes "low < rms" "rms < opn"
  shows "0 \<le> threshold_ratio rms low opn" "threshold_ratio rms low opn \<le> 1"
  using assms by (auto simp: threshold_ratio_def divide_le_eq)

lemma eased_bounds:
  assumes "low < rms" "rms < opn"
  shows "0 \<le> ease (threshold_ratio rms low opn)" "ease (threshold_ratio rms low opn) \<le> 1"
  using ease_bounds[OF ratio_bounds[OF assms]] by auto

lemma between_gains:
  assumes "0 \<le> t" "t \<le> 1" "lo \<le> a" "a \<le> b" "b \<le> (hi :: real)"
  shows "lo \<le> a + t * (b - a)" "a + t * (b - a) \<le> hi"
proof -
  have "0 \<le> t * (b - a)" using assms by simp
  then show "lo \<le> a + t * (b - a)" using assms by linarith
  have "t * (b - a) \<le> 1 * (b - a)" using assms by (intro mult_right_mono) auto
  then show "a + t * (b - a) \<le> hi" using assms by simp
qed

lemma isolation_target_bounds:
  "7 / 100 \<le> getSpeechIsolationTarget d r n rms low opn ag tu" (is ?lo)
  "getSpeechIsolationTarget d r n rms low opn ag tu \<le> 1" (is ?hi)
proof -
  define e where "e = ease (threshold_ratio rms low opn)"
  have e: "low < rms \<Longrightarrow> rms < opn \<Longrightarrow> 0 \<le> e \<and> e \<le> 1" using eased_bounds[of low rms opn] by (simp add: e_def)
  show ?lo ?hi
    using e unfolding getSpeechIsolationTarget_def Let_def e_def[symmetric]
    by (cases tu; auto; (simp add: field_simps)?)+
qed

definition config_ok :: "suppression_config \<Rightarrow> bool" where
  "config_ok c \<longleftrightarrow>
     0 < lowFloorThr c \<and> lowFloorThr c < openFloorThr c \<and> 35 / 1000 \<le> minFloorGain c \<and> minFloorGain c \<le> speechSafeFloorGain c \<and>
     speechSafeFloorGain c \<le> 1 \<and> 0 < floorReleaseAlpha c \<and> floorReleaseAlpha c < 1 \<and>
     0 < isolationAttenuationAlpha c \<and> isolationAttenuationAlpha c < 1 \<and> 0 < isolationRecoveryAlpha c \<and> isolationRecoveryAlpha c < 1"

lemma dbToLinear_less: "a < b \<Longrightarrow> dbToLinear a < dbToLinear b"
  by (simp add: dbToLinear_def)

lemma dbToLinear_pos: "0 < dbToLinear a"
  by (simp add: dbToLinear_def)

lemma suppression_ok: "config_ok (suppression_of ag tu)"
  unfolding config_ok_def suppression_of_def
  by (cases ag; cases tu; simp add: dbToLinear_pos) (intro dbToLinear_less; simp)+

lemma built_ok: "buildSuppressionConfig en st = Inr c \<Longrightarrow> config_ok c"
  by (auto simp: buildSuppressionConfig_def suppression_ok split: sum.splits)

lemma floor_target_bounds:
  assumes "config_ok c"
  shows "minFloorGain c \<le> floor_target rms c" "floor_target rms c \<le> 1"
proof -
  have m: "0 \<le> minFloorGain c" "minFloorGain c \<le> 1" using assms by (auto simp: config_ok_def)
  show "minFloorGain c \<le> floor_target rms c" "floor_target rms c \<le> 1"
    using m between_gains[OF eased_bounds, of "lowFloorThr c" rms "openFloorThr c" "minFloorGain c" "minFloorGain c" 1 1]
    by (auto simp: floor_target_def)
qed

lemma approach_bounds:
  assumes "0 \<le> a" "a \<le> 1" "lo \<le> t" "t \<le> hi" "lo \<le> c" "c \<le> hi"
  shows "lo \<le> approach a t c" "approach a t c \<le> hi"
proof -
  have "a * lo + (1 - a) * lo \<le> a * t + (1 - a) * c" using assms by (intro add_mono mult_left_mono) auto
  then show "lo \<le> approach a t c" by (simp add: approach_def algebra_simps)
  have "a * t + (1 - a) * c \<le> a * hi + (1 - a) * hi" using assms by (intro add_mono mult_left_mono) auto
  then show "approach a t c \<le> hi" by (simp add: approach_def algebra_simps)
qed

definition gains_ok :: "gain_state \<Rightarrow> bool" where
  "gains_ok g \<longleftrightarrow> 35 / 1000 \<le> floorGain g \<and> floorGain g \<le> 1 \<and> 7 / 100 \<le> isolationGain g \<and> isolationGain g \<le> 1"

lemma targets_ok:
  assumes "config_ok (fr_config f)"
  shows "gains_ok \<lparr>floorGain = fst (frame_targets f), isolationGain = snd (frame_targets f)\<rparr>"
  using floor_target_bounds[OF assms, of "fr_rms f"] isolation_target_bounds assms
  by (auto simp: frame_targets_def evaluateSuppressionFrame_def gains_ok_def config_ok_def Let_def max_def)

lemma tick_ok:
  assumes "config_ok (fr_config f)" and "gains_ok g"
  shows "gains_ok (tickNoiseFloor f g)"
proof -
  obtain t u where tu: "frame_targets f = (t, u)" by fastforce
  have t: "35 / 1000 \<le> t" "t \<le> 1" "7 / 100 \<le> u" "u \<le> 1"
    using targets_ok[OF assms(1)] by (simp_all add: tu gains_ok_def)
  have g: "35 / 1000 \<le> floorGain g" "floorGain g \<le> 1" "7 / 100 \<le> isolationGain g" "isolationGain g \<le> 1"
    using assms(2) by (simp_all add: gains_ok_def)
  define a b where "a = (if t > floorGain g then 38 / 100 else floorReleaseAlpha (fr_config f))"
    and "b = (if u > isolationGain g then isolationRecoveryAlpha (fr_config f) else isolationAttenuationAlpha (fr_config f))"
  have ab: "0 \<le> a" "a \<le> 1" "0 \<le> b" "b \<le> 1" using assms(1) by (simp_all add: a_def b_def config_ok_def)
  have "tickNoiseFloor f g = \<lparr>floorGain = approach a t (floorGain g), isolationGain = approach b u (isolationGain g)\<rparr>"
    by (simp add: tickNoiseFloor_def tu a_def b_def Let_def)
  with approach_bounds[OF ab(1,2) t(1,2) g(1,2)] approach_bounds[OF ab(3,4) t(3,4) g(3,4)] show ?thesis
    by (simp add: gains_ok_def)
qed

lemma ticks_ok: "list_all (\<lambda>f. config_ok (fr_config f)) fs \<Longrightarrow> gains_ok g \<Longrightarrow> gains_ok (fold tickNoiseFloor fs g)"
  by (induction fs arbitrary: g) (simp_all add: tick_ok)

section \<open>Opening and closing\<close>

lemma ease_mono:
  assumes "0 \<le> s" "s \<le> t" "t \<le> 1"
  shows "ease s \<le> ease t"
proof -
  have "ease t - ease s = (t - s) * (3 * (t + s) - 2 * (t * t + t * s + s * s))" by (simp add: ease_def algebra_simps)
  moreover have "t * t \<le> t" "s * s \<le> s" "t * s \<le> s" using assms by (auto simp: mult_left_le mult_left_le_one_le)
  then have "0 \<le> 3 * (t + s) - 2 * (t * t + t * s + s * s)" using assms unfolding distrib_left by linarith
  then have "0 \<le> (t - s) * (3 * (t + s) - 2 * (t * t + t * s + s * s))" using assms by (intro mult_nonneg_nonneg) auto
  ultimately show ?thesis by linarith
qed

text \<open>A louder frame is not attenuated more.\<close>

lemma floor_target_mono:
  assumes ok: "config_ok c" and le: "r \<le> r'"
  shows "floor_target r c \<le> floor_target r' c"
proof (cases "lowFloorThr c < r \<and> r' < openFloorThr c")
  case True
  let ?t = "\<lambda>x. threshold_ratio x (lowFloorThr c) (openFloorThr c)"
  have "?t r \<le> ?t r'" using le by (auto simp: threshold_ratio_def intro!: divide_right_mono)
  then have "ease (?t r) \<le> ease (?t r')" using True le ratio_bounds by (intro ease_mono) auto
  moreover have "0 \<le> 1 - minFloorGain c" using ok by (auto simp: config_ok_def)
  ultimately show ?thesis using True le by (auto simp: floor_target_def intro!: mult_right_mono)
next
  case False
  then have "floor_target r c = minFloorGain c \<or> floor_target r' c = 1" using le by (auto simp: floor_target_def)
  with floor_target_bounds[OF ok] show ?thesis by metis
qed

text \<open>The distance to a target that stays shrinks by a constant factor.\<close>

lemma approach_gap: "t - approach a t c = (1 - a) * (t - c)"
  by (simp add: approach_def algebra_simps)

lemma opening_gap:
  assumes "list_all (\<lambda>f. fst (frame_targets f) = 1) fs" and "floorGain g < 1"
  shows "1 - floorGain (fold tickNoiseFloor fs g) = (62 / 100) ^ length fs * (1 - floorGain g)"
  using assms
proof (induction fs arbitrary: g)
  case (Cons f fs)
  then obtain u where t: "frame_targets f = (1, u)" by (cases "frame_targets f") auto
  have s: "1 - floorGain (tickNoiseFloor f g) = 62 / 100 * (1 - floorGain g)"
    using Cons.prems(2) approach_gap[of 1 "38 / 100" "floorGain g"] by (simp add: tickNoiseFloor_def t Let_def)
  then have "floorGain (tickNoiseFloor f g) < 1" using Cons.prems(2) by (simp add: field_simps)
  with Cons s show ?case by simp
qed simp

lemma full_stays: "list_all (\<lambda>f. fst (frame_targets f) = 1) fs \<Longrightarrow> floorGain g = 1 \<Longrightarrow> floorGain (fold tickNoiseFloor fs g) = 1"
proof (induction fs arbitrary: g)
  case (Cons f fs)
  then have "floorGain (tickNoiseFloor f g) = 1" by (cases "frame_targets f") (auto simp: tickNoiseFloor_def Let_def approach_def)
  with Cons show ?case by simp
qed simp

lemma loud_opens: "openFloorThr (fr_config f) \<le> fr_rms f \<Longrightarrow> config_ok (fr_config f) \<Longrightarrow> fst (frame_targets f) = 1"
  by (auto simp: frame_targets_def evaluateSuppressionFrame_def floor_target_def config_ok_def Let_def max_def)

lemma loud_open_soon:
  assumes "list_all (\<lambda>f. config_ok (fr_config f) \<and> openFloorThr (fr_config f) \<le> fr_rms f) fs" and "gains_ok g" and "8 \<le> length fs"
  shows "97 / 100 \<le> floorGain (fold tickNoiseFloor fs g)"
proof -
  have all: "list_all (\<lambda>f. fst (frame_targets f) = 1) fs" using assms(1) by (auto simp: list_all_iff loud_opens)
  show ?thesis
  proof (cases "floorGain g = 1")
    case True
    then show ?thesis by (simp add: full_stays[OF all])
  next
    case False
    with assms(2) have g: "floorGain g < 1" "35 / 1000 \<le> floorGain g" by (auto simp: gains_ok_def)
    have "(62 / 100 :: real) ^ length fs \<le> (62 / 100) ^ 8" using assms(3) by (intro power_decreasing) auto
    also have "\<dots> \<le> 3 / 100" by (simp add: eval_nat_numeral)
    finally have "(62 / 100 :: real) ^ length fs * (1 - floorGain g) \<le> 3 / 100 * 1" using g by (intro mult_mono) auto
    with opening_gap[OF all g(1)] show ?thesis by simp
  qed
qed

end
