(* ===== verification/MicTrack.thy ===== *)
theory MicTrack
  imports VoiceProfile
begin

text \<open>
  The microphone of a running voice session in \<^verbatim>\<open>src/webrtc/useLiveKitVoice.ts\<close>: muting, publishing again after the
  server allowed it, and rebuilding the captured track and its noise suppressor (\<^verbatim>\<open>buildMicSendTrack\<close> of
  \<^verbatim>\<open>hooks/useAudioEngine.ts\<close>). Everything that waits is a call with its place in the code; its answer is a step of
  its own. Tracks, publications, pipelines and rooms are numbered in the order they are made. What LiveKit does to the
  flag \<^verbatim>\<open>enabled\<close> of a track it publishes comes with its answers.
\<close>

section \<open>State\<close>

record mic_capture =
  tk_enabled :: bool
  tk_live :: bool

record pipeline =
  pp_raw :: nat
  pp_out :: nat
  pp_denoiser :: bool
  pp_joined :: bool

datatype build_stage = AtAudioResume bool | AtNode bool | AtReady

datatype rebuild_stage =
  RbCapture
| RbSettings nat
| RbBuild nat nat build_stage
| RbReplace nat nat "nat option"

datatype publish_stage =
  PbCapture
| PbBuild nat nat build_stage
| PbPublish nat

datatype after_mute = NothingAfter | EndPublish | EndRecovery

record rebuild =
  rb_room :: nat
  rb_channel :: "string option"
  rb_local :: nat
  rb_generation :: nat
  rb_raw :: "nat option"
  rb_gate :: "nat option"
  rb_owned :: "nat option"
  rb_force :: bool
  rb_recovery :: bool

datatype mic_call =
  Muting nat nat "nat option" after_mute
| Unmuting nat after_mute
| Rebuilding rebuild rebuild_stage
| Publishing nat publish_stage

record mic_state =
  mi_session :: "nat option"
  mi_channel :: "string option"
  mi_can_publish :: bool
  mi_server_muted :: bool
  mi_server_deafened :: bool
  mi_self_muted :: bool
  mi_self_deafened :: bool
  mi_desired :: bool
  mi_tracks :: "nat \<Rightarrow> mic_capture"
  mi_media :: "nat \<Rightarrow> nat"
  mi_publication :: "nat option"
  mi_local :: "nat option"
  mi_raw :: "nat option"
  mi_unpublished :: "nat option"
  mi_pipes :: "nat \<Rightarrow> pipeline"
  mi_gate :: "nat option"
  mi_denoiser :: "nat option"
  mi_live_nodes :: "nat option"
  mi_generation :: nat
  mi_publishing :: bool
  mi_recovering :: bool
  mi_calls :: "mic_call list"
  mi_error :: bool
  mi_context :: bool
  mi_light :: bool
  mi_suppression :: bool
  mi_next :: nat

definition switch_track :: "nat \<Rightarrow> bool \<Rightarrow> mic_state \<Rightarrow> mic_state" where
  "switch_track i b s = s\<lparr>mi_tracks := (mi_tracks s)(i := (mi_tracks s i)\<lparr>tk_enabled := b\<rparr>)\<rparr>"

definition stop_mic_track :: "nat \<Rightarrow> mic_state \<Rightarrow> mic_state" where
  "stop_mic_track i s = s\<lparr>mi_tracks := (mi_tracks s)(i := (mi_tracks s i)\<lparr>tk_live := False\<rparr>)\<rparr>"

text \<open>An optional track: nothing happens when there is none.\<close>

definition if_track :: "(nat \<Rightarrow> mic_state \<Rightarrow> mic_state) \<Rightarrow> nat option \<Rightarrow> mic_state \<Rightarrow> mic_state" where
  "if_track f t s = (case t of None \<Rightarrow> s | Some i \<Rightarrow> f i s)"

definition live_track :: "mic_state \<Rightarrow> nat option \<Rightarrow> bool" where
  "live_track s t \<longleftrightarrow> (case t of None \<Rightarrow> False | Some i \<Rightarrow> tk_live (mi_tracks s i))"

definition media_of :: "mic_state \<Rightarrow> nat option" where
  "media_of s = map_option (mi_media s) (mi_local s)"

definition wait_for :: "mic_call \<Rightarrow> mic_state \<Rightarrow> mic_state" where
  "wait_for c s = s\<lparr>mi_calls := mi_calls s @ [c]\<rparr>"

text \<open>What LiveKit has done to the flag of a track when it answers.\<close>

definition livekit_sets :: "bool option \<Rightarrow> nat \<Rightarrow> mic_state \<Rightarrow> mic_state" where
  "livekit_sets e i s = (case e of None \<Rightarrow> s | Some b \<Rightarrow> switch_track i b s)"

section \<open>Muting\<close>

definition after_muting :: "after_mute \<Rightarrow> mic_state \<Rightarrow> mic_state" where
  "after_muting a s = (case a of NothingAfter \<Rightarrow> s | EndPublish \<Rightarrow> s\<lparr>mi_publishing := False\<rparr> | EndRecovery \<Rightarrow> s\<lparr>mi_recovering := False\<rparr>)"

definition setLocalMicMuted :: "bool \<Rightarrow> after_mute \<Rightarrow> mic_state \<Rightarrow> mic_state" where
  "setLocalMicMuted muted a s =
     (let effectiveMuted = (muted \<or> mi_server_muted s \<or> mi_server_deafened s);
          s1 = s\<lparr>mi_desired := effectiveMuted\<rparr>
      in if effectiveMuted then
           (case mi_local s1 of
              Some obj \<Rightarrow> wait_for (Muting obj (mi_media s1 obj) (mi_raw s1) a) s1
            | None \<Rightarrow> after_muting a (if_track (\<lambda>i. switch_track i False) (mi_raw s1) s1))
         else
           let s2 = if_track (\<lambda>i. switch_track i True) (mi_raw s1) (if_track (\<lambda>i. switch_track i True) (media_of s1) s1)
           in (case mi_local s2 of Some obj \<Rightarrow> wait_for (Unmuting obj a) s2 | None \<Rightarrow> after_muting a s2))"

definition mute_answered :: "nat \<Rightarrow> nat \<Rightarrow> nat option \<Rightarrow> after_mute \<Rightarrow> bool option \<Rightarrow> mic_state \<Rightarrow> mic_state" where
  "mute_answered obj media raw a e s =
     after_muting a (if_track (\<lambda>i. switch_track i False) raw (switch_track media False (livekit_sets e (mi_media s obj) s)))"

definition unmute_answered :: "nat \<Rightarrow> after_mute \<Rightarrow> bool option \<Rightarrow> mic_state \<Rightarrow> mic_state" where
  "unmute_answered obj a e s = after_muting a (livekit_sets e (mi_media s obj) s)"

text \<open>The microphone part of \<^verbatim>\<open>refreshLocalStreams\<close>\<close>

definition refreshLocalStreams :: "mic_state \<Rightarrow> mic_state" where
  "refreshLocalStreams s =
     (case mi_session s of
        None \<Rightarrow> s
      | Some room \<Rightarrow>
          (case mi_publication s of
             Some obj \<Rightarrow> switch_track (mi_media s obj) (\<not> mi_desired s) (s\<lparr>mi_local := Some obj\<rparr>)
           | None \<Rightarrow> s\<lparr>mi_local := None\<rparr>))"

section \<open>Building a pipeline\<close>

datatype build_result = Waits build_stage | Built nat "nat option" | Threw

definition cancelGate :: "nat \<Rightarrow> mic_state \<Rightarrow> mic_state" where
  "cancelGate p s =
     s\<lparr>mi_pipes := (mi_pipes s)(p := (mi_pipes s p)\<lparr>pp_joined := False\<rparr>),
       mi_live_nodes := (if mi_live_nodes s = Some p then None else mi_live_nodes s)\<rparr>"

definition destroy_denoiser :: "nat \<Rightarrow> mic_state \<Rightarrow> mic_state" where
  "destroy_denoiser p s = s\<lparr>mi_pipes := (mi_pipes s)(p := (mi_pipes s p)\<lparr>pp_denoiser := False\<rparr>)\<rparr>"

text \<open>A pipeline \<open>p\<close> that is complete, with its output track.\<close>

definition pipe_ready :: "nat \<Rightarrow> nat \<Rightarrow> mic_state \<Rightarrow> mic_state \<times> build_result" where
  "pipe_ready raw p s =
     (let out = mi_next s in
      (s\<lparr>mi_pipes := (mi_pipes s)(p := \<lparr>pp_raw = raw, pp_out = out, pp_denoiser = pp_denoiser (mi_pipes s p), pp_joined = True\<rparr>),
         mi_tracks := (mi_tracks s)(out := \<lparr>tk_enabled = True, tk_live = True\<rparr>), mi_next := out + 1\<rparr>,
       Built out (Some p)))"

definition start_build :: "nat \<Rightarrow> bool \<Rightarrow> mic_state \<Rightarrow> mic_state \<times> build_result" where
  "start_build raw suppress s =
     (let s1 = switch_track raw (\<not> mi_desired s) s
      in if \<not> mi_context s1 then (s1, Built raw None) else (s1, Waits (AtAudioResume suppress)))"

text \<open>\<open>cur\<close> is \<^verbatim>\<open>isCurrent\<close> at this moment and \<open>ok\<close> whether what was waited for succeeded.\<close>

definition continue_build :: "bool \<Rightarrow> bool \<Rightarrow> nat \<Rightarrow> nat \<Rightarrow> build_stage \<Rightarrow> mic_state \<Rightarrow> mic_state \<times> build_result" where
  "continue_build cur ok raw p stage s =
     (case stage of
        AtAudioResume suppress \<Rightarrow>
          if \<not> ok \<or> \<not> cur then (s, Threw)
          else if mi_light s then
            pipe_ready raw p (s\<lparr>mi_pipes := (mi_pipes s)(p := (mi_pipes s p)\<lparr>pp_denoiser := True\<rparr>)\<rparr>)
          else (if_track destroy_denoiser (mi_denoiser s) s, Waits (AtNode suppress))
      | AtNode suppress \<Rightarrow>
          if \<not> ok \<or> \<not> cur then (s, Threw)
          else
            let s1 = s\<lparr>mi_pipes := (mi_pipes s)(p := (mi_pipes s p)\<lparr>pp_denoiser := True\<rparr>), mi_denoiser := Some p\<rparr>
            in if suppress then (s1, Waits AtReady) else pipe_ready raw p (s1\<lparr>mi_live_nodes := Some p\<rparr>)
      | AtReady \<Rightarrow>
          if \<not> cur then
            (let s1 = destroy_denoiser p s
             in (if mi_denoiser s1 = Some p then s1\<lparr>mi_denoiser := None\<rparr> else s1, Threw))
          else pipe_ready raw p (s\<lparr>mi_live_nodes := Some p\<rparr>))"

text \<open>A new pipeline is numbered when its building starts.\<close>

definition new_pipe :: "mic_state \<Rightarrow> mic_state \<times> nat" where
  "new_pipe s =
     (s\<lparr>mi_pipes := (mi_pipes s)(mi_next s := \<lparr>pp_raw = 0, pp_out = 0, pp_denoiser = False, pp_joined = False\<rparr>),
        mi_next := mi_next s + 1\<rparr>, mi_next s)"

section \<open>Publishing again\<close>

definition end_publish :: "mic_state \<Rightarrow> mic_state" where
  "end_publish s = s\<lparr>mi_publishing := False\<rparr>"

definition publish_track :: "nat \<Rightarrow> nat \<Rightarrow> mic_state \<Rightarrow> mic_state" where
  "publish_track room i s =
     (if mi_session s \<noteq> Some room \<or> mi_channel s = None then end_publish s
      else wait_for (Publishing room (PbPublish i))
        (if_track (\<lambda>j. switch_track j (\<not> mi_desired s)) (mi_raw s) (switch_track i (\<not> mi_desired s) s)))"

definition publish_built :: "nat \<Rightarrow> nat \<Rightarrow> nat \<Rightarrow> mic_state \<times> build_result \<Rightarrow> mic_state" where
  "publish_built room raw p r =
     (case r of (s, Waits stage) \<Rightarrow> wait_for (Publishing room (PbBuild raw p stage)) s
      | (s, Threw) \<Rightarrow> end_publish s
      | (s, Built out gate) \<Rightarrow> publish_track room out (s\<lparr>mi_gate := gate, mi_unpublished := Some out\<rparr>))"

definition publish_from :: "nat \<Rightarrow> nat \<Rightarrow> mic_state \<Rightarrow> mic_state" where
  "publish_from room raw s =
     (let s1 = if_track cancelGate (mi_gate s) s; (s2, p) = new_pipe (s1\<lparr>mi_raw := Some raw\<rparr>)
      in publish_built room raw p (start_build raw (mi_suppression s2) s2))"

definition publishModeratedMicrophone :: "mic_state \<Rightarrow> mic_state" where
  "publishModeratedMicrophone s =
     (case mi_session s of
        None \<Rightarrow> s
      | Some room \<Rightarrow>
          if mi_channel s = None \<or> mi_publishing s then s
          else if mi_server_muted s \<or> mi_server_deafened s \<or> \<not> mi_can_publish s then s
          else if mi_publication s \<noteq> None then s
          else
            let s1 = s\<lparr>mi_publishing := True\<rparr>
            in if live_track s1 (mi_unpublished s1) then publish_track room (the (mi_unpublished s1)) s1
               else if live_track s1 (mi_raw s1) then publish_from room (the (mi_raw s1)) s1
               else wait_for (Publishing room PbCapture) s1)"

definition publish_answered :: "nat \<Rightarrow> nat \<Rightarrow> bool option \<Rightarrow> mic_state \<Rightarrow> mic_state" where
  "publish_answered room i e s =
     (let obj = mi_next s;
          s1 = livekit_sets e i
            (s\<lparr>mi_media := (mi_media s)(obj := i), mi_next := obj + 1,
               mi_publication := (if mi_session s = Some room then Some obj else mi_publication s), mi_local := Some obj\<rparr>);
          s2 = refreshLocalStreams s1
      in setLocalMicMuted (mi_desired s2) EndPublish s2)"

section \<open>Moderation and the controls of the user\<close>

definition server_controls :: "bool \<Rightarrow> bool \<Rightarrow> mic_state \<Rightarrow> mic_state" where
  "server_controls muted deafened s =
     (let s1 = s\<lparr>mi_server_muted := muted, mi_server_deafened := deafened\<rparr>
      in if (muted \<or> deafened) \<and> (muted \<noteq> mi_server_muted s \<or> deafened \<noteq> mi_server_deafened s) then
           if_track (\<lambda>i. switch_track i False) (mi_unpublished s1) (setLocalMicMuted True NothingAfter s1)
         else if (mi_server_muted s \<or> mi_server_deafened s) \<and> \<not> muted \<and> \<not> deafened then
           publishModeratedMicrophone (setLocalMicMuted (mi_self_muted s1 \<or> mi_self_deafened s1) NothingAfter s1)
         else s1)"

definition micVoiceControls :: "bool \<Rightarrow> bool \<Rightarrow> mic_state \<Rightarrow> mic_state" where
  "micVoiceControls muted deafened s =
     (let s1 = s\<lparr>mi_self_muted := muted, mi_self_deafened := deafened\<rparr>
      in if mi_channel s1 = None then s1
         else setLocalMicMuted (muted \<or> deafened \<or> mi_server_muted s1 \<or> mi_server_deafened s1) NothingAfter s1)"

definition permissions_changed :: "bool \<Rightarrow> mic_state \<Rightarrow> mic_state" where
  "permissions_changed b s = publishModeratedMicrophone (s\<lparr>mi_can_publish := b\<rparr>)"

text \<open>LiveKit has taken the microphone down, and may have stopped its track.\<close>

definition mic_unpublished :: "bool \<Rightarrow> mic_state \<Rightarrow> mic_state" where
  "mic_unpublished stopped s =
     (case (mi_session s, mi_publication s) of
        (Some room, Some obj) \<Rightarrow>
          let i = mi_media s obj;
              s1 = (if stopped then stop_mic_track i s else s)\<lparr>mi_publication := None\<rparr>;
              s2 = s1\<lparr>mi_unpublished := (if tk_live (mi_tracks s1 i) then Some i else mi_unpublished s1), mi_local := None\<rparr>
          in refreshLocalStreams (if_track (\<lambda>j. switch_track j False) (mi_raw s2) s2)
      | _ \<Rightarrow> s)"

section \<open>Rebuilding the published track\<close>

definition rebuild_current :: "rebuild \<Rightarrow> mic_state \<Rightarrow> bool" where
  "rebuild_current rb s \<longleftrightarrow>
     mi_session s = Some (rb_room rb) \<and> mi_channel s = rb_channel rb \<and> mi_local s = Some (rb_local rb) \<and>
     mi_generation s = rb_generation rb"

definition end_rebuild :: "rebuild \<Rightarrow> mic_state \<Rightarrow> mic_state" where
  "end_rebuild rb s = (if rb_recovery rb then s\<lparr>mi_recovering := False\<rparr> else s)"

text \<open>The \<^verbatim>\<open>catch\<close> of the rebuild: \<open>built\<close> is the new track with its pipeline, \<open>replaced\<close> whether it was published.\<close>

definition rebuild_failed :: "rebuild \<Rightarrow> (nat \<times> nat option) option \<Rightarrow> bool \<Rightarrow> mic_state \<Rightarrow> mic_state" where
  "rebuild_failed rb built replaced s =
     (let s1 = (case built of None \<Rightarrow> s
                | Some (out, gate) \<Rightarrow>
                    let s0 = if_track cancelGate gate s
                    in if \<not> replaced \<or> \<not> rebuild_current rb s0 then stop_mic_track out s0 else s0);
          s2 = if_track stop_mic_track (rb_owned rb) s1;
          s3 = (if rebuild_current rb s2 then s2\<lparr>mi_raw := rb_raw rb, mi_gate := rb_gate rb, mi_error := True\<rparr> else s2)
      in end_rebuild rb s3)"

definition rebuild_built :: "rebuild \<Rightarrow> nat \<Rightarrow> nat \<Rightarrow> mic_state \<times> build_result \<Rightarrow> mic_state" where
  "rebuild_built rb raw p r =
     (case r of (s, Waits stage) \<Rightarrow> wait_for (Rebuilding rb (RbBuild raw p stage)) s
      | (s, Threw) \<Rightarrow> rebuild_failed rb None False s
      | (s, Built out gate) \<Rightarrow>
          if \<not> rebuild_current rb s then rebuild_failed rb (Some (out, gate)) False s
          else wait_for (Rebuilding rb (RbReplace raw out gate)) (switch_track raw False (switch_track out False s)))"

definition rebuild_settings_applied :: "rebuild \<Rightarrow> nat \<Rightarrow> mic_state \<Rightarrow> mic_state" where
  "rebuild_settings_applied rb raw s =
     (if \<not> rebuild_current rb s then rebuild_failed rb None False s
      else let (s1, p) = new_pipe s in rebuild_built rb raw p (start_build raw (mi_suppression s1) s1))"

definition rebuildPublishedMicrophoneTrack :: "bool \<Rightarrow> bool \<Rightarrow> mic_state \<Rightarrow> mic_state" where
  "rebuildPublishedMicrophoneTrack force recovery s =
     (case (mi_session s, mi_local s) of
        (Some room, Some obj) \<Rightarrow>
          let s1 = s\<lparr>mi_generation := mi_generation s + 1\<rparr>;
              rb = \<lparr>rb_room = room, rb_channel = mi_channel s1, rb_local = obj, rb_generation = mi_generation s1,
                    rb_raw = mi_raw s1, rb_gate = mi_gate s1, rb_owned = None, rb_force = force, rb_recovery = recovery\<rparr>
          in if \<not> force \<and> live_track s1 (mi_raw s1) then wait_for (Rebuilding rb (RbSettings (the (mi_raw s1)))) s1
             else wait_for (Rebuilding rb RbCapture) s1
      | _ \<Rightarrow> (if recovery then s\<lparr>mi_recovering := False\<rparr> else s))"

text \<open>The new capture is installed and the wish of the moment applied to it.\<close>

definition rebuild_install :: "rebuild \<Rightarrow> nat \<Rightarrow> nat option \<Rightarrow> mic_state \<Rightarrow> mic_state" where
  "rebuild_install rb raw gate s =
     (let s1 = (if_track cancelGate (rb_gate rb) s)\<lparr>mi_raw := Some raw, mi_gate := gate, mi_local := Some (rb_local rb)\<rparr>;
          s2 = (if rb_force rb \<and> rb_raw rb \<noteq> Some raw then if_track stop_mic_track (rb_raw rb) s1 else s1);
          s3 = refreshLocalStreams s2
      in setLocalMicMuted (mi_desired s3) (if rb_recovery rb then EndRecovery else NothingAfter) s3)"

definition replace_answered :: "rebuild \<Rightarrow> nat \<Rightarrow> nat \<Rightarrow> nat option \<Rightarrow> bool \<Rightarrow> bool option \<Rightarrow> mic_state \<Rightarrow> mic_state" where
  "replace_answered rb raw out gate ok e s =
     (if \<not> ok then rebuild_failed rb (Some (out, gate)) False s
      else
        let s1 = livekit_sets e out (s\<lparr>mi_media := (mi_media s)(rb_local rb := out)\<rparr>)
        in if \<not> rebuild_current rb s1 then rebuild_failed rb (Some (out, gate)) True s1
           else rebuild_install rb raw gate s1)"

definition recoverMicrophoneCapture :: "bool \<Rightarrow> mic_state \<Rightarrow> mic_state" where
  "recoverMicrophoneCapture visible s =
     (if \<not> visible \<or> mi_recovering s \<or> mi_channel s = None then s
      else rebuildPublishedMicrophoneTrack True True (s\<lparr>mi_recovering := True\<rparr>))"

definition shouldRecoverMicrophoneTrack :: "nat \<Rightarrow> mic_state \<Rightarrow> bool" where
  "shouldRecoverMicrophoneTrack endedTrack s \<longleftrightarrow>
     mi_channel s \<noteq> None \<and> mi_raw s = Some endedTrack \<and> \<not> tk_live (mi_tracks s endedTrack) \<and> \<not> mi_recovering s"

definition microphone_ended :: "bool \<Rightarrow> nat \<Rightarrow> mic_state \<Rightarrow> mic_state" where
  "microphone_ended visible i s =
     (let s1 = stop_mic_track i s in if shouldRecoverMicrophoneTrack i s1 then recoverMicrophoneCapture visible s1 else s1)"

text \<open>The timer after a change of devices: \<open>known\<close> tells whether the preferred device is still there.\<close>

definition devices_settled :: "bool \<Rightarrow> string \<Rightarrow> bool option \<Rightarrow> mic_state \<Rightarrow> mic_state" where
  "devices_settled visible preferredDeviceId known s =
     (if preferredDeviceId \<noteq> [] \<and> known = Some True then s else recoverMicrophoneCapture visible s)"

text \<open>
  \<^verbatim>\<open>onSettingsChanged\<close>: another input device, or another profile of the suppressor. \<^verbatim>\<open>updateMicProcessingSettings\<close>
  succeeds while the nodes of a pipeline are known.
\<close>

definition settings_changed :: "bool \<Rightarrow> bool \<Rightarrow> bool \<Rightarrow> mic_state \<Rightarrow> mic_state" where
  "settings_changed deviceChanged suppressorChanged suppress s =
     (let s1 = s\<lparr>mi_suppression := suppress\<rparr>
      in if deviceChanged \<and> mi_channel s1 \<noteq> None then rebuildPublishedMicrophoneTrack True False s1
         else if mi_local s1 \<noteq> None \<and> mi_channel s1 \<noteq> None \<and> suppressorChanged \<and> mi_live_nodes s1 = None
         then rebuildPublishedMicrophoneTrack False False s1 else s1)"

section \<open>Entering and leaving\<close>

text \<open>
  The end of a join (\<open>VoiceSession\<close> models the join itself): the captured track and the output of its pipeline, published
  unless the server muted the member.
\<close>

definition joined_mic :: "string \<Rightarrow> bool \<Rightarrow> bool \<Rightarrow> mic_state \<Rightarrow> mic_state" where
  "joined_mic channelId serverMuted serverDeafened s =
     (if mi_session s \<noteq> None then s
      else
        let raw = mi_next s; out = (if mi_context s then raw + 1 else raw); p = raw + 2; obj = raw + 3; room = raw + 4;
            publish = (\<not> serverMuted \<and> \<not> serverDeafened);
            muted = (mi_self_muted s \<or> mi_self_deafened s \<or> \<not> publish);
            t = \<lparr>tk_enabled = \<not> muted, tk_live = True\<rparr>
        in s\<lparr>mi_session := Some room, mi_channel := Some channelId, mi_can_publish := publish, mi_server_muted := serverMuted,
             mi_server_deafened := serverDeafened, mi_desired := muted,
             mi_tracks := (mi_tracks s)(raw := t, out := t), mi_media := (mi_media s)(obj := out),
             mi_publication := (if publish then Some obj else None), mi_local := (if publish then Some obj else None),
             mi_raw := Some raw, mi_unpublished := Some out,
             mi_pipes := (mi_pipes s)(p := \<lparr>pp_raw = raw, pp_out = out, pp_denoiser = True, pp_joined = True\<rparr>),
             mi_gate := (if mi_context s then Some p else None),
             mi_denoiser := (if mi_context s \<and> \<not> mi_light s then Some p else None),
             mi_live_nodes := (if mi_context s \<and> \<not> mi_light s then Some p else None), mi_next := raw + 5\<rparr>)"

definition leave_mic :: "mic_state \<Rightarrow> mic_state" where
  "leave_mic s =
     (let s1 = if_track cancelGate (mi_gate s) s;
          s2 = if_track stop_mic_track (media_of s1) s1;
          s3 = if_track stop_mic_track (mi_unpublished s2) s2;
          s4 = if_track destroy_denoiser (mi_denoiser s3) s3;
          s5 = if_track stop_mic_track (mi_raw s4) s4
      in s5\<lparr>mi_channel := None, mi_session := None, mi_publication := None, mi_gate := None, mi_local := None,
            mi_unpublished := None, mi_denoiser := None, mi_live_nodes := None, mi_raw := None\<rparr>)"

section \<open>Steps\<close>

datatype mic_answer = Fine "bool option" | Captured | Refused

definition effect_of :: "mic_answer \<Rightarrow> bool option" where
  "effect_of a = (case a of Fine e \<Rightarrow> e | _ \<Rightarrow> None)"

text \<open>A microphone that was captured: a new live track.\<close>

definition new_capture :: "mic_state \<Rightarrow> mic_state \<times> nat" where
  "new_capture s =
     (s\<lparr>mi_tracks := (mi_tracks s)(mi_next s := \<lparr>tk_enabled = True, tk_live = True\<rparr>), mi_next := mi_next s + 1\<rparr>, mi_next s)"

definition rebuild_captured :: "rebuild \<Rightarrow> mic_state \<Rightarrow> mic_state" where
  "rebuild_captured rb s =
     (let (s1, i) = new_capture s; rb1 = rb\<lparr>rb_owned := Some i\<rparr>
      in if \<not> rebuild_current rb1 s1 then rebuild_failed rb1 None False s1 else wait_for (Rebuilding rb1 (RbSettings i)) s1)"

fun answer_mic :: "mic_call \<Rightarrow> mic_answer \<Rightarrow> mic_state \<Rightarrow> mic_state" where
  "answer_mic (Muting obj media raw a) ans s = mute_answered obj media raw a (effect_of ans) s"
| "answer_mic (Unmuting obj a) ans s = unmute_answered obj a (effect_of ans) s"
| "answer_mic (Rebuilding rb RbCapture) ans s =
     (if ans = Captured then rebuild_captured rb s else rebuild_failed rb None False s)"
| "answer_mic (Rebuilding rb (RbSettings raw)) ans s =
     (if ans = Refused then rebuild_failed rb None False s else rebuild_settings_applied rb raw s)"
| "answer_mic (Rebuilding rb (RbBuild raw p stage)) ans s =
     rebuild_built rb raw p (continue_build (rebuild_current rb s) (ans \<noteq> Refused) raw p stage s)"
| "answer_mic (Rebuilding rb (RbReplace raw out gate)) ans s =
     replace_answered rb raw out gate (ans \<noteq> Refused) (effect_of ans) s"
| "answer_mic (Publishing room PbCapture) ans s =
     (if ans = Captured then (let (s1, i) = new_capture s in publish_from room i s1) else end_publish s)"
| "answer_mic (Publishing room (PbBuild raw p stage)) ans s =
     publish_built room raw p (continue_build True (ans \<noteq> Refused) raw p stage s)"
| "answer_mic (Publishing room (PbPublish i)) ans s =
     (if ans = Refused then end_publish s else publish_answered room i (effect_of ans) s)"

datatype mic_op =
  VoiceControls bool bool
| TalkGate bool
| ServerControls bool bool
| PermissionsChanged bool
| MicUnpublished bool
| MicrophoneEnded bool nat
| DevicesSettled bool string "bool option"
| MicSettingsChanged bool bool bool
| JoinedMic string bool bool
| LeftMic
| MicAnswered nat mic_answer

fun mic_step :: "mic_op \<Rightarrow> mic_state \<Rightarrow> mic_state" where
  "mic_step (VoiceControls m d) s = micVoiceControls m d s"
| "mic_step (TalkGate b) s = setLocalMicMuted b NothingAfter s"
| "mic_step (ServerControls m d) s = server_controls m d s"
| "mic_step (PermissionsChanged b) s = permissions_changed b s"
| "mic_step (MicUnpublished b) s = mic_unpublished b s"
| "mic_step (MicrophoneEnded v i) s = microphone_ended v i s"
| "mic_step (DevicesSettled v d k) s = devices_settled v d k s"
| "mic_step (MicSettingsChanged d c n) s = settings_changed d c n s"
| "mic_step (JoinedMic c m d) s = joined_mic c m d s"
| "mic_step LeftMic s = leave_mic s"
| "mic_step (MicAnswered i ans) s =
     (if i < length (mi_calls s)
      then answer_mic (mi_calls s ! i) ans (s\<lparr>mi_calls := take i (mi_calls s) @ drop (Suc i) (mi_calls s)\<rparr>) else s)"

definition init_mic :: "bool \<Rightarrow> bool \<Rightarrow> bool \<Rightarrow> mic_state" where
  "init_mic audioContext light suppression =
     \<lparr>mi_session = None, mi_channel = None, mi_can_publish = False, mi_server_muted = False, mi_server_deafened = False,
      mi_self_muted = False, mi_self_deafened = False, mi_desired = False,
      mi_tracks = (\<lambda>_. \<lparr>tk_enabled = False, tk_live = False\<rparr>), mi_media = (\<lambda>_. 0), mi_publication = None, mi_local = None,
      mi_raw = None, mi_unpublished = None,
      mi_pipes = (\<lambda>_. \<lparr>pp_raw = 0, pp_out = 0, pp_denoiser = False, pp_joined = False\<rparr>), mi_gate = None, mi_denoiser = None,
      mi_live_nodes = None, mi_generation = 0, mi_publishing = False, mi_recovering = False, mi_calls = [], mi_error = False,
      mi_context = audioContext, mi_light = light, mi_suppression = suppression, mi_next = 0\<rparr>"

text \<open>
  What is assumed of LiveKit: it carries out the mute and unmute calls of one publication in the order they were made,
  muting a track never enables it, and the track of a publication that was taken down is left alone.
\<close>

fun call_on :: "mic_call \<Rightarrow> nat option" where
  "call_on (Muting obj media raw a) = Some obj"
| "call_on (Unmuting obj a) = Some obj"
| "call_on c = None"

fun livekit_allows :: "mic_op \<Rightarrow> mic_state \<Rightarrow> bool" where
  "livekit_allows (MicAnswered i ans) s =
     (i < length (mi_calls s) \<longrightarrow>
        (case mi_calls s ! i of
           Muting obj media raw a \<Rightarrow>
             list_all (\<lambda>c. call_on c \<noteq> Some obj) (take i (mi_calls s)) \<and> effect_of ans \<noteq> Some True
         | Unmuting obj a \<Rightarrow>
             list_all (\<lambda>c. call_on c \<noteq> Some obj) (take i (mi_calls s)) \<and> (mi_local s = Some obj \<or> effect_of ans = None)
         | _ \<Rightarrow> True))"
| "livekit_allows _ s = True"

fun livekit_run :: "mic_op list \<Rightarrow> mic_state \<Rightarrow> bool" where
  "livekit_run [] s = True"
| "livekit_run (op # ops) s = (livekit_allows op s \<and> livekit_run ops (mic_step op s))"

end
