(* ===== verification/MicTrackLaws.thy ===== *)
theory MicTrackLaws
  imports MicTrack
begin

text \<open>
  A muted member is not heard: in every run in which LiveKit behaves as documented, once the last request to mute has
  been carried out, the published track is disabled, whatever was rebuilt, published or moderated meanwhile. A rebuild that
  was superseded releases what it captured and changes nothing. Concrete runs show where the code falls short.
\<close>

section \<open>Invariant\<close>

definition sounding :: "mic_state \<Rightarrow> nat \<Rightarrow> bool" where
  "sounding s i \<longleftrightarrow> tk_enabled (mi_tracks s i) \<and> tk_live (mi_tracks s i)"

fun silences :: "nat \<Rightarrow> mic_call \<Rightarrow> bool" where
  "silences i (Muting obj media raw a) = (media = i)"
| "silences i c = False"

text \<open>Every request to unmute is followed by one to mute the track.\<close>

fun overruled :: "nat \<Rightarrow> nat \<Rightarrow> mic_call list \<Rightarrow> bool" where
  "overruled obj i [] = True"
| "overruled obj i (c # cs) =
     ((case c of Unmuting obj' a \<Rightarrow> obj' = obj \<longrightarrow> (\<exists>d \<in> set cs. call_on d = Some obj \<and> silences i d) | _ \<Rightarrow> True) \<and> overruled obj i cs)"

definition muted_ok :: "mic_state \<Rightarrow> bool" where
  "muted_ok s \<longleftrightarrow> (mi_desired s \<longrightarrow> (\<forall>obj. mi_local s = Some obj \<longrightarrow>
     (sounding s (mi_media s obj) \<longrightarrow> (\<exists>c \<in> set (mi_calls s). silences (mi_media s obj) c)) \<and>
     (overruled obj (mi_media s obj) (mi_calls s) \<or> \<not> tk_live (mi_tracks s (mi_media s obj)))))"

text \<open>The numbers in use are below the next one.\<close>

definition below :: "nat \<Rightarrow> nat option \<Rightarrow> bool" where
  "below n t \<longleftrightarrow> (case t of None \<Rightarrow> True | Some i \<Rightarrow> i < n)"

fun call_fits :: "nat \<Rightarrow> mic_call \<Rightarrow> bool" where
  "call_fits n (Muting obj media raw a) = (obj < n)"
| "call_fits n (Unmuting obj a) = (obj < n)"
| "call_fits n (Rebuilding rb st) = (below n (rb_raw rb) \<and>
     (case st of RbCapture \<Rightarrow> True | RbSettings raw \<Rightarrow> raw < n | RbBuild raw p b \<Rightarrow> raw < n | RbReplace raw out gate \<Rightarrow> raw < n \<and> out < n))"
| "call_fits n (Publishing room st) =
     (case st of PbCapture \<Rightarrow> True | PbBuild raw p b \<Rightarrow> raw < n | PbPublish i \<Rightarrow> i < n)"

definition fits :: "mic_state \<Rightarrow> bool" where
  "fits s \<longleftrightarrow> below (mi_next s) (mi_raw s) \<and> below (mi_next s) (mi_unpublished s) \<and> below (mi_next s) (mi_local s) \<and>
     below (mi_next s) (media_of s) \<and> list_all (call_fits (mi_next s)) (mi_calls s)"

definition mic_base :: "mic_state \<Rightarrow> bool" where
  "mic_base s \<longleftrightarrow> fits s \<and> (mi_session s \<noteq> None \<longrightarrow> mi_local s = mi_publication s)"

definition mic_ok :: "mic_state \<Rightarrow> bool" where
  "mic_ok s \<longleftrightarrow> mic_base s \<and> muted_ok s \<and> (mi_server_muted s \<or> mi_server_deafened s \<longrightarrow> mi_desired s)"

lemma below_mono: "below n t \<Longrightarrow> n \<le> m \<Longrightarrow> below m t"
  by (cases t) (auto simp: below_def)

lemma call_fits_mono: "call_fits n c \<Longrightarrow> n \<le> m \<Longrightarrow> call_fits m c"
  by (cases "(n, c)" rule: call_fits.cases) (auto intro: below_mono split: rebuild_stage.splits publish_stage.splits)

lemma overruled_append: "overruled obj i cs \<Longrightarrow> list_all (\<lambda>c. call_on c = None) ds \<Longrightarrow> overruled obj i (cs @ ds)"
proof (induction cs)
  case Nil
  then show ?case by (induction ds) (auto split: mic_call.split)
qed (auto split: mic_call.split)

lemma overruled_removed:
  "overruled obj i (pre @ c # post) \<Longrightarrow> (call_on c = Some obj \<Longrightarrow> list_all (\<lambda>d. call_on d \<noteq> Some obj) pre) \<Longrightarrow> overruled obj i (pre @ post)"
  by (induction pre) (auto split: mic_call.splits)

lemma overruled_drop: "overruled obj i (pre @ cs) \<Longrightarrow> overruled obj i cs"
  by (induction pre) auto

lemma overruled_last: "call_on d = Some obj \<Longrightarrow> silences i d \<Longrightarrow> overruled obj i (cs @ [d])"
  by (induction cs) (cases d; auto split: mic_call.split)+

lemma not_called: "list_all (\<lambda>c. call_on c \<noteq> Some obj) cs \<Longrightarrow> overruled obj i cs"
  by (induction cs) (auto split: mic_call.split)

section \<open>Calm changes\<close>

text \<open>
  A change that keeps what is published and wished for, turns nothing on that should be off, revives no track, and adds
  calls other than to mute or unmute.
\<close>

definition calm :: "mic_state \<Rightarrow> mic_state \<Rightarrow> bool" where
  "calm s t \<longleftrightarrow>
     mi_session t = mi_session s \<and> mi_local t = mi_local s \<and> mi_publication t = mi_publication s \<and>
     mi_desired t = mi_desired s \<and> mi_server_muted t = mi_server_muted s \<and> mi_server_deafened t = mi_server_deafened s \<and>
     mi_media t = mi_media s \<and> mi_next s \<le> mi_next t \<and>
     (\<forall>i < mi_next s. (sounding t i \<longrightarrow> sounding s i \<or> \<not> mi_desired s) \<and> (tk_live (mi_tracks t i) \<longrightarrow> tk_live (mi_tracks s i))) \<and>
     (\<exists>cs. mi_calls t = mi_calls s @ cs \<and> list_all (\<lambda>c. call_on c = None) cs) \<and> (fits s \<longrightarrow> fits t)"

lemma calm_refl: "calm s s"
  by (simp add: calm_def)

lemma calm_trans:
  assumes st: "calm s t" and tu: "calm t u"
  shows "calm s u"
proof -
  obtain cs where cs: "mi_calls t = mi_calls s @ cs" "list_all (\<lambda>c. call_on c = None) cs" using st by (auto simp: calm_def)
  obtain ds where ds: "mi_calls u = mi_calls t @ ds" "list_all (\<lambda>c. call_on c = None) ds" using tu by (auto simp: calm_def)
  have "mi_next s \<le> mi_next t" "mi_desired t = mi_desired s" using st by (simp_all add: calm_def)
  then have "(sounding u i \<longrightarrow> sounding s i \<or> \<not> mi_desired s) \<and> (tk_live (mi_tracks u i) \<longrightarrow> tk_live (mi_tracks s i))"
    if "i < mi_next s" for i
    using st tu that unfolding calm_def by (meson less_le_trans)
  moreover have "\<exists>es. mi_calls u = mi_calls s @ es \<and> list_all (\<lambda>c. call_on c = None) es"
    by (rule exI[of _ "cs @ ds"]) (simp add: cs ds)
  ultimately show ?thesis using st tu by (auto simp: calm_def)
qed

lemma calm_ok:
  assumes c: "calm s t" and ok: "mic_ok s"
  shows "mic_ok t"
proof -
  obtain cs where cs: "mi_calls t = mi_calls s @ cs" "list_all (\<lambda>c. call_on c = None) cs" using c by (auto simp: calm_def)
  have m: "muted_ok t"
    unfolding muted_ok_def
  proof (intro impI allI)
    fix obj assume d: "mi_desired t" and l: "mi_local t = Some obj"
    let ?i = "mi_media s obj"
    have ls: "mi_desired s" "mi_local s = Some obj" "mi_media t obj = ?i" using c d l by (auto simp: calm_def)
    then have i: "?i < mi_next s" using ok by (auto simp: mic_ok_def mic_base_def fits_def below_def media_of_def)
    have old: "sounding s ?i \<Longrightarrow> \<exists>c \<in> set (mi_calls s). silences ?i c" "overruled obj ?i (mi_calls s) \<or> \<not> tk_live (mi_tracks s ?i)"
      using ok ls by (auto simp: mic_ok_def muted_ok_def)
    moreover have "sounding t ?i \<Longrightarrow> sounding s ?i" "tk_live (mi_tracks t ?i) \<Longrightarrow> tk_live (mi_tracks s ?i)" using c i ls by (auto simp: calm_def)
    ultimately show "(sounding t (mi_media t obj) \<longrightarrow> (\<exists>c \<in> set (mi_calls t). silences (mi_media t obj) c)) \<and>
        (overruled obj (mi_media t obj) (mi_calls t) \<or> \<not> tk_live (mi_tracks t (mi_media t obj)))"
      using ls overruled_append[OF _ cs(2)] by (auto simp: cs)
  qed
  from ok c m show ?thesis by (auto simp: mic_ok_def mic_base_def calm_def)
qed

lemma calm_base: "calm s t \<Longrightarrow> mic_base s \<Longrightarrow> mic_base t"
  by (auto simp: mic_base_def calm_def)

lemma calm_switch: "(b \<Longrightarrow> \<not> mi_desired s) \<Longrightarrow> calm s (switch_track i b s)"
  by (auto simp: calm_def switch_track_def sounding_def fits_def media_of_def)

lemma calm_stop: "calm s (stop_mic_track i s)"
  by (auto simp: calm_def stop_mic_track_def sounding_def fits_def media_of_def)

lemma calm_if_track: "(\<And>i. calm s (f i s)) \<Longrightarrow> calm s (if_track f t s)"
  by (auto simp: if_track_def calm_refl split: option.split)

lemma calm_pipes: "calm s (cancelGate p s)" "calm s (destroy_denoiser p s)" "calm s (end_publish s)" "calm s (end_rebuild rb s)"
  by (auto simp: calm_def cancelGate_def destroy_denoiser_def end_publish_def end_rebuild_def sounding_def fits_def media_of_def)

lemma calm_after: "calm s (after_muting a s)"
  by (cases a) (auto simp: calm_def after_muting_def sounding_def fits_def media_of_def)

lemma calm_wait: "call_on c = None \<Longrightarrow> call_fits (mi_next s) c \<Longrightarrow> calm s (wait_for c s)"
  by (auto simp: calm_def wait_for_def sounding_def fits_def media_of_def)

text \<open>Updates of fields the invariant does not read, or reads as a number only.\<close>

lemma calm_fields:
  "calm s (s\<lparr>mi_publishing := b\<rparr>)" "calm s (s\<lparr>mi_recovering := b\<rparr>)" "calm s (s\<lparr>mi_generation := n\<rparr>)"
  "calm s (s\<lparr>mi_suppression := b\<rparr>)" "calm s (s\<lparr>mi_can_publish := b\<rparr>)" "calm s (s\<lparr>mi_self_muted := b, mi_self_deafened := d\<rparr>)"
  "calm s (s\<lparr>mi_live_nodes := p\<rparr>)" "calm s (s\<lparr>mi_denoiser := p\<rparr>)" "calm s (s\<lparr>mi_pipes := f\<rparr>)" "calm s (s\<lparr>mi_pipes := f, mi_denoiser := p\<rparr>)"
  "calm s (s\<lparr>mi_gate := p\<rparr>)"
  by (auto simp: calm_def sounding_def fits_def media_of_def)

lemma calm_raw: "below (mi_next s) r \<Longrightarrow> calm s (s\<lparr>mi_raw := r\<rparr>)"
  by (auto simp: calm_def sounding_def fits_def media_of_def)

lemma calm_raw_gate: "below (mi_next s) r \<Longrightarrow> calm s (s\<lparr>mi_raw := r, mi_gate := g, mi_error := b\<rparr>)"
  by (auto simp: calm_def sounding_def fits_def media_of_def)

lemma calm_unpublished: "below (mi_next s) r \<Longrightarrow> calm s (s\<lparr>mi_gate := g, mi_unpublished := r\<rparr>)"
  by (auto simp: calm_def sounding_def fits_def media_of_def)

lemma calm_next: "calm s t \<Longrightarrow> mi_next s \<le> mi_next t"
  by (simp add: calm_def)

lemma fits_more: "fits s \<Longrightarrow> mi_next s \<le> n \<Longrightarrow> fits (s\<lparr>mi_next := n\<rparr>)"
  by (auto simp: fits_def media_of_def list_all_iff intro: below_mono call_fits_mono)

lemma calm_new_pipe: "new_pipe s = (t, p) \<Longrightarrow> calm s t"
proof -
  assume t: "new_pipe s = (t, p)"
  have "fits s \<Longrightarrow> fits (s\<lparr>mi_next := Suc (mi_next s)\<rparr>)" by (rule fits_more) simp_all
  then have "fits s \<Longrightarrow> fits t" using t by (auto simp: new_pipe_def fits_def media_of_def)
  with t show ?thesis by (auto simp: calm_def new_pipe_def sounding_def)
qed

lemma calm_pipe_ready: "pipe_ready raw p s = (t, r) \<Longrightarrow> calm s t"
proof -
  assume t: "pipe_ready raw p s = (t, r)"
  have "fits s \<Longrightarrow> fits (s\<lparr>mi_next := Suc (mi_next s)\<rparr>)" by (rule fits_more) simp_all
  then have "fits s \<Longrightarrow> fits t" using t by (auto simp: pipe_ready_def Let_def fits_def media_of_def)
  with t show ?thesis by (auto simp: calm_def pipe_ready_def sounding_def Let_def)
qed

lemma calm_new_capture: "new_capture s = (t, i) \<Longrightarrow> calm s t"
proof -
  assume t: "new_capture s = (t, i)"
  have "fits s \<Longrightarrow> fits (s\<lparr>mi_next := Suc (mi_next s)\<rparr>)" by (rule fits_more) simp_all
  then have "fits s \<Longrightarrow> fits t" using t by (auto simp: new_capture_def fits_def media_of_def)
  with t show ?thesis by (auto simp: calm_def new_capture_def sounding_def)
qed

section \<open>Building is calm\<close>

text \<open>What a build returns belongs to the state it returns.\<close>

definition result_fits :: "nat \<Rightarrow> mic_state \<times> build_result \<Rightarrow> bool" where
  "result_fits raw r \<longleftrightarrow> raw < mi_next (fst r) \<and> (case snd r of Built out gate \<Rightarrow> out < mi_next (fst r) | _ \<Rightarrow> True)"

lemma switch_next [simp]: "mi_next (switch_track i b s) = mi_next s" "mi_desired (switch_track i b s) = mi_desired s"
  by (simp_all add: switch_track_def)

lemma calm_start: "calm s (fst (start_build raw b s))"
  by (auto simp: start_build_def Let_def intro: calm_switch)

lemma start_fits: "raw < mi_next s \<Longrightarrow> result_fits raw (start_build raw b s)"
  by (auto simp: start_build_def Let_def result_fits_def)

lemma ready_fits: "raw < mi_next s \<Longrightarrow> result_fits raw (pipe_ready raw p s)"
  by (auto simp: pipe_ready_def Let_def result_fits_def)

lemma calm_continue: "calm s (fst (continue_build cur ok raw p st s))"
proof -
  have ready: "calm s (fst (pipe_ready raw p s'))" if "calm s s'" for s'
    using that calm_pipe_ready[of raw p s'] calm_trans by (cases "pipe_ready raw p s'") auto
  have node: "calm s (s\<lparr>mi_pipes := f, mi_denoiser := q\<rparr>)" "calm s (s\<lparr>mi_pipes := f, mi_denoiser := q, mi_live_nodes := l\<rparr>)" for f q l
    by (auto simp: calm_def sounding_def fits_def media_of_def)
  have destroyed: "calm s ((destroy_denoiser p s)\<lparr>mi_denoiser := None\<rparr>)"
    by (auto simp: calm_def destroy_denoiser_def sounding_def fits_def media_of_def)
  show ?thesis
    by (auto simp: continue_build_def Let_def calm_refl node destroyed calm_fields calm_pipes split: build_stage.split
        intro!: ready calm_if_track)
qed

lemma continue_fits: "raw < mi_next s \<Longrightarrow> result_fits raw (continue_build cur ok raw p st s)"
proof -
  assume r: "raw < mi_next s"
  have "mi_next (if_track destroy_denoiser t s) = mi_next s" for t
    by (simp add: if_track_def destroy_denoiser_def split: option.split)
  then show ?thesis using r
    by (auto simp: continue_build_def Let_def destroy_denoiser_def split: build_stage.split intro!: ready_fits)
      (auto simp: result_fits_def)
qed

lemma calm_failed: "below (mi_next s) (rb_raw rb) \<Longrightarrow> calm s (rebuild_failed rb built replaced s)"
proof -
  assume raw: "below (mi_next s) (rb_raw rb)"
  define s1 where "s1 = (case built of None \<Rightarrow> s | Some (out, gate) \<Rightarrow>
    let s0 = if_track cancelGate gate s in if \<not> replaced \<or> \<not> rebuild_current rb s0 then stop_mic_track out s0 else s0)"
  define s2 where "s2 = if_track stop_mic_track (rb_owned rb) s1"
  have "calm s s1"
    by (auto simp: s1_def Let_def calm_refl calm_pipes intro: calm_if_track calm_trans[OF calm_if_track[OF calm_pipes(1)] calm_stop] split: option.split)
  moreover have "calm s1 s2" by (simp add: s2_def calm_if_track calm_stop)
  ultimately have s2: "calm s s2" by (rule calm_trans)
  have "calm s (if rebuild_current rb s2 then s2\<lparr>mi_raw := rb_raw rb, mi_gate := rb_gate rb, mi_error := True\<rparr> else s2)" (is "calm s ?s3")
    using s2 calm_trans[OF s2 calm_raw_gate[OF below_mono[OF raw calm_next[OF s2]]]] by simp
  then have "calm s (end_rebuild rb ?s3)" by (rule calm_trans) (rule calm_pipes)
  then show ?thesis unfolding rebuild_failed_def Let_def s1_def s2_def .
qed

lemma calm_rebuild_built:
  assumes c: "calm s (fst r)" and f: "result_fits raw r" and raw: "below (mi_next s) (rb_raw rb)"
  shows "calm s (rebuild_built rb raw p r)"
proof -
  obtain t b where r: "r = (t, b)" by fastforce
  have rt: "below (mi_next t) (rb_raw rb)" using below_mono[OF raw calm_next[OF c]] by (simp add: r)
  have "calm t (rebuild_built rb raw p r)"
  proof (cases b)
    case (Waits st)
    then show ?thesis using f rt by (auto simp: rebuild_built_def r result_fits_def intro!: calm_wait)
  next
    case (Built out gate)
    have sw: "calm t (switch_track raw False (switch_track out False t))" by (rule calm_trans[OF calm_switch calm_switch]) simp_all
    then have "calm t (wait_for (Rebuilding rb (RbReplace raw out gate)) (switch_track raw False (switch_track out False t)))"
      using f rt Built by (intro calm_trans[OF sw calm_wait]) (auto simp: r result_fits_def)
    then show ?thesis using calm_failed[OF rt] by (simp add: rebuild_built_def r Built)
  next
    case Threw
    then show ?thesis using calm_failed[OF rt] by (simp add: rebuild_built_def r)
  qed
  with c show ?thesis using calm_trans by (simp add: r)
qed

lemma calm_settings: "raw < mi_next s \<Longrightarrow> below (mi_next s) (rb_raw rb) \<Longrightarrow> calm s (rebuild_settings_applied rb raw s)"
proof -
  assume r: "raw < mi_next s" and b: "below (mi_next s) (rb_raw rb)"
  obtain t p where t: "new_pipe s = (t, p)" by fastforce
  have c: "calm s t" using t by (rule calm_new_pipe)
  have "calm s (rebuild_built rb raw p (start_build raw (mi_suppression t) t))"
    using calm_trans[OF c calm_start] start_fits[OF less_le_trans[OF r calm_next[OF c]]] b by (rule calm_rebuild_built)
  then show ?thesis using calm_failed[OF b] by (simp add: rebuild_settings_applied_def t)
qed

lemma calm_captured: "below (mi_next s) (rb_raw rb) \<Longrightarrow> calm s (rebuild_captured rb s)"
proof -
  assume b: "below (mi_next s) (rb_raw rb)"
  obtain t i where t: "new_capture s = (t, i)" by fastforce
  have c: "calm s t" using t by (rule calm_new_capture)
  have i: "i < mi_next t" using t by (auto simp: new_capture_def)
  have bt: "below (mi_next t) (rb_raw (rb\<lparr>rb_owned := Some i\<rparr>))" using below_mono[OF b calm_next[OF c]] by simp
  have "calm t (wait_for (Rebuilding (rb\<lparr>rb_owned := Some i\<rparr>) (RbSettings i)) t)" using i bt by (intro calm_wait) auto
  with calm_failed[OF bt] c show ?thesis by (auto simp: rebuild_captured_def t Let_def intro: calm_trans)
qed

lemma calm_rebuild: "fits s \<Longrightarrow> calm s (rebuildPublishedMicrophoneTrack force rec s)"
proof -
  assume f: "fits s"
  let ?s1 = "s\<lparr>mi_generation := mi_generation s + 1\<rparr>"
  have "calm s (wait_for c ?s1)" if "call_on c = None" "call_fits (mi_next s) c" for c
    by (rule calm_trans[OF calm_fields(3) calm_wait]) (use that in simp_all)
  moreover have "live_track ?s1 (mi_raw s) \<Longrightarrow> below (mi_next s) (mi_raw s) \<Longrightarrow> the (mi_raw s) < mi_next s"
    by (auto simp: live_track_def below_def split: option.splits)
  ultimately show ?thesis using f
    by (auto simp: rebuildPublishedMicrophoneTrack_def Let_def calm_fields calm_refl fits_def split: option.split)
qed

lemma calm_publish_track: "i < mi_next s \<Longrightarrow> calm s (publish_track room i s)"
proof -
  assume i: "i < mi_next s"
  let ?t = "if_track (\<lambda>j. switch_track j (\<not> mi_desired s)) (mi_raw s) (switch_track i (\<not> mi_desired s) s)"
  have 1: "calm s (switch_track i (\<not> mi_desired s) s)" by (rule calm_switch) simp
  have "calm (switch_track i (\<not> mi_desired s) s) ?t" by (intro calm_if_track calm_switch) simp
  with 1 have t: "calm s ?t" by (rule calm_trans)
  have "calm s (wait_for (Publishing room (PbPublish i)) ?t)"
    using less_le_trans[OF i calm_next[OF t]] by (intro calm_trans[OF t calm_wait]) simp_all
  then show ?thesis by (simp add: publish_track_def calm_pipes)
qed

lemma calm_publish_built:
  assumes c: "calm s (fst r)" and f: "result_fits raw r"
  shows "calm s (publish_built room raw p r)"
proof -
  obtain t b where r: "r = (t, b)" by fastforce
  have "calm t (publish_built room raw p r)"
  proof (cases b)
    case (Built out gate)
    let ?t = "t\<lparr>mi_gate := gate, mi_unpublished := Some out\<rparr>"
    have "calm t ?t" using f by (intro calm_unpublished) (simp add: r Built result_fits_def below_def)
    then have "calm t (publish_track room out ?t)" using f by (elim calm_trans) (intro calm_publish_track, simp add: r Built result_fits_def)
    then show ?thesis by (simp add: publish_built_def r Built)
  qed (use f in \<open>auto simp: publish_built_def r result_fits_def calm_pipes intro!: calm_wait\<close>)
  with c show ?thesis using calm_trans by (simp add: r)
qed

lemma calm_publish_from: "raw < mi_next s \<Longrightarrow> calm s (publish_from room raw s)"
proof -
  assume raw: "raw < mi_next s"
  define s1 where "s1 = if_track cancelGate (mi_gate s) s"
  obtain t p where t: "new_pipe (s1\<lparr>mi_raw := Some raw\<rparr>) = (t, p)" by fastforce
  have c1: "calm s s1" unfolding s1_def by (intro calm_if_track calm_pipes)
  have "calm s (s1\<lparr>mi_raw := Some raw\<rparr>)"
    using less_le_trans[OF raw calm_next[OF c1]] by (intro calm_trans[OF c1 calm_raw]) (simp add: below_def)
  from calm_trans[OF this calm_new_pipe[OF t]] have c: "calm s t" .
  have "calm s (publish_built room raw p (start_build raw (mi_suppression t) t))"
    using calm_trans[OF c calm_start] start_fits[OF less_le_trans[OF raw calm_next[OF c]]] by (rule calm_publish_built)
  then show ?thesis by (simp add: publish_from_def s1_def[symmetric] t)
qed

lemma calm_publish: "fits s \<Longrightarrow> calm s (publishModeratedMicrophone s)"
proof -
  assume f: "fits s"
  let ?s1 = "s\<lparr>mi_publishing := True\<rparr>"
  have "the t < mi_next s" if "live_track ?s1 t" "below (mi_next s) t" for t
    using that by (auto simp: live_track_def below_def split: option.splits)
  then have "live_track ?s1 (mi_unpublished s) \<Longrightarrow> the (mi_unpublished s) < mi_next s"
    "live_track ?s1 (mi_raw s) \<Longrightarrow> the (mi_raw s) < mi_next s" using f by (auto simp: fits_def)
  moreover have "calm s (publish_track room i ?s1)" if "i < mi_next s" for room i
    by (rule calm_trans[OF calm_fields(1) calm_publish_track]) (simp add: that)
  moreover have "calm s (publish_from room i ?s1)" if "i < mi_next s" for room i
    by (rule calm_trans[OF calm_fields(1) calm_publish_from]) (simp add: that)
  moreover have "calm s (wait_for (Publishing room PbCapture) ?s1)" for room
    by (rule calm_trans[OF calm_fields(1) calm_wait]) simp_all
  ultimately show ?thesis
    by (auto simp: publishModeratedMicrophone_def Let_def calm_refl split: option.split)
qed

section \<open>Steps that mute, publish or replace\<close>

lemma set_ok:
  assumes "mic_base s"
  shows "mic_ok (setLocalMicMuted m a s)"
proof -
  define s1 where "s1 = s\<lparr>mi_desired := (m \<or> mi_server_muted s \<or> mi_server_deafened s)\<rparr>"
  have base: "mic_base s1" using assms by (simp add: s1_def mic_base_def fits_def media_of_def)
  have server: "mi_server_muted s1 \<or> mi_server_deafened s1 \<longrightarrow> mi_desired s1" by (simp add: s1_def)
  show ?thesis
  proof (cases "mi_desired s1")
    case muted: True
    show ?thesis
    proof (cases "mi_local s1")
      case None
      let ?t = "after_muting a (if_track (\<lambda>i. switch_track i False) (mi_raw s1) s1)"
      have "mic_ok s1" using base server None by (simp add: mic_ok_def muted_ok_def)
      moreover have "calm s1 ?t" by (rule calm_trans[OF calm_if_track calm_after]) (simp add: calm_switch)
      ultimately have "mic_ok ?t" by (rule calm_ok[rotated])
      then show ?thesis using muted None by (simp add: setLocalMicMuted_def Let_def s1_def)
    next
      case (Some obj)
      let ?c = "Muting obj (mi_media s1 obj) (mi_raw s1) a"
      have "fits (wait_for ?c s1)" using base Some by (auto simp: mic_base_def fits_def wait_for_def below_def media_of_def)
      moreover have "overruled obj (mi_media s1 obj) (mi_calls s1 @ [?c])" by (rule overruled_last) simp_all
      ultimately have "mic_ok (wait_for ?c s1)" using base server muted Some
        by (auto simp: mic_ok_def mic_base_def muted_ok_def wait_for_def)
      then show ?thesis using muted Some by (simp add: setLocalMicMuted_def Let_def s1_def)
    qed
  next
    case False
    then have ok: "mic_ok s1" using base server by (simp add: mic_ok_def muted_ok_def)
    define s2 where "s2 = if_track (\<lambda>i. switch_track i True) (mi_raw s1) (if_track (\<lambda>i. switch_track i True) (media_of s1) s1)"
    have d: "mi_desired (if_track (\<lambda>i. switch_track i True) t s1) = mi_desired s1" for t
      by (simp add: if_track_def split: option.split)
    have "calm s1 s2" unfolding s2_def
      by (rule calm_trans[OF calm_if_track calm_if_track]) (simp_all add: calm_switch False d)
    then have ok2: "mic_ok s2" and l: "mi_desired s2 = mi_desired s1" using calm_ok[OF _ ok] by (simp_all add: calm_def)
    have "mic_ok (case mi_local s2 of Some obj \<Rightarrow> wait_for (Unmuting obj a) s2 | None \<Rightarrow> after_muting a s2)"
    proof (cases "mi_local s2")
      case None
      then show ?thesis using calm_ok[OF calm_after ok2] by simp
    next
      case (Some obj)
      then have "below (mi_next s2) (Some obj)" using ok2 by (metis mic_ok_def mic_base_def fits_def)
      with ok2 have "mic_base (wait_for (Unmuting obj a) s2)"
        by (simp add: mic_ok_def mic_base_def fits_def wait_for_def media_of_def below_def)
      then show ?thesis using ok2 False l Some by (simp add: mic_ok_def muted_ok_def wait_for_def)
    qed
    moreover have "\<not> (m \<or> mi_server_muted s \<or> mi_server_deafened s)" using False by (simp add: s1_def)
    ultimately show ?thesis unfolding setLocalMicMuted_def Let_def s1_def[symmetric] s2_def[symmetric] by (simp only: if_False)
  qed
qed

lemma calm_livekit: "(e = Some True \<Longrightarrow> \<not> mi_desired s) \<Longrightarrow> calm s (livekit_sets e i s)"
  by (auto simp: livekit_sets_def calm_refl intro: calm_switch split: option.split)

lemma calm_refresh: "mic_base s \<Longrightarrow> calm s (refreshLocalStreams s)"
proof -
  assume b: "mic_base s"
  have same: "s\<lparr>mi_local := l\<rparr> = s" if "mi_local s = l" for l using that by auto
  have "calm s (switch_track i (\<not> mi_desired s) s)" for i by (rule calm_switch) simp
  with b show ?thesis
    by (auto simp: refreshLocalStreams_def mic_base_def calm_refl same split: option.split)
qed

text \<open>Removing the call that is answered.\<close>

definition without_call :: "nat \<Rightarrow> mic_state \<Rightarrow> mic_state" where
  "without_call i s = s\<lparr>mi_calls := take i (mi_calls s) @ drop (Suc i) (mi_calls s)\<rparr>"

lemma without_fields [simp]:
  "mi_next (without_call i s) = mi_next s" "mi_tracks (without_call i s) = mi_tracks s" "mi_media (without_call i s) = mi_media s"
  "mi_local (without_call i s) = mi_local s" "mi_raw (without_call i s) = mi_raw s" "mi_desired (without_call i s) = mi_desired s"
  "mi_session (without_call i s) = mi_session s" "rebuild_current rb (without_call i s) = rebuild_current rb s"
  by (simp_all add: without_call_def rebuild_current_def)

lemma without_base: "mic_base s \<Longrightarrow> mic_base (without_call i s)"
  by (auto simp: mic_base_def fits_def without_call_def media_of_def list_all_iff dest: in_set_takeD in_set_dropD)

lemma calls_split: "i < length cs \<Longrightarrow> cs = take i cs @ cs ! i # drop (Suc i) cs"
  by (rule id_take_nth_drop)

lemma without_ok:
  assumes ok: "mic_ok s" and i: "i < length (mi_calls s)" and c: "call_on (mi_calls s ! i) = None"
  shows "mic_ok (without_call i s)"
proof -
  let ?cs = "mi_calls s" and ?c = "mi_calls s ! i"
  have s: "?cs = take i ?cs @ ?c # drop (Suc i) ?cs" using i by (rule calls_split)
  have "muted_ok (without_call i s)" unfolding muted_ok_def without_call_def
  proof (clarsimp)
    fix obj assume d: "mi_desired s" and l: "mi_local s = Some obj"
    let ?m = "mi_media s obj"
    have old: "sounding s ?m \<Longrightarrow> \<exists>c \<in> set ?cs. silences ?m c" "overruled obj ?m ?cs \<or> \<not> tk_live (mi_tracks s ?m)"
      using ok d l by (auto simp: mic_ok_def muted_ok_def)
    have "\<not> silences ?m ?c" using c by (cases ?c) auto
    then have "sounding s ?m \<Longrightarrow> \<exists>c \<in> set (take i ?cs) \<union> set (drop (Suc i) ?cs). silences ?m c"
      using old(1) s by (metis UnCI UnE in_set_conv_decomp set_ConsD set_append)
    moreover have "overruled obj ?m (take i ?cs @ drop (Suc i) ?cs)" if "overruled obj ?m ?cs"
      by (rule overruled_removed[where c = ?c]) (use that s c in simp_all)
    ultimately show "(sounding (s\<lparr>mi_calls := take i ?cs @ drop (Suc i) ?cs\<rparr>) ?m \<longrightarrow>
          (\<exists>c \<in> set (take i ?cs) \<union> set (drop (Suc i) ?cs). silences ?m c)) \<and>
        (overruled obj ?m (take i ?cs @ drop (Suc i) ?cs) \<or> \<not> tk_live (mi_tracks s ?m))"
      using old(2) by (auto simp: sounding_def)
  qed
  then show ?thesis using ok without_base[of s i] by (simp add: mic_ok_def without_call_def)
qed

lemma mute_ok:
  assumes ok: "mic_ok s" and i: "i < length (mi_calls s)" and c: "mi_calls s ! i = Muting obj media raw a"
    and order: "list_all (\<lambda>c. call_on c \<noteq> Some obj) (take i (mi_calls s))" and e: "e \<noteq> Some True"
  shows "mic_ok (mute_answered obj media raw a e (without_call i s))"
proof -
  let ?cs = "mi_calls s" and ?c = "mi_calls s ! i" and ?w = "without_call i s"
  define t where "t = switch_track media False (livekit_sets e (mi_media s obj) ?w)"
  have cs: "?cs = take i ?cs @ ?c # drop (Suc i) ?cs" using i by (rule calls_split)
  have calm: "calm ?w t" unfolding t_def
    by (rule calm_trans[OF calm_livekit calm_switch]) (use e in auto)
  have "mic_base t" using calm_base[OF calm without_base] ok by (simp add: mic_ok_def)
  moreover have "muted_ok t" unfolding muted_ok_def
  proof (intro impI allI)
    fix o1 assume d: "mi_desired t" and l: "mi_local t = Some o1"
    let ?m = "mi_media s o1"
    have ls: "mi_desired s" "mi_local s = Some o1" "mi_media t o1 = ?m" using calm d l by (auto simp: calm_def)
    have ct: "mi_calls t = take i ?cs @ drop (Suc i) ?cs"
      by (simp add: t_def switch_track_def livekit_sets_def without_call_def split: option.split)
    have m: "?m < mi_next s" using ok ls by (auto simp: mic_ok_def mic_base_def fits_def below_def media_of_def)
    have old: "sounding s ?m \<Longrightarrow> \<exists>c \<in> set ?cs. silences ?m c" "overruled o1 ?m ?cs \<or> \<not> tk_live (mi_tracks s ?m)"
      using ok ls by (auto simp: mic_ok_def muted_ok_def)
    have "sounding t ?m \<Longrightarrow> \<exists>c \<in> set (mi_calls t). silences ?m c"
    proof -
      assume snd: "sounding t ?m"
      then have "?m \<noteq> media" by (auto simp: t_def sounding_def switch_track_def)
      then have "\<not> silences ?m ?c" by (simp add: c)
      moreover have "sounding s ?m" using calm snd m ls by (auto simp: calm_def sounding_def)
      ultimately show ?thesis using old(1) cs ct by (metis UnCI UnE in_set_conv_decomp set_ConsD set_append)
    qed
    moreover have "overruled o1 ?m (take i ?cs @ drop (Suc i) ?cs)" if "overruled o1 ?m ?cs"
      by (rule overruled_removed[where c = ?c]) (use that cs c order in auto)
    moreover have "tk_live (mi_tracks t ?m) \<Longrightarrow> tk_live (mi_tracks s ?m)" using calm m by (auto simp: calm_def)
    ultimately show "(sounding t (mi_media t o1) \<longrightarrow> (\<exists>c \<in> set (mi_calls t). silences (mi_media t o1) c)) \<and>
        (overruled o1 (mi_media t o1) (mi_calls t) \<or> \<not> tk_live (mi_tracks t (mi_media t o1)))"
      using old(2) ls ct by auto
  qed
  moreover have "mi_server_muted t \<or> mi_server_deafened t \<longrightarrow> mi_desired t"
    using ok calm by (auto simp: mic_ok_def calm_def without_call_def)
  ultimately have "mic_ok t" by (simp add: mic_ok_def)
  moreover have "calm t (after_muting a (if_track (\<lambda>i. switch_track i False) raw t))"
    by (rule calm_trans[OF calm_if_track calm_after]) (simp add: calm_switch)
  ultimately have "mic_ok (after_muting a (if_track (\<lambda>i. switch_track i False) raw t))" by (rule calm_ok[rotated])
  then show ?thesis by (simp only: mute_answered_def without_fields t_def)
qed

lemma unmute_ok:
  assumes ok: "mic_ok s" and i: "i < length (mi_calls s)" and c: "mi_calls s ! i = Unmuting obj a"
    and order: "list_all (\<lambda>c. call_on c \<noteq> Some obj) (take i (mi_calls s))" and e: "mi_local s = Some obj \<or> e = None"
  shows "mic_ok (unmute_answered obj a e (without_call i s))"
proof -
  let ?cs = "mi_calls s" and ?c = "mi_calls s ! i"
  define t where "t = livekit_sets e (mi_media s obj) (without_call i s)"
  have cs: "?cs = take i ?cs @ ?c # drop (Suc i) ?cs" using i by (rule calls_split)
  have f: "mi_calls t = take i ?cs @ drop (Suc i) ?cs" "mi_local t = mi_local s" "mi_media t = mi_media s" "mi_desired t = mi_desired s"
    "mi_server_muted t = mi_server_muted s" "mi_server_deafened t = mi_server_deafened s"
    "tk_live (mi_tracks t j) = tk_live (mi_tracks s j)" "j \<noteq> mi_media s obj \<or> e = None \<Longrightarrow> sounding t j = sounding s j" for j
    by (auto simp: t_def livekit_sets_def switch_track_def without_call_def sounding_def split: option.split)
  have "mic_base t" using without_base[of s i] ok
    by (auto simp: mic_ok_def t_def livekit_sets_def switch_track_def mic_base_def fits_def media_of_def split: option.split)
  moreover have "muted_ok t" unfolding muted_ok_def f
  proof (intro impI allI)
    fix o1 assume d: "mi_desired s" and l: "mi_local s = Some o1"
    let ?m = "mi_media s o1"
    have old: "sounding s ?m \<Longrightarrow> \<exists>c \<in> set ?cs. silences ?m c" "overruled o1 ?m ?cs \<or> \<not> tk_live (mi_tracks s ?m)"
      using ok d l by (auto simp: mic_ok_def muted_ok_def)
    have rest: "\<exists>c \<in> set (take i ?cs @ drop (Suc i) ?cs). silences ?m c" if "\<exists>c \<in> set ?cs. silences ?m c"
      using that cs c by (metis UnCI UnE in_set_conv_decomp set_ConsD set_append silences.simps(2))
    have later: "\<exists>c \<in> set (take i ?cs @ drop (Suc i) ?cs). silences ?m c" if "overruled o1 ?m ?cs" "o1 = obj"
    proof -
      have "overruled o1 ?m (?c # drop (Suc i) ?cs)" using that(1) cs
        by (metis overruled_drop)
      then show ?thesis using c that(2) by auto
    qed
    have "sounding t ?m \<Longrightarrow> \<exists>c \<in> set (take i ?cs @ drop (Suc i) ?cs). silences ?m c"
    proof (cases "o1 = obj")
      case True
      assume "sounding t ?m"
      then have "tk_live (mi_tracks s ?m)" using f(7) by (simp add: sounding_def)
      with old(2) later True show ?thesis by blast
    next
      case False
      assume snd: "sounding t ?m"
      have "e = None" using e l False by auto
      with snd f(8) have "sounding s ?m" by blast
      then show ?thesis using old(1) rest by blast
    qed
    moreover have "overruled o1 ?m (take i ?cs @ drop (Suc i) ?cs)" if "overruled o1 ?m ?cs"
      by (rule overruled_removed[where c = ?c]) (use that cs c order in auto)
    ultimately show "(sounding t ?m \<longrightarrow> (\<exists>c \<in> set (take i ?cs @ drop (Suc i) ?cs). silences ?m c)) \<and>
        (overruled o1 ?m (take i ?cs @ drop (Suc i) ?cs) \<or> \<not> tk_live (mi_tracks s ?m))" using old(2) by blast
  qed
  ultimately have "mic_ok t" using ok f by (simp add: mic_ok_def)
  then show ?thesis by (simp add: unmute_answered_def t_def[symmetric] calm_ok[OF calm_after])
qed

text \<open>The new track is published: either the rebuild goes on to mute it as wished, or it is stopped.\<close>

lemma base_media: "mic_base s \<Longrightarrow> out < mi_next s \<Longrightarrow> mic_base (s\<lparr>mi_media := (mi_media s)(obj := out)\<rparr>)"
  by (auto simp: mic_base_def fits_def media_of_def below_def split: option.splits)

lemma replaced_dead:
  assumes ok: "mic_ok s" and out: "out < mi_next s"
  shows "mic_ok (stop_mic_track out (livekit_sets e out (s\<lparr>mi_media := (mi_media s)(obj := out)\<rparr>)))" (is "mic_ok ?t")
proof -
  have f: "mi_calls ?t = mi_calls s" "mi_local ?t = mi_local s" "mi_desired ?t = mi_desired s" "\<not> tk_live (mi_tracks ?t out)"
    "mi_server_muted ?t = mi_server_muted s" "mi_server_deafened ?t = mi_server_deafened s"
    "mi_media ?t = (mi_media s)(obj := out)" "j \<noteq> out \<Longrightarrow> mi_tracks ?t j = mi_tracks s j" for j
    by (simp_all add: stop_mic_track_def livekit_sets_def switch_track_def split: option.split)
  have "mic_base ?t" using base_media[OF _ out, of obj] ok
    by (auto simp: mic_ok_def mic_base_def fits_def media_of_def stop_mic_track_def livekit_sets_def switch_track_def split: option.split)
  moreover have "muted_ok ?t" unfolding muted_ok_def f(1-3)
  proof (intro impI allI)
    fix o1 assume d: "mi_desired s" and l: "mi_local s = Some o1"
    have "(sounding s (mi_media s o1) \<longrightarrow> (\<exists>c \<in> set (mi_calls s). silences (mi_media s o1) c)) \<and>
        (overruled o1 (mi_media s o1) (mi_calls s) \<or> \<not> tk_live (mi_tracks s (mi_media s o1)))"
      using ok d l by (auto simp: mic_ok_def muted_ok_def)
    then show "(sounding ?t (mi_media ?t o1) \<longrightarrow> (\<exists>c \<in> set (mi_calls s). silences (mi_media ?t o1) c)) \<and>
        (overruled o1 (mi_media ?t o1) (mi_calls s) \<or> \<not> tk_live (mi_tracks ?t (mi_media ?t o1)))"
      using f(4) f(8)[of "mi_media ?t o1"] by (cases "mi_media ?t o1 = out") (auto simp: sounding_def f(7) split: if_splits)
  qed
  ultimately show ?thesis using ok f by (simp add: mic_ok_def)
qed

lemma stop_cancel: "stop_mic_track out (if_track cancelGate g s) = if_track cancelGate g (stop_mic_track out s)"
  by (simp add: if_track_def stop_mic_track_def cancelGate_def split: option.split)

lemma replace_ok:
  assumes ok: "mic_ok s" and out: "out < mi_next s" "raw < mi_next s" and rb: "below (mi_next s) (rb_raw rb)"
  shows "mic_ok (replace_answered rb raw out gate fine e s)"
proof (cases fine)
  case False
  then show ?thesis using calm_ok[OF calm_failed[OF rb] ok] by (simp add: replace_answered_def)
next
  case True
  define s1 where "s1 = livekit_sets e out (s\<lparr>mi_media := (mi_media s)(rb_local rb := out)\<rparr>)"
  have n: "mi_next s1 = mi_next s" by (simp add: s1_def livekit_sets_def split: option.split)
  show ?thesis
  proof (cases "rebuild_current rb s1")
    case False
    have cur: "\<not> rebuild_current rb (if_track cancelGate gate s1)"
      using False by (simp add: rebuild_current_def if_track_def cancelGate_def split: option.split)
    let ?t = "stop_mic_track out s1"
    have "mic_ok ?t" unfolding s1_def by (rule replaced_dead[OF ok out(1)])
    moreover have "calm ?t (rebuild_failed rb (Some (out, gate)) True s1)"
    proof -
      have "\<not> rebuild_current rb (if_track stop_mic_track o2 (if_track cancelGate gate ?t))" for o2
        using False by (simp add: rebuild_current_def if_track_def cancelGate_def stop_mic_track_def split: option.split)
      then have "rebuild_failed rb (Some (out, gate)) True s1
          = end_rebuild rb (if_track stop_mic_track (rb_owned rb) (if_track cancelGate gate ?t))"
        using cur by (simp add: rebuild_failed_def Let_def stop_cancel)
      moreover have "calm ?t (end_rebuild rb (if_track stop_mic_track (rb_owned rb) (if_track cancelGate gate ?t)))"
      proof -
        have 1: "calm ?t (if_track cancelGate gate ?t)" (is "calm _ ?u") by (intro calm_if_track calm_pipes)
        have 2: "calm ?u (if_track stop_mic_track (rb_owned rb) ?u)" by (intro calm_if_track calm_stop)
        from calm_trans[OF calm_trans[OF 1 2] calm_pipes(4)] show ?thesis .
      qed
      ultimately show ?thesis by simp
    qed
    ultimately show ?thesis using True False by (simp add: replace_answered_def s1_def[symmetric] calm_ok)
  next
    case current: True
    have "mic_base s1" using base_media[OF _ out(1), of "rb_local rb"] ok
      by (auto simp: s1_def mic_ok_def mic_base_def fits_def media_of_def livekit_sets_def switch_track_def split: option.split)
    moreover have "calm s1 (if_track cancelGate (rb_gate rb) s1)" by (intro calm_if_track calm_pipes)
    moreover have "mi_next (if_track cancelGate (rb_gate rb) s1) = mi_next s1" (is "mi_next ?s2 = _")
      "mi_local (if_track cancelGate (rb_gate rb) s1) = Some (rb_local rb)"
      using current by (auto simp: if_track_def cancelGate_def rebuild_current_def split: option.split)
    ultimately have b: "mic_base ?s2" "mi_next ?s2 = mi_next s1" "mi_local ?s2 = Some (rb_local rb)" by (auto intro: calm_base)
    let ?s3 = "?s2\<lparr>mi_raw := Some raw, mi_gate := gate, mi_local := Some (rb_local rb)\<rparr>"
    have "mic_base ?s3" using b out(2) n
      by (auto simp: mic_base_def fits_def media_of_def below_def)
    then have "mic_base (if rb_force rb \<and> rb_raw rb \<noteq> Some raw then if_track stop_mic_track (rb_raw rb) ?s3 else ?s3)" (is "mic_base ?s4")
    proof -
      have "calm ?s3 (if_track stop_mic_track (rb_raw rb) ?s3)" by (intro calm_if_track calm_stop)
      from calm_base[OF this] \<open>mic_base ?s3\<close> show ?thesis by simp
    qed
    from calm_base[OF calm_refresh[OF this] this] have "mic_base (refreshLocalStreams ?s4)" .
    then have "mic_ok (rebuild_install rb raw gate s1)" unfolding rebuild_install_def Let_def by (rule set_ok)
    then show ?thesis using True current by (simp add: replace_answered_def s1_def[symmetric])
  qed
qed

section \<open>Every step\<close>

text \<open>A track that has just been published: what is published is what the session refers to.\<close>

lemma published_base:
  assumes b: "mic_base w" and j: "j < mi_next w"
  shows "mic_base (refreshLocalStreams (livekit_sets e j (w\<lparr>mi_media := (mi_media w)(mi_next w := j), mi_next := mi_next w + 1,
    mi_publication := (if mi_session w = Some room then Some (mi_next w) else mi_publication w), mi_local := Some (mi_next w)\<rparr>)))"
proof -
  let ?n = "mi_next w + 1"
  have calls: "list_all (call_fits ?n) (mi_calls w)" and refs: "below ?n (mi_raw w)" "below ?n (mi_unpublished w)"
    using b call_fits_mono[of "mi_next w" _ ?n] below_mono[of "mi_next w" _ ?n] by (auto simp: mic_base_def fits_def list_all_iff)
  have old: "mi_session w \<noteq> None \<Longrightarrow> mi_publication w = Some obj \<Longrightarrow> obj < mi_next w \<and> mi_media w obj < mi_next w" for obj
    using b by (auto simp: mic_base_def fits_def below_def media_of_def)
  show ?thesis
    using calls refs j old
    by (auto simp: refreshLocalStreams_def livekit_sets_def switch_track_def mic_base_def fits_def media_of_def below_def less_Suc_eq
        split: option.split)
qed

lemma joined_ok: "mic_ok s \<Longrightarrow> mic_ok (joined_mic c m d s)"
proof (cases "mi_session s")
  case None
  assume ok: "mic_ok s"
  let ?t = "joined_mic c m d s"
  have "list_all (call_fits (mi_next s + 5)) (mi_calls s)"
    using ok call_fits_mono[of "mi_next s" _ "mi_next s + 5"] by (auto simp: mic_ok_def mic_base_def fits_def list_all_iff)
  then have base: "mic_base ?t"
    using None by (auto simp: joined_mic_def Let_def mic_base_def fits_def below_def media_of_def)
  have "call_on e \<noteq> Some (mi_next s + 3)" if "e \<in> set (mi_calls s)" for e
  proof -
    have "call_fits (mi_next s) e" using ok that by (auto simp: mic_ok_def mic_base_def fits_def list_all_iff)
    then show ?thesis by (cases e) auto
  qed
  then have "overruled (mi_next s + 3) i (mi_calls s)" for i by (intro not_called) (simp add: list_all_iff)
  with base show ?thesis
    using None by (auto simp: mic_ok_def muted_ok_def joined_mic_def Let_def sounding_def)
qed (simp add: joined_mic_def)

lemma left_ok: "mic_ok s \<Longrightarrow> mic_ok (leave_mic s)"
  by (auto simp: leave_mic_def Let_def mic_ok_def mic_base_def muted_ok_def fits_def below_def media_of_def if_track_def cancelGate_def
      stop_mic_track_def destroy_denoiser_def split: option.split)

lemma base_of: "mic_ok s \<Longrightarrow> mic_base s"
  by (simp add: mic_ok_def)

lemma fits_of: "mic_ok s \<Longrightarrow> fits s"
  by (simp add: mic_ok_def mic_base_def)

lemma unpublished_ok: "mic_ok s \<Longrightarrow> mic_ok (mic_unpublished b s)"
proof (cases "mi_session s", simp add: mic_unpublished_def, cases "mi_publication s", simp add: mic_unpublished_def)
  fix room obj assume ok: "mic_ok s" and s: "mi_session s = Some room" "mi_publication s = Some obj"
  define i where "i = mi_media s obj"
  define s1 where "s1 = (if b then stop_mic_track i s else s)\<lparr>mi_publication := None\<rparr>"
  define s2 where "s2 = s1\<lparr>mi_unpublished := (if tk_live (mi_tracks s1 i) then Some i else mi_unpublished s1), mi_local := None\<rparr>"
  have "mi_local s = Some obj" using ok s by (simp add: mic_ok_def mic_base_def)
  then have "i < mi_next s" using fits_of[OF ok] by (simp add: fits_def media_of_def below_def i_def)
  moreover have "mi_next (if b then stop_mic_track i s else s) = mi_next s" "mi_raw (if b then stop_mic_track i s else s) = mi_raw s"
    "mi_unpublished (if b then stop_mic_track i s else s) = mi_unpublished s" "mi_calls (if b then stop_mic_track i s else s) = mi_calls s"
    "mi_desired (if b then stop_mic_track i s else s) = mi_desired s" "mi_server_muted (if b then stop_mic_track i s else s) = mi_server_muted s"
    "mi_server_deafened (if b then stop_mic_track i s else s) = mi_server_deafened s"
    by (simp_all add: stop_mic_track_def)
  ultimately have "mic_ok s2" using ok
    by (simp add: s2_def s1_def mic_ok_def mic_base_def muted_ok_def fits_def below_def media_of_def)
  moreover have "calm s2 (if_track (\<lambda>j. switch_track j False) (mi_raw s2) s2)" by (intro calm_if_track calm_switch) simp
  ultimately have "mic_ok (if_track (\<lambda>j. switch_track j False) (mi_raw s2) s2)" by (rule calm_ok[rotated])
  then have "mic_ok (refreshLocalStreams (if_track (\<lambda>j. switch_track j False) (mi_raw s2) s2))"
    using calm_ok[OF calm_refresh] base_of by blast
  then show "mic_ok (mic_unpublished b s)"
    by (simp only: mic_unpublished_def s prod.case option.case Let_def i_def s1_def s2_def)
qed

lemma recover_ok: "mic_ok s \<Longrightarrow> mic_ok (recoverMicrophoneCapture v s)"
proof -
  assume ok: "mic_ok s"
  have "mic_ok (s\<lparr>mi_recovering := True\<rparr>)" by (rule calm_ok[OF calm_fields(2) ok])
  then have "mic_ok (rebuildPublishedMicrophoneTrack True True (s\<lparr>mi_recovering := True\<rparr>))"
    using calm_ok[OF calm_rebuild] fits_of by blast
  with ok show ?thesis by (simp add: recoverMicrophoneCapture_def)
qed

lemma server_ok: "mic_ok s \<Longrightarrow> mic_ok (server_controls m d s)"
proof -
  assume ok: "mic_ok s"
  let ?s1 = "s\<lparr>mi_server_muted := m, mi_server_deafened := d\<rparr>"
  have set: "mic_ok (setLocalMicMuted b a ?s1)" for b a
    using base_of[OF ok] by (intro set_ok) (simp add: mic_base_def fits_def media_of_def)
  have "mic_ok (if_track (\<lambda>i. switch_track i False) t (setLocalMicMuted True NothingAfter ?s1))" for t
    by (rule calm_ok[OF calm_if_track set]) (rule calm_switch, simp)
  moreover have "mic_ok (publishModeratedMicrophone (setLocalMicMuted b NothingAfter ?s1))" for b
    using calm_ok[OF calm_publish[OF fits_of[OF set]] set] .
  moreover have "mic_ok ?s1" if "\<not> ((m \<or> d) \<and> (m \<noteq> mi_server_muted s \<or> d \<noteq> mi_server_deafened s))"
    using ok that by (auto simp: mic_ok_def mic_base_def fits_def media_of_def muted_ok_def sounding_def)
  ultimately show ?thesis
    unfolding server_controls_def Let_def
    by (cases "(m \<or> d) \<and> (m \<noteq> mi_server_muted s \<or> d \<noteq> mi_server_deafened s)";
        cases "(mi_server_muted s \<or> mi_server_deafened s) \<and> \<not> m \<and> \<not> d"; simp only: if_True if_False simp_thms)
qed

lemma settings_ok: "mic_ok s \<Longrightarrow> mic_ok (settings_changed d c n s)"
proof -
  assume ok: "mic_ok s"
  have "mic_ok (s\<lparr>mi_suppression := n\<rparr>)" by (rule calm_ok[OF calm_fields(4) ok])
  then show ?thesis using calm_ok[OF calm_rebuild] fits_of by (auto simp: settings_changed_def Let_def)
qed

lemma mic_answer_ok:
  assumes ok: "mic_ok s" and i: "i < length (mi_calls s)" and env: "livekit_allows (MicAnswered i ans) s"
  shows "mic_ok (answer_mic (mi_calls s ! i) ans (without_call i s))"
proof -
  let ?w = "without_call i s"
  have cf: "call_fits (mi_next ?w) (mi_calls s ! i)" using fits_of[OF ok] i by (simp add: fits_def list_all_length)
  have w: "call_on (mi_calls s ! i) = None \<Longrightarrow> mic_ok ?w" by (rule without_ok[OF ok i])
  show ?thesis
  proof (cases "mi_calls s ! i")
    case (Muting obj media raw a)
    then show ?thesis using mute_ok[OF ok i Muting] env i by simp
  next
    case (Unmuting obj a)
    then show ?thesis using unmute_ok[OF ok i Unmuting] env i by simp
  next
    case (Rebuilding rb st)
    then have ow: "mic_ok ?w" and rb: "below (mi_next ?w) (rb_raw rb)" using w cf by simp_all
    note c = calm_ok[OF _ ow]
    show ?thesis
    proof (cases st)
      case RbCapture
      then show ?thesis using c[OF calm_captured[OF rb]] c[OF calm_failed[OF rb]] by (simp add: Rebuilding)
    next
      case (RbSettings raw)
      then show ?thesis using c[OF calm_settings[OF _ rb]] c[OF calm_failed[OF rb]] cf by (simp add: Rebuilding)
    next
      case (RbBuild raw p b)
      then have "raw < mi_next ?w" using cf by (simp add: Rebuilding)
      from c[OF calm_rebuild_built[OF calm_continue continue_fits[OF this] rb]] show ?thesis
        by (simp add: Rebuilding RbBuild del: without_fields)
    next
      case (RbReplace raw out gate)
      then show ?thesis using replace_ok[OF ow _ _ rb] cf by (simp add: Rebuilding)
    qed
  next
    case (Publishing room st)
    then have ow: "mic_ok ?w" using w by simp
    note c = calm_ok[OF _ ow]
    show ?thesis
    proof (cases st)
      case PbCapture
      obtain t j where t: "new_capture ?w = (t, j)" by fastforce
      then have "j < mi_next t" by (auto simp: new_capture_def)
      from c[OF calm_trans[OF calm_new_capture[OF t] calm_publish_from[OF this]]] c[OF calm_pipes(3)] show ?thesis
        by (simp add: Publishing PbCapture t)
    next
      case (PbBuild raw p b)
      then have "raw < mi_next ?w" using cf by (simp add: Publishing)
      from c[OF calm_publish_built[OF calm_continue continue_fits[OF this]]] show ?thesis by (simp add: Publishing PbBuild)
    next
      case (PbPublish j)
      then have j: "j < mi_next ?w" using cf by (simp add: Publishing)
      define s1 where "s1 = ?w\<lparr>mi_media := (mi_media ?w)(mi_next ?w := j), mi_next := mi_next ?w + 1,
        mi_publication := (if mi_session ?w = Some room then Some (mi_next ?w) else mi_publication ?w), mi_local := Some (mi_next ?w)\<rparr>"
      define s2 where "s2 = refreshLocalStreams (livekit_sets (effect_of ans) j s1)"
      have "mic_base s2"
        using published_base[OF base_of[OF ow] j] by (simp only: s2_def s1_def)
      then have "mic_ok (setLocalMicMuted (mi_desired s2) EndPublish s2)" by (rule set_ok)
      then have "mic_ok (publish_answered room j (effect_of ans) ?w)"
        by (simp only: publish_answered_def Let_def s2_def s1_def)
      with c[OF calm_pipes(3)] show ?thesis by (simp add: Publishing PbPublish)
    qed
  qed
qed

lemma step_ok: "mic_ok s \<Longrightarrow> livekit_allows op s \<Longrightarrow> mic_ok (mic_step op s)"
proof (cases op)
  case (VoiceControls m d)
  moreover assume ok: "mic_ok s"
  moreover have ok1: "mic_ok (s\<lparr>mi_self_muted := m, mi_self_deafened := d\<rparr>)" by (rule calm_ok[OF calm_fields(6) ok])
  ultimately show ?thesis by (simp add: micVoiceControls_def Let_def set_ok base_of)
next
  case (MicrophoneEnded v i)
  moreover assume ok: "mic_ok s"
  moreover have "mic_ok (stop_mic_track i s)" by (rule calm_ok[OF calm_stop ok])
  ultimately show ?thesis by (simp add: microphone_ended_def recover_ok Let_def)
next
  case (PermissionsChanged b)
  moreover assume ok: "mic_ok s"
  moreover have "mic_ok (s\<lparr>mi_can_publish := b\<rparr>)" by (rule calm_ok[OF calm_fields(5) ok])
  ultimately show ?thesis by (simp add: permissions_changed_def calm_ok[OF calm_publish] fits_of)
next
  case (MicAnswered i ans)
  moreover assume "mic_ok s" "livekit_allows op s"
  ultimately show ?thesis using mic_answer_ok[of s i ans] by (simp add: without_call_def)
qed (simp_all add: set_ok base_of server_ok unpublished_ok devices_settled_def recover_ok settings_ok joined_ok left_ok)

lemma run_ok: "livekit_run ops s \<Longrightarrow> mic_ok s \<Longrightarrow> mic_ok (fold mic_step ops s)"
  by (induction ops arbitrary: s) (simp_all add: step_ok)

lemma init_ok: "mic_ok (init_mic c l n)"
  by (simp add: mic_ok_def mic_base_def muted_ok_def fits_def below_def media_of_def init_mic_def)

section \<open>A rebuild that was superseded\<close>

lemma current_fields:
  "rebuild_current rb (switch_track j b s) = rebuild_current rb s" "rebuild_current rb (stop_mic_track j s) = rebuild_current rb s"
  "rebuild_current rb (if_track cancelGate g s) = rebuild_current rb s" "rebuild_current rb (destroy_denoiser p s) = rebuild_current rb s"
  "rebuild_current rb (if_track stop_mic_track t s) = rebuild_current rb s" "rebuild_current rb (livekit_sets e j s) = rebuild_current rb s"
  "rebuild_current rb (s\<lparr>mi_media := f\<rparr>) = rebuild_current rb s" "rebuild_current rb (s\<lparr>mi_denoiser := d\<rparr>) = rebuild_current rb s"
  "rebuild_current (rb\<lparr>rb_owned := t\<rparr>) s = rebuild_current rb s"
  by (simp_all add: rebuild_current_def switch_track_def stop_mic_track_def if_track_def cancelGate_def destroy_denoiser_def livekit_sets_def
      split: option.split)

text \<open>What a rebuild that fails because it is no longer current leaves behind.\<close>

definition refs :: "mic_state \<Rightarrow> nat option \<times> nat option \<times> nat option \<times> mic_call list" where
  "refs s = (mi_raw s, mi_gate s, mi_local s, mi_calls s)"

lemma refs_kept:
  "refs (switch_track j b s) = refs s" "refs (stop_mic_track j s) = refs s" "refs (if_track cancelGate g s) = refs s"
  "refs (destroy_denoiser p s) = refs s" "refs (if_track stop_mic_track t s) = refs s" "refs (livekit_sets e j s) = refs s"
  "refs (s\<lparr>mi_media := f\<rparr>) = refs s" "refs (s\<lparr>mi_denoiser := d\<rparr>) = refs s" "refs (end_rebuild rb s) = refs s"
  by (simp_all add: refs_def switch_track_def stop_mic_track_def if_track_def cancelGate_def destroy_denoiser_def livekit_sets_def end_rebuild_def
      split: option.split)

lemma stopped_dead: "\<not> tk_live (mi_tracks (end_rebuild rb (if_track stop_mic_track (Some i) t)) i)"
  by (simp add: end_rebuild_def if_track_def stop_mic_track_def)

lemma superseded_failed:
  assumes "\<not> rebuild_current rb s" and "rb_owned rb = Some i"
  shows "refs (rebuild_failed rb built replaced s) = refs s \<and> \<not> tk_live (mi_tracks (rebuild_failed rb built replaced s) i)"
  using assms by (auto simp: rebuild_failed_def Let_def refs_kept current_fields stopped_dead split: option.split)

lemma superseded_continue:
  "\<exists>t. continue_build False ok raw p st s = (t, Threw) \<and> refs t = refs s \<and> rebuild_current rb t = rebuild_current rb s"
  by (auto simp: continue_build_def Let_def refs_kept current_fields split: build_stage.split)

lemma superseded_releases:
  assumes old: "\<not> rebuild_current rb s" and owned: "rb_owned rb = Some i" and st: "st \<noteq> RbCapture"
  shows "refs (answer_mic (Rebuilding rb st) ans s) = refs s \<and> \<not> tk_live (mi_tracks (answer_mic (Rebuilding rb st) ans s) i)"
proof (cases st)
  case RbCapture
  with st show ?thesis by simp
next
  case (RbSettings raw)
  then show ?thesis using superseded_failed[OF old owned] old by (simp add: rebuild_settings_applied_def)
next
  case (RbBuild raw p b)
  obtain t where t: "continue_build False (ans \<noteq> Refused) raw p b s = (t, Threw)" "refs t = refs s" "rebuild_current rb t = rebuild_current rb s"
    using superseded_continue[of "ans \<noteq> Refused" raw p b s rb] by blast
  then show ?thesis using superseded_failed[of rb t i None False] old owned by (simp add: RbBuild rebuild_built_def)
next
  case (RbReplace raw out gate)
  let ?s1 = "livekit_sets (effect_of ans) out (s\<lparr>mi_media := (mi_media s)(rb_local rb := out)\<rparr>)"
  have "\<not> rebuild_current rb ?s1" "refs ?s1 = refs s" using old by (simp_all add: current_fields refs_kept)
  then show ?thesis using superseded_failed[OF old owned] superseded_failed[of rb ?s1 i "Some (out, gate)" True] owned
    by (simp add: RbReplace replace_answered_def Let_def)
qed

section \<open>Where the code falls short\<close>

definition desktop_run :: "mic_op list \<Rightarrow> mic_state" where
  "desktop_run ops = fold mic_step (JoinedMic ''c'' False False # ops) (init_mic True False True)"

definition phone_run :: "mic_op list \<Rightarrow> mic_state" where
  "phone_run ops = fold mic_step (JoinedMic ''c'' False False # ops) (init_mic True True True)"

text \<open>
  Rebuilding destroys the noise suppressor of the published pipeline before the new one stands. When the new one cannot be
  made, the old pipeline is put back with its suppressor destroyed, so that nothing passes through it.
\<close>

lemma failed_rebuild_silences:
  "let s = desktop_run [MicSettingsChanged True False True, MicAnswered 0 Captured, MicAnswered 0 (Fine None), MicAnswered 0 (Fine None),
     MicAnswered 0 Refused]
   in mi_calls s = [] \<and> \<not> mi_desired s \<and> media_of s = Some (pp_out (mi_pipes s 2)) \<and> mi_gate s = Some 2 \<and> \<not> pp_denoiser (mi_pipes s 2)"
  by code_simp

text \<open>A request to mute that is carried out after the user unmuted again leaves the capture disabled.\<close>

lemma late_mute_disables_capture:
  "let s = desktop_run [VoiceControls True False, VoiceControls False False, MicAnswered 0 (Fine (Some False)), MicAnswered 0 (Fine (Some True))]
   in mi_calls s = [] \<and> \<not> mi_desired s \<and> \<not> tk_enabled (mi_tracks s (the (mi_raw s)))"
  by code_simp

text \<open>A rebuild from the same capture whose track cannot be published leaves that capture disabled.\<close>

lemma failed_rebuild_disables_capture:
  "let s = phone_run [MicSettingsChanged False True False, MicAnswered 0 (Fine None), MicAnswered 0 (Fine None), MicAnswered 0 Refused]
   in mi_calls s = [] \<and> \<not> mi_desired s \<and> \<not> tk_enabled (mi_tracks s (the (mi_raw s)))"
  by code_simp

text \<open>
  A rebuild does not update the track that is kept for publishing again. When the server mutes and LiveKit stops the
  track it takes down, the track of the pipeline before the rebuild is published, which is disconnected.
\<close>

lemma stale_track_published:
  "let s = desktop_run [MicSettingsChanged True False True, MicAnswered 0 Captured, MicAnswered 0 (Fine None), MicAnswered 0 (Fine None),
     MicAnswered 0 (Fine None), MicAnswered 0 (Fine None), MicAnswered 0 (Fine (Some True)), MicAnswered 0 (Fine (Some True)),
     ServerControls True False, MicAnswered 0 (Fine (Some False)), MicUnpublished True, ServerControls False False,
     MicAnswered 0 (Fine (Some True)), MicAnswered 0 (Fine (Some True))]
   in mi_calls s = [] \<and> \<not> mi_desired s \<and> media_of s = Some (pp_out (mi_pipes s 2)) \<and> \<not> pp_joined (mi_pipes s 2)"
  by code_simp

end
