(* ===== verification/MediaPermissions.thy ===== *)
theory MediaPermissions
  imports JsText
begin

text \<open>
  Explaining a microphone, camera or screen that could not be captured: \<^verbatim>\<open>src/desktopMediaPermissions.ts\<close> and the two
  mappings of \<^verbatim>\<open>src/components/ActiveCallBar.tsx\<close>. An error is an object that may have a name and a message.
\<close>

datatype permission_kind = MicrophonePermission | CameraPermission | ScreenPermission

datatype desktop_platform = WindowsPlatform | MacPlatform | LinuxPlatform | UnknownPlatform

record media_failure =
  mf_name :: "string option"
  mf_message :: "string option"

definition error_name :: "media_failure option \<Rightarrow> string" where
  "error_name err = (case err of None \<Rightarrow> [] | Some e \<Rightarrow> (case mf_name e of None \<Rightarrow> [] | Some n \<Rightarrow> n))"

definition error_text :: "media_failure option \<Rightarrow> string" where
  "error_text err = (case err of None \<Rightarrow> [] | Some e \<Rightarrow> (case mf_message e of None \<Rightarrow> [] | Some m \<Rightarrow> js_lower m))"

definition currentDesktopPlatform :: "string \<Rightarrow> string \<Rightarrow> desktop_platform" where
  "currentDesktopPlatform userAgent platform =
     (let v = js_lower (userAgent @ '' '' @ platform) in
      if includes_str v ''windows'' \<or> includes_str v ''win32'' \<or> includes_str v ''win64'' then WindowsPlatform
      else if includes_str v ''macintosh'' \<or> includes_str v ''mac os'' \<or> includes_str v ''darwin'' then MacPlatform
      else if includes_str v ''linux'' then LinuxPlatform
      else UnknownPlatform)"

fun mediaLabel :: "permission_kind \<Rightarrow> string" where
  "mediaLabel CameraPermission = ''camera''"
| "mediaLabel ScreenPermission = ''screen recording''"
| "mediaLabel MicrophonePermission = ''microphone''"

definition isMediaPermissionDeniedError :: "media_failure option \<Rightarrow> permission_kind \<Rightarrow> bool" where
  "isMediaPermissionDeniedError err kind \<longleftrightarrow>
     (let n = error_name err; m = error_text err in
      n = ''NotAllowedError'' \<or> n = ''SecurityError'' \<or> includes_str m ''permission denied'' \<or> includes_str m ''notallowederror'' \<or>
      includes_str m (mediaLabel kind @ '' permission denied'') \<or>
      ((kind = CameraPermission \<or> kind = ScreenPermission) \<and> includes_str m ''securityerror''))"

text \<open>The platform is \<open>None\<close> outside the desktop app.\<close>

definition desktopMediaPermissionRecoveryMessage :: "permission_kind \<Rightarrow> desktop_platform option \<Rightarrow> string" where
  "desktopMediaPermissionRecoveryMessage kind desktop =
     (let label = mediaLabel kind in
      case desktop of
        None \<Rightarrow> ''Permission was blocked. Allow '' @ label @ '' access in your browser or system settings and try again.''
      | Some WindowsPlatform \<Rightarrow>
          ''Permission was blocked. Open Windows Privacy & security settings, allow '' @ label
            @ '' access for desktop apps, then return to Voxpery and retry.''
      | Some MacPlatform \<Rightarrow>
          ''Permission was blocked. Open macOS Privacy & Security settings, allow Voxpery to use '' @ label
            @ '', then restart Voxpery and retry.''
      | Some LinuxPlatform \<Rightarrow>
          if kind = MicrophonePermission then
            ''Microphone capture was denied or failed. Allow the Voxpery permission prompt and retry. If it still fails, check the WebKitGTK and PipeWire logs.''
          else
            ''Permission was blocked. Ensure xdg-desktop-portal, a portal backend, and PipeWire are installed/running, then restart Voxpery and retry ''
              @ label @ '' access.''
      | Some UnknownPlatform \<Rightarrow>
          ''Permission was blocked. Allow '' @ label @ '' access in system settings, restart Voxpery if needed, and try again.'')"

definition canOpenDesktopMediaPermissionSettings :: "desktop_platform option \<Rightarrow> bool" where
  "canOpenDesktopMediaPermissionSettings desktop \<longleftrightarrow> desktop = Some WindowsPlatform \<or> desktop = Some MacPlatform"

text \<open>Whether the plugin is called at all, and what it answers; it may throw.\<close>

definition openDesktopMediaPermissionSettings :: "(permission_kind \<Rightarrow> bool) \<Rightarrow> permission_kind \<Rightarrow> desktop_platform option \<Rightarrow> bool" where
  "openDesktopMediaPermissionSettings invoke kind desktop =
     (if \<not> canOpenDesktopMediaPermissionSettings desktop then False else invoke kind)"

section \<open>The two mappings of the call bar\<close>

definition mapMicPreflightError :: "desktop_platform option \<Rightarrow> media_failure option \<Rightarrow> string option" where
  "mapMicPreflightError desktop err =
     (let n = error_name err; m = error_text err in
      if isMediaPermissionDeniedError err MicrophonePermission
        then Some (desktopMediaPermissionRecoveryMessage MicrophonePermission desktop)
      else if n = ''NotFoundError'' \<or> includes_str m ''device not found'' \<or> includes_str m ''no microphone''
        then Some ''No microphone device detected. Connect a microphone and retry.''
      else if n = ''NotReadableError'' \<or> includes_str m ''in use by another app''
        then Some ''Microphone is in use by another app. Close other voice apps and retry.''
      else if includes_str m ''microphone access is not supported''
        then Some ''Microphone capture is not available in this runtime. Update your desktop runtime or use the latest Voxpery desktop build.''
      else None)"

definition mapCameraError :: "desktop_platform option \<Rightarrow> media_failure option \<Rightarrow> string option" where
  "mapCameraError desktop err =
     (let n = error_name err; m = error_text err in
      if isMediaPermissionDeniedError err CameraPermission
        then Some (desktopMediaPermissionRecoveryMessage CameraPermission desktop)
      else if n = ''NotFoundError'' \<or> includes_str m ''no camera'' \<or> includes_str m ''no camera device detected''
        then Some ''No camera device detected. Connect a camera and retry.''
      else if n = ''NotReadableError'' \<or> includes_str m ''in use by another app'' \<or> includes_str m ''busy''
          \<or> includes_str m ''allocate camera video source'' \<or> includes_str m ''allocate videosource''
        then Some ''Camera is busy or unavailable. Close other apps using the camera and retry.''
      else if includes_str m ''camera access is not supported''
        then Some ''Camera capture is not available in this runtime. Update your desktop runtime or use the latest Voxpery desktop build.''
      else None)"

section \<open>Lemmas\<close>

text \<open>A refusal is always explained as one, whatever else its text says.\<close>

lemma refusal_explained:
  "isMediaPermissionDeniedError err MicrophonePermission \<Longrightarrow>
     mapMicPreflightError d err = Some (desktopMediaPermissionRecoveryMessage MicrophonePermission d)"
  "isMediaPermissionDeniedError err CameraPermission \<Longrightarrow>
     mapCameraError d err = Some (desktopMediaPermissionRecoveryMessage CameraPermission d)"
  by (simp_all add: mapMicPreflightError_def mapCameraError_def Let_def)

lemma recovery_nonempty: "desktopMediaPermissionRecoveryMessage k d \<noteq> []"
  by (simp add: desktopMediaPermissionRecoveryMessage_def Let_def split: option.split desktop_platform.split)

lemma mapped_nonempty: "mapMicPreflightError d err = Some m \<Longrightarrow> m \<noteq> []" "mapCameraError d err = Some m \<Longrightarrow> m \<noteq> []"
  using recovery_nonempty by (auto simp: mapMicPreflightError_def mapCameraError_def Let_def split: if_splits)

end
