(* ===== verification/CallControls.thy ===== *)
theory CallControls
  imports MediaPermissions VoiceDiagnostics
begin

text \<open>
  The controls of a call in \<^verbatim>\<open>src/components/ActiveCallBar.tsx\<close>: muting and deafening, the microphone test that deafens by
  itself, joining and leaving by a press, and the dialogs that start a screen share (its quality is left out) or a camera. A handler acts on
  the state of the last rendering; \<open>render\<close> is what the effects do after it. What the handlers ask of the voice session
  is kept in a log.
\<close>

section \<open>State\<close>

datatype call_effect =
  ControlsSent bool bool bool
| CuePlayed string
| LeaveRequested
| JoinRequested string
| ShareStopped
| ShareRequested
| CameraStopped
| CameraRequested
| SwitchRequested
| SettingsOpened
| CallToast string string

record call_state =
  cl_joined :: "string option"
  cl_joining :: bool
  cl_selected :: "string option"
  cl_stream :: "bool list option"
  cl_muted :: bool
  cl_deafened :: bool
  cl_control_muted :: bool
  cl_control_deafened :: bool
  cl_playback_muted :: bool
  cl_before_deafen :: bool
  cl_test_deafened :: bool
  cl_before_test :: bool
  cl_sharing :: bool
  cl_camera :: bool
  cl_can_switch :: bool
  cl_switching :: bool
  cl_share_dialog :: bool
  cl_camera_dialog :: bool
  cl_preflight :: bool
  cl_generation :: nat
  cl_blocked :: "string option"
  cl_log :: "call_effect list"

definition server_muted :: "call_state \<Rightarrow> bool" where
  "server_muted s \<longleftrightarrow> cl_joined s \<noteq> None \<and> cl_control_muted s"

definition server_deafened :: "call_state \<Rightarrow> bool" where
  "server_deafened s \<longleftrightarrow> cl_joined s \<noteq> None \<and> cl_control_deafened s"

definition emit_call :: "call_effect \<Rightarrow> call_state \<Rightarrow> call_state" where
  "emit_call e s = s\<lparr>cl_log := e # cl_log s\<rparr>"

text \<open>The flag of every audio track of the local stream.\<close>

definition set_tracks :: "bool \<Rightarrow> call_state \<Rightarrow> call_state" where
  "set_tracks b s = s\<lparr>cl_stream := map_option (map (\<lambda>_. b)) (cl_stream s)\<rparr>"

text \<open>What the session is told when the controls change.\<close>

definition send_controls :: "bool \<Rightarrow> bool \<Rightarrow> call_state \<Rightarrow> call_state" where
  "send_controls muted deafened s = emit_call (ControlsSent muted deafened (cl_sharing s)) s"

text \<open>The effects that run after a rendering.\<close>

definition render :: "call_state \<Rightarrow> call_state" where
  "render s =
     (set_tracks (\<not> (cl_muted s \<or> cl_deafened s \<or> server_muted s \<or> server_deafened s)) s)
       \<lparr>cl_playback_muted := (cl_deafened s \<or> server_deafened s)\<rparr>"

section \<open>Mute and deafen\<close>

definition toggleMute :: "call_state \<Rightarrow> call_state" where
  "toggleMute s =
     (if cl_joining s \<or> cl_deafened s \<or> (cl_joined s \<noteq> None \<and> cl_stream s = None) then s
      else
        let nextMuted = (\<not> cl_muted s);
            shouldMuteTrack = (nextMuted \<or> cl_deafened s \<or> server_muted s \<or> server_deafened s)
        in emit_call (CuePlayed (if nextMuted then ''mute'' else ''unmute''))
             (send_controls nextMuted (cl_deafened s) (set_tracks (\<not> shouldMuteTrack) s\<lparr>cl_muted := nextMuted\<rparr>)))"

definition toggleDeafen :: "call_state \<Rightarrow> call_state" where
  "toggleDeafen s =
     (if cl_joining s then s
      else
        let nextDeafened = (\<not> cl_deafened s);
            s1 = s\<lparr>cl_test_deafened := False, cl_playback_muted := (nextDeafened \<or> server_deafened s)\<rparr>
        in emit_call (CuePlayed (if nextDeafened then ''deafen'' else ''undeafen''))
            (if nextDeafened then
               send_controls True True
                 (set_tracks False (s1\<lparr>cl_before_deafen := cl_muted s\<rparr>)\<lparr>cl_deafened := True, cl_muted := True\<rparr>)
             else
               let restoreMuted = cl_before_deafen s
               in send_controls restoreMuted False
                    (set_tracks (\<not> (restoreMuted \<or> server_muted s \<or> server_deafened s)) s1
                       \<lparr>cl_deafened := False, cl_muted := restoreMuted\<rparr>)))"

text \<open>The test of the microphone deafens while it runs.\<close>

definition onMicTestAutoDeafen :: "bool \<Rightarrow> call_state \<Rightarrow> call_state" where
  "onMicTestAutoDeafen enabled s =
     (if cl_joined s = None \<or> server_deafened s then s
      else if enabled then
        (if cl_deafened s then s
         else send_controls True True
           (set_tracks False (s\<lparr>cl_playback_muted := True, cl_before_test := cl_muted s, cl_test_deafened := True\<rparr>)
              \<lparr>cl_deafened := True, cl_muted := True\<rparr>))
      else if \<not> cl_test_deafened s then s
      else
        let restoreMuted = cl_before_test s
        in send_controls restoreMuted False
             (set_tracks (\<not> (restoreMuted \<or> server_muted s \<or> server_deafened s))
                (s\<lparr>cl_test_deafened := False, cl_playback_muted := False\<rparr>)
                \<lparr>cl_deafened := False, cl_muted := restoreMuted\<rparr>))"

text \<open>The shortcut, unless it is the key to talk; in the browser also not while typing.\<close>

definition mute_shortcut :: "bool \<Rightarrow> call_state \<Rightarrow> call_state" where
  "mute_shortcut conflicts s = (if conflicts then s else toggleMute s)"

definition mute_key :: "bool \<Rightarrow> bool \<Rightarrow> bool \<Rightarrow> call_state \<Rightarrow> call_state" where
  "mute_key taken conflicts matches s = (if taken \<or> conflicts \<or> \<not> matches then s else toggleMute s)"

section \<open>Joining and leaving\<close>

text \<open>\<^verbatim>\<open>leaveVoice\<close> as the bar sees it: no channel, no stream, no camera and no share.\<close>

definition leave_call :: "call_state \<Rightarrow> call_state" where
  "leave_call s =
     emit_call LeaveRequested (s\<lparr>cl_joined := None, cl_joining := False, cl_stream := None, cl_sharing := False, cl_camera := False\<rparr>)"

definition leaveFromMediaSession :: "call_state \<Rightarrow> call_state" where
  "leaveFromMediaSession s =
     (let s1 = leave_call (s\<lparr>cl_test_deafened := False\<rparr>)
      in case cl_joined s of None \<Rightarrow> s1 | Some c \<Rightarrow> s1\<lparr>cl_blocked := Some c\<rparr>)"

definition handleJoinLeave :: "call_state \<Rightarrow> call_state" where
  "handleJoinLeave s =
     (case cl_selected s of
        None \<Rightarrow> s
      | Some c \<Rightarrow>
          if cl_joining s \<or> cl_joined s = Some c then
            (let s1 = (if cl_joining s then s\<lparr>cl_generation := cl_generation s + 1, cl_preflight := False\<rparr> else s)
             in (leave_call (s1\<lparr>cl_test_deafened := False\<rparr>))\<lparr>cl_blocked := Some c\<rparr>)
          else emit_call (JoinRequested c) s)"

definition join_ended :: "bool \<Rightarrow> call_state \<Rightarrow> call_state" where
  "join_ended ok s = (if ok then s\<lparr>cl_test_deafened := False, cl_blocked := None\<rparr> else s)"

definition selection_changed :: "string option \<Rightarrow> call_state \<Rightarrow> call_state" where
  "selection_changed c s =
     (let s1 = s\<lparr>cl_selected := c\<rparr>
      in if cl_blocked s1 \<noteq> None \<and> cl_selected s1 \<noteq> cl_blocked s1 then s1\<lparr>cl_blocked := None\<rparr> else s1)"

section \<open>Screen share and camera\<close>

definition handleScreenShare :: "call_state \<Rightarrow> call_state" where
  "handleScreenShare s =
     (if cl_joined s = None then s
      else if cl_sharing s then emit_call (CuePlayed ''screen-stop'') (emit_call ShareStopped (s\<lparr>cl_sharing := False\<rparr>))
      else s\<lparr>cl_share_dialog := True\<rparr>)"

definition confirmScreenShare :: "call_state \<Rightarrow> call_state" where
  "confirmScreenShare s = emit_call ShareRequested (s\<lparr>cl_share_dialog := False\<rparr>)"

definition share_answered :: "desktop_platform option \<Rightarrow> media_failure option option \<Rightarrow> call_state \<Rightarrow> call_state" where
  "share_answered desktop failure s =
     (case failure of
        None \<Rightarrow> emit_call (CuePlayed ''screen-start'') s
      | Some err \<Rightarrow>
          emit_call (CallToast ''Screen share failed''
            (if isMediaPermissionDeniedError err ScreenPermission then desktopMediaPermissionRecoveryMessage ScreenPermission desktop
             else case err of
                None \<Rightarrow> ''Unable to start screen sharing. Check permission and active window selection.''
              | Some e \<Rightarrow> (case mf_message e of None \<Rightarrow> [] | Some m \<Rightarrow> m))) s)"

definition handleCamera :: "call_state \<Rightarrow> call_state" where
  "handleCamera s =
     (if cl_joined s = None then s
      else if cl_camera s then emit_call (CuePlayed ''camera-stop'') (emit_call CameraStopped (s\<lparr>cl_camera := False\<rparr>))
      else s\<lparr>cl_camera_dialog := True\<rparr>)"

definition confirmCamera :: "call_state \<Rightarrow> call_state" where
  "confirmCamera s = emit_call CameraRequested (s\<lparr>cl_camera_dialog := False\<rparr>)"

definition camera_message :: "desktop_platform option \<Rightarrow> string \<Rightarrow> media_failure option \<Rightarrow> string" where
  "camera_message desktop fallback err =
     (case mapCameraError desktop err of
        Some m \<Rightarrow> m
      | None \<Rightarrow> (case err of None \<Rightarrow> fallback | Some e \<Rightarrow> (case mf_message e of None \<Rightarrow> [] | Some m \<Rightarrow> m)))"

definition camera_answered :: "desktop_platform option \<Rightarrow> media_failure option option \<Rightarrow> call_state \<Rightarrow> call_state" where
  "camera_answered desktop failure s =
     (case failure of
        None \<Rightarrow> emit_call (CuePlayed ''camera-start'') s
      | Some err \<Rightarrow>
          emit_call (CallToast ''Camera failed'' (camera_message desktop ''Could not access camera. Check permission.'' err))
            (if isMediaPermissionDeniedError err CameraPermission \<and> canOpenDesktopMediaPermissionSettings desktop
             then emit_call SettingsOpened s else s))"

definition handleSwitchCamera :: "call_state \<Rightarrow> call_state" where
  "handleSwitchCamera s =
     (if cl_switching s \<or> \<not> cl_camera s \<or> \<not> cl_can_switch s then s else emit_call SwitchRequested (s\<lparr>cl_switching := True\<rparr>))"

definition switch_answered :: "desktop_platform option \<Rightarrow> media_failure option option \<Rightarrow> call_state \<Rightarrow> call_state" where
  "switch_answered desktop failure s =
     (case failure of None \<Rightarrow> s
      | Some err \<Rightarrow> emit_call (CallToast ''Camera switch failed'' (camera_message desktop ''Could not switch camera.'' err)) s)
       \<lparr>cl_switching := False\<rparr>"

text \<open>Escape closes the dialog of the camera before that of the share.\<close>

definition escape_pressed :: "call_state \<Rightarrow> call_state" where
  "escape_pressed s =
     (if cl_camera_dialog s then s\<lparr>cl_camera_dialog := False\<rparr>
      else if cl_share_dialog s then s\<lparr>cl_share_dialog := False\<rparr> else s)"

section \<open>Runs\<close>

datatype call_op =
  PressMute | PressDeafen | MicTest bool | MuteShortcut bool | MuteKey bool bool bool | LeaveByMedia | PressJoinLeave
| JoinEnded bool | SelectVoice "string option" | PressShare | ConfirmShare | ShareOutcome "media_failure option option"
| PressCamera | ConfirmCamera | CameraAnswered "media_failure option option" | PressSwitch | SwitchAnswered "media_failure option option"
| PressEscape
| VoiceChanged "string option" bool "nat option" bool bool bool
| ControlsChanged bool bool

text \<open>The state of the voice session changes: a new stream brings as many audio tracks as it has, all enabled.\<close>

definition voice_changed :: "string option \<Rightarrow> bool \<Rightarrow> nat option \<Rightarrow> bool \<Rightarrow> bool \<Rightarrow> bool \<Rightarrow> call_state \<Rightarrow> call_state" where
  "voice_changed joined joining tracks sharing camera canSwitch s =
     s\<lparr>cl_joined := joined, cl_joining := joining, cl_stream := map_option (\<lambda>n. replicate n True) tracks, cl_sharing := sharing,
       cl_camera := camera, cl_can_switch := canSwitch\<rparr>"

fun call_handler :: "desktop_platform option \<Rightarrow> call_op \<Rightarrow> call_state \<Rightarrow> call_state" where
  "call_handler d PressMute s = toggleMute s"
| "call_handler d PressDeafen s = toggleDeafen s"
| "call_handler d (MicTest b) s = onMicTestAutoDeafen b s"
| "call_handler d (MuteShortcut c) s = mute_shortcut c s"
| "call_handler d (MuteKey t c m) s = mute_key t c m s"
| "call_handler d LeaveByMedia s = leaveFromMediaSession s"
| "call_handler d PressJoinLeave s = handleJoinLeave s"
| "call_handler d (JoinEnded ok) s = join_ended ok s"
| "call_handler d (SelectVoice c) s = selection_changed c s"
| "call_handler d PressShare s = handleScreenShare s"
| "call_handler d ConfirmShare s = confirmScreenShare s"
| "call_handler d (ShareOutcome e) s = share_answered d e s"
| "call_handler d PressCamera s = handleCamera s"
| "call_handler d ConfirmCamera s = confirmCamera s"
| "call_handler d (CameraAnswered e) s = camera_answered d e s"
| "call_handler d PressSwitch s = handleSwitchCamera s"
| "call_handler d (SwitchAnswered e) s = switch_answered d e s"
| "call_handler d PressEscape s = escape_pressed s"
| "call_handler d (VoiceChanged j g t sh cam sw) s = voice_changed j g t sh cam sw s"
| "call_handler d (ControlsChanged m df) s = s\<lparr>cl_control_muted := m, cl_control_deafened := df\<rparr>"

definition call_step :: "desktop_platform option \<Rightarrow> call_op \<Rightarrow> call_state \<Rightarrow> call_state" where
  "call_step d op s = render (call_handler d op s)"

definition init_call :: call_state where
  "init_call =
     \<lparr>cl_joined = None, cl_joining = False, cl_selected = None, cl_stream = None, cl_muted = False, cl_deafened = False,
      cl_control_muted = False, cl_control_deafened = False, cl_playback_muted = False, cl_before_deafen = False,
      cl_test_deafened = False, cl_before_test = False, cl_sharing = False, cl_camera = False, cl_can_switch = False,
      cl_switching = False, cl_share_dialog = False, cl_camera_dialog = False, cl_preflight = False, cl_generation = 0,
      cl_blocked = None, cl_log = []\<rparr>"

definition call_run :: "desktop_platform option \<Rightarrow> call_op list \<Rightarrow> call_state" where
  "call_run d ops = fold (call_step d) ops init_call"

section \<open>The handlers act at once\<close>

text \<open>Pressing a control leaves nothing for the effects to do: there is no moment with the old sound.\<close>

definition settled :: "call_state \<Rightarrow> bool" where
  "settled s \<longleftrightarrow> render s = s"

lemmas call_defs = render_def set_tracks_def send_controls_def emit_call_def server_muted_def server_deafened_def

lemma render_settles [simp]: "settled (render s)"
  by (cases "cl_stream s") (simp_all add: settled_def call_defs)

lemma settled_iff:
  "settled s \<longleftrightarrow>
     map_option (map (\<lambda>_. \<not> (cl_muted s \<or> cl_deafened s \<or> server_muted s \<or> server_deafened s))) (cl_stream s) = cl_stream s \<and>
     cl_playback_muted s = (cl_deafened s \<or> server_deafened s)"
proof -
  have "s\<lparr>cl_stream := a, cl_playback_muted := b\<rparr> = s \<longleftrightarrow> a = cl_stream s \<and> b = cl_playback_muted s" for a b
    by (cases s) auto
  then show ?thesis by (simp add: settled_def render_def set_tracks_def) blast
qed

lemma mute_settled: "settled s \<Longrightarrow> settled (toggleMute s)"
  unfolding settled_iff toggleMute_def Let_def
  by (auto simp: call_defs option.map_comp comp_def)

lemma deafen_settled: "settled s \<Longrightarrow> settled (toggleDeafen s)"
  unfolding settled_iff toggleDeafen_def Let_def
  by (auto simp: call_defs option.map_comp comp_def)

lemma test_settled: "settled s \<Longrightarrow> settled (onMicTestAutoDeafen b s)"
  unfolding settled_iff onMicTestAutoDeafen_def Let_def
  by (auto simp: call_defs option.map_comp comp_def)

lemma always_settled: "settled (call_run d ops)"
proof (induction ops rule: rev_induct)
  case Nil
  show ?case by (simp add: call_run_def init_call_def settled_def call_defs)
qed (simp add: call_run_def call_step_def)

text \<open>Who is muted by anyone sends nothing, and who is deafened hears nothing and is shown as muted.\<close>

lemma settled_quiet:
  assumes "settled s" and "cl_muted s \<or> cl_deafened s \<or> server_muted s \<or> server_deafened s" and "cl_stream s = Some ts"
  shows "list_all Not ts"
proof -
  have "map (\<lambda>_. False) ts = ts" using assms by (auto simp: settled_iff)
  then show ?thesis by (metis (mono_tags, lifting) imageE list.set_map list_all_iff)
qed

definition deaf_mutes :: "call_state \<Rightarrow> bool" where
  "deaf_mutes s \<longleftrightarrow> (cl_deafened s \<longrightarrow> cl_muted s)"

lemma deaf_mutes_handler: "deaf_mutes s \<Longrightarrow> deaf_mutes (call_handler d op s)"
  by (cases op)
    (auto simp: deaf_mutes_def toggleMute_def toggleDeafen_def onMicTestAutoDeafen_def mute_shortcut_def mute_key_def
      leaveFromMediaSession_def leave_call_def handleJoinLeave_def join_ended_def selection_changed_def handleScreenShare_def
      confirmScreenShare_def share_answered_def handleCamera_def confirmCamera_def camera_answered_def handleSwitchCamera_def
      switch_answered_def escape_pressed_def voice_changed_def Let_def call_defs split: option.splits)

lemma deaf_mutes_always: "deaf_mutes (call_run d ops)"
proof (induction ops rule: rev_induct)
  case (snoc op ops)
  then have "deaf_mutes (call_handler d op (call_run d ops))" by (rule deaf_mutes_handler)
  then show ?case by (simp add: call_run_def call_step_def deaf_mutes_def render_def set_tracks_def)
qed (simp add: call_run_def init_call_def deaf_mutes_def)

text \<open>What the session was told last is what the bar shows.\<close>

fun last_controls :: "call_effect list \<Rightarrow> (bool \<times> bool) option" where
  "last_controls [] = None"
| "last_controls (ControlsSent m d sh # es) = Some (m, d)"
| "last_controls (_ # es) = last_controls es"

definition told :: "call_state \<Rightarrow> bool" where
  "told s \<longleftrightarrow> (cl_muted s, cl_deafened s) = (case last_controls (cl_log s) of None \<Rightarrow> (False, False) | Some c \<Rightarrow> c)"

lemma told_handler: "told s \<Longrightarrow> told (call_handler d op s)"
  by (cases op)
    (auto simp: told_def toggleMute_def toggleDeafen_def onMicTestAutoDeafen_def mute_shortcut_def mute_key_def
      leaveFromMediaSession_def leave_call_def handleJoinLeave_def join_ended_def selection_changed_def handleScreenShare_def
      confirmScreenShare_def share_answered_def handleCamera_def confirmCamera_def camera_answered_def handleSwitchCamera_def
      switch_answered_def escape_pressed_def voice_changed_def Let_def call_defs split: option.splits)

lemma told_always: "told (call_run d ops)"
proof (induction ops rule: rev_induct)
  case (snoc op ops)
  then have "told (call_handler d op (call_run d ops))" by (rule told_handler)
  then show ?case by (simp add: call_run_def call_step_def told_def render_def set_tracks_def)
qed (simp add: call_run_def init_call_def told_def)

text \<open>Deafening and undeafening gives back what was there before, and so does a microphone test.\<close>

lemma deafen_twice:
  assumes "settled s" and "\<not> cl_deafened s" and "\<not> cl_joining s"
  shows "cl_muted (toggleDeafen (toggleDeafen s)) = cl_muted s" and "\<not> cl_deafened (toggleDeafen (toggleDeafen s))"
    and "cl_stream (toggleDeafen (toggleDeafen s)) = cl_stream s"
    and "cl_playback_muted (toggleDeafen (toggleDeafen s)) = cl_playback_muted s"
  using assms unfolding settled_iff
  by (auto simp: toggleDeafen_def Let_def call_defs option.map_comp comp_def)

lemma test_twice:
  assumes "settled s" and "\<not> cl_deafened s" and "\<not> server_deafened s"
  shows "cl_muted (onMicTestAutoDeafen False (onMicTestAutoDeafen True s)) = cl_muted s"
    and "\<not> cl_deafened (onMicTestAutoDeafen False (onMicTestAutoDeafen True s))" 
    and "cl_stream (onMicTestAutoDeafen False (onMicTestAutoDeafen True s)) = cl_stream s"
  using assms unfolding settled_iff
  by (auto simp: onMicTestAutoDeafen_def Let_def call_defs option.map_comp comp_def)

section \<open>Where the code falls short\<close>

definition in_call :: "call_op list" where
  "in_call = [SelectVoice (Some ''c''), VoiceChanged (Some ''c'') False (Some 1) False False False]"

text \<open>Undeafening by hand during a microphone test brings back an older mute state: a muted user is heard.\<close>

lemma undeafen_in_test_unmutes:
  "let s = call_run None (in_call @ [PressMute, MicTest True, PressDeafen])
   in \<not> cl_muted s \<and> cl_stream s = Some [True] \<and> cl_muted (call_run None (in_call @ [PressMute]))"
  by code_simp

text \<open>A test that ends while the server deafens, or after the call was left, never takes its deafening back.\<close>

lemma test_deafness_stays:
  "cl_deafened (call_run None (in_call @ [MicTest True, ControlsChanged False True, MicTest False, ControlsChanged False False]))"
  "cl_deafened (call_run None (in_call @ [MicTest True, PressJoinLeave, MicTest False] @ in_call))"
  by code_simp+

end
