(* ===== verification/LocalPublish.thy ===== *)
theory LocalPublish
  imports RemoteMedia
begin

text \<open>
  Sharing the screen and the camera in \<^verbatim>\<open>src/webrtc/useLiveKitVoice.ts\<close>: capturing, publishing track by track, undoing a
  publication that fails, and stopping. Capturing and publishing are waited for; their answers are steps of their
  own. Captured tracks and rooms are numbered. A publication is a room, a source and a track.
\<close>

section \<open>How a screen is published\<close>

datatype video_codec = Vp8 | Vp9 | Av1

datatype degradation = MaintainResolution | MaintainFramerate

record share_encoding =
  se_max_bitrate :: nat
  se_max_framerate :: nat
  se_motion :: bool
  se_degradation :: degradation

text \<open>A simulcast layer: width, height, bit rate and frame rate; LiveKit's own presets are parameters.\<close>

type_synonym video_layer = "nat \<times> nat \<times> nat \<times> nat"

record publish_options =
  po_bitrate :: nat
  po_framerate :: nat
  po_layers :: "video_layer list option"
  po_degradation :: degradation
  po_codec :: video_codec
  po_backup :: bool
  po_scalability :: "string option"
  po_simulcast :: bool

definition getPreferredScreenShareCodec :: "bool \<Rightarrow> video_codec" where
  "getPreferredScreenShareCodec vp9Supported = (if vp9Supported then Vp9 else Vp8)"

definition getScreenSharePublishOptions :: "video_layer list \<Rightarrow> share_encoding \<Rightarrow> video_codec \<Rightarrow> publish_options" where
  "getScreenSharePublishOptions presets e codec =
     (let usesSvc = (codec = Vp9 \<or> codec = Av1) in
      \<lparr>po_bitrate = se_max_bitrate e, po_framerate = se_max_framerate e,
       po_layers = (if usesSvc then None
                    else Some (if 50 \<le> se_max_framerate e then [(640, 360, 1000000, 30), (1280, 720, 4000000, 60)] else presets)),
       po_degradation = se_degradation e, po_codec = codec, po_backup = usesSvc,
       po_scalability = (if usesSvc then Some ''L3T3_KEY'' else None), po_simulcast = (\<not> usesSvc)\<rparr>)"

lemma one_way_of_layers: "po_simulcast (getScreenSharePublishOptions ps e c) \<longleftrightarrow> po_scalability (getScreenSharePublishOptions ps e c) = None"
  "po_simulcast (getScreenSharePublishOptions ps e c) \<longleftrightarrow> po_layers (getScreenSharePublishOptions ps e c) \<noteq> None"
  by (auto simp: getScreenSharePublishOptions_def Let_def)

section \<open>Which way a camera looks\<close>

datatype camera_facing = FacingUser | FacingEnvironment

fun nextCameraFacingMode :: "camera_facing \<Rightarrow> camera_facing" where
  "nextCameraFacingMode FacingUser = FacingEnvironment"
| "nextCameraFacingMode FacingEnvironment = FacingUser"

definition cameraFacingModeFromTrack :: "string option \<Rightarrow> camera_facing \<Rightarrow> camera_facing" where
  "cameraFacingModeFromTrack facingMode fallback =
     (if facingMode = Some ''environment'' then FacingEnvironment else if facingMode = Some ''user'' then FacingUser else fallback)"

lemma facing_twice [simp]: "nextCameraFacingMode (nextCameraFacingMode m) = m"
  by (cases m) simp_all

text \<open>
  \<^verbatim>\<open>switchCamera\<close> up to the moment the camera has changed. \<open>current\<close> is the device of the published track, \<open>listed\<close> the
  answer of LiveKit's list of cameras, \<open>restart\<close> the device after restarting the track for the other direction, and
  \<open>set_device\<close> whether choosing a device succeeds. The result is the device, an error, and whether switching was found
  to be impossible.
\<close>

definition alternate_device :: "string list \<Rightarrow> string option \<Rightarrow> string option" where
  "alternate_device devices device = find (\<lambda>d. d \<noteq> [] \<and> Some d \<noteq> device) devices"

definition switch_fallback :: "string list \<Rightarrow> string option \<Rightarrow> (string \<Rightarrow> bool) \<Rightarrow> string \<Rightarrow> string + string option" where
  "switch_fallback devices active set_device failure =
     (case alternate_device devices active of
        None \<Rightarrow> Inl failure
      | Some d \<Rightarrow> if set_device d then Inr (Some d) else Inl ''set device'')"

definition switchCamera ::
  "string option \<Rightarrow> string list option \<Rightarrow> (string option) option \<Rightarrow> (string \<Rightarrow> bool) \<Rightarrow> (string + string option) \<times> bool" where
  "switchCamera current listed restart set_device =
     (case listed of
        None \<Rightarrow> (switch_fallback [] current set_device ''list devices'', False)
      | Some devices \<Rightarrow>
          if length (filter (\<lambda>d. d \<noteq> []) devices) < 2
          then (switch_fallback devices current set_device ''No alternate camera is available'', True)
          else (case restart of
              None \<Rightarrow> (switch_fallback devices current set_device ''restart'', False)
            | Some restarted \<Rightarrow>
                if current \<noteq> None \<and> current \<noteq> Some [] \<and> restarted = current then
                  (case alternate_device devices current of
                     None \<Rightarrow> (Inr restarted, False)
                   | Some d \<Rightarrow>
                       if set_device d then (Inr (Some d), False)
                       else (switch_fallback devices restarted set_device ''set device'', False))
                else (Inr restarted, False)))"

text \<open>With two cameras, a switch that succeeds has changed the camera.\<close>

lemma alternate_differs: "alternate_device ds c = Some d \<Longrightarrow> d \<in> set ds \<and> d \<noteq> [] \<and> Some d \<noteq> c"
  by (auto simp: alternate_device_def find_Some_iff)

lemma two_cameras: "distinct ds \<Longrightarrow> 2 \<le> length (filter (\<lambda>d. d \<noteq> []) ds) \<Longrightarrow> alternate_device ds c \<noteq> None"
proof
  assume d: "distinct ds" and two: "2 \<le> length (filter (\<lambda>d. d \<noteq> []) ds)" and none: "alternate_device ds c = None"
  let ?fs = "filter (\<lambda>d. d \<noteq> []) ds"
  have "\<forall>x \<in> set ?fs. Some x = c" using none by (auto simp: alternate_device_def find_None_iff)
  then have "set ?fs \<subseteq> {the c}" by fastforce
  then have "card (set ?fs) \<le> 1" using card_mono[of "{the c}" "set ?fs"] by simp
  moreover have "card (set ?fs) = length ?fs" using d by (intro distinct_card) simp
  ultimately show False using two by linarith
qed

lemma switch_changes:
  assumes "distinct ds" and "2 \<le> length (filter (\<lambda>d. d \<noteq> []) ds)" and "current = Some c" and "c \<noteq> []"
    and "switchCamera current (Some ds) restart set_device = (Inr device, b)"
  shows "device \<noteq> current"
proof -
  obtain d where d: "alternate_device ds current = Some d" using two_cameras[OF assms(1,2)] by blast
  then have "Some d \<noteq> current" using alternate_differs by blast
  then show ?thesis using assms(2-5) d
    by (auto simp: switchCamera_def switch_fallback_def Let_def split: option.splits if_splits)
qed

section \<open>State of the local tracks\<close>

record local_track =
  lt_kind :: track_kind
  lt_live :: bool

datatype share_effect = ShareControls bool bool bool bool | ShareError string

datatype share_call =
  ShareCapturing nat
| SharePublishing nat "nat list" "nat list"
| ShareUndoing nat "nat list"
| CameraCapturing nat
| CameraPublishing nat nat

record share_state =
  sh_room :: "nat option"
  sh_muted :: bool
  sh_deafened :: bool
  sh_tracks :: "nat \<Rightarrow> local_track"
  sh_published :: "(nat \<times> track_source \<times> nat) list"
  sh_screen :: "nat list"
  sh_camera :: "nat option"
  sh_screen_shown :: "nat option"
  sh_camera_shown :: "nat option"
  sh_facing :: camera_facing
  sh_on_ended :: "nat list"
  sh_store_screen :: bool
  sh_store_camera :: bool
  sh_calls :: "share_call list"
  sh_log :: "share_effect list"
  sh_next :: nat

definition stop_local :: "nat list \<Rightarrow> share_state \<Rightarrow> share_state" where
  "stop_local ids s = s\<lparr>sh_tracks := (\<lambda>i. if i \<in> set ids then (sh_tracks s i)\<lparr>lt_live := False\<rparr> else sh_tracks s i)\<rparr>"

definition published_as :: "track_source \<Rightarrow> share_state \<Rightarrow> nat option" where
  "published_as src s = map_option (\<lambda>(r, so, i). i) (find (\<lambda>(r, so, i). Some r = sh_room s \<and> so = src) (sh_published s))"

text \<open>\<^verbatim>\<open>refreshLocalStreams\<close> without the microphone\<close>

definition refresh_shares :: "share_state \<Rightarrow> share_state" where
  "refresh_shares s =
     (if sh_room s = None then s
      else s\<lparr>sh_camera := published_as SourceCamera s, sh_camera_shown := published_as SourceCamera s,
             sh_screen_shown := published_as SourceScreen s\<rparr>)"

definition send_share :: "bool \<Rightarrow> bool \<Rightarrow> share_state \<Rightarrow> share_state" where
  "send_share screen camera s = s\<lparr>sh_log := ShareControls (sh_muted s) (sh_deafened s) screen camera # sh_log s\<rparr>"

definition await_share :: "share_call \<Rightarrow> share_state \<Rightarrow> share_state" where
  "await_share c s = s\<lparr>sh_calls := sh_calls s @ [c]\<rparr>"

definition share_error :: "string \<Rightarrow> share_state \<Rightarrow> share_state" where
  "share_error m s = s\<lparr>sh_log := ShareError m # sh_log s\<rparr>"

section \<open>Screen share\<close>

definition is_screen :: "track_source \<Rightarrow> bool" where
  "is_screen src \<longleftrightarrow> src = SourceScreen \<or> src = SourceScreenAudio"

definition take_down :: "(track_source \<Rightarrow> bool) \<Rightarrow> nat \<Rightarrow> share_state \<Rightarrow> share_state" where
  "take_down P room s = s\<lparr>sh_published := filter (\<lambda>(r, src, i). \<not> (r = room \<and> P src)) (sh_published s)\<rparr>"

definition end_share :: "nat \<Rightarrow> share_state \<Rightarrow> share_state" where
  "end_share room s =
     (let s1 = stop_local (sh_screen s) (take_down is_screen room s);
          s2 = refresh_shares (s1\<lparr>sh_screen := []\<rparr>)
      in send_share False (sh_store_camera s2) s2)"

definition stopScreenShare :: "share_state \<Rightarrow> share_state" where
  "stopScreenShare s = (case sh_room s of None \<Rightarrow> s | Some room \<Rightarrow> end_share room s)"

definition startScreenShare :: "share_state \<Rightarrow> share_state" where
  "startScreenShare s =
     (case sh_room s of
        None \<Rightarrow> share_error ''Join a voice channel before sharing your screen'' s
      | Some room \<Rightarrow> await_share (ShareCapturing room) (stopScreenShare s))"

text \<open>The end of a share that was published: the browser may end it too.\<close>

definition share_published :: "nat list \<Rightarrow> share_state \<Rightarrow> share_state" where
  "share_published ids s =
     (let s1 = (case find (\<lambda>i. lt_kind (sh_tracks s i) = VideoKind) ids of
                  None \<Rightarrow> s | Some i \<Rightarrow> s\<lparr>sh_on_ended := i # sh_on_ended s\<rparr>);
          s2 = refresh_shares s1
      in send_share True (sh_store_camera s2) s2)"

text \<open>The loop over the tracks: \<open>before\<close> are published, \<open>todo\<close> are not.\<close>

definition share_loop :: "nat \<Rightarrow> nat list \<Rightarrow> nat list \<Rightarrow> share_state \<Rightarrow> share_state" where
  "share_loop room before todo s =
     (if todo = [] then share_published before s else await_share (SharePublishing room before todo) s)"

definition share_captured :: "nat \<Rightarrow> track_kind list option \<Rightarrow> share_state \<Rightarrow> share_state" where
  "share_captured room kinds s =
     (case kinds of
        None \<Rightarrow> share_error ''capture'' s
      | Some ks \<Rightarrow>
          let ids = [sh_next s ..< sh_next s + length ks];
              s1 = s\<lparr>sh_tracks := (\<lambda>i. if i \<in> set ids then \<lparr>lt_kind = ks ! (i - sh_next s), lt_live = True\<rparr> else sh_tracks s i),
                     sh_next := sh_next s + length ks, sh_screen := ids\<rparr>
          in share_loop room [] ids s1)"

definition screen_source :: "nat \<Rightarrow> share_state \<Rightarrow> track_source" where
  "screen_source i s = (if lt_kind (sh_tracks s i) = VideoKind then SourceScreen else SourceScreenAudio)"

definition share_track_answered :: "nat \<Rightarrow> nat list \<Rightarrow> nat list \<Rightarrow> bool \<Rightarrow> share_state \<Rightarrow> share_state" where
  "share_track_answered room before todo ok s =
     (case todo of
        [] \<Rightarrow> s
      | i # rest \<Rightarrow>
          if ok then share_loop room (before @ [i]) rest (s\<lparr>sh_published := sh_published s @ [(room, screen_source i s, i)]\<rparr>)
          else await_share (ShareUndoing room (before @ todo))
                 (s\<lparr>sh_published := filter (\<lambda>(r, src, j). \<not> (r = room \<and> is_screen src \<and> j \<in> set before)) (sh_published s)\<rparr>))"

definition share_undone :: "nat list \<Rightarrow> share_state \<Rightarrow> share_state" where
  "share_undone ids s =
     share_error ''publish'' (refresh_shares
       ((stop_local ids s)\<lparr>sh_screen := [], sh_on_ended := filter (\<lambda>i. i \<notin> set ids) (sh_on_ended s)\<rparr>))"

text \<open>The browser's own button to stop sharing.\<close>

definition share_ended :: "nat \<Rightarrow> share_state \<Rightarrow> share_state" where
  "share_ended i s =
     (let s1 = stop_local [i] s in
      if i \<notin> set (sh_on_ended s) then s1
      else case sh_room s1 of None \<Rightarrow> s1 | Some room \<Rightarrow> end_share room s1)"

section \<open>Camera\<close>

definition startCamera :: "share_state \<Rightarrow> share_state" where
  "startCamera s =
     (case sh_room s of
        None \<Rightarrow> share_error ''Join a voice channel before turning on camera'' s
      | Some room \<Rightarrow> if sh_camera_shown s \<noteq> None then s else await_share (CameraCapturing room) s)"

definition camera_captured :: "nat \<Rightarrow> bool option \<Rightarrow> share_state \<Rightarrow> share_state" where
  "camera_captured room video s =
     (case video of
        None \<Rightarrow> share_error ''capture'' s
      | Some False \<Rightarrow> share_error ''No camera video track available'' s
      | Some True \<Rightarrow>
          let i = sh_next s
          in await_share (CameraPublishing room i)
               (s\<lparr>sh_tracks := (sh_tracks s)(i := \<lparr>lt_kind = VideoKind, lt_live = True\<rparr>), sh_next := i + 1, sh_camera := Some i\<rparr>))"

definition camera_published :: "nat \<Rightarrow> nat \<Rightarrow> bool \<Rightarrow> string option \<Rightarrow> share_state \<Rightarrow> share_state" where
  "camera_published room i ok facingMode s =
     (if \<not> ok then share_error ''publish'' (stop_local [i] s)
      else
        let s1 = refresh_shares (s\<lparr>sh_published := sh_published s @ [(room, SourceCamera, i)],
                   sh_facing := cameraFacingModeFromTrack facingMode FacingUser\<rparr>);
            s2 = s1\<lparr>sh_store_camera := True\<rparr>
        in send_share (sh_store_screen s2) True s2)"

definition stopCamera :: "share_state \<Rightarrow> share_state" where
  "stopCamera s =
     (case sh_room s of
        None \<Rightarrow> s
      | Some room \<Rightarrow>
          let s1 = take_down (\<lambda>src. src = SourceCamera) room s;
              s2 = (case sh_camera s1 of None \<Rightarrow> s1 | Some i \<Rightarrow> stop_local [i] s1);
              s3 = refresh_shares (s2\<lparr>sh_camera := None, sh_facing := FacingUser\<rparr>)
          in send_share (sh_store_screen s3) False (s3\<lparr>sh_store_camera := False\<rparr>))"

section \<open>Runs\<close>

datatype share_answer = ShareKinds "track_kind list" | CameraVideo bool | ShareOk "string option" | ShareRefused

fun answer_share :: "share_call \<Rightarrow> share_answer \<Rightarrow> share_state \<Rightarrow> share_state" where
  "answer_share (ShareCapturing room) a s = share_captured room (case a of ShareKinds ks \<Rightarrow> Some ks | _ \<Rightarrow> None) s"
| "answer_share (SharePublishing room before todo) a s = share_track_answered room before todo (a \<noteq> ShareRefused) s"
| "answer_share (ShareUndoing room ids) a s = share_undone ids s"
| "answer_share (CameraCapturing room) a s = camera_captured room (case a of CameraVideo b \<Rightarrow> Some b | _ \<Rightarrow> None) s"
| "answer_share (CameraPublishing room i) a s =
     camera_published room i (a \<noteq> ShareRefused) (case a of ShareOk m \<Rightarrow> m | _ \<Rightarrow> None) s"

datatype share_op =
  StartShare | StopShare | ShareEnded nat | StartCamera | StopCamera
| EnterRoom | LeaveRoom | SelfControls bool bool | StoreControls bool bool | ShareAnswered nat share_answer

text \<open>Leaving stops all that was captured (\<^verbatim>\<open>cleanupLocalMedia\<close>, \<open>LocalMedia\<close>) and forgets it; rooms are numbered.\<close>

definition leave_shares :: "share_state \<Rightarrow> share_state" where
  "leave_shares s =
     s\<lparr>sh_room := None, sh_tracks := (\<lambda>i. (sh_tracks s i)\<lparr>lt_live := False\<rparr>), sh_camera := None, sh_screen := [],
       sh_screen_shown := None, sh_camera_shown := None, sh_facing := FacingUser, sh_store_camera := False\<rparr>"

fun share_step :: "share_op \<Rightarrow> share_state \<Rightarrow> share_state" where
  "share_step StartShare s = startScreenShare s"
| "share_step StopShare s = stopScreenShare s"
| "share_step (ShareEnded i) s = share_ended i s"
| "share_step StartCamera s = startCamera s"
| "share_step StopCamera s = stopCamera s"
| "share_step EnterRoom s = (if sh_room s = None then s\<lparr>sh_room := Some (sh_next s), sh_next := sh_next s + 1\<rparr> else s)"
| "share_step LeaveRoom s = leave_shares s"
| "share_step (SelfControls m d) s = s\<lparr>sh_muted := m, sh_deafened := d\<rparr>"
| "share_step (StoreControls sc ca) s = s\<lparr>sh_store_screen := sc, sh_store_camera := ca\<rparr>"
| "share_step (ShareAnswered i a) s =
     (if i < length (sh_calls s)
      then answer_share (sh_calls s ! i) a (s\<lparr>sh_calls := take i (sh_calls s) @ drop (Suc i) (sh_calls s)\<rparr>) else s)"

definition init_share :: share_state where
  "init_share =
     \<lparr>sh_room = None, sh_muted = False, sh_deafened = False, sh_tracks = (\<lambda>_. \<lparr>lt_kind = VideoKind, lt_live = False\<rparr>),
      sh_published = [], sh_screen = [], sh_camera = None, sh_screen_shown = None, sh_camera_shown = None, sh_facing = FacingUser,
      sh_on_ended = [], sh_store_screen = False, sh_store_camera = False, sh_calls = [], sh_log = [], sh_next = 0\<rparr>"

text \<open>
  Assumed of the environment: a share or a camera is not started while the same is still starting, and a room that was
  left publishes nothing.
\<close>

fun starts_share :: "share_call \<Rightarrow> bool" where
  "starts_share (ShareCapturing room) = True"
| "starts_share (SharePublishing room before todo) = True"
| "starts_share (ShareUndoing room ids) = True"
| "starts_share c = False"

fun share_allows :: "share_op \<Rightarrow> share_state \<Rightarrow> bool" where
  "share_allows StartShare s = list_all (\<lambda>c. \<not> starts_share c) (sh_calls s)"
| "share_allows StartCamera s = list_all starts_share (sh_calls s)"
| "share_allows (ShareAnswered i a) s =
     (i < length (sh_calls s) \<longrightarrow>
        (case sh_calls s ! i of
           SharePublishing room before todo \<Rightarrow> a = ShareRefused \<or> sh_room s = Some room
         | CameraPublishing room j \<Rightarrow> a = ShareRefused \<or> sh_room s = Some room
         | _ \<Rightarrow> True))"
| "share_allows _ s = True"

fun share_run :: "share_op list \<Rightarrow> share_state \<Rightarrow> bool" where
  "share_run [] s = True"
| "share_run (op # ops) s = (share_allows op s \<and> share_run ops (share_step op s))"

end
