(* ===== verification/LocalPublishLaws.thy ===== *)
theory LocalPublishLaws
  imports LocalPublish
begin

text \<open>
  No captured screen or camera is forgotten: as long as the user starts one share and one camera at a time, every live
  track is on the list of the share, published as the camera of the room, or in the hands of a start that still waits. So
  stopping and leaving switch everything off.
\<close>

fun call_tracks :: "share_call \<Rightarrow> nat list" where
  "call_tracks (SharePublishing room before todo) = before @ todo"
| "call_tracks (ShareUndoing room ids) = ids"
| "call_tracks (CameraPublishing room i) = [i]"
| "call_tracks c = []"

fun call_room :: "share_call \<Rightarrow> nat" where
  "call_room (ShareCapturing room) = room"
| "call_room (SharePublishing room before todo) = room"
| "call_room (ShareUndoing room ids) = room"
| "call_room (CameraCapturing room) = room"
| "call_room (CameraPublishing room i) = room"

definition live_local :: "share_state \<Rightarrow> nat \<Rightarrow> bool" where
  "live_local s i \<longleftrightarrow> lt_live (sh_tracks s i)"

definition is_camera :: "share_state \<Rightarrow> nat \<Rightarrow> bool" where
  "is_camera s i \<longleftrightarrow> (\<exists>r. sh_room s = Some r \<and> (r, SourceCamera, i) \<in> set (sh_published s))"

text \<open>Screen: what a start that waits knows of the list of the share.\<close>

definition share_fits :: "share_state \<Rightarrow> share_call \<Rightarrow> bool" where
  "share_fits s c \<longleftrightarrow> (starts_share c \<longrightarrow> set (sh_screen s) \<subseteq> set (call_tracks c) \<and>
     (\<forall>i \<in> set (call_tracks c). live_local s i \<longrightarrow> i \<in> set (sh_screen s)))"

definition camera_fits :: "share_state \<Rightarrow> share_call \<Rightarrow> bool" where
  "camera_fits s c \<longleftrightarrow> (\<not> starts_share c \<longrightarrow> (\<forall>i. \<not> is_camera s i))"

definition share_base :: "share_state \<Rightarrow> bool" where
  "share_base s \<longleftrightarrow>
     (\<forall>i. live_local s i \<longrightarrow> i < sh_next s) \<and> (\<forall>r. sh_room s = Some r \<longrightarrow> r < sh_next s) \<and>
     (\<forall>(r, src, i) \<in> set (sh_published s). r < sh_next s) \<and>
     (\<forall>i. is_camera s i \<longrightarrow> sh_camera s = Some i) \<and>
     sh_camera_shown s = published_as SourceCamera s"

definition calls_ok :: "share_state \<Rightarrow> share_call list \<Rightarrow> bool" where
  "calls_ok s cs \<longleftrightarrow>
     length (filter starts_share cs) \<le> 1 \<and> length (filter (\<lambda>c. \<not> starts_share c) cs) \<le> 1 \<and>
     (\<forall>c \<in> set cs. call_room c < sh_next s \<and> (\<forall>i \<in> set (call_tracks c). i < sh_next s) \<and> share_fits s c \<and> camera_fits s c)"

definition kept :: "share_state \<Rightarrow> share_call list \<Rightarrow> bool" where
  "kept s cs \<longleftrightarrow> (\<forall>i. live_local s i \<longrightarrow> i \<in> set (sh_screen s) \<or> is_camera s i \<or> (\<exists>c \<in> set cs. i \<in> set (call_tracks c)))"

definition share_ok :: "share_state \<Rightarrow> bool" where
  "share_ok s \<longleftrightarrow> share_base s \<and> calls_ok s (sh_calls s) \<and> kept s (sh_calls s)"

section \<open>Publications\<close>

lemma published_none: "published_as src s = None \<longleftrightarrow> (\<forall>r i. sh_room s = Some r \<longrightarrow> (r, src, i) \<notin> set (sh_published s))"
  by (fastforce simp: published_as_def find_None_iff)

lemma published_some: "published_as src s = Some i \<Longrightarrow> \<exists>r. sh_room s = Some r \<and> (r, src, i) \<in> set (sh_published s)"
  by (auto simp: published_as_def find_Some_iff) (metis nth_mem)

lemma camera_shown: "(\<forall>i. \<not> is_camera s i) \<longleftrightarrow> published_as SourceCamera s = None"
  by (auto simp: published_none is_camera_def)

lemma published_cong:
  "sh_room t = sh_room s \<Longrightarrow> filter (\<lambda>(r, so, i). so = src) (sh_published t) = filter (\<lambda>(r, so, i). so = src) (sh_published s)
    \<Longrightarrow> published_as src t = published_as src s"
proof -
  assume r: "sh_room t = sh_room s" and f: "filter (\<lambda>(r, so, i). so = src) (sh_published t) = filter (\<lambda>(r, so, i). so = src) (sh_published s)"
  have *: "find (\<lambda>(r, so, i). Some r = q \<and> so = src) ps = find (\<lambda>(r, so, i). Some r = q) (filter (\<lambda>(r, so, i). so = src) ps)" for q ps
    by (induction ps) auto
  show ?thesis unfolding published_as_def r * f ..
qed

section \<open>Changes that leave the cameras alone\<close>

text \<open>Rooms, cameras and waiting calls stay; tracks may end.\<close>

definition cameras :: "share_state \<Rightarrow> nat option \<times> nat option \<times> nat option \<times> (nat \<times> track_source \<times> nat) list \<times> nat" where
  "cameras s = (sh_room s, sh_camera s, sh_camera_shown s, filter (\<lambda>(r, so, i). so = SourceCamera) (sh_published s), sh_next s)"

lemma is_camera_cong: "cameras t = cameras s \<Longrightarrow> is_camera t i = is_camera s i"
proof -
  assume c: "cameras t = cameras s"
  then have f: "filter (\<lambda>(r, so, i). so = SourceCamera) (sh_published t) = filter (\<lambda>(r, so, i). so = SourceCamera) (sh_published s)"
    and r: "sh_room t = sh_room s" by (simp_all add: cameras_def)
  have "(q, SourceCamera, i) \<in> set ps \<longleftrightarrow> (q, SourceCamera, i) \<in> set (filter (\<lambda>(r, so, i). so = SourceCamera) ps)" for q ps
    by auto
  with f show ?thesis unfolding is_camera_def r by metis
qed

lemma base_cong:
  assumes c: "cameras t = cameras s" and live: "\<And>i. live_local t i \<Longrightarrow> live_local s i"
    and pub: "\<And>x. x \<in> set (sh_published t) \<Longrightarrow> x \<in> set (sh_published s) \<or> Some (fst x) = sh_room s" and b: "share_base s"
  shows "share_base t"
proof -
  have f: "sh_room t = sh_room s" "sh_camera t = sh_camera s" "sh_camera_shown t = sh_camera_shown s" "sh_next t = sh_next s"
    using c by (simp_all add: cameras_def)
  have "published_as SourceCamera t = published_as SourceCamera s" using c by (intro published_cong) (simp_all add: cameras_def)
  moreover have "r < sh_next t" if "(r, src, i) \<in> set (sh_published t)" for r src i
    using pub[OF that] b by (auto simp: share_base_def f)
  ultimately show ?thesis using b live by (auto simp: share_base_def f is_camera_cong[OF c])
qed

lemma calls_cong:
  assumes c: "cameras t = cameras s" and ok: "calls_ok s cs"
    and sh: "\<And>c. c \<in> set cs \<Longrightarrow> share_fits s c \<Longrightarrow> share_fits t c"
  shows "calls_ok t cs"
  using ok sh c by (auto simp: calls_ok_def camera_fits_def is_camera_cong[OF c]) (simp_all add: cameras_def)

text \<open>The list of the share is emptied after its tracks were stopped.\<close>

lemma share_fits_stopped:
  assumes "share_fits s c" and "sh_screen t = []" and "\<And>i. live_local t i \<Longrightarrow> live_local s i \<and> i \<notin> set (sh_screen s)"
  shows "share_fits t c"
  using assms by (auto simp: share_fits_def)

lemma live_stop [simp]: "live_local (stop_local ids s) i \<longleftrightarrow> live_local s i \<and> i \<notin> set ids"
  by (simp add: live_local_def stop_local_def)

lemma stop_fields [simp]:
  "sh_room (stop_local ids s) = sh_room s" "sh_camera (stop_local ids s) = sh_camera s" "sh_published (stop_local ids s) = sh_published s"
  "sh_screen (stop_local ids s) = sh_screen s" "sh_calls (stop_local ids s) = sh_calls s" "sh_next (stop_local ids s) = sh_next s"
  "sh_camera_shown (stop_local ids s) = sh_camera_shown s" "sh_store_camera (stop_local ids s) = sh_store_camera s"
  "cameras (stop_local ids s) = cameras s" "sh_on_ended (stop_local ids s) = sh_on_ended s"
  by (simp_all add: stop_local_def cameras_def)

lemma refresh_fields [simp]:
  "sh_room (refresh_shares s) = sh_room s" "sh_published (refresh_shares s) = sh_published s" "sh_screen (refresh_shares s) = sh_screen s"
  "sh_calls (refresh_shares s) = sh_calls s" "sh_next (refresh_shares s) = sh_next s" "live_local (refresh_shares s) i = live_local s i"
  "is_camera (refresh_shares s) i = is_camera s i" "published_as src (refresh_shares s) = published_as src s"
  by (simp_all add: refresh_shares_def live_local_def is_camera_def published_as_def)

text \<open>Refreshing agrees with the publications as soon as there is one camera at most.\<close>

lemma refresh_base:
  assumes "\<And>i. live_local s i \<Longrightarrow> i < sh_next s" and "\<And>r. sh_room s = Some r \<Longrightarrow> r < sh_next s"
    and "\<And>x. x \<in> set (sh_published s) \<Longrightarrow> fst x < sh_next s" and none: "sh_room s = None \<Longrightarrow> sh_camera_shown s = None"
    and one: "\<And>i j. is_camera s i \<Longrightarrow> is_camera s j \<Longrightarrow> i = j"
  shows "share_base (refresh_shares s)"
proof -
  have "sh_camera (refresh_shares s) = Some i" if "is_camera s i" for i
  proof -
    have "sh_room s \<noteq> None" using that by (auto simp: is_camera_def)
    have "published_as SourceCamera s \<noteq> None" using that camera_shown by blast
    then obtain j where j: "published_as SourceCamera s = Some j" by blast
    then have "is_camera s j" using published_some by (auto simp: is_camera_def)
    with one that have "j = i" by blast
    then show ?thesis using j \<open>sh_room s \<noteq> None\<close> by (cases "sh_room s") (simp_all add: refresh_shares_def)
  qed
  moreover have "sh_camera_shown (refresh_shares s) = published_as SourceCamera s"
    using none by (cases "sh_room s") (simp_all add: refresh_shares_def published_as_def find_None_iff)
  ultimately show ?thesis using assms(1-3) by (fastforce simp: share_base_def)
qed

lemma base_facts:
  assumes "share_base s"
  shows "live_local s i \<Longrightarrow> i < sh_next s" "sh_room s = Some r \<Longrightarrow> r < sh_next s" "x \<in> set (sh_published s) \<Longrightarrow> fst x < sh_next s"
    "is_camera s i \<Longrightarrow> is_camera s j \<Longrightarrow> i = j" "sh_room s = None \<Longrightarrow> sh_camera_shown s = None"
proof -
  show "sh_room s = None \<Longrightarrow> sh_camera_shown s = None" using assms by (simp add: share_base_def published_none)
  show "live_local s i \<Longrightarrow> i < sh_next s" "sh_room s = Some r \<Longrightarrow> r < sh_next s" using assms by (auto simp: share_base_def)
  show "x \<in> set (sh_published s) \<Longrightarrow> fst x < sh_next s" using assms by (auto simp: share_base_def)
  assume "is_camera s i" "is_camera s j"
  then have "Some i = Some j" using assms unfolding share_base_def by metis
  then show "i = j" by simp
qed

text \<open>
  A change after which the list of the share is empty and only tracks outside it live, with no more cameras than before.
\<close>

lemma emptied:
  assumes ok: "share_base s" "calls_ok s cs" "kept s cs"
    and t: "sh_room t = sh_room s" "sh_next t = sh_next s" "sh_screen t = []"
    and live: "\<And>i. live_local t i \<Longrightarrow> live_local s i \<and> i \<notin> set (sh_screen s)"
    and cam: "\<And>i. is_camera t i = is_camera s i" and base: "share_base t"
  shows "calls_ok t cs \<and> kept t cs"
proof -
  have "share_fits t c" if "share_fits s c" for c using that t(3) live by (rule share_fits_stopped)
  then have "calls_ok t cs" using ok(2) t by (auto simp: calls_ok_def camera_fits_def cam)
  moreover have "kept t cs" using ok(3) live by (auto simp: kept_def cam)
  ultimately show ?thesis ..
qed

lemma end_ok:
  assumes ok: "share_base s" "calls_ok s cs" "kept s cs" and calls: "sh_calls s = cs"
  shows "share_ok (end_share room s)"
proof -
  define s1 where "s1 = (stop_local (sh_screen s) (take_down is_screen room s))\<lparr>sh_screen := []\<rparr>"
  have f: "sh_room s1 = sh_room s" "sh_next s1 = sh_next s" "sh_calls s1 = cs" "sh_camera_shown s1 = sh_camera_shown s" by (simp_all add: s1_def take_down_def calls)
  have live: "live_local s1 i \<longleftrightarrow> live_local s i \<and> i \<notin> set (sh_screen s)" for i
    by (simp add: s1_def live_local_def stop_local_def take_down_def)
  have cam: "is_camera s1 i = is_camera s i" for i
    by (auto simp: s1_def is_camera_def take_down_def is_screen_def stop_local_def)
  have pub: "set (sh_published s1) \<subseteq> set (sh_published s)" by (auto simp: s1_def take_down_def stop_local_def)
  have b: "share_base (refresh_shares s1)"
    by (rule refresh_base) (use base_facts[OF ok(1)] pub in \<open>auto simp: f live cam simp del: refresh_fields\<close>)
  have "calls_ok (refresh_shares s1) cs \<and> kept (refresh_shares s1) cs"
    by (rule emptied[OF ok _ _ _ _ _ b]) (simp_all add: f live cam, simp add: s1_def)
  then have "share_ok (refresh_shares s1)" using b by (simp add: share_ok_def f)
  moreover have "share_ok (send_share x y t)" if "share_ok t" for x y t
    using that by (auto simp: share_ok_def share_base_def calls_ok_def kept_def send_share_def live_local_def is_camera_def share_fits_def
        camera_fits_def published_as_def)
  ultimately show ?thesis by (simp add: end_share_def Let_def s1_def)
qed

lemma log_ok:
  "share_ok s \<Longrightarrow> share_ok (send_share x y s)" "share_ok s \<Longrightarrow> share_ok (share_error m s)"
  "share_ok s \<Longrightarrow> share_ok (s\<lparr>sh_muted := a, sh_deafened := b\<rparr>)" "share_ok s \<Longrightarrow> share_ok (s\<lparr>sh_store_screen := a, sh_store_camera := b\<rparr>)"
  "share_ok s \<Longrightarrow> share_ok (s\<lparr>sh_on_ended := e\<rparr>)" "share_ok s \<Longrightarrow> share_ok (s\<lparr>sh_store_camera := b\<rparr>)"
  by (auto simp: share_ok_def share_base_def calls_ok_def kept_def send_share_def share_error_def live_local_def is_camera_def
      share_fits_def camera_fits_def published_as_def)

text \<open>The call that is answered is out of the list; what it holds is kept by name.\<close>

definition answering :: "share_state \<Rightarrow> share_call \<Rightarrow> bool" where
  "answering s c \<longleftrightarrow> share_base s \<and> calls_ok s (c # sh_calls s) \<and> kept s (c # sh_calls s)"

lemma answering_ok: "answering s c \<Longrightarrow> call_tracks c = [] \<Longrightarrow> share_ok s"
  by (auto simp: answering_def share_ok_def kept_def calls_ok_def split: if_splits)

lemma awaiting_ok:
  assumes "share_base s" "calls_ok s (c # sh_calls s)" "kept s (c # sh_calls s)"
  shows "share_ok (await_share c s)"
proof -
  have "cameras (await_share c s) = cameras s" by (simp add: await_share_def cameras_def)
  note f = is_camera_cong[OF this]
  have "live_local (await_share c s) = live_local s" by (auto simp: live_local_def await_share_def)
  then show ?thesis using assms f
    by (auto simp: share_ok_def share_base_def calls_ok_def kept_def share_fits_def camera_fits_def await_share_def published_as_def)
qed

lemma answering_calls:
  assumes "i < length (sh_calls s)" and "share_ok s"
  shows "answering (s\<lparr>sh_calls := take i (sh_calls s) @ drop (Suc i) (sh_calls s)\<rparr>) (sh_calls s ! i)"
proof -
  let ?cs = "sh_calls s" and ?c = "sh_calls s ! i"
  let ?t = "s\<lparr>sh_calls := take i ?cs @ drop (Suc i) ?cs\<rparr>"
  have cs: "?cs = take i ?cs @ ?c # drop (Suc i) ?cs" using assms(1) by (rule id_take_nth_drop)
  then have set: "set ?cs = insert ?c (set (take i ?cs @ drop (Suc i) ?cs))" by (metis list.set(2) set_append Un_insert_right)
  have len: "length (filter P (?c # take i ?cs @ drop (Suc i) ?cs)) = length (filter P ?cs)" for P
  proof -
    have "length (filter P ?cs) = length (filter P (take i ?cs @ ?c # drop (Suc i) ?cs))" by (rule arg_cong[OF cs])
    then show ?thesis by simp
  qed
  have "cameras ?t = cameras s" by (simp add: cameras_def)
  note f = is_camera_cong[OF this]
  have l: "live_local ?t = live_local s" by (auto simp: live_local_def)
  have old: "calls_ok s ?cs" using assms(2) by (simp add: share_ok_def)
  have "calls_ok ?t (?c # take i ?cs @ drop (Suc i) ?cs)"
    unfolding calls_ok_def len
  proof (intro conjI ballI)
    show "length (filter starts_share ?cs) \<le> 1" "length (filter (\<lambda>c. \<not> starts_share c) ?cs) \<le> 1"
      using old by (simp_all add: calls_ok_def)
    fix c assume "c \<in> set (?c # take i ?cs @ drop (Suc i) ?cs)"
    then have "c \<in> set ?cs" by (subst set) simp
    then show "call_room c < sh_next ?t" "share_fits ?t c" "camera_fits ?t c" and "\<And>j. j \<in> set (call_tracks c) \<Longrightarrow> j < sh_next ?t"
      using old f l by (simp_all add: calls_ok_def share_fits_def camera_fits_def)
  qed
  then have "calls_ok ?t (?c # sh_calls ?t)" by simp
  moreover have "kept ?t (?c # sh_calls ?t)" using assms(2) set f l by (auto simp: share_ok_def kept_def)
  moreover have "share_base ?t" using assms(2) f l by (auto simp: share_ok_def share_base_def published_as_def)
  ultimately show ?thesis by (simp add: answering_def)
qed

section \<open>Screen\<close>

lemma stop_ok: "share_ok s \<Longrightarrow> share_ok (stopScreenShare s)"
  unfolding stopScreenShare_def using end_ok[of s "sh_calls s"] by (auto simp: share_ok_def split: option.split)

lemma end_calls [simp]: "sh_calls (end_share room s) = sh_calls s" "sh_room (end_share room s) = sh_room s" "sh_screen (end_share room s) = []"
  by (simp_all add: end_share_def Let_def send_share_def take_down_def)

lemma start_ok:
  assumes ok: "share_ok s" and free: "list_all (\<lambda>c. \<not> starts_share c) (sh_calls s)"
  shows "share_ok (startScreenShare s)"
proof (cases "sh_room s")
  case None
  then show ?thesis using log_ok(2)[OF ok] by (simp add: startScreenShare_def)
next
  case (Some room)
  let ?t = "end_share room s"
  have t: "share_ok ?t" using stop_ok[OF ok] Some by (simp add: stopScreenShare_def)
  have "filter starts_share (sh_calls s) = []" using free by (simp add: filter_empty_conv list_all_iff)
  moreover have "room < sh_next ?t" using t Some by (auto simp: share_ok_def share_base_def)
  ultimately have "calls_ok ?t (ShareCapturing room # sh_calls ?t)"
    using t by (auto simp: share_ok_def calls_ok_def share_fits_def camera_fits_def)
  moreover have "kept ?t (ShareCapturing room # sh_calls ?t)" using t by (auto simp: share_ok_def kept_def)
  ultimately have "share_ok (await_share (ShareCapturing room) ?t)" using t by (intro awaiting_ok) (auto simp: share_ok_def)
  then show ?thesis by (simp add: startScreenShare_def stopScreenShare_def Some)
qed

lemma published_ok:
  assumes "share_base s" "calls_ok s (sh_calls s)" "kept s (sh_calls s)"
  shows "share_ok (share_published ids s)"
proof -
  have r: "share_ok (refresh_shares t)" if t: "share_ok t" for t
  proof -
    have b: "share_base (refresh_shares t)" using t base_facts[of t] by (intro refresh_base) (auto simp: share_ok_def)
    show ?thesis using t b by (auto simp: share_ok_def calls_ok_def kept_def share_fits_def camera_fits_def)
  qed
  have "share_ok s" using assms by (simp add: share_ok_def)
  then have "share_ok (case find (\<lambda>i. lt_kind (sh_tracks s i) = VideoKind) ids of None \<Rightarrow> s | Some i \<Rightarrow> s\<lparr>sh_on_ended := i # sh_on_ended s\<rparr>)"
    using log_ok(5) by (auto split: option.split)
  from log_ok(1)[OF r[OF this]] show ?thesis by (simp add: share_published_def Let_def)
qed

lemma answering_kept:
  assumes "answering s c" and "starts_share c"
  shows "share_base s" "calls_ok s (sh_calls s)" "kept s (sh_calls s)" "list_all (\<lambda>d. \<not> starts_share d) (sh_calls s)"
proof -
  show "share_base s" "calls_ok s (sh_calls s)" using assms by (auto simp: answering_def calls_ok_def split: if_splits)
  have "share_fits s c" using assms by (simp add: answering_def calls_ok_def)
  then show "kept s (sh_calls s)" using assms by (auto simp: answering_def kept_def share_fits_def)
  show "list_all (\<lambda>d. \<not> starts_share d) (sh_calls s)"
    using assms by (auto simp: answering_def calls_ok_def list_all_iff filter_empty_conv)
qed

lemma loop_ok:
  assumes b: "share_base s" and c: "calls_ok s (sh_calls s)" and k: "kept s (sh_calls s)"
    and free: "list_all (\<lambda>d. \<not> starts_share d) (sh_calls s)" and room: "room < sh_next s"
    and known: "\<And>i. i \<in> set (before @ todo) \<Longrightarrow> i < sh_next s"
    and sub: "set (sh_screen s) \<subseteq> set (before @ todo)" and live: "\<And>i. i \<in> set (before @ todo) \<Longrightarrow> live_local s i \<Longrightarrow> i \<in> set (sh_screen s)"
  shows "share_ok (share_loop room before todo s)"
proof -
  have "filter starts_share (sh_calls s) = []" using free by (simp add: filter_empty_conv list_all_iff)
  then have "calls_ok s (SharePublishing room before todo # sh_calls s)"
    using c room known sub live by (auto simp: calls_ok_def share_fits_def camera_fits_def)
  moreover have "kept s (SharePublishing room before todo # sh_calls s)" using k by (auto simp: kept_def)
  ultimately have "share_ok (await_share (SharePublishing room before todo) s)" using b by (intro awaiting_ok)
  then show ?thesis using published_ok[OF b c k] by (simp add: share_loop_def)
qed

lemma captured_ok:
  assumes a: "answering s (ShareCapturing room)"
  shows "share_ok (share_captured room kinds s)"
proof (cases kinds)
  case None
  have "share_ok s" by (rule answering_ok[OF a]) simp
  then show ?thesis by (simp add: share_captured_def None log_ok)
next
  case (Some ks)
  note h = answering_kept[OF a, simplified]
  define ids where "ids = [sh_next s ..< sh_next s + length ks]"
  define s1 where "s1 = s\<lparr>sh_tracks := (\<lambda>i. if i \<in> set ids then \<lparr>lt_kind = ks ! (i - sh_next s), lt_live = True\<rparr> else sh_tracks s i),
    sh_next := sh_next s + length ks, sh_screen := ids\<rparr>"
  have empty: "sh_screen s = []" and room: "room < sh_next s" using a by (auto simp: answering_def calls_ok_def share_fits_def)
  have live: "live_local s1 i \<longleftrightarrow> live_local s i \<or> i \<in> set ids" for i by (simp add: s1_def live_local_def)
  have cam: "is_camera s1 i = is_camera s i" "published_as src s1 = published_as src s" for i src
    by (simp_all add: s1_def is_camera_def published_as_def)
  have b: "share_base s1" using h(1) live cam unfolding share_base_def
    by (auto simp: s1_def ids_def)
  have f: "sh_calls s1 = sh_calls s" "sh_next s1 = sh_next s + length ks" "sh_screen s1 = ids" by (simp_all add: s1_def)
  have c: "calls_ok s1 (sh_calls s1)" using h(2,4)
    by (auto simp: calls_ok_def share_fits_def camera_fits_def cam f list_all_iff intro: trans_less_add1)
  have k: "kept s1 (sh_calls s1)" using h(3) empty by (auto simp: kept_def cam live f)
  have "share_ok (share_loop room [] ids s1)"
    using h(4) room by (intro loop_ok[OF b c k]) (simp_all add: s1_def ids_def)
  then show ?thesis by (simp add: share_captured_def Some Let_def ids_def[symmetric] s1_def[symmetric])
qed

lemma screens_only: "cameras (s\<lparr>sh_published := sh_published s @ [(room, screen_source i s, i)]\<rparr>) = cameras s"
  "cameras (s\<lparr>sh_published := filter (\<lambda>(r, src, j). \<not> (r = room \<and> is_screen src \<and> j \<in> J)) (sh_published s)\<rparr>) = cameras s"
  by (auto simp: cameras_def screen_source_def is_screen_def intro!: filter_cong)

lemma live_published [simp]: "live_local (s\<lparr>sh_published := p\<rparr>) = live_local s"
  by (auto simp: live_local_def)

lemma track_ok:
  assumes a: "answering s (SharePublishing room before todo)" and env: "fine \<longrightarrow> sh_room s = Some room" and todo: "todo \<noteq> []"
  shows "share_ok (share_track_answered room before todo fine s)"
proof -
  obtain i rest where t: "todo = i # rest" using todo by (cases todo) auto
  note h = answering_kept[OF a, simplified]
  have fit: "share_fits s (SharePublishing room before todo)" and room: "room < sh_next s"
    and known: "\<And>j. j \<in> set (before @ todo) \<Longrightarrow> j < sh_next s" using a by (auto simp: answering_def calls_ok_def)
  show ?thesis
  proof (cases fine)
    case True
    define s1 where "s1 = s\<lparr>sh_published := sh_published s @ [(room, screen_source i s, i)]\<rparr>"
    have cam: "cameras s1 = cameras s" unfolding s1_def by (rule screens_only)
    have b: "share_base s1" by (rule base_cong[OF cam _ _ h(1)]) (use env True in \<open>auto simp: s1_def\<close>)
    have c: "calls_ok s1 (sh_calls s1)"
      using calls_cong[OF cam h(2)] by (simp add: s1_def share_fits_def)
    have k: "kept s1 (sh_calls s1)" using h(3) by (simp add: kept_def is_camera_cong[OF cam]) (simp add: s1_def)
    have "share_ok (share_loop room (before @ [i]) rest s1)"
      using h(4) room fit t known by (intro loop_ok[OF b c k]) (auto simp: s1_def share_fits_def)
    then show ?thesis by (simp add: share_track_answered_def t True s1_def)
  next
    case False
    define s1 where "s1 = s\<lparr>sh_published := filter (\<lambda>(r, src, j). \<not> (r = room \<and> is_screen src \<and> j \<in> set before)) (sh_published s)\<rparr>"
    have cam: "cameras s1 = cameras s" unfolding s1_def by (rule screens_only)
    have b: "share_base s1" by (rule base_cong[OF cam _ _ h(1)]) (auto simp: s1_def)
    have "calls_ok s1 (sh_calls s1)"
      using calls_cong[OF cam h(2)] by (simp add: s1_def share_fits_def)
    moreover have "share_fits s1 (ShareUndoing room (before @ todo))" using fit by (simp add: share_fits_def s1_def)
    moreover have "filter starts_share (sh_calls s) = []" using h(4) by (simp add: filter_empty_conv list_all_iff)
    ultimately have c: "calls_ok s1 (ShareUndoing room (before @ todo) # sh_calls s1)"
      using room known by (simp add: calls_ok_def camera_fits_def s1_def)
    have "kept s1 (ShareUndoing room (before @ todo) # sh_calls s1)" using h(3)
      by (simp add: kept_def is_camera_cong[OF cam]) (auto simp: s1_def)
    with awaiting_ok[OF b c] show ?thesis by (simp add: share_track_answered_def t False s1_def)
  qed
qed

lemma undone_ok:
  assumes a: "answering s (ShareUndoing room ids)"
  shows "share_ok (share_undone ids s)"
proof -
  note h = answering_kept[OF a, simplified]
  define s1 where "s1 = (stop_local ids s)\<lparr>sh_screen := [], sh_on_ended := filter (\<lambda>i. i \<notin> set ids) (sh_on_ended s)\<rparr>"
  have sub: "set (sh_screen s) \<subseteq> set ids" using a by (auto simp: answering_def calls_ok_def share_fits_def)
  have live: "live_local s1 i \<longleftrightarrow> live_local s i \<and> i \<notin> set ids" for i by (simp add: s1_def live_local_def stop_local_def)
  have f: "sh_room s1 = sh_room s" "sh_next s1 = sh_next s" "sh_calls s1 = sh_calls s" "sh_published s1 = sh_published s"
    "sh_camera_shown s1 = sh_camera_shown s" "sh_screen s1 = []" by (simp_all add: s1_def)
  have cam: "is_camera s1 i = is_camera s i" for i by (simp add: is_camera_def f)
  have b: "share_base (refresh_shares s1)"
    by (rule refresh_base) (use base_facts[OF h(1)] in \<open>auto simp: f live cam simp del: refresh_fields\<close>)
  have "calls_ok (refresh_shares s1) (sh_calls s) \<and> kept (refresh_shares s1) (sh_calls s)"
    by (rule emptied[OF h(1-3) _ _ _ _ _ b]) (use sub in \<open>auto simp: f live cam\<close>)
  then have "share_ok (refresh_shares s1)" using b by (simp add: share_ok_def f)
  then show ?thesis by (simp add: share_undone_def s1_def log_ok)
qed

lemma stopped_ok: "share_ok s \<Longrightarrow> share_ok (stop_local ids s)"
proof -
  assume ok: "share_ok s"
  have c: "cameras (stop_local ids s) = cameras s" by simp
  have "share_base (stop_local ids s)" by (rule base_cong[OF c]) (use ok in \<open>auto simp: share_ok_def\<close>)
  moreover have "calls_ok (stop_local ids s) (sh_calls s)"
    by (rule calls_cong[OF c]) (use ok in \<open>auto simp: share_ok_def share_fits_def\<close>)
  ultimately show ?thesis using ok by (auto simp: share_ok_def kept_def is_camera_cong[OF c])
qed

lemma ended_ok: "share_ok s \<Longrightarrow> share_ok (share_ended i s)"
  using stopped_ok[of s "[i]"] end_ok[of "stop_local [i] s" "sh_calls s"]
  by (auto simp: share_ended_def Let_def share_ok_def split: option.split)

section \<open>Camera\<close>

lemma start_camera_ok:
  assumes ok: "share_ok s" and free: "list_all starts_share (sh_calls s)"
  shows "share_ok (startCamera s)"
proof (cases "sh_room s")
  case None
  then show ?thesis using log_ok(2)[OF ok] by (simp add: startCamera_def)
next
  case (Some room)
  show ?thesis
  proof (cases "sh_camera_shown s")
    case None
    then have "published_as SourceCamera s = None" using ok by (simp add: share_ok_def share_base_def)
    then have none: "\<not> is_camera s i" for i using camera_shown by blast
    have "filter (\<lambda>c. \<not> starts_share c) (sh_calls s) = []" using free by (simp add: filter_empty_conv list_all_iff)
    moreover have "room < sh_next s" using ok Some by (simp add: share_ok_def share_base_def)
    ultimately have "calls_ok s (CameraCapturing room # sh_calls s)" using ok none
      by (auto simp: share_ok_def calls_ok_def share_fits_def camera_fits_def)
    moreover have "kept s (CameraCapturing room # sh_calls s)" using ok by (auto simp: share_ok_def kept_def)
    ultimately have "share_ok (await_share (CameraCapturing room) s)" using ok by (intro awaiting_ok) (auto simp: share_ok_def)
    then show ?thesis by (simp add: startCamera_def Some None)
  qed (simp add: startCamera_def Some ok)
qed

text \<open>While a camera starts, none is published.\<close>

lemma camera_alone:
  assumes "answering s c" and "\<not> starts_share c"
  shows "\<not> is_camera s i" "list_all starts_share (sh_calls s)" "calls_ok s (sh_calls s)" "share_base s"
  using assms by (auto simp: answering_def calls_ok_def camera_fits_def list_all_iff filter_empty_conv split: if_splits)

lemma camera_captured_ok:
  assumes a: "answering s (CameraCapturing room)"
  shows "share_ok (camera_captured room video s)"
proof -
  have ok: "share_ok s" by (rule answering_ok[OF a]) simp
  note h = camera_alone[OF a, simplified]
  let ?i = "sh_next s"
  define s1 where "s1 = s\<lparr>sh_tracks := (sh_tracks s)(?i := \<lparr>lt_kind = VideoKind, lt_live = True\<rparr>), sh_next := ?i + 1, sh_camera := Some ?i\<rparr>"
  have live: "live_local s1 j \<longleftrightarrow> live_local s j \<or> j = ?i" for j by (simp add: s1_def live_local_def)
  have cam: "is_camera s1 j = is_camera s j" "published_as src s1 = published_as src s" for j src
    by (simp_all add: s1_def is_camera_def published_as_def)
  have f: "sh_room s1 = sh_room s" "sh_published s1 = sh_published s" "sh_next s1 = ?i + 1" "sh_screen s1 = sh_screen s"
    "sh_calls s1 = sh_calls s" "sh_camera_shown s1 = sh_camera_shown s" by (simp_all add: s1_def)
  have b: "share_base s1" using h(1,4) unfolding share_base_def cam f live by (auto intro: less_SucI)
  have room: "room < ?i" using a by (simp add: answering_def calls_ok_def)
  have old: "call_room c < ?i" "starts_share c" "\<And>j. j \<in> set (call_tracks c) \<Longrightarrow> j < ?i" "share_fits s c" if "c \<in> set (sh_calls s)" for c
    using h(2,3) that by (auto simp: calls_ok_def list_all_iff)
  have fits: "share_fits s1 c" if c: "c \<in> set (sh_calls s)" for c
    using old(4)[OF c] old(3)[OF c] unfolding share_fits_def f live by blast
  have no: "filter (\<lambda>c. \<not> starts_share c) (sh_calls s) = []" using h(2) by (simp add: filter_empty_conv list_all_iff)
  have one: "length (filter starts_share (sh_calls s)) \<le> 1" using h(3) by (simp add: calls_ok_def)
  have "calls_ok s1 (CameraPublishing room ?i # sh_calls s1)"
    unfolding calls_ok_def f
  proof (intro conjI ballI)
    show "length (filter starts_share (CameraPublishing room ?i # sh_calls s)) \<le> 1"
      "length (filter (\<lambda>c. \<not> starts_share c) (CameraPublishing room ?i # sh_calls s)) \<le> 1" using one by (simp_all add: no)
    fix c assume c: "c \<in> set (CameraPublishing room ?i # sh_calls s)"
    show "call_room c < ?i + 1" using c old(1) room by fastforce
    show "share_fits s1 c" using c fits by (auto simp: share_fits_def)
    show "camera_fits s1 c" using h(1) by (simp add: camera_fits_def cam)
    fix j assume "j \<in> set (call_tracks c)"
    then show "j < ?i + 1" using c old(3) by fastforce
  qed
  moreover have "kept s1 (CameraPublishing room ?i # sh_calls s1)" using ok unfolding share_ok_def kept_def live cam f by auto
  ultimately have "share_ok (await_share (CameraPublishing room ?i) s1)" by (rule awaiting_ok[OF b])
  then show ?thesis using ok by (cases video) (simp_all add: camera_captured_def Let_def s1_def log_ok split: bool.split)
qed

lemma camera_published_ok:
  assumes a: "answering s (CameraPublishing room i)" and env: "fine \<Longrightarrow> sh_room s = Some room"
  shows "share_ok (camera_published room i fine m s)"
proof (cases fine)
  case True
  note h = camera_alone[OF a, simplified]
  define s1 where "s1 = s\<lparr>sh_published := sh_published s @ [(room, SourceCamera, i)], sh_facing := cameraFacingModeFromTrack m FacingUser\<rparr>"
  have room: "room < sh_next s" using a by (simp add: answering_def calls_ok_def)
  have cam: "is_camera s1 j \<longleftrightarrow> j = i" for j using h(1)[of j] env[OF True] by (auto simp: s1_def is_camera_def)
  have live: "live_local s1 j = live_local s j" for j by (simp add: s1_def live_local_def)
  have f: "sh_room s1 = sh_room s" "sh_next s1 = sh_next s" "sh_calls s1 = sh_calls s" "sh_camera_shown s1 = sh_camera_shown s"
    "set (sh_published s1) = insert (room, SourceCamera, i) (set (sh_published s))" "sh_screen s1 = sh_screen s" by (simp_all add: s1_def)
  have b: "share_base (refresh_shares s1)"
    by (rule refresh_base) (use base_facts[OF h(4)] room in \<open>auto simp: f live cam\<close>)
  have "calls_ok (refresh_shares s1) (sh_calls s)" using h(2,3)
    by (auto simp: calls_ok_def share_fits_def camera_fits_def f live list_all_iff)
  moreover have "kept (refresh_shares s1) (sh_calls s)" using a h(1) by (auto simp: answering_def kept_def f live cam)
  ultimately have "share_ok (refresh_shares s1)" using b by (simp add: share_ok_def f)
  then show ?thesis by (simp add: camera_published_def True s1_def Let_def log_ok)
next
  case False
  note h = camera_alone[OF a, simplified]
  have k: "kept s (CameraPublishing room i # sh_calls s)" using a by (simp add: answering_def)
  have c: "cameras (stop_local [i] s) = cameras s" by simp
  have "share_base (stop_local [i] s)" by (rule base_cong[OF c]) (use h(4) in auto)
  moreover have "calls_ok (stop_local [i] s) (sh_calls s)"
    by (rule calls_cong[OF c h(3)]) (auto simp: share_fits_def)
  moreover have "kept (stop_local [i] s) (sh_calls s)" using k by (auto simp: kept_def is_camera_cong[OF c])
  ultimately have "share_ok (stop_local [i] s)" by (simp add: share_ok_def)
  then show ?thesis by (simp add: camera_published_def False log_ok)
qed

lemma stop_camera_ok:
  assumes ok: "share_ok s"
  shows "share_ok (stopCamera s)"
proof (cases "sh_room s")
  case (Some room)
  define s1 where "s1 = take_down (\<lambda>src. src = SourceCamera) room s"
  define s2 where "s2 = (case sh_camera s1 of None \<Rightarrow> s1 | Some i \<Rightarrow> stop_local [i] s1)\<lparr>sh_camera := None, sh_facing := FacingUser\<rparr>"
  have base: "share_base s" "calls_ok s (sh_calls s)" "kept s (sh_calls s)" using ok by (simp_all add: share_ok_def)
  have f: "sh_room s2 = sh_room s" "sh_next s2 = sh_next s" "sh_calls s2 = sh_calls s" "sh_camera_shown s2 = sh_camera_shown s"
    "sh_published s2 = filter (\<lambda>(r, src, i). \<not> (r = room \<and> src = SourceCamera)) (sh_published s)" "sh_screen s2 = sh_screen s"
    by (simp_all add: s2_def s1_def take_down_def split: option.split)
  have live: "live_local s2 j \<longleftrightarrow> live_local s j \<and> sh_camera s \<noteq> Some j" for j
    by (auto simp: s2_def s1_def take_down_def live_local_def stop_local_def split: option.split)
  have cam: "\<not> is_camera s2 j" for j by (auto simp: is_camera_def f Some)
  have dead: "\<not> live_local s2 j" if "is_camera s j" for j using that base(1) by (auto simp: live share_base_def)
  have b: "share_base (refresh_shares s2)"
    by (rule refresh_base) (use base_facts[OF base(1)] in \<open>auto simp: f live cam\<close>)
  have "calls_ok (refresh_shares s2) (sh_calls s)" using base(2)
    by (auto simp: calls_ok_def share_fits_def camera_fits_def f live cam)
  moreover have "kept (refresh_shares s2) (sh_calls s)" using base(3) dead by (auto simp: kept_def f live cam)
  ultimately have "share_ok (refresh_shares s2)" using b by (simp add: share_ok_def f)
  from log_ok(1)[OF log_ok(6)[OF this]] show ?thesis
    unfolding s2_def s1_def stopCamera_def Some Let_def option.case by blast
qed (simp add: stopCamera_def ok)

section \<open>Runs\<close>

lemma enter_ok:
  assumes ok: "share_ok s" and none: "sh_room s = None"
  shows "share_ok (s\<lparr>sh_room := Some (sh_next s), sh_next := Suc (sh_next s)\<rparr>)"
proof -
  let ?t = "s\<lparr>sh_room := Some (sh_next s), sh_next := Suc (sh_next s)\<rparr>"
  have old: "r < sh_next s" if "(r, src, i) \<in> set (sh_published s)" for r src i using ok that by (auto simp: share_ok_def share_base_def)
  have cam: "\<not> is_camera ?t i" "\<not> is_camera s i" for i using old none by (fastforce simp: is_camera_def)+
  have shown: "published_as src ?t = None" "published_as src s = None" for src using old none by (fastforce simp: published_none)+
  have live: "live_local ?t i = live_local s i" for i by (simp add: live_local_def)
  have "share_base ?t" using ok by (auto simp: share_ok_def share_base_def live cam shown intro: less_SucI)
  moreover have "calls_ok ?t (sh_calls s)" using ok
    by (auto simp: share_ok_def calls_ok_def share_fits_def camera_fits_def live cam intro: less_SucI)
  moreover have "kept ?t (sh_calls s)" using ok by (auto simp: share_ok_def kept_def live cam)
  ultimately show ?thesis by (simp add: share_ok_def)
qed

lemma leave_shares_ok:
  assumes ok: "share_ok s"
  shows "share_ok (leave_shares s)"
proof -
  let ?t = "leave_shares s"
  have f: "sh_room ?t = None" "sh_camera_shown ?t = None" "sh_next ?t = sh_next s" "sh_calls ?t = sh_calls s" "sh_screen ?t = []"
    "sh_published ?t = sh_published s" by (simp_all add: leave_shares_def)
  have live: "\<not> live_local ?t i" for i by (simp add: leave_shares_def live_local_def)
  have cam: "\<not> is_camera ?t i" for i by (simp add: is_camera_def f)
  have "published_as SourceCamera ?t = None" by (simp add: published_none f)
  then have "share_base ?t" using ok by (auto simp: share_ok_def share_base_def f live cam)
  moreover have "calls_ok ?t (sh_calls s)" using ok
    by (auto simp: share_ok_def calls_ok_def share_fits_def camera_fits_def f live cam)
  ultimately show ?thesis by (simp add: share_ok_def kept_def f live)
qed

lemma share_answer_ok:
  assumes a: "answering s c" and env: "case c of SharePublishing room before todo \<Rightarrow> a = ShareRefused \<or> sh_room s = Some room
         | CameraPublishing room j \<Rightarrow> a = ShareRefused \<or> sh_room s = Some room | _ \<Rightarrow> True"
  shows "share_ok (answer_share c a s)"
proof (cases c)
  case (SharePublishing room before todo)
  show ?thesis
  proof (cases "todo = []")
    case True
    then show ?thesis using answering_kept[OF assms(1)] by (simp add: SharePublishing share_track_answered_def share_ok_def)
  next
    case False
    have "share_ok (share_track_answered room before todo (a \<noteq> ShareRefused) s)"
      using assms False by (intro track_ok) (auto simp: SharePublishing)
    then show ?thesis by (simp add: SharePublishing)
  qed
next
  case (CameraPublishing room i)
  have "share_ok (camera_published room i (a \<noteq> ShareRefused) (case a of ShareOk m \<Rightarrow> m | _ \<Rightarrow> None) s)"
    using assms by (intro camera_published_ok) (auto simp: CameraPublishing)
  then show ?thesis by (simp add: CameraPublishing)
qed (use assms(1) in \<open>simp_all add: captured_ok undone_ok camera_captured_ok\<close>)

lemma share_step_ok:
  assumes "share_ok s" and "share_allows op s"
  shows "share_ok (share_step op s)"
proof (cases op)
  case (ShareAnswered i a)
  show ?thesis
  proof (cases "i < length (sh_calls s)")
    case True
    let ?t = "s\<lparr>sh_calls := take i (sh_calls s) @ drop (Suc i) (sh_calls s)\<rparr>"
    have "share_ok (answer_share (sh_calls s ! i) a ?t)"
      using assms True by (intro share_answer_ok answering_calls) (auto simp: ShareAnswered split: share_call.splits)
    then show ?thesis by (simp add: ShareAnswered True)
  qed (simp add: ShareAnswered assms)
qed (use assms in \<open>simp_all add: start_ok stop_ok ended_ok start_camera_ok stop_camera_ok enter_ok leave_shares_ok log_ok\<close>)

lemma init_share_ok: "share_ok init_share"
  by (simp add: share_ok_def share_base_def calls_ok_def kept_def init_share_def live_local_def is_camera_def published_as_def)

lemma share_run_ok: "share_run ops s \<Longrightarrow> share_ok s \<Longrightarrow> share_ok (fold share_step ops s)"
  by (induction ops arbitrary: s) (simp_all add: share_step_ok)

text \<open>Nothing waits: what is live is listed or published, and stopping both ends it.\<close>

lemma all_listed: "share_ok s \<Longrightarrow> sh_calls s = [] \<Longrightarrow> live_local s i \<Longrightarrow> i \<in> set (sh_screen s) \<or> sh_camera s = Some i"
  by (auto simp: share_ok_def kept_def share_base_def)

lemma end_live: "live_local (end_share room s) i \<longleftrightarrow> live_local s i \<and> i \<notin> set (sh_screen s)"
  by (simp add: end_share_def Let_def send_share_def refresh_shares_def take_down_def live_local_def stop_local_def)

lemma end_camera: "is_camera (end_share room s) i = is_camera s i"
  by (auto simp: end_share_def Let_def send_share_def refresh_shares_def take_down_def is_camera_def is_screen_def stop_local_def)

lemma stop_camera_live:
  assumes "share_ok s" and "sh_room s = Some r" and "is_camera s i"
  shows "\<not> live_local (stopCamera s) i"
proof -
  have "sh_camera s = Some i" using assms by (auto simp: share_ok_def share_base_def)
  then show ?thesis
    by (simp add: stopCamera_def assms(2) Let_def send_share_def refresh_shares_def take_down_def live_local_def stop_local_def)
qed

lemma stop_camera_dead: "\<not> live_local s i \<Longrightarrow> \<not> live_local (stopCamera s) i"
  by (auto simp: stopCamera_def Let_def send_share_def refresh_shares_def take_down_def live_local_def stop_local_def split: option.split)

lemma nothing_left:
  assumes ok: "share_ok s" and none: "sh_calls s = []" and room: "sh_room s = Some r"
  shows "\<not> live_local (stopCamera (stopScreenShare s)) i"
proof (cases "live_local (stopScreenShare s) i")
  case True
  then have "live_local s i" "i \<notin> set (sh_screen s)" by (simp_all add: stopScreenShare_def room end_live)
  then have "is_camera s i" using ok none by (auto simp: share_ok_def kept_def)
  then have "is_camera (stopScreenShare s) i" by (simp add: stopScreenShare_def room end_camera)
  moreover have "sh_room (stopScreenShare s) = Some r" by (simp add: stopScreenShare_def room)
  ultimately show ?thesis using stop_camera_live[OF stop_ok[OF ok]] by blast
qed (rule stop_camera_dead)

end
