(* ===== verification/RtcStats.thy ===== *)
theory RtcStats
  imports VoiceDiagnostics
begin

text \<open>
  Reading the statistics of a peer connection in \<^verbatim>\<open>src/webrtc/hooks/useWebrtcDiagnostics.ts\<close> and
  \<^verbatim>\<open>src/webrtc/screenAudioDiagnostics.ts\<close>. A report is an object with an id, a type and further fields, which are
  texts, numbers or flags. The map of the reports by id keeps the last one of an id.
\<close>

section \<open>Reports\<close>

record rtc_report =
  rr_id :: string
  rr_type :: string
  rr_texts :: "(string \<times> string) list"
  rr_numbers :: "(string \<times> jsnum) list"
  rr_flags :: "string list"

definition text_field :: "rtc_report \<Rightarrow> string \<Rightarrow> string option" where
  "text_field r k = map_of (rr_texts r) k"

definition number_field :: "rtc_report \<Rightarrow> string \<Rightarrow> jsnum option" where
  "number_field r k = map_of (rr_numbers r) k"

definition finite_field :: "rtc_report \<Rightarrow> string \<Rightarrow> real option" where
  "finite_field r k = finiteStat (number_field r k)"

definition flag_field :: "rtc_report \<Rightarrow> string \<Rightarrow> bool" where
  "flag_field r k \<longleftrightarrow> k \<in> set (rr_flags r)"

definition by_id :: "rtc_report list \<Rightarrow> string \<Rightarrow> rtc_report option" where
  "by_id reports i = find (\<lambda>r. rr_id r = i) (rev reports)"

text \<open>A field that names another report.\<close>

definition linked :: "rtc_report list \<Rightarrow> rtc_report \<Rightarrow> string \<Rightarrow> rtc_report option" where
  "linked reports r k = (case text_field r k of None \<Rightarrow> None | Some i \<Rightarrow> if i = [] then None else by_id reports i)"

definition or_else :: "'a option \<Rightarrow> 'a option \<Rightarrow> 'a option" where
  "or_else a b = (case a of None \<Rightarrow> b | Some x \<Rightarrow> Some x)"

definition media_kind :: "rtc_report \<Rightarrow> string option" where
  "media_kind r = or_else (text_field r ''kind'') (text_field r ''mediaType'')"

definition text_of :: "rtc_report option \<Rightarrow> string \<Rightarrow> string option" where
  "text_of r k = Option.bind r (\<lambda>x. text_field x k)"

definition finite_of :: "rtc_report option \<Rightarrow> string \<Rightarrow> real option" where
  "finite_of r k = Option.bind r (\<lambda>x. finite_field x k)"

section \<open>Outbound streams of a screen share\<close>

definition source_identifier :: "rtc_report list \<Rightarrow> rtc_report \<Rightarrow> string" where
  "source_identifier reports r =
     (case or_else (text_field r ''trackIdentifier'') (or_else (text_of (linked reports r ''mediaSourceId'') ''trackIdentifier'')
             (text_of (linked reports r ''trackId'') ''trackIdentifier'')) of
        None \<Rightarrow> [] | Some i \<Rightarrow> i)"

definition outbound_matches :: "string \<Rightarrow> rtc_report list \<Rightarrow> string \<Rightarrow> rtc_report list" where
  "outbound_matches kind reports track =
     filter (\<lambda>r. rr_type r = ''outbound-rtp'' \<and> media_kind r = Some kind \<and> \<not> flag_field r ''isRemote'' \<and>
                 source_identifier reports r = track) reports"

definition remote_inbound :: "rtc_report list \<Rightarrow> rtc_report \<Rightarrow> rtc_report option" where
  "remote_inbound reports r = find (\<lambda>c. rr_type c = ''remote-inbound-rtp'' \<and> text_field c ''localId'' = Some (rr_id r)) reports"

record outbound_sample =
  ob_width :: "real option"
  ob_height :: "real option"
  ob_fps :: "real option"
  ob_packets_sent :: "real option"
  ob_packets_lost :: "real option"
  ob_limitation :: "string option"
  ob_bytes :: "real option"
  ob_timestamp :: "real option"

definition outbound_of :: "rtc_report list \<Rightarrow> rtc_report \<Rightarrow> outbound_sample" where
  "outbound_of reports r =
     \<lparr>ob_width = finite_field r ''frameWidth'', ob_height = finite_field r ''frameHeight'', ob_fps = finite_field r ''framesPerSecond'',
      ob_packets_sent = finite_field r ''packetsSent'', ob_packets_lost = finite_of (remote_inbound reports r) ''packetsLost'',
      ob_limitation = text_field r ''qualityLimitationReason'', ob_bytes = finite_field r ''bytesSent'',
      ob_timestamp = finite_field r ''timestamp''\<rparr>"

definition sum_known :: "('a \<Rightarrow> real option) \<Rightarrow> 'a list \<Rightarrow> real option" where
  "sum_known key xs = (let vs = List.map_filter key xs in if vs = [] then None else Some (sum_list vs))"

definition max_known :: "('a \<Rightarrow> real option) \<Rightarrow> 'a list \<Rightarrow> real option" where
  "max_known key xs = (case List.map_filter key xs of [] \<Rightarrow> None | v # vs \<Rightarrow> Some (fold max vs v))"

text \<open>The layers of one video are taken together.\<close>

definition extractScreenShareOutboundSample :: "rtc_report list \<Rightarrow> string \<Rightarrow> outbound_sample option" where
  "extractScreenShareOutboundSample reports track =
     (case map (outbound_of reports) (outbound_matches ''video'' reports track) of
        [] \<Rightarrow> None
      | m # ms \<Rightarrow>
          let limits = List.map_filter ob_limitation (m # ms)
          in Some \<lparr>ob_width = max_known ob_width (m # ms), ob_height = max_known ob_height (m # ms), ob_fps = max_known ob_fps (m # ms),
               ob_packets_sent = sum_known ob_packets_sent (m # ms), ob_packets_lost = sum_known ob_packets_lost (m # ms),
               ob_limitation = or_else (find (\<lambda>x. x \<noteq> [] \<and> x \<noteq> ''none'') limits) (ob_limitation m),
               ob_bytes = sum_known ob_bytes (m # ms), ob_timestamp = max_known ob_timestamp (m # ms)\<rparr>)"

record audio_sample =
  as_packets_sent :: "real option"
  as_packets_lost :: "real option"
  as_codec :: "string option"
  as_channels :: "real option"
  as_bytes :: "real option"
  as_timestamp :: "real option"
  as_level :: "real option"
  as_energy :: "real option"
  as_duration :: "real option"

definition extractScreenShareAudioOutboundSample :: "rtc_report list \<Rightarrow> string \<Rightarrow> audio_sample option" where
  "extractScreenShareAudioOutboundSample reports track =
     (case outbound_matches ''audio'' reports track of
        [] \<Rightarrow> None
      | r # rs \<Rightarrow>
          let codec = linked reports r ''codecId''; energy = linked reports r ''mediaSourceId''
          in Some \<lparr>as_packets_sent = finite_field r ''packetsSent'', as_packets_lost = finite_of (remote_inbound reports r) ''packetsLost'',
               as_codec = text_of codec ''mimeType'', as_channels = finite_of codec ''channels'',
               as_bytes = finite_field r ''bytesSent'', as_timestamp = finite_field r ''timestamp'',
               as_level = finite_of energy ''audioLevel'', as_energy = finite_of energy ''totalAudioEnergy'',
               as_duration = finite_of energy ''totalSamplesDuration''\<rparr>)"

text \<open>The rate in kbit/s between two samples: counters that went back give none.\<close>

definition bitrate_between :: "real option \<Rightarrow> real option \<Rightarrow> real option \<Rightarrow> real option \<Rightarrow> int option" where
  "bitrate_between b0 t0 b1 t1 =
     (case (b0, t0, b1, t1) of
        (Some bytes0, Some time0, Some bytes1, Some time1) \<Rightarrow>
          if time0 < time1 \<and> bytes0 \<le> bytes1 then Some (js_round ((bytes1 - bytes0) * 8 / (time1 - time0))) else None
      | _ \<Rightarrow> None)"

section \<open>Inbound audio of a screen share\<close>

record inbound_sample =
  ib_level :: "real option"
  ib_energy :: "real option"
  ib_duration :: "real option"
  ib_lost :: "real option"
  ib_received :: "real option"
  ib_jitter_ms :: "real option"
  ib_concealed :: "real option"
  ib_silent_concealed :: "real option"

definition inbound_identifier :: "rtc_report list \<Rightarrow> rtc_report \<Rightarrow> string option" where
  "inbound_identifier reports r =
     or_else (text_field r ''trackIdentifier'')
       (Option.bind (text_field r ''trackId'') (\<lambda>i. text_of (by_id reports i) ''trackIdentifier''))"

definition extractScreenAudioInboundSample :: "rtc_report list \<Rightarrow> string \<Rightarrow> inbound_sample option" where
  "extractScreenAudioInboundSample reports track =
     map_option (\<lambda>r. \<lparr>ib_level = finite_field r ''audioLevel'', ib_energy = finite_field r ''totalAudioEnergy'',
         ib_duration = finite_field r ''totalSamplesDuration'', ib_lost = finite_field r ''packetsLost'',
         ib_received = finite_field r ''packetsReceived'', ib_jitter_ms = map_option (\<lambda>j. j * 1000) (finite_field r ''jitter''),
         ib_concealed = finite_field r ''concealedSamples'', ib_silent_concealed = finite_field r ''silentConcealedSamples''\<rparr>)
       (find (\<lambda>r. rr_type r = ''inbound-rtp'' \<and> media_kind r = Some ''audio'' \<and> \<not> flag_field r ''isRemote'' \<and>
                  inbound_identifier reports r = Some track) reports)"

section \<open>Round trips\<close>

definition median :: "real list \<Rightarrow> real option" where
  "median values =
     (if values = [] then None
      else
        let sorted = sort values; mid = length sorted div 2
        in if odd (length sorted) then Some (sorted ! mid) else Some ((sorted ! (mid - 1) + sorted ! mid) / 2))"

definition sanitizeRttMs :: "jsnum \<Rightarrow> real option" where
  "sanitizeRttMs raw =
     (case raw of
        Fin x \<Rightarrow> if x \<le> 0 then None else Some (clamp 1 5000 (of_int (js_round (if x \<le> 10 then x * 1000 else x))))
      | _ \<Rightarrow> None)"

definition js_quotient :: "jsnum \<Rightarrow> jsnum \<Rightarrow> jsnum" where
  "js_quotient a b = (case (a, b) of (Fin x, Fin y) \<Rightarrow> Fin (x / y) | (Fin x, PosInf) \<Rightarrow> Fin 0 | _ \<Rightarrow> NaN)"

fun js_positive :: "jsnum \<Rightarrow> bool" where
  "js_positive (Fin x) = (0 < x)"
| "js_positive PosInf = True"
| "js_positive _ = False"

definition candidatePairRttMs :: "rtc_report option \<Rightarrow> real option" where
  "candidatePairRttMs pair =
     (case pair of
        None \<Rightarrow> None
      | Some r \<Rightarrow>
          if rr_type r \<noteq> ''candidate-pair'' then None
          else (case number_field r ''currentRoundTripTime'' of
              Some t \<Rightarrow> sanitizeRttMs t
            | None \<Rightarrow>
                (case (number_field r ''totalRoundTripTime'', number_field r ''responsesReceived'') of
                   (Some t, Some n) \<Rightarrow> if js_positive n then sanitizeRttMs (js_quotient t n) else None
                 | _ \<Rightarrow> None)))"

text \<open>The selected pair of a transport, else a selected pair, else what the other side reports.\<close>

definition transport_samples :: "rtc_report list \<Rightarrow> real list" where
  "transport_samples reports =
     List.map_filter (\<lambda>r. candidatePairRttMs (linked reports r ''selectedCandidatePairId'')) (filter (\<lambda>r. rr_type r = ''transport'') reports)"

definition pair_samples :: "rtc_report list \<Rightarrow> real list" where
  "pair_samples reports =
     List.map_filter (\<lambda>r. candidatePairRttMs (Some r))
       (filter (\<lambda>r. rr_type r = ''candidate-pair'' \<and> text_field r ''state'' = Some ''succeeded'' \<and>
                    (flag_field r ''nominated'' \<or> flag_field r ''selected'')) reports)"

definition remote_samples :: "rtc_report list \<Rightarrow> real list" where
  "remote_samples reports =
     List.map_filter (\<lambda>r. Option.bind (number_field r ''roundTripTime'') sanitizeRttMs)
       (filter (\<lambda>r. rr_type r = ''remote-inbound-rtp'') reports)"

definition extractPeerConnectionRttMs :: "rtc_report list \<Rightarrow> real option" where
  "extractPeerConnectionRttMs reports =
     (if transport_samples reports \<noteq> [] then median (transport_samples reports)
      else if pair_samples reports \<noteq> [] then median (pair_samples reports)
      else median (remote_samples reports))"

section \<open>Loss and jitter of the inbound audio\<close>

definition stat_or_zero :: "jsnum option \<Rightarrow> real" where
  "stat_or_zero v = (case v of Some (Fin x) \<Rightarrow> x | _ \<Rightarrow> 0)"

definition inbound_audio :: "rtc_report list \<Rightarrow> rtc_report list" where
  "inbound_audio reports =
     filter (\<lambda>r. rr_type r = ''inbound-rtp'' \<and> \<not> flag_field r ''isRemote'' \<and> media_kind r = Some ''audio'') reports"

definition jitter_of :: "rtc_report \<Rightarrow> real option" where
  "jitter_of r = (case number_field r ''jitter'' of Some (Fin x) \<Rightarrow> if 0 \<le> x then Some (x * 1000) else None | _ \<Rightarrow> None)"

record rtc_reading =
  rd_rtts :: "real list"
  rd_jitters :: "real list"
  rd_lost :: real
  rd_received :: real

text \<open>\<^verbatim>\<open>readRttAndQuality\<close> over the peer connections; one whose statistics fail adds nothing.\<close>

definition read_connection :: "rtc_report list option \<Rightarrow> rtc_reading \<Rightarrow> rtc_reading" where
  "read_connection stats d =
     (case stats of
        None \<Rightarrow> d
      | Some reports \<Rightarrow>
          \<lparr>rd_rtts = rd_rtts d @ (case extractPeerConnectionRttMs reports of None \<Rightarrow> [] | Some x \<Rightarrow> [x]),
           rd_jitters = rd_jitters d @ List.map_filter jitter_of (inbound_audio reports),
           rd_lost = rd_lost d + sum_list (map (\<lambda>r. stat_or_zero (number_field r ''packetsLost'')) (inbound_audio reports)),
           rd_received = rd_received d + sum_list (map (\<lambda>r. stat_or_zero (number_field r ''packetsReceived'')) (inbound_audio reports))\<rparr>)"

definition readRttAndQuality :: "rtc_report list option list \<Rightarrow> rtc_reading" where
  "readRttAndQuality connections = fold read_connection connections \<lparr>rd_rtts = [], rd_jitters = [], rd_lost = 0, rd_received = 0\<rparr>"

section \<open>The median is not moved by a minority\<close>

lemma sorted_below:
  assumes "sorted ys" and "k < length ys" and "ys ! k < (lo :: real)"
  shows "k + 1 \<le> length (filter (\<lambda>x. x < lo) ys)"
proof -
  have "ys ! j < lo" if "j \<le> k" for j using sorted_nth_mono[OF assms(1) that assms(2)] assms(3) by linarith
  then have "{..k} \<subseteq> {i. i < length ys \<and> ys ! i < lo}" using assms(2) by auto
  then have "card {..k} \<le> card {i. i < length ys \<and> ys ! i < lo}" by (intro card_mono) auto
  then show ?thesis by (simp add: length_filter_conv_card)
qed

lemma sorted_above:
  assumes "sorted ys" and "k < length ys" and "(hi :: real) < ys ! k"
  shows "length ys - k \<le> length (filter (\<lambda>x. hi < x) ys)"
proof -
  have "hi < ys ! j" if "k \<le> j" "j < length ys" for j using sorted_nth_mono[OF assms(1) that] assms(3) by linarith
  then have "{k..<length ys} \<subseteq> {i. i < length ys \<and> hi < ys ! i}" by auto
  then have "card {k..<length ys} \<le> card {i. i < length ys \<and> hi < ys ! i}" by (intro card_mono) auto
  then show ?thesis by (simp add: length_filter_conv_card)
qed

definition is_between :: "real \<Rightarrow> real \<Rightarrow> real \<Rightarrow> bool" where
  "is_between lo hi x \<longleftrightarrow> lo \<le> x \<and> x \<le> hi"

lemma outside_count:
  "length (filter (is_between lo hi) ys) + length (filter (\<lambda>x. x < lo) ys) \<le> length ys"
  "length (filter (is_between lo hi) ys) + length (filter (\<lambda>x. hi < x) ys) \<le> length ys"
  by (induction ys) (auto simp: is_between_def)

lemma majority_at:
  assumes "sorted ys" and maj: "length ys < 2 * length (filter (is_between lo hi) ys)" and "k < length ys"
    and "length ys \<le> 2 * (k + 1)" and "2 * k \<le> length ys"
  shows "is_between lo hi (ys ! k)"
proof (rule ccontr)
  assume "\<not> is_between lo hi (ys ! k)"
  then consider "ys ! k < lo" | "hi < ys ! k" by (auto simp: is_between_def)
  then show False
  proof cases
    case 1
    then have "k + 1 \<le> length (filter (\<lambda>x. x < lo) ys)" by (rule sorted_below[OF assms(1,3)])
    then have "length ys \<le> 2 * length (filter (\<lambda>x. x < lo) ys)" using assms(4) by simp
    with maj outside_count(1)[of lo hi ys] show False by simp
  next
    case 2
    then have "length ys - k \<le> length (filter (\<lambda>x. hi < x) ys)" by (rule sorted_above[OF assms(1,3)])
    then have "length ys \<le> 2 * length (filter (\<lambda>x. hi < x) ys)" using assms(5) by simp
    with maj outside_count(2)[of lo hi ys] show False by simp
  qed
qed

lemma median_of_majority:
  assumes maj: "length xs < 2 * length (filter (is_between lo hi) xs)" and m: "median xs = Some m"
  shows "is_between lo hi m"
proof -
  let ?ys = "sort xs"
  have ne: "xs \<noteq> []" using m by (auto simp: median_def)
  have "mset (filter (is_between lo hi) ?ys) = mset (filter (is_between lo hi) xs)" by (simp add: mset_filter)
  then have "length (filter (is_between lo hi) ?ys) = length (filter (is_between lo hi) xs)" by (rule mset_eq_length)
  then have maj': "length ?ys < 2 * length (filter (is_between lo hi) ?ys)" using maj by simp
  note at = majority_at[OF sorted_sort maj']
  have len: "0 < length ?ys" using ne by simp
  show ?thesis
  proof (cases "odd (length xs)")
    case True
    then have "m = ?ys ! (length ?ys div 2)" using m ne by (simp add: median_def Let_def)
    moreover have "is_between lo hi (?ys ! (length ?ys div 2))" by (rule at) (use len in presburger)+
    ultimately show ?thesis by simp
  next
    case False
    then have "m = (?ys ! (length ?ys div 2 - 1) + ?ys ! (length ?ys div 2)) / 2" using m ne by (simp add: median_def Let_def)
    moreover have "even (length ?ys)" using False by simp
    then have e: "length ?ys = 2 * (length ?ys div 2)" by simp
    have "is_between lo hi (?ys ! (length ?ys div 2 - 1))" "is_between lo hi (?ys ! (length ?ys div 2))"
      by (rule at; use e len in presburger)+
    ultimately show ?thesis by (auto simp: is_between_def)
  qed
qed

lemma median_within: "list_all (is_between lo hi) xs \<Longrightarrow> median xs = Some m \<Longrightarrow> is_between lo hi m"
proof (rule median_of_majority)
  assume "list_all (is_between lo hi) xs" "median xs = Some m"
  then have "filter (is_between lo hi) xs = xs" "xs \<noteq> []" by (auto simp: list_all_iff median_def)
  then show "length xs < 2 * length (filter (is_between lo hi) xs)" by simp
qed

lemma sanitized: "sanitizeRttMs raw = Some x \<Longrightarrow> is_between 1 5000 x"
  by (auto simp: sanitizeRttMs_def is_between_def clamp_def split: jsnum.splits if_splits)

lemma pair_rtt: "candidatePairRttMs p = Some x \<Longrightarrow> is_between 1 5000 x"
  by (auto simp: candidatePairRttMs_def dest: sanitized split: option.splits if_splits)

lemma known_within: "(\<And>r x. f r = Some x \<Longrightarrow> is_between lo hi x) \<Longrightarrow> list_all (is_between lo hi) (List.map_filter f rs)"
  by (auto simp: list_all_iff List.map_filter_def)

lemma rtt_within: "extractPeerConnectionRttMs reports = Some x \<Longrightarrow> is_between 1 5000 x"
proof -
  have "list_all (is_between 1 5000) (transport_samples reports)" "list_all (is_between 1 5000) (pair_samples reports)"
    unfolding transport_samples_def pair_samples_def by (auto intro!: known_within dest: pair_rtt)
  moreover have "list_all (is_between 1 5000) (remote_samples reports)"
    unfolding remote_samples_def by (rule known_within) (auto simp: bind_eq_Some_conv dest: sanitized)
  moreover assume "extractPeerConnectionRttMs reports = Some x"
  ultimately show ?thesis using median_within by (auto simp: extractPeerConnectionRttMs_def split: if_splits)
qed

lemma read_rtts: "list_all (is_between 1 5000) (rd_rtts d) \<Longrightarrow> list_all (is_between 1 5000) (rd_rtts (fold read_connection cs d))"
  by (induction cs arbitrary: d) (auto simp: read_connection_def rtt_within split: option.split)

lemma reading_within: "list_all (is_between 1 5000) (rd_rtts (readRttAndQuality cs))"
  unfolding readRttAndQuality_def by (rule read_rtts) simp

end
