(* ===== verification/PingEstimate.thy ===== *)
theory PingEstimate
  imports RtcStats
begin

text \<open>
  The connection figures of a call in \<^verbatim>\<open>src/webrtc/hooks/useWebrtcDiagnostics.ts\<close>: the ping of the WebSocket, the
  round trip of the peer connections with its guard against outliers, loss and jitter, and the choice of the ping that
  is shown. Times are milliseconds of the clock; the statistics of a sample are read by \<open>RtcStats\<close>. The effects of React
  are steps; the last one runs after a step that changed what it depends on, and what it passes to \<^verbatim>\<open>setPingMs\<close> is evaluated
  when it is passed, as React does while no other update of the component waits.
\<close>

definition PING_WINDOW_SIZE :: nat where "PING_WINDOW_SIZE = 7"
definition RTC_BURST_SAMPLE_COUNT :: nat where "RTC_BURST_SAMPLE_COUNT = 6"
definition PING_STALE_AFTER_MS :: real where "PING_STALE_AFTER_MS = 7500"
definition MIN_RTC_SAMPLES_FOR_DISPLAY :: nat where "MIN_RTC_SAMPLES_FOR_DISPLAY = 3"

section \<open>Smoothing\<close>

definition averageAbsDelta :: "real list \<Rightarrow> real option" where
  "averageAbsDelta values =
     (if length values < 2 then None
      else Some (sum_list (map (\<lambda>(a, b). \<bar>b - a\<bar>) (zip values (tl values))) / real (length values - 1)))"

definition pushWindow :: "real list \<Rightarrow> real \<Rightarrow> nat \<Rightarrow> real list" where
  "pushWindow target value width = (let t = target @ [value] in if width < length t then tl t else t)"

definition smoothAsymmetric :: "real option \<Rightarrow> real \<Rightarrow> real \<Rightarrow> real \<Rightarrow> real" where
  "smoothAsymmetric prev nxt riseAlpha dropAlpha =
     (case prev of
        None \<Rightarrow> nxt
      | Some p \<Rightarrow> let alpha = (if nxt < p then dropAlpha else riseAlpha) in of_int (js_round (p * (1 - alpha) + nxt * alpha)))"

definition stableRtcPingTarget :: "real list \<Rightarrow> real option" where
  "stableRtcPingTarget samples = (if length samples < MIN_RTC_SAMPLES_FOR_DISPLAY then None else median samples)"

text \<open>\<^verbatim>\<open>Number(x.toFixed(1))\<close>\<close>

definition to_tenth :: "real \<Rightarrow> real" where
  "to_tenth x = of_int (js_round (x * 10)) / 10"

definition sample_interval :: "bool \<Rightarrow> bool \<Rightarrow> nat \<Rightarrow> nat" where
  "sample_interval diagnosticsEnabled hasScreenAudio sampleCount =
     (if diagnosticsEnabled \<and> hasScreenAudio then 500 else if sampleCount < RTC_BURST_SAMPLE_COUNT then 700 else 2500)"

section \<open>State\<close>

datatype ping_source = FromRtc | FromWs

record ping_state =
  pg_channel :: "string option"
  pg_connected :: bool
  pg_room :: string
  pg_ws_samples :: "real list"
  pg_ws_smoothed :: "real option"
  pg_ws_jitter :: "real option"
  pg_ws_channel :: "string option"
  pg_ws_ms :: "real option"
  pg_last_sent :: real
  pg_last_pong :: real
  pg_rtc_samples :: "real list"
  pg_rtc_smoothed :: "real option"
  pg_rtc_jitter :: "real option"
  pg_rtc_channel :: "string option"
  pg_rtc_at :: real
  pg_rtc_ms :: "real option"
  pg_totals :: "(real \<times> real) option"
  pg_loss :: "real option"
  pg_jitter :: "real option"
  pg_source :: "ping_source option"
  pg_ping :: "real option"
  pg_ping_jitter :: "real option"
  pg_epoch :: nat

definition pg_room_connected :: "ping_state \<Rightarrow> bool" where
  "pg_room_connected s \<longleftrightarrow> pg_room s = ''connected''"

section \<open>The ping of the WebSocket\<close>

definition drop_ws :: "ping_state \<Rightarrow> ping_state" where
  "drop_ws s = s\<lparr>pg_ws_samples := [], pg_ws_smoothed := None, pg_ws_jitter := None, pg_ws_channel := None, pg_ws_ms := None\<rparr>"

definition ws_active :: "ping_state \<Rightarrow> bool" where
  "ws_active s \<longleftrightarrow> pg_channel s \<noteq> None \<and> pg_connected s"

definition ws_tick :: "real \<Rightarrow> ping_state \<Rightarrow> ping_state" where
  "ws_tick now s =
     (if \<not> ws_active s then s
      else
        let s1 = (if pg_ws_channel s = pg_channel s \<and> 0 < pg_last_pong s \<and> PING_STALE_AFTER_MS \<le> now - pg_last_pong s
                  then drop_ws s else s)
        in s1\<lparr>pg_last_sent := now\<rparr>)"

definition ws_effect :: "real \<Rightarrow> ping_state \<Rightarrow> ping_state" where
  "ws_effect now s = (if \<not> ws_active s then drop_ws s else ws_tick now (s\<lparr>pg_last_sent := 0, pg_last_pong := 0\<rparr>))"

definition applyWsPing :: "real \<Rightarrow> ping_state \<Rightarrow> ping_state" where
  "applyWsPing rawMs s =
     (let bounded = clamp 1 5000 (of_int (js_round rawMs));
          samples = pushWindow (pg_ws_samples s) bounded PING_WINDOW_SIZE;
          target = (case median samples of None \<Rightarrow> bounded | Some m \<Rightarrow> m);
          smoothed = smoothAsymmetric (pg_ws_smoothed s) target (3 / 10) (6 / 10)
      in s\<lparr>pg_ws_samples := samples, pg_ws_smoothed := Some smoothed, pg_ws_channel := pg_channel s, pg_ws_ms := Some smoothed,
           pg_ws_jitter := map_option (\<lambda>j. of_int (js_round j)) (averageAbsDelta samples)\<rparr>)"

definition pong_received :: "jsnum \<Rightarrow> real \<Rightarrow> ping_state \<Rightarrow> ping_state" where
  "pong_received sentAt now s =
     (case sentAt of
        Fin t \<Rightarrow>
          if \<not> ws_active s \<or> t \<le> 0 \<or> t \<noteq> pg_last_sent s \<or> now - t \<le> 0 then s
          else applyWsPing (now - t) (s\<lparr>pg_last_pong := now\<rparr>)
      | _ \<Rightarrow> s)"

section \<open>The round trip of the call\<close>

definition drop_rtc :: "ping_state \<Rightarrow> ping_state" where
  "drop_rtc s = s\<lparr>pg_rtc_samples := [], pg_rtc_smoothed := None, pg_rtc_jitter := None, pg_rtc_channel := None, pg_rtc_at := 0, pg_rtc_ms := None\<rparr>"

text \<open>An outlier moves the target by a step at most.\<close>

definition guarded_target :: "real option \<Rightarrow> real \<Rightarrow> real" where
  "guarded_target prev target =
     (case prev of
        None \<Rightarrow> target
      | Some p \<Rightarrow> if 24 < target - p then p + 24 else if target - p < - 40 then p - 40 else target)"

definition applyRtt :: "real list \<Rightarrow> real \<Rightarrow> ping_state \<Rightarrow> ping_state" where
  "applyRtt samples now s =
     (case median samples of
        None \<Rightarrow>
          if \<not> pg_room_connected s \<or> pg_rtc_at s = 0 \<or> PING_STALE_AFTER_MS \<le> now - pg_rtc_at s then drop_rtc s else s
      | Some cycleMedian \<Rightarrow>
          let window = pushWindow (pg_rtc_samples s) (of_int (js_round cycleMedian)) PING_WINDOW_SIZE;
              s1 = s\<lparr>pg_rtc_samples := window, pg_rtc_at := now\<rparr>
          in (case stableRtcPingTarget window of
                None \<Rightarrow> s1\<lparr>pg_rtc_ms := None\<rparr>
              | Some steady \<Rightarrow>
                  let prev = pg_rtc_smoothed s1;
                      target = guarded_target prev (of_int (js_round steady));
                      bounded = clamp 1 5000 (smoothAsymmetric prev target (28 / 100) (6 / 10))
                  in s1\<lparr>pg_rtc_smoothed := Some bounded, pg_rtc_channel := pg_channel s1, pg_rtc_ms := Some bounded,
                       pg_rtc_jitter := map_option (\<lambda>j. of_int (js_round j)) (averageAbsDelta window)\<rparr>))"

definition loss_after :: "(real \<times> real) option \<Rightarrow> real \<Rightarrow> real \<Rightarrow> real option \<Rightarrow> real option" where
  "loss_after prevTotals lost received loss =
     (case prevTotals of
        Some (lost0, received0) \<Rightarrow>
          let deltaLost = lost - lost0; deltaPackets = deltaLost + (received - received0) in
          if 0 < deltaPackets \<and> 0 \<le> deltaLost then
            (let rounded = to_tenth (clamp 0 100 (deltaLost / deltaPackets * 100))
             in case loss of None \<Rightarrow> Some rounded | Some p \<Rightarrow> Some (to_tenth (p * (55 / 100) + rounded * (45 / 100))))
          else loss
      | None \<Rightarrow> if 0 < lost + received then Some (to_tenth (clamp 0 100 (lost / (lost + received) * 100))) else loss)"

definition applyQuality :: "real list \<Rightarrow> real \<Rightarrow> real \<Rightarrow> ping_state \<Rightarrow> ping_state" where
  "applyQuality jitters lost received s =
     (let s1 = s\<lparr>pg_totals := Some (lost, received), pg_loss := loss_after (pg_totals s) lost received (pg_loss s)\<rparr>
      in case median (map (\<lambda>x. clamp 0 1000 (of_int (js_round x))) jitters) of
           None \<Rightarrow> if \<not> pg_room_connected s1 then s1\<lparr>pg_jitter := None\<rparr> else s1
         | Some m \<Rightarrow>
             s1\<lparr>pg_jitter := Some (case pg_jitter s1 of None \<Rightarrow> m | Some p \<Rightarrow> of_int (js_round (p * (65 / 100) + m * (35 / 100))))\<rparr>)"

text \<open>A sample that was read: \<open>epoch\<close> tells for which run of the effect, and there may be no room.\<close>

definition rtc_sampled :: "nat \<Rightarrow> rtc_report list option list option \<Rightarrow> real \<Rightarrow> ping_state \<Rightarrow> ping_state" where
  "rtc_sampled epoch connections now s =
     (if epoch \<noteq> pg_epoch s \<or> pg_channel s = None then s
      else case connections of
        None \<Rightarrow> if \<not> pg_room_connected s then s\<lparr>pg_rtc_ms := None, pg_loss := None, pg_jitter := None\<rparr> else s
      | Some cs \<Rightarrow>
          let d = readRttAndQuality cs
          in applyQuality (rd_jitters d) (rd_lost d) (rd_received d) (applyRtt (rd_rtts d) now s))"

definition rtc_effect :: "ping_state \<Rightarrow> ping_state" where
  "rtc_effect s =
     (let s1 = s\<lparr>pg_epoch := pg_epoch s + 1\<rparr> in if pg_channel s1 = None then (drop_rtc s1)\<lparr>pg_totals := None\<rparr> else s1)"

section \<open>What is shown\<close>

definition current_rtc :: "ping_state \<Rightarrow> real option" where
  "current_rtc s = (if pg_rtc_channel s = pg_channel s then pg_rtc_ms s else None)"

definition current_ws :: "ping_state \<Rightarrow> real option" where
  "current_ws s = (if pg_ws_channel s = pg_channel s then pg_ws_ms s else None)"

definition choose_ping :: "ping_state \<Rightarrow> ping_state" where
  "choose_ping s =
     (if pg_channel s = None then s\<lparr>pg_source := None\<rparr>
      else
        let choice = (if pg_room_connected s \<and> current_rtc s \<noteq> None then Some (FromRtc, the (current_rtc s), pg_rtc_jitter s)
                      else case current_ws s of Some w \<Rightarrow> Some (FromWs, w, pg_ws_jitter s) | None \<Rightarrow> None)
        in case choice of
             None \<Rightarrow> s\<lparr>pg_source := None, pg_ping := None, pg_ping_jitter := None\<rparr>
           | Some (source, raw, jitter) \<Rightarrow>
               s\<lparr>pg_ping := Some (case pg_ping s of
                     None \<Rightarrow> raw
                   | Some p \<Rightarrow> if pg_source s \<noteq> Some source then raw
                       else let alpha = (if raw < p then 55 / 100 else 30 / 100) in of_int (js_round (p * (1 - alpha) + raw * alpha))),
                 pg_ping_jitter := jitter, pg_source := Some source\<rparr>)"

record ping_figures =
  shown_ping :: "real option"
  shown_ws :: "real option"
  shown_rtc :: "real option"
  shown_loss :: "real option"
  shown_jitter :: "real option"
  shown_ping_jitter :: "real option"

definition shown_figures :: "ping_state \<Rightarrow> ping_figures" where
  "shown_figures s =
     (let voice = (pg_channel s \<noteq> None);
          display = (voice \<and> (current_rtc s \<noteq> None \<or> current_ws s \<noteq> None))
      in \<lparr>shown_ping = (if display then pg_ping s else None), shown_ws = (if voice then current_ws s else None),
          shown_rtc = (if voice then current_rtc s else None), shown_loss = (if voice then pg_loss s else None),
          shown_jitter = (if voice then pg_jitter s else None), shown_ping_jitter = (if display then pg_ping_jitter s else None)\<rparr>)"

section \<open>Runs\<close>

datatype ping_op =
  PingChannel "string option" real
| PingConnected bool real
| PingRoom string
| PingStreams
| PingTick real
| PingPong jsnum real
| PingSampled nat "rtc_report list option list option" real

fun ping_event :: "ping_op \<Rightarrow> ping_state \<Rightarrow> ping_state" where
  "ping_event (PingChannel c now) s = (if c = pg_channel s then s else rtc_effect (ws_effect now (s\<lparr>pg_channel := c\<rparr>)))"
| "ping_event (PingConnected b now) s = (if b = pg_connected s then s else ws_effect now (s\<lparr>pg_connected := b\<rparr>))"
| "ping_event (PingRoom r) s = (if r = pg_room s then s else rtc_effect (s\<lparr>pg_room := r\<rparr>))"
| "ping_event PingStreams s = rtc_effect s"
| "ping_event (PingTick now) s = ws_tick now s"
| "ping_event (PingPong t now) s = pong_received t now s"
| "ping_event (PingSampled e cs now) s = rtc_sampled e cs now s"

definition ping_inputs :: "ping_state \<Rightarrow> string option \<times> string \<times> real option \<times> real option" where
  "ping_inputs s = (pg_channel s, pg_room s, pg_rtc_ms s, pg_ws_ms s)"

definition ping_step :: "ping_op \<Rightarrow> ping_state \<Rightarrow> ping_state" where
  "ping_step op s = (let t = ping_event op s in if ping_inputs t = ping_inputs s then t else choose_ping t)"

definition init_ping :: ping_state where
  "init_ping =
     \<lparr>pg_channel = None, pg_connected = False, pg_room = ''disconnected'', pg_ws_samples = [], pg_ws_smoothed = None,
      pg_ws_jitter = None, pg_ws_channel = None, pg_ws_ms = None, pg_last_sent = 0, pg_last_pong = 0, pg_rtc_samples = [],
      pg_rtc_smoothed = None, pg_rtc_jitter = None, pg_rtc_channel = None, pg_rtc_at = 0, pg_rtc_ms = None, pg_totals = None,
      pg_loss = None, pg_jitter = None, pg_source = None, pg_ping = None, pg_ping_jitter = None, pg_epoch = 0\<rparr>"

definition ping_run :: "ping_op list \<Rightarrow> ping_state" where
  "ping_run ops = fold ping_step ops init_ping"

end
