(* ===== verification/PingLaws.thy ===== *)
theory PingLaws
  imports PingEstimate
begin

text \<open>
  The figures of a call stay in their ranges in every run, a minority of outliers does not move the ping, and one sample
  moves it by a step at most.
\<close>

section \<open>Rounding and mixing\<close>

lemma round_between: "is_between (of_int a) (of_int b) x \<Longrightarrow> is_between (of_int a) (of_int b) (of_int (js_round x))"
proof -
  assume x: "is_between (of_int a) (of_int b) x"
  then have "js_round (of_int a) \<le> js_round x" "js_round x \<le> js_round (of_int b)" unfolding is_between_def by (metis js_round_mono)+
  then show ?thesis by (simp add: is_between_def)
qed

lemmas round_ms = round_between[of 1 5000, simplified]
  and round_jitter = round_between[of 0 1000, simplified]
  and round_delta = round_between[of 0 4999, simplified]

lemma tenth_between: "is_between 0 100 x \<Longrightarrow> is_between 0 100 (to_tenth x)"
  using round_between[of 0 1000 "x * 10"] by (auto simp: is_between_def to_tenth_def)

lemma average_between:
  assumes "0 \<le> a" "a \<le> 1" "is_between lo hi p" "is_between lo hi x"
  shows "is_between lo hi (p * (1 - a) + x * a)"
proof -
  have "lo * (1 - a) + lo * a \<le> p * (1 - a) + x * a" "p * (1 - a) + x * a \<le> hi * (1 - a) + hi * a"
    using assms by (auto simp: is_between_def intro!: add_mono mult_right_mono)
  then show ?thesis by (simp add: is_between_def algebra_simps)
qed

lemma clamp_between: "lo \<le> hi \<Longrightarrow> is_between lo hi (clamp lo hi x)"
  using clamp_bounds by (simp add: is_between_def)

lemma between_clamp: "is_between lo hi x \<Longrightarrow> clamp lo hi x = x"
  by (simp add: is_between_def clamp_id)

text \<open>A missing value is in every range.\<close>

definition opt_between :: "real \<Rightarrow> real \<Rightarrow> real option \<Rightarrow> bool" where
  "opt_between lo hi v \<longleftrightarrow> pred_option (is_between lo hi) v"

lemma opt_simps [simp]: "opt_between lo hi None" "opt_between lo hi (Some x) = is_between lo hi x"
  by (simp_all add: opt_between_def)

lemma smooth_between:
  assumes "opt_between (of_int lo) (of_int hi) prev" and "is_between (of_int lo) (of_int hi) x" and "0 \<le> r" "r \<le> 1" "0 \<le> d" "d \<le> 1"
  shows "is_between (of_int lo) (of_int hi) (smoothAsymmetric prev x r d)"
proof (cases prev)
  case (Some p)
  define a where "a = (if x < p then d else r)"
  have "is_between (of_int lo) (of_int hi) (p * (1 - a) + x * a)" using assms Some by (intro average_between) (auto simp: a_def)
  then have "is_between (of_int lo) (of_int hi) (of_int (js_round (p * (1 - a) + x * a)))" by (rule round_between)
  then show ?thesis by (simp add: smoothAsymmetric_def Some a_def Let_def)
qed (use assms in \<open>simp add: smoothAsymmetric_def\<close>)

lemma push_between: "list_all P xs \<Longrightarrow> P v \<Longrightarrow> list_all P (pushWindow xs v n)"
  by (cases xs) (auto simp: pushWindow_def Let_def)

lemma delta_sum: "list_all (is_between 1 5000) xs \<Longrightarrow>
  0 \<le> sum_list (map (\<lambda>(a, b). \<bar>b - a\<bar>) (zip xs (tl xs))) \<and> sum_list (map (\<lambda>(a, b). \<bar>b - a\<bar>) (zip xs (tl xs))) \<le> 4999 * real (length xs - 1)"
proof (induction xs rule: induct_list012)
  case (3 x y zs)
  then have "\<bar>y - x\<bar> \<le> 4999" by (auto simp: is_between_def)
  with 3 show ?case by (auto simp: algebra_simps)
qed auto

lemma delta_between: "list_all (is_between 1 5000) xs \<Longrightarrow> opt_between 0 4999 (map_option (\<lambda>j. of_int (js_round j)) (averageAbsDelta xs))"
proof (cases "length xs < 2")
  case False
  assume xs: "list_all (is_between 1 5000) xs"
  let ?d = "sum_list (map (\<lambda>(a, b). \<bar>b - a\<bar>) (zip xs (tl xs)))" and ?n = "real (length xs - 1)"
  have n: "0 < ?n" using False by simp
  have "is_between 0 4999 (?d / ?n)" using delta_sum[OF xs] n by (simp add: is_between_def divide_le_eq)
  from round_delta[OF this] show ?thesis using False by (simp add: averageAbsDelta_def)
qed (simp add: averageAbsDelta_def)

section \<open>Invariant\<close>

definition ws_ok :: "ping_state \<Rightarrow> bool" where
  "ws_ok s \<longleftrightarrow> list_all (is_between 1 5000) (pg_ws_samples s) \<and> opt_between 1 5000 (pg_ws_smoothed s) \<and>
     opt_between 1 5000 (pg_ws_ms s) \<and> opt_between 0 4999 (pg_ws_jitter s)"

definition rtc_ok :: "ping_state \<Rightarrow> bool" where
  "rtc_ok s \<longleftrightarrow> list_all (is_between 1 5000) (pg_rtc_samples s) \<and> opt_between 1 5000 (pg_rtc_smoothed s) \<and>
     opt_between 1 5000 (pg_rtc_ms s) \<and> opt_between 0 4999 (pg_rtc_jitter s)"

definition figures_ok :: "ping_state \<Rightarrow> bool" where
  "figures_ok s \<longleftrightarrow> opt_between 0 100 (pg_loss s) \<and> opt_between 0 1000 (pg_jitter s) \<and> opt_between 1 5000 (pg_ping s) \<and>
     opt_between 0 4999 (pg_ping_jitter s)"

definition ping_ok :: "ping_state \<Rightarrow> bool" where
  "ping_ok s \<longleftrightarrow> ws_ok s \<and> rtc_ok s \<and> figures_ok s"

lemmas ping_parts = ping_ok_def ws_ok_def rtc_ok_def figures_ok_def

lemma drops_ok: "ping_ok s \<Longrightarrow> ping_ok (drop_ws s)" "ping_ok s \<Longrightarrow> ping_ok (drop_rtc s)"
  by (simp_all add: ping_parts drop_ws_def drop_rtc_def)

lemma fields_ok [simp]:
  "ping_ok (s\<lparr>pg_last_sent := a\<rparr>) = ping_ok s" "ping_ok (s\<lparr>pg_last_pong := a\<rparr>) = ping_ok s" "ping_ok (s\<lparr>pg_epoch := n\<rparr>) = ping_ok s"
  "ping_ok (s\<lparr>pg_totals := t\<rparr>) = ping_ok s" "ping_ok (s\<lparr>pg_channel := c\<rparr>) = ping_ok s" "ping_ok (s\<lparr>pg_connected := b\<rparr>) = ping_ok s"
  "ping_ok (s\<lparr>pg_room := r\<rparr>) = ping_ok s"
  by (simp_all add: ping_parts)

lemma tick_ping_ok: "ping_ok s \<Longrightarrow> ping_ok (ws_tick now s)"
  by (simp add: ws_tick_def Let_def drops_ok)

lemma effects_ok: "ping_ok s \<Longrightarrow> ping_ok (ws_effect now s)" "ping_ok s \<Longrightarrow> ping_ok (rtc_effect s)"
  by (simp_all add: ws_effect_def rtc_effect_def Let_def drops_ok tick_ping_ok)

lemma ws_ping_ok:
  assumes "ping_ok s"
  shows "ping_ok (applyWsPing raw s)"
proof -
  define v where "v = clamp 1 5000 (of_int (js_round raw) :: real)"
  define w where "w = pushWindow (pg_ws_samples s) v PING_WINDOW_SIZE"
  define target where "target = (case median w of None \<Rightarrow> v | Some m \<Rightarrow> m)"
  have v: "is_between 1 5000 v" unfolding v_def by (rule clamp_between) simp
  have w: "list_all (is_between 1 5000) w" unfolding w_def using assms v by (intro push_between) (simp_all add: ping_parts)
  have t: "is_between 1 5000 target" using v median_within[OF w] by (auto simp: target_def split: option.split)
  have "is_between 1 5000 (smoothAsymmetric (pg_ws_smoothed s) target (3 / 10) (6 / 10))"
    using smooth_between[of 1 5000 "pg_ws_smoothed s" target] t assms by (simp add: ping_parts)
  then show ?thesis using assms w delta_between[OF w]
    by (simp add: applyWsPing_def Let_def v_def[symmetric] w_def[symmetric] target_def[symmetric] ping_parts)
qed

lemma pong_ok: "ping_ok s \<Longrightarrow> ping_ok (pong_received t now s)"
  by (auto simp: pong_received_def ws_ping_ok split: jsnum.split)

lemma rtt_ok:
  assumes ok: "ping_ok s" and samples: "list_all (is_between 1 5000) samples"
  shows "ping_ok (applyRtt samples now s)"
proof (cases "median samples")
  case None
  then show ?thesis using ok by (simp add: applyRtt_def drops_ok)
next
  case (Some m)
  define w where "w = pushWindow (pg_rtc_samples s) (of_int (js_round m)) PING_WINDOW_SIZE"
  have w: "list_all (is_between 1 5000) w"
    unfolding w_def using ok round_ms[OF median_within[OF samples Some]] by (intro push_between) (simp_all add: ping_parts)
  show ?thesis
  proof (cases "stableRtcPingTarget w")
    case None
    then show ?thesis using ok w by (simp add: applyRtt_def Some Let_def w_def[symmetric] ping_parts)
  next
    case st: (Some x)
    have "is_between 1 5000 (clamp 1 5000 y)" for y :: real by (rule clamp_between) simp
    then show ?thesis using ok w delta_between[OF w] st by (simp add: applyRtt_def Some Let_def w_def[symmetric] ping_parts)
  qed
qed

lemma loss_ok: "opt_between 0 100 l \<Longrightarrow> opt_between 0 100 (loss_after prev lost received l)"
proof -
  assume l: "opt_between 0 100 l"
  have c: "is_between 0 100 (to_tenth (clamp 0 100 x))" for x by (intro tenth_between clamp_between) simp
  have "is_between 0 100 (to_tenth (p * (55 / 100) + to_tenth (clamp 0 100 x) * (45 / 100)))" if "l = Some p" for p x
    using average_between[of "45 / 100" 0 100 p "to_tenth (clamp 0 100 x)"] c[of x] l that by (intro tenth_between) simp
  then show ?thesis using l c by (auto simp: loss_after_def Let_def split: option.split)
qed

lemma quality_ok:
  assumes ok: "ping_ok s"
  shows "ping_ok (applyQuality js lost received s)"
proof -
  let ?cs = "map (\<lambda>x. clamp 0 1000 (of_int (js_round x)) :: real) js"
  have cs: "list_all (is_between 0 1000) ?cs" by (simp add: list_all_iff clamp_between)
  have m: "is_between 0 1000 (of_int (js_round (p * (65 / 100) + m * (35 / 100))))" if "median ?cs = Some m" "pg_jitter s = Some p" for m p
  proof (rule round_jitter)
    have "is_between 0 1000 p" using ok that by (simp add: ping_parts)
    from average_between[OF _ _ this median_within[OF cs that(1)], of "35 / 100"] show "is_between 0 1000 (p * (65 / 100) + m * (35 / 100))" by simp
  qed
  show ?thesis using ok m median_within[OF cs] loss_ok[of "pg_loss s" "pg_totals s" lost received]
    by (auto simp: applyQuality_def Let_def ping_parts split: option.split)
qed

lemma sampled_ok: "ping_ok s \<Longrightarrow> ping_ok (rtc_sampled e cs now s)"
  by (auto simp: rtc_sampled_def Let_def quality_ok rtt_ok reading_within split: option.split) (simp add: ping_parts)

lemma choose_ok:
  assumes ok: "ping_ok s"
  shows "ping_ok (choose_ping s)"
proof -
  have rtc: "current_rtc s = Some x \<Longrightarrow> is_between 1 5000 x" and ws: "current_ws s = Some x \<Longrightarrow> is_between 1 5000 x" for x
    using ok by (auto simp: current_rtc_def current_ws_def ping_parts split: if_splits)
  have mix: "is_between 1 5000 (of_int (js_round (p * (1 - a) + x * a)))" if "pg_ping s = Some p" "is_between 1 5000 x" "0 \<le> a" "a \<le> 1" for p x a
    using ok that by (intro round_ms average_between) (simp_all add: ping_parts)
  have up: "is_between 1 5000 (of_int (js_round (p * 7 / 10 + x * 3 / 10)))" if "pg_ping s = Some p" "is_between 1 5000 x" for p x
    using mix[OF that, of "30 / 100"] by simp
  have down: "is_between 1 5000 (of_int (js_round (p * 9 / 20 + x * 11 / 20)))" if "pg_ping s = Some p" "is_between 1 5000 x" for p x
    using mix[OF that, of "55 / 100"] by simp
  show ?thesis using ok up down rtc ws
    by (auto simp: choose_ping_def Let_def ping_parts split: option.split)
qed

lemma event_ok: "ping_ok s \<Longrightarrow> ping_ok (ping_event op s)"
  by (cases op) (auto simp: effects_ok tick_ping_ok pong_ok sampled_ok)

lemma ping_always: "ping_ok (ping_run ops)"
proof (induction ops rule: rev_induct)
  case (snoc op ops)
  then show ?case by (simp add: ping_run_def ping_step_def Let_def choose_ok event_ok)
qed (simp add: ping_run_def init_ping_def ping_parts)

section \<open>Outliers\<close>

lemma guarded_between: "opt_between lo hi prev \<Longrightarrow> is_between lo hi x \<Longrightarrow> is_between lo hi (guarded_target prev x)"
  by (auto simp: guarded_target_def is_between_def split: option.split)

lemma majority_keeps_ping:
  assumes r: "1 \<le> lo" "lo \<le> hi" "hi \<le> 5000" and prev: "opt_between (of_int lo) (of_int hi) (pg_rtc_smoothed s)"
    and m: "median samples = Some m"
    and maj: "length (pg_rtc_samples (applyRtt samples now s)) < 2 * length (filter (is_between (of_int lo) (of_int hi)) (pg_rtc_samples (applyRtt samples now s)))"
  shows "opt_between (of_int lo) (of_int hi) (pg_rtc_ms (applyRtt samples now s))"
proof -
  define w where "w = pushWindow (pg_rtc_samples s) (of_int (js_round m)) PING_WINDOW_SIZE"
  have samples: "pg_rtc_samples (applyRtt samples now s) = w"
    by (simp add: applyRtt_def m Let_def w_def split: option.split)
  show ?thesis
  proof (cases "stableRtcPingTarget w")
    case None
    then show ?thesis by (simp add: applyRtt_def m Let_def w_def[symmetric])
  next
    case (Some x)
    define target where "target = guarded_target (pg_rtc_smoothed s) (of_int (js_round x))"
    define y where "y = smoothAsymmetric (pg_rtc_smoothed s) target (28 / 100) (6 / 10)"
    have "is_between (of_int lo) (of_int hi) x"
      using maj Some samples by (intro median_of_majority[of w]) (auto simp: stableRtcPingTarget_def split: if_splits)
    then have "is_between (of_int lo) (of_int hi) target" unfolding target_def using prev by (intro guarded_between round_between)
    then have y: "is_between (of_int lo) (of_int hi) y" unfolding y_def using prev by (intro smooth_between) simp_all
    then have "is_between 1 5000 y" using r by (auto simp: is_between_def)
    then have "clamp 1 5000 y = y" by (rule between_clamp)
    with y Some show ?thesis unfolding y_def target_def w_def by (simp add: applyRtt_def m Let_def)
  qed
qed

text \<open>One sample moves the ping by a step at most.\<close>

lemma round_near: "\<bar>of_int (js_round x) - x\<bar> \<le> 1 / 2"
  unfolding js_round_def by linarith

lemma clamp_near: "is_between lo hi p \<Longrightarrow> p - d \<le> y \<Longrightarrow> y \<le> p + u \<Longrightarrow> 0 \<le> d \<Longrightarrow> 0 \<le> u \<Longrightarrow> p - d \<le> clamp lo hi y \<and> clamp lo hi y \<le> p + u"
  by (auto simp: is_between_def clamp_def)

lemma step_bounded:
  assumes p: "pg_rtc_smoothed s = Some p" "is_between 1 5000 p" and q: "pg_rtc_smoothed (applyRtt samples now s) = Some q"
  shows "p - 25 \<le> q \<and> q \<le> p + 8"
proof (cases "median samples")
  case None
  then show ?thesis using p q by (auto simp: applyRtt_def drop_rtc_def split: if_splits)
next
  case (Some m)
  define w where "w = pushWindow (pg_rtc_samples s) (of_int (js_round m)) PING_WINDOW_SIZE"
  show ?thesis
  proof (cases "stableRtcPingTarget w")
    case None
    then show ?thesis using p q by (simp add: applyRtt_def Some Let_def w_def[symmetric])
  next
    case st: (Some x)
    define t where "t = guarded_target (Some p) (of_int (js_round x))"
    define a :: real where "a = (if t < p then 6 / 10 else 28 / 100)"
    define y where "y = p * (1 - a) + t * a"
    have t: "p - 40 \<le> t" "t \<le> p + 24" by (auto simp: t_def guarded_target_def)
    have y: "y = p + (t - p) * a" by (simp add: y_def algebra_simps)
    have "p - 24 \<le> y \<and> y \<le> p + 672 / 100" using t by (auto simp: y a_def)
    then have r: "p - 25 \<le> of_int (js_round y)" "of_int (js_round y) \<le> p + 8" using round_near[of y] by linarith+
    have "q = clamp 1 5000 (of_int (js_round y))"
      using q st unfolding y_def a_def t_def by (simp add: applyRtt_def Some Let_def w_def[symmetric] p(1) smoothAsymmetric_def split: if_splits)
    with clamp_near[OF p(2) r] show ?thesis by simp
  qed
qed

section \<open>Where the code falls short\<close>

text \<open>
  Only the answer to the last ping counts, and a new one is sent every 2500 ms: a longer round trip is never measured,
  although the figures allow for 5000 ms.
\<close>

lemma slow_socket_unmeasured:
  "pg_ws_ms (ping_run ([PingConnected True 1, PingChannel (Some ''c'') 1000] @
     concat (map (\<lambda>k. [PingTick (1000 + 2500 * real (k + 1)), PingPong (Fin (1000 + 2500 * real k)) (1000 + 2500 * real (k + 1) + 100)])
       [0, 1, 2, 3]))) = None"
  by (simp add: ping_run_def ping_step_def init_ping_def ws_effect_def rtc_effect_def ws_tick_def ws_active_def pong_received_def
      drop_ws_def drop_rtc_def Let_def ping_inputs_def choose_ping_def current_rtc_def current_ws_def pg_room_connected_def PING_STALE_AFTER_MS_def)

end
