(* ===== verification/ShellSync.thy ===== *)
theory ShellSync
  imports AppInvariant
begin

text \<open>
  The two reloads of \<^verbatim>\<open>src/pages/AppShell.tsx\<close> that run one request at a time: \<^verbatim>\<open>syncSocial\<close> (conversations and
  friends) and the membership refresh (servers and profile). A call that comes while a request is under way is kept and
  answered by another request. What both promise is stated once, in the interface \<open>single_flight\<close>, over an abstract machine
  that remembers whether a request is under way, whether another one is due, and what happened.
\<close>

section \<open>One request at a time\<close>

datatype flight_event = CallMade | RequestSent | RequestDone

record flight =
  fl_busy :: bool
  fl_again :: bool
  fl_log :: "flight_event list"

inductive flight_move :: "flight \<Rightarrow> flight \<Rightarrow> bool" where
  fm_send: "\<not> fl_busy f \<Longrightarrow> flight_move f (f\<lparr>fl_busy := True, fl_log := fl_log f @ [RequestSent]\<rparr>)"
| fm_call: "flight_move f (f\<lparr>fl_again := True, fl_log := fl_log f @ [CallMade]\<rparr>)"
| fm_done: "fl_busy f \<Longrightarrow> flight_move f (f\<lparr>fl_busy := False, fl_log := fl_log f @ [RequestDone]\<rparr>)"
| fm_drop: "fl_busy f \<Longrightarrow> fl_log f = es @ [RequestSent] \<Longrightarrow> flight_move f (f\<lparr>fl_again := False\<rparr>)"

text \<open>A call that no request followed; a request that was not answered; requests that never overlap.\<close>

fun unserved :: "flight_event list \<Rightarrow> bool \<Rightarrow> bool" where
  "unserved [] b = b"
| "unserved (CallMade # es) b = unserved es True"
| "unserved (RequestSent # es) b = unserved es False"
| "unserved (RequestDone # es) b = unserved es b"

fun in_flight :: "flight_event list \<Rightarrow> bool \<Rightarrow> bool" where
  "in_flight [] b = b"
| "in_flight (CallMade # es) b = in_flight es b"
| "in_flight (RequestSent # es) b = in_flight es True"
| "in_flight (RequestDone # es) b = in_flight es False"

fun one_by_one :: "flight_event list \<Rightarrow> bool \<Rightarrow> bool" where
  "one_by_one [] b = True"
| "one_by_one (CallMade # es) b = one_by_one es b"
| "one_by_one (RequestSent # es) b = (\<not> b \<and> one_by_one es True)"
| "one_by_one (RequestDone # es) b = (b \<and> one_by_one es False)"

definition flight_ok :: "flight \<Rightarrow> bool" where
  "flight_ok f \<longleftrightarrow> (unserved (fl_log f) False \<longrightarrow> fl_again f) \<and> fl_busy f = in_flight (fl_log f) False \<and> one_by_one (fl_log f) False"

lemma unserved_append: "unserved (es @ fs) b = unserved fs (unserved es b)"
  by (induction es b rule: unserved.induct) auto

lemma in_flight_append: "in_flight (es @ fs) b = in_flight fs (in_flight es b)"
  by (induction es b rule: in_flight.induct) auto

lemma one_by_one_append: "one_by_one (es @ fs) b = (one_by_one es b \<and> one_by_one fs (in_flight es b))"
  by (induction es b rule: one_by_one.induct) auto

lemmas log_append = unserved_append in_flight_append one_by_one_append

lemma unserved_mono: "unserved es False \<Longrightarrow> unserved es True"
  by (induction es False rule: unserved.induct) auto

lemma served_has_request: "\<not> unserved es True \<Longrightarrow> RequestSent \<in> set es"
  by (induction es True rule: unserved.induct) auto

lemma landed_has_answer: "\<not> in_flight es True \<Longrightarrow> RequestDone \<in> set es"
  by (induction es True rule: in_flight.induct) auto

lemma flight_move_ok: "flight_move f g \<Longrightarrow> flight_ok f \<Longrightarrow> flight_ok g"
  by (induction rule: flight_move.induct) (auto simp: flight_ok_def log_append)

lemma flight_moves_ok: "flight_move\<^sup>*\<^sup>* f g \<Longrightarrow> flight_ok f \<Longrightarrow> flight_ok g"
  by (induction rule: rtranclp_induct) (auto intro: flight_move_ok)

text \<open>The moves of the code are sequences of these.\<close>

lemma flight_call_later: "flight_move\<^sup>*\<^sup>* f (f\<lparr>fl_again := True, fl_log := fl_log f @ [CallMade]\<rparr>)"
  by (intro r_into_rtranclp fm_call)

lemma flight_send: "\<not> fl_busy f \<Longrightarrow> flight_move\<^sup>*\<^sup>* f (f\<lparr>fl_busy := True, fl_log := fl_log f @ [RequestSent]\<rparr>)"
  by (intro r_into_rtranclp fm_send)

lemma flight_done: "fl_busy f \<Longrightarrow> flight_move\<^sup>*\<^sup>* f (f\<lparr>fl_busy := False, fl_log := fl_log f @ [RequestDone]\<rparr>)"
  by (intro r_into_rtranclp fm_done)

lemma flight_restart:
  assumes "\<not> fl_busy f"
  shows "flight_move\<^sup>*\<^sup>* f (f\<lparr>fl_busy := True, fl_again := False, fl_log := fl_log f @ [RequestSent]\<rparr>)"
  using rtranclp.rtrancl_into_rtrancl[OF flight_send[OF assms] fm_drop] by (cases f) simp

lemma flight_call_now:
  assumes "\<not> fl_busy f"
  shows "flight_move\<^sup>*\<^sup>* f (f\<lparr>fl_busy := True, fl_again := b, fl_log := fl_log f @ [CallMade, RequestSent]\<rparr>)"
proof (cases b)
  case True
  show ?thesis using rtranclp_trans[OF flight_call_later flight_send, of f] assms True by (cases f) simp
next
  case False
  show ?thesis using rtranclp_trans[OF flight_call_later flight_restart, of f] assms False by (cases f) simp
qed

locale single_flight =
  fixes move :: "'s \<Rightarrow> 's \<Rightarrow> bool"
    and flight_of :: "'s \<Rightarrow> flight"
  assumes simulated: "move s t \<Longrightarrow> flight_move\<^sup>*\<^sup>* (flight_of s) (flight_of t)"
begin

lemma moves_simulated: "move\<^sup>*\<^sup>* s t \<Longrightarrow> flight_move\<^sup>*\<^sup>* (flight_of s) (flight_of t)"
  by (induction rule: rtranclp_induct) (auto intro: rtranclp_trans simulated)

lemma always_ok: "move\<^sup>*\<^sup>* s t \<Longrightarrow> flight_ok (flight_of s) \<Longrightarrow> flight_ok (flight_of t)"
  using moves_simulated flight_moves_ok by blast

lemma no_call_lost:
  assumes "move\<^sup>*\<^sup>* s t" "flight_ok (flight_of s)" "\<not> fl_busy (flight_of t)" "\<not> fl_again (flight_of t)"
    and log: "fl_log (flight_of t) = before @ CallMade # after"
  shows "\<exists>waited rest. after = waited @ RequestSent # rest \<and> RequestDone \<in> set rest"
proof -
  have ok: "flight_ok (flight_of t)" using always_ok assms by blast
  then have "\<not> unserved after True" using assms(4) log by (simp add: flight_ok_def log_append)
  then obtain waited rest where after: "after = waited @ RequestSent # rest"
    using served_has_request split_list by metis
  moreover have "\<not> in_flight rest True" using ok assms(3) log after by (simp add: flight_ok_def log_append)
  ultimately show ?thesis using landed_has_answer by blast
qed

lemma never_two:
  assumes "move\<^sup>*\<^sup>* s t" "flight_ok (flight_of s)"
    and log: "fl_log (flight_of t) = before @ RequestSent # between @ RequestSent # after"
  shows "RequestDone \<in> set between"
proof -
  have "flight_ok (flight_of t)" using always_ok assms by blast
  then show ?thesis using log landed_has_answer by (simp add: flight_ok_def log_append)
qed

end

section \<open>Conversations and friends\<close>

definition SOCIAL_FOREGROUND_STALE_MS :: int where "SOCIAL_FOREGROUND_STALE_MS = 30 * 1000"

text \<open>The log is not part of the code: it records the forced calls, the requests and their answers.\<close>

record social_sync =
  sy_in_flight :: bool
  sy_queued :: bool
  sy_timers :: nat
  sy_last :: int
  sy_log :: "flight_event list"

definition runSocialSync :: "bool \<Rightarrow> int \<Rightarrow> social_sync \<Rightarrow> social_sync" where
  "runSocialSync force now s =
     (if \<not> force \<and> now - sy_last s < SOCIAL_FOREGROUND_STALE_MS then s
      else if sy_in_flight s then
        (if force then s\<lparr>sy_queued := True, sy_log := sy_log s @ [CallMade]\<rparr> else s)
      else s\<lparr>sy_in_flight := True, sy_log := sy_log s @ (if force then [CallMade] else []) @ [RequestSent]\<rparr>)"

definition apply_social :: "dm_channel list \<times> friend list \<Rightarrow> app_state \<Rightarrow> app_state" where
  "apply_social r s =
     (case r of (chs, friendList) \<Rightarrow>
        setSocialDataReady True (setFriends friendList
          (setDmUnreadFromChannels chs {} (setDmChannels chs (setDmChannelIds (map dm_id chs) s)))))"

text \<open>The end of a request: its answer is written, and a call kept meanwhile starts a timer of no delay.\<close>

definition social_finished :: "bool \<Rightarrow> int \<Rightarrow> social_sync \<Rightarrow> social_sync" where
  "social_finished succeeded now s =
     (let s1 = s\<lparr>sy_last := (if succeeded then now else sy_last s), sy_in_flight := False, sy_log := sy_log s @ [RequestDone]\<rparr>
      in if sy_queued s1 then s1\<lparr>sy_queued := False, sy_timers := sy_timers s1 + 1\<rparr> else s1)"

definition social_timer :: "int \<Rightarrow> social_sync \<Rightarrow> social_sync" where
  "social_timer now s = (if sy_timers s = 0 then s else runSocialSync True now (s\<lparr>sy_timers := sy_timers s - 1\<rparr>))"

definition init_social_sync :: social_sync where
  "init_social_sync = \<lparr>sy_in_flight = False, sy_queued = False, sy_timers = 0, sy_last = 0, sy_log = []\<rparr>"

definition social_flight :: "social_sync \<Rightarrow> flight" where
  "social_flight s = \<lparr>fl_busy = sy_in_flight s, fl_again = (sy_queued s \<or> 0 < sy_timers s), fl_log = sy_log s\<rparr>"

section \<open>Servers and profile\<close>

record member_refresh =
  mr_running :: bool
  mr_queued :: bool
  mr_cancelled :: bool
  mr_log :: "flight_event list"

definition refresh_round :: "member_refresh \<Rightarrow> member_refresh" where
  "refresh_round s = s\<lparr>mr_queued := False, mr_log := mr_log s @ [RequestSent]\<rparr>"

definition refresh_asked :: "member_refresh \<Rightarrow> member_refresh" where
  "refresh_asked s =
     (let s1 = s\<lparr>mr_log := mr_log s @ [CallMade]\<rparr>
      in if mr_running s then s1\<lparr>mr_queued := True\<rparr> else refresh_round (s1\<lparr>mr_running := True\<rparr>))"

definition refresh_wanted :: "member_refresh \<Rightarrow> bool" where
  "refresh_wanted s \<longleftrightarrow> \<not> mr_cancelled s \<and> \<not> mr_queued s"

definition refresh_finished :: "member_refresh \<Rightarrow> member_refresh" where
  "refresh_finished s =
     (let s1 = s\<lparr>mr_log := mr_log s @ [RequestDone]\<rparr>
      in if mr_queued s1 \<and> \<not> mr_cancelled s1 then refresh_round s1 else s1\<lparr>mr_running := False\<rparr>)"

definition init_refresh :: member_refresh where
  "init_refresh = \<lparr>mr_running = False, mr_queued = False, mr_cancelled = False, mr_log = []\<rparr>"

definition refresh_flight :: "member_refresh \<Rightarrow> flight" where
  "refresh_flight s = \<lparr>fl_busy = mr_running s, fl_again = mr_queued s, fl_log = mr_log s\<rparr>"

section \<open>Both are instances\<close>

lemma social_run: "flight_move\<^sup>*\<^sup>* (social_flight s) (social_flight (runSocialSync force now s))"
  using flight_call_later[of "social_flight s"] flight_send[of "social_flight s"]
    flight_call_now[of "social_flight s" "fl_again (social_flight s)"]
  by (auto simp: runSocialSync_def social_flight_def)

lemma social_done: "sy_in_flight s \<Longrightarrow> flight_move\<^sup>*\<^sup>* (social_flight s) (social_flight (social_finished ok now s))"
  using flight_done[of "social_flight s"] by (cases "sy_queued s") (simp_all add: social_finished_def social_flight_def Let_def)

lemma social_timer_moves: "flight_move\<^sup>*\<^sup>* (social_flight s) (social_flight (social_timer now s))"
  using flight_call_later[of "social_flight s"] flight_call_now[of "social_flight s"]
  by (auto simp: social_timer_def runSocialSync_def social_flight_def)

lemma refresh_ask: "flight_move\<^sup>*\<^sup>* (refresh_flight s) (refresh_flight (refresh_asked s))"
  using flight_call_later[of "refresh_flight s"] flight_call_now[of "refresh_flight s" False]
  by (auto simp: refresh_asked_def refresh_round_def refresh_flight_def Let_def)

lemma refresh_done: 
  assumes "mr_running s"
  shows "flight_move\<^sup>*\<^sup>* (refresh_flight s) (refresh_flight (refresh_finished s))"
proof -
  have d: "flight_move\<^sup>*\<^sup>* (refresh_flight s) ((refresh_flight s)\<lparr>fl_busy := False, fl_log := mr_log s @ [RequestDone]\<rparr>)"
    using flight_done[of "refresh_flight s"] assms by (simp add: refresh_flight_def)
  show ?thesis
    using d rtranclp_trans[OF d flight_restart] assms
    by (auto simp: refresh_finished_def refresh_round_def refresh_flight_def Let_def)
qed

end
