(* ===== verification/ShellEvents.thy ===== *)
theory ShellEvents
  imports ShellSync ServerEvents SocialLists
begin

text \<open>
  The frame around all pages, \<^verbatim>\<open>src/pages/AppShell.tsx\<close>: what it does with the events of the WebSocket, whichever page is
  open. Presence and voice state go to the shared store; a direct message finds its conversation, asking the server when
  the conversation is not known, and is counted, sounded and shown; friend and membership events start the reloads of
  \<open>ShellSync\<close>. A handler runs to its first \<^verbatim>\<open>await\<close> and leaves a task; the answer is a step of its own. The values the
  handler takes from the last render (\<^verbatim>\<open>dmChannelIds\<close>, \<^verbatim>\<open>activeDmChannelId\<close>, the status) are those of the store when the
  event arrives.
\<close>

section \<open>State\<close>

text \<open>Of the signed-in user, the fields the shell reads or writes.\<close>

record shell_user =
  su_id :: string
  su_username :: string
  su_avatar_url :: "string option"
  su_status :: string

datatype dm_await = AwaitList | AwaitCreated

record dm_task =
  td_await :: dm_await
  td_channel :: string
  td_message :: message
  td_active :: "string option"
  td_status :: "string option"
  td_channels :: "dm_channel list"
  td_ids :: "string list"

datatype shell_effect =
  ListDmChannels nat
| CreateDmChannel nat string
| ShellSound
| ShellPush string string "string option"

record shell_state =
  sh_app :: app_state
  sh_user :: "shell_user option"
  sh_social :: social_sync
  sh_refresh :: member_refresh
  sh_tasks :: "(nat \<times> dm_task) list"
  sh_next_task :: nat
  sh_effects :: "shell_effect list"

text \<open>What a step reads and does not write: the user of this shell, the connection, the clock, the page, the settings.\<close>

record shell_ctx =
  sx_user_id :: string
  sx_connection :: int
  sx_now :: int
  sx_path :: string
  sx_backgrounded :: bool
  sx_storage :: "string web_storage"
  sx_push_permission :: push_permission
  sx_parse :: "string \<Rightarrow> jsnum"
  sx_compare :: "string \<Rightarrow> string \<Rightarrow> int"

definition shell_app :: "(app_state \<Rightarrow> app_state) \<Rightarrow> shell_state \<Rightarrow> shell_state" where
  "shell_app f s = s\<lparr>sh_app := f (sh_app s)\<rparr>"

definition shell_emit :: "shell_effect \<Rightarrow> shell_state \<Rightarrow> shell_state" where
  "shell_emit e s = s\<lparr>sh_effects := sh_effects s @ [e]\<rparr>"

definition syncSocial :: "bool \<Rightarrow> int \<Rightarrow> shell_state \<Rightarrow> shell_state" where
  "syncSocial force now s = s\<lparr>sh_social := runSocialSync force now (sh_social s)\<rparr>"

section \<open>Presence and voice\<close>

definition shell_voice_state :: "shell_ctx \<Rightarrow> voice_state_data \<Rightarrow> app_state \<Rightarrow> app_state" where
  "shell_voice_state cx d s =
     (let u = vs_user_id d; c = vs_channel_id d in
      if u = [] then s
      else let s1 = setVoiceStateServerId u (vs_server_id d) (setVoiceState (of_int (sx_now cx)) u c (vs_active_since d) s);
               s2 = s1\<lparr>voiceActivityConnectionIds := obj_put u (sx_connection cx) (voiceActivityConnectionIds s1)\<rparr>;
               s3 = (if truthy_str c then s2 else clearScreenShareViewerMembership u s2)
        in if u = sx_user_id cx \<and> \<not> truthy_str c then setJoinedVoiceChannelId None s3 else s3)"

definition update_friend :: "string \<Rightarrow> (friend \<Rightarrow> friend) \<Rightarrow> app_state \<Rightarrow> app_state" where
  "update_friend u f s = setFriends (map (\<lambda>x. if fr_id x = u then f x else x) (friends s)) s"

definition update_peer :: "string \<Rightarrow> (dm_channel \<Rightarrow> dm_channel) \<Rightarrow> app_state \<Rightarrow> app_state" where
  "update_peer u f s = setDmChannels (map (\<lambda>c. if dm_peer_id c = u then f c else c) (dmChannels s)) s"

definition shell_presence :: "string \<Rightarrow> string \<Rightarrow> app_state \<Rightarrow> app_state" where
  "shell_presence u status s =
     (if u = [] \<or> status = [] then s
      else let s1 = update_member_everywhere u (\<lambda>m. m\<lparr>mem_status := status\<rparr>) s;
               s2 = (if \<exists>f \<in> set (friends s1). fr_id f = u then update_friend u (\<lambda>f. f\<lparr>fr_status := status\<rparr>) s1 else s1)
        in if \<exists>c \<in> set (dmChannels s2). dm_peer_id c = u then update_peer u (\<lambda>c. c\<lparr>dm_peer_status := status\<rparr>) s2 else s2)"

definition shell_voice_control :: "voice_control_data \<Rightarrow> app_state \<Rightarrow> app_state" where
  "shell_voice_control d s =
     (let u = vcd_user_id d in
      if u = [] then s
      else let s1 = setVoiceCamera u (vcd_camera_on d)
                      (setVoiceControl u (vcd_muted d) (vcd_deafened d) (vcd_screen_sharing d)
                         (Some (vcd_server_muted d)) (Some (vcd_server_deafened d)) s)
        in if vcd_screen_sharing d then s1 else clearScreenShareViewersForPublisher u s1)"

definition shell_viewer :: "string \<Rightarrow> string \<Rightarrow> bool \<Rightarrow> app_state \<Rightarrow> app_state" where
  "shell_viewer viewer publisher watching s =
     (if viewer = [] \<or> publisher = [] then s else setScreenShareViewer publisher viewer watching s)"

definition updated_self :: "user_update \<Rightarrow> shell_user option \<Rightarrow> shell_user option" where
  "updated_self d me =
     (case me of
        None \<Rightarrow> None
      | Some x \<Rightarrow>
          if su_id x = uup_id d then
            Some (x\<lparr>su_username := nullish (uup_username d) (su_username x), su_avatar_url := uup_avatar_url d,
                    su_status := nullish (uup_status d) (su_status x)\<rparr>)
          else me)"

definition shell_user_updated :: "user_update \<Rightarrow> app_state \<Rightarrow> app_state" where
  "shell_user_updated d s =
     update_peer (uup_id d)
       (\<lambda>c. c\<lparr>dm_peer_username := nullish (uup_username d) (dm_peer_username c), dm_peer_avatar_url := uup_avatar_url d\<rparr>)
       (update_friend (uup_id d)
          (\<lambda>f. f\<lparr>fr_username := nullish (uup_username d) (fr_username f), fr_status := nullish (uup_status d) (fr_status f),
                 fr_avatar_url := uup_avatar_url d\<rparr>)
          (update_member_everywhere (uup_id d)
             (\<lambda>m. m\<lparr>mem_username := nullish (uup_username d) (mem_username m), mem_avatar_url := uup_avatar_url d,
                    mem_status := nullish (uup_status d) (mem_status m)\<rparr>) s))"

section \<open>A direct message\<close>

text \<open>The sound of a notification and the notification itself; reading the sound setting may throw, which ends the handler.\<close>

definition notify_dm :: "shell_ctx \<Rightarrow> dm_task \<Rightarrow> dm_channel \<Rightarrow> shell_state \<Rightarrow> shell_state" where
  "notify_dm cx t c s =
     (case shouldPlayNotificationSound (sx_storage cx) (td_status t) of
        Inl _ \<Rightarrow> s
      | Inr sound \<Rightarrow>
          let s1 = (if sound then shell_emit ShellSound s else s)
          in if shouldShowPushNotification (sx_storage cx) (sx_push_permission cx) (sx_backgrounded cx) (td_status t)
             then shell_emit (ShellPush (nullish (map_option aut_username (msg_author (td_message t))) (dm_peer_username c)) (dm_id c)
                    (if msg_id (td_message t) = [] then None else Some (msg_id (td_message t)))) s1
             else s1)"

text \<open>The part of the handler after the conversation was found.\<close>

definition dm_deliver :: "shell_ctx \<Rightarrow> dm_task \<Rightarrow> dm_channel option \<Rightarrow> shell_state \<Rightarrow> shell_state" where
  "dm_deliver cx t found s =
     (case found of
        None \<Rightarrow> s
      | Some c \<Rightarrow>
          if dm_id c \<notin> set (td_ids t) then s
          else let elsewhere = (dm_id c \<noteq> td_channel t \<and> td_active t \<noteq> Some (dm_id c));
                   s1 = (if elsewhere then shell_app (incrementDmUnread (dm_id c) \<circ> clearDmUnread (td_channel t)) s else s);
                   nxt = touchDmChannelActivity (sx_parse cx) (sx_compare cx) (td_channels t) (dm_id c) (msg_created_at (td_message t));
                   s2 = shell_app (setDmChannelIds (map dm_id nxt) \<circ> setDmChannels nxt) s1;
                   canAutoReadActiveDm =
                     (isSocialDmViewVisible (sx_path cx) (sx_storage cx) \<and> activeDmChannelId (sh_app s2) = Some (dm_id c)
                      \<and> \<not> sx_backgrounded cx)
            in if canAutoReadActiveDm then shell_app (clearDmUnread (dm_id c)) s2
               else notify_dm cx t c (if elsewhere then s2 else shell_app (incrementDmUnread (dm_id c)) s2))"

definition put_task :: "dm_task \<Rightarrow> (nat \<Rightarrow> shell_effect) \<Rightarrow> shell_state \<Rightarrow> shell_state" where
  "put_task t request s =
     shell_emit (request (sh_next_task s)) (s\<lparr>sh_tasks := obj_put (sh_next_task s) t (sh_tasks s), sh_next_task := sh_next_task s + 1\<rparr>)"

definition shell_new_message :: "shell_ctx \<Rightarrow> string \<Rightarrow> string \<Rightarrow> message \<Rightarrow> shell_state \<Rightarrow> shell_state" where
  "shell_new_message cx channelId channelType m s =
     (if channelId = [] \<or> channelType \<noteq> ''dm'' then s
      else if truthy_str (author_id m) \<and> author_id m = Some (sx_user_id cx) then s
      else let a = sh_app s;
               t = \<lparr>td_await = AwaitList, td_channel = channelId, td_message = m, td_active = activeDmChannelId a,
                    td_status = map_option su_status (sh_user s), td_channels = dmChannels a, td_ids = dmChannelIds a\<rparr>
        in case find (\<lambda>c. dm_id c = channelId) (dmChannels a) of
             Some c \<Rightarrow> dm_deliver cx t (Some c) s
           | None \<Rightarrow> put_task t ListDmChannels s)"

definition dm_list_answered :: "shell_ctx \<Rightarrow> dm_task \<Rightarrow> dm_channel list option \<Rightarrow> shell_state \<Rightarrow> shell_state" where
  "dm_list_answered cx t answer s =
     (let t1 = (case answer of None \<Rightarrow> t | Some latest \<Rightarrow> t\<lparr>td_channels := latest, td_ids := map dm_id latest\<rparr>);
          s1 = (case answer of
                  None \<Rightarrow> s
                | Some latest \<Rightarrow>
                    shell_app (setDmUnreadFromChannels latest {} \<circ> setDmChannelIds (map dm_id latest) \<circ> setDmChannels latest) s);
          found = (case answer of None \<Rightarrow> None | Some latest \<Rightarrow> find (\<lambda>c. dm_id c = td_channel t) latest)
      in if found = None \<and> truthy_str (author_id (td_message t))
         then put_task (t1\<lparr>td_await := AwaitCreated\<rparr>) (\<lambda>i. CreateDmChannel i (the (author_id (td_message t)))) s1
         else dm_deliver cx t1 found s1)"

definition dm_create_answered :: "shell_ctx \<Rightarrow> dm_task \<Rightarrow> dm_channel option \<Rightarrow> shell_state \<Rightarrow> shell_state" where
  "dm_create_answered cx t answer s =
     (case answer of
        None \<Rightarrow> dm_deliver cx t None s
      | Some c \<Rightarrow>
          let nxt = upsertDmChannel (sx_parse cx) (sx_compare cx) (td_channels t) c
          in dm_deliver cx (t\<lparr>td_channels := nxt, td_ids := map dm_id nxt\<rparr>) (Some c)
               (shell_app (setDmChannelIds (map dm_id nxt) \<circ> setDmChannels nxt) s))"

section \<open>The handlers\<close>

definition shell_handler :: "shell_ctx \<Rightarrow> ws_event \<Rightarrow> shell_state \<Rightarrow> shell_state" where
  "shell_handler cx e s =
     (case e of
        VoiceStateUpdate d \<Rightarrow> shell_app (shell_voice_state cx d) s
      | PresenceUpdate u status \<Rightarrow> shell_app (shell_presence u status) s
      | VoiceControlUpdate d \<Rightarrow> shell_app (shell_voice_control d) s
      | ScreenShareViewerUpdate viewer publisher _ _ watching \<Rightarrow> shell_app (shell_viewer viewer publisher watching) s
      | UserUpdated d \<Rightarrow>
          if uup_id d = [] then s else shell_app (shell_user_updated d) (s\<lparr>sh_user := updated_self d (sh_user s)\<rparr>)
      | DmRead c u _ \<Rightarrow> if u = sx_user_id cx \<and> c \<noteq> [] then shell_app (clearDmUnread c) s else s
      | FriendUpdate u \<Rightarrow> if u = [] \<or> u = sx_user_id cx then syncSocial True (sx_now cx) s else s
      | DmChannelsUpdated _ \<Rightarrow> syncSocial True (sx_now cx) s
      | NewMessage c typ m \<Rightarrow> shell_new_message cx c typ m s
      | _ \<Rightarrow> s)"

definition membership_event :: "shell_ctx \<Rightarrow> ws_event \<Rightarrow> bool" where
  "membership_event cx e \<longleftrightarrow>
     (case e of
        MemberJoined _ u _ \<Rightarrow> u = sx_user_id cx
      | MemberLeft _ u _ \<Rightarrow> u = sx_user_id cx
      | UserUpdated d \<Rightarrow> uup_id d = sx_user_id cx
      | _ \<Rightarrow> False)"

definition refresh_membership :: "shell_state \<Rightarrow> shell_state" where
  "refresh_membership s = s\<lparr>sh_refresh := refresh_asked (sh_refresh s)\<rparr>"

definition shell_event :: "shell_ctx \<Rightarrow> ws_event \<Rightarrow> shell_state \<Rightarrow> shell_state" where
  "shell_event cx e s = shell_handler cx e (if membership_event cx e then refresh_membership s else s)"

definition shell_reconnected :: "int \<Rightarrow> shell_state \<Rightarrow> shell_state" where
  "shell_reconnected now s = refresh_membership (syncSocial True now s)"

definition social_answered :: "(dm_channel list \<times> friend list) option \<Rightarrow> int \<Rightarrow> shell_state \<Rightarrow> shell_state" where
  "social_answered r now s =
     (case r of None \<Rightarrow> s | Some x \<Rightarrow> shell_app (apply_social x) s)\<lparr>sh_social := social_finished (r \<noteq> None) now (sh_social s)\<rparr>"

definition membership_answered :: "string \<Rightarrow> server list option \<Rightarrow> shell_user option \<Rightarrow> shell_state \<Rightarrow> shell_state" where
  "membership_answered userId list profile s =
     (let s1 = (if refresh_wanted (sh_refresh s) \<and> map_option su_id (sh_user s) = Some userId then
                  (let s2 = (case list of None \<Rightarrow> s | Some xs \<Rightarrow> shell_app (setServers xs) s)
                   in case profile of None \<Rightarrow> s2 | Some p \<Rightarrow> s2\<lparr>sh_user := Some p\<rparr>)
                else s)
      in s1\<lparr>sh_refresh := refresh_finished (sh_refresh s)\<rparr>)"

section \<open>Runs\<close>

text \<open>The periodic and visibility checks call \<open>syncSocial False\<close>; the other pages act on the shared store.\<close>

datatype shell_op =
  ShEvent shell_ctx ws_event
| ShListed shell_ctx nat "dm_channel list option"
| ShCreated shell_ctx nat "dm_channel option"
| ShSync bool int
| ShSynced "(dm_channel list \<times> friend list) option" int
| ShTimer int
| ShReconnected int
| ShRefreshed string "server list option" "shell_user option"
| ShAction app_action
| ShUnmounted

fun shell_step :: "shell_op \<Rightarrow> shell_state \<Rightarrow> shell_state" where
  "shell_step (ShEvent cx e) s = (if mr_cancelled (sh_refresh s) then s else shell_event cx e s)"
| "shell_step (ShListed cx i r) s =
     (case obj_get (sh_tasks s) i of
        Some t \<Rightarrow> if td_await t = AwaitList then dm_list_answered cx t r (s\<lparr>sh_tasks := obj_del i (sh_tasks s)\<rparr>) else s
      | None \<Rightarrow> s)"
| "shell_step (ShCreated cx i r) s =
     (case obj_get (sh_tasks s) i of
        Some t \<Rightarrow> if td_await t = AwaitCreated then dm_create_answered cx t r (s\<lparr>sh_tasks := obj_del i (sh_tasks s)\<rparr>) else s
      | None \<Rightarrow> s)"
| "shell_step (ShSync force now) s = (if mr_cancelled (sh_refresh s) then s else syncSocial force now s)"
| "shell_step (ShSynced r now) s = (if sy_in_flight (sh_social s) then social_answered r now s else s)"
| "shell_step (ShTimer now) s = s\<lparr>sh_social := social_timer now (sh_social s)\<rparr>"
| "shell_step (ShReconnected now) s = (if mr_cancelled (sh_refresh s) then s else shell_reconnected now s)"
| "shell_step (ShRefreshed userId xs p) s = (if mr_running (sh_refresh s) then membership_answered userId xs p s else s)"
| "shell_step (ShAction a) s = shell_app (app_step a) s"
| "shell_step ShUnmounted s = s\<lparr>sh_refresh := (sh_refresh s)\<lparr>mr_cancelled := True\<rparr>\<rparr>"

definition init_shell :: "app_state \<Rightarrow> shell_user option \<Rightarrow> shell_state" where
  "init_shell a me = \<lparr>sh_app = a, sh_user = me, sh_social = init_social_sync, sh_refresh = init_refresh, sh_tasks = [],
     sh_next_task = 0, sh_effects = []\<rparr>"

definition shell_run :: "shell_op list \<Rightarrow> shell_state \<Rightarrow> shell_state" where
  "shell_run ops s = fold shell_step ops s"

end
