(* ===== verification/ShellUnread.thy ===== *)
theory ShellUnread
  imports ShellEvents
begin

text \<open>
  What the frame of \<^verbatim>\<open>src/pages/AppShell.tsx\<close> shows and offers on every page: the number of unread things, in the title
  (\<^verbatim>\<open>src/pages/shellTitle.ts\<close>) and in the badge of the desktop application, and the quick switcher with the dialog of
  \<^verbatim>\<open>src/components/QuickSwitcher.tsx\<close>.
\<close>

section \<open>Unread\<close>

definition count_of :: "int obj \<Rightarrow> string \<Rightarrow> int" where
  "count_of m k = nullish (obj_get m k) 0"

definition dm_total :: "app_state \<Rightarrow> int" where
  "dm_total s = sum_list (map (\<lambda>c. count_of (dmUnread s) (dm_id c)) (dmChannels s))"

definition channel_unread :: "app_state \<Rightarrow> channel \<Rightarrow> int" where
  "channel_unread s c =
     (if ch_id c \<in> set (mutedChannelIds s) then count_of (serverMentionsByChannel s) (ch_id c)
      else count_of (serverUnreadByChannel s) (ch_id c))"

definition server_unread :: "app_state \<Rightarrow> server \<Rightarrow> int" where
  "server_unread s x =
     (if srv_id x \<in> set (mutedServerIds s) then 0
      else sum_list (map (channel_unread s) (nullish (obj_get (channelsByServerId s) (srv_id x)) [])))"

definition totalUnreadCount :: "app_state \<Rightarrow> int" where
  "totalUnreadCount s = dm_total s + sum_list (map (server_unread s) (servers s)) + incomingRequestCount s"

record unread_feedback =
  uf_shown :: int
  uf_previous :: int
  uf_initialized :: bool
  uf_calls :: "(int \<times> bool) list"

definition syncUnreadFeedback :: "bool \<Rightarrow> app_state \<Rightarrow> unread_feedback \<Rightarrow> unread_feedback" where
  "syncUnreadFeedback desktop s f =
     (let total = totalUnreadCount s; f1 = f\<lparr>uf_shown := total\<rparr>
      in if \<not> desktop then f1\<lparr>uf_previous := total\<rparr>
         else let first = (\<not> uf_initialized f);
                  effective = (if first then 0 else total);
                  increased = (\<not> first \<and> 0 < total \<and> uf_previous f < total)
           in f1\<lparr>uf_previous := total, uf_initialized := True, uf_calls := uf_calls f @ [(effective, increased)]\<rparr>)"

text \<open>A change of the store is looked at when one of the fields that count has changed.\<close>

definition unread_inputs where
  "unread_inputs s =
     (dmUnread s, dmChannels s, serverUnreadByChannel s, serverMentionsByChannel s, incomingRequestCount s,
      channelsByServerId s, servers s, mutedServerIds s, mutedChannelIds s)"

definition store_changed :: "bool \<Rightarrow> app_state \<Rightarrow> app_state \<Rightarrow> unread_feedback \<Rightarrow> unread_feedback" where
  "store_changed desktop old new f = (if unread_inputs new = unread_inputs old then f else syncUnreadFeedback desktop new f)"

fun feedback_run :: "bool \<Rightarrow> app_state \<Rightarrow> app_state list \<Rightarrow> unread_feedback \<Rightarrow> unread_feedback" where
  "feedback_run desktop s [] f = f"
| "feedback_run desktop s (t # ts) f = feedback_run desktop t ts (store_changed desktop s t f)"

definition init_feedback :: unread_feedback where
  "init_feedback = \<lparr>uf_shown = 0, uf_previous = 0, uf_initialized = False, uf_calls = []\<rparr>"

definition feedback_of :: "bool \<Rightarrow> app_state \<Rightarrow> app_state list \<Rightarrow> unread_feedback" where
  "feedback_of desktop s ts = feedback_run desktop s ts (syncUnreadFeedback desktop s init_feedback)"

section \<open>Title\<close>

datatype title_view = ServerView | DmTitleView | FriendsTitleView | OtherView

definition shellDocumentTitle :: "int \<Rightarrow> string option \<Rightarrow> string" where
  "shellDocumentTitle unreadCount place =
     (let base = (if truthy_str place then the place @ '' | Voxpery'' else ''Voxpery'')
      in if unreadCount \<le> 0 then base
         else ''('' @ (if 99 < unreadCount then ''99+'' else int_str unreadCount) @ '') '' @ base)"

definition shellPlaceName :: "title_view \<Rightarrow> channel option \<Rightarrow> dm_channel option \<Rightarrow> string option" where
  "shellPlaceName view c dm =
     (case (view, c, dm) of
        (ServerView, Some ch, _) \<Rightarrow> Some (if ch_type ch = VoiceChannel then ch_name ch else CHR ''#'' # ch_name ch)
      | (DmTitleView, _, Some d) \<Rightarrow>
          Some (if dm_is_group d = Some True then
                  (let n = js_trim (nullish (dm_name d) '''') in if n = [] then dm_peer_username d else n)
                else CHR ''@'' # dm_peer_username d)
      | (FriendsTitleView, _, _) \<Rightarrow> Some ''Friends''
      | _ \<Rightarrow> None)"

definition title_view_of :: "string \<Rightarrow> title_view" where
  "title_view_of path =
     (if path = ''/servers'' \<or> starts_with ''/servers/'' path then ServerView
      else if path = ROUTES_dm then DmTitleView
      else if path = ''/social'' then FriendsTitleView else OtherView)"

definition shell_title :: "string \<Rightarrow> app_state \<Rightarrow> unread_feedback \<Rightarrow> string" where
  "shell_title path s f =
     shellDocumentTitle (uf_shown f)
       (shellPlaceName (title_view_of path)
          (find (\<lambda>c. Some (ch_id c) = activeChannelId s) (channels s))
          (find (\<lambda>c. Some (dm_id c) = activeDmChannelId s) (dmChannels s)))"

definition selectedVoiceChannelId :: "app_state \<Rightarrow> string option" where
  "selectedVoiceChannelId s =
     (case find (\<lambda>c. Some (ch_id c) = activeChannelId s) (channels s) of
        Some c \<Rightarrow> if ch_type c = VoiceChannel then Some (ch_id c) else joinedVoiceChannelId s
      | None \<Rightarrow> joinedVoiceChannelId s)"

section \<open>The quick switcher\<close>

datatype item_kind = DmItem | ServerItem | ChannelItem

record switcher_item =
  si_id :: string
  si_kind :: item_kind
  si_label :: string
  si_subtitle :: string
  si_search :: string

definition server_item :: "server \<Rightarrow> switcher_item" where
  "server_item x = \<lparr>si_id = ''server:'' @ srv_id x, si_kind = ServerItem, si_label = srv_name x, si_subtitle = ''Jump to server'',
     si_search = srv_name x @ '' '' @ srv_invite_code x\<rparr>"

definition channel_item :: "server list \<Rightarrow> channel \<Rightarrow> switcher_item" where
  "channel_item ss c =
     (let serverName = nullish (map_option srv_name (find (\<lambda>x. srv_id x = ch_server_id c) ss)) ''Server'';
          voice = (ch_type c = VoiceChannel)
      in \<lparr>si_id = ''channel:'' @ ch_id c, si_kind = ChannelItem, si_label = (if voice then ch_name c else ''# '' @ ch_name c),
          si_subtitle = serverName, si_search = ch_name c @ '' '' @ serverName @ (if voice then '' voice'' else '''')\<rparr>)"

definition dm_item :: "dm_channel \<Rightarrow> switcher_item" where
  "dm_item c = \<lparr>si_id = ''dm:'' @ dm_id c, si_kind = DmItem, si_label = dm_peer_username c, si_subtitle = ''Direct message'',
     si_search = dm_peer_username c @ '' direct message dm''\<rparr>"

definition all_channels :: "app_state \<Rightarrow> channel list" where
  "all_channels s = concat (obj_values (channelsByServerId s))"

definition quickSwitcherItems :: "app_state \<Rightarrow> switcher_item list" where
  "quickSwitcherItems s =
     map dm_item (dmChannels s) @ map server_item (servers s) @ map (channel_item (servers s)) (all_channels s)"

text \<open>\<^verbatim>\<open>text.replace(part, '')\<close> removes the first occurrence.\<close>

definition remove_first :: "string \<Rightarrow> string \<Rightarrow> string" where
  "remove_first part t = (case index_of part t of None \<Rightarrow> t | Some i \<Rightarrow> take i t @ drop (i + length part) t)"

record shell_place =
  pl_app :: app_state
  pl_storage :: "string web_storage"
  pl_path :: string

definition handleQuickSwitchSelect :: "last_channels \<Rightarrow> switcher_item \<Rightarrow> shell_place \<Rightarrow> shell_place" where
  "handleQuickSwitchSelect lst item p =
     (let s = pl_app p in
      case si_kind item of
        DmItem \<Rightarrow>
          (let i = remove_first ''dm:'' (si_id item)
           in p\<lparr>pl_app := clearDmUnread i (setActiveDmChannelId (Some i) s),
                pl_storage := setPersistedSocialView DmView (pl_storage p), pl_path := ROUTES_dm\<rparr>)
      | ServerItem \<Rightarrow>
          (let i = remove_first ''server:'' (si_id item);
               cs = nullish (obj_get (channelsByServerId s) i) [];
               first = (case find (\<lambda>c. ch_type c = TextChannel) cs of
                          Some c \<Rightarrow> Some (ch_id c)
                        | None \<Rightarrow> (case cs of [] \<Rightarrow> None | c # _ \<Rightarrow> Some (ch_id c)))
           in p\<lparr>pl_app := setActiveChannel first (setActiveServer lst (Some i) s), pl_path := ''/servers''\<rparr>)
      | ChannelItem \<Rightarrow>
          (let i = remove_first ''channel:'' (si_id item) in
           case find (\<lambda>c. ch_id c = i) (all_channels s) of
             None \<Rightarrow> p
           | Some c \<Rightarrow>
               p\<lparr>pl_app := setActiveChannel (Some (ch_id c)) (setActiveServer lst (Some (ch_server_id c)) s),
                 pl_path := ''/servers''\<rparr>))"

text \<open>The dialog: what it lists for a query, and its keys.\<close>

definition compare_entries :: "(string \<Rightarrow> string \<Rightarrow> int) \<Rightarrow> switcher_item \<times> bool \<Rightarrow> switcher_item \<times> bool \<Rightarrow> int" where
  "compare_entries lc a b =
     (if snd a \<noteq> snd b then (if snd a then -1 else 1) else lc (si_label (fst a)) (si_label (fst b)))"

definition matching_items :: "(string \<Rightarrow> string \<Rightarrow> int) \<Rightarrow> string \<Rightarrow> switcher_item list \<Rightarrow> switcher_item list" where
  "matching_items lc query items0 =
     (if query = [] then items0
      else map fst (sort_by (compare_entries lc)
             (map (\<lambda>item. (item, starts_with query (js_lower (si_label item))))
                (filter (\<lambda>item. includes_str query (js_lower (si_search item))) items0))))"

definition filteredItems :: "(string \<Rightarrow> string \<Rightarrow> int) \<Rightarrow> string \<Rightarrow> switcher_item list \<Rightarrow> switcher_item list" where
  "filteredItems lc typed items0 =
     (let query = js_lower (js_trim typed); matches = matching_items lc query items0
      in take 18 (concat (map (\<lambda>k. take (if query = [] then 6 else 18) (filter (\<lambda>item. si_kind item = k) matches))
                            [DmItem, ServerItem, ChannelItem])))"

datatype switcher_key = EscapeKey | ArrowDownKey | ArrowUpKey | EnterKey bool

datatype switcher_event = SwitcherClosed | SwitcherSelected switcher_item

record switcher =
  sw_query :: string
  sw_active :: nat
  sw_events :: "switcher_event list"

definition switcher_typed :: "string \<Rightarrow> switcher \<Rightarrow> switcher" where
  "switcher_typed t s = s\<lparr>sw_query := t, sw_active := 0\<rparr>"

definition switcher_key_down :: "(string \<Rightarrow> string \<Rightarrow> int) \<Rightarrow> switcher_item list \<Rightarrow> switcher_key \<Rightarrow> switcher \<Rightarrow> switcher" where
  "switcher_key_down lc items0 k s =
     (let shown = filteredItems lc (sw_query s) items0 in
      case k of
        EscapeKey \<Rightarrow> s\<lparr>sw_events := sw_events s @ [SwitcherClosed]\<rparr>
      | ArrowDownKey \<Rightarrow> s\<lparr>sw_active := min (sw_active s + 1) (max (length shown - 1) 0)\<rparr>
      | ArrowUpKey \<Rightarrow> s\<lparr>sw_active := sw_active s - 1\<rparr>
      | EnterKey inInput \<Rightarrow>
          if inInput \<and> sw_active s < length shown
          then s\<lparr>sw_events := sw_events s @ [SwitcherSelected (shown ! sw_active s)]\<rparr> else s)"

section \<open>Facts\<close>

lemma sum_zero_iff: "list_all (\<lambda>x. 0 \<le> f x) xs \<Longrightarrow> sum_list (map f xs) = (0::int) \<longleftrightarrow> list_all (\<lambda>x. f x = 0) xs"
proof (induction xs)
  case (Cons x xs)
  then have "0 \<le> sum_list (map f xs)" by (intro sum_list_nonneg) (auto simp: list_all_iff)
  with Cons show ?case by auto
qed simp

lemma count_nonneg: "counts_ok m \<Longrightarrow> 0 \<le> count_of m k"
  unfolding count_of_def by (rule counts_ok_get)

lemma channel_unread_nonneg: "app_inv s \<Longrightarrow> 0 \<le> channel_unread s c"
  by (simp add: channel_unread_def app_inv_def count_nonneg)

lemma server_unread_nonneg: "app_inv s \<Longrightarrow> 0 \<le> server_unread s x"
  by (auto simp: server_unread_def intro!: sum_list_nonneg channel_unread_nonneg)

lemma server_unread_zero:
  "app_inv s \<Longrightarrow> server_unread s x = 0 \<longleftrightarrow>
     srv_id x \<in> set (mutedServerIds s)
     \<or> list_all (\<lambda>c. channel_unread s c = 0) (nullish (obj_get (channelsByServerId s) (srv_id x)) [])"
  unfolding server_unread_def using channel_unread_nonneg by (auto simp: sum_zero_iff list_all_iff split: option.splits)

lemma total_zero:
  assumes "app_inv s"
  shows "totalUnreadCount s = 0 \<longleftrightarrow>
     list_all (\<lambda>c. count_of (dmUnread s) (dm_id c) = 0) (dmChannels s) \<and> list_all (\<lambda>x. server_unread s x = 0) (servers s)
     \<and> incomingRequestCount s = 0"
proof -
  have d: "0 \<le> dm_total s" "dm_total s = 0 \<longleftrightarrow> list_all (\<lambda>c. count_of (dmUnread s) (dm_id c) = 0) (dmChannels s)"
    unfolding dm_total_def using assms
    by (auto simp: app_inv_def count_nonneg list_all_iff sum_zero_iff intro!: sum_list_nonneg)
  have v: "0 \<le> sum_list (map (server_unread s) (servers s))"
    "sum_list (map (server_unread s) (servers s)) = 0 \<longleftrightarrow> list_all (\<lambda>x. server_unread s x = 0) (servers s)"
    using server_unread_nonneg[OF assms] by (auto simp: sum_zero_iff list_all_iff intro!: sum_list_nonneg)
  have "0 \<le> incomingRequestCount s" using assms by (simp add: app_inv_def)
  then show ?thesis unfolding totalUnreadCount_def using d v by linarith
qed

lemma muted_server_adds_nothing:
  assumes "srv_id x \<in> set (mutedServerIds s)" "servers s = xs @ x # ys"
  shows "totalUnreadCount s = totalUnreadCount (s\<lparr>servers := xs @ ys\<rparr>)"
proof -
  have "channel_unread (s\<lparr>servers := zs\<rparr>) = channel_unread s" for zs by (intro ext) (simp add: channel_unread_def)
  then have "server_unread (s\<lparr>servers := zs\<rparr>) = server_unread s" for zs by (intro ext) (simp add: server_unread_def)
  moreover have "dm_total (s\<lparr>servers := zs\<rparr>) = dm_total s" for zs by (simp add: dm_total_def)
  ultimately show ?thesis using assms by (simp add: totalUnreadCount_def) (simp add: server_unread_def)
qed

text \<open>The desktop application is told to draw attention exactly when the number has risen.\<close>

definition rises :: "int list \<Rightarrow> (int \<times> bool) list" where
  "rises ts = map (\<lambda>(a, b). (b, a < b)) (zip ts (tl ts))"

fun seen_totals :: "app_state \<Rightarrow> app_state list \<Rightarrow> int list" where
  "seen_totals s [] = []"
| "seen_totals s (t # ts) = (if unread_inputs t = unread_inputs s then [] else [totalUnreadCount t]) @ seen_totals t ts"

lemma rises_Cons: "rises (a # b # ts) = (b, a < b) # rises (b # ts)"
  by (simp add: rises_def)

lemma total_nonneg: "app_inv s \<Longrightarrow> 0 \<le> totalUnreadCount s"
  unfolding totalUnreadCount_def dm_total_def
  by (auto simp: app_inv_def count_nonneg intro!: add_nonneg_nonneg sum_list_nonneg) (auto intro!: server_unread_nonneg simp: app_inv_def)

lemma feedback_calls:
  "uf_initialized f \<Longrightarrow> 0 \<le> uf_previous f \<Longrightarrow> list_all app_inv ts \<Longrightarrow>
     uf_calls (feedback_run True s ts f) = uf_calls f @ rises (uf_previous f # seen_totals s ts)"
proof (induction ts arbitrary: s f)
  case Nil
  then show ?case by (simp add: rises_def)
next
  case (Cons t ts)
  have nn: "0 \<le> totalUnreadCount t" using Cons.prems by (auto intro: total_nonneg)
  have conj: "(0 < totalUnreadCount t \<and> uf_previous f < totalUnreadCount t) = (uf_previous f < totalUnreadCount t)"
    using Cons.prems(2) by linarith
  show ?case
  proof (cases "unread_inputs t = unread_inputs s")
    case True
    then show ?thesis using Cons by (simp add: store_changed_def)
  next
    case False
    then have "store_changed True s t f = f\<lparr>uf_shown := totalUnreadCount t, uf_previous := totalUnreadCount t, uf_initialized := True,
        uf_calls := uf_calls f @ [(totalUnreadCount t, uf_previous f < totalUnreadCount t)]\<rparr>"
      using Cons.prems conj by (simp add: store_changed_def syncUnreadFeedback_def Let_def)
    then show ?thesis using Cons False nn by (simp add: rises_Cons)
  qed
qed

lemma shown_is_total: "uf_shown (feedback_run desktop s ts f) = totalUnreadCount (last (s # ts))"
  if "uf_shown f = totalUnreadCount s"
  using that
proof (induction ts arbitrary: s f)
  case (Cons t ts)
  have "totalUnreadCount t = totalUnreadCount s" if "unread_inputs t = unread_inputs s"
  proof -
    have eq: "dmUnread t = dmUnread s" "dmChannels t = dmChannels s" "serverUnreadByChannel t = serverUnreadByChannel s"
      "serverMentionsByChannel t = serverMentionsByChannel s" "incomingRequestCount t = incomingRequestCount s"
      "channelsByServerId t = channelsByServerId s" "servers t = servers s" "mutedServerIds t = mutedServerIds s"
      "mutedChannelIds t = mutedChannelIds s" using that by (simp_all add: unread_inputs_def)
    then have "channel_unread t = channel_unread s" by (intro ext) (simp add: channel_unread_def)
    then have "server_unread t = server_unread s" using eq by (intro ext) (simp add: server_unread_def)
    then show ?thesis using eq by (simp add: totalUnreadCount_def dm_total_def)
  qed
  then have "uf_shown (store_changed desktop s t f) = totalUnreadCount t"
    using Cons.prems by (auto simp: store_changed_def syncUnreadFeedback_def Let_def)
  from Cons.IH[OF this] show ?case by simp
qed simp

text \<open>The quick switcher.\<close>

lemma item_kinds [simp]:
  "si_kind (dm_item d) = DmItem" "si_kind (server_item x) = ServerItem" "si_kind (channel_item ss c) = ChannelItem"
  by (simp_all add: dm_item_def server_item_def channel_item_def Let_def)

lemma remove_prefix: "remove_first part (part @ t) = t"
  by (simp add: remove_first_def index_of.simps starts_with_def)

lemma filtered_subset: "set (filteredItems lc typed items0) \<subseteq> set items0"
proof -
  have "x \<in> set items0" if "x \<in> set (matching_items lc q items0)" for q x
    using that by (auto simp: matching_items_def split: if_splits)
  then show ?thesis by (auto simp: filteredItems_def Let_def dest!: in_set_takeD)
qed

lemma filtered_length: "length (filteredItems lc typed items0) \<le> 18"
  unfolding filteredItems_def Let_def length_take by (rule min.cobounded2)

lemma key_down_in_range:
  assumes "sw_active s < max 1 (length (filteredItems lc (sw_query s) items0))"
  shows "sw_active (switcher_key_down lc items0 k s) < max 1 (length (filteredItems lc (sw_query (switcher_key_down lc items0 k s)) items0))"
proof -
  define n where "n = length (filteredItems lc (sw_query s) items0)"
  have "sw_query (switcher_key_down lc items0 k s) = sw_query s"
    by (cases k) (simp_all add: switcher_key_down_def Let_def)
  moreover have "sw_active (switcher_key_down lc items0 k s) \<in> {sw_active s, sw_active s - 1, min (sw_active s + 1) (n - 1)}"
    by (cases k) (simp_all add: switcher_key_down_def Let_def n_def)
  moreover have "sw_active s < max 1 n" using assms by (simp add: n_def)
  ultimately show ?thesis unfolding n_def[symmetric] by (auto simp: n_def[symmetric])
qed

lemma find_by_id: "distinct (map f xs) \<Longrightarrow> x \<in> set xs \<Longrightarrow> find (\<lambda>y. f y = f x) xs = Some x"
  by (induction xs) force+

lemma select_dm: "handleQuickSwitchSelect lst (dm_item c) p =
    p\<lparr>pl_app := clearDmUnread (dm_id c) (setActiveDmChannelId (Some (dm_id c)) (pl_app p)),
      pl_storage := setPersistedSocialView DmView (pl_storage p), pl_path := ROUTES_dm\<rparr>"
  using remove_prefix[of "''dm:''" "dm_id c"] by (simp add: handleQuickSwitchSelect_def dm_item_def Let_def)

lemma set_active_server_id: "i \<noteq> [] \<Longrightarrow> activeServerId (setActiveServer lst (Some i) s) = Some i"
  by (simp add: setActiveServer_def Let_def)

lemma select_server: "srv_id x \<noteq> [] \<Longrightarrow> activeServerId (pl_app (handleQuickSwitchSelect lst (server_item x) p)) = Some (srv_id x)
    \<and> pl_path (handleQuickSwitchSelect lst (server_item x) p) = ''/servers''"
  using remove_prefix[of "''server:''" "srv_id x"]
  by (simp add: handleQuickSwitchSelect_def server_item_def Let_def setActiveChannel_def set_active_server_id)

lemma select_channel:
  assumes "c \<in> set (all_channels (pl_app p))" "distinct (map ch_id (all_channels (pl_app p)))" "ch_server_id c \<noteq> []"
    and "q = handleQuickSwitchSelect lst (channel_item ss c) p"
  shows "activeChannelId (pl_app q) = Some (ch_id c) \<and> activeServerId (pl_app q) = Some (ch_server_id c) \<and> pl_path q = ''/servers''"
  using remove_prefix[of "''channel:''" "ch_id c"] find_by_id[OF assms(2,1)] assms(3,4)
  by (simp add: handleQuickSwitchSelect_def channel_item_def Let_def setActiveChannel_def set_active_server_id)

end
