(* ===== verification/ShellLaws.thy ===== *)
theory ShellLaws
  imports ShellUnread ServerEventLaws
begin

text \<open>
  The frame keeps what it promises: no call for a reload is lost and reloads never overlap (both reloads interpret
  \<open>single_flight\<close>), every event keeps the invariant of the shared store, a direct message counts once in a conversation that
  is known, and twice in one that is not.
\<close>

section \<open>What a handler leaves alone\<close>

definition same_reloads :: "shell_state \<Rightarrow> shell_state \<Rightarrow> bool" where
  "same_reloads s t \<longleftrightarrow> sh_social t = sh_social s \<and> sh_refresh t = sh_refresh s"

lemma same_reloads_simps [simp]:
  "same_reloads s s" "same_reloads s (shell_app f t) = same_reloads s t" "same_reloads s (shell_emit e t) = same_reloads s t"
  "same_reloads s (t\<lparr>sh_tasks := ts\<rparr>) = same_reloads s t" "same_reloads (s\<lparr>sh_tasks := ts\<rparr>) t = same_reloads s t"
  "same_reloads s (t\<lparr>sh_next_task := n\<rparr>) = same_reloads s t" "same_reloads s (t\<lparr>sh_user := u\<rparr>) = same_reloads s t"
  "same_reloads s (put_task x r t) = same_reloads s t"
  by (simp_all add: same_reloads_def shell_app_def shell_emit_def put_task_def)

lemma notify_dm_reloads [simp]: "same_reloads s (notify_dm cx t c r) = same_reloads s r"
  by (simp add: notify_dm_def Let_def split: sum.split)

lemma dm_deliver_reloads [simp]: "same_reloads s (dm_deliver cx t c r) = same_reloads s r"
  by (simp add: dm_deliver_def Let_def split: option.split)

lemma dm_answers_reloads [simp]:
  "same_reloads s (shell_new_message cx c typ m s)"
  "same_reloads s (dm_list_answered cx t r s)"
  "same_reloads s (dm_create_answered cx t x s)"
  by (simp_all add: shell_new_message_def dm_list_answered_def dm_create_answered_def Let_def split: option.split)

lemma handler_refresh: "sh_refresh (shell_handler cx e s) = sh_refresh s"
  using dm_answers_reloads(1)[of s cx]
  by (simp add: shell_handler_def shell_app_def syncSocial_def same_reloads_def split: ws_event.split)

lemma handler_social:
  "sh_social (shell_handler cx e s) = sh_social s \<or> sh_social (shell_handler cx e s) = runSocialSync True (sx_now cx) (sh_social s)"
  using dm_answers_reloads(1)[of s cx]
  by (simp add: shell_handler_def shell_app_def syncSocial_def same_reloads_def split: ws_event.split)

section \<open>Reloads\<close>

abbreviation social_flight_of :: "shell_state \<Rightarrow> flight" where
  "social_flight_of s \<equiv> social_flight (sh_social s)"

abbreviation refresh_flight_of :: "shell_state \<Rightarrow> flight" where
  "refresh_flight_of s \<equiv> refresh_flight (sh_refresh s)"

definition shell_move :: "shell_state \<Rightarrow> shell_state \<Rightarrow> bool" where
  "shell_move s t \<longleftrightarrow> (\<exists>op. t = shell_step op s)"

lemma shell_event_social: "flight_move\<^sup>*\<^sup>* (social_flight_of s) (social_flight_of (shell_event cx e s))"
  using handler_social[of cx e "if membership_event cx e then refresh_membership s else s"] social_run[of "sh_social s" True "sx_now cx"]
  by (auto simp: shell_event_def refresh_membership_def split: if_splits)

lemma shell_event_refresh: "flight_move\<^sup>*\<^sup>* (refresh_flight_of s) (refresh_flight_of (shell_event cx e s))"
  using refresh_ask[of "sh_refresh s"] by (auto simp: shell_event_def handler_refresh refresh_membership_def)

lemma tasks_reloads:
  "sh_social (shell_step (ShListed cx i r) s) = sh_social s" "sh_refresh (shell_step (ShListed cx i r) s) = sh_refresh s"
  "sh_social (shell_step (ShCreated cx i x) s) = sh_social s" "sh_refresh (shell_step (ShCreated cx i x) s) = sh_refresh s"
  using dm_answers_reloads(2,3)[of "s\<lparr>sh_tasks := obj_del i (sh_tasks s)\<rparr>" cx]
  by (simp_all add: same_reloads_def split: option.split)

lemma step_social: "flight_move\<^sup>*\<^sup>* (social_flight_of s) (social_flight_of (shell_step op s))"
proof (cases op)
  case (ShSynced r now)
  then show ?thesis using social_done[of "sh_social s"] by (simp add: social_answered_def)
next
  case (ShRefreshed u xs p)
  then show ?thesis by (simp add: membership_answered_def Let_def shell_app_def split: option.split)
qed (simp_all add: tasks_reloads shell_event_social syncSocial_def social_run social_timer_moves shell_reconnected_def
      refresh_membership_def shell_app_def del: shell_step.simps(2,3))

lemma step_refresh: "flight_move\<^sup>*\<^sup>* (refresh_flight_of s) (refresh_flight_of (shell_step op s))"
proof (cases op)
  case (ShSynced r now)
  then show ?thesis by (simp add: social_answered_def shell_app_def split: option.split)
next
  case (ShRefreshed u xs p)
  then show ?thesis using refresh_done[of "sh_refresh s"] by (simp add: membership_answered_def Let_def)
next
  case ShUnmounted
  then show ?thesis by (simp add: refresh_flight_def)
qed (simp_all add: tasks_reloads shell_event_refresh syncSocial_def refresh_ask shell_reconnected_def
      refresh_membership_def shell_app_def del: shell_step.simps(2,3))

interpretation social_reload: single_flight shell_move social_flight_of
  by unfold_locales (auto simp: shell_move_def step_social)

interpretation member_reload: single_flight shell_move refresh_flight_of
  by unfold_locales (auto simp: shell_move_def step_refresh)

lemma run_moves: "shell_move\<^sup>*\<^sup>* s (shell_run ops s)"
proof (induction ops arbitrary: s)
  case (Cons op ops)
  have "shell_move s (shell_step op s)" by (auto simp: shell_move_def)
  from converse_rtranclp_into_rtranclp[OF this Cons[of "shell_step op s"]] show ?case by (simp add: shell_run_def)
qed (simp add: shell_run_def)

lemma init_flights: "flight_ok (social_flight_of (init_shell a me))" "flight_ok (refresh_flight_of (init_shell a me))"
  by (simp_all add: init_shell_def init_social_sync_def init_refresh_def social_flight_def refresh_flight_def flight_ok_def)

text \<open>A membership answer is written only when nothing called for another one since it was asked for.\<close>

lemma refresh_applied_is_fresh:
  assumes ok: "flight_ok (refresh_flight_of s)"
    and changed: "sh_app (shell_step (ShRefreshed u xs p) s) \<noteq> sh_app s \<or> sh_user (shell_step (ShRefreshed u xs p) s) \<noteq> sh_user s"
  shows "\<not> unserved (mr_log (sh_refresh s)) False \<and> map_option su_id (sh_user s) = Some u"
proof -
  have "refresh_wanted (sh_refresh s) \<and> map_option su_id (sh_user s) = Some u"
    using changed by (simp add: membership_answered_def Let_def split: if_splits)
  then show ?thesis using ok by (auto simp: flight_ok_def refresh_flight_def refresh_wanted_def)
qed

section \<open>The store\<close>

lemmas shell_actions =
  app_inv_step [of _ "ASetDmChannels _", simplified] app_inv_step [of _ "ASetDmChannelIds _", simplified]
  app_inv_step [of _ "ASetFriends _", simplified] app_inv_step [of _ "AIncrementDmUnread _", simplified]
  app_inv_step [of _ "AClearDmUnread _", simplified] app_inv_step [of _ "ASetDmUnreadFromChannels _ _", simplified]
  app_inv_step [of _ "AClearViewerMembership _", simplified] app_inv_step [of _ "AClearViewersFor _", simplified]
  app_inv_step [of _ "ASetScreenShareViewer _ _ _", simplified] app_inv_step [of _ "ASetJoinedVoice _", simplified]
  app_inv_step [of _ "ASetSocialDataReady _", simplified]

lemma connection_ids_inv [simp]: "app_inv (s\<lparr>voiceActivityConnectionIds := x\<rparr>) = app_inv s"
  by (simp add: app_inv_def)

lemma presence_app_inv:
  assumes "app_inv s"
  shows "app_inv (shell_voice_state cx d s)" "app_inv (shell_presence u status s)" "app_inv (shell_voice_control vd s)"
    "app_inv (shell_viewer viewer publisher watching s)" "app_inv (shell_user_updated ud s)" "app_inv (apply_social r s)"
  using assms
  by (auto simp: shell_voice_state_def shell_presence_def shell_voice_control_def shell_viewer_def shell_user_updated_def
      apply_social_def update_friend_def update_peer_def Let_def
      intro!: shell_actions app_inv_ops app_inv_member_everywhere split: prod.split)

lemma sh_app_simps [simp]:
  "sh_app (shell_app f s) = f (sh_app s)" "sh_app (shell_emit e s) = sh_app s" "sh_app (put_task t r s) = sh_app s"
  "sh_app (notify_dm cx t c s) = sh_app s" "sh_app (syncSocial b now s) = sh_app s" "sh_app (refresh_membership s) = sh_app s"
  by (simp_all add: shell_app_def shell_emit_def put_task_def notify_dm_def syncSocial_def refresh_membership_def Let_def split: sum.split)

lemma deliver_app_inv: "app_inv (sh_app s) \<Longrightarrow> app_inv (sh_app (dm_deliver cx t c s))"
  by (auto simp: dm_deliver_def Let_def intro!: shell_actions split: option.split)

lemma dm_app_inv:
  assumes "app_inv (sh_app s)"
  shows "app_inv (sh_app (shell_new_message cx c typ m s))" "app_inv (sh_app (dm_list_answered cx t r s))"
    "app_inv (sh_app (dm_create_answered cx t x s))"
  using assms
  by (auto simp: shell_new_message_def dm_list_answered_def dm_create_answered_def Let_def
      intro!: deliver_app_inv shell_actions split: option.split)

lemma event_app_inv: "app_inv (sh_app s) \<Longrightarrow> app_inv (sh_app (shell_event cx e s))"
  by (auto simp: shell_event_def shell_handler_def intro!: presence_app_inv dm_app_inv shell_actions split: ws_event.split)

lemma step_app_inv: "app_inv (sh_app s) \<Longrightarrow> app_inv (sh_app (shell_step op s))"
proof (cases op)
  case (ShRefreshed u xs p)
  moreover assume "app_inv (sh_app s)"
  ultimately show ?thesis by (auto simp: membership_answered_def Let_def split: option.split)
qed (auto simp: event_app_inv social_answered_def shell_reconnected_def app_inv_step
      intro!: presence_app_inv dm_app_inv split: option.split)

lemma run_app_inv: "app_inv (sh_app s) \<Longrightarrow> app_inv (sh_app (shell_run ops s))"
  unfolding shell_run_def by (induction ops arbitrary: s) (simp_all add: step_app_inv)

section \<open>Leaving voice\<close>

definition forgotten :: "string \<Rightarrow> string list obj \<Rightarrow> bool" where
  "forgotten u vw \<longleftrightarrow> distinct (map fst vw) \<and> u \<notin> obj_dom vw \<and> (\<forall>p \<in> set vw. u \<notin> set (snd p))"

lemma forgotten_put: "forgotten u vw \<Longrightarrow> pub \<noteq> u \<Longrightarrow> u \<notin> set ids \<Longrightarrow> forgotten u (obj_put pub ids vw)"
  by (auto simp: forgotten_def set_obj_put obj_ok_put obj_dom_put)

lemma clear_loop_gone: "forgotten u (fst acc) \<Longrightarrow> forgotten u (fst (clear_viewer_loop u vw acc))"
proof (induction u vw acc rule: clear_viewer_loop.induct)
  case (2 u pub ids rest nxt changed)
  show ?case
  proof (cases "pub = u")
    case True
    then show ?thesis using 2 by simp
  next
    case False
    have "forgotten u (obj_put pub (filter (\<lambda>i. i \<noteq> u) ids) nxt)" using 2(3) False by (intro forgotten_put) simp_all
    then show ?thesis using 2(2)[OF False refl refl refl] 2(3) False by (simp add: Let_def)
  qed
qed simp

lemma nothing_removed: "length (filter (\<lambda>i. i \<noteq> u) ids) = length ids \<Longrightarrow> u \<notin> set ids"
  by (metis (mono_tags, lifting) length_filter_less less_irrefl)

lemma clear_loop_unchanged:
  "\<not> snd (clear_viewer_loop u vw acc) \<Longrightarrow> \<not> snd acc \<and> u \<notin> obj_dom vw \<and> (\<forall>p \<in> set vw. u \<notin> set (snd p))"
proof (induction u vw acc rule: clear_viewer_loop.induct)
  case (2 u pub ids rest nxt changed)
  show ?case
  proof (cases "pub = u")
    case True
    then show ?thesis using 2 by simp
  next
    case False
    then show ?thesis using 2(2)[OF False refl refl refl] 2(3) nothing_removed[of u ids] by (simp add: Let_def)
  qed
qed simp

lemma membership_cleared:
  "u \<notin> obj_dom (screenShareViewerIdsByPublisherId (clearScreenShareViewerMembership u s))
   \<and> (\<forall>p \<in> set (screenShareViewerIdsByPublisherId (clearScreenShareViewerMembership u s)). u \<notin> set (snd p))"
proof (cases "snd (clear_viewer_loop u (screenShareViewerIdsByPublisherId s) ([], False))")
  case True
  have "forgotten u (fst (clear_viewer_loop u (screenShareViewerIdsByPublisherId s) ([], False)))"
    by (rule clear_loop_gone) (simp add: forgotten_def)
  with True show ?thesis by (simp add: clearScreenShareViewerMembership_def forgotten_def case_prod_beta)
next
  case False
  then show ?thesis using clear_loop_unchanged[OF False] by (simp add: clearScreenShareViewerMembership_def case_prod_beta)
qed

section \<open>Direct messages\<close>

definition looking_at :: "shell_ctx \<Rightarrow> app_state \<Rightarrow> string \<Rightarrow> bool" where
  "looking_at cx a c \<longleftrightarrow>
     isSocialDmViewVisible (sx_path cx) (sx_storage cx) \<and> activeDmChannelId a = Some c \<and> \<not> sx_backgrounded cx"

lemma dm_fields [simp]:
  "dmUnread (setDmChannels xs a) = dmUnread a" "dmUnread (setDmChannelIds is a) = dmUnread a"
  "activeDmChannelId (setDmChannels xs a) = activeDmChannelId a" "activeDmChannelId (setDmChannelIds is a) = activeDmChannelId a"
  "activeDmChannelId (setDmUnreadFromChannels xs keep a) = activeDmChannelId a"
  by (simp_all add: setDmChannels_def setDmChannelIds_def setDmUnreadFromChannels_def split: prod.split)

lemma count_of_put: "count_of (obj_put k v m) j = (if j = k then v else count_of m j)"
  by (simp add: count_of_def obj_get_put)

lemma dm_counts [simp]:
  "count_of (dmUnread (incrementDmUnread c a)) k = count_of (dmUnread a) k + (if k = c then 1 else 0)"
  "count_of (dmUnread (clearDmUnread c a)) k = (if k = c then 0 else count_of (dmUnread a) k)"
  by (simp_all add: incrementDmUnread_def clearDmUnread_def bump_def count_of_put) (simp add: count_of_def)

lemma delivered_counts:
  assumes "dm_id x = td_channel t" "td_channel t \<in> set (td_ids t)"
  shows "count_of (dmUnread (sh_app (dm_deliver cx t (Some x) s))) k =
     (if k \<noteq> td_channel t then count_of (dmUnread (sh_app s)) k
      else if looking_at cx (sh_app s) k then 0 else count_of (dmUnread (sh_app s)) k + 1)"
  using assms by (simp add: dm_deliver_def Let_def looking_at_def)

lemma known_conversation:
  assumes "c \<in> dm_id ` set (dmChannels (sh_app s))" "c \<in> set (dmChannelIds (sh_app s))" "c \<noteq> []"
    and "author_id m \<noteq> Some (sx_user_id cx)" "\<not> mr_cancelled (sh_refresh s)"
  shows "count_of (dmUnread (sh_app (shell_step (ShEvent cx (NewMessage c ''dm'' m)) s))) k =
     (if k \<noteq> c then count_of (dmUnread (sh_app s)) k
      else if looking_at cx (sh_app s) c then 0 else count_of (dmUnread (sh_app s)) c + 1)"
proof -
  obtain x where x: "find (\<lambda>d. dm_id d = c) (dmChannels (sh_app s)) = Some x" and "dm_id x = c"
    using assms(1) by (cases "find (\<lambda>d. dm_id d = c) (dmChannels (sh_app s))") (auto simp: find_None_iff find_Some_iff)
  then show ?thesis using assms
    by (simp add: shell_event_def membership_event_def shell_handler_def shell_new_message_def delivered_counts Let_def)
qed

text \<open>A message of a conversation the client does not know: the list that is loaded counts it already.\<close>

lemma dm_step_other: "dm_id d \<noteq> k \<Longrightarrow> obj_get (fst (dm_unread_step {} d p)) k = obj_get (fst p) k"
  by (cases p) (simp add: Let_def obj_simps)

lemma dm_fold_other: "k \<notin> dm_id ` set ds \<Longrightarrow> obj_get (fst (fold (dm_unread_step {}) ds p)) k = obj_get (fst p) k"
proof (induction ds arbitrary: p)
  case (Cons d ds)
  then have "dm_id d \<noteq> k" by auto
  with Cons show ?case using dm_step_other[of d k p] by (simp del: dm_unread_step.simps)
qed simp

lemma dm_step_own: "counts_ok (fst p) \<Longrightarrow> count_of (fst (dm_unread_step {} d p)) (dm_id d) = unread_of (dm_unread_count d)"
  by (cases p) (auto simp: Let_def count_of_def obj_simps unread_of_def split: option.splits jsnum.splits)

lemma dm_fold_own:
  "distinct (map dm_id ds) \<Longrightarrow> d \<in> set ds \<Longrightarrow> counts_ok (fst p) \<Longrightarrow>
     count_of (fst (fold (dm_unread_step {}) ds p)) (dm_id d) = unread_of (dm_unread_count d)"
proof (induction ds arbitrary: p)
  case (Cons e ds)
  show ?case
  proof (cases "d = e")
    case True
    then have "dm_id d \<notin> dm_id ` set ds" using Cons.prems by auto
    then show ?thesis using True dm_step_own[OF Cons.prems(3), of e] by (simp add: count_of_def dm_fold_other del: dm_unread_step.simps)
  next
    case False
    have "counts_ok (fst (dm_unread_step {} e p))" using counts_ok_dm_step[of "fst p" "{}" e "snd p"] Cons.prems by simp
    then show ?thesis using Cons False by (simp del: dm_unread_step.simps)
  qed
qed simp

lemma loaded_counts:
  assumes "distinct (map dm_id ds)" "d \<in> set ds" "app_inv a"
  shows "count_of (dmUnread (setDmUnreadFromChannels ds {} a)) (dm_id d) = unread_of (dm_unread_count d)"
proof -
  have unchanged: "snd (fold (dm_unread_step {}) ds p) \<or> fst (fold (dm_unread_step {}) ds p) = fst p" for p :: "int obj \<times> bool"
  proof (induction ds arbitrary: p)
    case (Cons e ds)
    have "snd (dm_unread_step {} e p) \<or> fst (dm_unread_step {} e p) = fst p" by (cases p) (simp add: Let_def)
    moreover have "snd q \<Longrightarrow> snd (fold (dm_unread_step {}) es q)" for es q
    proof (induction es arbitrary: q)
      case (Cons f fs)
      have "snd q \<Longrightarrow> snd (dm_unread_step {} f q)" by (cases q) (simp add: Let_def)
      then show ?case using Cons by (simp del: dm_unread_step.simps)
    qed simp
    ultimately show ?case using Cons[of "dm_unread_step {} e p"] by (metis fold_simps(2))
  qed simp
  have "counts_ok (dmUnread a)" using assms(3) by (simp add: app_inv_def)
  then show ?thesis using dm_fold_own[OF assms(1,2), of "(dmUnread a, False)"] unchanged[of "(dmUnread a, False)"]
    by (auto simp: setDmUnreadFromChannels_def split: prod.split)
qed

lemma unknown_conversation_counted_twice:
  assumes "distinct (map dm_id latest)" "x \<in> set latest" "dm_id x = td_channel t" "app_inv (sh_app s)"
    and "\<not> looking_at cx (sh_app s) (td_channel t)"
  shows "count_of (dmUnread (sh_app (dm_list_answered cx t (Some latest) s))) (td_channel t) = unread_of (dm_unread_count x) + 1"
proof -
  have f: "find (\<lambda>c. dm_id c = td_channel t) latest = Some x" using find_by_id[OF assms(1,2)] assms(3) by simp
  have inv: "app_inv (setDmChannelIds (map dm_id latest) (setDmChannels latest (sh_app s)))" using assms(4) by (intro shell_actions)
  have known: "td_channel t \<in> dm_id ` set latest" using assms(2,3) by force
  show ?thesis using assms f known loaded_counts[OF assms(1,2) inv]
    by (auto simp: dm_list_answered_def Let_def delivered_counts looking_at_def)
qed

section \<open>A server that was left\<close>

lemma left_channels: "channelsByServerId (vw_app (on_member_left cx sid u reason v)) = channelsByServerId (vw_app v)"
proof -
  have "channelsByServerId (setActiveServer lst i a) = channelsByServerId a" for lst i a by (simp add: setActiveServer_def Let_def)
  moreover have "channelsByServerId (setServers xs a) = channelsByServerId a" for xs a by (simp add: setServers_def)
  moreover have "channelsByServerId (setMembers xs a) = channelsByServerId a" for xs a by (simp add: setMembers_def)
  moreover have "channelsByServerId (setMembersForServer i xs a) = channelsByServerId a" for i xs a by (simp add: setMembersForServer_def)
  ultimately show ?thesis
    by (auto simp: on_member_left_def map_app_def toast_def Let_def split: option.split)
qed

lemma left_server_still_offered:
  "c \<in> set (all_channels (vw_app v)) \<Longrightarrow>
     let a = vw_app (on_member_left cx sid u reason v) in channel_item (servers a) c \<in> set (quickSwitcherItems a)"
  by (simp add: quickSwitcherItems_def all_channels_def left_channels Let_def)

end
