(* ===== verification/Spec2Isabelle.thy ===== *)
theory Spec2Isabelle
  imports AppInvariant ServerEventLaws SocketLaws ApiClient AuthLaws MessageDrafts MessageResilience
    MessageCaches MessageLayout VoiceGate VoiceProfile PlaybackVolume StageLayout Comparators SocialLists Composer
    RnnoiseProcessor LocalMedia VoiceActivity VoiceDiagnostics ThemeSetting Shortcuts Links DesktopUpdates Telemetry
    VoiceSessionInvariant VoiceCues ChannelApart DmMessageLaws SocialActions
    ServerWorkspace RoleEditor RemoteStreams NoiseRefinement MicTrackLaws CallControls LocalPublishLaws PingLaws
    ShellLaws
begin

text \<open>
  A verification development for the web client of Voxpery (\<^verbatim>\<open>apps/web/src\<close>), a self-hosted chat
  with servers, channels, direct messages and voice.

  \<^bold>\<open>The program.\<close> The client keeps its state in four stores (\<^verbatim>\<open>stores/app.ts\<close>, \<^verbatim>\<open>auth.ts\<close>, \<^verbatim>\<open>socket.ts\<close>,
  \<^verbatim>\<open>toast.ts\<close>). The socket store holds the WebSocket and hands each server event to its listeners; the
  server view (\<^verbatim>\<open>pages/appLayoutEvents.ts\<close>) applies it to the shared store and to its message lists,
  and decides about unread counts, sounds and notifications. Requests go through \<^verbatim>\<open>api/client.ts\<close>,
  whose 401 answers end the session kept by the auth store. Around them are modules with the rules
  for messages (drafts, merging, replies, caches, layout) and for voice (gate, thresholds, volumes,
  layout of the stage).

  \<^bold>\<open>Theories.\<close>
  \<^item> \<open>JsBase\<close>, \<open>JsText\<close>, \<open>JsNumber\<close>, \<open>Utf16\<close>: the part of JavaScript the code uses (objects in insertion
    order, \<^verbatim>\<open>null\<close>, numbers that may not be finite, text, \<^verbatim>\<open>Number(text)\<close>, UTF-16 and
    \<^verbatim>\<open>messageLength.ts\<close>).
  \<^item> \<open>WebStorage\<close>: \<^verbatim>\<open>localStorage\<close> and \<^verbatim>\<open>sessionStorage\<close>, with the interfaces \<open>kv_store\<close> and
    \<open>stored_setting\<close>; \<open>Comparators\<close>: \<^verbatim>\<open>Array.sort\<close> and the interface \<open>comparator\<close>; \<open>RecencyCache\<close>: the
    interface \<open>recency_cache\<close>. Each is interpreted where the code provides it.
  \<^item> \<open>WireTypes\<close>: \<^verbatim>\<open>types/index.ts\<close> and the used parts of \<^verbatim>\<open>api/contracts.ts\<close>.
  \<^item> \<open>AppStore\<close>, \<open>AppPresence\<close>, \<open>AppInvariant\<close>: \<^verbatim>\<open>stores/app.ts\<close>; \<open>ToastStore\<close>: \<^verbatim>\<open>stores/toast.ts\<close>.
  \<^item> \<open>ServerModel\<close>, \<open>ServerEvents\<close>, \<open>ServerEventLaws\<close>: \<^verbatim>\<open>pages/appLayoutModel.ts\<close> and
    \<^verbatim>\<open>pages/appLayoutEvents.ts\<close>, over \<open>Notifications\<close> (\<^verbatim>\<open>notificationPreferences.ts\<close>,
    \<^verbatim>\<open>notificationSound.ts\<close>, \<^verbatim>\<open>pushNotifications.ts\<close>), \<open>MessageAuthors\<close> (\<^verbatim>\<open>messageAuthors.ts\<close>) and
    \<open>VoiceMove\<close> (\<^verbatim>\<open>webrtc/voiceMemberMove.ts\<close>).
  \<^item> \<open>SocketStore\<close>, \<open>SocketLaws\<close>: \<^verbatim>\<open>stores/socket.ts\<close>; \<open>ApiClient\<close>: \<^verbatim>\<open>api/client.ts\<close>; \<open>AuthStore\<close>,
    \<open>AuthLaws\<close>: \<^verbatim>\<open>stores/auth.ts\<close> with the parked tokens of \<^verbatim>\<open>secureStorage.ts\<close>.
  \<^item> \<open>MessageDrafts\<close>, \<open>MessageResilience\<close>, \<open>MessageCaches\<close>, \<open>ReplyPreview\<close>, \<open>MessageLayout\<close>:
    \<^verbatim>\<open>messageDrafts.ts\<close>, \<^verbatim>\<open>messageResilience.ts\<close>, \<^verbatim>\<open>dmMessageCache.ts\<close> with
    \<^verbatim>\<open>components/chatAttachmentCache.ts\<close>, \<^verbatim>\<open>replyPreview.ts\<close>, \<^verbatim>\<open>components/chatMessageLayout.ts\<close>.
  \<^item> \<open>VoiceGate\<close>, \<open>VoiceProfile\<close>, \<open>PlaybackVolume\<close>, \<open>StageLayout\<close>: \<^verbatim>\<open>webrtc/voiceGate.ts\<close>,
    \<^verbatim>\<open>webrtc/sensitivityThreshold.ts\<close> with \<^verbatim>\<open>voiceInputProfile.ts\<close>, \<^verbatim>\<open>remotePlaybackVolume.ts\<close>, and
    \<^verbatim>\<open>components/voiceStageLayout.ts\<close> with \<^verbatim>\<open>streamPreviewLayout.ts\<close> and \<^verbatim>\<open>components/avatarCrop.ts\<close>.
  \<^item> \<open>RnnoiseRing\<close>, \<open>RnnoiseProcessor\<close>: the noise suppressor of \<^verbatim>\<open>webrtc/rnnoise-worklet-processor.ts\<close>, its ring
    buffers behind the interface \<open>sample_fifo\<close> and a refinement of the stream denoised frame by frame.
  \<^item> \<open>VoiceDevices\<close>, \<open>LocalMedia\<close>, \<open>VoiceActivity\<close>, \<open>VoiceDiagnostics\<close>: \<^verbatim>\<open>voiceDevices.ts\<close>,
    \<^verbatim>\<open>webrtc/hooks/useLocalMedia.ts\<close>, \<^verbatim>\<open>webrtc/hooks/useVoiceActivity.ts\<close> with \<^verbatim>\<open>webrtc/audioLevelMonitor.ts\<close>,
    \<^verbatim>\<open>webrtc/voiceDiagnostics.ts\<close> with \<^verbatim>\<open>webrtc/screenAudioDiagnostics.ts\<close>.
  \<^item> \<open>VoiceSession\<close>, \<open>VoiceSessionLaws\<close>, \<open>VoiceSessionInvariant\<close>, \<open>VoiceCues\<close>: joining, leaving and moving in
    \<^verbatim>\<open>webrtc/useLiveKitVoice.ts\<close> with the caller \<^verbatim>\<open>joinWithPreflight\<close> of \<^verbatim>\<open>components/ActiveCallBar.tsx\<close>, and the
    sounds of participants.
  \<^item> \<open>RemoteMedia\<close>, \<open>RemoteMediaLaws\<close>, \<open>RemoteStreams\<close>: \<^verbatim>\<open>webrtc/remoteMediaControls.ts\<close> and the tracks of the other
    participants in \<^verbatim>\<open>webrtc/useLiveKitVoice.ts\<close>; \<open>MicTrack\<close>, \<open>MicTrackLaws\<close>, \<open>LocalPublish\<close>, \<open>LocalPublishLaws\<close>: the
    microphone, the screen share and the camera of a running session, over the pipeline of
    \<^verbatim>\<open>webrtc/hooks/useAudioEngine.ts\<close>, whose gains are \<open>NoiseRefinement\<close>.
  \<^item> \<open>ShellSync\<close>, \<open>ShellEvents\<close>, \<open>ShellUnread\<close>, \<open>ShellLaws\<close>: the frame around all pages, \<^verbatim>\<open>pages/AppShell.tsx\<close> with
    \<^verbatim>\<open>pages/shellTitle.ts\<close> and \<^verbatim>\<open>components/QuickSwitcher.tsx\<close>: its events and reloads (the interface \<open>single_flight\<close>,
    interpreted for both), the unread number and the quick switcher.
  \<^item> \<open>CallControls\<close>, \<open>MediaPermissions\<close>: the buttons of \<^verbatim>\<open>components/ActiveCallBar.tsx\<close> and
    \<^verbatim>\<open>desktopMediaPermissions.ts\<close>; \<open>RtcStats\<close>, \<open>PingEstimate\<close>, \<open>PingLaws\<close>: the reports read and the ping,
    jitter and loss shown by \<^verbatim>\<open>webrtc/hooks/useWebrtcDiagnostics.ts\<close>.
  \<^item> \<open>MessageSending\<close>, \<open>ChannelMessages\<close>, \<open>ChannelMessageLaws\<close>, \<open>ChannelApart\<close>: the messages of the open channel in
    \<^verbatim>\<open>pages/AppLayout.tsx\<close>; \<open>DmMessages\<close>, \<open>DmMessageLaws\<close>, \<open>SocialActions\<close>: conversations, friends and requests in
    \<^verbatim>\<open>pages/HomePage.tsx\<close>. Both pages write messages by the rules of \<open>MessageSending\<close>.
  \<^item> \<open>ChannelOrder\<close>, \<open>ServerWorkspace\<close>, \<open>RoleEditor\<close>: opening a server and managing servers, channels, categories, roles
    and the audit log in \<^verbatim>\<open>pages/AppLayout.tsx\<close>.
  \<^item> \<open>ThemeColors\<close>, \<open>ThemePalette\<close>, \<open>ThemeSetting\<close>: \<^verbatim>\<open>theme.ts\<close>; \<open>SocialLists\<close>: \<^verbatim>\<open>friendsList.ts\<close>,
    \<^verbatim>\<open>socialActivity.ts\<close>, \<^verbatim>\<open>socialView.ts\<close>; \<open>Composer\<close>: \<^verbatim>\<open>draftAttachments.ts\<close>, \<^verbatim>\<open>searchFilters.ts\<close>,
    \<^verbatim>\<open>messageSendError.ts\<close>, \<^verbatim>\<open>timeouts.ts\<close>.
  \<^item> \<open>Shortcuts\<close>, \<open>Links\<close>, \<open>DesktopUpdates\<close>, \<open>Telemetry\<close>: \<^verbatim>\<open>globalPushToTalk.ts\<close> and \<^verbatim>\<open>globalMuteShortcut.ts\<close>;
    \<^verbatim>\<open>inviteLinks.ts\<close>, \<^verbatim>\<open>authRedirect.ts\<close>, \<^verbatim>\<open>desktopOAuth.ts\<close>; \<^verbatim>\<open>desktopSettings.ts\<close>, \<^verbatim>\<open>updater.ts\<close>;
    \<^verbatim>\<open>observability.ts\<close>, \<^verbatim>\<open>stores/features.ts\<close>.

  \<^bold>\<open>How state and operations correspond.\<close> A store is a record and an action of it a function from
  state to state under the name it has in the code. Where the code waits (\<^verbatim>\<open>await\<close>, timers, sockets)
  the model is a step relation: a call runs to its first wait and leaves a task, and the answer is a
  step of its own, so every interleaving of calls and answers is a path (\<open>socket_step\<close>,
  \<open>auth_step\<close>, \<open>toast_step\<close>, \<open>media_step\<close>, \<open>oauth_step\<close>, \<open>voice_step\<close>, \<open>cue_step\<close>, \<open>social_step\<close>), or a run of operations, events and answers (\<open>chan_run\<close>,
  \<open>dm_run\<close>, \<open>remote_run\<close>, \<open>call_run\<close>, \<open>ping_run\<close>, \<open>shell_run\<close>, and the folds of \<open>mic_step\<close> and \<open>share_step\<close>). Errors are values of a sum or option type. Effects that leave the
  client are recorded in the state.

  \<^bold>\<open>Parameters.\<close> What is not under \<^verbatim>\<open>src\<close> or belongs to the browser is an argument: \<^verbatim>\<open>Date.parse\<close>,
  \<^verbatim>\<open>new URL\<close>, \<^verbatim>\<open>localeCompare\<close>, random numbers and ids, the clock, the answers of the server and of
  the keyring, the path by which a canvas encodes an image, the
  denoiser, the shortcut and updater plugins. \<open>plugin_ok\<close> and \<open>keeps_length\<close> name what is assumed of them.

  \<^bold>\<open>Bounds.\<close> The loops of the code that have a bound (eight rounds of unwrapping a quote, twenty-one steps
  towards a readable colour, eviction down to a limit) are recursion on that bound, the others on the
  data, or on what is waiting in the ring of the noise suppressor (with a termination proof); no
  definition needs fuel beyond that. Permission bits and UTF-16 units are words, positions in a ring are
  reduced by its mask; other numbers are integers or reals, so that the rounding of floating-point
  arithmetic is not modelled.

  \<^bold>\<open>Not modelled.\<close> What React components and pages render, their DOM effects, the remaining dialogs of \<^verbatim>\<open>pages/AppLayout.tsx\<close>,
  the tiles of \<^verbatim>\<open>components/ActiveCallBar.tsx\<close> and the Web Audio glue of \<^verbatim>\<open>useAudioEngine.ts\<close>, which
  call into libraries and browser devices, the thin request wrappers under \<^verbatim>\<open>api/\<close>, the emoji table, and the server written in Rust.

  \<^bold>\<open>Properties.\<close> The theorems below, C1 to C40, are the properties; each is followed by a theorem that
  applies it to a concrete input where it has hypotheses.
\<close>

section \<open>The shared store\<close>

text \<open>
  C31: In every state the store can reach, a voice channel has an activity start time exactly when
  someone is connected to it: \<^verbatim>\<open>setVoiceState\<close> starts the clock with the first participant, keeps
  it while anyone stays, and drops it with the last one.
\<close>

theorem voice_clock_iff_occupied:
  assumes "app_reachable s" and "c \<noteq> []"
  shows "obj_get (voiceChannelActiveSince s) c \<noteq> None \<longleftrightarrow> (\<exists>u. obj_get (voiceStates s) u = Some (Some c))"
  using app_inv_reachable[OF assms(1)] assms(2) has_participants_iff[of "voiceStates s" c]
  by (auto simp: app_inv_def presence_ok_def map_of_eq_None_iff)

theorem voice_clock_iff_occupied_witness:
  "let s = app_step (ASetVoiceState 5 ''bob'' None None) (app_step (ASetVoiceState 7 ''bob'' (Some ''lobby'') None) init_app)
   in obj_get (voiceChannelActiveSince s) ''lobby'' \<noteq> None \<longleftrightarrow> (\<exists>u. obj_get (voiceStates s) u = Some (Some ''lobby''))"
  unfolding Let_def by (rule voice_clock_iff_occupied) (intro app_next app_start, simp)

text \<open>
  In every reachable state the screen-share watchers of a publisher are listed once, are never
  the publisher, and a share nobody watches has no entry.
\<close>

theorem share_watchers_well_formed:
  assumes "app_reachable s" and "obj_get (screenShareViewerIdsByPublisherId s) p = Some ids"
  shows "ids \<noteq> [] \<and> distinct ids \<and> p \<notin> set ids"
  using app_inv_reachable[OF assms(1)] map_of_SomeD[OF assms(2)] by (auto simp: app_inv_def viewers_ok_def)

theorem share_watchers_well_formed_witness:
  "[''ann''] \<noteq> [] \<and> distinct [''ann''] \<and> ''bob'' \<notin> set [''ann'']"
proof (rule share_watchers_well_formed)
  let ?s = "app_step (ASetScreenShareViewer ''bob'' ''bob'' True) (app_step (ASetScreenShareViewer ''bob'' ''ann'' True) init_app)"
  show "app_reachable ?s" by (intro app_next app_start)
  show "obj_get (screenShareViewerIdsByPublisherId ?s) ''bob'' = Some [''ann'']"
    by (simp add: setScreenShareViewer_def init_app_def next_viewers_def)
qed

text \<open>
  No reachable state has a negative counter (direct messages, channel messages, mentions,
  friend requests), and a server or channel is muted at most once, so one un-mute undoes it.
\<close>

theorem counters_and_mutes_sane:
  assumes "app_reachable s"
  shows "(\<forall>c n. obj_get (dmUnread s) c = Some n \<or> obj_get (serverUnreadByChannel s) c = Some n \<or>
            obj_get (serverMentionsByChannel s) c = Some n \<longrightarrow> 0 \<le> n)
    \<and> 0 \<le> incomingRequestCount s \<and> distinct (mutedServerIds s) \<and> distinct (mutedChannelIds s)"
  using app_inv_reachable[OF assms] by (auto simp: app_inv_def counts_ok_def dest!: map_of_SomeD)

theorem counters_and_mutes_sane_witness:
  "let s = app_step (ASetMutedServer ''s'' True) (app_step (ASetMutedServer ''s'' True)
       (app_step (ASetIncomingRequestCount (-4)) (app_step (AIncrementDmUnread ''d'') init_app)))
   in 0 \<le> incomingRequestCount s \<and> distinct (mutedServerIds s) \<and> distinct (mutedChannelIds s)"
  unfolding Let_def by (rule counters_and_mutes_sane[THEN conjunct2]) (intro app_next app_start)

section \<open>Server events\<close>

definition empty_view :: view_state where
  "empty_view = \<lparr>vw_app = init_app, vw_messages = [], vw_cache = [], vw_pins = [], vw_permissions = [],
     vw_channel_server = [], vw_categories = [], vw_toasts = init_toasts, vw_effects = []\<rparr>"

lemma view_ok_empty [simp]: "view_ok empty_view"
  by (simp add: empty_view_def view_ok_def ids_ok_def app_inv_reachable[OF app_start])

definition quiet_storage :: "string web_storage" where
  "quiet_storage = \<lparr>items = [], readable = True, writable = True\<rparr>"

text \<open>
  C1: Whatever events the server sends and whatever the user has open while they arrive, the view
  keeps its shape: the store invariant holds and no message appears twice in the open channel or in
  any cached channel.
\<close>

theorem events_keep_view_ok:
  assumes "view_ok v"
  shows "view_ok (fold (\<lambda>(cx, e). handleAppLayoutEvent cx e) es v)"
  using assms by (induction es arbitrary: v) (auto intro: view_ok_event)

text \<open>Concrete inputs of the witnesses: the signed-in user \<open>ann\<close>, looking at channel \<open>c1\<close> of server \<open>s1\<close>.\<close>

definition ann :: user where
  "ann = \<lparr>usr_id = ''ann'', usr_created_at = None, usr_username = ''Ann'', usr_email = ''a@x'', usr_email_verified = True,
     usr_avatar_url = None, usr_about_me = None, usr_status = Online, usr_dm_privacy = None,
     usr_google_connected = None, usr_has_password = None, usr_username_changed_at = None\<rparr>"

definition ann_ctx :: view_ctx where
  "ann_ctx = \<lparr>cx_view_active = True, cx_active_channel = Some ''c1'', cx_active_server = Some ''s1'', cx_user = Some ann,
     cx_auth_user_id = Some ''ann'', cx_backgrounded = False, cx_storage = quiet_storage,
     cx_push_permission = PermDefault, cx_last_channels = None, cx_now = 0, cx_fresh_id = ''t1''\<rparr>"

definition msg_from :: "string \<Rightarrow> string \<Rightarrow> string \<Rightarrow> string \<Rightarrow> message" where
  "msg_from i c u body = \<lparr>msg_id = i, msg_channel_id = c, msg_content = body, msg_attachments = None, msg_reactions = None,
     msg_edited_at = None, msg_created_at = ''2024'', msg_author = Some \<lparr>aut_user_id = u, aut_username = u,
     aut_avatar_url = None, aut_role_color = None\<rparr>,
     msg_client_id = None, msg_client_status = None, msg_client_error = None, msg_client_draft = None\<rparr>"

theorem events_keep_view_ok_witness:
  "view_ok (fold (\<lambda>(cx, e). handleAppLayoutEvent cx e)
     [(ann_ctx, NewMessage ''c1'' ''text'' (msg_from ''m1'' ''c1'' ''bob'' ''hi'')),
      (ann_ctx, NewMessage ''c1'' ''text'' (msg_from ''m1'' ''c1'' ''bob'' ''hi'')),
      (ann_ctx, MessageDeleted ''c1'' ''m1'')] empty_view)"
  by (rule events_keep_view_ok) simp


text \<open>
  The user's own messages are silent: they change nothing in the shared store (no unread count)
  and cause no sound and no notification.
\<close>

theorem own_messages_are_silent:
  assumes "author_id m = map_option usr_id (cx_user cx)"
  shows "vw_app (handleAppLayoutEvent cx (NewMessage c ty m) v) = vw_app v \<and>
    vw_effects (handleAppLayoutEvent cx (NewMessage c ty m) v) = vw_effects v"
  using own_message_silent[OF assms] by (simp add: handleAppLayoutEvent_def)

theorem own_messages_are_silent_witness:
  "vw_app (handleAppLayoutEvent ann_ctx (NewMessage ''c2'' ''text'' (msg_from ''m1'' ''c2'' ''ann'' ''@all'')) empty_view) = vw_app empty_view \<and>
   vw_effects (handleAppLayoutEvent ann_ctx (NewMessage ''c2'' ''text'' (msg_from ''m1'' ''c2'' ''ann'' ''@all'')) empty_view) = vw_effects empty_view"
  by (rule own_messages_are_silent) (simp add: msg_from_def ann_ctx_def ann_def author_id_def)

text \<open>
  A message that makes a sound or shows a notification is one that was counted as unread:
  nothing notifies about a message of a muted server, of the channel being read, or about an
  unmentioning message of a muted channel.
\<close>

theorem notified_messages_are_counted:
  assumes "vw_effects (handleAppLayoutEvent cx (NewMessage c ty m) v) \<noteq> vw_effects v"
  shows "counted cx c m v"
  using assms by (intro effects_imply_counted) (simp add: handleAppLayoutEvent_def)

definition busy_view :: view_state where
  "busy_view = empty_view\<lparr>vw_channel_server := [(''c2'', ''s1'')]\<rparr>"

theorem notified_messages_are_counted_witness:
  "counted ann_ctx ''c2'' (msg_from ''m1'' ''c2'' ''bob'' ''hello @ann'') busy_view"
proof (rule notified_messages_are_counted)
  show "vw_effects (handleAppLayoutEvent ann_ctx (NewMessage ''c2'' ''text'' (msg_from ''m1'' ''c2'' ''bob'' ''hello @ann'')) busy_view)
     \<noteq> vw_effects busy_view"
    by code_simp
qed

text \<open>A deleted message is gone from the open channel and from the cache of its channel.\<close>

theorem deleted_message_is_gone:
  assumes "c \<noteq> []" and "i \<noteq> []"
  shows "(Some c = cx_active_channel cx \<longrightarrow> \<not> has_message i (vw_messages (handleAppLayoutEvent cx (MessageDeleted c i) v))) \<and>
    (\<forall>ms. obj_get (vw_cache (handleAppLayoutEvent cx (MessageDeleted c i) v)) c = Some ms \<longrightarrow> \<not> has_message i ms)"
  using deleted_is_gone[OF assms] by (auto simp: handleAppLayoutEvent_def)

theorem deleted_message_is_gone_witness:
  "\<not> has_message ''m1'' (vw_messages (handleAppLayoutEvent ann_ctx (MessageDeleted ''c1'' ''m1'')
      (empty_view\<lparr>vw_messages := [msg_from ''m1'' ''c1'' ''bob'' ''x'']\<rparr>)))"
  by (rule deleted_message_is_gone[THEN conjunct1, THEN mp]) (simp_all add: ann_ctx_def)

definition member :: "string \<Rightarrow> member_info" where
  "member u = \<lparr>mem_user_id = u, mem_username = u, mem_avatar_url = None, mem_about_me = None, mem_role = ''member'',
     mem_status = ''online'', mem_account_created_at = None, mem_server_joined_at = None, mem_role_color = None,
     mem_roles = None, mem_highest_role_position = None, mem_timed_out_until = None\<rparr>"

definition server_named :: "string \<Rightarrow> server" where
  "server_named i = \<lparr>srv_id = i, srv_name = i, srv_icon_url = None, srv_description = None, srv_owner_id = ''o'',
     srv_invite_code = ''code''\<rparr>"

definition text_channel :: "string \<Rightarrow> string \<Rightarrow> channel" where
  "text_channel i sid = \<lparr>ch_id = i, ch_server_id = sid, ch_name = i, ch_description = None, ch_type = TextChannel,
     ch_category = None, ch_position = 0, ch_my_permissions = None\<rparr>"

text \<open>
  A presence update reaches the member in the open member list and in the cached list of every
  server, and touches nobody else.
\<close>

theorem presence_reaches_every_list:
  assumes "view_ok v" and "u \<noteq> []" and "status \<noteq> []"
  shows "let s' = vw_app (handleAppLayoutEvent cx (PresenceUpdate u status) v) in
    members s' = map_member u (\<lambda>m. m\<lparr>mem_status := status\<rparr>) (members (vw_app v))
    \<and> obj_get (membersByServerId s') sid =
        map_option (map_member u (\<lambda>m. m\<lparr>mem_status := status\<rparr>)) (obj_get (membersByServerId (vw_app v)) sid)"
proof -
  have ok: "obj_ok (membersByServerId (vw_app v))" using assms(1) by (simp add: view_ok_def app_inv_def)
  show ?thesis
    using assms(2,3)
    by (simp add: Let_def handleAppLayoutEvent_def on_presence_update_def map_app_def member_everywhere[OF ok])
qed

theorem presence_reaches_every_list_witness:
  "members (vw_app (handleAppLayoutEvent ann_ctx (PresenceUpdate ''bob'' ''dnd'')
       (empty_view\<lparr>vw_app := app_step (ASetMembers [member ''bob'', member ''cat'']) init_app\<rparr>))) =
     map_member ''bob'' (\<lambda>m. m\<lparr>mem_status := ''dnd''\<rparr>) [member ''bob'', member ''cat'']"
proof -
  let ?v = "empty_view\<lparr>vw_app := app_step (ASetMembers [member ''bob'', member ''cat'']) init_app\<rparr>"
  have "app_reachable (app_step (ASetMembers [member ''bob'', member ''cat'']) init_app)"
    by (intro app_next app_start)
  then have "view_ok ?v" using view_ok_empty by (simp add: view_ok_def app_inv_reachable)
  then show ?thesis
    using presence_reaches_every_list[unfolded Let_def, of ?v "''bob''" "''dnd''" ann_ctx "''s1''"]
    by (simp add: setMembers_def init_app_def)
qed

text \<open>
  When the signed-in account is removed from a server (kicked, banned, the server deleted, or
  left in another window), the server leaves the list and is no longer the active one.
\<close>

theorem removed_account_leaves_server:
  assumes "u \<noteq> []" and "sid \<noteq> []" and "cx_auth_user_id cx = Some u"
    and "cx_active_server cx = activeServerId (vw_app v)"
  shows "let s' = vw_app (handleAppLayoutEvent cx (MemberLeft sid u reason) v) in
    sid \<notin> srv_id ` set (servers s') \<and> activeServerId s' \<noteq> Some sid"
  unfolding Let_def handleAppLayoutEvent_def
  using self_left[of u sid cx v reason] assms(1-4) by simp

theorem removed_account_leaves_server_witness:
  "let v = empty_view\<lparr>vw_app := init_app\<lparr>servers := [server_named ''s1'', server_named ''s2''], activeServerId := Some ''s1''\<rparr>\<rparr>;
       s' = vw_app (handleAppLayoutEvent ann_ctx (MemberLeft ''s1'' ''ann'' (Some Kicked)) v)
   in ''s1'' \<notin> srv_id ` set (servers s') \<and> activeServerId s' \<noteq> Some ''s1''"
  unfolding Let_def
  by (rule removed_account_leaves_server[unfolded Let_def]) (simp_all add: ann_ctx_def)

text \<open>
  After a full snapshot reload of the open server, the active channel is one of the channels of
  the new list; it is none only when that list is empty.
\<close>

theorem snapshot_keeps_channel_valid:
  assumes "cx_active_server cx = Some sid" and "cx_active_channel cx = activeChannelId (vw_app v)"
  shows "let s' = vw_app (apply_snapshot cx sid True sn v) in
    case activeChannelId s' of None \<Rightarrow> sn_channels sn = [] | Some c \<Rightarrow> c \<in> ch_id ` set (channels s')"
  unfolding Let_def using assms by (rule snapshot_channel_valid)

definition small_snapshot :: snapshot where
  "small_snapshot = \<lparr>sn_detail = server.extend (server_named ''s1'') \<lparr>det_my_permissions = None, det_members = None\<rparr>,
     sn_channels = [text_channel ''c7'' ''s1''], sn_categories = []\<rparr>"

theorem snapshot_keeps_channel_valid_witness:
  "case activeChannelId (vw_app (apply_snapshot ann_ctx ''s1'' True small_snapshot
       (empty_view\<lparr>vw_app := setActiveChannel (Some ''c1'') init_app\<rparr>))) of
     None \<Rightarrow> sn_channels small_snapshot = []
   | Some c \<Rightarrow> c \<in> ch_id ` set (channels (vw_app (apply_snapshot ann_ctx ''s1'' True small_snapshot
       (empty_view\<lparr>vw_app := setActiveChannel (Some ''c1'') init_app\<rparr>))))"
  by (rule snapshot_keeps_channel_valid[unfolded Let_def]) (simp_all add: ann_ctx_def setActiveChannel_def)

section \<open>Toasts, mentions, invites, voice moves\<close>

text \<open>
  In every reachable state of the toast store, ids are distinct, no two toasts say the same,
  and exactly the toasts on screen have a pending dismissal: none stays for ever.
\<close>

theorem toasts_distinct_and_timed:
  assumes "toast_reachable s"
  shows "distinct (map fst (toasts s)) \<and> distinct (map snd (toasts s)) \<and>
    (\<forall>i. obj_get (toast_timers s) i \<noteq> None \<longleftrightarrow> i \<in> fst ` set (toasts s))"
  using toast_inv_reachable[OF assms] by (auto simp: toast_inv_def map_of_eq_None_iff)

theorem toasts_distinct_and_timed_witness:
  "let b = \<lparr>t_title = ''A'', t_message = ''x'', t_level = LevelInfo\<rparr>;
       s = pushToast ''2'' 10 b 5000 (pushToast ''1'' 0 b 5000 init_toasts)
   in distinct (map fst (toasts s)) \<and> distinct (map snd (toasts s)) \<and>
    (\<forall>i. obj_get (toast_timers s) i \<noteq> None \<longleftrightarrow> i \<in> fst ` set (toasts s))"
proof -
  let ?b = "\<lparr>t_title = ''A'', t_message = ''x'', t_level = LevelInfo\<rparr>"
  let ?s = "pushToast ''1'' 0 ?b 5000 init_toasts"
  have one: "?s = \<lparr>toasts = [(''1'', ?b)], toast_timers = [(''1'', 5000)]\<rparr>" by code_simp
  have "toast_step init_toasts ?s" by (rule push) (simp_all add: init_toasts_def)
  then have r: "toast_reachable ?s" by (rule toast_next[OF toast_start])
  have "toast_step ?s (pushToast ''2'' 10 ?b 5000 ?s)" by (rule push) (simp_all add: one)
  then show ?thesis
    unfolding Let_def by (intro toasts_distinct_and_timed toast_next[OF r])
qed

text \<open>
  C33: A message mentions a user exactly when it contains \<^verbatim>\<open>@all\<close> or \<^verbatim>\<open>@everyone\<close> in any case, or an
  \<^verbatim>\<open>@\<close> at the start or after white space followed by the user's name in any case and then white
  space or the end; no character of the name acts as a pattern.
\<close>

theorem mention_meaning:
  "messageMentionsUser (Some t) (Some name) \<longleftrightarrow>
     t \<noteq> [] \<and> (includes_str ''@all'' (js_lower t) \<or> includes_str ''@everyone'' (js_lower t) \<or>
       name \<noteq> [] \<and> (\<exists>pre nm post. t = pre @ CHR ''@'' # nm @ post \<and> js_lower nm = js_lower name \<and>
          (pre = [] \<or> is_ws (last pre)) \<and> (post = [] \<or> is_ws (hd post))))"
proof -
  have if_or: "(if P then True else Q) \<longleftrightarrow> P \<or> Q" for P Q by simp
  show ?thesis
    unfolding messageMentionsUser_def truthy_str_simps option.case option.sel mention_scan_iff if_or by argo
qed

text \<open>
  Pasting an invite link yields its code: for every text that ends in \<^verbatim>\<open>/invite/\<close> and a code of
  1 to 32 letters, digits, \<^verbatim>\<open>_\<close> or \<^verbatim>\<open>-\<close>, whatever precedes it and whatever the URL parser does.
\<close>

theorem invite_link_yields_code:
  assumes "valid_code code" and "js_trim (base @ ''/invite/'' @ code) = base @ ''/invite/'' @ code"
  shows "parseInviteInput url (base @ ''/invite/'' @ code) = code"
proof -
  have "match_invite True (base @ ''/invite/'' @ code) = Some code" by (rule match_invite_link[OF assms(1)])
  then show ?thesis unfolding parseInviteInput_def Let_def assms(2) by simp
qed

theorem invite_link_yields_code_witness:
  "parseInviteInput (\<lambda>_. None) (''https://voxpery.com'' @ ''/invite/'' @ ''aB3_-x'') = ''aB3_-x''"
proof (rule invite_link_yields_code)
  show "valid_code ''aB3_-x''" by code_simp
  show "js_trim (''https://voxpery.com'' @ ''/invite/'' @ ''aB3_-x'') = ''https://voxpery.com'' @ ''/invite/'' @ ''aB3_-x''"
    by code_simp
qed

text \<open>
  Every request to move this client to another voice channel is acknowledged once, under its
  own id; a success is claimed only when the client ends up in the destination, and the error shown
  to the user is the error sent.
\<close>

theorem voice_move_acknowledged_honestly:
  "\<exists>a. mr_acks (handleVoiceMemberMoveRequested req cur join) = [a] \<and> ack_request_id a = mv_request_id req \<and>
     (ack_success a \<longrightarrow> channel_after_move req cur join = Some (mv_destination req)) \<and>
     mr_errors (handleVoiceMemberMoveRequested req cur join) = (case ack_error a of None \<Rightarrow> [] | Some e \<Rightarrow> [e]) \<and>
     (ack_success a \<longleftrightarrow> ack_error a = None)"
  using move_one_ack[of req cur join] move_success_joined[of req cur join] move_failure_reported[of req cur join]
  by blast

theorem voice_move_acknowledged_honestly_witness:
  "\<exists>a. mr_acks (handleVoiceMemberMoveRequested \<lparr>mv_request_id = ''r'', mv_source = ''a'', mv_destination = ''b''\<rparr> (Some ''a'')
        (Some (\<lambda>_. (JoinOk, Some ''b'')))) = [a] \<and> ack_request_id a = ''r''"
  using voice_move_acknowledged_honestly[of "\<lparr>mv_request_id = ''r'', mv_source = ''a'', mv_destination = ''b''\<rparr>" "Some ''a''"
      "Some (\<lambda>_. (JoinOk, Some ''b''))"] by auto

text \<open>
  The channel remembered for a server is the one read back, and remembering or forgetting one
  server's channel leaves those of the others alone.
\<close>

theorem remembered_channel_read_back:
  assumes "storage_works st" and "get_or_none LAST_CHANNELS_STORAGE_KEY st \<noteq> Some BadText"
  shows "getStoredChannelId (setStoredChannelId sid c st) sid' =
    (if sid' = sid then (if truthy_str c then c else None) else getStoredChannelId st sid')"
  using assms by (rule getStoredChannelId_set)

theorem remembered_channel_read_back_witness:
  "getStoredChannelId (setStoredChannelId ''s1'' (Some ''c9'') \<lparr>items = [], readable = True, writable = True\<rparr>) ''s1'' = Some ''c9''"
  by (subst remembered_channel_read_back) (simp_all add: storage_works_def get_or_none_def get_item_def truthy_str_def)

text \<open>
  A profile change rewrites the author of that user's messages and nothing else: every other
  message stays, each message keeps its id, and applying the change again has no effect.
\<close>

theorem profile_change_rewrites_author:
  "map msg_id (withUpdatedAuthor ms p) = map msg_id ms \<and>
   withUpdatedAuthor (withUpdatedAuthor ms p) p = withUpdatedAuthor ms p \<and>
   filter (\<lambda>m. \<not> is_author (prof_id p) m) (withUpdatedAuthor ms p) = filter (\<lambda>m. \<not> is_author (prof_id p) m) ms \<and>
   (\<forall>m \<in> set (withUpdatedAuthor ms p). is_author (prof_id p) m \<longrightarrow>
      (\<exists>a. msg_author m = Some a \<and> aut_avatar_url a = prof_avatar_url p \<and>
        (\<forall>n. prof_username p = Some n \<longrightarrow> aut_username a = n)))"
  using withUpdatedAuthor_own[of _ ms p]
  by (simp add: withUpdatedAuthor_idem withUpdatedAuthor_others) (simp add: withUpdatedAuthor_map)

theorem profile_change_rewrites_author_witness:
  "map msg_author (withUpdatedAuthor [msg_from ''m1'' ''c'' ''bob'' ''x''] \<lparr>prof_id = ''bob'', prof_username = Some ''Rob'', prof_avatar_url = None\<rparr>)
     = [Some \<lparr>aut_user_id = ''bob'', aut_username = ''Rob'', aut_avatar_url = None, aut_role_color = None\<rparr>] \<and>
   map msg_id (withUpdatedAuthor [msg_from ''m1'' ''c'' ''bob'' ''x''] \<lparr>prof_id = ''bob'', prof_username = Some ''Rob'', prof_avatar_url = None\<rparr>) =
     map msg_id [msg_from ''m1'' ''c'' ''bob'' ''x'']"
  by (intro conjI conjunct1[OF profile_change_rewrites_author]) code_simp

section \<open>Connection\<close>

lemma reach_connect: "socket_reachable w \<Longrightarrow> socket_reachable (connect t w)"
  using socket_next[OF _ sock_step, of w "CallConnect t"] by simp

lemma reach_disconnect: "socket_reachable w \<Longrightarrow> socket_reachable (disconnect w)"
  using socket_next[OF _ sock_step, of w CallDisconnect] by simp

text \<open>
  C3: In every reachable state at most one socket is open or connecting, and it is the one the
  store holds: reconnecting, resuming and timers never leave a second live connection behind.
\<close>

theorem at_most_one_live_socket:
  assumes "socket_reachable w" and "i < length (sw_sockets w)" and "live_state (ready_of w i)"
  shows "sk_socket (sw_store w) = Some i"
proof -
  have "sockets_ok (sk_socket (sw_store w)) (sk_connectionId (sw_store w)) (sw_sockets w)"
    using socket_inv_reachable[OF assms(1)] by (simp add: socket_inv_def Let_def)
  then show ?thesis using assms(2,3) sockets_ok_one_live by (simp add: ready_of_def)
qed

theorem at_most_one_live_socket_witness:
  "sk_socket (sw_store (connect (Some ''t2'') (disconnect (connect (Some ''t1'') init_socket)))) = Some 1"
proof (rule at_most_one_live_socket)
  let ?w = "connect (Some ''t2'') (disconnect (connect (Some ''t1'') init_socket))"
  show "socket_reachable ?w" by (intro reach_connect reach_disconnect socket_start)
  show "1 < length (sw_sockets ?w)" and "live_state (ready_of ?w 1)" by code_simp+
qed

text \<open>
  The automatic reconnection is bounded: at most eight attempts in a row and at most one
  pending timer, whose delay lies between 0.75 and 37.5 seconds, and only while no socket is held.
\<close>

theorem reconnection_bounded:
  assumes "socket_reachable w"
  shows "sk_reconnectAttempt (sw_store w) \<le> RECONNECT_MAX_ATTEMPTS \<and> length (sw_timers w) \<le> 1 \<and>
    (\<forall>p \<in> set (sw_timers w). 750 \<le> tm_delay p \<and> tm_delay p \<le> 37500 \<and> sk_socket (sw_store w) = None)"
  using socket_inv_reachable[OF assms] by (auto simp: socket_inv_def Let_def timers_ok_def timer_ok_def intent_ok_def)

theorem reconnection_bounded_witness:
  "let w = socket_apply (WsClose 0 1006 (1 / 2)) (connect (Some ''t'') init_socket) in
    sk_reconnectAttempt (sw_store w) \<le> RECONNECT_MAX_ATTEMPTS \<and> length (sw_timers w) \<le> 1"
proof -
  have "socket_enabled (WsClose 0 1006 (1 / 2)) (connect (Some ''t'') init_socket)"
    by (simp add: connect_def init_socket_def open_socket_def set_store_def has_live_socket_def ready_of_def)
  then have r: "socket_reachable (socket_apply (WsClose 0 1006 (1 / 2)) (connect (Some ''t'') init_socket))"
    by (intro socket_next[OF reach_connect sock_step] socket_start)
  show ?thesis unfolding Let_def using reconnection_bounded[OF r] by blast
qed

text \<open>
  C4: After \<^verbatim>\<open>disconnect()\<close> the client is silent until someone calls \<^verbatim>\<open>connect()\<close>: whatever the
  browser still reports about old sockets and timers, no event reaches a listener, no new socket is
  opened and the store stays disconnected.
\<close>

theorem silent_after_disconnect:
  assumes "socket_reachable w"
    and "quiet_step\<^sup>*\<^sup>* (disconnect w) w'"
  shows "sk_socket (sw_store w') = None \<and> \<not> sk_isConnected (sw_store w') \<and> sw_timers w' = [] \<and>
    length (sw_sockets w') = length (sw_sockets w) \<and>
    (\<exists>es. sw_log w' = sw_log w @ es \<and> (\<forall>l d. Delivered l d \<notin> set es))"
proof -
  have "silent (disconnect w)" by (rule silent_disconnect[OF socket_inv_reachable[OF assms(1)]])
  from silent_steps[OF assms(2) this] show ?thesis
    by (auto simp: silent_def)
qed

theorem silent_after_disconnect_witness:
  "let w = connect (Some ''t'') init_socket; w' = socket_apply (WsMessage (\<lambda>_ _. False) 0 (Some ''hi'')) (disconnect w) in
   sk_socket (sw_store w') = None \<and> \<not> sk_isConnected (sw_store w') \<and> sw_timers w' = [] \<and>
    length (sw_sockets w') = length (sw_sockets w) \<and>
    (\<exists>es. sw_log w' = sw_log w @ es \<and> (\<forall>l d. Delivered l d \<notin> set es))"
proof -
  let ?w = "connect (Some ''t'') init_socket"
  show ?thesis
    unfolding Let_def
  proof (rule silent_after_disconnect)
    show "socket_reachable ?w" by (intro reach_connect socket_start)
    have "socket_enabled (WsMessage (\<lambda>_ _. False) 0 (Some ''hi'')) (disconnect ?w)" by code_simp
    then have "socket_step (disconnect ?w) (WsMessage (\<lambda>_ _. False) 0 (Some ''hi'')) (socket_apply (WsMessage (\<lambda>_ _. False) 0 (Some ''hi'')) (disconnect ?w))" by (rule sock_step)
    then show "quiet_step\<^sup>*\<^sup>* (disconnect ?w) (socket_apply (WsMessage (\<lambda>_ _. False) 0 (Some ''hi'')) (disconnect ?w))"
      by (intro r_into_rtranclp exI conjI, assumption, simp)
  qed
qed

text \<open>
  The delay before the \<open>n\<close>-th reconnection attempt is \<open>2^(n-1)\<close> seconds, at most 30, varied by at
  most a quarter (and rounded to a millisecond). The variation comes after the cap, so a delay can
  exceed \<^verbatim>\<open>RECONNECT_MAX_DELAY_MS\<close>.
\<close>

theorem reconnect_delay_window:
  assumes "0 \<le> r" and "r < 1" and "1 \<le> n"
  shows "\<bar>of_int (websocketReconnectDelayMs (int n) r) - min 30000 (1000 * 2 ^ (n - 1))\<bar>
    \<le> min 30000 (1000 * 2 ^ (n - 1)) / 4 + (1 / 2 :: real)"
proof -
  define raw where "raw = min 30000 (1000 * 2 ^ (n - 1) :: real)"
  have pos: "0 \<le> raw" by (simp add: raw_def)
  have "nat (max 0 (int n - 1)) = n - 1" by simp
  then have "websocketReconnectDelayMs (int n) r = js_round (raw * (1 + (r * 2 - 1) * (1 / 4)))"
    unfolding websocketReconnectDelayMs_def Let_def RECONNECT_MAX_DELAY_MS_def RECONNECT_BASE_DELAY_MS_def
      RECONNECT_JITTER_RATIO_def raw_def by (simp only:)
  also have "raw * (1 + (r * 2 - 1) * (1 / 4)) = raw + raw * (r * 2 - 1) / 4" by (simp add: field_simps)
  finally have eq: "websocketReconnectDelayMs (int n) r = js_round (raw + raw * (r * 2 - 1) / 4)" .
  have "\<bar>raw * (r * 2 - 1)\<bar> \<le> raw * 1"
    unfolding abs_mult using pos assms(1,2) by (intro mult_mono) auto
  moreover have "\<bar>of_int (js_round x) - x\<bar> \<le> 1 / 2" for x
    unfolding js_round_def by linarith
  moreover have "\<bar>x - raw\<bar> \<le> raw / 4 + 1 / 2" if "\<bar>x - (raw + y / 4)\<bar> \<le> 1 / 2" "\<bar>y\<bar> \<le> raw * 1" for x y
    using that by linarith
  ultimately show ?thesis
    unfolding eq raw_def[symmetric] by blast
qed

theorem reconnect_delay_window_witness:
  "\<bar>of_int (websocketReconnectDelayMs (int 6) (9 / 10)) - min 30000 (1000 * 2 ^ (6 - 1))\<bar>
    \<le> min 30000 (1000 * 2 ^ (6 - 1)) / 4 + (1 / 2 :: real) \<and> websocketReconnectDelayMs 6 (9 / 10) = 36000"
  by (intro conjI reconnect_delay_window)
     (simp_all add: websocketReconnectDelayMs_def RECONNECT_MAX_DELAY_MS_def RECONNECT_BASE_DELAY_MS_def
        RECONNECT_JITTER_RATIO_def js_round_def)

section \<open>Session\<close>

text \<open>
  C2: Once the user has signed out (and not signed in again), no reachable state has a session
  token in memory, whatever requests were still under way and however the keyring behaved; and a
  credential that is still in the system keyring is marked, so that the next start removes it
  instead of restoring it.
\<close>

theorem signed_out_stays_signed_out:
  assumes "auth_reachable w" and "aw_signed_out w"
  shows "au_token (aw_auth w) = None \<and> (aw_keyring w \<noteq> None \<longrightarrow> hasDesktopLogoutPending w)"
  using assms by (rule signed_out_safe)

definition desktop_start :: auth_world where
  "desktop_start = init_auth_world True ''https://api'' '' - '' (Some ''old'') False"

theorem signed_out_stays_signed_out_witness:
  "let w = logout (setAuth ''new'' ann desktop_start) in au_token (aw_auth w) = None \<and> hasDesktopLogoutPending w"
proof -
  let ?w = "logout (setAuth ''new'' ann desktop_start)"
  have r: "auth_reachable ?w"
    unfolding desktop_start_def by (rule auth_next[OF auth_next[OF auth_start call_set_auth] call_logout])
  have "aw_signed_out ?w" and "aw_keyring ?w \<noteq> None" by code_simp+
  with signed_out_stays_signed_out[OF r] show ?thesis unfolding Let_def by blast
qed

text \<open>
  An answer that belongs to an earlier session (of the keyring or of the server) changes
  neither the session state nor the image-proxy grant.
\<close>

theorem stale_answers_change_nothing:
  assumes "g \<noteq> aw_generation w"
  shows "aw_auth (restore_fetched g tok r w) = aw_auth w \<and> aw_grant (restore_fetched g tok r w) = aw_grant w \<and>
    aw_auth (restore_read g r' w) = aw_auth w \<and> aw_grant (restore_read g r' w) = aw_grant w"
  using stale_answer_ignored[OF assms] by simp

theorem stale_answers_change_nothing_witness:
  "aw_auth (restore_fetched 0 None (Inl ''Unauthorized'') (setUser ann desktop_start)) = aw_auth (setUser ann desktop_start)"
proof -
  have "0 \<noteq> aw_generation (setUser ann desktop_start)" by code_simp
  then show ?thesis by (rule stale_answers_change_nothing[THEN conjunct1])
qed

text \<open>
  The tokens parked for a later revocation are at most five, without repetition; if no more
  than five are to be parked, none is lost.
\<close>

theorem parked_revocations_bounded:
  "distinct (setPendingRevocations ts) \<and> length (setPendingRevocations ts) \<le> 5 \<and> set (setPendingRevocations ts) \<subseteq> set ts \<and>
   (card (set ts) \<le> 5 \<longrightarrow> set (setPendingRevocations ts) = set ts)"
  using setPendingRevocations_bounds[of ts] setPendingRevocations_all[of ts] set_setPendingRevocations[of ts]
  unfolding MAX_PENDING_REVOCATIONS_def by blast

theorem parked_revocations_bounded_witness:
  "length (setPendingRevocations [''a'', ''b'', ''a'', ''c'', ''d'', ''e'', ''f'']) \<le> 5 \<and>
   setPendingRevocations [''a'', ''b'', ''a'', ''c'', ''d'', ''e'', ''f''] = [''b'', ''c'', ''d'', ''e'', ''f'']"
proof
  show "length (setPendingRevocations [''a'', ''b'', ''a'', ''c'', ''d'', ''e'', ''f'']) \<le> 5"
    using parked_revocations_bounded by blast
qed code_simp

section \<open>Requests\<close>


text \<open>
  The error code and the message the server sends reach the user interface unchanged, through
  the text \<^verbatim>\<open>CODE:message\<close> of the thrown error.
\<close>

theorem server_error_reaches_user:
  assumes "eb_json b = Some (Some m, Some code)" "code \<noteq> []" "list_all code_letter code"
    and "js_trim m = m" "m \<noteq> []" "code \<noteq> CONNECTION_ERROR"
  shows "getAuthErrorMessage desktop base dash (apiErrorMessageFromText b status) = \<lparr>ae_code = Some code, ae_message = m\<rparr>"
  using assms by (rule server_error_read_back)

theorem server_error_reaches_user_witness:
  "getAuthErrorMessage True ''https://api'' '' - '' (apiErrorMessageFromText
      \<lparr>eb_text = ''{}'', eb_json = Some (Some ''Too many attempts.'', Some ''RATE_LIMITED'')\<rparr> 429) =
    \<lparr>ae_code = Some ''RATE_LIMITED'', ae_message = ''Too many attempts.''\<rparr>"
  by (rule server_error_reaches_user) (simp, simp, code_simp, code_simp, simp, simp add: CONNECTION_ERROR_def)

section \<open>Writing and keeping messages\<close>

text \<open>
  Truncation counts code points and never splits one: the result is a prefix with the smaller
  of the two lengths; and whatever the user types, a reply whose quote fits stays within the 4000
  characters the server accepts once the body is cut to the limit the composer computes.
\<close>

theorem message_fits_limit:
  "prefix (truncateMessage s n) s \<and>
   countMessageCharacters (truncateMessage s n) = min (countMessageCharacters s) (nat n) \<and>
   (int (countMessageCharacters (replyPrefix r)) \<le> MESSAGE_MAX_CHARACTERS \<longrightarrow>
      int (countMessageCharacters (replyPrefix r @ truncateMessage s (messageBodyLimit r))) \<le> 4000)"
  using truncate_prefix truncate_count reply_fits[of r s] by (simp add: MESSAGE_MAX_CHARACTERS_def)

theorem message_fits_limit_witness:
  "int (countMessageCharacters (replyPrefix (Some \<lparr>rp_username = u16 ''bob'', rp_snippet = u16 ''hi''\<rparr>) @
     truncateMessage (u16 ''hello'') (messageBodyLimit (Some \<lparr>rp_username = u16 ''bob'', rp_snippet = u16 ''hi''\<rparr>)))) \<le> 4000"
proof -
  have "int (countMessageCharacters (replyPrefix (Some \<lparr>rp_username = u16 ''bob'', rp_snippet = u16 ''hi''\<rparr>))) \<le> MESSAGE_MAX_CHARACTERS"
    by code_simp
  then show ?thesis
    using message_fits_limit[of "u16 ''hello''" 0 "Some \<lparr>rp_username = u16 ''bob'', rp_snippet = u16 ''hi''\<rparr>"] by blast
qed



text \<open>
  Merging a page from the server with the local messages loses nothing that must stay: the
  result has every remote message and every local message that can be retried, and no other; it is
  ordered by time; and no message is left in the state \<^verbatim>\<open>sending\<close>.
\<close>

theorem merge_keeps_retryables:
  assumes "\<forall>m \<in> set remote. msg_client_status m = None"
  shows "mset (mergeRemoteWithRetryableLocals parse remote local) =
      mset remote + mset (map mark_interrupted (filter is_retryable local))
    \<and> sorted (map (msg_time parse) (mergeRemoteWithRetryableLocals parse remote local))
    \<and> (\<forall>m \<in> set (mergeRemoteWithRetryableLocals parse remote local). msg_client_status m \<noteq> Some Sending)"
  using mset_merge merge_sorted merge_no_sending[OF assms] by blast

theorem merge_keeps_retryables_witness:
  "let remote = [msg_from ''m1'' ''c'' ''bob'' ''x'']; local = [(msg_from ''l1'' ''c'' ''ann'' ''y'')\<lparr>msg_client_id := Some ''k'',
        msg_client_status := Some Sending\<rparr>]; parse = (\<lambda>_. NaN)
   in mset (mergeRemoteWithRetryableLocals parse remote local) =
      mset remote + mset (map mark_interrupted (filter is_retryable local))"
  unfolding Let_def by (rule merge_keeps_retryables[THEN conjunct1]) (simp add: msg_from_def)

text \<open>
  When the server confirms a sent message, the conversation has that message exactly once,
  whichever of the answer, the event and the optimistic copy came first, and no id twice.
\<close>

theorem confirmation_leaves_one_copy:
  assumes "distinct (map msg_id ms)"
  shows "distinct (map msg_id (reconcileConfirmedMessage ms cid c)) \<and>
    filter (\<lambda>m. msg_id m = msg_id c) (reconcileConfirmedMessage ms cid c) = [c]"
  using assms by (rule reconcile_confirmed)

theorem confirmation_leaves_one_copy_witness:
  "let c = msg_from ''m1'' ''c'' ''ann'' ''y'';
       ms = [(msg_from ''l1'' ''c'' ''ann'' ''y'')\<lparr>msg_client_id := Some ''k''\<rparr>, msg_from ''m1'' ''c'' ''ann'' ''y'']
   in distinct (map msg_id (reconcileConfirmedMessage ms ''k'' c)) \<and>
    filter (\<lambda>m. msg_id m = msg_id c) (reconcileConfirmedMessage ms ''k'' c) = [c]"
  unfolding Let_def by (rule confirmation_leaves_one_copy) (simp add: msg_from_def)

text \<open>
  The cache of direct messages is bounded and keeps what was used last: it never holds more
  than 16 conversations, and a stored conversation is still found after fewer than 16 others have
  been stored.
\<close>

theorem dm_cache_keeps_recent:
  assumes "dm_cache_ok s" and "k \<noteq> []" and "list_all (\<lambda>kv. fst kv \<noteq> []) kvs" and "k \<notin> fst ` set kvs"
    and "card (fst ` set kvs) < 16"
  shows "obj_get (dc_messages (fold (\<lambda>(k, ms). put_conversation k ms) kvs (put_conversation k ms s))) k = Some ms \<and>
    length (dc_messages (fold (\<lambda>(k, ms). put_conversation k ms) kvs (put_conversation k ms s))) \<le> 16"
proof -
  have keys: "list_all ((\<lambda>k. k \<noteq> []) \<circ> fst) kvs" using assms(3) by (simp add: comp_def)
  have lim: "card (fst ` set kvs) < MAX_CACHED_CONVERSATIONS" using assms(5) by (simp add: MAX_CACHED_CONVERSATIONS_def)
  show ?thesis
    using dm.recently_written[OF assms(1,2) keys assms(4) lim, of ms]
      dm.size_bound[OF dm_cache_ok_put[OF assms(1,2)] keys, of ms]
    by (simp add: dm.write_all_def MAX_CACHED_CONVERSATIONS_def)
qed

theorem dm_cache_keeps_recent_witness:
  "obj_get (dc_messages (fold (\<lambda>(k, ms). put_conversation k ms) [(''u:2'', []), (''u:3'', [])]
     (put_conversation ''u:1'' [msg_from ''m1'' ''c'' ''bob'' ''x''] \<lparr>dc_messages = [], dc_in_flight = []\<rparr>))) ''u:1'' =
   Some [msg_from ''m1'' ''c'' ''bob'' ''x'']"
  by (rule dm_cache_keeps_recent[THEN conjunct1]) (simp_all add: dm_cache_ok_def)

text \<open>
  A reply is read as it was written: from \<^verbatim>\<open>> @name: quote\<close>, an empty line and the body, both
  parsers recover the name and the body, provided the name has no colon and neither it nor the quote
  a line break.
\<close>

theorem reply_parses_back:
  assumes "name \<noteq> []" and "CHR '':'' \<notin> set name" and "CHR 10 \<notin> set name" and "CHR 10 \<notin> set snip"
  shows "parseReplyEnvelope (reply_message name snip body) =
      Some \<lparr>re_name = name, re_quote = js_trim snip, re_body = js_trim body\<rparr> \<and>
    map_option rc_username (parseReplyContent (reply_message name snip body)) = Some (js_trim name) \<and>
    map_option rc_body (parseReplyContent (reply_message name snip body)) = Some (js_trim body)"
  using parse_reply_message[OF assms] parse_reply_content[OF assms] by force

theorem reply_parses_back_witness:
  "parseReplyEnvelope (reply_message ''bob'' ''lunch?'' ''yes'') =
    Some \<lparr>re_name = ''bob'', re_quote = js_trim ''lunch?'', re_body = js_trim ''yes''\<rparr>"
  by (rule reply_parses_back[THEN conjunct1]) simp_all

text \<open>
  Two messages are shown under one author line only if they are neighbours of the same known
  author, on one day, at most five minutes apart and in order, and the second neither failed nor
  starts the unread part.
\<close>

theorem grouping_is_sound:
  assumes "isMessageGroupedAt day parse ms i unread"
  shows "\<exists>cur prev a b. 0 < i \<and> item_at ms i = Some cur \<and> item_at ms (i - 1) = Some prev \<and> i \<noteq> unread \<and>
    getMessageAuthorKey (Some cur) = getMessageAuthorKey (Some prev) \<and> getMessageAuthorKey (Some cur) \<noteq> [] \<and>
    msg_client_status cur \<noteq> Some Failed \<and>
    parse (msg_created_at cur) = Fin a \<and> parse (msg_created_at prev) = Fin b \<and> b \<le> a \<and> a - b \<le> 300000 \<and> \<not> isNewMessageDayAt day ms i"
proof -
  have "\<not> isNewMessageDayAt day ms i"
    using assms unfolding isMessageGroupedAt_def by (meson)
  with grouped_imp[OF assms] show ?thesis by blast
qed

theorem grouping_is_sound_witness:
  "let ms = [msg_from ''m1'' ''c'' ''bob'' ''x'', msg_from ''m2'' ''c'' ''bob'' ''y''] in
   \<exists>cur prev a b. 0 < (1 :: int) \<and> item_at ms 1 = Some cur \<and> item_at ms (1 - 1) = Some prev \<and> (1 :: int) \<noteq> - 1 \<and>
    getMessageAuthorKey (Some cur) = getMessageAuthorKey (Some prev) \<and> getMessageAuthorKey (Some cur) \<noteq> [] \<and>
    msg_client_status cur \<noteq> Some Failed \<and>
    Fin 7 = Fin a \<and> Fin 7 = Fin b \<and> b \<le> a \<and> a - b \<le> 300000 \<and> \<not> isNewMessageDayAt (\<lambda>_. ''Mon'') ms 1"
  unfolding Let_def
  by (rule grouping_is_sound[where parse = "\<lambda>_. Fin 7"])
     (simp add: isMessageGroupedAt_def isNewMessageDayAt_def item_at_def msg_from_def getMessageAuthorKey_def
        within_window_def MESSAGE_GROUP_WINDOW_MS_def)

section \<open>Voice and layout\<close>



text \<open>
  The thresholds read from storage are always usable by the gate: the closing threshold is
  positive and below the opening one, which is at most full scale.
\<close>

theorem stored_thresholds_ordered:
  assumes "getThresholdsFromStorage st = Inr (onThr, offThr)"
  shows "0 < offThr \<and> offThr < onThr \<and> onThr \<le> 1"
  using assms by (rule thresholds_ordered)

theorem stored_thresholds_ordered_witness:
  "0 < offThresholdFromOn (onThresholdFromSlider 42) \<and> offThresholdFromOn (onThresholdFromSlider 42) < onThresholdFromSlider 42 \<and>
   onThresholdFromSlider 42 \<le> 1"
  by (rule stored_thresholds_ordered[where st = "\<lparr>items = [], readable = True, writable = True\<rparr>"])
     (simp add: getThresholdsFromStorage_def getSliderFromStorage_def get_item_def getStoredSpeakingPreset_def
        DEFAULT_SPEAKING_PRESET_def thresholdByPreset_def parse_speaking_preset_def)

text \<open>
  A sensitivity from 1 to 100 is read back from storage as it was stored, but the value 0, which
  the settings slider allows, is read back as the default 42.
\<close>

theorem slider_read_back_except_zero:
  "(1 \<le> n \<and> n \<le> 100 \<longrightarrow> slider_of_text (nat_str n) = real n) \<and> slider_of_text (nat_str 0) = 42"
  using slider_read_back slider_zero_lost by blast

theorem slider_read_back_except_zero_witness: "slider_of_text (nat_str 60) = real 60"
  using slider_read_back_except_zero[of 60] by simp

text \<open>
  The volumes written are the volumes read: what \<^verbatim>\<open>writeRemotePlaybackVolumes\<close> returns is what
  the next read gives, and reading does not change the storage again.
\<close>

theorem volumes_read_back:
  assumes "writeRemotePlaybackVolumes vs st = Inr (m, st')" and "readable st"
  shows "readRemotePlaybackVolumes st' = Inr (m, st') \<and> volumes_ok m"
  using assms by (rule write_then_read)

theorem volumes_read_back_witness:
  "let st = \<lparr>items = [], readable = True, writable = True\<rparr> in
   readRemotePlaybackVolumes (st\<lparr>items := [(REMOTE_PLAYBACK_VOLUME_STORAGE_KEY, volume_json [(''voice:bob'', 150)])]\<rparr>) =
     Inr ([(''voice:bob'', 150)], st\<lparr>items := [(REMOTE_PLAYBACK_VOLUME_STORAGE_KEY, volume_json [(''voice:bob'', 150)])]\<rparr>)"
proof -
  have "writeRemotePlaybackVolumes [(''bob'', Fin 150)] \<lparr>items = [], readable = True, writable = True\<rparr> =
     Inr ([(''voice:bob'', 150)], \<lparr>items = [(REMOTE_PLAYBACK_VOLUME_STORAGE_KEY, volume_json [(''voice:bob'', 150)])],
       readable = True, writable = True\<rparr>)"
    by (simp add: writeRemotePlaybackVolumes_def Let_def normalizeStoredVolume_def remotePlaybackVolumeKey_def set_item_def
        normalizeRemoteVoicePlaybackVolume_def normalizeRemotePlaybackVolume_def starts_with_def VOICE_PREFIX_def SCREEN_PREFIX_def
        MAX_REMOTE_VOICE_PLAYBACK_VOLUME_def js_round_def)
  from volumes_read_back[OF this] show ?thesis by (simp add: Let_def)
qed

text \<open>
  The grid of the voice stage fits: with the chosen number of columns all tiles have room inside
  the stage in both directions, and no other number of columns gives wider tiles.
\<close>

theorem stage_grid_fits_and_is_best:
  assumes "best_columns cnt box aspect = Some (c, w)" and "0 < aspect"
  shows "real c * w + sb_gap box * real (c - 1) \<le> sb_width box \<and>
    real (grid_rows cnt c) * (w / aspect) + sb_gap box * real (grid_rows cnt c - 1) \<le> sb_height box \<and>
    cnt \<le> c * grid_rows cnt c \<and>
    (\<forall>d. 1 \<le> d \<and> d \<le> cnt \<longrightarrow> tile_width cnt box aspect d \<le> w)"
  using grid_fits[OF assms] best_columns_max[OF assms(1)] by blast

theorem stage_grid_fits_and_is_best_witness:
  "let box = \<lparr>sb_width = 330, sb_height = 90, sb_gap = 10\<rparr> in
   real 2 * 90 + sb_gap box * real (2 - 1) \<le> sb_width box \<and> tile_width 2 box 1 1 \<le> 90"
proof -
  have "best_columns 2 \<lparr>sb_width = 330, sb_height = 90, sb_gap = 10\<rparr> 1 = Some (2, 90)"
  proof -
    have cols: "[1..<2 + 1] = [1, 2 :: nat]" and rows: "grid_rows 2 1 = 2" "grid_rows 2 2 = 1" by code_simp+
    show ?thesis unfolding best_columns_def cols by (simp add: consider_columns_def tile_width_def rows[unfolded One_nat_def] Let_def)
  qed
  from stage_grid_fits_and_is_best[OF this zero_less_one] show ?thesis unfolding Let_def by simp
qed

text \<open>
  The crop of a profile photo lies inside the photo and covers the whole preview, for every zoom
  and every drag.
\<close>

theorem crop_stays_inside:
  assumes "getAvatarCropGeometry width height zoom off p = Some g"
  shows "0 \<le> cg_sourceX g \<and> cg_sourceX g + cg_sourceSize g \<le> width \<and>
    0 \<le> cg_sourceY g \<and> cg_sourceY g + cg_sourceSize g \<le> height \<and>
    cg_left g \<le> 0 \<and> p \<le> cg_left g + cg_displayWidth g \<and> cg_top g \<le> 0 \<and> p \<le> cg_top g + cg_displayHeight g"
  using assms by (rule crop_inside)

theorem crop_stays_inside_witness:
  "let g = the (getAvatarCropGeometry 800 600 2 \<lparr>co_x = 9000, co_y = -5\<rparr> 240) in
    0 \<le> cg_sourceX g \<and> cg_sourceX g + cg_sourceSize g \<le> 800 \<and>
    0 \<le> cg_sourceY g \<and> cg_sourceY g + cg_sourceSize g \<le> 600 \<and>
    cg_left g \<le> 0 \<and> 240 \<le> cg_left g + cg_displayWidth g \<and> cg_top g \<le> 0 \<and> 240 \<le> cg_top g + cg_displayHeight g"
  unfolding Let_def
  by (rule crop_stays_inside[where zoom = 2 and off = "\<lparr>co_x = 9000, co_y = -5\<rparr>"]) (simp add: getAvatarCropGeometry_def Let_def)

section \<open>Microphone and noise suppression\<close>

text \<open>
  C8: The noise suppressor turns blocks into frames and back without losing, repeating or reordering a
  sample: whatever the sizes of the blocks the browser delivers (up to what the ring holds), what it
  plays is one frame of silence followed by the stream that denoising frame by frame gives, cut to the
  samples received.
\<close>

theorem noise_suppressor_stream:
  assumes "keeps_length f" and "\<forall>xs \<in> set quanta. length xs + 2 * FRAME_SIZE \<le> RING_SIZE"
  shows "snd (run_quanta (working f) quanta (started_processor d)) =
     take (length (concat quanta)) (replicate FRAME_SIZE 0 @ snd (denoise_frames f d (concat quanta)))"
  using assms by (rule run_quanta_stream)

theorem noise_suppressor_stream_witness:
  "snd (run_quanta (working (\<lambda>n xs. (n + 1, map uminus xs))) (replicate 9 (replicate 128 (1 :: real))) (started_processor (0 :: nat))) =
     take (length (concat (replicate 9 (replicate 128 (1 :: real))))) (replicate FRAME_SIZE 0 @
       snd (denoise_frames (\<lambda>n xs. (n + 1, map uminus xs)) (0 :: nat) (concat (replicate 9 (replicate 128 (1 :: real))))))"
  by (rule noise_suppressor_stream) (simp_all add: keeps_length_def FRAME_SIZE_def RING_SIZE_val)

text \<open>
  The loop over the frames of one block ends for every denoiser and every fill of the ring: with less
  than a frame left over, or, when the denoiser throws, with the frame it threw on consumed.
\<close>

theorem frame_loop_drains:
  "case run_frames dn d inq outq of (e, d', inq', outq') \<Rightarrow>
     if e = None then ring_avail inq' = ring_avail inq mod FRAME_SIZE
     else ring_avail inq' + FRAME_SIZE \<le> ring_avail inq"
  by (rule run_frames_drains)




text \<open>
  C10: No microphone is left open: after the cleanup at the end of a call, from whatever state requests,
  refreshes and unplugged devices led to, no captured stream is live, also when the browser answers a
  request only afterwards.
\<close>

theorem no_microphone_left_open:
  assumes "media_step\<^sup>*\<^sup>* init_media m" and "browser_step\<^sup>*\<^sup>* (cleanupLocalMedia m) m'"
  shows "lm_mic_live m' = [] \<and> lm_mic m' = None"
  using browser_steps_released[OF assms(2) cleanup_releases[OF reachable_media_inv[OF assms(1)]]]
  by (simp add: mic_released_def)

theorem no_microphone_left_open_witness:
  "let m' = mic_captured 1 ''usb'' (cleanupLocalMedia (getMicrophoneStream False ''usb'' init_media))
   in lm_mic_live m' = [] \<and> lm_mic m' = None"
  unfolding Let_def
proof (rule no_microphone_left_open)
  let ?m = "getMicrophoneStream False ''usb'' init_media"
  show "media_step\<^sup>*\<^sup>* init_media ?m" by (intro r_into_rtranclp get_mic)
  have "1 \<in> set (lm_mic_pending (cleanupLocalMedia ?m))" by code_simp
  then show "browser_step\<^sup>*\<^sup>* (cleanupLocalMedia ?m) (mic_captured 1 ''usb'' (cleanupLocalMedia ?m))"
    by (intro r_into_rtranclp captured)
qed

section \<open>Appearance\<close>

text \<open>
  C35: Every theme made from a colour of the user is readable: for each base colour, valid or not, and
  both schemes, the seven generated text colours keep their contrast (4.5 to 1, and 4.8 to 1 for text on
  cards) on each of the twelve surfaces.
\<close>

theorem custom_theme_readable:
  "let p = createCustomThemePalette base scheme in
   length (palette_surfaces p) = 12 \<and>
   list_all (\<lambda>s. 4.5 \<le> getContrastRatio (textColor p) s \<and> 4.5 \<le> getContrastRatio (accentColor p) s \<and>
     list_all (\<lambda>t. 4.8 \<le> getContrastRatio t s)
       [secondaryTextColor p, mutedTextColor p, dangerTextColor p, warningTextColor p, positiveTextColor p]) (palette_surfaces p)"
proof -
  have "length (palette_surfaces p) = 12" for p by (simp add: palette_surfaces_def)
  then show ?thesis
    using custom_palette_readable[of base scheme]
    by (simp add: palette_readable_def readable_on_def CARD_TEXT_CONTRAST_def list_all_iff Let_def)
qed

text \<open>
  Whatever text the storage holds under the theme's keys, also none or one that cannot be read, the
  preference read is well formed (a known theme, colours as \<^verbatim>\<open>#rrggbb\<close>, the mode of the theme unless it
  has an own colour), and applying it gives it back unchanged.
\<close>

theorem stored_theme_well_formed:
  "pref_ok (getStoredThemePreference st) \<and>
   fst (applyThemePreference (getStoredThemePreference st) doc) = getStoredThemePreference st"
  using stored_ok by (simp add: apply_result normalized_id)

section \<open>Signing in from the desktop, shortcuts, updates\<close>





text \<open>
  Changing a global shortcut never leaks a registration: whichever call into the plugin fails, the
  plugin afterwards holds the shortcut the module believes it has and nothing else of its own, and
  others' shortcuts are untouched; when no error is reported it is the one asked for.
\<close>

theorem shortcut_change_leaks_nothing:
  assumes "plugin_ok pl held" and "owns_exactly held others s" and "set_option shortcut \<inter> others = {}"
    and "register_shortcut pl shortcut s = (s', r)"
  shows "held (ss_plugin s') = others \<union> set_option (ss_registered s') \<and> set_option (ss_registered s') \<inter> others = {} \<and>
    (isl r \<or> ss_registered s' = (if truthy_str shortcut then shortcut else None))"
  using register_owns[OF assms] by (auto simp: owns_exactly_def)

definition list_plugin :: "string list plugin_calls" where
  "list_plugin = \<lparr>pl_is_registered = (\<lambda>k p. (p, Inr (k \<in> set p))),
     pl_register = (\<lambda>k p. if k = ''F13'' then (p, Inl ''taken'') else (k # p, Inr ())),
     pl_unregister = (\<lambda>k p. (removeAll k p, Inr ()))\<rparr>"

theorem shortcut_change_leaks_nothing_witness:
  "set (ss_plugin (fst (register_shortcut list_plugin (Some ''F13'') \<lparr>ss_registered = Some ''M'', ss_plugin = [''Q'', ''M'']\<rparr>))) =
     {''Q''} \<union> set_option (Some ''M'')"
proof -
  let ?s = "\<lparr>ss_registered = Some ''M'', ss_plugin = [''Q'', ''M'']\<rparr>"
  have run: "register_shortcut list_plugin (Some ''F13'') ?s = (\<lparr>ss_registered = Some ''M'', ss_plugin = [''M'', ''Q'']\<rparr>, Inl ''taken'')"
    by code_simp
  have "plugin_ok list_plugin set" by (auto simp: plugin_ok_def list_plugin_def split: if_splits)
  moreover have "owns_exactly set {''Q''} ?s" by (simp add: owns_exactly_def insert_commute)
  ultimately have "set (ss_plugin \<lparr>ss_registered = Some ''M'', ss_plugin = [''M'', ''Q'']\<rparr>) =
      {''Q''} \<union> set_option (ss_registered \<lparr>ss_registered = Some ''M'', ss_plugin = [''M'', ''Q'']\<rparr>)"
    by (rule shortcut_change_leaks_nothing[OF _ _ _ run, THEN conjunct1]) simp
  then show ?thesis unfolding run by (simp only: fst_conv shortcut_state.simps)
qed

text \<open>
  The progress of a download of known size never goes back and never passes 100 per cent, whatever
  sizes the chunks have, also when more arrives than was announced.
\<close>

theorem download_progress_monotone:
  assumes "0 < n"
  shows "None \<notin> set (rep_reported (run_download (Some n) chunks)) \<and>
    sorted_wrt (\<ge>) (percents (run_download (Some n) chunks)) \<and> hd (percents (run_download (Some n) chunks)) \<le> 100"
  using run_download_ok[of n chunks] assms by (simp add: reporter_ok_def)

theorem download_progress_monotone_witness:
  "sorted_wrt (\<ge>) (percents (run_download (Some 1000) [300, 300, 900])) \<and>
   percents (run_download (Some 1000) [300, 300, 900]) = [100, 60, 30, 0]"
proof
  show "sorted_wrt (\<ge>) (percents (run_download (Some 1000) [300, 300, 900]))"
    using download_progress_monotone[of 1000 "[300, 300, 900]"] by simp
qed (simp add: run_download_def percents_def init_reporter_def Let_def)

section \<open>Server features and events\<close>

text \<open>
  Loading the server's features always ends: three answers suffice, with the first features
  received, or with an error that has a message after the third failure.
\<close>

theorem feature_load_ends:
  "let s = run_load [r0, r1, r2] (loadFeatures init_features) in
   \<not> fe_loading s \<and> fe_attempt s = None \<and> fe_waiting s = None \<and>
   (case fe_features s of
      Some f \<Rightarrow> fe_error s = None \<and> Inr f \<in> {r0, r1, r2}
    | None \<Rightarrow> (\<exists>m. fe_error s = Some m \<and> m \<noteq> []) \<and> isl r0 \<and> isl r1 \<and> isl r2)"
  unfolding Let_def load_outcome by (cases r0; cases r1; cases r2) simp_all

text \<open>
  Events about the use of the client are sent only after the server has allowed them: as long as
  its answer is out nothing is sent, at most 24 wait, nothing waits once it has decided, and whatever is
  sent is one of the known codes.
\<close>

theorem telemetry_waits_for_consent:
  "let t = run_telemetry calls in
   length (tm_pending t) \<le> 24 \<and> (tm_mode t = DeliveryPending \<or> tm_pending t = []) \<and>
   (tm_mode t \<noteq> DeliveryPending \<or> tm_sent t = []) \<and> list_all isObservabilityEventCode (tm_sent t)"
  using run_telemetry_ok[of calls] by (auto simp: telemetry_ok_def MAX_PENDING_EVENTS_def Let_def)

theorem telemetry_waits_for_consent_witness:
  "length (tm_pending (run_telemetry [Report ''voice_join_started'', Crash])) \<le> 24 \<and>
   tm_sent (run_telemetry [Report ''voice_join_started'', Crash, Configure True]) =
     [''frontend_session_started'', ''voice_join_started'', ''frontend_crash'']"
  by (intro conjI conjunct1[OF telemetry_waits_for_consent[unfolded Let_def]]) code_simp

section \<open>Friends and searching\<close>

text \<open>
  The list of friends in voice shows only what the user may see: each entry is an active friend,
  not the user, in a voice channel of a server the user is in and may view, and the entry's channel is
  one the client has been told of under that server.
\<close>

theorem social_activity_is_visible:
  assumes "e \<in> set (getSocialActivity lc src (Some me) connectionId)"
  shows "ae_user_id e \<noteq> me \<and> (\<exists>f \<in> set (so_friends src). fr_id f = ae_user_id e \<and> isActiveFriend f) \<and>
    ae_server e \<in> set (so_servers src) \<and> ch_type (ae_channel e) = VoiceChannel \<and> may_view (ae_channel e) \<and>
    (\<exists>cs. (srv_id (ae_server e), cs) \<in> set (so_channels src) \<and> ae_channel e \<in> set cs) \<and>
    (ae_user_id e, Some (ch_id (ae_channel e))) \<in> set (so_voice_states src)"
proof -
  obtain channelId where v: "(ae_user_id e, channelId) \<in> set (so_voice_states src)"
    and act: "activity_of src me connectionId (voice_channels_of (index_by srv_id (so_servers src)) (so_channels src))
       (index_by fr_id (so_friends src)) (ae_user_id e, channelId) = Some e"
    using social_activity_members[OF assms] by blast
  obtain f where f: "f \<in> set (so_friends src)" "fr_id f = ae_user_id e" "isActiveFriend f"
    using activity_of_Some(4)[OF act] index_by_get[of fr_id "so_friends src" "ae_user_id e"] by fast
  obtain cid where c: "channelId = Some cid"
    "obj_get (voice_channels_of (index_by srv_id (so_servers src)) (so_channels src)) cid = Some (ae_server e, ae_channel e)"
    using activity_of_Some(3)[OF act] by blast
  obtain sid cs where s: "(sid, cs) \<in> set (so_channels src)" "ae_channel e \<in> set cs" "ch_id (ae_channel e) = cid"
    "obj_get (index_by srv_id (so_servers src)) sid = Some (ae_server e)" "shown_channel sid (ae_channel e)"
    using voice_channels_sound[OF c(2)] by blast
  show ?thesis
    using activity_of_Some(1)[OF act] f s index_by_get[OF s(4)] v c(1) by (auto simp: shown_channel_def)
qed

definition visible_source :: social_source where
  "visible_source = \<lparr>so_servers = [server_named ''s1''],
     so_channels = [(''s1'', [(text_channel ''v1'' ''s1'')\<lparr>ch_type := VoiceChannel, ch_my_permissions := Some 1\<rparr>])],
     so_friends = [\<lparr>fr_id = ''bob'', fr_username = ''Bob'', fr_avatar_url = None, fr_status = ''online''\<rparr>],
     so_voice_states = [(''bob'', Some ''v1'')], so_voice_server_ids = [], so_screen_sharing = [], so_connection_ids = None\<rparr>"

definition bob_in_voice :: activity_entry where
  "bob_in_voice = \<lparr>ae_user_id = ''bob'', ae_username = ''Bob'', ae_avatar_url = None, ae_server = server_named ''s1'',
     ae_channel = (text_channel ''v1'' ''s1'')\<lparr>ch_type := VoiceChannel, ch_my_permissions := Some 1\<rparr>,
     ae_screen_sharing = False\<rparr>"

theorem social_activity_is_visible_witness:
  "ae_user_id bob_in_voice \<noteq> ''ann'' \<and> may_view (ae_channel bob_in_voice)"
proof -
  have "bob_in_voice \<in> set (getSocialActivity (\<lambda>_ _. 0) visible_source (Some ''ann'') None)" by code_simp
  from social_activity_is_visible[OF this] show ?thesis by blast
qed

text \<open>
  A search is read as it was typed: words, then \<^verbatim>\<open>from:\<close> with a name and \<^verbatim>\<open>has:attachment\<close>, give back
  the words, the name and the filter, for all words that are not filters themselves.
\<close>

theorem search_filters_read_back:
  assumes "list_all is_word ws" and "list_all (\<lambda>w. search_token_of w = TextToken w) ws"
    and "is_word name" and "hd name \<noteq> CHR ''@''"
  shows "parseMessageSearchInput (join_with '' '' (ws @ [''from:'' @ name, ''has:attachment''])) =
     \<lparr>sf_text = join_with '' '' ws, sf_from = Some name, sf_attachment = True\<rparr>"
  using assms by (rule search_read_back)

theorem search_filters_read_back_witness:
  "parseMessageSearchInput (join_with '' '' ([''holiday'', ''photos''] @ [''from:'' @ ''bob'', ''has:attachment''])) =
     \<lparr>sf_text = join_with '' '' [''holiday'', ''photos''], sf_from = Some ''bob'', sf_attachment = True\<rparr>"
  by (rule search_filters_read_back) (code_simp, code_simp, code_simp, simp)

section \<open>The voice session\<close>

text \<open>
  C5: When no join is under way and no channel is joined, nothing of the voice session is left open: no
  captured microphone, no running gate, no room, and no suspended join that could open one later. This holds
  after every order of joining, moving, leaving, cancelled prompts, failures at any wait, closing rooms, takeovers by
  another device and unmounts.
\<close>

theorem idle_means_released:
  assumes "voice_reachable s" and "\<not> vs_pending s" and "vs_joined s = None"
  shows "vs_live s = [] \<and> vs_gates s = [] \<and> vs_rooms s = [] \<and> vs_waiting s = [] \<and> \<not> vs_joining s"
  using assms by (rule idle_releases)

definition left_while_joining :: voice_session where
  "left_while_joining =
     (let s1 = microphone_answered fine (joinWithPreflight fine ''red'' init_voice)
      in answer_first (answer_first (leave_pressed s1)))"

theorem idle_means_released_witness:
  "vs_live left_while_joining = [] \<and> vs_rooms left_while_joining = []"
proof -
  have "voice_step s (answer_first s)" if "vs_waiting s \<noteq> []" for s
    using that by (cases "vs_waiting s") (auto simp: answer_first_def intro: voice_step.resumed)
  then have r: "voice_reachable s \<Longrightarrow> vs_waiting s \<noteq> [] \<Longrightarrow> voice_reachable (answer_first s)" for s
    by (blast intro: voice_next)
  let ?s1 = "microphone_answered fine (joinWithPreflight fine ''red'' init_voice)"
  have "voice_reachable (leave_pressed ?s1)"
    by (intro voice_next[OF _ voice_step.left] voice_next[OF _ voice_step.prompted]
        voice_next[OF _ voice_step.asked]) simp
  moreover have "vs_waiting (leave_pressed ?s1) \<noteq> []" "vs_waiting (answer_first (leave_pressed ?s1)) \<noteq> []"
    by code_simp+
  ultimately have "voice_reachable left_while_joining" unfolding left_while_joining_def Let_def by (intro r)
  moreover have "\<not> vs_pending left_while_joining" "vs_joined left_while_joining = None" by code_simp+
  ultimately show ?thesis using idle_means_released by blast
qed

text \<open>
  C6: A join that was superseded, by a leave, an unmount, a takeover or a newer join, never registers its
  channel: whatever it was waiting for and however that is answered, it changes neither the joined channel
  nor the shared store nor what was sent to the server.
\<close>

theorem superseded_join_registers_nothing:
  assumes "at_number a \<noteq> vs_attempt s"
  shows "vs_joined (resume i a s) = vs_joined s \<and> vs_store_joined (resume i a s) = vs_store_joined s
    \<and> vs_sent (resume i a s) = vs_sent s"
  using stale_resume_presence[OF assms, of i] by (simp add: presence_def)

theorem superseded_join_registers_nothing_witness:
  "let s = leaveVoice False False ((answer_first ^^ 6) (joinVoice fine ''red'' (Some 7) [] False init_voice))
   in vs_waiting s \<noteq> [] \<and> vs_sent (resume fine (hd (vs_waiting s)) s) = vs_sent s"
proof -
  let ?s = "leaveVoice False False ((answer_first ^^ 6) (joinVoice fine ''red'' (Some 7) [] False init_voice))"
  have "at_number (hd (vs_waiting ?s)) \<noteq> vs_attempt ?s" and "vs_waiting ?s \<noteq> []" by code_simp+
  then show ?thesis using superseded_join_registers_nothing[of "hd (vs_waiting ?s)" ?s fine] by (simp add: Let_def)
qed

text \<open>
  C7: Every join ends: as soon as thirteen awaited calls per suspended join were answered, with success or
  failure, no join is suspended and the joining flag is down, so that the next join is not refused. It
  holds for every caller of the hook, also when joins overlap.
\<close>

theorem every_join_ends:
  assumes "hook_reachable s" and "13 * length (vs_waiting s) \<le> length answers"
  shows "vs_waiting (answer_all answers s) = [] \<and> \<not> vs_joining (answer_all answers s)"
  using assms rank_sum_bound[of "vs_waiting s"] by (simp add: answered_all answered_all_idle)

theorem every_join_ends_witness:
  "let s = joinVoice fine ''red'' None [] False init_voice
   in \<not> vs_joining (answer_all (replicate 13 fine) s)"
proof -
  have "hook_reachable (joinVoice fine ''red'' None [] False init_voice)"
    by (intro hook_next[OF _ hook_step.joined]) simp
  moreover have "length (vs_waiting (joinVoice fine ''red'' None [] False init_voice)) = 1" by code_simp
  ultimately show ?thesis using every_join_ends[of _ "replicate 13 fine"] by (simp add: Let_def)
qed

text \<open>
  C19: The sounds of a participant alternate: since the counted participants were last read from the room,
  nobody is announced as joining twice without leaving in between or the other way round, although the
  server and the room both report, and the last sound agrees with who is counted.
\<close>

theorem participant_sounds_alternate:
  assumes "cue_reachable s"
  shows "take_turns (i \<in> set (pc_start s)) (sounds_of i s) = Some (i \<in> set (pc_ids s))"
  using cues_take_turns[OF assms] by (simp add: turns_ok_def)

theorem participant_sounds_alternate_witness:
  "let s = run_microtask (participant_disconnected ''ann'' ClientInitiated (room_joined [''ann''] init_cues))
   in sounds_of ''ann'' s = [LeaveCue] \<and> take_turns True (sounds_of ''ann'' s) = Some False"
proof -
  let ?s = "run_microtask (participant_disconnected ''ann'' ClientInitiated (room_joined [''ann''] init_cues))"
  have "cue_reachable ?s"
    by (intro cue_next[OF _ cue_step.microtask] cue_next[OF _ cue_step.departs]
        cue_next[OF _ cue_step.opened]) (simp_all add: init_cues_def)
  from participant_sounds_alternate[OF this, of "''ann''"]
  have "take_turns (''ann'' \<in> set (pc_start ?s)) (sounds_of ''ann'' ?s) = Some (''ann'' \<in> set (pc_ids ?s))" .
  moreover have "''ann'' \<in> set (pc_start ?s)" "''ann'' \<notin> set (pc_ids ?s)" "sounds_of ''ann'' ?s = [LeaveCue]"
    by code_simp+
  ultimately show ?thesis by (simp add: Let_def)
qed

text \<open>
  C20: Nobody is counted as present for good after they left: while the room is connected, once the queued
  microtasks ran and the grace timers fired, everyone counted is in the room.
\<close>

theorem departed_are_not_counted:
  assumes "cue_reachable s" and "pc_current s \<and> pc_ready s \<and> pc_connected s"
    and "pc_queue s = []" and "pc_timers s = []"
  shows "set (pc_ids s) \<subseteq> set (pc_remote s)"
  using settled_counts_room[OF assms(1) _ assms(3,4)] assms(2) by (simp add: cues_active_def)

theorem departed_are_not_counted_witness:
  "let s = leave_timer_fired ''ann'' (run_microtask (participant_disconnected ''ann'' OtherReason (room_joined [''ann'', ''bob''] init_cues)))
   in set (pc_ids s) \<subseteq> {''bob''}"
proof -
  let ?s = "leave_timer_fired ''ann'' (run_microtask (participant_disconnected ''ann'' OtherReason (room_joined [''ann'', ''bob''] init_cues)))"
  have "cue_reachable ?s"
    by (intro cue_next[OF _ cue_step.timer] cue_next[OF _ cue_step.microtask]
        cue_next[OF _ cue_step.departs] cue_next[OF _ cue_step.opened])
      (simp_all add: init_cues_def)
  moreover have "pc_current ?s \<and> pc_ready ?s \<and> pc_connected ?s" "pc_queue ?s = []" "pc_timers ?s = []"
    "pc_remote ?s = [''bob'']" by code_simp+
  ultimately show ?thesis using departed_are_not_counted[of ?s] by (simp add: Let_def)
qed

section \<open>Messages of the open channel and conversation\<close>


text \<open>
  C22: Channels are kept apart: after every run of actions, answers and events, the list kept for a channel and the
  list shown of the open one hold only that channel's messages, provided the server answers about the channel it was
  asked for and the answer to a reaction or a deletion comes while its channel is open.
\<close>

theorem channels_kept_apart:
  assumes "run_apart parse (init_chan v) ops"
  shows "let s = chan_run parse ops (init_chan v) in
    (\<forall>e \<in> set (vw_cache (cs_view s)). list_all (\<lambda>m. msg_channel_id m = fst e) (snd e)) \<and>
    (truthy_str (cs_active s) \<longrightarrow> list_all (\<lambda>m. Some (msg_channel_id m) = cs_active s) (cs_messages s))"
proof -
  have "chan_apart (chan_run parse ops (init_chan v))" using assms by (rule run_keeps_apart[OF init_apart])
  then show ?thesis
    by (cases "cs_active (chan_run parse ops (init_chan v))")
      (simp_all add: chan_apart_def lists_apart_def of_channel_def list_all_iff Let_def)
qed

theorem channels_kept_apart_witness:
  "let s = chan_run no_time (take 5 reaction_race) (init_chan no_view)
   in cs_active s = Some ''d'' \<and> list_all (\<lambda>m. Some (msg_channel_id m) = cs_active s) (cs_messages s)"
proof -
  have "run_apart no_time (init_chan no_view) (take 5 reaction_race)" by code_simp
  from channels_kept_apart[OF this]
  have "truthy_str (cs_active (chan_run no_time (take 5 reaction_race) (init_chan no_view))) \<longrightarrow>
      list_all (\<lambda>m. Some (msg_channel_id m) = cs_active (chan_run no_time (take 5 reaction_race) (init_chan no_view)))
        (cs_messages (chan_run no_time (take 5 reaction_race) (init_chan no_view)))" by (simp add: Let_def)
  moreover have "cs_active (chan_run no_time (take 5 reaction_race) (init_chan no_view)) = Some ''d''" by code_simp
  ultimately show ?thesis by (simp add: Let_def)
qed

text \<open>
  C23: Paging back in a conversation keeps what is shown: the answer to an older page or to a page of a jump, whatever
  it holds and however long after the request it comes, leaves the shown messages as they are at that moment and at
  most puts messages before them that are not among them.
\<close>

theorem paging_back_keeps_shown:
  assumes "pages_back k" and "k \<in> set (ds_calls s)"
  shows "\<exists>older. ds_messages (dm_apply parse lc (DmAnswer k ans) s) = older @ ds_messages s
    \<and> msg_id ` set older \<inter> msg_id ` set (ds_messages s) = {}"
  using page_answer_shown[OF assms, of parse lc ans] by (simp add: only_older_def)

definition dm_reader :: user where
  "dm_reader = ann\<lparr>usr_id := ''ann''\<rparr>"

definition paging_dm :: dm_state where
  "paging_dm = (init_dms (Some dm_reader) (setActiveDmChannelId (Some ''d'') init_app) \<lparr>dc_messages = [], dc_in_flight = []\<rparr>)
     \<lparr>ds_messages := [chat_row ''m2'' ''d'', chat_row ''m3'' ''d''], ds_older := Some 1, ds_calls := [DmOlder ''d'' 0 1]\<rparr>"

theorem paging_back_keeps_shown_witness:
  "let s = dm_apply no_time (\<lambda>a b. 0) (DmAnswer (DmOlder ''d'' 0 1) (DmRows [chat_row ''m1'' ''d'', chat_row ''m2'' ''d''])) paging_dm
   in (\<exists>older. ds_messages s = older @ ds_messages paging_dm) \<and> map msg_id (ds_messages s) = [''m1'', ''m2'', ''m3'']"
proof -
  let ?k = "DmOlder ''d'' 0 1" and ?ans = "DmRows [chat_row ''m1'' ''d'', chat_row ''m2'' ''d'']"
  have "pages_back ?k" "?k \<in> set (ds_calls paging_dm)" by (simp_all add: paging_dm_def)
  from paging_back_keeps_shown[OF this, of no_time "\<lambda>a b. 0" ?ans]
  have "\<exists>older. ds_messages (dm_apply no_time (\<lambda>a b. 0) (DmAnswer ?k ?ans) paging_dm) = older @ ds_messages paging_dm" by blast
  moreover have "map msg_id (ds_messages (dm_apply no_time (\<lambda>a b. 0) (DmAnswer ?k ?ans) paging_dm)) = [''m1'', ''m2'', ''m3'']"
    by code_simp
  ultimately show ?thesis by (simp add: Let_def)
qed

text \<open>
  C28: A jump to a search result ends: every answered page leaves less of its twenty pages, whatever the server answers
  and whatever else happened before, so at most twenty requests are made for it.
\<close>

theorem search_jump_ends:
  assumes "DmJump c gen target loaded page \<in> set (ds_calls (dm_run parse lc ops (init_dms me app cache)))"
  shows "jump_work (dm_apply parse lc (DmAnswer (DmJump c gen target loaded page) ans) (dm_run parse lc ops (init_dms me app cache)))
    < jump_work (dm_run parse lc ops (init_dms me app cache))"
  by (rule jump_answer_progress[OF dm_run_ok[OF init_dms_ok] assms])

definition full_page :: "message list" where
  "full_page = map (\<lambda>i. chat_row (replicate i CHR ''m'') ''d'') [1..<51]"

definition jumping :: "dm_op list" where
  "jumping = [OpenDm (Some ''d'') [], ShowDms True, DmLoadEnds ''d'' (Some full_page) [], DmGoTo ''x'']"

abbreviation jumping_dm :: dm_state where
  "jumping_dm \<equiv> dm_run no_time (\<lambda>a b. 0) jumping (init_dms (Some dm_reader) init_app \<lparr>dc_messages = [], dc_in_flight = []\<rparr>)"

theorem search_jump_ends_witness:
  "let k = DmJump ''d'' (ds_request jumping_dm) ''x'' (ds_messages jumping_dm) 0
   in jump_work (dm_apply no_time (\<lambda>a b. 0) (DmAnswer k (DmRows [])) jumping_dm) < jump_work jumping_dm"
proof -
  have "filter pages_back (ds_calls jumping_dm) = [DmJump ''d'' (ds_request jumping_dm) ''x'' (ds_messages jumping_dm) 0]"
    by code_simp
  then have "DmJump ''d'' (ds_request jumping_dm) ''x'' (ds_messages jumping_dm) 0 \<in> set (filter pages_back (ds_calls jumping_dm))"
    by (simp only: list.set_intros(1))
  then have "DmJump ''d'' (ds_request jumping_dm) ''x'' (ds_messages jumping_dm) 0 \<in> set (ds_calls jumping_dm)"
    by (simp only: set_filter mem_Collect_eq)
  from search_jump_ends[OF this] show ?thesis by (simp add: Let_def)
qed





section \<open>Managing a server\<close>

text \<open>
  A channel lands where it is dropped: after an accepted drop the sidebar, which sorts the channels by category, type
  and the new positions, shows the dragged channel directly before or after the target, and all others in the order
  they had, also when the channel changes its category.
\<close>

theorem channel_drop_lands:
  assumes "collates lc" and "distinct (map ch_id cs)" and "reorder_channels lc d t side cs = Some (nxt, moves)"
  shows "\<exists>ys zs. filter (\<lambda>i. i \<noteq> d) (orderedChannelIds lc cs) = ys @ t # zs \<and>
    orderedChannelIds lc nxt = ys @ (case side of Before \<Rightarrow> [d, t] | After \<Rightarrow> [t, d]) @ zs"
  using assms by (rule drop_in_order)

definition three_channels :: "channel list" where
  "three_channels = [chan_row ''a'' ''s'', (chan_row ''b'' ''s'')\<lparr>ch_position := 1\<rparr>,
     (chan_row ''c'' ''s'')\<lparr>ch_category := Some ''Other''\<rparr>]"

theorem channel_drop_lands_witness:
  "orderedChannelIds code_order (fst (the (reorder_channels code_order ''c'' ''a'' After three_channels))) = [''a'', ''c'', ''b'']"
proof -
  let ?r = "reorder_channels code_order ''c'' ''a'' After three_channels"
  have "?r \<noteq> None" by code_simp
  then obtain nxt moves where r: "?r = Some (nxt, moves)" by auto
  have "distinct (map ch_id three_channels)" by code_simp
  from channel_drop_lands[OF code_order_collates this r] obtain ys zs
    where o: "filter (\<lambda>i. i \<noteq> ''c'') (orderedChannelIds code_order three_channels) = ys @ ''a'' # zs"
    and n: "orderedChannelIds code_order nxt = ys @ [''a'', ''c''] @ zs" by auto
  have "filter (\<lambda>i. i \<noteq> ''c'') (orderedChannelIds code_order three_channels) = [''a'', ''b'']" by code_simp
  with o have "ys = [] \<and> zs = [''b'']" by (auto simp: Cons_eq_append_conv)
  with n r show ?thesis by simp
qed

text \<open>
  Switching a role to full admin and back changes nothing: from a role without the right to manage the server, the
  switch turns on all fourteen permissions, and turning it off gives back exactly the permissions there were.
\<close>

theorem full_admin_switch_restores:
  assumes "rle_permissions s AND PERM_MANAGE_SERVER \<noteq> PERM_MANAGE_SERVER"
  shows "rle_permissions (handleToggleRolePermission b True True s) AND ADMIN_MASK = ADMIN_MASK
    \<and> rle_permissions (handleToggleRolePermission b True False (handleToggleRolePermission b True True s)) = rle_permissions s"
  using admin_on_off[OF assms] by simp

definition member_role :: role_editor where
  "member_role = handleSelectRole \<lparr>ro_id = ''r'', ro_name = ''Member'', ro_permissions = 0x81, ro_color = None\<rparr>
     \<lparr>rle_roles = [], rle_selected = None, rle_name = [], rle_permissions = 0, rle_before = None, rle_color = None,
      rle_error = None, rle_loading = False, rle_dragging = None, rle_notices = [], rle_calls = []\<rparr>"

theorem full_admin_switch_restores_witness:
  "rle_permissions (handleToggleRolePermission PERM_MANAGE_SERVER True False
     (handleToggleRolePermission PERM_MANAGE_SERVER True True member_role)) = 0x81"
proof -
  have p: "rle_permissions member_role = 0x81" by (simp add: member_role_def handleSelectRole_def)
  have "(0x81 :: permissions) AND PERM_MANAGE_SERVER \<noteq> PERM_MANAGE_SERVER"
    by (simp add: PERM_MANAGE_SERVER_def perm_bit_def)
  with full_admin_switch_restores[of member_role PERM_MANAGE_SERVER] show ?thesis by (simp add: p)
qed

section \<open>What other participants send\<close>







text \<open>
  C16: When tracks come as a room delivers them, the stream of a participant holds one to four different tracks, no two
  from the same source, and the monitor that tells whether the participant speaks listens to microphone tracks of
  that stream only.
\<close>

theorem one_track_per_source:
  assumes "delivered_run ops (init_remote a)" and "obj_get (rm_streams (remote_run ops a)) peer = Some ids"
  shows "ids \<noteq> [] \<and> distinct ids \<and> length ids \<le> 4 \<and> inj_on (track_class (remote_run ops a)) (set ids) \<and>
    (case obj_get (rm_monitors (remote_run ops a)) peer of None \<Rightarrow> True
     | Some js \<Rightarrow> set js \<subseteq> set ids \<and> list_all (track_is is_microphone (remote_run ops a)) js)"
proof -
  have inv: "streams_inv (remote_run ops a)" unfolding remote_run_def using assms(1) inv_init by (rule inv_always)
  then have "stream_ok (remote_run ops a) ids" using assms(2) unfolding streams_inv_def by blast
  moreover have "monitor_ok (remote_run ops a) peer js" if "obj_get (rm_monitors (remote_run ops a)) peer = Some js" for js
    using inv that unfolding streams_inv_def by blast
  ultimately show ?thesis
    using stream_short[of "remote_run ops a" ids] assms(2)
    by (auto simp: stream_ok_def monitor_ok_def list_all_iff split: option.split)
qed

definition microphone_replaced :: "remote_op list" where
  "microphone_replaced =
     (let mic = \<lparr>pb_source = SourceMicrophone, pb_kind = AudioKind, pb_muted = False, pb_subscribed = False, pb_track = None\<rparr>;
          t = \<lparr>mt_kind = AudioKind, mt_enabled = True, mt_ended = False, mt_audio_source = None, mt_is_screen_audio = False,
               mt_is_camera = False, mt_is_screen = False\<rparr>
      in [RoomOpened ''c'', RoomHydrated 0 [(''ann'', [(''p'', mic), (''q'', mic)])], TrackSubscribed ''ann'' ''p'' ''t'' t,
          TrackSubscribed ''ann'' ''q'' ''u'' t])"

theorem one_track_per_source_witness:
  "obj_get (rm_streams (remote_run microphone_replaced init_app)) ''ann'' = Some [''u''] \<and>
   inj_on (track_class (remote_run microphone_replaced init_app)) {''u''}"
proof -
  let ?s = "remote_run microphone_replaced init_app"
  have "delivered_run microphone_replaced (init_remote init_app)" by code_simp
  moreover have u: "obj_get (rm_streams ?s) ''ann'' = Some [''u'']" by code_simp
  ultimately have "inj_on (track_class ?s) (set [''u''])" using one_track_per_source by blast
  with u show ?thesis by simp
qed

section \<open>The microphone of a running session\<close>






section \<open>After the noise suppressor\<close>

text \<open>
  C18: The refinement never silences: with the configuration of any stored settings, whatever the spectrum of the frames, the
  two gains stay between 3.5 and 7 percent and one, and eight frames at the opening level bring the first to 97 percent
  from wherever it was.
\<close>

theorem refinement_never_silences:
  assumes "list_all (\<lambda>f. \<exists>enabled st. buildSuppressionConfig enabled st = Inr (fr_config f)) (fs @ loud_frames)"
    and "list_all (\<lambda>f. openFloorThr (fr_config f) \<le> fr_rms f) loud_frames" and "8 \<le> length loud_frames"
  shows "35 / 1000 \<le> floorGain (fold tickNoiseFloor fs open_gains) \<and> floorGain (fold tickNoiseFloor fs open_gains) \<le> 1 \<and>
    7 / 100 \<le> isolationGain (fold tickNoiseFloor fs open_gains) \<and> isolationGain (fold tickNoiseFloor fs open_gains) \<le> 1 \<and>
    97 / 100 \<le> floorGain (fold tickNoiseFloor (fs @ loud_frames) open_gains)"
proof -
  have built: "list_all (\<lambda>f. config_ok (fr_config f)) (fs @ loud_frames)"
    using assms(1) built_ok by (auto simp: list_all_iff)
  have "gains_ok open_gains" by (simp add: gains_ok_def open_gains_def)
  then have g: "gains_ok (fold tickNoiseFloor fs open_gains)" using built by (intro ticks_ok) simp
  have "97 / 100 \<le> floorGain (fold tickNoiseFloor loud_frames (fold tickNoiseFloor fs open_gains))"
    using built assms(2) by (intro loud_open_soon[OF _ g assms(3)]) (simp add: list_all_iff)
  with g show ?thesis by (simp add: gains_ok_def)
qed

definition frame_at :: "real \<Rightarrow> sound_frame" where
  "frame_at level =
     \<lparr>fr_spectrum = [], fr_rate = Fin 48000, fr_fft = 256, fr_rms = level, fr_refined = True,
      fr_config = suppression_of (shouldUseAggressiveVoiceIsolation ProfileIsolation True) TuningBalanced\<rparr>"

theorem refinement_never_silences_witness:
  "35 / 1000 \<le> floorGain (fold tickNoiseFloor [frame_at 0] open_gains) \<and>
   97 / 100 \<le> floorGain (fold tickNoiseFloor ([frame_at 0] @ replicate 8 (frame_at 1)) open_gains)"
proof -
  have built: "buildSuppressionConfig True quiet_storage = Inr (fr_config (frame_at r))" for r
    by (simp add: frame_at_def) code_simp
  have "openFloorThr (fr_config (frame_at 1)) \<le> fr_rms (frame_at 1)"
    using dbToLinear_less[of "- 42" 0] dbToLinear_less[of "- 38" 0] by (simp add: frame_at_def suppression_of_def dbToLinear_def)
  then show ?thesis
    using refinement_never_silences[of "[frame_at 0]" "replicate 8 (frame_at 1)"] built by (auto simp: list_all_iff)
qed

section \<open>The controls of a call\<close>



section \<open>Screen share and camera\<close>




text \<open>
  A switch of the camera that succeeds changes the camera: with two listed cameras and a known device, if switching
  succeeds - by restarting the track for the other direction, by choosing another device, or by the fallback after an
  error - the track then comes from another device.
\<close>

theorem camera_switch_changes_device:
  assumes "distinct devices" and "2 \<le> length (filter (\<lambda>d. d \<noteq> []) devices)" and "c \<noteq> []"
    and "switchCamera (Some c) (Some devices) restarted set_device = (Inr device, impossible)"
  shows "device \<noteq> Some c"
  by (rule switch_changes[OF assms(1,2) refl assms(3,4)])

theorem camera_switch_changes_device_witness:
  "switchCamera (Some ''front'') (Some [''front'', ''rear'']) (Some (Some ''front'')) (\<lambda>_. True) = (Inr (Some ''rear''), False) \<and>
   Some ''rear'' \<noteq> Some ''front''"
proof -
  have s: "switchCamera (Some ''front'') (Some [''front'', ''rear'']) (Some (Some ''front'')) (\<lambda>_. True) = (Inr (Some ''rear''), False)"
    by code_simp
  have "Some ''rear'' \<noteq> Some ''front''" by (rule camera_switch_changes_device[OF _ _ _ s]) simp_all
  with s show ?thesis by blast
qed

section \<open>The connection statistics of a call\<close>

text \<open>
  C39: What the call bar shows of the connection is plausible whatever the browser reports and in whatever order reports,
  pongs, timers and changes of the channel arrive: a ping is shown between 1 and 5000 ms, a packet loss between 0 and 100
  percent, a jitter between 0 and 1000 ms and a variation of the ping below 5000 ms.
\<close>

theorem shown_figures_in_range:
  fixes ops :: "ping_op list"
  defines "shown \<equiv> shown_figures (ping_run ops)"
  shows "opt_between 1 5000 (shown_ping shown) \<and> opt_between 1 5000 (shown_ws shown) \<and> opt_between 1 5000 (shown_rtc shown)
     \<and> opt_between 0 100 (shown_loss shown) \<and> opt_between 0 1000 (shown_jitter shown) \<and> opt_between 0 4999 (shown_ping_jitter shown)"
  using ping_always[of ops] by (simp add: shown_def shown_figures_def ping_parts current_rtc_def current_ws_def Let_def)

text \<open>
  C40: Outliers do not move the ping: while most of the round trips in the window lie between lo and hi and the smoothed ping
  does so, the ping after another sample does too, however far the sample itself is off.
\<close>

theorem outliers_do_not_move_ping:
  assumes "1 \<le> lo" "lo \<le> hi" "hi \<le> 5000" and "opt_between (of_int lo) (of_int hi) (pg_rtc_smoothed s)"
    and "median samples = Some m" and "s' = applyRtt samples now s"
    and "length (pg_rtc_samples s') < 2 * length (filter (is_between (of_int lo) (of_int hi)) (pg_rtc_samples s'))"
  shows "opt_between (of_int lo) (of_int hi) (pg_rtc_ms s')"
  using assms majority_keeps_ping[of lo hi s samples m now] by simp

theorem outliers_do_not_move_ping_witness:
  "opt_between 45 60
     (pg_rtc_ms (applyRtt [900] 1000 (init_ping\<lparr>pg_rtc_samples := [50, 52, 51], pg_rtc_smoothed := Some 50\<rparr>)))"
  using outliers_do_not_move_ping[of 45 60 "init_ping\<lparr>pg_rtc_samples := [50, 52, 51], pg_rtc_smoothed := Some 50\<rparr>" "[900]" 900
      "applyRtt [900] 1000 (init_ping\<lparr>pg_rtc_samples := [50, 52, 51], pg_rtc_smoothed := Some 50\<rparr>)" 1000]
  by (simp add: applyRtt_def init_ping_def median_def js_round_def pushWindow_def PING_WINDOW_SIZE_def stableRtcPingTarget_def
      is_between_def Let_def)

section \<open>The frame around the pages\<close>




text \<open>
  C25: A direct message of somebody else counts once: in a conversation the client knows, its count rises by one and no other
  count changes, unless that conversation is open before the user's eyes, whose count is then nought.
\<close>

theorem direct_message_counts_once:
  assumes "c \<in> dm_id ` set (dmChannels (sh_app s))" "c \<in> set (dmChannelIds (sh_app s))" "c \<noteq> []"
    and "author_id m \<noteq> Some (sx_user_id cx)" "\<not> mr_cancelled (sh_refresh s)"
    and "s' = shell_step (ShEvent cx (NewMessage c ''dm'' m)) s"
  shows "count_of (dmUnread (sh_app s')) k =
     (if k \<noteq> c then count_of (dmUnread (sh_app s)) k
      else if looking_at cx (sh_app s) c then 0 else count_of (dmUnread (sh_app s)) c + 1)"
  using known_conversation[OF assms(1-5)] assms(6) by simp

definition dm_with :: "string \<Rightarrow> string \<Rightarrow> dm_channel" where
  "dm_with c u = \<lparr>dm_id = c, dm_peer_id = u, dm_peer_username = u, dm_peer_avatar_url = None, dm_peer_status = ''online'',
     dm_last_message_at = None, dm_unread_count = Fin 0, dm_pinned_at = None, dm_is_pinned = False, dm_is_group = None,
     dm_name = None, dm_owner_id = None, dm_members = None, dm_created_at = None\<rparr>"

definition shell_reader :: shell_ctx where
  "shell_reader = \<lparr>sx_user_id = ''ann'', sx_connection = 1, sx_now = 0, sx_path = ''/servers'', sx_backgrounded = False,
     sx_storage = quiet_storage, sx_push_permission = PermDefault, sx_parse = (\<lambda>_. Fin 0), sx_compare = (\<lambda>_ _. 0)\<rparr>"

theorem direct_message_counts_once_witness:
  "count_of (dmUnread (sh_app (shell_step (ShEvent shell_reader (NewMessage ''d1'' ''dm'' (msg_from ''m1'' ''d1'' ''bob'' ''hi'')))
     (init_shell (init_app\<lparr>dmChannels := [dm_with ''d1'' ''bob''], dmChannelIds := [''d1'']\<rparr>) None)))) ''d1'' = 1"
  using direct_message_counts_once[of "''d1''" "init_shell (init_app\<lparr>dmChannels := [dm_with ''d1'' ''bob''], dmChannelIds := [''d1'']\<rparr>) None"
      "msg_from ''m1'' ''d1'' ''bob'' ''hi''" shell_reader, OF _ _ _ _ _ refl, of "''d1''"]
  by (simp add: init_shell_def init_refresh_def dm_with_def msg_from_def author_id_def shell_reader_def looking_at_def
      isSocialDmViewVisible_def ROUTES_dm_def count_of_def init_app_def)

text \<open>
  C26: The desktop application is told the number of unread things at every change and is asked for attention exactly when that
  number has risen since the last change, never at the start; the number shown in the title is the current one.
\<close>

theorem attention_only_when_unread_rises:
  assumes "list_all app_inv (s # ts)"
  shows "uf_calls (feedback_of True s ts) = (0, False) # rises (totalUnreadCount s # seen_totals s ts)
     \<and> uf_shown (feedback_of True s ts) = totalUnreadCount (last (s # ts))"
proof -
  have first: "syncUnreadFeedback True s init_feedback =
      \<lparr>uf_shown = totalUnreadCount s, uf_previous = totalUnreadCount s, uf_initialized = True, uf_calls = [(0, False)]\<rparr>"
    by (simp add: syncUnreadFeedback_def init_feedback_def Let_def)
  show ?thesis using feedback_calls[of "syncUnreadFeedback True s init_feedback" ts s] shown_is_total[of "syncUnreadFeedback True s init_feedback" s True ts]
      total_nonneg[of s] assms
    by (simp add: feedback_of_def first)
qed

theorem attention_only_when_unread_rises_witness:
  "uf_calls (feedback_of True init_app [setIncomingRequestCount 2 init_app, setIncomingRequestCount 1 init_app])
     = [(0, False), (2, True), (1, False)]"
  using attention_only_when_unread_rises[of init_app "[setIncomingRequestCount 2 init_app, setIncomingRequestCount 1 init_app]"]
    app_inv_init app_inv_step[OF app_inv_init, of "ASetIncomingRequestCount 2"] app_inv_step[OF app_inv_init, of "ASetIncomingRequestCount 1"]
  by (simp add: rises_def setIncomingRequestCount_def unread_inputs_def totalUnreadCount_def dm_total_def init_app_def)

text \<open>
  C27: The quick switcher opens what it lists: choosing an entry it shows for a query opens the conversation, the server or the
  channel the entry was made from; a conversation is then read, and a channel is opened in its own server. The ids of channels
  are distinct.
\<close>

theorem quick_switch_opens:
  assumes "item \<in> set (filteredItems lc typed (quickSwitcherItems (pl_app p)))"
    and "distinct (map ch_id (all_channels (pl_app p)))"
    and "[] \<notin> ch_server_id ` set (all_channels (pl_app p)) \<union> srv_id ` set (servers (pl_app p))"
    and "q = handleQuickSwitchSelect lst item p"
  shows "(\<exists>c \<in> set (dmChannels (pl_app p)). item = dm_item c \<and> activeDmChannelId (pl_app q) = Some (dm_id c)
            \<and> count_of (dmUnread (pl_app q)) (dm_id c) = 0 \<and> pl_path q = ROUTES_dm)
     \<or> (\<exists>x \<in> set (servers (pl_app p)). item = server_item x \<and> activeServerId (pl_app q) = Some (srv_id x) \<and> pl_path q = ''/servers'')
     \<or> (\<exists>c \<in> set (all_channels (pl_app p)). item = channel_item (servers (pl_app p)) c \<and> activeChannelId (pl_app q) = Some (ch_id c)
            \<and> activeServerId (pl_app q) = Some (ch_server_id c) \<and> pl_path q = ''/servers'')"
proof -
  have "item \<in> set (quickSwitcherItems (pl_app p))" using assms(1) filtered_subset by blast
  then consider (dm) c where "c \<in> set (dmChannels (pl_app p))" "item = dm_item c"
    | (srv) x where "x \<in> set (servers (pl_app p))" "item = server_item x"
    | (chan) c where "c \<in> set (all_channels (pl_app p))" "item = channel_item (servers (pl_app p)) c"
    by (auto simp: quickSwitcherItems_def)
  then show ?thesis
  proof cases
    case dm
    then show ?thesis using assms(4) by (auto simp: select_dm clearDmUnread_def setActiveDmChannelId_def count_of_put)
  next
    case srv
    moreover have "srv_id x \<noteq> []" using assms(3) srv by (metis UnCI image_eqI)
    ultimately show ?thesis using assms(4) select_server[of x lst p] by auto
  next
    case chan
    moreover have "ch_server_id c \<noteq> []" using assms(3) chan by force
    ultimately show ?thesis using assms(2,4) select_channel[of c p q lst "servers (pl_app p)"] by auto
  qed
qed

definition switch_place :: shell_place where
  "switch_place = \<lparr>pl_app = init_app\<lparr>servers := [server_named ''s1''], channelsByServerId := [(''s1'', [text_channel ''c1'' ''s1''])]\<rparr>,
     pl_storage = quiet_storage, pl_path = ''/social''\<rparr>"

theorem quick_switch_opens_witness:
  "activeChannelId (pl_app (handleQuickSwitchSelect None (channel_item [server_named ''s1''] (text_channel ''c1'' ''s1'')) switch_place)) = Some ''c1''"
proof -
  have parts: "dmChannels (pl_app switch_place) = []" "servers (pl_app switch_place) = [server_named ''s1'']"
    "all_channels (pl_app switch_place) = [text_channel ''c1'' ''s1'']"
    by (simp_all add: switch_place_def all_channels_def init_app_def)
  have i: "channel_item [server_named ''s1''] (text_channel ''c1'' ''s1'')
      \<in> set (filteredItems (\<lambda>_ _. 0) '''' (quickSwitcherItems (pl_app switch_place)))"
    by (simp add: filteredItems_def matching_items_def quickSwitcherItems_def parts js_trim_def trim_start_def trim_end_def)
  have ids: "[] \<notin> ch_server_id ` set (all_channels (pl_app switch_place)) \<union> srv_id ` set (servers (pl_app switch_place))"
    by (simp add: parts server_named_def text_channel_def)
  have "channel_item ss c \<noteq> server_item x" for ss c x by (metis item_kind.distinct(5) item_kinds(2,3))
  then show ?thesis using quick_switch_opens[OF i _ ids refl, of None] by (simp add: parts text_channel_def)
qed

end
